(* ===== verification/Prelude.thy ===== *)
theory Prelude
  imports Main "HOL-Library.Word" "HOL-Library.List_Lexorder" "HOL-Library.Char_ord"
begin

text \<open>
  Shared vocabulary of the development: the machine integer types of the C++ code, the
  \<open>core::Error\<close> record and the \<open>core::Result\<close> type (src/sdk/core/include/cxxmcp/core/result.hpp),
  the string helpers of that header, decimal printing (\<open>std::to_string\<close>), ordered
  association lists (the model of \<open>std::map\<close> with \<open>std::string\<close> keys), and the generic lemmas
  on lists, options and words that the components use.
\<close>

named_theorems result_simps \<open>unfolding rules for the result monad\<close>

section \<open>Machine integers\<close>

text \<open>Signed and unsigned C++ integers share one bit pattern type; \<open>sint\<close> and \<open>unat\<close> read it.\<close>

type_synonym int32 = "32 word"
type_synonym int64 = "64 word"
type_synonym uint64 = "64 word"
type_synonym size_t = "64 word"

section \<open>Errors and results\<close>

text \<open>\<open>struct Error\<close> of result.hpp; a default-initialised member is the empty string.\<close>

record core_error =
  err_code :: int32
  err_message :: string
  err_detail :: string
  err_category :: string

type_synonym 'a result = "core_error + 'a"

definition mk_error :: "int32 \<Rightarrow> string \<Rightarrow> string \<Rightarrow> string \<Rightarrow> core_error" where
  "mk_error c m d k = \<lparr>err_code = c, err_message = m, err_detail = d, err_category = k\<rparr>"

lemma mk_error_sel [simp]:
  "err_code (mk_error c m d k) = c"
  "err_message (mk_error c m d k) = m"
  "err_detail (mk_error c m d k) = d"
  "err_category (mk_error c m d k) = k"
  by (simp_all add: mk_error_def)

text \<open>The early return \<open>if (!x) return unexpected(x.error());\<close>.\<close>

definition rbind :: "'a result \<Rightarrow> ('a \<Rightarrow> 'b result) \<Rightarrow> 'b result" where
  "rbind r f = (case r of Inl e \<Rightarrow> Inl e | Inr a \<Rightarrow> f a)"

lemma rbind_simps [simp, result_simps]:
  "rbind (Inl e) f = Inl e"
  "rbind (Inr a) f = f a"
  by (simp_all add: rbind_def)

lemma rbind_eq_Inr: "rbind r f = Inr b \<longleftrightarrow> (\<exists>a. r = Inr a \<and> f a = Inr b)"
  by (cases r) auto

lemma rbind_eq_Inl: "rbind r f = Inl e \<longleftrightarrow> r = Inl e \<or> (\<exists>a. r = Inr a \<and> f a = Inl e)"
  by (cases r) auto

lemma rbind_split:
  "P (rbind r f) \<longleftrightarrow> (\<forall>e. r = Inl e \<longrightarrow> P (Inl e)) \<and> (\<forall>a. r = Inr a \<longrightarrow> P (f a))"
  by (cases r) auto

definition is_ok :: "'e + 'a \<Rightarrow> bool" where
  "is_ok r = (case r of Inl _ \<Rightarrow> False | Inr _ \<Rightarrow> True)"

lemma is_ok_simps [simp]: "\<not> is_ok (Inl e)" "is_ok (Inr a)"
  by (simp_all add: is_ok_def)

lemma is_ok_iff: "is_ok r \<longleftrightarrow> (\<exists>a. r = Inr a)"
  by (cases r) auto

section \<open>Lists and options\<close>

lemma find_equal: "find (\<lambda>y. x = y) ys = (if x \<in> set ys then Some x else None)"
  by (induction ys) auto

lemma pred_option_Some: "pred_option P m \<longleftrightarrow> (\<forall>x. m = Some x \<longrightarrow> P x)"
  by (cases m) auto

section \<open>String helpers of result.hpp\<close>

definition starts_with :: "string \<Rightarrow> string \<Rightarrow> bool" where
  "starts_with s p \<longleftrightarrow> length p \<le> length s \<and> take (length p) s = p"

definition ends_with :: "string \<Rightarrow> string \<Rightarrow> bool" where
  "ends_with s p \<longleftrightarrow> length p \<le> length s \<and> drop (length s - length p) s = p"

lemma starts_with_iff: "starts_with s p \<longleftrightarrow> (\<exists>r. s = p @ r)"
  unfolding starts_with_def
  by (metis append_eq_conv_conj append_take_drop_id le_iff_add length_append)

lemma ends_with_iff: "ends_with s p \<longleftrightarrow> (\<exists>r. s = r @ p)"
  unfolding ends_with_def
  by (metis append_take_drop_id append_eq_conv_conj diff_add_inverse2 le_add2 length_append)

section \<open>Decimal printing\<close>

text \<open>\<open>std::to_string\<close> on a non-negative number, and on a signed one.\<close>

definition digit_char :: "nat \<Rightarrow> char" where
  "digit_char d = char_of (48 + d)"

fun nat_to_string :: "nat \<Rightarrow> string" where
  "nat_to_string n =
     (if n < 10 then [digit_char n]
      else nat_to_string (n div 10) @ [digit_char (n mod 10)])"

declare nat_to_string.simps [simp del]

definition int_to_string :: "int \<Rightarrow> string" where
  "int_to_string i =
     (if i < 0 then CHR ''-'' # nat_to_string (nat (- i)) else nat_to_string (nat i))"

definition is_digit :: "char \<Rightarrow> bool" where
  "is_digit c \<longleftrightarrow> CHR ''0'' \<le> c \<and> c \<le> CHR ''9''"

definition digit_value :: "char \<Rightarrow> nat" where
  "digit_value c = of_char c - 48"

lemma char_le_iff: "c \<le> d \<longleftrightarrow> (of_char c :: nat) \<le> of_char d"
  by (simp add: less_eq_char_def)

lemma is_digit_iff: "is_digit c \<longleftrightarrow> 48 \<le> (of_char c :: nat) \<and> of_char c \<le> (57 :: nat)"
  by (simp add: is_digit_def char_le_iff)

lemma digit_value_less [simp]: "is_digit c \<Longrightarrow> digit_value c < 10"
  by (auto simp: is_digit_iff digit_value_def)

lemma of_char_digit_char [simp]: "d < 10 \<Longrightarrow> (of_char (digit_char d) :: nat) = 48 + d"
  by (simp add: digit_char_def)

lemma is_digit_digit_char [simp]: "d < 10 \<Longrightarrow> is_digit (digit_char d)"
  by (simp add: is_digit_iff)

lemma digit_value_digit_char [simp]: "d < 10 \<Longrightarrow> digit_value (digit_char d) = d"
  by (simp add: digit_value_def)

text \<open>The number a digit string denotes, the reference for every decimal reader of the code.\<close>

definition dec_value :: "string \<Rightarrow> nat" where
  "dec_value s = foldl (\<lambda>v c. v * 10 + digit_value c) 0 s"

lemma dec_value_simps [simp]:
  "dec_value [] = 0"
  "dec_value (s @ [c]) = dec_value s * 10 + digit_value c"
  by (simp_all add: dec_value_def)

lemma nat_to_string_digits: "\<forall>c \<in> set (nat_to_string n). is_digit c"
proof (induction n rule: nat_to_string.induct)
  case (1 n)
  then show ?case by (subst nat_to_string.simps) auto
qed

lemma nat_to_string_not_Nil [simp]: "nat_to_string n \<noteq> []"
  by (subst nat_to_string.simps) simp

lemma dec_value_nat_to_string [simp]: "dec_value (nat_to_string n) = n"
proof (induction n rule: nat_to_string.induct)
  case (1 n)
  then show ?case
    using dec_value_simps(2) [of "[]"]
    by (subst nat_to_string.simps) simp
qed

lemma nat_to_string_inject [simp]: "nat_to_string m = nat_to_string n \<longleftrightarrow> m = n"
  by (metis dec_value_nat_to_string)

lemma int_to_string_inject: "int_to_string i = int_to_string j \<longleftrightarrow> i = j"
proof
  assume eq: "int_to_string i = int_to_string j"
  have minus: "CHR ''-'' # s \<noteq> nat_to_string n" for s n
  proof
    assume "CHR ''-'' # s = nat_to_string n"
    then have "CHR ''-'' \<in> set (nat_to_string n)" by (metis list.set_intros(1))
    then show False using nat_to_string_digits [of n] by (auto simp: is_digit_def less_eq_char_def)
  qed
  show "i = j"
    using eq minus by (cases "i < 0"; cases "j < 0") (auto simp: int_to_string_def dest: sym)
qed simp

section \<open>Ordered association lists\<close>

text \<open>
  \<open>std::map<std::string, T>\<close> as the list of its entries in iteration order: strictly
  increasing keys. \<open>std::less<std::string>\<close> compares bytes as unsigned characters, which is the
  lexicographic order of \<open>List_Lexorder\<close> over \<open>Char_ord\<close>.
\<close>

type_synonym 'v alist = "(string \<times> 'v) list"

definition keys_sorted :: "'v alist \<Rightarrow> bool" where
  "keys_sorted kvs = sorted_wrt (<) (map fst kvs)"

text \<open>\<open>m[k] = v\<close>: replace, or insert at the place of \<open>k\<close>.\<close>

fun al_set :: "string \<Rightarrow> 'v \<Rightarrow> 'v alist \<Rightarrow> 'v alist" where
  "al_set k v [] = [(k, v)]"
| "al_set k v ((k', v') # kvs) =
     (if k < k' then (k, v) # (k', v') # kvs
      else if k = k' then (k, v) # kvs
      else (k', v') # al_set k v kvs)"

definition al_erase :: "string \<Rightarrow> 'v alist \<Rightarrow> 'v alist" where
  "al_erase k kvs = filter (\<lambda>kv. fst kv \<noteq> k) kvs"

lemma al_set_not_Nil [simp]: "al_set k v kvs \<noteq> []"
  by (cases kvs) (auto split: if_splits)

lemma map_of_al_set [simp]: "map_of (al_set k v kvs) = (map_of kvs)(k \<mapsto> v)"
  by (induction kvs) (auto simp: fun_upd_twist)

lemma set_keys_al_set: "set (map fst (al_set k v kvs)) = insert k (set (map fst kvs))"
proof -
  have "dom (map_of (al_set k v kvs)) = insert k (dom (map_of kvs))" by simp
  then show ?thesis by (simp only: dom_map_of_conv_image_fst set_map)
qed

lemma keys_sorted_Nil [simp]: "keys_sorted []"
  by (simp add: keys_sorted_def)

lemma keys_sorted_Cons:
  "keys_sorted ((k, v) # kvs) \<longleftrightarrow> (\<forall>k' \<in> set (map fst kvs). k < k') \<and> keys_sorted kvs"
  by (simp add: keys_sorted_def)

lemma keys_sorted_al_set [simp]: "keys_sorted kvs \<Longrightarrow> keys_sorted (al_set k v kvs)"
proof (induction kvs)
  case (Cons kv kvs)
  obtain k' v' where kv: "kv = (k', v')" by (cases kv)
  show ?case
    using Cons set_keys_al_set [of k v kvs] unfolding kv
    by (auto simp: keys_sorted_Cons simp del: set_map)
qed (simp add: keys_sorted_Cons)

lemma keys_sorted_filter [simp]: "keys_sorted kvs \<Longrightarrow> keys_sorted (filter P kvs)"
  by (induction kvs) (auto simp: keys_sorted_def)

lemma keys_sorted_al_erase [simp]: "keys_sorted kvs \<Longrightarrow> keys_sorted (al_erase k kvs)"
  by (simp add: al_erase_def)

lemma map_of_al_erase [simp]: "map_of (al_erase k kvs) = (map_of kvs)(k := None)"
  by (induction kvs) (auto simp: al_erase_def)

lemma keys_sorted_distinct: "keys_sorted kvs \<Longrightarrow> distinct (map fst kvs)"
  by (simp add: keys_sorted_def strict_sorted_iff)

lemma map_of_key_None: "map_of kvs k = None \<longleftrightarrow> k \<notin> fst ` set kvs"
  by (simp add: map_of_eq_None_iff)

lemma map_of_filter_key:
  "map_of (filter (\<lambda>kv. P (fst kv)) kvs) k = (if P k then map_of kvs k else None)"
  by (induction kvs) auto

text \<open>An ordered map is determined by its lookup function.\<close>

lemma map_of_nth_lookup:
  "distinct (map fst kvs) \<Longrightarrow> i < length kvs \<Longrightarrow> (fst (kvs ! i), the (map_of kvs (fst (kvs ! i)))) = kvs ! i"
  by (metis map_of_is_SomeI nth_mem option.sel prod.collapse)

lemma alist_from_lookup:
  "distinct (map fst kvs) \<Longrightarrow> kvs = map (\<lambda>k. (k, the (map_of kvs k))) (map fst kvs)"
  by (rule nth_equalityI) (simp_all add: map_of_nth_lookup)

lemma keys_sorted_ext:
  assumes "keys_sorted xs" "keys_sorted ys" "map_of xs = map_of ys"
  shows "xs = ys"
proof -
  have "set (map fst xs) = set (map fst ys)"
    using assms(3) by (metis dom_map_of_conv_image_fst set_map)
  then have "map fst xs = map fst ys"
    using assms(1,2) unfolding keys_sorted_def strict_sorted_iff
    by (metis sorted_distinct_set_unique)
  then show ?thesis
    using assms keys_sorted_distinct alist_from_lookup by metis
qed

end
