(* ===== verification/Json.thy ===== *)
theory Json
  imports Prelude
begin

text \<open>
  The JSON values of the protocol layer (\<open>using Json = nlohmann::json\<close> in
  src/sdk/protocol/include/cxxmcp/protocol/types.hpp) with the operations the SDK calls on them.
  An integer keeps its 64-bit pattern and whether it is stored signed or unsigned, a double is its
  IEEE 754 bit pattern, an object is the ordered map \<open>std::map<std::string, json>\<close>.
  A read that the C++ performs as \<open>contains(k)\<close> followed by \<open>at(k)\<close> is one \<open>jfind\<close> here.
\<close>

unbundle bit_operations_syntax

named_theorems json_simps \<open>lookup and update rules for JSON objects\<close>

section \<open>Values\<close>

datatype json =
    JNull
  | JBool bool
  | JInt int64
  | JUInt uint64
  | JFloat "64 word"
  | JString string
  | JArray "json list"
  | JObject "(string \<times> json) list"

fun is_null :: "json \<Rightarrow> bool" where
  "is_null JNull = True"
| "is_null _ = False"

fun is_boolean :: "json \<Rightarrow> bool" where
  "is_boolean (JBool _) = True"
| "is_boolean _ = False"

fun is_number_integer :: "json \<Rightarrow> bool" where
  "is_number_integer (JInt _) = True"
| "is_number_integer (JUInt _) = True"
| "is_number_integer _ = False"

fun is_number :: "json \<Rightarrow> bool" where
  "is_number (JFloat _) = True"
| "is_number j = is_number_integer j"

fun is_string :: "json \<Rightarrow> bool" where
  "is_string (JString _) = True"
| "is_string _ = False"

fun is_array :: "json \<Rightarrow> bool" where
  "is_array (JArray _) = True"
| "is_array _ = False"

fun is_object :: "json \<Rightarrow> bool" where
  "is_object (JObject _) = True"
| "is_object _ = False"

lemma is_object_iff: "is_object j \<longleftrightarrow> (\<exists>kvs. j = JObject kvs)"
  by (cases j) auto

lemma is_string_iff: "is_string j \<longleftrightarrow> (\<exists>s. j = JString s)"
  by (cases j) auto

lemma is_array_iff: "is_array j \<longleftrightarrow> (\<exists>xs. j = JArray xs)"
  by (cases j) auto

lemma is_null_iff: "is_null j \<longleftrightarrow> j = JNull"
  by (cases j) auto

text \<open>\<open>empty()\<close>: null and the empty containers are empty, scalars are not.\<close>

fun jempty :: "json \<Rightarrow> bool" where
  "jempty JNull = True"
| "jempty (JArray xs) = (xs = [])"
| "jempty (JObject kvs) = (kvs = [])"
| "jempty _ = False"

text \<open>
  \<open>get<std::string>()\<close>, \<open>get<std::int64_t>()\<close> and \<open>get<int>()\<close>. The integer conversions
  are static casts of the stored 64-bit value: an unsigned value keeps its bits, a narrower target
  keeps the low ones. \<open>None\<close> stands for the \<open>type_error\<close> exception.
\<close>

fun get_string :: "json \<Rightarrow> string option" where
  "get_string (JString s) = Some s"
| "get_string _ = None"

fun get_int64 :: "json \<Rightarrow> int64 option" where
  "get_int64 (JInt i) = Some i"
| "get_int64 (JUInt i) = Some i"
| "get_int64 _ = None"

definition get_int :: "json \<Rightarrow> int32 option" where
  "get_int j = map_option (\<lambda>w. ucast w) (get_int64 j)"

fun get_bool :: "json \<Rightarrow> bool option" where
  "get_bool (JBool b) = Some b"
| "get_bool _ = None"

lemma get_string_Some: "get_string j = Some s \<longleftrightarrow> j = JString s"
  by (cases j) auto

lemma get_int64_Some: "get_int64 j = Some i \<longleftrightarrow> j = JInt i \<or> j = JUInt i"
  by (cases j) auto

lemma get_bool_Some: "get_bool j = Some b \<longleftrightarrow> j = JBool b"
  by (cases j) auto

text \<open>\<open>std::isfinite\<close> on the bit pattern of a double: the exponent field is not all ones.\<close>

definition double_is_finite :: "64 word \<Rightarrow> bool" where
  "double_is_finite w \<longleftrightarrow> (drop_bit 52 w AND 0x7FF) \<noteq> 0x7FF"

section \<open>Objects\<close>

abbreviation empty_object :: json where
  "empty_object \<equiv> JObject []"

fun jmembers :: "json \<Rightarrow> (string \<times> json) list" where
  "jmembers (JObject kvs) = kvs"
| "jmembers _ = []"

text \<open>\<open>contains\<close>, \<open>find\<close> and \<open>at\<close>: \<open>None\<close> when the key is absent or the value is no object.\<close>

definition jfind :: "json \<Rightarrow> string \<Rightarrow> json option" where
  "jfind j k = map_of (jmembers j) k"

definition jcontains :: "json \<Rightarrow> string \<Rightarrow> bool" where
  "jcontains j k \<longleftrightarrow> jfind j k \<noteq> None"

text \<open>\<open>j[k] = v\<close> on an object; a null value becomes an object first, as \<open>operator[]\<close> does.\<close>

fun jset :: "json \<Rightarrow> string \<Rightarrow> json \<Rightarrow> json" where
  "jset (JObject kvs) k v = JObject (al_set k v kvs)"
| "jset JNull k v = JObject [(k, v)]"
| "jset j k v = j"

text \<open>\<open>j[k] = v\<close> under the guard \<open>if (v.has_value())\<close>.\<close>

definition jset_opt :: "json \<Rightarrow> string \<Rightarrow> json option \<Rightarrow> json" where
  "jset_opt j k ov = (case ov of None \<Rightarrow> j | Some v \<Rightarrow> jset j k v)"

fun jerase :: "json \<Rightarrow> string \<Rightarrow> json" where
  "jerase (JObject kvs) k = JObject (al_erase k kvs)"
| "jerase j k = j"

text \<open>
  The invariant of nlohmann objects at the top level (\<open>jwf\<close>) and at every level
  (\<open>jwf_deep\<close>): keys in increasing order, so unique.
\<close>

definition jwf :: "json \<Rightarrow> bool" where
  "jwf j \<longleftrightarrow> is_object j \<and> keys_sorted (jmembers j)"

fun jwf_deep :: "json \<Rightarrow> bool" where
  "jwf_deep (JArray xs) = (\<forall>x \<in> set xs. jwf_deep x)"
| "jwf_deep (JObject kvs) = (keys_sorted kvs \<and> (\<forall>kv \<in> set kvs. jwf_deep (snd kv)))"
| "jwf_deep _ = True"

lemma jwf_simps [simp]: "jwf (JObject kvs) = keys_sorted kvs"
  by (simp add: jwf_def)

lemma jwf_is_object [simp]: "jwf j \<Longrightarrow> is_object j"
  by (simp add: jwf_def)

lemma jwf_iff: "jwf j \<longleftrightarrow> (\<exists>kvs. j = JObject kvs \<and> keys_sorted kvs)"
  by (cases j) (auto simp: jwf_def)

lemma jfind_empty_object [simp]: "jfind empty_object k = None"
  by (simp add: jfind_def)

lemma jfind_JObject [simp]: "jfind (JObject kvs) k = map_of kvs k"
  by (simp add: jfind_def)

lemma jfind_not_object: "\<not> is_object j \<Longrightarrow> jfind j k = None"
  by (cases j) (simp_all add: jfind_def)

lemma jfind_jset [simp, json_simps]:
  "is_object j \<Longrightarrow> jfind (jset j k v) k' = (if k' = k then Some v else jfind j k')"
  by (cases j) (simp_all add: jfind_def)

lemma jfind_jset_opt [simp, json_simps]:
  "is_object j \<Longrightarrow> jfind (jset_opt j k ov) k' =
     (if k' = k then (case ov of None \<Rightarrow> jfind j k | Some v \<Rightarrow> Some v) else jfind j k')"
  by (cases ov) (simp_all add: jset_opt_def)

lemma jfind_jerase [simp, json_simps]:
  "jfind (jerase j k) k' = (if k' = k then None else jfind j k')"
  by (cases j) (simp_all add: jfind_def)

lemma is_object_jset [simp]: "is_object (jset j k v) \<longleftrightarrow> is_object j \<or> j = JNull"
  by (cases j) auto

lemma is_object_jset_opt [simp]: "is_object j \<Longrightarrow> is_object (jset_opt j k ov)"
  by (cases ov) (simp_all add: jset_opt_def)

lemma is_object_jerase [simp]: "is_object (jerase j k) \<longleftrightarrow> is_object j"
  by (cases j) auto

lemma jwf_jset [simp]: "jwf j \<Longrightarrow> jwf (jset j k v)"
  by (cases j) (auto simp: jwf_def)

lemma jwf_jset_opt [simp]: "jwf j \<Longrightarrow> jwf (jset_opt j k ov)"
  by (cases ov) (simp_all add: jset_opt_def)

lemma jwf_jerase [simp]: "jwf j \<Longrightarrow> jwf (jerase j k)"
  by (cases j) (auto simp: jwf_def)

text \<open>Two well-formed objects with the same lookups are the same value.\<close>

lemma jwf_ext:
  assumes "jwf i" "jwf j" "\<And>k. jfind i k = jfind j k"
  shows "i = j"
  using assms by (auto simp: jwf_iff jfind_def intro!: keys_sorted_ext)

text \<open>
  The concrete map is an instance of a general interface: what a client may rely on when it
  builds an object key by key. The DTO serialisers of the protocol use nothing else.
\<close>

locale json_map =
  fixes lookup :: "'m \<Rightarrow> string \<Rightarrow> 'v option"
    and update :: "'m \<Rightarrow> string \<Rightarrow> 'v \<Rightarrow> 'm"
    and wf :: "'m \<Rightarrow> bool"
  assumes lookup_update: "wf m \<Longrightarrow> lookup (update m k v) k' = (if k' = k then Some v else lookup m k')"
    and wf_update: "wf m \<Longrightarrow> wf (update m k v)"
    and extensional: "wf m \<Longrightarrow> wf n \<Longrightarrow> (\<And>k. lookup m k = lookup n k) \<Longrightarrow> m = n"
begin

lemma update_same: "wf m \<Longrightarrow> lookup m k = Some v \<Longrightarrow> update m k v = m"
  by (rule extensional) (auto simp: lookup_update wf_update)

lemma update_update: "wf m \<Longrightarrow> update (update m k v) k w = update m k w"
  by (rule extensional) (auto simp: lookup_update wf_update)

lemma update_commute:
  "wf m \<Longrightarrow> k \<noteq> l \<Longrightarrow> update (update m k v) l w = update (update m l w) k v"
  by (rule extensional) (auto simp: lookup_update wf_update)

end

interpretation jobj: json_map jfind jset jwf
  by unfold_locales (auto intro: jwf_ext)

lemma jset_jerase:
  "jwf j \<Longrightarrow> jset (jerase j k) k v = jset j k v"
  by (rule jwf_ext) auto

lemma jerase_absent: "jwf j \<Longrightarrow> jfind j k = None \<Longrightarrow> jerase j k = j"
  by (rule jwf_ext) auto

end
