(* ===== verification/Protocol_Types.thy ===== *)
theory Protocol_Types
  imports Json
begin

text \<open>
  src/sdk/protocol/include/cxxmcp/protocol/types.hpp: error codes, the JSON-RPC envelopes, request
  identifiers and progress tokens, \<open>_meta\<close> access, the preservation of unknown object members
  (\<open>collect_json_extensions\<close>, \<open>append_json_extensions\<close>) and the shared pagination params;
  and the version negotiation of serialization.hpp.
\<close>

section \<open>Error codes\<close>

datatype ErrorCode =
    ParseError | InvalidRequest | MethodNotFound | InvalidParams | InternalError
  | ToolNotFound | ResourceNotFound | PermissionDenied | RateLimited | UrlElicitationRequired

text \<open>\<open>static_cast<int>(code)\<close>.\<close>

fun error_code :: "ErrorCode \<Rightarrow> int32" where
  "error_code ParseError = - 32700"
| "error_code InvalidRequest = - 32600"
| "error_code MethodNotFound = - 32601"
| "error_code InvalidParams = - 32602"
| "error_code InternalError = - 32603"
| "error_code ToolNotFound = - 32000"
| "error_code ResourceNotFound = - 32002"
| "error_code PermissionDenied = - 32005"
| "error_code RateLimited = - 32003"
| "error_code UrlElicitationRequired = - 32042"

text \<open>The numbers stay folded in proofs; distinct codes have distinct numbers.\<close>

lemma error_code_inject [simp]: "error_code a = error_code b \<longleftrightarrow> a = b"
  by (cases a; cases b) simp_all

declare error_code.simps [simp del]

section \<open>Identifiers\<close>

text \<open>\<open>std::variant<std::int64_t, std::string>\<close>, used for \<open>RequestId\<close> and \<open>ProgressToken\<close>.\<close>

datatype request_id = IdInt int64 | IdString string

type_synonym progress_token = request_id

fun request_id_to_json :: "request_id \<Rightarrow> json" where
  "request_id_to_json (IdInt i) = JInt i"
| "request_id_to_json (IdString s) = JString s"

definition request_id_from_json :: "json \<Rightarrow> request_id option" where
  "request_id_from_json j =
     (if is_number_integer j then map_option IdInt (get_int64 j)
      else if is_string j then map_option IdString (get_string j)
      else None)"

definition progress_token_to_json :: "progress_token \<Rightarrow> json" where
  "progress_token_to_json t = request_id_to_json t"

definition progress_token_from_json :: "json \<Rightarrow> progress_token option" where
  "progress_token_from_json j =
     (if is_number_integer j then map_option IdInt (get_int64 j)
      else if is_string j then map_option IdString (get_string j)
      else None)"

lemma request_id_from_json_cases [simp]:
  "request_id_from_json (JInt i) = Some (IdInt i)"
  "request_id_from_json (JUInt i) = Some (IdInt i)"
  "request_id_from_json (JString s) = Some (IdString s)"
  "request_id_from_json JNull = None"
  "request_id_from_json (JBool b) = None"
  "request_id_from_json (JFloat d) = None"
  "request_id_from_json (JArray xs) = None"
  "request_id_from_json (JObject kvs) = None"
  by (simp_all add: request_id_from_json_def)

lemma request_id_roundtrip [simp]: "request_id_from_json (request_id_to_json i) = Some i"
  by (cases i) simp_all

lemma progress_token_roundtrip [simp]:
  "progress_token_from_json (progress_token_to_json t) = Some t"
  by (cases t) (simp_all add: progress_token_from_json_def progress_token_to_json_def)

lemma request_id_from_json_None:
  "request_id_from_json j = None \<longleftrightarrow> \<not> is_number_integer j \<and> \<not> is_string j"
  by (cases j) simp_all

section \<open>Envelopes\<close>

record error_object =
  eo_code :: int32
  eo_message :: string
  eo_data :: "json option"

record json_rpc_request =
  req_method :: string
  req_params :: json
  req_id :: request_id
  req_meta :: "json option"
  transport_headers :: "string alist"
  protocol_version_override :: "string option"

record json_rpc_response =
  resp_id :: "request_id option"
  resp_result :: "json option"
  resp_error :: "error_object option"
  resp_meta :: "json option"

record json_rpc_notification =
  notif_method :: string
  notif_params :: json
  notif_meta :: "json option"

datatype json_rpc_message =
    MsgRequest json_rpc_request
  | MsgResponse json_rpc_response
  | MsgNotification json_rpc_notification

definition has_result :: "json_rpc_response \<Rightarrow> bool" where
  "has_result r \<longleftrightarrow> resp_result r \<noteq> None \<and> resp_error r = None"

definition has_error :: "json_rpc_response \<Rightarrow> bool" where
  "has_error r \<longleftrightarrow> resp_error r \<noteq> None \<and> resp_result r = None"

section \<open>Icon themes\<close>

datatype IconTheme = Light | Dark

fun icon_theme_to_string :: "IconTheme \<Rightarrow> string" where
  "icon_theme_to_string Light = ''light''"
| "icon_theme_to_string Dark = ''dark''"

definition icon_theme_from_string :: "string \<Rightarrow> IconTheme option" where
  "icon_theme_from_string s =
     (if s = ''light'' then Some Light else if s = ''dark'' then Some Dark else None)"

lemma icon_theme_roundtrip [simp]: "icon_theme_from_string (icon_theme_to_string t) = Some t"
  by (cases t) (simp_all add: icon_theme_from_string_def)

section \<open>Unknown members\<close>

definition json_key_is_known :: "string \<Rightarrow> string list \<Rightarrow> bool" where
  "json_key_is_known key known_keys = list_ex (\<lambda>known. key = known) known_keys"

definition collect_json_extensions :: "json \<Rightarrow> string list \<Rightarrow> json" where
  "collect_json_extensions j known_keys =
     (if \<not> is_object j then empty_object
      else foldl (\<lambda>ext kv. if json_key_is_known (fst kv) known_keys then ext
                            else jset ext (fst kv) (snd kv))
             empty_object (jmembers j))"

definition append_json_extensions :: "json \<Rightarrow> json \<Rightarrow> json" where
  "append_json_extensions j extensions =
     (if \<not> is_object j \<or> \<not> is_object extensions then j
      else foldl (\<lambda>acc kv. if jcontains acc (fst kv) then acc else jset acc (fst kv) (snd kv))
             j (jmembers extensions))"

lemma json_key_is_known_iff [simp]: "json_key_is_known k ks \<longleftrightarrow> k \<in> set ks"
  by (simp add: json_key_is_known_def list_ex_iff)

lemma jwf_foldl_collect:
  "jwf e \<Longrightarrow> jwf (foldl (\<lambda>ext kv. if fst kv \<in> K then ext else jset ext (fst kv) (snd kv)) e kvs)"
  by (induction kvs arbitrary: e) auto

lemma jfind_foldl_collect:
  "jwf e \<Longrightarrow> distinct (map fst kvs) \<Longrightarrow>
   jfind (foldl (\<lambda>ext kv. if fst kv \<in> K then ext else jset ext (fst kv) (snd kv)) e kvs) k =
     (if k \<in> K then jfind e k
      else case map_of kvs k of Some v \<Rightarrow> Some v | None \<Rightarrow> jfind e k)"
proof (induction kvs arbitrary: e)
  case (Cons kv kvs)
  then have "map_of kvs (fst kv) = None"
    by (auto simp: map_of_eq_None_iff)
  with Cons show ?case by (auto split: option.splits)
qed simp

lemma jwf_collect_json_extensions [simp]: "jwf (collect_json_extensions j ks)"
  by (simp add: collect_json_extensions_def jwf_foldl_collect)

lemma jfind_collect_json_extensions [simp, json_simps]:
  "jwf j \<Longrightarrow> jfind (collect_json_extensions j ks) k = (if k \<in> set ks then None else jfind j k)"
  by (auto simp: collect_json_extensions_def jfind_foldl_collect jwf_iff keys_sorted_distinct
      split: option.splits)

lemma jwf_foldl_append:
  "jwf j \<Longrightarrow> jwf (foldl (\<lambda>acc kv. if jcontains acc (fst kv) then acc else jset acc (fst kv) (snd kv)) j kvs)"
  by (induction kvs arbitrary: j) auto

lemma jfind_foldl_append:
  "is_object j \<Longrightarrow>
   jfind (foldl (\<lambda>acc kv. if jcontains acc (fst kv) then acc else jset acc (fst kv) (snd kv)) j kvs) k =
     (case jfind j k of Some v \<Rightarrow> Some v | None \<Rightarrow> map_of kvs k)"
proof (induction kvs arbitrary: j)
  case (Cons kv kvs)
  then show ?case
    by (cases "jfind j (fst kv)") (auto simp: jcontains_def split: option.splits)
qed (simp split: option.splits)

lemma jwf_append_json_extensions [simp]: "jwf j \<Longrightarrow> jwf (append_json_extensions j e)"
  by (simp add: append_json_extensions_def jwf_foldl_append)

lemma is_object_foldl_append:
  "is_object j \<Longrightarrow>
   is_object (foldl (\<lambda>acc kv. if jcontains acc (fst kv) then acc else jset acc (fst kv) (snd kv)) j kvs)"
  by (induction kvs arbitrary: j) auto

lemma is_object_append_json_extensions [simp]:
  "is_object (append_json_extensions j e) = is_object j"
  by (auto simp: append_json_extensions_def is_object_foldl_append)

lemma jfind_append_json_extensions [simp, json_simps]:
  "is_object j \<Longrightarrow> is_object e \<Longrightarrow>
   jfind (append_json_extensions j e) k = (case jfind j k of Some v \<Rightarrow> Some v | None \<Rightarrow> jfind e k)"
  by (auto simp: append_json_extensions_def jfind_foldl_append is_object_iff split: option.splits)

text \<open>
  The members a DTO keeps for unknown keys: a well-formed object disjoint from the typed keys.
  Every parser of the protocol produces such a value, and it survives serialisation.
\<close>

definition ext_ok :: "string list \<Rightarrow> json \<Rightarrow> bool" where
  "ext_ok ks e \<longleftrightarrow> jwf e \<and> (\<forall>k \<in> set ks. jfind e k = None)"

lemma ext_okD: "ext_ok ks e \<Longrightarrow> jwf e" "ext_ok ks e \<Longrightarrow> k \<in> set ks \<Longrightarrow> jfind e k = None"
  by (simp_all add: ext_ok_def)

lemma ext_ok_empty [simp]: "ext_ok ks empty_object"
  by (simp add: ext_ok_def)

lemma ext_ok_collect [simp]: "jwf j \<Longrightarrow> ext_ok ks (collect_json_extensions j ks)"
  by (simp add: ext_ok_def)

lemma collect_append_extensions:
  assumes "jwf j" "ext_ok ks e" "\<And>k. k \<notin> set ks \<Longrightarrow> jfind j k = None"
  shows "collect_json_extensions (append_json_extensions j e) ks = e"
  using assms by (intro jwf_ext) (auto simp: ext_ok_def split: option.splits)

section \<open>Metadata\<close>

definition meta_is_object :: "json \<Rightarrow> bool" where
  "meta_is_object meta = is_object meta"

definition meta_with_progress_token :: "progress_token \<Rightarrow> json" where
  "meta_with_progress_token t = jset empty_object ''progressToken'' (progress_token_to_json t)"

definition meta_progress_token :: "json \<Rightarrow> progress_token option" where
  "meta_progress_token meta =
     (if \<not> is_object meta then None
      else case jfind meta ''progressToken'' of
             None \<Rightarrow> None
           | Some t \<Rightarrow> progress_token_from_json t)"

definition set_meta_progress_token :: "json \<Rightarrow> progress_token \<Rightarrow> bool \<times> json" where
  "set_meta_progress_token meta t =
     (if \<not> is_object meta then (False, meta)
      else (True, jset meta ''progressToken'' (progress_token_to_json t)))"

lemma meta_progress_token_set:
  "set_meta_progress_token meta t = (True, meta') \<Longrightarrow> meta_progress_token meta' = Some t"
  by (auto simp: set_meta_progress_token_def meta_progress_token_def split: if_splits)

section \<open>Pagination params\<close>

record paginated_request_params =
  pg_cursor :: "string option"
  pg_meta :: "json option"
  pg_extensions :: json

definition paginated_request_params_to_json :: "paginated_request_params \<Rightarrow> json" where
  "paginated_request_params_to_json p =
     append_json_extensions
       (jset_opt (jset_opt empty_object ''cursor'' (map_option JString (pg_cursor p)))
          ''_meta'' (pg_meta p))
       (pg_extensions p)"

definition paginated_request_params_from_json :: "json \<Rightarrow> paginated_request_params option" where
  "paginated_request_params_from_json j =
     (if is_null j then Some \<lparr>pg_cursor = None, pg_meta = None, pg_extensions = empty_object\<rparr>
      else if \<not> is_object j then None
      else case (case jfind j ''cursor'' of
                   None \<Rightarrow> Some None
                 | Some c \<Rightarrow> (if is_string c then Some (get_string c) else None)) of
             None \<Rightarrow> None
           | Some cursor \<Rightarrow>
               (case (case jfind j ''_meta'' of
                        None \<Rightarrow> Some None
                      | Some m \<Rightarrow> (if meta_is_object m then Some (Some m) else None)) of
                  None \<Rightarrow> None
                | Some meta \<Rightarrow>
                    Some \<lparr>pg_cursor = cursor, pg_meta = meta,
                          pg_extensions = collect_json_extensions j [''cursor'', ''_meta'']\<rparr>))"

definition paginated_ok :: "paginated_request_params \<Rightarrow> bool" where
  "paginated_ok p \<longleftrightarrow> pred_option is_object (pg_meta p) \<and> ext_ok [''cursor'', ''_meta''] (pg_extensions p)"

lemma paginated_roundtrip:
  assumes "paginated_ok p"
  shows "paginated_request_params_from_json (paginated_request_params_to_json p) = Some p"
proof -
  let ?base = "jset_opt (jset_opt empty_object ''cursor'' (map_option JString (pg_cursor p)))
                 ''_meta'' (pg_meta p)"
  let ?j = "paginated_request_params_to_json p"
  have wf: "jwf ?base" "jwf ?j" by (simp_all add: paginated_request_params_to_json_def)
  have e: "ext_ok [''cursor'', ''_meta''] (pg_extensions p)"
    and m: "pred_option is_object (pg_meta p)"
    using assms by (simp_all add: paginated_ok_def)
  have ext: "collect_json_extensions ?j [''cursor'', ''_meta''] = pg_extensions p"
    unfolding paginated_request_params_to_json_def
    using wf e by (intro collect_append_extensions) auto
  have c: "jfind ?j ''cursor'' = map_option JString (pg_cursor p)"
    "jfind ?j ''_meta'' = pg_meta p"
    using wf ext_okD [OF e] by (auto simp: paginated_request_params_to_json_def split: option.splits)
  have "\<not> is_null ?j" "is_object ?j"
    using jwf_is_object [OF wf(2)] by (auto simp: is_null_iff)
  with c ext m show ?thesis
    by (cases "pg_cursor p"; cases "pg_meta p")
       (auto simp: paginated_request_params_from_json_def meta_is_object_def)
qed

lemma paginated_from_json_ok:
  "jwf j \<Longrightarrow> paginated_request_params_from_json j = Some p \<Longrightarrow> paginated_ok p"
  by (cases "jfind j ''_meta''")
     (auto simp: paginated_request_params_from_json_def paginated_ok_def meta_is_object_def
      split: if_splits option.splits)

section \<open>Protocol versions\<close>

definition McpProtocolVersion :: string where
  "McpProtocolVersion = ''2025-11-25''"

definition McpSupportedProtocolVersions :: "string list" where
  "McpSupportedProtocolVersions =
     [''2024-11-05'', ''2025-03-26'', ''2025-06-18'', ''2025-11-25'', ''2026-07-28'',
      ''DRAFT-2026-v1'']"

definition is_supported_protocol_version :: "string \<Rightarrow> bool" where
  "is_supported_protocol_version v = list_ex (\<lambda>s. v = s) McpSupportedProtocolVersions"

definition negotiate_protocol_version :: "string \<Rightarrow> string option" where
  "negotiate_protocol_version requested = find (\<lambda>s. requested = s) McpSupportedProtocolVersions"

lemma negotiate_protocol_version_iff:
  "negotiate_protocol_version v = (if is_supported_protocol_version v then Some v else None)"
  by (auto simp: negotiate_protocol_version_def is_supported_protocol_version_def list_ex_iff
      find_equal)

end
