(* ===== verification/Serialization.thy ===== *)
theory Serialization
  imports Protocol_Types
begin

text \<open>
  src/sdk/protocol/src/serialization.cpp: the JSON-RPC wire format. The document limits are checked
  by the source's explicit stack; the messages are built as text, property by property, and parsed
  back from a JSON document. The JSON text codec (\<open>Json::dump\<close>, \<open>Json::parse\<close>) is a parameter
  of the definitions; the locale \<open>json_codec\<close> states what the code relies on, and the theory
  \<open>Json_Text\<close> interprets it. A call that would read a missing member cannot occur: every
  \<open>at(k)\<close> of the source stands behind \<open>has_member(k)\<close>, which is one \<open>jfind\<close> here.
\<close>

section \<open>Document limits\<close>

definition MaxJsonDepth :: nat where "MaxJsonDepth = 128"
definition MaxJsonAggregateStringBytes :: nat where "MaxJsonAggregateStringBytes = 16 * 1024 * 1024"
definition MaxJsonAggregateCollectionEntries :: nat where "MaxJsonAggregateCollectionEntries = 100000"
definition MaxJsonNodeCount :: nat where "MaxJsonNodeCount = 200000"

definition make_protocol_error :: "int32 \<Rightarrow> string \<Rightarrow> string \<Rightarrow> core_error" where
  "make_protocol_error code message detail = mk_error code message detail ''protocol''"

abbreviation invalid_request :: "string \<Rightarrow> core_error" where
  "invalid_request message \<equiv> make_protocol_error (error_code InvalidRequest) message []"

text \<open>Measures of a document: its nodes, its depth, the bytes of its strings, its entries.\<close>

fun json_nodes :: "json \<Rightarrow> nat" where
  "json_nodes (JArray xs) = Suc (sum_list (map json_nodes xs))"
| "json_nodes (JObject kvs) = Suc (sum_list (map (\<lambda>kv. json_nodes (snd kv)) kvs))"
| "json_nodes _ = 1"

fun json_depth :: "json \<Rightarrow> nat" where
  "json_depth (JArray xs) = Suc (foldr max (map json_depth xs) 0)"
| "json_depth (JObject kvs) = Suc (foldr max (map (\<lambda>kv. json_depth (snd kv)) kvs) 0)"
| "json_depth _ = 1"

fun json_string_bytes :: "json \<Rightarrow> nat" where
  "json_string_bytes (JString s) = length s"
| "json_string_bytes (JArray xs) = sum_list (map json_string_bytes xs)"
| "json_string_bytes (JObject kvs) =
     sum_list (map (\<lambda>kv. length (fst kv)) kvs) + sum_list (map (\<lambda>kv. json_string_bytes (snd kv)) kvs)"
| "json_string_bytes _ = 0"

fun json_entries :: "json \<Rightarrow> nat" where
  "json_entries (JArray xs) = length xs + sum_list (map json_entries xs)"
| "json_entries (JObject kvs) = length kvs + sum_list (map (\<lambda>kv. json_entries (snd kv)) kvs)"
| "json_entries _ = 0"

definition document_within_limits :: "json \<Rightarrow> bool" where
  "document_within_limits j \<longleftrightarrow>
     json_depth j \<le> MaxJsonDepth \<and> json_nodes j \<le> MaxJsonNodeCount \<and>
     json_string_bytes j \<le> MaxJsonAggregateStringBytes \<and>
     json_entries j \<le> MaxJsonAggregateCollectionEntries"

text \<open>
  The key loop of an object adds the bytes of each key to the running total and stops as soon
  as it passes the limit. The counters cannot wrap: each is checked against its limit after
  every addition, and one addend is the size of an object in memory.
\<close>

fun add_key_bytes :: "nat \<Rightarrow> (string \<times> json) list \<Rightarrow> nat option" where
  "add_key_bytes bytes [] = Some bytes"
| "add_key_bytes bytes (kv # kvs) =
     (if bytes + length (fst kv) > MaxJsonAggregateStringBytes then None
      else add_key_bytes (bytes + length (fst kv)) kvs)"

text \<open>The loop over the explicit stack; the head of the list is the top of the stack.\<close>

function validate_frames :: "(json \<times> nat) list \<Rightarrow> nat \<Rightarrow> nat \<Rightarrow> nat \<Rightarrow> unit result" where
  "validate_frames [] nodes string_bytes entries = Inr ()"
| "validate_frames ((v, depth) # stack) nodes string_bytes entries =
     (if depth > MaxJsonDepth
      then Inl (invalid_request ''JSON-RPC message exceeds maximum JSON depth'')
      else if Suc nodes > MaxJsonNodeCount
      then Inl (invalid_request ''JSON-RPC message exceeds maximum JSON nodes'')
      else case v of
        JString s \<Rightarrow>
          (if string_bytes + length s > MaxJsonAggregateStringBytes
           then Inl (invalid_request ''JSON-RPC message exceeds maximum aggregate string size'')
           else validate_frames stack (Suc nodes) (string_bytes + length s) entries)
      | JArray xs \<Rightarrow>
          (if entries + length xs > MaxJsonAggregateCollectionEntries
           then Inl (invalid_request ''JSON-RPC message exceeds maximum aggregate collection entries'')
           else validate_frames (rev (map (\<lambda>x. (x, Suc depth)) xs) @ stack)
                  (Suc nodes) string_bytes (entries + length xs))
      | JObject kvs \<Rightarrow>
          (if entries + length kvs > MaxJsonAggregateCollectionEntries
           then Inl (invalid_request ''JSON-RPC message exceeds maximum aggregate collection entries'')
           else case add_key_bytes string_bytes kvs of
                  None \<Rightarrow> Inl (invalid_request ''JSON-RPC message exceeds maximum aggregate string size'')
                | Some bytes \<Rightarrow>
                    validate_frames (rev (map (\<lambda>kv. (snd kv, Suc depth)) kvs) @ stack)
                      (Suc nodes) bytes (entries + length kvs))
      | _ \<Rightarrow> validate_frames stack (Suc nodes) string_bytes entries)"
  by pat_completeness auto
termination
  by (relation "measure (\<lambda>(stack, _). sum_list (map (\<lambda>f. json_nodes (fst f)) stack))")
     (auto simp: rev_map [symmetric] comp_def)

declare validate_frames.simps(2) [simp del]

definition validate_json_document_limits :: "json \<Rightarrow> unit result" where
  "validate_json_document_limits document = validate_frames [(document, 1)] 0 0 0"

lemma add_foldr_max_le:
  "d + foldr max ys 0 \<le> (n :: nat) \<longleftrightarrow> d \<le> n \<and> (\<forall>y \<in> set ys. d + y \<le> n)"
  by (induction ys) (auto simp: max_def)

lemma add_key_bytes_eq:
  "bytes \<le> MaxJsonAggregateStringBytes \<Longrightarrow>
   add_key_bytes bytes kvs =
     (let n = bytes + sum_list (map (\<lambda>kv. length (fst kv)) kvs)
      in if n \<le> MaxJsonAggregateStringBytes then Some n else None)"
  by (induction kvs arbitrary: bytes) (auto simp: Let_def)

text \<open>What the stack loop computes, for any stack and any counters still within the limits.\<close>

definition frames_within :: "(json \<times> nat) list \<Rightarrow> nat \<Rightarrow> nat \<Rightarrow> nat \<Rightarrow> bool" where
  "frames_within stack nodes string_bytes entries \<longleftrightarrow>
     (\<forall>f \<in> set stack. snd f + json_depth (fst f) \<le> Suc MaxJsonDepth) \<and>
     nodes + sum_list (map (\<lambda>f. json_nodes (fst f)) stack) \<le> MaxJsonNodeCount \<and>
     string_bytes + sum_list (map (\<lambda>f. json_string_bytes (fst f)) stack) \<le> MaxJsonAggregateStringBytes \<and>
     entries + sum_list (map (\<lambda>f. json_entries (fst f)) stack) \<le> MaxJsonAggregateCollectionEntries"

lemma json_nodes_pos: "0 < json_nodes j"
  by (cases j) simp_all

lemma json_depth_pos: "0 < json_depth j"
  by (cases j) simp_all

lemma frames_within_scalar:
  assumes "json_nodes v = 1" "json_depth v = 1" "json_entries v = 0"
    "depth \<le> MaxJsonDepth"
  shows "frames_within ((v, depth) # stack) n s c = frames_within stack (Suc n) (s + json_string_bytes v) c"
  using assms by (auto simp: frames_within_def)

lemma frames_within_array:
  "frames_within ((JArray xs, depth) # stack) n s c =
     (depth \<le> MaxJsonDepth \<and>
      frames_within (rev (map (\<lambda>x. (x, Suc depth)) xs) @ stack) (Suc n) s (c + length xs))"
  by (auto simp: frames_within_def rev_map [symmetric] comp_def add_foldr_max_le ball_Un add_ac)

lemma frames_within_object:
  "frames_within ((JObject kvs, depth) # stack) n s c =
     (depth \<le> MaxJsonDepth \<and>
      frames_within (rev (map (\<lambda>kv. (snd kv, Suc depth)) kvs) @ stack) (Suc n)
        (s + sum_list (map (\<lambda>kv. length (fst kv)) kvs)) (c + length kvs))"
  by (auto simp: frames_within_def rev_map [symmetric] comp_def add_foldr_max_le ball_Un add_ac)

lemma frames_within_bounds:
  assumes "frames_within ((v, depth) # stack) n s c"
  shows "depth \<le> MaxJsonDepth" "Suc n \<le> MaxJsonNodeCount"
  using assms json_nodes_pos [of v] json_depth_pos [of v] by (auto simp: frames_within_def)

lemma frames_within_counters:
  "frames_within stack n s c \<Longrightarrow>
     s \<le> MaxJsonAggregateStringBytes \<and> c \<le> MaxJsonAggregateCollectionEntries"
  by (auto simp: frames_within_def)

lemma validate_frames_iff:
  "n \<le> MaxJsonNodeCount \<Longrightarrow> s \<le> MaxJsonAggregateStringBytes \<Longrightarrow>
   c \<le> MaxJsonAggregateCollectionEntries \<Longrightarrow>
   is_ok (validate_frames stack n s c) = frames_within stack n s c"
proof (induction stack n s c rule: validate_frames.induct)
  case (1 n s c)
  then show ?case by (simp add: frames_within_def)
next
  case (2 v depth stack n s c)
  show ?case
  proof (cases "depth \<le> MaxJsonDepth \<and> Suc n \<le> MaxJsonNodeCount")
    case False
    then show ?thesis
      using frames_within_bounds [of v depth stack n s c] by (auto simp: validate_frames.simps(2))
  next
    case guard: True
    show ?thesis
    proof (cases v)
      case (JArray xs)
      with guard 2 show ?thesis
        using frames_within_counters [of _ _ s "c + length xs"]
        by (auto simp: validate_frames.simps(2) frames_within_array not_less)
    next
      case (JObject kvs)
      with guard 2 show ?thesis
        using frames_within_counters [of _ _ "s + sum_list (map (\<lambda>kv. length (fst kv)) kvs)" "c + length kvs"]
        by (auto simp: validate_frames.simps(2) frames_within_object add_key_bytes_eq Let_def not_less)
    next
      case (JString x)
      with guard 2 show ?thesis
        using frames_within_counters [of _ _ "s + length x" c]
        by (auto simp: validate_frames.simps(2) frames_within_scalar not_less)
    qed (use guard 2 in \<open>simp_all add: validate_frames.simps(2) frames_within_scalar\<close>)
  qed
qed

lemma validate_limits_ok_iff:
  "is_ok (validate_json_document_limits j) = document_within_limits j"
  by (simp add: validate_json_document_limits_def validate_frames_iff frames_within_def
      document_within_limits_def)

section \<open>Reading a document\<close>

definition parse_json_document :: "(string \<Rightarrow> json option) \<Rightarrow> string \<Rightarrow> json result" where
  "parse_json_document parse text =
     (case parse text of
        None \<Rightarrow> Inl (make_protocol_error (error_code ParseError) ''Invalid JSON'' [])
      | Some document \<Rightarrow>
          if is_array document then Inl (invalid_request ''Batch messages are not supported'')
          else if \<not> is_object document
          then Inl (invalid_request ''JSON-RPC message must be an object'')
          else rbind (validate_json_document_limits document) (\<lambda>_. Inr document))"

definition JsonRpcVersion :: string where
  "JsonRpcVersion = ''2.0''"

definition validate_jsonrpc_version :: "json \<Rightarrow> unit result" where
  "validate_jsonrpc_version document =
     (case jfind document ''jsonrpc'' of
        None \<Rightarrow> Inl (invalid_request ''JSON-RPC version must be 2.0'')
      | Some jsonrpc \<Rightarrow>
          if get_string jsonrpc \<noteq> Some JsonRpcVersion
          then Inl (invalid_request ''JSON-RPC version must be 2.0'')
          else Inr ())"

definition has_member :: "json \<Rightarrow> string \<Rightarrow> bool" where
  "has_member document name = jcontains document name"

definition meta_from_document :: "json \<Rightarrow> json option result" where
  "meta_from_document document =
     (case jfind document ''_meta'' of
        None \<Rightarrow> Inr None
      | Some meta \<Rightarrow>
          if \<not> is_object meta then Inl (invalid_request ''_meta must be an object'')
          else Inr (Some meta))"

definition normalized_params :: "json \<Rightarrow> json" where
  "normalized_params params = (if is_null params then empty_object else params)"

definition params_from_document_or_empty :: "json \<Rightarrow> json result" where
  "params_from_document_or_empty document =
     (case jfind document ''params'' of
        None \<Rightarrow> Inr empty_object
      | Some p \<Rightarrow>
          let params = normalized_params p in
          if \<not> is_object params \<and> \<not> is_array params
          then Inl (invalid_request ''params must be an object or array'')
          else Inr params)"

definition meta_from_params :: "json \<Rightarrow> json option result" where
  "meta_from_params params =
     (case jfind params ''_meta'' of
        None \<Rightarrow> Inr None
      | Some meta \<Rightarrow>
          if \<not> is_object meta then Inl (invalid_request ''params _meta must be an object'')
          else Inr (Some meta))"

definition params_with_meta :: "json \<Rightarrow> json option \<Rightarrow> json result" where
  "params_with_meta p meta =
     (let params = normalized_params p in
      case meta of
        None \<Rightarrow> Inr params
      | Some m \<Rightarrow>
          if \<not> is_object params
          then Inl (invalid_request ''params must be an object when _meta is present'')
          else Inr (jset params ''_meta'' m))"

definition required_request_id_from_document :: "json \<Rightarrow> request_id result" where
  "required_request_id_from_document document =
     (case jfind document ''id'' of
        None \<Rightarrow> Inl (invalid_request ''id is missing'')
      | Some j \<Rightarrow>
          (case request_id_from_json j of
             None \<Rightarrow> Inl (invalid_request ''Request id must be an integer or string'')
           | Some i \<Rightarrow> Inr i))"

definition response_id_from_document :: "json \<Rightarrow> request_id option result" where
  "response_id_from_document document =
     (case jfind document ''id'' of
        None \<Rightarrow> Inl (invalid_request ''id is missing'')
      | Some j \<Rightarrow>
          if is_null j then Inr None
          else (case request_id_from_json j of
                  None \<Rightarrow> Inl (invalid_request ''Response id must be null, integer, or string'')
                | Some i \<Rightarrow> Inr (Some i)))"

definition error_object_from_json :: "json \<Rightarrow> error_object result" where
  "error_object_from_json j =
     (if \<not> is_object j then Inl (invalid_request ''error must be an object'')
      else case Option.bind (jfind j ''code'') get_int of
             None \<Rightarrow> Inl (invalid_request ''error code is missing or invalid'')
           | Some code \<Rightarrow>
               (case Option.bind (jfind j ''message'') get_string of
                  None \<Rightarrow> Inl (invalid_request ''error message is missing or invalid'')
                | Some message \<Rightarrow>
                    Inr \<lparr>eo_code = code, eo_message = message, eo_data = jfind j ''data''\<rparr>))"

text \<open>The two readers share their checks of \<open>method\<close>, \<open>params\<close> and \<open>_meta\<close>.\<close>

definition method_from_document :: "json \<Rightarrow> string result" where
  "method_from_document document =
     (case jfind document ''method'' of
        None \<Rightarrow> Inl (make_protocol_error (error_code InternalError) ''[json.exception.out_of_range.403] key 'method' not found'' [])
      | Some j \<Rightarrow>
          (case get_string j of
             None \<Rightarrow> Inl (invalid_request ''method must be a string value'')
           | Some m \<Rightarrow>
               if m = [] then Inl (invalid_request ''method must not be empty'') else Inr m))"

definition request_from_document :: "json \<Rightarrow> json_rpc_request result" where
  "request_from_document document =
     rbind (method_from_document document) (\<lambda>m.
     rbind (params_from_document_or_empty document) (\<lambda>params.
     rbind (meta_from_params params) (\<lambda>meta.
     rbind (required_request_id_from_document document) (\<lambda>i.
       Inr \<lparr>req_method = m, req_params = params, req_id = i, req_meta = meta,
            transport_headers = [], protocol_version_override = None\<rparr>))))"

definition notification_from_document :: "json \<Rightarrow> json_rpc_notification result" where
  "notification_from_document document =
     rbind (method_from_document document) (\<lambda>m.
     rbind (params_from_document_or_empty document) (\<lambda>params.
     rbind (meta_from_params params) (\<lambda>meta.
       Inr \<lparr>notif_method = m, notif_params = params, notif_meta = meta\<rparr>)))"

definition response_from_document :: "json \<Rightarrow> json_rpc_response result" where
  "response_from_document document =
     rbind (response_id_from_document document) (\<lambda>i.
     rbind (meta_from_document document) (\<lambda>meta.
       case jfind document ''error'' of
         Some e \<Rightarrow>
           rbind (error_object_from_json e) (\<lambda>err.
             Inr \<lparr>resp_id = i, resp_result = None, resp_error = Some err, resp_meta = meta\<rparr>)
       | None \<Rightarrow>
           Inr \<lparr>resp_id = i, resp_result = jfind document ''result'', resp_error = None,
                resp_meta = meta\<rparr>))"

text \<open>The dispatch on the members of a document, after the version check.\<close>

definition message_from_document :: "json \<Rightarrow> json_rpc_message result" where
  "message_from_document document =
     rbind (validate_jsonrpc_version document) (\<lambda>_.
       if has_member document ''result'' \<and> has_member document ''error''
       then Inl (invalid_request ''Response must contain exactly one of result or error'')
       else if has_member document ''method''
       then (if has_member document ''id''
             then rbind (request_from_document document) (\<lambda>r. Inr (MsgRequest r))
             else rbind (notification_from_document document) (\<lambda>n. Inr (MsgNotification n)))
       else if has_member document ''result'' \<or> has_member document ''error''
       then rbind (response_from_document document) (\<lambda>r. Inr (MsgResponse r))
       else Inl (invalid_request ''Unsupported JSON-RPC entity''))"

definition parse_message :: "(string \<Rightarrow> json option) \<Rightarrow> string \<Rightarrow> json_rpc_message result" where
  "parse_message parse text = rbind (parse_json_document parse text) message_from_document"

definition parse_request :: "(string \<Rightarrow> json option) \<Rightarrow> string \<Rightarrow> json_rpc_request result" where
  "parse_request parse text =
     rbind (parse_message parse text) (\<lambda>m.
       case m of MsgRequest r \<Rightarrow> Inr r
       | _ \<Rightarrow> Inl (invalid_request ''JSON-RPC message is not a request''))"

definition parse_response :: "(string \<Rightarrow> json option) \<Rightarrow> string \<Rightarrow> json_rpc_response result" where
  "parse_response parse text =
     rbind (parse_message parse text) (\<lambda>m.
       case m of MsgResponse r \<Rightarrow> Inr r
       | _ \<Rightarrow> Inl (invalid_request ''JSON-RPC message is not a response''))"

definition parse_notification :: "(string \<Rightarrow> json option) \<Rightarrow> string \<Rightarrow> json_rpc_notification result" where
  "parse_notification parse text =
     rbind (parse_message parse text) (\<lambda>m.
       case m of MsgNotification n \<Rightarrow> Inr n
       | _ \<Rightarrow> Inl (invalid_request ''JSON-RPC message is not a notification''))"

section \<open>Building messages\<close>

definition make_error :: "int32 \<Rightarrow> string \<Rightarrow> json option \<Rightarrow> error_object" where
  "make_error code message data = \<lparr>eo_code = code, eo_message = message, eo_data = data\<rparr>"

definition make_response :: "request_id \<Rightarrow> json \<Rightarrow> json_rpc_response" where
  "make_response i res = \<lparr>resp_id = Some i, resp_result = Some res, resp_error = None, resp_meta = None\<rparr>"

definition make_error_response :: "request_id option \<Rightarrow> error_object \<Rightarrow> json_rpc_response" where
  "make_error_response i err = \<lparr>resp_id = i, resp_result = None, resp_error = Some err, resp_meta = None\<rparr>"

definition make_request :: "string \<Rightarrow> request_id \<Rightarrow> json \<Rightarrow> json_rpc_request" where
  "make_request m i params =
     \<lparr>req_method = m, req_params = params, req_id = i, req_meta = None,
      transport_headers = [], protocol_version_override = None\<rparr>"

definition make_notification :: "string \<Rightarrow> json \<Rightarrow> json_rpc_notification" where
  "make_notification m params = \<lparr>notif_method = m, notif_params = params, notif_meta = None\<rparr>"

section \<open>Writing text\<close>

text \<open>The output string and the \<open>first\<close> flag that the helpers take by reference.\<close>

type_synonym text_writer = "string \<times> bool"

definition append_separator :: "text_writer \<Rightarrow> text_writer" where
  "append_separator w = (if snd w then (fst w, False) else (fst w @ '','', False))"

definition append_text :: "text_writer \<Rightarrow> string \<Rightarrow> text_writer" where
  "append_text w s = (fst w @ s, snd w)"

definition append_json_property ::
  "(json \<Rightarrow> string) \<Rightarrow> text_writer \<Rightarrow> string \<Rightarrow> json \<Rightarrow> text_writer" where
  "append_json_property dump w name v =
     append_text (append_separator w) (dump (JString name) @ '':'' @ dump v)"

definition append_string_property ::
  "(json \<Rightarrow> string) \<Rightarrow> text_writer \<Rightarrow> string \<Rightarrow> string \<Rightarrow> text_writer" where
  "append_string_property dump w name v =
     append_text (append_separator w) (dump (JString name) @ '':'' @ dump (JString v))"

definition append_int_property ::
  "(json \<Rightarrow> string) \<Rightarrow> text_writer \<Rightarrow> string \<Rightarrow> int32 \<Rightarrow> text_writer" where
  "append_int_property dump w name v =
     append_text (append_separator w) (dump (JString name) @ '':'' @ int_to_string (sint v))"

definition should_serialize_params :: "json \<Rightarrow> bool" where
  "should_serialize_params params \<longleftrightarrow> \<not> is_object params \<or> \<not> jempty params"

definition append_params_property ::
  "(json \<Rightarrow> string) \<Rightarrow> text_writer \<Rightarrow> json \<Rightarrow> json option \<Rightarrow> text_writer result" where
  "append_params_property dump w params meta =
     (case meta of
        None \<Rightarrow>
          let normalized = normalized_params params in
          Inr (if should_serialize_params normalized
               then append_json_property dump w ''params'' normalized else w)
      | Some m \<Rightarrow>
          let merged = normalized_params params in
          if \<not> is_object merged
          then Inl (invalid_request ''params must be an object when _meta is present'')
          else Inr (append_json_property dump w ''params'' (jset merged ''_meta'' m)))"

definition serialize_error_object :: "(json \<Rightarrow> string) \<Rightarrow> error_object \<Rightarrow> string" where
  "serialize_error_object dump err =
     (let w = (''{'', True);
          w = append_int_property dump w ''code'' (eo_code err);
          w = append_string_property dump w ''message'' (eo_message err);
          w = (case eo_data err of None \<Rightarrow> w | Some d \<Rightarrow> append_json_property dump w ''data'' d)
      in fst w @ ''}'')"

definition serialize_request_direct :: "(json \<Rightarrow> string) \<Rightarrow> json_rpc_request \<Rightarrow> string result" where
  "serialize_request_direct dump request =
     (let w = (''{'', True);
          w = append_string_property dump w ''jsonrpc'' JsonRpcVersion;
          w = append_json_property dump w ''id'' (request_id_to_json (req_id request));
          w = append_string_property dump w ''method'' (req_method request)
      in rbind (append_params_property dump w (req_params request) (req_meta request))
           (\<lambda>w. Inr (fst w @ ''}'')))"

definition serialize_response_direct :: "(json \<Rightarrow> string) \<Rightarrow> json_rpc_response \<Rightarrow> string result" where
  "serialize_response_direct dump response =
     (let w = (''{'', True);
          w = append_string_property dump w ''jsonrpc'' JsonRpcVersion;
          w = append_json_property dump w ''id''
                (case resp_id response of Some i \<Rightarrow> request_id_to_json i | None \<Rightarrow> JNull);
          w = (case resp_meta response of None \<Rightarrow> w
               | Some m \<Rightarrow> append_json_property dump w ''_meta'' m)
      in case resp_error response of
           Some err \<Rightarrow>
             Inr (fst (append_text (append_separator w)
                    (dump (JString ''error'') @ '':'' @ serialize_error_object dump err)) @ ''}'')
         | None \<Rightarrow>
             (case resp_result response of
                None \<Rightarrow> Inl (invalid_request ''Response must contain exactly one of result or error'')
              | Some r \<Rightarrow> Inr (fst (append_json_property dump w ''result'' r) @ ''}'')))"

definition serialize_notification_direct ::
  "(json \<Rightarrow> string) \<Rightarrow> json_rpc_notification \<Rightarrow> string result" where
  "serialize_notification_direct dump notification =
     (let w = (''{'', True);
          w = append_string_property dump w ''jsonrpc'' JsonRpcVersion;
          w = append_string_property dump w ''method'' (notif_method notification)
      in rbind (append_params_property dump w (notif_params notification) (notif_meta notification))
           (\<lambda>w. Inr (fst w @ ''}'')))"

fun serialize_message :: "(json \<Rightarrow> string) \<Rightarrow> json_rpc_message \<Rightarrow> string result" where
  "serialize_message dump (MsgRequest r) = serialize_request_direct dump r"
| "serialize_message dump (MsgResponse r) = serialize_response_direct dump r"
| "serialize_message dump (MsgNotification n) = serialize_notification_direct dump n"

definition serialize_error :: "(json \<Rightarrow> string) \<Rightarrow> error_object \<Rightarrow> request_id option \<Rightarrow> string result" where
  "serialize_error dump err i = serialize_response_direct dump (make_error_response i err)"

section \<open>What a document says, as a JSON value\<close>

text \<open>
  The abstract specification of the wire format: the JSON object a message stands for. A value
  read back from text differs from the one written in one way only: a non-negative integer comes
  back in the unsigned representation (\<open>json_norm\<close>).
\<close>

fun json_norm :: "json \<Rightarrow> json" where
  "json_norm (JInt i) = (if 0 \<le> sint i then JUInt i else JInt i)"
| "json_norm (JArray xs) = JArray (map json_norm xs)"
| "json_norm (JObject kvs) = JObject (map (\<lambda>kv. (fst kv, json_norm (snd kv))) kvs)"
| "json_norm j = j"

definition object_of :: "(string \<times> json) list \<Rightarrow> json" where
  "object_of kvs = foldl (\<lambda>j kv. jset j (fst kv) (snd kv)) empty_object kvs"

definition wire_params :: "json \<Rightarrow> json option \<Rightarrow> (string \<times> json) list" where
  "wire_params params meta =
     (case params_with_meta params meta of
        Inl _ \<Rightarrow> []
      | Inr p \<Rightarrow> if should_serialize_params p then [(''params'', json_norm p)] else [])"

definition error_document :: "error_object \<Rightarrow> json" where
  "error_document err =
     object_of ([(''code'', json_norm (JInt (scast (eo_code err)))), (''message'', JString (eo_message err))]
                @ (case eo_data err of None \<Rightarrow> [] | Some d \<Rightarrow> [(''data'', json_norm d)]))"

definition request_document :: "json_rpc_request \<Rightarrow> json" where
  "request_document r =
     object_of ([(''jsonrpc'', JString JsonRpcVersion), (''id'', json_norm (request_id_to_json (req_id r))),
                 (''method'', JString (req_method r))] @ wire_params (req_params r) (req_meta r))"

definition notification_document :: "json_rpc_notification \<Rightarrow> json" where
  "notification_document n =
     object_of ([(''jsonrpc'', JString JsonRpcVersion), (''method'', JString (notif_method n))]
                @ wire_params (notif_params n) (notif_meta n))"

definition response_document :: "json_rpc_response \<Rightarrow> json" where
  "response_document r =
     object_of ([(''jsonrpc'', JString JsonRpcVersion),
                 (''id'', case resp_id r of Some i \<Rightarrow> json_norm (request_id_to_json i) | None \<Rightarrow> JNull)]
                @ (case resp_meta r of None \<Rightarrow> [] | Some m \<Rightarrow> [(''_meta'', json_norm m)])
                @ (case resp_error r of Some e \<Rightarrow> [(''error'', error_document e)]
                   | None \<Rightarrow> (case resp_result r of None \<Rightarrow> [] | Some v \<Rightarrow> [(''result'', json_norm v)])))"

lemma object_of_snoc: "object_of (kvs @ [(k, v)]) = jset (object_of kvs) k v"
  by (simp add: object_of_def)

lemma is_object_foldl_jset [simp]:
  "is_object j \<Longrightarrow> is_object (foldl (\<lambda>j kv. jset j (fst kv) (snd kv)) j kvs)"
  by (induction kvs arbitrary: j) auto

lemma is_object_object_of [simp]: "is_object (object_of kvs)"
  by (simp add: object_of_def)

lemma jfind_object_of: "jfind (object_of kvs) k = map_of (rev kvs) k"
proof (induction kvs rule: rev_induct)
  case (snoc kv kvs)
  then show ?case by (cases kv) (simp add: object_of_snoc)
qed (simp add: object_of_def)

lemma jfind_json_norm: "jfind (json_norm j) k = map_option json_norm (jfind j k)"
proof (cases j)
  case (JObject kvs)
  show ?thesis unfolding JObject by (induction kvs) auto
qed (auto simp: jfind_not_object)

lemma is_object_json_norm [simp]: "is_object (json_norm j) = is_object j"
  by (cases j) simp_all

lemma is_array_json_norm [simp]: "is_array (json_norm j) = is_array j"
  by (cases j) simp_all

lemma is_null_json_norm [simp]: "is_null (json_norm j) = is_null j"
  by (cases j) simp_all

lemma request_id_from_json_norm [simp]:
  "request_id_from_json (json_norm (request_id_to_json i)) = Some i"
  by (cases i) simp_all

lemma is_null_request_id [simp]: "\<not> is_null (request_id_to_json i)"
  by (cases i) simp_all

lemma ucast_scast_int32: "ucast (scast (c :: int32) :: int64) = c"
  by (rule bit_word_eqI) (auto simp: bit_simps)

lemma get_int_json_norm [simp]: "get_int (json_norm (JInt (scast c))) = Some c"
  by (simp add: get_int_def ucast_scast_int32)

section \<open>The text of an object\<close>

fun join_comma :: "string list \<Rightarrow> string" where
  "join_comma [] = []"
| "join_comma [x] = x"
| "join_comma (x # y # zs) = x @ '','' @ join_comma (y # zs)"

definition object_text :: "(json \<Rightarrow> string) \<Rightarrow> (string \<times> string) list \<Rightarrow> string" where
  "object_text dump ms = ''{'' @ join_comma (map (\<lambda>m. dump (JString (fst m)) @ '':'' @ snd m) ms) @ ''}''"

definition writer_of :: "(json \<Rightarrow> string) \<Rightarrow> (string \<times> string) list \<Rightarrow> text_writer" where
  "writer_of dump ms =
     (''{'' @ join_comma (map (\<lambda>m. dump (JString (fst m)) @ '':'' @ snd m) ms), ms = [])"

lemma join_comma_snoc:
  "join_comma (xs @ [x]) = (if xs = [] then x else join_comma xs @ '','' @ x)"
  by (induction xs rule: join_comma.induct) auto

lemma writer_start: "(''{'', True) = writer_of dump []"
  by (simp add: writer_of_def)

lemma writer_close: "fst (writer_of dump ms) @ ''}'' = object_text dump ms"
  by (simp add: writer_of_def object_text_def)

lemma writer_append:
  "append_text (append_separator (writer_of dump ms)) (dump (JString k) @ '':'' @ t)
     = writer_of dump (ms @ [(k, t)])"
  by (simp add: writer_of_def append_text_def append_separator_def join_comma_snoc)

lemma writer_props:
  "append_json_property dump (writer_of dump ms) k v = writer_of dump (ms @ [(k, dump v)])"
  "append_string_property dump (writer_of dump ms) k s = writer_of dump (ms @ [(k, dump (JString s))])"
  "append_int_property dump (writer_of dump ms) k i = writer_of dump (ms @ [(k, int_to_string (sint i))])"
  unfolding append_json_property_def append_string_property_def append_int_property_def
  by (simp_all only: writer_append)

lemma serialize_error_object_text:
  "serialize_error_object dump err =
     object_text dump ([(''code'', int_to_string (sint (eo_code err))), (''message'', dump (JString (eo_message err)))]
       @ (case eo_data err of None \<Rightarrow> [] | Some d \<Rightarrow> [(''data'', dump d)]))"
  unfolding serialize_error_object_def writer_start [of dump] Let_def writer_props
  by (cases "eo_data err") (simp_all add: writer_props writer_close [symmetric])

lemma append_params_property_text:
  "append_params_property dump (writer_of dump ms) params meta =
     (case params_with_meta params meta of
        Inl e \<Rightarrow> Inl e
      | Inr p \<Rightarrow> Inr (writer_of dump (ms @ (if should_serialize_params p then [(''params'', dump p)] else []))))"
proof (cases meta)
  case (Some m)
  have "\<not> jempty (jset p ''_meta'' m)" if "is_object p" for p
    using that by (cases p) auto
  then show ?thesis
    by (auto simp: Some append_params_property_def params_with_meta_def Let_def writer_props
        should_serialize_params_def)
qed (simp add: append_params_property_def params_with_meta_def Let_def writer_props)

lemma serialize_request_text:
  "serialize_request_direct dump r =
     rbind (params_with_meta (req_params r) (req_meta r)) (\<lambda>p.
       Inr (object_text dump
         ([(''jsonrpc'', dump (JString JsonRpcVersion)), (''id'', dump (request_id_to_json (req_id r))),
           (''method'', dump (JString (req_method r)))]
          @ (if should_serialize_params p then [(''params'', dump p)] else []))))"
  unfolding serialize_request_direct_def writer_start [of dump] Let_def writer_props
    append_params_property_text
  by (cases "params_with_meta (req_params r) (req_meta r)") (simp_all add: writer_close)

lemma serialize_notification_text:
  "serialize_notification_direct dump n =
     rbind (params_with_meta (notif_params n) (notif_meta n)) (\<lambda>p.
       Inr (object_text dump
         ([(''jsonrpc'', dump (JString JsonRpcVersion)), (''method'', dump (JString (notif_method n)))]
          @ (if should_serialize_params p then [(''params'', dump p)] else []))))"
  unfolding serialize_notification_direct_def writer_start [of dump] Let_def writer_props
    append_params_property_text
  by (cases "params_with_meta (notif_params n) (notif_meta n)") (simp_all add: writer_close)

definition response_head :: "(json \<Rightarrow> string) \<Rightarrow> json_rpc_response \<Rightarrow> (string \<times> string) list" where
  "response_head dump r =
     [(''jsonrpc'', dump (JString JsonRpcVersion)),
      (''id'', dump (case resp_id r of Some i \<Rightarrow> request_id_to_json i | None \<Rightarrow> JNull))]
     @ (case resp_meta r of None \<Rightarrow> [] | Some m \<Rightarrow> [(''_meta'', dump m)])"

lemma serialize_response_text:
  "serialize_response_direct dump r =
     (case resp_error r of
        Some e \<Rightarrow> Inr (object_text dump (response_head dump r @ [(''error'', serialize_error_object dump e)]))
      | None \<Rightarrow>
          (case resp_result r of
             None \<Rightarrow> Inl (invalid_request ''Response must contain exactly one of result or error'')
           | Some v \<Rightarrow> Inr (object_text dump (response_head dump r @ [(''result'', dump v)]))))"
  unfolding serialize_response_direct_def writer_start [of dump] Let_def writer_props response_head_def
  by (cases "resp_meta r"; cases "resp_error r"; cases "resp_result r")
     (simp_all add: writer_props writer_append [simplified] writer_close)

section \<open>The codec interface and the wire round trip\<close>

text \<open>
  What the code relies on of the JSON library: \<open>denotes t j\<close> says that the text \<open>t\<close> is a JSON
  text of the value \<open>j\<close>. \<open>dump\<close> of a representable value denotes it, an object text made of
  member texts denotes the object, \<open>parse\<close> returns the denoted value, integers print in decimal.
\<close>

definition ascii :: "string \<Rightarrow> bool" where
  "ascii s \<longleftrightarrow> list_all (\<lambda>c. (of_char c :: nat) < 128) s"

locale json_codec =
  fixes dump :: "json \<Rightarrow> string"
    and parse :: "string \<Rightarrow> json option"
    and representable :: "json \<Rightarrow> bool"
    and denotes :: "string \<Rightarrow> json \<Rightarrow> bool"
  assumes dump_denotes: "representable j \<Longrightarrow> denotes (dump j) (json_norm j)"
    and object_denotes:
      "ms \<noteq> [] \<Longrightarrow> (\<And>k t v. (k, t, v) \<in> set ms \<Longrightarrow> representable (JString k) \<and> denotes t v) \<Longrightarrow>
       distinct (map fst ms) \<Longrightarrow>
       denotes (object_text dump (map (\<lambda>(k, t, v). (k, t)) ms)) (object_of (map (\<lambda>(k, t, v). (k, v)) ms))"
    and parse_denotes: "denotes t j \<Longrightarrow> parse t = Some j"
    and dump_int: "dump (JInt i) = int_to_string (sint i)"
    and representable_ascii: "ascii s \<Longrightarrow> representable (JString s)"
    and representable_scalar: "representable JNull" "representable (JInt i)"

text \<open>
  The messages the theorem is about: the payloads are representable, the method is not empty, the
  params (with \<open>_meta\<close> merged in) are an object or an array, and a \<open>_meta\<close> is an object.
\<close>

definition payload_ok :: "(json \<Rightarrow> bool) \<Rightarrow> json \<Rightarrow> json option \<Rightarrow> bool" where
  "payload_ok representable params meta \<longleftrightarrow>
     (case params_with_meta params meta of
        Inl _ \<Rightarrow> False
      | Inr p \<Rightarrow> representable p \<and> (is_object p \<or> is_array p) \<and> pred_option is_object (jfind p ''_meta''))"

definition request_wire_ok :: "(json \<Rightarrow> bool) \<Rightarrow> json_rpc_request \<Rightarrow> bool" where
  "request_wire_ok representable r \<longleftrightarrow>
     req_method r \<noteq> [] \<and> representable (JString (req_method r)) \<and>
     representable (request_id_to_json (req_id r)) \<and>
     payload_ok representable (req_params r) (req_meta r) \<and> document_within_limits (request_document r)"

definition notification_wire_ok :: "(json \<Rightarrow> bool) \<Rightarrow> json_rpc_notification \<Rightarrow> bool" where
  "notification_wire_ok representable n \<longleftrightarrow>
     notif_method n \<noteq> [] \<and> representable (JString (notif_method n)) \<and>
     payload_ok representable (notif_params n) (notif_meta n) \<and>
     document_within_limits (notification_document n)"

definition response_wire_ok :: "(json \<Rightarrow> bool) \<Rightarrow> json_rpc_response \<Rightarrow> bool" where
  "response_wire_ok representable r \<longleftrightarrow>
     (resp_error r = None) \<noteq> (resp_result r = None) \<and>
     pred_option (\<lambda>i. representable (request_id_to_json i)) (resp_id r) \<and>
     pred_option (\<lambda>m. representable m \<and> is_object m) (resp_meta r) \<and>
     pred_option representable (resp_result r) \<and>
     pred_option (\<lambda>e. representable (JString (eo_message e)) \<and> pred_option representable (eo_data e))
       (resp_error r) \<and>
     document_within_limits (response_document r)"

text \<open>The message as the peer sees it: integers normalised, transport-local fields gone.\<close>

definition wire_payload :: "json \<Rightarrow> json option \<Rightarrow> json" where
  "wire_payload params meta =
     (case params_with_meta params meta of Inl _ \<Rightarrow> JNull | Inr p \<Rightarrow> json_norm p)"

definition wire_request :: "json_rpc_request \<Rightarrow> json_rpc_request" where
  "wire_request r =
     r\<lparr>req_params := wire_payload (req_params r) (req_meta r),
       req_meta := jfind (wire_payload (req_params r) (req_meta r)) ''_meta'',
       transport_headers := [], protocol_version_override := None\<rparr>"

definition wire_notification :: "json_rpc_notification \<Rightarrow> json_rpc_notification" where
  "wire_notification n =
     n\<lparr>notif_params := wire_payload (notif_params n) (notif_meta n),
       notif_meta := jfind (wire_payload (notif_params n) (notif_meta n)) ''_meta''\<rparr>"

definition wire_response :: "json_rpc_response \<Rightarrow> json_rpc_response" where
  "wire_response r =
     r\<lparr>resp_result := map_option json_norm (resp_result r), resp_meta := map_option json_norm (resp_meta r),
       resp_error := map_option (\<lambda>e. e\<lparr>eo_data := map_option json_norm (eo_data e)\<rparr>) (resp_error r)\<rparr>"

lemma params_from_wire:
  assumes "payload_ok representable params meta"
    and "jfind doc ''params'' = map_of (wire_params params meta) ''params''"
  shows "params_from_document_or_empty doc = Inr (wire_payload params meta)"
    and "meta_from_params (wire_payload params meta) = Inr (jfind (wire_payload params meta) ''_meta'')"
proof -
  from assms(1) obtain p where p: "params_with_meta params meta = Inr p" "is_object p \<or> is_array p"
    "pred_option is_object (jfind p ''_meta'')"
    by (auto simp: payload_ok_def split: sum.splits)
  have d: "jfind doc ''params'' = (if should_serialize_params p then Some (json_norm p) else None)"
    using assms(2) by (simp add: wire_params_def p)
  have "\<not> is_null p" using p(2) by (auto simp: is_null_iff)
  moreover have "json_norm p = empty_object" if "\<not> should_serialize_params p"
    using that by (cases p) (auto simp: should_serialize_params_def)
  ultimately show "params_from_document_or_empty doc = Inr (wire_payload params meta)"
    using p by (auto simp: params_from_document_or_empty_def d wire_payload_def Let_def
        normalized_params_def)
  show "meta_from_params (wire_payload params meta) = Inr (jfind (wire_payload params meta) ''_meta'')"
    using p(3) by (cases "jfind p ''_meta''")
      (auto simp: meta_from_params_def wire_payload_def p(1) jfind_json_norm)
qed

lemma request_from_wire:
  assumes "request_wire_ok representable r"
  shows "message_from_document (request_document r) = Inr (MsgRequest (wire_request r))"
proof -
  have f: "jfind (request_document r) ''jsonrpc'' = Some (JString JsonRpcVersion)"
    "jfind (request_document r) ''id'' = Some (json_norm (request_id_to_json (req_id r)))"
    "jfind (request_document r) ''method'' = Some (JString (req_method r))"
    "jfind (request_document r) ''result'' = None"
    "jfind (request_document r) ''error'' = None"
    "jfind (request_document r) ''params'' = map_of (wire_params (req_params r) (req_meta r)) ''params''"
    by (auto simp: request_document_def jfind_object_of wire_params_def split: sum.splits)
  have ok: "payload_ok representable (req_params r) (req_meta r)" "req_method r \<noteq> []"
    using assms by (simp_all add: request_wire_ok_def)
  note q = params_from_wire [OF ok(1) f(6)]
  show ?thesis
    using ok(2) by (simp add: message_from_document_def validate_jsonrpc_version_def f has_member_def
        jcontains_def request_from_document_def method_from_document_def q
        required_request_id_from_document_def wire_request_def)
qed

lemma notification_from_wire:
  assumes "notification_wire_ok representable n"
  shows "message_from_document (notification_document n) = Inr (MsgNotification (wire_notification n))"
proof -
  have f: "jfind (notification_document n) ''jsonrpc'' = Some (JString JsonRpcVersion)"
    "jfind (notification_document n) ''id'' = None"
    "jfind (notification_document n) ''method'' = Some (JString (notif_method n))"
    "jfind (notification_document n) ''result'' = None"
    "jfind (notification_document n) ''error'' = None"
    "jfind (notification_document n) ''params'' =
       map_of (wire_params (notif_params n) (notif_meta n)) ''params''"
    by (auto simp: notification_document_def jfind_object_of wire_params_def split: sum.splits)
  have ok: "payload_ok representable (notif_params n) (notif_meta n)" "notif_method n \<noteq> []"
    using assms by (simp_all add: notification_wire_ok_def)
  note q = params_from_wire [OF ok(1) f(6)]
  show ?thesis
    using ok(2) by (simp add: message_from_document_def validate_jsonrpc_version_def f has_member_def
        jcontains_def notification_from_document_def method_from_document_def q wire_notification_def)
qed

lemma error_object_from_wire:
  "error_object_from_json (error_document e) = Inr (e\<lparr>eo_data := map_option json_norm (eo_data e)\<rparr>)"
proof -
  have "jfind (error_document e) ''code'' = Some (json_norm (JInt (scast (eo_code e))))"
    "jfind (error_document e) ''message'' = Some (JString (eo_message e))"
    "jfind (error_document e) ''data'' = map_option json_norm (eo_data e)"
    by (auto simp: error_document_def jfind_object_of split: option.splits simp del: json_norm.simps(1))
  then show ?thesis
    by (simp add: error_object_from_json_def error_document_def del: json_norm.simps(1))
qed

lemma response_from_wire:
  assumes "response_wire_ok representable r"
  shows "message_from_document (response_document r) = Inr (MsgResponse (wire_response r))"
proof -
  have ok: "(resp_error r = None) \<noteq> (resp_result r = None)" "pred_option is_object (resp_meta r)"
    using assms by (auto simp: response_wire_ok_def pred_option_Some)
  have f: "jfind (response_document r) ''jsonrpc'' = Some (JString JsonRpcVersion)"
    "jfind (response_document r) ''id'' =
       Some (case resp_id r of Some i \<Rightarrow> json_norm (request_id_to_json i) | None \<Rightarrow> JNull)"
    "jfind (response_document r) ''method'' = None"
    "jfind (response_document r) ''_meta'' = map_option json_norm (resp_meta r)"
    "jfind (response_document r) ''error'' = map_option error_document (resp_error r)"
    "jfind (response_document r) ''result'' = map_option json_norm (resp_result r)"
    using ok(1) by (auto simp: response_document_def jfind_object_of split: option.splits)
  have i: "response_id_from_document (response_document r) = Inr (resp_id r)"
    by (cases "resp_id r") (simp_all add: response_id_from_document_def f)
  have m: "meta_from_document (response_document r) = Inr (map_option json_norm (resp_meta r))"
    using ok(2) by (cases "resp_meta r") (simp_all add: meta_from_document_def f)
  show ?thesis
    using ok(1) by (cases "resp_error r"; cases "resp_result r")
      (simp_all add: message_from_document_def validate_jsonrpc_version_def f has_member_def
        jcontains_def response_from_document_def i m error_object_from_wire wire_response_def)
qed

lemma parse_message_of_document:
  assumes "parse t = Some doc" "is_object doc" "document_within_limits doc"
  shows "parse_message parse t = message_from_document doc"
proof -
  obtain u where "validate_json_document_limits doc = Inr u"
    using validate_limits_ok_iff [of doc] assms(3) by (auto simp: is_ok_iff)
  moreover have "\<not> is_array doc" using assms(2) by (cases doc) auto
  ultimately show ?thesis
    using assms(1,2) by (simp add: parse_message_def parse_json_document_def)
qed

lemma scast_int32_sint: "sint (scast (c :: int32) :: int64) = sint c"
  by (rule sint_up_scast) (simp add: is_up)

context json_codec
begin

lemma members_denote:
  assumes "ms \<noteq> []" "distinct (map fst ms)"
    "\<And>k t v. (k, t, v) \<in> set ms \<Longrightarrow> ascii k \<and> denotes t v"
  shows "denotes (object_text dump (map (\<lambda>(k, t, v). (k, t)) ms)) (object_of (map (\<lambda>(k, t, v). (k, v)) ms))"
  using assms by (intro object_denotes) (auto simp: representable_ascii)

lemma dump_denotes_string: "representable (JString s) \<Longrightarrow> denotes (dump (JString s)) (JString s)"
  using dump_denotes [of "JString s"] by simp

lemma version_denotes: "denotes (dump (JString JsonRpcVersion)) (JString JsonRpcVersion)"
  by (rule dump_denotes_string) (simp add: representable_ascii JsonRpcVersion_def ascii_def)

lemma null_denotes: "denotes (dump JNull) JNull"
  using dump_denotes [OF representable_scalar(1)] by simp

lemma error_text_denotes:
  assumes "representable (JString (eo_message e))" "pred_option representable (eo_data e)"
  shows "denotes (serialize_error_object dump e) (error_document e)"
proof -
  let ?ms = "[(''code'', int_to_string (sint (eo_code e)), json_norm (JInt (scast (eo_code e)))),
      (''message'', dump (JString (eo_message e)), JString (eo_message e))]
      @ (case eo_data e of None \<Rightarrow> [] | Some d \<Rightarrow> [(''data'', dump d, json_norm d)])"
  have c: "denotes (int_to_string (sint (eo_code e))) (json_norm (JInt (scast (eo_code e))))"
    using dump_denotes [of "JInt (scast (eo_code e))"] representable_scalar(2)
    by (simp add: dump_int scast_int32_sint del: json_norm.simps)
  have "denotes (object_text dump (map (\<lambda>(k, t, v). (k, t)) ?ms)) (object_of (map (\<lambda>(k, t, v). (k, v)) ?ms))"
    using assms c by (intro members_denote)
      (auto simp: ascii_def dump_denotes dump_denotes_string pred_option_Some split: option.splits
        simp del: json_norm.simps)
  then show ?thesis
    by (cases "eo_data e") (simp_all add: serialize_error_object_text error_document_def del: json_norm.simps)
qed

lemma request_text_denotes:
  assumes "request_wire_ok representable r" "serialize_request_direct dump r = Inr t"
  shows "denotes t (request_document r)"
proof -
  from assms(1) obtain p where p: "params_with_meta (req_params r) (req_meta r) = Inr p" "representable p"
    by (auto simp: request_wire_ok_def payload_ok_def split: sum.splits)
  let ?ms = "[(''jsonrpc'', dump (JString JsonRpcVersion), JString JsonRpcVersion),
      (''id'', dump (request_id_to_json (req_id r)), json_norm (request_id_to_json (req_id r))),
      (''method'', dump (JString (req_method r)), JString (req_method r))]
      @ (if should_serialize_params p then [(''params'', dump p, json_norm p)] else [])"
  have "denotes (object_text dump (map (\<lambda>(k, t, v). (k, t)) ?ms)) (object_of (map (\<lambda>(k, t, v). (k, v)) ?ms))"
    using assms(1) p(2) by (intro members_denote)
      (auto simp: ascii_def request_wire_ok_def version_denotes dump_denotes dump_denotes_string
        split: if_splits)
  with assms(2) show ?thesis
    by (auto simp: serialize_request_text p(1) request_document_def wire_params_def)
qed

lemma notification_text_denotes:
  assumes "notification_wire_ok representable n" "serialize_notification_direct dump n = Inr t"
  shows "denotes t (notification_document n)"
proof -
  from assms(1) obtain p where p: "params_with_meta (notif_params n) (notif_meta n) = Inr p" "representable p"
    by (auto simp: notification_wire_ok_def payload_ok_def split: sum.splits)
  let ?ms = "[(''jsonrpc'', dump (JString JsonRpcVersion), JString JsonRpcVersion),
      (''method'', dump (JString (notif_method n)), JString (notif_method n))]
      @ (if should_serialize_params p then [(''params'', dump p, json_norm p)] else [])"
  have "denotes (object_text dump (map (\<lambda>(k, t, v). (k, t)) ?ms)) (object_of (map (\<lambda>(k, t, v). (k, v)) ?ms))"
    using assms(1) p(2) by (intro members_denote)
      (auto simp: ascii_def notification_wire_ok_def version_denotes dump_denotes dump_denotes_string
        split: if_splits)
  with assms(2) show ?thesis
    by (auto simp: serialize_notification_text p(1) notification_document_def wire_params_def)
qed

lemma response_text_denotes:
  assumes "response_wire_ok representable r" "serialize_response_direct dump r = Inr t"
  shows "denotes t (response_document r)"
proof -
  let ?id = "case resp_id r of Some i \<Rightarrow> request_id_to_json i | None \<Rightarrow> JNull"
  let ?head = "[(''jsonrpc'', dump (JString JsonRpcVersion), JString JsonRpcVersion),
      (''id'', dump ?id, json_norm ?id)]
      @ (case resp_meta r of None \<Rightarrow> [] | Some m \<Rightarrow> [(''_meta'', dump m, json_norm m)])"
  let ?body = "(case resp_error r of Some e \<Rightarrow> [(''error'', serialize_error_object dump e, error_document e)]
      | None \<Rightarrow> (case resp_result r of None \<Rightarrow> [] | Some v \<Rightarrow> [(''result'', dump v, json_norm v)]))"
  have id: "representable ?id"
    using assms(1) by (auto simp: response_wire_ok_def representable_scalar split: option.splits)
  have "denotes (object_text dump (map (\<lambda>(k, t, v). (k, t)) (?head @ ?body)))
          (object_of (map (\<lambda>(k, t, v). (k, v)) (?head @ ?body)))"
    using assms(1) id by (intro members_denote)
      (auto simp: ascii_def response_wire_ok_def version_denotes dump_denotes error_text_denotes
        null_denotes pred_option_Some split: option.splits)
  with assms show ?thesis
    by (auto simp: serialize_response_text response_head_def response_document_def response_wire_ok_def
        split: option.splits)
qed

lemmas text_denotes = request_text_denotes notification_text_denotes response_text_denotes

lemma parse_denoted:
  "denotes t doc \<Longrightarrow> is_object doc \<Longrightarrow> document_within_limits doc \<Longrightarrow>
   parse_message parse t = message_from_document doc"
  by (rule parse_message_of_document) (auto dest: parse_denotes)

lemma request_wire_roundtrip:
  assumes "request_wire_ok representable r" "serialize_message dump (MsgRequest r) = Inr t"
  shows "parse_message parse t = Inr (MsgRequest (wire_request r))"
  using assms text_denotes(1) [of r t] request_from_wire [of representable r]
  by (auto simp: request_wire_ok_def request_document_def intro!: trans [OF parse_denoted])

lemma notification_wire_roundtrip:
  assumes "notification_wire_ok representable n" "serialize_message dump (MsgNotification n) = Inr t"
  shows "parse_message parse t = Inr (MsgNotification (wire_notification n))"
  using assms text_denotes(2) [of n t] notification_from_wire [of representable n]
  by (auto simp: notification_wire_ok_def notification_document_def intro!: trans [OF parse_denoted])

lemma response_wire_roundtrip:
  assumes "response_wire_ok representable r" "serialize_message dump (MsgResponse r) = Inr t"
  shows "parse_message parse t = Inr (MsgResponse (wire_response r))"
  using assms text_denotes(3) [of r t] response_from_wire [of representable r]
  by (auto simp: response_wire_ok_def response_document_def intro!: trans [OF parse_denoted])

end

section \<open>Messages of every shape\<close>

fun message_wire_ok :: "(json \<Rightarrow> bool) \<Rightarrow> json_rpc_message \<Rightarrow> bool" where
  "message_wire_ok representable (MsgRequest r) = request_wire_ok representable r"
| "message_wire_ok representable (MsgResponse r) = response_wire_ok representable r"
| "message_wire_ok representable (MsgNotification n) = notification_wire_ok representable n"

fun wire_message :: "json_rpc_message \<Rightarrow> json_rpc_message" where
  "wire_message (MsgRequest r) = MsgRequest (wire_request r)"
| "wire_message (MsgResponse r) = MsgResponse (wire_response r)"
| "wire_message (MsgNotification n) = MsgNotification (wire_notification n)"

lemma serialize_message_total:
  "message_wire_ok representable m \<Longrightarrow> \<exists>t. serialize_message dump m = Inr t"
  by (cases m) (auto simp: serialize_request_text serialize_notification_text serialize_response_text
      request_wire_ok_def notification_wire_ok_def response_wire_ok_def payload_ok_def
      split: sum.splits option.splits)

text \<open>The errors of the readers: always category \<open>protocol\<close>, always \<open>InvalidRequest\<close>.\<close>

definition reader_error :: "core_error \<Rightarrow> bool" where
  "reader_error e \<longleftrightarrow> err_category e = ''protocol'' \<and> err_code e = error_code InvalidRequest"

lemma reader_error_invalid_request [simp]: "reader_error (invalid_request m)"
  by (simp add: reader_error_def make_protocol_error_def)

lemma validate_frames_error: "validate_frames st n s c = Inl e \<Longrightarrow> reader_error e"
  by (induction st n s c rule: validate_frames.induct)
     (auto simp: validate_frames.simps(2) split: if_splits json.splits option.splits)

lemma message_from_document_error:
  assumes "message_from_document doc = Inl e"
  shows "reader_error e"
  using assms
  by (auto simp: message_from_document_def validate_jsonrpc_version_def has_member_def jcontains_def
      request_from_document_def notification_from_document_def response_from_document_def
      method_from_document_def params_from_document_or_empty_def meta_from_params_def Let_def
      required_request_id_from_document_def response_id_from_document_def meta_from_document_def
      error_object_from_json_def rbind_eq_Inl split: if_splits option.splits)

section \<open>Properties of the wire format\<close>

text \<open>C1: \<open>validate_json_document_limits\<close>, a loop over an explicit stack with early returns,
  accepts a document exactly when its depth, its node count, the bytes of its strings and keys
  and its collection entries are within the four limits, whatever the traversal order.\<close>

theorem validate_json_document_limits_exact:
  "is_ok (validate_json_document_limits j) \<longleftrightarrow> document_within_limits j"
  by (rule validate_limits_ok_iff)

text \<open>C2: every well-formed request, response or notification serialises to text, and parsing
  that text gives the message back, with \<open>_meta\<close> merged into the params and integers in the
  representation the parser produces, for every JSON codec that meets the interface.\<close>

theorem serialize_parse_roundtrip:
  assumes "json_codec dump parse representable denotes"
    and "message_wire_ok representable m"
  shows "\<exists>t. serialize_message dump m = Inr t \<and> parse_message parse t = Inr (wire_message m)"
proof -
  obtain t where t: "serialize_message dump m = Inr t"
    using serialize_message_total [OF assms(2)] by blast
  moreover have "parse_message parse t = Inr (wire_message m)"
    using t assms(2) json_codec.request_wire_roundtrip [OF assms(1)]
      json_codec.response_wire_roundtrip [OF assms(1)] json_codec.notification_wire_roundtrip [OF assms(1)]
    by (cases m) auto
  ultimately show ?thesis by blast
qed

text \<open>C3: parsing fails with \<open>ParseError\<close> exactly when the text is not JSON; every other
  failure is an \<open>InvalidRequest\<close>, and all of them carry the category \<open>protocol\<close>.\<close>

theorem parse_message_error_codes:
  "case parse_message parse t of
     Inr m \<Rightarrow> parse t \<noteq> None
   | Inl e \<Rightarrow> err_category e = ''protocol'' \<and>
       err_code e = (if parse t = None then error_code ParseError else error_code InvalidRequest) \<and>
       (parse t = None \<longleftrightarrow> err_code e = error_code ParseError)"
proof (cases "parse_message parse t")
  case (Inl e)
  have "(parse t = None \<and> e = make_protocol_error (error_code ParseError) ''Invalid JSON'' []) \<or>
      (parse t \<noteq> None \<and> reader_error e)"
    using Inl by (auto simp: parse_message_def parse_json_document_def validate_json_document_limits_def
        rbind_eq_Inl split: option.splits if_splits
        dest: validate_frames_error message_from_document_error)
  moreover have "error_code ParseError \<noteq> error_code InvalidRequest" by code_simp
  ultimately show ?thesis using Inl by (auto simp: reader_error_def make_protocol_error_def)
next
  case (Inr m)
  then show ?thesis by (auto simp: parse_message_def parse_json_document_def split: option.splits)
qed

text \<open>What an accepted message was on the wire. The text is a JSON object within the limits
  that declares version 2.0; a request has a non-empty method and the id it is given back; a
  notification has a method and no id; a response has no method and exactly one of result and error.\<close>

theorem parse_message_classification:
  assumes "parse_message parse t = Inr m"
  shows "\<exists>doc. parse t = Some doc \<and> is_object doc \<and> document_within_limits doc \<and>
    jfind doc ''jsonrpc'' = Some (JString ''2.0'') \<and>
    (case m of
       MsgRequest r \<Rightarrow>
         req_method r \<noteq> [] \<and> jfind doc ''method'' = Some (JString (req_method r)) \<and>
         Option.bind (jfind doc ''id'') request_id_from_json = Some (req_id r) \<and>
         (is_object (req_params r) \<or> is_array (req_params r))
     | MsgNotification n \<Rightarrow>
         notif_method n \<noteq> [] \<and> jfind doc ''method'' = Some (JString (notif_method n)) \<and>
         jfind doc ''id'' = None \<and> (is_object (notif_params n) \<or> is_array (notif_params n))
     | MsgResponse r \<Rightarrow>
         jfind doc ''method'' = None \<and> jfind doc ''id'' \<noteq> None \<and> has_result r \<noteq> has_error r)"
proof -
  obtain doc where doc: "parse t = Some doc" "is_object doc" "message_from_document doc = Inr m"
    "is_ok (validate_json_document_limits doc)"
    using assms by (auto simp: parse_message_def parse_json_document_def rbind_eq_Inr is_ok_iff
        split: option.splits if_splits)
  have v: "jfind doc ''jsonrpc'' = Some (JString ''2.0'')"
    using doc(3) by (auto simp: message_from_document_def validate_jsonrpc_version_def rbind_eq_Inr
        JsonRpcVersion_def get_string_Some split: option.splits if_splits)
  have k: "case m of MsgRequest r \<Rightarrow> request_from_document doc = Inr r
     | MsgNotification n \<Rightarrow> notification_from_document doc = Inr n \<and> jfind doc ''id'' = None
     | MsgResponse r \<Rightarrow> response_from_document doc = Inr r \<and> jfind doc ''method'' = None \<and>
         (jfind doc ''result'' = None) \<noteq> (jfind doc ''error'' = None)"
    using doc(3) by (auto simp: message_from_document_def rbind_eq_Inr has_member_def jcontains_def
        split: if_splits)
  have "case m of
       MsgRequest r \<Rightarrow>
         req_method r \<noteq> [] \<and> jfind doc ''method'' = Some (JString (req_method r)) \<and>
         Option.bind (jfind doc ''id'') request_id_from_json = Some (req_id r) \<and>
         (is_object (req_params r) \<or> is_array (req_params r))
     | MsgNotification n \<Rightarrow>
         notif_method n \<noteq> [] \<and> jfind doc ''method'' = Some (JString (notif_method n)) \<and>
         jfind doc ''id'' = None \<and> (is_object (notif_params n) \<or> is_array (notif_params n))
     | MsgResponse r \<Rightarrow>
         jfind doc ''method'' = None \<and> jfind doc ''id'' \<noteq> None \<and> has_result r \<noteq> has_error r"
    using k by (cases m) (auto simp: request_from_document_def notification_from_document_def
        response_from_document_def method_from_document_def params_from_document_or_empty_def Let_def
        required_request_id_from_document_def response_id_from_document_def rbind_eq_Inr get_string_Some
        has_result_def has_error_def split: option.splits if_splits)
  with doc v show ?thesis by (auto simp: validate_limits_ok_iff)
qed

text \<open>serialisation fails in exactly two situations: \<open>_meta\<close> on params that are neither an
  object nor null, and a response with neither result nor error.\<close>

theorem serialize_message_fails_iff:
  "is_ok (serialize_message dump m) \<longleftrightarrow>
     (case m of
        MsgRequest r \<Rightarrow> req_meta r = None \<or> is_object (req_params r) \<or> is_null (req_params r)
      | MsgNotification n \<Rightarrow> notif_meta n = None \<or> is_object (notif_params n) \<or> is_null (notif_params n)
      | MsgResponse r \<Rightarrow> \<not> (resp_result r = None \<and> resp_error r = None))"
proof -
  have p: "is_ok (rbind (params_with_meta p meta) (\<lambda>q. Inr (f q))) \<longleftrightarrow>
      meta = None \<or> is_object p \<or> is_null p" for p meta and f :: "json \<Rightarrow> string"
    by (cases meta) (auto simp: params_with_meta_def normalized_params_def Let_def)
  show ?thesis
    by (cases m) (auto simp: serialize_request_text serialize_notification_text
        serialize_response_text p split: option.splits)
qed

text \<open>The id of a request read from text is the id written into its response, except that
  an unsigned id of \<open>2 ^ 63\<close> or more is read into a signed 64-bit integer and comes back as a
  different, negative number.\<close>

theorem request_id_echo_iff:
  assumes "json_norm j = j" "request_id_from_json j = Some i"
  shows "json_norm (request_id_to_json i) = j \<longleftrightarrow> (\<forall>w. j = JUInt w \<longrightarrow> 0 \<le> sint w)"
  using assms by (cases j) (auto split: if_splits)

end
