(* ===== verification/Json_Text.thy ===== *)
theory Json_Text
  imports Serialization
begin

text \<open>
  A concrete JSON text codec that satisfies the interface \<open>json_codec\<close>: the compact printer
  with the escapes of the JSON grammar and a recursive-descent reader with fuel. It covers the
  documents without floating-point members and with ASCII strings; it is the instance on which
  the wire round trips are shown to be non-vacuous. The reader's fuel is the length of the text
  plus one: every nested call follows at least one consumed character.
\<close>

section \<open>Printing\<close>

definition hex_char :: "nat \<Rightarrow> char" where
  "hex_char n = char_of (if n < 10 then 48 + n else 87 + n)"

definition escape_char :: "char \<Rightarrow> string" where
  "escape_char c =
     (if c = CHR 0x22 then [CHR 0x5C, CHR 0x22]
      else if c = CHR 0x5C then [CHR 0x5C, CHR 0x5C]
      else if (of_char c :: nat) < 32
      then [CHR 0x5C, CHR ''u'', CHR ''0'', CHR ''0'', hex_char (of_char c div 16), hex_char (of_char c mod 16)]
      else [c])"

definition dump_string :: "string \<Rightarrow> string" where
  "dump_string s = CHR 0x22 # concat (map escape_char s) @ [CHR 0x22]"

fun json_dump :: "(64 word \<Rightarrow> string) \<Rightarrow> json \<Rightarrow> string" where
  "json_dump dump_float JNull = ''null''"
| "json_dump dump_float (JBool b) = (if b then ''true'' else ''false'')"
| "json_dump dump_float (JInt i) = int_to_string (sint i)"
| "json_dump dump_float (JUInt i) = nat_to_string (unat i)"
| "json_dump dump_float (JFloat d) = dump_float d"
| "json_dump dump_float (JString s) = dump_string s"
| "json_dump dump_float (JArray xs) = ''['' @ join_comma (map (json_dump dump_float) xs) @ '']''"
| "json_dump dump_float (JObject kvs) =
     ''{'' @ join_comma (map (\<lambda>kv. dump_string (fst kv) @ '':'' @ json_dump dump_float (snd kv)) kvs) @ ''}''"

section \<open>Reading\<close>

fun skip_ws :: "string \<Rightarrow> string" where
  "skip_ws [] = []"
| "skip_ws (c # cs) = (if c \<in> {CHR '' '', CHR 0x09, CHR 0x0A, CHR 0x0D} then skip_ws cs else c # cs)"

definition hex_value :: "char \<Rightarrow> nat option" where
  "hex_value c =
     (let n = of_char c :: nat in
      if 48 \<le> n \<and> n \<le> 57 then Some (n - 48)
      else if 97 \<le> n \<and> n \<le> 102 then Some (n - 87)
      else if 65 \<le> n \<and> n \<le> 70 then Some (n - 55)
      else None)"

definition simple_escape :: "char \<Rightarrow> char option" where
  "simple_escape c =
     map_of [(CHR 0x22, CHR 0x22), (CHR 0x5C, CHR 0x5C), (CHR ''/'', CHR ''/''), (CHR ''b'', CHR 0x08),
             (CHR ''f'', CHR 0x0C), (CHR ''n'', CHR 0x0A), (CHR ''r'', CHR 0x0D), (CHR ''t'', CHR 0x09)] c"

definition unicode_escape :: "string \<Rightarrow> char option" where
  "unicode_escape h =
     (case map hex_value h of
        [Some a, Some b, Some c, Some d] \<Rightarrow>
          (let n = ((a * 16 + b) * 16 + c) * 16 + d in if n < 128 then Some (char_of n) else None)
      | _ \<Rightarrow> None)"

text \<open>The characters of a string literal after its opening quote.\<close>

fun parse_string :: "string \<Rightarrow> (string \<times> string) option" where
  "parse_string [] = None"
| "parse_string (c # cs) =
     (if c = CHR 0x22 then Some ([], cs)
      else if c = CHR 0x5C
      then (case cs of
              [] \<Rightarrow> None
            | e # cs' \<Rightarrow>
                if e = CHR ''u''
                then (case unicode_escape (take 4 cs') of
                        None \<Rightarrow> None
                      | Some d \<Rightarrow> map_option (\<lambda>(s, r). (d # s, r)) (parse_string (drop 4 cs')))
                else (case simple_escape e of
                        None \<Rightarrow> None
                      | Some d \<Rightarrow> map_option (\<lambda>(s, r). (d # s, r)) (parse_string cs')))
      else if (of_char c :: nat) < 32 then None
      else map_option (\<lambda>(s, r). (c # s, r)) (parse_string cs))"

definition parse_nat :: "string \<Rightarrow> (nat \<times> string) option" where
  "parse_nat s =
     (let ds = takeWhile is_digit s; r = dropWhile is_digit s in
      if ds = [] \<or> (length ds > 1 \<and> hd ds = CHR ''0'') then None
      else if r \<noteq> [] \<and> hd r \<in> {CHR ''.'', CHR ''e'', CHR ''E''} then None
      else Some (dec_value ds, r))"

text \<open>An integer literal out of the 64-bit range would become a double: outside this instance.\<close>

definition parse_number :: "string \<Rightarrow> (json \<times> string) option" where
  "parse_number s =
     (case s of
        [] \<Rightarrow> None
      | c # cs \<Rightarrow>
          if c = CHR ''-''
          then (case parse_nat cs of
                  None \<Rightarrow> None
                | Some (n, r) \<Rightarrow> if n \<le> 2 ^ 63 then Some (JInt (- of_nat n), r) else None)
          else (case parse_nat s of
                  None \<Rightarrow> None
                | Some (n, r) \<Rightarrow> if n < 2 ^ 64 then Some (JUInt (of_nat n), r) else None))"

definition parse_literal :: "string \<Rightarrow> (json \<times> string) option" where
  "parse_literal s =
     (if starts_with s ''null'' then Some (JNull, drop 4 s)
      else if starts_with s ''true'' then Some (JBool True, drop 4 s)
      else if starts_with s ''false'' then Some (JBool False, drop 5 s)
      else parse_number s)"

fun parse_value :: "nat \<Rightarrow> string \<Rightarrow> (json \<times> string) option"
and parse_elems :: "nat \<Rightarrow> json list \<Rightarrow> string \<Rightarrow> (json \<times> string) option"
and parse_members :: "nat \<Rightarrow> json \<Rightarrow> string \<Rightarrow> (json \<times> string) option" where
  "parse_value 0 s = None"
| "parse_value (Suc n) s =
     (case skip_ws s of
        [] \<Rightarrow> None
      | c # cs \<Rightarrow>
          if c = CHR 0x22 then map_option (\<lambda>(t, r). (JString t, r)) (parse_string cs)
          else if c = CHR ''[''
          then (case skip_ws cs of
                  [] \<Rightarrow> None
                | d # ds \<Rightarrow> if d = CHR '']'' then Some (JArray [], ds) else parse_elems n [] (d # ds))
          else if c = CHR ''{''
          then (case skip_ws cs of
                  [] \<Rightarrow> None
                | d # ds \<Rightarrow> if d = CHR ''}'' then Some (empty_object, ds)
                            else parse_members n empty_object (d # ds))
          else parse_literal (c # cs))"
| "parse_elems 0 acc s = None"
| "parse_elems (Suc n) acc s =
     (case parse_value n s of
        None \<Rightarrow> None
      | Some (v, r) \<Rightarrow>
          (case skip_ws r of
             [] \<Rightarrow> None
           | d # ds \<Rightarrow>
               if d = CHR '','' then parse_elems n (acc @ [v]) ds
               else if d = CHR '']'' then Some (JArray (acc @ [v]), ds)
               else None))"
| "parse_members 0 acc s = None"
| "parse_members (Suc n) acc s =
     (case skip_ws s of
        [] \<Rightarrow> None
      | q # cs \<Rightarrow>
          if q \<noteq> CHR 0x22 then None
          else case parse_string cs of
            None \<Rightarrow> None
          | Some (k, r) \<Rightarrow>
              (case skip_ws r of
                 [] \<Rightarrow> None
               | d # ds \<Rightarrow>
                   if d \<noteq> CHR '':'' then None
                   else case parse_value n ds of
                     None \<Rightarrow> None
                   | Some (v, r') \<Rightarrow>
                       (case skip_ws r' of
                          [] \<Rightarrow> None
                        | e # es \<Rightarrow>
                            if e = CHR '','' then parse_members n (jset acc k v) es
                            else if e = CHR ''}'' then Some (jset acc k v, es)
                            else None)))"

definition json_parse :: "string \<Rightarrow> json option" where
  "json_parse s =
     (case parse_value (Suc (length s)) s of
        None \<Rightarrow> None
      | Some (j, r) \<Rightarrow> if skip_ws r = [] then Some j else None)"

section \<open>The reader inverts the printer\<close>

text \<open>A value text may be followed by the end of the input or by a structural character.\<close>

definition delimited :: "string \<Rightarrow> bool" where
  "delimited r \<longleftrightarrow> (case r of [] \<Rightarrow> True | c # _ \<Rightarrow> c \<in> {CHR '','', CHR '']'', CHR ''}''})"

definition text_denotes :: "string \<Rightarrow> json \<Rightarrow> bool" where
  "text_denotes t j \<longleftrightarrow>
     t \<noteq> [] \<and> (\<forall>n r. length t \<le> n \<longrightarrow> delimited r \<longrightarrow> parse_value n (t @ r) = Some (j, r)) \<and>
     hd t \<notin> {CHR '' '', CHR 0x09, CHR 0x0A, CHR 0x0D, CHR '']'', CHR ''}''}"

fun json_representable :: "json \<Rightarrow> bool" where
  "json_representable (JFloat _) = False"
| "json_representable (JString s) = ascii s"
| "json_representable (JArray xs) = (\<forall>x \<in> set xs. json_representable x)"
| "json_representable (JObject kvs) =
     (keys_sorted kvs \<and> (\<forall>kv \<in> set kvs. ascii (fst kv) \<and> json_representable (snd kv)))"
| "json_representable _ = True"

declare parse_string.simps [simp del] parse_value.simps [simp del] parse_members.simps [simp del]
  parse_elems.simps [simp del]

lemma hex_value_hex_char [simp]: "n < 16 \<Longrightarrow> hex_value (hex_char n) = Some n"
  by (auto simp: hex_value_def hex_char_def Let_def)

lemma parse_string_escape_char:
  "parse_string (escape_char c @ cs) = map_option (\<lambda>(s, r). (c # s, r)) (parse_string cs)"
proof (cases "c = CHR 0x22 \<or> c = CHR 0x5C \<or> (of_char c :: nat) \<ge> 32")
  case True
  then show ?thesis
    by (auto simp: escape_char_def simple_escape_def parse_string.simps(2))
next
  case False
  then have n: "(of_char c :: nat) < 32" by simp
  let ?n = "of_char c :: nat"
  have "unicode_escape [CHR ''0'', CHR ''0'', hex_char (?n div 16), hex_char (?n mod 16)] = Some c"
    using n by (simp add: unicode_escape_def hex_value_def [of "CHR ''0''"] Let_def)
  with False n show ?thesis
    by (simp add: escape_char_def parse_string.simps)
qed

lemma parse_string_dump:
  "parse_string (concat (map escape_char s) @ CHR 0x22 # r) = Some (s, r)"
  by (induction s) (simp_all add: parse_string_escape_char parse_string.simps(2))

lemma skip_ws_id: "s \<noteq> [] \<Longrightarrow> hd s \<notin> {CHR '' '', CHR 0x09, CHR 0x0A, CHR 0x0D} \<Longrightarrow> skip_ws s = s"
  by (cases s) auto

lemma skip_ws_delimited: "delimited r \<Longrightarrow> skip_ws r = r"
  by (cases r) (auto simp: delimited_def)

lemma text_denotesI:
  assumes "t \<noteq> []" "hd t \<notin> {CHR '' '', CHR 0x09, CHR 0x0A, CHR 0x0D, CHR '']'', CHR ''}''}"
    "\<And>n r. length t \<le> Suc n \<Longrightarrow> delimited r \<Longrightarrow> parse_value (Suc n) (t @ r) = Some (j, r)"
  shows "text_denotes t j"
  unfolding text_denotes_def
proof (intro conjI allI impI)
  fix n r assume "length t \<le> n" "delimited r"
  with assms show "parse_value n (t @ r) = Some (j, r)" by (cases n) auto
qed (use assms skip_ws_id in auto)

lemma text_denotesD:
  assumes "text_denotes t j"
  shows "length t \<le> n \<Longrightarrow> delimited r \<Longrightarrow> parse_value n (t @ r) = Some (j, r)" "t \<noteq> []"
    "skip_ws (t @ r) = t @ r" "hd t \<notin> {CHR '']'', CHR ''}''}"
  using assms by (auto simp: text_denotes_def intro: skip_ws_id)

lemma string_denotes: "text_denotes (dump_string s) (JString s)"
  by (rule text_denotesI) (auto simp: dump_string_def parse_value.simps parse_string_dump)

lemma parse_nat_digits:
  assumes "ds \<noteq> []" "\<forall>c \<in> set ds. is_digit c" "length ds = 1 \<or> hd ds \<noteq> CHR ''0''" "delimited r"
  shows "parse_nat (ds @ r) = Some (dec_value ds, r)"
proof -
  have split: "takeWhile is_digit (ds @ r) = ds" "dropWhile is_digit (ds @ r) = r"
    using assms(2,4) by (cases r; auto simp: delimited_def is_digit_iff takeWhile_append2)+
  have "r = [] \<or> hd r \<notin> {CHR ''.'', CHR ''e'', CHR ''E''}"
    using assms(4) by (cases r) (auto simp: delimited_def)
  with assms(1,3) show ?thesis
    unfolding parse_nat_def Let_def split by auto
qed

lemma nat_to_string_head: "length (nat_to_string n) = 1 \<or> hd (nat_to_string n) \<noteq> CHR ''0''"
proof (induction n rule: nat_to_string.induct)
  case (1 n)
  show ?case
  proof (cases "n < 100")
    case True
    then have "digit_char (n div 10) \<noteq> CHR ''0''" if "10 \<le> n"
      using that by (auto simp: digit_char_def dest: arg_cong [where f = "of_char :: char \<Rightarrow> nat"])
    with True show ?thesis
      by (auto simp: nat_to_string.simps [of n] nat_to_string.simps [of "n div 10"])
  next
    case False
    then have "length (nat_to_string (n div 10)) \<noteq> 1"
      by (auto simp: nat_to_string.simps [of "n div 10"])
    with 1 False show ?thesis by (auto simp: nat_to_string.simps [of n])
  qed
qed

lemma parse_nat_to_string: "delimited r \<Longrightarrow> parse_nat (nat_to_string n @ r) = Some (n, r)"
  by (subst parse_nat_digits) (use nat_to_string_digits nat_to_string_head in auto)

text \<open>Numbers and literals.\<close>

lemma digit_not_special:
  assumes "is_digit c"
  shows "c \<noteq> CHR 0x22" "c \<noteq> CHR ''[''" "c \<noteq> CHR ''{''" "c \<noteq> CHR ''n''" "c \<noteq> CHR ''t''" "c \<noteq> CHR ''f''"
    "c \<noteq> CHR ''-''" "c \<noteq> CHR '']''" "c \<noteq> CHR ''}''" "c \<noteq> CHR '' ''" "c \<noteq> CHR 0x09" "c \<noteq> CHR 0x0A" "c \<noteq> CHR 0x0D"
  using assms by (auto simp: is_digit_iff)

lemma nat_to_string_Cons: "\<exists>c cs. nat_to_string n = c # cs \<and> is_digit c"
  using nat_to_string_digits [of n] nat_to_string_not_Nil [of n] by (cases "nat_to_string n") auto

lemma parse_value_literal:
  assumes "c \<notin> {CHR '' '', CHR 0x09, CHR 0x0A, CHR 0x0D, CHR 0x22, CHR ''['', CHR ''{''}"
  shows "parse_value (Suc n) (c # cs) = parse_literal (c # cs)"
  using assms by (auto simp: parse_value.simps)

lemma uint_denotes: "text_denotes (nat_to_string (unat w)) (JUInt w)"
proof (rule text_denotesI)
  obtain c cs where c: "nat_to_string (unat w) = c # cs" "is_digit c"
    using nat_to_string_Cons by blast
  note d = digit_not_special [OF c(2)]
  show "hd (nat_to_string (unat w)) \<notin> {CHR '' '', CHR 0x09, CHR 0x0A, CHR 0x0D, CHR '']'', CHR ''}''}"
    using c d by simp
  fix n r assume r: "delimited r"
  have "parse_literal (c # cs @ r) = parse_number (c # cs @ r)"
    using d by (simp add: parse_literal_def starts_with_iff)
  also have "\<dots> = Some (JUInt w, r)"
    using d parse_nat_to_string [OF r, of "unat w"] c unsigned_less [of w]
    by (auto simp: parse_number_def)
  finally show "parse_value (Suc n) (nat_to_string (unat w) @ r) = Some (JUInt w, r)"
    using c d by (simp add: parse_value_literal)
qed simp

lemma sint_nonneg_unat: "nat (sint w) = unat w" if "0 \<le> sint w" for w :: int64
proof -
  have "uint w = sint w mod 2 ^ 64"
    using uint_word_of_int [of "sint w", where 'a = 64] by simp
  also have "\<dots> = sint w" using that sint_lt [of w] by simp
  finally show ?thesis by (simp flip: nat_uint_eq)
qed

lemma int_denotes: "text_denotes (int_to_string (sint i)) (json_norm (JInt i))"
proof (cases "0 \<le> sint i")
  case True
  then show ?thesis
    using uint_denotes [of i] by (simp add: int_to_string_def sint_nonneg_unat)
next
  case False
  let ?n = "nat (- sint i)"
  have n: "?n \<le> 2 ^ 63" using sint_ge [of i] by simp
  have v: "- of_nat ?n = i" using False by (simp add: of_nat_nat)
  have "text_denotes (CHR ''-'' # nat_to_string ?n) (JInt i)"
  proof (rule text_denotesI)
    fix m r assume r: "delimited r"
    have "parse_literal (CHR ''-'' # nat_to_string ?n @ r) = parse_number (CHR ''-'' # nat_to_string ?n @ r)"
      by (simp add: parse_literal_def starts_with_iff)
    also have "\<dots> = Some (JInt i, r)"
      using parse_nat_to_string [OF r, of ?n] n v by (simp add: parse_number_def)
    finally show "parse_value (Suc m) ((CHR ''-'' # nat_to_string ?n) @ r) = Some (JInt i, r)"
      by (simp add: parse_value_literal)
  qed simp_all
  with False show ?thesis by (simp add: int_to_string_def)
qed

lemma literal_denotes:
  "text_denotes ''null'' JNull" "text_denotes ''true'' (JBool True)" "text_denotes ''false'' (JBool False)"
  by (rule text_denotesI; simp add: parse_value_literal parse_literal_def starts_with_def)+

text \<open>Arrays and objects.\<close>

lemma delimited_simps [simp]:
  "delimited (CHR '','' # r)" "delimited (CHR '']'' # r)" "delimited (CHR ''}'' # r)" "delimited []"
  by (simp_all add: delimited_def)

lemma join_comma_Cons: "ps \<noteq> [] \<Longrightarrow> join_comma (x # ps) = x @ '','' @ join_comma ps"
  by (cases ps) auto

lemma parse_elems_denotes:
  assumes "ps \<noteq> []" "\<forall>p \<in> set ps. text_denotes (fst p) (snd p)"
    "length (join_comma (map fst ps)) < n"
  shows "parse_elems n acc (join_comma (map fst ps) @ CHR '']'' # r) = Some (JArray (acc @ map snd ps), r)"
  using assms
proof (induction ps arbitrary: n acc)
  case (Cons p ps)
  obtain m where n: "n = Suc m" using Cons.prems(3) by (cases n) auto
  obtain t v where p: "p = (t, v)" by (cases p)
  have t: "text_denotes t v" using Cons.prems(2) p by simp
  show ?case
  proof (cases "ps = []")
    case True
    with Cons.prems(3) show ?thesis
      by (simp add: p n parse_elems.simps text_denotesD(1) [OF t])
  next
    case False
    then have "length t \<le> m" "length (join_comma (map fst ps)) < m"
      using Cons.prems(3) by (auto simp: p n join_comma_Cons)
    with False Cons.IH [of m "acc @ [v]"] Cons.prems(2) show ?thesis
      by (simp add: p n parse_elems.simps text_denotesD(1) [OF t] join_comma_Cons)
  qed
qed simp

lemma parse_members_denotes:
  assumes "ps \<noteq> []" "\<forall>(k, t, v) \<in> set ps. text_denotes t v"
    "length (join_comma (map (\<lambda>(k, t, v). dump_string k @ '':'' @ t) ps)) < n"
  shows "parse_members n acc (join_comma (map (\<lambda>(k, t, v). dump_string k @ '':'' @ t) ps) @ CHR ''}'' # r) =
           Some (foldl (\<lambda>j (k, t, v). jset j k v) acc ps, r)"
  using assms
proof (induction ps arbitrary: n acc)
  case (Cons p ps)
  obtain m where n: "n = Suc m" using Cons.prems(3) by (cases n) auto
  obtain k t v where p: "p = (k, t, v)" by (cases p)
  have t: "text_denotes t v" using Cons.prems(2) p by simp
  have key: "parse_string (concat (map escape_char k) @ CHR 0x22 # CHR '':'' # x) = Some (k, CHR '':'' # x)" for x
    using parse_string_dump [of k "CHR '':'' # x"] by simp
  show ?case
  proof (cases "ps = []")
    case True
    with Cons.prems(3) show ?thesis
      by (simp add: p n parse_members.simps dump_string_def key text_denotesD(1) [OF t])
  next
    case False
    then have "length t \<le> m" "length (join_comma (map (\<lambda>(k, t, v). dump_string k @ '':'' @ t) ps)) < m"
      using Cons.prems(3) by (auto simp: p n join_comma_Cons)
    with False Cons.IH [of m "jset acc k v"] Cons.prems(2) show ?thesis
      by (simp add: p n parse_members.simps dump_string_def key text_denotesD(1) [OF t] join_comma_Cons)
  qed
qed simp

lemma join_comma_head:
  "ts \<noteq> [] \<Longrightarrow> hd ts \<noteq> [] \<Longrightarrow> \<exists>c cs. join_comma ts = c # cs \<and> c = hd (hd ts)"
  by (cases ts rule: join_comma.cases) (auto simp: neq_Nil_conv)

lemma array_denotes:
  assumes "\<forall>p \<in> set ps. text_denotes (fst p) (snd p)"
  shows "text_denotes (''['' @ join_comma (map fst ps) @ '']'') (JArray (map snd ps))"
proof (rule text_denotesI)
  fix n r assume n: "length (''['' @ join_comma (map fst ps) @ '']'') \<le> Suc n"
  show "parse_value (Suc n) ((''['' @ join_comma (map fst ps) @ '']'') @ r) = Some (JArray (map snd ps), r)"
  proof (cases "ps = []")
    case False
    then have d: "text_denotes (hd (map fst ps)) (snd (hd ps))" using assms by (cases ps) auto
    obtain c cs where c: "join_comma (map fst ps) = c # cs" "c = hd (hd (map fst ps))"
      using join_comma_head [of "map fst ps"] text_denotesD(2) [OF d] False by auto
    have "c \<notin> {CHR '' '', CHR 0x09, CHR 0x0A, CHR 0x0D, CHR '']''}"
      using d c(2) by (auto simp: text_denotes_def)
    then show ?thesis
      using parse_elems_denotes [OF False assms, of n "[]" r] n
      by (simp add: c(1) parse_value.simps)
  qed (simp add: parse_value.simps)
qed auto

lemma members_text_denotes:
  assumes "\<forall>(k, t, v) \<in> set ps. text_denotes t v"
  shows "text_denotes (''{'' @ join_comma (map (\<lambda>(k, t, v). dump_string k @ '':'' @ t) ps) @ ''}'')
           (object_of (map (\<lambda>(k, t, v). (k, v)) ps))"
proof (rule text_denotesI)
  let ?ts = "map (\<lambda>(k, t, v). dump_string k @ '':'' @ t) ps"
  have o: "object_of (map (\<lambda>(k, t, v). (k, v)) ps) = foldl (\<lambda>j (k, t, v). jset j k v) empty_object ps"
    by (simp add: object_of_def foldl_map case_prod_unfold)
  fix n r assume n: "length (''{'' @ join_comma ?ts @ ''}'') \<le> Suc n"
  show "parse_value (Suc n) ((''{'' @ join_comma ?ts @ ''}'') @ r) = Some (object_of (map (\<lambda>(k, t, v). (k, v)) ps), r)"
  proof (cases "ps = []")
    case False
    then obtain cs where c: "join_comma ?ts = CHR 0x22 # cs"
      using join_comma_head [of ?ts] by (cases ps) (auto simp: dump_string_def)
    show ?thesis
      using parse_members_denotes [OF False assms, of n empty_object r] n
      by (simp add: c [simplified] o parse_value.simps)
  qed (simp add: parse_value.simps object_of_def)
qed auto

lemma map_of_rev_distinct: "distinct (map fst kvs) \<Longrightarrow> map_of (rev kvs) = map_of kvs"
  by (subst map_of_inject_set) (simp_all add: rev_map [symmetric])

lemma object_of_sorted: "keys_sorted kvs \<Longrightarrow> object_of kvs = JObject kvs"
proof (rule jwf_ext)
  have "jwf j \<Longrightarrow> jwf (foldl (\<lambda>j kv. jset j (fst kv) (snd kv)) j kvs)" for j
    by (induction kvs arbitrary: j) auto
  then show "jwf (object_of kvs)" by (simp add: object_of_def)
  assume "keys_sorted kvs"
  then show "jwf (JObject kvs)" by simp
  fix k
  from \<open>keys_sorted kvs\<close> show "jfind (object_of kvs) k = jfind (JObject kvs) k"
    by (simp add: jfind_object_of map_of_rev_distinct keys_sorted_distinct)
qed

lemma keys_sorted_map_snd: "keys_sorted (map (\<lambda>kv. (fst kv, f (snd kv))) kvs) = keys_sorted kvs"
  by (simp add: keys_sorted_def comp_def)

lemma json_dump_denotes: "json_representable j \<Longrightarrow> text_denotes (json_dump dump_float j) (json_norm j)"
proof (induction j)
  case (JArray xs)
  then show ?case
    using array_denotes [of "map (\<lambda>x. (json_dump dump_float x, json_norm x)) xs"]
    by (simp add: comp_def)
next
  case (JObject kvs)
  let ?ps = "map (\<lambda>kv. (fst kv, json_dump dump_float (snd kv), json_norm (snd kv))) kvs"
  have "\<forall>(k, t, v) \<in> set ?ps. text_denotes t v" using JObject by force
  from members_text_denotes [OF this] JObject.prems show ?case
    by (simp add: comp_def object_of_sorted keys_sorted_map_snd)
qed (simp_all add: literal_denotes int_denotes uint_denotes string_denotes del: json_norm.simps(1))

interpretation text_codec: json_codec "json_dump dump_float" json_parse json_representable text_denotes
  for dump_float
proof (unfold_locales, goal_cases)
  case (1 j)
  then show ?case by (rule json_dump_denotes)
next
  case (2 ms)
  then have "\<forall>(k, t, v) \<in> set ms. text_denotes t v" by auto
  from members_text_denotes [OF this] show ?case
    by (simp add: object_text_def case_prod_unfold comp_def)
next
  case (3 t j)
  then show ?case
    using text_denotesD(1) [OF 3, of "Suc (length t)" "[]"] by (simp add: json_parse_def)
qed simp_all

section \<open>The wire theorems on this codec\<close>

definition sample_request :: json_rpc_request where
  "sample_request =
     \<lparr>req_method = ''tools/call'', req_params = JObject [(''name'', JString ''echo'')], req_id = IdInt 7,
      req_meta = Some (JObject [(''progressToken'', JInt 3)]), transport_headers = [(''X'', ''y'')],
      protocol_version_override = None\<rparr>"

lemmas sample_simps = sample_request_def request_wire_ok_def payload_ok_def params_with_meta_def
  normalized_params_def ascii_def document_within_limits_def request_document_def wire_params_def
  should_serialize_params_def object_of_def JsonRpcVersion_def MaxJsonDepth_def MaxJsonNodeCount_def
  MaxJsonAggregateStringBytes_def MaxJsonAggregateCollectionEntries_def less_char_def keys_sorted_def

lemma sample_request_ok: "message_wire_ok json_representable (MsgRequest sample_request)"
  by (simp add: sample_simps)

theorem serialize_parse_roundtrip_witness:
  "\<exists>t. serialize_message (json_dump (\<lambda>_. [])) (MsgRequest sample_request) = Inr t \<and>
       parse_message json_parse t = Inr (wire_message (MsgRequest sample_request))"
  by (rule serialize_parse_roundtrip [OF text_codec.json_codec_axioms sample_request_ok])

text \<open>A text that is not JSON, an array, a string, and an object without a version.\<close>

theorem parse_message_error_codes_witness:
  "\<exists>e1 e2 e3 e4. parse_message json_parse ''{'' = Inl e1 \<and> err_code e1 = error_code ParseError \<and>
     parse_message json_parse ''[]'' = Inl e2 \<and> err_code e2 = error_code InvalidRequest \<and>
     parse_message json_parse (dump_string ''a'') = Inl e3 \<and> err_code e3 = error_code InvalidRequest \<and>
     parse_message json_parse ''{}'' = Inl e4 \<and> err_code e4 = error_code InvalidRequest \<and> err_category e4 = ''protocol''"
proof -
  have texts: "json_parse ''{'' = None" "json_parse ''[]'' = Some (JArray [])" "json_parse (dump_string ''a'') = Some (JString ''a'')"
    "json_parse ''{}'' = Some (JObject [])" by code_simp+
  have "message_from_document (JObject []) = Inl (invalid_request ''JSON-RPC version must be 2.0'')"
    by (simp add: message_from_document_def validate_jsonrpc_version_def)
  then have fails: "\<exists>e. parse_message json_parse ''{'' = Inl e" "\<exists>e. parse_message json_parse ''[]'' = Inl e"
    "\<exists>e. parse_message json_parse (dump_string ''a'') = Inl e" "\<exists>e. parse_message json_parse ''{}'' = Inl e"
    using texts by (auto simp: parse_message_def parse_json_document_def rbind_eq_Inl)
      (cases "validate_json_document_limits (JObject [])"; auto)
  show ?thesis
    using fails texts parse_message_error_codes [of json_parse "''{''"] parse_message_error_codes [of json_parse "''[]''"]
      parse_message_error_codes [of json_parse "dump_string ''a''"] parse_message_error_codes [of json_parse "''{}''"]
    by auto
qed

theorem parse_message_classification_witness:
  "\<exists>t doc. parse_message json_parse t = Inr (wire_message (MsgRequest sample_request)) \<and>
     json_parse t = Some doc \<and> jfind doc ''jsonrpc'' = Some (JString ''2.0'')"
proof -
  obtain t where "serialize_message (json_dump (\<lambda>_. [])) (MsgRequest sample_request) = Inr t"
    using serialize_message_total [OF sample_request_ok] by blast
  then have "parse_message json_parse t = Inr (wire_message (MsgRequest sample_request))"
    using sample_request_ok by (auto dest!: text_codec.request_wire_roundtrip)
  with parse_message_classification [OF this] show ?thesis by blast
qed

theorem request_id_echo_iff_witness:
  "json_norm (request_id_to_json (IdInt (- 1))) \<noteq> JUInt (- 1)"
  using request_id_echo_iff [of "JUInt (- 1)" "IdInt (- 1)"] by auto

end
