(* ===== verification/Cancel_Tokens.thy ===== *)
theory Cancel_Tokens
  imports Prelude "HOL-Library.Multiset"
begin

text \<open>
  src/sdk/include/cxxmcp/cancellation.hpp: the state shared by a \<open>CancellationSource\<close> and its
  tokens, with the operations as their atomic parts (the atomic exchange and the critical sections
  under the mutex), the whole operations composed of them, and the interleaving of any number of
  threads as a step relation. A callback is an abstract value; running it is recorded, and an
  exception it throws is swallowed by the code. Callback ids are natural numbers: the
  \<open>std::size_t\<close> counter would have to wrap for two live ids to meet.
\<close>

section \<open>Shared state\<close>

record 'cb cancellation_state =
  cs_cancelled :: bool
  cs_next_callback_id :: nat
  cs_callbacks :: "(nat \<times> 'cb) list"

definition new_cancellation_state :: "'cb cancellation_state" where
  "new_cancellation_state = \<lparr>cs_cancelled = False, cs_next_callback_id = 1, cs_callbacks = []\<rparr>"

text \<open>A token or a registration holds the shared state or nothing (a null \<open>shared_ptr\<close>).\<close>

definition token_cancelled :: "'cb cancellation_state option \<Rightarrow> bool" where
  "token_cancelled st = (case st of None \<Rightarrow> False | Some s \<Rightarrow> cs_cancelled s)"

definition token_cancellable :: "'cb cancellation_state option \<Rightarrow> bool" where
  "token_cancellable st \<longleftrightarrow> st \<noteq> None"

text \<open>
  \<open>wait_for_cancel\<close> with a timeout: false at once on a detached token, true at once when already
  cancelled, else the value of the predicate when the wait ends (\<open>flag_at_end\<close>).
\<close>

definition wait_for_cancel :: "'cb cancellation_state option \<Rightarrow> bool \<Rightarrow> bool" where
  "wait_for_cancel st flag_at_end =
     (case st of None \<Rightarrow> False | Some s \<Rightarrow> if cs_cancelled s then True else flag_at_end)"

section \<open>Critical sections\<close>

text \<open>Registration under the mutex: \<open>None\<close> means \<open>run_now\<close>.\<close>

definition register_locked ::
  "'cb \<Rightarrow> 'cb cancellation_state \<Rightarrow> nat option \<times> 'cb cancellation_state" where
  "register_locked cb s =
     (if cs_cancelled s then (None, s)
      else (Some (cs_next_callback_id s),
            s\<lparr>cs_next_callback_id := cs_next_callback_id s + 1,
              cs_callbacks := cs_callbacks s @ [(cs_next_callback_id s, cb)]\<rparr>))"

text \<open>The loop of \<open>unregister\<close> erases the first entry with the id and stops.\<close>

fun erase_first :: "nat \<Rightarrow> (nat \<times> 'cb) list \<Rightarrow> (nat \<times> 'cb) list" where
  "erase_first i [] = []"
| "erase_first i (e # es) = (if fst e = i then es else e # erase_first i es)"

definition unregister_locked :: "nat \<Rightarrow> 'cb cancellation_state \<Rightarrow> 'cb cancellation_state" where
  "unregister_locked i s = s\<lparr>cs_callbacks := erase_first i (cs_callbacks s)\<rparr>"

definition cancel_exchange :: "'cb cancellation_state \<Rightarrow> bool \<times> 'cb cancellation_state" where
  "cancel_exchange s = (cs_cancelled s, s\<lparr>cs_cancelled := True\<rparr>)"

definition cancel_collect :: "'cb cancellation_state \<Rightarrow> 'cb list \<times> 'cb cancellation_state" where
  "cancel_collect s = (map snd (cs_callbacks s), s\<lparr>cs_callbacks := []\<rparr>)"

section \<open>Operations\<close>

text \<open>
  The registration handle: \<open>Some id\<close> while active. The second component lists the callbacks
  that run during the call, the third is the shared state afterwards.
\<close>

definition register_cancellation_callback ::
  "'cb option \<Rightarrow> 'cb cancellation_state option \<Rightarrow> nat option \<times> 'cb list \<times> 'cb cancellation_state option" where
  "register_cancellation_callback callback tok =
     (case (callback, tok) of
        (Some cb, Some s) \<Rightarrow>
          (case register_locked cb s of
             (None, s') \<Rightarrow> (None, [cb], Some s')
           | (Some i, s') \<Rightarrow> (Some i, [], Some s'))
      | _ \<Rightarrow> (None, [], tok))"

definition unregister :: "nat option \<Rightarrow> 'cb cancellation_state \<Rightarrow> nat option \<times> 'cb cancellation_state" where
  "unregister reg s = (case reg of None \<Rightarrow> (None, s) | Some i \<Rightarrow> (None, unregister_locked i s))"

definition cancel :: "'cb cancellation_state \<Rightarrow> 'cb list \<times> 'cb cancellation_state" where
  "cancel s =
     (let (already_cancelled, s1) = cancel_exchange s in
      if already_cancelled then ([], s1) else cancel_collect s1)"

lemma cancel_idempotent: "cancel (snd (cancel s)) = ([], snd (cancel s))"
  by (auto simp: cancel_def cancel_exchange_def cancel_collect_def split: prod.splits)

lemma cancel_sets_flag: "cs_cancelled (snd (cancel s))"
  by (auto simp: cancel_def cancel_exchange_def cancel_collect_def)

section \<open>Interleavings\<close>

text \<open>
  The threads that share one state. Exactly one \<open>cancel\<close> call sees the flag unset; it goes
  through three phases (it has set the flag, it has collected the list, it runs the callbacks).
  The other components record what happened: the callbacks registered so far, those that ran,
  and those whose registration was withdrawn before they were collected.
\<close>

datatype cancel_phase = NotStarted | FlagSet | Collected

record 'cb cancel_sys =
  shared :: "'cb cancellation_state"
  phase :: cancel_phase
  pending :: "'cb list"
  registered :: "'cb list"
  ran :: "'cb list"
  withdrawn :: "'cb list"

definition initial_cancel_sys :: "'cb cancel_sys" where
  "initial_cancel_sys =
     \<lparr>shared = new_cancellation_state, phase = NotStarted, pending = [], registered = [], ran = [],
      withdrawn = []\<rparr>"

inductive cancel_step :: "'cb cancel_sys \<Rightarrow> 'cb cancel_sys \<Rightarrow> bool" where
  register_kept: "register_locked cb (shared s) = (Some i, st) \<Longrightarrow>
     cancel_step s (s\<lparr>shared := st, registered := registered s @ [cb]\<rparr>)"
| register_runs: "register_locked cb (shared s) = (None, st) \<Longrightarrow>
     cancel_step s (s\<lparr>shared := st, registered := registered s @ [cb], ran := ran s @ [cb]\<rparr>)"
| withdraw: "map_of (cs_callbacks (shared s)) i = Some cb \<Longrightarrow>
     cancel_step s (s\<lparr>shared := unregister_locked i (shared s), withdrawn := withdrawn s @ [cb]\<rparr>)"
| withdraw_late: "map_of (cs_callbacks (shared s)) i = None \<Longrightarrow>
     cancel_step s (s\<lparr>shared := unregister_locked i (shared s)\<rparr>)"
| cancel_first: "cancel_exchange (shared s) = (False, st) \<Longrightarrow>
     cancel_step s (s\<lparr>shared := st, phase := FlagSet\<rparr>)"
| cancel_again: "cancel_exchange (shared s) = (True, st) \<Longrightarrow> cancel_step s (s\<lparr>shared := st\<rparr>)"
| collect: "phase s = FlagSet \<Longrightarrow> cancel_collect (shared s) = (cbs, st) \<Longrightarrow>
     cancel_step s (s\<lparr>shared := st, phase := Collected, pending := cbs\<rparr>)"
| run: "phase s = Collected \<Longrightarrow> pending s = cb # cbs \<Longrightarrow>
     cancel_step s (s\<lparr>pending := cbs, ran := ran s @ [cb]\<rparr>)"

inductive cancel_reachable :: "'cb cancel_sys \<Rightarrow> bool" where
  start: "cancel_reachable initial_cancel_sys"
| step: "cancel_reachable s \<Longrightarrow> cancel_step s t \<Longrightarrow> cancel_reachable t"

definition cancel_inv :: "'cb cancel_sys \<Rightarrow> bool" where
  "cancel_inv s \<longleftrightarrow>
     mset (registered s) =
       mset (map snd (cs_callbacks (shared s))) + mset (pending s) + mset (ran s) + mset (withdrawn s) \<and>
     (cs_cancelled (shared s) \<longleftrightarrow> phase s \<noteq> NotStarted) \<and>
     (phase s \<noteq> Collected \<longrightarrow> pending s = []) \<and>
     (phase s = Collected \<longrightarrow> cs_callbacks (shared s) = []) \<and>
     (phase s = NotStarted \<longrightarrow> ran s = [])"

lemma mset_erase_first:
  "map_of es i = Some cb \<Longrightarrow> mset (map snd es) = add_mset cb (mset (map snd (erase_first i es)))"
  by (induction es) (auto split: if_splits)

lemma erase_first_None: "map_of es i = None \<Longrightarrow> erase_first i es = es"
  by (induction es) (auto split: if_splits)

lemma cancel_inv_init: "cancel_inv initial_cancel_sys"
  by (simp add: cancel_inv_def initial_cancel_sys_def new_cancellation_state_def)

lemma cancel_step_inv: "cancel_step s t \<Longrightarrow> cancel_inv s \<Longrightarrow> cancel_inv t"
proof (induction rule: cancel_step.induct)
  case (withdraw s i cb)
  then show ?case
    using mset_erase_first [OF withdraw.hyps]
    by (auto simp: cancel_inv_def unregister_locked_def)
next
  case (withdraw_late s i)
  then show ?case
    by (simp add: cancel_inv_def unregister_locked_def erase_first_None)
qed (auto simp: cancel_inv_def register_locked_def cancel_exchange_def cancel_collect_def split: if_splits)

lemma cancel_reachable_inv: "cancel_reachable s \<Longrightarrow> cancel_inv s"
  by (induction rule: cancel_reachable.induct) (auto intro: cancel_inv_init cancel_step_inv)

text \<open>Once the flag is set, the cancelling thread can always run to the end.\<close>

lemma run_pending:
  "phase s = Collected \<Longrightarrow>
   \<exists>t. cancel_step\<^sup>*\<^sup>* s t \<and> phase t = Collected \<and> pending t = [] \<and> registered t = registered s"
proof (induction "pending s" arbitrary: s)
  case (Cons cb cbs)
  let ?u = "s\<lparr>pending := cbs, ran := ran s @ [cb]\<rparr>"
  have u: "cancel_step s ?u" using Cons by (intro cancel_step.run) auto
  obtain t where "cancel_step\<^sup>*\<^sup>* ?u t" "phase t = Collected" "pending t = []" "registered t = registered ?u"
    using Cons(1) [of ?u] Cons.prems by auto
  with u show ?case by (metis (mono_tags, lifting) cancel_sys.select_convs(4) cancel_sys.surjective
      cancel_sys.update_convs(3,5) converse_rtranclp_into_rtranclp)
qed auto

lemma finish_cancel:
  assumes "cancel_inv s" "cs_cancelled (shared s)"
  shows "\<exists>t. cancel_step\<^sup>*\<^sup>* s t \<and> phase t = Collected \<and> pending t = [] \<and> registered t = registered s"
proof (cases "phase s")
  case FlagSet
  let ?u = "s\<lparr>shared := snd (cancel_collect (shared s)), phase := Collected,
              pending := fst (cancel_collect (shared s))\<rparr>"
  have u: "cancel_step s ?u" using FlagSet by (intro cancel_step.collect) auto
  obtain t where "cancel_step\<^sup>*\<^sup>* ?u t" "phase t = Collected" "pending t = []" "registered t = registered ?u"
    using run_pending [of ?u] by auto
  with u show ?thesis by (intro exI [of _ t]) (auto intro: converse_rtranclp_into_rtranclp)
qed (use assms run_pending in \<open>auto simp: cancel_inv_def\<close>)

section \<open>Properties of cancellation\<close>

text \<open>C6: under every interleaving of registrations, withdrawals and cancel calls, no callback
  runs before the source is cancelled, and when the cancelling thread has finished, each
  registered callback has run exactly once or had been withdrawn (as multisets).\<close>

theorem callbacks_run_exactly_once:
  assumes "cancel_reachable s"
  shows "(\<not> cs_cancelled (shared s) \<longrightarrow> ran s = []) \<and>
         (phase s = Collected \<and> pending s = [] \<longrightarrow>
            mset (registered s) = mset (ran s) + mset (withdrawn s))"
  using cancel_reachable_inv [OF assms] by (auto simp: cancel_inv_def)

text \<open>From every reachable state in which cancellation was requested, the cancelling thread
  can take its remaining steps to a state where every callback registered so far has run or had
  been withdrawn: no callback is lost between the flag and the list.\<close>

theorem cancellation_completes:
  assumes "cancel_reachable s" "cs_cancelled (shared s)"
  shows "\<exists>t. cancel_step\<^sup>*\<^sup>* s t \<and> registered t = registered s \<and>
             mset (registered s) = mset (ran t) + mset (withdrawn t)"
proof -
  obtain t where t: "cancel_step\<^sup>*\<^sup>* s t" "phase t = Collected" "pending t = []" "registered t = registered s"
    using finish_cancel [OF cancel_reachable_inv [OF assms(1)] assms(2)] by blast
  from t(1) assms(1) have "cancel_reachable t"
    by (induction rule: rtranclp_induct) (auto intro: cancel_reachable.step)
  with t show ?thesis using cancel_reachable_inv [of t] by (auto simp: cancel_inv_def)
qed

lemma sample_cancel_run:
  "cancel_reachable (initial_cancel_sys\<lparr>shared := \<lparr>cs_cancelled = True, cs_next_callback_id = 2,
       cs_callbacks = [(1, CHR ''a'')]\<rparr>, registered := [CHR ''a''], phase := FlagSet\<rparr>)"
proof -
  let ?s1 = "initial_cancel_sys\<lparr>shared := snd (register_locked (CHR ''a'') new_cancellation_state),
               registered := [CHR ''a'']\<rparr>"
  have 1: "cancel_reachable ?s1"
    by (rule cancel_reachable.step [OF cancel_reachable.start])
       (use cancel_step.register_kept [of "CHR ''a''" initial_cancel_sys]
        in \<open>simp add: initial_cancel_sys_def register_locked_def new_cancellation_state_def\<close>)
  show ?thesis
    by (rule cancel_reachable.step [OF 1])
       (use cancel_step.cancel_first [of ?s1]
        in \<open>simp add: initial_cancel_sys_def register_locked_def new_cancellation_state_def
              cancel_exchange_def numeral_2_eq_2\<close>)
qed

definition sample_cancelled :: "char cancel_sys" where
  "sample_cancelled = initial_cancel_sys\<lparr>shared := \<lparr>cs_cancelled = True, cs_next_callback_id = 2,
     cs_callbacks = []\<rparr>, registered := [CHR ''a''], phase := Collected, pending := [], ran := [CHR ''a'']\<rparr>"

lemma sample_cancelled_run: "cancel_reachable sample_cancelled"
proof -
  let ?s2 = "initial_cancel_sys\<lparr>shared := \<lparr>cs_cancelled = True, cs_next_callback_id = 2,
     cs_callbacks = []\<rparr>, registered := [CHR ''a''], phase := Collected, pending := [CHR ''a'']\<rparr>"
  have 2: "cancel_reachable ?s2"
    by (rule cancel_reachable.step [OF sample_cancel_run])
       (use cancel_step.collect [of "initial_cancel_sys\<lparr>shared := \<lparr>cs_cancelled = True, cs_next_callback_id = 2,
          cs_callbacks = [(1, CHR ''a'')]\<rparr>, registered := [CHR ''a''], phase := FlagSet\<rparr>"]
        in \<open>simp add: initial_cancel_sys_def cancel_collect_def\<close>)
  show ?thesis
    by (rule cancel_reachable.step [OF 2])
       (use cancel_step.run [of ?s2 "CHR ''a''" "[]"]
        in \<open>simp add: initial_cancel_sys_def sample_cancelled_def\<close>)
qed

theorem callbacks_run_exactly_once_witness:
  "mset (registered sample_cancelled) = mset (ran sample_cancelled) \<and> ran sample_cancelled = [CHR ''a'']"
  using callbacks_run_exactly_once [OF sample_cancelled_run]
  by (simp add: initial_cancel_sys_def sample_cancelled_def)

theorem cancellation_completes_witness:
  "\<exists>t. mset [CHR ''a''] = mset (ran t) + mset (withdrawn (t :: char cancel_sys))"
  using cancellation_completes [OF sample_cancel_run] by force

end
