(* ===== verification/Executor.thy ===== *)
theory Executor
  imports Prelude "HOL-Library.Multiset"
begin

text \<open>
  src/sdk/core/include/cxxmcp/core/executor.hpp and timer_handle.hpp: the thread pool with three
  priority queues and the timer thread. Each critical section (under \<open>mutex_\<close> or
  \<open>timer_mutex_\<close>) is one definition; the threads are interleaved by a step relation whose steps
  are those sections. A task is an abstract value, an empty \<open>std::function\<close> is \<open>None\<close>, and
  running a task is recorded (an exception it throws goes to the handler and the worker goes on).
  Times are integers in the clock's unit.
\<close>

section \<open>State\<close>

datatype task_priority = IO_BOUND | DEFAULT | BACKGROUND

fun priority_index :: "task_priority \<Rightarrow> nat" where
  "priority_index IO_BOUND = 0"
| "priority_index DEFAULT = 1"
| "priority_index BACKGROUND = 2"

record 't timer_entry =
  te_when :: int
  te_task :: 't
  te_cancelled :: bool
  te_id :: uint64
  te_priority :: task_priority

record 't executor =
  ex_worker_count :: nat
  ex_max_queue_size :: nat
  ex_queues :: "'t list list"
  ex_stopping :: bool
  ex_drain_mode :: bool
  ex_timers :: "'t timer_entry list"
  ex_next_timer_id :: uint64

definition new_executor :: "nat \<Rightarrow> nat \<Rightarrow> 't executor" where
  "new_executor worker_count max_queue_size =
     \<lparr>ex_worker_count = (if worker_count = 0 then 1 else worker_count),
      ex_max_queue_size = max_queue_size, ex_queues = [[], [], []],
      ex_stopping = False, ex_drain_mode = False, ex_timers = [], ex_next_timer_id = 1\<rparr>"

definition executor_error :: "string \<Rightarrow> core_error" where
  "executor_error msg = mk_error 1 msg '''' ''executor''"

section \<open>Queues\<close>

definition post :: "'t option \<Rightarrow> task_priority \<Rightarrow> 't executor \<Rightarrow> unit result \<times> 't executor" where
  "post task prio e =
     (case task of
        None \<Rightarrow> (Inl (executor_error ''executor task must be callable''), e)
      | Some t \<Rightarrow>
          if ex_stopping e then (Inl (executor_error ''executor is stopped''), e)
          else let idx = priority_index prio; q = ex_queues e ! idx in
            if length q \<ge> ex_max_queue_size e
            then (Inl (executor_error ''executor queue is full''), e)
            else (Inr (), e\<lparr>ex_queues := (ex_queues e)[idx := q @ [t]]\<rparr>))"

definition enqueue :: "'t option \<Rightarrow> 't executor \<Rightarrow> unit result \<times> 't executor" where
  "enqueue task = post task DEFAULT"

fun has_any_task :: "'t list list \<Rightarrow> bool" where
  "has_any_task [] = False"
| "has_any_task (q # qs) = (if q \<noteq> [] then True else has_any_task qs)"

fun dequeue_highest_priority :: "'t list list \<Rightarrow> 't option \<times> 't list list" where
  "dequeue_highest_priority [] = (None, [])"
| "dequeue_highest_priority ((t # q) # qs) = (Some t, q # qs)"
| "dequeue_highest_priority ([] # qs) =
     (let (r, qs') = dequeue_highest_priority qs in (r, [] # qs'))"

text \<open>One locked section of \<open>worker_loop\<close>: keep waiting, return, or take a task.\<close>

datatype 't worker_action = Wait | Return | Run 't

definition worker_section :: "'t executor \<Rightarrow> 't worker_action \<times> 't executor" where
  "worker_section e =
     (if \<not> (ex_stopping e \<or> ex_drain_mode e \<or> has_any_task (ex_queues e)) then (Wait, e)
      else if ex_stopping e \<and> \<not> has_any_task (ex_queues e) then (Return, e)
      else if ex_drain_mode e \<and> \<not> has_any_task (ex_queues e) then (Return, e)
      else (case dequeue_highest_priority (ex_queues e) of
              (Some t, qs) \<Rightarrow> (Run t, e\<lparr>ex_queues := qs\<rparr>)
            | (None, qs) \<Rightarrow> (Wait, e)))"

section \<open>Stopping\<close>

definition shutdown_locked :: "'t executor \<Rightarrow> 't executor option" where
  "shutdown_locked e =
     (if ex_stopping e then None else Some (e\<lparr>ex_stopping := True, ex_drain_mode := True\<rparr>))"

definition cancel_and_stop_locked :: "'t executor \<Rightarrow> 't executor option" where
  "cancel_and_stop_locked e =
     (if ex_stopping e then None
      else Some (e\<lparr>ex_stopping := True, ex_queues := map (\<lambda>q. []) (ex_queues e)\<rparr>))"

definition clear_timers :: "'t executor \<Rightarrow> 't executor" where
  "clear_timers e = e\<lparr>ex_timers := []\<rparr>"

section \<open>Timers\<close>

text \<open>
  A valid \<open>TimerHandle\<close> shares the entry, which its id names. The heap is the list of its entries
  in insertion order; its top is an entry with the least \<open>when\<close> (of several, the first: the
  library leaves that choice open).
\<close>

definition post_at ::
  "int \<Rightarrow> 't option \<Rightarrow> task_priority \<Rightarrow> 't executor \<Rightarrow> uint64 option \<times> 't executor" where
  "post_at when task prio e =
     (case task of
        None \<Rightarrow> (None, e)
      | Some t \<Rightarrow>
          (Some (ex_next_timer_id e),
           e\<lparr>ex_next_timer_id := ex_next_timer_id e + 1,
             ex_timers := ex_timers e @
               [\<lparr>te_when = when, te_task = t, te_cancelled = False, te_id = ex_next_timer_id e,
                 te_priority = prio\<rparr>]\<rparr>))"

definition post_after ::
  "int \<Rightarrow> int \<Rightarrow> 't option \<Rightarrow> task_priority \<Rightarrow> 't executor \<Rightarrow> uint64 option \<times> 't executor" where
  "post_after now delay task prio e =
     (if task = None \<or> delay \<le> 0
      then (None, if task \<noteq> None then snd (post task prio e) else e)
      else post_at (now + delay) task prio e)"

definition timer_cancel :: "uint64 option \<Rightarrow> 't executor \<Rightarrow> 't executor" where
  "timer_cancel handle e =
     (case handle of None \<Rightarrow> e
      | Some i \<Rightarrow> e\<lparr>ex_timers :=
          map (\<lambda>en. if te_id en = i then en\<lparr>te_cancelled := True\<rparr> else en) (ex_timers e)\<rparr>)"

fun heap_top :: "'t timer_entry list \<Rightarrow> 't timer_entry option" where
  "heap_top [] = None"
| "heap_top (a # as) =
     (case heap_top as of None \<Rightarrow> Some a
      | Some b \<Rightarrow> if te_when a > te_when b then Some b else Some a)"

lemma heap_top_None [simp]: "heap_top ts = None \<longleftrightarrow> ts = []"
  by (cases ts) (auto split: option.splits if_splits)

lemma heap_top_Some:
  "heap_top ts = Some a \<Longrightarrow> a \<in> set ts \<and> (\<forall>b\<in>set ts. te_when a \<le> te_when b)"
  by (induction ts arbitrary: a) (fastforce split: option.splits if_splits)+

function purge_cancelled :: "'t timer_entry list \<Rightarrow> 't timer_entry list" where
  "purge_cancelled ts =
     (case heap_top ts of None \<Rightarrow> ts
      | Some a \<Rightarrow> if te_cancelled a then purge_cancelled (remove1 a ts) else ts)"
  by auto
termination
  by (relation "measure length")
     (auto dest!: heap_top_Some simp: length_remove1 dest: length_pos_if_in_set)

declare purge_cancelled.simps [simp del]

text \<open>The locked part of \<open>timer_loop\<close> after the wait: purge, then pop the top if it is due.\<close>

definition timer_section :: "int \<Rightarrow> 't timer_entry list \<Rightarrow> 't timer_entry option \<times> 't timer_entry list" where
  "timer_section now ts =
     (let ts1 = purge_cancelled ts in
      case heap_top ts1 of
        None \<Rightarrow> (None, ts1)
      | Some en \<Rightarrow> if te_when en > now then (None, ts1) else (Some en, remove1 en ts1))"

section \<open>Facts about the sections\<close>

definition queued :: "'t executor \<Rightarrow> 't list" where
  "queued e = concat (ex_queues e)"

definition queues_ok :: "'t executor \<Rightarrow> bool" where
  "queues_ok e \<longleftrightarrow> length (ex_queues e) = 3 \<and> (\<forall>q\<in>set (ex_queues e). length q \<le> ex_max_queue_size e)"

lemma priority_index_bound [simp]: "priority_index p < 3"
  by (cases p) auto

lemma has_any_task_iff: "has_any_task qs \<longleftrightarrow> concat qs \<noteq> []"
  by (induction qs) auto

lemma dequeue_concat:
  "dequeue_highest_priority qs = (Some t, qs') \<Longrightarrow> concat qs = t # concat qs'"
  by (induction qs arbitrary: qs' rule: dequeue_highest_priority.induct) (auto split: prod.splits)

lemma dequeue_Some: "concat qs \<noteq> [] \<Longrightarrow> \<exists>t qs'. dequeue_highest_priority qs = (Some t, qs')"
  by (induction qs rule: dequeue_highest_priority.induct) (auto split: prod.splits)

lemma dequeue_lengths:
  "dequeue_highest_priority qs = (r, qs') \<Longrightarrow>
   length qs' = length qs \<and> (\<forall>n. (\<forall>q\<in>set qs. length q \<le> n) \<longrightarrow> (\<forall>q\<in>set qs'. length q \<le> n))"
  by (induction qs arbitrary: qs' rule: dequeue_highest_priority.induct)
     (auto split: prod.splits)

lemma mset_concat_update:
  "i < length qs \<Longrightarrow> mset (concat (qs[i := qs ! i @ [t]])) = add_mset t (mset (concat qs))"
  by (induction qs arbitrary: i) (auto split: nat.splits)

lemma worker_section_Wait:
  "worker_section e = (Wait, e') \<Longrightarrow> e' = e \<and> \<not> ex_stopping e \<and> queued e = []"
  using dequeue_Some [of "ex_queues e"]
  by (auto simp: worker_section_def has_any_task_iff queued_def split: if_splits prod.splits option.splits)

lemma worker_section_Return:
  "worker_section e = (Return, e') \<Longrightarrow> e' = e \<and> (ex_stopping e \<or> ex_drain_mode e) \<and> queued e = []"
  by (auto simp: worker_section_def has_any_task_iff queued_def split: if_splits prod.splits option.splits)

lemma worker_section_Run:
  "worker_section e = (Run t, e') \<Longrightarrow>
   \<exists>qs. e' = e\<lparr>ex_queues := qs\<rparr> \<and> queued e = t # queued e' \<and> (queues_ok e \<longrightarrow> queues_ok e')"
  using dequeue_concat [of "ex_queues e"] dequeue_lengths [of "ex_queues e"]
  by (auto simp: worker_section_def queued_def queues_ok_def split: if_splits prod.splits option.splits)

lemma worker_section_stopping:
  "ex_stopping e \<Longrightarrow> fst (worker_section e) = (case queued e of [] \<Rightarrow> Return | t # _ \<Rightarrow> Run t)"
  using dequeue_Some [of "ex_queues e"] dequeue_concat [of "ex_queues e"]
  by (fastforce simp: worker_section_def has_any_task_iff queued_def split: list.splits option.splits prod.splits)

lemma post_Inr:
  assumes "post task prio e = (Inr u, e')" "queues_ok e"
  shows "\<exists>t. task = Some t \<and> \<not> ex_stopping e \<and> mset (queued e') = add_mset t (mset (queued e)) \<and>
             queues_ok e' \<and> (\<exists>qs. e' = e\<lparr>ex_queues := qs\<rparr>)"
  using assms mset_concat_update [of "priority_index prio" "ex_queues e"]
    set_update_subset_insert [of "ex_queues e" "priority_index prio"]
  by (auto simp: post_def queued_def queues_ok_def Let_def split: option.splits if_splits) fastforce

lemma post_Inl: "post task prio e = (Inl err, e') \<Longrightarrow> e' = e"
  by (auto simp: post_def Let_def split: option.splits if_splits)

lemma post_unchanged:
  "ex_stopping (snd (post task prio e)) = ex_stopping e"
  "ex_drain_mode (snd (post task prio e)) = ex_drain_mode e"
  "ex_timers (snd (post task prio e)) = ex_timers e"
  "ex_max_queue_size (snd (post task prio e)) = ex_max_queue_size e"
  by (auto simp: post_def Let_def split: option.splits)

section \<open>Timers fire in order\<close>

lemma purge_cancelled_mset:
  "\<exists>dropped. mset ts = mset (purge_cancelled ts) + mset dropped \<and> (\<forall>a\<in>set dropped. te_cancelled a)"
proof (induction ts rule: purge_cancelled.induct)
  case (1 ts)
  show ?case
  proof (cases "\<exists>a. heap_top ts = Some a \<and> te_cancelled a")
    case True
    then obtain a where a: "heap_top ts = Some a" "te_cancelled a" by blast
    then obtain d where d: "mset (remove1 a ts) = mset (purge_cancelled (remove1 a ts)) + mset d"
      "\<forall>a\<in>set d. te_cancelled a" using "1.IH" by blast
    have "add_mset a (mset (remove1 a ts)) = mset ts"
      using heap_top_Some [OF a(1)] by simp
    then have "mset ts = mset (purge_cancelled (remove1 a ts)) + mset (a # d)"
      using d(1) by (metis mset.simps(2) union_mset_add_mset_right)
    with a d(2) show ?thesis
      by (intro exI [of _ "a # d"]) (simp add: purge_cancelled.simps [of ts])
  next
    case False
    then show ?thesis
      by (intro exI [of _ "[]"]) (auto simp: purge_cancelled.simps [of ts] split: option.splits)
  qed
qed

lemma purge_cancelled_top:
  "heap_top (purge_cancelled ts) = Some a \<Longrightarrow> \<not> te_cancelled a"
proof (induction ts rule: purge_cancelled.induct)
  case (1 ts)
  then show ?case
    by (cases "heap_top ts") (auto simp: purge_cancelled.simps [of ts] split: if_splits)
qed

text \<open>The timer thread's locked section fires at most one entry; that entry was not
  cancelled, was due, and no entry left is earlier; every other entry it removed was cancelled,
  so no live timer is lost. When it fires none, no entry left is both live and due.\<close>

theorem timer_section_sound:
  "\<exists>dropped. (\<forall>a\<in>set dropped. te_cancelled a) \<and>
     (case timer_section now ts of
        (Some en, rest) \<Rightarrow>
          mset ts = add_mset en (mset rest) + mset dropped \<and> \<not> te_cancelled en \<and>
          te_when en \<le> now \<and> (\<forall>b\<in>set rest. te_when en \<le> te_when b)
      | (None, rest) \<Rightarrow>
          mset ts = mset rest + mset dropped \<and> (\<forall>b\<in>set rest. now < te_when b))"
proof -
  obtain d where d: "mset ts = mset (purge_cancelled ts) + mset d" "\<forall>a\<in>set d. te_cancelled a"
    using purge_cancelled_mset by blast
  show ?thesis
  proof (cases "heap_top (purge_cancelled ts)")
    case None
    then show ?thesis using d by (intro exI [of _ d]) (simp add: timer_section_def)
  next
    case (Some en)
    note top = heap_top_Some [OF Some] purge_cancelled_top [OF Some]
    have "add_mset en (mset (remove1 en (purge_cancelled ts))) = mset (purge_cancelled ts)"
      using top by simp
    with d Some top show ?thesis
      by (intro exI [of _ d])
         (auto simp del: mset_remove1 simp: timer_section_def Let_def
               dest: subsetD [OF set_remove1_subset] split: if_splits)
  qed
qed

section \<open>Interleavings of the threads\<close>

text \<open>
  The timer thread waits (releasing \<open>timer_mutex_\<close>), is awake inside its locked section, holds a
  fired entry it has still to post, or has returned. It may wake at any time before the stop, which
  includes the wake-ups at a deadline, on a new entry and the spurious ones. \<open>accepted\<close> lists the tasks \<open>post\<close> took,
  \<open>finished\<close> those a worker ran, \<open>discarded\<close> those \<open>cancel_and_stop\<close> cleared; \<open>idle\<close> counts the
  workers outside a task and \<open>exited\<close> those that have returned.
\<close>

datatype 't timer_pc = TWaiting | TAwake | TFiring "'t timer_entry" | TExited

record 't exec_sys =
  exec :: "'t executor"
  clock :: int
  timer_at :: "'t timer_pc"
  idle :: nat
  exited :: nat
  executing :: "'t list"
  accepted :: "'t list"
  finished :: "'t list"
  discarded :: "'t list"

definition start_sys :: "nat \<Rightarrow> nat \<Rightarrow> 't exec_sys" where
  "start_sys worker_count max_queue_size =
     \<lparr>exec = new_executor worker_count max_queue_size, clock = 0, timer_at = TWaiting,
      idle = ex_worker_count (new_executor worker_count max_queue_size :: 't executor), exited = 0,
      executing = [], accepted = [], finished = [], discarded = []\<rparr>"

text \<open>Worker steps: take a task, finish it, or return from the loop.\<close>

inductive worker_step :: "'t exec_sys \<Rightarrow> 't exec_sys \<Rightarrow> bool" where
  take: "idle s = Suc n \<Longrightarrow> worker_section (exec s) = (Run t, e) \<Longrightarrow>
     worker_step s (s\<lparr>exec := e, idle := n, executing := t # executing s\<rparr>)"
| finish: "t \<in> set (executing s) \<Longrightarrow>
     worker_step s (s\<lparr>idle := Suc (idle s), executing := remove1 t (executing s), finished := finished s @ [t]\<rparr>)"
| leave: "idle s = Suc n \<Longrightarrow> worker_section (exec s) = (Return, e) \<Longrightarrow>
     worker_step s (s\<lparr>exec := e, idle := n, exited := Suc (exited s)\<rparr>)"

inductive exec_step :: "'t exec_sys \<Rightarrow> 't exec_sys \<Rightarrow> bool" where
  worker: "worker_step s s' \<Longrightarrow> exec_step s s'"
| post_ok: "post (Some t) prio (exec s) = (Inr (), e) \<Longrightarrow>
     exec_step s (s\<lparr>exec := e, accepted := accepted s @ [t]\<rparr>)"
| schedule: "timer_at s \<noteq> TAwake \<Longrightarrow> post_at when task prio (exec s) = (h, e) \<Longrightarrow>
     exec_step s (s\<lparr>exec := e\<rparr>)"
| cancel_timer: "exec_step s (s\<lparr>exec := timer_cancel h (exec s)\<rparr>)"
| tick: "0 \<le> d \<Longrightarrow> exec_step s (s\<lparr>clock := clock s + d\<rparr>)"
| begin_shutdown: "shutdown_locked (exec s) = Some e \<Longrightarrow> exec_step s (s\<lparr>exec := e\<rparr>)"
| begin_cancel: "cancel_and_stop_locked (exec s) = Some e \<Longrightarrow>
     exec_step s (s\<lparr>exec := e, discarded := discarded s @ queued (exec s)\<rparr>)"
| drop_timers: "ex_stopping (exec s) \<Longrightarrow> timer_at s \<noteq> TAwake \<Longrightarrow>
     exec_step s (s\<lparr>exec := clear_timers (exec s)\<rparr>)"
| timer_wakes: "timer_at s = TWaiting \<Longrightarrow> \<not> ex_stopping (exec s) \<Longrightarrow>
     exec_step s (s\<lparr>timer_at := TAwake\<rparr>)"
| timer_returns: "timer_at s = TWaiting \<Longrightarrow> ex_stopping (exec s) \<Longrightarrow>
     exec_step s (s\<lparr>timer_at := TExited\<rparr>)"
| timer_none: "timer_at s = TAwake \<Longrightarrow> timer_section (clock s) (ex_timers (exec s)) = (None, ts) \<Longrightarrow>
     exec_step s (s\<lparr>timer_at := TWaiting, exec := (exec s)\<lparr>ex_timers := ts\<rparr>\<rparr>)"
| timer_fires: "timer_at s = TAwake \<Longrightarrow> timer_section (clock s) (ex_timers (exec s)) = (Some en, ts) \<Longrightarrow>
     exec_step s (s\<lparr>timer_at := TFiring en, exec := (exec s)\<lparr>ex_timers := ts\<rparr>\<rparr>)"
| timer_posts: "timer_at s = TFiring en \<Longrightarrow>
     post (Some (te_task en)) (te_priority en) (exec s) = (Inr (), e) \<Longrightarrow>
     exec_step s (s\<lparr>timer_at := TWaiting, exec := e, accepted := accepted s @ [te_task en]\<rparr>)"
| timer_refused: "timer_at s = TFiring en \<Longrightarrow>
     post (Some (te_task en)) (te_priority en) (exec s) = (Inl err, e) \<Longrightarrow>
     exec_step s (s\<lparr>timer_at := TWaiting, exec := e\<rparr>)"

inductive exec_reachable :: "nat \<Rightarrow> nat \<Rightarrow> 't exec_sys \<Rightarrow> bool" for w m where
  start: "exec_reachable w m (start_sys w m)"
| step: "exec_reachable w m s \<Longrightarrow> exec_step s t \<Longrightarrow> exec_reachable w m t"

definition exec_inv :: "nat \<Rightarrow> 't exec_sys \<Rightarrow> bool" where
  "exec_inv m s \<longleftrightarrow>
     queues_ok (exec s) \<and> ex_max_queue_size (exec s) = m \<and>
     mset (accepted s) = mset (queued (exec s)) + mset (executing s) + mset (finished s) + mset (discarded s) \<and>
     (ex_drain_mode (exec s) \<longrightarrow> ex_stopping (exec s) \<and> discarded s = []) \<and>
     (\<not> ex_stopping (exec s) \<longrightarrow> discarded s = [] \<and> exited s = 0) \<and>
     (0 < exited s \<longrightarrow> queued (exec s) = []) \<and>
     0 < idle s + length (executing s) + exited s"

lemma exec_inv_start: "exec_inv m (start_sys w m)"
  by (simp add: exec_inv_def start_sys_def new_executor_def queues_ok_def queued_def)

lemma worker_step_inv: "worker_step s t \<Longrightarrow> exec_inv m s \<Longrightarrow> exec_inv m t"
proof (induction rule: worker_step.induct)
  case (take s n t e)
  then show ?case using worker_section_Run [OF take(2)]
    by (auto simp: exec_inv_def)
next
  case (finish t s)
  then have "add_mset t (mset (remove1 t (executing s))) = mset (executing s)" by simp
  with finish show ?case by (auto simp: exec_inv_def simp del: mset_remove1)
next
  case (leave s n e)
  then show ?case using worker_section_Return [OF leave(2)]
    by (auto simp: exec_inv_def)
qed

lemma exec_inv_post:
  "post (Some t) prio (exec s) = (Inr (), e) \<Longrightarrow> exec_inv m s \<Longrightarrow>
   exec_inv m (s\<lparr>timer_at := pc, exec := e, accepted := accepted s @ [t]\<rparr>)"
  using post_Inr [of "Some t" prio "exec s" "()" e] by (auto simp: exec_inv_def)

lemma exec_step_inv: "exec_step s t \<Longrightarrow> exec_inv m s \<Longrightarrow> exec_inv m t"
proof (induction rule: exec_step.induct)
  case (worker s s')
  then show ?case by (blast intro: worker_step_inv)
next
  case (post_ok t prio s e)
  then show ?case using exec_inv_post [of t prio s e m "timer_at s"] by simp
next
  case (timer_posts s en e)
  then show ?case by (intro exec_inv_post) auto
next
  case (begin_cancel s e)
  then show ?case
    by (auto simp: exec_inv_def cancel_and_stop_locked_def queues_ok_def queued_def split: if_splits)
qed (auto simp: exec_inv_def queues_ok_def queued_def post_at_def timer_cancel_def clear_timers_def
       shutdown_locked_def dest!: post_Inl split: option.splits if_splits)

lemma exec_reachable_inv: "exec_reachable w m s \<Longrightarrow> exec_inv m s"
  by (induction rule: exec_reachable.induct) (auto intro: exec_inv_start exec_step_inv)

section \<open>Properties of the executor\<close>

lemma dequeue_iff:
  "dequeue_highest_priority qs = (Some t, qs') \<longleftrightarrow>
   (\<exists>i q. i < length qs \<and> (\<forall>j<i. qs ! j = []) \<and> qs ! i = t # q \<and> qs' = qs[i := q])"
proof (induction qs arbitrary: qs' rule: dequeue_highest_priority.induct)
  case (2 u q qs)
  show ?case (is "_ \<longleftrightarrow> (\<exists>i q. ?r i q)")
  proof -
    have "i = 0" if "?r i r" for i r
      using that by (cases i) (auto dest: spec [of _ 0])
    then have "(\<exists>i q. ?r i q) \<longleftrightarrow> (\<exists>q. ?r 0 q)" by blast
    then show ?thesis by auto
  qed
next
  case (3 qs)
  show ?case (is "?l \<longleftrightarrow> (\<exists>i q. ?r i q)")
  proof
    assume ?l
    then obtain qs1 where "dequeue_highest_priority qs = (Some t, qs1)" "qs' = [] # qs1"
      by (auto split: prod.splits)
    with 3 obtain i q where "i < length qs" "\<forall>j<i. qs ! j = []" "qs ! i = t # q" "qs1 = qs[i := q]"
      by blast
    then have "?r (Suc i) q" using \<open>qs' = [] # qs1\<close> by (auto simp: less_Suc_eq_0_disj)
    then show "\<exists>i q. ?r i q" by blast
  next
    assume "\<exists>i q. ?r i q"
    then obtain i q where r: "?r i q" by blast
    then obtain k where "i = Suc k" by (cases i) auto
    with r have "k < length qs" "\<forall>j<k. qs ! j = []" "qs ! k = t # q" "qs' = [] # qs[k := q]"
      by auto
    with 3 have "dequeue_highest_priority qs = (Some t, qs[k := q])" by blast
    then show ?l using \<open>qs' = [] # qs[k := q]\<close> by simp
  qed
qed simp

text \<open>a worker takes a task exactly when one is queued: it is the oldest task of the first
  non-empty queue, every queue of higher priority is empty, and the other queues keep their
  tasks.\<close>

theorem worker_takes_highest_priority:
  assumes "queues_ok e"
  shows "worker_section e = (Run t, e') \<longleftrightarrow>
    (\<exists>p q. (\<forall>p'. priority_index p' < priority_index p \<longrightarrow> ex_queues e ! priority_index p' = []) \<and>
           ex_queues e ! priority_index p = t # q \<and>
           e' = e\<lparr>ex_queues := (ex_queues e)[priority_index p := q]\<rparr>)"
proof -
  have len: "length (ex_queues e) = 3" using assms by (simp add: queues_ok_def)
  have idx: "\<exists>p. priority_index p = i" if "i < 3" for i
    using that by (metis One_nat_def Suc_1 less_2_cases less_antisym numeral_3_eq_3 priority_index.simps)
  have "worker_section e = (Run t, e') \<longleftrightarrow>
      (\<exists>qs. dequeue_highest_priority (ex_queues e) = (Some t, qs) \<and> e' = e\<lparr>ex_queues := qs\<rparr>)"
    using dequeue_concat [of "ex_queues e" t]
    by (auto simp: worker_section_def has_any_task_iff simp del: concat_eq_Nil_conv
          split: prod.splits option.splits)
  also have "\<dots> \<longleftrightarrow> (\<exists>i q. i < 3 \<and> (\<forall>j<i. ex_queues e ! j = []) \<and> ex_queues e ! i = t # q \<and>
      e' = e\<lparr>ex_queues := (ex_queues e)[i := q]\<rparr>)"
    unfolding dequeue_iff len by blast
  also have "\<dots> \<longleftrightarrow> (\<exists>p q. (\<forall>p'. priority_index p' < priority_index p \<longrightarrow> ex_queues e ! priority_index p' = []) \<and>
      ex_queues e ! priority_index p = t # q \<and>
      e' = e\<lparr>ex_queues := (ex_queues e)[priority_index p := q]\<rparr>)"
    (is "(\<exists>i q. i < 3 \<and> ?P i q) \<longleftrightarrow> (\<exists>p q. ?Q p q)")
  proof -
    have "?P (priority_index p) q \<longleftrightarrow> ?Q p q" for p q
      by (metis idx order_less_trans priority_index_bound)
    moreover have "(\<exists>i q. i < 3 \<and> ?P i q) \<longleftrightarrow> (\<exists>p q. ?P (priority_index p) q)"
      using idx priority_index_bound by blast
    ultimately show ?thesis by simp
  qed
  finally show ?thesis .
qed

text \<open>C4: under every interleaving of posts, timers, workers and stops, no queue exceeds its
  bound and every accepted task is queued, being run, finished or discarded by cancel_and_stop,
  each exactly once; nothing is discarded unless cancel_and_stop was called.\<close>

theorem executor_accounting:
  assumes "exec_reachable w m s"
  shows "(\<forall>q\<in>set (ex_queues (exec s)). length q \<le> m) \<and>
         mset (accepted s) = mset (concat (ex_queues (exec s))) + mset (executing s) +
           mset (finished s) + mset (discarded s) \<and>
         (ex_drain_mode (exec s) \<or> \<not> ex_stopping (exec s) \<longrightarrow> discarded s = [])"
  using exec_reachable_inv [OF assms] by (auto simp: exec_inv_def queues_ok_def queued_def)

definition drain_measure :: "'t exec_sys \<Rightarrow> nat" where
  "drain_measure s = 3 * length (queued (exec s)) + 2 * length (executing s) + idle s"

lemma worker_step_measure: "worker_step s t \<Longrightarrow> drain_measure t < drain_measure s"
proof (induction rule: worker_step.induct)
  case (take s n t e)
  then show ?case using worker_section_Run [OF take(2)] by (auto simp: drain_measure_def)
next
  case (finish t s)
  then show ?case
    by (cases "length (executing s)") (auto simp: drain_measure_def length_remove1)
next
  case (leave s n e)
  then show ?case using worker_section_Return [OF leave(2)] by (auto simp: drain_measure_def)
qed

lemma exec_step_measure:
  "exec_step s t \<Longrightarrow> ex_stopping (exec s) \<Longrightarrow> ex_stopping (exec t) \<and> drain_measure t \<le> drain_measure s"
proof (induction rule: exec_step.induct)
  case (worker s s')
  then have "ex_stopping (exec s')"
    by (induction rule: worker_step.induct) (auto dest: worker_section_Run worker_section_Return)
  then show ?case using worker_step_measure [OF worker(1)] by simp
qed (auto simp: drain_measure_def post_def post_at_def timer_cancel_def clear_timers_def
       shutdown_locked_def cancel_and_stop_locked_def queued_def split: option.splits if_splits)

lemma worker_step_enabled:
  assumes "ex_stopping (exec s)" "0 < idle s + length (executing s)"
  shows "\<exists>t. worker_step s t"
proof (cases "executing s")
  case (Cons t ts)
  then show ?thesis by (metis list.set_intros(1) worker_step.finish)
next
  case Nil
  then obtain n where n: "idle s = Suc n" using assms by (auto simp: gr0_conv_Suc)
  obtain a e where ae: "worker_section (exec s) = (a, e)" by fastforce
  then have "a = Return \<or> (\<exists>t. a = Run t)"
    using worker_section_stopping [OF assms(1)] by (auto split: list.splits)
  with n ae show ?thesis by (metis worker_step.take worker_step.leave)
qed

text \<open>C5: once stopping, no step of any thread increases the work left, every step of a worker
  decreases it, and a worker step is possible until all workers have returned: shutdown's join
  loop ends.\<close>

theorem shutdown_progress:
  assumes "ex_stopping (exec s)"
  shows "(\<forall>t. exec_step s t \<longrightarrow> ex_stopping (exec t) \<and> drain_measure t \<le> drain_measure s) \<and>
         (\<forall>t. worker_step s t \<longrightarrow> drain_measure t < drain_measure s) \<and>
         ((\<exists>t. worker_step s t) \<longleftrightarrow> 0 < idle s + length (executing s))"
proof -
  have "0 < idle s + length (executing s)" if "worker_step s t" for t
    using that by (cases rule: worker_step.cases) (auto intro: length_pos_if_in_set)
  then have "(\<exists>t. worker_step s t) \<longleftrightarrow> 0 < idle s + length (executing s)"
    using worker_step_enabled [OF assms] by metis
  moreover have "\<forall>t. exec_step s t \<longrightarrow> ex_stopping (exec t) \<and> drain_measure t \<le> drain_measure s"
    using exec_step_measure assms by blast
  ultimately show ?thesis by (simp add: worker_step_measure)
qed

text \<open>When a graceful shutdown has joined its workers, every task post ever accepted has been
  run to its end, and nothing is left queued.\<close>

theorem shutdown_drains:
  assumes "exec_reachable w m s" "ex_drain_mode (exec s)" "idle s = 0" "executing s = []"
  shows "mset (finished s) = mset (accepted s) \<and> concat (ex_queues (exec s)) = []"
  using exec_reachable_inv [OF assms(1)] assms by (simp add: exec_inv_def queued_def)

lemma sample_exec_run:
  fixes s :: "char exec_sys"
  defines "s \<equiv> (start_sys 1 1)\<lparr>exec := (new_executor 1 1)\<lparr>ex_stopping := True, ex_drain_mode := True\<rparr>,
                 idle := 0, exited := 1\<rparr>"
  shows "exec_reachable 1 1 s"
proof -
  let ?s0 = "start_sys 1 1 :: char exec_sys"
  let ?e = "(new_executor 1 1)\<lparr>ex_stopping := True, ex_drain_mode := True\<rparr> :: char executor"
  have "exec_step ?s0 (?s0\<lparr>exec := ?e\<rparr>)"
    by (rule exec_step.begin_shutdown) (simp add: shutdown_locked_def start_sys_def new_executor_def)
  then have 1: "exec_reachable 1 1 (?s0\<lparr>exec := ?e\<rparr>)"
    by (rule exec_reachable.step [OF exec_reachable.start])
  have "worker_step (?s0\<lparr>exec := ?e\<rparr>) ((?s0\<lparr>exec := ?e\<rparr>)\<lparr>exec := ?e, idle := 0, exited := Suc 0\<rparr>)"
    using worker_step.leave [of "?s0\<lparr>exec := ?e\<rparr>" 0 ?e]
    by (simp add: worker_section_def start_sys_def new_executor_def)
  then have "exec_step (?s0\<lparr>exec := ?e\<rparr>) s" by (simp add: s_def exec_step.worker)
  with 1 show ?thesis by (rule exec_reachable.step)
qed

theorem worker_takes_highest_priority_witness:
  "worker_section ((new_executor 1 5)\<lparr>ex_queues := [[], ''ab'', ''c'']\<rparr>) =
     (Run CHR ''a'', (new_executor 1 5)\<lparr>ex_queues := [[], ''b'', ''c'']\<rparr>)"
proof -
  let ?e = "(new_executor 1 5)\<lparr>ex_queues := [[], ''ab'', ''c'']\<rparr> :: char executor"
  have ok: "queues_ok ?e" by (simp add: queues_ok_def new_executor_def)
  have "p' = IO_BOUND" if "priority_index p' < priority_index DEFAULT" for p'
    using that by (cases p') auto
  then show ?thesis
    by (intro worker_takes_highest_priority [OF ok, THEN iffD2] exI [of _ DEFAULT] exI [of _ "''b''"])
       (auto simp: new_executor_def)
qed

theorem executor_accounting_witness: "discarded (start_sys 2 3 :: char exec_sys) = []"
  using executor_accounting [OF exec_reachable.start [of 2 3]]
  by (simp add: start_sys_def new_executor_def)

theorem shutdown_progress_witness:
  "\<not> (\<exists>t. worker_step ((start_sys 1 1)\<lparr>exec := (new_executor 1 1)\<lparr>ex_stopping := True\<rparr>,
                         idle := 0\<rparr> :: char exec_sys) t)"
  using shutdown_progress [of "(start_sys 1 1)\<lparr>exec := (new_executor 1 1)\<lparr>ex_stopping := True\<rparr>,
                         idle := 0\<rparr> :: char exec_sys"]
  by (simp add: start_sys_def)

theorem shutdown_drains_witness:
  "finished ((start_sys 1 1)\<lparr>exec := (new_executor 1 1)\<lparr>ex_stopping := True, ex_drain_mode := True\<rparr>,
                 idle := 0, exited := 1\<rparr> :: char exec_sys) = []"
  using shutdown_drains [OF sample_exec_run] by (simp add: start_sys_def)

definition sample_timers :: "char timer_entry list" where
  "sample_timers =
     [\<lparr>te_when = 9, te_task = CHR ''a'', te_cancelled = False, te_id = 1, te_priority = DEFAULT\<rparr>,
      \<lparr>te_when = 1, te_task = CHR ''b'', te_cancelled = True, te_id = 2, te_priority = DEFAULT\<rparr>,
      \<lparr>te_when = 4, te_task = CHR ''c'', te_cancelled = False, te_id = 3, te_priority = DEFAULT\<rparr>]"

lemma sample_timers_section:
  "timer_section 5 sample_timers =
     (Some \<lparr>te_when = 4, te_task = CHR ''c'', te_cancelled = False, te_id = 3, te_priority = DEFAULT\<rparr>,
      [\<lparr>te_when = 9, te_task = CHR ''a'', te_cancelled = False, te_id = 1, te_priority = DEFAULT\<rparr>])"
  by (simp add: timer_section_def sample_timers_def purge_cancelled.simps)

theorem timer_section_sound_witness:
  "\<exists>dropped. (\<forall>a\<in>set dropped. te_cancelled a) \<and>
     mset sample_timers =
       add_mset \<lparr>te_when = 4, te_task = CHR ''c'', te_cancelled = False, te_id = 3, te_priority = DEFAULT\<rparr>
        (mset [\<lparr>te_when = 9, te_task = CHR ''a'', te_cancelled = False, te_id = 1, te_priority = DEFAULT\<rparr>]) +
       mset dropped"
  using timer_section_sound [of sample_timers 5] unfolding sample_timers_section by auto

end
