(* ===== verification/Reflect.thy ===== *)
theory Reflect
  imports Protocol_Types
begin

text \<open>
  src/sdk/protocol/include/cxxmcp/protocol/reflect.hpp: the compile-time reflection that turns the
  protocol's structs into JSON and back. Every specialisation of \<open>JsonFieldTraits\<close> writes at most
  \<open>json[key]\<close> and reads at most \<open>json.at(key)\<close>, so a trait is a pair of functions between field
  values and member values, with the default \<open>Field{}\<close> and whether the type is an optional. A field
  descriptor carries its pointer-to-member as a reader and a writer of the struct.
\<close>

section \<open>Field traits\<close>

record 'f json_trait =
  tr_ser :: "'f \<Rightarrow> json option"
  tr_de :: "json \<Rightarrow> 'f option"
  tr_default :: 'f
  tr_optional :: bool

definition int64_trait :: "int64 json_trait" where
  "int64_trait = \<lparr>tr_ser = (\<lambda>v. Some (JInt v)),
     tr_de = (\<lambda>j. if \<not> is_number_integer j then None else get_int64 j),
     tr_default = 0, tr_optional = False\<rparr>"

definition bool_trait :: "bool json_trait" where
  "bool_trait = \<lparr>tr_ser = (\<lambda>v. Some (JBool v)),
     tr_de = (\<lambda>j. if \<not> is_boolean j then None else get_bool j),
     tr_default = False, tr_optional = False\<rparr>"

definition string_trait :: "string json_trait" where
  "string_trait = \<lparr>tr_ser = (\<lambda>v. Some (JString v)),
     tr_de = (\<lambda>j. if \<not> is_string j then None else get_string j),
     tr_default = '''', tr_optional = False\<rparr>"

definition raw_json_trait :: "json json_trait" where
  "raw_json_trait = \<lparr>tr_ser = (\<lambda>v. if \<not> is_null v \<and> \<not> jempty v then Some v else None),
     tr_de = Some, tr_default = JNull, tr_optional = False\<rparr>"

definition icon_theme_trait :: "IconTheme json_trait" where
  "icon_theme_trait = \<lparr>tr_ser = (\<lambda>v. Some (JString (icon_theme_to_string v))),
     tr_de = (\<lambda>j. case get_string j of None \<Rightarrow> None | Some s \<Rightarrow> icon_theme_from_string s),
     tr_default = Light, tr_optional = False\<rparr>"

definition optional_trait :: "'f json_trait \<Rightarrow> 'f option json_trait" where
  "optional_trait tr = \<lparr>tr_ser = (\<lambda>v. case v of None \<Rightarrow> None | Some x \<Rightarrow> tr_ser tr x),
     tr_de = (\<lambda>j. case tr_de tr j of None \<Rightarrow> None | Some x \<Rightarrow> Some (Some x)),
     tr_default = None, tr_optional = True\<rparr>"

definition optional_json_trait :: "json option json_trait" where
  "optional_json_trait =
     \<lparr>tr_ser = (\<lambda>v. case v of None \<Rightarrow> None | Some x \<Rightarrow> if \<not> is_null x then Some x else None),
     tr_de = (\<lambda>j. Some (Some j)), tr_default = None, tr_optional = True\<rparr>"

text \<open>The loop over the elements of an array, leaving at the first one that does not parse.\<close>

fun map_all :: "('a \<Rightarrow> 'b option) \<Rightarrow> 'a list \<Rightarrow> 'b list option" where
  "map_all f [] = Some []"
| "map_all f (x # xs) =
     (case f x of None \<Rightarrow> None
      | Some y \<Rightarrow> (case map_all f xs of None \<Rightarrow> None | Some ys \<Rightarrow> Some (y # ys)))"

text \<open>\<open>std::vector<T>\<close> for a reflected \<open>T\<close>: an element whose serialiser writes nothing becomes null.\<close>

definition vector_trait :: "'f json_trait \<Rightarrow> 'f list json_trait" where
  "vector_trait tr = \<lparr>tr_ser = (\<lambda>xs. if xs = [] then None
       else Some (JArray (map (\<lambda>x. case tr_ser tr x of None \<Rightarrow> JNull | Some j \<Rightarrow> j) xs))),
     tr_de = (\<lambda>j. case j of JArray js \<Rightarrow> map_all (tr_de tr) js | _ \<Rightarrow> None),
     tr_default = [], tr_optional = False\<rparr>"

definition string_vector_trait :: "string list json_trait" where
  "string_vector_trait = \<lparr>tr_ser = (\<lambda>xs. if xs = [] then None else Some (JArray (map JString xs))),
     tr_de = (\<lambda>j. case j of JArray js \<Rightarrow> map_all get_string js | _ \<Rightarrow> None),
     tr_default = [], tr_optional = False\<rparr>"

text \<open>\<open>std::variant<std::monostate, int64_t>\<close> is an option, monostate being \<open>None\<close>.\<close>

definition nullable_int_trait :: "int64 option json_trait" where
  "nullable_int_trait =
     \<lparr>tr_ser = (\<lambda>v. case v of Some i \<Rightarrow> Some (JInt i) | None \<Rightarrow> Some JNull),
     tr_de = (\<lambda>j. if is_null j then Some None
                  else if is_number_integer j then map_option Some (get_int64 j) else None),
     tr_default = None, tr_optional = False\<rparr>"

definition request_id_trait :: "request_id json_trait" where
  "request_id_trait = \<lparr>tr_ser = (\<lambda>v. Some (request_id_to_json v)),
     tr_de = (\<lambda>j. if is_number_integer j then map_option IdInt (get_int64 j)
                  else if is_string j then map_option IdString (get_string j) else None),
     tr_default = IdInt 0, tr_optional = False\<rparr>"

section \<open>Descriptors\<close>

definition invalid_request :: "string \<Rightarrow> core_error" where
  "invalid_request msg = mk_error (error_code InvalidRequest) msg '''' ''''"

definition missing_field :: "string \<Rightarrow> core_error" where
  "missing_field name = invalid_request (''missing required field '' @ [CHR 0x27] @ name @ [CHR 0x27])"

definition invalid_field :: "string \<Rightarrow> core_error" where
  "invalid_field name = invalid_request (''invalid field '' @ [CHR 0x27] @ name @ [CHR 0x27])"

text \<open>
  \<open>monostate\<close> is the value of an absent field under \<open>nullable_field\<close>, \<open>absent_as_default\<close> the flag
  of \<open>defaulted_field\<close>.
\<close>

definition deserialize_one ::
  "'f json_trait \<Rightarrow> string \<Rightarrow> ('f \<Rightarrow> 's \<Rightarrow> 's) \<Rightarrow> ('f \<Rightarrow> unit result) option \<Rightarrow> 'f option \<Rightarrow> bool \<Rightarrow>
   json \<Rightarrow> 's \<Rightarrow> 's result" where
  "deserialize_one tr wire_name put post_validate monostate absent_as_default j obj =
     (case jfind j wire_name of
        None \<Rightarrow>
          if absent_as_default then Inr (put (tr_default tr) obj)
          else if tr_optional tr then Inr obj
          else (case monostate of
                  Some m \<Rightarrow> Inr (put m obj)
                | None \<Rightarrow> Inl (missing_field wire_name))
      | Some v \<Rightarrow>
          (case tr_de tr v of
             None \<Rightarrow> Inl (invalid_field wire_name)
           | Some temp \<Rightarrow>
               (case post_validate of
                  None \<Rightarrow> Inr (put temp obj)
                | Some check \<Rightarrow> rbind (check temp) (\<lambda>_. Inr (put temp obj)))))"

datatype 's descriptor =
    FieldDescriptor (wire_name: string) (fd_ser: "'s \<Rightarrow> json option") (fd_de: "json \<Rightarrow> 's \<Rightarrow> 's result")
  | ExtensionsField "'s \<Rightarrow> json"

definition field ::
  "'f json_trait \<Rightarrow> string \<Rightarrow> ('s \<Rightarrow> 'f) \<Rightarrow> ('f \<Rightarrow> 's \<Rightarrow> 's) \<Rightarrow> 's descriptor" where
  "field tr name get put =
     FieldDescriptor name (\<lambda>s. tr_ser tr (get s)) (deserialize_one tr name put None None False)"

definition validated_field ::
  "'f json_trait \<Rightarrow> string \<Rightarrow> ('s \<Rightarrow> 'f) \<Rightarrow> ('f \<Rightarrow> 's \<Rightarrow> 's) \<Rightarrow> ('f \<Rightarrow> unit result) \<Rightarrow> 's descriptor" where
  "validated_field tr name get put check =
     FieldDescriptor name (\<lambda>s. tr_ser tr (get s)) (deserialize_one tr name put (Some check) None False)"

definition nullable_field ::
  "'f option json_trait \<Rightarrow> string \<Rightarrow> ('s \<Rightarrow> 'f option) \<Rightarrow> ('f option \<Rightarrow> 's \<Rightarrow> 's) \<Rightarrow> 's descriptor" where
  "nullable_field tr name get put =
     FieldDescriptor name (\<lambda>s. tr_ser tr (get s)) (deserialize_one tr name put None (Some None) False)"

definition defaulted_field ::
  "'f json_trait \<Rightarrow> string \<Rightarrow> ('s \<Rightarrow> 'f) \<Rightarrow> ('f \<Rightarrow> 's \<Rightarrow> 's) \<Rightarrow> 's descriptor" where
  "defaulted_field tr name get put =
     FieldDescriptor name (\<lambda>s. tr_ser tr (get s)) (deserialize_one tr name put None None True)"

fun serialize_one :: "'s \<Rightarrow> json \<Rightarrow> 's descriptor \<Rightarrow> json" where
  "serialize_one obj j (FieldDescriptor name ser de) = jset_opt j name (ser obj)"
| "serialize_one obj j (ExtensionsField get) = append_json_extensions j (get obj)"

fun deserialize_step :: "json \<Rightarrow> 's descriptor \<Rightarrow> 's \<Rightarrow> 's result" where
  "deserialize_step j (FieldDescriptor name ser de) obj = de j obj"
| "deserialize_step j (ExtensionsField get) obj = Inr obj"

fun deserialize_all :: "json \<Rightarrow> 's descriptor list \<Rightarrow> 's \<Rightarrow> 's result" where
  "deserialize_all j [] obj = Inr obj"
| "deserialize_all j (d # ds) obj = rbind (deserialize_step j d obj) (deserialize_all j ds)"

section \<open>Structs\<close>

text \<open>
  \<open>Reflect<T>\<close>: the default value, the descriptors, the \<open>extensions\<close> member if there is one, and the
  known keys.
\<close>

record 's reflect =
  rf_default :: 's
  rf_fields :: "'s descriptor list"
  rf_extensions :: "(('s \<Rightarrow> json) \<times> (json \<Rightarrow> 's \<Rightarrow> 's)) option"
  rf_known_keys :: "string list"

fun extract_known_keys :: "'s descriptor list \<Rightarrow> string list" where
  "extract_known_keys [] = []"
| "extract_known_keys (FieldDescriptor name ser de # ds) = name # extract_known_keys ds"
| "extract_known_keys (ExtensionsField get # ds) = extract_known_keys ds"

definition reflect_to_json :: "'s reflect \<Rightarrow> 's \<Rightarrow> json" where
  "reflect_to_json R obj =
     (let j = foldl (serialize_one obj) empty_object (rf_fields R) in
      case rf_extensions R of
        None \<Rightarrow> j
      | Some (get, put) \<Rightarrow> append_json_extensions j (get obj))"

definition reflect_from_json :: "'s reflect \<Rightarrow> json \<Rightarrow> 's result" where
  "reflect_from_json R j =
     (if \<not> is_object j then Inl (invalid_request ''expected a JSON object'')
      else rbind (deserialize_all j (rf_fields R) (rf_default R)) (\<lambda>obj.
        case rf_extensions R of
          None \<Rightarrow> Inr obj
        | Some (get, put) \<Rightarrow> Inr (put (collect_json_extensions j (rf_known_keys R)) obj)))"

text \<open>Nested structs: the trait of a reflected type.\<close>

definition reflect_trait :: "'s reflect \<Rightarrow> 's json_trait" where
  "reflect_trait R = \<lparr>tr_ser = (\<lambda>v. Some (reflect_to_json R v)),
     tr_de = (\<lambda>j. case reflect_from_json R j of Inl _ \<Rightarrow> None | Inr v \<Rightarrow> Some v),
     tr_default = rf_default R, tr_optional = False\<rparr>"

section \<open>Laws of the traits\<close>

text \<open>
  The contract of a field trait: a value that is written is read back, a value that is omitted is
  the default. \<open>ok\<close> restricts the values (an optional JSON null is written as nothing).
\<close>

locale field_trait =
  fixes tr :: "'f json_trait" and ok :: "'f \<Rightarrow> bool"
  assumes read_back: "ok x \<Longrightarrow> tr_ser tr x = Some j \<Longrightarrow> tr_de tr j = Some x"
    and omitted: "ok x \<Longrightarrow> tr_ser tr x = None \<Longrightarrow> x = tr_default tr"
begin

lemma deserialize_present:
  assumes "ok x" "tr_ser tr x = Some v" "jfind j name = Some v"
    "case check of None \<Rightarrow> True | Some f \<Rightarrow> f x = Inr ()"
  shows "deserialize_one tr name put check mst dflt j t = Inr (put x t)"
  using assms read_back [OF assms(1,2)] by (simp add: deserialize_one_def split: option.splits)

lemma deserialize_defaulted:
  assumes "ok x" "jfind j name = tr_ser tr x"
  shows "deserialize_one tr name put None mst True j t = Inr (put x t)"
proof (cases "tr_ser tr x")
  case None
  then show ?thesis using assms omitted [of x] by (simp add: deserialize_one_def)
qed (use assms in \<open>auto intro: deserialize_present\<close>)

lemma deserialize_optional:
  assumes "ok x" "jfind j name = tr_ser tr x" "tr_optional tr" "put (tr_default tr) t = t"
  shows "deserialize_one tr name put None mst False j t = Inr (put x t)"
proof (cases "tr_ser tr x")
  case None
  then show ?thesis using assms omitted [of x] by (simp add: deserialize_one_def)
qed (use assms in \<open>auto intro: deserialize_present\<close>)

end

locale present_trait = field_trait +
  assumes never_omitted: "ok x \<Longrightarrow> tr_ser tr x \<noteq> None"
begin

lemma written: "ok x \<Longrightarrow> \<exists>v. tr_ser tr x = Some v \<and> tr_de tr v = Some x"
  using never_omitted [of x] read_back [of x] by auto

lemma deserialize_required:
  assumes "ok x" "jfind j name = tr_ser tr x"
  shows "deserialize_one tr name put None mst dflt j t = Inr (put x t)"
  using assms never_omitted [OF assms(1)] by (auto intro: deserialize_present)

lemma map_all_read_back:
  "\<forall>x\<in>set xs. ok x \<Longrightarrow>
   map_all (tr_de tr) (map (\<lambda>x. case tr_ser tr x of None \<Rightarrow> JNull | Some j \<Rightarrow> j) xs) = Some xs"
  by (induction xs) (auto dest!: written)

end

sublocale present_trait \<subseteq> opt: field_trait "optional_trait tr" "\<lambda>v. \<forall>x. v = Some x \<longrightarrow> ok x"
  by unfold_locales (auto simp: optional_trait_def dest: written split: option.splits)

sublocale present_trait \<subseteq> vec: field_trait "vector_trait tr" "\<lambda>xs. \<forall>x\<in>set xs. ok x"
  by unfold_locales (auto simp: vector_trait_def map_all_read_back split: if_splits)

interpretation int64: present_trait int64_trait "\<lambda>_. True"
  by unfold_locales (auto simp: int64_trait_def)

interpretation boolean: present_trait bool_trait "\<lambda>_. True"
  by unfold_locales (auto simp: bool_trait_def)

interpretation str: present_trait string_trait "\<lambda>_. True"
  by unfold_locales (auto simp: string_trait_def)

interpretation theme: present_trait icon_theme_trait "\<lambda>_. True"
  by unfold_locales (auto simp: icon_theme_trait_def)

interpretation nullable_int: present_trait nullable_int_trait "\<lambda>_. True"
  by unfold_locales (auto simp: nullable_int_trait_def split: option.splits)

interpretation rid: present_trait request_id_trait "\<lambda>_. True"
  by unfold_locales
     (auto simp: request_id_trait_def request_id_from_json_def [symmetric])

interpretation opt_json: field_trait optional_json_trait "\<lambda>v. v \<noteq> Some JNull"
  by unfold_locales (auto simp: optional_json_trait_def is_null_iff split: option.splits if_splits)

lemma map_all_get_string [simp]: "map_all get_string (map JString xs) = Some xs"
  by (induction xs) auto

interpretation strings: field_trait string_vector_trait "\<lambda>_. True"
  by unfold_locales (auto simp: string_vector_trait_def split: if_splits)

section \<open>Reading back what was written\<close>

text \<open>
  \<open>reads_back obj ds t u\<close>: reading the fields \<open>ds\<close> from an object that holds what \<open>obj\<close> writes turns
  \<open>t\<close> into \<open>u\<close>.
\<close>

inductive reads_back :: "'s \<Rightarrow> 's descriptor list \<Rightarrow> 's \<Rightarrow> 's \<Rightarrow> bool" for obj where
  no_fields: "reads_back obj [] t t"
| extensions: "reads_back obj ds t u \<Longrightarrow> reads_back obj (ExtensionsField get # ds) t u"
| one_field: "(\<And>j. jfind j name = ser obj \<Longrightarrow> de j t = Inr t') \<Longrightarrow> reads_back obj ds t' u \<Longrightarrow>
    reads_back obj (FieldDescriptor name ser de # ds) t u"

inductive_simps reads_back_Nil [simp]: "reads_back obj [] t u"

lemma jwf_serialize_one [simp]: "jwf j \<Longrightarrow> jwf (serialize_one obj j d)"
  by (cases d) auto

lemma jwf_serialize_fields [simp]: "jwf j \<Longrightarrow> jwf (foldl (serialize_one obj) j ds)"
  by (induction ds arbitrary: j) auto

text \<open>A key outside the fields comes from the object so far or from the extensions.\<close>

definition exts_only :: "'s \<Rightarrow> 's descriptor list \<Rightarrow> json \<Rightarrow> bool" where
  "exts_only obj ds e \<longleftrightarrow> (\<forall>get. ExtensionsField get \<in> set ds \<longrightarrow> get obj = e)"

lemma exts_only_Cons [simp]:
  "exts_only obj [] e"
  "exts_only obj (FieldDescriptor n s d # ds) e = exts_only obj ds e"
  "exts_only obj (ExtensionsField g # ds) e \<longleftrightarrow> g obj = e \<and> exts_only obj ds e"
  by (auto simp: exts_only_def)

lemma serialize_fields_other:
  "jwf j \<Longrightarrow> exts_only obj ds e \<Longrightarrow> is_object e \<Longrightarrow> k \<notin> set (extract_known_keys ds) \<Longrightarrow>
   jfind (foldl (serialize_one obj) j ds) k =
     (case jfind j k of Some v \<Rightarrow> Some v
      | None \<Rightarrow> if \<exists>g. ExtensionsField g \<in> set ds then jfind e k else None)"
proof (induction ds arbitrary: j)
  case (Cons d ds)
  then show ?case by (cases d) (auto split: option.splits)
qed (auto split: option.splits)

lemma serialize_fields_own:
  "jwf j \<Longrightarrow> exts_only obj ds e \<Longrightarrow> is_object e \<Longrightarrow> \<forall>k \<in> set (extract_known_keys ds). jfind j k = None \<and> jfind e k = None \<Longrightarrow>
   distinct (extract_known_keys ds) \<Longrightarrow> FieldDescriptor n s f \<in> set ds \<Longrightarrow>
   jfind (foldl (serialize_one obj) j ds) n = s obj"
proof (induction ds arbitrary: j)
  case (Cons d ds)
  show ?case
  proof (cases "d = FieldDescriptor n s f \<and> n \<notin> set (extract_known_keys ds)")
    case True
    then have "jfind (foldl (serialize_one obj) (jset_opt j n (s obj)) ds) n = s obj"
      using Cons.prems serialize_fields_other [of "jset_opt j n (s obj)" obj ds e n]
      by (auto split: option.splits)
    then show ?thesis using True by simp
  next
    case False
    then have mem: "FieldDescriptor n s f \<in> set ds" using Cons.prems by (cases d) auto
    have "\<forall>k \<in> set (extract_known_keys ds). jfind (serialize_one obj j d) k = None"
      using Cons.prems by (cases d) auto
    with Cons.prems mem Cons.IH [of "serialize_one obj j d"] show ?thesis by (cases d) auto
  qed
qed simp

lemma deserialize_all_reads_back:
  "reads_back obj ds t u \<Longrightarrow> \<forall>n s f. FieldDescriptor n s f \<in> set ds \<longrightarrow> jfind j n = s obj \<Longrightarrow>
   deserialize_all j ds t = Inr u"
  by (induction rule: reads_back.induct) auto

lemma wire_name_known: "FieldDescriptor n s f \<in> set ds \<Longrightarrow> n \<in> set (extract_known_keys ds)"
  by (induction ds rule: extract_known_keys.induct) auto

lemma jfind_reflected:
  assumes "distinct (extract_known_keys ds)" "exts_only obj ds e" "ext_ok (extract_known_keys ds) e"
    "FieldDescriptor n s f \<in> set ds"
  shows "jfind (append_json_extensions (foldl (serialize_one obj) empty_object ds) e) n = s obj"
proof -
  have n: "n \<in> set (extract_known_keys ds)" by (rule wire_name_known [OF assms(4)])
  have "jfind (foldl (serialize_one obj) empty_object ds) n = s obj"
    by (rule serialize_fields_own [OF _ assms(2) _ _ assms(1,4)])
       (use assms(3) in \<open>simp_all add: ext_ok_def\<close>)
  then show ?thesis using assms(3) n by (auto simp: ext_ok_def split: option.splits)
qed

context field_trait
begin

lemma reads_optional:
  "ok (get obj) \<Longrightarrow> tr_optional tr \<Longrightarrow> put (tr_default tr) t = t \<Longrightarrow>
   reads_back obj ds (put (get obj) t) u \<Longrightarrow> reads_back obj (field tr name get put # ds) t u"
  unfolding field_def by (rule reads_back.one_field) (auto intro: deserialize_optional)

lemma reads_defaulted:
  "ok (get obj) \<Longrightarrow> reads_back obj ds (put (get obj) t) u \<Longrightarrow>
   reads_back obj (defaulted_field tr name get put # ds) t u"
  unfolding defaulted_field_def by (rule reads_back.one_field) (auto intro: deserialize_defaulted)

end

context present_trait
begin

lemma reads_required:
  "ok (get obj) \<Longrightarrow> reads_back obj ds (put (get obj) t) u \<Longrightarrow>
   reads_back obj (field tr name get put # ds) t u"
  unfolding field_def by (rule reads_back.one_field) (auto intro: deserialize_required)

end

lemma reads_nullable:
  "present_trait tr ok \<Longrightarrow> ok (get obj) \<Longrightarrow> reads_back obj ds (put (get obj) t) u \<Longrightarrow>
   reads_back obj (nullable_field tr name get put # ds) t u"
  unfolding nullable_field_def
  by (rule reads_back.one_field) (auto intro: present_trait.deserialize_required)

lemma tr_optional_simps [simp]:
  "tr_optional (optional_trait tr)" "tr_default (optional_trait tr) = None"
  "tr_optional optional_json_trait" "tr_default optional_json_trait = None"
  by (simp_all add: optional_trait_def optional_json_trait_def)

lemma extract_known_keys_field [simp]:
  "extract_known_keys (field tr n g p # ds) = n # extract_known_keys ds"
  "extract_known_keys (nullable_field tro n go po # ds) = n # extract_known_keys ds"
  "extract_known_keys (defaulted_field tr n g p # ds) = n # extract_known_keys ds"
  "extract_known_keys (validated_field tr n g p c # ds) = n # extract_known_keys ds"
  by (simp_all add: field_def nullable_field_def defaulted_field_def validated_field_def)

lemma exts_only_field [simp]:
  "exts_only obj (field tr n g p # ds) e = exts_only obj ds e"
  "exts_only obj (nullable_field tro n go po # ds) e = exts_only obj ds e"
  "exts_only obj (defaulted_field tr n g p # ds) e = exts_only obj ds e"
  "exts_only obj (validated_field tr n g p c # ds) e = exts_only obj ds e"
  by (simp_all add: field_def nullable_field_def defaulted_field_def validated_field_def)

text \<open>
  The contract of a reflected struct with an \<open>extensions\<close> member, and what follows from it for
  every such struct: it is read back as it was written, with the unknown members it carried.
\<close>

locale reflected_struct =
  fixes R :: "'s reflect" and ok :: "'s \<Rightarrow> bool"
    and get_ext :: "'s \<Rightarrow> json" and put_ext :: "json \<Rightarrow> 's \<Rightarrow> 's"
  assumes has_extensions: "rf_extensions R = Some (get_ext, put_ext)"
    and known_keys: "set (rf_known_keys R) = set (extract_known_keys (rf_fields R))"
    and distinct_keys: "distinct (extract_known_keys (rf_fields R))"
    and same_extensions: "exts_only obj (rf_fields R) (get_ext obj)"
    and extensions_ok: "ok obj \<Longrightarrow> ext_ok (rf_known_keys R) (get_ext obj)"
    and fields_read_back: "ok obj \<Longrightarrow>
          \<exists>u. reads_back obj (rf_fields R) (rf_default R) u \<and> put_ext (get_ext obj) u = obj"
begin

lemma to_json_wf [simp]: "jwf (reflect_to_json R obj)"
  by (simp add: reflect_to_json_def has_extensions Let_def)

lemma to_json_object [simp]: "is_object (reflect_to_json R obj)"
  by (rule jwf_is_object) simp

lemma jfind_unknown:
  assumes "ok obj" "k \<notin> set (rf_known_keys R)"
  shows "jfind (reflect_to_json R obj) k = jfind (get_ext obj) k"
proof -
  have e: "is_object (get_ext obj)" using extensions_ok [OF assms(1)] by (simp add: ext_ok_def)
  show ?thesis
    using serialize_fields_other [OF _ same_extensions e, of empty_object k] assms(2) e
    by (auto simp: reflect_to_json_def has_extensions known_keys split: option.splits)
qed

lemma collect_to_json:
  assumes "ok obj"
  shows "collect_json_extensions (reflect_to_json R obj) (rf_known_keys R) = get_ext obj"
  using extensions_ok [OF assms] jfind_unknown [OF assms]
  by (intro jwf_ext) (auto simp: ext_ok_def)

lemma jfind_known:
  assumes "ok obj" "FieldDescriptor n s f \<in> set (rf_fields R)"
  shows "jfind (reflect_to_json R obj) n = s obj"
  using jfind_reflected [OF distinct_keys same_extensions _ assms(2)] extensions_ok [OF assms(1)]
  by (simp add: reflect_to_json_def has_extensions ext_ok_def known_keys)

lemma from_json_known:
  assumes "ok obj" "is_object j"
    "\<And>k. k \<in> set (rf_known_keys R) \<Longrightarrow> jfind j k = jfind (reflect_to_json R obj) k"
  shows "\<exists>u. reflect_from_json R j = Inr (put_ext (collect_json_extensions j (rf_known_keys R)) u) \<and>
             put_ext (get_ext obj) u = obj"
proof -
  obtain u where u: "reads_back obj (rf_fields R) (rf_default R) u" "put_ext (get_ext obj) u = obj"
    using fields_read_back [OF assms(1)] by blast
  have "deserialize_all j (rf_fields R) (rf_default R) = Inr u"
    using deserialize_all_reads_back [OF u(1), of j] assms(3) jfind_known [OF assms(1)]
    by (metis known_keys wire_name_known)
  then show ?thesis using u(2) assms(2) by (auto simp: reflect_from_json_def has_extensions)
qed

lemma roundtrip:
  assumes "ok obj"
  shows "reflect_from_json R (reflect_to_json R obj) = Inr obj"
  using from_json_known [OF assms to_json_object refl] collect_to_json [OF assms] by auto

lemma parsed_extensions:
  assumes "reflect_from_json R j = Inr obj" "jwf j"
    and put_get: "\<And>e s. get_ext (put_ext e s) = e"
  shows "ext_ok (rf_known_keys R) (get_ext obj)"
  using assms by (auto simp: reflect_from_json_def has_extensions rbind_eq_Inr split: if_splits)

end

sublocale reflected_struct \<subseteq> tr: present_trait "reflect_trait R" ok
  by unfold_locales (auto simp: reflect_trait_def roundtrip)

text \<open>The same for a struct without that member: unknown members are dropped.\<close>

locale plain_struct =
  fixes R :: "'s reflect" and ok :: "'s \<Rightarrow> bool"
  assumes no_extensions: "rf_extensions R = None" "ExtensionsField g \<notin> set (rf_fields R)"
    and distinct_keys: "distinct (extract_known_keys (rf_fields R))"
    and fields_read_back: "ok obj \<Longrightarrow> reads_back obj (rf_fields R) (rf_default R) obj"
begin

lemma to_json_wf [simp]: "jwf (reflect_to_json R obj)"
  by (simp add: reflect_to_json_def no_extensions Let_def)

lemma roundtrip:
  assumes "ok obj"
  shows "reflect_from_json R (reflect_to_json R obj) = Inr obj"
proof -
  have e: "exts_only obj (rf_fields R) empty_object" by (simp add: exts_only_def no_extensions(2))
  have "append_json_extensions j empty_object = j" for j by (simp add: append_json_extensions_def)
  then have "\<forall>n s f. FieldDescriptor n s f \<in> set (rf_fields R) \<longrightarrow> jfind (reflect_to_json R obj) n = s obj"
    using jfind_reflected [OF distinct_keys e ext_ok_empty]
    by (simp add: reflect_to_json_def no_extensions)
  then have "deserialize_all (reflect_to_json R obj) (rf_fields R) (rf_default R) = Inr obj"
    by (rule deserialize_all_reads_back [OF fields_read_back [OF assms]])
  moreover have "is_object (reflect_to_json R obj)" by (rule jwf_is_object) simp
  ultimately show ?thesis by (simp add: reflect_from_json_def no_extensions)
qed

end

sublocale plain_struct \<subseteq> tr: present_trait "reflect_trait R" ok
  by unfold_locales (auto simp: reflect_trait_def roundtrip)

lemma field_not_ExtensionsField [simp]:
  "ExtensionsField h \<noteq> field tr n g p" "ExtensionsField h \<noteq> defaulted_field tr n g p"
  by (simp_all add: field_def defaulted_field_def)

section \<open>Acceptance\<close>

text \<open>Without a validator a field is accepted or not whatever the struct holds so far.\<close>

definition accepts :: "json \<Rightarrow> 's descriptor \<Rightarrow> bool" where
  "accepts j d \<longleftrightarrow> (\<forall>obj. is_ok (deserialize_step j d obj))"

definition decided :: "json \<Rightarrow> 's descriptor \<Rightarrow> bool" where
  "decided j d \<longleftrightarrow> accepts j d \<or> (\<forall>obj. \<not> is_ok (deserialize_step j d obj))"

lemma is_ok_rbind: "is_ok (rbind r f) \<longleftrightarrow> (\<exists>x. r = Inr x \<and> is_ok (f x))"
  by (cases r) auto

lemma is_ok_deserialize_all:
  "\<forall>d\<in>set ds. decided j d \<Longrightarrow> is_ok (deserialize_all j ds obj) \<longleftrightarrow> (\<forall>d\<in>set ds. accepts j d)"
proof (induction ds arbitrary: obj)
  case (Cons d ds)
  then have "is_ok (deserialize_step j d obj) = accepts j d"
    by (auto simp: accepts_def decided_def)
  with Cons show ?case by (cases "deserialize_step j d obj") auto
qed simp

lemma is_ok_deserialize_one:
  "is_ok (deserialize_one tr n put None mst dflt j obj) \<longleftrightarrow>
   (case jfind j n of None \<Rightarrow> dflt \<or> tr_optional tr \<or> mst \<noteq> None | Some v \<Rightarrow> tr_de tr v \<noteq> None)"
  by (auto simp: deserialize_one_def split: option.splits)

lemma accepts_field [simp]:
  "accepts j (field tr n g p) \<longleftrightarrow>
     (case jfind j n of None \<Rightarrow> tr_optional tr | Some v \<Rightarrow> tr_de tr v \<noteq> None)"
  "accepts j (defaulted_field tr n g p) \<longleftrightarrow>
     (case jfind j n of None \<Rightarrow> True | Some v \<Rightarrow> tr_de tr v \<noteq> None)"
  "accepts j (nullable_field tro n go po) \<longleftrightarrow>
     (case jfind j n of None \<Rightarrow> True | Some v \<Rightarrow> tr_de tro v \<noteq> None)"
  "accepts j (ExtensionsField h)"
  by (auto simp: accepts_def field_def defaulted_field_def nullable_field_def is_ok_deserialize_one
      split: option.splits)

lemma decided_field [simp]:
  "decided j (field tr n g p)" "decided j (defaulted_field tr n g p)"
  "decided j (nullable_field tro n go po)" "decided j (ExtensionsField h)"
  by (auto simp: decided_def accepts_def field_def defaulted_field_def nullable_field_def is_ok_deserialize_one)

lemma is_ok_reflect_from_json:
  "\<forall>d\<in>set (rf_fields R). decided j d \<Longrightarrow>
   is_ok (reflect_from_json R j) \<longleftrightarrow> is_object j \<and> (\<forall>d\<in>set (rf_fields R). accepts j d)"
  using is_ok_deserialize_all [of "rf_fields R" j "rf_default R"]
  by (cases "rf_extensions R"; cases "deserialize_all j (rf_fields R) (rf_default R)")
     (auto simp: reflect_from_json_def)

definition plain_errors :: "json \<Rightarrow> 's descriptor \<Rightarrow> bool" where
  "plain_errors j d \<longleftrightarrow>
     (\<forall>obj e. deserialize_step j d obj = Inl e \<longrightarrow> err_code e = error_code InvalidRequest)"

lemma plain_errors_field [simp]:
  "plain_errors j (field tr n g p)" "plain_errors j (defaulted_field tr n g p)"
  "plain_errors j (nullable_field tro n go po)" "plain_errors j (ExtensionsField h)"
  by (auto simp: plain_errors_def field_def defaulted_field_def nullable_field_def deserialize_one_def
      missing_field_def invalid_field_def invalid_request_def split: option.splits)

lemma deserialize_all_error:
  "deserialize_all j ds obj = Inl e \<Longrightarrow> \<forall>d\<in>set ds. plain_errors j d \<Longrightarrow> err_code e = error_code InvalidRequest"
  by (induction ds arbitrary: obj) (auto simp: plain_errors_def rbind_eq_Inl)

lemma reflect_from_json_error:
  "reflect_from_json R j = Inl e \<Longrightarrow> \<forall>d\<in>set (rf_fields R). plain_errors j d \<Longrightarrow>
   err_code e = error_code InvalidRequest"
  by (auto simp: reflect_from_json_def rbind_eq_Inl invalid_request_def dest: deserialize_all_error
      split: if_splits option.splits)

end
