(* ===== verification/Doubles.thy ===== *)
theory Doubles
  imports Json
begin

text \<open>
  The conversion of an integer to \<open>double\<close> that \<open>get<double>()\<close> performs on an integer JSON value:
  IEEE 754 binary64, rounding to the nearest representable value, ties to the even significand. A
  double is its bit pattern, as in \<open>JFloat\<close>.
\<close>

fun bit_length :: "nat \<Rightarrow> nat" where
  "bit_length n = (if n = 0 then 0 else Suc (bit_length (n div 2)))"

declare bit_length.simps [simp del]

text \<open>\<open>n / 2 ^ s\<close> rounded to the nearest integer, ties to even.\<close>

definition round_even :: "nat \<Rightarrow> nat \<Rightarrow> nat" where
  "round_even n s =
     (if s = 0 then n
      else let q = n div 2 ^ s; r = n mod 2 ^ s; h = 2 ^ (s - 1)
           in if h < r \<or> (r = h \<and> odd q) then Suc q else q)"

definition significand :: "nat \<Rightarrow> nat" where
  "significand n =
     (if bit_length n \<le> 53 then n * 2 ^ (53 - bit_length n) else round_even n (bit_length n - 53))"

text \<open>A significand that rounds up to \<open>2 ^ 53\<close> carries into the exponent field.\<close>

definition double_of_nat :: "nat \<Rightarrow> nat" where
  "double_of_nat n = (if n = 0 then 0 else (1022 + bit_length n) * 2 ^ 52 + (significand n - 2 ^ 52))"

definition double_of_int :: "int \<Rightarrow> 64 word" where
  "double_of_int i =
     (if i < 0 then word_of_nat (2 ^ 63 + double_of_nat (nat (- i))) else word_of_nat (double_of_nat (nat i)))"

fun get_double :: "json \<Rightarrow> (64 word) option" where
  "get_double (JFloat d) = Some d"
| "get_double (JInt i) = Some (double_of_int (sint i))"
| "get_double (JUInt i) = Some (double_of_int (int (unat i)))"
| "get_double _ = None"

lemma bit_length_bounds: "0 < n \<Longrightarrow> 2 ^ (bit_length n - 1) \<le> n \<and> n < 2 ^ bit_length n \<and> 0 < bit_length n"
proof (induction n rule: bit_length.induct)
  case (1 n)
  show ?case
  proof (cases "n div 2 = 0")
    case True
    then have "n = 1" using 1(2) by auto
    then show ?thesis by (simp add: bit_length.simps [of "Suc 0"] bit_length.simps [of 0])
  next
    case False
    then have ih: "2 ^ (bit_length (n div 2) - 1) \<le> n div 2" "n div 2 < 2 ^ bit_length (n div 2)"
        "0 < bit_length (n div 2)"
      using 1 by auto
    have L: "bit_length n = Suc (bit_length (n div 2))" using 1(2) by (subst bit_length.simps) simp
    obtain m where m: "bit_length (n div 2) = Suc m" using ih(3) by (cases "bit_length (n div 2)") auto
    show ?thesis using ih unfolding L m by auto
  qed
qed

lemma bit_length_le: "n < 2 ^ k \<Longrightarrow> bit_length n \<le> k"
proof (rule ccontr)
  assume n: "n < 2 ^ k" and "\<not> bit_length n \<le> k"
  then have "0 < n" "k \<le> bit_length n - 1" by (auto simp: bit_length.simps [of 0] intro: ccontr)
  then have "2 ^ k \<le> n"
    using bit_length_bounds [of n] power_increasing [of k "bit_length n - 1" "2 :: nat"] by linarith
  then show False using n by simp
qed

text \<open>Half a unit in the last place bounds the rounding error, and an integer below \<open>2 ^ 53\<close> is exact.\<close>

lemma half_ulp: "(h :: int) \<le> r \<Longrightarrow> r < 2 * h \<Longrightarrow> 2 * \<bar>2 * h - r\<bar> \<le> 2 * h"
  by arith

lemma round_even_nearest: "2 * \<bar>int (round_even n s * 2 ^ s) - int n\<bar> \<le> 2 ^ s"
proof (cases "s = 0")
  case False
  then obtain t where s: "s = Suc t" by (cases s) auto
  define q r where q: "q = n div 2 ^ s" and r: "r = n mod 2 ^ s"
  have "n = q * 2 ^ s + r" unfolding q r by (rule div_mult_mod_eq [symmetric])
  then have n: "int n = int q * 2 ^ s + int r" by simp
  have "r < 2 ^ s" by (simp add: r)
  then have lt: "int r < 2 ^ s" by (simp flip: of_nat_less_iff)
  have p: "(2 :: int) ^ s = 2 * 2 ^ t" by (simp add: s)
  have re: "round_even n s = (if 2 ^ t < r \<or> (r = 2 ^ t \<and> odd q) then Suc q else q)"
    by (simp add: round_even_def s Let_def q r)
  show ?thesis
  proof (cases "2 ^ t < r \<or> (r = 2 ^ t \<and> odd q)")
    case True
    then have ge: "2 ^ t \<le> int r" by (auto simp flip: of_nat_less_iff)
    have eq: "int (round_even n s * 2 ^ s) - int n = 2 ^ s - int r"
      using True by (simp add: re n algebra_simps)
    show ?thesis unfolding eq p using half_ulp [OF ge] lt unfolding p by simp
  next
    case False
    then have "r \<le> 2 ^ t" by auto
    then have le: "int r \<le> 2 ^ t" by (simp flip: of_nat_le_iff)
    have eq: "int (round_even n s * 2 ^ s) - int n = - int r"
      using False by (simp add: re n)
    show ?thesis unfolding eq using le p by linarith
  qed
qed (simp add: round_even_def)

lemma significand_bounds:
  assumes "0 < n"
  shows "2 ^ 52 \<le> significand n \<and> significand n \<le> 2 ^ 53"
proof -
  let ?L = "bit_length n"
  have L: "2 ^ (?L - 1) \<le> n" "n < 2 ^ ?L" "0 < ?L" using bit_length_bounds [OF assms] by auto
  show ?thesis
  proof (cases "?L \<le> 53")
    case True
    have "2 ^ (?L - 1) * 2 ^ (53 - ?L) = (2 ^ 52 :: nat)"
      using True L(3) by (simp add: power_add [symmetric])
    moreover have "2 ^ ?L * 2 ^ (53 - ?L) = (2 ^ 53 :: nat)"
      using True by (simp add: power_add [symmetric])
    moreover have "2 ^ (?L - 1) * 2 ^ (53 - ?L) \<le> n * 2 ^ (53 - ?L)" "n * 2 ^ (53 - ?L) \<le> 2 ^ ?L * 2 ^ (53 - ?L)"
      using L by (auto intro: mult_le_mono1)
    ultimately show ?thesis using True by (simp add: significand_def)
  next
    case False
    let ?s = "?L - 53"
    have "2 ^ 52 * 2 ^ ?s = (2 :: nat) ^ (?L - 1)"
      unfolding power_add [symmetric] using False by (intro arg_cong [of _ _ "\<lambda>k. 2 ^ k"]) simp
    then have "2 ^ 52 * 2 ^ ?s \<le> n" using L(1) by (simp only:)
    then have "2 ^ 52 \<le> n div 2 ^ ?s" by (simp add: less_eq_div_iff_mult_less_eq)
    moreover have "2 ^ 53 * 2 ^ ?s = (2 :: nat) ^ ?L"
      unfolding power_add [symmetric] using False by (intro arg_cong [of _ _ "\<lambda>k. 2 ^ k"]) simp
    then have "n < 2 ^ 53 * 2 ^ ?s" using L(2) by (simp only:)
    then have "n div 2 ^ ?s < 2 ^ 53" by (simp add: less_mult_imp_div_less)
    ultimately show ?thesis using False by (auto simp: significand_def round_even_def Let_def)
  qed
qed

lemma double_of_nat_fields:
  assumes "0 < n" "n < 2 ^ 53"
  shows "double_of_nat n div 2 ^ 52 = 1022 + bit_length n"
    and "(double_of_nat n mod 2 ^ 52 + 2 ^ 52) * 2 ^ bit_length n = n * 2 ^ 53"
proof -
  let ?L = "bit_length n"
  have L: "?L \<le> 53" "n < 2 ^ ?L" using bit_length_le [OF assms(2)] bit_length_bounds [OF assms(1)] by auto
  have sig: "significand n = n * 2 ^ (53 - ?L)" using L(1) by (simp add: significand_def)
  have "n * 2 ^ (53 - ?L) < 2 ^ ?L * 2 ^ (53 - ?L)" using L(2) by simp
  then have lt: "significand n < 2 ^ 53" unfolding sig using L(1) by (simp add: power_add [symmetric])
  have ge: "2 ^ 52 \<le> significand n" using significand_bounds [OF assms(1)] by simp
  have f: "double_of_nat n = (1022 + ?L) * 2 ^ 52 + (significand n - 2 ^ 52)" "significand n - 2 ^ 52 < 2 ^ 52"
    using assms(1) lt ge by (auto simp: double_of_nat_def)
  show "double_of_nat n div 2 ^ 52 = 1022 + ?L" unfolding f(1) using f(2) by (simp add: div_mult_self3)
  have "double_of_nat n mod 2 ^ 52 = significand n - 2 ^ 52"
    unfolding f(1) mod_mult_self3 using f(2) by (rule mod_less)
  then have "(double_of_nat n mod 2 ^ 52 + 2 ^ 52) * 2 ^ ?L = n * (2 ^ (53 - ?L) * 2 ^ ?L)"
    using ge by (simp add: sig)
  then show "(double_of_nat n mod 2 ^ 52 + 2 ^ 52) * 2 ^ ?L = n * 2 ^ 53"
    using L(1) by (simp add: power_add [symmetric])
qed

end
