(* ===== verification/Types_Reflect.thy ===== *)
theory Types_Reflect
  imports Reflect Doubles
begin

text \<open>
  src/sdk/protocol/include/cxxmcp/protocol/types_reflect.hpp: the reflected structs of types.hpp
  that other protocol headers embed (icons) or that the session layer exchanges (cancellation).
\<close>

record icon =
  ic_src :: string
  ic_mime_type :: string
  ic_sizes :: "string list"
  ic_theme :: "IconTheme option"

definition default_icon :: icon where
  "default_icon = \<lparr>ic_src = '''', ic_mime_type = '''', ic_sizes = [], ic_theme = None\<rparr>"

definition icon_reflect :: "icon reflect" where
  "icon_reflect = \<lparr>rf_default = default_icon,
     rf_fields =
       [field string_trait ''src'' ic_src (\<lambda>v. ic_src_update (\<lambda>_. v)),
        defaulted_field string_trait ''mimeType'' ic_mime_type (\<lambda>v. ic_mime_type_update (\<lambda>_. v)),
        defaulted_field string_vector_trait ''sizes'' ic_sizes (\<lambda>v. ic_sizes_update (\<lambda>_. v)),
        field (optional_trait icon_theme_trait) ''theme'' ic_theme (\<lambda>v. ic_theme_update (\<lambda>_. v))],
     rf_extensions = None,
     rf_known_keys = [''src'', ''mimeType'', ''sizes'', ''theme'']\<rparr>"

definition icon_to_json :: "icon \<Rightarrow> json" where
  "icon_to_json i = reflect_to_json icon_reflect i"

definition icon_from_json :: "json \<Rightarrow> icon option" where
  "icon_from_json j = (case reflect_from_json icon_reflect j of Inl _ \<Rightarrow> None | Inr i \<Rightarrow> Some i)"

interpretation icon: plain_struct icon_reflect "\<lambda>_. True"
proof unfold_locales
  fix obj :: icon
  show "reads_back obj (rf_fields icon_reflect) (rf_default icon_reflect) obj"
    unfolding icon_reflect_def reflect.simps
    by (rule str.reads_required str.reads_defaulted strings.reads_defaulted theme.opt.reads_optional
             TrueI | simp add: default_icon_def)+
qed (auto simp: icon_reflect_def)

lemma icon_roundtrip [simp]: "icon_from_json (icon_to_json i) = Some i"
  by (simp add: icon_from_json_def icon_to_json_def icon.roundtrip)

record cancelled_notification_params =
  cn_request_id :: request_id
  cn_reason :: "string option"

definition cancelled_reflect :: "cancelled_notification_params reflect" where
  "cancelled_reflect = \<lparr>rf_default = \<lparr>cn_request_id = IdInt 0, cn_reason = None\<rparr>,
     rf_fields =
       [field request_id_trait ''requestId'' cn_request_id (\<lambda>v. cn_request_id_update (\<lambda>_. v)),
        field (optional_trait string_trait) ''reason'' cn_reason (\<lambda>v. cn_reason_update (\<lambda>_. v))],
     rf_extensions = None, rf_known_keys = [''requestId'', ''reason'']\<rparr>"

definition cancelled_notification_params_to_json :: "cancelled_notification_params \<Rightarrow> json" where
  "cancelled_notification_params_to_json p = reflect_to_json cancelled_reflect p"

definition cancelled_notification_params_from_json ::
  "json \<Rightarrow> cancelled_notification_params option" where
  "cancelled_notification_params_from_json j =
     (case reflect_from_json cancelled_reflect j of Inl _ \<Rightarrow> None | Inr p \<Rightarrow> Some p)"

interpretation cancelled: plain_struct cancelled_reflect "\<lambda>_. True"
proof unfold_locales
  fix obj :: cancelled_notification_params
  show "reads_back obj (rf_fields cancelled_reflect) (rf_default cancelled_reflect) obj"
    unfolding cancelled_reflect_def reflect.simps
    by (rule rid.reads_required str.opt.reads_optional TrueI | simp)+
qed (auto simp: cancelled_reflect_def)

lemma cancelled_roundtrip [simp]:
  "cancelled_notification_params_from_json (cancelled_notification_params_to_json p) = Some p"
  by (simp add: cancelled_notification_params_from_json_def cancelled_notification_params_to_json_def
      cancelled.roundtrip)

section \<open>Progress notifications\<close>

record progress_notification_params =
  pn_progress_token :: progress_token
  pn_progress :: "64 word"
  pn_total :: "64 word option"
  pn_message :: "string option"

definition double_trait :: "(64 word) json_trait" where
  "double_trait = \<lparr>tr_ser = (\<lambda>v. Some (JFloat v)),
     tr_de = (\<lambda>j. if \<not> is_number j then None else get_double j),
     tr_default = 0, tr_optional = False\<rparr>"

definition validate_finite_double :: "64 word \<Rightarrow> unit result" where
  "validate_finite_double d =
     (if \<not> double_is_finite d then Inl (invalid_request ''number must be finite'') else Inr ())"

definition validate_optional_finite_double :: "64 word option \<Rightarrow> unit result" where
  "validate_optional_finite_double v =
     (case v of
        None \<Rightarrow> Inr ()
      | Some d \<Rightarrow> if \<not> double_is_finite d then Inl (invalid_request ''number must be finite'') else Inr ())"

definition progress_reflect :: "progress_notification_params reflect" where
  "progress_reflect =
     \<lparr>rf_default = \<lparr>pn_progress_token = IdInt 0, pn_progress = 0, pn_total = None, pn_message = None\<rparr>,
      rf_fields =
       [field request_id_trait ''progressToken'' pn_progress_token (\<lambda>v. pn_progress_token_update (\<lambda>_. v)),
        validated_field double_trait ''progress'' pn_progress (\<lambda>v. pn_progress_update (\<lambda>_. v)) validate_finite_double,
        validated_field (optional_trait double_trait) ''total'' pn_total (\<lambda>v. pn_total_update (\<lambda>_. v))
          validate_optional_finite_double,
        field (optional_trait string_trait) ''message'' pn_message (\<lambda>v. pn_message_update (\<lambda>_. v))],
      rf_extensions = None,
      rf_known_keys = [''progressToken'', ''progress'', ''total'', ''message'']\<rparr>"

definition progress_notification_params_to_json :: "progress_notification_params \<Rightarrow> json" where
  "progress_notification_params_to_json p = reflect_to_json progress_reflect p"

definition progress_notification_params_from_json :: "json \<Rightarrow> progress_notification_params option" where
  "progress_notification_params_from_json j =
     (case reflect_from_json progress_reflect j of Inl _ \<Rightarrow> None | Inr p \<Rightarrow> Some p)"

interpretation double: present_trait double_trait "\<lambda>_. True"
  by unfold_locales (auto simp: double_trait_def)

lemma validated_present:
  assumes "field_trait tr ok" "ok x" "tr_ser tr x = Some v" "check x = Inr ()" "jfind j name = Some v"
  shows "deserialize_one tr name put (Some check) mst dflt j t = Inr (put x t)"
  using field_trait.deserialize_present [OF assms(1,2,3,5), of "Some check"] assms(4) by simp

lemma reads_validated:
  assumes "present_trait tr ok" "ok (get obj)" "check (get obj) = Inr ()" "reads_back obj ds (put (get obj) t) u"
  shows "reads_back obj (validated_field tr name get put check # ds) t u"
proof -
  have f: "field_trait tr ok" using assms(1) by (simp add: present_trait_def)
  obtain v where v: "tr_ser tr (get obj) = Some v" using present_trait.never_omitted [OF assms(1,2)] by auto
  show ?thesis
    unfolding validated_field_def using validated_present [OF f assms(2) v, of check] v assms(3,4)
    by (intro reads_back.one_field) auto
qed

lemma reads_validated_optional:
  assumes "field_trait tr ok" "ok (get obj)" "check (get obj) = Inr ()" "tr_optional tr" "put (tr_default tr) t = t"
    "reads_back obj ds (put (get obj) t) u"
  shows "reads_back obj (validated_field tr name get put check # ds) t u"
proof -
  have "deserialize_one tr name put (Some check) None False j t = Inr (put (get obj) t)"
    if "jfind j name = tr_ser tr (get obj)" for j
  proof (cases "tr_ser tr (get obj)")
    case None
    then show ?thesis
      using assms that field_trait.omitted [OF assms(1,2)] by (simp add: deserialize_one_def)
  next
    case (Some v)
    then show ?thesis using validated_present [OF assms(1,2) Some, of check] assms(3) that by simp
  qed
  then show ?thesis unfolding validated_field_def by (intro reads_back.one_field) (use assms(6) in auto)
qed

definition progress_ok :: "progress_notification_params \<Rightarrow> bool" where
  "progress_ok p \<longleftrightarrow> double_is_finite (pn_progress p) \<and> pred_option double_is_finite (pn_total p)"

interpretation progress: plain_struct progress_reflect progress_ok
proof unfold_locales
  fix obj :: progress_notification_params assume ok: "progress_ok obj"
  have c: "validate_finite_double (pn_progress obj) = Inr ()" "validate_optional_finite_double (pn_total obj) = Inr ()"
    using ok by (auto simp: progress_ok_def validate_finite_double_def validate_optional_finite_double_def
        pred_option_Some split: option.split)
  show "reads_back obj (rf_fields progress_reflect) (rf_default progress_reflect) obj"
    unfolding progress_reflect_def reflect.simps
    by (rule rid.reads_required [OF TrueI],
        rule reads_validated [OF double.present_trait_axioms],
        rule TrueI, rule c(1),
        rule reads_validated_optional [OF double.opt.field_trait_axioms], simp, rule c(2),
        simp add: optional_trait_def, simp add: optional_trait_def,
        rule str.opt.reads_optional)
      (auto simp: optional_trait_def)
qed (auto simp: progress_reflect_def validated_field_def)

lemma progress_roundtrip [simp]:
  "progress_ok p \<Longrightarrow> progress_notification_params_from_json (progress_notification_params_to_json p) = Some p"
  by (simp add: progress_notification_params_from_json_def progress_notification_params_to_json_def
      progress.roundtrip)

end
