(* ===== verification/Dto_Parse.thy ===== *)
theory Dto_Parse
  imports Types_Reflect
begin

text \<open>
  What the hand-written parsers and serialisers of the protocol headers have in common: a member
  that is optional or required and has to satisfy a type test, with the error to return; the loop
  over an array that leaves at the first element that does not parse; icon lists; members written
  only when they are not empty.
\<close>

section \<open>Reading members\<close>

definition optional_member :: "(json \<Rightarrow> bool) \<Rightarrow> json \<Rightarrow> string \<Rightarrow> core_error \<Rightarrow> json option result" where
  "optional_member P j k e =
     (case jfind j k of None \<Rightarrow> Inr None | Some v \<Rightarrow> if \<not> P v then Inl e else Inr (Some v))"

definition required_member :: "(json \<Rightarrow> bool) \<Rightarrow> json \<Rightarrow> string \<Rightarrow> core_error \<Rightarrow> json result" where
  "required_member P j k e =
     (case jfind j k of None \<Rightarrow> Inl e | Some v \<Rightarrow> if \<not> P v then Inl e else Inr v)"

fun string_of :: "json \<Rightarrow> string" where
  "string_of (JString s) = s"
| "string_of _ = ''''"

definition string_or_empty :: "json option \<Rightarrow> string" where
  "string_or_empty v = (case v of None \<Rightarrow> '''' | Some x \<Rightarrow> string_of x)"

definition object_or_empty :: "json option \<Rightarrow> json" where
  "object_or_empty v = (case v of None \<Rightarrow> empty_object | Some x \<Rightarrow> x)"

fun map_result :: "('a \<Rightarrow> 'b result) \<Rightarrow> 'a list \<Rightarrow> 'b list result" where
  "map_result f [] = Inr []"
| "map_result f (x # xs) = rbind (f x) (\<lambda>y. rbind (map_result f xs) (\<lambda>ys. Inr (y # ys)))"

definition icons_from_json :: "json \<Rightarrow> core_error \<Rightarrow> core_error \<Rightarrow> icon list result" where
  "icons_from_json j not_array bad_icon =
     (case jfind j ''icons'' of
        None \<Rightarrow> Inr []
      | Some (JArray items) \<Rightarrow>
          map_result (\<lambda>item. case icon_from_json item of None \<Rightarrow> Inl bad_icon | Some i \<Rightarrow> Inr i) items
      | Some _ \<Rightarrow> Inl not_array)"

section \<open>Writing members\<close>

definition nonempty_string :: "string \<Rightarrow> json option" where
  "nonempty_string s = (if s = '''' then None else Some (JString s))"

definition nonempty_json :: "json \<Rightarrow> json option" where
  "nonempty_json j = (if jempty j then None else Some j)"

definition nonempty_icons :: "icon list \<Rightarrow> json option" where
  "nonempty_icons is = (if is = [] then None else Some (JArray (map icon_to_json is)))"

section \<open>What is written is read\<close>

definition object_meta_ok :: "json option \<Rightarrow> bool" where
  "object_meta_ok m \<longleftrightarrow> (case m of None \<Rightarrow> True | Some v \<Rightarrow> is_object v)"

lemma optional_member_found [simp]:
  "jfind j k = v \<Longrightarrow> (case v of None \<Rightarrow> True | Some x \<Rightarrow> P x) \<Longrightarrow> optional_member P j k e = Inr v"
  by (auto simp: optional_member_def split: option.splits)

lemma optional_meta_found [simp]:
  "jfind j ''_meta'' = m \<Longrightarrow> object_meta_ok m \<Longrightarrow> optional_member is_object j ''_meta'' e = Inr m"
  by (auto simp: optional_member_def object_meta_ok_def split: option.splits)

lemma required_member_found [simp]:
  "jfind j k = Some v \<Longrightarrow> P v \<Longrightarrow> required_member P j k e = Inr v"
  by (simp add: required_member_def)

lemma required_member_Inr:
  "required_member P j k e = Inr v \<longleftrightarrow> jfind j k = Some v \<and> P v"
  by (auto simp: required_member_def split: option.splits)

lemma optional_member_Inr:
  "optional_member P j k e = Inr v \<longleftrightarrow> jfind j k = v \<and> (case v of None \<Rightarrow> True | Some x \<Rightarrow> P x)"
  by (auto simp: optional_member_def split: option.splits)

lemma required_member_Inl: "required_member P j k e = Inl e' \<Longrightarrow> e' = e"
  by (auto simp: required_member_def split: option.splits if_splits)

lemma optional_member_Inl: "optional_member P j k e = Inl e' \<Longrightarrow> e' = e"
  by (auto simp: optional_member_def split: option.splits if_splits)

lemma nonempty_string_cases [simp]:
  "case nonempty_string s of None \<Rightarrow> True | Some v \<Rightarrow> is_string v"
  "string_or_empty (nonempty_string s) = s"
  by (auto simp: nonempty_string_def string_or_empty_def)

lemma optional_string_cases [simp]:
  "case map_option JString c of None \<Rightarrow> True | Some v \<Rightarrow> is_string v"
  "map_option string_of (map_option JString c) = c"
  by (cases c; simp)+

lemma optional_string_found [simp]:
  "jfind j k = map_option JString c \<Longrightarrow> optional_member is_string j k e = Inr (map_option JString c)"
  by (cases c) (simp_all add: optional_member_def)

lemma string_of_JString [simp]: "map_option (string_of \<circ> JString) c = c"
  by (cases c) simp_all

lemma nonempty_json_object [simp]:
  "is_object j \<Longrightarrow> (case nonempty_json j of None \<Rightarrow> True | Some v \<Rightarrow> is_object v)"
  "is_object j \<Longrightarrow> object_or_empty (nonempty_json j) = j"
  by (auto simp: nonempty_json_def object_or_empty_def is_object_iff)

lemma map_result_written [simp]:
  "(\<forall>x\<in>set xs. f (g x) = Inr x) \<Longrightarrow> map_result f (map g xs) = Inr xs"
  by (induction xs) auto

lemma map_result_Inl: "map_result f xs = Inl e \<Longrightarrow> \<exists>x\<in>set xs. f x = Inl e"
  by (induction xs) (auto simp: rbind_eq_Inl)

lemma icons_read_back [simp]:
  "jfind j ''icons'' = nonempty_icons is \<Longrightarrow> icons_from_json j e1 e2 = Inr is"
  by (auto simp: icons_from_json_def nonempty_icons_def split: if_splits)

text \<open>Reading a member back out of what a serialiser built, extensions included.\<close>

lemma jfind_written:
  assumes "ext_ok ks e" "k \<in> set ks" "is_object j"
  shows "jfind (append_json_extensions j e) k = jfind j k"
  using assms by (auto simp: ext_ok_def split: option.splits)

end
