(* ===== verification/Task_Protocol.thy ===== *)
theory Task_Protocol
  imports Dto_Parse
begin

text \<open>
  src/sdk/protocol/include/cxxmcp/protocol/task.hpp: the task payloads of the protocol with their
  JSON forms, the reflected ones through \<open>reflect_to_json\<close> and \<open>reflect_from_json\<close>, the
  result wrappers as written out in the header.
\<close>

section \<open>Task status\<close>

datatype task_status = Working | InputRequired | Completed | Failed | Cancelled

fun task_status_to_string :: "task_status \<Rightarrow> string" where
  "task_status_to_string Working = ''working''"
| "task_status_to_string InputRequired = ''input_required''"
| "task_status_to_string Completed = ''completed''"
| "task_status_to_string Failed = ''failed''"
| "task_status_to_string Cancelled = ''cancelled''"

definition task_status_from_string :: "string \<Rightarrow> task_status option" where
  "task_status_from_string s =
     (if s = ''working'' then Some Working
      else if s = ''input_required'' then Some InputRequired
      else if s = ''completed'' then Some Completed
      else if s = ''failed'' then Some Failed
      else if s = ''cancelled'' then Some Cancelled
      else None)"

lemma task_status_roundtrip [simp]: "task_status_from_string (task_status_to_string s) = Some s"
  by (cases s) (simp_all add: task_status_from_string_def)

lemma task_status_from_string_Some:
  "task_status_from_string s = Some t \<Longrightarrow> s = task_status_to_string t"
  by (auto simp: task_status_from_string_def split: if_splits)

definition task_status_trait :: "task_status json_trait" where
  "task_status_trait = \<lparr>tr_ser = (\<lambda>v. Some (JString (task_status_to_string v))),
     tr_de = (\<lambda>j. case get_string j of None \<Rightarrow> None | Some s \<Rightarrow> task_status_from_string s),
     tr_default = Working, tr_optional = False\<rparr>"

interpretation status: present_trait task_status_trait "\<lambda>_. True"
  by unfold_locales (auto simp: task_status_trait_def)

section \<open>Reflected payloads\<close>

record task_request_parameters =
  trp_ttl :: "int64 option"
  trp_extensions :: json
  trp_meta :: "json option"

definition task_request_parameters_reflect :: "task_request_parameters reflect" where
  "task_request_parameters_reflect =
     \<lparr>rf_default = \<lparr>trp_ttl = None, trp_extensions = empty_object, trp_meta = None\<rparr>,
      rf_fields =
        [field (optional_trait int64_trait) ''ttl'' trp_ttl (\<lambda>v. trp_ttl_update (\<lambda>_. v)),
         field optional_json_trait ''_meta'' trp_meta (\<lambda>v. trp_meta_update (\<lambda>_. v)),
         ExtensionsField trp_extensions],
      rf_extensions = Some (trp_extensions, \<lambda>v. trp_extensions_update (\<lambda>_. v)),
      rf_known_keys = [''ttl'', ''_meta'']\<rparr>"

record task =
  task_id :: string
  task_status :: task_status
  task_status_message :: "string option"
  task_created_at :: string
  task_ttl :: "int64 option"
  task_poll_interval :: "int64 option"
  task_last_updated_at :: string
  task_extensions :: json

definition default_task :: task where
  "default_task = \<lparr>task_id = '''', task_status = Working, task_status_message = None,
     task_created_at = '''', task_ttl = None, task_poll_interval = None,
     task_last_updated_at = '''', task_extensions = empty_object\<rparr>"

definition task_known_keys :: "string list" where
  "task_known_keys = [''taskId'', ''status'', ''statusMessage'', ''createdAt'', ''ttl'',
     ''pollInterval'', ''lastUpdatedAt'']"

definition task_reflect :: "task reflect" where
  "task_reflect =
     \<lparr>rf_default = default_task,
      rf_fields =
        [field string_trait ''taskId'' task_id (\<lambda>v. task_id_update (\<lambda>_. v)),
         field task_status_trait ''status'' task_status (\<lambda>v. task_status_update (\<lambda>_. v)),
         field (optional_trait string_trait) ''statusMessage'' task_status_message
           (\<lambda>v. task_status_message_update (\<lambda>_. v)),
         field string_trait ''createdAt'' task_created_at (\<lambda>v. task_created_at_update (\<lambda>_. v)),
         nullable_field nullable_int_trait ''ttl'' task_ttl (\<lambda>v. task_ttl_update (\<lambda>_. v)),
         field (optional_trait int64_trait) ''pollInterval'' task_poll_interval
           (\<lambda>v. task_poll_interval_update (\<lambda>_. v)),
         field string_trait ''lastUpdatedAt'' task_last_updated_at
           (\<lambda>v. task_last_updated_at_update (\<lambda>_. v)),
         ExtensionsField task_extensions],
      rf_extensions = Some (task_extensions, \<lambda>v. task_extensions_update (\<lambda>_. v)),
      rf_known_keys = task_known_keys\<rparr>"

record task_list_params =
  tlp_cursor :: "string option"
  tlp_meta :: "json option"
  tlp_extensions :: json

definition task_list_params_reflect :: "task_list_params reflect" where
  "task_list_params_reflect =
     \<lparr>rf_default = \<lparr>tlp_cursor = None, tlp_meta = None, tlp_extensions = empty_object\<rparr>,
      rf_fields =
        [field (optional_trait string_trait) ''cursor'' tlp_cursor (\<lambda>v. tlp_cursor_update (\<lambda>_. v)),
         field optional_json_trait ''_meta'' tlp_meta (\<lambda>v. tlp_meta_update (\<lambda>_. v)),
         ExtensionsField tlp_extensions],
      rf_extensions = Some (tlp_extensions, \<lambda>v. tlp_extensions_update (\<lambda>_. v)),
      rf_known_keys = [''cursor'', ''_meta'']\<rparr>"

text \<open>\<open>TaskGetParams\<close> and \<open>TaskCancelParams\<close> have the same members and descriptors.\<close>

record task_get_params =
  tgp_task_id :: string
  tgp_meta :: "json option"
  tgp_extensions :: json

type_synonym task_result_params = task_get_params
type_synonym task_cancel_params = task_get_params

definition task_get_params_reflect :: "task_get_params reflect" where
  "task_get_params_reflect =
     \<lparr>rf_default = \<lparr>tgp_task_id = '''', tgp_meta = None, tgp_extensions = empty_object\<rparr>,
      rf_fields =
        [field string_trait ''taskId'' tgp_task_id (\<lambda>v. tgp_task_id_update (\<lambda>_. v)),
         field optional_json_trait ''_meta'' tgp_meta (\<lambda>v. tgp_meta_update (\<lambda>_. v)),
         ExtensionsField tgp_extensions],
      rf_extensions = Some (tgp_extensions, \<lambda>v. tgp_extensions_update (\<lambda>_. v)),
      rf_known_keys = [''taskId'', ''_meta'']\<rparr>"

definition task_request_parameters_to_json :: "task_request_parameters \<Rightarrow> json" where
  "task_request_parameters_to_json p = reflect_to_json task_request_parameters_reflect p"

definition task_request_parameters_from_json :: "json \<Rightarrow> task_request_parameters result" where
  "task_request_parameters_from_json j = reflect_from_json task_request_parameters_reflect j"

definition task_to_json :: "task \<Rightarrow> json" where
  "task_to_json t = reflect_to_json task_reflect t"

definition task_from_json :: "json \<Rightarrow> task result" where
  "task_from_json j = reflect_from_json task_reflect j"

definition task_list_params_to_json :: "task_list_params \<Rightarrow> json" where
  "task_list_params_to_json p = reflect_to_json task_list_params_reflect p"

definition task_list_params_from_json :: "json \<Rightarrow> task_list_params result" where
  "task_list_params_from_json j = reflect_from_json task_list_params_reflect j"

definition task_get_params_to_json :: "task_get_params \<Rightarrow> json" where
  "task_get_params_to_json p = reflect_to_json task_get_params_reflect p"

definition task_get_params_from_json :: "json \<Rightarrow> task_get_params result" where
  "task_get_params_from_json j = reflect_from_json task_get_params_reflect j"

definition task_cancel_params_to_json :: "task_cancel_params \<Rightarrow> json" where
  "task_cancel_params_to_json p = reflect_to_json task_get_params_reflect p"

definition task_cancel_params_from_json :: "json \<Rightarrow> task_cancel_params result" where
  "task_cancel_params_from_json j = reflect_from_json task_get_params_reflect j"

definition task_result_params_to_json :: "task_result_params \<Rightarrow> json" where
  "task_result_params_to_json p = task_get_params_to_json p"

definition task_result_params_from_json :: "json \<Rightarrow> task_result_params result" where
  "task_result_params_from_json j = task_get_params_from_json j"

section \<open>Interpretations\<close>

definition meta_ok :: "json option \<Rightarrow> bool" where
  "meta_ok m \<longleftrightarrow> m \<noteq> Some JNull"

lemmas reads_rules = str.reads_required status.reads_required str.opt.reads_optional
  int64.opt.reads_optional opt_json.reads_optional reads_back.extensions TrueI allI impI
  reads_nullable [OF nullable_int.present_trait_axioms]

interpretation trp: reflected_struct task_request_parameters_reflect
  "\<lambda>p. meta_ok (trp_meta p) \<and> ext_ok [''ttl'', ''_meta''] (trp_extensions p)"
  trp_extensions "\<lambda>v. trp_extensions_update (\<lambda>_. v)"
proof unfold_locales
  fix obj :: task_request_parameters
  assume "meta_ok (trp_meta obj) \<and> ext_ok [''ttl'', ''_meta''] (trp_extensions obj)"
  then show "\<exists>u. reads_back obj (rf_fields task_request_parameters_reflect)
               (rf_default task_request_parameters_reflect) u \<and> u\<lparr>trp_extensions := trp_extensions obj\<rparr> = obj"
    unfolding task_request_parameters_reflect_def reflect.simps
    by (intro exI conjI) (rule reads_rules | simp add: meta_ok_def)+
qed (auto simp: task_request_parameters_reflect_def)

definition task_ok :: "task \<Rightarrow> bool" where
  "task_ok t \<longleftrightarrow> ext_ok task_known_keys (task_extensions t)"

interpretation tsk: reflected_struct task_reflect task_ok
  task_extensions "\<lambda>v. task_extensions_update (\<lambda>_. v)"
proof unfold_locales
  fix obj :: task
  show "\<exists>u. reads_back obj (rf_fields task_reflect) (rf_default task_reflect) u \<and>
            u\<lparr>task_extensions := task_extensions obj\<rparr> = obj"
    unfolding task_reflect_def reflect.simps
    by (intro exI conjI) (rule reads_rules | simp add: default_task_def)+
qed (auto simp: task_reflect_def task_ok_def task_known_keys_def)

definition list_params_ok :: "task_list_params \<Rightarrow> bool" where
  "list_params_ok p \<longleftrightarrow> meta_ok (tlp_meta p) \<and> ext_ok [''cursor'', ''_meta''] (tlp_extensions p)"

interpretation tlp: reflected_struct task_list_params_reflect list_params_ok
  tlp_extensions "\<lambda>v. tlp_extensions_update (\<lambda>_. v)"
proof unfold_locales
  fix obj :: task_list_params
  assume "list_params_ok obj"
  then show "\<exists>u. reads_back obj (rf_fields task_list_params_reflect) (rf_default task_list_params_reflect) u \<and>
                 u\<lparr>tlp_extensions := tlp_extensions obj\<rparr> = obj"
    unfolding task_list_params_reflect_def reflect.simps
    by (intro exI conjI) (rule reads_rules | simp add: list_params_ok_def meta_ok_def)+
qed (auto simp: task_list_params_reflect_def list_params_ok_def)

definition get_params_ok :: "task_get_params \<Rightarrow> bool" where
  "get_params_ok p \<longleftrightarrow> meta_ok (tgp_meta p) \<and> ext_ok [''taskId'', ''_meta''] (tgp_extensions p)"

interpretation tgp: reflected_struct task_get_params_reflect get_params_ok
  tgp_extensions "\<lambda>v. tgp_extensions_update (\<lambda>_. v)"
proof unfold_locales
  fix obj :: task_get_params
  assume "get_params_ok obj"
  then show "\<exists>u. reads_back obj (rf_fields task_get_params_reflect) (rf_default task_get_params_reflect) u \<and>
                 u\<lparr>tgp_extensions := tgp_extensions obj\<rparr> = obj"
    unfolding task_get_params_reflect_def reflect.simps
    by (intro exI conjI) (rule reads_rules | simp add: get_params_ok_def meta_ok_def)+
qed (auto simp: task_get_params_reflect_def get_params_ok_def)

section \<open>Result wrappers\<close>

definition task_json_error :: "string \<Rightarrow> core_error" where
  "task_json_error msg = mk_error (error_code InvalidRequest) msg '''' ''''"

record task_list_result =
  tlr_tasks :: "task list"
  tlr_next_cursor :: "string option"
  tlr_total :: "int64 option"
  tlr_meta :: "json option"
  tlr_extensions :: json

text \<open>\<open>CreateTaskResult\<close>, \<open>TaskGetResult\<close> and \<open>TaskCancelResult\<close> have the same members.\<close>

record create_task_result =
  ctr_task :: task
  ctr_meta :: "json option"
  ctr_extensions :: json

type_synonym task_get_result = create_task_result
type_synonym task_cancel_result = create_task_result

record task_get_payload_result =
  tpr_payload :: json
  tpr_meta :: "json option"
  tpr_extensions :: json

text \<open>An optional \<open>_meta\<close> member, which must be an object.\<close>

definition object_meta :: "json \<Rightarrow> string \<Rightarrow> json option result" where
  "object_meta j msg = optional_member is_object j ''_meta'' (task_json_error msg)"

definition task_operation_result_to_json :: "task \<Rightarrow> json option \<Rightarrow> json \<Rightarrow> json" where
  "task_operation_result_to_json t meta extensions =
     append_json_extensions (jset_opt (task_to_json t) ''_meta'' meta) extensions"

definition task_operation_result_from_json :: "json \<Rightarrow> string \<Rightarrow> task_get_result result" where
  "task_operation_result_from_json j context =
     (if \<not> is_object j then Inl (task_json_error (context @ '' result must be an object''))
      else rbind (task_from_json j) (\<lambda>t.
        let t' = t\<lparr>task_extensions := jerase (task_extensions t) ''_meta''\<rparr> in
        rbind (object_meta j (context @ '' result _meta must be an object'')) (\<lambda>meta.
          Inr \<lparr>ctr_task = t', ctr_meta = meta,
               ctr_extensions = collect_json_extensions j (task_known_keys @ [''_meta''])\<rparr>)))"

definition task_list_result_to_json :: "task_list_result \<Rightarrow> json" where
  "task_list_result_to_json r =
     append_json_extensions
       (jset_opt (jset_opt (jset_opt
          (jset empty_object ''tasks'' (JArray (map task_to_json (tlr_tasks r))))
          ''nextCursor'' (map_option JString (tlr_next_cursor r)))
          ''total'' (map_option JInt (tlr_total r)))
          ''_meta'' (tlr_meta r))
       (tlr_extensions r)"

definition list_cursor :: "json \<Rightarrow> string option result" where
  "list_cursor j =
     (case jfind j ''nextCursor'' of
        None \<Rightarrow> Inr None
      | Some v \<Rightarrow> if \<not> is_string v then Inl (task_json_error ''tasks/list nextCursor must be a string'')
                  else Inr (get_string v))"

definition list_total :: "json \<Rightarrow> int64 option result" where
  "list_total j =
     (case jfind j ''total'' of
        None \<Rightarrow> Inr None
      | Some v \<Rightarrow>
          (case get_int64 v of
             None \<Rightarrow> Inl (task_json_error ''tasks/list total must be an integer'')
           | Some n \<Rightarrow> if n <s 0 then Inl (task_json_error ''tasks/list total must be non-negative'')
                       else Inr (Some n)))"

definition task_list_result_from_json :: "json \<Rightarrow> task_list_result result" where
  "task_list_result_from_json j =
     (if \<not> is_object j then Inl (task_json_error ''tasks/list result must be an object'')
      else case jfind j ''tasks'' of
        Some (JArray items) \<Rightarrow>
          rbind (map_result task_from_json items) (\<lambda>tasks.
          rbind (list_cursor j) (\<lambda>cursor.
          rbind (list_total j) (\<lambda>n.
          rbind (object_meta j ''tasks/list result _meta must be an object'') (\<lambda>meta.
            Inr \<lparr>tlr_tasks = tasks, tlr_next_cursor = cursor, tlr_total = n, tlr_meta = meta,
                 tlr_extensions = collect_json_extensions j [''tasks'', ''nextCursor'', ''total'', ''_meta'']\<rparr>))))
      | _ \<Rightarrow> Inl (task_json_error ''tasks/list result requires a tasks array''))"

definition task_get_result_to_json :: "task_get_result \<Rightarrow> json" where
  "task_get_result_to_json r =
     task_operation_result_to_json (ctr_task r) (ctr_meta r) (ctr_extensions r)"

definition task_get_result_from_json :: "json \<Rightarrow> task_get_result result" where
  "task_get_result_from_json j = task_operation_result_from_json j ''tasks/get''"

definition task_cancel_result_to_json :: "task_cancel_result \<Rightarrow> json" where
  "task_cancel_result_to_json r =
     task_operation_result_to_json (ctr_task r) (ctr_meta r) (ctr_extensions r)"

definition task_cancel_result_from_json :: "json \<Rightarrow> task_cancel_result result" where
  "task_cancel_result_from_json j = task_operation_result_from_json j ''tasks/cancel''"

definition task_get_payload_result_to_json :: "task_get_payload_result \<Rightarrow> json" where
  "task_get_payload_result_to_json r =
     append_json_extensions
       (jset_opt
          (if is_object (tpr_payload r)
           then foldl (\<lambda>acc kv. jset acc (fst kv) (snd kv)) empty_object (jmembers (tpr_payload r))
           else empty_object)
          ''_meta'' (tpr_meta r))
       (tpr_extensions r)"

definition task_get_payload_result_from_json :: "json \<Rightarrow> task_get_payload_result result" where
  "task_get_payload_result_from_json j =
     (if \<not> is_object j then Inl (task_json_error ''tasks/result result must be an object'')
      else
        let payload = foldl (\<lambda>acc kv. if fst kv \<noteq> ''_meta'' then jset acc (fst kv) (snd kv) else acc)
                        empty_object (jmembers j) in
        rbind (object_meta j ''tasks/result _meta must be an object'') (\<lambda>meta.
          Inr \<lparr>tpr_payload = payload, tpr_meta = meta, tpr_extensions = empty_object\<rparr>))"

definition create_task_result_to_json :: "create_task_result \<Rightarrow> json" where
  "create_task_result_to_json r =
     append_json_extensions
       (jset_opt (jset empty_object ''task'' (task_to_json (ctr_task r))) ''_meta'' (ctr_meta r))
       (ctr_extensions r)"

definition create_task_result_from_json :: "json \<Rightarrow> create_task_result result" where
  "create_task_result_from_json j =
     (if \<not> is_object j then Inl (task_json_error ''createTask result must be an object'')
      else case jfind j ''task'' of
        None \<Rightarrow> Inl (task_json_error ''createTask result requires task'')
      | Some v \<Rightarrow>
          rbind (task_from_json v) (\<lambda>t.
          rbind (object_meta j ''createTask result _meta must be an object'') (\<lambda>meta.
            Inr \<lparr>ctr_task = t, ctr_meta = meta,
                 ctr_extensions = collect_json_extensions j [''task'', ''_meta'']\<rparr>)))"

section \<open>Round trips\<close>

lemma task_roundtrip [simp]: "task_ok t \<Longrightarrow> task_from_json (task_to_json t) = Inr t"
  by (simp add: task_from_json_def task_to_json_def tsk.roundtrip)

lemma task_to_json_wf [simp]: "jwf (task_to_json t)"
  by (simp add: task_to_json_def)

lemma object_meta_found [simp]:
  "jfind j ''_meta'' = m \<Longrightarrow> object_meta_ok m \<Longrightarrow> object_meta j msg = Inr m"
  by (simp add: object_meta_def)

text \<open>The reflected task payloads (task snapshots and the params of tasks/list, tasks/get,
  tasks/result, tasks/cancel and of task-augmented requests) are read back exactly as they were
  written, including the unknown members they carry.\<close>

theorem task_payload_roundtrips:
  "(task_ok t \<longrightarrow> task_from_json (task_to_json t) = Inr t) \<and>
   (meta_ok (trp_meta p) \<and> ext_ok [''ttl'', ''_meta''] (trp_extensions p) \<longrightarrow>
      task_request_parameters_from_json (task_request_parameters_to_json p) = Inr p) \<and>
   (list_params_ok l \<longrightarrow> task_list_params_from_json (task_list_params_to_json l) = Inr l) \<and>
   (get_params_ok g \<longrightarrow> task_get_params_from_json (task_get_params_to_json g) = Inr g \<and>
      task_cancel_params_from_json (task_cancel_params_to_json g) = Inr g \<and>
      task_result_params_from_json (task_result_params_to_json g) = Inr g)"
  by (simp add: task_request_parameters_from_json_def task_request_parameters_to_json_def trp.roundtrip
      task_list_params_from_json_def task_list_params_to_json_def tlp.roundtrip
      task_get_params_from_json_def task_get_params_to_json_def tgp.roundtrip
      task_cancel_params_from_json_def task_cancel_params_to_json_def
      task_result_params_from_json_def task_result_params_to_json_def)

definition sample_task :: task where
  "sample_task = default_task\<lparr>task_id := ''task-1'', task_ttl := Some 60000,
     task_extensions := JObject [(''x'', JBool True)]\<rparr>"

lemma sample_task_ok: "task_ok sample_task"
  by (simp add: task_ok_def sample_task_def default_task_def task_known_keys_def ext_ok_def keys_sorted_Cons)

theorem task_payload_roundtrips_witness:
  "task_from_json (task_to_json sample_task) = Inr sample_task"
  using task_payload_roundtrips [of sample_task] sample_task_ok by blast

lemma task_list_result_roundtrip:
  assumes "\<forall>t\<in>set (tlr_tasks r). task_ok t" "object_meta_ok (tlr_meta r)"
    "case tlr_total r of None \<Rightarrow> True | Some n \<Rightarrow> \<not> n <s 0"
    "ext_ok [''tasks'', ''nextCursor'', ''total'', ''_meta''] (tlr_extensions r)"
  shows "task_list_result_from_json (task_list_result_to_json r) = Inr r"
proof -
  let ?j = "task_list_result_to_json r"
  have e: "is_object (tlr_extensions r)" using assms(4) by (simp add: ext_ok_def)
  have f: "jfind ?j ''tasks'' = Some (JArray (map task_to_json (tlr_tasks r)))"
    "jfind ?j ''nextCursor'' = map_option JString (tlr_next_cursor r)"
    "jfind ?j ''total'' = map_option JInt (tlr_total r)" "jfind ?j ''_meta'' = tlr_meta r"
    "is_object ?j"
    using assms(4) e
    by (auto simp: task_list_result_to_json_def ext_ok_def split: option.splits)
  have x: "collect_json_extensions ?j [''tasks'', ''nextCursor'', ''total'', ''_meta''] = tlr_extensions r"
    unfolding task_list_result_to_json_def
    by (rule collect_append_extensions [OF _ assms(4)]) (auto simp: keys_sorted_Cons)
  have "list_cursor ?j = Inr (tlr_next_cursor r)" "list_total ?j = Inr (tlr_total r)"
    using assms(3) f by (auto simp: list_cursor_def list_total_def split: option.splits)
  with assms f x show ?thesis by (simp add: task_list_result_from_json_def)
qed

lemma create_task_result_roundtrip:
  assumes "task_ok (ctr_task c)" "object_meta_ok (ctr_meta c)" "ext_ok [''task'', ''_meta''] (ctr_extensions c)"
  shows "create_task_result_from_json (create_task_result_to_json c) = Inr c"
proof -
  let ?j = "create_task_result_to_json c"
  have e: "is_object (ctr_extensions c)" using assms(3) by (simp add: ext_ok_def)
  have f: "jfind ?j ''task'' = Some (task_to_json (ctr_task c))" "jfind ?j ''_meta'' = ctr_meta c" "is_object ?j"
    using assms(3) e by (auto simp: create_task_result_to_json_def ext_ok_def split: option.splits)
  have "collect_json_extensions ?j [''task'', ''_meta''] = ctr_extensions c"
    unfolding create_task_result_to_json_def
    by (rule collect_append_extensions [OF _ assms(3)]) (auto simp: keys_sorted_Cons)
  with assms f show ?thesis by (simp add: create_task_result_from_json_def)
qed

text \<open>The flattened wrappers merge the unknown members of the task and of the wrapper.\<close>

lemma task_operation_result_roundtrip:
  assumes t: "task_ok t" and m: "object_meta_ok meta" and nm: "jfind (task_extensions t) ''_meta'' = None"
  shows "task_operation_result_from_json
           (task_operation_result_to_json t meta (task_extensions t)) ctxt =
         Inr \<lparr>ctr_task = t, ctr_meta = meta, ctr_extensions = task_extensions t\<rparr>"
proof -
  let ?e = "task_extensions t"
  let ?j = "task_operation_result_to_json t meta ?e"
  have e: "jwf ?e" "\<forall>k\<in>set task_known_keys. jfind ?e k = None"
    using t by (auto simp: task_ok_def ext_ok_def)
  have eo: "is_object ?e" using e(1) by simp
  have known: "k \<in> set task_known_keys \<Longrightarrow> jfind ?j k = jfind (task_to_json t) k" for k
    using e eo by (auto simp: task_operation_result_to_json_def task_known_keys_def split: option.splits)
  have unknown: "jfind (task_to_json t) k = jfind ?e k" if "k \<notin> set task_known_keys" for k
    using tsk.jfind_unknown [OF t, of k] that by (simp add: task_to_json_def task_reflect_def)
  have mf: "jfind ?j ''_meta'' = meta"
    using unknown [of "''_meta''"] nm eo
    by (auto simp: task_operation_result_to_json_def task_known_keys_def split: option.splits)
  have other: "jfind ?j k = jfind ?e k" if "k \<notin> set task_known_keys" "k \<noteq> ''_meta''" for k
    using unknown [OF that(1)] that(2) eo
    by (auto simp: task_operation_result_to_json_def split: option.splits)
  have wf: "jwf ?j" by (simp add: task_operation_result_to_json_def)
  have "\<exists>u. task_from_json ?j = Inr (u\<lparr>task_extensions := collect_json_extensions ?j task_known_keys\<rparr>) \<and>
             u\<lparr>task_extensions := ?e\<rparr> = t"
    using tsk.from_json_known [OF t jwf_is_object [OF wf]] known
    by (simp add: task_from_json_def task_to_json_def task_reflect_def)
  then obtain u where u: "task_from_json ?j = Inr (u\<lparr>task_extensions := collect_json_extensions ?j task_known_keys\<rparr>)"
    "u\<lparr>task_extensions := ?e\<rparr> = t" by blast
  have x1: "jerase (collect_json_extensions ?j task_known_keys) ''_meta'' = ?e"
    using e nm other wf by (intro jwf_ext) auto
  have x2: "collect_json_extensions ?j (task_known_keys @ [''_meta'']) = ?e"
    using e nm other wf by (intro jwf_ext) auto
  show ?thesis
    using u x1 x2 jwf_is_object [OF wf] object_meta_found [OF mf m]
    by (simp add: task_operation_result_from_json_def)
qed

text \<open>the results of tasks/list, of task creation and of tasks/get and tasks/cancel are read
  back as they were written, when _meta is an object, the total is not negative and no unknown
  member has the name of a typed one.\<close>

theorem task_result_roundtrips:
  "((\<forall>t\<in>set (tlr_tasks r). task_ok t) \<and> object_meta_ok (tlr_meta r) \<and>
    (case tlr_total r of None \<Rightarrow> True | Some n \<Rightarrow> \<not> n <s 0) \<and>
    ext_ok [''tasks'', ''nextCursor'', ''total'', ''_meta''] (tlr_extensions r) \<longrightarrow>
      task_list_result_from_json (task_list_result_to_json r) = Inr r) \<and>
   (task_ok (ctr_task c) \<and> object_meta_ok (ctr_meta c) \<longrightarrow>
     (ext_ok [''task'', ''_meta''] (ctr_extensions c) \<longrightarrow>
        create_task_result_from_json (create_task_result_to_json c) = Inr c) \<and>
     (ctr_extensions c = task_extensions (ctr_task c) \<and> jfind (ctr_extensions c) ''_meta'' = None \<longrightarrow>
        task_get_result_from_json (task_get_result_to_json c) = Inr c \<and>
        task_cancel_result_from_json (task_cancel_result_to_json c) = Inr c))"
  using task_list_result_roundtrip [of r] create_task_result_roundtrip [of c]
    task_operation_result_roundtrip [of "ctr_task c" "ctr_meta c"]
  by (auto simp: task_get_result_from_json_def task_get_result_to_json_def
      task_cancel_result_from_json_def task_cancel_result_to_json_def)

definition sample_list_result :: task_list_result where
  "sample_list_result = \<lparr>tlr_tasks = [sample_task, sample_task], tlr_next_cursor = Some ''2'',
     tlr_total = Some 7, tlr_meta = None, tlr_extensions = empty_object\<rparr>"

theorem task_result_roundtrips_witness:
  "task_list_result_from_json (task_list_result_to_json sample_list_result) = Inr sample_list_result \<and>
   task_get_result_from_json (task_get_result_to_json
     \<lparr>ctr_task = sample_task, ctr_meta = None, ctr_extensions = task_extensions sample_task\<rparr>) =
   Inr \<lparr>ctr_task = sample_task, ctr_meta = None, ctr_extensions = task_extensions sample_task\<rparr>"
  using task_result_roundtrips [of sample_list_result
      "\<lparr>ctr_task = sample_task, ctr_meta = None, ctr_extensions = task_extensions sample_task\<rparr>"]
    sample_task_ok
  by (simp add: sample_list_result_def object_meta_ok_def sample_task_def word_sless_alt)

text \<open>The flattened payload of tasks/result.\<close>

lemma foldl_jset_lookup:
  "jwf e \<Longrightarrow> distinct (map fst kvs) \<Longrightarrow>
   jwf (foldl (\<lambda>acc kv. jset acc (fst kv) (snd kv)) e kvs) \<and>
   jfind (foldl (\<lambda>acc kv. jset acc (fst kv) (snd kv)) e kvs) k =
     (case map_of kvs k of Some v \<Rightarrow> Some v | None \<Rightarrow> jfind e k)"
proof (induction kvs arbitrary: e)
  case (Cons kv kvs)
  then have "map_of kvs (fst kv) = None" by (auto simp: map_of_eq_None_iff)
  with Cons show ?case by (auto split: option.splits)
qed simp

lemma foldl_jset_self: "jwf p \<Longrightarrow> foldl (\<lambda>acc kv. jset acc (fst kv) (snd kv)) empty_object (jmembers p) = p"
  using foldl_jset_lookup [of empty_object "jmembers p"]
  by (intro jwf_ext) (auto simp: jwf_def is_object_iff keys_sorted_distinct split: option.splits)

lemma foldl_payload:
  "foldl (\<lambda>acc kv. if fst kv \<noteq> k0 then jset acc (fst kv) (snd kv) else acc) e kvs =
   foldl (\<lambda>ext kv. if fst kv \<in> {k0} then ext else jset ext (fst kv) (snd kv)) e kvs"
  by (induction kvs arbitrary: e) auto

lemma payload_read:
  assumes "jwf j"
  shows "foldl (\<lambda>acc kv. if fst kv \<noteq> ''_meta'' then jset acc (fst kv) (snd kv) else acc)
           empty_object (jmembers j) = jerase j ''_meta''"
  unfolding foldl_payload
proof (rule jwf_ext)
  fix k
  show "jfind (foldl (\<lambda>ext kv. if fst kv \<in> {''_meta''} then ext else jset ext (fst kv) (snd kv))
          empty_object (jmembers j)) k = jfind (jerase j ''_meta'') k"
    using assms jfind_foldl_collect [of empty_object "jmembers j" "{''_meta''}" k]
    by (auto simp: jwf_iff keys_sorted_distinct split: option.splits)
qed (rule jwf_foldl_collect, use assms in simp_all)

text \<open>a tasks/result payload that is an object without a _meta member is read back as written;
  a payload that is no object (the header allows any JSON value) is written as an empty object, so
  the value is lost.\<close>

theorem task_payload_result_wire:
  "(jwf p \<and> jfind p ''_meta'' = None \<and> object_meta_ok m \<longrightarrow>
      task_get_payload_result_from_json (task_get_payload_result_to_json
        \<lparr>tpr_payload = p, tpr_meta = m, tpr_extensions = empty_object\<rparr>) =
      Inr \<lparr>tpr_payload = p, tpr_meta = m, tpr_extensions = empty_object\<rparr>) \<and>
   (\<not> is_object p \<longrightarrow>
      task_get_payload_result_to_json \<lparr>tpr_payload = p, tpr_meta = None, tpr_extensions = empty_object\<rparr> =
      empty_object)"
proof (intro conjI impI)
  assume a: "jwf p \<and> jfind p ''_meta'' = None \<and> object_meta_ok m"
  let ?j = "jset_opt p ''_meta'' m"
  have j: "task_get_payload_result_to_json \<lparr>tpr_payload = p, tpr_meta = m, tpr_extensions = empty_object\<rparr> = ?j"
    using a by (simp add: task_get_payload_result_to_json_def foldl_jset_self append_json_extensions_def)
  have "jerase ?j ''_meta'' = p" using a by (intro jwf_ext) auto
  moreover have "object_meta ?j s = Inr m" for s
    by (rule object_meta_found) (use a in \<open>auto split: option.splits\<close>)
  ultimately show "task_get_payload_result_from_json (task_get_payload_result_to_json
        \<lparr>tpr_payload = p, tpr_meta = m, tpr_extensions = empty_object\<rparr>) =
      Inr \<lparr>tpr_payload = p, tpr_meta = m, tpr_extensions = empty_object\<rparr>"
    unfolding j using a by (simp add: task_get_payload_result_from_json_def payload_read)
qed (simp add: task_get_payload_result_to_json_def append_json_extensions_def jset_opt_def)

theorem task_payload_result_wire_witness:
  "task_get_payload_result_to_json
     \<lparr>tpr_payload = JArray [JBool True], tpr_meta = None, tpr_extensions = empty_object\<rparr> = empty_object"
  using task_payload_result_wire [of "JArray [JBool True]" None] by simp

definition absent_or :: "(json \<Rightarrow> bool) \<Rightarrow> json option \<Rightarrow> bool" where
  "absent_or P v = (case v of None \<Rightarrow> True | Some x \<Rightarrow> P x)"

text \<open>a task snapshot is accepted exactly when it is an object with string taskId, createdAt
  and lastUpdatedAt, a known status, and statusMessage, ttl and pollInterval absent or of their
  type; a rejection is always an InvalidRequest error.\<close>

theorem task_from_json_accepts:
  "(is_ok (task_from_json j) \<longleftrightarrow>
     is_object j \<and>
     (\<exists>s. jfind j ''taskId'' = Some (JString s)) \<and>
     (\<exists>s. jfind j ''status'' = Some (JString (task_status_to_string s))) \<and>
     absent_or is_string (jfind j ''statusMessage'') \<and>
     (\<exists>s. jfind j ''createdAt'' = Some (JString s)) \<and>
     absent_or (\<lambda>v. is_null v \<or> is_number_integer v) (jfind j ''ttl'') \<and>
     absent_or is_number_integer (jfind j ''pollInterval'') \<and>
     (\<exists>s. jfind j ''lastUpdatedAt'' = Some (JString s))) \<and>
   (\<forall>e. task_from_json j = Inl e \<longrightarrow> err_code e = error_code InvalidRequest)"
proof -
  have status: "task_status_from_string s \<noteq> None \<longleftrightarrow> (\<exists>t. s = task_status_to_string t)" for s
    using task_status_from_string_Some by auto
  have de: "tr_de string_trait v \<noteq> None \<longleftrightarrow> (\<exists>s. v = JString s)"
    "tr_de (optional_trait string_trait) v \<noteq> None \<longleftrightarrow> is_string v"
    "tr_de task_status_trait v \<noteq> None \<longleftrightarrow> (\<exists>s. v = JString (task_status_to_string s))"
    "tr_de nullable_int_trait v \<noteq> None \<longleftrightarrow> is_null v \<or> is_number_integer v"
    "tr_de (optional_trait int64_trait) v \<noteq> None \<longleftrightarrow> is_number_integer v" for v
    using status
    by (cases v; auto simp: string_trait_def optional_trait_def task_status_trait_def
        nullable_int_trait_def int64_trait_def)+
  have opt: "\<not> tr_optional string_trait" "\<not> tr_optional task_status_trait"
    by (simp_all add: string_trait_def task_status_trait_def)
  have "is_ok (task_from_json j) \<longleftrightarrow> is_object j \<and> (\<forall>d\<in>set (rf_fields task_reflect). accepts j d)"
    unfolding task_from_json_def
    by (rule is_ok_reflect_from_json) (simp add: task_reflect_def)
  also have "\<dots> \<longleftrightarrow> is_object j \<and>
     (\<exists>s. jfind j ''taskId'' = Some (JString s)) \<and>
     (\<exists>s. jfind j ''status'' = Some (JString (task_status_to_string s))) \<and>
     absent_or is_string (jfind j ''statusMessage'') \<and>
     (\<exists>s. jfind j ''createdAt'' = Some (JString s)) \<and>
     absent_or (\<lambda>v. is_null v \<or> is_number_integer v) (jfind j ''ttl'') \<and>
     absent_or is_number_integer (jfind j ''pollInterval'') \<and>
     (\<exists>s. jfind j ''lastUpdatedAt'' = Some (JString s))"
    unfolding task_reflect_def reflect.simps
    by (simp add: de opt absent_or_def del: not_None_eq split: option.split)
  finally show ?thesis
    using reflect_from_json_error [of task_reflect j]
    by (auto simp: task_from_json_def task_reflect_def)
qed

definition sample_task_json :: json where
  "sample_task_json = JObject [(''createdAt'', JString ''t0''), (''lastUpdatedAt'', JString ''t1''),
     (''status'', JString ''working''), (''taskId'', JString ''task-1'')]"

theorem task_from_json_accepts_witness:
  "is_ok (task_from_json sample_task_json) \<and>
   \<not> is_ok (task_from_json (JObject [(''taskId'', JString ''task-1'')]))"
proof -
  have "\<exists>s. jfind sample_task_json ''status'' = Some (JString (task_status_to_string s))"
    by (rule exI [of _ Working]) (simp add: sample_task_json_def)
  then show ?thesis
    unfolding task_from_json_accepts [THEN conjunct1]
    by (simp add: sample_task_json_def absent_or_def)
qed

end
