(* ===== verification/Resource_Protocol.thy ===== *)
theory Resource_Protocol
  imports Dto_Parse
begin

text \<open>
  src/sdk/protocol/include/cxxmcp/protocol/resource.hpp: resource and resource template
  descriptors, the params and results of the resources methods, resource contents.
\<close>

section \<open>Payloads\<close>

text \<open>
  \<open>Resource\<close> and \<open>ResourceTemplate\<close> have the same members; \<open>res_uri\<close> is \<open>uri\<close> of the one and
  \<open>uri_template\<close> of the other.
\<close>

record resource =
  res_title :: string
  res_uri :: string
  res_name :: string
  res_description :: string
  res_mime_type :: string
  res_size :: "int64 option"
  res_icons :: "icon list"
  res_annotations :: json
  res_meta :: "json option"
  res_extensions :: json

type_synonym resource_template = resource

record resource_contents =
  rc_uri :: string
  rc_mime_type :: string
  rc_text :: "string option"
  rc_blob :: "string option"
  rc_meta :: "json option"
  rc_extensions :: json

definition resource_contents_reflect :: "resource_contents reflect" where
  "resource_contents_reflect =
     \<lparr>rf_default = \<lparr>rc_uri = '''', rc_mime_type = '''', rc_text = None, rc_blob = None, rc_meta = None,
                    rc_extensions = empty_object\<rparr>,
      rf_fields =
        [field string_trait ''uri'' rc_uri (\<lambda>v. rc_uri_update (\<lambda>_. v)),
         field string_trait ''mimeType'' rc_mime_type (\<lambda>v. rc_mime_type_update (\<lambda>_. v)),
         field (optional_trait string_trait) ''text'' rc_text (\<lambda>v. rc_text_update (\<lambda>_. v)),
         field (optional_trait string_trait) ''blob'' rc_blob (\<lambda>v. rc_blob_update (\<lambda>_. v)),
         field optional_json_trait ''_meta'' rc_meta (\<lambda>v. rc_meta_update (\<lambda>_. v)),
         ExtensionsField rc_extensions],
      rf_extensions = Some (rc_extensions, \<lambda>v. rc_extensions_update (\<lambda>_. v)),
      rf_known_keys = [''uri'', ''mimeType'', ''text'', ''blob'', ''_meta'']\<rparr>"

text \<open>The results of the three list and read methods: an array of parts and the same other members.\<close>

record 'a resources_result =
  rr_items :: "'a list"
  rr_next_cursor :: "string option"
  rr_meta :: "json option"
  rr_extensions :: json
  rr_ttl_ms :: "int64 option"
  rr_cache_scope :: "string option"

text \<open>\<open>ResourcesReadParams\<close> and \<open>ResourcesSubscribeParams\<close>.\<close>

record resource_params =
  rp_uri :: string
  rp_meta :: "json option"
  rp_extensions :: json

record resource_updated_notification_params =
  run_uri :: string
  run_extensions :: json

definition resource_updated_reflect :: "resource_updated_notification_params reflect" where
  "resource_updated_reflect =
     \<lparr>rf_default = \<lparr>run_uri = '''', run_extensions = empty_object\<rparr>,
      rf_fields = [field string_trait ''uri'' run_uri (\<lambda>v. run_uri_update (\<lambda>_. v)),
                   ExtensionsField run_extensions],
      rf_extensions = Some (run_extensions, \<lambda>v. run_extensions_update (\<lambda>_. v)),
      rf_known_keys = [''uri'']\<rparr>"

section \<open>Descriptors\<close>

definition resource_json_error :: "string \<Rightarrow> core_error" where
  "resource_json_error msg = mk_error (error_code InvalidRequest) msg '''' ''''"

definition resource_size_from_json :: "json \<Rightarrow> string \<Rightarrow> int64 result" where
  "resource_size_from_json j context =
     (case get_int64 j of
        None \<Rightarrow> Inl (resource_json_error (context @ '' size must be an integer''))
      | Some n \<Rightarrow>
          if n <s 0 \<or> 4294967295 <s n
          then Inl (resource_json_error (context @ '' size must be a uint32 value''))
          else Inr n)"

definition resource_known_keys :: "string \<Rightarrow> string list" where
  "resource_known_keys uri_key = [''title'', uri_key, ''name'', ''description'', ''mimeType'', ''size'',
     ''icons'', ''annotations'', ''_meta'']"

definition descriptor_to_json :: "string \<Rightarrow> resource \<Rightarrow> json" where
  "descriptor_to_json uri_key r =
     append_json_extensions
       (jset_opt (jset_opt (jset_opt (jset_opt (jset_opt (jset_opt (jset (jset
          (jset_opt empty_object ''title'' (nonempty_string (res_title r)))
          uri_key (JString (res_uri r)))
          ''name'' (JString (res_name r)))
          ''description'' (nonempty_string (res_description r)))
          ''mimeType'' (nonempty_string (res_mime_type r)))
          ''size'' (map_option JInt (res_size r)))
          ''icons'' (nonempty_icons (res_icons r)))
          ''annotations'' (nonempty_json (res_annotations r)))
          ''_meta'' (res_meta r))
       (res_extensions r)"

definition size_member :: "json \<Rightarrow> string \<Rightarrow> int64 option result" where
  "size_member j label =
     (case jfind j ''size'' of None \<Rightarrow> Inr None
      | Some v \<Rightarrow> rbind (resource_size_from_json v label) (\<lambda>n. Inr (Some n)))"

text \<open>
  \<open>resource_from_json\<close> (label \<open>resource\<close>, key \<open>uri\<close>) and \<open>resource_template_from_json\<close> (label
  \<open>resource template\<close>, key \<open>uriTemplate\<close>) make the same checks in the same order.
\<close>

definition descriptor_from_json :: "string \<Rightarrow> string \<Rightarrow> json \<Rightarrow> resource result" where
  "descriptor_from_json label uri_key j =
     (let err = (\<lambda>msg. resource_json_error (label @ msg)) in
      if \<not> is_object j then Inl (err '' must be an object'')
      else
        rbind (optional_member is_string j ''title'' (err '' title must be a string'')) (\<lambda>title.
        rbind (required_member is_string j uri_key (err ('' requires a string '' @ uri_key))) (\<lambda>uri.
        rbind (required_member is_string j ''name'' (err '' requires a string name'')) (\<lambda>name.
        rbind (optional_member is_string j ''description'' (err '' description must be a string'')) (\<lambda>description.
        rbind (optional_member is_string j ''mimeType'' (err '' mimeType must be a string'')) (\<lambda>mime_type.
        rbind (size_member j label) (\<lambda>sz.
        rbind (icons_from_json j (err '' icons must be an array'') (err '' icon is invalid'')) (\<lambda>icons.
        rbind (optional_member is_object j ''annotations'' (err '' annotations must be an object'')) (\<lambda>annotations.
        rbind (optional_member is_object j ''_meta'' (err '' _meta must be an object'')) (\<lambda>meta.
          Inr \<lparr>res_title = string_or_empty title, res_uri = string_of uri, res_name = string_of name,
               res_description = string_or_empty description, res_mime_type = string_or_empty mime_type,
               res_size = sz, res_icons = icons, res_annotations = object_or_empty annotations,
               res_meta = meta,
               res_extensions = collect_json_extensions j (resource_known_keys uri_key)\<rparr>))))))))))"

definition resource_to_json :: "resource \<Rightarrow> json" where
  "resource_to_json r = descriptor_to_json ''uri'' r"

definition resource_from_json :: "json \<Rightarrow> resource result" where
  "resource_from_json j = descriptor_from_json ''resource'' ''uri'' j"

definition resource_template_to_json :: "resource_template \<Rightarrow> json" where
  "resource_template_to_json r = descriptor_to_json ''uriTemplate'' r"

definition resource_template_from_json :: "json \<Rightarrow> resource_template result" where
  "resource_template_from_json j = descriptor_from_json ''resource template'' ''uriTemplate'' j"

section \<open>Params\<close>

definition uri_params_to_json :: "resource_params \<Rightarrow> json" where
  "uri_params_to_json p =
     append_json_extensions
       (jset_opt (JObject [(''uri'', JString (rp_uri p))]) ''_meta'' (rp_meta p)) (rp_extensions p)"

definition uri_params_from_json :: "string \<Rightarrow> json \<Rightarrow> resource_params result" where
  "uri_params_from_json label j =
     (if \<not> is_object j then Inl (resource_json_error (label @ '' params must be an object''))
      else
        rbind (required_member is_string j ''uri''
                 (resource_json_error (label @ '' params require a string uri''))) (\<lambda>uri.
        rbind (optional_member is_object j ''_meta''
                 (resource_json_error (label @ '' _meta must be an object''))) (\<lambda>meta.
          Inr \<lparr>rp_uri = string_of uri, rp_meta = meta,
               rp_extensions = collect_json_extensions j [''uri'', ''_meta'']\<rparr>)))"

definition resources_read_params_to_json :: "resource_params \<Rightarrow> json" where
  "resources_read_params_to_json p = uri_params_to_json p"

definition resources_read_params_from_json :: "json \<Rightarrow> resource_params result" where
  "resources_read_params_from_json j = uri_params_from_json ''resources/read'' j"

definition resources_subscribe_params_to_json :: "resource_params \<Rightarrow> json" where
  "resources_subscribe_params_to_json p = uri_params_to_json p"

definition resources_subscribe_params_from_json :: "json \<Rightarrow> resource_params result" where
  "resources_subscribe_params_from_json j = uri_params_from_json ''resources subscribe'' j"

definition resources_unsubscribe_params_to_json :: "resource_params \<Rightarrow> json" where
  "resources_unsubscribe_params_to_json p = resources_subscribe_params_to_json p"

definition resources_unsubscribe_params_from_json :: "json \<Rightarrow> resource_params result" where
  "resources_unsubscribe_params_from_json j = resources_subscribe_params_from_json j"

section \<open>Contents and results\<close>

definition resource_contents_to_json :: "resource_contents \<Rightarrow> json" where
  "resource_contents_to_json c = reflect_to_json resource_contents_reflect c"

definition resource_contents_from_json :: "json \<Rightarrow> resource_contents result" where
  "resource_contents_from_json j =
     rbind (reflect_from_json resource_contents_reflect j) (\<lambda>c.
       if rc_text c = None \<and> rc_blob c = None
       then Inl (resource_json_error ''resource contents require text or blob'')
       else Inr c)"

definition list_result_to_json :: "string \<Rightarrow> ('a \<Rightarrow> json) \<Rightarrow> 'a resources_result \<Rightarrow> json" where
  "list_result_to_json key item_to_json r =
     append_json_extensions
       (jset_opt (jset_opt (jset_opt (jset_opt
          (jset empty_object key (JArray (map item_to_json (rr_items r))))
          ''nextCursor'' (map_option JString (rr_next_cursor r)))
          ''_meta'' (rr_meta r))
          ''ttlMs'' (map_option JInt (rr_ttl_ms r)))
          ''cacheScope'' (map_option JString (rr_cache_scope r)))
       (rr_extensions r)"

definition list_result_from_json ::
  "string \<Rightarrow> string \<Rightarrow> (json \<Rightarrow> 'a result) \<Rightarrow> json \<Rightarrow> 'a resources_result result" where
  "list_result_from_json label key item_from_json j =
     (if \<not> is_object j then Inl (resource_json_error (label @ '' result must be an object''))
      else case jfind j key of
        Some (JArray items) \<Rightarrow>
          rbind (map_result item_from_json items) (\<lambda>parts.
          rbind (optional_member is_string j ''nextCursor''
                   (resource_json_error (label @ '' nextCursor must be a string''))) (\<lambda>cursor.
          rbind (optional_member is_object j ''_meta''
                   (resource_json_error (label @ '' result _meta must be an object''))) (\<lambda>meta.
            Inr \<lparr>rr_items = parts, rr_next_cursor = map_option string_of cursor, rr_meta = meta,
                 rr_extensions = collect_json_extensions j [key, ''nextCursor'', ''_meta''],
                 rr_ttl_ms = None, rr_cache_scope = None\<rparr>)))
      | _ \<Rightarrow> Inl (resource_json_error (label @ '' result requires a '' @ key @ '' array'')))"

definition resources_list_result_to_json :: "resource resources_result \<Rightarrow> json" where
  "resources_list_result_to_json r = list_result_to_json ''resources'' resource_to_json r"

definition resources_list_result_from_json :: "json \<Rightarrow> resource resources_result result" where
  "resources_list_result_from_json j =
     list_result_from_json ''resources/list'' ''resources'' resource_from_json j"

definition resource_templates_list_result_to_json :: "resource_template resources_result \<Rightarrow> json" where
  "resource_templates_list_result_to_json r =
     list_result_to_json ''resourceTemplates'' resource_template_to_json r"

definition resource_templates_list_result_from_json ::
  "json \<Rightarrow> resource_template resources_result result" where
  "resource_templates_list_result_from_json j =
     list_result_from_json ''resources/templates/list'' ''resourceTemplates'' resource_template_from_json j"

text \<open>\<open>ResourcesReadResult\<close> has no cursor: its \<open>nextCursor\<close> would be an unknown member.\<close>

definition resources_read_result_to_json :: "resource_contents resources_result \<Rightarrow> json" where
  "resources_read_result_to_json r =
     append_json_extensions
       (jset_opt (jset_opt (jset_opt
          (jset empty_object ''contents'' (JArray (map resource_contents_to_json (rr_items r))))
          ''_meta'' (rr_meta r))
          ''ttlMs'' (map_option JInt (rr_ttl_ms r)))
          ''cacheScope'' (map_option JString (rr_cache_scope r)))
       (rr_extensions r)"

definition resources_read_result_from_json :: "json \<Rightarrow> resource_contents resources_result result" where
  "resources_read_result_from_json j =
     (if \<not> is_object j then Inl (resource_json_error ''resources/read result must be an object'')
      else case jfind j ''contents'' of
        Some (JArray items) \<Rightarrow>
          rbind (map_result resource_contents_from_json items) (\<lambda>parts.
          rbind (optional_member is_object j ''_meta''
                   (resource_json_error ''resources/read result _meta must be an object'')) (\<lambda>meta.
            Inr \<lparr>rr_items = parts, rr_next_cursor = None, rr_meta = meta,
                 rr_extensions = collect_json_extensions j [''contents'', ''_meta''],
                 rr_ttl_ms = None, rr_cache_scope = None\<rparr>))
      | _ \<Rightarrow> Inl (resource_json_error ''resources/read result requires a contents array''))"

definition resource_updated_notification_params_to_json ::
  "resource_updated_notification_params \<Rightarrow> json" where
  "resource_updated_notification_params_to_json p = reflect_to_json resource_updated_reflect p"

definition resource_updated_notification_params_from_json ::
  "json \<Rightarrow> resource_updated_notification_params result" where
  "resource_updated_notification_params_from_json j = reflect_from_json resource_updated_reflect j"

section \<open>Size bounds\<close>

fun int_value :: "json \<Rightarrow> int" where
  "int_value (JInt w) = sint w"
| "int_value (JUInt w) = uint w"
| "int_value _ = 0"

lemma uint32_range_signed:
  "\<not> (n <s 0 \<or> 4294967295 <s n) \<longleftrightarrow> 0 \<le> sint n \<and> sint n \<le> 4294967295" for n :: int64
  by (simp add: word_sless_alt not_less)

lemma uint32_range_unsigned:
  "0 \<le> sint n \<and> sint n \<le> 4294967295 \<longleftrightarrow> uint n \<le> 4294967295" for n :: "64 word"
proof
  assume a: "0 \<le> sint n \<and> sint n \<le> 4294967295"
  have "uint n = sint n mod 2 ^ 64" using uint_word_of_int [of "sint n", where 'a = 64] by simp
  with a show "uint n \<le> 4294967295" by simp
next
  assume "uint n \<le> 4294967295"
  moreover have "0 \<le> uint n" by simp
  ultimately have "sint n = uint n"
    unfolding sint_uint
    by (intro signed_take_bit_int_eq_self) (simp_all add: order_trans [OF _ uint_ge_0])
  with \<open>uint n \<le> 4294967295\<close> show "0 \<le> sint n \<and> sint n \<le> 4294967295" by simp
qed

text \<open>a size member is accepted exactly when it is a JSON integer whose value, signed or
  unsigned, lies between 0 and the largest 32-bit value; the accepted size is that value.\<close>

theorem resource_size_exact:
  "resource_size_from_json j context = Inr n \<longleftrightarrow>
     is_number_integer j \<and> 0 \<le> int_value j \<and> int_value j \<le> 4294967295 \<and> n = word_of_int (int_value j)"
proof (cases j)
  case (JInt w)
  then show ?thesis using uint32_range_signed [of w] by (auto simp: resource_size_from_json_def)
next
  case (JUInt w)
  then show ?thesis
    using uint32_range_signed [of w] uint32_range_unsigned [of w] by (auto simp: resource_size_from_json_def)
qed (auto simp: resource_size_from_json_def)

section \<open>Round trips\<close>

definition size_ok :: "int64 option \<Rightarrow> bool" where
  "size_ok sz \<longleftrightarrow> (case sz of None \<Rightarrow> True | Some n \<Rightarrow> 0 \<le> sint n \<and> sint n \<le> 4294967295)"

definition descriptor_ok :: "string \<Rightarrow> resource \<Rightarrow> bool" where
  "descriptor_ok uri_key r \<longleftrightarrow>
     size_ok (res_size r) \<and> is_object (res_annotations r) \<and> object_meta_ok (res_meta r) \<and>
     ext_ok (resource_known_keys uri_key) (res_extensions r)"

lemma size_member_read:
  "jfind j ''size'' = map_option JInt sz \<Longrightarrow> size_ok sz \<Longrightarrow> size_member j label = Inr sz"
  using uint32_range_signed
  by (auto simp: size_member_def size_ok_def resource_size_from_json_def split: option.splits)

lemma descriptor_roundtrip:
  assumes ok: "descriptor_ok uri_key r"
    and key: "uri_key \<notin> {''title'', ''name'', ''description'', ''mimeType'', ''size'', ''icons'', ''annotations'', ''_meta''}"
  shows "descriptor_from_json label uri_key (descriptor_to_json uri_key r) = Inr r"
proof -
  let ?j = "descriptor_to_json uri_key r"
  have e: "ext_ok (resource_known_keys uri_key) (res_extensions r)" "is_object (res_extensions r)"
    and o: "size_ok (res_size r)" "is_object (res_annotations r)" "object_meta_ok (res_meta r)"
    using ok by (auto simp: descriptor_ok_def ext_ok_def)
  have f: "is_object ?j"
    "jfind ?j ''title'' = nonempty_string (res_title r)" "jfind ?j uri_key = Some (JString (res_uri r))"
    "jfind ?j ''name'' = Some (JString (res_name r))"
    "jfind ?j ''description'' = nonempty_string (res_description r)"
    "jfind ?j ''mimeType'' = nonempty_string (res_mime_type r)"
    "jfind ?j ''size'' = map_option JInt (res_size r)" "jfind ?j ''icons'' = nonempty_icons (res_icons r)"
    "jfind ?j ''annotations'' = nonempty_json (res_annotations r)" "jfind ?j ''_meta'' = res_meta r"
    unfolding descriptor_to_json_def
    using key by (auto simp: jfind_written [OF e(1)] resource_known_keys_def split: option.split)
  have x: "collect_json_extensions ?j (resource_known_keys uri_key) = res_extensions r"
    unfolding descriptor_to_json_def
    by (rule collect_append_extensions [OF _ e(1)]) (simp_all add: resource_known_keys_def)
  show ?thesis
    using size_member_read [OF f(7) o(1)] o(2,3)
    by (simp add: descriptor_from_json_def f x)
qed

lemma uri_params_roundtrip:
  assumes "object_meta_ok (rp_meta p)" "ext_ok [''uri'', ''_meta''] (rp_extensions p)"
  shows "uri_params_from_json label (uri_params_to_json p) = Inr p"
proof -
  let ?j = "uri_params_to_json p"
  have f: "is_object ?j" "jfind ?j ''uri'' = Some (JString (rp_uri p))" "jfind ?j ''_meta'' = rp_meta p"
    unfolding uri_params_to_json_def by (simp_all add: jfind_written [OF assms(2)] split: option.split)
  have x: "collect_json_extensions ?j [''uri'', ''_meta''] = rp_extensions p"
    unfolding uri_params_to_json_def
    by (rule collect_append_extensions [OF _ assms(2)]) (simp_all add: keys_sorted_Cons)
  show ?thesis using assms by (simp add: uri_params_from_json_def f x)
qed

text \<open>Resource and resource template descriptors and the params of resources/read and
  resources/subscribe are read back as they were written, when the size is a 32-bit value, the
  annotations and _meta are objects and no unknown member has the name of a typed one.\<close>

theorem resource_roundtrips:
  "(descriptor_ok ''uri'' r \<longrightarrow> resource_from_json (resource_to_json r) = Inr r) \<and>
   (descriptor_ok ''uriTemplate'' r \<longrightarrow>
      resource_template_from_json (resource_template_to_json r) = Inr r) \<and>
   (object_meta_ok (rp_meta p) \<and> ext_ok [''uri'', ''_meta''] (rp_extensions p) \<longrightarrow>
      resources_read_params_from_json (resources_read_params_to_json p) = Inr p \<and>
      resources_subscribe_params_from_json (resources_subscribe_params_to_json p) = Inr p \<and>
      resources_unsubscribe_params_from_json (resources_unsubscribe_params_to_json p) = Inr p)"
  by (simp add: resource_from_json_def resource_to_json_def resource_template_from_json_def
      resource_template_to_json_def descriptor_roundtrip resources_read_params_from_json_def
      resources_read_params_to_json_def resources_subscribe_params_from_json_def
      resources_subscribe_params_to_json_def resources_unsubscribe_params_from_json_def
      resources_unsubscribe_params_to_json_def uri_params_roundtrip)

definition sample_resource :: resource where
  "sample_resource = \<lparr>res_title = '''', res_uri = ''file:///a'', res_name = ''a'', res_description = ''d'',
     res_mime_type = '''', res_size = Some 12, res_icons = [default_icon], res_annotations = empty_object,
     res_meta = None, res_extensions = JObject [(''x'', JNull)]\<rparr>"

theorem resource_roundtrips_witness:
  "resource_from_json (resource_to_json sample_resource) = Inr sample_resource"
proof -
  have "descriptor_ok ''uri'' sample_resource"
    by (simp add: descriptor_ok_def sample_resource_def size_ok_def object_meta_ok_def ext_ok_def
        resource_known_keys_def keys_sorted_Cons)
  then show ?thesis using resource_roundtrips [of sample_resource] by blast
qed

interpretation rc: reflected_struct resource_contents_reflect
  "\<lambda>c. rc_meta c \<noteq> Some JNull \<and> ext_ok [''uri'', ''mimeType'', ''text'', ''blob'', ''_meta''] (rc_extensions c)"
  rc_extensions "\<lambda>v. rc_extensions_update (\<lambda>_. v)"
proof unfold_locales
  fix obj :: resource_contents
  assume "rc_meta obj \<noteq> Some JNull \<and>
          ext_ok [''uri'', ''mimeType'', ''text'', ''blob'', ''_meta''] (rc_extensions obj)"
  then show "\<exists>u. reads_back obj (rf_fields resource_contents_reflect) (rf_default resource_contents_reflect) u \<and>
                 u\<lparr>rc_extensions := rc_extensions obj\<rparr> = obj"
    unfolding resource_contents_reflect_def reflect.simps
    by (intro exI conjI)
       (rule str.reads_required str.opt.reads_optional opt_json.reads_optional reads_back.extensions
             TrueI allI impI | simp)+
qed (auto simp: resource_contents_reflect_def)

interpretation run: reflected_struct resource_updated_reflect
  "\<lambda>p. ext_ok [''uri''] (run_extensions p)" run_extensions "\<lambda>v. run_extensions_update (\<lambda>_. v)"
proof unfold_locales
  fix obj :: resource_updated_notification_params
  show "\<exists>u. reads_back obj (rf_fields resource_updated_reflect) (rf_default resource_updated_reflect) u \<and>
            u\<lparr>run_extensions := run_extensions obj\<rparr> = obj"
    unfolding resource_updated_reflect_def reflect.simps
    by (intro exI conjI) (rule str.reads_required reads_back.extensions TrueI | simp)+
qed (auto simp: resource_updated_reflect_def)

text \<open>resource contents are accepted exactly when they are an object with string uri and string
  mimeType, text and blob absent or strings and not both absent. In particular contents without a
  mimeType are rejected, although the header documents the member as optional.\<close>

theorem resource_contents_accepts:
  "is_ok (resource_contents_from_json j) \<longleftrightarrow>
     is_object j \<and> (\<exists>s. jfind j ''uri'' = Some (JString s)) \<and> (\<exists>s. jfind j ''mimeType'' = Some (JString s)) \<and>
     (\<forall>k\<in>{''text'', ''blob''}. case jfind j k of None \<Rightarrow> True | Some v \<Rightarrow> is_string v) \<and>
     (jcontains j ''text'' \<or> jcontains j ''blob'')"
proof -
  have de: "tr_de string_trait v = get_string v" "tr_optional string_trait = False" for v
    by (auto simp: string_trait_def) (cases v; simp)+
  have opt: "tr_de (optional_trait string_trait) v = map_option Some (get_string v)" for v
    by (auto simp: optional_trait_def de split: option.splits)
  have str: "is_string v \<longleftrightarrow> get_string v \<noteq> None" "(\<exists>s. x = Some (JString s)) \<longleftrightarrow> (\<exists>v s. x = Some v \<and> get_string v = Some s)" for v x
    by (cases v; simp) (auto simp: get_string_Some)
  show ?thesis
    unfolding resource_contents_from_json_def reflect_from_json_def resource_contents_reflect_def reflect.simps
      field_def deserialize_all.simps deserialize_step.simps deserialize_one_def de opt str jcontains_def
    by (auto simp: optional_json_trait_def split: option.split)
qed

section \<open>Cache hints\<close>

text \<open>What a parsed result holds: the hints are unknown members.\<close>

definition hints_as_extensions :: "'a resources_result \<Rightarrow> 'a resources_result" where
  "hints_as_extensions r =
     r\<lparr>rr_ttl_ms := None, rr_cache_scope := None,
       rr_extensions := jset_opt (jset_opt (rr_extensions r) ''ttlMs'' (map_option JInt (rr_ttl_ms r)))
                          ''cacheScope'' (map_option JString (rr_cache_scope r))\<rparr>"

definition result_ok :: "string list \<Rightarrow> 'a resources_result \<Rightarrow> bool" where
  "result_ok ks r \<longleftrightarrow> object_meta_ok (rr_meta r) \<and> ext_ok (ks @ [''ttlMs'', ''cacheScope'']) (rr_extensions r)"

lemma list_result_read:
  assumes ok: "result_ok [key, ''nextCursor'', ''_meta''] r"
    and items: "\<forall>x\<in>set (rr_items r). f (g x) = Inr x"
    and key: "key \<notin> {''nextCursor'', ''_meta'', ''ttlMs'', ''cacheScope''}"
  shows "list_result_from_json label key f (list_result_to_json key g r) = Inr (hints_as_extensions r)"
proof -
  let ?j = "list_result_to_json key g r" and ?e = "rr_extensions r"
  have e: "jwf ?e" "\<And>k. k \<in> {key, ''nextCursor'', ''_meta'', ''ttlMs'', ''cacheScope''} \<Longrightarrow> jfind ?e k = None"
    using ok by (auto simp: result_ok_def ext_ok_def)
  have eo: "is_object ?e" using e(1) by simp
  have f: "is_object ?j" "jfind ?j key = Some (JArray (map g (rr_items r)))"
    "jfind ?j ''nextCursor'' = map_option JString (rr_next_cursor r)" "jfind ?j ''_meta'' = rr_meta r"
    unfolding list_result_to_json_def using key e eo by (auto split: option.split)
  have wf: "jwf ?j" by (simp add: list_result_to_json_def keys_sorted_Cons)
  have x: "collect_json_extensions ?j [key, ''nextCursor'', ''_meta''] = rr_extensions (hints_as_extensions r)"
    unfolding hints_as_extensions_def
    by (rule jwf_ext; insert wf e eo key)
       (auto simp: list_result_to_json_def keys_sorted_Cons split: option.split)
  show ?thesis
    using ok f items x optional_member_found [OF f(3) optional_string_cases(1)]
    by (simp add: list_result_from_json_def result_ok_def hints_as_extensions_def del: option.map_comp)
qed

lemma read_result_read:
  assumes ok: "result_ok [''contents'', ''_meta''] r" and nc: "rr_next_cursor r = None"
    and items: "\<forall>x\<in>set (rr_items r). resource_contents_from_json (resource_contents_to_json x) = Inr x"
  shows "resources_read_result_from_json (resources_read_result_to_json r) = Inr (hints_as_extensions r)"
proof -
  let ?j = "resources_read_result_to_json r" and ?e = "rr_extensions r"
  have e: "jwf ?e" "\<And>k. k \<in> {''contents'', ''_meta'', ''ttlMs'', ''cacheScope''} \<Longrightarrow> jfind ?e k = None"
    using ok by (auto simp: result_ok_def ext_ok_def)
  have eo: "is_object ?e" using e(1) by simp
  have f: "is_object ?j" "jfind ?j ''contents'' = Some (JArray (map resource_contents_to_json (rr_items r)))"
    "jfind ?j ''_meta'' = rr_meta r"
    unfolding resources_read_result_to_json_def using e eo by (auto split: option.split)
  have wf: "jwf ?j" by (simp add: resources_read_result_to_json_def keys_sorted_Cons)
  have x: "collect_json_extensions ?j [''contents'', ''_meta''] = rr_extensions (hints_as_extensions r)"
    unfolding hints_as_extensions_def
    by (rule jwf_ext; insert wf e eo)
       (auto simp: resources_read_result_to_json_def keys_sorted_Cons split: option.split)
  show ?thesis
    using ok f items x nc
    by (simp add: resources_read_result_from_json_def result_ok_def hints_as_extensions_def)
qed

definition contents_ok :: "resource_contents \<Rightarrow> bool" where
  "contents_ok c \<longleftrightarrow> (rc_text c \<noteq> None \<or> rc_blob c \<noteq> None) \<and> rc_meta c \<noteq> Some JNull \<and>
     ext_ok [''uri'', ''mimeType'', ''text'', ''blob'', ''_meta''] (rc_extensions c)"

lemma contents_roundtrip: "contents_ok c \<Longrightarrow> resource_contents_from_json (resource_contents_to_json c) = Inr c"
  by (auto simp: contents_ok_def resource_contents_from_json_def resource_contents_to_json_def rc.roundtrip)

text \<open>the results of resources/list, resources/templates/list and resources/read are read back
  with their items, cursor and metadata, but ttlMs and cacheScope are never read into their typed
  members: they come back as unknown members. The round trip is exact when the hints are absent.\<close>

theorem resource_results_read_back:
  "((\<forall>x\<in>set (rr_items r). descriptor_ok ''uri'' x) \<and> result_ok [''resources'', ''nextCursor'', ''_meta''] r \<longrightarrow>
      resources_list_result_from_json (resources_list_result_to_json r) = Inr (hints_as_extensions r)) \<and>
   ((\<forall>x\<in>set (rr_items r). descriptor_ok ''uriTemplate'' x) \<and>
    result_ok [''resourceTemplates'', ''nextCursor'', ''_meta''] r \<longrightarrow>
      resource_templates_list_result_from_json (resource_templates_list_result_to_json r) =
      Inr (hints_as_extensions r)) \<and>
   ((\<forall>c\<in>set (rr_items q). contents_ok c) \<and> rr_next_cursor q = None \<and> result_ok [''contents'', ''_meta''] q \<longrightarrow>
      resources_read_result_from_json (resources_read_result_to_json q) = Inr (hints_as_extensions q)) \<and>
   (rr_ttl_ms r = None \<and> rr_cache_scope r = None \<longrightarrow> hints_as_extensions r = r)"
proof -
  have d: "resource_from_json (resource_to_json x) = Inr x" if "descriptor_ok ''uri'' x" for x
    using that by (simp add: resource_from_json_def resource_to_json_def descriptor_roundtrip)
  have t: "resource_template_from_json (resource_template_to_json x) = Inr x" if "descriptor_ok ''uriTemplate'' x" for x
    using that by (simp add: resource_template_from_json_def resource_template_to_json_def descriptor_roundtrip)
  show ?thesis
    using list_result_read [of "''resources''" r resource_from_json resource_to_json "''resources/list''"]
      list_result_read [of "''resourceTemplates''" r resource_template_from_json resource_template_to_json
        "''resources/templates/list''"] d t read_result_read [of q] contents_roundtrip
    by (simp add: resources_list_result_from_json_def resources_list_result_to_json_def
        resource_templates_list_result_from_json_def resource_templates_list_result_to_json_def
        hints_as_extensions_def jset_opt_def)
qed

theorem resource_results_read_back_witness:
  "resources_list_result_from_json (resources_list_result_to_json
     \<lparr>rr_items = [], rr_next_cursor = None, rr_meta = None, rr_extensions = empty_object,
      rr_ttl_ms = Some 5, rr_cache_scope = None\<rparr>) =
   Inr \<lparr>rr_items = [], rr_next_cursor = None, rr_meta = None,
        rr_extensions = JObject [(''ttlMs'', JInt 5)], rr_ttl_ms = None, rr_cache_scope = None\<rparr>"
  using resource_results_read_back [of "\<lparr>rr_items = [], rr_next_cursor = None, rr_meta = None,
     rr_extensions = empty_object, rr_ttl_ms = Some 5, rr_cache_scope = None\<rparr>"]
  by (simp add: result_ok_def object_meta_ok_def hints_as_extensions_def jset_opt_def)

theorem resource_contents_accepts_witness:
  "is_ok (resource_contents_from_json (JObject [(''mimeType'', JString ''a''), (''text'', JString ''b''), (''uri'', JString ''c'')])) \<and>
   \<not> is_ok (resource_contents_from_json (JObject [(''text'', JString ''b''), (''uri'', JString ''c'')]))"
  unfolding resource_contents_accepts by (simp add: jcontains_def)

end
