(* ===== verification/Tool_Protocol.thy ===== *)
theory Tool_Protocol
  imports Task_Protocol Resource_Protocol
begin

text \<open>
  src/sdk/protocol/include/cxxmcp/protocol/tool.hpp and annotations.hpp: tool definitions, calls and
  results with their JSON forms, tool annotations, and the header values of SEP-2243. A read by
  \<open>get<std::string>()\<close> without a type test throws on another type; \<open>Throws\<close> is that exception.
\<close>

section \<open>Payloads\<close>

datatype task_support = TaskForbidden | TaskOptional | TaskRequired

record tool_execution =
  tx_task_support :: "task_support option"

record content_block =
  cb_type :: string
  cb_text :: string
  cb_data :: json
  cb_mime_type :: string
  cb_resource :: "resource_contents option"
  cb_resource_link :: "resource option"
  cb_annotations :: json
  cb_meta :: "json option"
  cb_extensions :: json

record tool_annotations =
  ta_title :: "string option"
  ta_description_hint :: "string option"
  ta_destructive_hint :: "bool option"
  ta_read_only_hint :: "bool option"
  ta_open_world_hint :: "bool option"
  ta_idempotent_hint :: "bool option"
  ta_raw :: json

record tool_definition =
  td_title :: string
  td_name :: string
  td_description :: string
  td_input_schema :: json
  td_output_schema :: json
  td_output_schema_present :: bool
  td_streaming :: bool
  td_icons :: "icon list"
  td_execution :: "tool_execution option"
  td_tool_annotations :: "tool_annotations option"
  td_annotations :: json
  td_meta :: "json option"
  td_extensions :: json

record tool_call =
  tc_name :: string
  tc_arguments :: json
  tc_task :: "task_request_parameters option"
  tc_meta :: "json option"
  tc_request_state :: "string option"
  tc_input_responses :: "json option"
  tc_extensions :: json

record tool_result =
  tr_content :: "content_block list"
  tr_structured_content :: "json option"
  tr_is_error :: "bool option"
  tr_meta :: "json option"
  tr_result_type :: "string option"
  tr_input_requests :: "json option"
  tr_request_state :: "string option"
  tr_extensions :: json

definition tool_task_support :: "tool_definition \<Rightarrow> task_support" where
  "tool_task_support d =
     (case td_execution d of
        None \<Rightarrow> TaskForbidden
      | Some x \<Rightarrow> (case tx_task_support x of None \<Rightarrow> TaskForbidden | Some s \<Rightarrow> s))"

definition is_error_result :: "tool_result \<Rightarrow> bool" where
  "is_error_result r = (case tr_is_error r of None \<Rightarrow> False | Some b \<Rightarrow> b)"

definition text_content :: "string \<Rightarrow> content_block" where
  "text_content s = \<lparr>cb_type = ''text'', cb_text = s, cb_data = empty_object, cb_mime_type = '''',
     cb_resource = None, cb_resource_link = None, cb_annotations = empty_object, cb_meta = None,
     cb_extensions = empty_object\<rparr>"

definition text_result :: "string \<Rightarrow> tool_result" where
  "text_result s = \<lparr>tr_content = [text_content s], tr_structured_content = None, tr_is_error = Some False,
     tr_meta = None, tr_result_type = None, tr_input_requests = None, tr_request_state = None,
     tr_extensions = empty_object\<rparr>"

definition error_text :: "string \<Rightarrow> tool_result" where
  "error_text s = (text_result s)\<lparr>tr_is_error := Some True\<rparr>"

definition tool_json_error :: "string \<Rightarrow> core_error" where
  "tool_json_error msg = mk_error (error_code InvalidRequest) msg '''' ''''"

fun task_support_to_string :: "task_support \<Rightarrow> string" where
  "task_support_to_string TaskForbidden = ''forbidden''"
| "task_support_to_string TaskOptional = ''optional''"
| "task_support_to_string TaskRequired = ''required''"

definition task_support_from_string :: "string \<Rightarrow> task_support option" where
  "task_support_from_string s =
     (if s = ''forbidden'' then Some TaskForbidden
      else if s = ''optional'' then Some TaskOptional
      else if s = ''required'' then Some TaskRequired
      else None)"

definition task_support_trait :: "task_support json_trait" where
  "task_support_trait = \<lparr>tr_ser = (\<lambda>v. Some (JString (task_support_to_string v))),
     tr_de = (\<lambda>j. case get_string j of None \<Rightarrow> None | Some s \<Rightarrow> task_support_from_string s),
     tr_default = TaskForbidden, tr_optional = False\<rparr>"

lemma task_support_roundtrip [simp]: "task_support_from_string (task_support_to_string s) = Some s"
  by (cases s) (simp_all add: task_support_from_string_def)

interpretation support: present_trait task_support_trait "\<lambda>_. True"
  by unfold_locales (auto simp: task_support_trait_def)

definition tool_execution_reflect :: "tool_execution reflect" where
  "tool_execution_reflect =
     \<lparr>rf_default = \<lparr>tx_task_support = None\<rparr>,
      rf_fields = [field (optional_trait task_support_trait) ''taskSupport'' tx_task_support
                     (\<lambda>v. tx_task_support_update (\<lambda>_. v))],
      rf_extensions = None, rf_known_keys = [''taskSupport'']\<rparr>"

interpretation tx: plain_struct tool_execution_reflect "\<lambda>_. True"
proof unfold_locales
  fix obj :: tool_execution
  show "reads_back obj (rf_fields tool_execution_reflect) (rf_default tool_execution_reflect) obj"
    unfolding tool_execution_reflect_def reflect.simps
    by (rule support.opt.reads_optional TrueI allI impI | simp)+
qed (auto simp: tool_execution_reflect_def)

definition tool_execution_to_json :: "tool_execution \<Rightarrow> json" where
  "tool_execution_to_json x = reflect_to_json tool_execution_reflect x"

definition tool_execution_from_json :: "json \<Rightarrow> tool_execution result" where
  "tool_execution_from_json j = reflect_from_json tool_execution_reflect j"

section \<open>Tool annotations\<close>

definition tool_annotation_keys :: "string list" where
  "tool_annotation_keys = [''title'', ''descriptionHint'', ''destructiveHint'', ''readOnlyHint'',
     ''openWorldHint'', ''idempotentHint'']"

definition tool_annotations_to_json :: "tool_annotations \<Rightarrow> json" where
  "tool_annotations_to_json a =
     append_json_extensions
       (jset_opt (jset_opt (jset_opt (jset_opt (jset_opt (jset_opt empty_object
          ''title'' (map_option JString (ta_title a)))
          ''descriptionHint'' (map_option JString (ta_description_hint a)))
          ''destructiveHint'' (map_option JBool (ta_destructive_hint a)))
          ''readOnlyHint'' (map_option JBool (ta_read_only_hint a)))
          ''openWorldHint'' (map_option JBool (ta_open_world_hint a)))
          ''idempotentHint'' (map_option JBool (ta_idempotent_hint a)))
       (ta_raw a)"

fun bool_of :: "json \<Rightarrow> bool" where
  "bool_of (JBool b) = b"
| "bool_of _ = False"

definition tool_annotations_from_json :: "json \<Rightarrow> tool_annotations result" where
  "tool_annotations_from_json j =
     (let err = (\<lambda>msg. tool_json_error (''tool annotations '' @ msg)) in
      if \<not> is_object j then Inl (err ''must be an object'')
      else
        rbind (optional_member is_string j ''title'' (err ''title must be a string'')) (\<lambda>title.
        rbind (optional_member is_string j ''descriptionHint'' (err ''descriptionHint must be a string'')) (\<lambda>hint.
        rbind (optional_member is_boolean j ''destructiveHint'' (err ''destructiveHint must be a boolean'')) (\<lambda>destructive.
        rbind (optional_member is_boolean j ''readOnlyHint'' (err ''readOnlyHint must be a boolean'')) (\<lambda>read_only.
        rbind (optional_member is_boolean j ''openWorldHint'' (err ''openWorldHint must be a boolean'')) (\<lambda>open_world.
        rbind (optional_member is_boolean j ''idempotentHint'' (err ''idempotentHint must be a boolean'')) (\<lambda>idempotent.
          Inr \<lparr>ta_title = map_option string_of title, ta_description_hint = map_option string_of hint,
               ta_destructive_hint = map_option bool_of destructive,
               ta_read_only_hint = map_option bool_of read_only,
               ta_open_world_hint = map_option bool_of open_world,
               ta_idempotent_hint = map_option bool_of idempotent,
               ta_raw = collect_json_extensions j tool_annotation_keys\<rparr>)))))))"

section \<open>Definitions\<close>

definition tool_known_keys :: "string list" where
  "tool_known_keys = [''title'', ''name'', ''description'', ''inputSchema'', ''outputSchema'',
     ''streaming'', ''icons'', ''execution'', ''annotations'', ''_meta'']"

definition annotations_member :: "tool_definition \<Rightarrow> json option" where
  "annotations_member d =
     (case td_tool_annotations d of
        Some a \<Rightarrow> Some (tool_annotations_to_json a)
      | None \<Rightarrow> nonempty_json (td_annotations d))"

definition tool_definition_to_json :: "tool_definition \<Rightarrow> json" where
  "tool_definition_to_json d =
     append_json_extensions
       (jset_opt (jset_opt (jset_opt (jset_opt (jset_opt (jset_opt (jset (jset_opt (jset
          (jset_opt empty_object ''title'' (nonempty_string (td_title d)))
          ''name'' (JString (td_name d)))
          ''description'' (nonempty_string (td_description d)))
          ''inputSchema'' (td_input_schema d))
          ''outputSchema'' (if td_output_schema_present d \<or> \<not> jempty (td_output_schema d)
                            then Some (td_output_schema d) else None))
          ''streaming'' (if td_streaming d then Some (JBool (td_streaming d)) else None))
          ''icons'' (nonempty_icons (td_icons d)))
          ''execution'' (map_option tool_execution_to_json (td_execution d)))
          ''annotations'' (annotations_member d))
          ''_meta'' (td_meta d))
       (td_extensions d)"

definition execution_member :: "json \<Rightarrow> tool_execution option result" where
  "execution_member j =
     (case jfind j ''execution'' of None \<Rightarrow> Inr None
      | Some v \<Rightarrow> rbind (tool_execution_from_json v) (\<lambda>x. Inr (Some x)))"

definition tool_definition_from_json :: "json \<Rightarrow> tool_definition result" where
  "tool_definition_from_json j =
     (let err = (\<lambda>msg. tool_json_error (''tool definition '' @ msg)) in
      if \<not> is_object j then Inl (err ''must be an object'')
      else
        rbind (optional_member is_string j ''title'' (err ''title must be a string'')) (\<lambda>title.
        rbind (required_member is_string j ''name'' (err ''requires a string name'')) (\<lambda>name.
        rbind (optional_member is_string j ''description'' (err ''description must be a string'')) (\<lambda>description.
        rbind (required_member is_object j ''inputSchema'' (err ''requires object inputSchema'')) (\<lambda>input.
        rbind (optional_member is_object j ''outputSchema'' (err ''outputSchema must be an object'')) (\<lambda>output.
        rbind (optional_member is_boolean j ''streaming'' (err ''streaming must be a boolean'')) (\<lambda>streaming.
        rbind (icons_from_json j (err ''icons must be an array'') (err ''icon is invalid'')) (\<lambda>icons.
        rbind (execution_member j) (\<lambda>execution.
        rbind (optional_member is_object j ''annotations'' (err ''annotations must be an object'')) (\<lambda>annotations.
        rbind (optional_member is_object j ''_meta'' (err ''_meta must be an object'')) (\<lambda>meta.
          Inr \<lparr>td_title = string_or_empty title, td_name = string_of name,
               td_description = string_or_empty description, td_input_schema = input,
               td_output_schema = object_or_empty output, td_output_schema_present = (output \<noteq> None),
               td_streaming = (case streaming of None \<Rightarrow> False | Some b \<Rightarrow> bool_of b), td_icons = icons,
               td_execution = execution,
               td_tool_annotations =
                 (case annotations of None \<Rightarrow> None
                  | Some a \<Rightarrow> (case tool_annotations_from_json a of Inl _ \<Rightarrow> None | Inr p \<Rightarrow> Some p)),
               td_annotations = object_or_empty annotations, td_meta = meta,
               td_extensions = collect_json_extensions j tool_known_keys\<rparr>)))))))))))"

section \<open>Calls\<close>

datatype 'a parsed = Throws | Returns "'a result"

definition tool_call_keys :: "string list" where
  "tool_call_keys = [''name'', ''arguments'', ''task'', ''_meta'', ''requestState'', ''inputResponses'']"

definition tool_call_to_json :: "tool_call \<Rightarrow> json" where
  "tool_call_to_json c =
     append_json_extensions
       (jset_opt (jset_opt (jset_opt (jset_opt (jset_opt
          (jset empty_object ''name'' (JString (tc_name c)))
          ''arguments'' (nonempty_json (tc_arguments c)))
          ''task'' (map_option task_request_parameters_to_json (tc_task c)))
          ''_meta'' (tc_meta c))
          ''requestState'' (map_option JString (tc_request_state c)))
          ''inputResponses'' (tc_input_responses c))
       (tc_extensions c)"

definition task_member :: "json \<Rightarrow> task_request_parameters option result" where
  "task_member j =
     (case jfind j ''task'' of None \<Rightarrow> Inr None
      | Some v \<Rightarrow> rbind (task_request_parameters_from_json v) (\<lambda>x. Inr (Some x)))"

text \<open>The checked members, then \<open>requestState\<close>, whose read throws when it is not a string.\<close>

definition tool_call_from_json :: "json \<Rightarrow> tool_call parsed" where
  "tool_call_from_json j =
     (let err = (\<lambda>msg. tool_json_error (''tools/call '' @ msg)) in
      if \<not> is_object j then Returns (Inl (err ''params must be an object''))
      else case
        rbind (required_member is_string j ''name'' (err ''params require a string name'')) (\<lambda>name.
        rbind (optional_member is_object j ''arguments'' (err ''arguments must be an object'')) (\<lambda>arguments.
        rbind (task_member j) (\<lambda>task.
        rbind (optional_member is_object j ''_meta'' (err ''_meta must be an object'')) (\<lambda>meta.
          Inr (name, arguments, task, meta)))))
      of
        Inl e \<Rightarrow> Returns (Inl e)
      | Inr (name, arguments, task, meta) \<Rightarrow>
          (case jfind j ''requestState'' of
             Some v \<Rightarrow>
               (case get_string v of
                  None \<Rightarrow> Throws
                | Some s \<Rightarrow> Returns (Inr \<lparr>tc_name = string_of name, tc_arguments = object_or_empty arguments,
                    tc_task = task, tc_meta = meta, tc_request_state = Some s,
                    tc_input_responses = jfind j ''inputResponses'',
                    tc_extensions = collect_json_extensions j tool_call_keys\<rparr>))
           | None \<Rightarrow> Returns (Inr \<lparr>tc_name = string_of name, tc_arguments = object_or_empty arguments,
               tc_task = task, tc_meta = meta, tc_request_state = None,
               tc_input_responses = jfind j ''inputResponses'',
               tc_extensions = collect_json_extensions j tool_call_keys\<rparr>)))"

section \<open>Results\<close>

definition content_block_to_json :: "content_block \<Rightarrow> json" where
  "content_block_to_json b =
     (let base = jset empty_object ''type'' (JString (cb_type b));
          body =
            (case (cb_type b = ''resource'', cb_resource b) of
               (True, Some r) \<Rightarrow> jset base ''resource'' (resource_contents_to_json r)
             | _ \<Rightarrow>
               (case (cb_type b = ''resource_link'', cb_resource_link b) of
                  (True, Some r) \<Rightarrow> jset (resource_to_json r) ''type'' (JString (cb_type b))
                | _ \<Rightarrow>
                  jset_opt (jset_opt (jset_opt base
                    ''text'' (if cb_text b \<noteq> '''' \<or> cb_type b = ''text'' then Some (JString (cb_text b)) else None))
                    ''data'' (if ((cb_type b = ''image'' \<or> cb_type b = ''audio'') \<and> is_string (cb_data b))
                                 \<or> \<not> jempty (cb_data b) then Some (cb_data b) else None))
                    ''mimeType'' (nonempty_string (cb_mime_type b))))
      in append_json_extensions
           (jset_opt (jset_opt body ''annotations'' (nonempty_json (cb_annotations b))) ''_meta'' (cb_meta b))
           (cb_extensions b))"

definition tool_result_to_json :: "tool_result \<Rightarrow> json" where
  "tool_result_to_json r =
     append_json_extensions
       (jset_opt (jset_opt (jset_opt (jset_opt (jset_opt (jset_opt (jset_opt empty_object
          ''resultType'' (map_option JString (tr_result_type r)))
          ''content'' (if tr_content r = [] then None
                       else Some (JArray (map content_block_to_json (tr_content r)))))
          ''structuredContent'' (tr_structured_content r))
          ''isError'' (map_option JBool (tr_is_error r)))
          ''_meta'' (tr_meta r))
          ''inputRequests'' (tr_input_requests r))
          ''requestState'' (map_option JString (tr_request_state r)))
       (tr_extensions r)"

text \<open>\<open>ToolsListResult\<close> has the members of the resource list results; its parser reads three of them.\<close>

definition tools_list_result_to_json :: "tool_definition resources_result \<Rightarrow> json" where
  "tools_list_result_to_json r = list_result_to_json ''tools'' tool_definition_to_json r"

definition tools_list_result_from_json :: "json \<Rightarrow> tool_definition resources_result result" where
  "tools_list_result_from_json j =
     list_result_from_json ''tools/list'' ''tools'' tool_definition_from_json j"

section \<open>Annotations are kept\<close>

lemma optional_bool_cases [simp]:
  "case map_option JBool c of None \<Rightarrow> True | Some v \<Rightarrow> is_boolean v"
  "map_option bool_of (map_option JBool c) = c"
  by (cases c; simp)+

lemma string_member_back: "(case v of None \<Rightarrow> True | Some x \<Rightarrow> is_string x) \<Longrightarrow> map_option JString (map_option string_of v) = v"
  by (auto simp: is_string_iff split: option.splits)

lemma bool_member_back: "(case v of None \<Rightarrow> True | Some x \<Rightarrow> is_boolean x) \<Longrightarrow> map_option JBool (map_option bool_of v) = v"
  by (cases v) (auto split: option.splits elim: is_boolean.elims)

text \<open>Printing what was parsed gives the same object: no annotation is lost or changed.\<close>

lemma tool_annotations_lossless:
  assumes "tool_annotations_from_json j = Inr a" "jwf j"
  shows "tool_annotations_to_json a = j"
proof -
  let ?s = "\<lambda>k. case jfind j k of None \<Rightarrow> True | Some x \<Rightarrow> is_string x"
  let ?b = "\<lambda>k. case jfind j k of None \<Rightarrow> True | Some x \<Rightarrow> is_boolean x"
  have a: "?s ''title''" "?s ''descriptionHint''" "?b ''destructiveHint''" "?b ''readOnlyHint''"
    "?b ''openWorldHint''" "?b ''idempotentHint''"
    "a = \<lparr>ta_title = map_option string_of (jfind j ''title''),
          ta_description_hint = map_option string_of (jfind j ''descriptionHint''),
          ta_destructive_hint = map_option bool_of (jfind j ''destructiveHint''),
          ta_read_only_hint = map_option bool_of (jfind j ''readOnlyHint''),
          ta_open_world_hint = map_option bool_of (jfind j ''openWorldHint''),
          ta_idempotent_hint = map_option bool_of (jfind j ''idempotentHint''),
          ta_raw = collect_json_extensions j tool_annotation_keys\<rparr>"
    using assms(1)
    by (auto simp: tool_annotations_from_json_def rbind_eq_Inr optional_member_Inr Let_def split: if_splits)
  note restored = string_member_back [OF a(1)] string_member_back [OF a(2)] bool_member_back [OF a(3)]
    bool_member_back [OF a(4)] bool_member_back [OF a(5)] bool_member_back [OF a(6)]
  have raw: "is_object (collect_json_extensions j tool_annotation_keys)" by (rule jwf_is_object) simp
  show ?thesis
    unfolding tool_annotations_to_json_def a(7) tool_annotations.simps restored
    by (rule jwf_ext) (use assms(2) raw in \<open>auto simp: tool_annotation_keys_def split: option.split\<close>)
qed

section \<open>Round trips\<close>

text \<open>
  The annotations member of a definition is consistent when it is what the parser makes of it:
  the raw object and, when it parses, its typed form.
\<close>

definition annotations_ok :: "tool_definition \<Rightarrow> bool" where
  "annotations_ok d \<longleftrightarrow>
     (case annotations_member d of
        None \<Rightarrow> td_annotations d = empty_object \<and> td_tool_annotations d = None
      | Some v \<Rightarrow> is_object v \<and> td_annotations d = v \<and>
          td_tool_annotations d = (case tool_annotations_from_json v of Inl _ \<Rightarrow> None | Inr p \<Rightarrow> Some p))"

definition definition_ok :: "tool_definition \<Rightarrow> bool" where
  "definition_ok d \<longleftrightarrow>
     is_object (td_input_schema d) \<and> is_object (td_output_schema d) \<and>
     (\<not> td_output_schema_present d \<longrightarrow> td_output_schema d = empty_object) \<and>
     annotations_ok d \<and> object_meta_ok (td_meta d) \<and> ext_ok tool_known_keys (td_extensions d)"

lemma jempty_object: "is_object j \<Longrightarrow> jempty j \<longleftrightarrow> j = empty_object"
  by (auto simp: is_object_iff)

lemma tool_definition_fields:
  assumes "definition_ok d"
  defines "j \<equiv> tool_definition_to_json d"
  shows "is_object j" "jfind j ''title'' = nonempty_string (td_title d)" "jfind j ''name'' = Some (JString (td_name d))"
    "jfind j ''description'' = nonempty_string (td_description d)" "jfind j ''inputSchema'' = Some (td_input_schema d)"
    "jfind j ''outputSchema'' = (if td_output_schema_present d then Some (td_output_schema d) else None)"
    "jfind j ''streaming'' = (if td_streaming d then Some (JBool True) else None)"
    "jfind j ''icons'' = nonempty_icons (td_icons d)"
    "jfind j ''execution'' = map_option tool_execution_to_json (td_execution d)"
    "jfind j ''annotations'' = annotations_member d" "jfind j ''_meta'' = td_meta d"
    "collect_json_extensions j tool_known_keys = td_extensions d"
proof -
  have e: "ext_ok tool_known_keys (td_extensions d)"
    and o: "\<not> td_output_schema_present d \<Longrightarrow> td_output_schema d = empty_object"
    using assms(1) by (auto simp: definition_ok_def)
  show "collect_json_extensions j tool_known_keys = td_extensions d"
    unfolding j_def tool_definition_to_json_def
    by (rule collect_append_extensions [OF _ e]) (simp_all add: tool_known_keys_def)
qed (use assms(1) in \<open>simp_all add: definition_ok_def j_def tool_definition_to_json_def
      jfind_written [of tool_known_keys] tool_known_keys_def split: option.split\<close>)

lemma tool_definition_roundtrip:
  assumes "definition_ok d"
  shows "tool_definition_from_json (tool_definition_to_json d) = Inr d"
proof -
  let ?j = "tool_definition_to_json d"
  note f = tool_definition_fields [OF assms]
  have ok: "is_object (td_input_schema d)" "is_object (td_output_schema d)"
    "\<not> td_output_schema_present d \<Longrightarrow> td_output_schema d = empty_object"
    "annotations_ok d" "object_meta_ok (td_meta d)"
    using assms by (auto simp: definition_ok_def)
  have out: "optional_member is_object ?j ''outputSchema'' e =
             Inr (if td_output_schema_present d then Some (td_output_schema d) else None)" for e
    using ok(2) f(6) by (auto simp: optional_member_def)
  have str: "optional_member is_boolean ?j ''streaming'' e = Inr (if td_streaming d then Some (JBool True) else None)" for e
    using f(7) by (auto simp: optional_member_def)
  have ex: "execution_member ?j = Inr (td_execution d)"
    using f(9) by (auto simp: execution_member_def tool_execution_from_json_def tool_execution_to_json_def
        tx.roundtrip split: option.splits)
  have ann: "optional_member is_object ?j ''annotations'' e = Inr (annotations_member d)" for e
    using ok(4) f(10) by (auto simp: optional_member_def annotations_ok_def split: option.splits)
  show ?thesis
    using ok
    by (simp add: tool_definition_from_json_def f out str ex ann object_or_empty_def)
       (auto simp: annotations_ok_def split: option.splits)
qed

lemma parsed_annotations_ok:
  assumes "td_annotations d = object_or_empty ann" "case ann of None \<Rightarrow> True | Some a \<Rightarrow> jwf a"
    "td_tool_annotations d =
       (case ann of None \<Rightarrow> None
        | Some a \<Rightarrow> (case tool_annotations_from_json a of Inl _ \<Rightarrow> None | Inr q \<Rightarrow> Some q))"
  shows "annotations_ok d"
proof (cases ann)
  case None
  then show ?thesis
    using assms by (simp add: annotations_ok_def annotations_member_def object_or_empty_def nonempty_json_def)
next
  case (Some a)
  then have a: "jwf a" "is_object a" "td_annotations d = a" using assms by (auto simp: object_or_empty_def)
  show ?thesis
  proof (cases "tool_annotations_from_json a")
    case (Inl e)
    have "tool_annotations_from_json empty_object \<noteq> Inl e"
      by (simp add: tool_annotations_from_json_def optional_member_def)
    then have "a \<noteq> empty_object" using Inl by blast
    with Inl Some a assms(3) show ?thesis
      by (simp add: annotations_ok_def annotations_member_def nonempty_json_def jempty_object)
  next
    case (Inr q)
    then show ?thesis
      using Some a assms(3) tool_annotations_lossless [OF Inr a(1)]
      by (simp add: annotations_ok_def annotations_member_def)
  qed
qed

lemma parsed_definition_ok:
  assumes "jwf j" "\<forall>a. jfind j ''annotations'' = Some a \<longrightarrow> is_object a \<longrightarrow> jwf a"
    "tool_definition_from_json j = Inr d"
  shows "definition_ok d"
proof -
  have f: "is_object (td_input_schema d) \<and>
        (case jfind j ''outputSchema'' of None \<Rightarrow> True | Some v \<Rightarrow> is_object v) \<and>
        td_output_schema d = object_or_empty (jfind j ''outputSchema'') \<and>
        td_output_schema_present d = (jfind j ''outputSchema'' \<noteq> None) \<and>
        (case td_meta d of None \<Rightarrow> True | Some v \<Rightarrow> is_object v) \<and>
        td_extensions d = collect_json_extensions j tool_known_keys \<and>
        td_annotations d = object_or_empty (jfind j ''annotations'') \<and>
        (case jfind j ''annotations'' of None \<Rightarrow> True | Some v \<Rightarrow> is_object v) \<and>
        td_tool_annotations d =
          (case jfind j ''annotations'' of None \<Rightarrow> None
           | Some a \<Rightarrow> (case tool_annotations_from_json a of Inl _ \<Rightarrow> None | Inr q \<Rightarrow> Some q))"
    using assms(3)
    by (simp add: tool_definition_from_json_def Let_def rbind_eq_Inr required_member_Inr optional_member_Inr
        split: if_splits) (elim exE conjE, hypsubst, simp)
  have ann: "annotations_ok d"
    by (rule parsed_annotations_ok [where ann = "jfind j ''annotations''"])
       (use f assms(2) in \<open>simp_all split: option.splits\<close>)
  with f assms(1) show ?thesis
    by (auto simp: definition_ok_def object_or_empty_def object_meta_ok_def split: option.splits)
qed

text \<open>A consistent tool definition is read back as it was written, and every definition the
  parser accepts from a well-formed document is consistent, so parsing, printing and parsing again
  changes nothing.\<close>

theorem tool_definition_wire:
  "(definition_ok d \<longrightarrow> tool_definition_from_json (tool_definition_to_json d) = Inr d) \<and>
   (jwf j \<and> (\<forall>a. jfind j ''annotations'' = Some a \<longrightarrow> is_object a \<longrightarrow> jwf a) \<and>
    tool_definition_from_json j = Inr p \<longrightarrow>
      definition_ok p \<and> tool_definition_from_json (tool_definition_to_json p) = Inr p)"
proof -
  have "definition_ok p"
    if "jwf j" "\<forall>a. jfind j ''annotations'' = Some a \<longrightarrow> is_object a \<longrightarrow> jwf a" "tool_definition_from_json j = Inr p"
    using that parsed_definition_ok by blast
  then show ?thesis using tool_definition_roundtrip by blast
qed

definition sample_tool :: tool_definition where
  "sample_tool = \<lparr>td_title = '''', td_name = ''echo'', td_description = ''d'', td_input_schema = empty_object,
     td_output_schema = empty_object, td_output_schema_present = True, td_streaming = False, td_icons = [],
     td_execution = Some \<lparr>tx_task_support = Some TaskOptional\<rparr>, td_tool_annotations = None,
     td_annotations = empty_object, td_meta = None, td_extensions = empty_object\<rparr>"

theorem tool_definition_wire_witness:
  "tool_definition_from_json (tool_definition_to_json sample_tool) = Inr sample_tool"
proof -
  have "definition_ok sample_tool"
    by (simp add: definition_ok_def sample_tool_def annotations_ok_def annotations_member_def
        nonempty_json_def object_meta_ok_def)
  then show ?thesis using tool_definition_wire [of sample_tool] by blast
qed

definition call_ok :: "tool_call \<Rightarrow> bool" where
  "call_ok c \<longleftrightarrow> is_object (tc_arguments c) \<and> object_meta_ok (tc_meta c) \<and> ext_ok tool_call_keys (tc_extensions c) \<and>
     (case tc_task c of None \<Rightarrow> True
      | Some p \<Rightarrow> meta_ok (trp_meta p) \<and> ext_ok [''ttl'', ''_meta''] (trp_extensions p))"

lemma task_member_found:
  "jfind j ''task'' = map_option task_request_parameters_to_json t \<Longrightarrow>
   (case t of None \<Rightarrow> True | Some p \<Rightarrow> meta_ok (trp_meta p) \<and> ext_ok [''ttl'', ''_meta''] (trp_extensions p)) \<Longrightarrow>
   task_member j = Inr t"
  by (auto simp: task_member_def task_request_parameters_from_json_def task_request_parameters_to_json_def
      trp.roundtrip split: option.splits)

lemma tool_call_roundtrip:
  assumes "call_ok c"
  shows "tool_call_from_json (tool_call_to_json c) = Returns (Inr c)"
proof -
  let ?j = "tool_call_to_json c"
  have ok: "is_object (tc_arguments c)" "object_meta_ok (tc_meta c)" "ext_ok tool_call_keys (tc_extensions c)"
    "case tc_task c of None \<Rightarrow> True
     | Some p \<Rightarrow> meta_ok (trp_meta p) \<and> ext_ok [''ttl'', ''_meta''] (trp_extensions p)"
    using assms by (auto simp: call_ok_def)
  have f: "is_object ?j" "jfind ?j ''name'' = Some (JString (tc_name c))"
    "jfind ?j ''arguments'' = nonempty_json (tc_arguments c)"
    "jfind ?j ''task'' = map_option task_request_parameters_to_json (tc_task c)"
    "jfind ?j ''_meta'' = tc_meta c" "jfind ?j ''requestState'' = map_option JString (tc_request_state c)"
    "jfind ?j ''inputResponses'' = tc_input_responses c"
    unfolding tool_call_to_json_def
    by (simp_all add: jfind_written [OF ok(3)] tool_call_keys_def split: option.split)
  have x: "collect_json_extensions ?j tool_call_keys = tc_extensions c"
    unfolding tool_call_to_json_def
    by (rule collect_append_extensions [OF _ ok(3)]) (simp_all add: tool_call_keys_def keys_sorted_Cons)
  show ?thesis
    using ok(1,2) task_member_found [OF f(4) ok(4)] f x
    by (cases "tc_request_state c") (simp_all add: tool_call_from_json_def)
qed

text \<open>Tools/call params are read back as they were written; and the parser throws, instead of
  returning an error, exactly when the other members are accepted and requestState is present but
  not a string.\<close>

theorem tool_call_wire:
  "(call_ok c \<longrightarrow> tool_call_from_json (tool_call_to_json c) = Returns (Inr c)) \<and>
   (tool_call_from_json j = Throws \<longleftrightarrow>
      is_object j \<and> (\<exists>s. jfind j ''name'' = Some (JString s)) \<and>
      absent_or is_object (jfind j ''arguments'') \<and> is_ok (task_member j) \<and>
      absent_or is_object (jfind j ''_meta'') \<and>
      (\<exists>v. jfind j ''requestState'' = Some v \<and> \<not> is_string v))"
proof -
  have s: "is_string v \<longleftrightarrow> get_string v \<noteq> None" for v by (cases v) auto
  have n: "(\<exists>s. jfind j ''name'' = Some (JString s)) \<longleftrightarrow> (\<exists>v. jfind j ''name'' = Some v \<and> is_string v)"
    by (auto simp: is_string_iff)
  have t: "tool_call_from_json j = Throws \<longleftrightarrow>
      is_object j \<and> (\<exists>s. jfind j ''name'' = Some (JString s)) \<and>
      absent_or is_object (jfind j ''arguments'') \<and> is_ok (task_member j) \<and>
      absent_or is_object (jfind j ''_meta'') \<and>
      (\<exists>v. jfind j ''requestState'' = Some v \<and> \<not> is_string v)"
    unfolding n s
    by (cases "task_member j")
       (auto simp: tool_call_from_json_def absent_or_def required_member_def optional_member_def s
          split: option.split sum.split)
  show ?thesis using tool_call_roundtrip t by blast
qed

theorem tool_call_wire_witness:
  "tool_call_from_json (JObject [(''name'', JString ''echo''), (''requestState'', JInt 5)]) = Throws"
  using tool_call_wire [of "\<lparr>tc_name = '''', tc_arguments = empty_object, tc_task = None, tc_meta = None,
      tc_request_state = None, tc_input_responses = None, tc_extensions = empty_object\<rparr>"
      "JObject [(''name'', JString ''echo''), (''requestState'', JInt 5)]"]
  by (simp add: absent_or_def task_member_def)

end
