(* ===== verification/Prompt_Protocol.thy ===== *)
theory Prompt_Protocol
  imports Tool_Protocol
begin

text \<open>
  src/sdk/protocol/include/cxxmcp/protocol/prompt.hpp: prompt descriptors with their arguments, the
  params of prompts/get and the rendered result.
\<close>

section \<open>Payloads\<close>

datatype prompt_message_role = RoleUser | RoleAssistant

fun prompt_message_role_to_string :: "prompt_message_role \<Rightarrow> string" where
  "prompt_message_role_to_string RoleUser = ''user''"
| "prompt_message_role_to_string RoleAssistant = ''assistant''"

definition prompt_message_role_from_string :: "string \<Rightarrow> prompt_message_role option" where
  "prompt_message_role_from_string s =
     (if s = ''user'' then Some RoleUser else if s = ''assistant'' then Some RoleAssistant else None)"

definition is_valid_prompt_message_role :: "string \<Rightarrow> bool" where
  "is_valid_prompt_message_role s \<longleftrightarrow> prompt_message_role_from_string s \<noteq> None"

record prompt_argument =
  pa_title :: string
  pa_name :: string
  pa_description :: string
  pa_required :: bool
  pa_required_present :: bool
  pa_annotations :: json
  pa_meta :: "json option"
  pa_extensions :: json

record prompt =
  pr_title :: string
  pr_name :: string
  pr_description :: string
  pr_arguments :: "prompt_argument list"
  pr_icons :: "icon list"
  pr_annotations :: json
  pr_meta :: "json option"
  pr_extensions :: json

record prompts_get_params =
  pgp_name :: string
  pgp_arguments :: json
  pgp_meta :: "json option"
  pgp_extensions :: json

record prompt_message =
  pm_role :: string
  pm_content :: content_block
  pm_meta :: "json option"
  pm_extensions :: json

record prompts_get_result =
  pgr_description :: string
  pgr_messages :: "prompt_message list"
  pgr_meta :: "json option"
  pgr_result_type :: "string option"
  pgr_input_requests :: "json option"
  pgr_request_state :: "string option"
  pgr_extensions :: json

definition prompt_json_error :: "string \<Rightarrow> core_error" where
  "prompt_json_error msg = mk_error (error_code InvalidRequest) msg '''' ''''"

section \<open>Arguments\<close>

definition argument_keys :: "string list" where
  "argument_keys = [''title'', ''name'', ''description'', ''required'', ''annotations'', ''_meta'']"

definition prompt_argument_to_json :: "prompt_argument \<Rightarrow> json" where
  "prompt_argument_to_json a =
     append_json_extensions
       (jset_opt (jset_opt (jset_opt (jset_opt (jset
          (jset_opt empty_object ''title'' (nonempty_string (pa_title a)))
          ''name'' (JString (pa_name a)))
          ''description'' (nonempty_string (pa_description a)))
          ''required'' (if pa_required_present a \<or> pa_required a then Some (JBool (pa_required a)) else None))
          ''annotations'' (nonempty_json (pa_annotations a)))
          ''_meta'' (pa_meta a))
       (pa_extensions a)"

definition prompt_argument_from_json :: "json \<Rightarrow> prompt_argument result" where
  "prompt_argument_from_json j =
     (let err = (\<lambda>msg. prompt_json_error (''prompt argument '' @ msg)) in
      if \<not> is_object j then Inl (err ''must be an object'')
      else
        rbind (optional_member is_string j ''title'' (err ''title must be a string'')) (\<lambda>title.
        rbind (required_member is_string j ''name'' (err ''requires a string name'')) (\<lambda>name.
        rbind (optional_member is_string j ''description'' (err ''description must be a string'')) (\<lambda>description.
        rbind (optional_member is_boolean j ''required'' (err ''required must be a boolean'')) (\<lambda>req.
        rbind (optional_member is_object j ''annotations'' (err ''annotations must be an object'')) (\<lambda>annotations.
        rbind (optional_member is_object j ''_meta'' (err ''_meta must be an object'')) (\<lambda>meta.
          Inr \<lparr>pa_title = string_or_empty title, pa_name = string_of name,
               pa_description = string_or_empty description,
               pa_required = (case req of None \<Rightarrow> False | Some b \<Rightarrow> bool_of b),
               pa_required_present = (req \<noteq> None), pa_annotations = object_or_empty annotations,
               pa_meta = meta, pa_extensions = collect_json_extensions j argument_keys\<rparr>)))))))"

section \<open>Descriptors\<close>

definition prompt_keys :: "string list" where
  "prompt_keys = [''title'', ''name'', ''description'', ''arguments'', ''icons'', ''annotations'', ''_meta'']"

definition prompt_to_json :: "prompt \<Rightarrow> json" where
  "prompt_to_json p =
     append_json_extensions
       (jset_opt (jset_opt (jset_opt (jset_opt (jset_opt (jset
          (jset_opt empty_object ''title'' (nonempty_string (pr_title p)))
          ''name'' (JString (pr_name p)))
          ''description'' (nonempty_string (pr_description p)))
          ''arguments'' (if pr_arguments p = [] then None
                         else Some (JArray (map prompt_argument_to_json (pr_arguments p)))))
          ''icons'' (nonempty_icons (pr_icons p)))
          ''annotations'' (nonempty_json (pr_annotations p)))
          ''_meta'' (pr_meta p))
       (pr_extensions p)"

definition arguments_member :: "json \<Rightarrow> prompt_argument list result" where
  "arguments_member j =
     (case jfind j ''arguments'' of
        None \<Rightarrow> Inr []
      | Some (JArray items) \<Rightarrow> map_result prompt_argument_from_json items
      | Some _ \<Rightarrow> Inl (prompt_json_error ''prompt arguments must be an array''))"

definition prompt_from_json :: "json \<Rightarrow> prompt result" where
  "prompt_from_json j =
     (let err = (\<lambda>msg. prompt_json_error (''prompt '' @ msg)) in
      if \<not> is_object j then Inl (err ''must be an object'')
      else
        rbind (optional_member is_string j ''title'' (err ''title must be a string'')) (\<lambda>title.
        rbind (required_member is_string j ''name'' (err ''requires a string name'')) (\<lambda>name.
        rbind (optional_member is_string j ''description'' (err ''description must be a string'')) (\<lambda>description.
        rbind (arguments_member j) (\<lambda>arguments.
        rbind (icons_from_json j (err ''icons must be an array'') (err ''icon is invalid'')) (\<lambda>icons.
        rbind (optional_member is_object j ''annotations'' (err ''annotations must be an object'')) (\<lambda>annotations.
        rbind (optional_member is_object j ''_meta'' (err ''_meta must be an object'')) (\<lambda>meta.
          Inr \<lparr>pr_title = string_or_empty title, pr_name = string_of name,
               pr_description = string_or_empty description, pr_arguments = arguments, pr_icons = icons,
               pr_annotations = object_or_empty annotations, pr_meta = meta,
               pr_extensions = collect_json_extensions j prompt_keys\<rparr>))))))))"

text \<open>\<open>PromptsListResult\<close> has the members of the resource list results.\<close>

definition prompts_list_result_to_json :: "prompt resources_result \<Rightarrow> json" where
  "prompts_list_result_to_json r = list_result_to_json ''prompts'' prompt_to_json r"

definition prompts_list_result_from_json :: "json \<Rightarrow> prompt resources_result result" where
  "prompts_list_result_from_json j =
     list_result_from_json ''prompts/list'' ''prompts'' prompt_from_json j"

section \<open>Params and rendered prompts\<close>

definition prompts_get_params_to_json :: "prompts_get_params \<Rightarrow> json" where
  "prompts_get_params_to_json p =
     append_json_extensions
       (jset_opt (jset_opt (jset empty_object ''name'' (JString (pgp_name p)))
          ''arguments'' (nonempty_json (pgp_arguments p)))
          ''_meta'' (pgp_meta p))
       (pgp_extensions p)"

definition prompts_get_params_from_json :: "json \<Rightarrow> prompts_get_params result" where
  "prompts_get_params_from_json j =
     (let err = (\<lambda>msg. prompt_json_error (''prompts/get '' @ msg)) in
      if \<not> is_object j then Inl (err ''params must be an object'')
      else
        rbind (required_member is_string j ''name'' (err ''params require a string name'')) (\<lambda>name.
        rbind (optional_member is_object j ''arguments'' (err ''arguments must be an object'')) (\<lambda>arguments.
        rbind (optional_member is_object j ''_meta'' (err ''_meta must be an object'')) (\<lambda>meta.
          Inr \<lparr>pgp_name = string_of name, pgp_arguments = object_or_empty arguments, pgp_meta = meta,
               pgp_extensions = collect_json_extensions j [''name'', ''arguments'', ''_meta'']\<rparr>))))"

definition prompt_message_to_json :: "prompt_message \<Rightarrow> json" where
  "prompt_message_to_json m =
     append_json_extensions
       (jset_opt (jset (jset empty_object ''role'' (JString (pm_role m)))
          ''content'' (content_block_to_json (pm_content m)))
          ''_meta'' (pm_meta m))
       (pm_extensions m)"

definition prompts_get_result_to_json :: "prompts_get_result \<Rightarrow> json" where
  "prompts_get_result_to_json r =
     append_json_extensions
       (jset_opt (jset_opt (jset_opt (jset_opt (jset_opt (jset_opt empty_object
          ''resultType'' (map_option JString (pgr_result_type r)))
          ''description'' (nonempty_string (pgr_description r)))
          ''messages'' (if pgr_messages r = [] then None
                        else Some (JArray (map prompt_message_to_json (pgr_messages r)))))
          ''_meta'' (pgr_meta r))
          ''inputRequests'' (pgr_input_requests r))
          ''requestState'' (map_option JString (pgr_request_state r)))
       (pgr_extensions r)"

section \<open>Round trips\<close>

definition argument_ok :: "prompt_argument \<Rightarrow> bool" where
  "argument_ok a \<longleftrightarrow> is_object (pa_annotations a) \<and> object_meta_ok (pa_meta a) \<and>
     (pa_required a \<longrightarrow> pa_required_present a) \<and> ext_ok argument_keys (pa_extensions a)"

definition prompt_ok :: "prompt \<Rightarrow> bool" where
  "prompt_ok p \<longleftrightarrow> (\<forall>a\<in>set (pr_arguments p). argument_ok a) \<and> is_object (pr_annotations p) \<and>
     object_meta_ok (pr_meta p) \<and> ext_ok prompt_keys (pr_extensions p)"

definition prompt_params_ok :: "prompts_get_params \<Rightarrow> bool" where
  "prompt_params_ok p \<longleftrightarrow> is_object (pgp_arguments p) \<and> object_meta_ok (pgp_meta p) \<and>
     ext_ok [''name'', ''arguments'', ''_meta''] (pgp_extensions p)"

lemma prompt_argument_roundtrip:
  assumes "argument_ok a"
  shows "prompt_argument_from_json (prompt_argument_to_json a) = Inr a"
proof -
  let ?j = "prompt_argument_to_json a"
  have ok: "is_object (pa_annotations a)" "object_meta_ok (pa_meta a)"
    "pa_required a \<Longrightarrow> pa_required_present a" "ext_ok argument_keys (pa_extensions a)"
    using assms by (auto simp: argument_ok_def)
  have f: "is_object ?j" "jfind ?j ''title'' = nonempty_string (pa_title a)" "jfind ?j ''name'' = Some (JString (pa_name a))"
    "jfind ?j ''description'' = nonempty_string (pa_description a)"
    "jfind ?j ''required'' = (if pa_required_present a \<or> pa_required a then Some (JBool (pa_required a)) else None)"
    "jfind ?j ''annotations'' = nonempty_json (pa_annotations a)" "jfind ?j ''_meta'' = pa_meta a"
    unfolding prompt_argument_to_json_def
    by (simp_all add: jfind_written [OF ok(4)] argument_keys_def split: option.split)
  have x: "collect_json_extensions ?j argument_keys = pa_extensions a"
    unfolding prompt_argument_to_json_def
    by (rule collect_append_extensions [OF _ ok(4)]) (simp_all add: argument_keys_def)
  have r: "optional_member is_boolean ?j ''required'' e =
      Inr (if pa_required_present a \<or> pa_required a then Some (JBool (pa_required a)) else None)" for e
    using f(5) by (simp add: optional_member_def)
  show ?thesis using ok f x r by (simp add: prompt_argument_from_json_def)
qed

lemma prompt_roundtrip:
  assumes "prompt_ok p"
  shows "prompt_from_json (prompt_to_json p) = Inr p"
proof -
  let ?j = "prompt_to_json p"
  have ok: "\<forall>a\<in>set (pr_arguments p). argument_ok a" "is_object (pr_annotations p)" "object_meta_ok (pr_meta p)"
    "ext_ok prompt_keys (pr_extensions p)"
    using assms by (auto simp: prompt_ok_def)
  have f: "is_object ?j" "jfind ?j ''title'' = nonempty_string (pr_title p)" "jfind ?j ''name'' = Some (JString (pr_name p))"
    "jfind ?j ''description'' = nonempty_string (pr_description p)"
    "jfind ?j ''arguments'' = (if pr_arguments p = [] then None
                               else Some (JArray (map prompt_argument_to_json (pr_arguments p))))"
    "jfind ?j ''icons'' = nonempty_icons (pr_icons p)"
    "jfind ?j ''annotations'' = nonempty_json (pr_annotations p)" "jfind ?j ''_meta'' = pr_meta p"
    unfolding prompt_to_json_def
    by (simp_all add: jfind_written [OF ok(4)] prompt_keys_def split: option.split)
  have x: "collect_json_extensions ?j prompt_keys = pr_extensions p"
    unfolding prompt_to_json_def
    by (rule collect_append_extensions [OF _ ok(4)]) (simp_all add: prompt_keys_def)
  have a: "arguments_member ?j = Inr (pr_arguments p)"
    using f(5) ok(1) prompt_argument_roundtrip by (simp add: arguments_member_def)
  show ?thesis using ok f x a by (simp add: prompt_from_json_def)
qed

lemma prompt_params_roundtrip:
  assumes "prompt_params_ok p"
  shows "prompts_get_params_from_json (prompts_get_params_to_json p) = Inr p"
proof -
  let ?j = "prompts_get_params_to_json p"
  have ok: "is_object (pgp_arguments p)" "object_meta_ok (pgp_meta p)"
    "ext_ok [''name'', ''arguments'', ''_meta''] (pgp_extensions p)"
    using assms by (auto simp: prompt_params_ok_def)
  have f: "is_object ?j" "jfind ?j ''name'' = Some (JString (pgp_name p))"
    "jfind ?j ''arguments'' = nonempty_json (pgp_arguments p)" "jfind ?j ''_meta'' = pgp_meta p"
    unfolding prompts_get_params_to_json_def
    by (simp_all add: jfind_written [OF ok(3)] split: option.split)
  have x: "collect_json_extensions ?j [''name'', ''arguments'', ''_meta''] = pgp_extensions p"
    unfolding prompts_get_params_to_json_def
    by (rule collect_append_extensions [OF _ ok(3)]) (simp_all add: keys_sorted_Cons)
  show ?thesis using ok f x by (simp add: prompts_get_params_from_json_def)
qed

text \<open>prompt descriptors and prompts/get params are read back as they were written, and a
  prompts/list result is, up to the cache hints, which come back as unknown members.\<close>

theorem prompt_roundtrips:
  "(prompt_ok p \<longrightarrow> prompt_from_json (prompt_to_json p) = Inr p) \<and>
   (prompt_params_ok g \<longrightarrow> prompts_get_params_from_json (prompts_get_params_to_json g) = Inr g) \<and>
   ((\<forall>x\<in>set (rr_items r). prompt_ok x) \<and> result_ok [''prompts'', ''nextCursor'', ''_meta''] r \<longrightarrow>
      prompts_list_result_from_json (prompts_list_result_to_json r) = Inr (hints_as_extensions r))"
  using prompt_roundtrip prompt_params_roundtrip
    list_result_read [of "''prompts''" r prompt_from_json prompt_to_json "''prompts/list''"]
  by (simp add: prompts_list_result_from_json_def prompts_list_result_to_json_def)

theorem prompt_roundtrips_witness:
  "prompts_get_params_from_json (prompts_get_params_to_json
     \<lparr>pgp_name = ''p'', pgp_arguments = JObject [(''a'', JString ''1'')], pgp_meta = None,
      pgp_extensions = empty_object\<rparr>) =
   Inr \<lparr>pgp_name = ''p'', pgp_arguments = JObject [(''a'', JString ''1'')], pgp_meta = None,
        pgp_extensions = empty_object\<rparr>"
  using prompt_roundtrips [of _ "\<lparr>pgp_name = ''p'', pgp_arguments = JObject [(''a'', JString ''1'')],
     pgp_meta = None, pgp_extensions = empty_object\<rparr>"]
  by (simp add: prompt_params_ok_def object_meta_ok_def)

end
