(* ===== verification/Registry.thy ===== *)
theory Registry
  imports Prompt_Protocol "HOL-Library.Multiset"
begin

text \<open>
  src/sdk/server/src/registry.cpp: the registries of tools, prompts, resources and resource
  templates. The four share their representation (a hash map from the key to an entry and a sorted
  cache that is rebuilt when dirty), which is modelled once; the hash map is an association list
  whose order stands for its unspecified iteration order. A handler is a function of its context that may throw.
  The schema validator, a user-supplied object, is a parameter (\<open>None\<close> for a null pointer).
\<close>

section \<open>Contexts\<close>

text \<open>
  transport.hpp and context.hpp. A transport, its lifetime token and a cancellation token are
  identities; \<open>None\<close> is a null pointer or a detached token.
\<close>

record auth_identity =
  ai_subject :: string
  ai_claims :: "string alist"

record session_context =
  sc_session_id :: string
  sc_remote_address :: string
  sc_headers :: "string alist"
  sc_http_method :: "string option"
  sc_http_url :: "string option"
  sc_auth_identity :: "auth_identity option"
  sc_transport :: "nat option"
  sc_transport_lifetime :: "nat option"

type_synonym cancellation_token = "nat option"

record tool_context = session_context +
  tcx_arguments :: json
  tcx_meta :: "json option"
  tcx_task :: "task_request_parameters option"
  tcx_cancellation :: cancellation_token

record prompt_context = session_context +
  pcx_arguments :: json
  pcx_cancellation :: cancellation_token

record resource_context = session_context +
  rcx_uri :: string
  rcx_params :: json
  rcx_cancellation :: cancellation_token

definition empty_session :: session_context where
  "empty_session = \<lparr>sc_session_id = '''', sc_remote_address = '''', sc_headers = [], sc_http_method = None,
     sc_http_url = None, sc_auth_identity = None, sc_transport = None, sc_transport_lifetime = None\<rparr>"

text \<open>
  A call of application code (a handler, a schema validator, an auth provider, a rate limiter) gives a
  value or throws: a \<open>std::exception\<close> with its message, or something else.
\<close>

datatype 'a attempt = Gives 'a | Throwing string | ThrowingUnknown

text \<open>\<open>if (!r) return unexpected(r.error());\<close> after a call that may throw.\<close>

definition att_bind :: "'a result attempt \<Rightarrow> ('a \<Rightarrow> 'b result attempt) \<Rightarrow> 'b result attempt" where
  "att_bind r f =
     (case r of
        Gives (Inl e) \<Rightarrow> Gives (Inl e)
      | Gives (Inr v) \<Rightarrow> f v
      | Throwing what \<Rightarrow> Throwing what
      | ThrowingUnknown \<Rightarrow> ThrowingUnknown)"

lemma att_bind_simps [simp, result_simps]:
  "att_bind (Gives (Inl e)) f = Gives (Inl e)"
  "att_bind (Gives (Inr v)) f = f v"
  "att_bind (Throwing w) f = Throwing w"
  "att_bind ThrowingUnknown f = ThrowingUnknown"
  by (simp_all add: att_bind_def)

lemma att_bind_eq_Inr: "att_bind r f = Gives (Inr b) \<longleftrightarrow> (\<exists>a. r = Gives (Inr a) \<and> f a = Gives (Inr b))"
  by (cases r rule: attempt.exhaust; simp add: att_bind_def split: sum.split)

type_synonym tool_handler = "tool_context \<Rightarrow> tool_result result attempt"
type_synonym prompt_handler = "prompt_context \<Rightarrow> prompts_get_result result attempt"
type_synonym resource_read_handler = "resource_context \<Rightarrow> resource_contents resources_result result attempt"

section \<open>Names\<close>

definition kMaxRegistryNameBytes :: nat where "kMaxRegistryNameBytes = 1024"
definition kMaxToolNameBytes :: nat where "kMaxToolNameBytes = 128"
definition kMaxRegistryUriBytes :: nat where "kMaxRegistryUriBytes = 4096"

definition contains_control_character :: "string \<Rightarrow> bool" where
  "contains_control_character v = list_ex (\<lambda>c. of_char c < (32::nat) \<or> of_char c = (127::nat)) v"

definition is_tool_name_char :: "char \<Rightarrow> bool" where
  "is_tool_name_char c \<longleftrightarrow>
     (CHR ''A'' \<le> c \<and> c \<le> CHR ''Z'') \<or> (CHR ''a'' \<le> c \<and> c \<le> CHR ''z'') \<or>
     (CHR ''0'' \<le> c \<and> c \<le> CHR ''9'') \<or> c = CHR ''.'' \<or> c = CHR ''_'' \<or> c = CHR ''-''"

definition registry_name_error :: "string \<Rightarrow> string \<Rightarrow> core_error" where
  "registry_name_error message detail = mk_error (error_code InvalidRequest) message detail ''''"

definition validate_registry_text :: "string \<Rightarrow> string \<Rightarrow> nat \<Rightarrow> unit result" where
  "validate_registry_text v fld max_bytes =
     (if v = '''' then Inl (registry_name_error (fld @ '' must not be empty'') fld)
      else if length v > max_bytes then
        Inl (registry_name_error (fld @ '' must not exceed '' @ nat_to_string max_bytes @ '' bytes'') fld)
      else if contains_control_character v then
        Inl (registry_name_error (fld @ '' must not contain control characters'') fld)
      else Inr ())"

definition validate_registry_name :: "string \<Rightarrow> string \<Rightarrow> unit result" where
  "validate_registry_name v fld = validate_registry_text v fld kMaxRegistryNameBytes"

definition validate_registry_uri :: "string \<Rightarrow> string \<Rightarrow> unit result" where
  "validate_registry_uri v fld = validate_registry_text v fld kMaxRegistryUriBytes"

definition validate_tool_name :: "string \<Rightarrow> unit result" where
  "validate_tool_name v =
     (if v = '''' then Inl (registry_name_error ''tool name must not be empty'' ''tool name'')
      else if length v > kMaxToolNameBytes then
        Inl (registry_name_error
          (''tool name must not exceed '' @ nat_to_string kMaxToolNameBytes @ '' bytes'') ''tool name'')
      else case find (\<lambda>c. \<not> is_tool_name_char c) v of
        Some c \<Rightarrow>
          Inl (registry_name_error
            (''tool name contains invalid character '' @ [CHR 0x27, c, CHR 0x27] @
             ''; allowed: [A-Za-z0-9._-]'') ''tool name'')
      | None \<Rightarrow> Inr ())"

definition tool_name_advisory_warnings :: "string \<Rightarrow> string list" where
  "tool_name_advisory_warnings v =
     (if v \<noteq> '''' \<and> (hd v = CHR ''-'' \<or> hd v = CHR ''.'')
      then [''tool name starts with '' @ [CHR 0x27, hd v, CHR 0x27] @ ''; this is discouraged''] else []) @
     (if v \<noteq> '''' \<and> (last v = CHR ''-'' \<or> last v = CHR ''.'')
      then [''tool name ends with '' @ [CHR 0x27, last v, CHR 0x27] @ ''; this is discouraged''] else [])"

section \<open>The shared representation\<close>

record ('d, 'h) registry =
  reg_entries :: "(string \<times> 'd \<times> 'h) list"
  reg_cache :: "'d list"
  reg_dirty :: bool

definition new_registry :: "('d, 'h) registry" where
  "new_registry = \<lparr>reg_entries = [], reg_cache = [], reg_dirty = True\<rparr>"

definition reg_find :: "string \<Rightarrow> ('d, 'h) registry \<Rightarrow> ('d \<times> 'h) option" where
  "reg_find key r = map_of (reg_entries r) key"

text \<open>\<open>emplace\<close> with the early return on a duplicate, then the cache is marked dirty.\<close>

definition reg_emplace :: "string \<Rightarrow> 'd \<Rightarrow> 'h \<Rightarrow> core_error \<Rightarrow> ('d, 'h) registry \<Rightarrow> unit result \<times> ('d, 'h) registry" where
  "reg_emplace key d h duplicate r =
     (if reg_find key r \<noteq> None then (Inl duplicate, r)
      else (Inr (), r\<lparr>reg_entries := reg_entries r @ [(key, d, h)], reg_dirty := True\<rparr>))"

definition reg_list :: "('d \<Rightarrow> string) \<Rightarrow> ('d, 'h) registry \<Rightarrow> 'd list \<times> ('d, 'h) registry" where
  "reg_list key_of r =
     (let r' = (if reg_dirty r
                then r\<lparr>reg_cache := sort_key key_of (map (\<lambda>(k, d, h). d) (reg_entries r)), reg_dirty := False\<rparr>
                else r)
      in (reg_cache r', r'))"

definition reg_copy :: "('d, 'h) registry \<Rightarrow> ('d, 'h) registry" where
  "reg_copy other = \<lparr>reg_entries = reg_entries other, reg_cache = reg_cache other, reg_dirty = reg_dirty other\<rparr>"

text \<open>
  Move construction and move assignment: the source keeps what the moves leave in its containers
  (the parameters, unspecified by the library) and is marked dirty.
\<close>

definition reg_move ::
  "(string \<times> 'd \<times> 'h) list \<Rightarrow> 'd list \<Rightarrow> ('d, 'h) registry \<Rightarrow> ('d, 'h) registry \<times> ('d, 'h) registry" where
  "reg_move left_entries left_cache other =
     (\<lparr>reg_entries = reg_entries other, reg_cache = reg_cache other, reg_dirty = reg_dirty other\<rparr>,
      \<lparr>reg_entries = left_entries, reg_cache = left_cache, reg_dirty = True\<rparr>)"

definition reg_inv :: "('d \<Rightarrow> string) \<Rightarrow> ('d, 'h) registry \<Rightarrow> bool" where
  "reg_inv key_of r \<longleftrightarrow>
     distinct (map fst (reg_entries r)) \<and> (\<forall>(k, d, h)\<in>set (reg_entries r). key_of d = k) \<and>
     (\<not> reg_dirty r \<longrightarrow> reg_cache r = sort_key key_of (map (\<lambda>(k, d, h). d) (reg_entries r)))"

section \<open>Contract\<close>

text \<open>
  What a client of a registry relies on: lookup after a successful insertion, refusal of
  duplicates, and a listing that is sorted, holds every definition once and changes no lookup.
\<close>

locale registry_contract =
  fixes find_key :: "string \<Rightarrow> 'r \<Rightarrow> ('d \<times> 'h) option"
    and add_key :: "string \<Rightarrow> 'd \<Rightarrow> 'h \<Rightarrow> core_error \<Rightarrow> 'r \<Rightarrow> unit result \<times> 'r"
    and listing :: "'r \<Rightarrow> 'd list \<times> 'r"
    and key_of :: "'d \<Rightarrow> string"
    and inv :: "'r \<Rightarrow> bool"
  assumes insert_inv: "inv r \<Longrightarrow> key_of d = k \<Longrightarrow> inv (snd (add_key k d h e r))"
    and insert_result: "inv r \<Longrightarrow> fst (add_key k d h e r) = (if find_key k r = None then Inr () else Inl e)"
    and find_insert: "inv r \<Longrightarrow> find_key k' (snd (add_key k d h e r)) =
          (if k' = k \<and> find_key k r = None then Some (d, h) else find_key k' r)"
    and listing_inv: "inv r \<Longrightarrow> inv (snd (listing r))"
    and find_listing: "inv r \<Longrightarrow> find_key k (snd (listing r)) = find_key k r"
    and listing_sorted: "inv r \<Longrightarrow> sorted (map key_of (fst (listing r)))"
    and listing_distinct: "inv r \<Longrightarrow> distinct (map key_of (fst (listing r)))"
    and listing_members: "inv r \<Longrightarrow> d \<in> set (fst (listing r)) \<longleftrightarrow> (\<exists>h. find_key (key_of d) r = Some (d, h))"
begin

text \<open>The listing depends on the registered definitions only: it is the sorted list of the map.\<close>

lemma listing_defs: "inv r \<Longrightarrow> d \<in> set (fst (listing r)) \<longleftrightarrow> map_option fst (find_key (key_of d) r) = Some d"
  by (auto simp: listing_members)

lemma listing_determined:
  assumes "inv r" "inv s" "\<And>k. map_option fst (find_key k r) = map_option fst (find_key k s)"
  shows "fst (listing r) = fst (listing s)"
proof (rule map_sorted_distinct_set_unique [where f = key_of])
  show eq: "set (fst (listing r)) = set (fst (listing s))"
    by (rule set_eqI) (simp add: listing_defs assms)
  show "inj_on key_of (set (fst (listing r)) \<union> set (fst (listing s)))"
    using listing_distinct [OF assms(2)] by (simp add: distinct_map eq)
qed (use assms listing_sorted listing_distinct in auto)

lemma listing_stable: "inv r \<Longrightarrow> fst (listing (snd (listing r))) = fst (listing r)"
  by (rule listing_determined) (auto simp: listing_inv find_listing)

lemma insert_refused_unchanged:
  assumes "inv r" "find_key k r \<noteq> None" "key_of d = k"
  shows "fst (listing (snd (add_key k d h e r))) = fst (listing r)"
  using assms by (intro listing_determined) (auto simp: insert_inv find_insert)

lemma listing_after_insert:
  assumes "inv r" "find_key k r = None" "key_of d = k"
  shows "set (fst (listing (snd (add_key k d h e r)))) = insert d (set (fst (listing r)))"
proof (rule set_eqI)
  fix x
  have "x = d" if "key_of x = k" "x \<in> set (fst (listing r))" using that assms by (simp add: listing_defs)
  then show "x \<in> set (fst (listing (snd (add_key k d h e r)))) \<longleftrightarrow> x \<in> insert d (set (fst (listing r)))"
    using assms by (auto simp: listing_defs insert_inv find_insert)
qed

end

lemma reg_keys: "reg_inv key_of r \<Longrightarrow> map key_of (map (\<lambda>(k, d, h). d) (reg_entries r)) = map fst (reg_entries r)"
  by (auto simp: reg_inv_def)

lemma reg_list_fst:
  "reg_inv key_of r \<Longrightarrow> fst (reg_list key_of r) = sort_key key_of (map (\<lambda>(k, d, h). d) (reg_entries r))"
  by (simp add: reg_list_def reg_inv_def Let_def)

lemma reg_list_snd:
  "reg_entries (snd (reg_list key_of r)) = reg_entries r"
  by (simp add: reg_list_def Let_def)

lemma reg_contract: "registry_contract reg_find reg_emplace (reg_list key_of) key_of (reg_inv key_of)"
proof (unfold_locales, goal_cases)
  case (1 r d k h e)
  then show ?case by (auto simp: reg_inv_def reg_emplace_def reg_find_def map_of_eq_None_iff)
next
  case (3 r k' k d h e)
  then show ?case by (auto simp: reg_emplace_def reg_find_def map_add_def split: option.splits)
next
  case (4 r)
  then show ?case by (auto simp: reg_list_def reg_inv_def Let_def)
next
  case (7 r)
  have "mset (map key_of (fst (reg_list key_of r))) = mset (map fst (reg_entries r))"
    unfolding reg_list_fst [OF 7] reg_keys [OF 7, symmetric] mset_map by simp
  from mset_eq_imp_distinct_iff [OF this] show ?case using 7 by (simp add: reg_inv_def)
next
  case (8 r d)
  then have "d \<in> set (fst (reg_list key_of r)) \<longleftrightarrow> (\<exists>h. (key_of d, d, h) \<in> set (reg_entries r))"
    by (force simp: reg_list_fst reg_inv_def)
  then show ?case using 8 by (simp add: reg_find_def reg_inv_def)
qed (auto simp: reg_emplace_def reg_find_def reg_list_snd reg_list_fst)

interpretation tools: registry_contract reg_find reg_emplace "reg_list td_name" td_name "reg_inv td_name"
  by (rule reg_contract)

interpretation prompts: registry_contract reg_find reg_emplace "reg_list pr_name" pr_name "reg_inv pr_name"
  by (rule reg_contract)

text \<open>Resources and resource templates are both keyed by \<open>res_uri\<close>.\<close>

interpretation resources: registry_contract reg_find reg_emplace "reg_list res_uri" res_uri "reg_inv res_uri"
  by (rule reg_contract)

section \<open>Tools\<close>

type_synonym tool_registry = "(tool_definition, tool_handler) registry"

definition invalid_request_error :: "string \<Rightarrow> string \<Rightarrow> core_error" where
  "invalid_request_error message detail = mk_error (error_code InvalidRequest) message detail ''''"

definition tool_add :: "tool_definition \<Rightarrow> tool_handler option \<Rightarrow> tool_registry \<Rightarrow> unit result \<times> tool_registry" where
  "tool_add d handler r =
     (case validate_tool_name (td_name d) of
        Inl e \<Rightarrow> (Inl e, r)
      | Inr _ \<Rightarrow>
          (case handler of
             None \<Rightarrow> (Inl (invalid_request_error ''tool handler must be callable'' ''''), r)
           | Some h \<Rightarrow> reg_emplace (td_name d) d h (invalid_request_error ''tool already exists'' '''') r))"

definition tool_not_found :: "string \<Rightarrow> core_error" where
  "tool_not_found name = mk_error (error_code ToolNotFound) ''tool not found'' name ''''"

definition tool_get :: "string \<Rightarrow> tool_registry \<Rightarrow> tool_definition result" where
  "tool_get name r = (case reg_find name r of None \<Rightarrow> Inl (tool_not_found name) | Some (d, h) \<Rightarrow> Inr d)"

definition tool_list :: "tool_registry \<Rightarrow> tool_definition list \<times> tool_registry" where
  "tool_list r = reg_list td_name r"

definition validate_tool_task_support :: "tool_definition \<Rightarrow> tool_call \<Rightarrow> unit result" where
  "validate_tool_task_support d call =
     (case tool_task_support d of
        TaskForbidden \<Rightarrow>
          if tc_task call \<noteq> None
          then Inl (invalid_request_error ''tool does not support task-based invocation'' (td_name d))
          else Inr ()
      | TaskRequired \<Rightarrow>
          if tc_task call = None
          then Inl (invalid_request_error ''tool requires task-based invocation'' (td_name d))
          else Inr ()
      | TaskOptional \<Rightarrow> Inr ())"

definition tool_validate :: "tool_call \<Rightarrow> tool_registry \<Rightarrow> unit result" where
  "tool_validate call r =
     (case reg_find (tc_name call) r of
        None \<Rightarrow> Inl (tool_not_found (tc_name call))
      | Some (d, h) \<Rightarrow> validate_tool_task_support d call)"

datatype schema_validation_target = ToolInput | ToolOutput | Elicitation

type_synonym schema_validator = "json \<Rightarrow> json \<Rightarrow> schema_validation_target \<times> string \<Rightarrow> unit result attempt"

definition schema_validation_error :: "ErrorCode \<Rightarrow> string \<Rightarrow> string \<Rightarrow> core_error \<Rightarrow> core_error" where
  "schema_validation_error code message tool_name cause =
     mk_error (error_code code)
       (if err_message cause \<noteq> '''' then message @ '': '' @ err_message cause else message)
       (if err_detail cause \<noteq> '''' then tool_name @ '': '' @ err_detail cause else tool_name)
       ''schema''"

text \<open>A call of the validator, with its error wrapped.\<close>

definition run_validator :: "unit result attempt \<Rightarrow> (core_error \<Rightarrow> core_error) \<Rightarrow> unit result attempt" where
  "run_validator verdict wrap =
     (case verdict of
        Gives (Inl e) \<Rightarrow> Gives (Inl (wrap e))
      | other \<Rightarrow> other)"

definition validate_tool_input_schema :: "schema_validator option \<Rightarrow> tool_definition \<Rightarrow> json \<Rightarrow> unit result attempt" where
  "validate_tool_input_schema validator d arguments =
     (case validator of
        None \<Rightarrow> Gives (Inr ())
      | Some v \<Rightarrow>
          if jempty (td_input_schema d) then Gives (Inr ())
          else run_validator (v (td_input_schema d) arguments (ToolInput, td_name d))
                 (schema_validation_error InvalidParams ''tool input failed schema validation'' (td_name d)))"

definition validate_tool_output_schema :: "schema_validator option \<Rightarrow> tool_definition \<Rightarrow> tool_result \<Rightarrow> unit result attempt" where
  "validate_tool_output_schema validator d res =
     (case validator of
        None \<Rightarrow> Gives (Inr ())
      | Some v \<Rightarrow>
          if \<not> (td_output_schema_present d \<or> \<not> jempty (td_output_schema d)) then Gives (Inr ())
          else case tr_structured_content res of
                 None \<Rightarrow> Gives (Inl (mk_error (error_code InternalError)
                   ''tool output failed schema validation: missing structuredContent'' (td_name d) ''schema''))
               | Some c \<Rightarrow>
                   run_validator (v (td_output_schema d) c (ToolOutput, td_name d))
                     (schema_validation_error InternalError ''tool output failed schema validation'' (td_name d)))"

text \<open>The context of a call: six members of the session context are copied, not the HTTP ones.\<close>

definition make_tool_context :: "session_context \<Rightarrow> tool_call \<Rightarrow> cancellation_token \<Rightarrow> tool_context" where
  "make_tool_context sc call cancellation =
     \<lparr>sc_session_id = sc_session_id sc, sc_remote_address = sc_remote_address sc, sc_headers = sc_headers sc,
      sc_http_method = None, sc_http_url = None, sc_auth_identity = sc_auth_identity sc,
      sc_transport = sc_transport sc, sc_transport_lifetime = sc_transport_lifetime sc,
      tcx_arguments = tc_arguments call, tcx_meta = tc_meta call, tcx_task = tc_task call,
      tcx_cancellation = cancellation\<rparr>"

definition tool_call_full ::
  "schema_validator option \<Rightarrow> tool_call \<Rightarrow> session_context \<Rightarrow> cancellation_token \<Rightarrow> tool_registry \<Rightarrow> tool_result result attempt" where
  "tool_call_full validator call sc cancellation r =
     (case reg_find (tc_name call) r of
        None \<Rightarrow> Gives (Inl (tool_not_found (tc_name call)))
      | Some (d, handler) \<Rightarrow>
          att_bind (Gives (validate_tool_task_support d call)) (\<lambda>_.
          att_bind (validate_tool_input_schema validator d (tc_arguments call)) (\<lambda>_.
          att_bind (handler (make_tool_context sc call cancellation)) (\<lambda>res.
          att_bind (validate_tool_output_schema validator d res) (\<lambda>_.
            Gives (Inr res))))))"

definition plain_call :: "string \<Rightarrow> json \<Rightarrow> tool_call" where
  "plain_call name arguments = \<lparr>tc_name = name, tc_arguments = arguments, tc_task = None, tc_meta = None,
     tc_request_state = None, tc_input_responses = None, tc_extensions = empty_object\<rparr>"

text \<open>The overloads of \<open>ToolRegistry::call\<close> with fewer arguments.\<close>

definition tool_call_by_name :: "string \<Rightarrow> json \<Rightarrow> session_context \<Rightarrow> tool_registry \<Rightarrow> tool_result result attempt" where
  "tool_call_by_name name arguments sc r = tool_call_full None (plain_call name arguments) sc None r"

definition tool_call_session :: "string \<Rightarrow> json \<Rightarrow> string \<Rightarrow> tool_registry \<Rightarrow> tool_result result attempt" where
  "tool_call_session name arguments session_id r =
     tool_call_by_name name arguments (empty_session\<lparr>sc_session_id := session_id\<rparr>) r"

section \<open>Prompts\<close>

type_synonym prompt_registry = "(prompt, prompt_handler) registry"

definition prompt_add :: "prompt \<Rightarrow> prompt_handler option \<Rightarrow> prompt_registry \<Rightarrow> unit result \<times> prompt_registry" where
  "prompt_add p handler r =
     (case validate_registry_name (pr_name p) ''prompt name'' of
        Inl e \<Rightarrow> (Inl e, r)
      | Inr _ \<Rightarrow>
          (case handler of
             None \<Rightarrow> (Inl (invalid_request_error ''prompt handler must be callable'' ''''), r)
           | Some h \<Rightarrow> reg_emplace (pr_name p) p h (invalid_request_error ''prompt already exists'' '''') r))"

definition make_prompt_context :: "session_context \<Rightarrow> json \<Rightarrow> cancellation_token \<Rightarrow> prompt_context" where
  "make_prompt_context sc arguments cancellation =
     \<lparr>sc_session_id = sc_session_id sc, sc_remote_address = sc_remote_address sc, sc_headers = sc_headers sc,
      sc_http_method = None, sc_http_url = None, sc_auth_identity = sc_auth_identity sc,
      sc_transport = sc_transport sc, sc_transport_lifetime = sc_transport_lifetime sc,
      pcx_arguments = arguments, pcx_cancellation = cancellation\<rparr>"

definition prompt_get ::
  "string \<Rightarrow> json \<Rightarrow> session_context \<Rightarrow> cancellation_token \<Rightarrow> prompt_registry \<Rightarrow> prompts_get_result result attempt" where
  "prompt_get name arguments sc cancellation r =
     (case reg_find name r of
        None \<Rightarrow> Gives (Inl (invalid_request_error ''prompt not found'' name))
      | Some (p, handler) \<Rightarrow> handler (make_prompt_context sc arguments cancellation))"

definition prompt_list :: "prompt_registry \<Rightarrow> prompt list \<times> prompt_registry" where
  "prompt_list r = reg_list pr_name r"

section \<open>Resources and templates\<close>

type_synonym resource_registry = "(resource, resource_read_handler) registry"
type_synonym resource_template_registry = "(resource_template, unit) registry"

definition resource_add :: "resource \<Rightarrow> resource_read_handler option \<Rightarrow> resource_registry \<Rightarrow> unit result \<times> resource_registry" where
  "resource_add d handler r =
     (case validate_registry_uri (res_uri d) ''resource uri'' of
        Inl e \<Rightarrow> (Inl e, r)
      | Inr _ \<Rightarrow>
          (case validate_registry_name (res_name d) ''resource name'' of
             Inl e \<Rightarrow> (Inl e, r)
           | Inr _ \<Rightarrow>
               (case handler of
                  None \<Rightarrow> (Inl (invalid_request_error ''resource handler must be callable'' ''''), r)
                | Some h \<Rightarrow> reg_emplace (res_uri d) d h (invalid_request_error ''resource already exists'' '''') r)))"

definition make_resource_context :: "session_context \<Rightarrow> string \<Rightarrow> json \<Rightarrow> cancellation_token \<Rightarrow> resource_context" where
  "make_resource_context sc uri params cancellation =
     \<lparr>sc_session_id = sc_session_id sc, sc_remote_address = sc_remote_address sc, sc_headers = sc_headers sc,
      sc_http_method = None, sc_http_url = None, sc_auth_identity = sc_auth_identity sc,
      sc_transport = sc_transport sc, sc_transport_lifetime = sc_transport_lifetime sc,
      rcx_uri = uri, rcx_params = params, rcx_cancellation = cancellation\<rparr>"

definition resource_read ::
  "string \<Rightarrow> json \<Rightarrow> session_context \<Rightarrow> cancellation_token \<Rightarrow> resource_registry \<Rightarrow>
   resource_contents resources_result result attempt" where
  "resource_read uri params sc cancellation r =
     (case reg_find uri r of
        None \<Rightarrow> Gives (Inl (mk_error (error_code ResourceNotFound) ''resource not found'' uri ''''))
      | Some (d, handler) \<Rightarrow> handler (make_resource_context sc uri params cancellation))"

definition resource_list :: "resource_registry \<Rightarrow> resource list \<times> resource_registry" where
  "resource_list r = reg_list res_uri r"

definition template_add :: "resource_template \<Rightarrow> resource_template_registry \<Rightarrow> unit result \<times> resource_template_registry" where
  "template_add d r =
     (case validate_registry_uri (res_uri d) ''resource template uriTemplate'' of
        Inl e \<Rightarrow> (Inl e, r)
      | Inr _ \<Rightarrow>
          (case validate_registry_name (res_name d) ''resource template name'' of
             Inl e \<Rightarrow> (Inl e, r)
           | Inr _ \<Rightarrow> reg_emplace (res_uri d) d () (invalid_request_error ''resource template already exists'' '''') r))"

definition template_list :: "resource_template_registry \<Rightarrow> resource_template list \<times> resource_template_registry" where
  "template_list r = reg_list res_uri r"

section \<open>Properties of the registries\<close>

lemma find_Some_iff_ex: "find P xs \<noteq> None \<longleftrightarrow> (\<exists>x\<in>set xs. P x)"
  by (metis find_None_iff)

lemma validate_tool_name_ok:
  "validate_tool_name v = Inr () \<longleftrightarrow> v \<noteq> '''' \<and> length v \<le> 128 \<and> (\<forall>c\<in>set v. is_tool_name_char c)"
  using find_None_iff [of "\<lambda>c. \<not> is_tool_name_char c" v]
  by (auto simp: validate_tool_name_def kMaxToolNameBytes_def split: option.splits)

lemma validate_registry_text_ok:
  "validate_registry_text v fld n = Inr () \<longleftrightarrow>
     v \<noteq> '''' \<and> length v \<le> n \<and> (\<forall>c\<in>set v. 32 \<le> (of_char c :: nat) \<and> of_char c \<noteq> (127 :: nat))"
  by (auto simp: validate_registry_text_def contains_control_character_def list_ex_iff not_le)

lemma unit_result_cases: "(r :: unit result) = Inr () \<or> (\<exists>e. r = Inl e)"
  by (cases r) auto

text \<open>A tool is registered exactly when its name has 1 to 128 bytes, all of them letters, digits,
  dot, underscore or hyphen, the handler is callable and the name is new; then it can be looked up,
  every other tool is unaffected, and the listing gains exactly this definition. Otherwise the error
  is InvalidRequest and the registry is unchanged.\<close>

theorem tool_add_spec:
  assumes "reg_inv td_name r"
  shows "(fst (tool_add d handler r) = Inr () \<longleftrightarrow>
            td_name d \<noteq> '''' \<and> length (td_name d) \<le> 128 \<and> (\<forall>c\<in>set (td_name d). is_tool_name_char c) \<and>
            handler \<noteq> None \<and> reg_find (td_name d) r = None) \<and>
         (fst (tool_add d handler r) = Inr () \<longrightarrow>
            tool_get (td_name d) (snd (tool_add d handler r)) = Inr d \<and>
            (\<forall>n. n \<noteq> td_name d \<longrightarrow> tool_get n (snd (tool_add d handler r)) = tool_get n r) \<and>
            set (fst (tool_list (snd (tool_add d handler r)))) = insert d (set (fst (tool_list r)))) \<and>
         (\<forall>e. fst (tool_add d handler r) = Inl e \<longrightarrow>
            err_code e = error_code InvalidRequest \<and> snd (tool_add d handler r) = r) \<and>
         reg_inv td_name (snd (tool_add d handler r))"
proof (cases "validate_tool_name (td_name d) = Inr () \<and> handler \<noteq> None \<and> reg_find (td_name d) r = None")
  case True
  then obtain h where h: "handler = Some h" and v: "validate_tool_name (td_name d) = Inr ()"
    and new: "reg_find (td_name d) r = None" by blast
  then have eq: "tool_add d handler r = reg_emplace (td_name d) d h (invalid_request_error ''tool already exists'' '''') r"
    by (simp add: tool_add_def)
  have ok: "fst (tool_add d handler r) = Inr ()"
    unfolding eq using tools.insert_result [OF assms] new by simp
  have "set (fst (tool_list (snd (tool_add d handler r)))) = insert d (set (fst (tool_list r)))"
    unfolding eq tool_list_def using tools.listing_after_insert [OF assms new refl] .
  moreover have "tool_get n (snd (tool_add d handler r)) = (if n = td_name d then Inr d else tool_get n r)" for n
    unfolding eq tool_get_def using tools.find_insert [OF assms] new by simp
  moreover have "reg_inv td_name (snd (tool_add d handler r))"
    unfolding eq by (rule tools.insert_inv [OF assms refl])
  ultimately show ?thesis using ok True v by (auto simp: validate_tool_name_ok)
next
  case False
  have "\<exists>e. tool_add d handler r = (Inl e, r) \<and> err_code e = error_code InvalidRequest"
  proof (cases "validate_tool_name (td_name d) = Inr ()")
    case valid: True
    then show ?thesis
      using False
      by (cases handler) (auto simp: tool_add_def reg_emplace_def invalid_request_error_def)
  next
    case invalid: False
    then obtain e where e: "validate_tool_name (td_name d) = Inl e" using unit_result_cases by blast
    then have "err_code e = error_code InvalidRequest"
      by (auto simp: validate_tool_name_def registry_name_error_def split: if_splits option.splits)
    with e show ?thesis by (simp add: tool_add_def)
  qed
  then show ?thesis using False assms by (auto simp: validate_tool_name_ok)
qed

text \<open>The interface comment promises acceptance of any bounded name without control characters.\<close>

text \<open>A tool name that is short and has no control character can still be refused: the check is
  stricter than that.\<close>

lemma tool_name_stricter_than_documented:
  "validate_registry_text ''my tool'' ''tool name'' kMaxToolNameBytes = Inr () \<and>
   validate_tool_name ''my tool'' \<noteq> Inr ()"
  by (simp add: validate_registry_text_def contains_control_character_def kMaxToolNameBytes_def
      validate_tool_name_def is_tool_name_char_def less_eq_char_def)

section \<open>Histories\<close>

text \<open>
  What happens to a registry: definitions are added (with a handler, or with an empty one) and the
  listing is taken. The first accepted registration of a key counts.
\<close>

datatype ('d, 'h) registry_op = AddOp 'd "'h option" | ListOp

fun registered :: "('d \<Rightarrow> bool) \<Rightarrow> ('d \<Rightarrow> string) \<Rightarrow> ('d, 'h) registry_op list \<Rightarrow> string \<Rightarrow> ('d \<times> 'h) option" where
  "registered valid key_of [] k = None"
| "registered valid key_of (AddOp d (Some h) # ops) k =
     (if valid d \<and> key_of d = k then Some (d, h) else registered valid key_of ops k)"
| "registered valid key_of (_ # ops) k = registered valid key_of ops k"

locale registry_history = registry_contract find_key add_key listing key_of inv
  for find_key :: "string \<Rightarrow> 'r \<Rightarrow> ('d \<times> 'h) option"
    and add_key :: "string \<Rightarrow> 'd \<Rightarrow> 'h \<Rightarrow> core_error \<Rightarrow> 'r \<Rightarrow> unit result \<times> 'r"
    and listing :: "'r \<Rightarrow> 'd list \<times> 'r"
    and key_of :: "'d \<Rightarrow> string"
    and inv :: "'r \<Rightarrow> bool" +
  fixes empty :: 'r
    and valid :: "'d \<Rightarrow> bool"
    and perform :: "('d, 'h) registry_op \<Rightarrow> 'r \<Rightarrow> 'r"
  assumes inv_empty: "inv empty"
    and find_empty: "find_key k empty = None"
    and perform_add: "\<exists>e. perform (AddOp d (Some h)) r = (if valid d then snd (add_key (key_of d) d h e r) else r)"
    and perform_none: "perform (AddOp d None) r = r"
    and perform_list: "perform ListOp r = snd (listing r)"
begin

lemma perform_inv: "inv r \<Longrightarrow> inv (perform x r)"
proof (induction x)
  case (AddOp d h)
  then show ?case
    using perform_add [of d "the h" r] by (cases h) (auto simp: perform_none insert_inv split: if_splits)
qed (simp add: perform_list listing_inv)

lemma perform_find:
  "inv r \<Longrightarrow> find_key k (perform x r) = (case find_key k r of Some y \<Rightarrow> Some y | None \<Rightarrow> registered valid key_of [x] k)"
proof (induction x)
  case (AddOp d h)
  then show ?case
    using perform_add [of d "the h" r]
    by (cases h) (auto simp: perform_none find_insert split: option.splits if_splits)
qed (simp add: perform_list find_listing split: option.split)

lemma history_find:
  "inv r \<Longrightarrow> inv (fold perform ops r) \<and>
   find_key k (fold perform ops r) = (case find_key k r of Some y \<Rightarrow> Some y | None \<Rightarrow> registered valid key_of ops k)"
proof (induction ops arbitrary: r)
  case (Cons x ops)
  have "registered valid key_of (x # ops) k =
      (case registered valid key_of [x] k of Some y \<Rightarrow> Some y | None \<Rightarrow> registered valid key_of ops k)"
    by (cases "(valid, key_of, x # ops, k)" rule: registered.cases) auto
  then show ?case
    using Cons.IH [OF perform_inv [OF Cons.prems]] perform_find [OF Cons.prems, of k x] by (auto split: option.splits)
qed (simp split: option.split)

lemma from_empty:
  "inv (fold perform ops empty)" "find_key k (fold perform ops empty) = registered valid key_of ops k"
  using history_find [OF inv_empty, of ops k] by (simp_all add: find_empty)

lemma listing_from_empty:
  "sorted (map key_of (fst (listing (fold perform ops empty))))"
  "distinct (map key_of (fst (listing (fold perform ops empty))))"
  "d \<in> set (fst (listing (fold perform ops empty))) \<longleftrightarrow> (\<exists>h. registered valid key_of ops (key_of d) = Some (d, h))"
  using listing_sorted [OF from_empty(1)] listing_distinct [OF from_empty(1)] listing_members [OF from_empty(1)]
  by (simp_all add: from_empty(2))

end

text \<open>What the four registries accept.\<close>

definition tool_ok :: "tool_definition \<Rightarrow> bool" where
  "tool_ok d \<longleftrightarrow> td_name d \<noteq> '''' \<and> length (td_name d) \<le> 128 \<and> (\<forall>c\<in>set (td_name d). is_tool_name_char c)"

definition text_ok :: "nat \<Rightarrow> string \<Rightarrow> bool" where
  "text_ok n v \<longleftrightarrow> v \<noteq> '''' \<and> length v \<le> n \<and> (\<forall>c\<in>set v. 32 \<le> (of_char c :: nat) \<and> of_char c \<noteq> (127 :: nat))"

definition prompt_ok :: "prompt \<Rightarrow> bool" where
  "prompt_ok d \<longleftrightarrow> text_ok 1024 (pr_name d)"

definition resource_ok :: "resource \<Rightarrow> bool" where
  "resource_ok d \<longleftrightarrow> text_ok 4096 (res_uri d) \<and> text_ok 1024 (res_name d)"

fun tool_op :: "(tool_definition, tool_handler) registry_op \<Rightarrow> tool_registry \<Rightarrow> tool_registry" where
  "tool_op (AddOp d h) r = snd (tool_add d h r)"
| "tool_op ListOp r = snd (tool_list r)"

fun prompt_op :: "(prompt, prompt_handler) registry_op \<Rightarrow> prompt_registry \<Rightarrow> prompt_registry" where
  "prompt_op (AddOp d h) r = snd (prompt_add d h r)"
| "prompt_op ListOp r = snd (prompt_list r)"

fun resource_op :: "(resource, resource_read_handler) registry_op \<Rightarrow> resource_registry \<Rightarrow> resource_registry" where
  "resource_op (AddOp d h) r = snd (resource_add d h r)"
| "resource_op ListOp r = snd (resource_list r)"

text \<open>Templates have no handler.\<close>

fun template_op :: "(resource_template, unit) registry_op \<Rightarrow> resource_template_registry \<Rightarrow> resource_template_registry" where
  "template_op (AddOp d None) r = r"
| "template_op (AddOp d (Some _)) r = snd (template_add d r)"
| "template_op ListOp r = snd (template_list r)"

lemma new_registry_inv: "reg_inv key_of new_registry"
  by (simp add: new_registry_def reg_inv_def)

lemma find_new_registry [simp]: "reg_find k new_registry = None"
  by (simp add: new_registry_def reg_find_def)


interpretation tool_history: registry_history reg_find reg_emplace "reg_list td_name" td_name "reg_inv td_name"
  new_registry tool_ok tool_op
proof (unfold_locales, goal_cases)
  case (3 d h r)
  show ?case using unit_result_cases [of "validate_tool_name (td_name d)"]
    by (auto simp: tool_add_def tool_ok_def validate_tool_name_ok [symmetric])
next
  case (4 d r)
  show ?case using unit_result_cases [of "validate_tool_name (td_name d)"] by (auto simp: tool_add_def)
qed (simp_all add: new_registry_inv tool_list_def)

interpretation prompt_history: registry_history reg_find reg_emplace "reg_list pr_name" pr_name "reg_inv pr_name"
  new_registry prompt_ok prompt_op
proof (unfold_locales, goal_cases)
  case (3 d h r)
  show ?case using unit_result_cases [of "validate_registry_name (pr_name d) ''prompt name''"]
    by (auto simp: prompt_add_def prompt_ok_def text_ok_def validate_registry_name_def kMaxRegistryNameBytes_def
        validate_registry_text_ok [where fld = "''prompt name''", symmetric])
next
  case (4 d r)
  show ?case using unit_result_cases [of "validate_registry_name (pr_name d) ''prompt name''"] by (auto simp: prompt_add_def)
qed (simp_all add: new_registry_inv prompt_list_def)

lemma text_ok_iff: "text_ok n v \<longleftrightarrow> validate_registry_text v fld n = Inr ()"
  by (simp add: text_ok_def validate_registry_text_ok)

lemma resource_add_eq:
  "resource_add d (Some h) r =
     (if resource_ok d then reg_emplace (res_uri d) d h (invalid_request_error ''resource already exists'' '''') r
      else (fst (resource_add d (Some h) r), r))"
  "snd (resource_add d None r) = r"
  using unit_result_cases [of "validate_registry_uri (res_uri d) ''resource uri''"]
    unit_result_cases [of "validate_registry_name (res_name d) ''resource name''"]
  by (auto simp: resource_add_def resource_ok_def text_ok_iff [of 4096 _ "''resource uri''"]
      text_ok_iff [of 1024 _ "''resource name''"] validate_registry_uri_def validate_registry_name_def
      kMaxRegistryNameBytes_def kMaxRegistryUriBytes_def)

lemma template_add_eq:
  "template_add d r =
     (if resource_ok d then reg_emplace (res_uri d) d () (invalid_request_error ''resource template already exists'' '''') r
      else (fst (template_add d r), r))"
  using unit_result_cases [of "validate_registry_uri (res_uri d) ''resource template uriTemplate''"]
    unit_result_cases [of "validate_registry_name (res_name d) ''resource template name''"]
  by (auto simp: template_add_def resource_ok_def text_ok_iff [of 4096 _ "''resource template uriTemplate''"]
      text_ok_iff [of 1024 _ "''resource template name''"] validate_registry_uri_def validate_registry_name_def
      kMaxRegistryNameBytes_def kMaxRegistryUriBytes_def)

interpretation resource_history: registry_history reg_find reg_emplace "reg_list res_uri" res_uri "reg_inv res_uri"
  new_registry resource_ok resource_op
proof (unfold_locales, goal_cases)
  case (3 d h r)
  show ?case using resource_add_eq(1) [of d h r] by (intro exI [of _ "invalid_request_error ''resource already exists'' ''''"]) (auto split: if_splits dest: arg_cong [where f = snd])
qed (simp_all add: new_registry_inv resource_list_def resource_add_eq(2))

interpretation template_history: registry_history reg_find reg_emplace "reg_list res_uri" res_uri "reg_inv res_uri"
  new_registry resource_ok template_op
proof (unfold_locales, goal_cases)
  case (3 d h r)
  show ?case using template_add_eq [of d r] by (intro exI [of _ "invalid_request_error ''resource template already exists'' ''''"]) (auto split: if_splits dest: arg_cong [where f = snd])
qed (simp_all add: new_registry_inv template_list_def)

text \<open>The listing of a registry: sorted by key, without duplicates, of exactly the definitions \<open>reg\<close> has.\<close>

definition lists_exactly :: "('d \<Rightarrow> string) \<Rightarrow> (string \<Rightarrow> ('d \<times> 'h) option) \<Rightarrow> 'd list \<Rightarrow> bool" where
  "lists_exactly key_of reg ds \<longleftrightarrow>
     sorted (map key_of ds) \<and> distinct (map key_of ds) \<and> (\<forall>d. d \<in> set ds \<longleftrightarrow> (\<exists>h. reg (key_of d) = Some (d, h)))"

text \<open>C8: whatever was added and listed before, in which order and how often, each of the four registries finds under a key
  the first registration of it that was acceptable and had a handler, and lists exactly these definitions, each
  once, sorted by key; a copy lists the same.\<close>

theorem listings_sorted_complete:
  "lists_exactly td_name (registered tool_ok td_name ts) (fst (tool_list (fold tool_op ts new_registry))) \<and>
   reg_find k (fold tool_op ts new_registry) = registered tool_ok td_name ts k \<and>
   fst (tool_list (reg_copy (fold tool_op ts new_registry))) = fst (tool_list (fold tool_op ts new_registry)) \<and>
   lists_exactly pr_name (registered prompt_ok pr_name ps) (fst (prompt_list (fold prompt_op ps new_registry))) \<and>
   reg_find k (fold prompt_op ps new_registry) = registered prompt_ok pr_name ps k \<and>
   fst (prompt_list (reg_copy (fold prompt_op ps new_registry))) = fst (prompt_list (fold prompt_op ps new_registry)) \<and>
   lists_exactly res_uri (registered resource_ok res_uri rs) (fst (resource_list (fold resource_op rs new_registry))) \<and>
   reg_find k (fold resource_op rs new_registry) = registered resource_ok res_uri rs k \<and>
   fst (resource_list (reg_copy (fold resource_op rs new_registry))) = fst (resource_list (fold resource_op rs new_registry)) \<and>
   lists_exactly res_uri (registered resource_ok res_uri us) (fst (template_list (fold template_op us new_registry))) \<and>
   reg_find k (fold template_op us new_registry) = registered resource_ok res_uri us k \<and>
   fst (template_list (reg_copy (fold template_op us new_registry))) = fst (template_list (fold template_op us new_registry))"
proof -
  have copy: "reg_list key_of (reg_copy r) = reg_list key_of r" for key_of :: "'x \<Rightarrow> string" and r :: "('x, 'y) registry"
    by (cases r) (simp add: reg_copy_def)
  show ?thesis
    unfolding lists_exactly_def tool_list_def prompt_list_def resource_list_def template_list_def copy
    by (intro conjI allI refl tool_history.listing_from_empty tool_history.from_empty(2) prompt_history.listing_from_empty
        prompt_history.from_empty(2) resource_history.listing_from_empty resource_history.from_empty(2)
        template_history.listing_from_empty template_history.from_empty(2))
qed

section \<open>Tool calls\<close>

lemma validate_task_support_ok:
  "validate_tool_task_support d call = Inr () \<longleftrightarrow>
     (tool_task_support d = TaskForbidden \<longrightarrow> tc_task call = None) \<and>
     (tool_task_support d = TaskRequired \<longrightarrow> tc_task call \<noteq> None)"
  by (auto simp: validate_tool_task_support_def split: task_support.splits)

text \<open>What the application sees of a call: whether it fits the tool, and what a validator says of arguments and result.\<close>

definition admits :: "tool_definition \<Rightarrow> tool_call \<Rightarrow> bool" where
  "admits d call \<longleftrightarrow>
     (tool_task_support d = TaskForbidden \<longrightarrow> tc_task call = None) \<and>
     (tool_task_support d = TaskRequired \<longrightarrow> tc_task call \<noteq> None)"

definition input_accepted :: "schema_validator option \<Rightarrow> tool_definition \<Rightarrow> tool_call \<Rightarrow> bool" where
  "input_accepted validator d call \<longleftrightarrow>
     (\<forall>v. validator = Some v \<and> \<not> jempty (td_input_schema d) \<longrightarrow>
        v (td_input_schema d) (tc_arguments call) (ToolInput, td_name d) = Gives (Inr ()))"

definition output_accepted :: "schema_validator option \<Rightarrow> tool_definition \<Rightarrow> tool_result \<Rightarrow> bool" where
  "output_accepted validator d res \<longleftrightarrow>
     (\<forall>v. validator = Some v \<and> (td_output_schema_present d \<or> \<not> jempty (td_output_schema d)) \<longrightarrow>
        (\<exists>content. tr_structured_content res = Some content \<and>
           v (td_output_schema d) content (ToolOutput, td_name d) = Gives (Inr ())))"

lemma run_validator_ok: "run_validator verdict wrap = Gives (Inr ()) \<longleftrightarrow> verdict = Gives (Inr ())"
  by (auto simp: run_validator_def split: attempt.split sum.split)

lemma input_accepted_iff:
  "validate_tool_input_schema validator d (tc_arguments call) = Gives (Inr ()) \<longleftrightarrow> input_accepted validator d call"
  by (auto simp: validate_tool_input_schema_def input_accepted_def run_validator_ok split: option.split)

lemma output_accepted_iff:
  "validate_tool_output_schema validator d res = Gives (Inr ()) \<longleftrightarrow> output_accepted validator d res"
  by (auto simp: validate_tool_output_schema_def output_accepted_def run_validator_ok split: option.split)

lemma admits_iff: "validate_tool_task_support d call = Inr () \<longleftrightarrow> admits d call"
  by (simp add: validate_task_support_ok admits_def)

text \<open>The same history with other handlers.\<close>

fun with_handlers :: "('h \<Rightarrow> 'h) \<Rightarrow> ('d, 'h) registry_op \<Rightarrow> ('d, 'h) registry_op" where
  "with_handlers g (AddOp d h) = AddOp d (map_option g h)"
| "with_handlers g ListOp = ListOp"

lemma registered_with_handlers:
  "registered valid key_of (map (with_handlers g) ops) k = map_option (\<lambda>(d, h). (d, g h)) (registered valid key_of ops k)"
  by (induction valid key_of ops k rule: registered.induct) auto

lemma call_refused:
  assumes "\<not> (admits d call \<and> input_accepted validator d call)" "reg_find (tc_name call) r = Some (d, h)" "reg_find (tc_name call) r' = Some (d, h')"
  shows "tool_call_full validator call sc c r = tool_call_full validator call sc c r'"
    "tool_call_full validator call sc c r \<noteq> Gives (Inr res)"
    "tool_call_full validator call sc c r = Gives (Inl e) \<Longrightarrow>
       err_code e = (if admits d call then error_code InvalidParams else error_code InvalidRequest)"
proof -
  consider (task) e where "validate_tool_task_support d call = Inl e" "\<not> admits d call"
    | (input) "validate_tool_task_support d call = Inr ()" "admits d call" "\<not> input_accepted validator d call"
    using assms(1) unit_result_cases [of "validate_tool_task_support d call"] admits_iff by blast
  then have "tool_call_full validator call sc c r = tool_call_full validator call sc c r' \<and>
     tool_call_full validator call sc c r \<noteq> Gives (Inr res) \<and>
     (tool_call_full validator call sc c r = Gives (Inl e) \<longrightarrow>
       err_code e = (if admits d call then error_code InvalidParams else error_code InvalidRequest))"
  proof cases
    case (task e')
    then have "err_code e' = error_code InvalidRequest"
      by (auto simp: validate_tool_task_support_def invalid_request_error_def split: task_support.splits if_splits)
    then show ?thesis using task assms(2,3) by (auto simp: tool_call_full_def)
  next
    case input
    have no: "validate_tool_input_schema validator d (tc_arguments call) \<noteq> Gives (Inr ())"
      using input(3) by (simp add: input_accepted_iff)
    have code: "err_code x = error_code InvalidParams" if "validate_tool_input_schema validator d (tc_arguments call) = Gives (Inl x)" for x
      using that by (auto simp: validate_tool_input_schema_def run_validator_def schema_validation_error_def
          split: option.splits if_splits attempt.splits sum.splits)
    show ?thesis
      using no code input(1,2) assms(2,3)
      by (cases "validate_tool_input_schema validator d (tc_arguments call)") (auto simp: tool_call_full_def att_bind_def split: sum.splits)
  qed
  then show "tool_call_full validator call sc c r = tool_call_full validator call sc c r'"
    "tool_call_full validator call sc c r \<noteq> Gives (Inr res)"
    "tool_call_full validator call sc c r = Gives (Inl e) \<Longrightarrow>
       err_code e = (if admits d call then error_code InvalidParams else error_code InvalidRequest)" by blast+
qed

lemma call_accepted:
  assumes "admits d call" "input_accepted validator d call" "reg_find (tc_name call) r = Some (d, h)"
  shows "tool_call_full validator call sc c r =
    att_bind (h (make_tool_context sc call c)) (\<lambda>res. att_bind (validate_tool_output_schema validator d res) (\<lambda>_. Gives (Inr res)))"
  using assms(3) assms(1) [folded admits_iff] assms(2) [folded input_accepted_iff] by (simp add: tool_call_full_def)

lemma output_refused_code:
  "validate_tool_output_schema validator d res = Gives (Inl e) \<Longrightarrow> err_code e = error_code InternalError"
  by (auto simp: validate_tool_output_schema_def run_validator_def schema_validation_error_def
      split: option.splits if_splits attempt.splits sum.splits)

text \<open>C7: what a call does, after any history of registrations and listings. It succeeds exactly when the first acceptable
  registration of the name admits the call, a validator accepts the arguments, that registration's handler gives
  the result and a validator accepts its structured content, and then this result is returned. An
  unknown name is ToolNotFound. A call refused before the handler is the same whatever handlers are registered, so
  the handler has not run; its error is InvalidRequest for the task mode and InvalidParams for the arguments. A
  handler's error or exception reaches the caller unchanged, and a result the validator refuses is an InternalError.\<close>

theorem tool_call_outcome:
  fixes ops :: "(tool_definition, tool_handler) registry_op list"
  defines "r \<equiv> fold tool_op ops new_registry"
    and "reg \<equiv> registered tool_ok td_name ops"
  shows
   "(tool_call_full v call sc c r = Gives (Inr res) \<longleftrightarrow>
      (\<exists>d h. reg (tc_name call) = Some (d, h) \<and> admits d call \<and> input_accepted v d call \<and>
         h (make_tool_context sc call c) = Gives (Inr res) \<and> output_accepted v d res)) \<and>
    (reg (tc_name call) = None \<longrightarrow> tool_call_full v call sc c r = Gives (Inl (tool_not_found (tc_name call)))) \<and>
    (reg (tc_name call) = Some (d, h) \<and> \<not> (admits d call \<and> input_accepted v d call) \<longrightarrow>
       tool_call_full v call sc c (fold tool_op (map (with_handlers g) ops) new_registry) = tool_call_full v call sc c r \<and>
       (\<forall>e. tool_call_full v call sc c r = Gives (Inl e) \<longrightarrow>
          err_code e = (if admits d call then error_code InvalidParams else error_code InvalidRequest))) \<and>
    (reg (tc_name call) = Some (d, h) \<and> admits d call \<and> input_accepted v d call \<longrightarrow>
       (\<forall>out. h (make_tool_context sc call c) = out \<and> (\<forall>x. out \<noteq> Gives (Inr x)) \<longrightarrow> tool_call_full v call sc c r = out) \<and>
       (\<forall>x e. h (make_tool_context sc call c) = Gives (Inr x) \<and> tool_call_full v call sc c r = Gives (Inl e) \<longrightarrow>
          err_code e = error_code InternalError))"
proof -
  have found: "reg_find k r = reg k" for k using tool_history.from_empty(2) by (simp add: r_def reg_def)
  have found': "reg_find k (fold tool_op (map (with_handlers g) ops) new_registry) = map_option (\<lambda>(d, h). (d, g h)) (reg k)" for k
    using tool_history.from_empty(2) [of k "map (with_handlers g) ops"] by (simp add: registered_with_handlers reg_def)
  have success: "tool_call_full v call sc c r = Gives (Inr res) \<longleftrightarrow>
      (\<exists>d h. reg (tc_name call) = Some (d, h) \<and> admits d call \<and> input_accepted v d call \<and>
         h (make_tool_context sc call c) = Gives (Inr res) \<and> output_accepted v d res)"
    using found [of "tc_name call"]
    by (auto simp: tool_call_full_def att_bind_eq_Inr admits_iff input_accepted_iff output_accepted_iff split: option.splits)
  have unknown: "tool_call_full v call sc c r = Gives (Inl (tool_not_found (tc_name call)))" if "reg (tc_name call) = None"
    using that found by (simp add: tool_call_full_def)
  have early: "tool_call_full v call sc c (fold tool_op (map (with_handlers g) ops) new_registry) = tool_call_full v call sc c r \<and>
       (\<forall>e. tool_call_full v call sc c r = Gives (Inl e) \<longrightarrow>
          err_code e = (if admits d call then error_code InvalidParams else error_code InvalidRequest))"
    if "reg (tc_name call) = Some (d, h)" "\<not> (admits d call \<and> input_accepted v d call)"
    using call_refused [OF that(2), of r h "fold tool_op (map (with_handlers g) ops) new_registry" "g h"] that(1) found found' by simp
  have late: "(\<forall>out. h (make_tool_context sc call c) = out \<and> (\<forall>x. out \<noteq> Gives (Inr x)) \<longrightarrow> tool_call_full v call sc c r = out) \<and>
       (\<forall>x e. h (make_tool_context sc call c) = Gives (Inr x) \<and> tool_call_full v call sc c r = Gives (Inl e) \<longrightarrow>
          err_code e = error_code InternalError)"
    if "reg (tc_name call) = Some (d, h)" "admits d call" "input_accepted v d call"
  proof -
    have eq: "tool_call_full v call sc c r =
      att_bind (h (make_tool_context sc call c)) (\<lambda>res. att_bind (validate_tool_output_schema v d res) (\<lambda>_. Gives (Inr res)))"
      using call_accepted [OF that(2,3)] that(1) found by simp
    have "err_code e = error_code InternalError"
      if "h (make_tool_context sc call c) = Gives (Inr x)" "tool_call_full v call sc c r = Gives (Inl e)" for x e
      using that eq output_refused_code [of v d x] by (auto simp: att_bind_def split: attempt.splits sum.splits)
    then show ?thesis using eq by (auto simp: att_bind_def split: attempt.splits sum.splits)
  qed
  show ?thesis using success unknown early late by blast
qed

section \<open>Examples\<close>

definition sample_handler :: tool_handler where
  "sample_handler = (\<lambda>_. Gives (Inr (text_result ''hi'')))"

theorem tool_add_spec_witness:
  "tool_get ''echo'' (snd (tool_add sample_tool (Some sample_handler) new_registry)) = Inr sample_tool"
  using tool_add_spec [OF new_registry_inv, of sample_tool "Some sample_handler"]
  by (simp add: sample_tool_def is_tool_name_char_def less_eq_char_def reg_find_def new_registry_def)

definition strict_tool :: tool_definition where
  "strict_tool = sample_tool\<lparr>td_input_schema := JObject [(''type'', JString ''object'')]\<rparr>"

text \<open>The tool is registered, listed, and registered again with another handler, which is refused.\<close>

definition sample_history :: "(tool_definition, tool_handler) registry_op list" where
  "sample_history = [AddOp strict_tool (Some sample_handler), ListOp, AddOp strict_tool (Some (\<lambda>_. Throwing ''late''))]"

lemma sample_registered: "registered tool_ok td_name sample_history ''echo'' = Some (strict_tool, sample_handler)"
  by (simp add: sample_history_def strict_tool_def sample_tool_def tool_ok_def is_tool_name_char_def less_eq_char_def)

theorem listings_sorted_complete_witness:
  "reg_find ''echo'' (fold tool_op sample_history new_registry) = Some (strict_tool, sample_handler) \<and>
   set (fst (tool_list (fold tool_op sample_history new_registry))) = {strict_tool}"
proof -
  have all: "registered tool_ok td_name sample_history k = (if k = ''echo'' then Some (strict_tool, sample_handler) else None)" for k
    by (simp add: sample_history_def strict_tool_def sample_tool_def tool_ok_def is_tool_name_char_def less_eq_char_def)
  have "td_name strict_tool = ''echo''" by (simp add: strict_tool_def sample_tool_def)
  then show ?thesis
    using listings_sorted_complete [of sample_history "''echo''" "[]" "[]" "[]"] unfolding lists_exactly_def all by (auto split: if_splits)
qed

definition refuse_all :: schema_validator where
  "refuse_all = (\<lambda>_ _ _. Gives (Inl (invalid_request_error ''no'' '''')))"

theorem tool_call_outcome_witness:
  "tool_call_full None (plain_call ''echo'' empty_object) empty_session None (fold tool_op sample_history new_registry) =
     Gives (Inr (text_result ''hi'')) \<and>
   tool_call_full (Some refuse_all) (plain_call ''echo'' empty_object) empty_session None
     (fold tool_op (map (with_handlers (\<lambda>_ _. ThrowingUnknown)) sample_history) new_registry) =
   tool_call_full (Some refuse_all) (plain_call ''echo'' empty_object) empty_session None (fold tool_op sample_history new_registry)"
proof -
  have call: "tc_name (plain_call ''echo'' empty_object) = ''echo''" "admits strict_tool (plain_call ''echo'' empty_object)"
    by (simp_all add: plain_call_def admits_def tool_task_support_def strict_tool_def sample_tool_def)
  have "input_accepted None strict_tool (plain_call ''echo'' empty_object)" "output_accepted None strict_tool (text_result ''hi'')"
    by (simp_all add: input_accepted_def output_accepted_def)
  moreover have "\<not> input_accepted (Some refuse_all) strict_tool (plain_call ''echo'' empty_object)"
    by (simp add: input_accepted_def refuse_all_def strict_tool_def sample_tool_def)
  ultimately show ?thesis
    using tool_call_outcome [of None "plain_call ''echo'' empty_object" empty_session None sample_history "text_result ''hi''"]
      tool_call_outcome [of "Some refuse_all" "plain_call ''echo'' empty_object" empty_session None sample_history _ strict_tool sample_handler "\<lambda>_ _. ThrowingUnknown"]
      call sample_registered by (auto simp: sample_handler_def)
qed

end
