(* ===== verification/Task_Manager.thy ===== *)
theory Task_Manager
  imports Registry Executor
begin

text \<open>
  src/sdk/server/src/task_manager.cpp: \<open>TaskOperationProcessor\<close>, which runs operations on the
  executor and keeps their records for tasks/list, tasks/get, tasks/cancel and tasks/result.

  \<open>tasks_\<close> is a hash map: the association list's order stands for its iteration order. Clocks are
  inputs: \<open>clk i\<close> is the i-th reading of the steady clock (in nanoseconds) that an operation takes
  and \<open>stamp i\<close> the i-th call of \<open>now_timestamp\<close>. A cancellation source is its identity and its
  flag; its callbacks are the subject of \<open>Cancel_Tokens\<close>. The hook calls an operation makes after
  it has released the mutex are returned as a list.
\<close>

section \<open>Data\<close>

record task_processor_options =
  to_worker_count :: nat
  to_queue_size :: nat
  to_default_timeout :: int64
  to_poll_interval :: "int64 option"
  to_completed_task_ttl :: "int64 option"
  to_max_completed_tasks :: nat
  to_list_page_size :: size_t
  to_has_status_hook :: bool
  to_has_progress_hook :: bool
  to_emit_progress :: bool

record task_operation_descriptor =
  tod_name :: string
  tod_task :: "task_request_parameters option"
  tod_progress_token :: "progress_token option"

text \<open>An operation returns a result or throws (an exception with a message, or something else).\<close>

datatype operation_outcome = Finished "json result" | ThrowsException string | ThrowsUnknown

type_synonym task_operation_handler = "cancellation_token \<Rightarrow> operation_outcome"

record task_record =
  tk_task :: task
  tk_progress_token :: "progress_token option"
  tk_started_at :: int
  tk_terminal_at :: "int option"
  tk_timeout :: "int64 option"
  tk_cancellation :: nat
  tk_cancelled :: bool
  tk_result :: "json option"
  tk_failure :: "core_error option"

record task_update =
  tu_task :: task
  tu_progress_token :: "progress_token option"

record task_job =
  job_task :: string
  job_operation :: task_operation_handler
  job_cancellation :: cancellation_token

record task_processor =
  tp_options :: task_processor_options
  tp_executor :: "task_job executor"
  tp_tasks :: "(string \<times> task_record) list"
  tp_order :: "string list"
  tp_next_task_index :: uint64

definition new_task_processor :: "task_processor_options \<Rightarrow> task_processor" where
  "new_task_processor options =
     \<lparr>tp_options = options, tp_executor = new_executor (to_worker_count options) (to_queue_size options),
      tp_tasks = [], tp_order = [], tp_next_task_index = 1\<rparr>"

text \<open>Doubles are their bits: 1.0 and 0.0.\<close>

definition double_one :: "64 word" where
  "double_one = 0x3FF0000000000000"

datatype hook_call = StatusHook task | ProgressHook progress_notification_params

section \<open>Helpers\<close>

definition make_task_error :: "ErrorCode \<Rightarrow> string \<Rightarrow> string \<Rightarrow> core_error" where
  "make_task_error code message detail = mk_error (error_code code) message detail ''''"

text \<open>The digit loop of the cursor parser, on \<open>std::size_t\<close>.\<close>

fun parse_cursor_digits :: "string \<Rightarrow> size_t \<Rightarrow> string \<Rightarrow> size_t result" where
  "parse_cursor_digits cursor val [] = Inr val"
| "parse_cursor_digits cursor val (c # cs) =
     (if c < CHR ''0'' \<or> c > CHR ''9''
      then Inl (make_task_error InvalidParams ''tasks/list cursor must be a decimal offset'' cursor)
      else let digit = word_of_nat (of_char c - 48) in
        if val > (- 1 - digit) div 10
        then Inl (make_task_error InvalidParams ''tasks/list cursor offset is too large'' cursor)
        else parse_cursor_digits cursor (val * 10 + digit) cs)"

definition parse_task_list_cursor :: "string option \<Rightarrow> size_t result" where
  "parse_task_list_cursor cursor =
     (case cursor of
        None \<Rightarrow> Inr 0
      | Some c \<Rightarrow> if c = '''' then Inr 0 else parse_cursor_digits c 0 c)"

fun is_terminal :: "task_status \<Rightarrow> bool" where
  "is_terminal Completed = True"
| "is_terminal Failed = True"
| "is_terminal Cancelled = True"
| "is_terminal _ = False"

definition make_task_id :: "uint64 \<Rightarrow> string" where
  "make_task_id index = ''task-'' @ nat_to_string (unat index)"

definition task_not_found_error :: "string \<Rightarrow> core_error" where
  "task_not_found_error tid = make_task_error InvalidRequest ''task not found'' tid"

definition find_task_locked :: "string \<Rightarrow> task_processor \<Rightarrow> task_record option" where
  "find_task_locked tid p = map_of (tp_tasks p) tid"

definition append_update_locked :: "task_update list \<Rightarrow> task_record \<Rightarrow> task_update list" where
  "append_update_locked updates rec =
     updates @ [\<lparr>tu_task = tk_task rec, tu_progress_token = tk_progress_token rec\<rparr>]"

definition emit_update :: "task_processor_options \<Rightarrow> task_update \<Rightarrow> hook_call list" where
  "emit_update options update =
     (if to_has_status_hook options then [StatusHook (tu_task update)] else []) @
     (case tu_progress_token update of
        None \<Rightarrow> []
      | Some token \<Rightarrow>
          if \<not> to_emit_progress options \<or> \<not> to_has_progress_hook options then []
          else [ProgressHook
            \<lparr>pn_progress_token = token,
             pn_progress = (if is_terminal (task_status (tu_task update)) then double_one else 0),
             pn_total = Some double_one,
             pn_message = Some (case task_status_message (tu_task update) of
                 Some msg \<Rightarrow> msg
               | None \<Rightarrow> task_status_to_string (task_status (tu_task update)))\<rparr>])"

definition emit_updates :: "task_processor_options \<Rightarrow> task_update list \<Rightarrow> hook_call list" where
  "emit_updates options updates = concat (map (emit_update options) updates)"

text \<open>
  Comparing a clock difference with a duration converts the duration to nanoseconds in a signed
  64-bit n. The multiplication is undefined when it overflows; what a two's complement machine
  computes is the wrapped product.
\<close>

definition ns_of_seconds :: "int64 \<Rightarrow> int" where
  "ns_of_seconds s = sint (s * 1000000000)"

definition ns_of_milliseconds :: "int64 \<Rightarrow> int" where
  "ns_of_milliseconds ms = sint (ms * 1000000)"

section \<open>Retention\<close>

definition terminal_id :: "(string \<times> task_record) list \<Rightarrow> string \<Rightarrow> bool" where
  "terminal_id tasks tid =
     (case map_of tasks tid of None \<Rightarrow> False | Some rec \<Rightarrow> is_terminal (task_status (tk_task rec)))"

definition expired_id :: "int \<Rightarrow> int64 \<Rightarrow> (string \<times> task_record) list \<Rightarrow> string \<Rightarrow> bool" where
  "expired_id now ttl tasks tid =
     (case map_of tasks tid of
        None \<Rightarrow> False
      | Some rec \<Rightarrow> is_terminal (task_status (tk_task rec)) \<and>
          (case tk_terminal_at rec of None \<Rightarrow> False | Some at \<Rightarrow> now - at \<ge> ns_of_milliseconds ttl))"

fun trim_expired :: "int \<Rightarrow> int64 \<Rightarrow> (string \<times> task_record) list \<Rightarrow> string list \<Rightarrow> (string \<times> task_record) list \<times> string list" where
  "trim_expired now ttl tasks [] = (tasks, [])"
| "trim_expired now ttl tasks (tid # tids) =
     (if expired_id now ttl tasks tid then trim_expired now ttl (al_erase tid tasks) tids
      else let (tasks', tids') = trim_expired now ttl tasks tids in (tasks', tid # tids'))"

definition terminal_count :: "(string \<times> task_record) list \<Rightarrow> string list \<Rightarrow> nat" where
  "terminal_count tasks order = length (filter (terminal_id tasks) order)"

fun trim_excess :: "nat \<Rightarrow> nat \<Rightarrow> (string \<times> task_record) list \<Rightarrow> string list \<Rightarrow> (string \<times> task_record) list \<times> string list" where
  "trim_excess max_completed n tasks [] = (tasks, [])"
| "trim_excess max_completed n tasks (tid # tids) =
     (if \<not> n > max_completed then (tasks, tid # tids)
      else if terminal_id tasks tid then trim_excess max_completed (n - 1) (al_erase tid tasks) tids
      else let (tasks', tids') = trim_excess max_completed n tasks tids in (tasks', tid # tids'))"

definition trim_completed_locked :: "int \<Rightarrow> task_processor \<Rightarrow> task_processor" where
  "trim_completed_locked now p =
     (let (tasks1, order1) =
            (case to_completed_task_ttl (tp_options p) of
               None \<Rightarrow> (tp_tasks p, tp_order p)
             | Some ttl \<Rightarrow> trim_expired now ttl (tp_tasks p) (tp_order p));
          (tasks2, order2) =
            trim_excess (to_max_completed_tasks (tp_options p)) (terminal_count tasks1 order1) tasks1 order1
      in p\<lparr>tp_tasks := tasks2, tp_order := order2\<rparr>)"

text \<open>The body of the refresh loop: a working record whose timeout has passed fails.\<close>

definition timed_out :: "int \<Rightarrow> task_record \<Rightarrow> bool" where
  "timed_out now rec \<longleftrightarrow> task_status (tk_task rec) = Working \<and>
     (case tk_timeout rec of None \<Rightarrow> False | Some t \<Rightarrow> now - tk_started_at rec \<ge> ns_of_seconds t)"

definition time_out :: "int \<Rightarrow> string \<Rightarrow> task_record \<Rightarrow> task_record" where
  "time_out now timestamp rec =
     rec\<lparr>tk_cancelled := True,
         tk_task := (tk_task rec)\<lparr>task_status := Failed, task_status_message := Some ''Operation timed out'',
           task_last_updated_at := timestamp\<rparr>,
         tk_terminal_at := Some now,
         tk_failure := Some (make_task_error InternalError ''Operation timed out'' (task_id (tk_task rec))),
         tk_result := None\<rparr>"

fun refresh_tasks :: "int \<Rightarrow> string \<Rightarrow> task_update list \<Rightarrow> (string \<times> task_record) list \<Rightarrow> task_update list \<times> (string \<times> task_record) list" where
  "refresh_tasks now timestamp updates [] = (updates, [])"
| "refresh_tasks now timestamp updates ((tid, rec) # tasks) =
     (if timed_out now rec then
        let rec' = time_out now timestamp rec;
            (updates', tasks') = refresh_tasks now timestamp (append_update_locked updates rec') tasks
        in (updates', (tid, rec') # tasks')
      else
        let (updates', tasks') = refresh_tasks now timestamp updates tasks in (updates', (tid, rec) # tasks'))"

definition refresh_locked :: "(nat \<Rightarrow> int) \<Rightarrow> (nat \<Rightarrow> string) \<Rightarrow> task_processor \<Rightarrow> task_update list \<times> task_processor" where
  "refresh_locked clk stamp p =
     (let (updates, tasks) = refresh_tasks (clk 0) (stamp 0) [] (tp_tasks p)
      in (updates, trim_completed_locked (clk 1) (p\<lparr>tp_tasks := tasks\<rparr>)))"

section \<open>Operations\<close>

definition finish_record :: "int \<Rightarrow> string \<Rightarrow> json result \<Rightarrow> task_record \<Rightarrow> task_record" where
  "finish_record now timestamp res rec =
     (case res of
        Inr j \<Rightarrow>
          rec\<lparr>tk_task := (tk_task rec)\<lparr>task_last_updated_at := timestamp, task_status := Completed,
                task_status_message := None\<rparr>,
              tk_terminal_at := Some now, tk_result := Some j, tk_failure := None\<rparr>
      | Inl e \<Rightarrow>
          rec\<lparr>tk_task := (tk_task rec)\<lparr>task_last_updated_at := timestamp, task_status := Failed,
                task_status_message := Some (err_message e)\<rparr>,
              tk_terminal_at := Some now, tk_failure := Some e, tk_result := None\<rparr>)"

text \<open>Writing through the pointer \<open>find_task_locked\<close> returned.\<close>

definition store_record :: "string \<Rightarrow> task_record \<Rightarrow> task_processor \<Rightarrow> task_processor" where
  "store_record tid rec p =
     p\<lparr>tp_tasks := map (\<lambda>(k, r). if k = tid then (k, rec) else (k, r)) (tp_tasks p)\<rparr>"

definition finish_task ::
  "string \<Rightarrow> json result \<Rightarrow> (nat \<Rightarrow> int) \<Rightarrow> (nat \<Rightarrow> string) \<Rightarrow> task_processor \<Rightarrow> hook_call list \<times> task_processor" where
  "finish_task tid res clk stamp p =
     (case find_task_locked tid p of
        None \<Rightarrow> ([], p)
      | Some rec \<Rightarrow>
          if task_status (tk_task rec) \<noteq> Working then ([], p)
          else let rec' = finish_record (clk 0) (stamp 0) res rec in
            (emit_updates (tp_options p) (append_update_locked [] rec'),
             trim_completed_locked (clk 1) (store_record tid rec' p)))"

text \<open>What a worker runs for a queued job.\<close>

definition outcome_result :: "operation_outcome \<Rightarrow> json result" where
  "outcome_result out =
     (case out of
        Finished res \<Rightarrow> res
      | ThrowsException what \<Rightarrow>
          Inl (make_task_error InternalError ''task operation threw an exception'' what)
      | ThrowsUnknown \<Rightarrow>
          Inl (make_task_error InternalError ''task operation threw an unknown exception'' ''''))"

definition run_job :: "task_job \<Rightarrow> (nat \<Rightarrow> int) \<Rightarrow> (nat \<Rightarrow> string) \<Rightarrow> task_processor \<Rightarrow> hook_call list \<times> task_processor" where
  "run_job job = finish_task (job_task job) (outcome_result (job_operation job (job_cancellation job)))"

text \<open>
  \<open>submit_operation\<close> has up to four critical sections, and other threads may act between them: the
  record is inserted, its token is read back, the job is enqueued (under the executor's mutex), and if the
  executor refuses it the record is taken out again.
\<close>

definition new_task :: "task_processor_options \<Rightarrow> string \<Rightarrow> int64 \<Rightarrow> string \<Rightarrow> task" where
  "new_task options timestamp ttl tid =
     default_task\<lparr>task_id := tid, task_status := Working, task_created_at := timestamp,
       task_last_updated_at := timestamp, task_poll_interval := to_poll_interval options,
       task_ttl := Some ttl\<rparr>"

definition task_timeout :: "task_processor_options \<Rightarrow> task_operation_descriptor \<Rightarrow> int64 result" where
  "task_timeout options d =
     (case tod_task d of
        None \<Rightarrow> Inr (to_default_timeout options)
      | Some t \<Rightarrow>
          (case trp_ttl t of
             None \<Rightarrow> Inr (to_default_timeout options)
           | Some ttl \<Rightarrow>
               if sint ttl < 0
               then Inl (make_task_error InvalidRequest ''task ttl must be non-negative'' (tod_name d))
               else Inr ttl))"

definition insert_task :: "task \<Rightarrow> progress_token option \<Rightarrow> int64 \<Rightarrow> int \<Rightarrow> task_processor \<Rightarrow> task_processor" where
  "insert_task t token timeout now p =
     (let rec = \<lparr>tk_task = t, tk_progress_token = token, tk_started_at = now, tk_terminal_at = None,
                 tk_timeout = Some timeout, tk_cancellation = unat (tp_next_task_index p),
                 tk_cancelled = False, tk_result = None, tk_failure = None\<rparr>
      in p\<lparr>tp_next_task_index := tp_next_task_index p + 1,
           tp_tasks := (if find_task_locked (task_id t) p = None
                        then tp_tasks p @ [(task_id t, rec)] else tp_tasks p),
           tp_order := tp_order p @ [task_id t]\<rparr>)"

definition erase_task :: "string \<Rightarrow> task_processor \<Rightarrow> task_processor" where
  "erase_task tid p =
     p\<lparr>tp_tasks := al_erase tid (tp_tasks p), tp_order := removeAll tid (tp_order p)\<rparr>"

text \<open>The local variables of a submission.\<close>

record submission =
  su_task :: task
  su_progress_token :: "progress_token option"
  su_operation :: task_operation_handler

definition submit_insert ::
  "task_operation_descriptor \<Rightarrow> task_operation_handler option \<Rightarrow> (nat \<Rightarrow> int) \<Rightarrow> (nat \<Rightarrow> string) \<Rightarrow> task_processor \<Rightarrow>
   submission result \<times> task_processor" where
  "submit_insert d operation clk stamp p =
     (case operation of
        None \<Rightarrow> (Inl (make_task_error InvalidRequest ''task operation handler must be callable'' (tod_name d)), p)
      | Some operation \<Rightarrow>
          (case task_timeout (tp_options p) d of
             Inl e \<Rightarrow> (Inl e, p)
           | Inr timeout \<Rightarrow>
               let t = new_task (tp_options p) (stamp 0) timeout (make_task_id (tp_next_task_index p)) in
               (Inr \<lparr>su_task = t, su_progress_token = tod_progress_token d, su_operation = operation\<rparr>,
                insert_task t (tod_progress_token d) timeout (clk 0) p)))"

definition read_token :: "submission \<Rightarrow> task_processor \<Rightarrow> cancellation_token" where
  "read_token sub p =
     (case find_task_locked (task_id (su_task sub)) p of
        None \<Rightarrow> None
      | Some rec \<Rightarrow> Some (tk_cancellation rec))"

definition submit_enqueue :: "submission \<Rightarrow> cancellation_token \<Rightarrow> task_processor \<Rightarrow> unit result \<times> task_processor" where
  "submit_enqueue sub token p =
     (let job = \<lparr>job_task = task_id (su_task sub), job_operation = su_operation sub, job_cancellation = token\<rparr>;
          (res, e) = enqueue (Some job) (tp_executor p)
      in (res, p\<lparr>tp_executor := e\<rparr>))"

definition submit_rollback :: "submission \<Rightarrow> task_processor \<Rightarrow> task_processor" where
  "submit_rollback sub p = erase_task (task_id (su_task sub)) p"

definition submit_answer :: "task_processor_options \<Rightarrow> submission \<Rightarrow> create_task_result \<times> hook_call list" where
  "submit_answer options sub =
     (\<lparr>ctr_task = su_task sub, ctr_meta = None, ctr_extensions = empty_object\<rparr>,
      emit_updates options [\<lparr>tu_task = su_task sub, tu_progress_token = su_progress_token sub\<rparr>])"

text \<open>The whole call when no other thread comes between its sections.\<close>

definition submit_operation ::
  "task_operation_descriptor \<Rightarrow> task_operation_handler option \<Rightarrow> (nat \<Rightarrow> int) \<Rightarrow> (nat \<Rightarrow> string) \<Rightarrow> task_processor \<Rightarrow>
   create_task_result result \<times> hook_call list \<times> task_processor" where
  "submit_operation d operation clk stamp p =
     (case submit_insert d operation clk stamp p of
        (Inl e, p1) \<Rightarrow> (Inl e, [], p1)
      | (Inr sub, p1) \<Rightarrow>
          (case submit_enqueue sub (read_token sub p1) p1 of
             (Inl err, p2) \<Rightarrow> (Inl err, [], submit_rollback sub p2)
           | (Inr _, p2) \<Rightarrow> (case submit_answer (tp_options p2) sub of (res, hooks) \<Rightarrow> (Inr res, hooks, p2))))"

text \<open>A tool call that throws is caught by the job.\<close>

definition tool_operation :: "tool_result result attempt \<Rightarrow> operation_outcome" where
  "tool_operation out =
     (case out of
        Gives r \<Rightarrow> Finished (rbind r (\<lambda>res. Inr (tool_result_to_json res)))
      | Throwing what \<Rightarrow> ThrowsException what
      | ThrowingUnknown \<Rightarrow> ThrowsUnknown)"

definition submit_tool_call ::
  "schema_validator option \<Rightarrow> tool_registry \<Rightarrow> tool_call \<Rightarrow> session_context \<Rightarrow> (nat \<Rightarrow> int) \<Rightarrow> (nat \<Rightarrow> string) \<Rightarrow>
   task_processor \<Rightarrow> create_task_result result \<times> hook_call list \<times> task_processor" where
  "submit_tool_call validator tools call sc clk stamp p =
     submit_operation
       \<lparr>tod_name = tc_name call, tod_task = tc_task call,
        tod_progress_token = (case tc_meta call of None \<Rightarrow> None | Some meta \<Rightarrow> meta_progress_token meta)\<rparr>
       (Some (\<lambda>cancellation. tool_operation (tool_call_full validator call sc cancellation tools)))
       clk stamp p"

text \<open>
  \<open>list_tasks\<close>. The page bounds are \<open>std::size_t\<close>; when \<open>start + page_size\<close> wraps below \<open>start\<close>,
  reserving \<open>end - start\<close> elements throws.
\<close>

definition list_tasks ::
  "task_list_params \<Rightarrow> (nat \<Rightarrow> int) \<Rightarrow> (nat \<Rightarrow> string) \<Rightarrow> task_processor \<Rightarrow>
   task_list_result parsed \<times> hook_call list \<times> task_processor" where
  "list_tasks params clk stamp p =
     (case parse_task_list_cursor (tlp_cursor params) of
        Inl e \<Rightarrow> (Returns (Inl e), [], p)
      | Inr cursor \<Rightarrow>
          let (updates, p1) = refresh_locked clk stamp p;
              total_n = word_of_nat (length (tp_order p1)) :: size_t;
              first_n = min cursor total_n;
              page_size = (if to_list_page_size (tp_options p) = 0 then total_n
                           else to_list_page_size (tp_options p));
              end_n = min (first_n + page_size) total_n
          in if end_n < first_n then (Throws, [], p1)
             else
               (Returns (Inr
                  \<lparr>tlr_tasks = map tk_task (List.map_filter (\<lambda>tid. find_task_locked tid p1)
                     (take (unat end_n - unat first_n) (drop (unat first_n) (tp_order p1)))),
                   tlr_next_cursor = (if end_n < total_n then Some (nat_to_string (unat end_n)) else None),
                   tlr_total = Some total_n, tlr_meta = None, tlr_extensions = empty_object\<rparr>),
                emit_updates (tp_options p) updates, p1))"

definition get_task ::
  "task_get_params \<Rightarrow> (nat \<Rightarrow> int) \<Rightarrow> (nat \<Rightarrow> string) \<Rightarrow> task_processor \<Rightarrow>
   task result \<times> hook_call list \<times> task_processor" where
  "get_task params clk stamp p =
     (let (updates, p1) = refresh_locked clk stamp p in
      (case find_task_locked (tgp_task_id params) p1 of
         None \<Rightarrow> Inl (task_not_found_error (tgp_task_id params))
       | Some rec \<Rightarrow> Inr (tk_task rec),
       emit_updates (tp_options p) updates, p1))"

text \<open>
  \<open>cancel_task\<close> reads the snapshot through the record pointer after \<open>trim_completed_locked\<close> may
  have erased the record: that read of freed memory is an outcome of the model.
\<close>

datatype 'a checked = UseAfterFree | Checked 'a

definition cancel_record :: "string \<Rightarrow> int \<Rightarrow> string \<Rightarrow> task_record \<Rightarrow> task_record" where
  "cancel_record tid now timestamp rec =
     rec\<lparr>tk_cancelled := True,
         tk_task := (tk_task rec)\<lparr>task_status := Cancelled, task_status_message := Some ''Operation cancelled'',
           task_last_updated_at := timestamp\<rparr>,
         tk_terminal_at := Some now,
         tk_failure := Some (make_task_error InternalError ''Operation cancelled'' tid),
         tk_result := None\<rparr>"

definition cancel_task ::
  "task_cancel_params \<Rightarrow> (nat \<Rightarrow> int) \<Rightarrow> (nat \<Rightarrow> string) \<Rightarrow> task_processor \<Rightarrow>
   task result checked \<times> hook_call list \<times> task_processor" where
  "cancel_task params clk stamp p =
     (let tid = tgp_task_id params; (updates, p1) = refresh_locked clk stamp p in
      case find_task_locked tid p1 of
        None \<Rightarrow> (Checked (Inl (task_not_found_error tid)), emit_updates (tp_options p) updates, p1)
      | Some rec \<Rightarrow>
          if is_terminal (task_status (tk_task rec))
          then (Checked (Inr (tk_task rec)), emit_updates (tp_options p) updates, p1)
          else
            let rec' = cancel_record tid (clk 2) (stamp 1) rec;
                p2 = trim_completed_locked (clk 3) (store_record tid rec' p1)
            in (case find_task_locked tid p2 of
                  None \<Rightarrow> UseAfterFree
                | Some _ \<Rightarrow> Checked (Inr (tk_task rec')),
                emit_updates (tp_options p) (append_update_locked updates rec'), p2))"

definition task_result ::
  "task_result_params \<Rightarrow> (nat \<Rightarrow> int) \<Rightarrow> (nat \<Rightarrow> string) \<Rightarrow> task_processor \<Rightarrow>
   json result \<times> hook_call list \<times> task_processor" where
  "task_result params clk stamp p =
     (let tid = tgp_task_id params; (updates, p1) = refresh_locked clk stamp p in
      (case find_task_locked tid p1 of
         None \<Rightarrow> Inl (task_not_found_error tid)
       | Some rec \<Rightarrow>
           (case tk_result rec of
              Some j \<Rightarrow> Inr j
            | None \<Rightarrow>
                (case tk_failure rec of
                   Some e \<Rightarrow> Inl e
                 | None \<Rightarrow> Inl (make_task_error InvalidRequest ''task result is not available'' tid))),
       emit_updates (tp_options p) updates, p1))"

definition stop_processor :: "task_processor \<Rightarrow> task_processor" where
  "stop_processor p =
     (case shutdown_locked (tp_executor p) of None \<Rightarrow> p | Some e \<Rightarrow> p\<lparr>tp_executor := clear_timers e\<rparr>)"

section \<open>Cursors\<close>

abbreviation dec_step :: "nat \<Rightarrow> char \<Rightarrow> nat" where
  "dec_step v c \<equiv> v * 10 + digit_value c"

lemma dec_step_mono: "v \<le> foldl dec_step v s"
proof (induction s arbitrary: v)
  case (Cons c s)
  have "v \<le> dec_step v c" by simp
  also have "\<dots> \<le> foldl dec_step (dec_step v c) s" by (rule Cons)
  finally show ?case by simp
qed simp

lemma cursor_digit_guard:
  fixes val :: size_t
  assumes "d < 10"
  shows "val > (- 1 - word_of_nat d) div 10 \<longleftrightarrow> unat val * 10 + d \<ge> 2 ^ 64"
    and "unat val * 10 + d < 2 ^ 64 \<Longrightarrow> unat (val * 10 + word_of_nat d) = unat val * 10 + d"
proof -
  have d: "unat (word_of_nat d :: size_t) = d"
    using assms by (simp add: unat_of_nat)
  have "unat (- 1 - word_of_nat d :: size_t) = 2 ^ 64 - 1 - d"
    using assms by (simp add: unat_sub_if' d unsigned_minus_1_eq_mask mask_eq_exp_minus_1)
  then show "val > (- 1 - word_of_nat d) div 10 \<longleftrightarrow> unat val * 10 + d \<ge> 2 ^ 64"
    using assms by (auto simp: word_less_nat_alt unat_div)
  show "unat val * 10 + d < 2 ^ 64 \<Longrightarrow> unat (val * 10 + word_of_nat d) = unat val * 10 + d"
    by (simp add: unat_word_ariths d)
qed

lemma parse_cursor_digits_iff:
  "parse_cursor_digits cursor val s = Inr w \<longleftrightarrow>
     (\<forall>c\<in>set s. is_digit c) \<and> foldl dec_step (unat val) s < 2 ^ 64 \<and> unat w = foldl dec_step (unat val) s"
proof (induction s arbitrary: val)
  case (Cons c s)
  show ?case
  proof (cases "is_digit c")
    case True
    then have d: "of_char c - 48 < (10 :: nat)" "digit_value c = of_char c - 48"
      using digit_value_less [OF True] by (simp_all add: digit_value_def)
    have guard: "\<not> (c < CHR ''0'' \<or> c > CHR ''9'')"
      using True by (auto simp: is_digit_def)
    show ?thesis
      using Cons [of "val * 10 + word_of_nat (of_char c - 48)"] guard True
        cursor_digit_guard [OF d(1), of val] dec_step_mono [of "dec_step (unat val) c" s]
      by (auto simp: Let_def d(2))
  qed (auto simp: is_digit_def)
qed (use unsigned_less [of w, where 'a = nat] in \<open>auto simp: word_unat_eq_iff\<close>)

lemma parse_cursor_digits_error:
  "parse_cursor_digits cursor val s = Inl e \<Longrightarrow> err_code e = error_code InvalidParams \<and> err_detail e = cursor"
  by (induction s arbitrary: val) (auto simp: make_task_error_def Let_def split: if_splits)

text \<open>a tasks/list cursor is accepted exactly when it is absent, empty or a string of decimal
  digits whose value fits into 64 bits, and it then denotes that value: the overflow guard of the
  digit loop is exact. Every rejection is an InvalidParams error that carries the cursor.\<close>

theorem parse_task_list_cursor_exact:
  "(parse_task_list_cursor (Some s) = Inr w \<longleftrightarrow>
      (\<forall>c\<in>set s. is_digit c) \<and> dec_value s < 2 ^ 64 \<and> unat w = dec_value s) \<and>
   parse_task_list_cursor None = Inr 0 \<and>
   (parse_task_list_cursor (Some s) = Inl e \<longrightarrow>
      err_code e = error_code InvalidParams \<and> err_detail e = s)"
  using parse_cursor_digits_iff [of s 0 s w] parse_cursor_digits_error [of s 0 s e]
  by (auto simp: parse_task_list_cursor_def dec_value_def unat_eq_0)

section \<open>Retention\<close>

text \<open>The reference: a list without its first \<open>k\<close> elements that satisfy \<open>P\<close>.\<close>

fun drop_first :: "nat \<Rightarrow> ('a \<Rightarrow> bool) \<Rightarrow> 'a list \<Rightarrow> 'a list" where
  "drop_first k P [] = []"
| "drop_first k P (x # xs) =
     (if k = 0 then x # xs else if P x then drop_first (k - 1) P xs else x # drop_first k P xs)"

lemma drop_first_0 [simp]: "drop_first 0 P xs = xs"
  by (cases xs) auto

lemma filter_drop_first: "filter P (drop_first k P xs) = drop k (filter P xs)"
  by (induction k P xs rule: drop_first.induct) (auto simp: drop_Cons')

lemma filter_not_drop_first: "filter (\<lambda>x. \<not> P x) (drop_first k P xs) = filter (\<lambda>x. \<not> P x) xs"
  by (induction k P xs rule: drop_first.induct) auto

lemma in_drop_first:
  "x \<in> set (drop_first k P xs) \<longleftrightarrow> (if P x then x \<in> set (drop k (filter P xs)) else x \<in> set xs)"
proof (cases "P x")
  case True
  have "x \<in> set (drop_first k P xs) \<longleftrightarrow> x \<in> set (filter P (drop_first k P xs))" using True by simp
  then show ?thesis using True by (simp only: filter_drop_first if_True)
next
  case False
  have "x \<in> set (drop_first k P xs) \<longleftrightarrow> x \<in> set (filter (\<lambda>x. \<not> P x) (drop_first k P xs))" using False by simp
  then show ?thesis using False by (simp only: filter_not_drop_first) simp
qed

lemma set_drop_first: "set (drop_first k P xs) \<subseteq> set xs"
  proof
  fix x assume "x \<in> set (drop_first k P xs)"
  then show "x \<in> set xs"
    using in_set_dropD [of x k "filter P xs"] by (simp add: in_drop_first split: if_splits)
qed

lemma distinct_drop_first: "distinct xs \<Longrightarrow> distinct (drop_first k P xs)"
  proof (induction k P xs rule: drop_first.induct)
  case (2 k P x xs)
  then show ?case using set_drop_first [of k P xs] by auto
qed simp

lemma drop_first_cong: "(\<And>x. x \<in> set xs \<Longrightarrow> P x = Q x) \<Longrightarrow> drop_first k P xs = drop_first k Q xs"
  by (induction k P xs rule: drop_first.induct) auto

text \<open>What is left of the map when the ids \<open>order\<close> were examined and \<open>kept\<close> of them stay.\<close>

definition keep_tasks :: "string list \<Rightarrow> string list \<Rightarrow> (string \<times> task_record) list \<Rightarrow> (string \<times> task_record) list" where
  "keep_tasks order kept tasks = filter (\<lambda>kv. fst kv \<notin> set order \<or> fst kv \<in> set kept) tasks"

lemma keep_tasks_all [simp]: "keep_tasks order order tasks = tasks"
  by (simp add: keep_tasks_def)

lemma keep_tasks_erase:
  "tid \<notin> set kept \<Longrightarrow> tid \<notin> set tids \<Longrightarrow>
   keep_tasks tids kept (al_erase tid tasks) = keep_tasks (tid # tids) kept tasks"
  by (auto simp: keep_tasks_def al_erase_def intro!: filter_cong)

lemma keep_tasks_Cons:
  "tid \<notin> set tids \<Longrightarrow> keep_tasks (tid # tids) (tid # kept) tasks = keep_tasks tids kept tasks"
  by (auto simp: keep_tasks_def intro!: filter_cong)

lemma terminal_id_erase: "k \<noteq> tid \<Longrightarrow> terminal_id (al_erase tid tasks) k = terminal_id tasks k"
  by (simp add: terminal_id_def)

lemma expired_id_erase: "k \<noteq> tid \<Longrightarrow> expired_id now ttl (al_erase tid tasks) k = expired_id now ttl tasks k"
  by (simp add: expired_id_def)

lemma trim_expired_eq:
  "distinct order \<Longrightarrow>
   trim_expired now ttl tasks order =
     (keep_tasks order (filter (\<lambda>k. \<not> expired_id now ttl tasks k) order) tasks,
      filter (\<lambda>k. \<not> expired_id now ttl tasks k) order)"
proof (induction now ttl tasks order rule: trim_expired.induct)
  case (2 now ttl tasks tid tids)
  have "filter (\<lambda>k. \<not> expired_id now ttl (al_erase tid tasks) k) tids =
        filter (\<lambda>k. \<not> expired_id now ttl tasks k) tids"
    using 2(3) by (intro filter_cong refl) (metis distinct.simps(2) expired_id_erase)
  with 2 show ?case
    by (auto simp: keep_tasks_erase keep_tasks_Cons)
qed simp

lemma trim_excess_eq:
  "distinct order \<Longrightarrow>
   trim_excess m n tasks order =
     (keep_tasks order (drop_first (n - m) (terminal_id tasks) order) tasks,
      drop_first (n - m) (terminal_id tasks) order)"
proof (induction m n tasks order rule: trim_excess.induct)
  case (2 m n tasks tid tids)
  have same: "drop_first k (terminal_id (al_erase tid tasks)) tids = drop_first k (terminal_id tasks) tids" for k
    using 2(3) by (intro drop_first_cong) (metis distinct.simps(2) terminal_id_erase)
  have "n - 1 - m = n - m - 1" by simp
  with 2 same show ?case
    using set_drop_first [of "n - m - 1" "terminal_id tasks" tids]
    by (auto simp: keep_tasks_Cons intro!: keep_tasks_erase)
qed simp

text \<open>The two containers agree, and hold each id once.\<close>

definition store_ok :: "task_processor \<Rightarrow> bool" where
  "store_ok p \<longleftrightarrow> distinct (map fst (tp_tasks p)) \<and> distinct (tp_order p) \<and>
     set (tp_order p) = fst ` set (tp_tasks p)"

text \<open>Whether a record is terminal, by id, and how many are.\<close>

abbreviation terminal_in :: "task_processor \<Rightarrow> string \<Rightarrow> bool" where
  "terminal_in p \<equiv> terminal_id (tp_tasks p)"

abbreviation terminals :: "task_processor \<Rightarrow> nat" where
  "terminals p \<equiv> terminal_count (tp_tasks p) (tp_order p)"

definition unexpired :: "int \<Rightarrow> task_processor \<Rightarrow> string list" where
  "unexpired now p =
     (case to_completed_task_ttl (tp_options p) of
        None \<Rightarrow> tp_order p
      | Some ttl \<Rightarrow> filter (\<lambda>k. \<not> expired_id now ttl (tp_tasks p) k) (tp_order p))"

definition excess :: "int \<Rightarrow> task_processor \<Rightarrow> nat" where
  "excess now p =
     terminal_count (tp_tasks p) (unexpired now p) - to_max_completed_tasks (tp_options p)"

definition retained :: "int \<Rightarrow> task_processor \<Rightarrow> string list" where
  "retained now p = drop_first (excess now p) (terminal_id (tp_tasks p)) (unexpired now p)"

lemma set_unexpired: "set (unexpired now p) \<subseteq> set (tp_order p)"
  by (auto simp: unexpired_def split: option.splits)

lemma distinct_unexpired: "distinct (tp_order p) \<Longrightarrow> distinct (unexpired now p)"
  by (simp add: unexpired_def split: option.splits)

lemma set_retained: "set (retained now p) \<subseteq> set (tp_order p)"
  using set_drop_first set_unexpired unfolding retained_def by fast

lemma map_of_keep_tasks:
  "map_of (keep_tasks order kept tasks) k = (if k \<notin> set order \<or> k \<in> set kept then map_of tasks k else None)"
  unfolding keep_tasks_def by (rule map_of_filter_key)

lemma map_of_keep: "map_of (filter (\<lambda>kv. fst kv \<in> A) tasks) k = (if k \<in> A then map_of tasks k else None)"
  by (rule map_of_filter_key)

lemma trim_completed_eq:
  assumes "store_ok p"
  shows "trim_completed_locked now p =
    p\<lparr>tp_tasks := filter (\<lambda>kv. fst kv \<in> set (retained now p)) (tp_tasks p), tp_order := retained now p\<rparr>"
proof -
  let ?u = "unexpired now p" and ?tasks = "keep_tasks (tp_order p) (unexpired now p) (tp_tasks p)"
  have d: "distinct (tp_order p)" "distinct ?u"
    using assms distinct_unexpired by (auto simp: store_ok_def)
  have first: "(case to_completed_task_ttl (tp_options p) of
               None \<Rightarrow> (tp_tasks p, tp_order p)
             | Some ttl \<Rightarrow> trim_expired now ttl (tp_tasks p) (tp_order p)) = (?tasks, ?u)"
    by (simp add: unexpired_def trim_expired_eq [OF d(1)] split: option.splits)
  have same: "terminal_id ?tasks k = terminal_id (tp_tasks p) k" if "k \<in> set ?u" for k
    using that by (simp add: terminal_id_def map_of_keep_tasks)
  then have n: "terminal_count ?tasks ?u = terminal_count (tp_tasks p) ?u"
    by (simp add: terminal_count_def cong: filter_cong)
  have kept: "drop_first (excess now p) (terminal_id ?tasks) ?u = retained now p"
    unfolding retained_def using same by (rule drop_first_cong)
  have "keep_tasks ?u (retained now p) ?tasks = filter (\<lambda>kv. fst kv \<in> set (retained now p)) (tp_tasks p)"
    using set_drop_first [of "excess now p" "terminal_in p" ?u] set_unexpired [of now p] assms
    unfolding keep_tasks_def retained_def store_ok_def by (auto intro!: filter_cong)
  then show ?thesis
    using kept by (simp add: trim_completed_locked_def first trim_excess_eq [OF d(2)] n excess_def)
qed

lemma find_trim:
  "store_ok p \<Longrightarrow> find_task_locked k (trim_completed_locked now p) =
     (if k \<in> set (retained now p) then find_task_locked k p else None)"
  by (simp add: trim_completed_eq find_task_locked_def map_of_keep)

lemma store_ok_trim: "store_ok p \<Longrightarrow> store_ok (trim_completed_locked now p)"
  using set_retained [of now p] distinct_drop_first [OF distinct_unexpired]
  by (auto simp: trim_completed_eq store_ok_def retained_def distinct_map_filter image_iff)

lemma find_in_order: "store_ok p \<Longrightarrow> find_task_locked k p \<noteq> None \<longleftrightarrow> k \<in> set (tp_order p)"
  by (simp add: store_ok_def find_task_locked_def map_of_eq_None_iff)

lemma trim_options [simp]:
  "tp_options (trim_completed_locked now p) = tp_options p"
  "tp_next_task_index (trim_completed_locked now p) = tp_next_task_index p"
  "tp_executor (trim_completed_locked now p) = tp_executor p"
  by (simp_all add: trim_completed_locked_def Let_def split: prod.splits)

lemma terminal_in_trim:
  "store_ok p \<Longrightarrow> terminal_in (trim_completed_locked now p) k \<longleftrightarrow> k \<in> set (retained now p) \<and> terminal_in p k"
  by (simp add: trim_completed_eq terminal_id_def map_of_keep)

lemma filter_terminal_retained:
  "filter (terminal_in p) (retained now p) = drop (excess now p) (filter (terminal_in p) (unexpired now p))"
  unfolding retained_def by (rule filter_drop_first)

lemma terminals_trim:
  assumes "store_ok p"
  shows "terminals (trim_completed_locked now p) \<le> to_max_completed_tasks (tp_options p)"
proof -
  have "filter (terminal_in (trim_completed_locked now p)) (retained now p) = filter (terminal_in p) (retained now p)"
    using assms by (auto simp: terminal_in_trim intro!: filter_cong)
  then have "terminals (trim_completed_locked now p) = length (filter (terminal_in p) (retained now p))"
    using assms by (simp add: terminal_count_def trim_completed_eq)
  also have "\<dots> = terminal_count (tp_tasks p) (unexpired now p) - excess now p"
    by (simp add: filter_terminal_retained terminal_count_def)
  finally show ?thesis by (simp add: excess_def)
qed

text \<open>Trimming keeps every record that is not terminal, never changes a record, leaves at
  most max_completed_tasks terminal ones, and drops, of those that have not expired, the
  ones whose tasks were created first, only as many as exceed the limit.\<close>

theorem trim_retention:
  assumes "store_ok p"
  shows "find_task_locked k (trim_completed_locked now p) =
           (if k \<in> set (tp_order (trim_completed_locked now p)) then find_task_locked k p else None) \<and>
         (k \<in> set (tp_order p) \<and> \<not> terminal_in p k \<longrightarrow> k \<in> set (tp_order (trim_completed_locked now p))) \<and>
         terminals (trim_completed_locked now p) \<le> to_max_completed_tasks (tp_options p) \<and>
         filter (terminal_in p) (tp_order (trim_completed_locked now p)) =
           drop (terminal_count (tp_tasks p) (unexpired now p) - to_max_completed_tasks (tp_options p))
             (filter (terminal_in p) (unexpired now p))"
proof (intro conjI impI)
  assume k: "k \<in> set (tp_order p) \<and> \<not> terminal_in p k"
  then have "k \<in> set (unexpired now p)"
    by (auto simp: unexpired_def expired_id_def terminal_id_def split: option.splits)
  with k show "k \<in> set (tp_order (trim_completed_locked now p))"
    using assms by (simp add: trim_completed_eq retained_def in_drop_first)
qed (use assms terminals_trim filter_terminal_retained in
      \<open>simp_all add: trim_completed_eq find_task_locked_def map_of_keep excess_def terminals_trim\<close>)

section \<open>The lifecycle of a task\<close>

fun record_ok :: "string \<Rightarrow> task_record \<Rightarrow> bool" where
  "record_ok k rec \<longleftrightarrow> task_id (tk_task rec) = k \<and>
     (case task_status (tk_task rec) of
        Working \<Rightarrow> tk_terminal_at rec = None \<and> tk_result rec = None \<and> tk_failure rec = None \<and> \<not> tk_cancelled rec
      | InputRequired \<Rightarrow> False
      | Completed \<Rightarrow> tk_terminal_at rec \<noteq> None \<and> tk_result rec \<noteq> None \<and> tk_failure rec = None
      | Failed \<Rightarrow> tk_terminal_at rec \<noteq> None \<and> tk_result rec = None \<and> tk_failure rec \<noteq> None
      | Cancelled \<Rightarrow> tk_terminal_at rec \<noteq> None \<and> tk_result rec = None \<and> tk_failure rec \<noteq> None \<and> tk_cancelled rec)"

text \<open>Ids are numbered from 1; \<open>records_ok\<close> is the part of the invariant a trim restores the rest of.\<close>

definition records_ok :: "task_processor \<Rightarrow> bool" where
  "records_ok p \<longleftrightarrow> store_ok p \<and> tp_next_task_index p \<noteq> 0 \<and>
     (\<forall>k rec. find_task_locked k p = Some rec \<longrightarrow> record_ok k rec) \<and>
     (\<forall>k\<in>set (tp_order p). \<exists>i. i < unat (tp_next_task_index p) \<and> k = ''task-'' @ nat_to_string i)"

definition processor_inv :: "task_processor \<Rightarrow> bool" where
  "processor_inv p \<longleftrightarrow> records_ok p \<and> terminals p \<le> to_max_completed_tasks (tp_options p)"

text \<open>Both the refresh and a write through a record pointer update the records in place.\<close>

definition update_records :: "(string \<Rightarrow> task_record \<Rightarrow> task_record) \<Rightarrow> task_processor \<Rightarrow> task_processor" where
  "update_records f p = p\<lparr>tp_tasks := map (\<lambda>(k, rec). (k, f k rec)) (tp_tasks p)\<rparr>"

lemma update_records_simps [simp]:
  "tp_options (update_records f p) = tp_options p"
  "tp_order (update_records f p) = tp_order p"
  "tp_next_task_index (update_records f p) = tp_next_task_index p"
  "tp_executor (update_records f p) = tp_executor p"
  by (simp_all add: update_records_def)

lemma find_update_records: "find_task_locked k (update_records f p) = map_option (f k) (find_task_locked k p)"
proof -
  have "map_of (map (\<lambda>(k, rec). (k, f k rec)) tasks) k = map_option (f k) (map_of tasks k)" for tasks
    by (induction tasks) auto
  then show ?thesis by (simp add: find_task_locked_def update_records_def)
qed

lemma store_ok_update_records: "store_ok (update_records f p) = store_ok p"
  by (simp add: store_ok_def update_records_def comp_def case_prod_beta image_image)

lemma records_ok_update_records:
  "records_ok p \<Longrightarrow>
   (\<And>k rec. find_task_locked k p = Some rec \<Longrightarrow> record_ok k rec \<Longrightarrow> record_ok k (f k rec)) \<Longrightarrow>
   records_ok (update_records f p)"
  unfolding records_ok_def by (simp add: store_ok_update_records find_update_records del: record_ok.simps) blast

lemma processor_inv_trim: "records_ok p \<Longrightarrow> processor_inv (trim_completed_locked now p)"
proof -
  assume p: "records_ok p"
  then have ok: "store_ok p" by (simp add: records_ok_def)
  have "tp_order (trim_completed_locked now p) = retained now p" by (simp add: trim_completed_eq [OF ok])
  with p show ?thesis
    using set_retained [of now p] terminals_trim [OF ok, of now] store_ok_trim [OF ok, of now]
    by (auto simp: processor_inv_def records_ok_def find_trim [OF ok] simp del: record_ok.simps split: if_splits)
qed

lemma refresh_tasks_eq:
  "snd (refresh_tasks now timestamp updates tasks) =
     map (\<lambda>(k, rec). (k, if timed_out now rec then time_out now timestamp rec else rec)) tasks"
  by (induction now timestamp updates tasks rule: refresh_tasks.induct) (auto simp: Let_def split: prod.splits)

lemma refresh_locked_eq:
  "snd (refresh_locked clk stamp p) =
     trim_completed_locked (clk 1)
       (update_records (\<lambda>k rec. if timed_out (clk 0) rec then time_out (clk 0) (stamp 0) rec else rec) p)"
  using refresh_tasks_eq [of "clk 0" "stamp 0" "[]" "tp_tasks p"]
  by (cases "refresh_tasks (clk 0) (stamp 0) [] (tp_tasks p)") (simp add: refresh_locked_def update_records_def)

lemma store_record_eq: "store_record tid rec p = update_records (\<lambda>k r. if k = tid then rec else r) p"
  by (simp add: store_record_def update_records_def if_distrib cong: if_cong)

lemma record_ok_time_out: "timed_out now rec \<Longrightarrow> record_ok k rec \<Longrightarrow> record_ok k (time_out now timestamp rec)"
  by (simp add: time_out_def timed_out_def)

lemma record_ok_finish: "record_ok k rec \<Longrightarrow> record_ok k (finish_record now timestamp res rec)"
  by (simp add: finish_record_def split: sum.splits)

lemma record_ok_cancel: "record_ok k rec \<Longrightarrow> record_ok k (cancel_record tid now timestamp rec)"
  by (simp add: cancel_record_def)

lemma processor_inv_refresh: "processor_inv p \<Longrightarrow> processor_inv (snd (refresh_locked clk stamp p))"
  unfolding refresh_locked_eq
  by (intro processor_inv_trim records_ok_update_records)
     (auto simp: processor_inv_def record_ok_time_out simp del: record_ok.simps)

lemma processor_inv_write:
  "processor_inv p \<Longrightarrow> record_ok tid rec \<Longrightarrow> processor_inv (trim_completed_locked now (store_record tid rec p))"
  unfolding store_record_eq
  by (intro processor_inv_trim records_ok_update_records) (auto simp: processor_inv_def simp del: record_ok.simps)

lemma processor_inv_record: "processor_inv p \<Longrightarrow> find_task_locked k p = Some rec \<Longrightarrow> record_ok k rec"
  by (simp add: processor_inv_def records_ok_def del: record_ok.simps)

lemma processor_inv_finish: "processor_inv p \<Longrightarrow> processor_inv (snd (finish_task tid res clk stamp p))"
  by (auto simp: finish_task_def Let_def simp del: record_ok.simps split: option.splits
      intro!: processor_inv_write record_ok_finish processor_inv_record)

lemma processor_inv_cancel: "processor_inv p \<Longrightarrow> processor_inv (snd (snd (cancel_task params clk stamp p)))"
proof -
  assume "processor_inv p"
  then have "processor_inv (snd (refresh_locked clk stamp p))" by (rule processor_inv_refresh)
  then show ?thesis
    by (auto simp: cancel_task_def Let_def simp del: record_ok.simps split: option.splits prod.splits
        intro!: processor_inv_write record_ok_cancel elim: processor_inv_record)
qed

section \<open>Submission\<close>

lemma make_task_id_fresh: "records_ok p \<Longrightarrow> make_task_id (tp_next_task_index p) \<notin> set (tp_order p)"
  by (auto simp: records_ok_def make_task_id_def)

lemma find_fresh: "records_ok p \<Longrightarrow> find_task_locked (make_task_id (tp_next_task_index p)) p = None"
  using make_task_id_fresh find_in_order records_ok_def by blast

lemma unat_next_index: "tp_next_task_index p + 1 \<noteq> 0 \<Longrightarrow> unat (tp_next_task_index p + 1) = unat (tp_next_task_index p) + 1"
  by (simp add: unatSuc add.commute)

lemma find_insert_task:
  "find_task_locked (task_id t) p = None \<Longrightarrow>
   find_task_locked k (insert_task t token timeout now p) =
     (if k = task_id t
      then Some \<lparr>tk_task = t, tk_progress_token = token, tk_started_at = now, tk_terminal_at = None,
                 tk_timeout = Some timeout, tk_cancellation = unat (tp_next_task_index p),
                 tk_cancelled = False, tk_result = None, tk_failure = None\<rparr>
      else find_task_locked k p)"
  by (auto simp: insert_task_def find_task_locked_def map_add_def split: option.splits)

lemma insert_task_simps:
  "tp_options (insert_task t token timeout now p) = tp_options p"
  "tp_executor (insert_task t token timeout now p) = tp_executor p"
  "tp_order (insert_task t token timeout now p) = tp_order p @ [task_id t]"
  "tp_next_task_index (insert_task t token timeout now p) = tp_next_task_index p + 1"
  by (simp_all add: insert_task_def Let_def)

lemma terminal_in_eq:
  "terminal_in p k \<longleftrightarrow> (\<exists>rec. find_task_locked k p = Some rec \<and> is_terminal (task_status (tk_task rec)))"
  by (simp add: terminal_id_def find_task_locked_def split: option.splits)

lemma processor_inv_insert:
  assumes "processor_inv p" and t: "task_id t = make_task_id (tp_next_task_index p)" "task_status t = Working"
    and "tp_next_task_index p + 1 \<noteq> 0"
  shows "processor_inv (insert_task t token timeout now p)"
proof -
  let ?p = "insert_task t token timeout now p"
  have p: "records_ok p" "terminals p \<le> to_max_completed_tasks (tp_options p)"
    using assms(1) by (simp_all add: processor_inv_def)
  have fresh: "find_task_locked (task_id t) p = None" "task_id t \<notin> set (tp_order p)"
    using p find_fresh make_task_id_fresh t(1) by simp_all
  have keys: "task_id t \<notin> fst ` set (tp_tasks p)"
    using fresh(1) by (simp add: find_task_locked_def map_of_eq_None_iff)
  then have store: "store_ok ?p"
    using p(1) fresh by (auto simp: records_ok_def store_ok_def insert_task_def Let_def)
  have ids: "\<exists>i. i < unat (tp_next_task_index ?p) \<and> k = ''task-'' @ nat_to_string i" if "k \<in> set (tp_order ?p)" for k
    using that p(1) assms(4) t(1) unat_next_index [of p]
    by (fastforce simp: insert_task_simps records_ok_def make_task_id_def intro: less_SucI)
  have "record_ok k rec" if "find_task_locked k ?p = Some rec" for k rec
    using that p(1) t(2) by (auto simp: find_insert_task [OF fresh(1)] records_ok_def split: if_splits)
  moreover have "terminals ?p = terminals p"
  proof -
    have "terminal_in ?p k \<longleftrightarrow> terminal_in p k" for k
      using fresh(1) t(2) by (auto simp: terminal_in_eq find_insert_task)
    then have "terminal_in ?p = terminal_in p" by (rule ext)
    moreover have "\<not> terminal_in p (task_id t)" using fresh(1) by (simp add: terminal_in_eq)
    ultimately show ?thesis by (simp add: terminal_count_def insert_task_simps)
  qed
  ultimately show ?thesis
    using store ids p assms(4) by (simp add: processor_inv_def records_ok_def insert_task_simps del: record_ok.simps)
qed

text \<open>The first section, by cases.\<close>

lemma submit_insert_cases:
  assumes "submit_insert d operation clk stamp p = (r, p')"
  obtains (refused) e where "r = Inl e" "p' = p"
  | (inserted) op timeout t where "operation = Some op" "task_timeout (tp_options p) d = Inr timeout"
      "task_id t = make_task_id (tp_next_task_index p)" "task_status t = Working"
      "r = Inr \<lparr>su_task = t, su_progress_token = tod_progress_token d, su_operation = op\<rparr>"
      "p' = insert_task t (tod_progress_token d) timeout (clk 0) p"
proof (cases operation)
  case None
  with assms show ?thesis by (intro refused) (auto simp: submit_insert_def)
next
  case (Some op)
  show ?thesis
  proof (cases "task_timeout (tp_options p) d")
    case (Inl e)
    with assms Some show ?thesis by (intro refused) (auto simp: submit_insert_def)
  next
    case (Inr timeout)
    with assms Some show ?thesis
      by (intro inserted [OF Some Inr, of "new_task (tp_options p) (stamp 0) timeout (make_task_id (tp_next_task_index p))"])
        (auto simp: submit_insert_def Let_def, simp_all add: new_task_def)
  qed
qed

lemma find_erase_task: "find_task_locked k (erase_task tid p) = (if k = tid then None else find_task_locked k p)"
  by (simp add: find_task_locked_def erase_task_def)

lemma erase_task_simps:
  "tp_options (erase_task tid p) = tp_options p"
  "tp_executor (erase_task tid p) = tp_executor p"
  "tp_order (erase_task tid p) = removeAll tid (tp_order p)"
  "tp_next_task_index (erase_task tid p) = tp_next_task_index p"
  by (simp_all add: erase_task_def)

lemma store_ok_erase: "store_ok p \<Longrightarrow> store_ok (erase_task tid p)"
  by (auto simp: store_ok_def erase_task_def al_erase_def distinct_map_filter distinct_removeAll)

lemma processor_inv_erase:
  assumes "processor_inv p"
  shows "processor_inv (erase_task tid p)"
proof -
  have p: "records_ok p" "terminals p \<le> to_max_completed_tasks (tp_options p)"
    using assms by (simp_all add: processor_inv_def)
  have "terminals (erase_task tid p) \<le> terminals p"
  proof -
    have "terminal_in (erase_task tid p) k \<longleftrightarrow> k \<noteq> tid \<and> terminal_in p k" for k
      by (simp add: terminal_in_eq find_erase_task)
    then have "filter (terminal_in (erase_task tid p)) (removeAll tid (tp_order p)) = removeAll tid (filter (terminal_in p) (tp_order p))"
      by (auto simp: removeAll_filter_not_eq intro!: filter_cong)
    then show ?thesis by (simp add: terminal_count_def erase_task_simps length_removeAll_less_eq)
  qed
  moreover have "records_ok (erase_task tid p)"
    using p(1) store_ok_erase [of p tid]
    by (auto simp: records_ok_def find_erase_task erase_task_simps simp del: record_ok.simps split: if_splits)
  ultimately show ?thesis using p(2) by (simp add: processor_inv_def erase_task_simps)
qed

section \<open>The processor as a state machine\<close>

text \<open>
  The processor, the jobs its workers are running and the calls of \<open>submit_operation\<close> that are between
  two of their sections. Every critical section is a step, so all interleavings of them are runs. An operation
  runs concurrently with the others and its result may depend on when it saw a cancellation, so a
  job may finish with any result. The counter of task ids would wrap only after \<open>2 ^ 64 - 1\<close>
  submissions, which the submit rule excludes.
\<close>

datatype submit_stage =
    Inserted (stage_of: submission)
  | Tokened (stage_of: submission) cancellation_token
  | Rejected (stage_of: submission) core_error

type_synonym task_system = "task_processor \<times> task_job list \<times> submit_stage list"

inductive task_step :: "task_system \<Rightarrow> task_system \<Rightarrow> bool" where
  submit: "tp_next_task_index p + 1 \<noteq> 0 \<Longrightarrow> submit_insert d operation clk stamp p = (r, p') \<Longrightarrow>
     task_step (p, js, ss) (p', js, (case r of Inl _ \<Rightarrow> ss | Inr sub \<Rightarrow> Inserted sub # ss))"
| token: "task_step (p, js, ss @ Inserted sub # ss') (p, js, ss @ Tokened sub (read_token sub p) # ss')"
| enqueue: "submit_enqueue sub tok p = (q, p') \<Longrightarrow>
     task_step (p, js, ss @ Tokened sub tok # ss') (p', js, ss @ (case q of Inl e \<Rightarrow> [Rejected sub e] | Inr _ \<Rightarrow> []) @ ss')"
| rollback: "task_step (p, js, ss @ Rejected sub e # ss') (submit_rollback sub p, js, ss @ ss')"
| list: "list_tasks lparams clk stamp p = (lres, hooks, p') \<Longrightarrow> task_step (p, js, ss) (p', js, ss)"
| get: "get_task params clk stamp p = (gres, hooks, p') \<Longrightarrow> task_step (p, js, ss) (p', js, ss)"
| cancel: "cancel_task params clk stamp p = (cres, hooks, p') \<Longrightarrow> task_step (p, js, ss) (p', js, ss)"
| result: "task_result params clk stamp p = (jres, hooks, p') \<Longrightarrow> task_step (p, js, ss) (p', js, ss)"
| take: "worker_section (tp_executor p) = (Run job, e) \<Longrightarrow>
     task_step (p, js, ss) (p\<lparr>tp_executor := e\<rparr>, job # js, ss)"
| finish: "finish_task (job_task job) res clk stamp p = (hooks, p') \<Longrightarrow>
     task_step (p, js @ job # js', ss) (p', js @ js', ss)"
| stop: "task_step (p, js, ss) (stop_processor p, js, ss)"

inductive task_reachable :: "task_processor_options \<Rightarrow> task_system \<Rightarrow> bool" for options where
  start: "task_reachable options (new_task_processor options, [], [])"
| step: "task_reachable options s \<Longrightarrow> task_step s t \<Longrightarrow> task_reachable options t"

inductive_cases task_stepE: "task_step (p, js, ss) t"

definition working :: "task_processor \<Rightarrow> string \<Rightarrow> bool" where
  "working p k \<longleftrightarrow> (\<exists>rec. find_task_locked k p = Some rec \<and> task_status (tk_task rec) = Working)"

text \<open>The ids somebody is responsible for: those of the queued and running jobs and of the open submissions, each
  as often as it occurs.\<close>

definition job_ids :: "task_system \<Rightarrow> string multiset" where
  "job_ids s = (case s of (p, js, ss) \<Rightarrow> mset (map job_task (queued (tp_executor p))) + mset (map job_task js))"

definition open_ids :: "task_system \<Rightarrow> string multiset" where
  "open_ids s = (case s of (p, js, ss) \<Rightarrow> mset (map (\<lambda>st. task_id (su_task (stage_of st))) ss))"

lemma id_simps [simp]:
  "job_ids (p, js, ss) = mset (map job_task (queued (tp_executor p))) + mset (map job_task js)"
  "open_ids (p, js, ss) = mset (map (\<lambda>st. task_id (su_task (stage_of st))) ss)"
  by (simp_all add: job_ids_def open_ids_def)

text \<open>Every working task has exactly one job or open submission, no id has two, and all ids have been issued.\<close>

definition ids_ok :: "string multiset \<Rightarrow> nat \<Rightarrow> task_processor \<Rightarrow> bool" where
  "ids_ok M n p \<longleftrightarrow> (\<forall>k. count M k \<le> 1) \<and> (\<forall>k. k \<in># M \<longrightarrow> (\<exists>i. i < n \<and> k = ''task-'' @ nat_to_string i)) \<and>
     (\<forall>k. working p k \<longrightarrow> k \<in># M)"

definition task_sys_inv :: "task_processor_options \<Rightarrow> task_system \<Rightarrow> bool" where
  "task_sys_inv options s \<longleftrightarrow> processor_inv (fst s) \<and> tp_options (fst s) = options \<and>
     queues_ok (tp_executor (fst s)) \<and> ids_ok (job_ids s + open_ids s) (unat (tp_next_task_index (fst s))) (fst s)"

lemma ids_ok_keep: "ids_ok M n p \<Longrightarrow> (\<And>k. working p' k \<Longrightarrow> working p k) \<Longrightarrow> ids_ok M n p'"
  by (auto simp: ids_ok_def)

lemma ids_ok_add:
  assumes "ids_ok M n p" "k \<notin># M" "k = ''task-'' @ nat_to_string i" "i < n'" "n \<le> n'" "\<And>j. working p' j \<Longrightarrow> j = k \<or> working p j"
  shows "ids_ok (add_mset k M) n' p'"
proof -
  have "count (add_mset k M) j \<le> 1" for j using assms(1,2) by (auto simp: ids_ok_def not_in_iff)
  moreover have "\<exists>i. i < n' \<and> j = ''task-'' @ nat_to_string i" if "j \<in># add_mset k M" for j
  proof (cases "j = k")
    case False
    then have "j \<in># M" using that by simp
    then obtain i' where "i' < n" "j = ''task-'' @ nat_to_string i'" using assms(1) unfolding ids_ok_def by blast
    then show ?thesis using assms(5) by (intro exI [of _ i']) simp
  qed (use assms in blast)
  moreover have "j \<in># add_mset k M" if "working p' j" for j using assms(1,6) that by (auto simp: ids_ok_def)
  ultimately show ?thesis unfolding ids_ok_def by blast
qed

lemma ids_ok_remove:
  assumes "ids_ok (add_mset k M) n p" "\<And>j. working p' j \<Longrightarrow> j \<noteq> k \<and> working p j"
  shows "ids_ok M n p'" "k \<notin># M"
proof -
  have one: "count (add_mset k M) j \<le> 1" for j using assms(1) by (simp add: ids_ok_def del: count_add_mset)
  then show "k \<notin># M" using one [of k] by (simp add: not_in_iff)
  have "count M j \<le> 1" for j using one [of j] by (simp split: if_splits)
  moreover have "\<exists>i. i < n \<and> j = ''task-'' @ nat_to_string i" if "j \<in># M" for j
    using that assms(1) unfolding ids_ok_def by (metis insert_iff set_mset_add_mset_insert)
  moreover have "j \<in># M" if "working p' j" for j using assms(1) assms(2) [OF that] by (auto simp: ids_ok_def)
  ultimately show "ids_ok M n p'" unfolding ids_ok_def by blast
qed

text \<open>The operations that only look at tasks leave the refreshed processor.\<close>

lemma refresh_simps [simp]:
  "tp_options (snd (refresh_locked clk stamp p)) = tp_options p"
  "tp_executor (snd (refresh_locked clk stamp p)) = tp_executor p"
  "tp_next_task_index (snd (refresh_locked clk stamp p)) = tp_next_task_index p"
  by (simp_all add: refresh_locked_eq)

lemma observer_states:
  "snd (snd (get_task params clk stamp p)) = snd (refresh_locked clk stamp p)"
  "snd (snd (task_result params clk stamp p)) = snd (refresh_locked clk stamp p)"
  by (cases "refresh_locked clk stamp p"; simp add: get_task_def task_result_def Let_def)+

lemma list_state: "snd (snd (list_tasks params clk stamp p)) \<in> {p, snd (refresh_locked clk stamp p)}"
  by (cases "refresh_locked clk stamp p"; cases "parse_task_list_cursor (tlp_cursor params)";
      simp add: list_tasks_def Let_def)

text \<open>How an operation may change a record: not at all once it is terminal, or drop it.\<close>

definition keeps_terminal :: "task_processor \<Rightarrow> task_processor \<Rightarrow> bool" where
  "keeps_terminal p p' \<longleftrightarrow>
     (\<forall>k rec. find_task_locked k p = Some rec \<and> is_terminal (task_status (tk_task rec)) \<longrightarrow>
        find_task_locked k p' = Some rec \<or> find_task_locked k p' = None) \<and>
     (\<forall>k. working p' k \<longrightarrow> find_task_locked k p = find_task_locked k p')"

lemma keeps_terminal_refl [simp]: "keeps_terminal p p"
  by (simp add: keeps_terminal_def)

lemma keeps_terminal_trans:
  assumes pq: "keeps_terminal p q" and qr: "keeps_terminal q r"
    and gone: "\<And>k. find_task_locked k q = None \<Longrightarrow> find_task_locked k r = None"
  shows "keeps_terminal p r"
proof -
  have "working q k" if "working r k" for k
    using that qr by (simp add: keeps_terminal_def working_def)
  then have "\<forall>k. working r k \<longrightarrow> find_task_locked k p = find_task_locked k r"
    using pq qr by (simp add: keeps_terminal_def)
  moreover have "find_task_locked k r = Some rec \<or> find_task_locked k r = None"
    if "find_task_locked k p = Some rec \<and> is_terminal (task_status (tk_task rec))" for k rec
    using that pq qr gone [of k] unfolding keeps_terminal_def by (elim conjE) metis
  ultimately show ?thesis by (simp add: keeps_terminal_def)
qed

lemma keeps_terminal_update:
  assumes "store_ok p"
    and "\<And>k rec. find_task_locked k p = Some rec \<Longrightarrow> is_terminal (task_status (tk_task rec)) \<Longrightarrow> f k rec = rec"
    and "\<And>k rec. find_task_locked k p = Some rec \<Longrightarrow> task_status (tk_task (f k rec)) = Working \<Longrightarrow> f k rec = rec"
  shows "keeps_terminal p (trim_completed_locked now (update_records f p))"
proof -
  have "find_task_locked k (trim_completed_locked now (update_records f p)) =
      (if k \<in> set (retained now (update_records f p)) then map_option (f k) (find_task_locked k p) else None)" for k
    by (simp add: find_trim store_ok_update_records assms(1) find_update_records)
  then show ?thesis
    unfolding keeps_terminal_def working_def
    by (auto simp: assms(2) assms(3) split: if_splits)
qed

lemma inv_store_ok: "processor_inv p \<Longrightarrow> store_ok p"
  by (simp add: processor_inv_def records_ok_def)

lemma keeps_terminal_refresh: "processor_inv p \<Longrightarrow> keeps_terminal p (snd (refresh_locked clk stamp p))"
  unfolding refresh_locked_eq
  by (rule keeps_terminal_update) (auto simp: inv_store_ok timed_out_def time_out_def)

lemma keeps_terminal_write:
  assumes "processor_inv p" "find_task_locked tid p = Some rec"
    and "task_status (tk_task rec) = Working" "task_status (tk_task rec') \<noteq> Working"
  shows "keeps_terminal p (trim_completed_locked now (store_record tid rec' p))"
  unfolding store_record_eq using assms by (intro keeps_terminal_update) (auto simp: inv_store_ok)

lemma keeps_terminal_finish: "processor_inv p \<Longrightarrow> keeps_terminal p (snd (finish_task tid res clk stamp p))"
  by (auto simp: finish_task_def Let_def finish_record_def split: option.splits sum.splits
      intro!: keeps_terminal_write)

lemma finish_not_working: "processor_inv p \<Longrightarrow> \<not> working (snd (finish_task tid res clk stamp p)) tid"
  by (auto simp: working_def finish_task_def Let_def find_trim store_record_eq store_ok_update_records inv_store_ok
      find_update_records finish_record_def split: option.splits sum.splits if_splits)

lemma not_terminal_working: "record_ok k rec \<Longrightarrow> \<not> is_terminal (task_status (tk_task rec)) \<Longrightarrow> task_status (tk_task rec) = Working"
  by (cases "task_status (tk_task rec)") auto

lemma find_write_None:
  "processor_inv p \<Longrightarrow> find_task_locked k p = None \<Longrightarrow>
   find_task_locked k (trim_completed_locked now (store_record tid rec p)) = None"
  by (simp add: store_record_eq find_trim store_ok_update_records inv_store_ok find_update_records)

lemma keeps_terminal_cancel:
  assumes "processor_inv p"
  shows "keeps_terminal p (snd (snd (cancel_task params clk stamp p)))"
proof -
  let ?tid = "tgp_task_id params" and ?p1 = "snd (refresh_locked clk stamp p)"
  note inv = processor_inv_refresh [OF assms, of clk stamp]
  note keeps = keeps_terminal_refresh [OF assms, of clk stamp]
  show ?thesis
  proof (cases "\<exists>rec. find_task_locked ?tid ?p1 = Some rec \<and> \<not> is_terminal (task_status (tk_task rec))")
    case True
    then obtain rec where rec: "find_task_locked ?tid ?p1 = Some rec" "\<not> is_terminal (task_status (tk_task rec))"
      by blast
    have w: "task_status (tk_task rec) = Working"
      using not_terminal_working [OF processor_inv_record [OF inv rec(1)] rec(2)] .
    have "keeps_terminal p (trim_completed_locked (clk 3)
        (store_record ?tid (cancel_record ?tid (clk 2) (stamp 1) rec) ?p1))"
      by (rule keeps_terminal_trans [OF keeps keeps_terminal_write [OF inv rec(1) w]])
         (simp_all add: cancel_record_def find_write_None [OF inv])
    with rec show ?thesis by (auto simp: cancel_task_def Let_def split: prod.splits)
  next
    case False
    with keeps show ?thesis by (auto simp: cancel_task_def Let_def split: prod.splits option.splits)
  qed
qed

lemma cancel_simps [simp]:
  "tp_options (snd (snd (cancel_task params clk stamp p))) = tp_options p"
  "tp_executor (snd (snd (cancel_task params clk stamp p))) = tp_executor p"
  using refresh_simps [of clk stamp p]
  by (auto simp: cancel_task_def Let_def store_record_def split: prod.splits option.splits simp del: refresh_simps)

lemma finish_simps [simp]:
  "tp_options (snd (finish_task tid res clk stamp p)) = tp_options p"
  "tp_executor (snd (finish_task tid res clk stamp p)) = tp_executor p"
  by (auto simp: finish_task_def Let_def store_record_def split: option.splits)

lemma keeps_terminal_working: "keeps_terminal p p' \<Longrightarrow> working p' k \<Longrightarrow> working p k"
  unfolding keeps_terminal_def working_def by metis

lemma find_executor: "find_task_locked k (p\<lparr>tp_executor := e\<rparr>) = find_task_locked k p"
  by (simp add: find_task_locked_def)

text \<open>The invariant is kept by every operation that leaves the executor alone.\<close>

lemma task_sys_inv_keep:
  "task_sys_inv options (p, js, ss) \<Longrightarrow> processor_inv p' \<Longrightarrow> keeps_terminal p p' \<Longrightarrow>
   tp_options p' = tp_options p \<Longrightarrow> tp_executor p' = tp_executor p \<Longrightarrow> tp_next_task_index p' = tp_next_task_index p \<Longrightarrow>
   task_sys_inv options (p', js, ss)"
  unfolding task_sys_inv_def by (auto intro: ids_ok_keep keeps_terminal_working)

lemma task_sys_inv_refresh:
  "task_sys_inv options (p, js, ss) \<Longrightarrow> task_sys_inv options (snd (refresh_locked clk stamp p), js, ss)"
  by (rule task_sys_inv_keep)
     (simp_all add: task_sys_inv_def [of _ "(p, js, ss)"] processor_inv_refresh keeps_terminal_refresh)

lemma cancel_index [simp]: "tp_next_task_index (snd (snd (cancel_task params clk stamp p))) = tp_next_task_index p"
  using refresh_simps [of clk stamp p]
  by (auto simp: cancel_task_def Let_def store_record_def split: prod.splits option.splits simp del: refresh_simps)

lemma finish_index [simp]: "tp_next_task_index (snd (finish_task tid res clk stamp p)) = tp_next_task_index p"
  by (auto simp: finish_task_def Let_def store_record_def split: option.splits)

text \<open>The id of a new task is used by nobody.\<close>

lemma fresh_everywhere:
  assumes "task_sys_inv options (p, js, ss)"
  shows "make_task_id (tp_next_task_index p) \<notin># job_ids (p, js, ss) + open_ids (p, js, ss)"
    "make_task_id (tp_next_task_index p) \<notin> set (tp_order p)" "find_task_locked (make_task_id (tp_next_task_index p)) p = None"
proof -
  have "ids_ok (job_ids (p, js, ss) + open_ids (p, js, ss)) (unat (tp_next_task_index p)) p"
    using assms by (simp only: task_sys_inv_def fst_conv)
  then show "make_task_id (tp_next_task_index p) \<notin># job_ids (p, js, ss) + open_ids (p, js, ss)"
    unfolding ids_ok_def make_task_id_def by (metis less_irrefl nat_to_string_inject same_append_eq)
  have "records_ok p" using assms by (simp add: task_sys_inv_def processor_inv_def)
  then show "make_task_id (tp_next_task_index p) \<notin> set (tp_order p)" "find_task_locked (make_task_id (tp_next_task_index p)) p = None"
    by (simp_all add: make_task_id_fresh find_fresh)
qed

lemma task_sys_inv_insert:
  assumes inv: "task_sys_inv options (p, js, ss)" and idx: "tp_next_task_index p + 1 \<noteq> 0"
    and sub: "submit_insert d operation clk stamp p = (r, p')"
  shows "task_sys_inv options (p', js, (case r of Inl _ \<Rightarrow> ss | Inr sub \<Rightarrow> Inserted sub # ss))"
  using sub
proof (cases rule: submit_insert_cases)
  case (inserted op timeout t)
  note fresh = fresh_everywhere [OF inv, folded inserted(3)]
  have p: "processor_inv p'"
    using processor_inv_insert [OF _ inserted(3,4) idx] inv inserted(6) by (simp add: task_sys_inv_def)
  have ids: "job_ids (p', js, Inserted sub # ss) + open_ids (p', js, Inserted sub # ss) =
      add_mset (task_id (su_task sub)) (job_ids (p, js, ss) + open_ids (p, js, ss))" for sub
    by (simp add: inserted(6) insert_task_simps)
  have next_n: "unat (tp_next_task_index p') = Suc (unat (tp_next_task_index p))"
    using unat_next_index [OF idx] by (simp add: inserted(6) insert_task_simps)
  have w: "working p' k \<Longrightarrow> k = task_id t \<or> working p k" for k
    by (auto simp: inserted(6) working_def find_insert_task [OF fresh(3)] split: if_splits)
  have "ids_ok (add_mset (task_id t) (job_ids (p, js, ss) + open_ids (p, js, ss))) (unat (tp_next_task_index p')) p'"
    using inv fresh(1) w next_n inserted(3)
    by (intro ids_ok_add [where n = "unat (tp_next_task_index p)" and p = p and i = "unat (tp_next_task_index p)"])
      (auto simp: task_sys_inv_def make_task_id_def simp del: id_simps)
  then show ?thesis
    using inv p unfolding task_sys_inv_def inserted(5) sum.case ids fst_conv
    by (simp add: inserted(6) insert_task_simps del: id_simps)
qed (use inv in simp)

lemma read_token_keeps: "task_sys_inv options (p, js, ss @ Inserted sub # ss') \<Longrightarrow> task_sys_inv options (p, js, ss @ Tokened sub tok # ss')"
  by (simp add: task_sys_inv_def)

lemma find_executor_inv: "processor_inv (p\<lparr>tp_executor := e\<rparr>) = processor_inv p"
  by (simp add: processor_inv_def records_ok_def store_ok_def find_task_locked_def)

lemma working_executor: "working (p\<lparr>tp_executor := e\<rparr>) k = working p k"
  by (simp add: working_def find_executor)

text \<open>The third section: the job is queued, or nothing changes.\<close>

lemma submit_enqueue_cases:
  assumes "submit_enqueue sub tok p = (r, p')" "queues_ok (tp_executor p)"
  obtains (full) e where "r = Inl e" "p' = p"
  | (accepted) e job where "r = Inr ()" "p' = p\<lparr>tp_executor := e\<rparr>" "queues_ok e" "job_task job = task_id (su_task sub)"
      "mset (queued e) = add_mset job (mset (queued (tp_executor p)))"
proof -
  let ?job = "\<lparr>job_task = task_id (su_task sub), job_operation = su_operation sub, job_cancellation = tok\<rparr>"
  obtain e where e: "post (Some ?job) DEFAULT (tp_executor p) = (r, e)" "p' = p\<lparr>tp_executor := e\<rparr>"
    using assms(1) by (auto simp: submit_enqueue_def enqueue_def Let_def split: prod.splits)
  show ?thesis
  proof (cases r)
    case (Inl err)
    then show ?thesis using e post_Inl [of "Some ?job" DEFAULT "tp_executor p" err e] by (intro full) simp_all
  next
    case (Inr u)
    then show ?thesis
      using e post_Inr [of "Some ?job" DEFAULT "tp_executor p" u e] assms(2) by (intro accepted [of e ?job]) auto
  qed
qed

lemma task_sys_inv_enqueue:
  assumes inv: "task_sys_inv options (p, js, ss @ Tokened sub tok # ss')" and run: "submit_enqueue sub tok p = (r, p')"
  shows "task_sys_inv options (p', js, ss @ (case r of Inl e \<Rightarrow> [Rejected sub e] | Inr _ \<Rightarrow> []) @ ss')"
proof -
  have "queues_ok (tp_executor p)" using inv by (simp add: task_sys_inv_def)
  with run show ?thesis
  proof (cases rule: submit_enqueue_cases)
    case (full e)
    then show ?thesis using inv by (simp add: task_sys_inv_def)
  next
    case (accepted e job)
    have "job_ids (p', js, ss @ ss') + open_ids (p', js, ss @ ss') =
        job_ids (p, js, ss @ Tokened sub tok # ss') + open_ids (p, js, ss @ Tokened sub tok # ss')"
      using accepted(4,5) by (simp add: accepted(2) mset_map)
    then show ?thesis
      using inv accepted(3) unfolding task_sys_inv_def
      by (auto simp: accepted(1,2) find_executor_inv working_executor simp del: id_simps intro: ids_ok_keep)
  qed
qed

lemma keeps_terminal_erase: "keeps_terminal p (erase_task tid p)"
  by (auto simp: keeps_terminal_def working_def find_erase_task split: if_splits)

lemma task_sys_inv_rollback:
  assumes inv: "task_sys_inv options (p, js, ss @ Rejected sub e # ss')"
  shows "task_sys_inv options (submit_rollback sub p, js, ss @ ss')"
proof -
  let ?tid = "task_id (su_task sub)"
  let ?s = "(p, js, ss @ Rejected sub e # ss')" and ?t = "(submit_rollback sub p, js, ss @ ss')"
  have ids: "job_ids ?s + open_ids ?s = add_mset ?tid (job_ids ?t + open_ids ?t)"
    by (simp add: submit_rollback_def erase_task_simps)
  have "working (submit_rollback sub p) k \<Longrightarrow> k \<noteq> ?tid \<and> working p k" for k
    by (auto simp: submit_rollback_def working_def find_erase_task split: if_splits)
  moreover have "ids_ok (add_mset ?tid (job_ids ?t + open_ids ?t)) (unat (tp_next_task_index p)) p"
    using inv unfolding task_sys_inv_def ids fst_conv by blast
  ultimately have "ids_ok (job_ids ?t + open_ids ?t) (unat (tp_next_task_index p)) (submit_rollback sub p)"
    by (rule ids_ok_remove(1) [rotated])
  then show ?thesis
    using inv processor_inv_erase [of p ?tid] unfolding task_sys_inv_def
    by (simp add: submit_rollback_def erase_task_simps del: id_simps)
qed

lemma worker_take:
  "worker_section e = (Run job, e') \<Longrightarrow> queues_ok e \<Longrightarrow> queues_ok e' \<and> queued e = job # queued e'"
  using worker_section_Run [of e job e'] by auto

lemma stop_simps:
  "find_task_locked k (stop_processor p) = find_task_locked k p"
  "processor_inv (stop_processor p) = processor_inv p"
  "tp_options (stop_processor p) = tp_options p"
  "tp_next_task_index (stop_processor p) = tp_next_task_index p"
  "queued (tp_executor (stop_processor p)) = queued (tp_executor p)"
  "queues_ok (tp_executor (stop_processor p)) = queues_ok (tp_executor p)"
  by (auto simp: stop_processor_def shutdown_locked_def clear_timers_def find_task_locked_def processor_inv_def
      records_ok_def store_ok_def queued_def queues_ok_def split: option.splits)

lemma task_sys_inv_finish:
  assumes inv: "task_sys_inv options (p, js @ job # js', ss)"
  shows "task_sys_inv options (snd (finish_task (job_task job) res clk stamp p), js @ js', ss)"
proof -
  let ?p = "snd (finish_task (job_task job) res clk stamp p)"
  let ?M = "job_ids (p, js @ job # js', ss) + open_ids (p, js @ job # js', ss)"
  let ?N = "job_ids (?p, js @ js', ss) + open_ids (?p, js @ js', ss)"
  have p: "processor_inv p" "ids_ok ?M (unat (tp_next_task_index p)) p" using inv by (simp_all only: task_sys_inv_def fst_conv)
  have "?M = add_mset (job_task job) ?N" by simp
  with p(2) have "ids_ok (add_mset (job_task job) ?N) (unat (tp_next_task_index p)) p" by (simp only:)
  moreover have "working ?p k \<Longrightarrow> k \<noteq> job_task job \<and> working p k" for k
    using finish_not_working [OF p(1)] keeps_terminal_working [OF keeps_terminal_finish [OF p(1)]] by blast
  ultimately have "ids_ok ?N (unat (tp_next_task_index p)) ?p" by (rule ids_ok_remove(1))
  then show ?thesis
    using inv processor_inv_finish [OF p(1)] unfolding task_sys_inv_def by (simp del: id_simps)
qed

lemma task_sys_inv_take:
  assumes "task_sys_inv options (p, js, ss)" "worker_section (tp_executor p) = (Run job, e)"
  shows "task_sys_inv options (p\<lparr>tp_executor := e\<rparr>, job # js, ss)"
proof -
  have q: "queues_ok e" "queued (tp_executor p) = job # queued e"
    using worker_take [OF assms(2)] assms(1) by (simp_all add: task_sys_inv_def)
  have ids: "job_ids (p\<lparr>tp_executor := e\<rparr>, job # js, ss) = job_ids (p, js, ss)"
    "open_ids (p\<lparr>tp_executor := e\<rparr>, job # js, ss) = open_ids (p, js, ss)" by (simp_all add: q(2))
  have "ids_ok M n (p\<lparr>tp_executor := e\<rparr>) = ids_ok M n p" for M n by (simp add: ids_ok_def working_executor)
  then show ?thesis
    using assms(1) q(1) unfolding task_sys_inv_def ids by (simp add: find_executor_inv del: id_simps)
qed

lemma task_sys_inv_step: "task_step s t \<Longrightarrow> task_sys_inv options s \<Longrightarrow> task_sys_inv options t"
proof (induction rule: task_step.induct)
  case (submit p d operation clk stamp r p' js ss)
  then show ?case by (blast intro: task_sys_inv_insert)
next
  case (token p js ss sub ss')
  then show ?case by (rule read_token_keeps)
next
  case (enqueue sub tok p q p' js ss ss')
  then show ?case by (blast intro: task_sys_inv_enqueue)
next
  case (rollback p js ss sub e ss')
  then show ?case by (rule task_sys_inv_rollback)
next
  case (list lparams clk stamp p lres hooks p' js ss)
  then have "p' = p \<or> p' = snd (refresh_locked clk stamp p)" using list_state [of lparams clk stamp p] by simp
  with list(2) show ?case using task_sys_inv_refresh by blast
next
  case (get params clk stamp p gres hooks p' js ss)
  then show ?case using observer_states(1) [of params clk stamp p] task_sys_inv_refresh by simp
next
  case (cancel params clk stamp p cres hooks p' js ss)
  then have p': "p' = snd (snd (cancel_task params clk stamp p))" by simp
  show ?case unfolding p' using cancel(2)
    by (intro task_sys_inv_keep [OF cancel(2)])
       (simp_all add: task_sys_inv_def [of _ "(p, js, ss)"] processor_inv_cancel keeps_terminal_cancel)
next
  case (result params clk stamp p jres hooks p' js ss)
  then show ?case using observer_states(2) [of params clk stamp p] task_sys_inv_refresh by simp
next
  case (take p job e js ss)
  then show ?case by (blast intro: task_sys_inv_take)
next
  case (finish job res clk stamp p hooks p' js js' ss)
  then show ?case using task_sys_inv_finish [OF finish(2), of res clk stamp] by simp
next
  case (stop p js ss)
  then show ?case by (auto simp: task_sys_inv_def working_def stop_simps intro: ids_ok_keep)
qed

lemma new_task_processor_inv: "task_sys_inv options (new_task_processor options, [], [])"
  by (simp add: task_sys_inv_def new_task_processor_def processor_inv_def records_ok_def store_ok_def find_task_locked_def
      terminal_count_def working_def new_executor_def queues_ok_def queued_def ids_ok_def)

lemma task_reachable_inv: "task_reachable options s \<Longrightarrow> task_sys_inv options s"
  by (induction rule: task_reachable.induct) (auto intro: new_task_processor_inv task_sys_inv_step)

text \<open>An uninterrupted call of \<open>submit_operation\<close> is a run of the machine.\<close>

lemma submit_operation_run:
  assumes "task_reachable options (p, js, ss)" "tp_next_task_index p + 1 \<noteq> 0"
    and run: "submit_operation d operation clk stamp p = (r, hooks, p')"
  shows "task_reachable options (p', js, ss)"
proof -
  obtain r1 p1 where first: "submit_insert d operation clk stamp p = (r1, p1)" by force
  have one: "task_reachable options (p1, js, (case r1 of Inl _ \<Rightarrow> ss | Inr sub \<Rightarrow> Inserted sub # ss))"
    by (rule task_reachable.step [OF assms(1) task_step.submit [OF assms(2) first]])
  show ?thesis
  proof (cases r1)
    case (Inl e)
    then show ?thesis using one run first by (simp add: submit_operation_def)
  next
    case (Inr sub)
    obtain q p2 where third: "submit_enqueue sub (read_token sub p1) p1 = (q, p2)" by force
    have "task_reachable options (p1, js, [] @ Inserted sub # ss)" using one Inr by simp
    from task_reachable.step [OF this task_step.token]
    have "task_reachable options (p1, js, [] @ Tokened sub (read_token sub p1) # ss)" .
    from task_reachable.step [OF this task_step.enqueue [OF third]]
    have three: "task_reachable options (p2, js, [] @ (case q of Inl e \<Rightarrow> [Rejected sub e] | Inr _ \<Rightarrow> []) @ ss)" .
    show ?thesis
    proof (cases q)
      case (Inl e)
      then have "task_reachable options (p2, js, [] @ Rejected sub e # ss)" using three by simp
      from task_reachable.step [OF this task_step.rollback] Inl show ?thesis
        using run first third \<open>r1 = Inr sub\<close> by (simp add: submit_operation_def)
    next
      case (Inr u)
      then show ?thesis using three run first third \<open>r1 = Inr sub\<close> by (simp add: submit_operation_def submit_answer_def)
    qed
  qed
qed

lemma erase_insert_task:
  assumes "records_ok p" "task_id t = make_task_id (tp_next_task_index p)"
  shows "erase_task (task_id t) (insert_task t token timeout now p) = p\<lparr>tp_next_task_index := tp_next_task_index p + 1\<rparr>"
proof -
  have fresh: "find_task_locked (task_id t) p = None" "task_id t \<notin> set (tp_order p)"
    using assms find_fresh make_task_id_fresh by simp_all
  then have "filter (\<lambda>kv. fst kv \<noteq> task_id t) (tp_tasks p) = tp_tasks p"
    by (force simp: filter_id_conv find_task_locked_def map_of_eq_None_iff)
  with fresh show ?thesis by (simp add: erase_task_def insert_task_def al_erase_def Let_def)
qed

lemma submit_operation_fails:
  assumes "processor_inv p" "queues_ok (tp_executor p)" "submit_operation d operation clk stamp p = (Inl e, hooks, p')"
  shows "hooks = [] \<and> (p' = p \<or> p' = p\<lparr>tp_next_task_index := tp_next_task_index p + 1\<rparr>)"
proof -
  obtain r1 p1 where first: "submit_insert d operation clk stamp p = (r1, p1)" by force
  from first show ?thesis
  proof (cases rule: submit_insert_cases)
    case (refused e)
    then show ?thesis using first assms(3) by (simp add: submit_operation_def)
  next
    case (inserted op timeout t)
    define sub where "sub = \<lparr>su_task = t, su_progress_token = tod_progress_token d, su_operation = op\<rparr>"
    obtain q p2 where third: "submit_enqueue sub (read_token sub p1) p1 = (q, p2)" by force
    have r1: "r1 = Inr sub" using inserted(5) by (simp add: sub_def)
    have "queues_ok (tp_executor p1)" using assms(2) inserted(6) by (simp add: insert_task_simps)
    with third show ?thesis
    proof (cases rule: submit_enqueue_cases)
      case (full err)
      then show ?thesis
        using assms(1,3) first r1 third erase_insert_task [OF _ inserted(3)]
        by (auto simp: submit_operation_def submit_rollback_def inserted(6) processor_inv_def sub_def)
    qed (use assms(3) first r1 third in \<open>simp add: submit_operation_def submit_answer_def\<close>)
  qed
qed

section \<open>Properties of the processor\<close>

lemma count_ids:
  "count (job_ids (p, js, ss)) k = length (filter (\<lambda>job. job_task job = k) (queued (tp_executor p) @ js))"
  "count (open_ids (p, js, ss)) k = length (filter (\<lambda>st. task_id (su_task (stage_of st)) = k) ss)"
proof -
  have "count (mset (map f xs)) k = length (filter (\<lambda>x. f x = k) xs)" for f :: "'a \<Rightarrow> string" and xs
    by (induction xs) auto
  then show "count (open_ids (p, js, ss)) k = length (filter (\<lambda>st. task_id (su_task (stage_of st)) = k) ss)" by simp
  have jobs: "count (mset (map f xs)) k = length (filter (\<lambda>x. f x = k) xs)" for f :: "task_job \<Rightarrow> string" and xs
    by (induction xs) auto
  show "count (job_ids (p, js, ss)) k = length (filter (\<lambda>job. job_task job = k) (queued (tp_executor p) @ js))"
    unfolding id_simps count_union jobs by simp
qed

text \<open>C10: in every reachable state, whatever sections of submissions, lookups, cancellations and jobs came before, a task
  record is consistent (a working task has no outcome, a
  completed one a result and no failure, a failed or cancelled one a failure and no result, and a
  cancelled one has had its token signalled), is listed once under its own id, at most
  max_completed_tasks are terminal, and no id has more than one job, where a submission that is still between
  its sections counts as one: a working task has exactly one job queued or running, or is about to be queued or
  rolled back by exactly one open submission.\<close>

theorem task_records_consistent:
  assumes "task_reachable options (p, js, ss)" "find_task_locked k p = Some rec"
  shows "record_ok k rec \<and> k \<in> set (tp_order p) \<and> distinct (tp_order p) \<and>
         terminals p \<le> to_max_completed_tasks options \<and>
         (let jobs = length (filter (\<lambda>job. job_task job = k) (queued (tp_executor p) @ js));
              open_submissions = length (filter (\<lambda>st. task_id (su_task (stage_of st)) = k) ss)
          in jobs + open_submissions \<le> 1 \<and>
             (task_status (tk_task rec) = Working \<longrightarrow> jobs + open_submissions = 1))"
proof -
  have inv: "processor_inv p" "tp_options p = options"
    "ids_ok (job_ids (p, js, ss) + open_ids (p, js, ss)) (unat (tp_next_task_index p)) p"
    using task_reachable_inv [OF assms(1)] by (simp_all only: task_sys_inv_def fst_conv)
  have "k \<in> set (tp_order p)"
    using find_in_order [OF inv_store_ok [OF inv(1)], of k] assms(2) by simp
  moreover have le: "count (job_ids (p, js, ss)) k + count (open_ids (p, js, ss)) k \<le> 1"
    using inv(3) unfolding ids_ok_def count_union by blast
  moreover have "count (job_ids (p, js, ss)) k + count (open_ids (p, js, ss)) k = 1" if "task_status (tk_task rec) = Working"
  proof -
    have "working p k" using that assms(2) by (simp add: working_def)
    then have "k \<in># job_ids (p, js, ss) + open_ids (p, js, ss)" using inv(3) unfolding ids_ok_def by blast
    then show ?thesis using le unfolding count_greater_zero_iff [symmetric] count_union by linarith
  qed
  ultimately show ?thesis
    using processor_inv_record [OF inv(1) assms(2)] inv(1,2) inv_store_ok [OF inv(1)]
    unfolding count_ids by (simp add: processor_inv_def store_ok_def Let_def del: record_ok.simps)
qed

text \<open>C11: a task that has completed, failed or been cancelled never changes again: whatever the
  next step is (a late completion, a second cancel, a timeout check, a listing, a section of a submission), its
  record stays as it is or is dropped, by the retention limits or because its own submission is rolled back.\<close>

theorem terminal_is_final:
  assumes "task_reachable options (p, js, ss)" "task_step (p, js, ss) (p', js', ss')"
    and "find_task_locked k p = Some rec" "is_terminal (task_status (tk_task rec))"
  shows "find_task_locked k p' = Some rec \<or> find_task_locked k p' = None"
proof -
  have inv: "processor_inv p" using task_reachable_inv [OF assms(1)] by (simp add: task_sys_inv_def)
  have keep: "?thesis" if "keeps_terminal p p'" using that assms(3,4) by (simp add: keeps_terminal_def)
  from assms(2) show ?thesis
  proof (cases rule: task_step.cases)
    case (submit d operation clk stamp r)
    from submit(4) show ?thesis
    proof (cases rule: submit_insert_cases)
      case (inserted op timeout t)
      have "find_task_locked (task_id t) p = None"
        using fresh_everywhere(3) [OF task_reachable_inv [OF assms(1)]] inserted(3) by simp
      then show ?thesis using assms(3) by (auto simp: inserted(6) find_insert_task)
    qed (use assms(3) in simp)
  next
    case (enqueue sub tok q ss1 ss2)
    then have "find_task_locked k p' = find_task_locked k p" by (auto simp: submit_enqueue_def find_executor Let_def split: prod.splits)
    then show ?thesis using assms(3) by simp
  next
    case (rollback ss1 sub e ss2)
    then show ?thesis using keep keeps_terminal_erase by (simp add: submit_rollback_def)
  next
    case (list lparams clk stamp lres hooks)
    then have "p' = p \<or> p' = snd (refresh_locked clk stamp p)" using list_state [of lparams clk stamp p] by simp
    then show ?thesis using keep keeps_terminal_refresh [OF inv, of clk stamp] by auto
  next
    case (get params clk stamp gres hooks)
    then show ?thesis using keep keeps_terminal_refresh [OF inv] observer_states(1) [of params clk stamp p] by simp
  next
    case (cancel params clk stamp cres hooks)
    then show ?thesis using keep keeps_terminal_cancel [OF inv, of params clk stamp] by simp
  next
    case (result params clk stamp jres hooks)
    then show ?thesis using keep keeps_terminal_refresh [OF inv] observer_states(2) [of params clk stamp p] by simp
  next
    case (finish job res clk stamp hooks js1 js2)
    then show ?thesis using keep keeps_terminal_finish [OF inv, of "job_task job" res clk stamp] by simp
  qed (use assms(3) in \<open>simp_all add: find_executor stop_simps\<close>)
qed

lemma open_submission_ids:
  assumes "task_reachable options (p, js, ss)" "st \<in> set ss"
  shows "task_id (su_task (stage_of st)) \<notin># job_ids (p, js, ss)"
proof -
  let ?k = "task_id (su_task (stage_of st))"
  have "ids_ok (job_ids (p, js, ss) + open_ids (p, js, ss)) (unat (tp_next_task_index p)) p"
    using task_reachable_inv [OF assms(1)] by (simp only: task_sys_inv_def fst_conv)
  then have "count (job_ids (p, js, ss)) ?k + count (open_ids (p, js, ss)) ?k \<le> 1" unfolding ids_ok_def count_union by blast
  moreover have "0 < count (open_ids (p, js, ss)) ?k" using assms(2) by (auto simp: count_greater_zero_iff)
  ultimately show ?thesis unfolding not_in_iff by linarith
qed

text \<open>C12: what each critical section of a submission does, at any point of any interleaving. Inserting: a refused
  submission changes nothing; otherwise a working task appears at the end of the listing under an id that no record,
  job or open submission has, and nothing else changes but the counter. Enqueueing: records and listing stay, no
  job of this id exists yet, and exactly one is queued, or the executor refuses it and nothing changes. Rolling
  back: record and id disappear, no job was queued for it, and every other record, the order of the others and the
  queue stay. When no thread comes in between, a failed submission leaves the processor as it was, except that
  a refusal by the executor has used up an id.\<close>

theorem submission_sections:
  assumes "task_reachable options (p, js, ss)"
  shows "(submit_insert d operation clk stamp p = (r, p') \<longrightarrow>
      (case r of
         Inl e \<Rightarrow> p' = p
       | Inr sub \<Rightarrow> (let tid = task_id (su_task sub) in
           tid \<notin> set (tp_order p) \<and> tid \<notin># job_ids (p, js, ss) + open_ids (p, js, ss) \<and> tp_order p' = tp_order p @ [tid] \<and>
           working p' tid \<and> map_option tk_task (find_task_locked tid p') = Some (su_task sub) \<and>
           (\<forall>k. k \<noteq> tid \<longrightarrow> find_task_locked k p' = find_task_locked k p) \<and> tp_executor p' = tp_executor p \<and>
           tp_next_task_index p' = tp_next_task_index p + 1))) \<and>
   (Tokened sub tok \<in> set ss \<and> submit_enqueue sub tok p = (q, p') \<longrightarrow>
      (let tid = task_id (su_task sub) in
         tid \<notin># job_ids (p, js, ss) \<and> tp_tasks p' = tp_tasks p \<and> tp_order p' = tp_order p \<and>
         (case q of Inl e \<Rightarrow> p' = p | Inr _ \<Rightarrow> job_ids (p', js, ss) = add_mset tid (job_ids (p, js, ss))))) \<and>
   (Rejected sub e \<in> set ss \<longrightarrow>
      (let tid = task_id (su_task sub); p' = submit_rollback sub p in
         tid \<notin># job_ids (p, js, ss) \<and> find_task_locked tid p' = None \<and> tp_order p' = filter (\<lambda>k. k \<noteq> tid) (tp_order p) \<and>
         (\<forall>k. k \<noteq> tid \<longrightarrow> find_task_locked k p' = find_task_locked k p) \<and> tp_executor p' = tp_executor p)) \<and>
   (submit_operation d operation clk stamp p = (Inl err, hooks, p') \<longrightarrow>
      hooks = [] \<and> (p' = p \<or> p' = p\<lparr>tp_next_task_index := tp_next_task_index p + 1\<rparr>))"
proof (intro conjI impI)
  note inv = task_reachable_inv [OF assms]
  have p: "processor_inv p" "queues_ok (tp_executor p)" using inv by (simp_all add: task_sys_inv_def)
  assume run: "submit_insert d operation clk stamp p = (r, p')"
  from run show "case r of
         Inl e \<Rightarrow> p' = p
       | Inr sub \<Rightarrow> (let tid = task_id (su_task sub) in
           tid \<notin> set (tp_order p) \<and> tid \<notin># job_ids (p, js, ss) + open_ids (p, js, ss) \<and> tp_order p' = tp_order p @ [tid] \<and>
           working p' tid \<and> map_option tk_task (find_task_locked tid p') = Some (su_task sub) \<and>
           (\<forall>k. k \<noteq> tid \<longrightarrow> find_task_locked k p' = find_task_locked k p) \<and> tp_executor p' = tp_executor p \<and>
           tp_next_task_index p' = tp_next_task_index p + 1)"
  proof (cases rule: submit_insert_cases)
    case (inserted op timeout t)
    note fresh = fresh_everywhere [OF inv, folded inserted(3)]
    show ?thesis
      using fresh inserted(4) by (simp add: inserted(5,6) find_insert_task insert_task_simps working_def Let_def del: id_simps)
  qed simp
next
  assume run: "Tokened sub tok \<in> set ss \<and> submit_enqueue sub tok p = (q, p')"
  have "queues_ok (tp_executor p)" using task_reachable_inv [OF assms] by (simp add: task_sys_inv_def)
  with run have "tp_tasks p' = tp_tasks p \<and> tp_order p' = tp_order p \<and>
      (case q of Inl e \<Rightarrow> p' = p | Inr _ \<Rightarrow> job_ids (p', js, ss) = add_mset (task_id (su_task sub)) (job_ids (p, js, ss)))"
    by (elim conjE submit_enqueue_cases) (simp_all add: mset_map)
  then show "let tid = task_id (su_task sub) in
         tid \<notin># job_ids (p, js, ss) \<and> tp_tasks p' = tp_tasks p \<and> tp_order p' = tp_order p \<and>
         (case q of Inl e \<Rightarrow> p' = p | Inr _ \<Rightarrow> job_ids (p', js, ss) = add_mset tid (job_ids (p, js, ss)))"
    using open_submission_ids [OF assms, of "Tokened sub tok"] run by (simp add: Let_def del: id_simps)
next
  assume "Rejected sub e \<in> set ss"
  then show "let tid = task_id (su_task sub); p' = submit_rollback sub p in
         tid \<notin># job_ids (p, js, ss) \<and> find_task_locked tid p' = None \<and> tp_order p' = filter (\<lambda>k. k \<noteq> tid) (tp_order p) \<and>
         (\<forall>k. k \<noteq> tid \<longrightarrow> find_task_locked k p' = find_task_locked k p) \<and> tp_executor p' = tp_executor p"
    using open_submission_ids [OF assms, of "Rejected sub e"]
    by (auto simp: Let_def submit_rollback_def find_erase_task erase_task_simps removeAll_filter_not_eq intro!: filter_cong simp del: id_simps)
next
  assume run: "submit_operation d operation clk stamp p = (Inl err, hooks, p')"
  have "processor_inv p" "queues_ok (tp_executor p)" using task_reachable_inv [OF assms] by (simp_all add: task_sys_inv_def)
  from submit_operation_fails [OF this run]
  show "hooks = []" "p' = p \<or> p' = p\<lparr>tp_next_task_index := tp_next_task_index p + 1\<rparr>" by simp_all
qed

text \<open>The ids created after a task.\<close>

definition newer :: "string \<Rightarrow> string list \<Rightarrow> string list" where
  "newer tid order = tl (dropWhile (\<lambda>k. k \<noteq> tid) order)"

lemma in_set_drop_middle:
  assumes "x \<notin> set xs" "x \<notin> set ys"
  shows "x \<in> set (drop n (xs @ x # ys)) \<longleftrightarrow> n \<le> length xs"
proof (cases "n \<le> length xs")
  case False
  then obtain m where "n - length xs = Suc m" by (cases "n - length xs") auto
  then show ?thesis using False assms in_set_dropD [of x m ys] by auto
qed simp

lemma retained_write:
  assumes inv: "processor_inv p" and ttl: "to_completed_task_ttl (tp_options p) = None"
    and rec: "find_task_locked tid p = Some rec" "task_status (tk_task rec) = Working"
    and rec': "is_terminal (task_status (tk_task rec'))"
  shows "tid \<in> set (retained now (store_record tid rec' p)) \<longleftrightarrow>
         length (filter (terminal_in p) (newer tid (tp_order p))) < to_max_completed_tasks (tp_options p)"
proof -
  let ?p' = "store_record tid rec' p"
  have "tid \<in> set (tp_order p)"
    using find_in_order [OF inv_store_ok [OF inv], of tid] rec(1) by simp
  then obtain xs ys where order: "tp_order p = xs @ tid # ys" "tid \<notin> set xs"
    by (meson split_list_first)
  have d: "tid \<notin> set ys" using inv_store_ok [OF inv] order by (simp add: store_ok_def)
  have "dropWhile (\<lambda>k. k \<noteq> tid) (xs @ tid # ys) = tid # ys" using order(2) by (induction xs) auto
  then have newer: "newer tid (tp_order p) = ys" by (simp add: newer_def order(1))
  have T: "terminal_in ?p' k \<longleftrightarrow> k = tid \<or> terminal_in p k" for k
    using rec rec' by (auto simp: terminal_in_eq store_record_eq find_update_records)
  have same: "filter (terminal_in ?p') xs = filter (terminal_in p) xs" "filter (terminal_in ?p') ys = filter (terminal_in p) ys"
    using order(2) d by (auto simp: T intro!: filter_cong)
  have u: "unexpired now ?p' = tp_order p" "tp_options ?p' = tp_options p"
    using ttl by (simp_all add: unexpired_def store_record_eq)
  have "tid \<in> set (retained now ?p') \<longleftrightarrow>
      tid \<in> set (drop (excess now ?p') (filter (terminal_in p) xs @ tid # filter (terminal_in p) ys))"
    by (simp add: retained_def in_drop_first T u order(1) same)
  also have "\<dots> \<longleftrightarrow> excess now ?p' \<le> length (filter (terminal_in p) xs)"
    using order(2) d by (intro in_set_drop_middle) auto
  also have "excess now ?p' = length (filter (terminal_in p) xs) + length (filter (terminal_in p) ys) + 1
      - to_max_completed_tasks (tp_options p)"
    by (simp add: excess_def u terminal_count_def order(1) same T)
  finally show ?thesis unfolding newer by linarith
qed

text \<open>C13: with the default retention (no age limit), tasks/cancel reads a freed record exactly when
  the task is working and at least max_completed_tasks tasks created after it are terminal:
  trimming then evicts the record that was just cancelled, before its snapshot is copied.\<close>

theorem cancel_task_use_after_free_iff:
  assumes "task_reachable options (p, js, ss)" "to_completed_task_ttl options = None"
  shows "fst (cancel_task params clk stamp p) = UseAfterFree \<longleftrightarrow>
     (let p1 = snd (refresh_locked clk stamp p) in
        working p1 (tgp_task_id params) \<and>
        to_max_completed_tasks options \<le>
          length (filter (terminal_in p1) (newer (tgp_task_id params) (tp_order p1))))"
proof -
  let ?tid = "tgp_task_id params" and ?p1 = "snd (refresh_locked clk stamp p)"
  have "processor_inv p" and opts: "tp_options p = options"
    using task_reachable_inv [OF assms(1)] by (simp_all add: task_sys_inv_def)
  then have inv: "processor_inv ?p1" by (intro processor_inv_refresh)
  have find: "find_task_locked ?tid (trim_completed_locked (clk 3) (store_record ?tid rec' ?p1)) = None \<longleftrightarrow>
      to_max_completed_tasks options \<le> length (filter (terminal_in ?p1) (newer ?tid (tp_order ?p1)))"
    if "find_task_locked ?tid ?p1 = Some rec" "task_status (tk_task rec) = Working"
      "is_terminal (task_status (tk_task rec'))" for rec rec'
    using retained_write [OF inv _ that, of "clk 3"] opts assms(2) inv that(1)
    by (simp add: find_trim store_record_eq store_ok_update_records inv_store_ok find_update_records linorder_not_less)
  show ?thesis
  proof (cases "\<exists>rec. find_task_locked ?tid ?p1 = Some rec \<and> task_status (tk_task rec) = Working")
    case True
    then obtain rec where rec: "find_task_locked ?tid ?p1 = Some rec" "task_status (tk_task rec) = Working" by blast
    have "working ?p1 ?tid" using rec by (simp add: working_def)
    then show ?thesis
      using rec find [OF rec, of "cancel_record ?tid (clk 2) (stamp 1) rec"]
      by (auto simp: cancel_task_def Let_def cancel_record_def split: prod.splits option.splits)
  next
    case False
    then have "is_terminal (task_status (tk_task rec))" if "find_task_locked ?tid ?p1 = Some rec" for rec
      using that not_terminal_working [OF processor_inv_record [OF inv that]] by blast
    with False show ?thesis
      by (auto simp: cancel_task_def Let_def working_def split: prod.splits option.splits)
  qed
qed

text \<open>When the operation of a working task finishes, its record gets the outcome, unless at least
  max_completed_tasks tasks created after it are already terminal: then the finished task is the
  one that trimming evicts, and its result is gone before any client can ask for it.\<close>

theorem finish_task_evicts_iff:
  assumes "task_reachable options (p, js, ss)" "to_completed_task_ttl options = None"
    and "find_task_locked tid p = Some rec" "task_status (tk_task rec) = Working"
  shows "find_task_locked tid (snd (finish_task tid res clk stamp p)) =
     (if to_max_completed_tasks options \<le> length (filter (terminal_in p) (newer tid (tp_order p))) then None
      else Some (finish_record (clk 0) (stamp 0) res rec))"
proof -
  have inv: "processor_inv p" and opts: "tp_options p = options"
    using task_reachable_inv [OF assms(1)] by (simp_all add: task_sys_inv_def)
  have "is_terminal (task_status (tk_task (finish_record (clk 0) (stamp 0) res rec)))"
    by (simp add: finish_record_def split: sum.splits)
  from retained_write [OF inv _ assms(3,4) this, of "clk 1"] show ?thesis
    using opts assms(2-4) inv
    by (auto simp: finish_task_def Let_def find_trim store_record_eq store_ok_update_records inv_store_ok
        find_update_records)
qed

text \<open>The multiplication by \<open>10 ^ 9\<close> loses a multiple of \<open>2 ^ 64\<close>, none exactly up to the bound.\<close>

lemma ns_of_seconds_eq:
  assumes "0 \<le> sint ttl"
  defines "m \<equiv> (sint ttl * 1000000000 + 2 ^ 63) div 2 ^ 64"
  shows "ns_of_seconds ttl = sint ttl * 1000000000 - m * 2 ^ 64" "0 \<le> m" "m = 0 \<longleftrightarrow> sint ttl \<le> 9223372036"
proof -
  let ?x = "sint ttl * 1000000000"
  have "ns_of_seconds ttl = signed_take_bit 63 ?x" by (simp add: ns_of_seconds_def sint_word_ariths)
  also have "\<dots> = (?x + 2 ^ 63) mod 2 ^ 64 - 2 ^ 63" by (simp add: signed_take_bit_eq_take_bit_shift take_bit_eq_mod)
  also have "\<dots> = ?x - m * 2 ^ 64" by (simp add: m_def minus_div_mult_eq_mod [symmetric])
  finally show "ns_of_seconds ttl = ?x - m * 2 ^ 64" .
  show "0 \<le> m" using assms(1) by (simp add: m_def pos_imp_zdiv_nonneg_iff)
  have "m = 0 \<longleftrightarrow> ?x + 2 ^ 63 < 2 ^ 64" unfolding m_def zdiv_eq_0_iff using assms(1) by auto
  moreover have "?x + 2 ^ 63 < 2 ^ 64" if "sint ttl \<le> 9223372036" using that by simp
  moreover have "sint ttl \<le> 9223372036" if "?x + 2 ^ 63 < 2 ^ 64" using that by simp
  ultimately show "m = 0 \<longleftrightarrow> sint ttl \<le> 9223372036" by blast
qed

text \<open>C14: a working task with a non-negative ttl is timed out exactly when the elapsed time has reached the ttl in
  nanoseconds less \<open>m * 2 ^ 64\<close>, where \<open>m\<close> is zero exactly for ttl values up to 9223372036. So
  up to that bound the timeout is exact, and every larger ttl times out more than 584 years early: at
  the latest when the clock has advanced by \<open>2 ^ 63\<close> nanoseconds, and for 9223372037 from the start.\<close>

theorem timeout_exact_up_to_overflow:
  assumes "task_status (tk_task rec) = Working" "tk_timeout rec = Some ttl" "0 \<le> sint ttl"
  shows "(\<exists>m. (m = 0 \<longleftrightarrow> sint ttl \<le> 9223372036) \<and> 0 \<le> m \<and>
            (\<forall>now. timed_out now rec \<longleftrightarrow> sint ttl * 1000000000 - m * 2 ^ 64 \<le> now - tk_started_at rec)) \<and>
         (sint ttl \<le> 9223372036 \<longrightarrow> (\<forall>now. timed_out now rec \<longleftrightarrow> sint ttl * 1000000000 \<le> now - tk_started_at rec)) \<and>
         (9223372036 < sint ttl \<longrightarrow>
            timed_out (tk_started_at rec + 2 ^ 63) rec \<and> 2 ^ 63 < sint ttl * 1000000000) \<and>
         (ttl = 9223372037 \<longrightarrow> timed_out (tk_started_at rec) rec)"
proof -
  note ns = ns_of_seconds_eq [OF assms(3)]
  have iff: "timed_out now rec \<longleftrightarrow> ns_of_seconds ttl \<le> now - tk_started_at rec" for now
    using assms(1,2) by (auto simp: timed_out_def)
  have "ns_of_seconds ttl < 2 ^ 63" using sint_lt [of "ttl * 1000000000 :: int64"] by (simp add: ns_of_seconds_def)
  then have late: "timed_out (tk_started_at rec + 2 ^ 63) rec" by (simp add: iff)
  have "ns_of_seconds 9223372037 < 0" by (simp add: ns_of_seconds_def)
  then have first: "ttl = 9223372037 \<longrightarrow> timed_out (tk_started_at rec) rec" by (auto simp: iff)
  have "sint ttl \<le> 9223372036 \<longrightarrow> ns_of_seconds ttl = sint ttl * 1000000000" using ns by simp
  then show ?thesis using ns late first by (auto simp: iff)
qed

section \<open>Paging through the tasks\<close>

text \<open>A client that follows the cursors, with a bound on the number of requests.\<close>

definition list_params :: "string option \<Rightarrow> task_list_params" where
  "list_params cursor = \<lparr>tlp_cursor = cursor, tlp_meta = None, tlp_extensions = empty_object\<rparr>"

fun follow_cursors :: "nat \<Rightarrow> string option \<Rightarrow> (nat \<Rightarrow> int) \<Rightarrow> (nat \<Rightarrow> string) \<Rightarrow> task_processor \<Rightarrow> task list option" where
  "follow_cursors 0 cursor clk stamp p = None"
| "follow_cursors (Suc n) cursor clk stamp p =
     (case list_tasks (list_params cursor) clk stamp p of
        (Returns (Inr page), hooks, p') \<Rightarrow>
          (case tlr_next_cursor page of
             None \<Rightarrow> Some (tlr_tasks page)
           | Some c \<Rightarrow> map_option (append (tlr_tasks page)) (follow_cursors n (Some c) clk stamp p'))
      | _ \<Rightarrow> None)"

lemma unat_min_word: "unat (min a b) = min (unat a) (unat b)"
  by (simp add: min_def word_le_nat_alt)

lemma parse_offset: "n < 2 ^ 64 \<Longrightarrow> parse_task_list_cursor (Some (nat_to_string n)) = Inr (word_of_nat n)"
  using parse_cursor_digits_iff [of "nat_to_string n" 0 "nat_to_string n" "word_of_nat n"] nat_to_string_digits [of n]
    dec_value_nat_to_string [of n]
  by (simp add: parse_task_list_cursor_def dec_value_def unat_of_nat)

lemma map_filter_found:
  "store_ok p \<Longrightarrow> set ks \<subseteq> set (tp_order p) \<Longrightarrow>
   List.map_filter (\<lambda>k. find_task_locked k p) ks = map (\<lambda>k. the (find_task_locked k p)) ks"
proof (induction ks)
  case (Cons k ks)
  then have "find_task_locked k p \<noteq> None" using find_in_order [of p k] by simp
  with Cons show ?case by (auto simp: map_filter_simps)
qed (simp add: map_filter_simps)

lemma list_page:
  fixes p
  defines "len \<equiv> length (tp_order p)"
  defines "ps \<equiv> (if to_list_page_size (tp_options p) = 0 then len else unat (to_list_page_size (tp_options p)))"
  assumes quiet: "refresh_locked clk stamp p = ([], p)" and ok: "store_ok p"
    and bounds: "len < 2 ^ 63" "unat (to_list_page_size (tp_options p)) \<le> 2 ^ 63" "n \<le> len"
    and cursor: "parse_task_list_cursor cursor = Inr (word_of_nat n)"
  shows "list_tasks (list_params cursor) clk stamp p =
    (Returns (Inr
       \<lparr>tlr_tasks = map (\<lambda>k. tk_task (the (find_task_locked k p))) (take (min (n + ps) len - n) (drop n (tp_order p))),
        tlr_next_cursor = (if n + ps < len then Some (nat_to_string (n + ps)) else None),
        tlr_total = Some (word_of_nat len), tlr_meta = None, tlr_extensions = empty_object\<rparr>),
     [], p)"
proof -
  have u: "unat (word_of_nat n :: size_t) = n" "unat (word_of_nat len :: size_t) = len"
    using bounds by (simp_all add: unat_of_nat)
  have first: "min (word_of_nat n) (word_of_nat len) = (word_of_nat n :: size_t)"
    using bounds(3) u by (simp add: min_def word_le_nat_alt)
  define page where "page = (if to_list_page_size (tp_options p) = 0 then word_of_nat len else to_list_page_size (tp_options p))"
  have page: "unat page = ps" using u by (simp add: page_def ps_def)
  have "n + ps < 2 ^ 64" using bounds by (auto simp: ps_def)
  then have sum: "unat (word_of_nat n + page) = n + ps" using u page by (simp add: unat_word_ariths)
  have last: "unat (min (word_of_nat n + page) (word_of_nat len)) = min (n + ps) len"
    by (simp add: unat_min_word sum u)
  have no_wrap: "\<not> min (word_of_nat n + page) (word_of_nat len) < (word_of_nat n :: size_t)"
    using bounds(3) by (simp add: word_less_nat_alt last u)
  have more: "min (word_of_nat n + page) (word_of_nat len) < (word_of_nat len :: size_t) \<longleftrightarrow> n + ps < len"
    by (simp add: word_less_nat_alt last u min_less_iff_disj)
  have sub: "set (take (min (n + ps) len - n) (drop n (tp_order p))) \<subseteq> set (tp_order p)"
    by (meson order.trans set_drop_subset set_take_subset)
  show ?thesis
    unfolding list_tasks_def list_params_def task_list_params.simps cursor sum.case quiet Let_def prod.case
      len_def [symmetric] page_def [symmetric] first
    unfolding more last u map_filter_found [OF ok sub]
    using no_wrap by (simp add: emit_updates_def)
qed

lemma follow_from:
  assumes "refresh_locked clk stamp p = ([], p)" "store_ok p" "length (tp_order p) < 2 ^ 63"
    and "unat (to_list_page_size (tp_options p)) \<le> 2 ^ 63"
  shows "n \<le> length (tp_order p) \<Longrightarrow> parse_task_list_cursor cursor = Inr (word_of_nat n) \<Longrightarrow>
    length (tp_order p) - n < fuel \<Longrightarrow>
    follow_cursors fuel cursor clk stamp p =
      Some (map (\<lambda>k. tk_task (the (find_task_locked k p))) (drop n (tp_order p)))"
proof (induction fuel arbitrary: n cursor)
  case (Suc fuel)
  define len where "len = length (tp_order p)"
  define ps where "ps = (if to_list_page_size (tp_options p) = 0 then len else unat (to_list_page_size (tp_options p)))"
  define snap where "snap = (\<lambda>k. tk_task (the (find_task_locked k p)))"
  note page = list_page [OF assms Suc.prems(1,2), folded len_def, folded ps_def snap_def]
  show ?case unfolding snap_def [symmetric]
  proof (cases "n + ps < len")
    case True
    have "0 < ps"
    proof (rule ccontr)
      assume "\<not> 0 < ps"
      then show False using True by (auto simp: ps_def unat_eq_0 split: if_splits)
    qed
    then have rest: "follow_cursors fuel (Some (nat_to_string (n + ps))) clk stamp p = Some (map snap (drop (n + ps) (tp_order p)))"
      unfolding snap_def using True Suc.prems assms(3) by (intro Suc.IH parse_offset) (auto simp: len_def)
    have "take ps (drop n (tp_order p)) @ drop (n + ps) (tp_order p) = drop n (tp_order p)"
      by (metis add.commute append_take_drop_id drop_drop)
    then show "follow_cursors (Suc fuel) cursor clk stamp p = Some (map snap (drop n (tp_order p)))"
      using True by (simp add: page rest flip: map_append)
  next
    case False
    then have "take (min (n + ps) len - n) (drop n (tp_order p)) = drop n (tp_order p)" by (simp add: len_def)
    then show "follow_cursors (Suc fuel) cursor clk stamp p = Some (map snap (drop n (tp_order p)))"
      using False by (simp add: page)
  qed
qed simp

text \<open>As long as no task changes, a client that starts without a cursor and follows the
  next cursors gets every retained task exactly once, in order of creation, within one request
  more than there are tasks, for any page size up to \<open>2 ^ 63\<close>.\<close>

theorem follow_cursors_complete:
  assumes "refresh_locked clk stamp p = ([], p)" "store_ok p"
    and "length (tp_order p) < 2 ^ 63" "unat (to_list_page_size (tp_options p)) \<le> 2 ^ 63"
  shows "follow_cursors (length (tp_order p) + 1) None clk stamp p =
         Some (map (\<lambda>k. tk_task (the (find_task_locked k p))) (tp_order p))"
  using follow_from [OF assms, of 0 None "length (tp_order p) + 1"]
  by (simp add: parse_task_list_cursor_def)

section \<open>A sample run\<close>

text \<open>
  A processor that retains one terminal task. Two operations are submitted; both are taken by
  workers, and the second, newer one completes first.
\<close>

definition sample_options :: task_processor_options where
  "sample_options = \<lparr>to_worker_count = 1, to_queue_size = 4, to_default_timeout = 300, to_poll_interval = None,
     to_completed_task_ttl = None, to_max_completed_tasks = 1, to_list_page_size = 1, to_has_status_hook = True,
     to_has_progress_hook = False, to_emit_progress = True\<rparr>"

definition sample_descriptor :: task_operation_descriptor where
  "sample_descriptor = \<lparr>tod_name = ''job'', tod_task = None, tod_progress_token = None\<rparr>"

definition sample_operation :: task_operation_handler where
  "sample_operation = (\<lambda>_. Finished (Inr JNull))"

abbreviation clk0 :: "nat \<Rightarrow> int" where
  "clk0 \<equiv> \<lambda>_. 0"

abbreviation stamp0 :: "nat \<Rightarrow> string" where
  "stamp0 \<equiv> \<lambda>_. ''t0''"

definition sample_job :: "nat \<Rightarrow> task_job" where
  "sample_job i = \<lparr>job_task = ''task-'' @ nat_to_string i, job_operation = sample_operation, job_cancellation = Some i\<rparr>"

definition sample_task_of :: "nat \<Rightarrow> task" where
  "sample_task_of i = new_task sample_options ''t0'' 300 (''task-'' @ nat_to_string i)"

definition sample_record :: "nat \<Rightarrow> task_record" where
  "sample_record i = \<lparr>tk_task = sample_task_of i, tk_progress_token = None, tk_started_at = 0, tk_terminal_at = None,
     tk_timeout = Some 300, tk_cancellation = i, tk_cancelled = False, tk_result = None, tk_failure = None\<rparr>"

definition sample_submitted :: task_processor where
  "sample_submitted = (new_task_processor sample_options)\<lparr>
     tp_executor := (new_executor 1 4)\<lparr>ex_queues := [[], [sample_job 1], []]\<rparr>,
     tp_tasks := [(''task-1'', sample_record 1)], tp_order := [''task-1''], tp_next_task_index := 2\<rparr>"

definition sample_two :: task_processor where
  "sample_two = (new_task_processor sample_options)\<lparr>
     tp_executor := (new_executor 1 4)\<lparr>ex_queues := [[], [sample_job 1, sample_job 2], []]\<rparr>,
     tp_tasks := [(''task-1'', sample_record 1), (''task-2'', sample_record 2)],
     tp_order := [''task-1'', ''task-2''], tp_next_task_index := 3\<rparr>"

definition sample_done :: task_processor where
  "sample_done = sample_two\<lparr>tp_executor := new_executor 1 4,
     tp_tasks := [(''task-1'', sample_record 1), (''task-2'', finish_record 0 ''t0'' (Inr JNull) (sample_record 2))]\<rparr>"

lemma sample_ids: "nat_to_string 1 = ''1''" "nat_to_string (Suc 0) = ''1''" "nat_to_string 2 = ''2''" "nat_to_string 3 = ''3''"
  by (simp_all add: nat_to_string.simps digit_char_def) (code_simp)+

lemmas sample_simps = sample_options_def sample_descriptor_def sample_job_def sample_task_of_def sample_record_def
  sample_ids new_task_processor_def new_executor_def new_task_def make_task_id_def

lemmas submit_defs = submit_operation_def submit_insert_def read_token_def submit_enqueue_def submit_answer_def

lemma submit_first:
  "submit_operation sample_descriptor (Some sample_operation) clk0 stamp0 (new_task_processor sample_options) =
   (Inr \<lparr>ctr_task = sample_task_of 1, ctr_meta = None, ctr_extensions = empty_object\<rparr>,
    [StatusHook (sample_task_of 1)], sample_submitted)"
  by (simp add: submit_defs task_timeout_def sample_simps Let_def insert_task_def find_task_locked_def enqueue_def
      post_def sample_submitted_def emit_updates_def emit_update_def)

lemma submit_second:
  "snd (snd (submit_operation sample_descriptor (Some sample_operation) clk0 stamp0 sample_submitted)) = sample_two"
  by (simp add: submit_defs task_timeout_def sample_simps Let_def insert_task_def find_task_locked_def enqueue_def
      post_def sample_submitted_def sample_two_def)

lemma sample_submitted_reachable: "task_reachable sample_options (sample_submitted, [], [])"
  by (rule submit_operation_run [OF task_reachable.start _ submit_first]) (simp add: new_task_processor_def)

lemma sample_two_reachable: "task_reachable sample_options (sample_two, [], [])"
proof -
  obtain r hooks where
    "submit_operation sample_descriptor (Some sample_operation) clk0 stamp0 sample_submitted = (r, hooks, sample_two)"
    using submit_second by (metis prod.collapse)
  then show ?thesis by (rule submit_operation_run [OF sample_submitted_reachable, rotated]) (simp add: sample_submitted_def)
qed

text \<open>The state after the two jobs were taken, and after the second one finished.\<close>

abbreviation sample_running :: task_processor where
  "sample_running \<equiv> sample_two\<lparr>tp_executor := new_executor 1 4\<rparr>"

lemma sample_running_reachable: "task_reachable sample_options (sample_running, [sample_job 2, sample_job 1], [])"
proof -
  let ?e = "(new_executor 1 4)\<lparr>ex_queues := [[], [sample_job 2], []]\<rparr>"
  have 1: "task_step (sample_two, [], []) (sample_two\<lparr>tp_executor := ?e\<rparr>, [sample_job 1], [])"
    by (rule task_step.take) (simp add: worker_section_def sample_two_def new_executor_def)
  have "task_step (sample_two\<lparr>tp_executor := ?e\<rparr>, [sample_job 1], [])
      ((sample_two\<lparr>tp_executor := ?e\<rparr>)\<lparr>tp_executor := new_executor 1 4\<rparr>, [sample_job 2, sample_job 1], [])"
    by (rule task_step.take) (simp add: worker_section_def new_executor_def)
  then have 2: "task_step (sample_two\<lparr>tp_executor := ?e\<rparr>, [sample_job 1], []) (sample_running, [sample_job 2, sample_job 1], [])"
    by (simp del: One_nat_def)
  show ?thesis by (rule task_reachable.step [OF task_reachable.step [OF sample_two_reachable 1] 2])
qed

lemma sample_finish:
  "finish_task (job_task (sample_job 2)) (Inr JNull) clk0 stamp0 sample_running =
   ([StatusHook (tk_task (finish_record 0 ''t0'' (Inr JNull) (sample_record 2)))], sample_done)"
  by (simp add: finish_task_def find_task_locked_def sample_two_def sample_done_def sample_simps Let_def store_record_def
      trim_completed_locked_def terminal_count_def terminal_id_def finish_record_def emit_updates_def emit_update_def
      append_update_locked_def)

lemma sample_done_reachable: "task_reachable sample_options (sample_done, [sample_job 1], [])"
proof -
  have "task_step (sample_running, [] @ sample_job 2 # [sample_job 1], []) (sample_done, [] @ [sample_job 1], [])"
    by (rule task_step.finish [OF sample_finish])
  then have "task_step (sample_running, [sample_job 2, sample_job 1], []) (sample_done, [sample_job 1], [])"
    by (simp only: append_Nil)
  then show ?thesis by (rule task_reachable.step [OF sample_running_reachable])
qed

lemma sample_done_find:
  "find_task_locked ''task-1'' sample_done = Some (sample_record 1)"
  "find_task_locked ''task-2'' sample_done = Some (finish_record 0 ''t0'' (Inr JNull) (sample_record 2))"
  by (simp_all add: find_task_locked_def sample_done_def)

lemma sample_done_refresh: "refresh_locked clk0 stamp0 sample_done = ([], sample_done)"
  by (simp add: refresh_locked_def sample_done_def sample_two_def sample_simps timed_out_def ns_of_seconds_def
      finish_record_def trim_completed_locked_def terminal_count_def terminal_id_def)

lemma sample_done_terminal: "terminal_in sample_done ''task-2''" "\<not> terminal_in sample_done ''task-1''"
  by (simp_all add: terminal_in_eq sample_done_find finish_record_def sample_simps)

lemma sample_done_store: "store_ok sample_done"
  using task_reachable_inv [OF sample_done_reachable] by (simp add: task_sys_inv_def inv_store_ok)

abbreviation first_task :: task_get_params where
  "first_task \<equiv> \<lparr>tgp_task_id = ''task-1'', tgp_meta = None, tgp_extensions = empty_object\<rparr>"

abbreviation second_task :: task_get_params where
  "second_task \<equiv> \<lparr>tgp_task_id = ''task-2'', tgp_meta = None, tgp_extensions = empty_object\<rparr>"

theorem parse_task_list_cursor_exact_witness:
  "parse_task_list_cursor (Some ''42'') = Inr 42"
  using parse_task_list_cursor_exact [of "''42''" 42]
  by (simp add: is_digit_def less_eq_char_def dec_value_def digit_value_def)

theorem trim_retention_witness:
  "find_task_locked ''task-1'' (trim_completed_locked 0 sample_done) = Some (sample_record 1) \<and>
   terminals (trim_completed_locked 0 sample_done) \<le> 1"
proof -
  have "''task-1'' \<in> set (tp_order sample_done)" "to_max_completed_tasks (tp_options sample_done) = 1"
    by (simp_all add: sample_done_def sample_two_def sample_simps)
  then show ?thesis
    using trim_retention [OF sample_done_store, of "''task-1''" 0] sample_done_terminal(2) sample_done_find(1) by simp
qed

theorem task_records_consistent_witness:
  "length (filter (\<lambda>job. job_task job = ''task-1'') (queued (tp_executor sample_done) @ [sample_job 1])) = 1"
  using task_records_consistent [OF sample_done_reachable sample_done_find(1)] by (simp add: sample_simps Let_def)

theorem terminal_is_final_witness:
  "let p' = snd (snd (cancel_task second_task clk0 stamp0 sample_done)) in
   find_task_locked ''task-2'' p' = Some (finish_record 0 ''t0'' (Inr JNull) (sample_record 2)) \<or>
   find_task_locked ''task-2'' p' = None"
proof -
  obtain r hooks p' where run: "cancel_task second_task clk0 stamp0 sample_done = (r, hooks, p')"
    by (rule prod_cases3)
  then have "task_step (sample_done, [sample_job 1], []) (p', [sample_job 1], [])" by (rule task_step.cancel)
  from terminal_is_final [OF sample_done_reachable this sample_done_find(2)]
  show ?thesis by (simp add: run Let_def finish_record_def)
qed

text \<open>A submission to a stopped executor, from its first section to the state in which it is to be rolled back.\<close>

abbreviation sample_refused :: core_error where
  "sample_refused \<equiv> executor_error ''executor is stopped''"

definition sample_stopped :: task_processor where
  "sample_stopped = stop_processor (new_task_processor sample_options)"

definition sample_submission :: submission where
  "sample_submission = \<lparr>su_task = sample_task_of 1, su_progress_token = None, su_operation = sample_operation\<rparr>"

definition sample_inserted :: task_processor where
  "sample_inserted = insert_task (sample_task_of 1) None 300 0 sample_stopped"

lemma sample_rejected_reachable:
  "task_reachable sample_options (sample_inserted, [], [Rejected sample_submission sample_refused])"
proof -
  have 0: "task_reachable sample_options (sample_stopped, [], [])"
    unfolding sample_stopped_def by (rule task_reachable.step [OF task_reachable.start task_step.stop])
  have opts: "tp_options sample_stopped = sample_options" "tp_next_task_index sample_stopped = 1"
    by (simp_all add: sample_stopped_def stop_simps new_task_processor_def)
  have i: "submit_insert sample_descriptor (Some sample_operation) clk0 stamp0 sample_stopped = (Inr sample_submission, sample_inserted)"
    by (simp add: submit_insert_def opts task_timeout_def sample_simps sample_submission_def sample_inserted_def Let_def)
  have "task_reachable sample_options (sample_inserted, [], [Inserted sample_submission])"
    using task_reachable.step [OF 0 task_step.submit [OF _ i]] opts by simp
  from task_reachable.step [OF this task_step.token [where ss = "[]", simplified]]
  have 1: "task_reachable sample_options (sample_inserted, [], [Tokened sample_submission (read_token sample_submission sample_inserted)])" .
  have e: "tp_executor sample_inserted = tp_executor sample_stopped" by (simp add: sample_inserted_def insert_task_simps)
  have "ex_stopping (tp_executor sample_stopped)"
    by (simp add: sample_stopped_def stop_processor_def shutdown_locked_def clear_timers_def new_task_processor_def new_executor_def)
  then have "submit_enqueue sample_submission tok sample_inserted = (Inl sample_refused, sample_inserted)" for tok
    by (simp add: submit_enqueue_def enqueue_def post_def e)
  from task_reachable.step [OF 1 task_step.enqueue [OF this, where ss = "[]" and ss' = "[]", simplified]]
  show ?thesis by simp
qed

theorem submission_sections_witness:
  "tp_order sample_inserted = [''task-1''] \<and>
   tp_order (submit_rollback sample_submission sample_inserted) = [] \<and>
   find_task_locked ''task-1'' (submit_rollback sample_submission sample_inserted) = None"
proof -
  have "task_id (su_task sample_submission) = ''task-1''" by (simp add: sample_submission_def sample_simps)
  moreover have "tp_order sample_inserted = [''task-1'']"
    by (simp add: sample_inserted_def insert_task_simps sample_simps sample_stopped_def stop_processor_def shutdown_locked_def)
  ultimately show ?thesis
    using submission_sections [OF sample_rejected_reachable, of sample_descriptor None clk0 stamp0 _ _ sample_submission _ _ sample_refused]
    by (simp add: Let_def)
qed

theorem cancel_task_use_after_free_iff_witness:
  "fst (cancel_task first_task clk0 stamp0 sample_done) = UseAfterFree"
proof -
  have order: "newer ''task-1'' (tp_order sample_done) = [''task-2'']"
    by (simp add: newer_def sample_done_def sample_two_def)
  have "working sample_done ''task-1''" by (simp add: working_def sample_done_find sample_simps)
  then show ?thesis
    using cancel_task_use_after_free_iff [OF sample_done_reachable, of first_task clk0 stamp0] order sample_done_terminal(1)
    by (simp add: sample_done_refresh sample_options_def)
qed

theorem finish_task_evicts_iff_witness:
  "find_task_locked ''task-1'' (snd (finish_task ''task-1'' (Inr JNull) clk0 stamp0 sample_done)) = None"
proof -
  have order: "newer ''task-1'' (tp_order sample_done) = [''task-2'']"
    by (simp add: newer_def sample_done_def sample_two_def)
  show ?thesis
    using finish_task_evicts_iff [OF sample_done_reachable _ sample_done_find(1), of "Inr JNull" clk0 stamp0]
      order sample_done_terminal(1)
    by (simp add: sample_options_def sample_record_def sample_task_of_def new_task_def)
qed

theorem timeout_exact_up_to_overflow_witness:
  "timed_out 300000000000 (sample_record 1) \<and> \<not> timed_out 299999999999 (sample_record 1) \<and>
   timed_out 0 ((sample_record 1)\<lparr>tk_timeout := Some 9223372037\<rparr>) \<and>
   timed_out (2 ^ 63) ((sample_record 1)\<lparr>tk_timeout := Some 100000000000\<rparr>)"
  using timeout_exact_up_to_overflow [of "sample_record 1" 300]
    timeout_exact_up_to_overflow [of "(sample_record 1)\<lparr>tk_timeout := Some 9223372037\<rparr>" 9223372037]
    timeout_exact_up_to_overflow [of "(sample_record 1)\<lparr>tk_timeout := Some 100000000000\<rparr>" 100000000000]
  by (simp add: sample_record_def sample_task_of_def new_task_def)

theorem follow_cursors_complete_witness:
  "follow_cursors 3 None clk0 stamp0 sample_done =
     Some [sample_task_of 1, tk_task (finish_record 0 ''t0'' (Inr JNull) (sample_record 2))]"
proof -
  have "length (tp_order sample_done) = 2" "to_list_page_size (tp_options sample_done) = 1"
    "tp_order sample_done = [''task-1'', ''task-2'']"
    by (simp_all add: sample_done_def sample_two_def sample_simps)
  then show ?thesis
    using follow_cursors_complete [OF sample_done_refresh sample_done_store]
    by (simp add: sample_done_find sample_record_def [of "Suc 0"] numeral_3_eq_3)
qed

end
