(* ===== verification/Tool_Headers.thy ===== *)
theory Tool_Headers
  imports Tool_Protocol
begin

text \<open>
  The header values of SEP-2243 in src/sdk/protocol/include/cxxmcp/protocol/tool.hpp: base64, the
  x-mcp-header annotations of an input schema, and the Mcp-Param headers built from a call.
  Bytes are characters; a byte expression is written with division and remainder on its code.
\<close>

section \<open>Base64\<close>

abbreviation byte :: "char \<Rightarrow> nat" where
  "byte c \<equiv> of_char c"

definition kAlphabet :: string where
  "kAlphabet = ''ABCDEFGHIJKLMNOPQRSTUVWXYZabcdefghijklmnopqrstuvwxyz0123456789+/''"

fun base64_encode :: "string \<Rightarrow> string" where
  "base64_encode [] = ''''"
| "base64_encode [a] =
     [kAlphabet ! (byte a div 4 mod 64), kAlphabet ! (byte a mod 4 * 16), CHR ''='', CHR ''='']"
| "base64_encode [a, b] =
     [kAlphabet ! (byte a div 4 mod 64), kAlphabet ! (byte a mod 4 * 16 + byte b div 16 mod 16),
      kAlphabet ! (byte b mod 16 * 4), CHR ''='']"
| "base64_encode (a # b # c # rest) =
     kAlphabet ! (byte a div 4 mod 64) # kAlphabet ! (byte a mod 4 * 16 + byte b div 16 mod 16) #
     kAlphabet ! (byte b mod 16 * 4 + byte c div 64 mod 4) # kAlphabet ! (byte c mod 64) #
     base64_encode rest"

definition is_base64_char :: "char \<Rightarrow> bool" where
  "is_base64_char c \<longleftrightarrow>
     (CHR ''A'' \<le> c \<and> c \<le> CHR ''Z'') \<or> (CHR ''a'' \<le> c \<and> c \<le> CHR ''z'') \<or>
     (CHR ''0'' \<le> c \<and> c \<le> CHR ''9'') \<or> c = CHR ''+'' \<or> c = CHR ''/''"

definition base64_padding :: "string \<Rightarrow> nat" where
  "base64_padding v =
     (if last v = CHR ''='' then (if length v \<ge> 2 \<and> v ! (length v - 2) = CHR ''='' then 2 else 1) else 0)"

definition is_valid_base64 :: "string \<Rightarrow> bool" where
  "is_valid_base64 v =
     (if v = '''' then True
      else if length v mod 4 \<noteq> 0 then False
      else \<forall>i<length v. is_base64_char (v ! i) \<or> (v ! i = CHR ''='' \<and> i \<ge> length v - base64_padding v))"

text \<open>The reference decoder the encoder is checked against.\<close>

fun index_of :: "char \<Rightarrow> string \<Rightarrow> nat" where
  "index_of c [] = 0"
| "index_of c (d # ds) = (if c = d then 0 else Suc (index_of c ds))"

definition sextet :: "char \<Rightarrow> nat" where
  "sextet c = index_of c kAlphabet"

fun base64_decode :: "string \<Rightarrow> string" where
  "base64_decode (a # b # c # d # rest) =
     (if c = CHR ''='' then [char_of (sextet a * 4 + sextet b div 16)]
      else if d = CHR ''='' then
        [char_of (sextet a * 4 + sextet b div 16), char_of (sextet b mod 16 * 16 + sextet c div 4)]
      else
        char_of (sextet a * 4 + sextet b div 16) # char_of (sextet b mod 16 * 16 + sextet c div 4) #
        char_of (sextet c mod 4 * 64 + sextet d) # base64_decode rest)"
| "base64_decode _ = ''''"

lemma kAlphabet_length [simp]: "length kAlphabet = 64"
  by (simp add: kAlphabet_def)

lemma index_of_nth: "distinct ds \<Longrightarrow> i < length ds \<Longrightarrow> index_of (ds ! i) ds = i"
proof (induction ds arbitrary: i)
  case (Cons d ds)
  then show ?case by (cases i) (auto simp: nth_mem)
qed simp

lemma sextet_nth [simp]: "i < 64 \<Longrightarrow> sextet (kAlphabet ! i) = i"
  unfolding sextet_def by (rule index_of_nth) (simp_all add: kAlphabet_def)

lemma kAlphabet_all:
  "list_all (\<lambda>c. is_base64_char c \<and> c \<noteq> CHR ''='' \<and> 32 < byte c \<and> byte c < 127) kAlphabet"
  by code_simp

lemma kAlphabet_set: "c \<in> set kAlphabet \<Longrightarrow> is_base64_char c \<and> c \<noteq> CHR ''='' \<and> 32 < byte c \<and> byte c < 127"
  using kAlphabet_all by (simp add: list_all_iff)

lemma kAlphabet_nth [simp]:
  "i < 64 \<Longrightarrow> is_base64_char (kAlphabet ! i)" "i < 64 \<Longrightarrow> kAlphabet ! i \<noteq> CHR ''=''"
  using kAlphabet_set [OF nth_mem, of i] by simp_all

lemma byte_less [simp]: "byte c < 256"
  by (metis of_char_of mod_less_divisor of_char_mod_256 zero_less_numeral)

text \<open>Bit fields of the three bytes of a group.\<close>

lemma low_bits: "x mod 4 * 16 < (64::nat)" "y mod 16 * 4 < (64::nat)"
  using mod_less_divisor [of 4 x] mod_less_divisor [of 16 y] by simp_all

lemma joined_bits:
  "x mod 4 * 16 + y mod 16 < (64::nat)" "y mod 16 * 4 + z mod 4 < (64::nat)"
  using mod_less_divisor [of 4 x] mod_less_divisor [of 16 y] mod_less_divisor [of 4 z] by linarith+

lemma first_byte: "x < 256 \<Longrightarrow> x div 4 mod 64 * 4 + (x mod 4 * 16 + y mod 16) div 16 = (x::nat)"
  by (simp add: div_add1_eq [of "x mod 4 * 16"] less_mult_imp_div_less)

lemma second_byte: "y < 256 \<Longrightarrow> (a * 16 + y div 16 mod 16) mod 16 * 16 + (y mod 16 * 4 + z mod 4) div 4 = (y::nat)"
  by (simp add: div_add1_eq [of "y mod 16 * 4"] less_mult_imp_div_less)

lemma third_byte: "z < 256 \<Longrightarrow> (b * 4 + z div 64 mod 4) mod 4 * 64 + z mod 64 = (z::nat)"
  by (simp add: less_mult_imp_div_less)

lemma base64_decode_encode: "base64_decode (base64_encode s) = s"
proof (induction s rule: base64_encode.induct)
  case (2 a)
  then show ?case using first_byte [of "byte a" 0] by (simp add: low_bits)
next
  case (3 a b)
  then show ?case
    using first_byte [of "byte a" "byte b div 16"] second_byte [of "byte b" "byte a mod 4" 0]
    by (simp add: low_bits joined_bits)
next
  case (4 a b c rest)
  then show ?case
    using first_byte [of "byte a" "byte b div 16"] second_byte [of "byte b" "byte a mod 4" "byte c div 64"]
      third_byte [of "byte c" "byte b mod 16"]
    by (simp add: low_bits joined_bits)
qed simp

lemma base64_encode_length: "length (base64_encode s) = 4 * ((length s + 2) div 3)"
proof (induction s rule: base64_encode.induct)
  case (4 a b c rest)
  have "(length rest + 3 + 2) div 3 = (length rest + 2) div 3 + 1" by presburger
  with 4 show ?case by simp
qed simp_all

lemma base64_encode_chars:
  "c \<in> set (base64_encode s) \<Longrightarrow> c = CHR ''='' \<or> c \<in> set kAlphabet"
  by (induction s rule: base64_encode.induct) (auto simp: low_bits joined_bits)

text \<open>The encoder's text: alphabet characters, then one or two padding characters or none.\<close>

lemma base64_encode_shape:
  "\<exists>body pad. base64_encode s = body @ replicate pad CHR ''='' \<and> pad \<le> 2 \<and>
     (\<forall>c\<in>set body. is_base64_char c \<and> c \<noteq> CHR ''='') \<and> (s \<noteq> [] \<longrightarrow> 2 \<le> length body)"
proof (induction s rule: base64_encode.induct)
  case (2 a)
  show ?case
    by (rule exI [of _ "[kAlphabet ! (byte a div 4 mod 64), kAlphabet ! (byte a mod 4 * 16)]"], rule exI [of _ 2])
       (simp add: low_bits numeral_2_eq_2)
next
  case (3 a b)
  show ?case
    by (rule exI [of _ "[kAlphabet ! (byte a div 4 mod 64), kAlphabet ! (byte a mod 4 * 16 + byte b div 16 mod 16),
          kAlphabet ! (byte b mod 16 * 4)]"], rule exI [of _ 1])
       (simp add: low_bits joined_bits)
next
  case (4 a b c rest)
  then obtain body pad where ih: "base64_encode rest = body @ replicate pad CHR ''=''" "pad \<le> 2"
    "\<forall>c\<in>set body. is_base64_char c \<and> c \<noteq> CHR ''=''" by blast
  show ?case
    by (rule exI [of _ "kAlphabet ! (byte a div 4 mod 64) # kAlphabet ! (byte a mod 4 * 16 + byte b div 16 mod 16) #
          kAlphabet ! (byte b mod 16 * 4 + byte c div 64 mod 4) # kAlphabet ! (byte c mod 64) # body"],
        rule exI [of _ pad])
       (use ih in \<open>simp add: low_bits joined_bits\<close>)
qed simp

lemma padding_ge:
  assumes "v = body @ replicate pad CHR ''=''" "pad \<le> 2"
  shows "pad \<le> base64_padding v"
proof -
  from assms(2) have "pad = 0 \<or> pad = 1 \<or> pad = 2" by linarith
  then show ?thesis
    using assms(1) by (auto simp: base64_padding_def numeral_2_eq_2 nth_append)
qed

lemma padded_valid:
  assumes "v = body @ replicate pad CHR ''=''" "pad \<le> 2" "\<forall>c\<in>set body. is_base64_char c"
    "length v mod 4 = 0"
  shows "is_valid_base64 v"
proof -
  have p: "length v - base64_padding v \<le> length body"
    using padding_ge [OF assms(1,2)] assms(1) by simp
  have "is_base64_char (v ! i) \<or> (v ! i = CHR ''='' \<and> length v - base64_padding v \<le> i)" if "i < length v" for i
  proof (cases "i < length body")
    case True
    then show ?thesis using assms(1,3) by (simp add: nth_append)
  next
    case False
    then have "v ! i = CHR ''=''" using that assms(1) by (simp add: nth_append)
    with False p show ?thesis by simp
  qed
  with assms(4) show ?thesis by (simp add: is_valid_base64_def)
qed

lemma base64_encode_valid: "is_valid_base64 (base64_encode s)"
proof -
  obtain body pad where b: "base64_encode s = body @ replicate pad CHR ''=''" "pad \<le> 2"
    "\<forall>c\<in>set body. is_base64_char c \<and> c \<noteq> CHR ''=''"
    using base64_encode_shape [of s] by (elim exE conjE) (rule that)
  have "length (base64_encode s) mod 4 = 0" unfolding base64_encode_length by simp
  moreover have "\<forall>c\<in>set body. is_base64_char c" using b(3) by simp
  ultimately show ?thesis by (intro padded_valid [OF b(1,2)])
qed

text \<open>C9: the base64 encoder is correct: decoding its output by the reference decoder gives the
  input back, its length is four characters per started group of three bytes, and the validity test
  of the content parser accepts it.\<close>

theorem base64_encode_correct:
  "base64_decode (base64_encode s) = s \<and> length (base64_encode s) = 4 * ((length s + 2) div 3) \<and>
   is_valid_base64 (base64_encode s)"
  using base64_decode_encode base64_encode_length base64_encode_valid by blast

section \<open>Header values\<close>

definition needs_base64_encoding :: "string \<Rightarrow> bool" where
  "needs_base64_encoding v =
     (if list_ex (\<lambda>c. byte c < 32 \<or> 126 < byte c) v then True
      else if v \<noteq> '''' \<and> (hd v = CHR '' '' \<or> last v = CHR '' '') then True
      else False)"

definition encode_header_value :: "string \<Rightarrow> string" where
  "encode_header_value v =
     (if needs_base64_encoding v then ''=?base64?'' @ base64_encode v @ ''?='' else v)"

definition header_safe :: "string \<Rightarrow> bool" where
  "header_safe v \<longleftrightarrow> (\<forall>c\<in>set v. \<not> (byte c < 32 \<or> 126 < byte c)) \<and>
     (v \<noteq> '''' \<longrightarrow> hd v \<noteq> CHR '' '' \<and> last v \<noteq> CHR '' '')"

lemma not_needs_base64: "\<not> needs_base64_encoding v \<longleftrightarrow> header_safe v"
  by (auto simp: needs_base64_encoding_def header_safe_def list_ex_iff)

lemma encoded_safe: "header_safe (''=?base64?'' @ base64_encode v @ ''?='')"
proof -
  have "\<not> (byte c < 32 \<or> 126 < byte c)" if "c \<in> set (base64_encode v)" for c
    using base64_encode_chars [OF that] kAlphabet_set [of c] by auto
  then show ?thesis by (simp add: header_safe_def)
qed

text \<open>the value of an Mcp-Param header is always printable ASCII without leading or trailing
  space, so it cannot inject a header line; but the encoding is ambiguous: a plain value that
  already looks like an encoded one is passed through, and so two different values give the same
  header.\<close>

theorem encode_header_value_safe_ambiguous:
  "header_safe (encode_header_value v) \<and>
   (header_safe v \<longrightarrow> encode_header_value v = v) \<and>
   (\<not> header_safe w \<longrightarrow>
      ''=?base64?'' @ base64_encode w @ ''?='' \<noteq> w \<and>
      encode_header_value (''=?base64?'' @ base64_encode w @ ''?='') = encode_header_value w)"
proof -
  have "encode_header_value u = (if header_safe u then u else ''=?base64?'' @ base64_encode u @ ''?='')" for u
    unfolding encode_header_value_def not_needs_base64 [symmetric] by simp
  then show ?thesis using encoded_safe [of v] encoded_safe [of w] by metis
qed

theorem encode_header_value_safe_ambiguous_witness:
  "encode_header_value ''=?base64?IGE=?='' = encode_header_value '' a''"
proof -
  have "\<not> header_safe '' a''" by (simp add: header_safe_def)
  moreover have "''=?base64?'' @ base64_encode '' a'' @ ''?='' = ''=?base64?IGE=?=''" by code_simp
  ultimately show ?thesis using encode_header_value_safe_ambiguous [of "''''" "'' a''"] by metis
qed

text \<open>\<open>value.dump()\<close> of a double is the parameter \<open>dump_float\<close>.\<close>

definition number_to_header_string :: "(64 word \<Rightarrow> string) \<Rightarrow> json \<Rightarrow> string" where
  "number_to_header_string dump_float v =
     (case get_int64 v of
        Some i \<Rightarrow> int_to_string (sint i)
      | None \<Rightarrow> (case v of JFloat d \<Rightarrow> dump_float d | _ \<Rightarrow> ''''))"

record x_header_entry =
  xh_header_name :: string
  xh_param_name :: string
  xh_type :: string

definition extract_x_mcp_headers :: "json \<Rightarrow> x_header_entry list" where
  "extract_x_mcp_headers input_schema =
     (case jfind input_schema ''properties'' of
        Some (JObject props) \<Rightarrow>
          concat (map (\<lambda>(key, prop).
            case jfind prop ''x-mcp-header'' of
              Some (JString h) \<Rightarrow>
                [\<lparr>xh_header_name = h, xh_param_name = key,
                  xh_type = (case jfind prop ''type'' of Some (JString t) \<Rightarrow> t | _ \<Rightarrow> '''')\<rparr>]
            | _ \<Rightarrow> []) props)
      | _ \<Rightarrow> [])"

definition to_lower :: "char \<Rightarrow> char" where
  "to_lower c = (if CHR ''A'' \<le> c \<and> c \<le> CHR ''Z'' then char_of (byte c + 32) else c)"

definition x_header_ok :: "x_header_entry \<Rightarrow> bool" where
  "x_header_ok e \<longleftrightarrow>
     xh_header_name e \<noteq> '''' \<and>
     list_all (\<lambda>c. \<not> (byte c < 33 \<or> 126 < byte c \<or> c = CHR '':'')) (xh_header_name e) \<and>
     \<not> (xh_type e = ''object'' \<or> xh_type e = ''array'' \<or> xh_type e = ''null'' \<or> xh_type e = '''')"

fun validate_x_headers_from :: "string list \<Rightarrow> x_header_entry list \<Rightarrow> bool" where
  "validate_x_headers_from seen [] = True"
| "validate_x_headers_from seen (e # es) =
     (if \<not> x_header_ok e then False
      else let lower = map to_lower (xh_header_name e) in
           if lower \<in> set seen then False else validate_x_headers_from (lower # seen) es)"

definition validate_tool_x_headers :: "x_header_entry list \<Rightarrow> bool" where
  "validate_tool_x_headers entries = validate_x_headers_from [] entries"

definition build_tool_param_headers ::
  "(64 word \<Rightarrow> string) \<Rightarrow> json \<Rightarrow> x_header_entry list \<Rightarrow> string alist" where
  "build_tool_param_headers dump_float arguments entries =
     foldl (\<lambda>headers e.
       case jfind arguments (xh_param_name e) of
         None \<Rightarrow> headers
       | Some v \<Rightarrow>
           let key = ''Mcp-Param-'' @ xh_header_name e in
           (case v of
              JNull \<Rightarrow> headers
            | JBool b \<Rightarrow> al_set key (if b then ''true'' else ''false'') headers
            | JString s \<Rightarrow> al_set key (encode_header_value s) headers
            | _ \<Rightarrow> if is_number v then al_set key (number_to_header_string dump_float v) headers
                   else headers))
       [] entries"

lemma validate_from_iff:
  "validate_x_headers_from seen es \<longleftrightarrow>
     (\<forall>e\<in>set es. x_header_ok e) \<and> distinct (map (\<lambda>e. map to_lower (xh_header_name e)) es) \<and>
     (\<forall>e\<in>set es. map to_lower (xh_header_name e) \<notin> set seen)"
proof (induction es arbitrary: seen)
  case (Cons e es)
  show ?case by (simp add: Cons.IH Let_def image_iff) metis
qed simp

text \<open>The validation loop accepts a tool's header annotations exactly when every annotation is
  well-formed and no two header names agree up to case; then no two arguments share a header.\<close>

theorem validate_tool_x_headers_exact:
  "(validate_tool_x_headers es \<longleftrightarrow>
     (\<forall>e\<in>set es. x_header_ok e) \<and> distinct (map (\<lambda>e. map to_lower (xh_header_name e)) es)) \<and>
   (validate_tool_x_headers es \<longrightarrow> distinct (map xh_header_name es))"
proof -
  have "distinct (map xh_header_name es)" if "distinct (map (\<lambda>e. map to_lower (xh_header_name e)) es)"
    using that distinct_map [of "map to_lower" "map xh_header_name es"] by (simp add: comp_def)
  then show ?thesis by (simp add: validate_tool_x_headers_def validate_from_iff)
qed

theorem validate_tool_x_headers_exact_witness:
  "\<not> validate_tool_x_headers
     [\<lparr>xh_header_name = ''Ab'', xh_param_name = ''p'', xh_type = ''string''\<rparr>,
      \<lparr>xh_header_name = ''aB'', xh_param_name = ''q'', xh_type = ''string''\<rparr>]"
proof -
  have "(char_of (97::nat) :: char) = CHR ''a''" "(char_of (98::nat) :: char) = CHR ''b''" by code_simp+
  then show ?thesis
    using validate_tool_x_headers_exact [of
     "[\<lparr>xh_header_name = ''Ab'', xh_param_name = ''p'', xh_type = ''string''\<rparr>,
      \<lparr>xh_header_name = ''aB'', xh_param_name = ''q'', xh_type = ''string''\<rparr>]"]
    by (simp add: to_lower_def less_eq_char_def)
qed

end
