(* ===== verification/Floats.thy ===== *)
theory Floats
  imports Doubles
begin

text \<open>
  Single precision: the conversions between \<open>float\<close> and \<open>double\<close> and from integers, rounding to the
  nearest representable value, ties to the even significand, with subnormal numbers and overflow to
  infinity. A float is its bit pattern; the functions on natural numbers work on the pattern
  without the sign bit.
\<close>

definition infinity_pattern :: nat where
  "infinity_pattern = 255 * 2 ^ 23"

text \<open>
  A finite double is \<open>sig * 2 ^ (E - 1075)\<close>. The unit in the last place of the float is
  \<open>2 ^ (k - 149)\<close>, so that the significand is shifted right by \<open>k + 926 - E\<close> places; a carry
  moves into the exponent field.
\<close>

definition narrow_nat :: "nat \<Rightarrow> nat" where
  "narrow_nat x =
     (let e = x div 2 ^ 52; m = x mod 2 ^ 52 in
      if e = 2047 then (if m = 0 then infinity_pattern else infinity_pattern + 2 ^ 22)
      else let sig = (if e = 0 then m else 2 ^ 52 + m); E = max e 1 in
           if sig = 0 then 0
           else let k = bit_length sig + E - 950
                in min (k * 2 ^ 23 + round_even sig (k + 926 - E)) infinity_pattern)"

definition widen_nat :: "nat \<Rightarrow> nat" where
  "widen_nat y =
     (let e = y div 2 ^ 23; m = y mod 2 ^ 23 in
      if e = 255 then 2047 * 2 ^ 52 + m * 2 ^ 29
      else let sig = (if e = 0 then m else 2 ^ 23 + m); E = max e 1; b = bit_length sig in
           if sig = 0 then 0 else (b + E + 872) * 2 ^ 52 + (sig * 2 ^ (53 - b) - 2 ^ 52))"

definition float_of_nat :: "nat \<Rightarrow> nat" where
  "float_of_nat n =
     (let b = bit_length n;
          sig = (if b \<le> 24 then n * 2 ^ (24 - b) else round_even n (b - 24))
      in if n = 0 then 0 else (126 + b) * 2 ^ 23 + (sig - 2 ^ 23))"

definition float_of_double :: "64 word \<Rightarrow> 32 word" where
  "float_of_double d =
     word_of_nat ((if 2 ^ 63 \<le> unat d then 2 ^ 31 else 0) + narrow_nat (unat d mod 2 ^ 63))"

definition double_of_float :: "32 word \<Rightarrow> 64 word" where
  "double_of_float f =
     word_of_nat ((if 2 ^ 31 \<le> unat f then 2 ^ 63 else 0) + widen_nat (unat f mod 2 ^ 31))"

definition float_of_int :: "int \<Rightarrow> 32 word" where
  "float_of_int i =
     (if i < 0 then word_of_nat (2 ^ 31 + float_of_nat (nat (- i))) else word_of_nat (float_of_nat (nat i)))"

fun get_float :: "json \<Rightarrow> (32 word) option" where
  "get_float (JFloat d) = Some (float_of_double d)"
| "get_float (JInt i) = Some (float_of_int (sint i))"
| "get_float (JUInt i) = Some (float_of_int (int (unat i)))"
| "get_float _ = None"

definition float_is_finite :: "32 word \<Rightarrow> bool" where
  "float_is_finite f \<longleftrightarrow> unat f mod 2 ^ 31 < infinity_pattern"

text \<open>Comparison of a finite float with \<open>0.0f\<close> and \<open>1.0f\<close>; the two zeros are equal.\<close>

definition float_below_zero :: "32 word \<Rightarrow> bool" where
  "float_below_zero f \<longleftrightarrow> 2 ^ 31 < unat f"

definition float_above_one :: "32 word \<Rightarrow> bool" where
  "float_above_one f \<longleftrightarrow> 127 * 2 ^ 23 < unat f \<and> unat f < 2 ^ 31"

section \<open>A float survives the way through double\<close>

lemma bit_length_eqI:
  assumes "2 ^ k \<le> n" "n < 2 ^ Suc k"
  shows "bit_length n = Suc k"
proof -
  have "0 < (2 :: nat) ^ k" by simp
  then have pos: "0 < n" using assms(1) by (rule less_le_trans)
  have "bit_length n \<le> Suc k" using assms(2) by (rule bit_length_le)
  moreover have "\<not> bit_length n \<le> k"
  proof
    assume "bit_length n \<le> k"
    then have "n < 2 ^ k"
      using bit_length_bounds [OF pos] power_increasing [of "bit_length n" k "2 :: nat"] by linarith
    with assms(1) show False by simp
  qed
  ultimately show ?thesis by simp
qed

lemma bit_length_scaled:
  assumes "0 < n" "bit_length n \<le> 53"
  shows "bit_length (n * 2 ^ (53 - bit_length n)) = 53"
    "2 ^ 52 \<le> n * 2 ^ (53 - bit_length n)" "n * 2 ^ (53 - bit_length n) < 2 ^ 53"
proof -
  let ?b = "bit_length n"
  have b: "2 ^ (?b - 1) \<le> n" "n < 2 ^ ?b" "0 < ?b" using bit_length_bounds [OF assms(1)] by auto
  have p: "2 ^ (?b - 1) * 2 ^ (53 - ?b) = (2 ^ 52 :: nat)" "2 ^ ?b * 2 ^ (53 - ?b) = (2 ^ 53 :: nat)"
    using assms(2) b(3) by (simp_all add: power_add [symmetric])
  have "2 ^ (?b - 1) * 2 ^ (53 - ?b) \<le> n * 2 ^ (53 - ?b)" using b(1) by (rule mult_le_mono1)
  then show ge: "2 ^ 52 \<le> n * 2 ^ (53 - ?b)" unfolding p(1) .
  show lt: "n * 2 ^ (53 - ?b) < 2 ^ 53" using b(2) p(2) by (metis mult_less_cancel2 zero_less_numeral zero_less_power)
  show "bit_length (n * 2 ^ (53 - ?b)) = 53" using bit_length_eqI [of 52] ge lt by simp
qed

lemma round_even_exact [simp]: "round_even (a * 2 ^ s) s = a"
  by (simp add: round_even_def Let_def)

text \<open>The fields of a widened float.\<close>

lemma widen_nat_fields:
  assumes "0 < sig" "sig < 2 ^ 24" "b = bit_length sig"
    "x = (b + E + 872) * 2 ^ 52 + (sig * 2 ^ (53 - b) - 2 ^ 52)"
  shows "x div 2 ^ 52 = b + E + 872" "x mod 2 ^ 52 = sig * 2 ^ (53 - b) - 2 ^ 52"
    "2 ^ 52 + x mod 2 ^ 52 = sig * 2 ^ (53 - b)"
proof -
  have "b \<le> 53" using bit_length_le [OF assms(2)] assms(3) by simp
  then have s: "2 ^ 52 \<le> sig * 2 ^ (53 - b)" "sig * 2 ^ (53 - b) < 2 ^ 53"
    using bit_length_scaled [OF assms(1)] assms(3) by auto
  then have lt: "sig * 2 ^ (53 - b) - 2 ^ 52 < 2 ^ 52" by simp
  show d: "x div 2 ^ 52 = b + E + 872" unfolding assms(4) using lt by (simp add: div_mult_self3)
  show m: "x mod 2 ^ 52 = sig * 2 ^ (53 - b) - 2 ^ 52" unfolding assms(4) mod_mult_self3 using lt by (rule mod_less)
  show "2 ^ 52 + x mod 2 ^ 52 = sig * 2 ^ (53 - b)" unfolding m using s(1) by simp
qed

text \<open>The fields of a finite float.\<close>

lemma widen_nat_cases:
  assumes "y < infinity_pattern"
  obtains e m sig E b where "y = e * 2 ^ 23 + m" "e < 255" "m < 2 ^ 23"
    "sig = (if e = 0 then m else 2 ^ 23 + m)" "E = max e 1" "b = bit_length sig" "sig < 2 ^ 24" "b \<le> 24"
    "widen_nat y = (if sig = 0 then 0 else (b + E + 872) * 2 ^ 52 + (sig * 2 ^ (53 - b) - 2 ^ 52))"
proof
  define e m sig E b where d: "e = y div 2 ^ 23" "m = y mod 2 ^ 23" "sig = (if e = 0 then m else 2 ^ 23 + m)"
    "E = max e 1" "b = bit_length sig"
  show "y = e * 2 ^ 23 + m" unfolding d(1,2) by (rule div_mult_mod_eq [symmetric])
  show e: "e < 255" unfolding d(1) using assms by (simp add: infinity_pattern_def less_mult_imp_div_less)
  show m: "m < 2 ^ 23" by (simp add: d(2))
  then show sig: "sig < 2 ^ 24" by (simp add: d(3))
  show "b \<le> 24" using bit_length_le [OF sig] by (simp add: d(5))
  have "widen_nat y = (if e = 255 then 2047 * 2 ^ 52 + m * 2 ^ 29
      else if sig = 0 then 0 else (b + E + 872) * 2 ^ 52 + (sig * 2 ^ (53 - b) - 2 ^ 52))"
    by (simp only: widen_nat_def Let_def d)
  then show "widen_nat y = (if sig = 0 then 0 else (b + E + 872) * 2 ^ 52 + (sig * 2 ^ (53 - b) - 2 ^ 52))"
    using e by simp
  show "sig = (if e = 0 then m else 2 ^ 23 + m)" "E = max e 1" "b = bit_length sig" by (rule d(3-5))+
qed

lemma narrow_widen:
  assumes "y < infinity_pattern"
  shows "narrow_nat (widen_nat y) = y"
proof -
  obtain e m sig E b where y: "y = e * 2 ^ 23 + m" and e: "e < 255" and m: "m < 2 ^ 23"
    and sig: "sig = (if e = 0 then m else 2 ^ 23 + m)" and E: "E = max e 1" and b: "b = bit_length sig"
    and sig24: "sig < 2 ^ 24" and b24: "b \<le> 24"
    and w: "widen_nat y = (if sig = 0 then 0 else (b + E + 872) * 2 ^ 52 + (sig * 2 ^ (53 - b) - 2 ^ 52))"
    using widen_nat_cases [OF assms] by blast
  show ?thesis
  proof (cases "sig = 0")
    case True
    then have "y = 0" using y sig by (auto split: if_splits)
    then show ?thesis using w True by (simp add: narrow_nat_def)
  next
    case False
    then have pos: "0 < sig" by simp
    define x where "x = widen_nat y"
    have x: "x = (b + E + 872) * 2 ^ 52 + (sig * 2 ^ (53 - b) - 2 ^ 52)" using w False by (simp add: x_def)
    note f = widen_nat_fields [OF pos sig24 b x]
    have bl: "bit_length (sig * 2 ^ (53 - b)) = 53" using bit_length_scaled(1) [OF pos] b24 by (simp add: b)
    have small: "b + E + 872 \<noteq> 2047" "b + E + 872 \<noteq> 0" "max (b + E + 872) 1 = b + E + 872"
      using b24 e by (auto simp: E)
    have k: "53 + (b + E + 872) - 950 = b + E - 25" by simp
    have "narrow_nat x =
        min ((b + E - 25) * 2 ^ 23 + round_even (sig * 2 ^ (53 - b)) (b + E - 25 + 926 - (b + E + 872))) infinity_pattern"
      unfolding narrow_nat_def Let_def f(1) f(3) if_not_P [OF small(1)] if_not_P [OF small(2)] small(3) bl k
      using pos by simp
    also have "\<dots> = min y infinity_pattern"
    proof (cases "e = 0")
      case True
      then have s: "sig = m" "E = 1" by (auto simp: sig E)
      have "b \<le> 23" using bit_length_le [of sig 23] m s(1) by (simp add: b)
      then have "b + E - 25 = 0" "926 - (b + E + 872) = 53 - b" using s by auto
      then show ?thesis using s(1) y True by simp
    next
      case False
      then have s: "sig = 2 ^ 23 + m" "E = e" by (auto simp: sig E)
      then have b: "b = 24" using bit_length_eqI [of 23 sig] sig24 by (simp add: b)
      obtain e' where e': "e = Suc e'" using False by (cases e) auto
      have "b + E - 25 = e'" "b + E - 25 + 926 - (b + E + 872) = 53 - b" using b s(2) e' by auto
      then show ?thesis using s(1) y e' by simp
    qed
    finally show ?thesis using assms by (simp add: x_def)
  qed
qed

lemma widen_nat_bound:
  assumes "y < infinity_pattern"
  shows "widen_nat y < 2 ^ 63"
proof -
  obtain e m sig E b where y: "y = e * 2 ^ 23 + m" and e: "e < 255" and m: "m < 2 ^ 23"
    and sig: "sig = (if e = 0 then m else 2 ^ 23 + m)" and E: "E = max e 1" and b: "b = bit_length sig"
    and sig24: "sig < 2 ^ 24" and b24: "b \<le> 24"
    and w: "widen_nat y = (if sig = 0 then 0 else (b + E + 872) * 2 ^ 52 + (sig * 2 ^ (53 - b) - 2 ^ 52))"
    using widen_nat_cases [OF assms] by blast
  show ?thesis
  proof (cases "sig = 0")
    case False
    then have pos: "0 < sig" by simp
    have "sig * 2 ^ (53 - b) < 2 ^ 53" using bit_length_scaled(3) [OF pos] b24 by (simp add: b)
    then have "sig * 2 ^ (53 - b) - 2 ^ 52 < 2 ^ 52" by simp
    moreover have "b + E + 872 \<le> 1150" using b24 e by (simp add: E)
    then have "(b + E + 872) * 2 ^ 52 \<le> 1150 * 2 ^ 52" by (rule mult_le_mono1)
    ultimately show ?thesis using w False by simp
  qed (simp add: w)
qed

theorem float_survives:
  assumes "float_is_finite f"
  shows "float_of_double (double_of_float f) = f"
proof -
  define s y where s: "s = (if 2 ^ 31 \<le> unat f then 2 ^ 31 else 0 :: nat)" and y: "y = unat f mod 2 ^ 31"
  have fin: "y < infinity_pattern" using assms by (simp add: float_is_finite_def y)
  have "unat f < 2 ^ 32" using unsigned_less [of f, where 'a = nat] by simp
  then have f: "unat f = s + y" unfolding s y by (simp add: mod_if) arith
  have w: "widen_nat y < 2 ^ 63" using fin by (rule widen_nat_bound)
  define t where t: "t = (if 2 ^ 31 \<le> unat f then 2 ^ 63 else 0 :: nat)"
  have "unat (double_of_float f) = (t + widen_nat y) mod 2 ^ 64"
    unfolding double_of_float_def t [symmetric] y [symmetric] by (subst unat_of_nat) simp
  also have "\<dots> = t + widen_nat y" using w by (simp add: t)
  finally have u: "unat (double_of_float f) = t + widen_nat y" .
  have sgn: "2 ^ 63 \<le> t + widen_nat y \<longleftrightarrow> 2 ^ 31 \<le> unat f" using w by (simp add: t)
  have "(t + widen_nat y) mod 2 ^ 63 = widen_nat y" using w by (simp add: t)
  then have "float_of_double (double_of_float f) = word_of_nat (s + y)"
    unfolding float_of_double_def u sgn using narrow_widen [OF fin] by (simp add: s)
  also have "\<dots> = f" unfolding f [symmetric] by simp
  finally show ?thesis .
qed

end
