(* ===== verification/Content_Protocol.thy ===== *)
theory Content_Protocol
  imports Tool_Headers Prompt_Protocol Floats
begin

text \<open>
  The readers of tool.hpp, prompt.hpp and annotations.hpp for what travels from the server to the
  client: annotations, content blocks, tool results, prompt messages and prompt results. Their writers
  are in Tool_Protocol and Prompt_Protocol. Two string members are read with an unchecked \<open>get\<close>, so
  that a value of another type throws.
\<close>

section \<open>Annotations\<close>

record annotations =
  an_audience :: "string list option"
  an_priority :: "32 word option"
  an_last_modified :: "string option"
  an_raw :: json

definition annotation_keys :: "string list" where
  "annotation_keys = [''audience'', ''priority'', ''lastModified'']"

definition annotations_error :: "string \<Rightarrow> core_error" where
  "annotations_error msg = mk_error (error_code InvalidRequest) (''annotations '' @ msg) '''' ''''"

definition annotations_to_json :: "annotations \<Rightarrow> json" where
  "annotations_to_json a =
     append_json_extensions
       (jset_opt (jset_opt (jset_opt empty_object
          ''audience'' (map_option (\<lambda>xs. JArray (map JString xs)) (an_audience a)))
          ''priority'' (map_option (\<lambda>f. JFloat (double_of_float f)) (an_priority a)))
          ''lastModified'' (map_option JString (an_last_modified a)))
       (an_raw a)"

definition audience_member :: "json \<Rightarrow> string list option result" where
  "audience_member j =
     (case jfind j ''audience'' of
        None \<Rightarrow> Inr None
      | Some (JArray items) \<Rightarrow>
          rbind (map_result (\<lambda>item. case get_string item of
                               None \<Rightarrow> Inl (annotations_error ''audience entries must be strings'')
                             | Some s \<Rightarrow> Inr s) items) (\<lambda>xs. Inr (Some xs))
      | Some _ \<Rightarrow> Inl (annotations_error ''audience must be an array''))"

definition priority_in_range :: "32 word \<Rightarrow> bool" where
  "priority_in_range f \<longleftrightarrow> float_is_finite f \<and> \<not> float_below_zero f \<and> \<not> float_above_one f"

definition priority_member :: "json \<Rightarrow> (32 word) option result" where
  "priority_member j =
     (case jfind j ''priority'' of
        None \<Rightarrow> Inr None
      | Some v \<Rightarrow>
          (case get_float v of
             None \<Rightarrow> Inl (annotations_error ''priority must be a number'')
           | Some f \<Rightarrow>
               if \<not> priority_in_range f then Inl (annotations_error ''priority must be between 0.0 and 1.0'')
               else Inr (Some f)))"

definition annotations_from_json :: "json \<Rightarrow> annotations result" where
  "annotations_from_json j =
     (if \<not> is_object j then Inl (annotations_error ''must be an object'')
      else
        rbind (audience_member j) (\<lambda>audience.
        rbind (priority_member j) (\<lambda>priority.
        rbind (optional_member is_string j ''lastModified'' (annotations_error ''lastModified must be a string'')) (\<lambda>ts.
          Inr \<lparr>an_audience = audience, an_priority = priority, an_last_modified = map_option string_of ts,
               an_raw = collect_json_extensions j annotation_keys\<rparr>))))"

section \<open>Content blocks\<close>

definition required_content_string :: "json \<Rightarrow> string \<Rightarrow> string \<Rightarrow> string result" where
  "required_content_string j member_name msg =
     rbind (required_member is_string j member_name (tool_json_error msg)) (\<lambda>v. Inr (string_of v))"

definition content_keys :: "string list" where
  "content_keys = [''type'', ''text'', ''data'', ''mimeType'', ''resource'', ''uri'', ''name'', ''title'',
     ''description'', ''size'', ''icons'', ''annotations'', ''_meta'']"

definition default_block :: "string \<Rightarrow> content_block" where
  "default_block t = \<lparr>cb_type = t, cb_text = '''', cb_data = empty_object, cb_mime_type = '''', cb_resource = None,
     cb_resource_link = None, cb_annotations = empty_object, cb_meta = None, cb_extensions = empty_object\<rparr>"

text \<open>The part that depends on the type.\<close>

definition content_body :: "string \<Rightarrow> json \<Rightarrow> content_block result" where
  "content_body t j =
     (let b = default_block t in
      if t = ''image'' \<or> t = ''audio'' then
        rbind (required_content_string j ''data'' (t @ '' content block requires string data'')) (\<lambda>data.
        rbind (required_content_string j ''mimeType'' (t @ '' content block requires string mimeType'')) (\<lambda>mime.
          if \<not> is_valid_base64 data then Inl (tool_json_error (t @ '' content block data must be base64''))
          else Inr (b\<lparr>cb_data := JString data, cb_mime_type := mime\<rparr>)))
      else if t = ''resource'' then
        (case jfind j ''resource'' of
           None \<Rightarrow> Inl (tool_json_error ''resource content block requires resource'')
         | Some r \<Rightarrow> rbind (resource_contents_from_json r) (\<lambda>c. Inr (b\<lparr>cb_resource := Some c\<rparr>)))
      else if t = ''resource_link'' then
        rbind (resource_from_json j) (\<lambda>r. Inr (b\<lparr>cb_resource_link := Some r\<rparr>))
      else if t = ''text'' then
        rbind (required_content_string j ''text'' ''text content block requires string text'') (\<lambda>text.
          Inr (b\<lparr>cb_text := text\<rparr>))
      else Inl (tool_json_error ''content block type is not supported''))"

definition content_annotations :: "json \<Rightarrow> json result" where
  "content_annotations j =
     (case jfind j ''annotations'' of
        None \<Rightarrow> Inr empty_object
      | Some v \<Rightarrow> rbind (annotations_from_json v) (\<lambda>a. Inr (annotations_to_json a)))"

definition content_block_from_json :: "json \<Rightarrow> content_block result" where
  "content_block_from_json j =
     (if \<not> is_object j then Inl (tool_json_error ''content block must be an object'')
      else
        rbind (required_member is_string j ''type'' (tool_json_error ''content block requires a string type'')) (\<lambda>t.
        rbind (content_body (string_of t) j) (\<lambda>b.
        rbind (content_annotations j) (\<lambda>a.
        rbind (optional_member is_object j ''_meta'' (tool_json_error ''content block _meta must be an object'')) (\<lambda>meta.
          Inr (b\<lparr>cb_annotations := a, cb_meta := meta, cb_extensions := collect_json_extensions j content_keys\<rparr>))))))"

section \<open>Results and messages\<close>

text \<open>A string read with \<open>get<std::string>()\<close>: \<open>None\<close> when it throws.\<close>

definition unchecked_string :: "json \<Rightarrow> string \<Rightarrow> string option option" where
  "unchecked_string j k =
     (case jfind j k of None \<Rightarrow> Some None | Some v \<Rightarrow> map_option Some (get_string v))"

definition array_member :: "json \<Rightarrow> string \<Rightarrow> (json \<Rightarrow> 'a result) \<Rightarrow> core_error \<Rightarrow> 'a list result" where
  "array_member j k f e =
     (case jfind j k of
        None \<Rightarrow> Inr []
      | Some (JArray items) \<Rightarrow> map_result f items
      | Some _ \<Rightarrow> Inl e)"

definition tool_result_keys :: "string list" where
  "tool_result_keys = [''content'', ''structuredContent'', ''isError'', ''_meta'', ''resultType'',
     ''inputRequests'', ''requestState'']"

definition tool_result_from_json :: "json \<Rightarrow> tool_result parsed" where
  "tool_result_from_json j =
     (let err = (\<lambda>msg. tool_json_error (''tool result '' @ msg)) in
      if \<not> is_object j then Returns (Inl (err ''must be an object''))
      else if \<forall>k\<in>set tool_result_keys. \<not> jcontains j k
      then Returns (Inl (err ''requires content, structuredContent, isError, _meta, resultType, inputRequests, or requestState''))
      else case unchecked_string j ''resultType'' of
        None \<Rightarrow> Throws
      | Some result_type \<Rightarrow>
          (case
             rbind (array_member j ''content'' content_block_from_json (err ''content must be an array'')) (\<lambda>content.
             rbind (optional_member is_boolean j ''isError'' (err ''isError must be a boolean'')) (\<lambda>is_error.
             rbind (optional_member is_object j ''_meta'' (err ''_meta must be an object'')) (\<lambda>meta.
               Inr (content, is_error, meta))))
           of
             Inl e \<Rightarrow> Returns (Inl e)
           | Inr (content, is_error, meta) \<Rightarrow>
               (case unchecked_string j ''requestState'' of
                  None \<Rightarrow> Throws
                | Some request_state \<Rightarrow>
                    Returns (Inr \<lparr>tr_content = content, tr_structured_content = jfind j ''structuredContent'',
                      tr_is_error = map_option bool_of is_error, tr_meta = meta, tr_result_type = result_type,
                      tr_input_requests = jfind j ''inputRequests'', tr_request_state = request_state,
                      tr_extensions = collect_json_extensions j tool_result_keys\<rparr>))))"

definition message_known_keys :: "string list" where
  "message_known_keys = [''role'', ''content'', ''_meta'']"

definition prompt_message_from_json :: "json \<Rightarrow> prompt_message result" where
  "prompt_message_from_json j =
     (let err = (\<lambda>msg. prompt_json_error (''prompt message '' @ msg)) in
      if \<not> is_object j then Inl (err ''must be an object'')
      else
        rbind (required_member is_string j ''role'' (err ''requires a string role'')) (\<lambda>role.
        rbind (required_member (\<lambda>_. True) j ''content'' (err ''requires content'')) (\<lambda>c.
        rbind (content_block_from_json c) (\<lambda>content.
        rbind (optional_member is_object j ''_meta'' (err ''_meta must be an object'')) (\<lambda>meta.
          Inr \<lparr>pm_role = string_of role, pm_content = content, pm_meta = meta,
               pm_extensions = collect_json_extensions j message_known_keys\<rparr>)))))"

definition prompts_get_result_keys :: "string list" where
  "prompts_get_result_keys = [''description'', ''messages'', ''_meta'', ''resultType'', ''inputRequests'', ''requestState'']"

definition prompts_get_result_from_json :: "json \<Rightarrow> prompts_get_result parsed" where
  "prompts_get_result_from_json j =
     (let err = (\<lambda>msg. prompt_json_error (''prompts/get '' @ msg)) in
      if \<not> is_object j then Returns (Inl (err ''result must be an object''))
      else if \<not> jcontains j ''messages'' \<and> \<not> jcontains j ''resultType'' \<and> \<not> jcontains j ''inputRequests''
      then Returns (Inl (err ''result requires messages, resultType, or inputRequests''))
      else case unchecked_string j ''resultType'' of
        None \<Rightarrow> Throws
      | Some result_type \<Rightarrow>
          (case
             rbind (optional_member is_string j ''description'' (err ''description must be a string'')) (\<lambda>description.
             rbind (array_member j ''messages'' prompt_message_from_json (err ''messages must be an array'')) (\<lambda>messages.
             rbind (optional_member is_object j ''_meta'' (err ''result _meta must be an object'')) (\<lambda>meta.
               Inr (description, messages, meta))))
           of
             Inl e \<Rightarrow> Returns (Inl e)
           | Inr (description, messages, meta) \<Rightarrow>
               (case unchecked_string j ''requestState'' of
                  None \<Rightarrow> Throws
                | Some request_state \<Rightarrow>
                    Returns (Inr \<lparr>pgr_description = string_or_empty description, pgr_messages = messages, pgr_meta = meta,
                      pgr_result_type = result_type, pgr_input_requests = jfind j ''inputRequests'',
                      pgr_request_state = request_state,
                      pgr_extensions = collect_json_extensions j prompts_get_result_keys\<rparr>))))"


section \<open>Annotations and the precision of priorities\<close>

definition annotations_value_ok :: "annotations \<Rightarrow> bool" where
  "annotations_value_ok a \<longleftrightarrow>
     (case an_priority a of None \<Rightarrow> True | Some f \<Rightarrow> priority_in_range f) \<and> ext_ok annotation_keys (an_raw a)"

lemma priority_finite: "priority_in_range f \<Longrightarrow> float_of_double (double_of_float f) = f"
  by (simp add: priority_in_range_def float_survives)

lemma annotations_roundtrip:
  assumes "annotations_value_ok a"
  shows "annotations_from_json (annotations_to_json a) = Inr a" "jwf (annotations_to_json a)"
proof -
  let ?j = "annotations_to_json a"
  have e: "ext_ok annotation_keys (an_raw a)"
    and p: "case an_priority a of None \<Rightarrow> True | Some f \<Rightarrow> priority_in_range f"
    using assms by (auto simp: annotations_value_ok_def)
  show "jwf ?j" using e by (auto simp: annotations_to_json_def ext_ok_def)
  have f: "is_object ?j"
    "jfind ?j ''audience'' = map_option (\<lambda>xs. JArray (map JString xs)) (an_audience a)"
    "jfind ?j ''priority'' = map_option (\<lambda>f. JFloat (double_of_float f)) (an_priority a)"
    "jfind ?j ''lastModified'' = map_option JString (an_last_modified a)"
    unfolding annotations_to_json_def
    by (simp_all add: jfind_written [OF e] annotation_keys_def split: option.split)
  have x: "collect_json_extensions ?j annotation_keys = an_raw a"
    unfolding annotations_to_json_def
    by (rule collect_append_extensions [OF _ e]) (simp_all add: annotation_keys_def)
  have au: "audience_member ?j = Inr (an_audience a)"
    by (cases "an_audience a") (simp_all add: audience_member_def f(2))
  have pr: "priority_member ?j = Inr (an_priority a)"
    using p by (cases "an_priority a") (simp_all add: priority_member_def f(3) priority_finite)
  show "annotations_from_json ?j = Inr a"
    using f x au pr by (simp add: annotations_from_json_def)
qed

text \<open>The priority of annotations is read as a single-precision number and must lie between 0 and
  1. What is written for annotations that were read is the nearest single-precision value, so a
  priority survives reading and writing exactly when it is such a value: 0.5 does, 0.1 does not.
  Annotations built by the program round-trip.\<close>

theorem annotations_priority_precision:
  assumes "annotations_from_json j = Inr a" "jwf j"
  shows
    "jfind (annotations_to_json a) ''priority'' =
       (case jfind j ''priority'' of
          None \<Rightarrow> None
        | Some v \<Rightarrow> map_option (\<lambda>f. JFloat (double_of_float f)) (get_float v)) \<and>
     (\<forall>d. jfind j ''priority'' = Some (JFloat d) \<longrightarrow>
        (jfind (annotations_to_json a) ''priority'' = jfind j ''priority'' \<longleftrightarrow>
           (\<exists>f. priority_in_range f \<and> d = double_of_float f))) \<and>
     annotations_from_json (annotations_to_json a) = Inr a"
proof -
  have parts: "is_object j" "audience_member j = Inr (an_audience a)" "priority_member j = Inr (an_priority a)"
    "an_raw a = collect_json_extensions j annotation_keys"
    using assms(1) by (auto simp: annotations_from_json_def rbind_eq_Inr split: if_splits)
  have raw: "ext_ok annotation_keys (an_raw a)" unfolding parts(4) using assms(2) by (rule ext_ok_collect)
  have w: "jfind (annotations_to_json a) ''priority'' = map_option (\<lambda>f. JFloat (double_of_float f)) (an_priority a)"
    unfolding annotations_to_json_def by (simp add: jfind_written [OF raw] annotation_keys_def split: option.split)
  have pr: "an_priority a = (case jfind j ''priority'' of None \<Rightarrow> None | Some v \<Rightarrow> get_float v)"
    "\<And>f. an_priority a = Some f \<Longrightarrow> priority_in_range f"
    using parts(3) by (auto simp: priority_member_def split: option.splits if_splits)
  then have ok: "annotations_value_ok a" using raw by (auto simp: annotations_value_ok_def split: option.split)
  show ?thesis
    using w pr annotations_roundtrip(1) [OF ok] by (auto simp: priority_finite split: option.splits)
qed

text \<open>The double nearest to 0.1 and the one that is written for it.\<close>

lemma tenth_as_float:
  "float_of_double 0x3FB999999999999A = 0x3DCCCCCD" "double_of_float 0x3DCCCCCD = 0x3FB99999A0000000"
proof -
  have "bit_length 7205759403792794 = 53" using bit_length_eqI [of 52 7205759403792794] by simp
  then show "float_of_double 0x3FB999999999999A = 0x3DCCCCCD"
    by (simp add: float_of_double_def narrow_nat_def round_even_def infinity_pattern_def)
  have "bit_length 13421773 = 24" using bit_length_eqI [of 23 13421773] by simp
  then show "double_of_float 0x3DCCCCCD = 0x3FB99999A0000000"
    by (simp add: double_of_float_def widen_nat_def)
qed

theorem annotations_priority_precision_witness:
  "let j = JObject [(''priority'', JFloat 0x3FB999999999999A)] in
   \<exists>a. annotations_from_json j = Inr a \<and>
       jfind (annotations_to_json a) ''priority'' = Some (JFloat 0x3FB99999A0000000) \<and>
       \<not> (\<exists>f. priority_in_range f \<and> 0x3FB999999999999A = double_of_float f)"
proof -
  let ?j = "JObject [(''priority'', JFloat 0x3FB999999999999A)]"
  have r: "priority_in_range 0x3DCCCCCD"
    by (simp add: priority_in_range_def float_is_finite_def float_below_zero_def float_above_one_def infinity_pattern_def)
  obtain a where a: "annotations_from_json ?j = Inr a"
    using r by (simp add: annotations_from_json_def audience_member_def priority_member_def tenth_as_float
        optional_member_def)
  then show ?thesis
    using annotations_priority_precision [OF a] by (auto simp: tenth_as_float keys_sorted_Cons)
qed


section \<open>Content blocks round-trip\<close>

text \<open>
  Annotations as a reader leaves them: empty, or written from annotations in range. A link carries
  the whole document of the block, so its annotations, metadata and unknown members agree with those of
  the block and its unknown members include the type.
\<close>

definition block_annotations_ok :: "json \<Rightarrow> bool" where
  "block_annotations_ok v \<longleftrightarrow> v = empty_object \<or> (\<exists>a. annotations_value_ok a \<and> v = annotations_to_json a)"

definition link_ok :: "content_block \<Rightarrow> resource \<Rightarrow> bool" where
  "link_ok b r \<longleftrightarrow>
     descriptor_ok ''uri'' r \<and> jfind (res_extensions r) ''type'' = Some (JString ''resource_link'') \<and>
     res_annotations r = cb_annotations b \<and> res_meta r = cb_meta b \<and>
     cb_extensions b = collect_json_extensions (res_extensions r) content_keys"

definition media_ok :: "content_block \<Rightarrow> string \<Rightarrow> bool" where
  "media_ok b data \<longleftrightarrow>
     (cb_type b = ''image'' \<or> cb_type b = ''audio'') \<and> is_valid_base64 data \<and> cb_data b = JString data \<and>
     cb_mime_type b \<noteq> '''' \<and> cb_text b = '''' \<and> cb_resource b = None \<and> cb_resource_link b = None"

definition plain_ok :: "content_block \<Rightarrow> bool" where
  "plain_ok b \<longleftrightarrow> cb_data b = empty_object \<and> cb_mime_type b = ''''"

definition embedded_ok :: "content_block \<Rightarrow> resource_contents \<Rightarrow> bool" where
  "embedded_ok b c \<longleftrightarrow> cb_type b = ''resource'' \<and> plain_ok b \<and> cb_resource b = Some c \<and> contents_ok c \<and>
     cb_text b = '''' \<and> cb_resource_link b = None"

definition linked_ok :: "content_block \<Rightarrow> resource \<Rightarrow> bool" where
  "linked_ok b r \<longleftrightarrow> cb_type b = ''resource_link'' \<and> plain_ok b \<and> cb_resource_link b = Some r \<and> link_ok b r \<and>
     cb_text b = '''' \<and> cb_resource b = None"

definition text_ok :: "content_block \<Rightarrow> bool" where
  "text_ok b \<longleftrightarrow> cb_type b = ''text'' \<and> plain_ok b \<and> cb_resource b = None \<and> cb_resource_link b = None"

definition block_shape_ok :: "content_block \<Rightarrow> bool" where
  "block_shape_ok b \<longleftrightarrow>
     (\<exists>data. media_ok b data) \<or> (\<exists>c. embedded_ok b c) \<or> (\<exists>r. linked_ok b r) \<or> text_ok b"

definition block_ok :: "content_block \<Rightarrow> bool" where
  "block_ok b \<longleftrightarrow>
     block_shape_ok b \<and> block_annotations_ok (cb_annotations b) \<and> object_meta_ok (cb_meta b) \<and>
     ext_ok content_keys (cb_extensions b)"

lemma jset_opt_simps: "jset_opt j k None = j" "jset_opt j k (Some v) = jset j k v"
  by (simp_all add: jset_opt_def)

lemma annotations_to_json_object [simp]: "annotations_value_ok a \<Longrightarrow> is_object (annotations_to_json a)"
  by (rule jwf_is_object) (rule annotations_roundtrip)

lemma block_annotations_object: "block_annotations_ok v \<Longrightarrow> is_object v"
  by (auto simp: block_annotations_ok_def)

lemma content_annotations_read:
  assumes "block_annotations_ok v" "jfind j ''annotations'' = nonempty_json v"
  shows "content_annotations j = Inr v"
proof (cases "jempty v")
  case True
  then have "v = empty_object" using block_annotations_object [OF assms(1)] by (simp add: jempty_object)
  then show ?thesis using assms(2) True by (simp add: content_annotations_def nonempty_json_def)
next
  case False
  then have "v \<noteq> empty_object" by auto
  then obtain a where "annotations_value_ok a" "v = annotations_to_json a"
    using assms(1) by (auto simp: block_annotations_ok_def)
  then show ?thesis using assms(2) False by (simp add: content_annotations_def nonempty_json_def annotations_roundtrip)
qed

text \<open>What a written block contains, given the part that depends on its type.\<close>

definition framed :: "content_block \<Rightarrow> json \<Rightarrow> json" where
  "framed b body =
     append_json_extensions
       (jset_opt (jset_opt body ''annotations'' (nonempty_json (cb_annotations b))) ''_meta'' (cb_meta b))
       (cb_extensions b)"

lemma framed_find:
  assumes "ext_ok content_keys (cb_extensions b)" "jwf body" "jfind body ''annotations'' = None" "jfind body ''_meta'' = None"
    "\<And>k. k \<notin> set content_keys \<Longrightarrow> jfind body k = None"
  shows "is_object (framed b body)" "jfind (framed b body) ''annotations'' = nonempty_json (cb_annotations b)"
    "jfind (framed b body) ''_meta'' = cb_meta b"
    "collect_json_extensions (framed b body) content_keys = cb_extensions b"
    "\<And>k. k \<in> set content_keys - {''annotations'', ''_meta''} \<Longrightarrow> jfind (framed b body) k = jfind body k"
proof -
  have o: "is_object body" "is_object (cb_extensions b)" using assms(1,2) by (auto simp: ext_ok_def jwf_is_object)
  show "is_object (framed b body)" using o by (simp add: framed_def)
  show "jfind (framed b body) ''annotations'' = nonempty_json (cb_annotations b)"
    "jfind (framed b body) ''_meta'' = cb_meta b"
    unfolding framed_def using o assms(3,4)
    by (auto simp: ext_okD(2) [OF assms(1)] content_keys_def split: option.split)
  show "collect_json_extensions (framed b body) content_keys = cb_extensions b"
    unfolding framed_def
    by (rule collect_append_extensions [OF _ assms(1)])
      (use assms(2,5) o in \<open>auto simp: content_keys_def split: option.split\<close>)
  show "jfind (framed b body) k = jfind body k" if "k \<in> set content_keys - {''annotations'', ''_meta''}" for k
    unfolding framed_def using o that ext_okD(2) [OF assms(1), of k] by (auto split: option.split)
qed

lemma read_framed:
  assumes ok: "block_ok b"
    and body: "jwf body" "jfind body ''annotations'' = None" "jfind body ''_meta'' = None"
      "\<And>k. k \<notin> set content_keys \<Longrightarrow> jfind body k = None" "jfind body ''type'' = Some (JString (cb_type b))"
    and read: "content_body (cb_type b) (framed b body) =
      Inr (b\<lparr>cb_annotations := x, cb_meta := y, cb_extensions := z\<rparr>)"
  shows "content_block_from_json (framed b body) = Inr b"
proof -
  have e: "ext_ok content_keys (cb_extensions b)" and m: "object_meta_ok (cb_meta b)"
    and a: "block_annotations_ok (cb_annotations b)"
    using ok by (auto simp: block_ok_def)
  note f = framed_find [OF e body(1-4)]
  have t: "jfind (framed b body) ''type'' = Some (JString (cb_type b))"
    using f(5) [of "''type''"] body(5) by (simp add: content_keys_def)
  show ?thesis
    using f t m read content_annotations_read [OF a f(2)] by (simp add: content_block_from_json_def)
qed


lemma write_framed:
  "cb_type b = ''image'' \<or> cb_type b = ''audio'' \<Longrightarrow> cb_data b = JString data \<Longrightarrow> cb_text b = '''' \<Longrightarrow>
   cb_mime_type b \<noteq> '''' \<Longrightarrow>
   content_block_to_json b = framed b (jset (jset (jset empty_object ''type'' (JString (cb_type b)))
     ''data'' (JString data)) ''mimeType'' (JString (cb_mime_type b)))"
  "cb_type b = ''resource'' \<Longrightarrow> cb_resource b = Some c \<Longrightarrow>
   content_block_to_json b = framed b (jset (jset empty_object ''type'' (JString ''resource'')) ''resource'' (resource_contents_to_json c))"
  "cb_type b = ''text'' \<Longrightarrow> cb_data b = empty_object \<Longrightarrow> cb_mime_type b = '''' \<Longrightarrow>
   content_block_to_json b = framed b (jset (jset empty_object ''type'' (JString ''text'')) ''text'' (JString (cb_text b)))"
  "cb_type b = ''resource_link'' \<Longrightarrow> cb_resource_link b = Some r \<Longrightarrow>
   content_block_to_json b = framed b (jset (resource_to_json r) ''type'' (JString ''resource_link''))"
  by (auto simp: content_block_to_json_def framed_def nonempty_string_def jset_opt_simps Let_def)

lemma resource_to_json_find:
  assumes "ext_ok (resource_known_keys ''uri'') (res_extensions r)"
  shows "jwf (resource_to_json r)"
    "jfind (resource_to_json r) ''annotations'' = nonempty_json (res_annotations r)"
    "jfind (resource_to_json r) ''_meta'' = res_meta r"
    "k \<notin> set (resource_known_keys ''uri'') \<Longrightarrow> jfind (resource_to_json r) k = jfind (res_extensions r) k"
proof -
  have o: "is_object (res_extensions r)" "jwf (res_extensions r)" using assms by (auto simp: ext_ok_def jwf_is_object)
  show "jwf (resource_to_json r)" using o by (auto simp: resource_to_json_def descriptor_to_json_def)
  show "jfind (resource_to_json r) ''annotations'' = nonempty_json (res_annotations r)"
    "jfind (resource_to_json r) ''_meta'' = res_meta r"
    using o by (auto simp: resource_to_json_def descriptor_to_json_def ext_okD(2) [OF assms] resource_known_keys_def
        split: option.split)
  show "k \<notin> set (resource_known_keys ''uri'') \<Longrightarrow> jfind (resource_to_json r) k = jfind (res_extensions r) k"
    using o by (auto simp: resource_to_json_def descriptor_to_json_def resource_known_keys_def split: option.split)
qed

text \<open>A link block is written as the descriptor of its resource.\<close>

lemma jset_opt_written: "jwf j \<Longrightarrow> jfind j k = v \<Longrightarrow> jset_opt j k v = j"
  by (cases v) (auto simp: jset_opt_simps jwf_is_object intro: jwf_ext)

lemma append_written:
  assumes "jwf j" "jwf e" "\<And>k v. jfind e k = Some v \<Longrightarrow> jfind j k = Some v"
  shows "append_json_extensions j e = j"
proof (rule jwf_ext)
  fix k
  show "jfind (append_json_extensions j e) k = jfind j k"
    using assms(1,2) assms(3) [of k] by (cases "jfind e k") (auto simp: jwf_is_object split: option.split)
qed (use assms(1) in simp_all)

lemma link_written:
  assumes "link_ok b r"
  shows "framed b (jset (resource_to_json r) ''type'' (JString ''resource_link'')) = resource_to_json r"
proof -
  have l: "ext_ok (resource_known_keys ''uri'') (res_extensions r)"
    "jfind (res_extensions r) ''type'' = Some (JString ''resource_link'')"
    "res_annotations r = cb_annotations b" "res_meta r = cb_meta b"
    "cb_extensions b = collect_json_extensions (res_extensions r) content_keys"
    using assms by (auto simp: link_ok_def descriptor_ok_def)
  note f = resource_to_json_find [OF l(1)]
  have j: "jwf (res_extensions r)" using l(1) by (simp add: ext_ok_def)
  have "jfind (resource_to_json r) ''type'' = Some (JString ''resource_link'')"
    using f(4) [of "''type''"] l(2) by (simp add: resource_known_keys_def)
  then have "jset (resource_to_json r) ''type'' (JString ''resource_link'') = resource_to_json r"
    using jset_opt_written [OF f(1), of "''type''" "Some (JString ''resource_link'')"] by (simp add: jset_opt_simps)
  moreover have "k \<notin> set content_keys \<Longrightarrow> k \<notin> set (resource_known_keys ''uri'')" for k
    by (auto simp: content_keys_def resource_known_keys_def)
  then have "append_json_extensions (resource_to_json r) (cb_extensions b) = resource_to_json r"
    using f(4) j by (intro append_written f(1)) (auto simp: l(5) split: if_splits)
  ultimately show ?thesis
    using jset_opt_written [OF f(1) f(2)] jset_opt_written [OF f(1) f(3)] by (simp add: framed_def l(3,4))
qed

lemma content_block_roundtrip:
  assumes "block_ok b"
  shows "content_block_from_json (content_block_to_json b) = Inr b"
proof -
  have ok: "block_shape_ok b" "object_meta_ok (cb_meta b)" using assms by (auto simp: block_ok_def)
  consider (media) data where "media_ok b data" | (embedded) c where "embedded_ok b c"
    | (linked) r where "linked_ok b r" | (plain) "text_ok b"
    using ok(1) unfolding block_shape_ok_def by blast
  then show ?thesis
  proof cases
    case media
    then have m: "cb_type b = ''image'' \<or> cb_type b = ''audio''" "is_valid_base64 data" "cb_data b = JString data"
      "cb_mime_type b \<noteq> ''''" "cb_text b = ''''" "cb_resource b = None" "cb_resource_link b = None"
      by (auto simp: media_ok_def)
    let ?body = "jset (jset (jset empty_object ''type'' (JString (cb_type b))) ''data'' (JString data)) ''mimeType'' (JString (cb_mime_type b))"
    have e: "ext_ok content_keys (cb_extensions b)" using assms by (simp add: block_ok_def)
    have f: "jfind (framed b ?body) ''data'' = Some (JString data)"
      "jfind (framed b ?body) ''mimeType'' = Some (JString (cb_mime_type b))"
      by (subst framed_find(5) [OF e]; simp add: content_keys_def keys_sorted_Cons)+
    have "content_body (cb_type b) (framed b ?body) =
        Inr (b\<lparr>cb_annotations := empty_object, cb_meta := None, cb_extensions := empty_object\<rparr>)"
      using m f by (simp add: content_body_def required_content_string_def default_block_def Let_def)
    then show ?thesis
      unfolding write_framed(1) [OF m(1,3,5,4)]
      by (intro read_framed [OF assms]) (auto simp: content_keys_def keys_sorted_Cons)
  next
    case embedded
    then have res: "cb_type b = ''resource''" "cb_resource b = Some c" "contents_ok c" "plain_ok b" "cb_text b = ''''"
      "cb_resource_link b = None"
      by (auto simp: embedded_ok_def)
    let ?body = "jset (jset empty_object ''type'' (JString ''resource'')) ''resource'' (resource_contents_to_json c)"
    have e: "ext_ok content_keys (cb_extensions b)" using assms by (simp add: block_ok_def)
    have f: "jfind (framed b ?body) ''resource'' = Some (resource_contents_to_json c)"
      by (subst framed_find(5) [OF e]; simp add: content_keys_def keys_sorted_Cons)
    have "content_body (cb_type b) (framed b ?body) =
        Inr (b\<lparr>cb_annotations := empty_object, cb_meta := None, cb_extensions := empty_object\<rparr>)"
      using res f by (simp add: content_body_def default_block_def Let_def contents_roundtrip plain_ok_def)
    then show ?thesis
      unfolding write_framed(2) [OF res(1,2)]
      by (intro read_framed [OF assms]) (auto simp: content_keys_def keys_sorted_Cons res(1))
  next
    case plain
    then have tx: "cb_type b = ''text''" "cb_resource b = None" "cb_resource_link b = None" and
      p: "cb_data b = empty_object" "cb_mime_type b = ''''"
      by (auto simp: text_ok_def plain_ok_def)
    let ?body = "jset (jset empty_object ''type'' (JString ''text'')) ''text'' (JString (cb_text b))"
    have e: "ext_ok content_keys (cb_extensions b)" using assms by (simp add: block_ok_def)
    have f: "jfind (framed b ?body) ''text'' = Some (JString (cb_text b))"
      by (subst framed_find(5) [OF e]; simp add: content_keys_def keys_sorted_Cons)
    have "content_body (cb_type b) (framed b ?body) =
        Inr (b\<lparr>cb_annotations := empty_object, cb_meta := None, cb_extensions := empty_object\<rparr>)"
      using tx p f by (simp add: content_body_def required_content_string_def default_block_def Let_def)
    then show ?thesis
      unfolding write_framed(3) [OF tx(1) p]
      by (intro read_framed [OF assms]) (auto simp: content_keys_def keys_sorted_Cons tx(1))
  next
    case linked
    then have link: "cb_type b = ''resource_link''" "cb_resource_link b = Some r" "link_ok b r" "plain_ok b"
      "cb_text b = ''''" "cb_resource b = None"
      by (auto simp: linked_ok_def)
    have l: "ext_ok (resource_known_keys ''uri'') (res_extensions r)" "descriptor_ok ''uri'' r"
      "jfind (res_extensions r) ''type'' = Some (JString ''resource_link'')"
      "res_annotations r = cb_annotations b" "res_meta r = cb_meta b"
      "cb_extensions b = collect_json_extensions (res_extensions r) content_keys"
      using link(3) by (auto simp: link_ok_def descriptor_ok_def)
    note f = resource_to_json_find [OF l(1)]
    have j: "jwf (res_extensions r)" using l(1) by (simp add: ext_ok_def)
    have t: "jfind (resource_to_json r) ''type'' = Some (JString ''resource_link'')"
      using f(4) [of "''type''"] l(3) by (simp add: resource_known_keys_def)
    have r: "resource_from_json (resource_to_json r) = Inr r"
      unfolding resource_from_json_def resource_to_json_def by (rule descriptor_roundtrip [OF l(2)]) simp
    have sub: "k \<notin> set content_keys \<Longrightarrow> k \<notin> set (resource_known_keys ''uri'')" for k
      by (auto simp: content_keys_def resource_known_keys_def)
    have x: "collect_json_extensions (resource_to_json r) content_keys = cb_extensions b"
      by (rule jwf_ext) (use f(1,4) j sub in \<open>auto simp: l(6)\<close>)
    have a: "content_annotations (resource_to_json r) = Inr (cb_annotations b)"
      using assms f(2) by (intro content_annotations_read) (auto simp: block_ok_def l(4))
    show ?thesis
      unfolding write_framed(4) [OF link(1,2)] link_written [OF link(3)]
      using t r x a ok(2) f(1,3) link
      by (simp add: content_block_from_json_def content_body_def default_block_def Let_def l(5) jwf_is_object plain_ok_def)
  qed
qed

section \<open>Results and messages round-trip\<close>

definition tool_result_ok :: "tool_result \<Rightarrow> bool" where
  "tool_result_ok r \<longleftrightarrow>
     (\<forall>b\<in>set (tr_content r). block_ok b) \<and> object_meta_ok (tr_meta r) \<and> ext_ok tool_result_keys (tr_extensions r)"

definition tool_result_blank :: "tool_result \<Rightarrow> bool" where
  "tool_result_blank r \<longleftrightarrow>
     tr_content r = [] \<and> tr_structured_content r = None \<and> tr_is_error r = None \<and> tr_meta r = None \<and>
     tr_result_type r = None \<and> tr_input_requests r = None \<and> tr_request_state r = None"

definition message_ok :: "prompt_message \<Rightarrow> bool" where
  "message_ok m \<longleftrightarrow> block_ok (pm_content m) \<and> object_meta_ok (pm_meta m) \<and> ext_ok message_known_keys (pm_extensions m)"

definition prompts_get_result_ok :: "prompts_get_result \<Rightarrow> bool" where
  "prompts_get_result_ok r \<longleftrightarrow>
     (\<forall>x\<in>set (pgr_messages r). message_ok x) \<and> object_meta_ok (pgr_meta r) \<and>
     ext_ok prompts_get_result_keys (pgr_extensions r)"

definition prompts_get_result_blank :: "prompts_get_result \<Rightarrow> bool" where
  "prompts_get_result_blank r \<longleftrightarrow> pgr_messages r = [] \<and> pgr_result_type r = None \<and> pgr_input_requests r = None"

lemma unchecked_string_written:
  "jfind j k = map_option JString s \<Longrightarrow> unchecked_string j k = Some s"
  by (cases s) (simp_all add: unchecked_string_def)

lemma array_member_written:
  "jfind j k = (if xs = [] then None else Some (JArray (map g xs))) \<Longrightarrow> \<forall>x\<in>set xs. f (g x) = Inr x \<Longrightarrow>
   array_member j k f e = Inr xs"
  by (simp add: array_member_def)

lemma tool_result_find:
  assumes e: "ext_ok tool_result_keys (tr_extensions r)"
  defines "j \<equiv> tool_result_to_json r"
  shows "is_object j" "jfind j ''resultType'' = map_option JString (tr_result_type r)"
    "jfind j ''content'' = (if tr_content r = [] then None else Some (JArray (map content_block_to_json (tr_content r))))"
    "jfind j ''structuredContent'' = tr_structured_content r"
    "jfind j ''isError'' = map_option JBool (tr_is_error r)" "jfind j ''_meta'' = tr_meta r"
    "jfind j ''inputRequests'' = tr_input_requests r"
    "jfind j ''requestState'' = map_option JString (tr_request_state r)"
  unfolding j_def tool_result_to_json_def
  by (simp_all add: jfind_written [OF e] tool_result_keys_def split: option.split)

lemma tool_result_roundtrip:
  assumes "tool_result_ok r"
  shows "tool_result_from_json (tool_result_to_json r) =
    (if tool_result_blank r
     then Returns (Inl (tool_json_error (''tool result requires content, structuredContent, isError, _meta, '' @
            ''resultType, inputRequests, or requestState'')))
     else Returns (Inr r))"
proof -
  have ok: "\<forall>b\<in>set (tr_content r). content_block_from_json (content_block_to_json b) = Inr b"
    "object_meta_ok (tr_meta r)" and e: "ext_ok tool_result_keys (tr_extensions r)"
    using assms by (auto simp: tool_result_ok_def content_block_roundtrip)
  let ?j = "tool_result_to_json r"
  note f = tool_result_find [OF e]
  have x: "collect_json_extensions ?j tool_result_keys = tr_extensions r"
    unfolding tool_result_to_json_def
    by (rule collect_append_extensions [OF _ e]) (simp_all add: tool_result_keys_def)
  have blank: "(\<forall>k\<in>set tool_result_keys. \<not> jcontains ?j k) \<longleftrightarrow> tool_result_blank r"
    by (simp add: tool_result_keys_def jcontains_def f tool_result_blank_def)
  have flag: "optional_member is_boolean ?j ''isError'' x = Inr (map_option JBool (tr_is_error r))" for x
    using f(5) by (cases "tr_is_error r") (simp_all add: optional_member_def)
  have undone: "map_option bool_of (map_option JBool (tr_is_error r)) = tr_is_error r" by (cases "tr_is_error r") simp_all
  note rd = array_member_written [OF f(3) ok(1)] unchecked_string_written [OF f(2)]
    unchecked_string_written [OF f(8)] flag undone
  show ?thesis
  proof (cases "tool_result_blank r")
    case True
    then show ?thesis using blank f(1) by (simp add: tool_result_from_json_def)
  next
    case False
    then show ?thesis
      using blank f(1,4,6,7) x ok(2) rd by (simp add: tool_result_from_json_def)
  qed
qed

lemma prompt_message_roundtrip:
  assumes "message_ok m"
  shows "prompt_message_from_json (prompt_message_to_json m) = Inr m"
proof -
  have ok: "content_block_from_json (content_block_to_json (pm_content m)) = Inr (pm_content m)"
    "object_meta_ok (pm_meta m)" and e: "ext_ok message_known_keys (pm_extensions m)"
    using assms by (auto simp: message_ok_def content_block_roundtrip)
  let ?j = "prompt_message_to_json m"
  have f: "is_object ?j" "jfind ?j ''role'' = Some (JString (pm_role m))"
    "jfind ?j ''content'' = Some (content_block_to_json (pm_content m))" "jfind ?j ''_meta'' = pm_meta m"
    unfolding prompt_message_to_json_def
    by (simp_all add: jfind_written [OF e] message_known_keys_def split: option.split)
  have x: "collect_json_extensions ?j message_known_keys = pm_extensions m"
    unfolding prompt_message_to_json_def
    by (rule collect_append_extensions [OF _ e]) (simp_all add: message_known_keys_def keys_sorted_Cons)
  show ?thesis using f x ok by (simp add: prompt_message_from_json_def)
qed

lemma prompts_get_result_roundtrip:
  assumes "prompts_get_result_ok r"
  shows "prompts_get_result_from_json (prompts_get_result_to_json r) =
    (if prompts_get_result_blank r
     then Returns (Inl (prompt_json_error ''prompts/get result requires messages, resultType, or inputRequests''))
     else Returns (Inr r))"
proof -
  have ok: "\<forall>b\<in>set (pgr_messages r). prompt_message_from_json (prompt_message_to_json b) = Inr b"
    "object_meta_ok (pgr_meta r)" and e: "ext_ok prompts_get_result_keys (pgr_extensions r)"
    using assms by (auto simp: prompts_get_result_ok_def prompt_message_roundtrip)
  let ?j = "prompts_get_result_to_json r"
  have f: "is_object ?j" "jfind ?j ''resultType'' = map_option JString (pgr_result_type r)"
    "jfind ?j ''description'' = nonempty_string (pgr_description r)"
    "jfind ?j ''messages'' = (if pgr_messages r = [] then None else Some (JArray (map prompt_message_to_json (pgr_messages r))))"
    "jfind ?j ''_meta'' = pgr_meta r" "jfind ?j ''inputRequests'' = pgr_input_requests r"
    "jfind ?j ''requestState'' = map_option JString (pgr_request_state r)"
    unfolding prompts_get_result_to_json_def
    by (simp_all add: jfind_written [OF e] prompts_get_result_keys_def split: option.split)
  have x: "collect_json_extensions ?j prompts_get_result_keys = pgr_extensions r"
    unfolding prompts_get_result_to_json_def
    by (rule collect_append_extensions [OF _ e]) (simp_all add: prompts_get_result_keys_def)
  have blank: "\<not> jcontains ?j ''messages'' \<and> \<not> jcontains ?j ''resultType'' \<and> \<not> jcontains ?j ''inputRequests'' \<longleftrightarrow>
      prompts_get_result_blank r"
    by (auto simp: jcontains_def f prompts_get_result_blank_def)
  note rd = array_member_written [OF f(4) ok(1)] unchecked_string_written [OF f(2)] unchecked_string_written [OF f(7)]
  show ?thesis
  proof (cases "prompts_get_result_blank r")
    case True
    then show ?thesis using blank f(1) by (simp add: prompts_get_result_from_json_def)
  next
    case False
    then show ?thesis
      using blank f(1,3,5,6) x ok(2) rd by (simp add: prompts_get_result_from_json_def)
  qed
qed

text \<open>What the server sends for a tool call or a prompt is read back by the client as it was, for
  text, image, audio, embedded-resource and link blocks. The exceptions are results with nothing to say:
  an empty tool result and a prompt without messages are written as an object without the required
  members, which the reader refuses.\<close>

theorem results_roundtrip:
  assumes "tool_result_ok r" "prompts_get_result_ok p"
  shows "tool_result_from_json (tool_result_to_json r) =
      (if tool_result_blank r
       then Returns (Inl (tool_json_error (''tool result requires content, structuredContent, isError, _meta, '' @
              ''resultType, inputRequests, or requestState'')))
       else Returns (Inr r)) \<and>
    prompts_get_result_from_json (prompts_get_result_to_json p) =
      (if prompts_get_result_blank p
       then Returns (Inl (prompt_json_error ''prompts/get result requires messages, resultType, or inputRequests''))
       else Returns (Inr p))"
  using tool_result_roundtrip [OF assms(1)] prompts_get_result_roundtrip [OF assms(2)] by (rule conjI)

definition sample_image :: content_block where
  "sample_image = (default_block ''image'')\<lparr>cb_data := JString ''QUJD'', cb_mime_type := ''image/png'',
     cb_annotations := annotations_to_json \<lparr>an_audience = Some [''user''], an_priority = None, an_last_modified = None,
       an_raw = empty_object\<rparr>\<rparr>"

lemma sample_image_ok: "block_ok sample_image"
proof -
  have "annotations_value_ok \<lparr>an_audience = Some [''user''], an_priority = None, an_last_modified = None, an_raw = empty_object\<rparr>"
    by (simp add: annotations_value_ok_def)
  then have "block_annotations_ok (cb_annotations sample_image)"
    unfolding block_annotations_ok_def by (auto simp: sample_image_def)
  moreover have "media_ok sample_image ''QUJD''"
    by (simp add: media_ok_def sample_image_def default_block_def) code_simp
  ultimately show ?thesis
    by (auto simp: block_ok_def block_shape_ok_def sample_image_def default_block_def object_meta_ok_def)
qed

theorem results_roundtrip_witness:
  "let r = \<lparr>tr_content = [sample_image], tr_structured_content = None, tr_is_error = Some False, tr_meta = None,
         tr_result_type = None, tr_input_requests = None, tr_request_state = None, tr_extensions = empty_object\<rparr>;
       p = \<lparr>pgr_description = ''d'', pgr_messages = [], pgr_meta = None, pgr_result_type = None,
         pgr_input_requests = None, pgr_request_state = None, pgr_extensions = empty_object\<rparr>
   in tool_result_from_json (tool_result_to_json r) = Returns (Inr r) \<and>
      prompts_get_result_from_json (prompts_get_result_to_json p) =
        Returns (Inl (prompt_json_error ''prompts/get result requires messages, resultType, or inputRequests''))"
proof -
  let ?r = "\<lparr>tr_content = [sample_image], tr_structured_content = None, tr_is_error = Some False, tr_meta = None,
         tr_result_type = None, tr_input_requests = None, tr_request_state = None, tr_extensions = empty_object\<rparr>"
  let ?p = "\<lparr>pgr_description = ''d'', pgr_messages = [], pgr_meta = None, pgr_result_type = None,
         pgr_input_requests = None, pgr_request_state = None, pgr_extensions = empty_object\<rparr>"
  have "tool_result_ok ?r" "prompts_get_result_ok ?p"
    by (simp_all add: tool_result_ok_def prompts_get_result_ok_def sample_image_ok object_meta_ok_def)
  from results_roundtrip [OF this] show ?thesis
    by (simp add: tool_result_blank_def prompts_get_result_blank_def)
qed

end
