(* ===== verification/Server_Auth.thy ===== *)
theory Server_Auth
  imports Registry
begin

text \<open>
  src/sdk/server/include/cxxmcp/server/auth.hpp: the bearer-token provider of the server. Bytes of a
  string are read as \<open>unsigned char\<close>; \<open>std::tolower\<close> and \<open>std::isspace\<close> are those of the "C" locale.
\<close>

section \<open>Text helpers\<close>

definition tolower :: "char \<Rightarrow> char" where
  "tolower c = (if CHR ''A'' \<le> c \<and> c \<le> CHR ''Z'' then char_of (of_char c + 32 :: nat) else c)"

definition isspace :: "char \<Rightarrow> bool" where
  "isspace c \<longleftrightarrow> c \<in> {CHR '' '', CHR 0x09, CHR 0x0A, CHR 0x0B, CHR 0x0C, CHR 0x0D}"

fun iequals_loop :: "string \<Rightarrow> string \<Rightarrow> bool" where
  "iequals_loop (x # xs) (y # ys) = (if tolower x \<noteq> tolower y then False else iequals_loop xs ys)"
| "iequals_loop _ _ = True"

definition ascii_iequals :: "string \<Rightarrow> string \<Rightarrow> bool" where
  "ascii_iequals lhs rhs \<longleftrightarrow> (if length lhs \<noteq> length rhs then False else iequals_loop lhs rhs)"

definition byte_at :: "string \<Rightarrow> nat \<Rightarrow> 8 word" where
  "byte_at s i = (if i < length s then word_of_nat (of_char (s ! i)) else 0)"

text \<open>The sizes are compared as \<open>std::size_t\<close> and their difference is kept in one byte.\<close>

definition constant_time_string_equal :: "string \<Rightarrow> string \<Rightarrow> bool" where
  "constant_time_string_equal lhs rhs =
     (let max_size = (if length lhs > length rhs then length lhs else length rhs);
          diff = (ucast (word_of_nat (length lhs) XOR word_of_nat (length rhs) :: size_t) :: 8 word)
      in fold (\<lambda>i d. d OR (byte_at lhs i XOR byte_at rhs i)) [0..<max_size] diff = 0)"

definition trim_ascii :: "string \<Rightarrow> string" where
  "trim_ascii s = rev (dropWhile isspace (rev (dropWhile isspace s)))"

definition kBearer :: string where
  "kBearer = ''Bearer''"

definition bearer_token_from_authorization :: "string \<Rightarrow> string" where
  "bearer_token_from_authorization authorization =
     (let a = trim_ascii authorization in
      if length a \<le> length kBearer \<or> \<not> ascii_iequals (take (length kBearer) a) kBearer \<or>
         \<not> isspace (a ! length kBearer)
      then ''''
      else trim_ascii (drop (length kBearer) a))"

section \<open>Providers\<close>

record auth_request =
  aq_headers :: "string alist"
  aq_remote_address :: string
  aq_http_method :: "string option"
  aq_http_url :: "string option"

text \<open>\<open>AuthProvider\<close> is an abstract class: what its \<open>authenticate\<close> returns for a request.\<close>

type_synonym auth_provider = "auth_request \<Rightarrow> auth_identity result attempt"

definition AuthErrorCategory :: string where
  "AuthErrorCategory = ''auth''"

definition make_auth_error :: "string \<Rightarrow> string \<Rightarrow> core_error" where
  "make_auth_error msg detail = mk_error (error_code PermissionDenied) msg detail AuthErrorCategory"

record bearer_entry =
  be_token :: string
  be_identity :: auth_identity

fun bearer_token :: "string alist \<Rightarrow> string" where
  "bearer_token [] = ''''"
| "bearer_token ((name, val) # headers) =
     (if ascii_iequals name ''Authorization'' then bearer_token_from_authorization val
      else bearer_token headers)"

fun match_entry :: "string \<Rightarrow> bearer_entry list \<Rightarrow> auth_identity result" where
  "match_entry token [] = Inl (make_auth_error ''missing or invalid bearer token'' '''')"
| "match_entry token (e # entries) =
     (if constant_time_string_equal token (be_token e) then Inr (be_identity e) else match_entry token entries)"

definition static_bearer_authenticate :: "bearer_entry list \<Rightarrow> auth_request \<Rightarrow> auth_identity result" where
  "static_bearer_authenticate entries req =
     (let token = bearer_token (aq_headers req) in
      if token = '''' then Inl (make_auth_error ''missing or invalid bearer token'' '''')
      else match_entry token entries)"

definition add_token :: "string \<Rightarrow> auth_identity \<Rightarrow> bearer_entry list \<Rightarrow> bearer_entry list" where
  "add_token token identity entries = entries @ [\<lparr>be_token = token, be_identity = identity\<rparr>]"

section \<open>What the comparison decides\<close>

lemma or_zero_iff: "(x :: 8 word) OR y = 0 \<longleftrightarrow> x = 0 \<and> y = 0"
  by (rule or_eq_0_iff)

lemma fold_or_zero:
  "fold (\<lambda>i d. d OR f i) xs (d :: 8 word) = 0 \<longleftrightarrow> d = 0 \<and> (\<forall>i\<in>set xs. f i = 0)"
  by (induction xs arbitrary: d) (auto simp: or_zero_iff)

lemma xor_zero_iff: "(x :: 'a :: len word) XOR y = 0 \<longleftrightarrow> x = y"
  by (metis xor.left_neutral xor.assoc xor_self_eq)

lemma of_char_less: "(of_char c :: nat) < 256"
  by (metis of_char_of mod_less_divisor of_char_mod_256 zero_less_numeral)

lemma byte_word_inject: "(word_of_nat (of_char c) :: 8 word) = word_of_nat (of_char d) \<longleftrightarrow> c = d"
proof
  assume "(word_of_nat (of_char c) :: 8 word) = word_of_nat (of_char d)"
  then have "unat (word_of_nat (of_char c) :: 8 word) = unat (word_of_nat (of_char d) :: 8 word)" by simp
  then have "(of_char c :: nat) = of_char d"
    using of_char_less [of c] of_char_less [of d] by (simp add: unat_of_nat)
  then show "c = d" by (simp add: of_char_eq_iff)
qed simp

lemma size_byte_iff:
  "(ucast (word_of_nat m XOR word_of_nat n :: size_t) :: 8 word) = 0 \<longleftrightarrow> m mod 256 = n mod 256"
proof -
  have u: "(ucast (word_of_nat k :: size_t) :: 8 word) = word_of_nat k" for k
    by (rule bit_word_eqI) (simp add: bit_simps bit_of_nat_iff)
  have "(ucast (word_of_nat m XOR word_of_nat n :: size_t) :: 8 word) =
      ucast (word_of_nat m :: size_t) XOR ucast (word_of_nat n :: size_t)"
    by (rule bit_word_eqI) (simp add: bit_simps)
  then show ?thesis by (simp add: u xor_zero_iff word_of_nat_eq_iff take_bit_eq_mod)
qed

lemma constant_time_unfold:
  "constant_time_string_equal l r \<longleftrightarrow>
     length l mod 256 = length r mod 256 \<and> (\<forall>i < max (length l) (length r). byte_at l i = byte_at r i)"
  by (auto simp: constant_time_string_equal_def Let_def fold_or_zero size_byte_iff xor_zero_iff max_def)

abbreviation nul :: char where
  "nul \<equiv> CHR 0x00"

lemma byte_at_nul: "i < length s \<Longrightarrow> byte_at s i = 0 \<longleftrightarrow> s ! i = nul"
  using byte_word_inject [of "s ! i" nul] by (simp add: byte_at_def)

lemma constant_time_longer:
  assumes "length r \<le> length l"
  shows "constant_time_string_equal l r \<longleftrightarrow> (\<exists>n. l = r @ replicate (256 * n) nul)"
proof
  assume eq: "constant_time_string_equal l r"
  then have b: "byte_at l i = byte_at r i" if "i < length l" for i
    using that assms by (simp add: constant_time_unfold max_def split: if_splits)
  have "256 dvd length l - length r"
    using eq assms by (simp add: constant_time_unfold mod_eq_dvd_iff_nat)
  then obtain n where n: "length l - length r = 256 * n" by (auto simp: dvd_def)
  have "l = r @ replicate (256 * n) nul"
  proof (rule nth_equalityI)
    fix i assume i: "i < length l"
    show "l ! i = (r @ replicate (256 * n) nul) ! i"
      using b [OF i] i n byte_at_nul [OF i] assms byte_word_inject [of "l ! i" "r ! i"]
      by (auto simp: nth_append byte_at_def)
  qed (use n assms in simp)
  then show "\<exists>n. l = r @ replicate (256 * n) nul" ..
next
  assume "\<exists>n. l = r @ replicate (256 * n) nul"
  then obtain n where "l = r @ replicate (256 * n) nul" ..
  then show "constant_time_string_equal l r"
    by (auto simp: constant_time_unfold byte_at_def nth_append)
qed

lemma constant_time_sym: "constant_time_string_equal l r = constant_time_string_equal r l"
  by (auto simp: constant_time_unfold max.commute)

lemma constant_time_iff:
  "constant_time_string_equal l r \<longleftrightarrow>
     (\<exists>n. l = r @ replicate (256 * n) nul \<or> r = l @ replicate (256 * n) nul)"
proof (cases "length r \<le> length l")
  case True
  then show ?thesis using constant_time_longer [OF True] by (auto intro: exI [of _ 0])
next
  case False
  then show ?thesis
    using constant_time_longer [of l r] constant_time_sym [of l r] by (auto intro: exI [of _ 0])
qed

text \<open>Two strings compare equal exactly when one is the other followed by a multiple of 256 NUL
  bytes; so the comparison is equality for strings that contain no NUL byte, and not in general.\<close>

theorem constant_time_string_equal_exact:
  "(constant_time_string_equal l r \<longleftrightarrow>
      (\<exists>n. l = r @ replicate (256 * n) (CHR 0x00) \<or> r = l @ replicate (256 * n) (CHR 0x00))) \<and>
   (CHR 0x00 \<notin> set l \<and> CHR 0x00 \<notin> set r \<longrightarrow> (constant_time_string_equal l r \<longleftrightarrow> l = r)) \<and>
   constant_time_string_equal (t @ replicate 256 (CHR 0x00)) t"
proof (intro conjI impI)
  assume "nul \<notin> set l \<and> nul \<notin> set r"
  then show "constant_time_string_equal l r \<longleftrightarrow> l = r"
    by (auto simp: constant_time_iff intro: exI [of _ 0])
qed (use constant_time_iff in \<open>auto intro: exI [of _ 1]\<close>)

theorem constant_time_string_equal_exact_witness:
  "constant_time_string_equal ''token'' ''token'' \<and> \<not> constant_time_string_equal ''token'' ''tokem''"
  using constant_time_string_equal_exact [of "''token''" "''token''"] constant_time_string_equal_exact [of "''token''" "''tokem''"]
  by simp

text \<open>The provider accepts exactly the registered tokens, under that comparison, first entry first.\<close>

lemma match_entry_find:
  "match_entry token entries =
     (case find (\<lambda>e. constant_time_string_equal token (be_token e)) entries of
        None \<Rightarrow> Inl (make_auth_error ''missing or invalid bearer token'' '''')
      | Some e \<Rightarrow> Inr (be_identity e))"
  by (induction entries) auto

text \<open>a request is authenticated exactly when its first Authorization header carries a non-empty
  bearer token that matches a registered one, and then as the identity of the first match.\<close>

theorem static_bearer_exact:
  "static_bearer_authenticate entries req = Inr identity \<longleftrightarrow>
     bearer_token (aq_headers req) \<noteq> '''' \<and>
     (\<exists>i < length entries.
        constant_time_string_equal (bearer_token (aq_headers req)) (be_token (entries ! i)) \<and>
        identity = be_identity (entries ! i) \<and>
        \<not> (\<exists>j < i. constant_time_string_equal (bearer_token (aq_headers req)) (be_token (entries ! j))))"
proof -
  have "match_entry t entries = Inr identity \<longleftrightarrow>
      (\<exists>e. find (\<lambda>e. constant_time_string_equal t (be_token e)) entries = Some e \<and> identity = be_identity e)" for t
    by (auto simp: match_entry_find split: option.splits)
  then show ?thesis
    unfolding static_bearer_authenticate_def Let_def find_Some_iff by auto
qed

end
