(* ===== verification/Capabilities.thy ===== *)
theory Capabilities
  imports Tool_Headers "HOL-Library.Monad_Syntax"
begin

text \<open>
  src/sdk/protocol/include/cxxmcp/protocol/capabilities.hpp and initialize.hpp: the capabilities
  client and server advertise to each other, and the payloads of the initialize exchange. Every
  capability keeps the object it was read from (\<open>raw\<close>), and a serialised capability is that
  object with the flags written over it. An optional result is an \<open>option\<close>, read with the
  option monad.
\<close>

section \<open>Capability records\<close>

text \<open>\<open>ToolCapabilities\<close>, \<open>PromptCapabilities\<close> and \<open>RootCapabilities\<close> have the same members.\<close>

record listing_capabilities =
  lc_enabled :: bool
  lc_list_changed :: bool
  lc_list_changed_present :: bool
  lc_raw :: json

type_synonym tool_capabilities = listing_capabilities
type_synonym prompt_capabilities = listing_capabilities
type_synonym root_capabilities = listing_capabilities

record resource_capabilities = listing_capabilities +
  rc_subscribe :: bool
  rc_subscribe_present :: bool

text \<open>\<open>LoggingCapabilities\<close> and \<open>CompletionCapabilities\<close>.\<close>

record plain_capabilities =
  pc_enabled :: bool
  pc_raw :: json

type_synonym logging_capabilities = plain_capabilities
type_synonym completion_capabilities = plain_capabilities

record sampling_capabilities =
  sc_enabled :: bool
  sc_tools :: bool
  sc_context :: bool
  sc_raw :: json

record elicitation_capabilities =
  ec_present :: bool
  ec_form :: bool
  ec_form_schema_validation :: "bool option"
  ec_url :: bool
  ec_raw :: json

definition elicitation_enabled :: "elicitation_capabilities \<Rightarrow> bool" where
  "elicitation_enabled c \<longleftrightarrow> ec_form c \<or> ec_url c"

record task_capabilities =
  kc_list :: bool
  kc_cancel :: bool
  kc_tools_call :: bool
  kc_sampling_create_message :: bool
  kc_elicitation_create :: bool
  kc_raw :: json

record client_capabilities =
  cc_roots :: root_capabilities
  cc_sampling :: sampling_capabilities
  cc_elicitation :: elicitation_capabilities
  cc_tasks :: "task_capabilities option"
  cc_experimental :: "json option"
  cc_extensions :: json

record server_capabilities =
  vc_tools :: tool_capabilities
  vc_resources :: resource_capabilities
  vc_prompts :: prompt_capabilities
  vc_logging :: logging_capabilities
  vc_completions :: completion_capabilities
  vc_tasks :: "task_capabilities option"
  vc_experimental :: "json option"
  vc_extensions :: json

text \<open>The default member initialisers of the structs.\<close>

definition default_listing :: listing_capabilities where
  "default_listing = \<lparr>lc_enabled = False, lc_list_changed = False, lc_list_changed_present = False,
     lc_raw = empty_object\<rparr>"

definition default_resources :: resource_capabilities where
  "default_resources = \<lparr>lc_enabled = False, lc_list_changed = False, lc_list_changed_present = False,
     lc_raw = empty_object, rc_subscribe = False, rc_subscribe_present = False\<rparr>"

definition default_plain :: plain_capabilities where
  "default_plain = \<lparr>pc_enabled = False, pc_raw = empty_object\<rparr>"

definition default_sampling :: sampling_capabilities where
  "default_sampling = \<lparr>sc_enabled = False, sc_tools = False, sc_context = False, sc_raw = empty_object\<rparr>"

definition default_elicitation :: elicitation_capabilities where
  "default_elicitation = \<lparr>ec_present = False, ec_form = False, ec_form_schema_validation = None,
     ec_url = False, ec_raw = empty_object\<rparr>"

definition default_task_capabilities :: task_capabilities where
  "default_task_capabilities = \<lparr>kc_list = False, kc_cancel = False, kc_tools_call = False,
     kc_sampling_create_message = False, kc_elicitation_create = False, kc_raw = empty_object\<rparr>"

definition default_client_capabilities :: client_capabilities where
  "default_client_capabilities = \<lparr>cc_roots = default_listing, cc_sampling = default_sampling,
     cc_elicitation = default_elicitation, cc_tasks = None, cc_experimental = None,
     cc_extensions = empty_object\<rparr>"

definition default_server_capabilities :: server_capabilities where
  "default_server_capabilities = \<lparr>vc_tools = default_listing, vc_resources = default_resources,
     vc_prompts = default_listing, vc_logging = default_plain, vc_completions = default_plain,
     vc_tasks = None, vc_experimental = None, vc_extensions = empty_object\<rparr>"

section \<open>Task capabilities\<close>

definition capability_raw_object :: "json \<Rightarrow> json" where
  "capability_raw_object raw = (if is_object raw then raw else empty_object)"

definition capability_member_object :: "json \<Rightarrow> string \<Rightarrow> json" where
  "capability_member_object obj k =
     (case jfind obj k of
        Some v \<Rightarrow> if is_object v then v else empty_object
      | None \<Rightarrow> empty_object)"

definition write_presence :: "json \<Rightarrow> string \<Rightarrow> json" where
  "write_presence obj k = jset obj k (capability_member_object obj k)"

text \<open>The three blocks that write a member of \<open>requests\<close> differ in their two keys only.\<close>

definition write_request :: "bool \<Rightarrow> string \<Rightarrow> string \<Rightarrow> json \<Rightarrow> json" where
  "write_request flag family member requests =
     (if flag then jset requests family (write_presence (capability_member_object requests family) member)
      else requests)"

definition task_capabilities_to_json :: "task_capabilities \<Rightarrow> json" where
  "task_capabilities_to_json c =
     (let tasks0 = capability_raw_object (kc_raw c);
          tasks1 = (if kc_list c then write_presence tasks0 ''list'' else tasks0);
          tasks2 = (if kc_cancel c then write_presence tasks1 ''cancel'' else tasks1);
          requests = write_request (kc_elicitation_create c) ''elicitation'' ''create''
                       (write_request (kc_sampling_create_message c) ''sampling'' ''createMessage''
                         (write_request (kc_tools_call c) ''tools'' ''call''
                           (capability_member_object tasks2 ''requests'')))
      in if \<not> jempty requests then jset tasks2 ''requests'' requests else tasks2)"

fun capability_member_enabled :: "json \<Rightarrow> bool" where
  "capability_member_enabled (JObject _) = True"
| "capability_member_enabled (JBool b) = b"
| "capability_member_enabled _ = False"

definition member_enabled :: "json \<Rightarrow> string \<Rightarrow> bool" where
  "member_enabled obj k = (case jfind obj k of None \<Rightarrow> False | Some v \<Rightarrow> capability_member_enabled v)"

definition request_enabled :: "json \<Rightarrow> string \<Rightarrow> string \<Rightarrow> bool" where
  "request_enabled tasks family member =
     (case jfind tasks ''requests'' of
        Some requests \<Rightarrow>
          is_object requests \<and>
          (case jfind requests family of
             Some grp \<Rightarrow> is_object grp \<and> member_enabled grp member
           | None \<Rightarrow> False)
      | None \<Rightarrow> False)"

definition task_capabilities_from_json :: "json \<Rightarrow> task_capabilities" where
  "task_capabilities_from_json tasks =
     (if \<not> is_object tasks then default_task_capabilities
      else \<lparr>kc_list = member_enabled tasks ''list'', kc_cancel = member_enabled tasks ''cancel'',
            kc_tools_call = request_enabled tasks ''tools'' ''call'',
            kc_sampling_create_message = request_enabled tasks ''sampling'' ''createMessage'',
            kc_elicitation_create = request_enabled tasks ''elicitation'' ''create'',
            kc_raw = tasks\<rparr>)"

definition task_capability_member_valid :: "json \<Rightarrow> bool" where
  "task_capability_member_valid v \<longleftrightarrow> is_object v \<or> is_boolean v"

definition member_valid :: "json \<Rightarrow> string \<Rightarrow> bool" where
  "member_valid obj k = (case jfind obj k of None \<Rightarrow> True | Some v \<Rightarrow> task_capability_member_valid v)"

definition request_valid :: "json \<Rightarrow> string \<Rightarrow> string \<Rightarrow> bool" where
  "request_valid requests family member =
     (case jfind requests family of
        None \<Rightarrow> True
      | Some grp \<Rightarrow> is_object grp \<and> member_valid grp member)"

definition task_capabilities_are_valid :: "json \<Rightarrow> bool" where
  "task_capabilities_are_valid tasks \<longleftrightarrow>
     is_object tasks \<and> member_valid tasks ''list'' \<and> member_valid tasks ''cancel'' \<and>
     (case jfind tasks ''requests'' of
        None \<Rightarrow> True
      | Some requests \<Rightarrow>
          is_object requests \<and> request_valid requests ''tools'' ''call'' \<and>
          request_valid requests ''sampling'' ''createMessage'' \<and>
          request_valid requests ''elicitation'' ''create'')"

section \<open>Serialising\<close>

text \<open>A family is written when it is enabled or when its object has members.\<close>

definition family_value :: "bool \<Rightarrow> json \<Rightarrow> json option" where
  "family_value enabled obj = (if enabled \<or> \<not> jempty obj then Some obj else None)"

definition flag_value :: "bool \<Rightarrow> bool \<Rightarrow> json option" where
  "flag_value flag present = (if flag \<or> present then Some (JBool flag) else None)"

definition listing_object :: "('a) listing_capabilities_scheme \<Rightarrow> json" where
  "listing_object c =
     jset_opt (capability_raw_object (lc_raw c)) ''listChanged''
       (flag_value (lc_list_changed c) (lc_list_changed_present c))"

definition listing_value :: "listing_capabilities \<Rightarrow> json option" where
  "listing_value c = family_value (lc_enabled c) (listing_object c)"

definition resources_value :: "resource_capabilities \<Rightarrow> json option" where
  "resources_value c =
     family_value (lc_enabled c)
       (jset_opt (listing_object c) ''subscribe'' (flag_value (rc_subscribe c) (rc_subscribe_present c)))"

definition sampling_value :: "sampling_capabilities \<Rightarrow> json option" where
  "sampling_value c =
     (let s0 = capability_raw_object (sc_raw c);
          s1 = (if sc_tools c then write_presence s0 ''tools'' else s0);
          s2 = (if sc_context c then write_presence s1 ''context'' else s1)
      in family_value (sc_enabled c) s2)"

definition elicitation_value :: "elicitation_capabilities \<Rightarrow> json option" where
  "elicitation_value c =
     (let e0 = capability_raw_object (ec_raw c);
          e1 = (if ec_form c
                then jset e0 ''form''
                       (jset_opt (capability_member_object e0 ''form'') ''schemaValidation''
                          (map_option JBool (ec_form_schema_validation c)))
                else e0);
          e2 = (if ec_url c then write_presence e1 ''url'' else e1)
      in family_value (ec_present c) e2)"

definition plain_value :: "plain_capabilities \<Rightarrow> json option" where
  "plain_value c =
     (if pc_enabled c \<or> (is_object (pc_raw c) \<and> \<not> jempty (pc_raw c))
      then Some (capability_raw_object (pc_raw c)) else None)"

definition experimental_value :: "json option \<Rightarrow> json option" where
  "experimental_value e = (case e of Some v \<Rightarrow> if is_object v then Some v else None | None \<Rightarrow> None)"

definition extensions_value :: "json \<Rightarrow> json option" where
  "extensions_value e = (if is_object e \<and> \<not> jempty e then Some e else None)"

definition client_capabilities_to_json :: "client_capabilities \<Rightarrow> json" where
  "client_capabilities_to_json c =
     jset_opt (jset_opt (jset_opt (jset_opt (jset_opt (jset_opt empty_object
       ''roots'' (listing_value (cc_roots c)))
       ''sampling'' (sampling_value (cc_sampling c)))
       ''elicitation'' (elicitation_value (cc_elicitation c)))
       ''experimental'' (experimental_value (cc_experimental c)))
       ''extensions'' (extensions_value (cc_extensions c)))
       ''tasks'' (map_option task_capabilities_to_json (cc_tasks c))"

definition server_capabilities_to_json :: "server_capabilities \<Rightarrow> json" where
  "server_capabilities_to_json c =
     jset_opt (jset_opt (jset_opt (jset_opt (jset_opt (jset_opt (jset_opt (jset_opt empty_object
       ''tools'' (listing_value (vc_tools c)))
       ''resources'' (resources_value (vc_resources c)))
       ''prompts'' (listing_value (vc_prompts c)))
       ''logging'' (plain_value (vc_logging c)))
       ''completions'' (plain_value (vc_completions c)))
       ''tasks'' (map_option task_capabilities_to_json (vc_tasks c)))
       ''experimental'' (experimental_value (vc_experimental c)))
       ''extensions'' (extensions_value (vc_extensions c))"

section \<open>Parsing\<close>

text \<open>
  A family that is absent keeps its default; one that is present has to be an object, which the
  reader \<open>f\<close> then inspects. \<open>None\<close> is the parser's \<open>nullopt\<close>.
\<close>

definition read_family :: "json \<Rightarrow> string \<Rightarrow> 'a \<Rightarrow> (json \<Rightarrow> 'a option) \<Rightarrow> 'a option" where
  "read_family j k dflt f =
     (case jfind j k of
        None \<Rightarrow> Some dflt
      | Some v \<Rightarrow> if is_object v then f v else None)"

definition read_flag :: "json \<Rightarrow> string \<Rightarrow> bool option option" where
  "read_flag obj k =
     (case jfind obj k of
        None \<Rightarrow> Some None
      | Some v \<Rightarrow> (case get_bool v of None \<Rightarrow> None | Some b \<Rightarrow> Some (Some b)))"

definition read_presence :: "json \<Rightarrow> string \<Rightarrow> bool option" where
  "read_presence obj k =
     (case jfind obj k of None \<Rightarrow> Some False | Some v \<Rightarrow> if is_object v then Some True else None)"

definition flag_set :: "bool option \<Rightarrow> bool" where
  "flag_set b \<longleftrightarrow> b = Some True"

definition listing_from_json :: "json \<Rightarrow> listing_capabilities option" where
  "listing_from_json obj = do {
     changed \<leftarrow> read_flag obj ''listChanged'';
     Some \<lparr>lc_enabled = True, lc_list_changed = flag_set changed,
           lc_list_changed_present = (changed \<noteq> None), lc_raw = obj\<rparr> }"

definition resources_from_json :: "json \<Rightarrow> resource_capabilities option" where
  "resources_from_json obj = do {
     changed \<leftarrow> read_flag obj ''listChanged'';
     subscribe \<leftarrow> read_flag obj ''subscribe'';
     Some \<lparr>lc_enabled = True, lc_list_changed = flag_set changed,
           lc_list_changed_present = (changed \<noteq> None), lc_raw = obj,
           rc_subscribe = flag_set subscribe, rc_subscribe_present = (subscribe \<noteq> None)\<rparr> }"

definition plain_from_json :: "json \<Rightarrow> plain_capabilities option" where
  "plain_from_json obj = Some \<lparr>pc_enabled = True, pc_raw = obj\<rparr>"

definition sampling_from_json :: "json \<Rightarrow> sampling_capabilities option" where
  "sampling_from_json obj = do {
     tools \<leftarrow> read_presence obj ''tools'';
     ctx \<leftarrow> read_presence obj ''context'';
     Some \<lparr>sc_enabled = True, sc_tools = tools, sc_context = ctx, sc_raw = obj\<rparr> }"

definition elicitation_from_json :: "json \<Rightarrow> elicitation_capabilities option" where
  "elicitation_from_json obj = do {
     form \<leftarrow> read_presence obj ''form'';
     validation \<leftarrow> (case jfind obj ''form'' of None \<Rightarrow> Some None | Some f \<Rightarrow> read_flag f ''schemaValidation'');
     url \<leftarrow> read_presence obj ''url'';
     Some \<lparr>ec_present = True, ec_form = form, ec_form_schema_validation = validation, ec_url = url,
           ec_raw = obj\<rparr> }"

definition tasks_member_from_json :: "json \<Rightarrow> task_capabilities option option" where
  "tasks_member_from_json j =
     (case jfind j ''tasks'' of
        None \<Rightarrow> Some None
      | Some t \<Rightarrow> if \<not> task_capabilities_are_valid t then None
                  else Some (Some (task_capabilities_from_json t)))"

definition client_capabilities_from_json :: "json \<Rightarrow> client_capabilities option" where
  "client_capabilities_from_json j =
     (if \<not> is_object j then None
      else do {
        roots \<leftarrow> read_family j ''roots'' default_listing listing_from_json;
        sampling \<leftarrow> read_family j ''sampling'' default_sampling sampling_from_json;
        elicitation \<leftarrow> read_family j ''elicitation'' default_elicitation elicitation_from_json;
        tasks \<leftarrow> tasks_member_from_json j;
        experimental \<leftarrow> read_family j ''experimental'' None (\<lambda>v. Some (Some v));
        extensions \<leftarrow> read_family j ''extensions'' empty_object Some;
        Some \<lparr>cc_roots = roots, cc_sampling = sampling, cc_elicitation = elicitation, cc_tasks = tasks,
              cc_experimental = experimental, cc_extensions = extensions\<rparr> })"

definition server_capabilities_from_json :: "json \<Rightarrow> server_capabilities option" where
  "server_capabilities_from_json j =
     (if \<not> is_object j then None
      else do {
        tools \<leftarrow> read_family j ''tools'' default_listing listing_from_json;
        resources \<leftarrow> read_family j ''resources'' default_resources resources_from_json;
        prompts \<leftarrow> read_family j ''prompts'' default_listing listing_from_json;
        logging \<leftarrow> read_family j ''logging'' default_plain plain_from_json;
        completions \<leftarrow> read_family j ''completions'' default_plain plain_from_json;
        tasks \<leftarrow> tasks_member_from_json j;
        experimental \<leftarrow> read_family j ''experimental'' None (\<lambda>v. Some (Some v));
        extensions \<leftarrow> read_family j ''extensions'' empty_object Some;
        Some \<lparr>vc_tools = tools, vc_resources = resources, vc_prompts = prompts, vc_logging = logging,
              vc_completions = completions, vc_tasks = tasks, vc_experimental = experimental,
              vc_extensions = extensions\<rparr> })"

section \<open>Builders\<close>

text \<open>The state of a builder is the record under construction; \<open>build\<close> returns it.\<close>

definition ensure_tasks :: "task_capabilities option \<Rightarrow> task_capabilities" where
  "ensure_tasks t = (case t of None \<Rightarrow> default_task_capabilities | Some c \<Rightarrow> c)"

definition build_roots :: "bool \<Rightarrow> client_capabilities \<Rightarrow> client_capabilities" where
  "build_roots list_changed c =
     c\<lparr>cc_roots := (cc_roots c)\<lparr>lc_enabled := True, lc_list_changed := list_changed,
                                lc_list_changed_present := list_changed\<rparr>\<rparr>"

definition build_sampling :: "bool \<Rightarrow> bool \<Rightarrow> client_capabilities \<Rightarrow> client_capabilities" where
  "build_sampling tools ctx c =
     c\<lparr>cc_sampling := (cc_sampling c)\<lparr>sc_enabled := True, sc_tools := tools, sc_context := ctx\<rparr>\<rparr>"

definition build_elicitation_form :: "bool option \<Rightarrow> client_capabilities \<Rightarrow> client_capabilities" where
  "build_elicitation_form validation c =
     c\<lparr>cc_elicitation := (cc_elicitation c)\<lparr>ec_present := True, ec_form := True,
                                            ec_form_schema_validation := validation\<rparr>\<rparr>"

definition build_elicitation_url :: "client_capabilities \<Rightarrow> client_capabilities" where
  "build_elicitation_url c =
     c\<lparr>cc_elicitation := (cc_elicitation c)\<lparr>ec_present := True, ec_url := True\<rparr>\<rparr>"

definition build_client_tasks ::
  "(task_capabilities \<Rightarrow> task_capabilities) \<Rightarrow> client_capabilities \<Rightarrow> client_capabilities" where
  "build_client_tasks f c = c\<lparr>cc_tasks := Some (f (ensure_tasks (cc_tasks c)))\<rparr>"

definition build_client_experimental :: "json \<Rightarrow> client_capabilities \<Rightarrow> client_capabilities" where
  "build_client_experimental v c = c\<lparr>cc_experimental := Some v\<rparr>"

definition build_client_extension :: "string \<Rightarrow> json \<Rightarrow> client_capabilities \<Rightarrow> client_capabilities" where
  "build_client_extension name v c = c\<lparr>cc_extensions := jset (cc_extensions c) name v\<rparr>"

definition build_tools :: "bool \<Rightarrow> server_capabilities \<Rightarrow> server_capabilities" where
  "build_tools list_changed c =
     c\<lparr>vc_tools := (vc_tools c)\<lparr>lc_enabled := True, lc_list_changed := list_changed,
                                lc_list_changed_present := list_changed\<rparr>\<rparr>"

definition build_resources :: "bool \<Rightarrow> bool \<Rightarrow> server_capabilities \<Rightarrow> server_capabilities" where
  "build_resources list_changed subscribe c =
     c\<lparr>vc_resources := (vc_resources c)\<lparr>lc_enabled := True, lc_list_changed := list_changed,
          lc_list_changed_present := list_changed, rc_subscribe := subscribe,
          rc_subscribe_present := subscribe\<rparr>\<rparr>"

definition build_prompts :: "bool \<Rightarrow> server_capabilities \<Rightarrow> server_capabilities" where
  "build_prompts list_changed c =
     c\<lparr>vc_prompts := (vc_prompts c)\<lparr>lc_enabled := True, lc_list_changed := list_changed,
                                    lc_list_changed_present := list_changed\<rparr>\<rparr>"

definition build_logging :: "server_capabilities \<Rightarrow> server_capabilities" where
  "build_logging c = c\<lparr>vc_logging := (vc_logging c)\<lparr>pc_enabled := True\<rparr>\<rparr>"

definition build_completions :: "server_capabilities \<Rightarrow> server_capabilities" where
  "build_completions c = c\<lparr>vc_completions := (vc_completions c)\<lparr>pc_enabled := True\<rparr>\<rparr>"

definition build_server_tasks ::
  "(task_capabilities \<Rightarrow> task_capabilities) \<Rightarrow> server_capabilities \<Rightarrow> server_capabilities" where
  "build_server_tasks f c = c\<lparr>vc_tasks := Some (f (ensure_tasks (vc_tasks c)))\<rparr>"

definition build_server_experimental :: "json \<Rightarrow> server_capabilities \<Rightarrow> server_capabilities" where
  "build_server_experimental v c = c\<lparr>vc_experimental := Some v\<rparr>"

definition build_server_extension :: "string \<Rightarrow> json \<Rightarrow> server_capabilities \<Rightarrow> server_capabilities" where
  "build_server_extension name v c = c\<lparr>vc_extensions := jset (vc_extensions c) name v\<rparr>"

section \<open>What a peer reads of the task capabilities\<close>

lemma is_object_capability_raw [simp]: "is_object (capability_raw_object r)"
  by (simp add: capability_raw_object_def)

lemma is_object_capability_member [simp]: "is_object (capability_member_object j k)"
  by (simp add: capability_member_object_def split: option.split)

lemma write_presence_simps [simp]:
  "is_object j \<Longrightarrow> is_object (write_presence j k)"
  "is_object j \<Longrightarrow> jfind (write_presence j k) k' =
     (if k' = k then Some (capability_member_object j k) else jfind j k')"
  by (simp_all add: write_presence_def)

lemma member_object_not_written [simp]:
  "is_object j \<Longrightarrow> k \<noteq> k' \<Longrightarrow> capability_member_object (write_presence j k) k' = capability_member_object j k'"
  by (simp add: capability_member_object_def)

lemma write_request_simps [simp]:
  "is_object r \<Longrightarrow> is_object (write_request b fam m r)"
  "is_object r \<Longrightarrow> jfind (write_request b fam m r) k =
     (if b \<and> k = fam then Some (write_presence (capability_member_object r fam) m) else jfind r k)"
  by (simp_all add: write_request_def)

lemma member_object_written_request:
  "is_object r \<Longrightarrow> capability_member_object (write_request b fam m r) k =
     (if b \<and> k = fam then write_presence (capability_member_object r fam) m else capability_member_object r k)"
  unfolding capability_member_object_def [of "write_request b fam m r"] capability_member_object_def [of r k]
  by simp

lemma jempty_jset [simp]: "is_object j \<Longrightarrow> \<not> jempty (jset j k v)"
  by (cases j) auto

lemma jempty_write_request [simp]: "is_object r \<Longrightarrow> jempty (write_request b fam m r) \<longleftrightarrow> \<not> b \<and> jempty r"
  by (simp add: write_request_def)

lemma enabled_object: "is_object v \<Longrightarrow> capability_member_enabled v"
  by (cases v) auto

lemma member_enabled_written:
  "is_object j \<Longrightarrow> member_enabled (write_presence j k) k' = (k' = k \<or> member_enabled j k')"
  by (simp add: member_enabled_def enabled_object)

definition group_enabled :: "json \<Rightarrow> string \<Rightarrow> string \<Rightarrow> bool" where
  "group_enabled requests fam m = member_enabled (capability_member_object requests fam) m"

lemma member_enabled_empty [simp]: "\<not> member_enabled empty_object k"
  by (simp add: member_enabled_def)

lemma group_enabled_written:
  assumes "is_object r"
  shows "group_enabled (write_request b fam m r) fam' m' = ((b \<and> fam' = fam \<and> m' = m) \<or> group_enabled r fam' m')"
  using assms by (auto simp: group_enabled_def member_object_written_request member_enabled_written)

lemma request_enabled_alt:
  "request_enabled t fam m = group_enabled (capability_member_object t ''requests'') fam m"
  by (auto simp: request_enabled_def group_enabled_def capability_member_object_def split: option.splits)

lemma group_enabled_empty: "jempty r \<Longrightarrow> \<not> group_enabled r fam m"
  by (cases r) (auto simp: group_enabled_def capability_member_object_def jfind_def split: option.splits)

definition written_requests :: "task_capabilities \<Rightarrow> json \<Rightarrow> json" where
  "written_requests c r =
     write_request (kc_elicitation_create c) ''elicitation'' ''create''
       (write_request (kc_sampling_create_message c) ''sampling'' ''createMessage''
         (write_request (kc_tools_call c) ''tools'' ''call'' r))"

definition written_members :: "task_capabilities \<Rightarrow> json" where
  "written_members c =
     (let t = capability_raw_object (kc_raw c);
          t1 = (if kc_list c then write_presence t ''list'' else t)
      in if kc_cancel c then write_presence t1 ''cancel'' else t1)"

lemma written_members_simps [simp]:
  "is_object (written_members c)"
  "capability_member_object (written_members c) ''requests'' =
     capability_member_object (capability_raw_object (kc_raw c)) ''requests''"
  by (simp_all add: written_members_def Let_def)

lemma task_capabilities_to_json_alt:
  "task_capabilities_to_json c =
     (let r = written_requests c (capability_member_object (capability_raw_object (kc_raw c)) ''requests'')
      in if \<not> jempty r then jset (written_members c) ''requests'' r else written_members c)"
  unfolding task_capabilities_to_json_def Let_def written_members_simps(2) [symmetric]
  by (simp add: written_members_def written_requests_def)

lemma is_object_task_capabilities [simp]: "is_object (task_capabilities_to_json c)"
  by (simp add: task_capabilities_to_json_alt Let_def)

lemma written_requests_object [simp]: "is_object r \<Longrightarrow> is_object (written_requests c r)"
  by (simp add: written_requests_def)

lemma requests_group_written:
  "request_enabled (task_capabilities_to_json c) fam m =
     group_enabled (written_requests c (capability_member_object (capability_raw_object (kc_raw c)) ''requests'')) fam m"
  (is "_ = group_enabled ?r fam m")
proof (cases "jempty ?r")
  case True
  then have "jempty (capability_member_object (capability_raw_object (kc_raw c)) ''requests'')"
    by (simp add: written_requests_def)
  then show ?thesis using True
    by (simp add: request_enabled_alt task_capabilities_to_json_alt Let_def group_enabled_empty)
next
  case False
  then show ?thesis
    by (simp add: request_enabled_alt task_capabilities_to_json_alt Let_def
        capability_member_object_def [of "jset _ _ _"])
qed

lemma member_enabled_other:
  "is_object j \<Longrightarrow> k' \<noteq> k \<Longrightarrow> member_enabled (jset j k v) k' = member_enabled j k'"
  by (simp add: member_enabled_def)

lemma written_members_enabled:
  "member_enabled (written_members c) k =
     (kc_list c \<and> k = ''list'' \<or> kc_cancel c \<and> k = ''cancel'' \<or>
      member_enabled (capability_raw_object (kc_raw c)) k)"
  by (auto simp: written_members_def Let_def member_enabled_written)

lemma sent_task_flags:
  "let raw = capability_raw_object (kc_raw c); sent = task_capabilities_to_json c in
   task_capabilities_from_json sent =
     \<lparr>kc_list = (kc_list c \<or> member_enabled raw ''list''),
      kc_cancel = (kc_cancel c \<or> member_enabled raw ''cancel''),
      kc_tools_call = (kc_tools_call c \<or> request_enabled raw ''tools'' ''call''),
      kc_sampling_create_message =
        (kc_sampling_create_message c \<or> request_enabled raw ''sampling'' ''createMessage''),
      kc_elicitation_create = (kc_elicitation_create c \<or> request_enabled raw ''elicitation'' ''create''),
      kc_raw = sent\<rparr>"
proof -
  have req: "request_enabled (task_capabilities_to_json c) fam m =
      (kc_elicitation_create c \<and> fam = ''elicitation'' \<and> m = ''create'' \<or>
       kc_sampling_create_message c \<and> fam = ''sampling'' \<and> m = ''createMessage'' \<or>
       kc_tools_call c \<and> fam = ''tools'' \<and> m = ''call'' \<or>
       request_enabled (capability_raw_object (kc_raw c)) fam m)" for fam m
    unfolding requests_group_written request_enabled_alt [of "capability_raw_object (kc_raw c)"]
    by (simp add: written_requests_def group_enabled_written)
  have mem: "member_enabled (task_capabilities_to_json c) k =
      (kc_list c \<and> k = ''list'' \<or> kc_cancel c \<and> k = ''cancel'' \<or>
       member_enabled (capability_raw_object (kc_raw c)) k)" if "k \<noteq> ''requests''" for k
    using that by (simp add: task_capabilities_to_json_alt Let_def member_enabled_other written_members_enabled)
  show ?thesis
    by (simp add: Let_def task_capabilities_from_json_def req mem)
qed

text \<open>whatever the flags and the preserved object of a task capability are, a peer that reads
  what is sent sees each flag set exactly when the record sets it or the preserved object already
  advertises it: clearing a flag of a capability that was read from a peer has no effect on the wire.\<close>

theorem task_flags_advertised:
  "let raw = capability_raw_object (kc_raw c); sent = task_capabilities_to_json c in
   task_capabilities_from_json sent =
     \<lparr>kc_list = (kc_list c \<or> member_enabled raw ''list''),
      kc_cancel = (kc_cancel c \<or> member_enabled raw ''cancel''),
      kc_tools_call = (kc_tools_call c \<or> request_enabled raw ''tools'' ''call''),
      kc_sampling_create_message =
        (kc_sampling_create_message c \<or> request_enabled raw ''sampling'' ''createMessage''),
      kc_elicitation_create = (kc_elicitation_create c \<or> request_enabled raw ''elicitation'' ''create''),
      kc_raw = sent\<rparr>"
  by (rule sent_task_flags)

section \<open>Re-serialising an accepted document\<close>

text \<open>
  The reference: a document re-serialises to its known members, with the legacy form \<open>true\<close> of a
  task flag replaced by the empty object and an empty \<open>extensions\<close> member left out.
\<close>

definition modern :: "json \<Rightarrow> json" where
  "modern v = (if v = JBool True then empty_object else v)"

definition map_member :: "string \<Rightarrow> (json \<Rightarrow> json) \<Rightarrow> json \<Rightarrow> json" where
  "map_member k f j = (case jfind j k of None \<Rightarrow> j | Some v \<Rightarrow> jset j k (f v))"

definition modern_requests :: "json \<Rightarrow> json" where
  "modern_requests r =
     map_member ''elicitation'' (map_member ''create'' modern)
       (map_member ''sampling'' (map_member ''createMessage'' modern)
         (map_member ''tools'' (map_member ''call'' modern) r))"

definition modern_tasks :: "json \<Rightarrow> json" where
  "modern_tasks t = map_member ''requests'' modern_requests (map_member ''cancel'' modern (map_member ''list'' modern t))"

definition canonical_capabilities :: "string list \<Rightarrow> json \<Rightarrow> json" where
  "canonical_capabilities families j =
     JObject (map (\<lambda>(k, v). (k, if k = ''tasks'' then modern_tasks v else v))
       (filter (\<lambda>(k, v). k \<in> set families \<and> \<not> (k = ''extensions'' \<and> jempty v)) (jmembers j)))"

definition client_families :: "string list" where
  "client_families = [''roots'', ''sampling'', ''elicitation'', ''tasks'', ''experimental'', ''extensions'']"

definition server_families :: "string list" where
  "server_families = [''tools'', ''resources'', ''prompts'', ''logging'', ''completions'', ''tasks'',
     ''experimental'', ''extensions'']"

lemma jwf_deep_find: "jwf_deep j \<Longrightarrow> jfind j k = Some v \<Longrightarrow> jwf_deep v"
  by (cases j) (auto simp: jfind_def dest!: map_of_SomeD)

lemma jwf_deep_jwf: "jwf_deep j \<Longrightarrow> is_object j \<Longrightarrow> jwf j"
  by (cases j) auto

lemma map_member_find:
  "is_object j \<Longrightarrow> jfind (map_member k f j) k' = (if k' = k then map_option f (jfind j k) else jfind j k')"
  by (auto simp: map_member_def split: option.split)

lemma map_member_jwf [simp]: "jwf j \<Longrightarrow> jwf (map_member k f j)"
  by (simp add: map_member_def split: option.split)

lemma map_member_object [simp]: "is_object j \<Longrightarrow> is_object (map_member k f j)"
  by (simp add: map_member_def split: option.split)

lemma map_member_empty [simp]: "map_member k f empty_object = empty_object"
  by (simp add: map_member_def)

lemma object_jempty_iff: "is_object j \<Longrightarrow> jempty j \<longleftrightarrow> j = empty_object"
  by (cases j) auto

lemma jempty_map_member: "is_object j \<Longrightarrow> jempty (map_member k f j) \<longleftrightarrow> jempty j"
  by (cases j) (auto simp: map_member_def split: option.split)

text \<open>Writing the flag that was read from a member replaces \<open>true\<close> by the empty object only.\<close>

lemma write_presence_modern:
  assumes "jwf j" "member_valid j k"
  shows "(if member_enabled j k then write_presence j k else j) = map_member k modern j"
proof (cases "jfind j k")
  case (Some v)
  then have "is_object v \<or> (\<exists>b. v = JBool b)"
    using assms(2) by (cases v) (auto simp: member_valid_def task_capability_member_valid_def)
  then show ?thesis
    using Some assms(1) jobj.update_same [OF assms(1) Some]
    by (auto simp: member_enabled_def map_member_def write_presence_def capability_member_object_def
        modern_def enabled_object)
qed (simp add: member_enabled_def map_member_def)

lemma write_request_modern:
  assumes "jwf r" "\<And>g. jfind r fam = Some g \<Longrightarrow> jwf_deep g" "request_valid r fam m"
  shows "write_request (group_enabled r fam m) fam m r = map_member fam (map_member m modern) r"
proof (cases "jfind r fam")
  case None
  then show ?thesis by (simp add: write_request_def group_enabled_def capability_member_object_def map_member_def)
next
  case (Some g)
  have g: "is_object g" "member_valid g m" using assms(3) Some by (auto simp: request_valid_def)
  have wf: "jwf g" using assms(2) [OF Some] g(1) by (rule jwf_deep_jwf)
  have o: "capability_member_object r fam = g" using Some g(1) by (simp add: capability_member_object_def)
  show ?thesis
    using write_presence_modern [OF wf g(2)] Some o jobj.update_same [OF assms(1) Some]
    by (auto simp: write_request_def group_enabled_def map_member_def [of fam] split: if_splits)
qed

lemma map_member_other:
  assumes "is_object j" "k' \<noteq> k"
  shows "member_valid (map_member k f j) k' = member_valid j k'"
    and "member_enabled (map_member k f j) k' = member_enabled j k'"
    and "request_valid (map_member k f j) k' m = request_valid j k' m"
    and "group_enabled (map_member k f j) k' m = group_enabled j k' m"
    and "capability_member_object (map_member k f j) k' = capability_member_object j k'"
  using assms
  by (simp_all add: member_valid_def member_enabled_def request_valid_def group_enabled_def
      capability_member_object_def map_member_find)

lemma written_members_modern:
  assumes "jwf t" "member_valid t ''list''" "member_valid t ''cancel''"
  shows "written_members (task_capabilities_from_json t) = map_member ''cancel'' modern (map_member ''list'' modern t)"
  using assms write_presence_modern [of t "''list''"] write_presence_modern [of "map_member ''list'' modern t" "''cancel''"]
  by (simp add: written_members_def Let_def task_capabilities_from_json_def capability_raw_object_def
      map_member_other split: if_splits)

lemma written_requests_modern:
  assumes t: "is_object t" and r: "jfind t ''requests'' = Some r" "jwf_deep r" "is_object r"
    and valid: "request_valid r ''tools'' ''call''" "request_valid r ''sampling'' ''createMessage''"
      "request_valid r ''elicitation'' ''create''"
  shows "written_requests (task_capabilities_from_json t) r = modern_requests r"
proof -
  have e: "request_enabled t fam m = group_enabled r fam m" for fam m
    using r by (simp add: request_enabled_alt capability_member_object_def)
  have wf: "jwf r" using r(2,3) by (rule jwf_deep_jwf)
  let ?r1 = "map_member ''tools'' (map_member ''call'' modern) r"
  let ?r2 = "map_member ''sampling'' (map_member ''createMessage'' modern) ?r1"
  have "write_request (group_enabled r ''tools'' ''call'') ''tools'' ''call'' r = ?r1"
    using wf valid(1) jwf_deep_find [OF r(2)] by (rule_tac write_request_modern) auto
  moreover have "write_request (group_enabled ?r1 ''sampling'' ''createMessage'') ''sampling'' ''createMessage'' ?r1 = ?r2"
    using wf r(3) valid(2) jwf_deep_find [OF r(2)]
    by (rule_tac write_request_modern) (auto simp: map_member_find map_member_other)
  moreover have "write_request (group_enabled ?r2 ''elicitation'' ''create'') ''elicitation'' ''create'' ?r2 = modern_requests r"
    unfolding modern_requests_def using wf r(3) valid(3) jwf_deep_find [OF r(2)]
    by (rule_tac write_request_modern) (auto simp: map_member_find map_member_other)
  ultimately show ?thesis
    using t r(3) by (simp add: written_requests_def task_capabilities_from_json_def e map_member_other)
qed

lemma task_capabilities_modern:
  assumes wf: "jwf_deep t" and valid: "task_capabilities_are_valid t"
  shows "task_capabilities_to_json (task_capabilities_from_json t) = modern_tasks t"
proof -
  have o: "is_object t" "member_valid t ''list''" "member_valid t ''cancel''"
    using valid by (auto simp: task_capabilities_are_valid_def)
  have jwf: "jwf t" using wf o(1) by (rule jwf_deep_jwf)
  have raw: "capability_raw_object (kc_raw (task_capabilities_from_json t)) = t"
    using o(1) by (simp add: task_capabilities_from_json_def capability_raw_object_def)
  let ?t = "map_member ''cancel'' modern (map_member ''list'' modern t)"
  have find: "jfind ?t ''requests'' = jfind t ''requests''" using o(1) by (simp add: map_member_find)
  have to_json: "task_capabilities_to_json (task_capabilities_from_json t) =
      (let r = written_requests (task_capabilities_from_json t) (capability_member_object t ''requests'')
       in if \<not> jempty r then jset ?t ''requests'' r else ?t)"
    unfolding task_capabilities_to_json_alt raw written_members_modern [OF jwf o(2,3)] ..
  show ?thesis
  proof (cases "jfind t ''requests''")
    case None
    then have "written_requests (task_capabilities_from_json t) empty_object = empty_object"
      using o(1) by (simp add: written_requests_def write_request_def task_capabilities_from_json_def request_enabled_def)
    then show ?thesis
      using None find by (simp add: to_json capability_member_object_def modern_tasks_def map_member_def [of "''requests''"])
  next
    case (Some r)
    have r: "is_object r" "request_valid r ''tools'' ''call''" "request_valid r ''sampling'' ''createMessage''"
        "request_valid r ''elicitation'' ''create''"
      using valid Some by (auto simp: task_capabilities_are_valid_def)
    have w: "written_requests (task_capabilities_from_json t) r = modern_requests r"
      using o(1) Some jwf_deep_find [OF wf Some] r by (rule written_requests_modern)
    have same: "jset ?t ''requests'' (modern_requests r) = ?t" if "jempty (modern_requests r)"
    proof -
      have "jempty r" using that r(1) by (simp add: modern_requests_def jempty_map_member)
      then have "r = empty_object" using r(1) by (simp add: object_jempty_iff)
      then show ?thesis
        using jobj.update_same [of ?t "''requests''" r] jwf find Some
        by (simp add: modern_requests_def)
    qed
    show ?thesis
      using Some find r(1) same
      by (simp add: to_json capability_member_object_def w Let_def modern_tasks_def map_member_def [of "''requests''"])
  qed
qed

lemma task_capabilities_read_modern:
  assumes "jwf_deep t" "task_capabilities_are_valid t"
  shows "task_capabilities_from_json (modern_tasks t) = (task_capabilities_from_json t)\<lparr>kc_raw := modern_tasks t\<rparr>"
proof -
  have o: "is_object t" using assms(2) by (simp add: task_capabilities_are_valid_def)
  have raw: "capability_raw_object (kc_raw (task_capabilities_from_json t)) = t"
    using o by (simp add: task_capabilities_from_json_def capability_raw_object_def)
  have flags: "kc_list (task_capabilities_from_json t) = member_enabled t ''list''"
    "kc_cancel (task_capabilities_from_json t) = member_enabled t ''cancel''"
    "kc_tools_call (task_capabilities_from_json t) = request_enabled t ''tools'' ''call''"
    "kc_sampling_create_message (task_capabilities_from_json t) = request_enabled t ''sampling'' ''createMessage''"
    "kc_elicitation_create (task_capabilities_from_json t) = request_enabled t ''elicitation'' ''create''"
    using o by (simp_all add: task_capabilities_from_json_def)
  show ?thesis
    using sent_task_flags [of "task_capabilities_from_json t"] o
    unfolding Let_def task_capabilities_modern [OF assms] raw flags
    by (simp add: task_capabilities_from_json_def [of t])
qed

lemma modern_member_valid: "is_object j \<Longrightarrow> member_valid j k \<Longrightarrow> member_valid (map_member k modern j) k"
  by (auto simp: member_valid_def map_member_find task_capability_member_valid_def modern_def split: option.splits)

lemma modern_request_valid:
  "is_object r \<Longrightarrow> request_valid r fam m \<Longrightarrow> request_valid (map_member fam (map_member m modern) r) fam m"
  by (auto simp: request_valid_def map_member_find modern_member_valid split: option.splits)

lemma modern_tasks_valid:
  assumes "task_capabilities_are_valid t"
  shows "task_capabilities_are_valid (modern_tasks t)"
proof -
  have o: "is_object t" "member_valid t ''list''" "member_valid t ''cancel''"
    using assms by (auto simp: task_capabilities_are_valid_def)
  have "request_valid (modern_requests r) ''tools'' ''call''" "request_valid (modern_requests r) ''sampling'' ''createMessage''"
       "request_valid (modern_requests r) ''elicitation'' ''create''" "is_object (modern_requests r)"
    if "jfind t ''requests'' = Some r" for r
    using assms that
    by (simp_all add: task_capabilities_are_valid_def modern_requests_def map_member_other modern_request_valid)
  then show ?thesis
    using o
    by (auto simp: task_capabilities_are_valid_def modern_tasks_def map_member_find map_member_other
        modern_member_valid split: option.split)
qed

text \<open>
  The contract between the reader and the writer of one family: the default is not written, and
  what was read from an object is written as that object. Then the member of the document is
  written back as it was.
\<close>

locale capability_family =
  fixes dflt :: 'a
    and read_object :: "json \<Rightarrow> 'a option"
    and write_value :: "'a \<Rightarrow> json option"
  assumes default_unwritten: "write_value dflt = None"
    and write_read: "jwf_deep v \<Longrightarrow> is_object v \<Longrightarrow> read_object v = Some c \<Longrightarrow> write_value c = Some v"
begin

lemma member_preserved:
  "jwf_deep j \<Longrightarrow> read_family j k dflt read_object = Some c \<Longrightarrow> write_value c = jfind j k"
  using default_unwritten write_read jwf_deep_find
  by (auto simp: read_family_def split: option.splits if_splits)

end

lemma flag_read_written:
  assumes "jwf obj" "read_flag obj k = Some b"
  shows "jset_opt obj k (flag_value (flag_set b) (b \<noteq> None)) = obj"
  using assms jobj.update_same [OF assms(1), of k]
  by (auto simp: read_flag_def flag_value_def flag_set_def jset_opt_def get_bool_Some split: option.splits if_splits)

lemma presence_read_written:
  assumes "jwf obj" "read_presence obj k = Some b"
  shows "(if b then write_presence obj k else obj) = obj"
  using assms jobj.update_same [OF assms(1), of k]
  by (auto simp: read_presence_def write_presence_def capability_member_object_def split: option.splits if_splits)

interpretation listing: capability_family default_listing listing_from_json listing_value
proof unfold_locales
  show "listing_value default_listing = None"
    by (simp add: listing_value_def default_listing_def listing_object_def capability_raw_object_def
        flag_value_def jset_opt_def family_value_def)
next
  fix v c assume "jwf_deep v" "is_object v" "listing_from_json v = Some c"
  then show "listing_value c = Some v"
    using flag_read_written [of v "''listChanged''"] jwf_deep_jwf [of v]
    by (auto simp: listing_from_json_def bind_eq_Some_conv listing_value_def listing_object_def
        capability_raw_object_def family_value_def)
qed

interpretation res: capability_family default_resources resources_from_json resources_value
proof unfold_locales
  show "resources_value default_resources = None"
    by (simp add: resources_value_def default_resources_def listing_object_def capability_raw_object_def
        flag_value_def jset_opt_def family_value_def)
next
  fix v c assume "jwf_deep v" "is_object v" "resources_from_json v = Some c"
  then show "resources_value c = Some v"
    using flag_read_written [of v "''listChanged''"] flag_read_written [of v "''subscribe''"] jwf_deep_jwf [of v]
    by (auto simp: resources_from_json_def bind_eq_Some_conv resources_value_def listing_object_def
        capability_raw_object_def family_value_def)
qed

interpretation plain: capability_family default_plain plain_from_json plain_value
  by unfold_locales
    (auto simp: plain_value_def default_plain_def plain_from_json_def capability_raw_object_def)

interpretation sampling: capability_family default_sampling sampling_from_json sampling_value
proof unfold_locales
  show "sampling_value default_sampling = None"
    by (simp add: sampling_value_def default_sampling_def capability_raw_object_def family_value_def)
next
  fix v c assume "jwf_deep v" "is_object v" "sampling_from_json v = Some c"
  then show "sampling_value c = Some v"
    using presence_read_written [of v "''tools''"] presence_read_written [of v "''context''"] jwf_deep_jwf [of v]
    by (auto simp: sampling_from_json_def bind_eq_Some_conv sampling_value_def capability_raw_object_def
        family_value_def Let_def)
qed

interpretation experimental: capability_family None "\<lambda>v. Some (Some v)" experimental_value
  by unfold_locales (auto simp: experimental_value_def)

lemma form_read_written:
  assumes "jwf_deep v" "is_object v" "read_presence v ''form'' = Some True"
    "(case jfind v ''form'' of None \<Rightarrow> Some None | Some f \<Rightarrow> read_flag f ''schemaValidation'') = Some b"
  shows "jset v ''form'' (jset_opt (capability_member_object v ''form'') ''schemaValidation'' (map_option JBool b)) = v"
proof -
  obtain f where f: "jfind v ''form'' = Some f" "is_object f"
    using assms(3) by (auto simp: read_presence_def split: option.splits if_splits)
  have wf: "jwf f" using jwf_deep_find [OF assms(1) f(1)] f(2) by (rule jwf_deep_jwf)
  have flag: "read_flag f ''schemaValidation'' = Some b" using assms(4) f by simp
  have "jset_opt f ''schemaValidation'' (map_option JBool b) = f"
    using flag jobj.update_same [OF wf, of "''schemaValidation''"]
    by (auto simp: read_flag_def jset_opt_def get_bool_Some split: option.splits)
  then show ?thesis
    using f jobj.update_same [OF jwf_deep_jwf [OF assms(1,2)] f(1)] by (simp add: capability_member_object_def)
qed

interpretation elicitation: capability_family default_elicitation elicitation_from_json elicitation_value
proof unfold_locales
  show "elicitation_value default_elicitation = None"
    by (simp add: elicitation_value_def default_elicitation_def capability_raw_object_def family_value_def)
next
  fix v c assume v: "jwf_deep v" "is_object v" "elicitation_from_json v = Some c"
  then obtain form validation url where p: "read_presence v ''form'' = Some form"
      "(case jfind v ''form'' of None \<Rightarrow> Some None | Some f \<Rightarrow> read_flag f ''schemaValidation'') = Some validation"
      "read_presence v ''url'' = Some url"
      "c = \<lparr>ec_present = True, ec_form = form, ec_form_schema_validation = validation, ec_url = url, ec_raw = v\<rparr>"
    unfolding elicitation_from_json_def bind_eq_Some_conv by auto
  have "(if form then jset v ''form'' (jset_opt (capability_member_object v ''form'') ''schemaValidation''
      (map_option JBool validation)) else v) = v"
    using form_read_written [OF v(1,2) _ p(2)] p(1) by simp
  then show "elicitation_value c = Some v"
    using presence_read_written [OF jwf_deep_jwf [OF v(1,2)] p(3)] v(2) p(4)
    by (auto simp: elicitation_value_def Let_def capability_raw_object_def family_value_def split: if_splits)
qed

lemma map_of_canonical:
  assumes "distinct (map fst kvs)"
  shows "map_of (map (\<lambda>(k, v). (k, f k v)) (filter (\<lambda>(k, v). P k v) kvs)) k =
     (case map_of kvs k of None \<Rightarrow> None | Some v \<Rightarrow> if P k v then Some (f k v) else None)"
  using assms
proof (induction kvs)
  case (Cons kv kvs)
  have "map_of kvs (fst kv) = None" using Cons.prems by (auto simp: map_of_eq_None_iff)
  with Cons show ?case by (auto split: prod.split)
qed simp

lemma canonical_find:
  assumes "jwf_deep j" "is_object j"
  shows "jfind (canonical_capabilities fams j) k =
     (case jfind j k of
        None \<Rightarrow> None
      | Some v \<Rightarrow> if k \<in> set fams \<and> \<not> (k = ''extensions'' \<and> jempty v)
                  then Some (if k = ''tasks'' then modern_tasks v else v) else None)"
  unfolding canonical_capabilities_def jfind_JObject
  using map_of_canonical [of "jmembers j" "\<lambda>k v. if k = ''tasks'' then modern_tasks v else v"
      "\<lambda>k v. k \<in> set fams \<and> \<not> (k = ''extensions'' \<and> jempty v)" k] assms
  by (cases j) (auto simp: keys_sorted_distinct)

lemma canonical_jwf:
  assumes "jwf_deep j" "is_object j"
  shows "jwf (canonical_capabilities fams j)"
proof -
  have fst: "map fst (map (\<lambda>(k, v). (k, f k v)) xs) = map fst xs" for f :: "string \<Rightarrow> json \<Rightarrow> json" and xs
    by (induction xs) auto
  have "keys_sorted (jmembers j)" using assms by (cases j) auto
  then show ?thesis
    unfolding canonical_capabilities_def jwf_simps keys_sorted_def fst
    using keys_sorted_filter unfolding keys_sorted_def by blast
qed

lemma tasks_member_written:
  assumes "jwf_deep j" "tasks_member_from_json j = Some t"
  shows "map_option task_capabilities_to_json t = map_option modern_tasks (jfind j ''tasks'')"
  using assms jwf_deep_find [OF assms(1)] task_capabilities_modern
  by (auto simp: tasks_member_from_json_def split: option.splits if_splits)

lemma extensions_member_written:
  assumes "read_family j ''extensions'' empty_object Some = Some e"
  shows "extensions_value e = (case jfind j ''extensions'' of None \<Rightarrow> None | Some v \<Rightarrow> if jempty v then None else Some v)"
  using assms by (auto simp: read_family_def extensions_value_def split: option.splits if_splits)

definition modern_raw :: "task_capabilities \<Rightarrow> task_capabilities" where
  "modern_raw t = t\<lparr>kc_raw := modern_tasks (kc_raw t)\<rparr>"

lemma tasks_member_read_back:
  assumes "jwf_deep j" "tasks_member_from_json j = Some t" "jfind i ''tasks'' = map_option modern_tasks (jfind j ''tasks'')"
  shows "tasks_member_from_json i = Some (map_option modern_raw t)"
proof (cases "jfind j ''tasks''")
  case None
  then show ?thesis using assms by (simp add: tasks_member_from_json_def)
next
  case (Some v)
  then have v: "task_capabilities_are_valid v" "t = Some (task_capabilities_from_json v)"
    using assms(2) by (auto simp: tasks_member_from_json_def split: if_splits)
  have "kc_raw (task_capabilities_from_json v) = v"
    using v(1) by (simp add: task_capabilities_are_valid_def task_capabilities_from_json_def)
  then show ?thesis
    using assms(3) Some v modern_tasks_valid [OF v(1)]
      task_capabilities_read_modern [OF jwf_deep_find [OF assms(1) Some] v(1)]
    by (simp add: tasks_member_from_json_def modern_raw_def)
qed

lemma read_family_same: "jfind i k = jfind j k \<Longrightarrow> read_family i k d f = read_family j k d f"
  by (simp add: read_family_def)

lemma extensions_read_back:
  assumes "read_family j ''extensions'' empty_object Some = Some e"
    "jfind i ''extensions'' = (case jfind j ''extensions'' of None \<Rightarrow> None | Some v \<Rightarrow> if jempty v then None else Some v)"
  shows "read_family i ''extensions'' empty_object Some = Some e"
  using assms by (auto simp: read_family_def object_jempty_iff split: option.splits if_splits)

lemma jfind_jset_opt_fresh:
  "is_object j \<Longrightarrow> jfind j k = None \<Longrightarrow> jfind (jset_opt j k ov) k' = (if k' = k then ov else jfind j k')"
  by (cases ov) simp_all

lemma client_capabilities_find:
  "jfind (client_capabilities_to_json c) k =
     (if k = ''roots'' then listing_value (cc_roots c)
      else if k = ''sampling'' then sampling_value (cc_sampling c)
      else if k = ''elicitation'' then elicitation_value (cc_elicitation c)
      else if k = ''experimental'' then experimental_value (cc_experimental c)
      else if k = ''extensions'' then extensions_value (cc_extensions c)
      else if k = ''tasks'' then map_option task_capabilities_to_json (cc_tasks c)
      else None)"
  by (simp add: client_capabilities_to_json_def jfind_jset_opt_fresh del: jfind_jset_opt)

lemma server_capabilities_find:
  "jfind (server_capabilities_to_json c) k =
     (if k = ''tools'' then listing_value (vc_tools c)
      else if k = ''resources'' then resources_value (vc_resources c)
      else if k = ''prompts'' then listing_value (vc_prompts c)
      else if k = ''logging'' then plain_value (vc_logging c)
      else if k = ''completions'' then plain_value (vc_completions c)
      else if k = ''tasks'' then map_option task_capabilities_to_json (vc_tasks c)
      else if k = ''experimental'' then experimental_value (vc_experimental c)
      else if k = ''extensions'' then extensions_value (vc_extensions c)
      else None)"
  by (simp add: server_capabilities_to_json_def jfind_jset_opt_fresh del: jfind_jset_opt)

lemma canonical_find_cases:
  assumes "jwf_deep j" "is_object j"
  shows "k \<notin> set fams \<Longrightarrow> jfind (canonical_capabilities fams j) k = None"
    and "k \<in> set fams \<Longrightarrow> k \<noteq> ''tasks'' \<Longrightarrow> k \<noteq> ''extensions'' \<Longrightarrow> jfind (canonical_capabilities fams j) k = jfind j k"
    and "''tasks'' \<in> set fams \<Longrightarrow> jfind (canonical_capabilities fams j) ''tasks'' = map_option modern_tasks (jfind j ''tasks'')"
    and "''extensions'' \<in> set fams \<Longrightarrow> jfind (canonical_capabilities fams j) ''extensions'' =
      (case jfind j ''extensions'' of None \<Rightarrow> None | Some v \<Rightarrow> if jempty v then None else Some v)"
  by (simp_all add: canonical_find [OF assms] split: option.split)

lemma read_family_canonical:
  "jwf_deep j \<Longrightarrow> is_object j \<Longrightarrow> k \<in> set fams \<Longrightarrow> k \<noteq> ''tasks'' \<Longrightarrow> k \<noteq> ''extensions'' \<Longrightarrow>
   read_family (canonical_capabilities fams j) k d g = read_family j k d g"
  by (rule read_family_same) (rule canonical_find_cases(2))

lemma client_capabilities_written:
  assumes wf: "jwf_deep j" and c: "client_capabilities_from_json j = Some c"
  shows "client_capabilities_to_json c = canonical_capabilities client_families j"
proof -
  have o: "is_object j" using c by (auto simp: client_capabilities_from_json_def split: if_splits)
  have m: "listing_value (cc_roots c) = jfind j ''roots''"
    "sampling_value (cc_sampling c) = jfind j ''sampling''"
    "elicitation_value (cc_elicitation c) = jfind j ''elicitation''"
    "map_option task_capabilities_to_json (cc_tasks c) = map_option modern_tasks (jfind j ''tasks'')"
    "experimental_value (cc_experimental c) = jfind j ''experimental''"
    "extensions_value (cc_extensions c) =
       (case jfind j ''extensions'' of None \<Rightarrow> None | Some v \<Rightarrow> if jempty v then None else Some v)"
    using c o listing.member_preserved [OF wf] sampling.member_preserved [OF wf] elicitation.member_preserved [OF wf]
      tasks_member_written [OF wf] experimental.member_preserved [OF wf] extensions_member_written
    by (auto simp: client_capabilities_from_json_def bind_eq_Some_conv)
  show ?thesis
  proof (rule jwf_ext)
    show "jfind (client_capabilities_to_json c) k = jfind (canonical_capabilities client_families j) k" for k
      by (simp add: client_capabilities_find m canonical_find_cases [OF wf o] client_families_def)
  qed (simp_all add: client_capabilities_to_json_def canonical_jwf [OF wf o])
qed

lemma server_capabilities_written:
  assumes wf: "jwf_deep j" and c: "server_capabilities_from_json j = Some c"
  shows "server_capabilities_to_json c = canonical_capabilities server_families j"
proof -
  have o: "is_object j" using c by (auto simp: server_capabilities_from_json_def split: if_splits)
  have m: "listing_value (vc_tools c) = jfind j ''tools''"
    "resources_value (vc_resources c) = jfind j ''resources''"
    "listing_value (vc_prompts c) = jfind j ''prompts''"
    "plain_value (vc_logging c) = jfind j ''logging''"
    "plain_value (vc_completions c) = jfind j ''completions''"
    "map_option task_capabilities_to_json (vc_tasks c) = map_option modern_tasks (jfind j ''tasks'')"
    "experimental_value (vc_experimental c) = jfind j ''experimental''"
    "extensions_value (vc_extensions c) =
       (case jfind j ''extensions'' of None \<Rightarrow> None | Some v \<Rightarrow> if jempty v then None else Some v)"
    using c o listing.member_preserved [OF wf] res.member_preserved [OF wf] plain.member_preserved [OF wf]
      tasks_member_written [OF wf] experimental.member_preserved [OF wf] extensions_member_written
    by (auto simp: server_capabilities_from_json_def bind_eq_Some_conv)
  show ?thesis
  proof (rule jwf_ext)
    show "jfind (server_capabilities_to_json c) k = jfind (canonical_capabilities server_families j) k" for k
      by (simp add: server_capabilities_find m canonical_find_cases [OF wf o] server_families_def)
  qed (simp_all add: server_capabilities_to_json_def canonical_jwf [OF wf o])
qed

definition modern_client :: "client_capabilities \<Rightarrow> client_capabilities" where
  "modern_client c = c\<lparr>cc_tasks := map_option modern_raw (cc_tasks c)\<rparr>"

definition modern_server :: "server_capabilities \<Rightarrow> server_capabilities" where
  "modern_server c = c\<lparr>vc_tasks := map_option modern_raw (vc_tasks c)\<rparr>"

lemma client_capabilities_read_back:
  assumes wf: "jwf_deep j" and c: "client_capabilities_from_json j = Some c"
  shows "client_capabilities_from_json (client_capabilities_to_json c) = Some (modern_client c)"
proof -
  have o: "is_object j" using c by (auto simp: client_capabilities_from_json_def split: if_splits)
  let ?i = "canonical_capabilities client_families j"
  note f = canonical_find_cases [OF wf o]
  have p: "read_family j ''roots'' default_listing listing_from_json = Some (cc_roots c)"
    "read_family j ''sampling'' default_sampling sampling_from_json = Some (cc_sampling c)"
    "read_family j ''elicitation'' default_elicitation elicitation_from_json = Some (cc_elicitation c)"
    "tasks_member_from_json j = Some (cc_tasks c)"
    "read_family j ''experimental'' None (\<lambda>v. Some (Some v)) = Some (cc_experimental c)"
    "read_family j ''extensions'' empty_object Some = Some (cc_extensions c)"
    using c o by (auto simp: client_capabilities_from_json_def bind_eq_Some_conv)
  have "tasks_member_from_json ?i = Some (map_option modern_raw (cc_tasks c))"
    using tasks_member_read_back [OF wf p(4)] f(3) by (simp add: client_families_def)
  moreover have "read_family ?i ''extensions'' empty_object Some = Some (cc_extensions c)"
    using extensions_read_back [OF p(6)] f(4) by (simp add: client_families_def)
  moreover have "is_object ?i" by (simp add: canonical_capabilities_def)
  ultimately show ?thesis
    unfolding client_capabilities_written [OF assms] using p(1-3,5)
    by (simp add: client_capabilities_from_json_def modern_client_def read_family_canonical [OF wf o] client_families_def)
qed

lemma server_capabilities_read_back:
  assumes wf: "jwf_deep j" and c: "server_capabilities_from_json j = Some c"
  shows "server_capabilities_from_json (server_capabilities_to_json c) = Some (modern_server c)"
proof -
  have o: "is_object j" using c by (auto simp: server_capabilities_from_json_def split: if_splits)
  let ?i = "canonical_capabilities server_families j"
  note f = canonical_find_cases [OF wf o]
  have p: "read_family j ''tools'' default_listing listing_from_json = Some (vc_tools c)"
    "read_family j ''resources'' default_resources resources_from_json = Some (vc_resources c)"
    "read_family j ''prompts'' default_listing listing_from_json = Some (vc_prompts c)"
    "read_family j ''logging'' default_plain plain_from_json = Some (vc_logging c)"
    "read_family j ''completions'' default_plain plain_from_json = Some (vc_completions c)"
    "tasks_member_from_json j = Some (vc_tasks c)"
    "read_family j ''experimental'' None (\<lambda>v. Some (Some v)) = Some (vc_experimental c)"
    "read_family j ''extensions'' empty_object Some = Some (vc_extensions c)"
    using c o by (auto simp: server_capabilities_from_json_def bind_eq_Some_conv)
  have "tasks_member_from_json ?i = Some (map_option modern_raw (vc_tasks c))"
    using tasks_member_read_back [OF wf p(6)] f(3) by (simp add: server_families_def)
  moreover have "read_family ?i ''extensions'' empty_object Some = Some (vc_extensions c)"
    using extensions_read_back [OF p(8)] f(4) by (simp add: server_families_def)
  moreover have "is_object ?i" by (simp add: canonical_capabilities_def)
  ultimately show ?thesis
    unfolding server_capabilities_written [OF assms] using p(1-5,7)
    by (simp add: server_capabilities_from_json_def modern_server_def read_family_canonical [OF wf o] server_families_def)
qed

text \<open>A capability document that is accepted re-serialises to exactly its known families (a
  legacy task flag \<open>true\<close> becomes the empty object, an empty \<open>extensions\<close> member and every
  unknown family are dropped), and reading that again gives the same capabilities.\<close>

theorem capabilities_canonical:
  "(jwf_deep j \<and> client_capabilities_from_json j = Some c \<longrightarrow>
      client_capabilities_to_json c = canonical_capabilities client_families j \<and>
      client_capabilities_from_json (client_capabilities_to_json c) = Some (modern_client c)) \<and>
   (jwf_deep j \<and> server_capabilities_from_json j = Some v \<longrightarrow>
      server_capabilities_to_json v = canonical_capabilities server_families j \<and>
      server_capabilities_from_json (server_capabilities_to_json v) = Some (modern_server v))"
  using client_capabilities_written client_capabilities_read_back server_capabilities_written
    server_capabilities_read_back by blast

theorem capabilities_canonical_witness:
  "\<exists>c. client_capabilities_from_json (JObject [(''a'', JNull), (''roots'', empty_object),
           (''tasks'', JObject [(''list'', JBool True)])]) = Some c \<and>
       client_capabilities_to_json c = JObject [(''roots'', empty_object), (''tasks'', JObject [(''list'', empty_object)])]"
proof -
  let ?j = "JObject [(''a'', JNull), (''roots'', empty_object), (''tasks'', JObject [(''list'', JBool True)])]"
  obtain c where c: "client_capabilities_from_json ?j = Some c"
    by (simp add: client_capabilities_from_json_def read_family_def listing_from_json_def read_flag_def
        tasks_member_from_json_def task_capabilities_are_valid_def member_valid_def task_capability_member_valid_def)
  moreover have "jwf_deep ?j" by (simp add: keys_sorted_def)
  ultimately have "client_capabilities_to_json c = canonical_capabilities client_families ?j"
    using capabilities_canonical [of ?j c] by blast
  then show ?thesis
    using c by (simp add: canonical_capabilities_def client_families_def modern_tasks_def map_member_def modern_def)
qed

section \<open>What a builder advertises\<close>

text \<open>The client capabilities that a sequence of builder calls can produce.\<close>

inductive built_client :: "client_capabilities \<Rightarrow> bool" where
  start: "built_client default_client_capabilities"
| roots: "built_client c \<Longrightarrow> built_client (build_roots b c)"
| sampling: "built_client c \<Longrightarrow> built_client (build_sampling t x c)"
| form: "built_client c \<Longrightarrow> built_client (build_elicitation_form v c)"
| url: "built_client c \<Longrightarrow> built_client (build_elicitation_url c)"
| task_list: "built_client c \<Longrightarrow> built_client (build_client_tasks (kc_list_update (\<lambda>_. b)) c)"
| task_cancel: "built_client c \<Longrightarrow> built_client (build_client_tasks (kc_cancel_update (\<lambda>_. b)) c)"
| task_tool_calls: "built_client c \<Longrightarrow> built_client (build_client_tasks (kc_tools_call_update (\<lambda>_. b)) c)"
| task_sampling: "built_client c \<Longrightarrow> built_client (build_client_tasks (kc_sampling_create_message_update (\<lambda>_. b)) c)"
| task_elicitation: "built_client c \<Longrightarrow> built_client (build_client_tasks (kc_elicitation_create_update (\<lambda>_. b)) c)"
| experimental: "built_client c \<Longrightarrow> built_client (build_client_experimental v c)"
| extension: "built_client c \<Longrightarrow> built_client (build_client_extension n v c)"

definition untouched_raw :: "client_capabilities \<Rightarrow> bool" where
  "untouched_raw c \<longleftrightarrow>
     lc_raw (cc_roots c) = empty_object \<and> lc_list_changed_present (cc_roots c) = lc_list_changed (cc_roots c) \<and>
     (lc_list_changed (cc_roots c) \<longrightarrow> lc_enabled (cc_roots c)) \<and>
     sc_raw (cc_sampling c) = empty_object \<and>
     (sc_tools (cc_sampling c) \<or> sc_context (cc_sampling c) \<longrightarrow> sc_enabled (cc_sampling c)) \<and>
     ec_raw (cc_elicitation c) = empty_object \<and>
     (ec_form (cc_elicitation c) \<or> ec_url (cc_elicitation c) \<longrightarrow> ec_present (cc_elicitation c)) \<and>
     (ec_form_schema_validation (cc_elicitation c) \<noteq> None \<longrightarrow> ec_form (cc_elicitation c)) \<and>
     pred_option (\<lambda>t. kc_raw t = empty_object) (cc_tasks c) \<and> is_object (cc_extensions c)"

lemma built_untouched: "built_client c \<Longrightarrow> untouched_raw c"
proof (induction rule: built_client.induct)
  case start
  show ?case
    by (simp add: untouched_raw_def default_client_capabilities_def default_listing_def default_sampling_def
        default_elicitation_def)
next
  case (roots c b) then show ?case by (simp add: untouched_raw_def build_roots_def)
next
  case (sampling c t x) then show ?case by (simp add: untouched_raw_def build_sampling_def)
next
  case (form c v) then show ?case by (simp add: untouched_raw_def build_elicitation_form_def)
next
  case (url c) then show ?case by (simp add: untouched_raw_def build_elicitation_url_def)
next
  case (experimental c v) then show ?case by (simp add: untouched_raw_def build_client_experimental_def)
next
  case (extension c n v) then show ?case by (simp add: untouched_raw_def build_client_extension_def)
qed (auto simp: untouched_raw_def build_client_tasks_def ensure_tasks_def default_task_capabilities_def
      split: option.splits)

text \<open>The flags of a record, without the objects it was read from.\<close>

definition flags_of :: "client_capabilities \<Rightarrow> client_capabilities" where
  "flags_of c = c\<lparr>cc_roots := (cc_roots c)\<lparr>lc_raw := JNull\<rparr>, cc_sampling := (cc_sampling c)\<lparr>sc_raw := JNull\<rparr>,
     cc_elicitation := (cc_elicitation c)\<lparr>ec_raw := JNull\<rparr>,
     cc_tasks := map_option (kc_raw_update (\<lambda>_. JNull)) (cc_tasks c)\<rparr>"

lemma roots_read_built:
  assumes "lc_raw r = empty_object" "lc_list_changed_present r = lc_list_changed r" "lc_list_changed r \<longrightarrow> lc_enabled r"
    "jfind j k = listing_value r"
  shows "\<exists>r'. read_family j k default_listing listing_from_json = Some r' \<and> r'\<lparr>lc_raw := JNull\<rparr> = r\<lparr>lc_raw := JNull\<rparr>"
  using assms
  by (cases "lc_enabled r"; cases "lc_list_changed r")
    (auto simp: read_family_def listing_value_def listing_object_def capability_raw_object_def flag_value_def
      jset_opt_def family_value_def listing_from_json_def read_flag_def flag_set_def default_listing_def ex_bool_eq)

lemma sampling_read_built:
  assumes "sc_raw r = empty_object" "sc_tools r \<or> sc_context r \<longrightarrow> sc_enabled r" "jfind j k = sampling_value r"
  shows "\<exists>r'. read_family j k default_sampling sampling_from_json = Some r' \<and> r'\<lparr>sc_raw := JNull\<rparr> = r\<lparr>sc_raw := JNull\<rparr>"
  using assms
  by (cases "sc_enabled r"; cases "sc_tools r"; cases "sc_context r")
    (auto simp: read_family_def sampling_value_def capability_raw_object_def family_value_def Let_def
      sampling_from_json_def read_presence_def write_presence_def capability_member_object_def default_sampling_def)

lemma elicitation_read_built:
  assumes "ec_raw r = empty_object" "ec_form r \<or> ec_url r \<longrightarrow> ec_present r"
    "ec_form_schema_validation r \<noteq> None \<longrightarrow> ec_form r" "jfind j k = elicitation_value r"
  shows "\<exists>r'. read_family j k default_elicitation elicitation_from_json = Some r' \<and> r'\<lparr>ec_raw := JNull\<rparr> = r\<lparr>ec_raw := JNull\<rparr>"
  using assms
  by (cases "ec_present r"; cases "ec_form r"; cases "ec_url r"; cases "ec_form_schema_validation r")
    (auto simp: read_family_def elicitation_value_def capability_raw_object_def family_value_def Let_def
      elicitation_from_json_def read_presence_def read_flag_def write_presence_def capability_member_object_def
      default_elicitation_def jset_opt_def)

lemma raw_update_irrelevant:
  "task_capabilities_from_json (task_capabilities_to_json t) =
     t\<lparr>kc_raw := task_capabilities_to_json t\<rparr>" if "kc_raw t = empty_object"
  using sent_task_flags [of t] that
  by (simp add: capability_raw_object_def member_enabled_def request_enabled_def Let_def)

lemma built_tasks_valid:
  assumes "kc_raw t = empty_object"
  shows "task_capabilities_are_valid (task_capabilities_to_json t)"
proof -
  have r: "request_valid (written_requests t empty_object) ''tools'' ''call''"
    "request_valid (written_requests t empty_object) ''sampling'' ''createMessage''"
    "request_valid (written_requests t empty_object) ''elicitation'' ''create''"
    by (simp_all add: written_requests_def request_valid_def member_valid_def task_capability_member_valid_def)
  have m: "member_valid (written_members t) k" for k
    using assms
    by (auto simp: written_members_def Let_def capability_raw_object_def capability_member_object_def
        member_valid_def task_capability_member_valid_def)
  have "jfind (written_members t) ''requests'' = None"
    using assms by (simp add: written_members_def Let_def capability_raw_object_def)
  then show ?thesis
    using assms r m
    by (auto simp: task_capabilities_to_json_alt Let_def task_capabilities_are_valid_def capability_raw_object_def
        capability_member_object_def member_valid_def)
qed

lemma tasks_read_built:
  assumes "pred_option (\<lambda>t. kc_raw t = empty_object) t" "jfind j ''tasks'' = map_option task_capabilities_to_json t"
  shows "\<exists>t'. tasks_member_from_json j = Some t' \<and>
     map_option (kc_raw_update (\<lambda>_. JNull)) t' = map_option (kc_raw_update (\<lambda>_. JNull)) t"
  using assms built_tasks_valid raw_update_irrelevant
  by (cases t) (auto simp: tasks_member_from_json_def)

lemma extensions_read_written:
  assumes "is_object e" "jfind j ''extensions'' = extensions_value e"
  shows "read_family j ''extensions'' empty_object Some = Some e"
  using assms by (auto simp: read_family_def extensions_value_def object_jempty_iff)

lemma experimental_read_written:
  assumes "jfind j ''experimental'' = experimental_value e"
  shows "read_family j ''experimental'' None (\<lambda>v. Some (Some v)) = Some (experimental_value e)"
  using assms by (auto simp: read_family_def experimental_value_def split: option.splits if_splits)

text \<open>What a client builds is what the server reads: for every sequence of builder calls the
  capabilities sent in \<open>initialize\<close> are accepted and have the flags, task flags and extensions that
  were built; an experimental value that is no object is not sent.\<close>

theorem built_capabilities_advertised:
  assumes "built_client c"
  shows "\<exists>c'. client_capabilities_from_json (client_capabilities_to_json c) = Some c' \<and>
     flags_of c' = (flags_of c)\<lparr>cc_experimental := experimental_value (cc_experimental c)\<rparr>"
proof -
  let ?j = "client_capabilities_to_json c"
  have u: "untouched_raw c" using assms by (rule built_untouched)
  obtain r where r: "read_family ?j ''roots'' default_listing listing_from_json = Some r"
      "r\<lparr>lc_raw := JNull\<rparr> = (cc_roots c)\<lparr>lc_raw := JNull\<rparr>"
    using u roots_read_built [of "cc_roots c" ?j "''roots''"]
    by (auto simp: client_capabilities_find untouched_raw_def)
  obtain s where s: "read_family ?j ''sampling'' default_sampling sampling_from_json = Some s"
      "s\<lparr>sc_raw := JNull\<rparr> = (cc_sampling c)\<lparr>sc_raw := JNull\<rparr>"
    using u sampling_read_built [of "cc_sampling c" ?j "''sampling''"]
    by (auto simp: client_capabilities_find untouched_raw_def)
  obtain e where e: "read_family ?j ''elicitation'' default_elicitation elicitation_from_json = Some e"
      "e\<lparr>ec_raw := JNull\<rparr> = (cc_elicitation c)\<lparr>ec_raw := JNull\<rparr>"
    using u elicitation_read_built [of "cc_elicitation c" ?j "''elicitation''"]
    by (auto simp: client_capabilities_find untouched_raw_def)
  obtain t where t: "tasks_member_from_json ?j = Some t"
      "map_option (kc_raw_update (\<lambda>_. JNull)) t = map_option (kc_raw_update (\<lambda>_. JNull)) (cc_tasks c)"
    using u tasks_read_built [of "cc_tasks c" ?j] by (auto simp: client_capabilities_find untouched_raw_def)
  have x: "read_family ?j ''extensions'' empty_object Some = Some (cc_extensions c)"
      "read_family ?j ''experimental'' None (\<lambda>v. Some (Some v)) = Some (experimental_value (cc_experimental c))"
    using u by (auto intro!: extensions_read_written experimental_read_written
        simp: client_capabilities_find untouched_raw_def)
  have o: "is_object ?j" by (simp add: client_capabilities_to_json_def)
  show ?thesis
    using r s e t x o by (simp add: client_capabilities_from_json_def flags_of_def)
qed

theorem built_capabilities_advertised_witness:
  "\<exists>c'. client_capabilities_from_json (client_capabilities_to_json
       (build_client_tasks (kc_list_update (\<lambda>_. True)) (build_roots True default_client_capabilities))) = Some c' \<and>
     lc_list_changed (cc_roots c')"
proof -
  let ?c = "build_client_tasks (kc_list_update (\<lambda>_. True)) (build_roots True default_client_capabilities)"
  have "built_client ?c" by (rule task_list, rule roots, rule start)
  then obtain c' where c: "client_capabilities_from_json (client_capabilities_to_json ?c) = Some c'"
      "flags_of c' = (flags_of ?c)\<lparr>cc_experimental := experimental_value (cc_experimental ?c)\<rparr>"
    using built_capabilities_advertised by blast
  have "lc_list_changed (cc_roots (flags_of c')) = lc_list_changed (cc_roots (flags_of ?c))"
    using c(2) by simp
  then show ?thesis using c(1)
    by (simp add: flags_of_def build_client_tasks_def build_roots_def)
qed

end
