(* ===== verification/Initialize.thy ===== *)
theory Initialize
  imports Capabilities
begin

text \<open>
  src/sdk/protocol/include/cxxmcp/protocol/initialize.hpp: the identity of an implementation and the
  params and result of the initialize request.
\<close>

record implementation_info =
  ii_name :: string
  ii_title :: "string option"
  ii_version :: string
  ii_description :: "string option"
  ii_icons :: "icon list"
  ii_website_url :: "string option"
  ii_meta :: "json option"
  ii_extensions :: json

record initialize_params =
  ip_protocol_version :: string
  ip_capabilities :: client_capabilities
  ip_client_info :: implementation_info
  ip_meta :: "json option"
  ip_extensions :: json

record initialize_result =
  ir_protocol_version :: string
  ir_capabilities :: server_capabilities
  ir_server_info :: implementation_info
  ir_instructions :: "string option"
  ir_extensions :: json

definition initialize_json_error :: "string \<Rightarrow> core_error" where
  "initialize_json_error msg = mk_error (error_code InvalidRequest) msg '''' ''''"

section \<open>Implementation identity\<close>

definition info_keys :: "string list" where
  "info_keys = [''name'', ''title'', ''version'', ''description'', ''icons'', ''websiteUrl'', ''_meta'']"

definition implementation_info_to_json :: "implementation_info \<Rightarrow> json" where
  "implementation_info_to_json i =
     append_json_extensions
       (jset_opt (jset_opt (jset_opt (jset_opt (jset_opt
          (jset (jset empty_object ''name'' (JString (ii_name i))) ''version'' (JString (ii_version i)))
          ''title'' (map_option JString (ii_title i)))
          ''description'' (map_option JString (ii_description i)))
          ''icons'' (nonempty_icons (ii_icons i)))
          ''websiteUrl'' (map_option JString (ii_website_url i)))
          ''_meta'' (ii_meta i))
       (ii_extensions i)"

definition implementation_info_from_json :: "json \<Rightarrow> implementation_info result" where
  "implementation_info_from_json j =
     (let err = (\<lambda>msg. initialize_json_error (''implementation info '' @ msg)) in
      if \<not> is_object j then Inl (err ''must be an object'')
      else
        rbind (required_member is_string j ''name'' (err ''requires a string name'')) (\<lambda>name.
        rbind (required_member is_string j ''version'' (err ''requires a string version'')) (\<lambda>version.
        rbind (optional_member is_string j ''title'' (err ''title must be a string'')) (\<lambda>title.
        rbind (optional_member is_string j ''description'' (err ''description must be a string'')) (\<lambda>description.
        rbind (icons_from_json j (err ''icons must be an array'') (err ''icons must contain valid icon objects'')) (\<lambda>icons.
        rbind (optional_member is_string j ''websiteUrl'' (err ''websiteUrl must be a string'')) (\<lambda>url.
        rbind (optional_member is_object j ''_meta'' (err ''_meta must be an object'')) (\<lambda>meta.
          Inr \<lparr>ii_name = string_of name, ii_title = map_option string_of title, ii_version = string_of version,
               ii_description = map_option string_of description, ii_icons = icons,
               ii_website_url = map_option string_of url, ii_meta = meta,
               ii_extensions = collect_json_extensions j info_keys\<rparr>))))))))"

section \<open>Params and result\<close>

definition initialize_params_to_json :: "initialize_params \<Rightarrow> json" where
  "initialize_params_to_json p =
     append_json_extensions
       (jset_opt (jset (jset (jset empty_object
          ''protocolVersion'' (JString (ip_protocol_version p)))
          ''capabilities'' (client_capabilities_to_json (ip_capabilities p)))
          ''clientInfo'' (implementation_info_to_json (ip_client_info p)))
          ''_meta'' (ip_meta p))
       (ip_extensions p)"

definition params_keys :: "string list" where
  "params_keys = [''protocolVersion'', ''capabilities'', ''clientInfo'', ''_meta'']"

definition initialize_params_from_json :: "json \<Rightarrow> initialize_params result" where
  "initialize_params_from_json j =
     (let err = (\<lambda>msg. initialize_json_error (''initialize params '' @ msg)) in
      if \<not> is_object j then Inl (err ''must be an object'')
      else
        rbind (required_member is_string j ''protocolVersion'' (err ''require a string protocolVersion'')) (\<lambda>version.
        rbind (required_member is_object j ''capabilities'' (err ''require object capabilities'')) (\<lambda>caps.
        rbind (required_member (\<lambda>_. True) j ''clientInfo'' (err ''require clientInfo'')) (\<lambda>info.
        rbind (case client_capabilities_from_json caps of None \<Rightarrow> Inl (err ''capabilities are invalid'')
               | Some c \<Rightarrow> Inr c) (\<lambda>capabilities.
        rbind (implementation_info_from_json info) (\<lambda>client_info.
        rbind (optional_member is_object j ''_meta'' (err ''_meta must be an object'')) (\<lambda>meta.
          Inr \<lparr>ip_protocol_version = string_of version, ip_capabilities = capabilities,
               ip_client_info = client_info, ip_meta = meta,
               ip_extensions = collect_json_extensions j params_keys\<rparr>)))))))"

definition initialize_result_to_json :: "initialize_result \<Rightarrow> json" where
  "initialize_result_to_json r =
     append_json_extensions
       (jset_opt (jset (jset (jset empty_object
          ''protocolVersion'' (JString (ir_protocol_version r)))
          ''capabilities'' (server_capabilities_to_json (ir_capabilities r)))
          ''serverInfo'' (implementation_info_to_json (ir_server_info r)))
          ''instructions'' (map_option JString (ir_instructions r)))
       (ir_extensions r)"

definition result_keys :: "string list" where
  "result_keys = [''protocolVersion'', ''capabilities'', ''serverInfo'', ''instructions'']"

definition initialize_result_from_json :: "json \<Rightarrow> initialize_result result" where
  "initialize_result_from_json j =
     (let err = (\<lambda>msg. initialize_json_error (''initialize result '' @ msg)) in
      if \<not> is_object j then Inl (err ''must be an object'')
      else
        rbind (required_member is_string j ''protocolVersion'' (err ''requires a string protocolVersion'')) (\<lambda>version.
        rbind (required_member is_object j ''capabilities'' (err ''requires object capabilities'')) (\<lambda>caps.
        rbind (required_member (\<lambda>_. True) j ''serverInfo'' (err ''requires serverInfo'')) (\<lambda>info.
        rbind (case server_capabilities_from_json caps of None \<Rightarrow> Inl (err ''capabilities are invalid'')
               | Some c \<Rightarrow> Inr c) (\<lambda>capabilities.
        rbind (implementation_info_from_json info) (\<lambda>server_info.
        rbind (optional_member is_string j ''instructions'' (err ''instructions must be a string'')) (\<lambda>instructions.
          Inr \<lparr>ir_protocol_version = string_of version, ir_capabilities = capabilities,
               ir_server_info = server_info, ir_instructions = map_option string_of instructions,
               ir_extensions = collect_json_extensions j result_keys\<rparr>)))))))"

section \<open>Round trips\<close>

definition info_ok :: "implementation_info \<Rightarrow> bool" where
  "info_ok i \<longleftrightarrow> object_meta_ok (ii_meta i) \<and> ext_ok info_keys (ii_extensions i)"

lemma implementation_info_roundtrip:
  assumes "info_ok i"
  shows "implementation_info_from_json (implementation_info_to_json i) = Inr i"
proof -
  let ?j = "implementation_info_to_json i"
  have ok: "object_meta_ok (ii_meta i)" "ext_ok info_keys (ii_extensions i)"
    using assms by (auto simp: info_ok_def)
  have f: "is_object ?j" "jfind ?j ''name'' = Some (JString (ii_name i))" "jfind ?j ''version'' = Some (JString (ii_version i))"
    "jfind ?j ''title'' = map_option JString (ii_title i)"
    "jfind ?j ''description'' = map_option JString (ii_description i)"
    "jfind ?j ''icons'' = nonempty_icons (ii_icons i)"
    "jfind ?j ''websiteUrl'' = map_option JString (ii_website_url i)" "jfind ?j ''_meta'' = ii_meta i"
    unfolding implementation_info_to_json_def
    by (simp_all add: jfind_written [OF ok(2)] info_keys_def split: option.split)
  have x: "collect_json_extensions ?j info_keys = ii_extensions i"
    unfolding implementation_info_to_json_def
    by (rule collect_append_extensions [OF _ ok(2)]) (simp_all add: info_keys_def keys_sorted_Cons)
  show ?thesis using ok f x by (simp add: implementation_info_from_json_def option.map_comp)
qed

text \<open>The capabilities that come back as they were sent: those read from a modern document.\<close>

definition params_ok :: "initialize_params \<Rightarrow> bool" where
  "params_ok p \<longleftrightarrow> info_ok (ip_client_info p) \<and> object_meta_ok (ip_meta p) \<and> ext_ok params_keys (ip_extensions p)"

definition result_fields_ok :: "initialize_result \<Rightarrow> bool" where
  "result_fields_ok r \<longleftrightarrow> info_ok (ir_server_info r) \<and> ext_ok result_keys (ir_extensions r)"

lemma initialize_params_read:
  assumes "params_ok p"
  shows "initialize_params_from_json (initialize_params_to_json p) =
     (case client_capabilities_from_json (client_capabilities_to_json (ip_capabilities p)) of
        None \<Rightarrow> Inl (initialize_json_error ''initialize params capabilities are invalid'')
      | Some c \<Rightarrow> Inr (p\<lparr>ip_capabilities := c\<rparr>))"
proof -
  let ?j = "initialize_params_to_json p"
  have ok: "info_ok (ip_client_info p)" "object_meta_ok (ip_meta p)" "ext_ok params_keys (ip_extensions p)"
    using assms by (auto simp: params_ok_def)
  have f: "is_object ?j" "jfind ?j ''protocolVersion'' = Some (JString (ip_protocol_version p))"
    "jfind ?j ''capabilities'' = Some (client_capabilities_to_json (ip_capabilities p))"
    "jfind ?j ''clientInfo'' = Some (implementation_info_to_json (ip_client_info p))"
    "jfind ?j ''_meta'' = ip_meta p"
    unfolding initialize_params_to_json_def
    by (simp_all add: jfind_written [OF ok(3)] params_keys_def split: option.split)
  have x: "collect_json_extensions ?j params_keys = ip_extensions p"
    unfolding initialize_params_to_json_def
    by (rule collect_append_extensions [OF _ ok(3)]) (simp_all add: params_keys_def keys_sorted_Cons)
  have o: "is_object (client_capabilities_to_json c)" for c by (simp add: client_capabilities_to_json_def)
  show ?thesis using ok f x o implementation_info_roundtrip [OF ok(1)]
    by (simp add: initialize_params_from_json_def option.map_comp split: option.split)
qed

lemma initialize_result_read:
  assumes "result_fields_ok r"
  shows "initialize_result_from_json (initialize_result_to_json r) =
     (case server_capabilities_from_json (server_capabilities_to_json (ir_capabilities r)) of
        None \<Rightarrow> Inl (initialize_json_error ''initialize result capabilities are invalid'')
      | Some c \<Rightarrow> Inr (r\<lparr>ir_capabilities := c\<rparr>))"
proof -
  let ?j = "initialize_result_to_json r"
  have ok: "info_ok (ir_server_info r)" "ext_ok result_keys (ir_extensions r)"
    using assms by (auto simp: result_fields_ok_def)
  have f: "is_object ?j" "jfind ?j ''protocolVersion'' = Some (JString (ir_protocol_version r))"
    "jfind ?j ''capabilities'' = Some (server_capabilities_to_json (ir_capabilities r))"
    "jfind ?j ''serverInfo'' = Some (implementation_info_to_json (ir_server_info r))"
    "jfind ?j ''instructions'' = map_option JString (ir_instructions r)"
    unfolding initialize_result_to_json_def
    by (simp_all add: jfind_written [OF ok(2)] result_keys_def split: option.split)
  have x: "collect_json_extensions ?j result_keys = ir_extensions r"
    unfolding initialize_result_to_json_def
    by (rule collect_append_extensions [OF _ ok(2)]) (simp_all add: result_keys_def keys_sorted_Cons)
  have o: "is_object (server_capabilities_to_json c)" for c by (simp add: server_capabilities_to_json_def)
  show ?thesis using ok f x o implementation_info_roundtrip [OF ok(1)]
    by (simp add: initialize_result_from_json_def option.map_comp split: option.split)
qed

text \<open>The params and the result of initialize, with capabilities that were read from a document,
  come back as they were sent, the legacy task flags in their modern form.\<close>

theorem initialize_roundtrips:
  "(params_ok p \<and> jwf_deep j \<and> client_capabilities_from_json j = Some (ip_capabilities p) \<longrightarrow>
      initialize_params_from_json (initialize_params_to_json p) =
        Inr (p\<lparr>ip_capabilities := modern_client (ip_capabilities p)\<rparr>)) \<and>
   (result_fields_ok r \<and> jwf_deep j \<and> server_capabilities_from_json j = Some (ir_capabilities r) \<longrightarrow>
      initialize_result_from_json (initialize_result_to_json r) =
        Inr (r\<lparr>ir_capabilities := modern_server (ir_capabilities r)\<rparr>))"
  using client_capabilities_read_back [of j "ip_capabilities p"] server_capabilities_read_back [of j "ir_capabilities r"]
  by (auto simp: initialize_params_read initialize_result_read)

definition sample_info :: implementation_info where
  "sample_info = \<lparr>ii_name = ''n'', ii_title = None, ii_version = ''1'', ii_description = None, ii_icons = [],
     ii_website_url = None, ii_meta = None, ii_extensions = empty_object\<rparr>"

theorem initialize_roundtrips_witness:
  "initialize_params_from_json (initialize_params_to_json
     \<lparr>ip_protocol_version = ''v'', ip_capabilities = default_client_capabilities, ip_client_info = sample_info,
      ip_meta = None, ip_extensions = empty_object\<rparr>) =
   Inr \<lparr>ip_protocol_version = ''v'', ip_capabilities = default_client_capabilities, ip_client_info = sample_info,
        ip_meta = None, ip_extensions = empty_object\<rparr>"
proof -
  have "client_capabilities_from_json empty_object = Some default_client_capabilities"
    by (simp add: client_capabilities_from_json_def read_family_def tasks_member_from_json_def
        default_client_capabilities_def)
  then show ?thesis
    using initialize_roundtrips [of "\<lparr>ip_protocol_version = ''v'', ip_capabilities = default_client_capabilities,
        ip_client_info = sample_info, ip_meta = None, ip_extensions = empty_object\<rparr>" empty_object]
    by (simp add: params_ok_def info_ok_def sample_info_def object_meta_ok_def modern_client_def
        default_client_capabilities_def)
qed

end
