(* ===== verification/Session_Protocol.thy ===== *)
theory Session_Protocol
  imports Task_Protocol
begin

text \<open>
  Small payloads of the session layer: src/sdk/protocol/include/cxxmcp/protocol/logging.hpp, roots.hpp
  and the completion notification of elicitation.hpp.
\<close>

section \<open>Logging\<close>

datatype logging_level = Debug | Info | Notice | Warning | LevelError | Critical | Alert | Emergency

record logging_set_level_params =
  ls_level :: logging_level
  ls_meta :: "json option"
  ls_extensions :: json

record logging_message_notification_params =
  lm_level :: logging_level
  lm_logger :: "string option"
  lm_data :: json
  lm_meta :: "json option"
  lm_extensions :: json

definition logging_json_error :: "string \<Rightarrow> core_error" where
  "logging_json_error msg = mk_error (error_code InvalidRequest) msg '''' ''''"

fun logging_level_to_string :: "logging_level \<Rightarrow> string" where
  "logging_level_to_string Debug = ''debug''"
| "logging_level_to_string Info = ''info''"
| "logging_level_to_string Notice = ''notice''"
| "logging_level_to_string Warning = ''warning''"
| "logging_level_to_string LevelError = ''error''"
| "logging_level_to_string Critical = ''critical''"
| "logging_level_to_string Alert = ''alert''"
| "logging_level_to_string Emergency = ''emergency''"

definition logging_level_from_string :: "string \<Rightarrow> logging_level option" where
  "logging_level_from_string s =
     (if s = ''debug'' then Some Debug else if s = ''info'' then Some Info
      else if s = ''notice'' then Some Notice else if s = ''warning'' then Some Warning
      else if s = ''error'' then Some LevelError else if s = ''critical'' then Some Critical
      else if s = ''alert'' then Some Alert else if s = ''emergency'' then Some Emergency else None)"

definition level_member :: "json \<Rightarrow> logging_level result" where
  "level_member v =
     (case logging_level_from_string (string_of v) of
        None \<Rightarrow> Inl (logging_json_error ''logging level is not supported'')
      | Some l \<Rightarrow> Inr l)"

definition logging_set_level_params_to_json :: "logging_set_level_params \<Rightarrow> json" where
  "logging_set_level_params_to_json p =
     append_json_extensions
       (jset_opt (jset empty_object ''level'' (JString (logging_level_to_string (ls_level p)))) ''_meta'' (ls_meta p))
       (ls_extensions p)"

definition logging_set_level_params_from_json :: "json \<Rightarrow> logging_set_level_params result" where
  "logging_set_level_params_from_json j =
     (if \<not> is_object j then Inl (logging_json_error ''logging/setLevel params must be an object'')
      else
        rbind (required_member is_string j ''level''
                 (logging_json_error ''logging/setLevel params require a string level'')) (\<lambda>v.
        rbind (level_member v) (\<lambda>level.
        rbind (optional_member is_object j ''_meta'' (logging_json_error ''logging/setLevel _meta must be an object'')) (\<lambda>meta.
          Inr \<lparr>ls_level = level, ls_meta = meta,
               ls_extensions = collect_json_extensions j [''level'', ''_meta'']\<rparr>))))"

definition message_keys :: "string list" where
  "message_keys = [''level'', ''logger'', ''data'', ''_meta'']"

definition logging_message_notification_params_to_json :: "logging_message_notification_params \<Rightarrow> json" where
  "logging_message_notification_params_to_json p =
     append_json_extensions
       (jset_opt (jset (jset_opt
          (jset empty_object ''level'' (JString (logging_level_to_string (lm_level p))))
          ''logger'' (map_option JString (lm_logger p)))
          ''data'' (lm_data p))
          ''_meta'' (lm_meta p))
       (lm_extensions p)"

definition logging_message_notification_params_from_json :: "json \<Rightarrow> logging_message_notification_params result" where
  "logging_message_notification_params_from_json j =
     (if \<not> is_object j then Inl (logging_json_error ''logging message params must be an object'')
      else
        rbind (required_member is_string j ''level''
                 (logging_json_error ''logging message params require a string level'')) (\<lambda>v.
        rbind (required_member (\<lambda>_. True) j ''data''
                 (logging_json_error ''logging message params require data'')) (\<lambda>dat.
        rbind (level_member v) (\<lambda>level.
        rbind (optional_member is_string j ''logger'' (logging_json_error ''logging logger must be a string'')) (\<lambda>logger.
        rbind (optional_member is_object j ''_meta'' (logging_json_error ''logging message _meta must be an object'')) (\<lambda>meta.
          Inr \<lparr>lm_level = level, lm_logger = map_option string_of logger, lm_data = dat, lm_meta = meta,
               lm_extensions = collect_json_extensions j message_keys\<rparr>))))))"

lemma logging_level_roundtrip [simp]: "logging_level_from_string (logging_level_to_string l) = Some l"
  by (cases l) (simp_all add: logging_level_from_string_def)

lemma logging_level_exact: "logging_level_from_string s = Some l \<longleftrightarrow> s = logging_level_to_string l"
  by (cases l) (auto simp: logging_level_from_string_def split: if_splits)

section \<open>Roots\<close>

record root =
  rt_uri :: string
  rt_name :: "string option"
  rt_meta :: "json option"
  rt_extensions :: json

record roots_list_result =
  rl_roots :: "root list"
  rl_meta :: "json option"
  rl_extensions :: json

definition root_reflect :: "root reflect" where
  "root_reflect =
     \<lparr>rf_default = \<lparr>rt_uri = '''', rt_name = None, rt_meta = None, rt_extensions = empty_object\<rparr>,
      rf_fields =
        [field string_trait ''uri'' rt_uri (\<lambda>v. rt_uri_update (\<lambda>_. v)),
         field (optional_trait string_trait) ''name'' rt_name (\<lambda>v. rt_name_update (\<lambda>_. v)),
         field optional_json_trait ''_meta'' rt_meta (\<lambda>v. rt_meta_update (\<lambda>_. v)),
         ExtensionsField rt_extensions],
      rf_extensions = Some (rt_extensions, \<lambda>v. rt_extensions_update (\<lambda>_. v)),
      rf_known_keys = [''uri'', ''name'', ''_meta'']\<rparr>"

definition roots_json_error :: "string \<Rightarrow> core_error" where
  "roots_json_error msg = mk_error (error_code InvalidRequest) msg '''' ''''"

definition root_to_json :: "root \<Rightarrow> json" where
  "root_to_json r = reflect_to_json root_reflect r"

definition root_from_json :: "json \<Rightarrow> root result" where
  "root_from_json j = reflect_from_json root_reflect j"

definition roots_list_result_to_json :: "roots_list_result \<Rightarrow> json" where
  "roots_list_result_to_json r =
     append_json_extensions
       (jset_opt (jset empty_object ''roots'' (JArray (map root_to_json (rl_roots r)))) ''_meta'' (rl_meta r))
       (rl_extensions r)"

fun array_items :: "json \<Rightarrow> json list" where
  "array_items (JArray xs) = xs"
| "array_items _ = []"

definition roots_list_result_from_json :: "json \<Rightarrow> roots_list_result result" where
  "roots_list_result_from_json j =
     (if \<not> is_object j then Inl (roots_json_error ''roots/list result must be an object'')
      else
        rbind (required_member is_array j ''roots''
                 (roots_json_error ''roots/list result requires a roots array'')) (\<lambda>items.
        rbind (map_result root_from_json (array_items items)) (\<lambda>roots.
        rbind (optional_member is_object j ''_meta'' (roots_json_error ''roots/list result _meta must be an object'')) (\<lambda>meta.
          Inr \<lparr>rl_roots = roots, rl_meta = meta,
               rl_extensions = collect_json_extensions j [''roots'', ''_meta'']\<rparr>))))"

section \<open>Elicitation completion\<close>

record elicitation_complete_params =
  ecn_elicitation_id :: string
  ecn_meta :: "json option"
  ecn_extensions :: json

definition elicitation_complete_reflect :: "elicitation_complete_params reflect" where
  "elicitation_complete_reflect =
     \<lparr>rf_default = \<lparr>ecn_elicitation_id = '''', ecn_meta = None, ecn_extensions = empty_object\<rparr>,
      rf_fields =
        [field string_trait ''elicitationId'' ecn_elicitation_id (\<lambda>v. ecn_elicitation_id_update (\<lambda>_. v)),
         field optional_json_trait ''_meta'' ecn_meta (\<lambda>v. ecn_meta_update (\<lambda>_. v)),
         ExtensionsField ecn_extensions],
      rf_extensions = Some (ecn_extensions, \<lambda>v. ecn_extensions_update (\<lambda>_. v)),
      rf_known_keys = [''elicitationId'', ''_meta'']\<rparr>"

definition elicitation_complete_to_json :: "elicitation_complete_params \<Rightarrow> json" where
  "elicitation_complete_to_json p = reflect_to_json elicitation_complete_reflect p"

definition elicitation_complete_from_json :: "json \<Rightarrow> elicitation_complete_params result" where
  "elicitation_complete_from_json j = reflect_from_json elicitation_complete_reflect j"

section \<open>Round trips\<close>

definition root_ok :: "root \<Rightarrow> bool" where
  "root_ok r \<longleftrightarrow> meta_ok (rt_meta r) \<and> ext_ok [''uri'', ''name'', ''_meta''] (rt_extensions r)"

interpretation rootr: reflected_struct root_reflect root_ok rt_extensions "\<lambda>v. rt_extensions_update (\<lambda>_. v)"
proof unfold_locales
  fix obj :: root
  assume "root_ok obj"
  then show "\<exists>u. reads_back obj (rf_fields root_reflect) (rf_default root_reflect) u \<and>
                 u\<lparr>rt_extensions := rt_extensions obj\<rparr> = obj"
    unfolding root_reflect_def reflect.simps
    by (intro exI conjI) (rule reads_rules | simp add: root_ok_def meta_ok_def)+
qed (auto simp: root_reflect_def root_ok_def)

definition complete_ok :: "elicitation_complete_params \<Rightarrow> bool" where
  "complete_ok p \<longleftrightarrow> meta_ok (ecn_meta p) \<and> ext_ok [''elicitationId'', ''_meta''] (ecn_extensions p)"

interpretation completer: reflected_struct elicitation_complete_reflect complete_ok
  ecn_extensions "\<lambda>v. ecn_extensions_update (\<lambda>_. v)"
proof unfold_locales
  fix obj :: elicitation_complete_params
  assume "complete_ok obj"
  then show "\<exists>u. reads_back obj (rf_fields elicitation_complete_reflect) (rf_default elicitation_complete_reflect) u \<and>
                 u\<lparr>ecn_extensions := ecn_extensions obj\<rparr> = obj"
    unfolding elicitation_complete_reflect_def reflect.simps
    by (intro exI conjI) (rule reads_rules | simp add: complete_ok_def meta_ok_def)+
qed (auto simp: elicitation_complete_reflect_def complete_ok_def)

lemma root_roundtrip: "root_ok r \<Longrightarrow> root_from_json (root_to_json r) = Inr r"
  by (simp add: root_from_json_def root_to_json_def rootr.roundtrip)

lemma complete_roundtrip: "complete_ok p \<Longrightarrow> elicitation_complete_from_json (elicitation_complete_to_json p) = Inr p"
  by (simp add: elicitation_complete_from_json_def elicitation_complete_to_json_def completer.roundtrip)

lemma level_member_written [simp]: "level_member (JString (logging_level_to_string l)) = Inr l"
  by (simp add: level_member_def)

lemma set_level_roundtrip:
  assumes ok: "object_meta_ok (ls_meta p)" "ext_ok [''level'', ''_meta''] (ls_extensions p)"
  shows "logging_set_level_params_from_json (logging_set_level_params_to_json p) = Inr p"
proof -
  let ?j = "logging_set_level_params_to_json p"
  have f: "is_object ?j" "jfind ?j ''level'' = Some (JString (logging_level_to_string (ls_level p)))"
    "jfind ?j ''_meta'' = ls_meta p"
    unfolding logging_set_level_params_to_json_def
    by (simp_all add: jfind_written [OF ok(2)] split: option.split)
  have x: "collect_json_extensions ?j [''level'', ''_meta''] = ls_extensions p"
    unfolding logging_set_level_params_to_json_def
    by (rule collect_append_extensions [OF _ ok(2)]) (simp_all add: keys_sorted_Cons)
  show ?thesis using ok f x by (simp add: logging_set_level_params_from_json_def)
qed

lemma message_roundtrip:
  assumes ok: "object_meta_ok (lm_meta p)" "ext_ok message_keys (lm_extensions p)"
  shows "logging_message_notification_params_from_json (logging_message_notification_params_to_json p) = Inr p"
proof -
  let ?j = "logging_message_notification_params_to_json p"
  have f: "is_object ?j" "jfind ?j ''level'' = Some (JString (logging_level_to_string (lm_level p)))"
    "jfind ?j ''logger'' = map_option JString (lm_logger p)" "jfind ?j ''data'' = Some (lm_data p)"
    "jfind ?j ''_meta'' = lm_meta p"
    unfolding logging_message_notification_params_to_json_def
    by (simp_all add: jfind_written [OF ok(2)] message_keys_def split: option.split)
  have x: "collect_json_extensions ?j message_keys = lm_extensions p"
    unfolding logging_message_notification_params_to_json_def
    by (rule collect_append_extensions [OF _ ok(2)]) (simp_all add: message_keys_def keys_sorted_Cons)
  show ?thesis using ok f x by (simp add: logging_message_notification_params_from_json_def option.map_comp)
qed

lemma roots_result_roundtrip:
  assumes ok: "\<forall>x\<in>set (rl_roots r). root_ok x" "object_meta_ok (rl_meta r)"
    "ext_ok [''roots'', ''_meta''] (rl_extensions r)"
  shows "roots_list_result_from_json (roots_list_result_to_json r) = Inr r"
proof -
  let ?j = "roots_list_result_to_json r"
  have f: "is_object ?j" "jfind ?j ''roots'' = Some (JArray (map root_to_json (rl_roots r)))"
    "jfind ?j ''_meta'' = rl_meta r"
    unfolding roots_list_result_to_json_def
    by (simp_all add: jfind_written [OF ok(3)] split: option.split)
  have x: "collect_json_extensions ?j [''roots'', ''_meta''] = rl_extensions r"
    unfolding roots_list_result_to_json_def
    by (rule collect_append_extensions [OF _ ok(3)]) (simp_all add: keys_sorted_Cons)
  have "map_result root_from_json (map root_to_json (rl_roots r)) = Inr (rl_roots r)"
    using ok(1) root_roundtrip by simp
  then show ?thesis using ok f x by (simp add: roots_list_result_from_json_def)
qed

text \<open>logging params, log messages, root listings, elicitation completions and progress
  notifications are read back as they were written.\<close>

theorem session_payload_roundtrips:
  "(object_meta_ok (ls_meta s) \<and> ext_ok [''level'', ''_meta''] (ls_extensions s) \<longrightarrow>
      logging_set_level_params_from_json (logging_set_level_params_to_json s) = Inr s) \<and>
   (object_meta_ok (lm_meta m) \<and> ext_ok message_keys (lm_extensions m) \<longrightarrow>
      logging_message_notification_params_from_json (logging_message_notification_params_to_json m) = Inr m) \<and>
   ((\<forall>x\<in>set (rl_roots r). root_ok x) \<and> object_meta_ok (rl_meta r) \<and> ext_ok [''roots'', ''_meta''] (rl_extensions r) \<longrightarrow>
      roots_list_result_from_json (roots_list_result_to_json r) = Inr r) \<and>
   (complete_ok c \<longrightarrow> elicitation_complete_from_json (elicitation_complete_to_json c) = Inr c) \<and>
   (progress_ok p \<longrightarrow> progress_notification_params_from_json (progress_notification_params_to_json p) = Some p)"
  using set_level_roundtrip message_roundtrip roots_result_roundtrip complete_roundtrip by simp

theorem session_payload_roundtrips_witness:
  "logging_message_notification_params_from_json (logging_message_notification_params_to_json
     \<lparr>lm_level = Warning, lm_logger = Some ''net'', lm_data = JBool True, lm_meta = None,
      lm_extensions = JObject [(''x'', JNull)]\<rparr>) =
   Inr \<lparr>lm_level = Warning, lm_logger = Some ''net'', lm_data = JBool True, lm_meta = None,
        lm_extensions = JObject [(''x'', JNull)]\<rparr>"
  using session_payload_roundtrips [of _ "\<lparr>lm_level = Warning, lm_logger = Some ''net'', lm_data = JBool True,
     lm_meta = None, lm_extensions = JObject [(''x'', JNull)]\<rparr>"]
  by (simp add: object_meta_ok_def ext_ok_def message_keys_def keys_sorted_Cons)

end
