(* ===== verification/Server.thy ===== *)
theory Server
  imports Server_Auth Task_Manager Initialize Session_Protocol Json_Text
begin

text \<open>
  src/sdk/server/src/server.cpp with server.hpp, rate_limit.hpp and the request helpers of
  transport.hpp: the server that authenticates, rate-limits and dispatches requests, handles
  notifications, tracks in-flight requests for cancellation and resource subscriptions per
  transport, and is assembled by a builder.

  Handlers, the auth provider, the rate limiter and the transports belong to the embedding
  application: they are functions in the state or in the environment of a call. A handler stored in
  the server, the provider, the limiter and the schema validator may throw. The environment also supplies the clock, the timestamps and the text of
  an exception raised by a library.
\<close>

section \<open>Outcomes\<close>

datatype 'a outcome = Val 'a | Raise string | RaiseUnknown | Undefined

fun outcome_of :: "'a attempt \<Rightarrow> 'a outcome" where
  "outcome_of (Gives v) = Val v"
| "outcome_of (Throwing w) = Raise w"
| "outcome_of ThrowingUnknown = RaiseUnknown"

type_synonym json_request_handler = "json \<Rightarrow> session_context \<Rightarrow> cancellation_token \<Rightarrow> json result outcome"
type_synonym raw_request_handler = "json_rpc_request \<Rightarrow> session_context \<Rightarrow> json_rpc_response option outcome"
type_synonym raw_request_context_handler =
  "json_rpc_request \<Rightarrow> session_context \<Rightarrow> cancellation_token \<Rightarrow> json_rpc_response option outcome"
type_synonym raw_notification_handler = "json_rpc_notification \<Rightarrow> session_context \<Rightarrow> unit result outcome"
type_synonym ('p, 'r) context_handler = "'p \<Rightarrow> session_context \<Rightarrow> 'r result outcome"
type_synonym list_changed_handler = "session_context \<Rightarrow> unit result outcome"

section \<open>State\<close>

record server_options =
  so_capabilities :: server_capabilities
  so_server_name :: string
  so_server_version :: string
  so_instructions :: string

record server_info =
  si_name :: string
  si_version :: string
  si_instructions :: string

record rate_limit_request =
  rq_subject :: string
  rq_method :: string
  rq_request_bytes :: size_t

record rate_limit_decision =
  rd_allowed :: bool
  rd_retry_after_ms :: int64

type_synonym rate_limiter = "rate_limit_request \<Rightarrow> rate_limit_decision result attempt"

text \<open>The handler slots of \<open>Server\<close>; \<open>None\<close> is an empty \<open>std::function\<close>.\<close>

record server_handlers =
  h_completion :: "json_request_handler option"
  h_sampling :: "json_request_handler option"
  h_logging :: "(string \<Rightarrow> string \<Rightarrow> unit outcome) option"
  h_raw_request :: "raw_request_handler option"
  h_raw_request_context :: "raw_request_context_handler option"
  h_raw_notification :: "raw_notification_handler option"
  h_tools_list :: "(paginated_request_params, tool_definition resources_result) context_handler option"
  h_prompts_list :: "(paginated_request_params, prompt resources_result) context_handler option"
  h_resources_list :: "(paginated_request_params, resource resources_result) context_handler option"
  h_templates_list :: "(paginated_request_params, resource_template resources_result) context_handler option"
  h_task_list :: "(task_list_params, task_list_result) context_handler option"
  h_task_get :: "(task_get_params, task) context_handler option"
  h_task_cancel :: "(task_cancel_params, task) context_handler option"
  h_task_result :: "(task_result_params, json) context_handler option"
  h_progress :: "(progress_notification_params, unit) context_handler option"
  h_roots_list_changed :: "list_changed_handler option"
  h_tool_list_changed :: "list_changed_handler option"
  h_prompt_list_changed :: "list_changed_handler option"
  h_resource_list_changed :: "list_changed_handler option"
  h_resource_updated :: "(string, unit) context_handler option"

text \<open>
  What the outside can observe: a call of the logging handler, of a task hook, a notification or a
  request sent on a transport.
\<close>

datatype server_event =
    LoggingCall string string
  | HookCall hook_call
  | SentNotification nat json_rpc_notification
  | SentRequest nat json_rpc_request

text \<open>
  Transports are identities. \<open>sv_active\<close> is \<open>active_request_cancellations_\<close>: the cancellation
  source registered under the key of a request id; a source is an identity, \<open>sv_cancelled\<close> lists
  those on which \<open>cancel()\<close> has been called and \<open>sv_next_source\<close> is the next fresh one.
\<close>

record server =
  sv_options :: server_options
  sv_tools :: tool_registry
  sv_prompts :: prompt_registry
  sv_resources :: resource_registry
  sv_templates :: resource_template_registry
  sv_task_processor :: "task_processor option"
  sv_auth_provider :: "auth_provider option"
  sv_rate_limiter :: "rate_limiter option"
  sv_schema_validator :: "schema_validator option"
  sv_handlers :: server_handlers
  sv_transports :: "nat list"
  sv_session_transports :: "nat list"
  sv_subscriptions :: "(nat \<times> string list) list"
  sv_active :: "nat alist"
  sv_cancelled :: "nat list"
  sv_next_source :: nat
  sv_events :: "server_event list"

text \<open>The environment of a call.\<close>

record server_env =
  env_clock :: "nat \<Rightarrow> int"
  env_stamp :: "nat \<Rightarrow> string"
  env_what :: string
  env_printf_g17 :: "64 word \<Rightarrow> int"
  env_notify :: "nat \<Rightarrow> json_rpc_notification \<Rightarrow> unit result"
  env_ask :: "nat \<Rightarrow> json_rpc_request \<Rightarrow> json_rpc_response result"

type_synonym 'a run = "'a outcome \<times> server"

definition emit :: "server_event list \<Rightarrow> server \<Rightarrow> server" where
  "emit es s = s\<lparr>sv_events := sv_events s @ es\<rparr>"

section \<open>Errors\<close>

definition handler_failed :: "string \<Rightarrow> core_error" where
  "handler_failed detail = mk_error (error_code InternalError) ''handler failed'' detail ''handler''"

definition handler_unknown_exception :: core_error where
  "handler_unknown_exception =
     mk_error (error_code InternalError) ''handler threw an unknown exception'' '''' ''handler''"

definition error_data :: "string \<Rightarrow> json option" where
  "error_data detail = (if detail = '''' then None else Some (JString detail))"

text \<open>\<open>make_error_response\<close> of server.cpp.\<close>

definition error_reply :: "json_rpc_request \<Rightarrow> int32 \<Rightarrow> string \<Rightarrow> string \<Rightarrow> json_rpc_response" where
  "error_reply req code msg detail =
     make_error_response (Some (req_id req)) (make_error code msg (error_data detail))"

definition error_of :: "json_rpc_request \<Rightarrow> core_error \<Rightarrow> json_rpc_response" where
  "error_of req e = error_reply req (err_code e) (err_message e) (err_detail e)"

definition make_auth_error_response :: "json_rpc_request \<Rightarrow> string \<Rightarrow> json_rpc_response" where
  "make_auth_error_response req detail =
     make_error_response (Some (req_id req))
       (make_error (error_code PermissionDenied) ''authentication failed''
          (Some (jset_opt (jset empty_object ''category'' (JString AuthErrorCategory))
                   ''detail'' (error_data detail))))"

definition method_params_error_code :: "core_error \<Rightarrow> int32" where
  "method_params_error_code e =
     (if err_code e = error_code InvalidRequest then error_code InvalidParams else err_code e)"

definition make_params_error_response :: "json_rpc_request \<Rightarrow> core_error \<Rightarrow> json_rpc_response" where
  "make_params_error_response req e = error_reply req (method_params_error_code e) (err_message e) (err_detail e)"

text \<open>The common end of a method: the error of a result, or the serialised value.\<close>

definition reply :: "json_rpc_request \<Rightarrow> ('a \<Rightarrow> json) \<Rightarrow> 'a result \<Rightarrow> json_rpc_response" where
  "reply req to_json r = (case r of Inl e \<Rightarrow> error_of req e | Inr v \<Rightarrow> make_response (req_id req) (to_json v))"

definition map_outcome :: "('a \<Rightarrow> 'b) \<Rightarrow> 'a outcome \<Rightarrow> 'b outcome" where
  "map_outcome f out =
     (case out of Val v \<Rightarrow> Val (f v) | Raise w \<Rightarrow> Raise w | RaiseUnknown \<Rightarrow> RaiseUnknown | Undefined \<Rightarrow> Undefined)"

section \<open>Request size\<close>

definition add_saturated :: "size_t \<Rightarrow> size_t \<Rightarrow> size_t" where
  "add_saturated total_n val =
     (let remaining = - 1 - total_n in if val > remaining then - 1 else total_n + val)"

definition escaped_size :: "char \<Rightarrow> size_t" where
  "escaped_size c =
     (if c \<in> {CHR 0x22, CHR 0x5C, CHR 0x08, CHR 0x0C, CHR 0x0A, CHR 0x0D, CHR 0x09} then 2
      else if c \<le> CHR 0x1F then 6 else 1)"

definition escaped_json_string_size :: "string \<Rightarrow> size_t" where
  "escaped_json_string_size s = fold (\<lambda>c size_n. add_saturated size_n (escaped_size c)) s 2"

text \<open>\<open>std::to_chars\<close> writes the decimal digits and a minus sign; the buffer is large enough.\<close>

definition integer_json_size :: "int \<Rightarrow> size_t" where
  "integer_json_size i = word_of_nat (length (int_to_string i))"

definition floating_json_size :: "(64 word \<Rightarrow> int) \<Rightarrow> 64 word \<Rightarrow> size_t" where
  "floating_json_size printf_g17 d =
     (if \<not> double_is_finite d then 4
      else let written = printf_g17 d in if written \<le> 0 then 0 else word_of_int written)"

text \<open>
  \<open>is_number_integer\<close> holds for unsigned values too, so an unsigned value is measured as a signed
  one. Binary and discarded values do not occur in parsed JSON.
\<close>

definition elements_size :: "size_t list \<Rightarrow> size_t" where
  "elements_size sizes =
     snd (fold (\<lambda>n (first, size_n). (False, add_saturated (if first then size_n else add_saturated size_n 1) n))
            sizes (True, 2))"

definition members_size :: "(size_t \<times> size_t) list \<Rightarrow> size_t" where
  "members_size sizes =
     snd (fold (\<lambda>(k, n) (first, size_n).
                  (False, add_saturated (add_saturated (add_saturated
                     (if first then size_n else add_saturated size_n 1) k) 1) n))
            sizes (True, 2))"

fun serialized_json_size :: "(64 word \<Rightarrow> int) \<Rightarrow> json \<Rightarrow> size_t" where
  "serialized_json_size pf JNull = 4"
| "serialized_json_size pf (JBool b) = (if b then 4 else 5)"
| "serialized_json_size pf (JString s) = escaped_json_string_size s"
| "serialized_json_size pf (JInt i) = integer_json_size (sint i)"
| "serialized_json_size pf (JUInt i) = integer_json_size (sint i)"
| "serialized_json_size pf (JFloat d) = floating_json_size pf d"
| "serialized_json_size pf (JArray xs) = elements_size (map (serialized_json_size pf) xs)"
| "serialized_json_size pf (JObject kvs) =
     members_size (map (\<lambda>kv. (escaped_json_string_size (fst kv), serialized_json_size pf (snd kv))) kvs)"

section \<open>Wire version\<close>

definition lower_ascii :: "char \<Rightarrow> char" where
  "lower_ascii c = (if CHR ''A'' \<le> c \<and> c \<le> CHR ''Z'' then char_of (of_char c - 65 + 97 :: nat) else c)"

fun header_version :: "string alist \<Rightarrow> string option" where
  "header_version [] = None"
| "header_version ((name, val) # headers) =
     (if length name = 20 \<and> map lower_ascii name = ''mcp-protocol-version'' then Some val
      else header_version headers)"

definition request_wire_version :: "json_rpc_request \<Rightarrow> session_context \<Rightarrow> string" where
  "request_wire_version req sc =
     (let from_meta = (case req_meta req of
                         None \<Rightarrow> None
                       | Some m \<Rightarrow> Option.bind (jfind m ''io.modelcontextprotocol/protocolVersion'') get_string)
      in case from_meta of
           Some v \<Rightarrow> v
         | None \<Rightarrow>
             (case protocol_version_override req of
                Some v \<Rightarrow> v
              | None \<Rightarrow> (case header_version (sc_headers sc) of Some v \<Rightarrow> v | None \<Rightarrow> McpProtocolVersion)))"

definition wire_version_requires_result_type :: "string \<Rightarrow> bool" where
  "wire_version_requires_result_type v \<longleftrightarrow> v = ''2026-07-28'' \<or> v = ''DRAFT-2026-v1''"

definition method_requires_cache_hints :: "string \<Rightarrow> bool" where
  "method_requires_cache_hints m \<longleftrightarrow>
     m \<in> {''server/discover'', ''tools/list'', ''prompts/list'', ''resources/list'',
          ''resources/templates/list'', ''resources/read''}"

section \<open>Identity and initialize\<close>

definition server_info_from_options :: "server_options \<Rightarrow> server_info" where
  "server_info_from_options o1 =
     \<lparr>si_name = so_server_name o1, si_version = so_server_version o1, si_instructions = so_instructions o1\<rparr>"

definition server_info_to_json :: "server_options \<Rightarrow> json" where
  "server_info_to_json o1 =
     (let info = server_info_from_options o1 in
      jset (jset empty_object ''name'' (JString (si_name info))) ''version'' (JString (si_version info)))"

definition server_initialize_result :: "server_options \<Rightarrow> string \<Rightarrow> json" where
  "server_initialize_result o1 protocol_version =
     jset_opt (jset (jset (jset empty_object
       ''protocolVersion'' (JString protocol_version))
       ''capabilities'' (server_capabilities_to_json (so_capabilities o1)))
       ''serverInfo'' (server_info_to_json o1))
       ''instructions'' (nonempty_string (so_instructions o1))"

definition unsupported_version :: "string \<Rightarrow> string" where
  "unsupported_version v = ''unsupported MCP protocol version('' @ [CHR 0x22] @ v @ [CHR 0x22] @ '')''"

definition validate_initialize_params :: "json \<Rightarrow> unit result" where
  "validate_initialize_params params =
     (let err = (\<lambda>msg. mk_error (error_code InvalidParams) msg '''' '''') in
      if \<not> is_object params then Inl (err ''initialize params must be an object'')
      else
        rbind (required_member is_string params ''protocolVersion''
                 (err ''initialize requires a string protocolVersion'')) (\<lambda>v.
          if \<not> is_supported_protocol_version (string_of v) then Inl (err (unsupported_version (string_of v)))
          else Inr ()))"

section \<open>Cancellation of in-flight requests\<close>

fun request_cancellation_key :: "request_id \<Rightarrow> string" where
  "request_cancellation_key (IdInt i) = ''i:'' @ int_to_string (sint i)"
| "request_cancellation_key (IdString s) = ''s:'' @ s"

definition begin_request_cancellation :: "request_id \<Rightarrow> server \<Rightarrow> cancellation_token \<times> server" where
  "begin_request_cancellation rid s =
     (Some (sv_next_source s),
      s\<lparr>sv_active := al_set (request_cancellation_key rid) (sv_next_source s) (sv_active s),
        sv_next_source := Suc (sv_next_source s)\<rparr>)"

definition end_request_cancellation :: "request_id \<Rightarrow> server \<Rightarrow> server" where
  "end_request_cancellation rid s = s\<lparr>sv_active := al_erase (request_cancellation_key rid) (sv_active s)\<rparr>"

definition cancel_request :: "request_id \<Rightarrow> server \<Rightarrow> server" where
  "cancel_request rid s =
     (case map_of (sv_active s) (request_cancellation_key rid) of
        None \<Rightarrow> s
      | Some src \<Rightarrow> s\<lparr>sv_cancelled := src # sv_cancelled s\<rparr>)"

section \<open>Subscriptions\<close>

definition sub_uris :: "nat \<Rightarrow> (nat \<times> string list) list \<Rightarrow> string list" where
  "sub_uris t subs = (case map_of subs t of None \<Rightarrow> [] | Some us \<Rightarrow> us)"

definition sub_put :: "nat \<Rightarrow> string list \<Rightarrow> (nat \<times> string list) list \<Rightarrow> (nat \<times> string list) list" where
  "sub_put t us subs = (t, us) # filter (\<lambda>p. fst p \<noteq> t) subs"

text \<open>
  The lookup \<open>resource_subscriptions_[transport]\<close> creates an empty set; erasing the last uri erases
  the entry again.
\<close>

definition set_resource_subscription :: "session_context \<Rightarrow> string \<Rightarrow> bool \<Rightarrow> server \<Rightarrow> unit result \<times> server" where
  "set_resource_subscription sc uri subscribed s =
     (case sc_transport sc of
        None \<Rightarrow> (Inl (mk_error (error_code InvalidRequest) ''resource subscription requires a transport context'' '''' ''''), s)
      | Some t \<Rightarrow>
          let uris = sub_uris t (sv_subscriptions s) in
          if subscribed then (Inr (), s\<lparr>sv_subscriptions := sub_put t (List.insert uri uris) (sv_subscriptions s)\<rparr>)
          else let rest = filter (\<lambda>u. u \<noteq> uri) uris in
            (Inr (), s\<lparr>sv_subscriptions :=
                        (if rest = [] then filter (\<lambda>p. fst p \<noteq> t) (sv_subscriptions s)
                         else sub_put t rest (sv_subscriptions s))\<rparr>))"

section \<open>Listings\<close>

definition cached_result :: "'a list \<Rightarrow> 'a resources_result" where
  "cached_result items =
     \<lparr>rr_items = items, rr_next_cursor = None, rr_meta = None, rr_extensions = empty_object,
      rr_ttl_ms = Some 300000, rr_cache_scope = Some ''public''\<rparr>"

definition list_tools :: "paginated_request_params \<Rightarrow> session_context \<Rightarrow> server \<Rightarrow> tool_definition resources_result result run" where
  "list_tools params sc s =
     (case h_tools_list (sv_handlers s) of
        Some handler \<Rightarrow> (handler params sc, s)
      | None \<Rightarrow> let (items, r) = tool_list (sv_tools s) in (Val (Inr (cached_result items)), s\<lparr>sv_tools := r\<rparr>))"

definition list_prompts :: "paginated_request_params \<Rightarrow> session_context \<Rightarrow> server \<Rightarrow> prompt resources_result result run" where
  "list_prompts params sc s =
     (case h_prompts_list (sv_handlers s) of
        Some handler \<Rightarrow> (handler params sc, s)
      | None \<Rightarrow> let (items, r) = prompt_list (sv_prompts s) in (Val (Inr (cached_result items)), s\<lparr>sv_prompts := r\<rparr>))"

definition list_resources :: "paginated_request_params \<Rightarrow> session_context \<Rightarrow> server \<Rightarrow> resource resources_result result run" where
  "list_resources params sc s =
     (case h_resources_list (sv_handlers s) of
        Some handler \<Rightarrow> (handler params sc, s)
      | None \<Rightarrow> let (items, r) = resource_list (sv_resources s) in (Val (Inr (cached_result items)), s\<lparr>sv_resources := r\<rparr>))"

definition list_resource_templates ::
  "paginated_request_params \<Rightarrow> session_context \<Rightarrow> server \<Rightarrow> resource_template resources_result result run" where
  "list_resource_templates params sc s =
     (case h_templates_list (sv_handlers s) of
        Some handler \<Rightarrow> (handler params sc, s)
      | None \<Rightarrow> let (items, r) = template_list (sv_templates s) in (Val (Inr (cached_result items)), s\<lparr>sv_templates := r\<rparr>))"

definition read_resource ::
  "string \<Rightarrow> json \<Rightarrow> session_context \<Rightarrow> cancellation_token \<Rightarrow> server \<Rightarrow> resource_contents resources_result result attempt" where
  "read_resource uri params sc cancellation s =
     att_bind (resource_read uri params sc cancellation (sv_resources s)) (\<lambda>r.
       Gives (Inr (r\<lparr>rr_ttl_ms := Some 300000, rr_cache_scope := Some ''public''\<rparr>)))"

definition get_tool :: "string \<Rightarrow> server \<Rightarrow> tool_definition result" where
  "get_tool name s = tool_get name (sv_tools s)"

definition call_tool ::
  "string \<Rightarrow> json \<Rightarrow> session_context \<Rightarrow> cancellation_token \<Rightarrow> server \<Rightarrow> tool_result result attempt" where
  "call_tool name arguments sc cancellation s =
     tool_call_full (sv_schema_validator s) (plain_call name arguments) sc cancellation (sv_tools s)"

definition get_prompt ::
  "string \<Rightarrow> json \<Rightarrow> session_context \<Rightarrow> cancellation_token \<Rightarrow> server \<Rightarrow> prompts_get_result result attempt" where
  "get_prompt name arguments sc cancellation s = prompt_get name arguments sc cancellation (sv_prompts s)"

section \<open>Methods\<close>

type_synonym method_handler =
  "server_env \<Rightarrow> json_rpc_request \<Rightarrow> session_context \<Rightarrow> cancellation_token \<Rightarrow> server \<Rightarrow> json_rpc_response run"

definition method_not_configured :: "json_rpc_request \<Rightarrow> string \<Rightarrow> json_rpc_response" where
  "method_not_configured req msg = error_reply req (error_code MethodNotFound) msg ''''"

definition handle_initialize :: method_handler where
  "handle_initialize env req sc tok s =
     (case validate_initialize_params (req_params req) of
        Inl e \<Rightarrow> (Val (error_of req e), s)
      | Inr _ \<Rightarrow>
          let requested = string_or_empty (jfind (req_params req) ''protocolVersion'') in
          (case negotiate_protocol_version requested of
             None \<Rightarrow> (Val (error_reply req (error_code InvalidParams) (unsupported_version requested) requested), s)
           | Some v \<Rightarrow> (Val (make_response (req_id req) (server_initialize_result (sv_options s) v)), s)))"

definition discover_result :: "server_options \<Rightarrow> json" where
  "discover_result o1 =
     jset (jset (jset (jset empty_object
       ''supportedVersions'' (JArray (map JString McpSupportedProtocolVersions)))
       ''capabilities'' (server_capabilities_to_json (so_capabilities o1)))
       ''serverInfo'' (server_info_to_json o1))
       ''_meta'' (jset JNull ''io.modelcontextprotocol/serverInfo'' (server_info_to_json o1))"

definition handle_discover :: method_handler where
  "handle_discover env req sc tok s = (Val (make_response (req_id req) (discover_result (sv_options s))), s)"

text \<open>The hooks of the task processor run during the call.\<close>

definition with_processor ::
  "('r \<Rightarrow> json_rpc_response outcome) \<Rightarrow> 'r \<times> hook_call list \<times> task_processor \<Rightarrow> server \<Rightarrow> json_rpc_response run" where
  "with_processor f out s =
     (case out of (r, hooks, p) \<Rightarrow> (f r, emit (map HookCall hooks) (s\<lparr>sv_task_processor := Some p\<rparr>)))"

definition handle_tasks_list :: method_handler where
  "handle_tasks_list env req sc tok s =
     (if h_task_list (sv_handlers s) = None \<and> sv_task_processor s = None
      then (Val (method_not_configured req ''task list handler is not configured''), s)
      else
        (case task_list_params_from_json (req_params req) of
           Inl e \<Rightarrow> (Val (make_params_error_response req e), s)
         | Inr params \<Rightarrow>
             (case (h_task_list (sv_handlers s), sv_task_processor s) of
                (Some handler, _) \<Rightarrow> (map_outcome (reply req task_list_result_to_json) (handler params sc), s)
              | (None, Some p) \<Rightarrow>
                  with_processor
                    (\<lambda>r. case r of Throws \<Rightarrow> Raise (env_what env)
                                 | Returns r \<Rightarrow> Val (reply req task_list_result_to_json r))
                    (list_tasks params (env_clock env) (env_stamp env) p) s
              | (None, None) \<Rightarrow> (Undefined, s))))"

definition task_get_result_of :: "task \<Rightarrow> task_get_result" where
  "task_get_result_of t = \<lparr>ctr_task = t, ctr_meta = None, ctr_extensions = empty_object\<rparr>"

definition handle_tasks_get :: method_handler where
  "handle_tasks_get env req sc tok s =
     (if h_task_get (sv_handlers s) = None \<and> sv_task_processor s = None
      then (Val (method_not_configured req ''task get handler is not configured''), s)
      else
        (case task_get_params_from_json (req_params req) of
           Inl e \<Rightarrow> (Val (make_params_error_response req e), s)
         | Inr params \<Rightarrow>
             let finish = reply req (\<lambda>t. task_get_result_to_json (task_get_result_of t)) in
             (case (h_task_get (sv_handlers s), sv_task_processor s) of
                (Some handler, _) \<Rightarrow> (map_outcome finish (handler params sc), s)
              | (None, Some p) \<Rightarrow>
                  with_processor (\<lambda>r. Val (finish r)) (get_task params (env_clock env) (env_stamp env) p) s
              | (None, None) \<Rightarrow> (Undefined, s))))"

definition handle_tasks_cancel :: method_handler where
  "handle_tasks_cancel env req sc tok s =
     (if h_task_cancel (sv_handlers s) = None \<and> sv_task_processor s = None
      then (Val (method_not_configured req ''task cancel handler is not configured''), s)
      else
        (case task_cancel_params_from_json (req_params req) of
           Inl e \<Rightarrow> (Val (make_params_error_response req e), s)
         | Inr params \<Rightarrow>
             let finish = reply req (\<lambda>t. task_cancel_result_to_json (task_get_result_of t)) in
             (case (h_task_cancel (sv_handlers s), sv_task_processor s) of
                (Some handler, _) \<Rightarrow> (map_outcome finish (handler params sc), s)
              | (None, Some p) \<Rightarrow>
                  with_processor
                    (\<lambda>r. case r of UseAfterFree \<Rightarrow> Undefined | Checked r \<Rightarrow> Val (finish r))
                    (cancel_task params (env_clock env) (env_stamp env) p) s
              | (None, None) \<Rightarrow> (Undefined, s))))"

definition handle_tasks_result :: method_handler where
  "handle_tasks_result env req sc tok s =
     (if h_task_result (sv_handlers s) = None \<and> sv_task_processor s = None
      then (Val (method_not_configured req ''task result handler is not configured''), s)
      else
        (case task_result_params_from_json (req_params req) of
           Inl e \<Rightarrow> (Val (make_params_error_response req e), s)
         | Inr params \<Rightarrow>
             (case (h_task_result (sv_handlers s), sv_task_processor s) of
                (Some handler, _) \<Rightarrow> (map_outcome (reply req (\<lambda>j. j)) (handler params sc), s)
              | (None, Some p) \<Rightarrow>
                  with_processor (\<lambda>r. Val (reply req (\<lambda>j. j) r)) (task_result params (env_clock env) (env_stamp env) p) s
              | (None, None) \<Rightarrow> (Undefined, s))))"

definition list_params_error :: "json_rpc_request \<Rightarrow> json_rpc_response" where
  "list_params_error req =
     error_reply req (error_code InvalidParams)
       (req_method req @ '' params must be an object with an optional string cursor'') ''''"

text \<open>The four list methods: pagination params, the handler or the registry, the list result.\<close>

definition handle_list ::
  "('a resources_result \<Rightarrow> json) \<Rightarrow> (paginated_request_params \<Rightarrow> session_context \<Rightarrow> server \<Rightarrow> 'a resources_result result run) \<Rightarrow>
   method_handler" where
  "handle_list to_json list_items env req sc tok s =
     (case paginated_request_params_from_json (req_params req) of
        None \<Rightarrow> (Val (list_params_error req), s)
      | Some params \<Rightarrow> let (r, s') = list_items params sc s in (map_outcome (reply req to_json) r, s'))"

definition handle_tools_list :: method_handler where
  "handle_tools_list = handle_list tools_list_result_to_json list_tools"

definition handle_prompts_list :: method_handler where
  "handle_prompts_list = handle_list prompts_list_result_to_json list_prompts"

definition handle_resources_list :: method_handler where
  "handle_resources_list = handle_list resources_list_result_to_json list_resources"

definition handle_templates_list :: method_handler where
  "handle_templates_list = handle_list resource_templates_list_result_to_json list_resource_templates"

definition handle_tools_get :: method_handler where
  "handle_tools_get env req sc tok s =
     (case jfind (req_params req) ''name'' of
        Some (JString name) \<Rightarrow> (Val (reply req tool_definition_to_json (tool_get name (sv_tools s))), s)
      | _ \<Rightarrow> (Val (error_reply req (error_code InvalidParams) ''tools/get requires a string name'' ''''), s))"

text \<open>On the 2026-07-28 wire the \<open>task\<close> member of a call of a task-forbidden tool is dropped.\<close>

definition effective_call :: "json_rpc_request \<Rightarrow> session_context \<Rightarrow> tool_registry \<Rightarrow> tool_call \<Rightarrow> tool_call" where
  "effective_call req sc tools call =
     (if tc_task call \<noteq> None \<and> wire_version_requires_result_type (request_wire_version req sc)
      then (case tool_get (tc_name call) tools of
              Inr d \<Rightarrow> if tool_task_support d = TaskForbidden then call\<lparr>tc_task := None\<rparr> else call
            | Inl _ \<Rightarrow> call)
      else call)"

definition handle_tools_call :: method_handler where
  "handle_tools_call env req sc tok s =
     (case tool_call_from_json (req_params req) of
        Throws \<Rightarrow> (Raise (env_what env), s)
      | Returns (Inl e) \<Rightarrow> (Val (make_params_error_response req e), s)
      | Returns (Inr call0) \<Rightarrow>
          let call = effective_call req sc (sv_tools s) call0 in
          if tc_task call \<noteq> None
          then (case tool_validate call (sv_tools s) of
                  Inl e \<Rightarrow> (Val (make_params_error_response req e), s)
                | Inr _ \<Rightarrow>
                    (case sv_task_processor s of
                       None \<Rightarrow> (Val (method_not_configured req ''task processor is not configured''), s)
                     | Some p \<Rightarrow>
                         with_processor
                           (\<lambda>r. case r of
                              Inl e \<Rightarrow> Val (make_params_error_response req e)
                            | Inr t \<Rightarrow> Val (make_response (req_id req) (create_task_result_to_json t)))
                           (submit_tool_call (sv_schema_validator s) (sv_tools s) call sc
                              (env_clock env) (env_stamp env) p) s))
          else (map_outcome (reply req tool_result_to_json)
                  (outcome_of (tool_call_full (sv_schema_validator s) call sc tok (sv_tools s))), s))"

definition handle_prompts_get :: method_handler where
  "handle_prompts_get env req sc tok s =
     (case prompts_get_params_from_json (req_params req) of
        Inl e \<Rightarrow> (Val (make_params_error_response req e), s)
      | Inr params \<Rightarrow>
          (map_outcome (reply req prompts_get_result_to_json)
             (outcome_of (prompt_get (pgp_name params) (pgp_arguments params) sc tok (sv_prompts s))), s))"

definition handle_resources_read :: method_handler where
  "handle_resources_read env req sc tok s =
     (case resources_read_params_from_json (req_params req) of
        Inl e \<Rightarrow> (Val (make_params_error_response req e), s)
      | Inr params \<Rightarrow>
          (map_outcome (reply req resources_read_result_to_json)
             (outcome_of (read_resource (rp_uri params) (req_params req) sc tok s)), s))"

definition handle_subscription :: "bool \<Rightarrow> method_handler" where
  "handle_subscription subscribed env req sc tok s =
     (if \<not> rc_subscribe (vc_resources (so_capabilities (sv_options s)))
      then (Val (method_not_configured req ''resource subscriptions are not enabled''), s)
      else
        (case jfind (req_params req) ''uri'' of
           Some (JString uri) \<Rightarrow>
             let (r, s') = set_resource_subscription sc uri subscribed s in
             (Val (reply req (\<lambda>_. empty_object) r), s')
         | _ \<Rightarrow> (Val (error_reply req (error_code InvalidParams) ''resource subscription requires a string uri'' ''''), s)))"

definition handle_json :: "json_request_handler option \<Rightarrow> string \<Rightarrow> method_handler" where
  "handle_json handler name env req sc tok s =
     (case handler of
        None \<Rightarrow> (Val (method_not_configured req (name @ '' handler is not configured'')), s)
      | Some h \<Rightarrow> (map_outcome (reply req (\<lambda>j. j)) (h (req_params req) sc tok), s))"

definition handle_set_level :: method_handler where
  "handle_set_level env req sc tok s =
     (case jfind (req_params req) ''level'' of
        Some (JString level) \<Rightarrow>
          (case h_logging (sv_handlers s) of
             None \<Rightarrow> (Val (make_response (req_id req) empty_object), s)
           | Some h \<Rightarrow>
               (map_outcome (\<lambda>_. make_response (req_id req) empty_object) (h level ''logging level changed''),
                emit [LoggingCall level ''logging level changed''] s))
      | _ \<Rightarrow> (Val (error_reply req (error_code InvalidParams) ''logging/setLevel requires a string level'' ''''), s))"

text \<open>The chain of method comparisons after the raw handlers have declined.\<close>

definition dispatch_method :: method_handler where
  "dispatch_method env req sc tok s =
     (let m = req_method req in
      if m = ''tasks/list'' then handle_tasks_list env req sc tok s
      else if m = ''tasks/get'' then handle_tasks_get env req sc tok s
      else if m = ''tasks/cancel'' then handle_tasks_cancel env req sc tok s
      else if m = ''tasks/result'' then handle_tasks_result env req sc tok s
      else if m = ''tools/list'' then handle_tools_list env req sc tok s
      else if m = ''tools/get'' then handle_tools_get env req sc tok s
      else if m = ''tools/call'' then handle_tools_call env req sc tok s
      else if m = ''prompts/list'' then handle_prompts_list env req sc tok s
      else if m = ''prompts/get'' then handle_prompts_get env req sc tok s
      else if m = ''resources/list'' then handle_resources_list env req sc tok s
      else if m = ''resources/read'' then handle_resources_read env req sc tok s
      else if m = ''resources/templates/list'' then handle_templates_list env req sc tok s
      else if m = ''resources/subscribe'' then handle_subscription True env req sc tok s
      else if m = ''resources/unsubscribe'' then handle_subscription False env req sc tok s
      else if m = ''completion/complete''
      then handle_json (h_completion (sv_handlers s)) ''completion'' env req sc tok s
      else if m = ''sampling/createMessage''
      then handle_json (h_sampling (sv_handlers s)) ''sampling'' env req sc tok s
      else if m = ''logging/setLevel'' then handle_set_level env req sc tok s
      else (Val (error_reply req (error_code MethodNotFound) ''method not found'' m), s))"

definition raw_response :: "method_handler" where
  "raw_response env req sc tok s =
     (let first = (case h_raw_request_context (sv_handlers s) of None \<Rightarrow> Val None | Some h \<Rightarrow> h req sc tok) in
      case first of
        Val (Some r) \<Rightarrow> (Val r, s)
      | Val None \<Rightarrow>
          (case (case h_raw_request (sv_handlers s) of None \<Rightarrow> Val None | Some h \<Rightarrow> h req sc) of
             Val (Some r) \<Rightarrow> (Val r, s)
           | Val None \<Rightarrow> dispatch_method env req sc tok s
           | Raise w \<Rightarrow> (Raise w, s) | RaiseUnknown \<Rightarrow> (RaiseUnknown, s) | Undefined \<Rightarrow> (Undefined, s))
      | Raise w \<Rightarrow> (Raise w, s) | RaiseUnknown \<Rightarrow> (RaiseUnknown, s) | Undefined \<Rightarrow> (Undefined, s))"

definition dispatch :: method_handler where
  "dispatch env req sc tok s =
     (if req_method req = ''initialize'' then handle_initialize env req sc tok s
      else if req_method req = ''ping'' then (Val (make_response (req_id req) empty_object), s)
      else if req_method req = ''server/discover'' then handle_discover env req sc tok s
      else raw_response env req sc tok s)"

section \<open>Requests\<close>

definition authenticate_context :: "session_context \<Rightarrow> server \<Rightarrow> session_context result attempt" where
  "authenticate_context sc s =
     (case sv_auth_provider s of
        None \<Rightarrow> Gives (Inr sc)
      | Some authenticate \<Rightarrow>
          if sc_auth_identity sc \<noteq> None then Gives (Inr sc)
          else (case authenticate \<lparr>aq_headers = sc_headers sc, aq_remote_address = sc_remote_address sc,
                                   aq_http_method = sc_http_method sc, aq_http_url = sc_http_url sc\<rparr> of
                  Gives (Inl e) \<Rightarrow> Gives (Inl (make_auth_error (err_message e) (err_detail e)))
                | Gives (Inr identity) \<Rightarrow> Gives (Inr (sc\<lparr>sc_auth_identity := Some identity\<rparr>))
                | Throwing w \<Rightarrow> Throwing w
                | ThrowingUnknown \<Rightarrow> ThrowingUnknown))"

text \<open>The rate limiter's verdict: the response that refuses the request, if it does.\<close>

definition rate_limit_refusal :: "server_env \<Rightarrow> json_rpc_request \<Rightarrow> session_context \<Rightarrow> server \<Rightarrow> json_rpc_response option attempt" where
  "rate_limit_refusal env req sc s =
     (case sv_rate_limiter s of
        None \<Rightarrow> Gives None
      | Some limiter_check \<Rightarrow>
          (case limiter_check \<lparr>rq_subject = sc_session_id sc, rq_method = req_method req,
                       rq_request_bytes = serialized_json_size (env_printf_g17 env) (req_params req)\<rparr> of
             Gives (Inl e) \<Rightarrow> Gives (Some (error_reply req (error_code RateLimited) ''rate limiting failed'' (err_message e)))
           | Gives (Inr decision) \<Rightarrow>
               Gives (if \<not> rd_allowed decision
                      then Some (error_reply req (error_code RateLimited) ''request rate limited'' '''') else None)
           | Throwing w \<Rightarrow> Throwing w
           | ThrowingUnknown \<Rightarrow> ThrowingUnknown))"

text \<open>The two \<open>catch\<close> clauses of \<open>handle_request_impl\<close>.\<close>

definition catch_reply :: "json_rpc_request \<Rightarrow> json_rpc_response outcome \<Rightarrow> json_rpc_response outcome" where
  "catch_reply req out =
     (case out of
        Val r \<Rightarrow> Val r
      | Raise w \<Rightarrow> Val (error_of req (handler_failed w))
      | RaiseUnknown \<Rightarrow> Val (error_of req handler_unknown_exception)
      | Undefined \<Rightarrow> Undefined)"

definition handle_request_impl :: "server_env \<Rightarrow> json_rpc_request \<Rightarrow> session_context \<Rightarrow> server \<Rightarrow> json_rpc_response run" where
  "handle_request_impl env req input_sc s =
     (case authenticate_context input_sc s of
        Throwing w \<Rightarrow> (catch_reply req (Raise w), s)
      | ThrowingUnknown \<Rightarrow> (catch_reply req RaiseUnknown, s)
      | Gives (Inl e) \<Rightarrow> (Val (make_auth_error_response req (err_message e)), s)
      | Gives (Inr sc) \<Rightarrow>
          let (tok, s1) = begin_request_cancellation (req_id req) s;
              (out, s2) = (case rate_limit_refusal env req sc s1 of
                             Throwing w \<Rightarrow> (Raise w, s1)
                           | ThrowingUnknown \<Rightarrow> (RaiseUnknown, s1)
                           | Gives (Some r) \<Rightarrow> (Val r, s1)
                           | Gives None \<Rightarrow> dispatch env req sc tok s1)
          in (catch_reply req out, end_request_cancellation (req_id req) s2))"

definition default_member :: "string \<Rightarrow> json \<Rightarrow> json \<Rightarrow> json" where
  "default_member k v j = (if jcontains j k then j else jset j k v)"

definition stamp_result :: "json_rpc_request \<Rightarrow> session_context \<Rightarrow> json \<Rightarrow> json" where
  "stamp_result req sc j =
     (if is_object j \<and> wire_version_requires_result_type (request_wire_version req sc)
      then let j1 = default_member ''resultType'' (JString ''complete'') j in
           if method_requires_cache_hints (req_method req)
           then default_member ''cacheScope'' (JString ''private'') (default_member ''ttlMs'' (JInt 0) j1)
           else j1
      else j)"

definition handle_request :: "server_env \<Rightarrow> json_rpc_request \<Rightarrow> session_context \<Rightarrow> server \<Rightarrow> json_rpc_response run" where
  "handle_request env req sc s =
     (case handle_request_impl env req sc s of
        (out, s') \<Rightarrow> (map_outcome (\<lambda>r. r\<lparr>resp_result := map_option (stamp_result req sc) (resp_result r)\<rparr>) out, s'))"

definition ping :: "server_env \<Rightarrow> session_context \<Rightarrow> server \<Rightarrow> json result run" where
  "ping env sc s =
     (case handle_request env (make_request ''ping'' (IdInt 0) empty_object) sc s of
        (out, s') \<Rightarrow>
          (map_outcome (\<lambda>r. case resp_result r of
              None \<Rightarrow> Inl (mk_error (error_code InternalError) ''ping response did not contain a result'' '''' '''')
            | Some j \<Rightarrow> Inr j) out, s'))"

section \<open>Notifications\<close>

definition invalid_params_error :: "string \<Rightarrow> core_error" where
  "invalid_params_error msg = mk_error (error_code InvalidParams) msg '''' ''''"

text \<open>Sequencing of results under exceptions: \<open>if (!r) return unexpected(r.error());\<close>.\<close>

definition then_result :: "unit result outcome \<Rightarrow> (unit \<Rightarrow> unit result run) \<Rightarrow> server \<Rightarrow> unit result run" where
  "then_result r k s =
     (case r of
        Val (Inr _) \<Rightarrow> k ()
      | Val (Inl e) \<Rightarrow> (Val (Inl e), s)
      | Raise w \<Rightarrow> (Raise w, s) | RaiseUnknown \<Rightarrow> (RaiseUnknown, s) | Undefined \<Rightarrow> (Undefined, s))"

definition notification_action :: "json_rpc_notification \<Rightarrow> session_context \<Rightarrow> server \<Rightarrow> unit result run" where
  "notification_action n sc s =
     (let m = notif_method n; h = sv_handlers s in
      if m = ''notifications/roots/list_changed'' \<and> h_roots_list_changed h \<noteq> None
      then (the (h_roots_list_changed h) sc, s)
      else if m = ''notifications/cancelled''
      then (case cancelled_notification_params_from_json (notif_params n) of
              None \<Rightarrow> (Val (Inl (invalid_params_error ''cancelled notification requires valid params'')), s)
            | Some c \<Rightarrow> (Val (Inr ()), cancel_request (cn_request_id c) s))
      else if m = ''notifications/progress'' \<and> h_progress h \<noteq> None
      then (case progress_notification_params_from_json (notif_params n) of
              None \<Rightarrow> (Val (Inl (invalid_params_error ''progress notification requires valid params'')), s)
            | Some p \<Rightarrow> (the (h_progress h) p sc, s))
      else if m = ''notifications/tools/list_changed'' \<and> h_tool_list_changed h \<noteq> None
      then (the (h_tool_list_changed h) sc, s)
      else if m = ''notifications/prompts/list_changed'' \<and> h_prompt_list_changed h \<noteq> None
      then (the (h_prompt_list_changed h) sc, s)
      else if m = ''notifications/resources/list_changed'' \<and> h_resource_list_changed h \<noteq> None
      then (the (h_resource_list_changed h) sc, s)
      else if m = ''notifications/resources/updated'' \<and> h_resource_updated h \<noteq> None
      then (case jfind (notif_params n) ''uri'' of
              Some (JString uri) \<Rightarrow> (the (h_resource_updated h) uri sc, s)
            | _ \<Rightarrow> (Val (Inl (invalid_params_error ''resource updated notification requires a string uri'')), s))
      else (Val (Inr ()), s))"

definition catch_result :: "unit result outcome \<Rightarrow> unit result outcome" where
  "catch_result out =
     (case out of
        Val r \<Rightarrow> Val r
      | Raise w \<Rightarrow> Val (Inl (handler_failed w))
      | RaiseUnknown \<Rightarrow> Val (Inl handler_unknown_exception)
      | Undefined \<Rightarrow> Undefined)"

definition handle_notification :: "json_rpc_notification \<Rightarrow> session_context \<Rightarrow> server \<Rightarrow> unit result run" where
  "handle_notification n sc s =
     (let raw = (case h_raw_notification (sv_handlers s) of None \<Rightarrow> Val (Inr ()) | Some h \<Rightarrow> h n sc);
          (out, s') = then_result raw (\<lambda>_. notification_action n sc s) s
      in (catch_result out, s'))"

section \<open>Sending\<close>

text \<open>The loop over transports stops at the first one that fails.\<close>

fun send_all :: "server_env \<Rightarrow> json_rpc_notification \<Rightarrow> nat list \<Rightarrow> server \<Rightarrow> unit result \<times> server" where
  "send_all env n [] s = (Inr (), s)"
| "send_all env n (t # ts) s =
     (let s' = emit [SentNotification t n] s in
      case env_notify env t n of Inl e \<Rightarrow> (Inl e, s') | Inr _ \<Rightarrow> send_all env n ts s')"

definition broadcast_notification :: "server_env \<Rightarrow> json_rpc_notification \<Rightarrow> server \<Rightarrow> unit result \<times> server" where
  "broadcast_notification env n s = send_all env n (sv_transports s @ sv_session_transports s) s"

definition subscribers :: "string \<Rightarrow> server \<Rightarrow> nat list" where
  "subscribers uri s = map fst (filter (\<lambda>(t, uris). uri \<in> set uris) (sv_subscriptions s))"

definition notify_resource_subscribers ::
  "server_env \<Rightarrow> string \<Rightarrow> json_rpc_notification \<Rightarrow> server \<Rightarrow> unit result \<times> server" where
  "notify_resource_subscribers env uri n s =
     (if sv_subscriptions s = [] then broadcast_notification env n s
      else let recipients = subscribers uri s in
           if recipients = [] then (Inr (), s) else send_all env n recipients s)"

definition notify_resource_updated :: "server_env \<Rightarrow> string \<Rightarrow> server \<Rightarrow> unit result \<times> server" where
  "notify_resource_updated env uri s =
     notify_resource_subscribers env uri
       (make_notification ''notifications/resources/updated'' (JObject [(''uri'', JString uri)])) s"

definition notify_roots_list_changed :: "server_env \<Rightarrow> server \<Rightarrow> unit result \<times> server" where
  "notify_roots_list_changed env s =
     broadcast_notification env (make_notification ''notifications/roots/list_changed'' empty_object) s"

definition notify_tool_list_changed :: "server_env \<Rightarrow> server \<Rightarrow> unit result \<times> server" where
  "notify_tool_list_changed env s =
     broadcast_notification env (make_notification ''notifications/tools/list_changed'' empty_object) s"

definition notify_prompt_list_changed :: "server_env \<Rightarrow> server \<Rightarrow> unit result \<times> server" where
  "notify_prompt_list_changed env s =
     broadcast_notification env (make_notification ''notifications/prompts/list_changed'' empty_object) s"

definition notify_resource_list_changed :: "server_env \<Rightarrow> server \<Rightarrow> unit result \<times> server" where
  "notify_resource_list_changed env s =
     broadcast_notification env (make_notification ''notifications/resources/list_changed'' empty_object) s"

definition notify_progress :: "server_env \<Rightarrow> progress_notification_params \<Rightarrow> server \<Rightarrow> unit result \<times> server" where
  "notify_progress env p s =
     broadcast_notification env (make_notification ''notifications/progress'' (progress_notification_params_to_json p)) s"

definition notify_logging_message ::
  "server_env \<Rightarrow> logging_message_notification_params \<Rightarrow> server \<Rightarrow> unit result \<times> server" where
  "notify_logging_message env p s =
     broadcast_notification env
       (make_notification ''notifications/message'' (logging_message_notification_params_to_json p)) s"

definition notify_elicitation_complete :: "server_env \<Rightarrow> string \<Rightarrow> server \<Rightarrow> unit result \<times> server" where
  "notify_elicitation_complete env elicitation s =
     broadcast_notification env
       (make_notification ''notifications/elicitation/complete''
          (elicitation_complete_to_json
             \<lparr>ecn_elicitation_id = elicitation, ecn_meta = None, ecn_extensions = empty_object\<rparr>)) s"

definition notify_task_status :: "server_env \<Rightarrow> task \<Rightarrow> server \<Rightarrow> unit result \<times> server" where
  "notify_task_status env t s =
     broadcast_notification env (make_notification ''notifications/tasks/status'' (task_to_json t)) s"

text \<open>
  \<open>enqueue_task\<close>: the first transport that answers decides. An error answer is turned into a
  \<open>core::Error\<close> whose detail is the implicit conversion of \<open>data\<close> to a string, which throws
  unless \<open>data\<close> is a JSON string; an absent \<open>data\<close> is replaced by the empty object first.
\<close>

definition enqueue_answer :: "string \<Rightarrow> json_rpc_response \<Rightarrow> create_task_result result outcome option" where
  "enqueue_answer what r =
     (if has_error r
      then (case resp_error r of
              None \<Rightarrow> None
            | Some e \<Rightarrow>
                Some (case get_string (case eo_data e of None \<Rightarrow> empty_object | Some d \<Rightarrow> d) of
                        None \<Rightarrow> Raise what
                      | Some detail \<Rightarrow> Val (Inl (mk_error (eo_code e) (eo_message e) detail ''''))))
      else if has_result r
      then (case resp_result r of None \<Rightarrow> None | Some j \<Rightarrow> Some (Val (create_task_result_from_json j)))
      else None)"

fun enqueue_loop :: "server_env \<Rightarrow> json_rpc_request \<Rightarrow> nat list \<Rightarrow> server \<Rightarrow> create_task_result result run" where
  "enqueue_loop env req [] s =
     (Val (Inl (mk_error (error_code InternalError) ''no transport available for enqueue_task'' '''' '''')), s)"
| "enqueue_loop env req (t # ts) s =
     (let s' = emit [SentRequest t req] s in
      case env_ask env t req of
        Inl _ \<Rightarrow> enqueue_loop env req ts s'
      | Inr r \<Rightarrow>
          (case enqueue_answer (env_what env) r of
             Some out \<Rightarrow> (out, s')
           | None \<Rightarrow> enqueue_loop env req ts s'))"

definition enqueue_task :: "server_env \<Rightarrow> task \<Rightarrow> server \<Rightarrow> create_task_result result run" where
  "enqueue_task env t s =
     enqueue_loop env (make_request ''tasks/create'' (IdInt 0) (JObject [(''task'', task_to_json t)]))
       (sv_transports s @ sv_session_transports s) s"

section \<open>Configuration\<close>

definition no_handlers :: server_handlers where
  "no_handlers = \<lparr>h_completion = None, h_sampling = None, h_logging = None, h_raw_request = None,
     h_raw_request_context = None, h_raw_notification = None, h_tools_list = None, h_prompts_list = None,
     h_resources_list = None, h_templates_list = None, h_task_list = None, h_task_get = None,
     h_task_cancel = None, h_task_result = None, h_progress = None, h_roots_list_changed = None,
     h_tool_list_changed = None, h_prompt_list_changed = None, h_resource_list_changed = None,
     h_resource_updated = None\<rparr>"

definition new_server :: "server_options \<Rightarrow> server" where
  "new_server o1 = \<lparr>sv_options = o1, sv_tools = new_registry, sv_prompts = new_registry,
     sv_resources = new_registry, sv_templates = new_registry, sv_task_processor = None,
     sv_auth_provider = None, sv_rate_limiter = None, sv_schema_validator = None, sv_handlers = no_handlers,
     sv_transports = [], sv_session_transports = [], sv_subscriptions = [], sv_active = [],
     sv_cancelled = [], sv_next_source = 0, sv_events = []\<rparr>"

text \<open>A null transport is \<open>None\<close>.\<close>

definition add_transport :: "nat option \<Rightarrow> server \<Rightarrow> unit result \<times> server" where
  "add_transport t s =
     (case t of
        None \<Rightarrow> (Inl (mk_error (error_code InvalidRequest) ''transport must not be null'' '''' ''''), s)
      | Some t \<Rightarrow> (Inr (), s\<lparr>sv_transports := sv_transports s @ [t]\<rparr>))"

definition add_session_transport :: "nat \<Rightarrow> server \<Rightarrow> unit result \<times> server" where
  "add_session_transport t s =
     (Inr (), if t \<in> set (sv_session_transports s) then s
              else s\<lparr>sv_session_transports := sv_session_transports s @ [t]\<rparr>)"

definition advertise_tasks :: "server_options \<Rightarrow> server_options" where
  "advertise_tasks o1 =
     o1\<lparr>so_capabilities := (so_capabilities o1)\<lparr>vc_tasks :=
        Some ((ensure_tasks (vc_tasks (so_capabilities o1)))\<lparr>kc_list := True, kc_cancel := True, kc_tools_call := True\<rparr>)\<rparr>\<rparr>"

definition use_task_manager :: "task_processor option \<Rightarrow> server \<Rightarrow> server" where
  "use_task_manager p s =
     (let s' = s\<lparr>sv_task_processor := p\<rparr> in
      if p = None then s' else s'\<lparr>sv_options := advertise_tasks (sv_options s')\<rparr>)"

definition set_completion_handler :: "json_request_handler option \<Rightarrow> server \<Rightarrow> server" where
  "set_completion_handler h s =
     (let s' = (if h \<noteq> None
                then s\<lparr>sv_options := (sv_options s)\<lparr>so_capabilities := build_completions (so_capabilities (sv_options s))\<rparr>\<rparr>
                else s)
      in s'\<lparr>sv_handlers := (sv_handlers s')\<lparr>h_completion := h\<rparr>\<rparr>)"

definition set_logging_handler :: "(string \<Rightarrow> string \<Rightarrow> unit outcome) option \<Rightarrow> server \<Rightarrow> server" where
  "set_logging_handler h s =
     (let s' = (if h \<noteq> None
                then s\<lparr>sv_options := (sv_options s)\<lparr>so_capabilities := build_logging (so_capabilities (sv_options s))\<rparr>\<rparr>
                else s)
      in s'\<lparr>sv_handlers := (sv_handlers s')\<lparr>h_logging := h\<rparr>\<rparr>)"

definition stop_server_processor :: "server \<Rightarrow> server" where
  "stop_server_processor s = s\<lparr>sv_task_processor := map_option stop_processor (sv_task_processor s)\<rparr>"

section \<open>Builder\<close>

text \<open>
  \<open>ServerBuilder\<close>: the options, handlers and transports collected so far and the registrations to
  run on the server, in order.
\<close>

type_synonym registration = "server \<Rightarrow> unit result \<times> server"

record server_builder =
  sb_options :: server_options
  sb_transports :: "nat option list"
  sb_auth_provider :: "auth_provider option"
  sb_rate_limiter :: "rate_limiter option"
  sb_schema_validator :: "schema_validator option"
  sb_task_processor :: "task_processor option"
  sb_handlers :: server_handlers
  sb_registrations :: "registration list"

definition new_builder :: server_builder where
  "new_builder = \<lparr>sb_options = \<lparr>so_capabilities = default_server_capabilities, so_server_name = ''cxxmcp'',
       so_server_version = ''2.0.0'', so_instructions = ''''\<rparr>,
     sb_transports = [], sb_auth_provider = None, sb_rate_limiter = None, sb_schema_validator = None,
     sb_task_processor = None, sb_handlers = no_handlers, sb_registrations = []\<rparr>"

definition update_capabilities ::
  "(server_capabilities \<Rightarrow> server_capabilities) \<Rightarrow> server_builder \<Rightarrow> server_builder" where
  "update_capabilities f b = b\<lparr>sb_options := (sb_options b)\<lparr>so_capabilities := f (so_capabilities (sb_options b))\<rparr>\<rparr>"

definition add_registration :: "registration \<Rightarrow> server_builder \<Rightarrow> server_builder" where
  "add_registration r b = b\<lparr>sb_registrations := sb_registrations b @ [r]\<rparr>"

definition with_transport :: "nat option \<Rightarrow> server_builder \<Rightarrow> server_builder" where
  "with_transport t b = b\<lparr>sb_transports := sb_transports b @ [t]\<rparr>"

definition with_task_manager :: "task_processor option \<Rightarrow> server_builder \<Rightarrow> server_builder" where
  "with_task_manager p b =
     (let b' = b\<lparr>sb_task_processor := p\<rparr> in
      if p = None then b' else b'\<lparr>sb_options := advertise_tasks (sb_options b')\<rparr>)"

definition add_tool :: "tool_definition \<Rightarrow> tool_handler option \<Rightarrow> server_builder \<Rightarrow> server_builder" where
  "add_tool d h b =
     add_registration (\<lambda>s. let (r, reg) = tool_add d h (sv_tools s) in (r, s\<lparr>sv_tools := reg\<rparr>))
       (update_capabilities
          (\<lambda>c. c\<lparr>vc_tools := (vc_tools c)\<lparr>lc_enabled := True, lc_list_changed := True\<rparr>\<rparr>) b)"

definition add_prompt :: "prompt \<Rightarrow> prompt_handler option \<Rightarrow> server_builder \<Rightarrow> server_builder" where
  "add_prompt d h b =
     add_registration (\<lambda>s. let (r, reg) = prompt_add d h (sv_prompts s) in (r, s\<lparr>sv_prompts := reg\<rparr>))
       (update_capabilities
          (\<lambda>c. c\<lparr>vc_prompts := (vc_prompts c)\<lparr>lc_enabled := True, lc_list_changed := True\<rparr>\<rparr>) b)"

definition add_resource :: "resource \<Rightarrow> resource_read_handler option \<Rightarrow> server_builder \<Rightarrow> server_builder" where
  "add_resource d h b =
     add_registration (\<lambda>s. let (r, reg) = resource_add d h (sv_resources s) in (r, s\<lparr>sv_resources := reg\<rparr>))
       (update_capabilities
          (\<lambda>c. c\<lparr>vc_resources := (vc_resources c)\<lparr>lc_enabled := True, lc_list_changed := True\<rparr>\<rparr>) b)"

definition add_resource_template :: "resource_template \<Rightarrow> server_builder \<Rightarrow> server_builder" where
  "add_resource_template d b =
     add_registration (\<lambda>s. let (r, reg) = template_add d (sv_templates s) in (r, s\<lparr>sv_templates := reg\<rparr>))
       (update_capabilities
          (\<lambda>c. c\<lparr>vc_resources := (vc_resources c)\<lparr>lc_enabled := True, lc_list_changed := True\<rparr>\<rparr>) b)"

definition on_completion :: "json_request_handler option \<Rightarrow> server_builder \<Rightarrow> server_builder" where
  "on_completion h b = b\<lparr>sb_handlers := (sb_handlers b)\<lparr>h_completion := h\<rparr>\<rparr>"

definition on_logging :: "(string \<Rightarrow> string \<Rightarrow> unit outcome) option \<Rightarrow> server_builder \<Rightarrow> server_builder" where
  "on_logging h b =
     update_capabilities (\<lambda>c. c\<lparr>vc_logging := (vc_logging c)\<lparr>pc_enabled := (h \<noteq> None)\<rparr>\<rparr>)
       (b\<lparr>sb_handlers := (sb_handlers b)\<lparr>h_logging := h\<rparr>\<rparr>)"

fun run_registrations :: "registration list \<Rightarrow> server \<Rightarrow> unit result \<times> server" where
  "run_registrations [] s = (Inr (), s)"
| "run_registrations (r # rs) s = (case r s of (Inl e, s') \<Rightarrow> (Inl e, s') | (Inr _, s') \<Rightarrow> run_registrations rs s')"

fun add_transports :: "nat option list \<Rightarrow> server \<Rightarrow> unit result \<times> server" where
  "add_transports [] s = (Inr (), s)"
| "add_transports (t # ts) s =
     (case add_transport t s of (Inl e, s') \<Rightarrow> (Inl e, s') | (Inr _, s') \<Rightarrow> add_transports ts s')"

text \<open>
  \<open>build\<close> copies the slots with the setters of \<open>Server\<close>; a context-aware raw handler has no
  builder method, so that slot stays empty.
\<close>

definition configured_server :: "server_builder \<Rightarrow> server" where
  "configured_server b =
     (let h = sb_handlers b;
          s0 = (new_server (sb_options b))\<lparr>sv_auth_provider := sb_auth_provider b,
                 sv_rate_limiter := sb_rate_limiter b, sv_schema_validator := sb_schema_validator b\<rparr>;
          s1 = use_task_manager (sb_task_processor b) s0;
          s2 = set_logging_handler (h_logging h) (set_completion_handler (h_completion h) s1)
      in s2\<lparr>sv_handlers := h\<lparr>h_raw_request_context := None\<rparr>\<rparr>)"

definition build :: "server_builder \<Rightarrow> server result" where
  "build b =
     (case run_registrations (sb_registrations b) (configured_server b) of
        (Inl e, _) \<Rightarrow> Inl e
      | (Inr _, s) \<Rightarrow> (case add_transports (sb_transports b) s of (Inl e, _) \<Rightarrow> Inl e | (Inr _, s') \<Rightarrow> Inr s'))"

end
