(* ===== verification/Server_Correct.thy ===== *)
theory Server_Correct
  imports Server
begin

text \<open>
  What the server of server.cpp guarantees: every request is answered, the gate of authentication and
  rate limiting, the bookkeeping of in-flight requests, resource subscriptions as a map from
  transports to sets of uris, the size estimate given to the rate limiter, and the fields that the
  2026-07-28 wire requires.
\<close>

section \<open>The size estimate\<close>

text \<open>The text nlohmann writes for a value, with its short escapes.\<close>

definition short_escapes :: "(char \<times> char) list" where
  "short_escapes = [(CHR 0x22, CHR 0x22), (CHR 0x5C, CHR 0x5C), (CHR 0x08, CHR ''b''), (CHR 0x0C, CHR ''f''),
     (CHR 0x0A, CHR ''n''), (CHR 0x0D, CHR ''r''), (CHR 0x09, CHR ''t'')]"

definition wire_char :: "char \<Rightarrow> string" where
  "wire_char c =
     (case map_of short_escapes c of
        Some e \<Rightarrow> [CHR 0x5C, e]
      | None \<Rightarrow>
          if (of_char c :: nat) < 32
          then [CHR 0x5C, CHR ''u'', CHR ''0'', CHR ''0'', hex_char (of_char c div 16), hex_char (of_char c mod 16)]
          else [c])"

definition wire_string :: "string \<Rightarrow> string" where
  "wire_string s = [CHR 0x22] @ concat (map wire_char s) @ [CHR 0x22]"

fun wire_text :: "(64 word \<Rightarrow> string) \<Rightarrow> json \<Rightarrow> string" where
  "wire_text df JNull = ''null''"
| "wire_text df (JBool b) = (if b then ''true'' else ''false'')"
| "wire_text df (JInt i) = int_to_string (sint i)"
| "wire_text df (JUInt i) = nat_to_string (unat i)"
| "wire_text df (JFloat d) = df d"
| "wire_text df (JString s) = wire_string s"
| "wire_text df (JArray xs) = ''['' @ join_comma (map (wire_text df) xs) @ '']''"
| "wire_text df (JObject kvs) =
     ''{'' @ join_comma (map (\<lambda>kv. wire_string (fst kv) @ '':'' @ wire_text df (snd kv)) kvs) @ ''}''"

text \<open>Documents without doubles (whose text is not that of \<open>%.17g\<close>) and without unsigned values of
  \<open>2 ^ 63\<close> or more.\<close>

fun measured :: "json \<Rightarrow> bool" where
  "measured (JUInt i) = (unat i < 2 ^ 63)"
| "measured (JFloat _) = False"
| "measured (JArray xs) = (\<forall>x\<in>set xs. measured x)"
| "measured (JObject kvs) = (\<forall>kv\<in>set kvs. measured (snd kv))"
| "measured _ = True"

definition sat :: "nat \<Rightarrow> size_t" where
  "sat n = word_of_nat (min n (2 ^ 64 - 1))"

lemma unat_sat: "unat (sat n) = min n (2 ^ 64 - 1)"
  by (simp add: sat_def unat_of_nat min_def)

lemma add_saturated_sat: "add_saturated (sat m) (sat n) = sat (m + n)"
proof -
  have r: "unat (- 1 - sat m :: size_t) = 2 ^ 64 - 1 - min m (2 ^ 64 - 1)"
    using unsigned_less [of "sat m", where 'a = nat]
    by (simp add: unat_sub_if' unat_sat unsigned_minus_1_eq_mask mask_eq_exp_minus_1)
  have "unat (add_saturated (sat m) (sat n)) = unat (sat (m + n))"
    by (auto simp: add_saturated_def Let_def word_less_nat_alt r unat_sat unat_word_ariths unsigned_minus_1_eq_mask
        mask_eq_exp_minus_1 min_def)
  then show ?thesis by (metis word_unat_eq_iff)
qed

lemma sat_small: "n < 2 ^ 64 \<Longrightarrow> sat n = word_of_nat n"
  by (simp add: sat_def)

lemma escaped_size_sat: "escaped_size c = sat (length (wire_char c))"
proof -
  have "c \<le> CHR 0x1F \<longleftrightarrow> (of_char c :: nat) < 32" by (auto simp: char_le_iff)
  then show ?thesis by (auto simp: escaped_size_def wire_char_def short_escapes_def sat_def)
qed

lemma escaped_string_sat: "escaped_json_string_size s = sat (length (wire_string s))"
proof -
  have "fold (\<lambda>c size_n. add_saturated size_n (escaped_size c)) s (sat k) = sat (k + length (concat (map wire_char s)))" for k
    by (induction s arbitrary: k) (simp_all add: escaped_size_sat add_saturated_sat add.assoc)
  from this [of 2] show ?thesis
    by (simp add: escaped_json_string_size_def wire_string_def sat_small)
qed

lemma join_comma_length: "length (join_comma ts) = sum_list (map length ts) + (length ts - 1)"
  by (induction ts rule: join_comma.induct) auto

lemma elements_size_sat:
  "elements_size (map (\<lambda>n. sat n) ns) = sat (2 + sum_list ns + (length ns - 1))"
proof -
  have loop: "snd (fold (\<lambda>n (first, size_n). (False, add_saturated (if first then size_n else add_saturated size_n 1) n))
      (map sat ms) (False, sat k)) = sat (k + sum_list ms + length ms)" for ms k
  proof (induction ms arbitrary: k)
    case (Cons m ms)
    have "add_saturated (add_saturated (sat k) 1) (sat m) = sat (Suc (k + m))"
      using add_saturated_sat [of k 1] add_saturated_sat [of "k + 1" m] by (simp add: sat_small)
    then show ?case using Cons by (simp add: algebra_simps)
  qed simp
  show ?thesis
  proof (cases ns)
    case Nil then show ?thesis by (simp add: elements_size_def sat_small)
  next
    case (Cons n ms)
    have "add_saturated 2 (sat n) = sat (2 + n)" using add_saturated_sat [of 2 n] by (simp add: sat_small)
    then show ?thesis using Cons loop [of ms "2 + n"] by (simp add: elements_size_def algebra_simps)
  qed
qed

lemma members_size_sat:
  "members_size (map (\<lambda>(k, n). (sat k, sat n)) ps) = sat (2 + sum_list (map (\<lambda>(k, n). k + 1 + n) ps) + (length ps - 1))"
proof -
  have one: "add_saturated (add_saturated (add_saturated (sat k) (sat a)) 1) (sat b) = sat (k + (a + 1 + b))" for k a b
    using add_saturated_sat [of k a] add_saturated_sat [of "k + a" 1] add_saturated_sat [of "k + a + 1" b]
    by (simp add: sat_small algebra_simps)
  have comma: "add_saturated (sat k) 1 = sat (Suc k)" for k
    using add_saturated_sat [of k 1] by (simp add: sat_small)
  have loop: "snd (fold (\<lambda>(k, n) (first, size_n).
                  (False, add_saturated (add_saturated (add_saturated
                     (if first then size_n else add_saturated size_n 1) k) 1) n))
      (map (\<lambda>(k, n). (sat k, sat n)) ms) (False, sat k)) =
      sat (k + sum_list (map (\<lambda>(k, n). k + 1 + n) ms) + length ms)" for ms k
  proof (induction ms arbitrary: k)
    case (Cons m ms)
    obtain a b where m: "m = (a, b)" by (cases m)
    show ?case using Cons [of "Suc k + (a + 1 + b)"] by (simp add: m one comma algebra_simps)
  qed simp
  show ?thesis
  proof (cases ps)
    case Nil then show ?thesis by (simp add: members_size_def sat_small)
  next
    case (Cons m ms)
    obtain a b where m: "m = (a, b)" by (cases m)
    have "add_saturated (add_saturated (add_saturated 2 (sat a)) 1) (sat b) = sat (2 + (a + 1 + b))"
      using one [of 2 a b] by (simp add: sat_small)
    then show ?thesis using Cons loop [where ms = ms and k = "2 + (a + 1 + b)"] by (simp add: members_size_def m algebra_simps)
  qed
qed

lemma digits_log: "n < 10 ^ Suc k \<Longrightarrow> length (nat_to_string n) \<le> Suc k"
proof (induction k arbitrary: n)
  case (Suc k)
  show ?case
  proof (cases "n < 10")
    case False
    have "n div 10 < 10 ^ Suc k" using Suc.prems by (simp add: div_less_iff_less_mult)
    then show ?thesis using False Suc.IH [of "n div 10"] by (subst nat_to_string.simps) auto
  qed (simp add: nat_to_string.simps [of n])
qed (subst nat_to_string.simps, simp)

lemma int_text_bound:
  fixes w :: int64
  shows "length (int_to_string (sint w)) < 2 ^ 64"
proof -
  have "nat \<bar>sint w\<bar> \<le> 2 ^ 63"
    using sint_ge [of w] sint_lt [of w] by simp
  then have "nat \<bar>sint w\<bar> < 10 ^ Suc 18" by simp
  then have "length (nat_to_string (nat \<bar>sint w\<bar>)) \<le> Suc 18" by (rule digits_log)
  then have "length (int_to_string (sint w)) \<le> 20" by (auto simp: int_to_string_def split: if_splits)
  then show ?thesis by simp
qed

lemma serialized_size_sat: "measured j \<Longrightarrow> serialized_json_size pf j = sat (length (wire_text df j))"
proof (induction j)
  case (JUInt i)
  then have "uint i < 2 ^ 63" unfolding uint_nat by (simp del: of_nat_unat)
  then have "signed_take_bit 63 (uint i) = uint i"
    by (intro signed_take_bit_int_eq_self) (use uint_ge_0 [of i] in linarith)+
  then have "sint i = int (unat i)" by (simp add: sint_uint)
  then show ?case
    using int_text_bound [of i] by (simp add: integer_json_size_def sat_small int_to_string_def)
next
  case (JArray xs)
  then have m: "map (serialized_json_size pf) xs = map sat (map (\<lambda>x. length (wire_text df x)) xs)" by simp
  show ?case
    unfolding serialized_json_size.simps m elements_size_sat by (simp add: join_comma_length comp_def)
next
  case (JObject kvs)
  have m: "map (\<lambda>kv. (escaped_json_string_size (fst kv), serialized_json_size pf (snd kv))) kvs =
      map (\<lambda>(k, n). (sat k, sat n)) (map (\<lambda>kv. (length (wire_string (fst kv)), length (wire_text df (snd kv)))) kvs)"
    using JObject by (auto simp: escaped_string_sat)
  show ?case
    unfolding serialized_json_size.simps m members_size_sat by (simp add: join_comma_length comp_def)
qed (simp_all add: sat_small [OF int_text_bound] sat_small escaped_string_sat integer_json_size_def)

text \<open>The size given to the rate limiter is the length of the serialised params, saturated at the
  largest \<open>size_t\<close>, for documents without doubles and without unsigned values of \<open>2 ^ 63\<close> or
  more; the largest unsigned integer is counted as two bytes instead of twenty.\<close>

theorem serialized_json_size_exact:
  "(measured j \<longrightarrow> serialized_json_size pf j = word_of_nat (min (length (wire_text df j)) (2 ^ 64 - 1))) \<and>
   serialized_json_size pf (JUInt (- 1)) = 2 \<and> length (wire_text df (JUInt (- 1))) = 20"
proof (intro conjI impI)
  show "serialized_json_size pf (JUInt (- 1)) = 2"
    by (simp add: integer_json_size_def int_to_string_def nat_to_string.simps [of "Suc 0"])
  have "length (nat_to_string (2 ^ 64 - 1)) = 20" by (simp add: nat_to_string.simps)
  then show "length (wire_text df (JUInt (- 1))) = 20"
    by (simp add: unsigned_minus_1_eq_mask mask_eq_exp_minus_1)
qed (use serialized_size_sat in \<open>auto simp: sat_def\<close>)

theorem serialized_json_size_exact_witness:
  "serialized_json_size (\<lambda>_. 0) (JObject [(''a'', JArray [JInt 12, JBool True])]) = 15"
proof -
  have "length (wire_text (\<lambda>_. []) (JObject [(''a'', JArray [JInt 12, JBool True])])) = 15"
    by (simp add: wire_string_def wire_char_def short_escapes_def int_to_string_def nat_to_string.simps)
  then show ?thesis
    using serialized_json_size_exact [of "JObject [(''a'', JArray [JInt 12, JBool True])]" "\<lambda>_. 0" "\<lambda>_. []"] by simp
qed

section \<open>Every request is answered\<close>

text \<open>A response that belongs to the request and carries either a result or an error.\<close>

definition proper :: "json_rpc_request \<Rightarrow> json_rpc_response \<Rightarrow> bool" where
  "proper req r \<longleftrightarrow> resp_id r = Some (req_id req) \<and> (has_result r \<or> has_error r)"

definition well_behaved :: "json_rpc_request \<Rightarrow> json_rpc_response outcome \<Rightarrow> bool" where
  "well_behaved req out \<longleftrightarrow>
     (case out of Val r \<Rightarrow> proper req r | Raise _ \<Rightarrow> True | RaiseUnknown \<Rightarrow> True | Undefined \<Rightarrow> False)"

lemma proper_simps [simp]:
  "proper req (make_response (req_id req) j)"
  "proper req (error_reply req c m d)"
  "proper req (error_of req e)"
  "proper req (make_params_error_response req e)"
  "proper req (method_not_configured req m)"
  "proper req (list_params_error req)"
  "proper req (reply req f r)"
  "proper req (make_auth_error_response req d)"
  by (auto simp: proper_def make_response_def error_reply_def error_of_def make_params_error_response_def
      method_not_configured_def list_params_error_def reply_def make_auth_error_response_def
      make_error_response_def has_result_def has_error_def split: sum.split)

lemma well_behaved_simps [simp]:
  "well_behaved req (Val r) = proper req r"
  "well_behaved req (Raise w)"
  "well_behaved req RaiseUnknown"
  "\<not> well_behaved req Undefined"
  by (simp_all add: well_behaved_def)

lemma outcome_of_defined [simp]: "outcome_of a \<noteq> Undefined"
  by (cases a) simp_all

lemma well_behaved_map [simp]:
  "out \<noteq> Undefined \<Longrightarrow> well_behaved req (map_outcome (reply req f) out)"
  by (cases out) (simp_all add: map_outcome_def)

text \<open>The handlers stored in the server have no undefined behaviour of their own.\<close>

definition defined1 :: "('a \<Rightarrow> 'b outcome) option \<Rightarrow> bool" where
  "defined1 h \<longleftrightarrow> (case h of None \<Rightarrow> True | Some f \<Rightarrow> \<forall>x. f x \<noteq> Undefined)"

definition defined2 :: "('a \<Rightarrow> 'b \<Rightarrow> 'c outcome) option \<Rightarrow> bool" where
  "defined2 h \<longleftrightarrow> (case h of None \<Rightarrow> True | Some f \<Rightarrow> \<forall>x y. f x y \<noteq> Undefined)"

definition defined3 :: "('a \<Rightarrow> 'b \<Rightarrow> 'c \<Rightarrow> 'd outcome) option \<Rightarrow> bool" where
  "defined3 h \<longleftrightarrow> (case h of None \<Rightarrow> True | Some f \<Rightarrow> \<forall>x y z. f x y z \<noteq> Undefined)"

definition handlers_defined :: "server_handlers \<Rightarrow> bool" where
  "handlers_defined h \<longleftrightarrow>
     defined3 (h_completion h) \<and> defined3 (h_sampling h) \<and> defined2 (h_logging h) \<and>
     defined2 (h_tools_list h) \<and> defined2 (h_prompts_list h) \<and> defined2 (h_resources_list h) \<and>
     defined2 (h_templates_list h) \<and> defined2 (h_task_list h) \<and> defined2 (h_task_get h) \<and>
     defined2 (h_task_cancel h) \<and> defined2 (h_task_result h) \<and>
     defined3 (h_raw_request_context h) \<and> defined2 (h_raw_request h)"

definition cancel_reads_live_record :: "server_env \<Rightarrow> json_rpc_request \<Rightarrow> server \<Rightarrow> bool" where
  "cancel_reads_live_record env req s \<longleftrightarrow>
     (case (task_cancel_params_from_json (req_params req), sv_task_processor s) of
        (Inr params, Some p) \<Rightarrow> fst (cancel_task params (env_clock env) (env_stamp env) p) \<noteq> UseAfterFree
      | _ \<Rightarrow> True)"

lemma with_processor_well_behaved:
  "(\<And>r. fst out = r \<Longrightarrow> well_behaved req (f r)) \<Longrightarrow> well_behaved req (fst (with_processor f out s))"
  by (cases out) (simp add: with_processor_def)

lemma tasks_well_behaved:
  assumes "handlers_defined (sv_handlers s)"
  shows "well_behaved req (fst (handle_tasks_list env req sc tok s))"
    and "well_behaved req (fst (handle_tasks_get env req sc tok s))"
    and "well_behaved req (fst (handle_tasks_result env req sc tok s))"
    and "cancel_reads_live_record env req s \<Longrightarrow> well_behaved req (fst (handle_tasks_cancel env req sc tok s))"
proof -
  have h: "defined2 (h_task_list (sv_handlers s))" "defined2 (h_task_get (sv_handlers s))"
    "defined2 (h_task_cancel (sv_handlers s))" "defined2 (h_task_result (sv_handlers s))"
    using assms by (auto simp: handlers_defined_def)
  show "well_behaved req (fst (handle_tasks_list env req sc tok s))"
    using h(1)
    by (auto simp: handle_tasks_list_def defined2_def intro!: with_processor_well_behaved
        split: sum.split option.splits parsed.split)
  show "well_behaved req (fst (handle_tasks_get env req sc tok s))"
    using h(2)
    by (auto simp: handle_tasks_get_def Let_def defined2_def intro!: with_processor_well_behaved
        split: sum.split option.splits)
  show "well_behaved req (fst (handle_tasks_result env req sc tok s))"
    using h(4)
    by (auto simp: handle_tasks_result_def defined2_def intro!: with_processor_well_behaved
        split: sum.split option.splits)
  assume "cancel_reads_live_record env req s"
  then show "well_behaved req (fst (handle_tasks_cancel env req sc tok s))"
    using h(3)
    by (auto simp: handle_tasks_cancel_def Let_def defined2_def cancel_reads_live_record_def
        intro!: with_processor_well_behaved split: sum.split option.splits checked.split)
qed

lemma lists_well_behaved:
  assumes "handlers_defined (sv_handlers s)"
  shows "well_behaved req (fst (handle_tools_list env req sc tok s))"
    and "well_behaved req (fst (handle_prompts_list env req sc tok s))"
    and "well_behaved req (fst (handle_resources_list env req sc tok s))"
    and "well_behaved req (fst (handle_templates_list env req sc tok s))"
  using assms
  by (auto simp: handle_tools_list_def handle_prompts_list_def handle_resources_list_def handle_templates_list_def
      handle_list_def list_tools_def list_prompts_def list_resources_def list_resource_templates_def
      handlers_defined_def defined2_def map_outcome_def split: option.splits prod.splits outcome.split)

lemma calls_well_behaved:
  "well_behaved req (fst (handle_tools_get env req sc tok s))"
  "well_behaved req (fst (handle_tools_call env req sc tok s))"
  "well_behaved req (fst (handle_prompts_get env req sc tok s))"
  "well_behaved req (fst (handle_resources_read env req sc tok s))"
  "well_behaved req (fst (handle_subscription b env req sc tok s))"
  "well_behaved req (fst (handle_initialize env req sc tok s))"
  "well_behaved req (fst (handle_discover env req sc tok s))"
proof -
  show "well_behaved req (fst (handle_tools_get env req sc tok s))"
    by (auto simp: handle_tools_get_def split: option.split json.split)
  show "well_behaved req (fst (handle_tools_call env req sc tok s))"
    by (auto simp: handle_tools_call_def Let_def intro!: with_processor_well_behaved
        split: parsed.split sum.split option.split)
  show "well_behaved req (fst (handle_prompts_get env req sc tok s))"
    by (auto simp: handle_prompts_get_def split: sum.split)
  show "well_behaved req (fst (handle_resources_read env req sc tok s))"
    by (auto simp: handle_resources_read_def split: sum.split)
  show "well_behaved req (fst (handle_subscription b env req sc tok s))"
    by (auto simp: handle_subscription_def split: option.split json.split prod.split)
  show "well_behaved req (fst (handle_initialize env req sc tok s))"
    by (auto simp: handle_initialize_def Let_def split: sum.split option.split)
  show "well_behaved req (fst (handle_discover env req sc tok s))"
    by (simp add: handle_discover_def)
qed

lemma json_well_behaved:
  "defined3 h \<Longrightarrow> well_behaved req (fst (handle_json h name env req sc tok s))"
  "handlers_defined (sv_handlers s) \<Longrightarrow> well_behaved req (fst (handle_set_level env req sc tok s))"
proof -
  show "defined3 h \<Longrightarrow> well_behaved req (fst (handle_json h name env req sc tok s))"
    by (auto simp: handle_json_def defined3_def split: option.splits)
  assume "handlers_defined (sv_handlers s)"
  then have d: "defined2 (h_logging (sv_handlers s))" by (simp add: handlers_defined_def)
  show "well_behaved req (fst (handle_set_level env req sc tok s))"
  proof (cases "jfind (req_params req) ''level''")
    case (Some v)
    then show ?thesis
      using d by (cases v; cases "h_logging (sv_handlers s)")
        (auto simp: handle_set_level_def defined2_def map_outcome_def split: outcome.split)
  qed (simp add: handle_set_level_def)
qed

lemma dispatch_method_well_behaved:
  assumes "handlers_defined (sv_handlers s)" "cancel_reads_live_record env req s"
  shows "well_behaved req (fst (dispatch_method env req sc tok s))"
proof -
  have h: "defined3 (h_completion (sv_handlers s))" "defined3 (h_sampling (sv_handlers s))"
    using assms(1) by (auto simp: handlers_defined_def)
  show ?thesis
    unfolding dispatch_method_def Let_def
    by (simp add: tasks_well_behaved [OF assms(1)] tasks_well_behaved(4) [OF assms] lists_well_behaved [OF assms(1)]
        calls_well_behaved json_well_behaved(1) [OF h(1)] json_well_behaved(1) [OF h(2)] json_well_behaved(2) [OF assms(1)])
qed

definition no_raw_handlers :: "server_handlers \<Rightarrow> bool" where
  "no_raw_handlers h \<longleftrightarrow> h_raw_request_context h = None \<and> h_raw_request h = None"

lemma begin_frame [simp]:
  "sv_handlers (snd (begin_request_cancellation rid s)) = sv_handlers s"
  "sv_task_processor (snd (begin_request_cancellation rid s)) = sv_task_processor s"
  "sv_rate_limiter (snd (begin_request_cancellation rid s)) = sv_rate_limiter s"
  by (simp_all add: begin_request_cancellation_def)

lemma refusal_proper: "rate_limit_refusal env req sc s = Gives (Some r) \<Longrightarrow> proper req r"
  by (auto simp: rate_limit_refusal_def split: option.splits attempt.splits sum.splits if_splits)

lemma catch_reply_proper: "well_behaved req out \<Longrightarrow> \<exists>r. catch_reply req out = Val r \<and> proper req r"
  by (cases out) (auto simp: catch_reply_def)

lemma stamped_proper: "proper req r \<Longrightarrow> proper req (r\<lparr>resp_result := map_option f (resp_result r)\<rparr>)"
  by (auto simp: proper_def has_result_def has_error_def)

definition same_flights :: "server \<Rightarrow> server \<Rightarrow> bool" where
  "same_flights s s' \<longleftrightarrow> sv_active s' = sv_active s \<and> sv_cancelled s' = sv_cancelled s \<and>
     sv_next_source s' = sv_next_source s \<and> sv_options s' = sv_options s"

lemma same_flights_refl [simp]: "same_flights s s"
  by (simp add: same_flights_def)

lemma with_processor_flights [simp]: "same_flights s (snd (with_processor f out s))"
  by (cases out) (simp add: with_processor_def same_flights_def emit_def)

lemma tasks_flights:
  "same_flights s (snd (handle_tasks_list env req sc tok s))"
  "same_flights s (snd (handle_tasks_get env req sc tok s))"
  "same_flights s (snd (handle_tasks_cancel env req sc tok s))"
  "same_flights s (snd (handle_tasks_result env req sc tok s))"
  by (auto simp: handle_tasks_list_def handle_tasks_get_def handle_tasks_cancel_def handle_tasks_result_def Let_def
      split: sum.split option.split)

lemma lists_flights:
  "same_flights s (snd (handle_tools_list env req sc tok s))"
  "same_flights s (snd (handle_prompts_list env req sc tok s))"
  "same_flights s (snd (handle_resources_list env req sc tok s))"
  "same_flights s (snd (handle_templates_list env req sc tok s))"
  by (auto simp: handle_tools_list_def handle_prompts_list_def handle_resources_list_def handle_templates_list_def
      handle_list_def list_tools_def list_prompts_def list_resources_def list_resource_templates_def
      same_flights_def split: option.splits prod.splits)

lemma calls_flights:
  "same_flights s (snd (handle_tools_get env req sc tok s))"
  "same_flights s (snd (handle_tools_call env req sc tok s))"
  "same_flights s (snd (handle_prompts_get env req sc tok s))"
  "same_flights s (snd (handle_resources_read env req sc tok s))"
  "same_flights s (snd (handle_json h name env req sc tok s))"
proof -
  show "same_flights s (snd (handle_tools_get env req sc tok s))"
    by (simp add: handle_tools_get_def split: option.split json.split)
  show "same_flights s (snd (handle_tools_call env req sc tok s))"
    by (simp add: handle_tools_call_def Let_def split: option.split parsed.split sum.split)
  show "same_flights s (snd (handle_prompts_get env req sc tok s))"
    by (simp add: handle_prompts_get_def split: sum.split)
  show "same_flights s (snd (handle_resources_read env req sc tok s))"
    by (simp add: handle_resources_read_def split: sum.split)
  show "same_flights s (snd (handle_json h name env req sc tok s))"
    by (simp add: handle_json_def split: option.split)
qed

lemma set_subscription_flights [simp]: "same_flights s (snd (set_resource_subscription sc uri b s))"
  by (auto simp: set_resource_subscription_def Let_def same_flights_def split: option.split)

lemma subscription_flights:
  "same_flights s (snd (handle_subscription b env req sc tok s))"
  "same_flights s (snd (handle_set_level env req sc tok s))"
proof -
  show "same_flights s (snd (handle_subscription b env req sc tok s))"
    by (simp add: handle_subscription_def case_prod_unfold Let_def split: option.split json.split)
  show "same_flights s (snd (handle_set_level env req sc tok s))"
    by (auto simp: handle_set_level_def same_flights_def emit_def split: option.split json.split)
qed

lemma dispatch_method_flights: "same_flights s (snd (dispatch_method env req sc tok s))"
  unfolding dispatch_method_def Let_def
  by (simp add: tasks_flights lists_flights calls_flights subscription_flights)

lemma raw_flights: "same_flights s (snd (raw_response env req sc tok s))"
proof -
  define first where "first = (case h_raw_request_context (sv_handlers s) of None \<Rightarrow> Val None | Some h \<Rightarrow> h req sc tok)"
  define second where "second = (case h_raw_request (sv_handlers s) of None \<Rightarrow> Val None | Some h \<Rightarrow> h req sc)"
  show ?thesis
    unfolding raw_response_def first_def [symmetric] second_def [symmetric] Let_def
    using dispatch_method_flights [of s env req sc tok] by (simp split: outcome.split option.split)
qed

lemma dispatch_flights: "same_flights s (snd (dispatch env req sc tok s))"
proof -
  have "same_flights s (snd (handle_initialize env req sc tok s))"
    by (simp add: handle_initialize_def Let_def split: sum.split option.split)
  then show ?thesis using raw_flights [of s env req sc tok] by (simp add: dispatch_def handle_discover_def)
qed

lemma begin_active: "begin_request_cancellation rid s = (tok, s1) \<Longrightarrow>
  sv_active s1 = al_set (request_cancellation_key rid) (sv_next_source s) (sv_active s) \<and> sv_cancelled s1 = sv_cancelled s"
  by (auto simp: begin_request_cancellation_def)

lemma handled_flights:
  assumes "authenticate_context sc s = Gives (Inr sc')"
  shows "map_of (sv_active (snd (handle_request env req sc s))) =
        (map_of (sv_active s))(request_cancellation_key (req_id req) := None)"
    "sv_cancelled (snd (handle_request env req sc s)) = sv_cancelled s"
proof -
  obtain tok s1 where b: "begin_request_cancellation (req_id req) s = (tok, s1)" by force
  obtain out s2 where d: "(case rate_limit_refusal env req sc' s1 of
        Throwing w \<Rightarrow> (Raise w, s1) | ThrowingUnknown \<Rightarrow> (RaiseUnknown, s1) | Gives (Some r) \<Rightarrow> (Val r, s1)
      | Gives None \<Rightarrow> dispatch env req sc' tok s1) = (out, s2)" by force
  have "same_flights s1 s2"
    using d dispatch_flights [of s1 env req sc' tok] by (auto split: option.splits attempt.splits)
  then have act: "sv_active s2 = sv_active s1" "sv_cancelled s2 = sv_cancelled s1" by (simp_all add: same_flights_def)
  have h: "snd (handle_request env req sc s) = end_request_cancellation (req_id req) s2"
    using assms b d by (simp add: handle_request_def handle_request_impl_def)
  show "map_of (sv_active (snd (handle_request env req sc s))) =
        (map_of (sv_active s))(request_cancellation_key (req_id req) := None)"
    "sv_cancelled (snd (handle_request env req sc s)) = sv_cancelled s"
    unfolding h using begin_active [OF b] act by (auto simp: end_request_cancellation_def)
qed

text \<open>Where the answer to a request may come from: the server, or a raw handler, whose response is passed on as it is.\<close>

definition raw_gives :: "json_rpc_request \<Rightarrow> server \<Rightarrow> json_rpc_response \<Rightarrow> bool" where
  "raw_gives req s r \<longleftrightarrow>
     (\<exists>h sc tok. h_raw_request_context (sv_handlers s) = Some h \<and> h req sc tok = Val (Some r)) \<or>
     (\<exists>h sc. h_raw_request (sv_handlers s) = Some h \<and> h req sc = Val (Some r))"

definition answered_by :: "json_rpc_request \<Rightarrow> server \<Rightarrow> json_rpc_response outcome \<Rightarrow> bool" where
  "answered_by req s out \<longleftrightarrow> well_behaved req out \<or> (\<exists>r. out = Val r \<and> raw_gives req s r)"

lemma dispatch_answered:
  assumes "handlers_defined (sv_handlers s)" "cancel_reads_live_record env req s"
  shows "answered_by req s (fst (dispatch env req sc tok s))"
proof -
  have d: "defined3 (h_raw_request_context (sv_handlers s))" "defined2 (h_raw_request (sv_handlers s))"
    using assms(1) by (simp_all add: handlers_defined_def)
  have "answered_by req s (fst (raw_response env req sc tok s))"
    using d dispatch_method_well_behaved [OF assms, of sc tok]
    by (auto simp: raw_response_def answered_by_def raw_gives_def defined2_def defined3_def Let_def split: option.splits outcome.split)
  then show ?thesis
    using calls_well_behaved by (auto simp: dispatch_def answered_by_def)
qed

lemma handle_request_impl_answers:
  assumes "handlers_defined (sv_handlers s)" "cancel_reads_live_record env req s"
  shows "\<exists>r s'. handle_request_impl env req sc s = (Val r, s') \<and> (proper req r \<or> raw_gives req s r)"
proof (cases "\<exists>sc'. authenticate_context sc s = Gives (Inr sc')")
  case False
  then show ?thesis
    by (cases "authenticate_context sc s") (auto simp: handle_request_impl_def catch_reply_def split: sum.splits)
next
  case True
  then obtain sc' where auth: "authenticate_context sc s = Gives (Inr sc')" ..
  obtain tok s1 where b: "begin_request_cancellation (req_id req) s = (tok, s1)" by force
  have s1: "sv_handlers s1 = sv_handlers s" "sv_task_processor s1 = sv_task_processor s"
    using begin_frame [of "req_id req" s] b by auto
  obtain out s2 where d: "(case rate_limit_refusal env req sc' s1 of
        Throwing w \<Rightarrow> (Raise w, s1) | ThrowingUnknown \<Rightarrow> (RaiseUnknown, s1) | Gives (Some r) \<Rightarrow> (Val r, s1)
      | Gives None \<Rightarrow> dispatch env req sc' tok s1) = (out, s2)" by force
  have "answered_by req s1 (fst (dispatch env req sc' tok s1))"
    using assms s1 by (intro dispatch_answered) (simp_all add: cancel_reads_live_record_def)
  then have "answered_by req s out"
    using d refusal_proper [of env req sc' s1] s1(1)
    by (auto simp: answered_by_def raw_gives_def split: attempt.splits option.splits)
  then have "\<exists>r. catch_reply req out = Val r \<and> (proper req r \<or> raw_gives req s r)"
    using catch_reply_proper [of req out] by (auto simp: answered_by_def catch_reply_def)
  moreover have "handle_request_impl env req sc s = (catch_reply req out, end_request_cancellation (req_id req) s2)"
    using auth b d by (simp add: handle_request_impl_def)
  ultimately show ?thesis by auto
qed

lemma unauthenticated_unchanged:
  "\<nexists>sc'. authenticate_context sc s = Gives (Inr sc') \<Longrightarrow> snd (handle_request env req sc s) = s"
  by (cases "authenticate_context sc s") (auto simp: handle_request_def handle_request_impl_def split: sum.splits)

text \<open>C15: whatever the request, the state and what the handlers, the auth provider, the rate limiter and the schema
  validator do (an exception included), the server returns a response. It has the id of the request and
  either a result or an error, or it is the response of a raw handler, with the members the wire requires added to
  its result; without raw handlers it is always of the first kind. An authenticated request leaves no cancellation
  entry under its id and all others as they were; a request that is not authenticated leaves the server as
  it was. The exception is tasks/cancel when the cancelled record is trimmed before it is read.\<close>

theorem handle_request_answers:
  assumes "handlers_defined (sv_handlers s)" "cancel_reads_live_record env req s"
  shows "\<exists>r s'. handle_request env req sc s = (Val r, s') \<and>
     (resp_id r = Some (req_id req) \<and> (has_result r \<or> has_error r) \<or>
      (\<exists>r0. raw_gives req s r0 \<and> r = r0\<lparr>resp_result := map_option (stamp_result req sc) (resp_result r0)\<rparr>)) \<and>
     (no_raw_handlers (sv_handlers s) \<longrightarrow> resp_id r = Some (req_id req) \<and> (has_result r \<or> has_error r)) \<and>
     (if \<exists>sc'. authenticate_context sc s = Gives (Inr sc')
      then map_of (sv_active s') = (map_of (sv_active s))(request_cancellation_key (req_id req) := None)
      else s' = s)"
proof -
  obtain r0 s' where impl: "handle_request_impl env req sc s = (Val r0, s')" "proper req r0 \<or> raw_gives req s r0"
    using handle_request_impl_answers [OF assms] by blast
  define r where "r = r0\<lparr>resp_result := map_option (stamp_result req sc) (resp_result r0)\<rparr>"
  have run: "handle_request env req sc s = (Val r, s')" using impl(1) by (simp add: handle_request_def map_outcome_def r_def)
  have "\<not> raw_gives req s r0" if "no_raw_handlers (sv_handlers s)" using that by (auto simp: raw_gives_def no_raw_handlers_def)
  then have "proper req r \<or> raw_gives req s r0" "no_raw_handlers (sv_handlers s) \<longrightarrow> proper req r"
    using impl(2) stamped_proper [of req r0 "stamp_result req sc"] by (auto simp: r_def)
  moreover have "if \<exists>sc'. authenticate_context sc s = Gives (Inr sc')
      then map_of (sv_active s') = (map_of (sv_active s))(request_cancellation_key (req_id req) := None) else s' = s"
    using handled_flights(1) [of sc s _ env req] unauthenticated_unchanged [of sc s env req] run by auto
  ultimately show ?thesis using run by (auto simp: proper_def r_def)
qed

definition sample_env :: server_env where
  "sample_env = \<lparr>env_clock = (\<lambda>_. 0), env_stamp = (\<lambda>_. ''''), env_what = ''error'', env_printf_g17 = (\<lambda>_. 1),
     env_notify = (\<lambda>_ _. Inr ()), env_ask = (\<lambda>_ _. Inl (handler_failed ''''))\<rparr>"

definition sample_server :: server where
  "sample_server = set_completion_handler (Some (\<lambda>_ _ _. Raise ''boom'')) (new_server (sb_options new_builder))"

theorem handle_request_answers_witness:
  "\<exists>r s'. handle_request sample_env (make_request ''completion/complete'' (IdInt 7) JNull) empty_session sample_server =
     (Val r, s') \<and> resp_id r = Some (IdInt 7) \<and> (has_result r \<or> has_error r) \<and>
     map_of (sv_active s') (request_cancellation_key (IdInt 7)) = None"
proof -
  let ?req = "make_request ''completion/complete'' (IdInt 7) JNull"
  have "handlers_defined (sv_handlers sample_server)" "no_raw_handlers (sv_handlers sample_server)"
    "cancel_reads_live_record sample_env ?req sample_server" "\<exists>sc. authenticate_context empty_session sample_server = Gives (Inr sc)"
    by (simp_all add: sample_server_def set_completion_handler_def new_server_def no_handlers_def handlers_defined_def
      defined3_def defined2_def no_raw_handlers_def cancel_reads_live_record_def authenticate_context_def split: sum.split)
  moreover have "req_id ?req = IdInt 7" by (simp add: make_request_def)
  ultimately show ?thesis using handle_request_answers [of sample_server sample_env ?req empty_session] by auto
qed

end
