(* ===== verification/Server_Sessions.thy ===== *)
theory Server_Sessions
  imports Server_Correct
begin

text \<open>
  The shared state of the server across sessions: cancellation of in-flight requests under
  interleaving, resource subscriptions against their abstract specification, the authentication
  gate, and the members stamped on results.
\<close>

section \<open>Keys of request ids\<close>

lemma request_cancellation_key_inject [simp]:
  "request_cancellation_key a = request_cancellation_key b \<longleftrightarrow> a = b"
  by (cases a; cases b) (auto simp: int_to_string_inject dest: signed_word_eqI)

section \<open>Requests in flight\<close>

text \<open>
  The server together with the requests that are being handled: session, id and the source whose
  token the handler received. A request may start at any time unless its own session still has
  one with that id in flight (the rule of the protocol); it ends at any time; a
  \<open>notifications/cancelled\<close> may arrive from any session at any time.
\<close>

type_synonym flights = "(string \<times> request_id \<times> nat) list"

inductive flight_step :: "server \<times> flights \<Rightarrow> server \<times> flights \<Rightarrow> bool" where
  arrive: "\<forall>src. (sess, rid, src) \<notin> set fl \<Longrightarrow>
    flight_step (s, fl) (snd (begin_request_cancellation rid s), (sess, rid, sv_next_source s) # fl)"
| finish: "(sess, rid, src) \<in> set fl \<Longrightarrow>
    flight_step (s, fl) (end_request_cancellation rid s, removeAll (sess, rid, src) fl)"
| cancel_notified: "flight_step (s, fl) (cancel_request rid s, fl)"

text \<open>The same when no two requests in flight share an id, whatever their sessions.\<close>

inductive unique_step :: "server \<times> flights \<Rightarrow> server \<times> flights \<Rightarrow> bool" where
  arrive: "\<forall>sess' src. (sess', rid, src) \<notin> set fl \<Longrightarrow>
    unique_step (s, fl) (snd (begin_request_cancellation rid s), (sess, rid, sv_next_source s) # fl)"
| finish: "(sess, rid, src) \<in> set fl \<Longrightarrow>
    unique_step (s, fl) (end_request_cancellation rid s, removeAll (sess, rid, src) fl)"
| cancel_notified: "unique_step (s, fl) (cancel_request rid s, fl)"

inductive_cases unique_stepE: "unique_step (s, fl) c"

definition flights_ok :: "server \<times> flights \<Rightarrow> bool" where
  "flights_ok c \<longleftrightarrow> (case c of (s, fl) \<Rightarrow>
     (\<forall>rid src. map_of (sv_active s) (request_cancellation_key rid) = Some src \<longleftrightarrow> (\<exists>sess. (sess, rid, src) \<in> set fl)) \<and>
     (\<forall>sess rid src sess' src'. (sess, rid, src) \<in> set fl \<and> (sess', rid, src') \<in> set fl \<longrightarrow> sess = sess' \<and> src = src'))"

lemma cancel_request_frame [simp]:
  "sv_active (cancel_request rid s) = sv_active s"
  "sv_next_source (cancel_request rid s) = sv_next_source s"
  by (simp_all add: cancel_request_def split: option.split)

lemma flights_ok_step: "unique_step c c' \<Longrightarrow> flights_ok c \<Longrightarrow> flights_ok c'"
proof (induction rule: unique_step.induct)
  case (arrive rid fl s sess)
  then show ?case
    by (auto simp: flights_ok_def begin_request_cancellation_def)
next
  case (finish sess rid src fl s)
  then show ?case
    unfolding flights_ok_def end_request_cancellation_def by (auto; blast)
qed (simp add: flights_ok_def)

lemma flights_ok_reachable:
  assumes "unique_step\<^sup>*\<^sup>* (new_server o1, []) c"
  shows "flights_ok c"
  using assms
proof (induction rule: rtranclp_induct)
  case base
  show ?case by (simp add: flights_ok_def new_server_def)
qed (rule flights_ok_step)

text \<open>What a cancelled notification does: no session is consulted.\<close>

lemma cancelled_notification_cancels:
  assumes "h_raw_notification (sv_handlers s) = None"
  shows "handle_notification (make_notification ''notifications/cancelled''
           (cancelled_notification_params_to_json \<lparr>cn_request_id = rid, cn_reason = why\<rparr>)) sc s =
         (Val (Inr ()), cancel_request rid s)"
  using assms
  by (simp add: handle_notification_def then_result_def notification_action_def make_notification_def catch_result_def)

lemma collision_reachable:
  fixes o1 :: server_options
  defines "s1 \<equiv> snd (begin_request_cancellation (IdInt 1) (new_server o1))"
  defines "s2 \<equiv> snd (begin_request_cancellation (IdInt 1) s1)"
  shows "flight_step\<^sup>*\<^sup>* (new_server o1, []) (s2, [(''b'', IdInt 1, 1), (''a'', IdInt 1, 0)])"
    and "flight_step\<^sup>*\<^sup>* (new_server o1, []) (end_request_cancellation (IdInt 1) s2, [(''a'', IdInt 1, 0)])"
proof -
  have n: "sv_next_source (new_server o1) = 0" "sv_next_source s1 = 1"
    by (simp_all add: s1_def new_server_def begin_request_cancellation_def)
  have a: "flight_step (new_server o1, []) (s1, [(''a'', IdInt 1, 0)])"
    using flight_step.arrive [of "''a''" "IdInt 1" "[]" "new_server o1"] n by (simp add: s1_def)
  have b: "flight_step (s1, [(''a'', IdInt 1, 0)]) (s2, [(''b'', IdInt 1, 1), (''a'', IdInt 1, 0)])"
    using flight_step.arrive [of "''b''" "IdInt 1" "[(''a'', IdInt 1, 0)]" s1] n by (simp add: s2_def)
  have c: "flight_step (s2, [(''b'', IdInt 1, 1), (''a'', IdInt 1, 0)])
      (end_request_cancellation (IdInt 1) s2, [(''a'', IdInt 1, 0)])"
    using flight_step.finish [of "''b''" "IdInt 1" 1 "[(''b'', IdInt 1, 1), (''a'', IdInt 1, 0)]" s2] by simp
  show two: "flight_step\<^sup>*\<^sup>* (new_server o1, []) (s2, [(''b'', IdInt 1, 1), (''a'', IdInt 1, 0)])"
    using a b by (meson converse_rtranclp_into_rtranclp rtranclp.rtrancl_refl)
  show "flight_step\<^sup>*\<^sup>* (new_server o1, []) (end_request_cancellation (IdInt 1) s2, [(''a'', IdInt 1, 0)])"
    using two c by (rule rtranclp.rtrancl_into_rtrancl)
qed

text \<open>C17: as long as no two requests in flight share an id, a cancelled notification cancels exactly
  the request with that id, and one for an id that is not in flight does nothing. Ids are unique
  per session only: with two sessions using the same id, a cancelled notification reaches the
  request that started last, whichever session sends it, and once that request has ended the
  other one can no longer be cancelled.\<close>

theorem cancellation_by_request_id:
  "(unique_step\<^sup>*\<^sup>* (new_server o1, []) (s, fl) \<longrightarrow>
      ((sess, rid, src) \<in> set fl \<longrightarrow> sv_cancelled (cancel_request rid s) = src # sv_cancelled s) \<and>
      ((\<forall>x. x \<in> set fl \<longrightarrow> fst (snd x) \<noteq> rid) \<longrightarrow> cancel_request rid s = s)) \<and>
   (\<exists>s. flight_step\<^sup>*\<^sup>* (new_server o1, []) (s, [(''b'', IdInt 1, 1), (''a'', IdInt 1, 0)]) \<and>
        sv_cancelled (cancel_request (IdInt 1) s) = [1]) \<and>
   (\<exists>s. flight_step\<^sup>*\<^sup>* (new_server o1, []) (s, [(''a'', IdInt 1, 0)]) \<and> cancel_request (IdInt 1) s = s)"
proof (intro conjI impI)
  assume r: "unique_step\<^sup>*\<^sup>* (new_server o1, []) (s, fl)"
  have ok: "flights_ok (s, fl)" using r by (rule flights_ok_reachable)
  show "sv_cancelled (cancel_request rid s) = src # sv_cancelled s" if "(sess, rid, src) \<in> set fl"
  proof -
    have "map_of (sv_active s) (request_cancellation_key rid) = Some src"
      using ok that unfolding flights_ok_def by blast
    then show ?thesis by (simp add: cancel_request_def)
  qed
  show "cancel_request rid s = s" if "\<forall>x. x \<in> set fl \<longrightarrow> fst (snd x) \<noteq> rid"
  proof (cases "map_of (sv_active s) (request_cancellation_key rid)")
    case None then show ?thesis by (simp add: cancel_request_def)
  next
    case (Some src)
    then obtain sess where "(sess, rid, src) \<in> set fl" using ok unfolding flights_ok_def by blast
    then show ?thesis using that by force
  qed
next
  show "\<exists>s. flight_step\<^sup>*\<^sup>* (new_server o1, []) (s, [(''b'', IdInt 1, 1), (''a'', IdInt 1, 0)]) \<and>
        sv_cancelled (cancel_request (IdInt 1) s) = [1]"
    using collision_reachable(1) [of o1]
    by (intro exI conjI) (assumption, simp add: begin_request_cancellation_def cancel_request_def new_server_def)
  show "\<exists>s. flight_step\<^sup>*\<^sup>* (new_server o1, []) (s, [(''a'', IdInt 1, 0)]) \<and> cancel_request (IdInt 1) s = s"
    using collision_reachable(2) [of o1]
    by (intro exI conjI)
      (assumption, simp add: begin_request_cancellation_def end_request_cancellation_def cancel_request_def new_server_def)
qed

theorem cancellation_by_request_id_witness:
  "sv_cancelled (cancel_request (IdString ''x'')
     (snd (begin_request_cancellation (IdString ''x'') (new_server (sb_options new_builder))))) = [0]"
proof -
  let ?n = "new_server (sb_options new_builder)"
  let ?s = "snd (begin_request_cancellation (IdString ''x'') ?n)"
  have "unique_step (?n, []) (?s, [(''a'', IdString ''x'', sv_next_source ?n)])"
    by (rule unique_step.arrive) simp
  then have "unique_step\<^sup>*\<^sup>* (?n, []) (?s, [(''a'', IdString ''x'', 0)])"
    by (auto simp: new_server_def)
  then have "sv_cancelled (cancel_request (IdString ''x'') ?s) = 0 # sv_cancelled ?s"
    using cancellation_by_request_id [of "sb_options new_builder" ?s "[(''a'', IdString ''x'', 0)]" "''a''" "IdString ''x''" 0]
    by simp
  then show ?thesis by (simp add: begin_request_cancellation_def new_server_def)
qed

section \<open>Subscriptions\<close>

text \<open>
  The abstract specification: a map from transports to sets of uris. A history of subscribe and
  unsubscribe calls determines it; a store that follows the two laws agrees with it.
\<close>

datatype sub_op = Subscribe nat string | Unsubscribe nat string

fun spec_step :: "sub_op \<Rightarrow> (nat \<Rightarrow> string set) \<Rightarrow> nat \<Rightarrow> string set" where
  "spec_step (Subscribe t u) m = m(t := insert u (m t))"
| "spec_step (Unsubscribe t u) m = m(t := m t - {u})"

definition spec_subscriptions :: "sub_op list \<Rightarrow> nat \<Rightarrow> string set" where
  "spec_subscriptions ops = fold spec_step ops (\<lambda>_. {})"

locale subscription_store =
  fixes view :: "'s \<Rightarrow> nat \<Rightarrow> string set"
    and perform :: "sub_op \<Rightarrow> 's \<Rightarrow> 's"
    and ok :: "'s \<Rightarrow> bool"
  assumes view_perform: "ok s \<Longrightarrow> view (perform x s) = spec_step x (view s)"
    and ok_perform: "ok s \<Longrightarrow> ok (perform x s)"
begin

lemma view_history: "ok s \<Longrightarrow> view (fold perform ops s) = fold spec_step ops (view s) \<and> ok (fold perform ops s)"
  by (induction ops arbitrary: s) (simp_all add: view_perform ok_perform)

lemma from_empty: "ok s \<Longrightarrow> view s = (\<lambda>_. {}) \<Longrightarrow> view (fold perform ops s) = spec_subscriptions ops"
  using view_history by (simp add: spec_subscriptions_def)

end

definition view_subs :: "server \<Rightarrow> nat \<Rightarrow> string set" where
  "view_subs s t = set (sub_uris t (sv_subscriptions s))"

fun perform_sub :: "sub_op \<Rightarrow> server \<Rightarrow> server" where
  "perform_sub (Subscribe t u) s = snd (set_resource_subscription (empty_session\<lparr>sc_transport := Some t\<rparr>) u True s)"
| "perform_sub (Unsubscribe t u) s = snd (set_resource_subscription (empty_session\<lparr>sc_transport := Some t\<rparr>) u False s)"

definition subs_ok :: "server \<Rightarrow> bool" where
  "subs_ok s \<longleftrightarrow> distinct (map fst (sv_subscriptions s)) \<and> (\<forall>p\<in>set (sv_subscriptions s). snd p \<noteq> [])"

lemma map_of_remove: "map_of (filter (\<lambda>p. fst p \<noteq> t) xs) k = (if k = t then None else map_of xs k)"
  by (induction xs) auto

lemma sub_uris_put [simp]: "sub_uris k (sub_put t us subs) = (if k = t then us else sub_uris k subs)"
  by (simp add: sub_uris_def sub_put_def map_of_remove)

lemma sub_uris_remove [simp]: "sub_uris k (filter (\<lambda>p. fst p \<noteq> t) subs) = (if k = t then [] else sub_uris k subs)"
  by (simp add: sub_uris_def map_of_remove)

lemma distinct_remove: "distinct (map fst xs) \<Longrightarrow> distinct (map fst (filter P xs))"
  by (induction xs) auto

interpretation subs: subscription_store view_subs perform_sub subs_ok
proof unfold_locales
  fix s x
  assume ok: "subs_ok s"
  show "view_subs (perform_sub x s) = spec_step x (view_subs s)"
    by (cases x) (auto simp: view_subs_def set_resource_subscription_def Let_def empty_session_def fun_eq_iff filter_empty_conv)
  show "subs_ok (perform_sub x s)"
    using ok
    by (cases x) (auto simp: subs_ok_def set_resource_subscription_def Let_def empty_session_def sub_put_def
        distinct_remove List.insert_def)
qed

lemma subscribers_exact:
  assumes "subs_ok s"
  shows "distinct (subscribers uri s)" "t \<in> set (subscribers uri s) \<longleftrightarrow> uri \<in> view_subs s t"
proof -
  show "distinct (subscribers uri s)"
    using assms by (auto simp: subscribers_def subs_ok_def intro: distinct_remove)
  show "t \<in> set (subscribers uri s) \<longleftrightarrow> uri \<in> view_subs s t"
    using assms
    by (auto simp: subscribers_def view_subs_def sub_uris_def subs_ok_def image_iff split: option.splits
        dest: map_of_SomeD)
qed

lemma no_subscriptions: "subs_ok s \<Longrightarrow> sv_subscriptions s = [] \<longleftrightarrow> view_subs s = (\<lambda>_. {})"
proof
  assume ok: "subs_ok s" and v: "view_subs s = (\<lambda>_. {})"
  show "sv_subscriptions s = []"
  proof (cases "sv_subscriptions s")
    case (Cons p ps)
    then have "sub_uris (fst p) (sv_subscriptions s) = snd p" by (cases p) (simp add: sub_uris_def)
    then have "snd p = []" using fun_cong [OF v, of "fst p"] by (simp add: view_subs_def)
    then show ?thesis using ok Cons by (simp add: subs_ok_def)
  qed
qed (simp add: view_subs_def sub_uris_def fun_eq_iff)

lemma send_all_ok:
  assumes "\<And>t. t \<in> set ts \<Longrightarrow> env_notify env t n = Inr ()"
  shows "send_all env n ts s = (Inr (), emit (map (\<lambda>t. SentNotification t n) ts) s)"
  using assms
proof (induction ts arbitrary: s)
  case (Cons t ts)
  then show ?case by (simp add: emit_def)
qed (simp add: emit_def)

lemma perform_sub_transports:
  "sv_transports (fold perform_sub ops s) = sv_transports s \<and> sv_session_transports (fold perform_sub ops s) = sv_session_transports s"
proof (induction ops arbitrary: s)
  case (Cons x ops)
  have "sv_transports (perform_sub x s) = sv_transports s \<and> sv_session_transports (perform_sub x s) = sv_session_transports s"
    by (cases x) (auto simp: set_resource_subscription_def Let_def empty_session_def)
  then show ?case using Cons by simp
qed simp

text \<open>C18: on a server with any transports and no subscriptions yet, the subscriptions implement the abstract map from
  transports to sets of uris for every
  history of subscribe and unsubscribe requests; an update of a resource is sent to exactly the
  subscribed transports, once each, but when no subscription of any kind is left it is sent to
  all transports and session transports of the server in their order, subscribed or not. Sending succeeds on every
  transport.\<close>

theorem subscriptions_refine:
  fixes env :: server_env and ops :: "sub_op list" and s0 :: server and uri :: string
  assumes "\<And>t n. env_notify env t n = Inr ()" "sv_subscriptions s0 = []"
  defines "s \<equiv> fold perform_sub ops s0"
    and "m \<equiv> spec_subscriptions ops"
    and "n \<equiv> make_notification ''notifications/resources/updated'' (JObject [(''uri'', JString uri)])"
  shows "view_subs s = m \<and>
    (\<exists>ts. notify_resource_updated env uri s = (Inr (), emit (map (\<lambda>t. SentNotification t n) ts) s) \<and>
      (if m = (\<lambda>_. {}) then ts = sv_transports s0 @ sv_session_transports s0
       else distinct ts \<and> set ts = {t. uri \<in> m t}))"
proof -
  have ok: "subs_ok s0" "view_subs s0 = (\<lambda>_. {})"
    using assms(2) by (simp_all add: subs_ok_def view_subs_def sub_uris_def fun_eq_iff)
  have s: "view_subs s = m" "subs_ok s"
    using subs.from_empty [OF ok, of ops] subs.view_history [OF ok(1), of ops] by (simp_all add: s_def m_def)
  show ?thesis
  proof (cases "m = (\<lambda>_. {})")
    case True
    then have "sv_subscriptions s = []" using no_subscriptions [OF s(2)] s(1) by simp
    then show ?thesis
      using True s(1) assms(1) perform_sub_transports [of ops s0]
      by (simp add: notify_resource_updated_def notify_resource_subscribers_def broadcast_notification_def
          send_all_ok n_def s_def)
  next
    case False
    then have ne: "sv_subscriptions s \<noteq> []" using no_subscriptions [OF s(2)] s(1) by simp
    have "notify_resource_updated env uri s = (Inr (), emit (map (\<lambda>t. SentNotification t n) (subscribers uri s)) s)"
      using ne assms(1)
      by (simp add: notify_resource_updated_def notify_resource_subscribers_def Let_def send_all_ok n_def emit_def)
    moreover have "set (subscribers uri s) = {t. uri \<in> m t}" using subscribers_exact(2) [OF s(2)] s(1) by auto
    ultimately show ?thesis using False s(1) subscribers_exact(1) [OF s(2)] by auto
  qed
qed

text \<open>Two transports; one subscribes to another uri, and then the only subscription is withdrawn.\<close>

definition two_transports :: server where
  "two_transports = (new_server (sb_options new_builder))\<lparr>sv_transports := [7], sv_session_transports := [8]\<rparr>"

theorem subscriptions_refine_witness:
  "view_subs (fold perform_sub [Subscribe 7 ''u'', Subscribe 8 ''v'', Unsubscribe 7 ''u''] two_transports) 8 = {''v''} \<and>
   sv_events (snd (notify_resource_updated sample_env ''u'' (fold perform_sub [Subscribe 8 ''v'', Unsubscribe 8 ''v''] two_transports))) =
     map (\<lambda>t. SentNotification t (make_notification ''notifications/resources/updated'' (JObject [(''uri'', JString ''u'')]))) [7, 8]"
proof -
  have env: "\<And>t n. env_notify sample_env t n = Inr ()" by (simp add: sample_env_def)
  have none: "sv_subscriptions two_transports = []" "sv_transports two_transports = [7]" "sv_session_transports two_transports = [8]"
    by (simp_all add: two_transports_def new_server_def)
  have spec: "spec_subscriptions [Subscribe 8 ''v'', Unsubscribe 8 ''v''] = (\<lambda>_. {})"
    by (auto simp: spec_subscriptions_def fun_eq_iff)
  have "sv_events (fold perform_sub [Subscribe 8 ''v'', Unsubscribe 8 ''v''] two_transports) = []"
    by (simp add: set_resource_subscription_def empty_session_def two_transports_def new_server_def Let_def)
  then show ?thesis
    using subscriptions_refine [OF env none(1), of "[Subscribe 7 ''u'', Subscribe 8 ''v'', Unsubscribe 7 ''u'']" "''u''"]
      subscriptions_refine [OF env none(1), of "[Subscribe 8 ''v'', Unsubscribe 8 ''v'']" "''u''"]
    by (auto simp: spec none emit_def) (auto simp: spec_subscriptions_def split: if_splits)
qed

section \<open>The gate\<close>

text \<open>The state after a request that ran no handler: a source number is used up and nothing is in flight under its id.\<close>

definition gate_state :: "json_rpc_request \<Rightarrow> server \<Rightarrow> server" where
  "gate_state req s = s\<lparr>sv_active := al_erase (request_cancellation_key (req_id req))
       (al_set (request_cancellation_key (req_id req)) (sv_next_source s) (sv_active s)),
     sv_next_source := Suc (sv_next_source s)\<rparr>"

lemma gate_state_eq: "end_request_cancellation (req_id req) (snd (begin_request_cancellation (req_id req) s)) = gate_state req s"
  by (simp add: end_request_cancellation_def begin_request_cancellation_def gate_state_def)

lemma gate_state_active: "map_of (sv_active (gate_state req s)) = (map_of (sv_active s))(request_cancellation_key (req_id req) := None)"
  by (auto simp: gate_state_def)

lemma refusal_no_result:
  "rate_limit_refusal env req sc s = Gives (Some r) \<Longrightarrow> resp_result r = None"
  by (auto simp: rate_limit_refusal_def error_reply_def make_error_response_def
      split: option.splits attempt.splits sum.splits if_splits)

lemma error_of_no_result: "resp_result (error_of req e) = None"
  by (simp add: error_of_def error_reply_def make_error_response_def)

text \<open>C16: the gates of a request, in their order. A request that the auth provider rejects gets PermissionDenied with category
  auth, and one for which the provider throws an internal error; in both cases the state is exactly as before.
  A request that the limiter refuses, or for which it throws, gets that answer whatever handlers and registries
  the server has, and the state changes in the in-flight table only: a source number is used up, and
  nothing is in flight under the id of the request any more. For a request that
  passes both, when it is over, its id is not in flight, the entries of all other ids are as before, and no
  source has been cancelled by it.\<close>

theorem request_gate:
  "(authenticate_context sc s = Gives (Inl e) \<longrightarrow>
      handle_request env req sc s = (Val (make_auth_error_response req (err_message e)), s)) \<and>
   (authenticate_context sc s = Throwing w \<longrightarrow> handle_request env req sc s = (Val (error_of req (handler_failed w)), s)) \<and>
   (authenticate_context sc s = ThrowingUnknown \<longrightarrow> handle_request env req sc s = (Val (error_of req handler_unknown_exception), s)) \<and>
   (authenticate_context sc s = Gives (Inr sc') \<longrightarrow>
      (\<forall>r. rate_limit_refusal env req sc' s = Gives (Some r) \<longrightarrow> handle_request env req sc s = (Val r, gate_state req s)) \<and>
      (rate_limit_refusal env req sc' s = Throwing w \<longrightarrow>
         handle_request env req sc s = (Val (error_of req (handler_failed w)), gate_state req s)) \<and>
      (rate_limit_refusal env req sc' s = ThrowingUnknown \<longrightarrow>
         handle_request env req sc s = (Val (error_of req handler_unknown_exception), gate_state req s)) \<and>
      map_of (sv_active (snd (handle_request env req sc s))) =
        (map_of (sv_active s))(request_cancellation_key (req_id req) := None) \<and>
      sv_cancelled (snd (handle_request env req sc s)) = sv_cancelled s)"
proof (intro conjI impI allI)
  have "resp_result (make_auth_error_response req (err_message e)) = None"
    by (simp add: make_auth_error_response_def make_error_response_def)
  then show "handle_request env req sc s = (Val (make_auth_error_response req (err_message e)), s)"
    if "authenticate_context sc s = Gives (Inl e)"
    using that by (simp add: handle_request_def handle_request_impl_def map_outcome_def)
  show "handle_request env req sc s = (Val (error_of req (handler_failed w)), s)" if "authenticate_context sc s = Throwing w"
    using that error_of_no_result [of req "handler_failed w"]
    by (simp add: handle_request_def handle_request_impl_def map_outcome_def catch_reply_def)
  show "handle_request env req sc s = (Val (error_of req handler_unknown_exception), s)" if "authenticate_context sc s = ThrowingUnknown"
    using that error_of_no_result [of req handler_unknown_exception]
    by (simp add: handle_request_def handle_request_impl_def map_outcome_def catch_reply_def)
next
  assume a: "authenticate_context sc s = Gives (Inr sc')"
  obtain tok s1 where b: "begin_request_cancellation (req_id req) s = (tok, s1)" by force
  have refusal: "rate_limit_refusal env req sc' s1 = rate_limit_refusal env req sc' s"
    using b by (auto simp: rate_limit_refusal_def begin_request_cancellation_def)
  have gate: "end_request_cancellation (req_id req) s1 = gate_state req s" using gate_state_eq [of req s] b by simp
  note run = handle_request_def handle_request_impl_def map_outcome_def catch_reply_def
  show "handle_request env req sc s = (Val r, gate_state req s)" if "rate_limit_refusal env req sc' s = Gives (Some r)" for r
    using that a b refusal gate refusal_no_result [OF that] by (simp add: run)
  show "handle_request env req sc s = (Val (error_of req (handler_failed w)), gate_state req s)"
    if "rate_limit_refusal env req sc' s = Throwing w"
    using that a b refusal gate error_of_no_result [of req "handler_failed w"] by (simp add: run)
  show "handle_request env req sc s = (Val (error_of req handler_unknown_exception), gate_state req s)"
    if "rate_limit_refusal env req sc' s = ThrowingUnknown"
    using that a b refusal gate error_of_no_result [of req handler_unknown_exception] by (simp add: run)
  show "map_of (sv_active (snd (handle_request env req sc s))) =
        (map_of (sv_active s))(request_cancellation_key (req_id req) := None)"
    "sv_cancelled (snd (handle_request env req sc s)) = sv_cancelled s"
    using handled_flights [OF a, of env req] by simp_all
qed

definition closed_server :: server where
  "closed_server = (new_server (sb_options new_builder))\<lparr>sv_auth_provider := Some (\<lambda>req. Gives (static_bearer_authenticate [] req))\<rparr>"

definition throttled_server :: server where
  "throttled_server = (new_server (sb_options new_builder))\<lparr>sv_rate_limiter := Some (\<lambda>_. Throwing ''limiter'')\<rparr>"

theorem request_gate_witness:
  "handle_request sample_env (make_request ''tools/list'' (IdInt 1) empty_object) empty_session closed_server =
     (Val (make_auth_error_response (make_request ''tools/list'' (IdInt 1) empty_object)
        ''missing or invalid bearer token''), closed_server) \<and>
   handle_request sample_env (make_request ''tools/list'' (IdInt 1) empty_object) empty_session throttled_server =
     (Val (error_of (make_request ''tools/list'' (IdInt 1) empty_object) (handler_failed ''limiter'')),
      gate_state (make_request ''tools/list'' (IdInt 1) empty_object) throttled_server)"
proof -
  let ?req = "make_request ''tools/list'' (IdInt 1) empty_object"
  have "authenticate_context empty_session closed_server =
      Gives (Inl (make_auth_error ''missing or invalid bearer token'' ''''))"
    by (simp add: authenticate_context_def closed_server_def empty_session_def static_bearer_authenticate_def
        make_auth_error_def)
  moreover have "authenticate_context empty_session throttled_server = Gives (Inr empty_session)"
    "rate_limit_refusal sample_env ?req empty_session throttled_server = Throwing ''limiter''"
    by (simp_all add: authenticate_context_def throttled_server_def new_server_def rate_limit_refusal_def)
  ultimately show ?thesis
    using request_gate [of empty_session closed_server "make_auth_error ''missing or invalid bearer token'' ''''" sample_env ?req]
      request_gate [of empty_session throttled_server _ sample_env ?req "''limiter''" empty_session]
    by (simp add: make_auth_error_def)
qed

section \<open>Members required by the wire\<close>

lemma default_member_find:
  "is_object j \<Longrightarrow> jfind (default_member k v j) k' =
     (case jfind j k' of Some w \<Rightarrow> Some w | None \<Rightarrow> if k' = k then Some v else None)"
  by (auto simp: default_member_def jcontains_def split: option.split)

lemma default_member_object [simp]: "is_object j \<Longrightarrow> is_object (default_member k v j)"
  by (simp add: default_member_def)

text \<open>On the 2026-07-28 wire every object result carries a resultType, and results of the
  cacheable methods carry ttlMs and cacheScope, filled in only when the method did not set them;
  no other member changes. Every other result, and every result on an older wire, is sent as it
  is. The version is that of \<open>_meta\<close>, else the override, else the header.\<close>

theorem stamped_results:
  "(is_object j \<and> wire_version_requires_result_type (request_wire_version req sc) \<longrightarrow>
      jfind (stamp_result req sc j) k =
        (case jfind j k of
           Some v \<Rightarrow> Some v
         | None \<Rightarrow>
             if k = ''resultType'' then Some (JString ''complete'')
             else if method_requires_cache_hints (req_method req) \<and> k = ''ttlMs'' then Some (JInt 0)
             else if method_requires_cache_hints (req_method req) \<and> k = ''cacheScope'' then Some (JString ''private'')
             else None)) \<and>
   (\<not> (is_object j \<and> wire_version_requires_result_type (request_wire_version req sc)) \<longrightarrow>
      stamp_result req sc j = j)"
proof (intro conjI impI)
  assume a: "is_object j \<and> wire_version_requires_result_type (request_wire_version req sc)"
  show "jfind (stamp_result req sc j) k =
        (case jfind j k of
           Some v \<Rightarrow> Some v
         | None \<Rightarrow>
             if k = ''resultType'' then Some (JString ''complete'')
             else if method_requires_cache_hints (req_method req) \<and> k = ''ttlMs'' then Some (JInt 0)
             else if method_requires_cache_hints (req_method req) \<and> k = ''cacheScope'' then Some (JString ''private'')
             else None)"
    using a by (cases "jfind j k"; cases "method_requires_cache_hints (req_method req)")
      (simp_all add: stamp_result_def Let_def default_member_find)
qed (auto simp: stamp_result_def)

theorem stamped_results_witness:
  "jfind (stamp_result ((make_request ''tools/list'' (IdInt 1) JNull)\<lparr>protocol_version_override := Some ''2026-07-28''\<rparr>)
     empty_session empty_object) ''ttlMs'' = Some (JInt 0)"
  using stamped_results [of empty_object
      "(make_request ''tools/list'' (IdInt 1) JNull)\<lparr>protocol_version_override := Some ''2026-07-28''\<rparr>" empty_session "''ttlMs''"]
  by (simp add: make_request_def request_wire_version_def wire_version_requires_result_type_def
      method_requires_cache_hints_def)

text \<open>The order of the three sources of the version.\<close>

lemma request_wire_version_order:
  "req_meta req = None \<Longrightarrow> protocol_version_override req = Some v \<Longrightarrow> request_wire_version req sc = v"
  by (simp add: request_wire_version_def)

section \<open>Sending in order\<close>

text \<open>a notification is sent to the transports in order up to and including the first that fails,
  whose error is returned; the transports after it get nothing.\<close>

theorem send_all_prefix:
  "(\<exists>ts1 t ts2 e. ts = ts1 @ t # ts2 \<and> \<not> (\<exists>u\<in>set ts1. \<not> is_ok (env_notify env u n)) \<and> env_notify env t n = Inl e \<and>
      send_all env n ts s = (Inl e, emit (map (\<lambda>t. SentNotification t n) (ts1 @ [t])) s)) \<or>
   (\<not> (\<exists>u\<in>set ts. \<not> is_ok (env_notify env u n)) \<and>
      send_all env n ts s = (Inr (), emit (map (\<lambda>t. SentNotification t n) ts) s))"
proof (induction ts arbitrary: s)
  case (Cons t ts)
  show ?case
  proof (cases "env_notify env t n")
    case (Inl e)
    then show ?thesis by (intro disjI1 exI [of _ "[]"] exI [of _ t] exI [of _ ts] exI [of _ e]) simp
  next
    case (Inr u)
    have emit2: "emit es (emit [x] s) = emit (x # es) s" for es x by (simp add: emit_def)
    consider (fails) ts1 t' ts2 e where "ts = ts1 @ t' # ts2" "\<not> (\<exists>u\<in>set ts1. \<not> is_ok (env_notify env u n))"
        "env_notify env t' n = Inl e"
        "send_all env n ts (emit [SentNotification t n] s) =
           (Inl e, emit (map (\<lambda>t. SentNotification t n) (ts1 @ [t'])) (emit [SentNotification t n] s))"
      | (works) "\<not> (\<exists>u\<in>set ts. \<not> is_ok (env_notify env u n))"
        "send_all env n ts (emit [SentNotification t n] s) =
           (Inr (), emit (map (\<lambda>t. SentNotification t n) ts) (emit [SentNotification t n] s))"
      using Cons [of "emit [SentNotification t n] s"] by metis
    then show ?thesis
    proof cases
      case fails
      then show ?thesis
        using Inr by (intro disjI1 exI [of _ "t # ts1"] exI [of _ t'] exI [of _ ts2] exI [of _ e]) (simp add: emit2)
    next
      case works
      then show ?thesis using Inr by (simp add: emit2)
    qed
  qed
qed (simp add: emit_def)

section \<open>Tasks created on the client\<close>

text \<open>When a client answers tasks/create with an error, the server reports it only if the error
  carries a JSON string as data; without data, or with any other data, the call throws.\<close>

theorem enqueue_task_error_data:
  assumes "sv_transports s = t # ts" "env_ask env t (make_request ''tasks/create'' (IdInt 0) (JObject [(''task'', task_to_json tk)])) = Inr r"
    "resp_error r = Some e" "resp_result r = None"
  shows "fst (enqueue_task env tk s) =
     (case eo_data e of
        Some (JString d) \<Rightarrow> Val (Inl (mk_error (eo_code e) (eo_message e) d ''''))
      | _ \<Rightarrow> Raise (env_what env))"
  using assms
  by (auto simp: enqueue_task_def enqueue_answer_def has_error_def Let_def split: option.split json.split)

theorem enqueue_task_error_data_witness:
  "fst (enqueue_task (sample_env\<lparr>env_ask := \<lambda>_ _. Inr (make_error_response None (make_error 1 ''no'' None))\<rparr>)
     (sample_task_of 0) ((new_server (sb_options new_builder))\<lparr>sv_transports := [0]\<rparr>)) = Raise ''error''"
  using enqueue_task_error_data [of "(new_server (sb_options new_builder))\<lparr>sv_transports := [0]\<rparr>" 0 "[]"
      "sample_env\<lparr>env_ask := \<lambda>_ _. Inr (make_error_response None (make_error 1 ''no'' None))\<rparr>" "sample_task_of 0"
      "make_error_response None (make_error 1 ''no'' None)" "make_error 1 ''no'' None"]
  by (simp add: make_error_response_def make_error_def sample_env_def)

section \<open>Building\<close>

lemma run_registrations_append:
  "run_registrations (xs @ ys) s =
     (case run_registrations xs s of (Inl e, s') \<Rightarrow> (Inl e, s') | (Inr _, s') \<Rightarrow> run_registrations ys s')"
proof (induction xs arbitrary: s)
  case (Cons x xs)
  obtain r s' where "x s = (r, s')" by force
  then show ?case using Cons by (cases r) simp_all
qed simp

lemma add_transports_frame: "add_transports ts s = (r, s') \<Longrightarrow> sv_tools s' = sv_tools s \<and> sv_options s' = sv_options s"
proof (induction ts arbitrary: s)
  case (Cons t ts)
  then show ?case by (cases t) (auto simp: add_transport_def)
qed simp

lemma tool_add_found: "tool_add d h reg = (Inr u, reg') \<Longrightarrow> tool_get (td_name d) reg' = Inr d"
  by (auto simp: tool_add_def reg_emplace_def tool_get_def reg_find_def map_add_def
      split: sum.splits option.splits if_splits)

text \<open>A tool added last is found on the built server.\<close>

lemma build_registers_tool:
  assumes "build (add_tool d h b) = Inr s"
  shows "tool_get (td_name d) (sv_tools s) = Inr d"
proof -
  let ?b = "add_tool d h b"
  obtain s1 where r: "run_registrations (sb_registrations ?b) (configured_server ?b) = (Inr (), s1)"
      and t: "add_transports (sb_transports ?b) s1 = (Inr (), s)"
    using assms by (auto simp: build_def split: prod.splits sum.splits)
  have reg: "sb_registrations ?b = sb_registrations b @
      [\<lambda>s. let (r, reg) = tool_add d h (sv_tools s) in (r, s\<lparr>sv_tools := reg\<rparr>)]"
    by (simp add: add_tool_def add_registration_def update_capabilities_def)
  obtain s0 reg' where "tool_add d h (sv_tools s0) = (Inr (), reg')" "s1 = s0\<lparr>sv_tools := reg'\<rparr>"
    using r unfolding reg run_registrations_append by (auto split: prod.splits sum.splits)
  then show ?thesis using tool_add_found [of d h "sv_tools s0" "()" reg'] add_transports_frame [OF t] by simp
qed

end
