(* ===== verification/Server_Handler.thy ===== *)
theory Server_Handler
  imports Server_Sessions
begin

text \<open>
  The configuration surface of the server: the handler setters of server.cpp, the callback bundle
  and the virtual handler interface of handler.hpp, the rest of the builder and the start and stop of
  the transports.

  A class that implements \<open>ServerHandlerInterface\<close> is a record with one entry per virtual method:
  \<open>None\<close> for a method it does not override, so that the default body of the interface runs. Methods
  may throw.
\<close>

section \<open>Setters\<close>

definition store_handler :: "(server_handlers \<Rightarrow> server_handlers) \<Rightarrow> server \<Rightarrow> server" where
  "store_handler f s = s\<lparr>sv_handlers := f (sv_handlers s)\<rparr>"

type_synonym json_handler = "json \<Rightarrow> json result outcome"
type_synonym json_context_handler = "json \<Rightarrow> session_context \<Rightarrow> json result outcome"

definition set_completion_json_handler :: "json_handler option \<Rightarrow> server \<Rightarrow> server" where
  "set_completion_json_handler h s =
     (case h of
        None \<Rightarrow> store_handler (\<lambda>hs. hs\<lparr>h_completion := None\<rparr>) s
      | Some f \<Rightarrow> set_completion_handler (Some (\<lambda>params _ _. f params)) s)"

definition set_completion_context_handler :: "json_context_handler option \<Rightarrow> server \<Rightarrow> server" where
  "set_completion_context_handler h s =
     (case h of
        None \<Rightarrow> store_handler (\<lambda>hs. hs\<lparr>h_completion := None\<rparr>) s
      | Some f \<Rightarrow> set_completion_handler (Some (\<lambda>params sc _. f params sc)) s)"

definition set_sampling_handler :: "json_request_handler option \<Rightarrow> server \<Rightarrow> server" where
  "set_sampling_handler h = store_handler (\<lambda>hs. hs\<lparr>h_sampling := h\<rparr>)"

definition set_sampling_json_handler :: "json_handler option \<Rightarrow> server \<Rightarrow> server" where
  "set_sampling_json_handler h s =
     (case h of
        None \<Rightarrow> store_handler (\<lambda>hs. hs\<lparr>h_sampling := None\<rparr>) s
      | Some f \<Rightarrow> set_sampling_handler (Some (\<lambda>params _ _. f params)) s)"

definition set_sampling_context_handler :: "json_context_handler option \<Rightarrow> server \<Rightarrow> server" where
  "set_sampling_context_handler h s =
     (case h of
        None \<Rightarrow> store_handler (\<lambda>hs. hs\<lparr>h_sampling := None\<rparr>) s
      | Some f \<Rightarrow> set_sampling_handler (Some (\<lambda>params sc _. f params sc)) s)"

definition set_raw_request_handler :: "raw_request_handler option \<Rightarrow> server \<Rightarrow> server" where
  "set_raw_request_handler h = store_handler (\<lambda>hs. hs\<lparr>h_raw_request := h\<rparr>)"

definition set_raw_request_context_handler :: "raw_request_context_handler option \<Rightarrow> server \<Rightarrow> server" where
  "set_raw_request_context_handler h = store_handler (\<lambda>hs. hs\<lparr>h_raw_request_context := h\<rparr>)"

definition set_raw_notification_handler :: "raw_notification_handler option \<Rightarrow> server \<Rightarrow> server" where
  "set_raw_notification_handler h = store_handler (\<lambda>hs. hs\<lparr>h_raw_notification := h\<rparr>)"

definition set_custom_request_handler :: "raw_request_handler option \<Rightarrow> server \<Rightarrow> server" where
  "set_custom_request_handler h = set_raw_request_handler h"

definition set_custom_request_context_handler :: "raw_request_context_handler option \<Rightarrow> server \<Rightarrow> server" where
  "set_custom_request_context_handler h = set_raw_request_context_handler h"

definition set_custom_notification_handler :: "raw_notification_handler option \<Rightarrow> server \<Rightarrow> server" where
  "set_custom_notification_handler h = set_raw_notification_handler h"

definition set_task_list_handler :: "(task_list_params, task_list_result) context_handler option \<Rightarrow> server \<Rightarrow> server" where
  "set_task_list_handler h = store_handler (\<lambda>hs. hs\<lparr>h_task_list := h\<rparr>)"

definition set_tools_list_handler ::
  "(paginated_request_params, tool_definition resources_result) context_handler option \<Rightarrow> server \<Rightarrow> server" where
  "set_tools_list_handler h = store_handler (\<lambda>hs. hs\<lparr>h_tools_list := h\<rparr>)"

definition set_prompts_list_handler ::
  "(paginated_request_params, prompt resources_result) context_handler option \<Rightarrow> server \<Rightarrow> server" where
  "set_prompts_list_handler h = store_handler (\<lambda>hs. hs\<lparr>h_prompts_list := h\<rparr>)"

definition set_resources_list_handler ::
  "(paginated_request_params, resource resources_result) context_handler option \<Rightarrow> server \<Rightarrow> server" where
  "set_resources_list_handler h = store_handler (\<lambda>hs. hs\<lparr>h_resources_list := h\<rparr>)"

definition set_resource_templates_list_handler ::
  "(paginated_request_params, resource_template resources_result) context_handler option \<Rightarrow> server \<Rightarrow> server" where
  "set_resource_templates_list_handler h = store_handler (\<lambda>hs. hs\<lparr>h_templates_list := h\<rparr>)"

definition set_task_get_handler :: "(task_get_params, task) context_handler option \<Rightarrow> server \<Rightarrow> server" where
  "set_task_get_handler h = store_handler (\<lambda>hs. hs\<lparr>h_task_get := h\<rparr>)"

definition set_task_cancel_handler :: "(task_cancel_params, task) context_handler option \<Rightarrow> server \<Rightarrow> server" where
  "set_task_cancel_handler h = store_handler (\<lambda>hs. hs\<lparr>h_task_cancel := h\<rparr>)"

definition set_task_result_handler :: "(task_result_params, json) context_handler option \<Rightarrow> server \<Rightarrow> server" where
  "set_task_result_handler h = store_handler (\<lambda>hs. hs\<lparr>h_task_result := h\<rparr>)"

definition set_progress_handler :: "(progress_notification_params, unit) context_handler option \<Rightarrow> server \<Rightarrow> server" where
  "set_progress_handler h = store_handler (\<lambda>hs. hs\<lparr>h_progress := h\<rparr>)"

definition set_roots_list_changed_handler :: "list_changed_handler option \<Rightarrow> server \<Rightarrow> server" where
  "set_roots_list_changed_handler h = store_handler (\<lambda>hs. hs\<lparr>h_roots_list_changed := h\<rparr>)"

definition set_tool_list_changed_handler :: "list_changed_handler option \<Rightarrow> server \<Rightarrow> server" where
  "set_tool_list_changed_handler h = store_handler (\<lambda>hs. hs\<lparr>h_tool_list_changed := h\<rparr>)"

definition set_prompt_list_changed_handler :: "list_changed_handler option \<Rightarrow> server \<Rightarrow> server" where
  "set_prompt_list_changed_handler h = store_handler (\<lambda>hs. hs\<lparr>h_prompt_list_changed := h\<rparr>)"

definition set_resource_list_changed_handler :: "list_changed_handler option \<Rightarrow> server \<Rightarrow> server" where
  "set_resource_list_changed_handler h = store_handler (\<lambda>hs. hs\<lparr>h_resource_list_changed := h\<rparr>)"

definition set_resource_updated_handler :: "(string, unit) context_handler option \<Rightarrow> server \<Rightarrow> server" where
  "set_resource_updated_handler h = store_handler (\<lambda>hs. hs\<lparr>h_resource_updated := h\<rparr>)"

definition set_auth_provider :: "auth_provider option \<Rightarrow> server \<Rightarrow> server" where
  "set_auth_provider p s = s\<lparr>sv_auth_provider := p\<rparr>"

definition set_rate_limiter :: "rate_limiter option \<Rightarrow> server \<Rightarrow> server" where
  "set_rate_limiter l s = s\<lparr>sv_rate_limiter := l\<rparr>"

definition set_schema_validator :: "schema_validator option \<Rightarrow> server \<Rightarrow> server" where
  "set_schema_validator v s = s\<lparr>sv_schema_validator := v\<rparr>"


section \<open>The callback bundle\<close>

text \<open>\<open>ServerHandler\<close>: the slots of the server, two more for custom traffic and the context-aware
  completion and sampling callbacks.\<close>

record server_handler =
  sh_completion :: "json_handler option"
  sh_sampling :: "json_handler option"
  sh_logging :: "(string \<Rightarrow> string \<Rightarrow> unit outcome) option"
  sh_raw_request :: "raw_request_handler option"
  sh_raw_notification :: "raw_notification_handler option"
  sh_custom_request :: "raw_request_handler option"
  sh_custom_notification :: "raw_notification_handler option"
  sh_tools_list :: "(paginated_request_params, tool_definition resources_result) context_handler option"
  sh_prompts_list :: "(paginated_request_params, prompt resources_result) context_handler option"
  sh_resources_list :: "(paginated_request_params, resource resources_result) context_handler option"
  sh_templates_list :: "(paginated_request_params, resource_template resources_result) context_handler option"
  sh_task_list :: "(task_list_params, task_list_result) context_handler option"
  sh_task_get :: "(task_get_params, task) context_handler option"
  sh_task_cancel :: "(task_cancel_params, task) context_handler option"
  sh_task_result :: "(task_result_params, json) context_handler option"
  sh_progress :: "(progress_notification_params, unit) context_handler option"
  sh_roots_list_changed :: "list_changed_handler option"
  sh_tool_list_changed :: "list_changed_handler option"
  sh_prompt_list_changed :: "list_changed_handler option"
  sh_resource_list_changed :: "list_changed_handler option"
  sh_resource_updated :: "(string, unit) context_handler option"
  sh_completion_with_context :: "json_context_handler option"
  sh_sampling_with_context :: "json_context_handler option"
  sh_completion_with_request_context :: "json_request_handler option"
  sh_sampling_with_request_context :: "json_request_handler option"

text \<open>\<open>if (callback) server.set_...(callback);\<close>\<close>

definition install :: "('h option \<Rightarrow> server \<Rightarrow> server) \<Rightarrow> 'h option \<Rightarrow> server \<Rightarrow> server" where
  "install setter h s = (if h \<noteq> None then setter h s else s)"

definition apply_to :: "server_handler \<Rightarrow> server \<Rightarrow> server" where
  "apply_to h s0 =
     (let s1 = install set_completion_json_handler (sh_completion h) s0;
          s2 = install set_sampling_json_handler (sh_sampling h) s1;
          s3 = install set_logging_handler (sh_logging h) s2;
          s4 = install set_raw_request_handler (sh_raw_request h) s3;
          s5 = install set_raw_notification_handler (sh_raw_notification h) s4;
          s6 = install set_custom_request_handler (sh_custom_request h) s5;
          s7 = install set_custom_notification_handler (sh_custom_notification h) s6;
          s8 = install set_tools_list_handler (sh_tools_list h) s7;
          s9 = install set_prompts_list_handler (sh_prompts_list h) s8;
          s10 = install set_resources_list_handler (sh_resources_list h) s9;
          s11 = install set_resource_templates_list_handler (sh_templates_list h) s10;
          s12 = install set_task_list_handler (sh_task_list h) s11;
          s13 = install set_task_get_handler (sh_task_get h) s12;
          s14 = install set_task_cancel_handler (sh_task_cancel h) s13;
          s15 = install set_task_result_handler (sh_task_result h) s14;
          s16 = install set_progress_handler (sh_progress h) s15;
          s17 = install set_roots_list_changed_handler (sh_roots_list_changed h) s16;
          s18 = install set_tool_list_changed_handler (sh_tool_list_changed h) s17;
          s19 = install set_prompt_list_changed_handler (sh_prompt_list_changed h) s18;
          s20 = install set_resource_list_changed_handler (sh_resource_list_changed h) s19;
          s21 = install set_resource_updated_handler (sh_resource_updated h) s20;
          s22 = install set_completion_context_handler (sh_completion_with_context h) s21;
          s23 = install set_sampling_context_handler (sh_sampling_with_context h) s22;
          s24 = install set_completion_handler (sh_completion_with_request_context h) s23
      in install set_sampling_handler (sh_sampling_with_request_context h) s24)"

definition set_handler_bundle :: "server_handler \<Rightarrow> server \<Rightarrow> server" where
  "set_handler_bundle h s = apply_to h s"

section \<open>The handler interface\<close>

text \<open>An answer of an overridable method: \<open>None\<close> declines.\<close>

type_synonym 'r answer = "'r result option outcome"

text \<open>The overloads of one method; each falls back on the one with fewer arguments.\<close>

record ('p, 'r) overloads =
  ov_plain :: "('p \<Rightarrow> 'r answer) option"
  ov_context :: "('p \<Rightarrow> session_context \<Rightarrow> 'r answer) option"
  ov_cancel :: "('p \<Rightarrow> session_context \<Rightarrow> cancellation_token \<Rightarrow> 'r answer) option"

definition ask_plain :: "('p, 'r) overloads \<Rightarrow> 'p \<Rightarrow> 'r answer" where
  "ask_plain ov p = (case ov_plain ov of Some f \<Rightarrow> f p | None \<Rightarrow> Val None)"

definition ask_context :: "('p, 'r) overloads \<Rightarrow> 'p \<Rightarrow> session_context \<Rightarrow> 'r answer" where
  "ask_context ov p sc = (case ov_context ov of Some f \<Rightarrow> f p sc | None \<Rightarrow> ask_plain ov p)"

definition ask_cancel :: "('p, 'r) overloads \<Rightarrow> 'p \<Rightarrow> session_context \<Rightarrow> cancellation_token \<Rightarrow> 'r answer" where
  "ask_cancel ov p sc tok = (case ov_cancel ov of Some f \<Rightarrow> f p sc tok | None \<Rightarrow> ask_context ov p sc)"

text \<open>The listing methods: \<open>(params, context)\<close> falls back on \<open>(context)\<close>.\<close>

record 'r list_overloads =
  lo_context :: "(session_context \<Rightarrow> 'r answer) option"
  lo_params :: "(paginated_request_params \<Rightarrow> session_context \<Rightarrow> 'r answer) option"

definition ask_list :: "'r list_overloads \<Rightarrow> paginated_request_params \<Rightarrow> session_context \<Rightarrow> 'r answer" where
  "ask_list lo p sc =
     (case lo_params lo of
        Some f \<Rightarrow> f p sc
      | None \<Rightarrow> (case lo_context lo of Some f \<Rightarrow> f sc | None \<Rightarrow> Val None))"

record server_handler_interface =
  hi_list_tools :: "(tool_definition resources_result) list_overloads"
  hi_get_tool :: "(string \<Rightarrow> session_context \<Rightarrow> tool_definition answer) option"
  hi_list_prompts :: "(prompt resources_result) list_overloads"
  hi_list_resources :: "(resource resources_result) list_overloads"
  hi_list_resource_templates :: "(resource_template resources_result) list_overloads"
  hi_call_tool :: "(tool_call, tool_result) overloads"
  hi_get_prompt :: "(prompts_get_params, prompts_get_result) overloads"
  hi_read_resource :: "(resource_params, resource_contents resources_result) overloads"
  hi_completion :: "(json, json) overloads"
  hi_sampling :: "(json, json) overloads"
  hi_set_level :: "(json, json) overloads"
  hi_subscribe :: "(json, json) overloads"
  hi_unsubscribe :: "(json, json) overloads"
  hi_logging :: "(string \<Rightarrow> string \<Rightarrow> unit outcome) option"
  hi_raw_request :: "raw_request_handler option"
  hi_raw_notification :: "(json_rpc_notification \<Rightarrow> session_context \<Rightarrow> unit answer) option"
  hi_custom_request :: "raw_request_handler option"
  hi_custom_notification :: "(json_rpc_notification \<Rightarrow> session_context \<Rightarrow> unit answer) option"
  hi_task_list :: "(task_list_params, task_list_result) overloads"
  hi_task_get :: "(task_get_params, task) overloads"
  hi_task_cancel :: "(task_cancel_params, task) overloads"
  hi_task_result :: "(task_result_params, json) overloads"
  hi_progress :: "(progress_notification_params, unit) overloads"
  hi_roots_list_changed :: "(unit, unit) overloads"
  hi_tool_list_changed :: "(unit, unit) overloads"
  hi_prompt_list_changed :: "(unit, unit) overloads"
  hi_resource_list_changed :: "(unit, unit) overloads"
  hi_resource_updated :: "(string, unit) overloads"

definition on_raw_request :: "server_handler_interface \<Rightarrow> raw_request_handler" where
  "on_raw_request h req sc = (case hi_raw_request h of Some f \<Rightarrow> f req sc | None \<Rightarrow> Val None)"

definition on_custom_request :: "server_handler_interface \<Rightarrow> raw_request_handler" where
  "on_custom_request h req sc = (case hi_custom_request h of Some f \<Rightarrow> f req sc | None \<Rightarrow> on_raw_request h req sc)"

definition on_raw_notification :: "server_handler_interface \<Rightarrow> json_rpc_notification \<Rightarrow> session_context \<Rightarrow> unit answer" where
  "on_raw_notification h n sc = (case hi_raw_notification h of Some f \<Rightarrow> f n sc | None \<Rightarrow> Val None)"

definition on_custom_notification :: "server_handler_interface \<Rightarrow> json_rpc_notification \<Rightarrow> session_context \<Rightarrow> unit answer" where
  "on_custom_notification h n sc =
     (case hi_custom_notification h of Some f \<Rightarrow> f n sc | None \<Rightarrow> on_raw_notification h n sc)"

definition on_interface_logging :: "server_handler_interface \<Rightarrow> string \<Rightarrow> string \<Rightarrow> unit outcome" where
  "on_interface_logging h level msg = (case hi_logging h of Some f \<Rightarrow> f level msg | None \<Rightarrow> Val ())"

definition handler_method_not_found :: "string \<Rightarrow> core_error" where
  "handler_method_not_found msg = mk_error (error_code MethodNotFound) msg '''' ''''"

definition server_handler_error_response :: "json_rpc_request \<Rightarrow> core_error \<Rightarrow> json_rpc_response" where
  "server_handler_error_response req e =
     make_error_response (Some (req_id req)) (make_error (err_code e) (err_message e) (error_data (err_detail e)))"

definition server_handler_result_response :: "json_rpc_request \<Rightarrow> ('r \<Rightarrow> json) \<Rightarrow> 'r result \<Rightarrow> json_rpc_response" where
  "server_handler_result_response req serializer r =
     (case r of
        Inl e \<Rightarrow> server_handler_error_response req e
      | Inr v \<Rightarrow> make_response (req_id req) (serializer v))"

text \<open>The response to an answer, if the handler gave one.\<close>

definition answer_response ::
  "json_rpc_request \<Rightarrow> ('r \<Rightarrow> json) \<Rightarrow> 'r answer \<Rightarrow> json_rpc_response option outcome" where
  "answer_response req serializer a = map_outcome (map_option (server_handler_result_response req serializer)) a"

definition dispatch_list ::
  "json_rpc_request \<Rightarrow> session_context \<Rightarrow> ('r \<Rightarrow> json) \<Rightarrow> 'r list_overloads \<Rightarrow> json_rpc_response option outcome" where
  "dispatch_list req sc serializer lo =
     (case paginated_request_params_from_json (req_params req) of
        None \<Rightarrow> Val (Some (server_handler_error_response req
                  (mk_error (error_code InvalidParams)
                     (req_method req @ '' params must be an object with an optional string cursor'') '''' '''')))
      | Some params \<Rightarrow> answer_response req serializer (ask_list lo params sc))"

definition dispatch_server_handler_discovery_request ::
  "server_handler_interface \<Rightarrow> json_rpc_request \<Rightarrow> session_context \<Rightarrow> json_rpc_response option outcome" where
  "dispatch_server_handler_discovery_request h req sc =
     (let m = req_method req in
      if m = ''tools/list'' then dispatch_list req sc tools_list_result_to_json (hi_list_tools h)
      else if m = ''tools/get'' then
        (case jfind (req_params req) ''name'' of
           Some (JString name) \<Rightarrow>
             answer_response req tool_definition_to_json
               (case hi_get_tool h of Some f \<Rightarrow> f name sc | None \<Rightarrow> Val None)
         | _ \<Rightarrow> Val (Some (server_handler_error_response req
                  (mk_error (error_code InvalidParams) ''tools/get requires a string name'' '''' ''''))))
      else if m = ''prompts/list'' then dispatch_list req sc prompts_list_result_to_json (hi_list_prompts h)
      else if m = ''resources/list'' then dispatch_list req sc resources_list_result_to_json (hi_list_resources h)
      else if m = ''resources/templates/list''
      then dispatch_list req sc resource_templates_list_result_to_json (hi_list_resource_templates h)
      else Val None)"

text \<open>\<open>what\<close> is the text of the exception that \<open>tool_call_from_json\<close> may throw.\<close>

definition dispatch_handler_method ::
  "string \<Rightarrow> server_handler_interface \<Rightarrow> json_rpc_request \<Rightarrow> session_context \<Rightarrow> cancellation_token \<Rightarrow>
   json_rpc_response option outcome" where
  "dispatch_handler_method what h req sc tok =
     (let m = req_method req; params = req_params req;
          refuse = (\<lambda>e. Val (Some (server_handler_error_response req e))) in
      if m = ''tools/call'' then
        (case tool_call_from_json params of
           Throws \<Rightarrow> Raise what
         | Returns (Inl e) \<Rightarrow> refuse e
         | Returns (Inr call) \<Rightarrow>
             if tc_task call \<noteq> None then Val None
             else answer_response req tool_result_to_json (ask_cancel (hi_call_tool h) call sc tok))
      else if m = ''prompts/get'' then
        (case prompts_get_params_from_json params of
           Inl e \<Rightarrow> refuse e
         | Inr p \<Rightarrow> answer_response req prompts_get_result_to_json (ask_cancel (hi_get_prompt h) p sc tok))
      else if m = ''resources/read'' then
        (case resources_read_params_from_json params of
           Inl e \<Rightarrow> refuse e
         | Inr p \<Rightarrow> answer_response req resources_read_result_to_json (ask_cancel (hi_read_resource h) p sc tok))
      else if m = ''logging/setLevel''
      then answer_response req (\<lambda>j. j) (ask_cancel (hi_set_level h) params sc tok)
      else if m = ''resources/subscribe''
      then answer_response req (\<lambda>j. j) (ask_cancel (hi_subscribe h) params sc tok)
      else if m = ''resources/unsubscribe''
      then answer_response req (\<lambda>j. j) (ask_cancel (hi_unsubscribe h) params sc tok)
      else Val None)"

text \<open>A declined answer goes on to the next step.\<close>

definition or_else :: "'a option outcome \<Rightarrow> 'a option outcome \<Rightarrow> 'a option outcome" where
  "or_else first second = (case first of Val None \<Rightarrow> second | _ \<Rightarrow> first)"

definition dispatch_server_handler_request ::
  "string \<Rightarrow> server_handler_interface \<Rightarrow> json_rpc_request \<Rightarrow> session_context \<Rightarrow> cancellation_token \<Rightarrow>
   json_rpc_response option outcome" where
  "dispatch_server_handler_request what h req sc tok =
     or_else (dispatch_server_handler_discovery_request h req sc) (dispatch_handler_method what h req sc tok)"

text \<open>An installed callback: the answer, or the result for a declined call.\<close>

definition answer_or :: "'r result \<Rightarrow> 'r answer \<Rightarrow> 'r result outcome" where
  "answer_or d a = map_outcome (\<lambda>r. case r of Some x \<Rightarrow> x | None \<Rightarrow> d) a"

definition unhandled :: "string \<Rightarrow> 'r result" where
  "unhandled what = Inl (handler_method_not_found (''server handler does not handle '' @ what))"

definition set_handler :: "string \<Rightarrow> server_handler_interface \<Rightarrow> server \<Rightarrow> server" where
  "set_handler what h s0 =
     (let s1 = set_completion_handler
                 (Some (\<lambda>p sc tok. answer_or (unhandled ''completion'') (ask_cancel (hi_completion h) p sc tok))) s0;
          s2 = set_sampling_handler
                 (Some (\<lambda>p sc tok. answer_or (unhandled ''sampling'') (ask_cancel (hi_sampling h) p sc tok))) s1;
          s3 = set_logging_handler (Some (on_interface_logging h)) s2;
          s4 = set_raw_request_context_handler
                 (Some (\<lambda>req sc tok. or_else (dispatch_server_handler_request what h req sc tok)
                                              (on_custom_request h req sc))) s3;
          s5 = set_raw_notification_handler (Some (\<lambda>n sc. answer_or (Inr ()) (on_raw_notification h n sc))) s4;
          s6 = set_custom_notification_handler (Some (\<lambda>n sc. answer_or (Inr ()) (on_custom_notification h n sc))) s5;
          s7 = set_task_list_handler
                 (Some (\<lambda>p sc. answer_or (unhandled ''task list'') (ask_context (hi_task_list h) p sc))) s6;
          s8 = set_task_get_handler
                 (Some (\<lambda>p sc. answer_or (unhandled ''task get'') (ask_context (hi_task_get h) p sc))) s7;
          s9 = set_task_cancel_handler
                 (Some (\<lambda>p sc. answer_or (unhandled ''task cancel'') (ask_context (hi_task_cancel h) p sc))) s8;
          s10 = set_task_result_handler
                 (Some (\<lambda>p sc. answer_or (unhandled ''task result'') (ask_context (hi_task_result h) p sc))) s9;
          s11 = set_progress_handler (Some (\<lambda>p sc. answer_or (Inr ()) (ask_context (hi_progress h) p sc))) s10;
          s12 = set_roots_list_changed_handler
                 (Some (\<lambda>sc. answer_or (Inr ()) (ask_context (hi_roots_list_changed h) () sc))) s11;
          s13 = set_tool_list_changed_handler
                 (Some (\<lambda>sc. answer_or (Inr ()) (ask_context (hi_tool_list_changed h) () sc))) s12;
          s14 = set_prompt_list_changed_handler
                 (Some (\<lambda>sc. answer_or (Inr ()) (ask_context (hi_prompt_list_changed h) () sc))) s13;
          s15 = set_resource_list_changed_handler
                 (Some (\<lambda>sc. answer_or (Inr ()) (ask_context (hi_resource_list_changed h) () sc))) s14
      in set_resource_updated_handler
           (Some (\<lambda>uri sc. answer_or (Inr ()) (ask_context (hi_resource_updated h) uri sc))) s15)"


text \<open>The overload for a shared pointer throws \<open>std::invalid_argument\<close> on null.\<close>

definition set_shared_handler :: "string \<Rightarrow> server_handler_interface option \<Rightarrow> server \<Rightarrow> server outcome" where
  "set_shared_handler what h s =
     (case h of
        None \<Rightarrow> Raise ''ServerHandlerInterface shared handler must not be null''
      | Some h \<Rightarrow> Val (set_handler what h s))"

section \<open>The rest of the builder\<close>

definition builder_name :: "string \<Rightarrow> server_builder \<Rightarrow> server_builder" where
  "builder_name v b = b\<lparr>sb_options := (sb_options b)\<lparr>so_server_name := v\<rparr>\<rparr>"

definition builder_version :: "string \<Rightarrow> server_builder \<Rightarrow> server_builder" where
  "builder_version v b = b\<lparr>sb_options := (sb_options b)\<lparr>so_server_version := v\<rparr>\<rparr>"

definition builder_instructions :: "string \<Rightarrow> server_builder \<Rightarrow> server_builder" where
  "builder_instructions v b = b\<lparr>sb_options := (sb_options b)\<lparr>so_instructions := v\<rparr>\<rparr>"

definition with_capabilities :: "server_capabilities \<Rightarrow> server_builder \<Rightarrow> server_builder" where
  "with_capabilities c b = b\<lparr>sb_options := (sb_options b)\<lparr>so_capabilities := c\<rparr>\<rparr>"

definition with_auth_provider :: "auth_provider option \<Rightarrow> server_builder \<Rightarrow> server_builder" where
  "with_auth_provider p b = b\<lparr>sb_auth_provider := p\<rparr>"

definition with_rate_limiter :: "rate_limiter option \<Rightarrow> server_builder \<Rightarrow> server_builder" where
  "with_rate_limiter l b = b\<lparr>sb_rate_limiter := l\<rparr>"

definition with_schema_validator :: "schema_validator option \<Rightarrow> server_builder \<Rightarrow> server_builder" where
  "with_schema_validator v b = b\<lparr>sb_schema_validator := v\<rparr>"

definition builder_slot :: "(server_handlers \<Rightarrow> server_handlers) \<Rightarrow> server_builder \<Rightarrow> server_builder" where
  "builder_slot f b = b\<lparr>sb_handlers := f (sb_handlers b)\<rparr>"

definition on_completion_json :: "json_handler option \<Rightarrow> server_builder \<Rightarrow> server_builder" where
  "on_completion_json h b =
     (case h of
        None \<Rightarrow> builder_slot (\<lambda>hs. hs\<lparr>h_completion := None\<rparr>) b
      | Some f \<Rightarrow> on_completion (Some (\<lambda>params _ _. f params)) b)"

definition on_completion_context :: "json_context_handler option \<Rightarrow> server_builder \<Rightarrow> server_builder" where
  "on_completion_context h b =
     (case h of
        None \<Rightarrow> builder_slot (\<lambda>hs. hs\<lparr>h_completion := None\<rparr>) b
      | Some f \<Rightarrow> on_completion (Some (\<lambda>params sc _. f params sc)) b)"

definition on_sampling :: "json_request_handler option \<Rightarrow> server_builder \<Rightarrow> server_builder" where
  "on_sampling h = builder_slot (\<lambda>hs. hs\<lparr>h_sampling := h\<rparr>)"

definition on_sampling_json :: "json_handler option \<Rightarrow> server_builder \<Rightarrow> server_builder" where
  "on_sampling_json h b =
     (case h of
        None \<Rightarrow> builder_slot (\<lambda>hs. hs\<lparr>h_sampling := None\<rparr>) b
      | Some f \<Rightarrow> on_sampling (Some (\<lambda>params _ _. f params)) b)"

definition on_sampling_context :: "json_context_handler option \<Rightarrow> server_builder \<Rightarrow> server_builder" where
  "on_sampling_context h b =
     (case h of
        None \<Rightarrow> builder_slot (\<lambda>hs. hs\<lparr>h_sampling := None\<rparr>) b
      | Some f \<Rightarrow> on_sampling (Some (\<lambda>params sc _. f params sc)) b)"

definition builder_on_raw_request :: "raw_request_handler option \<Rightarrow> server_builder \<Rightarrow> server_builder" where
  "builder_on_raw_request h = builder_slot (\<lambda>hs. hs\<lparr>h_raw_request := h\<rparr>)"

definition builder_on_raw_notification :: "raw_notification_handler option \<Rightarrow> server_builder \<Rightarrow> server_builder" where
  "builder_on_raw_notification h = builder_slot (\<lambda>hs. hs\<lparr>h_raw_notification := h\<rparr>)"

definition builder_on_custom_request :: "raw_request_handler option \<Rightarrow> server_builder \<Rightarrow> server_builder" where
  "builder_on_custom_request h = builder_on_raw_request h"

definition builder_on_custom_notification :: "raw_notification_handler option \<Rightarrow> server_builder \<Rightarrow> server_builder" where
  "builder_on_custom_notification h = builder_on_raw_notification h"

definition on_task_list :: "(task_list_params, task_list_result) context_handler option \<Rightarrow> server_builder \<Rightarrow> server_builder" where
  "on_task_list h = builder_slot (\<lambda>hs. hs\<lparr>h_task_list := h\<rparr>)"

definition on_tools_list ::
  "(paginated_request_params, tool_definition resources_result) context_handler option \<Rightarrow> server_builder \<Rightarrow> server_builder" where
  "on_tools_list h = builder_slot (\<lambda>hs. hs\<lparr>h_tools_list := h\<rparr>)"

definition on_prompts_list ::
  "(paginated_request_params, prompt resources_result) context_handler option \<Rightarrow> server_builder \<Rightarrow> server_builder" where
  "on_prompts_list h = builder_slot (\<lambda>hs. hs\<lparr>h_prompts_list := h\<rparr>)"

definition on_resources_list ::
  "(paginated_request_params, resource resources_result) context_handler option \<Rightarrow> server_builder \<Rightarrow> server_builder" where
  "on_resources_list h = builder_slot (\<lambda>hs. hs\<lparr>h_resources_list := h\<rparr>)"

definition on_resource_templates_list ::
  "(paginated_request_params, resource_template resources_result) context_handler option \<Rightarrow> server_builder \<Rightarrow> server_builder" where
  "on_resource_templates_list h = builder_slot (\<lambda>hs. hs\<lparr>h_templates_list := h\<rparr>)"

definition on_task_get :: "(task_get_params, task) context_handler option \<Rightarrow> server_builder \<Rightarrow> server_builder" where
  "on_task_get h = builder_slot (\<lambda>hs. hs\<lparr>h_task_get := h\<rparr>)"

definition on_task_cancel :: "(task_cancel_params, task) context_handler option \<Rightarrow> server_builder \<Rightarrow> server_builder" where
  "on_task_cancel h = builder_slot (\<lambda>hs. hs\<lparr>h_task_cancel := h\<rparr>)"

definition on_task_result :: "(task_result_params, json) context_handler option \<Rightarrow> server_builder \<Rightarrow> server_builder" where
  "on_task_result h = builder_slot (\<lambda>hs. hs\<lparr>h_task_result := h\<rparr>)"

definition on_progress :: "(progress_notification_params, unit) context_handler option \<Rightarrow> server_builder \<Rightarrow> server_builder" where
  "on_progress h = builder_slot (\<lambda>hs. hs\<lparr>h_progress := h\<rparr>)"

definition on_roots_list_changed :: "list_changed_handler option \<Rightarrow> server_builder \<Rightarrow> server_builder" where
  "on_roots_list_changed h = builder_slot (\<lambda>hs. hs\<lparr>h_roots_list_changed := h\<rparr>)"

definition on_tool_list_changed :: "list_changed_handler option \<Rightarrow> server_builder \<Rightarrow> server_builder" where
  "on_tool_list_changed h = builder_slot (\<lambda>hs. hs\<lparr>h_tool_list_changed := h\<rparr>)"

definition on_prompt_list_changed :: "list_changed_handler option \<Rightarrow> server_builder \<Rightarrow> server_builder" where
  "on_prompt_list_changed h = builder_slot (\<lambda>hs. hs\<lparr>h_prompt_list_changed := h\<rparr>)"

definition on_resource_list_changed :: "list_changed_handler option \<Rightarrow> server_builder \<Rightarrow> server_builder" where
  "on_resource_list_changed h = builder_slot (\<lambda>hs. hs\<lparr>h_resource_list_changed := h\<rparr>)"

definition on_resource_updated :: "(string, unit) context_handler option \<Rightarrow> server_builder \<Rightarrow> server_builder" where
  "on_resource_updated h = builder_slot (\<lambda>hs. hs\<lparr>h_resource_updated := h\<rparr>)"

definition with_handler_bundle :: "server_handler \<Rightarrow> server_builder \<Rightarrow> server_builder" where
  "with_handler_bundle h = add_registration (\<lambda>s. (Inr (), set_handler_bundle h s))"

definition with_borrowed_handler :: "string \<Rightarrow> server_handler_interface \<Rightarrow> server_builder \<Rightarrow> server_builder" where
  "with_borrowed_handler what h = add_registration (\<lambda>s. (Inr (), set_handler what h s))"

definition with_shared_handler :: "string \<Rightarrow> server_handler_interface option \<Rightarrow> server_builder \<Rightarrow> server_builder" where
  "with_shared_handler what h = add_registration (\<lambda>s.
     case h of
       None \<Rightarrow> (Inl (mk_error (error_code InvalidRequest) ''ServerHandlerInterface shared handler must not be null''
                       '''' ''server''), s)
     | Some h \<Rightarrow> (Inr (), set_handler what h s))"

section \<open>Start and stop\<close>

text \<open>
  \<open>start_transport\<close> is the outcome of \<open>start\<close> on each transport. The second component of
  the result lists the transports whose \<open>start\<close> was called.
\<close>

fun start_transports :: "(nat \<Rightarrow> unit result) \<Rightarrow> nat list \<Rightarrow> unit result \<times> nat list" where
  "start_transports start_transport [] = (Inr (), [])"
| "start_transports start_transport (t # ts) =
     (case start_transport t of
        Inl e \<Rightarrow> (Inl e, [t])
      | Inr _ \<Rightarrow> let (r, started) = start_transports start_transport ts in (r, t # started))"

definition start :: "(nat \<Rightarrow> unit result) \<Rightarrow> server \<Rightarrow> unit result \<times> nat list" where
  "start start_transport s = start_transports start_transport (sv_transports s)"

definition stop :: "server \<Rightarrow> nat list" where
  "stop s = sv_transports s"

definition app_run :: "(nat \<Rightarrow> unit result) \<Rightarrow> server_builder \<Rightarrow> int" where
  "app_run start_transport b =
     (case build b of
        Inl _ \<Rightarrow> 1
      | Inr s \<Rightarrow> (case fst (start start_transport s) of Inr _ \<Rightarrow> 0 | Inl _ \<Rightarrow> 1))"


section \<open>What a bundle installs\<close>

definition either :: "'a option \<Rightarrow> 'a option \<Rightarrow> 'a option" where
  "either a b = (if a \<noteq> None then a else b)"

lemma either_simps [simp]: "either None b = b" "either (Some x) b = Some x" "either a None = a"
  by (auto simp: either_def)

lemma either_assoc [simp]: "either (either a b) c = either a (either b c)"
  by (simp add: either_def)

definition lift_json :: "json_handler \<Rightarrow> json_request_handler" where
  "lift_json f = (\<lambda>params _ _. f params)"

definition lift_context :: "json_context_handler \<Rightarrow> json_request_handler" where
  "lift_context f = (\<lambda>params sc _. f params sc)"

text \<open>The callback of the bundle that ends up in the completion slot: the most specific one.\<close>

definition bundle_completion :: "server_handler \<Rightarrow> json_request_handler option" where
  "bundle_completion h =
     either (sh_completion_with_request_context h)
       (either (map_option lift_context (sh_completion_with_context h)) (map_option lift_json (sh_completion h)))"

definition bundle_sampling :: "server_handler \<Rightarrow> json_request_handler option" where
  "bundle_sampling h =
     either (sh_sampling_with_request_context h)
       (either (map_option lift_context (sh_sampling_with_context h)) (map_option lift_json (sh_sampling h)))"

definition bundle_slots :: "server_handler \<Rightarrow> server_handlers \<Rightarrow> server_handlers" where
  "bundle_slots h hs = \<lparr>
     h_completion = either (bundle_completion h) (h_completion hs),
     h_sampling = either (bundle_sampling h) (h_sampling hs),
     h_logging = either (sh_logging h) (h_logging hs),
     h_raw_request = either (either (sh_custom_request h) (sh_raw_request h)) (h_raw_request hs),
     h_raw_request_context = h_raw_request_context hs,
     h_raw_notification = either (either (sh_custom_notification h) (sh_raw_notification h)) (h_raw_notification hs),
     h_tools_list = either (sh_tools_list h) (h_tools_list hs),
     h_prompts_list = either (sh_prompts_list h) (h_prompts_list hs),
     h_resources_list = either (sh_resources_list h) (h_resources_list hs),
     h_templates_list = either (sh_templates_list h) (h_templates_list hs),
     h_task_list = either (sh_task_list h) (h_task_list hs),
     h_task_get = either (sh_task_get h) (h_task_get hs),
     h_task_cancel = either (sh_task_cancel h) (h_task_cancel hs),
     h_task_result = either (sh_task_result h) (h_task_result hs),
     h_progress = either (sh_progress h) (h_progress hs),
     h_roots_list_changed = either (sh_roots_list_changed h) (h_roots_list_changed hs),
     h_tool_list_changed = either (sh_tool_list_changed h) (h_tool_list_changed hs),
     h_prompt_list_changed = either (sh_prompt_list_changed h) (h_prompt_list_changed hs),
     h_resource_list_changed = either (sh_resource_list_changed h) (h_resource_list_changed hs),
     h_resource_updated = either (sh_resource_updated h) (h_resource_updated hs)\<rparr>"

text \<open>One installation fills one slot; two of them also advertise the capability.\<close>

definition fill :: "(server_handlers \<Rightarrow> server_handlers) \<Rightarrow> server_capabilities \<Rightarrow> server \<Rightarrow> server" where
  "fill f c s = s\<lparr>sv_handlers := f (sv_handlers s), sv_options := (sv_options s)\<lparr>so_capabilities := c\<rparr>\<rparr>"

abbreviation caps :: "server \<Rightarrow> server_capabilities" where
  "caps s \<equiv> so_capabilities (sv_options s)"

definition advertise :: "(server_capabilities \<Rightarrow> server_capabilities) \<Rightarrow> 'h option \<Rightarrow> server_capabilities \<Rightarrow> server_capabilities" where
  "advertise f h c = (if h \<noteq> None then f c else c)"

lemma advertise_simps [simp]: "advertise f None c = c" "advertise f (Some x) c = f c"
  by (simp_all add: advertise_def)

lemmas setter_defs = store_handler_def set_completion_handler_def set_completion_json_handler_def
  set_completion_context_handler_def set_sampling_handler_def set_sampling_json_handler_def
  set_sampling_context_handler_def set_logging_handler_def set_raw_request_handler_def
  set_raw_request_context_handler_def set_raw_notification_handler_def set_custom_request_handler_def
  set_custom_notification_handler_def set_task_list_handler_def set_tools_list_handler_def
  set_prompts_list_handler_def set_resources_list_handler_def set_resource_templates_list_handler_def
  set_task_get_handler_def set_task_cancel_handler_def set_task_result_handler_def
  set_progress_handler_def set_roots_list_changed_handler_def set_tool_list_changed_handler_def
  set_prompt_list_changed_handler_def set_resource_list_changed_handler_def
  set_resource_updated_handler_def

lemma install_json_slots:
  "install set_completion_json_handler hc s =
     fill (\<lambda>hs. hs\<lparr>h_completion := either (map_option lift_json hc) (h_completion hs)\<rparr>) (advertise build_completions hc (caps s)) s"
  "install set_completion_context_handler hk s =
     fill (\<lambda>hs. hs\<lparr>h_completion := either (map_option lift_context hk) (h_completion hs)\<rparr>) (advertise build_completions hk (caps s)) s"
  "install set_completion_handler hr s =
     fill (\<lambda>hs. hs\<lparr>h_completion := either hr (h_completion hs)\<rparr>) (advertise build_completions hr (caps s)) s"
  "install set_sampling_json_handler hc s =
     fill (\<lambda>hs. hs\<lparr>h_sampling := either (map_option lift_json hc) (h_sampling hs)\<rparr>) (caps s) s"
  "install set_sampling_context_handler hk s =
     fill (\<lambda>hs. hs\<lparr>h_sampling := either (map_option lift_context hk) (h_sampling hs)\<rparr>) (caps s) s"
  "install set_sampling_handler hr s = fill (\<lambda>hs. hs\<lparr>h_sampling := either hr (h_sampling hs)\<rparr>) (caps s) s"
  "install set_logging_handler hl s =
     fill (\<lambda>hs. hs\<lparr>h_logging := either hl (h_logging hs)\<rparr>) (advertise build_logging hl (caps s)) s"
  by (auto simp: install_def fill_def either_def advertise_def setter_defs Let_def lift_json_def lift_context_def
      split: option.split)

lemma install_slots:
  "install set_raw_request_handler h1 s = fill (\<lambda>hs. hs\<lparr>h_raw_request := either h1 (h_raw_request hs)\<rparr>) (caps s) s"
  "install set_custom_request_handler h1 s = fill (\<lambda>hs. hs\<lparr>h_raw_request := either h1 (h_raw_request hs)\<rparr>) (caps s) s"
  "install set_raw_notification_handler h2 s =
     fill (\<lambda>hs. hs\<lparr>h_raw_notification := either h2 (h_raw_notification hs)\<rparr>) (caps s) s"
  "install set_custom_notification_handler h2 s =
     fill (\<lambda>hs. hs\<lparr>h_raw_notification := either h2 (h_raw_notification hs)\<rparr>) (caps s) s"
  "install set_tools_list_handler h3 s = fill (\<lambda>hs. hs\<lparr>h_tools_list := either h3 (h_tools_list hs)\<rparr>) (caps s) s"
  "install set_prompts_list_handler h4 s = fill (\<lambda>hs. hs\<lparr>h_prompts_list := either h4 (h_prompts_list hs)\<rparr>) (caps s) s"
  "install set_resources_list_handler h5 s =
     fill (\<lambda>hs. hs\<lparr>h_resources_list := either h5 (h_resources_list hs)\<rparr>) (caps s) s"
  "install set_resource_templates_list_handler h6 s =
     fill (\<lambda>hs. hs\<lparr>h_templates_list := either h6 (h_templates_list hs)\<rparr>) (caps s) s"
  "install set_task_list_handler h7 s = fill (\<lambda>hs. hs\<lparr>h_task_list := either h7 (h_task_list hs)\<rparr>) (caps s) s"
  "install set_task_get_handler h8 s = fill (\<lambda>hs. hs\<lparr>h_task_get := either h8 (h_task_get hs)\<rparr>) (caps s) s"
  "install set_task_cancel_handler h9 s = fill (\<lambda>hs. hs\<lparr>h_task_cancel := either h9 (h_task_cancel hs)\<rparr>) (caps s) s"
  "install set_task_result_handler h10 s = fill (\<lambda>hs. hs\<lparr>h_task_result := either h10 (h_task_result hs)\<rparr>) (caps s) s"
  "install set_progress_handler h11 s = fill (\<lambda>hs. hs\<lparr>h_progress := either h11 (h_progress hs)\<rparr>) (caps s) s"
  "install set_roots_list_changed_handler h12 s =
     fill (\<lambda>hs. hs\<lparr>h_roots_list_changed := either h12 (h_roots_list_changed hs)\<rparr>) (caps s) s"
  "install set_tool_list_changed_handler h12 s =
     fill (\<lambda>hs. hs\<lparr>h_tool_list_changed := either h12 (h_tool_list_changed hs)\<rparr>) (caps s) s"
  "install set_prompt_list_changed_handler h12 s =
     fill (\<lambda>hs. hs\<lparr>h_prompt_list_changed := either h12 (h_prompt_list_changed hs)\<rparr>) (caps s) s"
  "install set_resource_list_changed_handler h12 s =
     fill (\<lambda>hs. hs\<lparr>h_resource_list_changed := either h12 (h_resource_list_changed hs)\<rparr>) (caps s) s"
  "install set_resource_updated_handler h13 s =
     fill (\<lambda>hs. hs\<lparr>h_resource_updated := either h13 (h_resource_updated hs)\<rparr>) (caps s) s"
  by (auto simp: install_def fill_def either_def setter_defs)

lemma fill_simps [simp]:
  "sv_handlers (fill f c s) = f (sv_handlers s)"
  "so_capabilities (sv_options (fill f c s)) = c"
  by (simp_all add: fill_def)

lemma fill_fill [simp]: "fill g d (fill f c s) = fill (\<lambda>hs. g (f hs)) d s"
  by (simp add: fill_def)

lemma advertise_bundle:
  "advertise build_completions (sh_completion_with_request_context h)
     (advertise build_completions (sh_completion_with_context h)
        (advertise build_logging l (advertise build_completions (sh_completion h) c))) =
   advertise build_logging l (advertise build_completions (bundle_completion h) c)"
  by (cases "sh_completion_with_request_context h"; cases "sh_completion_with_context h"; cases "sh_completion h"; cases l)
    (simp_all add: build_completions_def build_logging_def bundle_completion_def)

lemma apply_to_fill:
  "apply_to h s =
   fill (bundle_slots h) (advertise build_logging (sh_logging h) (advertise build_completions (bundle_completion h) (caps s))) s"
proof -
  have "sv_handlers (apply_to h s) = bundle_slots h (sv_handlers s)"
    by (cases "sv_handlers s")
      (simp add: apply_to_def Let_def install_slots install_json_slots bundle_slots_def bundle_completion_def
        bundle_sampling_def)
  moreover have "\<exists>f. apply_to h s =
      fill f (advertise build_logging (sh_logging h) (advertise build_completions (bundle_completion h) (caps s))) s"
    by (rule exI) (simp add: apply_to_def Let_def install_slots install_json_slots advertise_bundle)
  ultimately show ?thesis by (auto simp: fill_def)
qed

text \<open>a callback bundle fills every slot for which it has a callback and keeps the other
  slots. A callback for custom requests or notifications wins over the raw one of the same bundle, and
  among the completion (or sampling) callbacks the one with the most context wins. The server then
  advertises completions and logging if the bundle has such a callback, and nothing else changes.\<close>

theorem bundle_installs:
  "set_handler_bundle h s =
   s\<lparr>sv_handlers := bundle_slots h (sv_handlers s),
     sv_options := (sv_options s)\<lparr>so_capabilities :=
       advertise build_logging (sh_logging h) (advertise build_completions (bundle_completion h) (caps s))\<rparr>\<rparr>"
  by (simp add: set_handler_bundle_def apply_to_fill fill_def)


section \<open>What an interface installs\<close>

definition interface_slots :: "string \<Rightarrow> server_handler_interface \<Rightarrow> server_handlers \<Rightarrow> server_handlers" where
  "interface_slots what h hs = \<lparr>
     h_completion = Some (\<lambda>p sc tok. answer_or (unhandled ''completion'') (ask_cancel (hi_completion h) p sc tok)),
     h_sampling = Some (\<lambda>p sc tok. answer_or (unhandled ''sampling'') (ask_cancel (hi_sampling h) p sc tok)),
     h_logging = Some (on_interface_logging h),
     h_raw_request = h_raw_request hs,
     h_raw_request_context = Some (\<lambda>req sc tok.
       or_else (dispatch_server_handler_request what h req sc tok) (on_custom_request h req sc)),
     h_raw_notification = Some (\<lambda>n sc. answer_or (Inr ()) (on_custom_notification h n sc)),
     h_tools_list = h_tools_list hs,
     h_prompts_list = h_prompts_list hs,
     h_resources_list = h_resources_list hs,
     h_templates_list = h_templates_list hs,
     h_task_list = Some (\<lambda>p sc. answer_or (unhandled ''task list'') (ask_context (hi_task_list h) p sc)),
     h_task_get = Some (\<lambda>p sc. answer_or (unhandled ''task get'') (ask_context (hi_task_get h) p sc)),
     h_task_cancel = Some (\<lambda>p sc. answer_or (unhandled ''task cancel'') (ask_context (hi_task_cancel h) p sc)),
     h_task_result = Some (\<lambda>p sc. answer_or (unhandled ''task result'') (ask_context (hi_task_result h) p sc)),
     h_progress = Some (\<lambda>p sc. answer_or (Inr ()) (ask_context (hi_progress h) p sc)),
     h_roots_list_changed = Some (\<lambda>sc. answer_or (Inr ()) (ask_context (hi_roots_list_changed h) () sc)),
     h_tool_list_changed = Some (\<lambda>sc. answer_or (Inr ()) (ask_context (hi_tool_list_changed h) () sc)),
     h_prompt_list_changed = Some (\<lambda>sc. answer_or (Inr ()) (ask_context (hi_prompt_list_changed h) () sc)),
     h_resource_list_changed = Some (\<lambda>sc. answer_or (Inr ()) (ask_context (hi_resource_list_changed h) () sc)),
     h_resource_updated = Some (\<lambda>uri sc. answer_or (Inr ()) (ask_context (hi_resource_updated h) uri sc))\<rparr>"

lemma set_handler_fill:
  "set_handler what h s = fill (interface_slots what h) (build_logging (build_completions (caps s))) s"
  by (simp add: set_handler_def Let_def setter_defs fill_def interface_slots_def)

text \<open>A handler that overrides nothing.\<close>

definition no_overloads :: "('p, 'r) overloads" where
  "no_overloads = \<lparr>ov_plain = None, ov_context = None, ov_cancel = None\<rparr>"

definition no_list_overloads :: "'r list_overloads" where
  "no_list_overloads = \<lparr>lo_context = None, lo_params = None\<rparr>"

definition silent_handler :: server_handler_interface where
  "silent_handler = \<lparr>hi_list_tools = no_list_overloads, hi_get_tool = None, hi_list_prompts = no_list_overloads,
     hi_list_resources = no_list_overloads, hi_list_resource_templates = no_list_overloads,
     hi_call_tool = no_overloads, hi_get_prompt = no_overloads, hi_read_resource = no_overloads,
     hi_completion = no_overloads, hi_sampling = no_overloads, hi_set_level = no_overloads,
     hi_subscribe = no_overloads, hi_unsubscribe = no_overloads, hi_logging = None, hi_raw_request = None,
     hi_raw_notification = None, hi_custom_request = None, hi_custom_notification = None,
     hi_task_list = no_overloads, hi_task_get = no_overloads, hi_task_cancel = no_overloads,
     hi_task_result = no_overloads, hi_progress = no_overloads, hi_roots_list_changed = no_overloads,
     hi_tool_list_changed = no_overloads, hi_prompt_list_changed = no_overloads,
     hi_resource_list_changed = no_overloads, hi_resource_updated = no_overloads\<rparr>"

lemma silent_asks [simp]:
  "ask_plain no_overloads p = Val None"
  "ask_context no_overloads p sc = Val None"
  "ask_cancel no_overloads p sc tok = Val None"
  "ask_list no_list_overloads q sc = Val None"
  by (simp_all add: ask_plain_def ask_context_def ask_cancel_def ask_list_def no_overloads_def no_list_overloads_def)

lemma outcome_simps [simp]:
  "map_outcome f (Val v) = Val (f v)"
  "or_else (Val None) b = b"
  "or_else (Val (Some r)) b = Val (Some r)"
  "answer_or d (Val None) = Val d"
  "answer_response req ser (Val None) = Val None"
  by (simp_all add: map_outcome_def or_else_def answer_or_def answer_response_def)

text \<open>The params with which the interface dispatch does not refuse a request.\<close>

definition well_formed_params :: "json_rpc_request \<Rightarrow> bool" where
  "well_formed_params req \<longleftrightarrow>
     (let m = req_method req; params = req_params req in
      (m \<in> {''tools/list'', ''prompts/list'', ''resources/list'', ''resources/templates/list''} \<longrightarrow>
         paginated_request_params_from_json params \<noteq> None) \<and>
      (m = ''tools/get'' \<longrightarrow> (\<exists>name. jfind params ''name'' = Some (JString name))) \<and>
      (m = ''tools/call'' \<longrightarrow> (\<exists>call. tool_call_from_json params = Returns (Inr call))) \<and>
      (m = ''prompts/get'' \<longrightarrow> is_ok (prompts_get_params_from_json params)) \<and>
      (m = ''resources/read'' \<longrightarrow> is_ok (resources_read_params_from_json params)))"

lemma dispatch_list_silent:
  "paginated_request_params_from_json (req_params req) \<noteq> None \<Longrightarrow> dispatch_list req sc ser no_list_overloads = Val None"
  by (auto simp: dispatch_list_def)

lemma silent_fields [simp]:
  "hi_list_tools silent_handler = no_list_overloads" "hi_get_tool silent_handler = None"
  "hi_list_prompts silent_handler = no_list_overloads" "hi_list_resources silent_handler = no_list_overloads"
  "hi_list_resource_templates silent_handler = no_list_overloads" "hi_call_tool silent_handler = no_overloads"
  "hi_get_prompt silent_handler = no_overloads" "hi_read_resource silent_handler = no_overloads"
  "hi_completion silent_handler = no_overloads" "hi_sampling silent_handler = no_overloads"
  "hi_set_level silent_handler = no_overloads" "hi_subscribe silent_handler = no_overloads"
  "hi_unsubscribe silent_handler = no_overloads" "hi_raw_request silent_handler = None"
  "hi_custom_request silent_handler = None" "hi_task_list silent_handler = no_overloads"
  "hi_task_get silent_handler = no_overloads" "hi_task_cancel silent_handler = no_overloads"
  "hi_task_result silent_handler = no_overloads"
  by (simp_all add: silent_handler_def)

lemma silent_declines:
  assumes "well_formed_params req"
  shows "or_else (dispatch_server_handler_request what silent_handler req sc tok) (on_custom_request silent_handler req sc)
         = Val None"
proof -
  have lists: "req_method req \<in> {''tools/list'', ''prompts/list'', ''resources/list'', ''resources/templates/list''} \<Longrightarrow>
      paginated_request_params_from_json (req_params req) \<noteq> None"
    using assms unfolding well_formed_params_def Let_def by blast
  have get: "req_method req = ''tools/get'' \<Longrightarrow> \<exists>name. jfind (req_params req) ''name'' = Some (JString name)"
    and call: "req_method req = ''tools/call'' \<Longrightarrow> \<exists>call. tool_call_from_json (req_params req) = Returns (Inr call)"
    and prompts: "req_method req = ''prompts/get'' \<Longrightarrow> is_ok (prompts_get_params_from_json (req_params req))"
    and read: "req_method req = ''resources/read'' \<Longrightarrow> is_ok (resources_read_params_from_json (req_params req))"
    using assms unfolding well_formed_params_def Let_def by blast+
  have "dispatch_server_handler_discovery_request silent_handler req sc = Val None"
    using lists get unfolding dispatch_server_handler_discovery_request_def Let_def
    by (auto simp: dispatch_list_silent)
  moreover have "dispatch_handler_method what silent_handler req sc tok = Val None"
    using call prompts read unfolding dispatch_handler_method_def Let_def by (auto simp: is_ok_iff)
  ultimately show ?thesis
    by (simp add: dispatch_server_handler_request_def on_custom_request_def on_raw_request_def)
qed

text \<open>The methods whose slots the interface takes over, and those that show the capabilities.\<close>

definition replaced_methods :: "string set" where
  "replaced_methods = {''initialize'', ''server/discover'', ''tasks/list'', ''tasks/get'', ''tasks/cancel'',
     ''tasks/result'', ''completion/complete'', ''sampling/createMessage'', ''logging/setLevel''}"

lemma fill_parts [simp]:
  "sv_tools (fill f c s) = sv_tools s" "sv_prompts (fill f c s) = sv_prompts s"
  "sv_resources (fill f c s) = sv_resources s" "sv_templates (fill f c s) = sv_templates s"
  "sv_task_processor (fill f c s) = sv_task_processor s"
  "sv_schema_validator (fill f c s) = sv_schema_validator s"
  "sv_subscriptions (fill f c s) = sv_subscriptions s"
  by (simp_all add: fill_def)

lemma interface_keeps [simp]:
  "h_raw_request (interface_slots what h hs) = h_raw_request hs"
  "h_tools_list (interface_slots what h hs) = h_tools_list hs"
  "h_prompts_list (interface_slots what h hs) = h_prompts_list hs"
  "h_resources_list (interface_slots what h hs) = h_resources_list hs"
  "h_templates_list (interface_slots what h hs) = h_templates_list hs"
  by (simp_all add: interface_slots_def)

lemma subscribe_kept [simp]:
  "vc_resources (build_logging (build_completions c)) = vc_resources c"
  by (simp add: build_logging_def build_completions_def)

lemma kept_lists:
  fixes s :: server and what :: string and h :: server_handler_interface
  defines "s' \<equiv> fill (interface_slots what h) (build_logging (build_completions (caps s))) s"
  shows "fst (handle_tools_list env req sc tok s') = fst (handle_tools_list env req sc tok s)"
    "fst (handle_prompts_list env req sc tok s') = fst (handle_prompts_list env req sc tok s)"
    "fst (handle_resources_list env req sc tok s') = fst (handle_resources_list env req sc tok s)"
    "fst (handle_templates_list env req sc tok s') = fst (handle_templates_list env req sc tok s)"
  by (auto simp: s'_def handle_tools_list_def handle_prompts_list_def handle_resources_list_def handle_templates_list_def
      handle_list_def list_tools_def list_prompts_def list_resources_def list_resource_templates_def
      case_prod_unfold Let_def split: option.split)

lemma kept_calls:
  fixes s :: server and what :: string and h :: server_handler_interface
  defines "s' \<equiv> fill (interface_slots what h) (build_logging (build_completions (caps s))) s"
  shows "fst (handle_tools_get env req sc tok s') = fst (handle_tools_get env req sc tok s)"
    "fst (handle_tools_call env req sc tok s') = fst (handle_tools_call env req sc tok s)"
    "fst (handle_prompts_get env req sc tok s') = fst (handle_prompts_get env req sc tok s)"
    "fst (handle_resources_read env req sc tok s') = fst (handle_resources_read env req sc tok s)"
    "fst (handle_subscription b env req sc tok s') = fst (handle_subscription b env req sc tok s)"
proof -
  show "fst (handle_tools_get env req sc tok s') = fst (handle_tools_get env req sc tok s)"
    by (simp add: s'_def handle_tools_get_def split: option.split json.split)
  show "fst (handle_tools_call env req sc tok s') = fst (handle_tools_call env req sc tok s)"
    by (simp add: s'_def handle_tools_call_def Let_def with_processor_def case_prod_unfold
        split: option.split parsed.split sum.split)
  show "fst (handle_prompts_get env req sc tok s') = fst (handle_prompts_get env req sc tok s)"
    by (simp add: s'_def handle_prompts_get_def split: sum.split)
  show "fst (handle_resources_read env req sc tok s') = fst (handle_resources_read env req sc tok s)"
    by (simp add: s'_def handle_resources_read_def read_resource_def split: sum.split)
  show "fst (handle_subscription b env req sc tok s') = fst (handle_subscription b env req sc tok s)"
    by (simp add: s'_def handle_subscription_def set_resource_subscription_def Let_def split: option.split json.split)
qed

lemma kept_methods:
  assumes "req_method req \<notin> replaced_methods"
  shows "fst (dispatch_method env req sc tok (fill (interface_slots what h) (build_logging (build_completions (caps s))) s)) =
         fst (dispatch_method env req sc tok s)"
  using assms unfolding dispatch_method_def Let_def replaced_methods_def
  by (simp add: kept_lists kept_calls)


text \<open>The code of an error answer.\<close>

definition answer_code :: "json_rpc_response outcome \<Rightarrow> int32 option" where
  "answer_code out = (case out of Val r \<Rightarrow> map_option eo_code (resp_error r) | _ \<Rightarrow> None)"

lemma answer_code_simps [simp]:
  "answer_code (Val (server_handler_error_response req e)) = Some (err_code e)"
  "answer_code (Val (error_of req e)) = Some (err_code e)"
  "answer_code (Val (make_params_error_response req e)) = Some (method_params_error_code e)"
  by (simp_all add: answer_code_def server_handler_error_response_def error_of_def error_reply_def
      make_params_error_response_def make_error_response_def make_error_def)

lemma params_errors_invalid_request:
  "prompts_get_params_from_json j = Inl e \<Longrightarrow> err_code e = error_code InvalidRequest"
  "resources_read_params_from_json j = Inl e \<Longrightarrow> err_code e = error_code InvalidRequest"
  by (auto simp: prompts_get_params_from_json_def resources_read_params_from_json_def uri_params_from_json_def
      prompt_json_error_def resource_json_error_def rbind_eq_Inl Let_def
      split: if_splits dest!: required_member_Inl optional_member_Inl)

lemma dispatch_raw:
  assumes "req_method req \<notin> {''initialize'', ''ping'', ''server/discover''}"
  shows "dispatch env req sc tok s = raw_response env req sc tok s"
  using assms by (simp add: dispatch_def)

lemma interface_raw:
  "h_raw_request_context (interface_slots what h hs) =
     Some (\<lambda>req sc tok. or_else (dispatch_server_handler_request what h req sc tok) (on_custom_request h req sc))"
  by (simp add: interface_slots_def)

lemma raw_response_none:
  assumes "h_raw_request_context (sv_handlers s) = None" "h_raw_request (sv_handlers s) = None"
  shows "raw_response env req sc tok s = dispatch_method env req sc tok s"
  using assms by (simp add: raw_response_def)

lemma silent_raw_response:
  assumes "well_formed_params req" "h_raw_request (sv_handlers s) = None"
  shows "raw_response env req sc tok (fill (interface_slots what silent_handler) c s) =
         dispatch_method env req sc tok (fill (interface_slots what silent_handler) c s)"
  using assms by (simp add: raw_response_def interface_raw silent_declines)

lemma task_methods_well_formed:
  "req_method req \<in> {''tasks/list'', ''tasks/get'', ''tasks/cancel'', ''tasks/result''} \<Longrightarrow> well_formed_params req"
  by (auto simp: well_formed_params_def Let_def)

text \<open>With the interface installed, the task methods no longer reach the task processor.\<close>

lemma silent_task_methods:
  assumes "h_raw_request (sv_handlers s) = None"
  shows
    "req_method req = ''tasks/list'' \<Longrightarrow> task_list_params_from_json (req_params req) = Inr p1 \<Longrightarrow>
     answer_code (fst (dispatch env req sc tok (set_handler what silent_handler s))) = Some (error_code MethodNotFound)"
    "req_method req = ''tasks/get'' \<Longrightarrow> task_get_params_from_json (req_params req) = Inr p2 \<Longrightarrow>
     answer_code (fst (dispatch env req sc tok (set_handler what silent_handler s))) = Some (error_code MethodNotFound)"
    "req_method req = ''tasks/cancel'' \<Longrightarrow> task_cancel_params_from_json (req_params req) = Inr p3 \<Longrightarrow>
     answer_code (fst (dispatch env req sc tok (set_handler what silent_handler s))) = Some (error_code MethodNotFound)"
    "req_method req = ''tasks/result'' \<Longrightarrow> task_result_params_from_json (req_params req) = Inr p4 \<Longrightarrow>
     answer_code (fst (dispatch env req sc tok (set_handler what silent_handler s))) = Some (error_code MethodNotFound)"
  using assms
  by (simp_all add: dispatch_raw silent_raw_response task_methods_well_formed dispatch_method_def Let_def
      handle_tasks_list_def handle_tasks_get_def handle_tasks_cancel_def handle_tasks_result_def
      set_handler_fill interface_slots_def unhandled_def handler_method_not_found_def reply_def)

lemma silent_refusals:
  assumes "h_raw_request_context (sv_handlers s) = None" "h_raw_request (sv_handlers s) = None"
  shows
    "req_method req = ''prompts/get'' \<Longrightarrow> prompts_get_params_from_json (req_params req) = Inl e \<Longrightarrow>
     answer_code (fst (dispatch env req sc tok s)) = Some (error_code InvalidParams) \<and>
     answer_code (fst (dispatch env req sc tok (set_handler what silent_handler s))) = Some (error_code InvalidRequest)"
    "req_method req = ''resources/read'' \<Longrightarrow> resources_read_params_from_json (req_params req) = Inl e \<Longrightarrow>
     answer_code (fst (dispatch env req sc tok s)) = Some (error_code InvalidParams) \<and>
     answer_code (fst (dispatch env req sc tok (set_handler what silent_handler s))) = Some (error_code InvalidRequest)"
  using assms
  by (auto simp: dispatch_raw raw_response_none dispatch_method_def Let_def handle_prompts_get_def handle_resources_read_def
      raw_response_def set_handler_fill interface_raw dispatch_server_handler_request_def
      dispatch_server_handler_discovery_request_def dispatch_handler_method_def method_params_error_code_def
      dest: params_errors_invalid_request)

text \<open>Installing a handler object that overrides nothing is not neutral. On a server without
  raw request handlers, every method that the object does not take over answers a request with
  well-formed params as before. But the task methods no longer reach the configured task
  processor: they answer that the method was not found. Malformed params of prompts/get and
  resources/read are now refused as an invalid request instead of invalid params. And the server
  advertises completions and logging.\<close>

theorem silent_handler_effect:
  fixes s :: server and env :: server_env
  assumes "h_raw_request_context (sv_handlers s) = None" "h_raw_request (sv_handlers s) = None"
  defines "s' \<equiv> set_handler (env_what env) silent_handler s"
  shows
    "(req_method req \<notin> replaced_methods \<and> well_formed_params req \<longrightarrow>
        fst (dispatch env req sc tok s') = fst (dispatch env req sc tok s)) \<and>
     (req_method req = ''tasks/list'' \<and> is_ok (task_list_params_from_json (req_params req)) \<or>
      req_method req = ''tasks/get'' \<and> is_ok (task_get_params_from_json (req_params req)) \<or>
      req_method req = ''tasks/cancel'' \<and> is_ok (task_cancel_params_from_json (req_params req)) \<or>
      req_method req = ''tasks/result'' \<and> is_ok (task_result_params_from_json (req_params req)) \<longrightarrow>
        answer_code (fst (dispatch env req sc tok s')) = Some (error_code MethodNotFound)) \<and>
     (req_method req = ''prompts/get'' \<and> \<not> is_ok (prompts_get_params_from_json (req_params req)) \<or>
      req_method req = ''resources/read'' \<and> \<not> is_ok (resources_read_params_from_json (req_params req)) \<longrightarrow>
        answer_code (fst (dispatch env req sc tok s)) = Some (error_code InvalidParams) \<and>
        answer_code (fst (dispatch env req sc tok s')) = Some (error_code InvalidRequest)) \<and>
     pc_enabled (vc_completions (caps s')) \<and> pc_enabled (vc_logging (caps s'))"
proof (intro conjI)
  show "req_method req \<notin> replaced_methods \<and> well_formed_params req \<longrightarrow>
        fst (dispatch env req sc tok s') = fst (dispatch env req sc tok s)"
  proof (cases "req_method req = ''ping''")
    case True
    then show ?thesis by (simp add: dispatch_def)
  next
    case False
    then show ?thesis
      using assms(1,2) kept_methods [of req env sc tok "env_what env" silent_handler s]
      by (auto simp: s'_def dispatch_raw silent_raw_response raw_response_none replaced_methods_def set_handler_fill)
  qed
next
  show "req_method req = ''tasks/list'' \<and> is_ok (task_list_params_from_json (req_params req)) \<or>
      req_method req = ''tasks/get'' \<and> is_ok (task_get_params_from_json (req_params req)) \<or>
      req_method req = ''tasks/cancel'' \<and> is_ok (task_cancel_params_from_json (req_params req)) \<or>
      req_method req = ''tasks/result'' \<and> is_ok (task_result_params_from_json (req_params req)) \<longrightarrow>
        answer_code (fst (dispatch env req sc tok s')) = Some (error_code MethodNotFound)"
    unfolding s'_def is_ok_iff by (auto simp: silent_task_methods [OF assms(2)])
  show "req_method req = ''prompts/get'' \<and> \<not> is_ok (prompts_get_params_from_json (req_params req)) \<or>
      req_method req = ''resources/read'' \<and> \<not> is_ok (resources_read_params_from_json (req_params req)) \<longrightarrow>
        answer_code (fst (dispatch env req sc tok s)) = Some (error_code InvalidParams) \<and>
        answer_code (fst (dispatch env req sc tok s')) = Some (error_code InvalidRequest)"
    unfolding s'_def
    by (cases "prompts_get_params_from_json (req_params req)"; cases "resources_read_params_from_json (req_params req)")
      (auto simp: silent_refusals [OF assms(1,2)])
  show "pc_enabled (vc_completions (caps s'))" "pc_enabled (vc_logging (caps s'))"
    by (simp_all add: s'_def set_handler_fill build_logging_def build_completions_def)
qed


theorem silent_handler_effect_witness:
  "let req = make_request ''prompts/get'' (IdInt 1) JNull;
       s' = set_handler (env_what sample_env) silent_handler sample_server in
   answer_code (fst (dispatch sample_env req empty_session None sample_server)) = Some (error_code InvalidParams) \<and>
   answer_code (fst (dispatch sample_env req empty_session None s')) = Some (error_code InvalidRequest)"
proof -
  have "\<not> is_ok (prompts_get_params_from_json JNull)"
    by (simp add: prompts_get_params_from_json_def)
  then show ?thesis
    using silent_handler_effect [of sample_server "make_request ''prompts/get'' (IdInt 1) JNull" sample_env empty_session None]
    by (simp add: sample_server_def set_completion_handler_def new_server_def no_handlers_def make_request_def Let_def)
qed

text \<open>
  When both are overridden, the handlers for raw requests and raw notifications of the interface
  are never called: the server installs the custom ones, whose default bodies are the only callers of
  the raw ones.
\<close>

lemma custom_hides_raw:
  assumes "hi_custom_request h = Some f" "hi_custom_notification h = Some g"
  shows "set_handler what (h\<lparr>hi_raw_request := a, hi_raw_notification := b\<rparr>) s = set_handler what h s"
proof -
  have "dispatch_server_handler_request what (h\<lparr>hi_raw_request := a, hi_raw_notification := b\<rparr>) req sc tok =
        dispatch_server_handler_request what h req sc tok" for req sc tok
    by (simp add: dispatch_server_handler_request_def dispatch_server_handler_discovery_request_def
        dispatch_handler_method_def Let_def split: parsed.split sum.split option.split json.split)
  with assms show ?thesis
    by (simp add: set_handler_fill interface_slots_def fill_def on_custom_request_def on_custom_notification_def
        on_interface_logging_def fun_eq_iff)
qed

text \<open>Starting stops at the first transport that fails; the ones started before are not stopped.\<close>

lemma start_transports_prefix:
  "start_transports f ts = (r, started) \<Longrightarrow>
     (case r of
        Inr _ \<Rightarrow> started = ts \<and> (\<forall>t\<in>set ts. is_ok (f t))
      | Inl e \<Rightarrow> \<exists>before t after. ts = before @ t # after \<and> started = before @ [t] \<and> f t = Inl e \<and> (\<forall>u\<in>set before. is_ok (f u)))"
proof (induction ts arbitrary: r started)
  case (Cons t ts)
  show ?case
  proof (cases "f t")
    case (Inl e)
    with Cons.prems have "r = Inl e" "started = [t]" by auto
    then show ?thesis using Inl by (auto intro!: exI [of _ "[]"])
  next
    case (Inr u)
    obtain r' st where rest: "start_transports f ts = (r', st)" by fastforce
    with Cons.prems Inr have eq: "r = r'" "started = t # st" by auto
    show ?thesis
    proof (cases r')
      case (Inl e)
      with Cons.IH [OF rest] obtain before v after where
        "ts = before @ v # after" "st = before @ [v]" "f v = Inl e" "\<forall>u\<in>set before. is_ok (f u)"
        by auto
      then show ?thesis
        using Inl Inr eq by (auto intro!: exI [of _ "t # before"])
    next
      case (Inr w)
      then show ?thesis using Cons.IH [OF rest] eq \<open>f t = Inr u\<close> by simp
    qed
  qed
qed simp

end
