(* ===== verification/Websocket_Server.thy ===== *)
theory Websocket_Server
  imports Serialization "HOL-Library.AList"
begin

text \<open>
  src/sdk/server/src/websocket_transport.cpp: the server side of the WebSocket transport. Each
  function of the class is split where it takes and releases the mutex; the parts are the atomic
  steps that the threads (one per connection, the callers of send, receive and close, the thread of
  the HTTP server) interleave. The maps of the class are association lists. A socket is the list of
  the texts sent on it; whether a send succeeds, whether the server binds and what a socket delivers
  are inputs. Connection numbers are natural numbers: the 64-bit counter would have to wrap for two
  connections to share a name.
\<close>

section \<open>State\<close>

record pending_client_request =
  pcr_id :: request_id
  pcr_response :: "json_rpc_response option"

definition new_pending :: "request_id \<Rightarrow> pending_client_request" where
  "new_pending i = \<lparr>pcr_id = i, pcr_response = None\<rparr>"

record ws_server =
  wss_inbound :: "json_rpc_message list"
  wss_pending :: "(request_id \<times> pending_client_request) list"
  wss_connection_for :: "(request_id \<times> string) list"
  wss_connections :: "(string \<times> string list) list"
  wss_active :: string
  wss_closed :: bool
  wss_ready :: bool
  wss_startup_error :: "core_error option"
  wss_connection_count :: int
  wss_next_connection :: nat
  wss_received :: uint64
  wss_sent :: uint64
  wss_thread_joinable :: bool

definition new_ws_server :: ws_server where
  "new_ws_server = \<lparr>wss_inbound = [], wss_pending = [], wss_connection_for = [], wss_connections = [],
     wss_active = '''', wss_closed = False, wss_ready = False, wss_startup_error = None, wss_connection_count = 0,
     wss_next_connection = 1, wss_received = 0, wss_sent = 0, wss_thread_joinable = False\<rparr>"

definition make_ws_server_error :: "ErrorCode \<Rightarrow> string \<Rightarrow> string \<Rightarrow> core_error" where
  "make_ws_server_error code message detail = mk_error (error_code code) message detail ''transport''"

fun ws_request_id_to_string :: "request_id \<Rightarrow> string" where
  "ws_request_id_to_string (IdString s) = s"
| "ws_request_id_to_string (IdInt i) = int_to_string (sint i)"

definition wss_diagnostics :: "ws_server \<Rightarrow> json" where
  "wss_diagnostics st = JObject
     [(''closed'', JBool (wss_closed st)), (''connections'', JUInt (word_of_int (wss_connection_count st))),
      (''messagesReceived'', JUInt (wss_received st)), (''messagesSent'', JUInt (wss_sent st)),
      (''name'', JString ''websocket-server''), (''pendingRequests'', JUInt (of_nat (length (wss_pending st)))),
      (''queued'', JUInt (of_nat (length (wss_inbound st)))), (''ready'', JBool (wss_ready st))]"

section \<open>Start\<close>

datatype bind_outcome = Bound | BindFailed | StartThrew string

definition mark_ready :: "ws_server \<Rightarrow> ws_server" where
  "mark_ready st = st\<lparr>wss_ready := True\<rparr>"

definition startup_failed :: "core_error \<Rightarrow> ws_server \<Rightarrow> ws_server" where
  "startup_failed e st = mark_ready (st\<lparr>wss_startup_error := Some e, wss_closed := True\<rparr>)"

text \<open>The body of the server thread, up to the loop of the HTTP server.\<close>

definition server_thread :: "string \<Rightarrow> int \<Rightarrow> bind_outcome \<Rightarrow> ws_server \<Rightarrow> ws_server" where
  "server_thread host port outcome st =
     (case outcome of
        Bound \<Rightarrow> mark_ready st
      | BindFailed \<Rightarrow>
          startup_failed (make_ws_server_error InternalError
            (''websocket server failed to bind to '' @ host @ '':'' @ int_to_string port) '''') st
      | StartThrew what \<Rightarrow>
          startup_failed (make_ws_server_error InternalError ''websocket server failed to start'' what) st)"

definition wss_start :: "string \<Rightarrow> int \<Rightarrow> bind_outcome \<Rightarrow> ws_server \<Rightarrow> ws_server" where
  "wss_start host port outcome st = server_thread host port outcome (st\<lparr>wss_thread_joinable := True\<rparr>)"

section \<open>Connections\<close>

definition connection_name :: "nat \<Rightarrow> string" where
  "connection_name n = ''conn-'' @ nat_to_string n"

text \<open>The first section of \<open>handle_connection\<close>: \<open>None\<close> when the connection is closed at once.\<close>

definition open_connection :: "nat \<Rightarrow> ws_server \<Rightarrow> string option \<times> ws_server" where
  "open_connection max_connections st =
     (let conn = connection_name (wss_next_connection st);
          st1 = st\<lparr>wss_next_connection := wss_next_connection st + 1\<rparr> in
      if wss_closed st1 then (None, st1)
      else if max_connections > 0 \<and> length (wss_connections st1) \<ge> max_connections then (None, st1)
      else (Some conn, st1\<lparr>wss_active := conn, wss_connections := AList.update conn [] (wss_connections st1),
              wss_connection_count := wss_connection_count st1 + 1\<rparr>))"

text \<open>A request is registered, unless the id is known, and its connection noted in any case.\<close>

definition register_request :: "string \<Rightarrow> request_id \<Rightarrow> ws_server \<Rightarrow> ws_server option" where
  "register_request conn i st =
     (if wss_closed st then None
      else Some (st\<lparr>wss_pending := (if map_of (wss_pending st) i = None
                                    then AList.update i (new_pending i) (wss_pending st) else wss_pending st),
                   wss_connection_for := AList.update i conn (wss_connection_for st)\<rparr>))"

definition enqueue_message :: "json_rpc_message \<Rightarrow> ws_server \<Rightarrow> ws_server option" where
  "enqueue_message m st =
     (if wss_closed st then None else Some (st\<lparr>wss_inbound := wss_inbound st @ [m]\<rparr>))"

text \<open>Cleanup after the loop: the requests of the connection are failed and forgotten.\<close>

definition requests_of :: "string \<Rightarrow> ws_server \<Rightarrow> request_id list" where
  "requests_of conn st = map fst (filter (\<lambda>(i, c). c = conn) (wss_connection_for st))"

definition forget_request :: "request_id \<Rightarrow> ws_server \<Rightarrow> ws_server" where
  "forget_request i st = st\<lparr>wss_pending := AList.delete i (wss_pending st),
     wss_connection_for := AList.delete i (wss_connection_for st)\<rparr>"

definition close_connection :: "string \<Rightarrow> ws_server \<Rightarrow> ws_server" where
  "close_connection conn st =
     (let st1 = st\<lparr>wss_connection_count := wss_connection_count st - 1,
                   wss_active := (if wss_active st = conn then '''' else wss_active st),
                   wss_connections := AList.delete conn (wss_connections st)\<rparr>
      in fold forget_request (requests_of conn st1) st1)"

text \<open>One turn of the loop for a text that was read: what the connection thread does when no other
  thread interferes. \<open>None\<close> means that the loop is left.\<close>

definition handle_text :: "(string \<Rightarrow> json option) \<Rightarrow> string \<Rightarrow> string \<Rightarrow> ws_server \<Rightarrow> ws_server option" where
  "handle_text parse conn raw st =
     (let st1 = st\<lparr>wss_received := wss_received st + 1\<rparr> in
      case parse_message parse raw of
        Inl _ \<Rightarrow> Some st1
      | Inr m \<Rightarrow>
          (case (case m of MsgRequest r \<Rightarrow> register_request conn (req_id r) st1 | _ \<Rightarrow> Some st1) of
             None \<Rightarrow> None
           | Some st2 \<Rightarrow> enqueue_message m st2))"

section \<open>Sending\<close>

definition socket_send :: "string \<Rightarrow> string \<Rightarrow> bool \<Rightarrow> ws_server \<Rightarrow> bool \<times> ws_server" where
  "socket_send conn data ok st =
     (case map_of (wss_connections st) conn of
        None \<Rightarrow> (False, st)
      | Some sent \<Rightarrow>
          if ok then (True, st\<lparr>wss_connections := AList.update conn (sent @ [data]) (wss_connections st),
                              wss_sent := wss_sent st + 1\<rparr>)
          else (False, st))"

text \<open>The two sections of \<open>complete_client_request\<close>.\<close>

definition take_request :: "request_id \<Rightarrow> ws_server \<Rightarrow> string result \<times> ws_server" where
  "take_request i st =
     (case map_of (wss_pending st) i of
        None \<Rightarrow> (Inl (make_ws_server_error InvalidRequest ''websocket server transport has no pending client request''
                   (ws_request_id_to_string i)), st)
      | Some _ \<Rightarrow>
          (Inr (case map_of (wss_connection_for st) i of None \<Rightarrow> '''' | Some conn \<Rightarrow> conn),
           st\<lparr>wss_pending := AList.delete i (wss_pending st),
              wss_connection_for := AList.delete i (wss_connection_for st)\<rparr>))"

definition deliver_response :: "string \<Rightarrow> string \<Rightarrow> bool \<Rightarrow> ws_server \<Rightarrow> unit result \<times> ws_server" where
  "deliver_response conn data ok st =
     (if map_of (wss_connections st) conn = None
      then (Inl (make_ws_server_error InternalError ''websocket request connection is no longer active'' ''''), st)
      else case socket_send conn data ok st of
        (False, st') \<Rightarrow> (Inl (make_ws_server_error InternalError ''websocket send failed'' ''''), st')
      | (True, st') \<Rightarrow> (Inr (), st'))"

definition complete_client_request ::
  "(json \<Rightarrow> string) \<Rightarrow> bool \<Rightarrow> json_rpc_response \<Rightarrow> request_id \<Rightarrow> ws_server \<Rightarrow> unit result \<times> ws_server" where
  "complete_client_request dump ok r i st =
     (case take_request i st of
        (Inl e, st1) \<Rightarrow> (Inl e, st1)
      | (Inr conn, st1) \<Rightarrow>
          (case serialize_response_direct dump r of
             Inl _ \<Rightarrow> (Inl (make_ws_server_error InternalError ''failed to serialize websocket response'' ''''), st1)
           | Inr data \<Rightarrow> deliver_response conn data ok st1))"

definition send_notification_to_active ::
  "(json \<Rightarrow> string) \<Rightarrow> bool \<Rightarrow> json_rpc_notification \<Rightarrow> ws_server \<Rightarrow> unit result \<times> ws_server" where
  "send_notification_to_active dump ok n st =
     (case serialize_notification_direct dump n of
        Inl _ \<Rightarrow> (Inl (make_ws_server_error InternalError ''failed to serialize websocket notification'' ''''), st)
      | Inr data \<Rightarrow>
          if map_of (wss_connections st) (wss_active st) = None
          then (Inl (make_ws_server_error InternalError ''no active websocket connection'' ''''), st)
          else case socket_send (wss_active st) data ok st of
            (False, st') \<Rightarrow> (Inl (make_ws_server_error InternalError ''websocket send failed'' ''''), st')
          | (True, st') \<Rightarrow> (Inr (), st'))"

text \<open>The sections of \<open>send_request_to_active\<close>.\<close>

definition reserve_request :: "request_id \<Rightarrow> ws_server \<Rightarrow> unit result \<times> ws_server" where
  "reserve_request i st =
     (if map_of (wss_connections st) (wss_active st) = None
      then (Inl (make_ws_server_error InternalError ''no active websocket connection'' ''''), st)
      else if map_of (wss_pending st) i \<noteq> None
      then (Inl (make_ws_server_error InvalidRequest ''duplicate websocket server request id''
              (ws_request_id_to_string i)), st)
      else (Inr (), st\<lparr>wss_pending := AList.update i (new_pending i) (wss_pending st)\<rparr>))"

definition unreserve_request :: "request_id \<Rightarrow> ws_server \<Rightarrow> ws_server" where
  "unreserve_request i st = st\<lparr>wss_pending := AList.delete i (wss_pending st)\<rparr>"

definition transmit_request :: "request_id \<Rightarrow> string \<Rightarrow> bool \<Rightarrow> ws_server \<Rightarrow> unit result \<times> ws_server" where
  "transmit_request i data ok st =
     (case socket_send (wss_active st) data ok st of
        (False, st') \<Rightarrow>
          (Inl (make_ws_server_error InternalError ''websocket send failed'' ''''), unreserve_request i st')
      | (True, st') \<Rightarrow> (Inr (), st'))"

definition send_request_to_active ::
  "(json \<Rightarrow> string) \<Rightarrow> bool \<Rightarrow> json_rpc_request \<Rightarrow> ws_server \<Rightarrow> unit result \<times> ws_server" where
  "send_request_to_active dump ok r st =
     (case reserve_request (req_id r) st of
        (Inl e, st1) \<Rightarrow> (Inl e, st1)
      | (Inr _, st1) \<Rightarrow>
          (case serialize_request_direct dump r of
             Inl _ \<Rightarrow> (Inl (make_ws_server_error InternalError ''failed to serialize websocket request'' ''''),
                       unreserve_request (req_id r) st1)
           | Inr data \<Rightarrow> transmit_request (req_id r) data ok st1))"

definition wss_send :: "(json \<Rightarrow> string) \<Rightarrow> bool \<Rightarrow> json_rpc_message \<Rightarrow> ws_server \<Rightarrow> unit result \<times> ws_server" where
  "wss_send dump ok m st =
     (case m of
        MsgResponse r \<Rightarrow>
          (case resp_id r of
             None \<Rightarrow> (Inl (make_ws_server_error InvalidRequest
                         ''websocket server transport cannot send response without id'' ''''), st)
           | Some i \<Rightarrow> complete_client_request dump ok r i st)
      | _ \<Rightarrow>
          if wss_closed st
          then (Inl (make_ws_server_error InvalidRequest ''websocket server transport is closed'' ''''), st)
          else (case m of
                  MsgNotification n \<Rightarrow> send_notification_to_active dump ok n st
                | MsgRequest r \<Rightarrow> send_request_to_active dump ok r st))"

section \<open>Receiving and closing\<close>

text \<open>\<open>receive\<close> when it does not block: \<open>None\<close> while the wait goes on.\<close>

definition wss_receive :: "ws_server \<Rightarrow> (json_rpc_message option result \<times> ws_server) option" where
  "wss_receive st =
     (if wss_closed st \<and> wss_inbound st = [] then Some (Inr None, st)
      else if \<not> (wss_closed st \<or> wss_startup_error st \<noteq> None \<or> wss_inbound st \<noteq> []) then None
      else case wss_startup_error st of
        Some e \<Rightarrow> Some (Inl e, st)
      | None \<Rightarrow>
          (case wss_inbound st of
             [] \<Rightarrow> Some (Inr None, st)
           | m # ms \<Rightarrow> Some (Inr (Some m), st\<lparr>wss_inbound := ms\<rparr>)))"

text \<open>The responses that \<open>close\<close> stores in the requests still pending, and the state afterwards. The
  second section stops the HTTP server and joins its thread.\<close>

definition closed_response :: "pending_client_request \<Rightarrow> pending_client_request" where
  "closed_response p = p\<lparr>pcr_response := Some (make_error_response (Some (pcr_id p))
     (make_error (error_code InternalError) ''websocket server transport closed'' None))\<rparr>"

definition wss_close :: "ws_server \<Rightarrow> pending_client_request list \<times> ws_server" where
  "wss_close st =
     (if wss_closed st then ([], st)
      else (map (\<lambda>e. closed_response (snd e)) (wss_pending st),
            mark_ready (st\<lparr>wss_closed := True, wss_pending := [], wss_thread_joinable := False\<rparr>)))"

text \<open>The destructor closes and then destroys the members; destroying a thread that is still joinable
  ends the process (\<open>std::terminate\<close>), which is \<open>None\<close> here.\<close>

definition wss_destroy :: "ws_server \<Rightarrow> ws_server option" where
  "wss_destroy st = (let st' = snd (wss_close st) in if wss_thread_joinable st' then None else Some st')"

section \<open>Interleavings\<close>

text \<open>
  The threads of a server. \<open>holding\<close>: connection threads that have registered a request and not yet
  queued it. \<open>delivering\<close>: callers of send that have taken a pending request and not yet written the
  response. The rest records what happened: the registrations, latest first, the messages queued and
  the messages handed to callers of receive. A connection can end at any time.
\<close>

record ws_system =
  srv :: ws_server
  holding :: "(string \<times> json_rpc_message) list"
  delivering :: "(request_id \<times> string) list"
  registrations :: "(request_id \<times> string) list"
  queued :: "json_rpc_message list"
  handed :: "json_rpc_message list"

definition is_request_message :: "json_rpc_message \<Rightarrow> bool" where
  "is_request_message m = (case m of MsgRequest _ \<Rightarrow> True | _ \<Rightarrow> False)"

definition connected :: "string \<Rightarrow> ws_system \<Rightarrow> bool" where
  "connected conn s \<longleftrightarrow> map_of (wss_connections (srv s)) conn \<noteq> None"

inductive ws_step :: "nat \<Rightarrow> ws_system \<Rightarrow> ws_system \<Rightarrow> bool" for max_connections where
  connect: "open_connection max_connections (srv s) = (c, st) \<Longrightarrow>
     ws_step max_connections s (s\<lparr>srv := st\<rparr>)"
| unreadable: "connected conn s \<Longrightarrow>
     ws_step max_connections s (s\<lparr>srv := (srv s)\<lparr>wss_received := wss_received (srv s) + 1\<rparr>\<rparr>)"
| register: "connected conn s \<Longrightarrow> map_of (holding s) conn = None \<Longrightarrow>
     register_request conn (req_id r) (srv s) = Some st \<Longrightarrow>
     ws_step max_connections s (s\<lparr>srv := st\<lparr>wss_received := wss_received st + 1\<rparr>,
       holding := AList.update conn (MsgRequest r) (holding s),
       registrations := (req_id r, conn) # registrations s\<rparr>)"
| enqueue_held: "map_of (holding s) conn = Some m \<Longrightarrow> enqueue_message m (srv s) = Some st \<Longrightarrow>
     ws_step max_connections s (s\<lparr>srv := st, holding := AList.delete conn (holding s), queued := queued s @ [m]\<rparr>)"
| enqueue_other: "connected conn s \<Longrightarrow> map_of (holding s) conn = None \<Longrightarrow> \<not> is_request_message m \<Longrightarrow>
     enqueue_message m (srv s) = Some st \<Longrightarrow>
     ws_step max_connections s (s\<lparr>srv := st\<lparr>wss_received := wss_received st + 1\<rparr>, queued := queued s @ [m]\<rparr>)"
| leave: "connected conn s \<Longrightarrow>
     ws_step max_connections s (s\<lparr>srv := close_connection conn (srv s), holding := AList.delete conn (holding s)\<rparr>)"
| take: "take_request i (srv s) = (Inr conn, st) \<Longrightarrow>
     ws_step max_connections s (s\<lparr>srv := st, delivering := (i, conn) # delivering s\<rparr>)"
| deliver: "(i, conn) \<in> set (delivering s) \<Longrightarrow> deliver_response conn data ok (srv s) = (res, st) \<Longrightarrow>
     ws_step max_connections s (s\<lparr>srv := st, delivering := remove1 (i, conn) (delivering s)\<rparr>)"
| notify: "send_notification_to_active dump ok n (srv s) = (res, st) \<Longrightarrow> ws_step max_connections s (s\<lparr>srv := st\<rparr>)"
| reserve: "reserve_request i (srv s) = (res, st) \<Longrightarrow> ws_step max_connections s (s\<lparr>srv := st\<rparr>)"
| unreserve: "ws_step max_connections s (s\<lparr>srv := unreserve_request i (srv s)\<rparr>)"
| transmit: "transmit_request i data ok (srv s) = (res, st) \<Longrightarrow> ws_step max_connections s (s\<lparr>srv := st\<rparr>)"
| receive_message: "wss_receive (srv s) = Some (Inr (Some m), st) \<Longrightarrow>
     ws_step max_connections s (s\<lparr>srv := st, handed := handed s @ [m]\<rparr>)"
| close: "wss_close (srv s) = (ps, st) \<Longrightarrow> ws_step max_connections s (s\<lparr>srv := st\<rparr>)"
| serve_threw: "wss_thread_joinable (srv s) \<Longrightarrow> \<not> wss_closed (srv s) \<Longrightarrow>
     ws_step max_connections s (s\<lparr>srv := server_thread host port (StartThrew what) (srv s)\<rparr>)"

definition ws_system_of :: "ws_server \<Rightarrow> ws_system" where
  "ws_system_of st = \<lparr>srv = st, holding = [], delivering = [], registrations = [], queued = [], handed = []\<rparr>"

inductive ws_reachable :: "nat \<Rightarrow> ws_system \<Rightarrow> bool" for max_connections where
  started: "ws_reachable max_connections (ws_system_of (wss_start host port outcome new_ws_server))"
| stepped: "ws_reachable max_connections s \<Longrightarrow> ws_step max_connections s t \<Longrightarrow> ws_reachable max_connections t"

section \<open>Invariant\<close>

text \<open>The keys of an association list, as an opaque set.\<close>

definition al_keys :: "('k \<times> 'v) list \<Rightarrow> 'k set" where
  "al_keys al = fst ` set al"

lemma al_keys_iff: "k \<in> al_keys al \<longleftrightarrow> map_of al k \<noteq> None"
  by (simp add: al_keys_def map_of_eq_None_iff)

lemma al_keys_simps [simp]:
  "al_keys [] = {}" "al_keys (AList.update k v al) = insert k (al_keys al)" "al_keys (AList.delete k al) = al_keys al - {k}"
  by (auto simp: al_keys_def AList.dom_update AList.delete_eq)

lemma length_update_fresh: "k \<notin> al_keys al \<Longrightarrow> length (AList.update k v al) = Suc (length al)"
  by (metis AList.update_keys al_keys_def length_append_singleton length_map list.set_map)

lemma length_delete:
  "distinct (map fst al) \<Longrightarrow> k \<in> al_keys al \<Longrightarrow> length (AList.delete k al) = length al - 1"
  by (metis AList.delete_keys al_keys_def distinct_remove1_removeAll length_map length_remove1 list.set_map)

definition tables_ok :: "ws_server \<Rightarrow> bool" where
  "tables_ok st \<longleftrightarrow> distinct (map fst (wss_pending st)) \<and> distinct (map fst (wss_connection_for st)) \<and>
     distinct (map fst (wss_connections st))"

definition names_ok :: "ws_server \<Rightarrow> bool" where
  "names_ok st \<longleftrightarrow>
     al_keys (wss_connections st) \<subseteq> connection_name ` {..<wss_next_connection st} \<and>
     wss_active st \<in> insert '''' (al_keys (wss_connections st)) \<and>
     ran (map_of (wss_connection_for st)) \<subseteq> al_keys (wss_connections st)"

definition counts_ok :: "nat \<Rightarrow> ws_server \<Rightarrow> bool" where
  "counts_ok max_connections st \<longleftrightarrow>
     (max_connections > 0 \<longrightarrow> length (wss_connections st) \<le> max_connections) \<and>
     wss_connection_count st = int (length (wss_connections st))"

definition thread_ok :: "ws_server \<Rightarrow> bool" where
  "thread_ok st \<longleftrightarrow> (wss_startup_error st \<noteq> None \<longleftrightarrow> wss_closed st \<and> wss_thread_joinable st)"

definition server_ok :: "nat \<Rightarrow> ws_server \<Rightarrow> bool" where
  "server_ok max_connections st \<longleftrightarrow> tables_ok st \<and> names_ok st \<and> counts_ok max_connections st \<and> thread_ok st"

lemmas server_ok_defs = server_ok_def tables_ok_def names_ok_def counts_ok_def thread_ok_def

lemma connection_name_inj [simp]: "connection_name m = connection_name n \<longleftrightarrow> m = n"
  by (simp add: connection_name_def)

lemma connection_name_nonempty [simp]: "connection_name n \<noteq> ''''"
  by (simp add: connection_name_def)

lemma ran_delete: "ran (map_of (AList.delete k al)) \<subseteq> ran (map_of al)"
  by (auto simp: AList.delete_conv' ran_def)

lemma start_ok: "server_ok mx (wss_start host port outcome new_ws_server)"
  by (cases outcome) (auto simp: server_ok_defs wss_start_def server_thread_def startup_failed_def mark_ready_def
      new_ws_server_def)

lemma open_connection_ok:
  assumes "server_ok mx st" "open_connection mx st = (c, st')"
  shows "server_ok mx st'"
proof -
  let ?c = "connection_name (wss_next_connection st)"
  have ok: "tables_ok st" "names_ok st" "counts_ok mx st" "thread_ok st" using assms(1) by (auto simp: server_ok_def)
  have fresh: "?c \<notin> al_keys (wss_connections st)" using ok(2) by (auto simp: names_ok_def)
  have "tables_ok st'" "counts_ok mx st'" "thread_ok st'"
    using ok(1,3,4) assms(2) length_update_fresh [OF fresh]
    by (auto simp: tables_ok_def counts_ok_def thread_ok_def open_connection_def Let_def AList.distinct_update split: if_splits)
  moreover have "names_ok st'"
    using ok(2) assms(2) by (auto simp: names_ok_def open_connection_def Let_def lessThan_Suc split: if_splits)
  ultimately show ?thesis by (simp add: server_ok_def)
qed

lemma ran_update: "ran (map_of (AList.update k v al)) \<subseteq> insert v (ran (map_of al))"
  by (auto simp: AList.update_conv' ran_def)

lemma register_request_ok:
  assumes "server_ok mx st" "register_request conn i st = Some st'" "conn \<in> al_keys (wss_connections st)"
  shows "server_ok mx st'"
proof -
  have ok: "tables_ok st" "names_ok st" "counts_ok mx st" "thread_ok st" using assms(1) by (auto simp: server_ok_def)
  have "ran (map_of (AList.update i conn (wss_connection_for st))) \<subseteq> al_keys (wss_connections st)"
    using ran_update [of i conn "wss_connection_for st"] ok(2) assms(3) by (auto simp: names_ok_def)
  then have "names_ok st'" using ok(2) assms(2) by (auto simp: names_ok_def register_request_def simp del: insert_subset split: if_splits)
  moreover have "tables_ok st'" "counts_ok mx st'" "thread_ok st'"
    using ok(1,3,4) assms(2)
    by (auto simp: tables_ok_def counts_ok_def thread_ok_def register_request_def AList.distinct_update split: if_splits)
  ultimately show ?thesis by (simp add: server_ok_def)
qed

lemma enqueue_message_ok: "server_ok mx st \<Longrightarrow> enqueue_message m st = Some st' \<Longrightarrow> server_ok mx st'"
  by (auto simp: server_ok_defs enqueue_message_def split: if_splits)

lemma forget_requests:
  "fold forget_request ids st =
     st\<lparr>wss_pending := fold AList.delete ids (wss_pending st),
        wss_connection_for := fold AList.delete ids (wss_connection_for st)\<rparr>"
  by (induction ids arbitrary: st) (simp_all add: forget_request_def)

lemma fold_delete:
  "map_of (fold AList.delete ids al) k = (if k \<in> set ids then None else map_of al k)"
  "distinct (map fst al) \<Longrightarrow> distinct (map fst (fold AList.delete ids al))"
  by (induction ids arbitrary: al) (auto simp: AList.delete_conv' AList.distinct_delete)

lemma close_connection_simps [simp]:
  "wss_inbound (close_connection conn st) = wss_inbound st"
  "wss_active (close_connection conn st) = (if wss_active st = conn then '''' else wss_active st)"
  "wss_connections (close_connection conn st) = AList.delete conn (wss_connections st)"
  "wss_closed (close_connection conn st) = wss_closed st"
  "wss_startup_error (close_connection conn st) = wss_startup_error st"
  "wss_thread_joinable (close_connection conn st) = wss_thread_joinable st"
  "wss_next_connection (close_connection conn st) = wss_next_connection st"
  "wss_connection_count (close_connection conn st) = wss_connection_count st - 1"
  by (simp_all add: close_connection_def Let_def forget_requests)

lemma requests_of_iff:
  "distinct (map fst (wss_connection_for st)) \<Longrightarrow>
   i \<in> set (requests_of conn st) \<longleftrightarrow> map_of (wss_connection_for st) i = Some conn"
  by (force simp: requests_of_def map_of_eq_Some_iff)

lemma close_connection_requests:
  assumes "distinct (map fst (wss_connection_for st))"
  shows "map_of (wss_connection_for (close_connection conn st)) i =
      (if map_of (wss_connection_for st) i = Some conn then None else map_of (wss_connection_for st) i)"
    "map_of (wss_pending (close_connection conn st)) i =
      (if map_of (wss_connection_for st) i = Some conn then None else map_of (wss_pending st) i)"
  using assms by (simp_all add: close_connection_def Let_def forget_requests fold_delete requests_of_iff)

lemma close_connection_ok:
  assumes "server_ok mx st" "conn \<in> al_keys (wss_connections st)"
  shows "server_ok mx (close_connection conn st)"
proof -
  have ok: "tables_ok st" "names_ok st" "counts_ok mx st" "thread_ok st" using assms(1) by (auto simp: server_ok_def)
  have d: "distinct (map fst (wss_connections st))" "distinct (map fst (wss_connection_for st))"
    using ok(1) by (auto simp: tables_ok_def)
  have t: "tables_ok (close_connection conn st)"
    using ok(1) by (simp add: tables_ok_def AList.distinct_delete)
      (simp add: close_connection_def Let_def forget_requests fold_delete)
  have "ran (map_of (wss_connection_for (close_connection conn st))) \<subseteq> ran (map_of (wss_connection_for st)) - {conn}"
    using close_connection_requests(1) [OF d(2)] by (auto simp: ran_def split: if_splits)
  then have n: "names_ok (close_connection conn st)" using ok(2) by (auto simp: names_ok_def)
  have "length (wss_connections st) > 0" using assms(2) by auto
  then have "int (length (wss_connections (close_connection conn st))) = int (length (wss_connections st)) - 1"
    using length_delete [OF d(1) assms(2)] by (simp add: of_nat_diff Suc_le_eq)
  then have "counts_ok mx (close_connection conn st)" using ok(3) by (auto simp: counts_ok_def)
  then show ?thesis using ok(4) t n by (simp add: server_ok_def thread_ok_def)
qed

lemma socket_send_ok:
  assumes "server_ok mx st" "socket_send conn data ok st = (b, st')"
  shows "server_ok mx st'"
proof (cases "map_of (wss_connections st) conn")
  case None
  then show ?thesis using assms by (simp add: socket_send_def)
next
  case (Some sent)
  then have k: "conn \<in> al_keys (wss_connections st)" by (simp add: al_keys_iff)
  then have "map fst (AList.update conn (sent @ [data]) (wss_connections st)) = map fst (wss_connections st)"
    by (simp add: AList.update_keys al_keys_def)
  then have "length (AList.update conn (sent @ [data]) (wss_connections st)) = length (wss_connections st)"
    by (metis length_map)
  then show ?thesis
    using assms Some k
    by (auto simp: server_ok_defs socket_send_def insert_absorb AList.distinct_update split: if_splits)
qed

lemma take_request_ok:
  assumes "server_ok mx st" "take_request i st = (r, st')"
  shows "server_ok mx st'"
proof -
  have ok: "tables_ok st" "names_ok st" "counts_ok mx st" "thread_ok st" using assms(1) by (auto simp: server_ok_def)
  have "ran (map_of (AList.delete i (wss_connection_for st))) \<subseteq> al_keys (wss_connections st)"
    using ran_delete [of i "wss_connection_for st"] ok(2) by (auto simp: names_ok_def)
  then have "names_ok st'" using ok(2) assms(2) by (auto simp: names_ok_def take_request_def split: option.splits)
  moreover have "tables_ok st'" "counts_ok mx st'" "thread_ok st'"
    using ok(1,3,4) assms(2)
    by (auto simp: tables_ok_def counts_ok_def thread_ok_def take_request_def AList.distinct_delete split: option.splits)
  ultimately show ?thesis by (simp add: server_ok_def)
qed

lemma deliver_response_ok: "server_ok mx st \<Longrightarrow> deliver_response conn data ok st = (r, st') \<Longrightarrow> server_ok mx st'"
  by (auto simp: deliver_response_def split: if_splits prod.splits bool.splits dest: socket_send_ok)

lemma send_notification_ok:
  "server_ok mx st \<Longrightarrow> send_notification_to_active dump ok n st = (r, st') \<Longrightarrow> server_ok mx st'"
  by (auto simp: send_notification_to_active_def split: if_splits prod.splits bool.splits sum.splits dest: socket_send_ok)

lemma reserve_request_ok: "server_ok mx st \<Longrightarrow> reserve_request i st = (r, st') \<Longrightarrow> server_ok mx st'"
  by (auto simp: server_ok_defs reserve_request_def AList.distinct_update split: if_splits)

lemma unreserve_request_ok: "server_ok mx st \<Longrightarrow> server_ok mx (unreserve_request i st)"
  by (auto simp: server_ok_defs unreserve_request_def AList.distinct_delete)

lemma transmit_request_ok: "server_ok mx st \<Longrightarrow> transmit_request i data ok st = (r, st') \<Longrightarrow> server_ok mx st'"
  by (auto simp: transmit_request_def split: prod.splits bool.splits dest: socket_send_ok intro!: unreserve_request_ok)

lemma wss_receive_ok: "server_ok mx st \<Longrightarrow> wss_receive st = Some (r, st') \<Longrightarrow> server_ok mx st'"
  by (auto simp: wss_receive_def server_ok_defs split: if_splits option.splits list.splits)

lemma wss_close_ok: "server_ok mx st \<Longrightarrow> wss_close st = (ps, st') \<Longrightarrow> server_ok mx st'"
  by (auto simp: wss_close_def server_ok_defs mark_ready_def split: if_splits)

lemma serve_threw_ok:
  "server_ok mx st \<Longrightarrow> wss_thread_joinable st \<Longrightarrow> server_ok mx (server_thread host port (StartThrew what) st)"
  by (auto simp: server_thread_def startup_failed_def server_ok_defs mark_ready_def)

lemma received_ok: "server_ok mx st \<Longrightarrow> server_ok mx (st\<lparr>wss_received := n\<rparr>)"
  by (auto simp: server_ok_defs)

lemma ws_step_ok:
  assumes "ws_step mx s t" "server_ok mx (srv s)"
  shows "server_ok mx (srv t)"
  using assms(1)
proof cases
  case (connect c st)
  then show ?thesis using open_connection_ok [OF assms(2)] by simp
next
  case (register conn r st)
  then have "server_ok mx st" using register_request_ok [OF assms(2) register(4)] by (simp add: connected_def al_keys_iff)
  then show ?thesis using register(1) received_ok by simp
next
  case (enqueue_held conn m st)
  then show ?thesis using enqueue_message_ok [OF assms(2)] by simp
next
  case (enqueue_other conn m st)
  then show ?thesis using enqueue_message_ok [OF assms(2) enqueue_other(5)] received_ok by simp
next
  case (leave conn)
  then show ?thesis using close_connection_ok [OF assms(2)] by (simp add: connected_def al_keys_iff)
next
  case (take i conn st)
  then show ?thesis using take_request_ok [OF assms(2)] by simp
next
  case (deliver i conn data ok res st)
  then show ?thesis using deliver_response_ok [OF assms(2)] by simp
next
  case (notify dump ok n res st)
  then show ?thesis using send_notification_ok [OF assms(2)] by simp
next
  case (reserve i res st)
  then show ?thesis using reserve_request_ok [OF assms(2)] by simp
next
  case (transmit i data ok res st)
  then show ?thesis using transmit_request_ok [OF assms(2)] by simp
next
  case (receive_message m st)
  then show ?thesis using wss_receive_ok [OF assms(2)] by simp
next
  case (close ps st)
  then show ?thesis using wss_close_ok [OF assms(2)] by simp
qed (simp_all add: assms(2) unreserve_request_ok serve_threw_ok received_ok)

lemma ws_reachable_ok: "ws_reachable mx s \<Longrightarrow> server_ok mx (srv s)"
  by (induction rule: ws_reachable.induct) (simp_all add: ws_system_of_def start_ok ws_step_ok)

section \<open>History\<close>

definition history_ok :: "ws_system \<Rightarrow> bool" where
  "history_ok s \<longleftrightarrow>
     map_of (wss_connection_for (srv s)) \<subseteq>\<^sub>m map_of (registrations s) \<and>
     queued s = handed s @ wss_inbound (srv s)"

text \<open>What the operations keep of the inbound queue and of the table of connections by request.\<close>

lemma socket_send_keeps:
  "socket_send conn data ok st = (b, st') \<Longrightarrow>
   wss_inbound st' = wss_inbound st \<and> wss_connection_for st' = wss_connection_for st"
  by (auto simp: socket_send_def split: option.splits if_splits)

lemma operations_keep:
  "open_connection mx st = (c, st') \<Longrightarrow> wss_inbound st' = wss_inbound st \<and> wss_connection_for st' = wss_connection_for st"
  "deliver_response conn data ok st = (r, st') \<Longrightarrow>
     wss_inbound st' = wss_inbound st \<and> wss_connection_for st' = wss_connection_for st"
  "send_notification_to_active dump ok n st = (r, st') \<Longrightarrow>
     wss_inbound st' = wss_inbound st \<and> wss_connection_for st' = wss_connection_for st"
  "reserve_request i st = (r, st') \<Longrightarrow>
     wss_inbound st' = wss_inbound st \<and> wss_connection_for st' = wss_connection_for st"
  "transmit_request i data ok st = (r, st') \<Longrightarrow>
     wss_inbound st' = wss_inbound st \<and> wss_connection_for st' = wss_connection_for st"
  "wss_close st = (ps, st') \<Longrightarrow> wss_inbound st' = wss_inbound st \<and> wss_connection_for st' = wss_connection_for st"
  by (auto simp: open_connection_def Let_def deliver_response_def send_notification_to_active_def reserve_request_def
      transmit_request_def unreserve_request_def wss_close_def mark_ready_def
      split: if_splits prod.splits bool.splits sum.splits dest: socket_send_keeps)

lemma map_le_upd: "m \<subseteq>\<^sub>m m' \<Longrightarrow> m(k \<mapsto> v) \<subseteq>\<^sub>m m'(k \<mapsto> v)"
  by (auto simp: map_le_def)

lemma ws_step_history:
  assumes "ws_step mx s t" "history_ok s" "server_ok mx (srv s)"
  shows "history_ok t"
  using assms(1)
proof cases
  case (connect c st)
  then show ?thesis using assms(2) operations_keep(1) by (simp add: history_ok_def)
next
  case (register conn r st)
  then show ?thesis
    using assms(2) map_le_upd [of "map_of (wss_connection_for (srv s))" "map_of (registrations s)"]
    by (auto simp: history_ok_def register_request_def AList.update_conv' split: if_splits)
next
  case (leave conn)
  have "map_of (wss_connection_for (close_connection conn (srv s))) \<subseteq>\<^sub>m map_of (wss_connection_for (srv s))"
    using assms(3) by (auto simp: map_le_def close_connection_requests server_ok_def tables_ok_def split: if_splits)
  then show ?thesis using leave assms(2) map_le_trans by (auto simp: history_ok_def)
next
  case (take i conn st)
  have "map_of (AList.delete i (wss_connection_for (srv s))) \<subseteq>\<^sub>m map_of (wss_connection_for (srv s))"
    by (auto simp: map_le_def AList.delete_conv')
  then show ?thesis
    using take assms(2) map_le_trans by (auto simp: history_ok_def take_request_def split: option.splits)
next
  case (deliver i conn data ok res st)
  then show ?thesis using assms(2) operations_keep(2) by (simp add: history_ok_def)
next
  case (notify dump ok n res st)
  then show ?thesis using assms(2) operations_keep(3) by (simp add: history_ok_def)
next
  case (reserve i res st)
  then show ?thesis using assms(2) operations_keep(4) by (simp add: history_ok_def)
next
  case (transmit i data ok res st)
  then show ?thesis using assms(2) operations_keep(5) by (simp add: history_ok_def)
next
  case (close ps st)
  then show ?thesis using assms(2) operations_keep(6) by (simp add: history_ok_def)
qed (use assms(2) in \<open>auto simp: history_ok_def enqueue_message_def unreserve_request_def wss_receive_def server_thread_def
      startup_failed_def mark_ready_def split: if_splits option.splits list.splits\<close>)

lemma ws_reachable_history: "ws_reachable mx s \<Longrightarrow> history_ok s"
proof (induction rule: ws_reachable.induct)
  case (started host port outcome)
  then show ?case
    by (cases outcome) (simp_all add: history_ok_def ws_system_of_def wss_start_def server_thread_def startup_failed_def
        mark_ready_def new_ws_server_def)
next
  case (stepped s t)
  then show ?case using ws_step_history ws_reachable_ok by blast
qed

section \<open>Properties\<close>

text \<open>Under every interleaving the number of connections stays within the configured bound and the
  counter of the diagnostics is their number; server-initiated messages are addressed to an open
  connection or to none; every queued message is handed out in order, also after the transport was
  closed; and a connection that a waiting request names is open.\<close>

theorem ws_server_invariant:
  assumes "ws_reachable max_connections s"
  shows "(max_connections > 0 \<longrightarrow> length (wss_connections (srv s)) \<le> max_connections) \<and>
    wss_connection_count (srv s) = int (length (wss_connections (srv s))) \<and>
    (wss_active (srv s) = '''' \<or> connected (wss_active (srv s)) s) \<and>
    queued s = handed s @ wss_inbound (srv s) \<and>
    (\<forall>i conn. map_of (wss_connection_for (srv s)) i = Some conn \<longrightarrow> connected conn s)"
proof -
  note ok = ws_reachable_ok [OF assms] and h = ws_reachable_history [OF assms]
  have "\<And>i conn. map_of (wss_connection_for (srv s)) i = Some conn \<Longrightarrow> conn \<in> al_keys (wss_connections (srv s))"
    using ok by (meson names_ok_def ranI server_ok_def subsetD)
  then show ?thesis
    using ok h by (auto simp: server_ok_def counts_ok_def names_ok_def history_ok_def connected_def al_keys_iff)
qed

text \<open>Nothing waits for an answer under an id: every response to it is refused and changes nothing.\<close>

definition answers_refused :: "request_id \<Rightarrow> ws_server \<Rightarrow> bool" where
  "answers_refused i st \<longleftrightarrow> (\<forall>dump ok r. complete_client_request dump ok r i st =
     (Inl (make_ws_server_error InvalidRequest ''websocket server transport has no pending client request''
        (ws_request_id_to_string i)), st))"

lemma answers_refused_iff: "map_of (wss_pending st) i = None \<Longrightarrow> answers_refused i st"
  by (simp add: answers_refused_def complete_client_request_def take_request_def)

lemma deliver_pending: "deliver_response conn data ok st = (res, st') \<Longrightarrow> wss_pending st' = wss_pending st"
  by (auto simp: deliver_response_def socket_send_def split: option.splits if_splits prod.splits bool.splits)

lemma completed_refused:
  assumes "complete_client_request dump ok r i st = (res, st')"
  shows "answers_refused i st'"
proof (cases "map_of (wss_pending st) i")
  case None
  then show ?thesis using assms answers_refused_iff by (auto simp: complete_client_request_def take_request_def)
next
  case (Some p)
  then have "map_of (wss_pending st') i = None"
    using assms
    by (auto simp: complete_client_request_def take_request_def AList.delete_conv' split: sum.splits dest!: deliver_pending)
  then show ?thesis by (rule answers_refused_iff)
qed

lemma complete_routed:
  assumes "map_of (wss_pending st) i \<noteq> None" "map_of (wss_connection_for st) i = Some conn"
    "map_of (wss_connections st) conn = Some sent" "serialize_response_direct dump r = Inr data"
  shows "\<exists>st'. complete_client_request dump True r i st = (Inr (), st') \<and>
     map_of (wss_connections st') = (map_of (wss_connections st))(conn \<mapsto> sent @ [data])"
  using assms by (auto simp: complete_client_request_def take_request_def deliver_response_def socket_send_def AList.update_conv')

text \<open>C19: in every reachable state, completing a request, with no other step between the two sections of the
  completion, sends the response to the connection that registered the id last, provided a client did: the
  text is appended to the socket of that connection and no other socket changes. A response to an id
  that no connection waits for is dropped with an error, and once a response was taken every further one to its id is
  refused. As the last registration decides, two open connections that wait for the same id lose an
  answer: when the second registers the id after the first, the first response is sent to the second connection, to
  the first connection nothing is sent, and the second response is refused.\<close>

theorem ws_response_routing:
  assumes "ws_reachable max_connections s" "serialize_response_direct dump r = Inr data"
  shows "(case complete_client_request dump True r i (srv s) of (res, st) \<Rightarrow>
      answers_refused i st \<and>
      (if map_of (wss_pending (srv s)) i = None then answers_refused i (srv s) else
       case map_of (wss_connection_for (srv s)) i of
         None \<Rightarrow> res = Inl (make_ws_server_error InternalError ''websocket request connection is no longer active'' '''') \<and>
              wss_connections st = wss_connections (srv s)
       | Some conn \<Rightarrow> res = Inr () \<and> map_of (registrations s) i = Some conn \<and>
           (\<exists>sent. map_of (wss_connections (srv s)) conn = Some sent \<and>
              map_of (wss_connections st) = (map_of (wss_connections (srv s)))(conn \<mapsto> sent @ [data])))) \<and>
    (\<forall>first second sent st1 st2.
      connected first s \<and> first \<noteq> second \<and> map_of (wss_connections (srv s)) second = Some sent \<and>
      register_request first i (srv s) = Some st1 \<and> register_request second i st1 = Some st2 \<longrightarrow>
      (\<exists>st3. complete_client_request dump True r i st2 = (Inr (), st3) \<and>
         map_of (wss_connections st3) = (map_of (wss_connections (srv s)))(second \<mapsto> sent @ [data]) \<and>
         answers_refused i st3))"
proof (intro conjI allI impI)
  note ok = ws_reachable_ok [OF assms(1)] and h = ws_reachable_history [OF assms(1)]
  obtain res st where c: "complete_client_request dump True r i (srv s) = (res, st)" by force
  have "case map_of (wss_connection_for (srv s)) i of
         None \<Rightarrow> res = Inl (make_ws_server_error InternalError ''websocket request connection is no longer active'' '''') \<and>
              wss_connections st = wss_connections (srv s)
       | Some conn \<Rightarrow> res = Inr () \<and> map_of (registrations s) i = Some conn \<and>
           (\<exists>sent. map_of (wss_connections (srv s)) conn = Some sent \<and>
              map_of (wss_connections st) = (map_of (wss_connections (srv s)))(conn \<mapsto> sent @ [data]))"
    if p: "map_of (wss_pending (srv s)) i \<noteq> None"
  proof (cases "map_of (wss_connection_for (srv s)) i")
    case None
    have "'''' \<notin> al_keys (wss_connections (srv s))"
      using ok unfolding server_ok_def names_ok_def by (metis connection_name_nonempty imageE subsetD)
    then show ?thesis
      using None p assms(2) c by (auto simp: complete_client_request_def take_request_def deliver_response_def al_keys_iff)
  next
    case (Some conn)
    then have "conn \<in> al_keys (wss_connections (srv s))" using ok by (meson names_ok_def ranI server_ok_def subsetD)
    then obtain sent where "map_of (wss_connections (srv s)) conn = Some sent" by (auto simp: al_keys_iff)
    moreover have "map_of (registrations s) i = Some conn" using h Some by (force simp: history_ok_def map_le_def dom_def)
    ultimately show ?thesis using complete_routed [OF p Some _ assms(2)] Some c by force
  qed
  then show "case complete_client_request dump True r i (srv s) of (res, st) \<Rightarrow>
      answers_refused i st \<and>
      (if map_of (wss_pending (srv s)) i = None then answers_refused i (srv s) else
       case map_of (wss_connection_for (srv s)) i of
         None \<Rightarrow> res = Inl (make_ws_server_error InternalError ''websocket request connection is no longer active'' '''') \<and>
              wss_connections st = wss_connections (srv s)
       | Some conn \<Rightarrow> res = Inr () \<and> map_of (registrations s) i = Some conn \<and>
           (\<exists>sent. map_of (wss_connections (srv s)) conn = Some sent \<and>
              map_of (wss_connections st) = (map_of (wss_connections (srv s)))(conn \<mapsto> sent @ [data])))"
    using c completed_refused [OF c] answers_refused_iff [of "srv s" i] by simp
next
  fix first second sent st1 st2
  assume "connected first s \<and> first \<noteq> second \<and> map_of (wss_connections (srv s)) second = Some sent \<and>
      register_request first i (srv s) = Some st1 \<and> register_request second i st1 = Some st2"
  then have "map_of (wss_pending st2) i \<noteq> None" "map_of (wss_connection_for st2) i = Some second"
    "map_of (wss_connections st2) second = Some sent" "wss_connections st2 = wss_connections (srv s)"
    by (auto simp: register_request_def AList.update_conv' split: if_splits)
  then show "\<exists>st3. complete_client_request dump True r i st2 = (Inr (), st3) \<and>
         map_of (wss_connections st3) = (map_of (wss_connections (srv s)))(second \<mapsto> sent @ [data]) \<and>
         answers_refused i st3"
    using complete_routed [OF _ _ _ assms(2)] completed_refused by metis
qed

text \<open>Destroying a server transport ends the process exactly when its server thread failed to start
  or to keep serving: that failure marks the transport closed, so that closing it returns before the
  thread is joined. In every other state, closed before or not, it is destroyed in the regular way.\<close>

theorem ws_server_destroy:
  assumes "ws_reachable max_connections s"
  shows "wss_destroy (srv s) = None \<longleftrightarrow> wss_startup_error (srv s) \<noteq> None"
  using ws_reachable_ok [OF assms]
  by (auto simp: server_ok_def thread_ok_def wss_destroy_def wss_close_def mark_ready_def Let_def)

section \<open>Example runs\<close>

definition sample_request :: "request_id \<Rightarrow> json_rpc_request" where
  "sample_request i = make_request ''tools/list'' i empty_object"

definition two_clients :: ws_server where
  "two_clients = \<lparr>wss_inbound = [], wss_pending = [(IdInt 1, new_pending (IdInt 1))],
     wss_connection_for = [(IdInt 1, ''conn-2'')], wss_connections = [(''conn-1'', []), (''conn-2'', [])],
     wss_active = ''conn-2'', wss_closed = False, wss_ready = True, wss_startup_error = None, wss_connection_count = 2,
     wss_next_connection = 3, wss_received = 2, wss_sent = 0, wss_thread_joinable = True\<rparr>"

definition two_clients_system :: ws_system where
  "two_clients_system = \<lparr>srv = two_clients,
     holding = [(''conn-1'', MsgRequest (sample_request (IdInt 1))), (''conn-2'', MsgRequest (sample_request (IdInt 1)))],
     delivering = [], registrations = [(IdInt 1, ''conn-2''), (IdInt 1, ''conn-1'')], queued = [], handed = []\<rparr>"

lemma sample_names: "connection_name 1 = ''conn-1''" "connection_name 2 = ''conn-2''" "int_to_string 1 = ''1''"
  by code_simp+

lemma two_clients_reachable: "ws_reachable 0 two_clients_system"
proof -
  let ?t0 = "new_ws_server\<lparr>wss_ready := True, wss_thread_joinable := True\<rparr>"
  let ?t1 = "?t0\<lparr>wss_active := ''conn-1'', wss_connections := [(''conn-1'', [])], wss_connection_count := 1,
    wss_next_connection := 2\<rparr>"
  let ?t2 = "two_clients\<lparr>wss_pending := [], wss_connection_for := [], wss_received := 0\<rparr>"
  have t0: "wss_start ''localhost'' 3001 Bound new_ws_server = ?t0"
    by (simp add: wss_start_def server_thread_def mark_ready_def)
  have o1: "open_connection 0 ?t0 = (Some ''conn-1'', ?t1)"
    using sample_names(1) by (simp add: open_connection_def new_ws_server_def Let_def numeral_2_eq_2)
  have o2: "open_connection 0 ?t1 = (Some ''conn-2'', ?t2)"
    using sample_names(2) by (simp add: open_connection_def new_ws_server_def two_clients_def Let_def)
  have r0: "ws_reachable 0 (ws_system_of ?t0)" unfolding t0 [symmetric] by (rule ws_reachable.started)
  have r1: "ws_reachable 0 (ws_system_of ?t1)"
    using ws_reachable.stepped [OF r0 ws_step.connect, of "Some ''conn-1''" ?t1] o1 by (simp add: ws_system_of_def)
  have r2: "ws_reachable 0 (ws_system_of ?t2)"
    using ws_reachable.stepped [OF r1 ws_step.connect, of "Some ''conn-2''" ?t2] o2 by (simp add: ws_system_of_def)
  let ?s3 = "(ws_system_of (two_clients\<lparr>wss_connection_for := [(IdInt 1, ''conn-1'')], wss_received := 1\<rparr>))
    \<lparr>holding := [(''conn-1'', MsgRequest (sample_request (IdInt 1)))], registrations := [(IdInt 1, ''conn-1'')]\<rparr>"
  have r3: "ws_reachable 0 ?s3"
    by (rule ws_reachable.stepped [OF r2])
      (use ws_step.register [of "''conn-1''" "ws_system_of (two_clients\<lparr>wss_pending := [], wss_connection_for := [], wss_received := 0\<rparr>)"
         "sample_request (IdInt 1)" _ 0]
       in \<open>simp add: ws_system_of_def two_clients_def connected_def register_request_def sample_request_def make_request_def\<close>)
  show ?thesis
    by (rule ws_reachable.stepped [OF r3])
      (use ws_step.register [of "''conn-2''" ?s3 "sample_request (IdInt 1)" _ 0]
       in \<open>simp add: ws_system_of_def two_clients_system_def two_clients_def connected_def register_request_def
             sample_request_def make_request_def\<close>)
qed

theorem ws_server_invariant_witness:
  "length (wss_connections two_clients) = 2 \<and> wss_connection_count two_clients = 2 \<and> connected ''conn-2'' two_clients_system"
  using ws_server_invariant [OF two_clients_reachable] by (simp add: two_clients_system_def two_clients_def)

theorem ws_response_routing_witness:
  "let dump = (\<lambda>_. ''0''); r = make_response (IdInt 1) JNull in
   \<exists>data st. serialize_response_direct dump r = Inr data \<and>
     complete_client_request dump True r (IdInt 1) two_clients = (Inr (), st) \<and>
     map_of (wss_connections st) = [''conn-1'' \<mapsto> [], ''conn-2'' \<mapsto> [data]] \<and> answers_refused (IdInt 1) st \<and>
     (\<forall>st1 st2. register_request ''conn-1'' (IdInt 5) two_clients = Some st1 \<and>
        register_request ''conn-2'' (IdInt 5) st1 = Some st2 \<longrightarrow>
        (\<exists>st3. complete_client_request dump True r (IdInt 5) st2 = (Inr (), st3) \<and>
           map_of (wss_connections st3) ''conn-1'' = Some [] \<and> map_of (wss_connections st3) ''conn-2'' = Some [data] \<and>
           answers_refused (IdInt 5) st3)) \<and>
     (\<exists>st1 st2. register_request ''conn-1'' (IdInt 5) two_clients = Some st1 \<and>
        register_request ''conn-2'' (IdInt 5) st1 = Some st2)"
proof -
  let ?dump = "\<lambda>_ :: json. ''0''" and ?r = "make_response (IdInt 1) JNull"
  obtain data where data: "serialize_response_direct ?dump ?r = Inr data"
    by (simp add: serialize_response_direct_def make_response_def)
  obtain res st where c: "complete_client_request ?dump True ?r (IdInt 1) two_clients = (res, st)"
    by (cases "complete_client_request ?dump True ?r (IdInt 1) two_clients")
  note routed = ws_response_routing [OF two_clients_reachable data]
  have "res = Inr () \<and> map_of (wss_connections st) = [''conn-1'' \<mapsto> [], ''conn-2'' \<mapsto> [data]] \<and> answers_refused (IdInt 1) st"
    using routed [of "IdInt 1"] c by (auto simp: two_clients_system_def two_clients_def fun_upd_twist)
  moreover have "\<exists>st3. complete_client_request ?dump True ?r (IdInt 5) st2 = (Inr (), st3) \<and>
      map_of (wss_connections st3) ''conn-1'' = Some [] \<and> map_of (wss_connections st3) ''conn-2'' = Some [data] \<and>
      answers_refused (IdInt 5) st3"
    if "register_request ''conn-1'' (IdInt 5) two_clients = Some st1" "register_request ''conn-2'' (IdInt 5) st1 = Some st2"
    for st1 st2
  proof -
    have "srv two_clients_system = two_clients" "connected ''conn-1'' two_clients_system"
      "map_of (wss_connections two_clients) = [''conn-1'' \<mapsto> [], ''conn-2'' \<mapsto> []]"
      by (auto simp: two_clients_system_def two_clients_def connected_def)
    then show ?thesis
      using conjunct2 [OF routed [of "IdInt 5"], rule_format, of "''conn-1''" "''conn-2''" "[]" st1 st2] that by auto
  qed
  moreover have "\<exists>st1 st2. register_request ''conn-1'' (IdInt 5) two_clients = Some st1 \<and>
      register_request ''conn-2'' (IdInt 5) st1 = Some st2"
    by (simp add: register_request_def two_clients_def)
  ultimately show ?thesis using data c unfolding Let_def by blast
qed

theorem ws_server_destroy_witness:
  "let s = ws_system_of (wss_start ''localhost'' 80 BindFailed new_ws_server) in
   wss_startup_error (srv s) \<noteq> None \<and> wss_destroy (srv s) = None"
proof -
  let ?s = "ws_system_of (wss_start ''localhost'' 80 BindFailed new_ws_server)"
  have "wss_startup_error (srv ?s) \<noteq> None"
    by (simp add: ws_system_of_def wss_start_def server_thread_def startup_failed_def mark_ready_def)
  then show ?thesis using ws_server_destroy [OF ws_reachable.started [of 0 "''localhost''" 80 BindFailed]] by simp
qed

end
