(* ===== verification/Websocket_Client.thy ===== *)
theory Websocket_Client
  imports Serialization
begin

text \<open>
  src/sdk/client/src/websocket_transport.cpp: the client side of the WebSocket transport, as the
  sections its threads (the callers, the reader) run under the locks. What the network does is an input:
  the outcome of a connection attempt, of a read and of a send. The socket is the list of texts sent
  on it. Durations are milliseconds; the product of a delay with the multiplier, computed in double
  precision by the code, is the parameter \<open>grow\<close>. An exception that leaves a function is \<open>None\<close>.
\<close>

section \<open>Options and addresses\<close>

record ws_client_options =
  wco_uri :: string
  wco_host :: string
  wco_port :: int
  wco_path :: string
  wco_headers :: "(string \<times> string) list"
  wco_auth_header :: "string option"
  wco_auto_reconnect :: bool
  wco_max_reconnect_attempts :: int
  wco_reconnect_initial_delay :: int
  wco_reconnect_max_delay :: int

record parsed_ws_uri =
  pwu_host :: string
  pwu_port :: int
  pwu_path :: string
  pwu_ssl :: bool

definition make_ws_error :: "ErrorCode \<Rightarrow> string \<Rightarrow> string \<Rightarrow> core_error" where
  "make_ws_error code message detail = mk_error (error_code code) message detail ''transport''"

text \<open>\<open>std::stoi\<close>: leading white space, a sign, digits; \<open>None\<close> is invalid_argument or out_of_range.\<close>

definition is_c_space :: "char \<Rightarrow> bool" where
  "is_c_space c \<longleftrightarrow> c \<in> {CHR '' '', CHR 0x09, CHR 0x0A, CHR 0x0B, CHR 0x0C, CHR 0x0D}"

definition stoi :: "string \<Rightarrow> int option" where
  "stoi s =
     (let t = dropWhile is_c_space s;
          u = (case t of c # cs \<Rightarrow> if c = CHR ''-'' \<or> c = CHR ''+'' then cs else t | [] \<Rightarrow> t);
          ds = takeWhile is_digit u;
          v = (if starts_with t ''-'' then - int (dec_value ds) else int (dec_value ds)) in
      if ds = [] \<or> v < - (2 ^ 31) \<or> v \<ge> 2 ^ 31 then None else Some v)"

definition parse_ws_uri :: "string \<Rightarrow> parsed_ws_uri option" where
  "parse_ws_uri uri =
     (let ssl = starts_with uri ''wss://'';
          default_port = (if ssl then 443 else 80);
          remaining = (if ssl then drop 6 uri else if starts_with uri ''ws://'' then drop 5 uri else uri);
          host_port = takeWhile (\<lambda>c. c \<noteq> CHR ''/'') remaining;
          rest = dropWhile (\<lambda>c. c \<noteq> CHR ''/'') remaining;
          path = (if rest = [] then ''/'' else rest);
          host = takeWhile (\<lambda>c. c \<noteq> CHR '':'') host_port in
      case dropWhile (\<lambda>c. c \<noteq> CHR '':'') host_port of
        [] \<Rightarrow> Some \<lparr>pwu_host = host, pwu_port = default_port, pwu_path = path, pwu_ssl = ssl\<rparr>
      | _ # port_text \<Rightarrow>
          map_option (\<lambda>port. \<lparr>pwu_host = host, pwu_port = port, pwu_path = path, pwu_ssl = ssl\<rparr>) (stoi port_text))"

definition build_headers :: "(string \<times> string) list \<Rightarrow> string option \<Rightarrow> (string \<times> string) list" where
  "build_headers headers auth_header =
     headers @ (case auth_header of None \<Rightarrow> [] | Some a \<Rightarrow> if a = '''' then [] else [(''Authorization'', a)])"

text \<open>The endpoint handed to the socket library.\<close>

definition ws_endpoint :: "ws_client_options \<Rightarrow> string option" where
  "ws_endpoint opt =
     (if wco_uri opt \<noteq> '''' then map_option (\<lambda>_. wco_uri opt) (parse_ws_uri (wco_uri opt))
      else Some (''ws://'' @ wco_host opt @ '':'' @ int_to_string (wco_port opt) @ wco_path opt))"

section \<open>State\<close>

datatype reader_thread = NotStarted | Running | Finished | Joined

definition joinable :: "reader_thread \<Rightarrow> bool" where
  "joinable t \<longleftrightarrow> t = Running \<or> t = Finished"

record ws_client =
  wsc_inbound :: "json_rpc_message list"
  wsc_socket :: "string list option"
  wsc_reader :: reader_thread
  wsc_closed :: bool
  wsc_connected :: bool
  wsc_failures :: int
  wsc_backoff :: int
  wsc_reconnects :: uint64
  wsc_sent :: uint64
  wsc_received :: uint64

definition new_ws_client :: "ws_client_options \<Rightarrow> ws_client" where
  "new_ws_client opt = \<lparr>wsc_inbound = [], wsc_socket = None, wsc_reader = NotStarted, wsc_closed = False,
     wsc_connected = False, wsc_failures = 0, wsc_backoff = wco_reconnect_initial_delay opt, wsc_reconnects = 0,
     wsc_sent = 0, wsc_received = 0\<rparr>"

definition wsc_diagnostics :: "ws_client \<Rightarrow> json" where
  "wsc_diagnostics st = JObject
     [(''closed'', JBool (wsc_closed st)), (''connected'', JBool (wsc_connected st)),
      (''messagesReceived'', JUInt (wsc_received st)), (''messagesSent'', JUInt (wsc_sent st)),
      (''name'', JString ''websocket-client''), (''pendingRequests'', JInt 0),
      (''queued'', JUInt (of_nat (length (wsc_inbound st)))), (''reconnectCount'', JUInt (wsc_reconnects st))]"

section \<open>Connecting\<close>

text \<open>What an attempt can do. An exception can come before or after the new socket object is in place.\<close>

datatype connect_outcome = ClientInvalid | Connects | ConnectFails | ConnectThrows bool string

definition connect_locked ::
  "ws_client_options \<Rightarrow> bool \<Rightarrow> connect_outcome \<Rightarrow> ws_client \<Rightarrow> (unit result \<times> ws_client) option" where
  "connect_locked opt start_reader outcome st =
     map_option (\<lambda>endpoint.
       let st1 = st\<lparr>wsc_socket := Some []\<rparr> in
       case outcome of
         ClientInvalid \<Rightarrow> (Inl (make_ws_error InternalError ''failed to create websocket client'' ''''), st1)
       | ConnectFails \<Rightarrow> (Inl (make_ws_error InternalError ''websocket connection failed'' ''''), st1)
       | ConnectThrows constructed what \<Rightarrow>
           (Inl (make_ws_error InternalError ''websocket connection threw exception'' what),
            if constructed then st1 else st)
       | Connects \<Rightarrow>
           (Inr (), st1\<lparr>wsc_connected := True, wsc_failures := 0, wsc_backoff := wco_reconnect_initial_delay opt,
              wsc_reader := (if start_reader then Running else wsc_reader st1)\<rparr>))
       (ws_endpoint opt)"

definition ensure_connected ::
  "ws_client_options \<Rightarrow> connect_outcome \<Rightarrow> ws_client \<Rightarrow> (unit result \<times> ws_client) option" where
  "ensure_connected opt outcome st =
     (if wsc_closed st then Some (Inl (make_ws_error InvalidRequest ''websocket client transport is closed'' ''''), st)
      else if wsc_connected st then Some (Inr (), st)
      else connect_locked opt True outcome st)"

section \<open>Sending\<close>

definition socket_write :: "string \<Rightarrow> bool \<Rightarrow> ws_client \<Rightarrow> unit result \<times> ws_client" where
  "socket_write data ok st =
     (case wsc_socket st of
        Some sent \<Rightarrow>
          if ok then (Inr (), st\<lparr>wsc_socket := Some (sent @ [data]), wsc_sent := wsc_sent st + 1\<rparr>)
          else (Inl (make_ws_error InternalError ''websocket send failed'' ''''), st)
      | None \<Rightarrow> (Inl (make_ws_error InternalError ''websocket send failed'' ''''), st))"

definition client_send_request :: "(json \<Rightarrow> string) \<Rightarrow> bool \<Rightarrow> json_rpc_request \<Rightarrow> ws_client \<Rightarrow> unit result \<times> ws_client" where
  "client_send_request dump ok r st =
     (if wsc_closed st then (Inl (make_ws_error InvalidRequest ''websocket client transport is closed'' ''''), st)
      else case serialize_request_direct dump r of
        Inl _ \<Rightarrow> (Inl (make_ws_error InternalError ''failed to serialize websocket request'' ''''), st)
      | Inr data \<Rightarrow> socket_write data ok st)"

definition client_send_notification ::
  "(json \<Rightarrow> string) \<Rightarrow> bool \<Rightarrow> json_rpc_notification \<Rightarrow> ws_client \<Rightarrow> unit result \<times> ws_client" where
  "client_send_notification dump ok n st =
     (case serialize_notification_direct dump n of
        Inl _ \<Rightarrow> (Inl (make_ws_error InternalError ''failed to serialize websocket notification'' ''''), st)
      | Inr data \<Rightarrow> socket_write data ok st)"

definition complete_server_request ::
  "(json \<Rightarrow> string) \<Rightarrow> bool \<Rightarrow> json_rpc_response \<Rightarrow> ws_client \<Rightarrow> unit result \<times> ws_client" where
  "complete_server_request dump ok r st =
     (case serialize_response_direct dump r of
        Inl _ \<Rightarrow> (Inl (make_ws_error InternalError ''failed to serialize websocket response'' ''''), st)
      | Inr data \<Rightarrow> socket_write data ok st)"

definition wsc_send ::
  "ws_client_options \<Rightarrow> (json \<Rightarrow> string) \<Rightarrow> connect_outcome \<Rightarrow> bool \<Rightarrow> json_rpc_message \<Rightarrow> ws_client \<Rightarrow>
   (unit result \<times> ws_client) option" where
  "wsc_send opt dump outcome ok m st =
     (if wsc_closed st then Some (Inl (make_ws_error InvalidRequest ''websocket client transport is closed'' ''''), st)
      else case ensure_connected opt outcome st of
        None \<Rightarrow> None
      | Some (Inl e, st1) \<Rightarrow> Some (Inl e, st1)
      | Some (Inr _, st1) \<Rightarrow>
          Some (case m of
                  MsgRequest r \<Rightarrow> client_send_request dump ok r st1
                | MsgNotification n \<Rightarrow> client_send_notification dump ok n st1
                | MsgResponse r \<Rightarrow>
                    if resp_id r = None
                    then (Inl (make_ws_error InvalidRequest
                            ''websocket client transport cannot send response without id'' ''''), st1)
                    else complete_server_request dump ok r st1))"

section \<open>Receiving\<close>

datatype 'a wait_result = Waits | Ends 'a

text \<open>\<open>receive\<close>: \<open>Waits\<close> while no message is there and the transport is open.\<close>

definition wsc_receive ::
  "ws_client_options \<Rightarrow> connect_outcome \<Rightarrow> ws_client \<Rightarrow> (json_rpc_message option result wait_result \<times> ws_client) option" where
  "wsc_receive opt outcome st =
     (if wsc_closed st \<and> wsc_inbound st = [] then Some (Ends (Inr None), st)
      else case ensure_connected opt outcome st of
        None \<Rightarrow> None
      | Some (Inl e, st1) \<Rightarrow> Some (Ends (Inl e), st1)
      | Some (Inr _, st1) \<Rightarrow>
          (case wsc_inbound st1 of
             m # ms \<Rightarrow> Some (Ends (Inr (Some m)), st1\<lparr>wsc_inbound := ms\<rparr>)
           | [] \<Rightarrow> if wsc_closed st1 then Some (Ends (Inr None), st1) else Some (Waits, st1)))"

section \<open>The reader\<close>

definition route_message :: "json_rpc_message \<Rightarrow> ws_client \<Rightarrow> ws_client" where
  "route_message m st = (if wsc_closed st then st else st\<lparr>wsc_inbound := wsc_inbound st @ [m]\<rparr>)"

definition enqueue_error_and_close :: "ws_client \<Rightarrow> ws_client" where
  "enqueue_error_and_close st = (if wsc_closed st then st else st\<lparr>wsc_closed := True\<rparr>)"

text \<open>The result says whether the loop goes on and how long the thread slept before the attempt, if it made one.\<close>

definition try_reconnect ::
  "ws_client_options \<Rightarrow> (int \<Rightarrow> int) \<Rightarrow> connect_outcome \<Rightarrow> ws_client \<Rightarrow> (bool \<times> int option \<times> ws_client) option" where
  "try_reconnect opt grow outcome st =
     (if \<not> wco_auto_reconnect opt then Some (False, None, st)
      else if wsc_closed st then Some (False, None, st)
      else
        let st1 = st\<lparr>wsc_failures := wsc_failures st + 1\<rparr> in
        if wco_max_reconnect_attempts opt > 0 \<and> wsc_failures st1 > wco_max_reconnect_attempts opt
        then Some (False, None, st1)
        else
          let st2 = st1\<lparr>wsc_socket := None, wsc_connected := False,
                        wsc_backoff := min (grow (wsc_backoff st1)) (wco_reconnect_max_delay opt)\<rparr>
          in case connect_locked opt False outcome st2 of
               None \<Rightarrow> None
             | Some (Inr _, st3) \<Rightarrow> Some (True, Some (wsc_backoff st1), st3\<lparr>wsc_reconnects := wsc_reconnects st3 + 1\<rparr>)
             | Some (Inl _, st3) \<Rightarrow> Some (False, Some (wsc_backoff st1), st3))"

text \<open>The body of the loop after a failed read, up to leaving it.\<close>

definition read_failed ::
  "ws_client_options \<Rightarrow> (int \<Rightarrow> int) \<Rightarrow> connect_outcome \<Rightarrow> ws_client \<Rightarrow> (int option \<times> ws_client) option" where
  "read_failed opt grow outcome st =
     map_option (\<lambda>(go_on, slept, st'). (slept, if go_on then st' else (enqueue_error_and_close st')\<lparr>wsc_reader := Finished\<rparr>))
       (try_reconnect opt grow outcome st)"

definition read_succeeded :: "(string \<Rightarrow> json option) \<Rightarrow> string \<Rightarrow> ws_client \<Rightarrow> ws_client" where
  "read_succeeded parse raw st =
     (let st1 = st\<lparr>wsc_received := wsc_received st + 1\<rparr> in
      case parse_message parse raw of Inl _ \<Rightarrow> st1 | Inr m \<Rightarrow> route_message m st1)"

text \<open>One turn of the loop: the check of the flag, then the read.\<close>

definition reader_turn ::
  "ws_client_options \<Rightarrow> (int \<Rightarrow> int) \<Rightarrow> (string \<Rightarrow> json option) \<Rightarrow> string option \<Rightarrow> connect_outcome \<Rightarrow> ws_client \<Rightarrow>
   ws_client option" where
  "reader_turn opt grow parse raw outcome st =
     (if wsc_closed st then Some (st\<lparr>wsc_reader := Finished\<rparr>)
      else case raw of
        None \<Rightarrow> map_option snd (read_failed opt grow outcome st)
      | Some data \<Rightarrow> Some (read_succeeded parse data st))"

section \<open>Closing\<close>

text \<open>The first section of \<open>close\<close>, false when it returns at once, and the rest, after the reader has returned.\<close>

definition close_begin :: "ws_client \<Rightarrow> bool \<times> ws_client" where
  "close_begin st = (if wsc_closed st then (False, st) else (True, st\<lparr>wsc_closed := True\<rparr>))"

definition close_end :: "ws_client \<Rightarrow> ws_client" where
  "close_end st = st\<lparr>wsc_reader := (if joinable (wsc_reader st) then Joined else wsc_reader st), wsc_socket := None,
     wsc_connected := False\<rparr>"

text \<open>\<open>close\<close> as a whole, with the reader stopping in between, and the destructor: it closes and then
  destroys the thread object, which ends the process (\<open>None\<close>) when the thread is still joinable.\<close>

definition wsc_close :: "ws_client \<Rightarrow> ws_client" where
  "wsc_close st =
     (case close_begin st of
        (False, st1) \<Rightarrow> st1
      | (True, st1) \<Rightarrow> close_end (st1\<lparr>wsc_reader := (if wsc_reader st1 = Running then Finished else wsc_reader st1)\<rparr>))"

definition wsc_destroy :: "ws_client \<Rightarrow> ws_client option" where
  "wsc_destroy st = (let st' = wsc_close st in if joinable (wsc_reader st') then None else Some st')"

section \<open>Interleavings\<close>

text \<open>
  The threads of a client transport. The mode tells how the flag \<open>closed_\<close> was set: by a call of close
  that is still waiting for the reader, by one that has returned, or by the reader giving up. The delays
  slept before reconnection attempts are recorded, as are the messages queued and handed out.
\<close>

datatype client_mode = InUse | Closing | Closed | Lost

record ws_client_system =
  cli :: ws_client
  mode :: client_mode
  slept :: "int list"
  arrived :: "json_rpc_message list"
  taken :: "json_rpc_message list"

inductive wsc_step :: "ws_client_options \<Rightarrow> (int \<Rightarrow> int) \<Rightarrow> ws_client_system \<Rightarrow> ws_client_system \<Rightarrow> bool" for opt grow where
  ensure: "ensure_connected opt outcome (cli s) = Some (r, st) \<Longrightarrow> wsc_step opt grow s (s\<lparr>cli := st\<rparr>)"
| transmit: "socket_write data ok (cli s) = (r, st) \<Longrightarrow> wsc_step opt grow s (s\<lparr>cli := st\<rparr>)"
| receive: "\<not> (wsc_closed (cli s) \<and> wsc_inbound (cli s) = []) \<Longrightarrow>
     wsc_receive opt outcome (cli s) = Some (Ends (Inr (Some m)), st) \<Longrightarrow>
     wsc_step opt grow s (s\<lparr>cli := st, taken := taken s @ [m]\<rparr>)"
| read: "wsc_reader (cli s) = Running \<Longrightarrow> parse_message parse raw = Inr m \<Longrightarrow>
     wsc_step opt grow s (s\<lparr>cli := read_succeeded parse raw (cli s),
       arrived := arrived s @ (if wsc_closed (cli s) then [] else [m])\<rparr>)"
| read_invalid: "wsc_reader (cli s) = Running \<Longrightarrow> parse_message parse raw = Inl e \<Longrightarrow>
     wsc_step opt grow s (s\<lparr>cli := read_succeeded parse raw (cli s)\<rparr>)"
| lose: "wsc_reader (cli s) = Running \<Longrightarrow> read_failed opt grow outcome (cli s) = Some (d, st) \<Longrightarrow>
     wsc_step opt grow s (s\<lparr>cli := st, slept := slept s @ (case d of None \<Rightarrow> [] | Some x \<Rightarrow> [x]),
       mode := (if \<not> wsc_closed (cli s) \<and> wsc_closed st then Lost else mode s)\<rparr>)"
| stop: "wsc_reader (cli s) = Running \<Longrightarrow> wsc_closed (cli s) \<Longrightarrow>
     wsc_step opt grow s (s\<lparr>cli := (cli s)\<lparr>wsc_reader := Finished\<rparr>\<rparr>)"
| begin_close: "close_begin (cli s) = (True, st) \<Longrightarrow> wsc_step opt grow s (s\<lparr>cli := st, mode := Closing\<rparr>)"
| end_close: "mode s = Closing \<Longrightarrow> wsc_reader (cli s) \<noteq> Running \<Longrightarrow>
     wsc_step opt grow s (s\<lparr>cli := close_end (cli s), mode := Closed\<rparr>)"

definition wsc_system_of :: "ws_client_options \<Rightarrow> ws_client_system" where
  "wsc_system_of opt = \<lparr>cli = new_ws_client opt, mode = InUse, slept = [], arrived = [], taken = []\<rparr>"

inductive wsc_reachable :: "ws_client_options \<Rightarrow> (int \<Rightarrow> int) \<Rightarrow> ws_client_system \<Rightarrow> bool" for opt grow where
  created: "wsc_reachable opt grow (wsc_system_of opt)"
| stepped: "wsc_reachable opt grow s \<Longrightarrow> wsc_step opt grow s t \<Longrightarrow> wsc_reachable opt grow t"

definition client_ok :: "ws_client_options \<Rightarrow> ws_client_system \<Rightarrow> bool" where
  "client_ok opt s \<longleftrightarrow>
     (wsc_closed (cli s) \<longleftrightarrow> mode s \<noteq> InUse) \<and>
     (case mode s of
        InUse \<Rightarrow> wsc_failures (cli s) = 0 \<and> wsc_backoff (cli s) = wco_reconnect_initial_delay opt \<and>
          (wsc_reader (cli s) = Running \<or> wsc_reader (cli s) = NotStarted)
      | Closing \<Rightarrow> True
      | Closed \<Rightarrow> \<not> joinable (wsc_reader (cli s))
      | Lost \<Rightarrow> wsc_reader (cli s) = Finished) \<and>
     set (slept s) \<subseteq> {wco_reconnect_initial_delay opt} \<and>
     arrived s = taken s @ wsc_inbound (cli s)"

lemma connect_locked_cases:
  assumes "connect_locked opt sr outcome st = Some (r, st')"
  shows "(r = Inr () \<and> outcome = Connects \<and>
      st' = st\<lparr>wsc_socket := Some [], wsc_connected := True, wsc_failures := 0,
               wsc_backoff := wco_reconnect_initial_delay opt, wsc_reader := (if sr then Running else wsc_reader st)\<rparr>) \<or>
    ((\<exists>e. r = Inl e) \<and> outcome \<noteq> Connects \<and> (st' = st \<or> st' = st\<lparr>wsc_socket := Some []\<rparr>))"
  using assms by (auto simp: connect_locked_def Let_def split: connect_outcome.splits if_splits)

lemma ensure_connected_cases:
  assumes "ensure_connected opt outcome st = Some (r, st')"
  shows "st' = st \<or> st' = st\<lparr>wsc_socket := Some []\<rparr> \<or>
    (\<not> wsc_closed st \<and> \<not> wsc_connected st \<and>
     st' = st\<lparr>wsc_socket := Some [], wsc_connected := True, wsc_failures := 0,
              wsc_backoff := wco_reconnect_initial_delay opt, wsc_reader := Running\<rparr>)"
  using assms connect_locked_cases [of opt True outcome st r st'] by (auto simp: ensure_connected_def split: if_splits)

lemma try_reconnect_first:
  assumes "wco_auto_reconnect opt" "\<not> wsc_closed st" "wsc_failures st = 0"
  shows "try_reconnect opt grow outcome st =
    (case connect_locked opt False outcome (st\<lparr>wsc_failures := 1, wsc_socket := None, wsc_connected := False,
       wsc_backoff := min (grow (wsc_backoff st)) (wco_reconnect_max_delay opt)\<rparr>) of
       None \<Rightarrow> None
     | Some (Inr _, st3) \<Rightarrow> Some (True, Some (wsc_backoff st), st3\<lparr>wsc_reconnects := wsc_reconnects st3 + 1\<rparr>)
     | Some (Inl _, st3) \<Rightarrow> Some (False, Some (wsc_backoff st), st3))"
proof -
  have "(0 < wco_max_reconnect_attempts opt \<and> wco_max_reconnect_attempts opt < 1) = False" by auto
  then show ?thesis using assms by (simp add: try_reconnect_def Let_def split: option.split sum.split prod.split)
qed

lemma read_failed_cases:
  assumes "read_failed opt grow outcome st = Some (d, st')" "wsc_failures st = 0" "\<not> wsc_closed st"
  shows "d = (if wco_auto_reconnect opt then Some (wsc_backoff st) else None)"
    "if wco_auto_reconnect opt \<and> outcome = Connects
     then \<not> wsc_closed st' \<and> wsc_failures st' = 0 \<and> wsc_backoff st' = wco_reconnect_initial_delay opt \<and>
          wsc_connected st' \<and> wsc_reader st' = wsc_reader st
     else wsc_closed st' \<and> wsc_reader st' = Finished"
    "wsc_inbound st' = wsc_inbound st"
proof -
  let ?st2 = "st\<lparr>wsc_failures := 1, wsc_socket := None, wsc_connected := False,
    wsc_backoff := min (grow (wsc_backoff st)) (wco_reconnect_max_delay opt)\<rparr>"
  have "d = (if wco_auto_reconnect opt then Some (wsc_backoff st) else None) \<and>
    (if wco_auto_reconnect opt \<and> outcome = Connects
     then \<not> wsc_closed st' \<and> wsc_failures st' = 0 \<and> wsc_backoff st' = wco_reconnect_initial_delay opt \<and>
          wsc_connected st' \<and> wsc_reader st' = wsc_reader st
     else wsc_closed st' \<and> wsc_reader st' = Finished) \<and> wsc_inbound st' = wsc_inbound st"
  proof (cases "wco_auto_reconnect opt")
    case False
    then show ?thesis using assms by (auto simp: read_failed_def try_reconnect_def enqueue_error_and_close_def)
  next
    case True
    then obtain r st3 where c: "connect_locked opt False outcome ?st2 = Some (r, st3)"
      using assms by (cases "connect_locked opt False outcome ?st2") (auto simp: read_failed_def try_reconnect_first)
    show ?thesis
      using connect_locked_cases [OF c] assms True c
      by (elim disjE) (auto simp: read_failed_def try_reconnect_first enqueue_error_and_close_def)
  qed
  then show "d = (if wco_auto_reconnect opt then Some (wsc_backoff st) else None)"
    "if wco_auto_reconnect opt \<and> outcome = Connects
     then \<not> wsc_closed st' \<and> wsc_failures st' = 0 \<and> wsc_backoff st' = wco_reconnect_initial_delay opt \<and>
          wsc_connected st' \<and> wsc_reader st' = wsc_reader st
     else wsc_closed st' \<and> wsc_reader st' = Finished"
    "wsc_inbound st' = wsc_inbound st" by blast+
qed

lemma read_failed_closed:
  "read_failed opt grow outcome st = Some (d, st') \<Longrightarrow> wsc_closed st \<Longrightarrow> d = None \<and> st' = st\<lparr>wsc_reader := Finished\<rparr>"
  by (auto simp: read_failed_def try_reconnect_def enqueue_error_and_close_def split: if_splits)

lemma wsc_step_ok:
  assumes "wsc_step opt grow s t" "client_ok opt s"
  shows "client_ok opt t"
  using assms(1)
proof cases
  case (ensure outcome r st)
  show ?thesis
    using ensure_connected_cases [OF ensure(2)] assms(2) unfolding ensure(1) client_ok_def
    by (elim disjE) (simp_all split: client_mode.splits)
next
  case (transmit data ok r st)
  then have "st = cli s \<or> (\<exists>x y. st = (cli s)\<lparr>wsc_socket := x, wsc_sent := y\<rparr>)"
    by (auto simp: socket_write_def split: option.splits if_splits)
  then show ?thesis using assms(2) unfolding transmit(1) client_ok_def
    by (elim disjE exE) (simp_all split: client_mode.splits)
next
  case (receive outcome m st)
  then obtain r st1 where e: "ensure_connected opt outcome (cli s) = Some (r, st1)" "wsc_inbound st1 = m # wsc_inbound st"
    "st = st1\<lparr>wsc_inbound := wsc_inbound st\<rparr>"
    by (auto simp: wsc_receive_def split: option.splits prod.splits sum.splits list.splits if_splits)
  have "client_ok opt (s\<lparr>cli := st1\<rparr>)"
    using ensure_connected_cases [OF e(1)] assms(2) unfolding client_ok_def
    by (elim disjE) (simp_all split: client_mode.splits)
  then have "client_ok opt (s\<lparr>cli := st1\<lparr>wsc_inbound := wsc_inbound st\<rparr>, taken := taken s @ [m]\<rparr>)"
    using e(2) by (simp add: client_ok_def split: client_mode.splits)
  then show ?thesis unfolding receive(1) e(3) [symmetric] by simp
next
  case (lose outcome d st)
  show ?thesis
  proof (cases "wsc_closed (cli s)")
    case True
    then have "mode s = Closing" using assms(2) lose(2) by (auto simp: client_ok_def joinable_def split: client_mode.splits)
    then show ?thesis
      using read_failed_closed [OF lose(3) True] assms(2) True unfolding lose(1) client_ok_def by simp
  next
    case False
    then have c: "wsc_failures (cli s) = 0" "wsc_backoff (cli s) = wco_reconnect_initial_delay opt" "mode s = InUse"
      "set (slept s) \<subseteq> {wco_reconnect_initial_delay opt}" "arrived s = taken s @ wsc_inbound (cli s)"
      using assms(2) by (auto simp: client_ok_def)
    show ?thesis
      using read_failed_cases [OF lose(3) c(1) False] c False lose(2) unfolding lose(1) client_ok_def
      by (cases "wco_auto_reconnect opt \<and> outcome = Connects") (simp_all split: if_splits)
  qed
next
  case stop
  then show ?thesis using assms(2) by (auto simp: client_ok_def joinable_def split: client_mode.splits)
qed (use assms(2) in \<open>auto simp: client_ok_def read_succeeded_def route_message_def Let_def close_begin_def close_end_def
      joinable_def split: if_splits client_mode.splits\<close>)

lemma wsc_reachable_ok: "wsc_reachable opt grow s \<Longrightarrow> client_ok opt s"
proof (induction rule: wsc_reachable.induct)
  case created
  then show ?case by (simp add: client_ok_def wsc_system_of_def new_ws_client_def)
next
  case (stepped s t)
  then show ?case using wsc_step_ok by blast
qed

section \<open>Properties\<close>

text \<open>A client that loses its connection makes at most one attempt to reconnect. The delay before it is
  always the initial delay, and if the attempt fails the transport is closed, whatever the options say
  about the number of attempts, the multiplier and the largest delay; only with reconnection disabled is no
  attempt made.\<close>

theorem ws_reconnect_once:
  assumes "wsc_reachable opt grow s" "wsc_reader (cli s) = Running" "\<not> wsc_closed (cli s)"
    "read_failed opt grow outcome (cli s) = Some (d, st)"
  shows "d = (if wco_auto_reconnect opt then Some (wco_reconnect_initial_delay opt) else None) \<and>
    (wsc_closed st \<longleftrightarrow> \<not> (wco_auto_reconnect opt \<and> outcome = Connects)) \<and>
    (\<forall>x \<in> set (slept s). x = wco_reconnect_initial_delay opt)"
proof -
  have "client_ok opt s" by (rule wsc_reachable_ok [OF assms(1)])
  then have "wsc_failures (cli s) = 0" "wsc_backoff (cli s) = wco_reconnect_initial_delay opt"
    "set (slept s) \<subseteq> {wco_reconnect_initial_delay opt}"
    using assms(3) by (auto simp: client_ok_def)
  then show ?thesis using read_failed_cases [OF assms(4)] assms(3) by (auto split: if_splits)
qed

text \<open>When no call of close is under way, destroying a client transport ends the process exactly when
  its reader has given up; and a message that was queued before is then no longer handed out.\<close>

theorem ws_client_destroy:
  assumes "wsc_reachable opt grow s" "mode s \<noteq> Closing"
  shows "(wsc_destroy (cli s) = None \<longleftrightarrow> mode s = Lost) \<and>
    (mode s = Lost \<and> wsc_inbound (cli s) \<noteq> [] \<longrightarrow>
       wsc_receive opt outcome (cli s) =
         Some (Ends (Inl (make_ws_error InvalidRequest ''websocket client transport is closed'' '''')), cli s)) \<and>
    arrived s = taken s @ wsc_inbound (cli s)"
proof -
  have ok: "client_ok opt s" by (rule wsc_reachable_ok [OF assms(1)])
  have "wsc_destroy (cli s) = None \<longleftrightarrow> mode s = Lost"
    using ok assms(2) by (cases "mode s")
      (auto simp: client_ok_def wsc_destroy_def wsc_close_def close_begin_def close_end_def joinable_def Let_def split: if_splits)
  moreover have "mode s = Lost \<Longrightarrow> wsc_closed (cli s)" using ok by (auto simp: client_ok_def)
  moreover have "arrived s = taken s @ wsc_inbound (cli s)" using ok by (simp add: client_ok_def)
  ultimately show ?thesis by (simp add: wsc_receive_def ensure_connected_def)
qed

text \<open>The address of a client is read as documented, and a port that is not a number in range makes the
  constructor of the connection throw; the components that are read are not used when a uri is given.\<close>

lemma parse_ws_uri_forms:
  assumes "CHR ''/'' \<notin> set host" "CHR '':'' \<notin> set host" "CHR ''/'' \<notin> set port"
  shows
    "parse_ws_uri (''ws://'' @ host @ ''/'' @ path) =
       Some \<lparr>pwu_host = host, pwu_port = 80, pwu_path = ''/'' @ path, pwu_ssl = False\<rparr> \<and>
     parse_ws_uri (''wss://'' @ host) = Some \<lparr>pwu_host = host, pwu_port = 443, pwu_path = ''/'', pwu_ssl = True\<rparr> \<and>
     parse_ws_uri (''wss://'' @ host @ '':'' @ port @ ''/'' @ path) =
       map_option (\<lambda>p. \<lparr>pwu_host = host, pwu_port = p, pwu_path = ''/'' @ path, pwu_ssl = True\<rparr>) (stoi port)"
proof -
  have h: "\<forall>c \<in> set host. c \<noteq> CHR ''/'' \<and> c \<noteq> CHR '':''" "\<forall>c \<in> set port. c \<noteq> CHR ''/''" using assms by auto
  have t: "takeWhile (\<lambda>c. c \<noteq> CHR ''/'') (host @ CHR ''/'' # r) = host" "dropWhile (\<lambda>c. c \<noteq> CHR ''/'') (host @ CHR ''/'' # r) = CHR ''/'' # r"
    "takeWhile (\<lambda>c. c \<noteq> CHR '':'') (host @ CHR '':'' # r) = host" "dropWhile (\<lambda>c. c \<noteq> CHR '':'') (host @ CHR '':'' # r) = CHR '':'' # r"
    "takeWhile (\<lambda>c. c \<noteq> CHR ''/'') (host @ CHR '':'' # port @ CHR ''/'' # r) = host @ CHR '':'' # port"
    "dropWhile (\<lambda>c. c \<noteq> CHR ''/'') (host @ CHR '':'' # port @ CHR ''/'' # r) = CHR ''/'' # r" for r
    using h by (auto simp: takeWhile_append dropWhile_append)
  have e: "takeWhile (\<lambda>c. c \<noteq> CHR ''/'') host = host" "dropWhile (\<lambda>c. c \<noteq> CHR ''/'') host = []"
    "takeWhile (\<lambda>c. c \<noteq> CHR '':'') host = host" "dropWhile (\<lambda>c. c \<noteq> CHR '':'') host = []"
    using h by (auto simp: takeWhile_eq_all_conv)
  show ?thesis by (simp add: t e parse_ws_uri_def starts_with_def Let_def)
qed

section \<open>Example runs\<close>

definition sample_options :: ws_client_options where
  "sample_options = \<lparr>wco_uri = '''', wco_host = ''localhost'', wco_port = 3001, wco_path = ''/mcp'', wco_headers = [],
     wco_auth_header = None, wco_auto_reconnect = True, wco_max_reconnect_attempts = 10,
     wco_reconnect_initial_delay = 1000, wco_reconnect_max_delay = 30000\<rparr>"

definition sample_open :: ws_client_system where
  "sample_open = (wsc_system_of sample_options)\<lparr>cli := (new_ws_client sample_options)\<lparr>wsc_socket := Some [],
     wsc_connected := True, wsc_reader := Running\<rparr>\<rparr>"

lemma sample_open_reachable: "wsc_reachable sample_options (\<lambda>d. 2 * d) sample_open"
  by (rule wsc_reachable.stepped [OF wsc_reachable.created])
    (use wsc_step.ensure [of sample_options Connects "wsc_system_of sample_options"]
     in \<open>simp add: sample_open_def wsc_system_of_def ensure_connected_def connect_locked_def ws_endpoint_def
        sample_options_def new_ws_client_def Let_def\<close>)

definition sample_lost :: ws_client where
  "sample_lost = (cli sample_open)\<lparr>wsc_failures := 1, wsc_socket := Some [], wsc_connected := False,
     wsc_backoff := 2000, wsc_closed := True, wsc_reader := Finished\<rparr>"

lemma sample_read_failed: "read_failed sample_options (\<lambda>d. 2 * d) ConnectFails (cli sample_open) = Some (Some 1000, sample_lost)"
  by (simp add: sample_open_def sample_lost_def read_failed_def try_reconnect_def connect_locked_def ws_endpoint_def
      sample_options_def new_ws_client_def enqueue_error_and_close_def Let_def)

lemma sample_open_state: "wsc_reader (cli sample_open) = Running" "\<not> wsc_closed (cli sample_open)"
  by (simp_all add: sample_open_def new_ws_client_def)

theorem ws_reconnect_once_witness:
  "wco_max_reconnect_attempts sample_options = 10 \<and>
   read_failed sample_options (\<lambda>d. 2 * d) ConnectFails (cli sample_open) = Some (Some 1000, sample_lost) \<and> wsc_closed sample_lost"
  using ws_reconnect_once [OF sample_open_reachable sample_open_state sample_read_failed] sample_read_failed
  by (simp add: sample_options_def)

theorem ws_client_destroy_witness:
  "wsc_destroy sample_lost = None \<and> wsc_destroy (cli sample_open) \<noteq> None"
proof -
  let ?t = "sample_open\<lparr>cli := sample_lost, slept := slept sample_open @ [1000], mode := Lost\<rparr>"
  have "wsc_reachable sample_options (\<lambda>d. 2 * d) ?t"
    by (rule wsc_reachable.stepped [OF sample_open_reachable])
      (use wsc_step.lose [OF sample_open_state(1) sample_read_failed] sample_open_state(2) in \<open>simp add: sample_lost_def\<close>)
  then show ?thesis
    using ws_client_destroy [of sample_options "\<lambda>d. 2 * d" ?t] ws_client_destroy [OF sample_open_reachable]
    by (simp add: sample_open_def wsc_system_of_def)
qed

end
