(* ===== verification/Stdio_Transport.thy ===== *)
theory Stdio_Transport
  imports Server "HOL-Library.AList"
begin

text \<open>
  src/sdk/server/src/stdio_transport.cpp and src/sdk/client/src/stdio_transport.cpp: one JSON-RPC message
  per line. The server's loop answers initialization inline and hands later requests to one thread
  each; the client sends a request and reads lines until its response comes. Standard streams are
  modelled by the lines they carry and by whether a write succeeds; a stream that failed once stays
  bad. What a handler does with one call is an input of the step that calls it. The blocking of
  SIGPIPE around writes is left out.
\<close>

section \<open>Calls that may throw\<close>

datatype 'a call = Returned 'a | Threw string | ThrewUnknown

fun caught :: "'a result call \<Rightarrow> 'a result" where
  "caught (Returned r) = r"
| "caught (Threw what) = Inl (handler_failed what)"
| "caught ThrewUnknown = Inl handler_unknown_exception"

section \<open>The server's state\<close>

datatype worker_phase = Working json_rpc_request | Answered | Done

datatype stdio_event = Called json_rpc_request | Admitted json_rpc_notification

text \<open>
  The members of the transport and the locals of \<open>start\<close>. The worker threads are listed in the order
  of their creation, with the key of their request. The last four fields record what happened: the
  handler calls and admitted notifications in order, the number of answers that were due, of those whose writing failed, and of
  notifications written.
\<close>

record stdio_server =
  ss_initialized :: bool
  ss_running :: bool
  ss_capabilities :: "client_capabilities option"
  ss_in_flight :: "string list"
  ss_worker_error :: "core_error option"
  ss_workers :: "(string \<times> worker_phase) list"
  ss_output :: "string list"
  ss_good :: bool
  ss_events :: "stdio_event list"
  ss_due :: nat
  ss_failed :: nat
  ss_notes :: nat

definition stdio_started :: "bool \<Rightarrow> client_capabilities option \<Rightarrow> stdio_server" where
  "stdio_started good caps = \<lparr>ss_initialized = False, ss_running = True, ss_capabilities = caps, ss_in_flight = [],
     ss_worker_error = None, ss_workers = [], ss_output = [], ss_good = good, ss_events = [], ss_due = 0, ss_failed = 0,
     ss_notes = 0\<rparr>"

definition make_transport_error :: "ErrorCode \<Rightarrow> string \<Rightarrow> string \<Rightarrow> core_error" where
  "make_transport_error code message detail = mk_error (error_code code) message detail ''transport''"

section \<open>Writing\<close>

definition put_line :: "string \<Rightarrow> bool \<Rightarrow> string \<Rightarrow> stdio_server \<Rightarrow> unit result \<times> stdio_server" where
  "put_line data ok failure st =
     (if ss_good st \<and> ok then (Inr (), st\<lparr>ss_output := ss_output st @ [data]\<rparr>)
      else (Inl (make_transport_error InternalError failure ''''), st\<lparr>ss_good := False\<rparr>))"

text \<open>An answer is counted as due when its writing begins, and as failed when it is not written.\<close>

definition write_response ::
  "(json \<Rightarrow> string) \<Rightarrow> bool \<Rightarrow> json_rpc_response \<Rightarrow> stdio_server \<Rightarrow> unit result \<times> stdio_server" where
  "write_response dump ok r st =
     (case serialize_response_direct dump r of
        Inl e \<Rightarrow> (Inl e, st\<lparr>ss_failed := ss_failed st + 1\<rparr>)
      | Inr data \<Rightarrow>
          (case put_line data ok ''failed to write stdio response'' st of
             (Inl e, st') \<Rightarrow> (Inl e, st'\<lparr>ss_failed := ss_failed st' + 1\<rparr>)
           | (Inr u, st') \<Rightarrow> (Inr u, st')))"

definition write_notification ::
  "(json \<Rightarrow> string) \<Rightarrow> bool \<Rightarrow> json_rpc_notification \<Rightarrow> stdio_server \<Rightarrow> unit result \<times> stdio_server" where
  "write_notification dump ok n st =
     (case serialize_notification_direct dump n of
        Inl e \<Rightarrow> (Inl e, st)
      | Inr data \<Rightarrow>
          (case put_line data ok ''failed to write stdio notification'' st of
             (Inl e, st') \<Rightarrow> (Inl e, st')
           | (Inr u, st') \<Rightarrow> (Inr u, st'\<lparr>ss_notes := ss_notes st' + 1\<rparr>)))"

definition due :: "stdio_server \<Rightarrow> stdio_server" where
  "due st = st\<lparr>ss_due := ss_due st + 1\<rparr>"

definition write_error ::
  "(json \<Rightarrow> string) \<Rightarrow> bool \<Rightarrow> int32 \<Rightarrow> string \<Rightarrow> request_id option \<Rightarrow> stdio_server \<Rightarrow> unit result \<times> stdio_server" where
  "write_error dump ok code message i st =
     write_response dump ok (make_error_response i (make_error code message None)) (due st)"

section \<open>Helpers\<close>

fun request_id_from_message :: "json_rpc_message \<Rightarrow> request_id option" where
  "request_id_from_message (MsgRequest r) = Some (req_id r)"
| "request_id_from_message (MsgResponse r) = resp_id r"
| "request_id_from_message (MsgNotification _) = None"

definition is_initialized_notification :: "json_rpc_notification \<Rightarrow> bool" where
  "is_initialized_notification n \<longleftrightarrow> notif_method n = ''notifications/initialized''"

definition is_allowed_before_initialized :: "json_rpc_request \<Rightarrow> bool" where
  "is_allowed_before_initialized r \<longleftrightarrow> req_method r = ''initialize'' \<or> req_method r = ''ping''"

fun stdio_request_key :: "request_id \<Rightarrow> string" where
  "stdio_request_key (IdString s) = ''s:'' @ s"
| "stdio_request_key (IdInt i) = ''i:'' @ int_to_string (sint i)"

section \<open>Requests\<close>

definition record_worker_error :: "core_error \<Rightarrow> stdio_server \<Rightarrow> stdio_server" where
  "record_worker_error e st =
     st\<lparr>ss_worker_error := (if ss_worker_error st = None then Some e else ss_worker_error st), ss_running := False\<rparr>"

definition remember_capabilities :: "json_rpc_request \<Rightarrow> stdio_server \<Rightarrow> stdio_server" where
  "remember_capabilities r st =
     (if req_method r = ''initialize''
      then st\<lparr>ss_capabilities :=
             (if is_object (req_params r)
              then (case jfind (req_params r) ''capabilities'' of None \<Rightarrow> None | Some v \<Rightarrow> client_capabilities_from_json v)
              else None)\<rparr>
      else st)"

text \<open>The lambda \<open>handle_request\<close>, for a handler call with the given outcome.\<close>

definition stdio_handle_request ::
  "(json \<Rightarrow> string) \<Rightarrow> bool \<Rightarrow> json_rpc_response result call \<Rightarrow> json_rpc_request \<Rightarrow> stdio_server \<Rightarrow> stdio_server" where
  "stdio_handle_request dump ok handled r st =
     (let response = (case caught handled of Inr x \<Rightarrow> x | Inl e \<Rightarrow> error_of r e);
          st1 = remember_capabilities r (st\<lparr>ss_events := ss_events st @ [Called r]\<rparr>) in
      case write_response dump ok response st1 of
        (Inl e, st2) \<Rightarrow> record_worker_error e st2
      | (Inr _, st2) \<Rightarrow> st2)"

section \<open>The loop\<close>

text \<open>What the outside does during one turn: whether a write succeeds, what a handler does, and whether a
  thread can be started. \<open>se_listens\<close> says whether a notification handler is installed.\<close>

record stdio_env =
  se_ok :: bool
  se_listens :: bool
  se_notified :: "unit result call"
  se_handled :: "json_rpc_response result call"
  se_thread_fails :: "string option"

text \<open>How a turn ends: the loop goes on, or \<open>start\<close> returns, with or without joining the workers first.\<close>

datatype turn = GoesOn | ReturnsAtOnce core_error | ReturnsJoined core_error

definition answer_and_go_on :: "(core_error \<Rightarrow> turn) \<Rightarrow> unit result \<times> stdio_server \<Rightarrow> turn \<times> stdio_server" where
  "answer_and_go_on exit w =
     (case w of (Inr _, st) \<Rightarrow> (GoesOn, st) | (Inl e, st) \<Rightarrow> (exit e, st\<lparr>ss_running := False\<rparr>))"

definition stdio_notification :: "stdio_env \<Rightarrow> json_rpc_notification \<Rightarrow> stdio_server \<Rightarrow> turn \<times> stdio_server" where
  "stdio_notification env n st =
     (if \<not> ss_initialized st \<and> \<not> is_initialized_notification n
      then (ReturnsAtOnce (make_transport_error InvalidRequest ''stdio transport session is not initialized'' ''''),
            st\<lparr>ss_running := False\<rparr>)
      else
        let st1 = st\<lparr>ss_events := ss_events st @ [Admitted n]\<rparr> in
        case (if se_listens env then caught (se_notified env) else Inr ()) of
          Inl e \<Rightarrow> (ReturnsAtOnce e, st1\<lparr>ss_running := False\<rparr>)
        | Inr _ \<Rightarrow> (GoesOn, if is_initialized_notification n then st1\<lparr>ss_initialized := True\<rparr> else st1))"

definition start_worker :: "stdio_env \<Rightarrow> string \<Rightarrow> json_rpc_request \<Rightarrow> stdio_server \<Rightarrow> turn \<times> stdio_server" where
  "start_worker env key r st =
     (case se_thread_fails env of
        None \<Rightarrow> (GoesOn, (due st)\<lparr>ss_in_flight := key # ss_in_flight st, ss_workers := ss_workers st @ [(key, Working r)]\<rparr>)
      | Some what \<Rightarrow>
          (ReturnsJoined (make_transport_error InternalError ''failed to start stdio request worker'' what),
           st\<lparr>ss_running := False\<rparr>))"

definition stdio_request :: "(json \<Rightarrow> string) \<Rightarrow> stdio_env \<Rightarrow> json_rpc_request \<Rightarrow> stdio_server \<Rightarrow> turn \<times> stdio_server" where
  "stdio_request dump env r st =
     (if \<not> ss_initialized st \<and> \<not> is_allowed_before_initialized r then
        answer_and_go_on ReturnsAtOnce (write_error dump (se_ok env) (error_code InvalidRequest)
          ''stdio transport session is not initialized'' (Some (req_id r)) st)
      else if req_method r = ''initialize'' \<or> \<not> ss_initialized st then
        (GoesOn, stdio_handle_request dump (se_ok env) (se_handled env) r (due st))
      else
        let key = stdio_request_key (req_id r) in
        if key \<in> set (ss_in_flight st) then
          answer_and_go_on ReturnsJoined (write_error dump (se_ok env) (error_code InvalidRequest)
            ''duplicate in-flight request id'' (Some (req_id r)) st)
        else start_worker env key r st)"

definition stdio_line ::
  "(json \<Rightarrow> string) \<Rightarrow> (string \<Rightarrow> json option) \<Rightarrow> stdio_env \<Rightarrow> string \<Rightarrow> stdio_server \<Rightarrow> turn \<times> stdio_server" where
  "stdio_line dump parse env line st =
     (if line = '''' then (GoesOn, st)
      else case parse_message parse line of
        Inl e \<Rightarrow>
          answer_and_go_on ReturnsAtOnce (write_error dump (se_ok env) (err_code e) (err_message e) None st)
      | Inr (MsgNotification n) \<Rightarrow> stdio_notification env n st
      | Inr (MsgRequest r) \<Rightarrow> stdio_request dump env r st
      | Inr (MsgResponse r) \<Rightarrow>
          answer_and_go_on ReturnsAtOnce (write_error dump (se_ok env) (error_code InvalidRequest)
            ''stdio transport expected a JSON-RPC request'' (request_id_from_message (MsgResponse r)) st))"

text \<open>A worker: the handler's answer is written, then the id is released.\<close>

definition worker_answers ::
  "(json \<Rightarrow> string) \<Rightarrow> bool \<Rightarrow> json_rpc_response result call \<Rightarrow> string \<Rightarrow> nat \<Rightarrow> json_rpc_request \<Rightarrow> stdio_server \<Rightarrow> stdio_server" where
  "worker_answers dump ok handled key n r st =
     (stdio_handle_request dump ok handled r st)\<lparr>ss_workers := (ss_workers st)[n := (key, Answered)]\<rparr>"

definition worker_releases :: "string \<Rightarrow> nat \<Rightarrow> stdio_server \<Rightarrow> stdio_server" where
  "worker_releases key n st =
     st\<lparr>ss_in_flight := removeAll key (ss_in_flight st), ss_workers := (ss_workers st)[n := (key, Done)]\<rparr>"

section \<open>The end\<close>

text \<open>Returning destroys the vector of threads; a thread that was not joined ends the process.\<close>

datatype stdio_exit = Exits "unit result" | Terminates

definition final_result :: "bool \<Rightarrow> stdio_server \<Rightarrow> unit result" where
  "final_result input_bad st =
     (case ss_worker_error st of
        Some e \<Rightarrow> Inl e
      | None \<Rightarrow>
          if input_bad then Inl (make_transport_error InternalError ''failed to read stdio request'' '''')
          else Inr ())"

definition return_unjoined :: "core_error \<Rightarrow> stdio_server \<Rightarrow> stdio_exit" where
  "return_unjoined e st = (if ss_workers st = [] then Exits (Inl e) else Terminates)"

definition all_done :: "stdio_server \<Rightarrow> bool" where
  "all_done st \<longleftrightarrow> (\<forall>w \<in> set (ss_workers st). snd w = Done)"

text \<open>The checks before the loop.\<close>

definition stdio_start_checks :: "bool \<Rightarrow> bool \<Rightarrow> unit result" where
  "stdio_start_checks streams handler =
     (if \<not> streams then Inl (make_transport_error InternalError ''stdio transport streams are not configured'' '''')
      else if \<not> handler then Inl (make_transport_error InvalidRequest ''stdio transport handler is not configured'' '''')
      else Inr ())"

definition stdio_send_notification ::
  "bool \<Rightarrow> (json \<Rightarrow> string) \<Rightarrow> bool \<Rightarrow> json_rpc_notification \<Rightarrow> stdio_server \<Rightarrow> unit result \<times> stdio_server" where
  "stdio_send_notification stream dump ok n st =
     (if \<not> stream then (Inl (make_transport_error InternalError ''stdio transport output stream is not configured'' ''''), st)
      else write_notification dump ok n st)"

definition stdio_stop :: "stdio_server \<Rightarrow> stdio_server" where
  "stdio_stop st = st\<lparr>ss_running := False\<rparr>"

section \<open>Interleavings\<close>

datatype stdio_phase = Looping | Draining | LeavingJoined core_error | LeavingAtOnce core_error | Ended stdio_exit

record stdio_system =
  sys :: stdio_server
  at :: stdio_phase

fun after_turn :: "turn \<Rightarrow> stdio_phase" where
  "after_turn GoesOn = Looping"
| "after_turn (ReturnsAtOnce e) = LeavingAtOnce e"
| "after_turn (ReturnsJoined e) = LeavingJoined e"

inductive stdio_step ::
  "(json \<Rightarrow> string) \<Rightarrow> (string \<Rightarrow> json option) \<Rightarrow> stdio_system \<Rightarrow> stdio_system \<Rightarrow> bool" for dump parse where
  turn: "at s = Looping \<Longrightarrow> ss_running (sys s) \<Longrightarrow> stdio_line dump parse env line (sys s) = (t, st) \<Longrightarrow>
     stdio_step dump parse s \<lparr>sys = st, at = after_turn t\<rparr>"
| loop_ends: "at s = Looping \<Longrightarrow> stdio_step dump parse s (s\<lparr>at := Draining\<rparr>)"
| answer: "n < length (ss_workers (sys s)) \<Longrightarrow> ss_workers (sys s) ! n = (key, Working r) \<Longrightarrow> (\<nexists>x. at s = Ended x) \<Longrightarrow>
     stdio_step dump parse s (s\<lparr>sys := worker_answers dump ok handled key n r (sys s)\<rparr>)"
| release: "n < length (ss_workers (sys s)) \<Longrightarrow> ss_workers (sys s) ! n = (key, Answered) \<Longrightarrow> (\<nexists>x. at s = Ended x) \<Longrightarrow>
     stdio_step dump parse s (s\<lparr>sys := worker_releases key n (sys s)\<rparr>)"
| notify: "stdio_send_notification stream dump ok m (sys s) = (res, st) \<Longrightarrow> (\<nexists>x. at s = Ended x) \<Longrightarrow>
     stdio_step dump parse s (s\<lparr>sys := st\<rparr>)"
| stop: "stdio_step dump parse s (s\<lparr>sys := stdio_stop (sys s)\<rparr>)"
| drained: "at s = Draining \<Longrightarrow> all_done (sys s) \<Longrightarrow>
     stdio_step dump parse s (s\<lparr>at := Ended (Exits (final_result input_bad (sys s)))\<rparr>)"
| joined: "at s = LeavingJoined e \<Longrightarrow> all_done (sys s) \<Longrightarrow> stdio_step dump parse s (s\<lparr>at := Ended (Exits (Inl e))\<rparr>)"
| unjoined: "at s = LeavingAtOnce e \<Longrightarrow> stdio_step dump parse s (s\<lparr>at := Ended (return_unjoined e (sys s))\<rparr>)"

inductive stdio_reachable :: "(json \<Rightarrow> string) \<Rightarrow> (string \<Rightarrow> json option) \<Rightarrow> stdio_system \<Rightarrow> bool" for dump parse where
  begun: "stdio_reachable dump parse \<lparr>sys = stdio_started good caps, at = Looping\<rparr>"
| moved: "stdio_reachable dump parse s \<Longrightarrow> stdio_step dump parse s t \<Longrightarrow> stdio_reachable dump parse t"

section \<open>Invariant\<close>

definition unfinished :: "string \<times> worker_phase \<Rightarrow> bool" where
  "unfinished w \<longleftrightarrow> snd w \<noteq> Done"

definition is_working :: "string \<times> worker_phase \<Rightarrow> bool" where
  "is_working w = (case snd w of Working _ \<Rightarrow> True | _ \<Rightarrow> False)"

definition worker_key_ok :: "string \<times> worker_phase \<Rightarrow> bool" where
  "worker_key_ok w = (case snd w of Working r \<Rightarrow> fst w = stdio_request_key (req_id r) | _ \<Rightarrow> True)"

definition workers_ok :: "stdio_server \<Rightarrow> bool" where
  "workers_ok st \<longleftrightarrow>
     distinct (ss_in_flight st) \<and> mset (ss_in_flight st) = mset (map fst (filter unfinished (ss_workers st))) \<and>
     (\<forall>w \<in> set (ss_workers st). worker_key_ok w)"

definition answers_ok :: "stdio_server \<Rightarrow> bool" where
  "answers_ok st \<longleftrightarrow>
     length (ss_output st) + ss_failed st + length (filter is_working (ss_workers st)) = ss_due st + ss_notes st"

fun is_initialized_event :: "stdio_event \<Rightarrow> bool" where
  "is_initialized_event (Admitted n) = is_initialized_notification n"
| "is_initialized_event (Called _) = False"

fun allowed_first :: "stdio_event \<Rightarrow> bool" where
  "allowed_first (Called r) = is_allowed_before_initialized r"
| "allowed_first (Admitted _) = False"

definition order_ok :: "stdio_server \<Rightarrow> bool" where
  "order_ok st \<longleftrightarrow>
     (\<forall>e \<in> set (takeWhile (\<lambda>e. \<not> is_initialized_event e) (ss_events st)). allowed_first e) \<and>
     (ss_initialized st \<longrightarrow> (\<exists>e \<in> set (ss_events st). is_initialized_event e)) \<and>
     (ss_workers st \<noteq> [] \<longrightarrow> ss_initialized st)"

fun exit_ok :: "stdio_phase \<Rightarrow> stdio_server \<Rightarrow> bool" where
  "exit_ok Looping st = (ss_failed st > 0 \<longrightarrow> ss_worker_error st \<noteq> None)"
| "exit_ok Draining st = (ss_failed st > 0 \<longrightarrow> ss_worker_error st \<noteq> None)"
| "exit_ok (Ended (Exits r)) st = (all_done st \<and> (r = Inr () \<longrightarrow> ss_failed st = 0))"
| "exit_ok (Ended Terminates) st = (ss_workers st \<noteq> [])"
| "exit_ok _ st = True"

lemma takeWhile_snoc:
  "takeWhile P (xs @ [x]) = (if \<exists>y \<in> set xs. \<not> P y then takeWhile P xs else takeWhile P xs @ (if P x then [x] else []))"
  by (induction xs) auto

lemma order_ok_event:
  assumes "order_ok st" "ss_initialized st \<or> allowed_first e \<or> is_initialized_event e"
  shows "\<forall>x \<in> set (takeWhile (\<lambda>e. \<not> is_initialized_event e) (ss_events st @ [e])). allowed_first x"
  using assms by (auto simp: order_ok_def takeWhile_snoc)

text \<open>What the writers keep.\<close>

definition writes :: "stdio_server \<Rightarrow> stdio_server \<Rightarrow> bool" where
  "writes st st' \<longleftrightarrow>
     ss_initialized st' = ss_initialized st \<and> ss_in_flight st' = ss_in_flight st \<and>
     ss_workers st' = ss_workers st \<and> ss_events st' = ss_events st \<and> ss_due st' = ss_due st"

lemma write_response_effect:
  assumes "write_response dump ok r st = (res, st')"
  shows "writes st st'" "ss_notes st' = ss_notes st" "ss_worker_error st' = ss_worker_error st"
    "length (ss_output st') + ss_failed st' = length (ss_output st) + ss_failed st + 1"
    "ss_failed st' = ss_failed st + (if res = Inr () then 0 else 1)"
  using assms by (auto simp: writes_def write_response_def put_line_def split: sum.splits if_splits)

lemma write_notification_effect:
  assumes "write_notification dump ok n st = (res, st')"
  shows "writes st st'" "ss_worker_error st' = ss_worker_error st" "ss_failed st' = ss_failed st"
    "length (ss_output st') + ss_notes st = length (ss_output st) + ss_notes st'"
  using assms by (auto simp: writes_def write_notification_def put_line_def split: sum.splits if_splits)

lemma handle_request_effect:
  fixes dump :: "json \<Rightarrow> string" and ok :: bool and handled :: "json_rpc_response result call" and r :: json_rpc_request
  defines "f \<equiv> stdio_handle_request dump ok handled r"
  shows "ss_initialized (f st) = ss_initialized st" "ss_in_flight (f st) = ss_in_flight st"
    "ss_workers (f st) = ss_workers st" "ss_events (f st) = ss_events st @ [Called r]" "ss_due (f st) = ss_due st"
    "ss_notes (f st) = ss_notes st"
    "length (ss_output (f st)) + ss_failed (f st) = length (ss_output st) + ss_failed st + 1"
    "ss_worker_error (f st) = None \<Longrightarrow> ss_failed (f st) = ss_failed st \<and> ss_worker_error st = None"
proof -
  let ?st1 = "remember_capabilities r (st\<lparr>ss_events := ss_events st @ [Called r]\<rparr>)"
  obtain res st2 where w: "write_response dump ok (case caught handled of Inr x \<Rightarrow> x | Inl e \<Rightarrow> error_of r e) ?st1 = (res, st2)"
    by (cases "write_response dump ok (case caught handled of Inr x \<Rightarrow> x | Inl e \<Rightarrow> error_of r e) ?st1")
  have f: "f st = (case res of Inl e \<Rightarrow> record_worker_error e st2 | Inr _ \<Rightarrow> st2)"
    using w by (simp add: f_def stdio_handle_request_def Let_def split: sum.split)
  have m: "ss_initialized ?st1 = ss_initialized st" "ss_in_flight ?st1 = ss_in_flight st" "ss_workers ?st1 = ss_workers st"
    "ss_events ?st1 = ss_events st @ [Called r]" "ss_due ?st1 = ss_due st" "ss_notes ?st1 = ss_notes st"
    "ss_output ?st1 = ss_output st" "ss_failed ?st1 = ss_failed st" "ss_worker_error ?st1 = ss_worker_error st"
    by (simp_all add: remember_capabilities_def)
  note e = write_response_effect [OF w, unfolded writes_def m]
  show "ss_initialized (f st) = ss_initialized st" "ss_in_flight (f st) = ss_in_flight st"
    "ss_workers (f st) = ss_workers st" "ss_events (f st) = ss_events st @ [Called r]" "ss_due (f st) = ss_due st"
    "ss_notes (f st) = ss_notes st"
    "length (ss_output (f st)) + ss_failed (f st) = length (ss_output st) + ss_failed st + 1"
    using e(1,2,4) by (simp_all add: f record_worker_error_def split: sum.split)
  show "ss_worker_error (f st) = None \<Longrightarrow> ss_failed (f st) = ss_failed st \<and> ss_worker_error st = None"
    using e(3,5) by (auto simp: f record_worker_error_def split: sum.splits if_splits)
qed

definition stdio_ok :: "stdio_phase \<Rightarrow> stdio_server \<Rightarrow> bool" where
  "stdio_ok p st \<longleftrightarrow> workers_ok st \<and> answers_ok st \<and> order_ok st \<and> exit_ok p st"

lemma answer_and_go_on_ok:
  assumes "answer_and_go_on exit (write_error dump ok code msg i st) = (t, st')" "stdio_ok Looping st"
    "\<And>e. exit_ok (after_turn (exit e)) = (\<lambda>_. True)"
  shows "stdio_ok (after_turn t) st'"
proof -
  obtain res st1 where w: "write_response dump ok (make_error_response i (make_error code msg None)) (due st) = (res, st1)"
    by (cases "write_response dump ok (make_error_response i (make_error code msg None)) (due st)")
  note e = write_response_effect [OF w, unfolded writes_def due_def]
  have "st' = (case res of Inr _ \<Rightarrow> st1 | Inl _ \<Rightarrow> st1\<lparr>ss_running := False\<rparr>)" "t = (case res of Inr _ \<Rightarrow> GoesOn | Inl x \<Rightarrow> exit x)"
    using assms(1) w by (auto simp: answer_and_go_on_def write_error_def split: sum.splits)
  then show ?thesis
    using e assms(2,3) by (cases res) (simp_all add: stdio_ok_def workers_ok_def answers_ok_def order_ok_def)
qed

lemma notification_ok:
  assumes "stdio_notification env n st = (t, st')" "stdio_ok Looping st"
  shows "stdio_ok (after_turn t) st'"
proof (cases "\<not> ss_initialized st \<and> \<not> is_initialized_notification n")
  case True
  then show ?thesis
    using assms by (auto simp: stdio_notification_def stdio_ok_def workers_ok_def answers_ok_def order_ok_def)
next
  case False
  let ?st1 = "st\<lparr>ss_events := ss_events st @ [Admitted n]\<rparr>"
  have o: "order_ok st" using assms(2) by (simp add: stdio_ok_def)
  have "\<forall>x \<in> set (takeWhile (\<lambda>e. \<not> is_initialized_event e) (ss_events ?st1)). allowed_first x"
    using order_ok_event [OF o, of "Admitted n"] False by auto
  moreover have "ss_initialized st \<or> is_initialized_notification n \<longrightarrow> (\<exists>e \<in> set (ss_events ?st1). is_initialized_event e)"
    using o by (auto simp: order_ok_def)
  moreover have "st' = ?st1\<lparr>ss_running := False\<rparr> \<and> exit_ok (after_turn t) = (\<lambda>_. True) \<or>
      t = GoesOn \<and> st' = ?st1\<lparr>ss_initialized := ss_initialized st \<or> is_initialized_notification n\<rparr>"
    using assms(1) False by (auto simp: stdio_notification_def Let_def fun_eq_iff split: sum.splits if_splits)
  ultimately show ?thesis
    using assms(2) o by (elim disjE conjE) (simp_all add: stdio_ok_def workers_ok_def answers_ok_def order_ok_def)
qed

lemma start_worker_ok:
  assumes "start_worker env (stdio_request_key (req_id r)) r st = (t, st')" "stdio_ok Looping st" "ss_initialized st"
    "stdio_request_key (req_id r) \<notin> set (ss_in_flight st)"
  shows "stdio_ok (after_turn t) st'"
proof (cases "se_thread_fails env")
  case None
  then have st': "t = GoesOn" "st' = (due st)\<lparr>ss_in_flight := stdio_request_key (req_id r) # ss_in_flight st,
      ss_workers := ss_workers st @ [(stdio_request_key (req_id r), Working r)]\<rparr>"
    using assms(1) by (auto simp: start_worker_def)
  show ?thesis
    using assms(2-4) unfolding st'
    by (auto simp: stdio_ok_def workers_ok_def answers_ok_def order_ok_def due_def unfinished_def is_working_def worker_key_ok_def)
next
  case (Some what)
  then show ?thesis
    using assms(1,2) by (auto simp: start_worker_def stdio_ok_def workers_ok_def answers_ok_def order_ok_def)
qed

lemma handle_request_ok:
  assumes "stdio_ok Looping st" "ss_initialized st \<or> is_allowed_before_initialized r"
  shows "stdio_ok Looping (stdio_handle_request dump ok handled r (due st))"
proof -
  note e = handle_request_effect [of dump ok handled r "due st"]
  have o: "order_ok st" using assms(1) by (simp add: stdio_ok_def)
  have "\<forall>x \<in> set (takeWhile (\<lambda>e. \<not> is_initialized_event e) (ss_events st @ [Called r])). allowed_first x"
    using order_ok_event [OF o, of "Called r"] assms(2) by simp
  then have "order_ok (stdio_handle_request dump ok handled r (due st))"
    using o e(1,3,4) by (auto simp: order_ok_def due_def)
  moreover have "exit_ok Looping (stdio_handle_request dump ok handled r (due st))"
    using e(8) assms(1)
    by (cases "ss_worker_error (stdio_handle_request dump ok handled r (due st))") (auto simp: stdio_ok_def due_def)
  ultimately show ?thesis
    using assms(1) e(2,3,5,6,7) by (simp add: stdio_ok_def workers_ok_def answers_ok_def due_def)
qed

lemma stdio_line_ok:
  assumes "stdio_line dump parse env line st = (t, st')" "stdio_ok Looping st"
  shows "stdio_ok (after_turn t) st'"
proof (cases "line = ''''")
  case True
  then show ?thesis using assms by (auto simp: stdio_line_def)
next
  case False
  note ans = answer_and_go_on_ok [OF _ assms(2)]
  have plain: "exit_ok (after_turn (ReturnsAtOnce e)) = (\<lambda>_. True)" "exit_ok (after_turn (ReturnsJoined e)) = (\<lambda>_. True)" for e
    by (simp_all add: fun_eq_iff)
  have request: "stdio_ok (after_turn t) st'" if r: "stdio_request dump env r st = (t, st')" for r
  proof (cases "\<not> ss_initialized st \<and> \<not> is_allowed_before_initialized r")
    case True
    then show ?thesis using r by (intro ans [OF _ plain(1)]) (simp add: stdio_request_def)
  next
    case allowed: False
    show ?thesis
    proof (cases "req_method r = ''initialize'' \<or> \<not> ss_initialized st")
      case True
      then have "ss_initialized st \<or> is_allowed_before_initialized r" using allowed by blast
      then show ?thesis using r True allowed handle_request_ok [OF assms(2)] by (auto simp: stdio_request_def)
    next
      case False
      then have rest: "(if stdio_request_key (req_id r) \<in> set (ss_in_flight st)
          then answer_and_go_on ReturnsJoined (write_error dump (se_ok env) (error_code InvalidRequest)
            ''duplicate in-flight request id'' (Some (req_id r)) st)
          else start_worker env (stdio_request_key (req_id r)) r st) = (t, st')"
        using r allowed by (simp add: stdio_request_def Let_def)
      show ?thesis
        using rest False by (cases "stdio_request_key (req_id r) \<in> set (ss_in_flight st)")
          (simp_all add: ans [OF _ plain(2)] start_worker_ok [OF _ assms(2)])
    qed
  qed
  show ?thesis
  proof (cases "parse_message parse line")
    case (Inl e)
    then show ?thesis using assms(1) False by (intro ans [OF _ plain(1)]) (simp add: stdio_line_def)
  next
    case (Inr m)
    then show ?thesis
      using assms False
      by (cases m) (simp_all add: stdio_line_def request ans [OF _ plain(1)] notification_ok [OF _ assms(2)])
  qed
qed

text \<open>A worker's entry is replaced in place.\<close>

lemma update_split:
  assumes "n < length xs"
  shows "xs = take n xs @ xs ! n # drop (Suc n) xs" "xs[n := x] = take n xs @ x # drop (Suc n) xs"
  using assms by (simp_all add: id_take_nth_drop upd_conv_take_nth_drop)

lemma worker_answers_ok:
  assumes "stdio_ok p st" "n < length (ss_workers st)" "ss_workers st ! n = (key, Working r)" "\<nexists>x. p = Ended x"
  shows "stdio_ok p (worker_answers dump ok handled key n r st)"
proof -
  let ?f = "stdio_handle_request dump ok handled r st" and ?st' = "worker_answers dump ok handled key n r st"
  note e = handle_request_effect [of dump ok handled r st]
  have ok: "workers_ok st" "answers_ok st" "order_ok st" "exit_ok p st" using assms(1) by (auto simp: stdio_ok_def)
  have ws: "ss_workers st = take n (ss_workers st) @ (key, Working r) # drop (Suc n) (ss_workers st)"
    "ss_workers ?st' = take n (ss_workers st) @ (key, Answered) # drop (Suc n) (ss_workers st)"
    using update_split [OF assms(2)] assms(3) by (simp_all add: worker_answers_def)
  have init: "ss_initialized st" using ok(3) assms(2) by (auto simp: order_ok_def)
  have "mset (map fst (filter unfinished (ss_workers ?st'))) = mset (map fst (filter unfinished (ss_workers st)))"
    by (subst ws(1), subst ws(2)) (simp add: unfinished_def)
  moreover have "\<forall>w \<in> set (ss_workers ?st'). worker_key_ok w"
    using ok(1) set_update_subset_insert [of "ss_workers st" n "(key, Answered)"]
    by (auto simp: worker_answers_def workers_ok_def worker_key_ok_def)
  ultimately have "workers_ok ?st'" using ok(1) e(2) by (simp add: workers_ok_def worker_answers_def)
  moreover have "length (filter is_working (ss_workers st)) = Suc (length (filter is_working (ss_workers ?st')))"
    by (subst ws(1), subst ws(2)) (simp add: is_working_def)
  then have "answers_ok ?st'" using ok(2) e(5,6,7) by (simp add: answers_ok_def worker_answers_def)
  moreover have "\<forall>x \<in> set (takeWhile (\<lambda>e. \<not> is_initialized_event e) (ss_events st @ [Called r])). allowed_first x"
    using order_ok_event [OF ok(3)] init by simp
  then have "order_ok ?st'" using ok(3) e(1,4) init by (auto simp: order_ok_def worker_answers_def)
  moreover have "ss_worker_error ?st' = None \<Longrightarrow> ss_failed ?st' = ss_failed st \<and> ss_worker_error st = None"
    using e(8) by (simp add: worker_answers_def)
  then have "exit_ok p ?st'"
    using ok(4) assms(4) by (cases p; cases "ss_worker_error ?st'") auto
  ultimately show ?thesis by (simp add: stdio_ok_def)
qed

lemma worker_releases_ok:
  assumes "stdio_ok p st" "n < length (ss_workers st)" "ss_workers st ! n = (key, Answered)" "\<nexists>x. p = Ended x"
  shows "stdio_ok p (worker_releases key n st)"
proof -
  let ?st' = "worker_releases key n st"
  have ok: "workers_ok st" "answers_ok st" "order_ok st" "exit_ok p st" using assms(1) by (auto simp: stdio_ok_def)
  have ws: "ss_workers st = take n (ss_workers st) @ (key, Answered) # drop (Suc n) (ss_workers st)"
    "ss_workers ?st' = take n (ss_workers st) @ (key, Done) # drop (Suc n) (ss_workers st)"
    using update_split [OF assms(2)] assms(3) by (simp_all add: worker_releases_def)
  have "mset (ss_in_flight st) = add_mset key (mset (map fst (filter unfinished (ss_workers ?st'))))"
    using ok(1) by (subst (asm) workers_ok_def, subst ws(2), subst (asm) ws(1)) (simp add: unfinished_def)
  moreover have "distinct (ss_in_flight st)" using ok(1) by (simp add: workers_ok_def)
  ultimately have "mset (removeAll key (ss_in_flight st)) = mset (map fst (filter unfinished (ss_workers ?st')))"
    by (metis add_mset_remove_trivial distinct_remove1_removeAll mset_remove1)
  moreover have "\<forall>w \<in> set (ss_workers ?st'). worker_key_ok w"
    using ok(1) set_update_subset_insert [of "ss_workers st" n "(key, Done)"]
    by (auto simp: worker_releases_def workers_ok_def worker_key_ok_def)
  ultimately have "workers_ok ?st'" using ok(1) by (simp add: workers_ok_def worker_releases_def distinct_removeAll)
  moreover have "length (filter is_working (ss_workers st)) = length (filter is_working (ss_workers ?st'))"
    by (subst ws(1), subst ws(2)) (simp add: is_working_def)
  then have "answers_ok ?st'" using ok(2) by (simp add: answers_ok_def worker_releases_def)
  moreover have "order_ok ?st'" using ok(3) by (simp add: order_ok_def worker_releases_def)
  moreover have "exit_ok p ?st'" using ok(4) assms(4) by (cases p) (auto simp: worker_releases_def)
  ultimately show ?thesis by (simp add: stdio_ok_def)
qed

lemma send_notification_keeps:
  assumes "stdio_send_notification stream dump ok m st = (res, st')" "stdio_ok p st" "\<nexists>x. p = Ended x"
  shows "stdio_ok p st'"
proof (cases stream)
  case True
  then have "write_notification dump ok m st = (res, st')" using assms(1) by (simp add: stdio_send_notification_def)
  note e = write_notification_effect [OF this, unfolded writes_def]
  have "exit_ok p st'" using assms(2,3) e by (cases p) (auto simp: stdio_ok_def)
  then show ?thesis using assms(2) e by (simp add: stdio_ok_def workers_ok_def answers_ok_def order_ok_def)
next
  case False
  then show ?thesis using assms by (simp add: stdio_send_notification_def)
qed

lemma stop_keeps: "stdio_ok p st \<Longrightarrow> stdio_ok p (stdio_stop st)"
  by (cases "(p, st)" rule: exit_ok.cases)
    (simp_all add: stdio_ok_def workers_ok_def answers_ok_def order_ok_def stdio_stop_def all_done_def)

lemma stdio_step_ok:
  assumes "stdio_step dump parse s t" "stdio_ok (at s) (sys s)"
  shows "stdio_ok (at t) (sys t)"
  using assms(1)
proof cases
  case (turn env line t st)
  then show ?thesis using stdio_line_ok [OF turn(4)] assms(2) by simp
next
  case (answer n key r ok handled)
  then show ?thesis using worker_answers_ok [OF assms(2)] by simp
next
  case (release n key)
  then show ?thesis using worker_releases_ok [OF assms(2)] by simp
next
  case (notify stream ok m res st)
  then show ?thesis using send_notification_keeps [OF _ assms(2)] by simp
next
  case stop
  then show ?thesis using stop_keeps [OF assms(2)] by simp
next
  case (drained input_bad)
  then show ?thesis using assms(2) by (auto simp: stdio_ok_def final_result_def split: option.splits if_splits)
next
  case (unjoined e)
  then show ?thesis using assms(2) by (auto simp: stdio_ok_def return_unjoined_def all_done_def)
qed (use assms(2) in \<open>simp_all add: stdio_ok_def\<close>)

lemma stdio_reachable_ok: "stdio_reachable dump parse s \<Longrightarrow> stdio_ok (at s) (sys s)"
proof (induction rule: stdio_reachable.induct)
  case (begun good caps)
  then show ?case
    by (simp add: stdio_ok_def workers_ok_def answers_ok_def order_ok_def stdio_started_def)
next
  case (moved s t)
  then show ?case using stdio_step_ok by blast
qed

section \<open>Properties of the server's loop\<close>

lemma distinct_filter_nth:
  "distinct (map f (filter P xs)) \<Longrightarrow> m < length xs \<Longrightarrow> n < length xs \<Longrightarrow> P (xs ! m) \<Longrightarrow> P (xs ! n) \<Longrightarrow>
   f (xs ! m) = f (xs ! n) \<Longrightarrow> m = n"
proof (induction xs arbitrary: m n)
  case (Cons x xs)
  have "f x \<noteq> f (xs ! k)" if "P x" "k < length xs" "P (xs ! k)" for k using Cons.prems(1) that by auto
  then show ?case using Cons by (cases m; cases n) (auto split: if_splits dest: sym)
qed simp

lemma stdio_request_key_inject [simp]: "stdio_request_key i = stdio_request_key j \<longleftrightarrow> i = j"
  by (cases i; cases j) (auto simp: int_to_string_inject intro: signed_word_eqI)

text \<open>C20: whatever the client sends and however the threads interleave, the calls of the handlers before the
  initialized notification is admitted are initialize and ping requests, and no worker thread exists until
  then.\<close>

theorem stdio_initialization_order:
  assumes "stdio_reachable dump parse s"
  shows "(\<forall>e \<in> set (takeWhile (\<lambda>e. \<not> is_initialized_event e) (ss_events (sys s))). allowed_first e) \<and>
    (ss_workers (sys s) \<noteq> [] \<longrightarrow> (\<exists>e \<in> set (ss_events (sys s)). is_initialized_event e))"
  using stdio_reachable_ok [OF assms] by (auto simp: stdio_ok_def order_ok_def)

text \<open>At most one request per id is being worked on: the requests of the workers that have not answered
  have different ids, and the set of ids in flight is that of the unfinished workers. Every answer that is
  due has been written, has failed to be written, or is still being worked on.\<close>

theorem stdio_requests_accounted:
  assumes "stdio_reachable dump parse s"
  shows "distinct (ss_in_flight (sys s)) \<and>
    set (ss_in_flight (sys s)) = fst ` {w \<in> set (ss_workers (sys s)). snd w \<noteq> Done} \<and>
    (\<forall>m n r q. m < length (ss_workers (sys s)) \<and> n < length (ss_workers (sys s)) \<and>
       snd (ss_workers (sys s) ! m) = Working r \<and> snd (ss_workers (sys s) ! n) = Working q \<and> req_id r = req_id q \<longrightarrow> m = n) \<and>
    length (ss_output (sys s)) + ss_failed (sys s) + length (filter is_working (ss_workers (sys s))) =
      ss_due (sys s) + ss_notes (sys s)"
proof -
  let ?ws = "ss_workers (sys s)"
  have ok: "workers_ok (sys s)" "answers_ok (sys s)" using stdio_reachable_ok [OF assms] by (auto simp: stdio_ok_def)
  have d: "distinct (ss_in_flight (sys s))" "mset (ss_in_flight (sys s)) = mset (map fst (filter unfinished ?ws))"
    using ok(1) by (auto simp: workers_ok_def)
  then have dm: "distinct (map fst (filter unfinished ?ws))" using mset_eq_imp_distinct_iff by blast
  have "m = n" if w: "m < length ?ws" "n < length ?ws" "snd (?ws ! m) = Working r" "snd (?ws ! n) = Working q" "req_id r = req_id q"
    for m n r q
  proof -
    have k: "worker_key_ok (?ws ! m)" "worker_key_ok (?ws ! n)" using ok(1) w(1,2) by (auto simp: workers_ok_def)
    then have "fst (?ws ! m) = fst (?ws ! n)" using w(3-5) by (simp add: worker_key_ok_def)
    then show "m = n"
      using distinct_filter_nth [OF dm w(1,2)] w(3,4) by (simp add: unfinished_def)
  qed
  moreover have "set (ss_in_flight (sys s)) = fst ` {w \<in> set ?ws. snd w \<noteq> Done}"
    using mset_eq_setD [OF d(2)] by (simp add: unfinished_def)
  ultimately show ?thesis using d(1) ok(2) by (simp add: answers_ok_def)
qed

text \<open>How the loop ends. When \<open>start\<close> returns, every worker has finished; when it returns success,
  every answer that was due has been written. When it leaves at once because a notification handler failed
  or an answer could not be written, and a worker thread had been started before, the process ends
  with \<open>std::terminate\<close> instead, since that thread is never joined.\<close>

theorem stdio_exits:
  assumes "stdio_reachable dump parse s" "at s = Ended x"
  shows "case x of
      Exits r \<Rightarrow> all_done (sys s) \<and>
        (r = Inr () \<longrightarrow> length (ss_output (sys s)) = ss_due (sys s) + ss_notes (sys s) \<and> ss_failed (sys s) = 0)
    | Terminates \<Rightarrow> ss_workers (sys s) \<noteq> []"
proof -
  have ok: "answers_ok (sys s)" "exit_ok (Ended x) (sys s)" using stdio_reachable_ok [OF assms(1)] assms(2) by (auto simp: stdio_ok_def)
  have "all_done st \<Longrightarrow> filter is_working (ss_workers st) = []" for st
    by (auto simp: all_done_def is_working_def filter_empty_conv)
  then show ?thesis using ok by (cases x) (auto simp: answers_ok_def)
qed

section \<open>The client\<close>

text \<open>
  The client's handlers are functions of the message, absent when not installed. Writing the n-th line
  succeeds when \<open>takes n\<close> holds.
\<close>

record stdio_client =
  sc_started :: bool
  sc_on_request :: "(json_rpc_request \<Rightarrow> json_rpc_response result call) option"
  sc_on_notification :: "(json_rpc_notification \<Rightarrow> unit result call) option"
  sc_input :: "string list"
  sc_output :: "string list"

definition stdio_client_start ::
  "(json_rpc_request \<Rightarrow> json_rpc_response result call) option \<Rightarrow> (json_rpc_notification \<Rightarrow> unit result call) option \<Rightarrow>
   stdio_client \<Rightarrow> stdio_client" where
  "stdio_client_start on_request on_notification c =
     c\<lparr>sc_on_request := on_request, sc_on_notification := on_notification, sc_started := True\<rparr>"

definition client_put :: "(nat \<Rightarrow> bool) \<Rightarrow> string \<Rightarrow> string \<Rightarrow> stdio_client \<Rightarrow> unit result \<times> stdio_client" where
  "client_put takes data failure c =
     (if takes (length (sc_output c)) then (Inr (), c\<lparr>sc_output := sc_output c @ [data]\<rparr>)
      else (Inl (make_transport_error InternalError failure ''''), c))"

definition client_write_response ::
  "(json \<Rightarrow> string) \<Rightarrow> (nat \<Rightarrow> bool) \<Rightarrow> json_rpc_response \<Rightarrow> stdio_client \<Rightarrow> unit result \<times> stdio_client" where
  "client_write_response dump takes r c =
     (case serialize_response_direct dump r of
        Inl e \<Rightarrow> (Inl e, c)
      | Inr data \<Rightarrow> client_put takes data ''failed to write stdio response'' c)"

fun client_request_id_to_string :: "request_id \<Rightarrow> string" where
  "client_request_id_to_string (IdString s) = s"
| "client_request_id_to_string (IdInt i) = int_to_string (sint i)"

definition require_matching_response :: "json_rpc_request \<Rightarrow> json_rpc_response \<Rightarrow> json_rpc_response result" where
  "require_matching_response request response =
     (if resp_id response = Some (req_id request) then Inr response
      else Inl (make_transport_error InvalidRequest ''stdio transport received an unexpected response''
             (case resp_id response of Some i \<Rightarrow> client_request_id_to_string i | None \<Rightarrow> '''')))"

definition answer_incoming ::
  "(json \<Rightarrow> string) \<Rightarrow> (nat \<Rightarrow> bool) \<Rightarrow> json_rpc_request \<Rightarrow> stdio_client \<Rightarrow> unit result \<times> stdio_client" where
  "answer_incoming dump takes incoming c =
     (case sc_on_request c of
        None \<Rightarrow> (Inl (make_transport_error MethodNotFound ''stdio transport request handler is not configured''
                   (req_method incoming)), c)
      | Some h \<Rightarrow>
          client_write_response dump takes
            (case caught (h incoming) of Inr r \<Rightarrow> r | Inl e \<Rightarrow> error_of incoming e) c)"

definition hear_notification :: "json_rpc_notification \<Rightarrow> stdio_client \<Rightarrow> unit result" where
  "hear_notification n c = (case sc_on_notification c of None \<Rightarrow> Inr () | Some h \<Rightarrow> caught (h n))"

text \<open>The loop of \<open>send\<close>, over the lines that are still to come.\<close>

fun await_response ::
  "(json \<Rightarrow> string) \<Rightarrow> (string \<Rightarrow> json option) \<Rightarrow> (nat \<Rightarrow> bool) \<Rightarrow> json_rpc_request \<Rightarrow> string list \<Rightarrow> stdio_client \<Rightarrow>
   json_rpc_response result \<times> stdio_client" where
  "await_response dump parse takes request [] c =
     (Inl (make_transport_error InternalError ''failed to read stdio response'' ''''), c\<lparr>sc_input := []\<rparr>)"
| "await_response dump parse takes request (line # later) c =
     (if line = '''' then await_response dump parse takes request later c
      else case parse_message parse line of
        Inl e \<Rightarrow> (Inl e, c\<lparr>sc_input := later\<rparr>)
      | Inr (MsgNotification n) \<Rightarrow>
          (case hear_notification n c of
             Inl e \<Rightarrow> (Inl e, c\<lparr>sc_input := later\<rparr>)
           | Inr _ \<Rightarrow> await_response dump parse takes request later c)
      | Inr (MsgRequest incoming) \<Rightarrow>
          (case answer_incoming dump takes incoming c of
             (Inl e, c') \<Rightarrow> (Inl e, c'\<lparr>sc_input := later\<rparr>)
           | (Inr _, c') \<Rightarrow> await_response dump parse takes request later c')
      | Inr (MsgResponse r) \<Rightarrow> (require_matching_response request r, c\<lparr>sc_input := later\<rparr>))"

definition stdio_client_send ::
  "bool \<Rightarrow> (json \<Rightarrow> string) \<Rightarrow> (string \<Rightarrow> json option) \<Rightarrow> (nat \<Rightarrow> bool) \<Rightarrow> json_rpc_request \<Rightarrow> stdio_client \<Rightarrow>
   json_rpc_response result \<times> stdio_client" where
  "stdio_client_send streams dump parse takes request c =
     (if \<not> streams then (Inl (make_transport_error InternalError ''stdio transport streams are not configured'' ''''), c)
      else case serialize_request_direct dump request of
        Inl e \<Rightarrow> (Inl e, c)
      | Inr data \<Rightarrow>
          (case client_put takes data ''failed to write stdio request'' c of
             (Inl e, c') \<Rightarrow> (Inl e, c')
           | (Inr _, c') \<Rightarrow>
               if \<not> sc_started c' then
                 (case sc_input c' of
                    [] \<Rightarrow> (Inl (make_transport_error InternalError ''failed to read stdio response'' ''''), c')
                  | line # later \<Rightarrow>
                      (rbind (parse_response parse line) (require_matching_response request), c'\<lparr>sc_input := later\<rparr>))
               else await_response dump parse takes request (sc_input c') c'))"

definition stdio_client_send_notification ::
  "bool \<Rightarrow> (json \<Rightarrow> string) \<Rightarrow> (nat \<Rightarrow> bool) \<Rightarrow> json_rpc_notification \<Rightarrow> stdio_client \<Rightarrow> unit result \<times> stdio_client" where
  "stdio_client_send_notification stream dump takes n c =
     (if \<not> stream then (Inl (make_transport_error InternalError ''stdio transport output stream is not configured'' ''''), c)
      else case serialize_notification_direct dump n of
        Inl e \<Rightarrow> (Inl e, c)
      | Inr data \<Rightarrow> client_put takes data ''failed to write stdio notification'' c)"

text \<open>A line that the loop deals with and goes on: empty, a notification that is heard, or a request that is
  answered. \<open>answers\<close> are the lines written for them.\<close>

definition passed_over :: "(json \<Rightarrow> string) \<Rightarrow> (string \<Rightarrow> json option) \<Rightarrow> stdio_client \<Rightarrow> string \<Rightarrow> string list option" where
  "passed_over dump parse c line =
     (if line = '''' then Some []
      else case parse_message parse line of
        Inr (MsgNotification n) \<Rightarrow> if hear_notification n c = Inr () then Some [] else None
      | Inr (MsgRequest incoming) \<Rightarrow>
          (case sc_on_request c of
             None \<Rightarrow> None
           | Some h \<Rightarrow>
               (case serialize_response_direct dump (case caught (h incoming) of Inr r \<Rightarrow> r | Inl e \<Rightarrow> error_of incoming e) of
                  Inr data \<Rightarrow> Some [data]
                | Inl _ \<Rightarrow> None))
      | _ \<Rightarrow> None)"

lemma passed_over_output [simp]:
  "passed_over dump parse (c\<lparr>sc_output := os\<rparr>) = passed_over dump parse c"
  by (rule ext) (simp add: passed_over_def hear_notification_def split: sum.split json_rpc_message.split)

lemma await_passes_line:
  assumes "passed_over dump parse c line = Some ans" "\<forall>n. takes n"
  shows "await_response dump parse takes request (line # later) c =
    await_response dump parse takes request later (c\<lparr>sc_output := sc_output c @ ans\<rparr>)"
  using assms
  by (auto simp: passed_over_def answer_incoming_def client_write_response_def client_put_def
      split: if_splits sum.splits json_rpc_message.splits option.splits)

lemma await_passes:
  assumes "\<forall>l \<in> set pre. passed_over dump parse c l \<noteq> None" "\<forall>n. takes n"
  shows "await_response dump parse takes request (pre @ rest) c =
    await_response dump parse takes request rest
      (c\<lparr>sc_output := sc_output c @ concat (map (\<lambda>l. the (passed_over dump parse c l)) pre)\<rparr>)"
  using assms(1)
proof (induction pre arbitrary: c)
  case (Cons l pre)
  then obtain ans where ans: "passed_over dump parse c l = Some ans" by auto
  show ?case
    using Cons.prems Cons.IH [of "c\<lparr>sc_output := sc_output c @ ans\<rparr>"]
    by (simp add: await_passes_line [OF ans assms(2)] ans del: await_response.simps(2))
qed simp

text \<open>A started client waits for the first response: the lines before it are heard or answered in order,
  and that response is returned when it carries the id of the request and is an error otherwise. Nothing
  of the input behind it is read.\<close>

theorem await_first_response:
  assumes "\<forall>l \<in> set pre. passed_over dump parse c l \<noteq> None" "\<forall>n. takes n"
    "line \<noteq> ''''" "parse_message parse line = Inr (MsgResponse r)"
  shows "await_response dump parse takes request (pre @ line # rest) c =
    (if resp_id r = Some (req_id request) then Inr r
     else Inl (make_transport_error InvalidRequest ''stdio transport received an unexpected response''
            (case resp_id r of Some i \<Rightarrow> client_request_id_to_string i | None \<Rightarrow> '''')),
     c\<lparr>sc_output := sc_output c @ concat (map (\<lambda>l. the (passed_over dump parse c l)) pre), sc_input := rest\<rparr>)"
  using assms(3,4) by (simp add: await_passes [OF assms(1,2)] require_matching_response_def)

section \<open>Example runs\<close>

definition sample_document :: "string \<Rightarrow> json option" where
  "sample_document line =
     (if line = ''n'' then Some (JObject [(''jsonrpc'', JString ''2.0''), (''method'', JString ''notifications/initialized'')])
      else if line = ''q'' then Some (JObject [(''id'', JInt 7), (''jsonrpc'', JString ''2.0''), (''method'', JString ''tools/list'')])
      else if line = ''r'' then Some (JObject [(''id'', JInt 7), (''jsonrpc'', JString ''2.0''), (''result'', JNull)])
      else None)"

definition initialized_note :: json_rpc_notification where
  "initialized_note = make_notification ''notifications/initialized'' empty_object"

definition list_request :: json_rpc_request where
  "list_request = make_request ''tools/list'' (IdInt 7) empty_object"

lemma sample_messages:
  "parse_message sample_document ''n'' = Inr (MsgNotification initialized_note)"
  "parse_message sample_document ''q'' = Inr (MsgRequest list_request)"
  "parse_message sample_document ''r'' = Inr (MsgResponse (make_response (IdInt 7) JNull))"
  by (simp_all add: parse_message_def parse_json_document_def sample_document_def validate_json_document_limits_def
      validate_frames.simps MaxJsonDepth_def MaxJsonNodeCount_def MaxJsonAggregateStringBytes_def
      MaxJsonAggregateCollectionEntries_def message_from_document_def validate_jsonrpc_version_def JsonRpcVersion_def
      has_member_def jcontains_def jfind_def notification_from_document_def request_from_document_def
      response_from_document_def method_from_document_def params_from_document_or_empty_def meta_from_params_def
      required_request_id_from_document_def response_id_from_document_def meta_from_document_def request_id_from_json_def
      initialized_note_def list_request_def make_notification_def make_request_def make_response_def)

definition sample_env :: "unit result call \<Rightarrow> stdio_env" where
  "sample_env notified = \<lparr>se_ok = True, se_listens = True, se_notified = notified, se_handled = ThrewUnknown,
     se_thread_fails = None\<rparr>"

definition sample_working :: stdio_server where
  "sample_working = (stdio_started True None)\<lparr>ss_initialized := True, ss_in_flight := [''i:7''],
     ss_workers := [(''i:7'', Working list_request)], ss_events := [Admitted initialized_note], ss_due := 1\<rparr>"

lemma sample_key: "stdio_request_key (IdInt 7) = ''i:7''"
proof -
  have "int_to_string 7 = ''7''" by code_simp
  then show ?thesis by simp
qed

lemma stdio_turns:
  "stdio_reachable dump parse \<lparr>sys = st, at = Looping\<rparr> \<Longrightarrow> ss_running st \<Longrightarrow>
   stdio_line dump parse env line st = (t, st') \<Longrightarrow> stdio_reachable dump parse \<lparr>sys = st', at = after_turn t\<rparr>"
  using stdio_reachable.moved [OF _ stdio_step.turn [of "\<lparr>sys = st, at = Looping\<rparr>"]] by simp

lemma sample_working_reachable: "stdio_reachable (\<lambda>_. ''0'') sample_document \<lparr>sys = sample_working, at = Looping\<rparr>"
proof -
  let ?st1 = "(stdio_started True None)\<lparr>ss_initialized := True, ss_events := [Admitted initialized_note]\<rparr>"
  have "stdio_line (\<lambda>_. ''0'') sample_document (sample_env (Returned (Inr ()))) ''n'' (stdio_started True None) = (GoesOn, ?st1)"
    by (simp add: stdio_line_def sample_messages stdio_notification_def sample_env_def stdio_started_def
        is_initialized_notification_def initialized_note_def make_notification_def)
  then have 1: "stdio_reachable (\<lambda>_. ''0'') sample_document \<lparr>sys = ?st1, at = Looping\<rparr>"
    using stdio_turns [OF stdio_reachable.begun] by (fastforce simp: stdio_started_def)
  have "stdio_line (\<lambda>_. ''0'') sample_document (sample_env (Returned (Inr ()))) ''q'' ?st1 = (GoesOn, sample_working)"
    by (simp add: stdio_line_def sample_messages stdio_request_def sample_env_def stdio_started_def start_worker_def due_def
        list_request_def make_request_def sample_working_def sample_key [simplified] Let_def)
  then show ?thesis
    using stdio_turns [OF 1] by (fastforce simp: stdio_started_def)
qed

theorem stdio_initialization_order_witness: "\<exists>e \<in> set (ss_events sample_working). is_initialized_event e"
  using stdio_initialization_order [OF sample_working_reachable] by (simp add: sample_working_def)

theorem stdio_requests_accounted_witness:
  "set (ss_in_flight sample_working) = {''i:7''} \<and> length (filter is_working (ss_workers sample_working)) = 1"
  using stdio_requests_accounted [OF sample_working_reachable]
  by (simp add: sample_working_def stdio_started_def is_working_def)

text \<open>The handler of a notification fails while a worker exists.\<close>

theorem stdio_exits_witness:
  "\<exists>s. stdio_reachable (\<lambda>_. ''0'') sample_document s \<and> at s = Ended Terminates \<and> ss_workers (sys s) \<noteq> []"
proof -
  let ?st = "sample_working\<lparr>ss_events := [Admitted initialized_note, Admitted initialized_note], ss_running := False\<rparr>"
  have "stdio_line (\<lambda>_. ''0'') sample_document (sample_env (Threw ''x'')) ''n'' sample_working =
      (ReturnsAtOnce (handler_failed ''x''), ?st)"
    by (simp add: stdio_line_def sample_messages stdio_notification_def sample_env_def sample_working_def)
  then have 1: "stdio_reachable (\<lambda>_. ''0'') sample_document \<lparr>sys = ?st, at = LeavingAtOnce (handler_failed ''x'')\<rparr>"
    using stdio_turns [OF sample_working_reachable] by (fastforce simp: sample_working_def stdio_started_def)
  have 2: "stdio_reachable (\<lambda>_. ''0'') sample_document \<lparr>sys = ?st, at = Ended Terminates\<rparr>"
    using stdio_reachable.moved [OF 1 stdio_step.unjoined] by (simp add: return_unjoined_def sample_working_def)
  from stdio_exits [OF this] show ?thesis using 2 by fastforce
qed

theorem await_first_response_witness:
  "let c = \<lparr>sc_started = True, sc_on_request = None, sc_on_notification = None, sc_input = [], sc_output = []\<rparr> in
   fst (await_response (\<lambda>_. ''0'') sample_document (\<lambda>_. True) list_request [''n'', ''r'', ''x''] c) =
     Inr (make_response (IdInt 7) JNull)"
proof -
  let ?c = "\<lparr>sc_started = True, sc_on_request = None, sc_on_notification = None, sc_input = [], sc_output = []\<rparr>"
  have "\<forall>l \<in> set [''n'']. passed_over (\<lambda>_. ''0'') sample_document ?c l \<noteq> None"
    by (simp add: passed_over_def sample_messages hear_notification_def)
  from await_first_response [OF this, of "\<lambda>_. True" "''r''" "make_response (IdInt 7) JNull" list_request "[''x'']"]
  show ?thesis by (simp add: sample_messages make_response_def list_request_def make_request_def)
qed

end
