(* ===== verification/Completion_Protocol.thy ===== *)
theory Completion_Protocol
  imports Tool_Protocol
begin

text \<open>
  src/sdk/protocol/include/cxxmcp/protocol/completion.hpp: the params and results of
  \<open>completion/complete\<close>. References are read strictly by their type, the context is kept raw and, when
  it reads as such, as a map of strings; at most a hundred values are accepted.
\<close>

section \<open>Data\<close>

record completion_reference =
  cr_type :: string
  cr_name :: string
  cr_uri :: "string option"
  cr_title :: string
  cr_extensions :: json

definition prompt_completion_reference :: "string \<Rightarrow> completion_reference" where
  "prompt_completion_reference name =
     \<lparr>cr_type = ''ref/prompt'', cr_name = name, cr_uri = None, cr_title = '''', cr_extensions = empty_object\<rparr>"

definition resource_completion_reference :: "string \<Rightarrow> completion_reference" where
  "resource_completion_reference uri =
     \<lparr>cr_type = ''ref/resource'', cr_name = uri, cr_uri = Some uri, cr_title = '''', cr_extensions = empty_object\<rparr>"

record completion_argument =
  ca_name :: string
  ca_value :: string
  ca_extensions :: json

definition completion_argument_reflect :: "completion_argument reflect" where
  "completion_argument_reflect =
     \<lparr>rf_default = \<lparr>ca_name = '''', ca_value = '''', ca_extensions = empty_object\<rparr>,
      rf_fields = [field string_trait ''name'' ca_name (\<lambda>v s. s\<lparr>ca_name := v\<rparr>),
                   field string_trait ''value'' ca_value (\<lambda>v s. s\<lparr>ca_value := v\<rparr>),
                   ExtensionsField ca_extensions],
      rf_extensions = Some (ca_extensions, \<lambda>v s. s\<lparr>ca_extensions := v\<rparr>),
      rf_known_keys = [''name'', ''value'']\<rparr>"

text \<open>\<open>JsonFieldTraits<std::map<std::string, std::string>>\<close>: an empty map is not written.\<close>

fun string_entry :: "string \<times> json \<Rightarrow> (string \<times> string) option" where
  "string_entry (k, v) = (case get_string v of None \<Rightarrow> None | Some s \<Rightarrow> Some (k, s))"

definition string_map_trait :: "(string \<times> string) list json_trait" where
  "string_map_trait =
     \<lparr>tr_ser = (\<lambda>m. if m = [] then None else Some (JObject (map (\<lambda>(k, v). (k, JString v)) m))),
      tr_de = (\<lambda>j. case j of JObject kvs \<Rightarrow> map_all string_entry kvs | _ \<Rightarrow> None),
      tr_default = [], tr_optional = False\<rparr>"

record completion_context =
  cc_arguments :: "(string \<times> string) list option"

definition completion_context_reflect :: "completion_context reflect" where
  "completion_context_reflect =
     \<lparr>rf_default = \<lparr>cc_arguments = None\<rparr>,
      rf_fields = [field (optional_trait string_map_trait) ''arguments'' cc_arguments (\<lambda>v s. s\<lparr>cc_arguments := v\<rparr>)],
      rf_extensions = None, rf_known_keys = [''arguments'']\<rparr>"

record complete_params =
  cp_ref :: completion_reference
  cp_argument :: completion_argument
  cp_typed_context :: "completion_context option"
  cp_context :: json
  cp_meta :: "json option"
  cp_extensions :: json

record completion_result =
  cpr_values :: "string list"
  cpr_total :: "int32 option"
  cpr_has_more :: "bool option"
  cpr_extensions :: json

definition kMaxValues :: nat where
  "kMaxValues = 100"

definition has_more_results :: "completion_result \<Rightarrow> bool" where
  "has_more_results r = (case cpr_has_more r of None \<Rightarrow> False | Some b \<Rightarrow> b)"

record complete_result =
  cor_completion :: completion_result
  cor_meta :: "json option"
  cor_extensions :: json

definition completion_json_error :: "string \<Rightarrow> core_error" where
  "completion_json_error msg = mk_error (error_code InvalidRequest) msg '''' ''''"

section \<open>References\<close>

definition reference_keys :: "string list" where
  "reference_keys = [''type'', ''name'', ''uri'', ''title'']"

definition completion_reference_to_json :: "completion_reference \<Rightarrow> json" where
  "completion_reference_to_json ref =
     (let j = jset empty_object ''type'' (JString (cr_type ref));
          j = (case cr_uri ref of
                 Some uri \<Rightarrow> jset j ''uri'' (JString uri)
               | None \<Rightarrow> jset_opt j ''name'' (nonempty_string (cr_name ref)));
          j = jset_opt j ''title'' (nonempty_string (cr_title ref))
      in append_json_extensions j (cr_extensions ref))"

definition reference_target :: "string \<Rightarrow> json \<Rightarrow> (string \<times> string option) result" where
  "reference_target t j =
     (let err = (\<lambda>msg. completion_json_error (''completion '' @ msg)) in
      if t = ''ref/prompt'' then
        rbind (required_member is_string j ''name'' (err ''prompt ref requires string name'')) (\<lambda>name.
          if jcontains j ''uri'' then Inl (err ''prompt ref must not contain uri'') else Inr (string_of name, None))
      else if t = ''ref/resource'' then
        rbind (required_member is_string j ''uri'' (err ''resource ref requires string uri'')) (\<lambda>uri.
          if jcontains j ''name'' then Inl (err ''resource ref must not contain name'')
          else Inr ('''', Some (string_of uri)))
      else Inl (err ''ref type is not supported''))"

definition reference_title :: "string \<Rightarrow> json \<Rightarrow> string result" where
  "reference_title t j =
     (case jfind j ''title'' of
        None \<Rightarrow> Inr ''''
      | Some v \<Rightarrow>
          if t \<noteq> ''ref/prompt'' then Inl (completion_json_error ''completion resource ref must not contain title'')
          else if \<not> is_string v then Inl (completion_json_error ''completion ref title must be a string'')
          else Inr (string_of v))"

definition completion_reference_from_json :: "json \<Rightarrow> completion_reference result" where
  "completion_reference_from_json j =
     (if \<not> is_object j then Inl (completion_json_error ''completion ref must be an object'')
      else
        rbind (required_member is_string j ''type'' (completion_json_error ''completion ref requires a string type'')) (\<lambda>t.
        rbind (reference_target (string_of t) j) (\<lambda>(name, uri).
        rbind (reference_title (string_of t) j) (\<lambda>title.
          Inr \<lparr>cr_type = string_of t, cr_name = name, cr_uri = uri, cr_title = title,
               cr_extensions = collect_json_extensions j reference_keys\<rparr>))))"

section \<open>Params\<close>

definition completion_argument_to_json :: "completion_argument \<Rightarrow> json" where
  "completion_argument_to_json = reflect_to_json completion_argument_reflect"

definition completion_argument_from_json :: "json \<Rightarrow> completion_argument result" where
  "completion_argument_from_json = reflect_from_json completion_argument_reflect"

definition completion_context_to_json :: "completion_context \<Rightarrow> json" where
  "completion_context_to_json = reflect_to_json completion_context_reflect"

definition completion_context_from_json :: "json \<Rightarrow> completion_context result" where
  "completion_context_from_json = reflect_from_json completion_context_reflect"

definition complete_params_keys :: "string list" where
  "complete_params_keys = [''ref'', ''argument'', ''context'', ''_meta'']"

definition complete_params_to_json :: "complete_params \<Rightarrow> json" where
  "complete_params_to_json p =
     append_json_extensions
       (jset_opt (jset_opt (jset (jset empty_object ''ref'' (completion_reference_to_json (cp_ref p)))
          ''argument'' (completion_argument_to_json (cp_argument p)))
          ''context'' (case cp_typed_context p of
                         Some c \<Rightarrow> Some (completion_context_to_json c)
                       | None \<Rightarrow> nonempty_json (cp_context p)))
          ''_meta'' (cp_meta p))
       (cp_extensions p)"

text \<open>The typed context is read only if there are arguments, and left out if it does not read.\<close>

definition typed_context :: "json \<Rightarrow> completion_context option" where
  "typed_context c =
     (if jcontains c ''arguments'' then
        (case completion_context_from_json c of Inl _ \<Rightarrow> None | Inr t \<Rightarrow> Some t)
      else None)"

definition complete_params_from_json :: "json \<Rightarrow> complete_params result" where
  "complete_params_from_json j =
     (let err = (\<lambda>msg. completion_json_error (''completion '' @ msg)) in
      if \<not> is_object j then Inl (err ''params must be an object'')
      else
        rbind (required_member (\<lambda>_. True) j ''ref'' (err ''params require ref'')) (\<lambda>r.
        rbind (required_member (\<lambda>_. True) j ''argument'' (err ''params require argument'')) (\<lambda>a.
        rbind (completion_reference_from_json r) (\<lambda>ref.
        rbind (completion_argument_from_json a) (\<lambda>argument.
        rbind (optional_member is_object j ''context'' (err ''context must be an object'')) (\<lambda>c.
        rbind (optional_member is_object j ''_meta'' (err ''_meta must be an object'')) (\<lambda>meta.
          Inr \<lparr>cp_ref = ref, cp_argument = argument,
               cp_typed_context = (case c of None \<Rightarrow> None | Some x \<Rightarrow> typed_context x),
               cp_context = object_or_empty c, cp_meta = meta,
               cp_extensions = collect_json_extensions j complete_params_keys\<rparr>)))))))"

section \<open>Results\<close>

definition completion_result_keys :: "string list" where
  "completion_result_keys = [''values'', ''total'', ''hasMore'']"

definition json_of_int32 :: "int32 \<Rightarrow> json" where
  "json_of_int32 i = JInt (word_of_int (sint i))"

definition completion_result_to_json :: "completion_result \<Rightarrow> json" where
  "completion_result_to_json r =
     append_json_extensions
       (jset_opt (jset_opt (jset empty_object ''values'' (JArray (map JString (cpr_values r))))
          ''total'' (map_option json_of_int32 (cpr_total r)))
          ''hasMore'' (map_option JBool (cpr_has_more r)))
       (cpr_extensions r)"

definition completion_values :: "json \<Rightarrow> string list result" where
  "completion_values j =
     (case jfind j ''values'' of
        Some (JArray items) \<Rightarrow>
          if kMaxValues < length items then Inl (completion_json_error ''completion result has too many values'')
          else map_result (\<lambda>item. case get_string item of
                 None \<Rightarrow> Inl (completion_json_error ''completion values must be strings'')
               | Some s \<Rightarrow> Inr s) items
      | _ \<Rightarrow> Inl (completion_json_error ''completion result requires a values array''))"

definition completion_total :: "json \<Rightarrow> int32 option result" where
  "completion_total j =
     (let e = completion_json_error ''completion total must be a non-negative integer'' in
      case jfind j ''total'' of
        None \<Rightarrow> Inr None
      | Some v \<Rightarrow>
          (case get_int64 v of
             None \<Rightarrow> Inl e
           | Some n \<Rightarrow>
               if sint n < 0 \<or> sint n > 2147483647 then Inl e
               else Inr (Some (word_of_int (sint n)))))"

definition completion_result_from_json :: "json \<Rightarrow> completion_result result" where
  "completion_result_from_json j =
     (if \<not> is_object j then Inl (completion_json_error ''completion result must be an object'')
      else
        rbind (completion_values j) (\<lambda>vs.
        rbind (completion_total j) (\<lambda>total.
        rbind (optional_member is_boolean j ''hasMore'' (completion_json_error ''completion hasMore must be a boolean'')) (\<lambda>m.
          Inr \<lparr>cpr_values = vs, cpr_total = total, cpr_has_more = map_option bool_of m,
               cpr_extensions = collect_json_extensions j completion_result_keys\<rparr>))))"

definition complete_result_keys :: "string list" where
  "complete_result_keys = [''completion'', ''_meta'']"

definition complete_result_to_json :: "complete_result \<Rightarrow> json" where
  "complete_result_to_json r =
     append_json_extensions
       (jset_opt (JObject [(''completion'', completion_result_to_json (cor_completion r))]) ''_meta'' (cor_meta r))
       (cor_extensions r)"

definition complete_result_from_json :: "json \<Rightarrow> complete_result result" where
  "complete_result_from_json j =
     (let err = (\<lambda>msg. completion_json_error (''completion result '' @ msg)) in
      if \<not> is_object j then Inl (err ''envelope must be an object'')
      else
        rbind (required_member (\<lambda>_. True) j ''completion'' (err ''envelope requires completion'')) (\<lambda>c.
        rbind (completion_result_from_json c) (\<lambda>completion.
        rbind (optional_member is_object j ''_meta'' (err ''_meta must be an object'')) (\<lambda>meta.
          Inr \<lparr>cor_completion = completion, cor_meta = meta,
               cor_extensions = collect_json_extensions j complete_result_keys\<rparr>))))"

section \<open>What is written is read\<close>

lemma map_all_string_entry: "map_all string_entry (map (\<lambda>(k, v). (k, JString v)) m) = Some m"
  by (induction m) auto

interpretation string_map: field_trait string_map_trait "\<lambda>_. True"
  by unfold_locales (auto simp: string_map_trait_def map_all_string_entry split: if_splits)

interpretation completion_argument: reflected_struct completion_argument_reflect
  "\<lambda>a. ext_ok [''name'', ''value''] (ca_extensions a)" ca_extensions "\<lambda>v. ca_extensions_update (\<lambda>_. v)"
proof unfold_locales
  fix obj :: completion_argument
  show "\<exists>u. reads_back obj (rf_fields completion_argument_reflect) (rf_default completion_argument_reflect) u \<and>
      u\<lparr>ca_extensions := ca_extensions obj\<rparr> = obj"
    unfolding completion_argument_reflect_def reflect.simps
    by (intro exI conjI) (rule reads_rules | simp)+
qed (auto simp: completion_argument_reflect_def)

text \<open>
  An optional map that is present but empty is written like an absent one, so only other contexts are
  read back.
\<close>

definition context_ok :: "completion_context \<Rightarrow> bool" where
  "context_ok c \<longleftrightarrow> cc_arguments c \<noteq> Some []"

lemma optional_map_read:
  "v \<noteq> Some [] \<Longrightarrow> jfind j k = tr_ser (optional_trait string_map_trait) v \<Longrightarrow> put None t = t \<Longrightarrow>
   deserialize_one (optional_trait string_map_trait) k put None None False j t = Inr (put v t)"
  by (cases v)
    (auto simp: deserialize_one_def optional_trait_def string_map_trait_def map_all_string_entry)

interpretation completion_context: plain_struct completion_context_reflect context_ok
proof unfold_locales
  fix c :: completion_context assume "context_ok c"
  then have "deserialize_one (optional_trait string_map_trait) ''arguments'' (\<lambda>v s. s\<lparr>cc_arguments := v\<rparr>) None None False
      j \<lparr>cc_arguments = None\<rparr> = Inr c"
    if "jfind j ''arguments'' = tr_ser (optional_trait string_map_trait) (cc_arguments c)" for j
    using optional_map_read [OF _ that, of "\<lambda>v s. s\<lparr>cc_arguments := v\<rparr>" "\<lparr>cc_arguments = None\<rparr>"]
    by (simp add: context_ok_def)
  then show "reads_back c (rf_fields completion_context_reflect) (rf_default completion_context_reflect) c"
    unfolding completion_context_reflect_def reflect.simps field_def
    by (intro reads_back.one_field reads_back.no_fields) simp_all
qed (simp_all add: completion_context_reflect_def)

text \<open>
  The references that are read back: a prompt by name, or a resource by uri without a name and title.
  \<open>resource_completion_reference\<close> sets the name too, which is not written.
\<close>

definition reference_ok :: "completion_reference \<Rightarrow> bool" where
  "reference_ok ref \<longleftrightarrow>
     (cr_type ref = ''ref/prompt'' \<and> cr_uri ref = None \<and> cr_name ref \<noteq> '''' \<or>
      cr_type ref = ''ref/resource'' \<and> cr_uri ref \<noteq> None \<and> cr_title ref = '''') \<and>
     ext_ok reference_keys (cr_extensions ref)"

definition wire_reference :: "completion_reference \<Rightarrow> completion_reference" where
  "wire_reference ref = (if cr_uri ref = None then ref else ref\<lparr>cr_name := ''''\<rparr>)"

lemma completion_reference_roundtrip:
  assumes "reference_ok ref"
  shows "completion_reference_from_json (completion_reference_to_json ref) = Inr (wire_reference ref)"
proof -
  let ?j = "completion_reference_to_json ref"
  have e: "ext_ok reference_keys (cr_extensions ref)"
    and k: "cr_type ref = ''ref/prompt'' \<and> cr_uri ref = None \<and> cr_name ref \<noteq> '''' \<or>
      cr_type ref = ''ref/resource'' \<and> cr_uri ref \<noteq> None \<and> cr_title ref = ''''"
    using assms by (simp_all add: reference_ok_def)
  show ?thesis
  proof (cases "cr_uri ref")
    case None
    then have k: "cr_type ref = ''ref/prompt''" "cr_name ref \<noteq> ''''" using k by simp_all
    have j: "?j = append_json_extensions (jset_opt (jset (jset empty_object ''type'' (JString (cr_type ref)))
        ''name'' (JString (cr_name ref))) ''title'' (nonempty_string (cr_title ref))) (cr_extensions ref)"
      using None k by (simp add: completion_reference_to_json_def nonempty_string_def jset_opt_def)
    have f: "is_object ?j" "jfind ?j ''type'' = Some (JString (cr_type ref))" "jfind ?j ''uri'' = None"
      "jfind ?j ''name'' = Some (JString (cr_name ref))" "jfind ?j ''title'' = nonempty_string (cr_title ref)"
      unfolding j by (simp_all add: jfind_written [OF e] reference_keys_def split: option.split)
    have x: "collect_json_extensions ?j reference_keys = cr_extensions ref"
      unfolding j by (rule collect_append_extensions [OF _ e]) (simp_all add: reference_keys_def keys_sorted_Cons)
    show ?thesis using f x k None
      by (simp add: completion_reference_from_json_def reference_target_def reference_title_def jcontains_def
          nonempty_string_def wire_reference_def)
  next
    case (Some u)
    then have k: "cr_type ref = ''ref/resource''" "cr_title ref = ''''" using k by auto
    have j: "?j = append_json_extensions (jset (jset empty_object ''type'' (JString (cr_type ref)))
        ''uri'' (JString u)) (cr_extensions ref)"
      using Some k by (simp add: completion_reference_to_json_def nonempty_string_def jset_opt_def)
    have f: "is_object ?j" "jfind ?j ''type'' = Some (JString (cr_type ref))" "jfind ?j ''uri'' = Some (JString u)"
      "jfind ?j ''name'' = None" "jfind ?j ''title'' = None"
      unfolding j by (simp_all add: jfind_written [OF e] reference_keys_def)
    have x: "collect_json_extensions ?j reference_keys = cr_extensions ref"
      unfolding j by (rule collect_append_extensions [OF _ e]) (simp_all add: reference_keys_def keys_sorted_Cons)
    show ?thesis using f x k Some
      by (simp add: completion_reference_from_json_def reference_target_def reference_title_def jcontains_def
          wire_reference_def)
  qed
qed

lemma completion_argument_roundtrip:
  "ext_ok [''name'', ''value''] (ca_extensions a) \<Longrightarrow>
   completion_argument_from_json (completion_argument_to_json a) = Inr a"
  unfolding completion_argument_from_json_def completion_argument_to_json_def by (rule completion_argument.roundtrip)

text \<open>The raw context of params that are read is what the typed context writes, if there is one.\<close>

definition contexts_agree :: "complete_params \<Rightarrow> bool" where
  "contexts_agree p \<longleftrightarrow>
     (case cp_typed_context p of
        None \<Rightarrow> is_object (cp_context p) \<and> typed_context (cp_context p) = None
      | Some c \<Rightarrow> cc_arguments c \<notin> {None, Some []} \<and> cp_context p = completion_context_to_json c)"

definition complete_params_ok :: "complete_params \<Rightarrow> bool" where
  "complete_params_ok p \<longleftrightarrow>
     reference_ok (cp_ref p) \<and> ext_ok [''name'', ''value''] (ca_extensions (cp_argument p)) \<and> contexts_agree p \<and>
     object_meta_ok (cp_meta p) \<and> ext_ok complete_params_keys (cp_extensions p)"

lemma completion_context_written:
  "cc_arguments c \<notin> {None, Some []} \<Longrightarrow> jcontains (completion_context_to_json c) ''arguments''"
  "is_object (completion_context_to_json c)"
  by (auto simp: completion_context_to_json_def reflect_to_json_def completion_context_reflect_def jcontains_def
      field_def optional_trait_def string_map_trait_def)

lemma typed_context_written:
  assumes "cc_arguments c \<notin> {None, Some []}"
  shows "typed_context (completion_context_to_json c) = Some c"
proof -
  have "context_ok c" using assms by (simp add: context_ok_def)
  then show ?thesis
    using completion_context_written(1) [OF assms] completion_context.roundtrip [of c]
    by (simp add: typed_context_def completion_context_from_json_def completion_context_to_json_def)
qed

lemma complete_params_roundtrip:
  assumes "complete_params_ok p"
  shows "complete_params_from_json (complete_params_to_json p) = Inr (p\<lparr>cp_ref := wire_reference (cp_ref p)\<rparr>)"
proof -
  let ?j = "complete_params_to_json p"
  let ?c = "case cp_typed_context p of Some c \<Rightarrow> Some (completion_context_to_json c) | None \<Rightarrow> nonempty_json (cp_context p)"
  have ok: "completion_reference_from_json (completion_reference_to_json (cp_ref p)) = Inr (wire_reference (cp_ref p))"
    "completion_argument_from_json (completion_argument_to_json (cp_argument p)) = Inr (cp_argument p)"
    "object_meta_ok (cp_meta p)" and e: "ext_ok complete_params_keys (cp_extensions p)" and c: "contexts_agree p"
    using assms by (simp_all add: complete_params_ok_def completion_reference_roundtrip completion_argument_roundtrip)
  have f: "is_object ?j" "jfind ?j ''ref'' = Some (completion_reference_to_json (cp_ref p))"
    "jfind ?j ''argument'' = Some (completion_argument_to_json (cp_argument p))"
    "jfind ?j ''context'' = ?c" "jfind ?j ''_meta'' = cp_meta p"
    unfolding complete_params_to_json_def
    by (simp_all add: jfind_written [OF e] complete_params_keys_def split: option.split)
  have x: "collect_json_extensions ?j complete_params_keys = cp_extensions p"
    unfolding complete_params_to_json_def
    by (rule collect_append_extensions [OF _ e]) (simp_all add: complete_params_keys_def keys_sorted_Cons)
  have rd: "object_or_empty ?c = cp_context p"
    "(case ?c of None \<Rightarrow> None | Some x \<Rightarrow> typed_context x) = cp_typed_context p"
    "case ?c of None \<Rightarrow> True | Some x \<Rightarrow> is_object x"
    using c completion_context_written(2) typed_context_written
    by (cases "cp_typed_context p",
        auto simp: contexts_agree_def object_or_empty_def nonempty_json_def jempty_object split: if_splits)+
  show ?thesis using f x ok rd by (simp add: complete_params_from_json_def)
qed

definition result_values_ok :: "completion_result \<Rightarrow> bool" where
  "result_values_ok r \<longleftrightarrow> length (cpr_values r) \<le> kMaxValues \<and> (case cpr_total r of None \<Rightarrow> True | Some n \<Rightarrow> 0 \<le> sint n)"

lemma sint_int64_of_int32 [simp]: "sint (scast (i :: int32) :: int64) = sint i"
  by (rule sint_up_scast) (simp add: is_up)

lemma int32_back [simp]: "(scast (scast (i :: int32) :: int64) :: int32) = i"
  by (rule signed_word_eqI) (simp add: scast_down_scast_id [unfolded is_down] sint_up_scast)

lemma sint_narrowed:
  assumes "0 \<le> sint x" "sint x \<le> 2147483647"
  shows "sint (scast (x :: int64) :: int32) = sint x"
proof -
  have "sint (scast x :: int32) = signed_take_bit 31 (sint x)" by transfer simp
  then show ?thesis using assms by (simp add: signed_take_bit_int_eq_self)
qed

lemma map_result_length: "map_result f xs = Inr ys \<Longrightarrow> length ys = length xs"
  by (induction xs arbitrary: ys) (auto simp: rbind_eq_Inr)

lemma completion_total_written:
  assumes "jfind j ''total'' = map_option json_of_int32 t"
  shows "completion_total j =
    (if case t of None \<Rightarrow> True | Some n \<Rightarrow> 0 \<le> sint n then Inr t
     else Inl (completion_json_error ''completion total must be a non-negative integer''))"
proof (cases t)
  case (Some n)
  then show ?thesis using assms sint_greater_eq [of n] sint_less [of n] by (simp add: completion_total_def json_of_int32_def Let_def)
qed (use assms in \<open>simp add: completion_total_def\<close>)

lemma string_items_read:
  "map_result (\<lambda>item. case get_string item of None \<Rightarrow> Inl e | Some s \<Rightarrow> Inr s) (map JString xs) = Inr xs"
  by (induction xs) auto

lemma completion_result_roundtrip:
  assumes e: "ext_ok completion_result_keys (cpr_extensions r)"
  shows "completion_result_from_json (completion_result_to_json r) =
    (if length (cpr_values r) > kMaxValues then Inl (completion_json_error ''completion result has too many values'')
     else if \<not> result_values_ok r then Inl (completion_json_error ''completion total must be a non-negative integer'')
     else Inr r)"
proof -
  let ?j = "completion_result_to_json r"
  have f: "is_object ?j" "jfind ?j ''values'' = Some (JArray (map JString (cpr_values r)))"
    "jfind ?j ''total'' = map_option json_of_int32 (cpr_total r)" "jfind ?j ''hasMore'' = map_option JBool (cpr_has_more r)"
    unfolding completion_result_to_json_def
    by (simp_all add: jfind_written [OF e] completion_result_keys_def split: option.split)
  have x: "collect_json_extensions ?j completion_result_keys = cpr_extensions r"
    unfolding completion_result_to_json_def
    by (rule collect_append_extensions [OF _ e]) (simp_all add: completion_result_keys_def keys_sorted_Cons)
  have flag: "optional_member is_boolean ?j ''hasMore'' y = Inr (map_option JBool (cpr_has_more r))" for y
    using f(4) by (cases "cpr_has_more r") (simp_all add: optional_member_def)
  have undone: "map_option bool_of (map_option JBool (cpr_has_more r)) = cpr_has_more r"
    by (cases "cpr_has_more r") simp_all
  show ?thesis
    using f(1,2) x flag undone completion_total_written [OF f(3)]
    by (auto simp: completion_result_from_json_def completion_values_def string_items_read result_values_ok_def)
qed

lemma complete_result_roundtrip:
  assumes "object_meta_ok (cor_meta r)" and e: "ext_ok complete_result_keys (cor_extensions r)"
  shows "complete_result_from_json (complete_result_to_json r) =
    rbind (completion_result_from_json (completion_result_to_json (cor_completion r)))
      (\<lambda>c. Inr (r\<lparr>cor_completion := c\<rparr>))"
proof -
  let ?j = "complete_result_to_json r"
  have f: "is_object ?j" "jfind ?j ''completion'' = Some (completion_result_to_json (cor_completion r))"
    "jfind ?j ''_meta'' = cor_meta r"
    unfolding complete_result_to_json_def
    by (simp_all add: jfind_written [OF e] complete_result_keys_def split: option.split)
  have x: "collect_json_extensions ?j complete_result_keys = cor_extensions r"
    unfolding complete_result_to_json_def
    by (rule collect_append_extensions [OF _ e]) (simp_all add: complete_result_keys_def keys_sorted_Cons)
  show ?thesis
    using f x assms(1) by (simp add: complete_result_from_json_def split: rbind_split)
qed

section \<open>The exchange\<close>

text \<open>Completion params are read back as they were written, except that a resource reference loses
  the name which \<open>resource_completion_reference\<close> gives it. Results are read back exactly when they have
  at most a hundred values and no negative total: the writer does not enforce either bound, the reader
  refuses the result. Whatever is read satisfies both bounds.\<close>

theorem completion_exchange:
  assumes "complete_params_ok p" "object_meta_ok (cor_meta r)" "ext_ok complete_result_keys (cor_extensions r)"
    "ext_ok completion_result_keys (cpr_extensions (cor_completion r))"
  shows
    "complete_params_from_json (complete_params_to_json p) = Inr (p\<lparr>cp_ref := wire_reference (cp_ref p)\<rparr>) \<and>
     (complete_result_from_json (complete_result_to_json r) = Inr r \<longleftrightarrow> result_values_ok (cor_completion r)) \<and>
     (is_ok (complete_result_from_json (complete_result_to_json r)) \<longleftrightarrow> result_values_ok (cor_completion r)) \<and>
     (\<forall>j c. completion_result_from_json j = Inr c \<longrightarrow> result_values_ok c)"
proof -
  have total: "case t of None \<Rightarrow> True | Some n \<Rightarrow> 0 \<le> sint n" if "completion_total j = Inr t" for j t
    using that by (auto simp: completion_total_def Let_def sint_narrowed split: option.splits if_splits)
  have len: "length vs \<le> kMaxValues" if "completion_values j = Inr vs" for j vs
    using that by (auto simp: completion_values_def dest!: map_result_length split: option.splits json.splits if_splits)
  have "\<forall>j c. completion_result_from_json j = Inr c \<longrightarrow> result_values_ok c"
    by (auto simp: completion_result_from_json_def rbind_eq_Inr result_values_ok_def intro: len total split: if_splits)
  moreover have "result_values_ok (cor_completion r) \<Longrightarrow> \<not> kMaxValues < length (cpr_values (cor_completion r))"
    by (simp add: result_values_ok_def)
  ultimately show ?thesis
    using complete_params_roundtrip [OF assms(1)] complete_result_roundtrip [OF assms(2,3)]
      completion_result_roundtrip [OF assms(4)]
    by auto
qed

theorem completion_exchange_witness:
  "let ref = resource_completion_reference ''file:///{path}'';
       p = \<lparr>cp_ref = ref, cp_argument = \<lparr>ca_name = ''path'', ca_value = ''a'', ca_extensions = empty_object\<rparr>,
            cp_typed_context = None, cp_context = empty_object, cp_meta = None, cp_extensions = empty_object\<rparr>;
       r = \<lparr>cor_completion = \<lparr>cpr_values = [''abc''], cpr_total = Some (- 1), cpr_has_more = Some False,
              cpr_extensions = empty_object\<rparr>, cor_meta = None, cor_extensions = empty_object\<rparr>
   in complete_params_from_json (complete_params_to_json p) = Inr (p\<lparr>cp_ref := ref\<lparr>cr_name := ''''\<rparr>\<rparr>) \<and>
      \<not> is_ok (complete_result_from_json (complete_result_to_json r))"
proof -
  let ?p = "\<lparr>cp_ref = resource_completion_reference ''file:///{path}'',
      cp_argument = \<lparr>ca_name = ''path'', ca_value = ''a'', ca_extensions = empty_object\<rparr>,
      cp_typed_context = None, cp_context = empty_object, cp_meta = None, cp_extensions = empty_object\<rparr>"
  let ?r = "\<lparr>cor_completion = \<lparr>cpr_values = [''abc''], cpr_total = Some (- 1), cpr_has_more = Some False,
      cpr_extensions = empty_object\<rparr>, cor_meta = None, cor_extensions = empty_object\<rparr>"
  have "complete_params_ok ?p"
    by (simp add: complete_params_ok_def reference_ok_def resource_completion_reference_def contexts_agree_def
        typed_context_def jcontains_def object_meta_ok_def)
  from completion_exchange [OF this, of ?r] show ?thesis
    by (simp add: object_meta_ok_def result_values_ok_def wire_reference_def resource_completion_reference_def)
qed

end
