(* ===== verification/Sampling_Protocol.thy ===== *)
theory Sampling_Protocol
  imports Completion_Protocol Content_Protocol "HOL-Library.Multiset"
begin

text \<open>
  src/sdk/protocol/include/cxxmcp/protocol/sampling.hpp: the params and the result of
  \<open>sampling/createMessage\<close>, with tool uses and tool results inside messages. Two checks go beyond the
  shape of the documents: which role may say what, and that every tool use is answered by a later
  tool result.
\<close>

section \<open>Data\<close>

datatype context_inclusion = AllServers | NoServers | ThisServer

datatype role = User | Assistant

fun role_to_string :: "role \<Rightarrow> string" where
  "role_to_string User = ''user''"
| "role_to_string Assistant = ''assistant''"

definition from_string_role :: "string \<Rightarrow> role option" where
  "from_string_role s =
     (if s = ''user'' then Some User else if s = ''assistant'' then Some Assistant else None)"

datatype tool_choice_mode = ToolAuto | ToolRequired | ToolNone

record tool_choice =
  tch_mode :: "tool_choice_mode option"
  tch_extensions :: json

record tool_use_content =
  tu_id :: string
  tu_name :: string
  tu_input :: json
  tu_meta :: "json option"
  tu_extensions :: json

record tool_result_content =
  trc_tool_use_id :: string
  trc_content :: "content_block list"
  trc_structured_content :: "json option"
  trc_is_error :: "bool option"
  trc_meta :: "json option"
  trc_extensions :: json

record sampling_message_content =
  smc_content :: content_block
  smc_tool_use :: "tool_use_content option"
  smc_tool_result :: "tool_result_content option"

definition from_content :: "content_block \<Rightarrow> sampling_message_content" where
  "from_content b = \<lparr>smc_content = b, smc_tool_use = None, smc_tool_result = None\<rparr>"

definition tool_use_item :: "tool_use_content \<Rightarrow> sampling_message_content" where
  "tool_use_item u =
     \<lparr>smc_content = (text_content '''')\<lparr>cb_type := ''tool_use''\<rparr>, smc_tool_use = Some u, smc_tool_result = None\<rparr>"

definition tool_result_item :: "tool_result_content \<Rightarrow> sampling_message_content" where
  "tool_result_item r =
     \<lparr>smc_content = (text_content '''')\<lparr>cb_type := ''tool_result''\<rparr>, smc_tool_use = None, smc_tool_result = Some r\<rparr>"

definition is_tool_use :: "sampling_message_content \<Rightarrow> bool" where
  "is_tool_use c \<longleftrightarrow> smc_tool_use c \<noteq> None"

definition is_tool_result :: "sampling_message_content \<Rightarrow> bool" where
  "is_tool_result c \<longleftrightarrow> smc_tool_result c \<noteq> None"

record sampling_message =
  sm_role :: string
  sm_content :: content_block
  sm_contents :: "sampling_message_content list"
  sm_meta :: "json option"
  sm_extensions :: json

definition sampling_text :: "string \<Rightarrow> string \<Rightarrow> sampling_message" where
  "sampling_text role s =
     \<lparr>sm_role = role, sm_content = text_content s, sm_contents = [], sm_meta = None, sm_extensions = empty_object\<rparr>"

record model_hint =
  mh_name :: string
  mh_extensions :: json

definition model_hint_reflect :: "model_hint reflect" where
  "model_hint_reflect =
     \<lparr>rf_default = \<lparr>mh_name = '''', mh_extensions = empty_object\<rparr>,
      rf_fields = [field string_trait ''name'' mh_name (\<lambda>v s. s\<lparr>mh_name := v\<rparr>), ExtensionsField mh_extensions],
      rf_extensions = Some (mh_extensions, \<lambda>v s. s\<lparr>mh_extensions := v\<rparr>),
      rf_known_keys = [''name'']\<rparr>"

record model_preferences =
  mp_hints :: "model_hint list"
  mp_cost_priority :: "64 word option"
  mp_speed_priority :: "64 word option"
  mp_intelligence_priority :: "64 word option"
  mp_extensions :: json

record create_message_params =
  cmp_messages :: "sampling_message list"
  cmp_model_preferences :: "model_preferences option"
  cmp_system_prompt :: "string option"
  cmp_include_context :: "string option"
  cmp_temperature :: "64 word option"
  cmp_max_tokens :: int32
  cmp_stop_sequences :: "string list"
  cmp_metadata :: json
  cmp_task :: "task_request_parameters option"
  cmp_meta :: "json option"
  cmp_tools :: "tool_definition list"
  cmp_tool_choice :: "tool_choice option"
  cmp_extensions :: json

record create_message_result =
  cmr_role :: string
  cmr_content :: content_block
  cmr_contents :: "sampling_message_content list"
  cmr_model :: string
  cmr_stop_reason :: string
  cmr_meta :: "json option"
  cmr_extensions :: json

definition sampling_json_error :: "string \<Rightarrow> core_error" where
  "sampling_json_error msg = mk_error (error_code InvalidRequest) msg '''' ''''"

definition sampling_role_is_valid :: "string \<Rightarrow> bool" where
  "sampling_role_is_valid s \<longleftrightarrow> from_string_role s \<noteq> None"

fun context_inclusion_to_string :: "context_inclusion \<Rightarrow> string" where
  "context_inclusion_to_string AllServers = ''allServers''"
| "context_inclusion_to_string NoServers = ''none''"
| "context_inclusion_to_string ThisServer = ''thisServer''"

definition context_inclusion_from_string :: "string \<Rightarrow> context_inclusion option" where
  "context_inclusion_from_string s =
     (if s = ''allServers'' then Some AllServers else if s = ''none'' then Some NoServers
      else if s = ''thisServer'' then Some ThisServer else None)"

definition sampling_include_context_is_valid :: "string \<Rightarrow> bool" where
  "sampling_include_context_is_valid s \<longleftrightarrow> context_inclusion_from_string s \<noteq> None"

section \<open>The two checks\<close>

definition use_outside_assistant :: core_error where
  "use_outside_assistant = sampling_json_error ''sampling tool_use content is only allowed in assistant messages''"

definition result_outside_user :: core_error where
  "result_outside_user = sampling_json_error ''sampling tool_result content is only allowed in user messages''"

definition mixed_results :: core_error where
  "mixed_results = sampling_json_error ''sampling tool_result messages must not mix other content types''"

fun content_roles_loop :: "string \<Rightarrow> bool \<Rightarrow> bool \<Rightarrow> sampling_message_content list \<Rightarrow> unit result" where
  "content_roles_loop role has_tool_result has_non_tool_result [] =
     (if has_tool_result \<and> has_non_tool_result then Inl mixed_results else Inr ())"
| "content_roles_loop role has_tool_result has_non_tool_result (c # cs) =
     (if is_tool_use c \<and> role \<noteq> ''assistant'' then Inl use_outside_assistant
      else if is_tool_result c \<and> role \<noteq> ''user'' then Inl result_outside_user
      else content_roles_loop role (has_tool_result \<or> is_tool_result c) (has_non_tool_result \<or> \<not> is_tool_result c) cs)"

definition validate_sampling_message_content_roles :: "sampling_message \<Rightarrow> unit result" where
  "validate_sampling_message_content_roles m = content_roles_loop (sm_role m) False False (sm_contents m)"

definition no_matching_use :: core_error where
  "no_matching_use = sampling_json_error ''sampling tool_result content has no matching tool_use''"

definition missing_result :: core_error where
  "missing_result = sampling_json_error ''sampling tool_use content is missing a matching tool_result''"

fun uses_of :: "sampling_message_content list \<Rightarrow> string list" where
  "uses_of [] = []"
| "uses_of (c # cs) = (case smc_tool_use c of None \<Rightarrow> uses_of cs | Some u \<Rightarrow> tu_id u # uses_of cs)"

fun answer_uses :: "string list \<Rightarrow> sampling_message_content list \<Rightarrow> string list result" where
  "answer_uses pending [] = Inr pending"
| "answer_uses pending (c # cs) =
     (case smc_tool_result c of
        None \<Rightarrow> answer_uses pending cs
      | Some r \<Rightarrow>
          if trc_tool_use_id r \<notin> set pending then Inl no_matching_use
          else answer_uses (remove1 (trc_tool_use_id r) pending) cs)"

fun balance_loop :: "string list \<Rightarrow> sampling_message list \<Rightarrow> string list result" where
  "balance_loop pending [] = Inr pending"
| "balance_loop pending (m # ms) =
     (if sm_role m = ''assistant'' then balance_loop (pending @ uses_of (sm_contents m)) ms
      else if sm_role m \<noteq> ''user'' then balance_loop pending ms
      else rbind (answer_uses pending (sm_contents m)) (\<lambda>pending. balance_loop pending ms))"

definition validate_sampling_tool_use_result_balance :: "sampling_message list \<Rightarrow> unit result" where
  "validate_sampling_tool_use_result_balance ms =
     rbind (balance_loop [] ms) (\<lambda>pending. if pending \<noteq> [] then Inl missing_result else Inr ())"

section \<open>Tool choice\<close>

fun tool_choice_mode_to_string :: "tool_choice_mode \<Rightarrow> string" where
  "tool_choice_mode_to_string ToolAuto = ''auto''"
| "tool_choice_mode_to_string ToolRequired = ''required''"
| "tool_choice_mode_to_string ToolNone = ''none''"

definition tool_choice_mode_from_string :: "string \<Rightarrow> tool_choice_mode option" where
  "tool_choice_mode_from_string s =
     (if s = ''auto'' then Some ToolAuto else if s = ''required'' then Some ToolRequired
      else if s = ''none'' then Some ToolNone else None)"

definition tool_choice_to_json :: "tool_choice \<Rightarrow> json" where
  "tool_choice_to_json c =
     append_json_extensions
       (jset_opt empty_object ''mode'' (map_option (\<lambda>m. JString (tool_choice_mode_to_string m)) (tch_mode c)))
       (tch_extensions c)"

definition tool_choice_from_json :: "json \<Rightarrow> tool_choice result" where
  "tool_choice_from_json j =
     (if \<not> is_object j then Inl (sampling_json_error ''toolChoice must be an object'')
      else
        rbind (optional_member is_string j ''mode'' (sampling_json_error ''toolChoice mode must be a string'')) (\<lambda>v.
        rbind (case v of
                 None \<Rightarrow> Inr None
               | Some s \<Rightarrow>
                   (case tool_choice_mode_from_string (string_of s) of
                      None \<Rightarrow> Inl (sampling_json_error ''toolChoice mode is not supported'')
                    | Some m \<Rightarrow> Inr (Some m))) (\<lambda>mode.
          Inr \<lparr>tch_mode = mode, tch_extensions = collect_json_extensions j [''mode'']\<rparr>)))"

section \<open>Content items\<close>

definition nonempty_array :: "('a \<Rightarrow> json) \<Rightarrow> 'a list \<Rightarrow> json option" where
  "nonempty_array f xs = (if xs = [] then None else Some (JArray (map f xs)))"


definition tool_use_keys :: "string list" where
  "tool_use_keys = [''type'', ''id'', ''name'', ''input'', ''_meta'']"

definition tool_use_content_to_json :: "tool_use_content \<Rightarrow> json" where
  "tool_use_content_to_json u =
     append_json_extensions
       (jset_opt (jset (jset (jset (jset empty_object ''type'' (JString ''tool_use''))
          ''id'' (JString (tu_id u))) ''name'' (JString (tu_name u))) ''input'' (tu_input u)) ''_meta'' (tu_meta u))
       (tu_extensions u)"

definition tool_use_content_from_json :: "json \<Rightarrow> tool_use_content result" where
  "tool_use_content_from_json j =
     (let err = (\<lambda>msg. sampling_json_error (''tool_use content '' @ msg)) in
      if \<not> is_object j then Inl (err ''must be an object'')
      else
        rbind (required_member is_string j ''id'' (err ''requires a string id'')) (\<lambda>i.
        rbind (required_member is_string j ''name'' (err ''requires a string name'')) (\<lambda>name.
        rbind (required_member is_object j ''input'' (err ''requires object input'')) (\<lambda>input.
        rbind (optional_member is_object j ''_meta'' (err ''_meta must be an object'')) (\<lambda>meta.
          Inr \<lparr>tu_id = string_of i, tu_name = string_of name, tu_input = input, tu_meta = meta,
               tu_extensions = collect_json_extensions j tool_use_keys\<rparr>)))))"

definition tool_result_content_keys :: "string list" where
  "tool_result_content_keys = [''type'', ''toolUseId'', ''content'', ''structuredContent'', ''isError'', ''_meta'']"

definition tool_result_content_to_json :: "tool_result_content \<Rightarrow> json" where
  "tool_result_content_to_json r =
     append_json_extensions
       (jset_opt (jset_opt (jset_opt (jset_opt (jset (jset empty_object ''type'' (JString ''tool_result''))
          ''toolUseId'' (JString (trc_tool_use_id r)))
          ''content'' (nonempty_array content_block_to_json (trc_content r)))
          ''structuredContent'' (trc_structured_content r))
          ''isError'' (map_option JBool (trc_is_error r)))
          ''_meta'' (trc_meta r))
       (trc_extensions r)"

definition tool_result_content_from_json :: "json \<Rightarrow> tool_result_content result" where
  "tool_result_content_from_json j =
     (let err = (\<lambda>msg. sampling_json_error (''tool_result '' @ msg)) in
      if \<not> is_object j then Inl (err ''content must be an object'')
      else
        rbind (required_member is_string j ''toolUseId'' (err ''content requires toolUseId'')) (\<lambda>i.
        rbind (array_member j ''content'' content_block_from_json (err ''content must be an array'')) (\<lambda>content.
        rbind (optional_member is_object j ''structuredContent'' (err ''structuredContent must be an object'')) (\<lambda>s.
        rbind (optional_member is_boolean j ''isError'' (err ''isError must be a boolean'')) (\<lambda>is_error.
        rbind (optional_member is_object j ''_meta'' (err ''_meta must be an object'')) (\<lambda>meta.
          Inr \<lparr>trc_tool_use_id = string_of i, trc_content = content, trc_structured_content = s,
               trc_is_error = map_option bool_of is_error, trc_meta = meta,
               trc_extensions = collect_json_extensions j tool_result_content_keys\<rparr>))))))"

definition sampling_message_content_to_json :: "sampling_message_content \<Rightarrow> json" where
  "sampling_message_content_to_json c =
     (case smc_tool_use c of
        Some u \<Rightarrow> tool_use_content_to_json u
      | None \<Rightarrow>
          (case smc_tool_result c of
             Some r \<Rightarrow> tool_result_content_to_json r
           | None \<Rightarrow> content_block_to_json (smc_content c)))"

definition plain_item :: "json \<Rightarrow> sampling_message_content result" where
  "plain_item j =
     rbind (content_block_from_json j) (\<lambda>b.
       if cb_type b = ''resource'' \<or> cb_type b = ''resource_link''
       then Inl (sampling_json_error ''sampling message content does not support resource content'')
       else Inr (from_content b))"

definition sampling_message_content_from_json :: "json \<Rightarrow> sampling_message_content result" where
  "sampling_message_content_from_json j =
     (case jfind j ''type'' of
        Some (JString t) \<Rightarrow>
          if t = ''tool_use'' then rbind (tool_use_content_from_json j) (\<lambda>u. Inr (tool_use_item u))
          else if t = ''tool_result'' then rbind (tool_result_content_from_json j) (\<lambda>r. Inr (tool_result_item r))
          else plain_item j
      | _ \<Rightarrow> plain_item j)"

text \<open>The \<open>content\<close> member of a message or of a result: one item is written without the array.\<close>

definition contents_member :: "content_block \<Rightarrow> sampling_message_content list \<Rightarrow> json" where
  "contents_member b cs =
     (case cs of
        [] \<Rightarrow> content_block_to_json b
      | [c] \<Rightarrow> sampling_message_content_to_json c
      | _ \<Rightarrow> JArray (map sampling_message_content_to_json cs))"

definition read_contents :: "json \<Rightarrow> sampling_message_content list result" where
  "read_contents v =
     (case v of
        JArray items \<Rightarrow> map_result sampling_message_content_from_json items
      | _ \<Rightarrow> rbind (sampling_message_content_from_json v) (\<lambda>c. Inr [c]))"

definition first_content :: "sampling_message_content list \<Rightarrow> content_block" where
  "first_content cs = (case cs of [] \<Rightarrow> text_content '''' | c # _ \<Rightarrow> smc_content c)"

section \<open>Messages\<close>

definition sampling_message_to_json :: "sampling_message \<Rightarrow> json" where
  "sampling_message_to_json m =
     append_json_extensions
       (jset_opt (jset (JObject [(''role'', JString (sm_role m))])
          ''content'' (contents_member (sm_content m) (sm_contents m)))
          ''_meta'' (sm_meta m))
       (sm_extensions m)"

definition sampling_message_from_json :: "json \<Rightarrow> sampling_message result" where
  "sampling_message_from_json j =
     (let err = (\<lambda>msg. sampling_json_error (''sampling message '' @ msg)) in
      if \<not> is_object j then Inl (err ''must be an object'')
      else
        rbind (required_member is_string j ''role'' (err ''requires a string role'')) (\<lambda>role.
        rbind (required_member (\<lambda>_. True) j ''content'' (err ''requires content'')) (\<lambda>v.
          if \<not> sampling_role_is_valid (string_of role) then Inl (err ''role is not supported'')
          else
            rbind (read_contents v) (\<lambda>cs.
            rbind (optional_member is_object j ''_meta'' (err ''_meta must be an object'')) (\<lambda>meta.
              let m = \<lparr>sm_role = string_of role, sm_content = first_content cs, sm_contents = cs, sm_meta = meta,
                       sm_extensions = collect_json_extensions j message_known_keys\<rparr>
              in rbind (validate_sampling_message_content_roles m) (\<lambda>_. Inr m))))))"

section \<open>Preferences\<close>

definition model_hint_to_json :: "model_hint \<Rightarrow> json" where
  "model_hint_to_json = reflect_to_json model_hint_reflect"

definition model_hint_from_json :: "json \<Rightarrow> model_hint result" where
  "model_hint_from_json = reflect_from_json model_hint_reflect"

definition model_preferences_keys :: "string list" where
  "model_preferences_keys = [''hints'', ''costPriority'', ''speedPriority'', ''intelligencePriority'']"

definition model_preferences_to_json :: "model_preferences \<Rightarrow> json" where
  "model_preferences_to_json p =
     append_json_extensions
       (jset_opt (jset_opt (jset_opt (jset_opt empty_object
          ''hints'' (nonempty_array model_hint_to_json (mp_hints p)))
          ''costPriority'' (map_option JFloat (mp_cost_priority p)))
          ''speedPriority'' (map_option JFloat (mp_speed_priority p)))
          ''intelligencePriority'' (map_option JFloat (mp_intelligence_priority p)))
       (mp_extensions p)"

definition finite_member :: "json \<Rightarrow> string \<Rightarrow> string \<Rightarrow> (64 word) option result" where
  "finite_member j k what =
     (case jfind j k of
        None \<Rightarrow> Inr None
      | Some v \<Rightarrow>
          (case get_double v of
             None \<Rightarrow> Inl (sampling_json_error (what @ '' must be a number''))
           | Some d \<Rightarrow>
               if \<not> double_is_finite d then Inl (sampling_json_error (what @ '' must be finite''))
               else Inr (Some d)))"

definition read_priority :: "json \<Rightarrow> string \<Rightarrow> (64 word) option result" where
  "read_priority j k = finite_member j k (''model preferences '' @ k)"

definition model_preferences_from_json :: "json \<Rightarrow> model_preferences result" where
  "model_preferences_from_json j =
     (if \<not> is_object j then Inl (sampling_json_error ''model preferences must be an object'')
      else
        rbind (array_member j ''hints'' model_hint_from_json
                 (sampling_json_error ''model preferences hints must be an array'')) (\<lambda>hints.
        rbind (read_priority j ''costPriority'') (\<lambda>cost.
        rbind (read_priority j ''speedPriority'') (\<lambda>speed.
        rbind (read_priority j ''intelligencePriority'') (\<lambda>intelligence.
          Inr \<lparr>mp_hints = hints, mp_cost_priority = cost, mp_speed_priority = speed,
               mp_intelligence_priority = intelligence,
               mp_extensions = collect_json_extensions j model_preferences_keys\<rparr>)))))"

section \<open>Params\<close>

definition create_message_params_keys :: "string list" where
  "create_message_params_keys = [''messages'', ''modelPreferences'', ''systemPrompt'', ''includeContext'',
     ''temperature'', ''maxTokens'', ''stopSequences'', ''metadata'', ''task'', ''_meta'', ''tools'', ''toolChoice'']"

definition create_message_params_to_json :: "create_message_params \<Rightarrow> json" where
  "create_message_params_to_json p =
     append_json_extensions
       (jset_opt (jset_opt (jset_opt (jset_opt (jset_opt (jset_opt (jset (jset_opt (jset_opt (jset_opt (jset_opt
          (jset empty_object ''messages'' (JArray (map sampling_message_to_json (cmp_messages p))))
          ''modelPreferences'' (map_option model_preferences_to_json (cmp_model_preferences p)))
          ''systemPrompt'' (map_option JString (cmp_system_prompt p)))
          ''includeContext'' (map_option JString (cmp_include_context p)))
          ''temperature'' (map_option JFloat (cmp_temperature p)))
          ''maxTokens'' (json_of_int32 (cmp_max_tokens p)))
          ''stopSequences'' (nonempty_array JString (cmp_stop_sequences p)))
          ''metadata'' (nonempty_json (cmp_metadata p)))
          ''task'' (map_option task_request_parameters_to_json (cmp_task p)))
          ''_meta'' (cmp_meta p))
          ''tools'' (nonempty_array tool_definition_to_json (cmp_tools p)))
          ''toolChoice'' (map_option tool_choice_to_json (cmp_tool_choice p)))
       (cmp_extensions p)"

definition read_optional :: "json \<Rightarrow> string \<Rightarrow> (json \<Rightarrow> 'a result) \<Rightarrow> 'a option result" where
  "read_optional j k f =
     (case jfind j k of None \<Rightarrow> Inr None | Some v \<Rightarrow> rbind (f v) (\<lambda>x. Inr (Some x)))"

definition include_context_member :: "json \<Rightarrow> string option result" where
  "include_context_member j =
     rbind (optional_member is_string j ''includeContext''
              (sampling_json_error ''sampling includeContext must be a string'')) (\<lambda>v.
       case v of
         None \<Rightarrow> Inr None
       | Some s \<Rightarrow>
           if \<not> sampling_include_context_is_valid (string_of s)
           then Inl (sampling_json_error ''sampling includeContext is not supported'')
           else Inr (Some (string_of s)))"

definition stop_sequence :: "json \<Rightarrow> string result" where
  "stop_sequence item =
     (case get_string item of
        None \<Rightarrow> Inl (sampling_json_error ''sampling stopSequences must contain strings'')
      | Some s \<Rightarrow> Inr s)"

fun the_items :: "json \<Rightarrow> json list" where
  "the_items (JArray items) = items"
| "the_items _ = []"

definition low_int :: "json \<Rightarrow> int32" where
  "low_int v = (case get_int v of None \<Rightarrow> 0 | Some n \<Rightarrow> n)"

definition create_message_params_from_json :: "json \<Rightarrow> create_message_params result" where
  "create_message_params_from_json j =
     (let err = sampling_json_error in
      if \<not> is_object j then Inl (err ''sampling/createMessage params must be an object'')
      else
        rbind (required_member is_array j ''messages''
                 (err ''sampling/createMessage params require a messages array'')) (\<lambda>items.
        rbind (required_member is_number_integer j ''maxTokens''
                 (err ''sampling/createMessage params require integer maxTokens'')) (\<lambda>max_tokens.
        rbind (map_result sampling_message_from_json (the_items items)) (\<lambda>messages.
        rbind (read_optional j ''modelPreferences'' model_preferences_from_json) (\<lambda>preferences.
        rbind (optional_member is_string j ''systemPrompt'' (err ''sampling systemPrompt must be a string'')) (\<lambda>prompt.
        rbind (include_context_member j) (\<lambda>include.
        rbind (finite_member j ''temperature'' ''sampling temperature'') (\<lambda>temperature.
        rbind (array_member j ''stopSequences'' stop_sequence (err ''sampling stopSequences must be an array'')) (\<lambda>stops.
        rbind (optional_member is_object j ''metadata'' (err ''sampling metadata must be an object'')) (\<lambda>metadata.
        rbind (task_member j) (\<lambda>task.
        rbind (optional_member is_object j ''_meta'' (err ''sampling/createMessage _meta must be an object'')) (\<lambda>meta.
        rbind (array_member j ''tools'' tool_definition_from_json (err ''sampling tools must be an array'')) (\<lambda>tools.
        rbind (read_optional j ''toolChoice'' tool_choice_from_json) (\<lambda>choice.
        rbind (validate_sampling_tool_use_result_balance messages) (\<lambda>_.
          Inr \<lparr>cmp_messages = messages, cmp_model_preferences = preferences,
               cmp_system_prompt = map_option string_of prompt, cmp_include_context = include,
               cmp_temperature = temperature, cmp_max_tokens = low_int max_tokens, cmp_stop_sequences = stops,
               cmp_metadata = object_or_empty metadata, cmp_task = task, cmp_meta = meta, cmp_tools = tools,
               cmp_tool_choice = choice,
               cmp_extensions = collect_json_extensions j create_message_params_keys\<rparr>)))))))))))))))"

section \<open>Results\<close>

definition create_message_result_keys :: "string list" where
  "create_message_result_keys = [''role'', ''content'', ''model'', ''stopReason'', ''_meta'']"

definition create_message_result_to_json :: "create_message_result \<Rightarrow> json" where
  "create_message_result_to_json r =
     append_json_extensions
       (jset_opt (jset_opt (jset (jset (jset empty_object ''role'' (JString (cmr_role r)))
          ''content'' (contents_member (cmr_content r) (cmr_contents r)))
          ''model'' (JString (cmr_model r)))
          ''stopReason'' (nonempty_string (cmr_stop_reason r)))
          ''_meta'' (cmr_meta r))
       (cmr_extensions r)"

definition create_message_result_from_json :: "json \<Rightarrow> create_message_result result" where
  "create_message_result_from_json j =
     (let err = (\<lambda>msg. sampling_json_error (''sampling/createMessage result '' @ msg)) in
      if \<not> is_object j then Inl (err ''must be an object'')
      else
        rbind (required_member is_string j ''role'' (err ''requires a string role'')) (\<lambda>role.
        rbind (required_member (\<lambda>_. True) j ''content'' (err ''requires content'')) (\<lambda>v.
        rbind (required_member is_string j ''model'' (err ''requires a string model'')) (\<lambda>model.
          if string_of role \<noteq> ''assistant'' then Inl (err ''role must be assistant'')
          else
            rbind (read_contents v) (\<lambda>cs.
            rbind (optional_member is_string j ''stopReason''
                     (sampling_json_error ''sampling stopReason must be a string'')) (\<lambda>stop.
            rbind (optional_member is_object j ''_meta'' (err ''_meta must be an object'')) (\<lambda>meta.
            rbind (content_roles_loop (string_of role) False False cs) (\<lambda>_.
              Inr \<lparr>cmr_role = string_of role, cmr_content = first_content cs, cmr_contents = cs,
                   cmr_model = string_of model, cmr_stop_reason = string_or_empty stop, cmr_meta = meta,
                   cmr_extensions = collect_json_extensions j create_message_result_keys\<rparr>))))))))"

section \<open>What the checks mean\<close>

text \<open>
  The tool traffic of a conversation in order, and when it is balanced: at no point has an id been
  answered more often than it has been used, and in the end the numbers agree.
\<close>

datatype tool_event = Used string | Answered string

fun results_of :: "sampling_message_content list \<Rightarrow> string list" where
  "results_of [] = []"
| "results_of (c # cs) =
     (case smc_tool_result c of None \<Rightarrow> results_of cs | Some r \<Rightarrow> trc_tool_use_id r # results_of cs)"

definition tool_events :: "sampling_message \<Rightarrow> tool_event list" where
  "tool_events m =
     (if sm_role m = ''assistant'' then map Used (uses_of (sm_contents m))
      else if sm_role m = ''user'' then map Answered (results_of (sm_contents m)) else [])"

definition balanced :: "tool_event list \<Rightarrow> bool" where
  "balanced es \<longleftrightarrow>
     (\<forall>k i. count_list (take k es) (Answered i) \<le> count_list (take k es) (Used i)) \<and>
     (\<forall>i. count_list es (Answered i) = count_list es (Used i))"

definition well_placed :: "sampling_message \<Rightarrow> bool" where
  "well_placed m \<longleftrightarrow>
     (\<forall>c\<in>set (sm_contents m). (is_tool_use c \<longrightarrow> sm_role m = ''assistant'') \<and>
                               (is_tool_result c \<longrightarrow> sm_role m = ''user'')) \<and>
     ((\<exists>c\<in>set (sm_contents m). is_tool_result c) \<longrightarrow> (\<forall>c\<in>set (sm_contents m). is_tool_result c))"

fun pending_after :: "string list \<Rightarrow> tool_event list \<Rightarrow> string list result" where
  "pending_after p [] = Inr p"
| "pending_after p (Used i # es) = pending_after (p @ [i]) es"
| "pending_after p (Answered i # es) =
     (if i \<notin> set p then Inl no_matching_use else pending_after (remove1 i p) es)"

lemma pending_after_append:
  "pending_after p (es @ fs) = rbind (pending_after p es) (\<lambda>q. pending_after q fs)"
  by (induction p es rule: pending_after.induct) auto

lemma pending_after_uses: "pending_after p (map Used is) = Inr (p @ is)"
  by (induction "is" arbitrary: p) auto

lemma pending_after_results: "pending_after p (map Answered (results_of cs)) = answer_uses p cs"
  by (induction p cs rule: answer_uses.induct) (auto split: option.split)

lemma balance_loop_events: "balance_loop p ms = pending_after p (concat (map tool_events ms))"
proof (induction ms arbitrary: p)
  case (Cons m ms)
  then show ?case
    by (simp add: tool_events_def pending_after_append pending_after_uses pending_after_results)
qed simp

lemma count_list_remove1: "count_list (remove1 i p) j = count_list p j - (if i = j then 1 else 0)"
proof (induction p)
  case (Cons x p)
  then show ?case using count_list_0_iff [of p j] by (cases "j \<in> set p") auto
qed simp

lemma all_prefixes: "(\<forall>k. P (take k (e # es))) \<longleftrightarrow> P [] \<and> (\<forall>k. P (e # take k es))"
  by (metis nat.exhaust take0 take_Suc_Cons)

lemma pending_after_defined:
  "is_ok (pending_after p es) \<longleftrightarrow>
   (\<forall>k i. count_list (take k es) (Answered i) \<le> count_list p i + count_list (take k es) (Used i))"
proof (induction p es rule: pending_after.induct)
  case (2 p i es)
  then show ?case
    by (subst all_prefixes) (auto simp: add.commute add.left_commute)
next
  case (3 p i es)
  show ?case
  proof (cases "i \<in> set p")
    case True
    then have "0 < count_list p i" by (simp add: count_list_0_iff neq0_conv [symmetric] del: neq0_conv)
    then have "x \<le> count_list (remove1 i p) j + y \<longleftrightarrow> (if i = j then Suc x else x) \<le> count_list p j + y" for j x y
      by (auto simp: count_list_remove1)
    then show ?thesis using 3 True by (subst all_prefixes) simp
  next
    case False
    then have "count_list p i = 0" by (simp add: count_list_0_iff)
    then have "\<not> count_list (take 1 (Answered i # es)) (Answered i) \<le> count_list p i + count_list (take 1 (Answered i # es)) (Used i)"
      by simp
    then show ?thesis using False by (metis is_ok_simps(1) pending_after.simps(3))
  qed
qed simp

lemma pending_after_count:
  "pending_after p es = Inr q \<Longrightarrow>
   count_list q i + count_list es (Answered i) = count_list p i + count_list es (Used i)"
proof (induction p es rule: pending_after.induct)
  case (3 p j es)
  then have "j \<in> set p" "0 < count_list p j"
    by (auto simp: count_list_0_iff neq0_conv [symmetric] simp del: neq0_conv split: if_splits)
  then show ?case using 3 by (auto simp: count_list_remove1 split: if_splits)
qed auto

lemma validate_balance_iff:
  "validate_sampling_tool_use_result_balance ms = Inr () \<longleftrightarrow> balanced (concat (map tool_events ms))"
proof -
  let ?es = "concat (map tool_events ms)"
  show ?thesis
  proof (cases "pending_after [] ?es")
    case (Inl e)
    then have "\<not> (\<forall>k i. count_list (take k ?es) (Answered i) \<le> count_list (take k ?es) (Used i))"
      using pending_after_defined [of "[]" ?es] by simp
    then show ?thesis
      using Inl by (auto simp: validate_sampling_tool_use_result_balance_def balance_loop_events balanced_def)
  next
    case (Inr q)
    have "\<forall>k i. count_list (take k ?es) (Answered i) \<le> count_list (take k ?es) (Used i)"
      using pending_after_defined [of "[]" ?es] Inr by simp
    moreover have "q = [] \<longleftrightarrow> (\<forall>i. count_list q i = 0)" by (cases q) (auto simp: count_list_0_iff)
    moreover have "count_list q i + count_list ?es (Answered i) = count_list ?es (Used i)" for i
      using pending_after_count [OF Inr, of i] by simp
    then have "count_list q i = 0 \<longleftrightarrow> count_list ?es (Answered i) = count_list ?es (Used i)" for i
      by (metis add_cancel_left_left)
    ultimately show ?thesis
      using Inr by (simp add: validate_sampling_tool_use_result_balance_def balance_loop_events balanced_def)
  qed
qed

lemma content_roles_iff:
  "content_roles_loop role a b cs = Inr () \<longleftrightarrow>
   (\<forall>c\<in>set cs. (is_tool_use c \<longrightarrow> role = ''assistant'') \<and> (is_tool_result c \<longrightarrow> role = ''user'')) \<and>
   \<not> ((a \<or> (\<exists>c\<in>set cs. is_tool_result c)) \<and> (b \<or> (\<exists>c\<in>set cs. \<not> is_tool_result c)))"
  by (induction cs arbitrary: a b) auto

lemma validate_roles_iff: "validate_sampling_message_content_roles m = Inr () \<longleftrightarrow> well_placed m"
  unfolding validate_sampling_message_content_roles_def content_roles_iff well_placed_def by blast


text \<open>The two loops over sampling messages decide what they are meant to: a message passes exactly
  when tool uses occur only in assistant messages, tool results only in user messages, and results are
  not mixed with other content; a conversation passes exactly when every tool result answers an
  earlier, still unanswered tool use with the same id and no tool use is left unanswered.\<close>

theorem sampling_checks_exact:
  "(validate_sampling_message_content_roles m = Inr () \<longleftrightarrow> well_placed m) \<and>
   (validate_sampling_tool_use_result_balance ms = Inr () \<longleftrightarrow> balanced (concat (map tool_events ms)))"
  using validate_roles_iff validate_balance_iff by (rule conjI)

section \<open>What is read has the right type\<close>

definition item_typed :: "sampling_message_content \<Rightarrow> bool" where
  "item_typed c \<longleftrightarrow>
     (\<exists>u. c = tool_use_item u \<and> is_object (tu_input u)) \<or> (\<exists>r. c = tool_result_item r) \<or>
     (\<exists>b. c = from_content b \<and> cb_type b \<in> {''text'', ''image'', ''audio''})"

definition message_typed :: "sampling_message \<Rightarrow> bool" where
  "message_typed m \<longleftrightarrow>
     sm_role m \<in> {''user'', ''assistant''} \<and> (\<forall>c\<in>set (sm_contents m). item_typed c) \<and>
     sm_content m = first_content (sm_contents m) \<and> well_placed m"

definition preferences_typed :: "model_preferences \<Rightarrow> bool" where
  "preferences_typed p \<longleftrightarrow>
     pred_option double_is_finite (mp_cost_priority p) \<and> pred_option double_is_finite (mp_speed_priority p) \<and>
     pred_option double_is_finite (mp_intelligence_priority p)"

definition offered_tool_typed :: "tool_definition \<Rightarrow> bool" where
  "offered_tool_typed t \<longleftrightarrow>
     is_object (td_input_schema t) \<and> is_object (td_output_schema t) \<and> is_object (td_annotations t) \<and> object_meta_ok (td_meta t) \<and>
     (\<not> td_output_schema_present t \<longrightarrow> td_output_schema t = empty_object)"

definition params_typed :: "create_message_params \<Rightarrow> bool" where
  "params_typed p \<longleftrightarrow>
     (\<forall>m\<in>set (cmp_messages p). message_typed m) \<and> balanced (concat (map tool_events (cmp_messages p))) \<and>
     pred_option (\<lambda>s. s \<in> {''allServers'', ''none'', ''thisServer''}) (cmp_include_context p) \<and>
     pred_option double_is_finite (cmp_temperature p) \<and> pred_option preferences_typed (cmp_model_preferences p) \<and>
     is_object (cmp_metadata p) \<and> object_meta_ok (cmp_meta p) \<and> (\<forall>t\<in>set (cmp_tools p). offered_tool_typed t)"

text \<open>
  The members of the params as they were sent. Absent members are read as none, as no elements or as an empty
  object.
\<close>

definition sent_elements :: "json \<Rightarrow> string \<Rightarrow> json list" where
  "sent_elements j k = (case jfind j k of Some (JArray items) \<Rightarrow> items | _ \<Rightarrow> [])"

definition params_kept :: "json \<Rightarrow> create_message_params \<Rightarrow> bool" where
  "params_kept j p \<longleftrightarrow>
     jfind j ''systemPrompt'' = map_option JString (cmp_system_prompt p) \<and>
     jfind j ''includeContext'' = map_option JString (cmp_include_context p) \<and>
     sent_elements j ''stopSequences'' = map JString (cmp_stop_sequences p) \<and>
     jfind j ''_meta'' = cmp_meta p \<and> object_or_empty (jfind j ''metadata'') = cmp_metadata p \<and>
     list_all2 (\<lambda>v m. sampling_message_from_json v = Inr m \<and> jfind v ''role'' = Some (JString (sm_role m)))
       (sent_elements j ''messages'') (cmp_messages p) \<and>
     list_all2 (\<lambda>v t. jfind v ''name'' = Some (JString (td_name t)) \<and> jfind v ''inputSchema'' = Some (td_input_schema t) \<and>
         object_or_empty (jfind v ''outputSchema'') = td_output_schema t)
       (sent_elements j ''tools'') (cmp_tools p) \<and>
     rel_option (\<lambda>v c. jfind v ''mode'' = map_option (\<lambda>m. JString (tool_choice_mode_to_string m)) (tch_mode c))
       (jfind j ''toolChoice'') (cmp_tool_choice p) \<and>
     rel_option (\<lambda>v t. task_request_parameters_from_json v = Inr t) (jfind j ''task'') (cmp_task p)"

lemma block_type_read:
  "content_block_from_json j = Inr b \<Longrightarrow> cb_type b \<in> {''text'', ''image'', ''audio'', ''resource'', ''resource_link''}"
  by (auto simp: content_block_from_json_def content_body_def default_block_def rbind_eq_Inr Let_def split: if_splits option.splits)

lemma item_read_typed:
  assumes "sampling_message_content_from_json j = Inr c"
  shows "item_typed c"
proof -
  have plain: "item_typed c" if "plain_item j = Inr c"
    using that block_type_read [of j] by (fastforce simp: plain_item_def rbind_eq_Inr item_typed_def split: if_splits)
  have use: "is_object (tu_input u)" if "tool_use_content_from_json j = Inr u" for u
    using that by (auto simp: tool_use_content_from_json_def rbind_eq_Inr required_member_Inr Let_def split: if_splits)
  show ?thesis
  proof (cases "jfind j ''type''")
    case None
    then show ?thesis using assms plain by (simp add: sampling_message_content_from_json_def)
  next
    case (Some v)
    then show ?thesis using assms plain use
      by (cases v) (auto simp: sampling_message_content_from_json_def rbind_eq_Inr item_typed_def split: if_splits)
  qed
qed

lemma map_result_all: "map_result f xs = Inr ys \<Longrightarrow> (\<And>x y. f x = Inr y \<Longrightarrow> P y) \<Longrightarrow> \<forall>y\<in>set ys. P y"
  by (induction xs arbitrary: ys) (auto simp: rbind_eq_Inr)

lemma contents_read_typed:
  assumes "read_contents v = Inr cs"
  shows "\<forall>c\<in>set cs. item_typed c"
proof (cases "is_array v")
  case True
  then obtain items where "map_result sampling_message_content_from_json items = Inr cs"
    using assms by (auto simp: read_contents_def is_array_iff)
  then show ?thesis using item_read_typed by (rule map_result_all)
next
  case False
  then have "rbind (sampling_message_content_from_json v) (\<lambda>c. Inr [c]) = Inr cs"
    using assms by (cases v) (simp_all add: read_contents_def)
  then show ?thesis by (auto simp: rbind_eq_Inr intro: item_read_typed)
qed

lemma role_valid_iff: "sampling_role_is_valid s \<longleftrightarrow> s \<in> {''user'', ''assistant''}"
  by (simp add: sampling_role_is_valid_def from_string_role_def)

lemma message_read_typed:
  assumes "sampling_message_from_json j = Inr m"
  shows "message_typed m"
proof -
  obtain v where v: "read_contents v = Inr (sm_contents m)" "sampling_role_is_valid (sm_role m)"
    "sm_content m = first_content (sm_contents m)" "validate_sampling_message_content_roles m = Inr ()"
    using assms by (auto simp: sampling_message_from_json_def rbind_eq_Inr Let_def split: if_splits)
  show ?thesis
    using contents_read_typed [OF v(1)] v(2-4) by (simp add: message_typed_def role_valid_iff validate_roles_iff)
qed

lemma finite_member_read: "finite_member j k what = Inr x \<Longrightarrow> pred_option double_is_finite x"
  by (cases x) (auto simp: finite_member_def split: option.splits if_splits)

lemma preferences_read_typed: "model_preferences_from_json j = Inr p \<Longrightarrow> preferences_typed p"
  by (auto simp: model_preferences_from_json_def rbind_eq_Inr preferences_typed_def read_priority_def
      dest: finite_member_read split: if_splits)

lemma read_optional_all: "read_optional j k f = Inr x \<Longrightarrow> (\<And>v y. f v = Inr y \<Longrightarrow> P y) \<Longrightarrow> pred_option P x"
  by (auto simp: read_optional_def rbind_eq_Inr split: option.splits)

lemma include_context_read:
  "include_context_member j = Inr x \<Longrightarrow> pred_option (\<lambda>s. s \<in> {''allServers'', ''none'', ''thisServer''}) x"
proof (cases x)
  case (Some s)
  assume "include_context_member j = Inr x"
  then have "context_inclusion_from_string s \<noteq> None"
    using Some by (auto simp: include_context_member_def rbind_eq_Inr sampling_include_context_is_valid_def
        split: option.splits if_splits)
  then show ?thesis using Some by (auto simp: context_inclusion_from_string_def split: if_splits)
qed simp

lemma optional_member_pred: "optional_member P j k e = Inr v \<longleftrightarrow> jfind j k = v \<and> pred_option P v"
  by (cases v) (auto simp: optional_member_Inr)

lemma params_parts:
  assumes "create_message_params_from_json j = Inr p"
  shows "map_result sampling_message_from_json (sent_elements j ''messages'') = Inr (cmp_messages p)"
    "validate_sampling_tool_use_result_balance (cmp_messages p) = Inr ()"
    "include_context_member j = Inr (cmp_include_context p)"
    "finite_member j ''temperature'' ''sampling temperature'' = Inr (cmp_temperature p)"
    "read_optional j ''modelPreferences'' model_preferences_from_json = Inr (cmp_model_preferences p)"
    "pred_option is_object (jfind j ''metadata'') \<and> cmp_metadata p = object_or_empty (jfind j ''metadata'')"
    "pred_option is_object (cmp_meta p) \<and> jfind j ''_meta'' = cmp_meta p"
    "\<exists>v. jfind j ''maxTokens'' = Some v \<and> is_number_integer v \<and> cmp_max_tokens p = low_int v"
    "pred_option is_string (jfind j ''systemPrompt'') \<and> cmp_system_prompt p = map_option string_of (jfind j ''systemPrompt'')"
    "\<exists>e. array_member j ''stopSequences'' stop_sequence e = Inr (cmp_stop_sequences p)"
    "\<exists>e. array_member j ''tools'' tool_definition_from_json e = Inr (cmp_tools p)"
    "read_optional j ''toolChoice'' tool_choice_from_json = Inr (cmp_tool_choice p)"
    "task_member j = Inr (cmp_task p)"
  using assms
  by (auto simp: create_message_params_from_json_def rbind_eq_Inr required_member_Inr optional_member_pred Let_def
      sent_elements_def is_array_iff split: if_splits)

lemma map_result_related: "map_result f xs = Inr ys \<Longrightarrow> list_all2 (\<lambda>x y. f x = Inr y) xs ys"
  by (induction xs arbitrary: ys) (auto simp: rbind_eq_Inr)

lemma array_read: "array_member j k f e = Inr ys \<Longrightarrow> list_all2 (\<lambda>x y. f x = Inr y) (sent_elements j k) ys"
  by (auto simp: array_member_def sent_elements_def dest: map_result_related split: option.splits json.splits)

lemma strings_read: "list_all2 (\<lambda>x y. stop_sequence x = Inr y) xs ys \<Longrightarrow> xs = map JString ys"
  by (induction rule: list_all2_induct) (auto simp: stop_sequence_def get_string_Some split: option.splits)

lemma offered_tool_read:
  assumes "tool_definition_from_json v = Inr t"
  shows "offered_tool_typed t" "jfind v ''name'' = Some (JString (td_name t))" "jfind v ''inputSchema'' = Some (td_input_schema t)"
    "object_or_empty (jfind v ''outputSchema'') = td_output_schema t"
  using assms
  by (auto simp: tool_definition_from_json_def rbind_eq_Inr required_member_Inr optional_member_pred Let_def
      offered_tool_typed_def object_or_empty_def object_meta_ok_def is_string_iff split: if_splits option.splits)

lemma choice_read:
  assumes "tool_choice_from_json v = Inr c"
  shows "jfind v ''mode'' = map_option (\<lambda>m. JString (tool_choice_mode_to_string m)) (tch_mode c)"
  using assms
  by (auto simp: tool_choice_from_json_def rbind_eq_Inr optional_member_Inr is_string_iff tool_choice_mode_from_string_def
      split: if_splits option.splits)

lemma role_read: "sampling_message_from_json v = Inr m \<Longrightarrow> jfind v ''role'' = Some (JString (sm_role m))"
  by (auto simp: sampling_message_from_json_def rbind_eq_Inr required_member_Inr Let_def is_string_iff split: if_splits)

lemma optional_read: "read_optional j k f = Inr x \<Longrightarrow> rel_option (\<lambda>v y. f v = Inr y) (jfind j k) x"
  by (auto simp: read_optional_def rbind_eq_Inr split: option.splits)

lemma context_read: "include_context_member j = Inr x \<Longrightarrow> jfind j ''includeContext'' = map_option JString x"
  by (auto simp: include_context_member_def rbind_eq_Inr optional_member_Inr is_string_iff split: option.splits if_splits)

lemma params_read_kept:
  assumes "create_message_params_from_json j = Inr p"
  shows "params_kept j p"
proof -
  note parts = params_parts [OF assms]
  have "jfind j ''systemPrompt'' = map_option JString (cmp_system_prompt p)"
    using parts(9) by (cases "jfind j ''systemPrompt''") (auto simp: is_string_iff)
  moreover have "sent_elements j ''stopSequences'' = map JString (cmp_stop_sequences p)"
    using parts(10) array_read strings_read by blast
  moreover have "list_all2 (\<lambda>v m. sampling_message_from_json v = Inr m \<and> jfind v ''role'' = Some (JString (sm_role m)))
       (sent_elements j ''messages'') (cmp_messages p)"
    using map_result_related [OF parts(1)] by (rule list_all2_mono) (simp add: role_read)
  moreover have "list_all2 (\<lambda>v t. jfind v ''name'' = Some (JString (td_name t)) \<and> jfind v ''inputSchema'' = Some (td_input_schema t) \<and>
         object_or_empty (jfind v ''outputSchema'') = td_output_schema t) (sent_elements j ''tools'') (cmp_tools p)"
    using parts(11) array_read by (blast intro: list_all2_mono offered_tool_read(2-4))
  moreover have "rel_option (\<lambda>v c. jfind v ''mode'' = map_option (\<lambda>m. JString (tool_choice_mode_to_string m)) (tch_mode c))
       (jfind j ''toolChoice'') (cmp_tool_choice p)"
    using optional_read [OF parts(12)] by (rule option.rel_mono_strong) (rule choice_read)
  moreover have "rel_option (\<lambda>v t. task_request_parameters_from_json v = Inr t) (jfind j ''task'') (cmp_task p)"
    using parts(13) by (cases "cmp_task p") (auto simp: task_member_def rbind_eq_Inr split: option.splits)
  ultimately show ?thesis
    using parts(6,7) context_read [OF parts(3)] by (simp add: params_kept_def)
qed

lemma params_read_typed:
  assumes "create_message_params_from_json j = Inr p"
  shows "params_typed p"
proof -
  note parts = params_parts [OF assms]
  have "\<forall>m\<in>set (cmp_messages p). message_typed m"
    using parts(1) map_result_all message_read_typed by blast
  moreover have "balanced (concat (map tool_events (cmp_messages p)))" using parts(2) by (simp add: validate_balance_iff)
  moreover have "pred_option preferences_typed (cmp_model_preferences p)"
    using parts(5) preferences_read_typed by (rule read_optional_all)
  moreover have "is_object (cmp_metadata p)" "object_meta_ok (cmp_meta p)"
    using parts(6,7) by (auto simp: object_or_empty_def object_meta_ok_def split: option.splits)
  moreover have "\<forall>t\<in>set (cmp_tools p). offered_tool_typed t"
    using parts(11) array_read offered_tool_read(1) by (fastforce simp: list_all2_conv_all_nth in_set_conv_nth)
  ultimately show ?thesis
    using include_context_read [OF parts(3)] finite_member_read [OF parts(4)] unfolding params_typed_def by blast
qed

text \<open>The number a JSON integer denotes. The reader of JSON texts gives a non-negative one as unsigned.\<close>

fun int_value :: "json \<Rightarrow> int option" where
  "int_value (JInt i) = Some (sint i)"
| "int_value (JUInt u) = Some (uint u)"
| "int_value _ = None"

lemma int_value_integer: "is_number_integer v \<Longrightarrow> \<exists>n. int_value v = Some n"
  by (cases v) auto

lemma low_int_value:
  assumes "int_value v = Some n"
  shows "sint (low_int v) = (n + 2147483648) mod 4294967296 - 2147483648"
proof -
  have "sint (ucast i :: int32) = signed_take_bit 31 (sint i)" "sint (ucast i :: int32) = signed_take_bit 31 (uint i)" for i :: "64 word"
    by (transfer, simp add: signed_take_bit_take_bit)+
  then show ?thesis
    using assms
    by (cases v) (auto simp: low_int_def get_int_def signed_take_bit_eq_take_bit_shift take_bit_eq_mod)
qed

lemma mod_shift_exact: "(n + 2147483648) mod 4294967296 - 2147483648 = n \<longleftrightarrow> - 2147483648 \<le> n \<and> n \<le> (2147483647 :: int)"
proof -
  have "n = (n + 2147483648) mod 4294967296 - 2147483648" if "- 2147483648 \<le> n" "n \<le> 2147483647"
    using that by (simp add: mod_pos_pos_trivial)
  then show ?thesis
    using pos_mod_bound [of 4294967296 "n + 2147483648"] pos_mod_sign [of 4294967296 "n + 2147483648"] by auto
qed


definition sample_sampling_json :: json where
  "sample_sampling_json = JObject
     [(''maxTokens'', JUInt 4294967301),
      (''messages'', JArray
        [JObject [(''content'', JObject [(''id'', JString ''t1''), (''input'', JObject []), (''name'', JString ''add''),
                     (''type'', JString ''tool_use'')]), (''role'', JString ''assistant'')],
         JObject [(''content'', JArray [JObject [(''toolUseId'', JString ''t1''), (''type'', JString ''tool_result'')]]),
                  (''role'', JString ''user'')]])]"

lemma sample_sampling_read: "is_ok (create_message_params_from_json sample_sampling_json)"
  by code_simp


section \<open>What is written is read\<close>

lemma array_found:
  "jfind j k = nonempty_array g xs \<Longrightarrow> \<forall>x\<in>set xs. f (g x) = Inr x \<Longrightarrow> array_member j k f e = Inr xs"
  by (rule array_member_written) (simp_all add: nonempty_array_def)

lemma read_optional_found:
  "jfind j k = map_option g v \<Longrightarrow> pred_option (\<lambda>x. f (g x) = Inr x) v \<Longrightarrow> read_optional j k f = Inr v"
  by (cases v) (simp_all add: read_optional_def)

lemma finite_member_found:
  "jfind j k = map_option JFloat v \<Longrightarrow> pred_option double_is_finite v \<Longrightarrow> finite_member j k what = Inr v"
  by (cases v) (simp_all add: finite_member_def)

definition tool_choice_ok :: "tool_choice \<Rightarrow> bool" where
  "tool_choice_ok c \<longleftrightarrow> ext_ok [''mode''] (tch_extensions c)"

lemma tool_choice_mode_roundtrip: "tool_choice_mode_from_string (tool_choice_mode_to_string m) = Some m"
  by (cases m) (simp_all add: tool_choice_mode_from_string_def)

lemma tool_choice_roundtrip:
  assumes "tool_choice_ok c"
  shows "tool_choice_from_json (tool_choice_to_json c) = Inr c"
proof -
  let ?j = "tool_choice_to_json c"
  have e: "ext_ok [''mode''] (tch_extensions c)" using assms by (simp add: tool_choice_ok_def)
  have f: "is_object ?j" "jfind ?j ''mode'' = map_option (\<lambda>m. JString (tool_choice_mode_to_string m)) (tch_mode c)"
    unfolding tool_choice_to_json_def by (simp_all add: jfind_written [OF e] split: option.split)
  have x: "collect_json_extensions ?j [''mode''] = tch_extensions c"
    unfolding tool_choice_to_json_def by (rule collect_append_extensions [OF _ e]) simp_all
  show ?thesis
    using f x by (cases "tch_mode c") (simp_all add: tool_choice_from_json_def optional_member_def tool_choice_mode_roundtrip)
qed

definition tool_use_ok :: "tool_use_content \<Rightarrow> bool" where
  "tool_use_ok u \<longleftrightarrow> is_object (tu_input u) \<and> object_meta_ok (tu_meta u) \<and> ext_ok tool_use_keys (tu_extensions u)"

lemma tool_use_roundtrip:
  assumes "tool_use_ok u"
  shows "tool_use_content_from_json (tool_use_content_to_json u) = Inr u"
    "jfind (tool_use_content_to_json u) ''type'' = Some (JString ''tool_use'')"
proof -
  let ?j = "tool_use_content_to_json u"
  have ok: "is_object (tu_input u)" "object_meta_ok (tu_meta u)" and e: "ext_ok tool_use_keys (tu_extensions u)"
    using assms by (simp_all add: tool_use_ok_def)
  have f: "is_object ?j" "jfind ?j ''id'' = Some (JString (tu_id u))" "jfind ?j ''name'' = Some (JString (tu_name u))"
    "jfind ?j ''input'' = Some (tu_input u)" "jfind ?j ''_meta'' = tu_meta u"
    unfolding tool_use_content_to_json_def by (simp_all add: jfind_written [OF e] tool_use_keys_def split: option.split)
  show "jfind ?j ''type'' = Some (JString ''tool_use'')"
    unfolding tool_use_content_to_json_def by (simp add: jfind_written [OF e] tool_use_keys_def split: option.split)
  have x: "collect_json_extensions ?j tool_use_keys = tu_extensions u"
    unfolding tool_use_content_to_json_def
    by (rule collect_append_extensions [OF _ e]) (simp_all add: tool_use_keys_def keys_sorted_Cons)
  show "tool_use_content_from_json ?j = Inr u"
    using f x ok by (simp add: tool_use_content_from_json_def)
qed

definition tool_result_content_ok :: "tool_result_content \<Rightarrow> bool" where
  "tool_result_content_ok r \<longleftrightarrow>
     (\<forall>b\<in>set (trc_content r). block_ok b) \<and> pred_option is_object (trc_structured_content r) \<and>
     object_meta_ok (trc_meta r) \<and> ext_ok tool_result_content_keys (trc_extensions r)"

lemma tool_result_content_roundtrip:
  assumes "tool_result_content_ok r"
  shows "tool_result_content_from_json (tool_result_content_to_json r) = Inr r"
    "jfind (tool_result_content_to_json r) ''type'' = Some (JString ''tool_result'')"
proof -
  let ?j = "tool_result_content_to_json r"
  have ok: "\<forall>b\<in>set (trc_content r). content_block_from_json (content_block_to_json b) = Inr b"
    "pred_option is_object (trc_structured_content r)" "object_meta_ok (trc_meta r)"
    and e: "ext_ok tool_result_content_keys (trc_extensions r)"
    using assms by (auto simp: tool_result_content_ok_def content_block_roundtrip)
  have f: "is_object ?j" "jfind ?j ''toolUseId'' = Some (JString (trc_tool_use_id r))"
    "jfind ?j ''content'' = (nonempty_array content_block_to_json (trc_content r))"
    "jfind ?j ''structuredContent'' = trc_structured_content r" "jfind ?j ''isError'' = map_option JBool (trc_is_error r)"
    "jfind ?j ''_meta'' = trc_meta r"
    unfolding tool_result_content_to_json_def
    by (simp_all add: jfind_written [OF e] tool_result_content_keys_def split: option.split)
  show "jfind ?j ''type'' = Some (JString ''tool_result'')"
    unfolding tool_result_content_to_json_def
    by (simp add: jfind_written [OF e] tool_result_content_keys_def split: option.split)
  have x: "collect_json_extensions ?j tool_result_content_keys = trc_extensions r"
    unfolding tool_result_content_to_json_def
    by (rule collect_append_extensions [OF _ e]) (simp_all add: tool_result_content_keys_def keys_sorted_Cons)
  have flag: "optional_member is_boolean ?j ''isError'' y = Inr (map_option JBool (trc_is_error r))" for y
    using f(5) by (cases "trc_is_error r") (simp_all add: optional_member_def)
  have undone: "map_option bool_of (map_option JBool (trc_is_error r)) = trc_is_error r"
    by (cases "trc_is_error r") simp_all
  have s: "optional_member is_object ?j ''structuredContent'' y = Inr (trc_structured_content r)" for y
    using f(4) ok(2) by (simp add: optional_member_pred)
  show "tool_result_content_from_json ?j = Inr r"
    using f(1,2,6) x ok(3) flag undone s array_found [OF f(3) ok(1)]
    by (simp add: tool_result_content_from_json_def)
qed

definition item_ok :: "sampling_message_content \<Rightarrow> bool" where
  "item_ok c \<longleftrightarrow>
     (\<exists>u. c = tool_use_item u \<and> tool_use_ok u) \<or> (\<exists>r. c = tool_result_item r \<and> tool_result_content_ok r) \<or>
     (\<exists>b. c = from_content b \<and> block_ok b \<and> cb_type b \<in> {''text'', ''image'', ''audio''})"

lemma block_type_written:
  assumes "block_ok b" "cb_type b \<in> {''text'', ''image'', ''audio''}"
  shows "jfind (content_block_to_json b) ''type'' = Some (JString (cb_type b))"
    "is_object (content_block_to_json b)"
proof -
  obtain body where body: "content_block_to_json b = framed b body" "jwf body" "jfind body ''type'' = Some (JString (cb_type b))"
    "jfind body ''annotations'' = None" "jfind body ''_meta'' = None" "\<And>k. k \<notin> set content_keys \<Longrightarrow> jfind body k = None"
  proof (cases "cb_type b = ''text''")
    case True
    then have t: "text_ok b" using assms(1)
      by (auto simp: block_ok_def block_shape_ok_def media_ok_def embedded_ok_def linked_ok_def)
    show thesis
      by (rule that [OF write_framed(3)]) (use True t in \<open>auto simp: text_ok_def plain_ok_def keys_sorted_Cons content_keys_def\<close>)
  next
    case False
    then obtain data where t: "media_ok b data" using assms
      by (auto simp: block_ok_def block_shape_ok_def text_ok_def embedded_ok_def linked_ok_def)
    show thesis
      by (rule that [OF write_framed(1)]) (use t in \<open>auto simp: media_ok_def keys_sorted_Cons content_keys_def\<close>)
  qed
  have e: "ext_ok content_keys (cb_extensions b)" using assms(1) by (simp add: block_ok_def)
  note f = framed_find [OF e body(2,4,5,6)]
  show "jfind (content_block_to_json b) ''type'' = Some (JString (cb_type b))" "is_object (content_block_to_json b)"
    using f(1) f(5) [of "''type''"] body(1,3) by (simp_all add: content_keys_def)
qed

lemma item_roundtrip:
  assumes "item_ok c"
  shows "sampling_message_content_from_json (sampling_message_content_to_json c) = Inr c"
    "is_object (sampling_message_content_to_json c)"
proof -
  consider (used) u where "c = tool_use_item u" "tool_use_ok u"
    | (answered) r where "c = tool_result_item r" "tool_result_content_ok r"
    | (plain) b where "c = from_content b" "block_ok b" "cb_type b \<in> {''text'', ''image'', ''audio''}"
    using assms unfolding item_ok_def by blast
  then have "sampling_message_content_from_json (sampling_message_content_to_json c) = Inr c \<and>
      jfind (sampling_message_content_to_json c) ''type'' \<noteq> None"
  proof cases
    case used
    then show ?thesis using tool_use_roundtrip [OF used(2)]
      by (simp add: sampling_message_content_to_json_def sampling_message_content_from_json_def tool_use_item_def)
  next
    case answered
    then show ?thesis using tool_result_content_roundtrip [OF answered(2)]
      by (simp add: sampling_message_content_to_json_def sampling_message_content_from_json_def tool_result_item_def)
  next
    case plain
    have t: "cb_type b \<notin> {''tool_use'', ''tool_result'', ''resource'', ''resource_link''}" using plain(3) by auto
    show ?thesis
      using t block_type_written(1) [OF plain(2,3)] content_block_roundtrip [OF plain(2)]
      by (simp add: sampling_message_content_to_json_def sampling_message_content_from_json_def plain(1) from_content_def
          plain_item_def)
  qed
  then show "sampling_message_content_from_json (sampling_message_content_to_json c) = Inr c"
    "is_object (sampling_message_content_to_json c)"
    using jfind_not_object [of "sampling_message_content_to_json c" "''type''"]
    by (cases "is_object (sampling_message_content_to_json c)"; simp)+
qed

text \<open>
  A message built from a single block has no list of contents; what is read back has a list with that
  block.
\<close>

definition listed :: "content_block \<Rightarrow> sampling_message_content list \<Rightarrow> sampling_message_content list" where
  "listed b cs = (if cs = [] then [from_content b] else cs)"

definition contents_shape_ok :: "content_block \<Rightarrow> sampling_message_content list \<Rightarrow> bool" where
  "contents_shape_ok b cs \<longleftrightarrow> (\<forall>c\<in>set (listed b cs). item_ok c) \<and> b = first_content (listed b cs)"

lemma item_list_roundtrip:
  assumes "contents_shape_ok b cs"
  shows "read_contents (contents_member b cs) = Inr (listed b cs)"
proof -
  have items: "\<forall>c\<in>set (listed b cs). sampling_message_content_from_json (sampling_message_content_to_json c) = Inr c"
    "\<forall>c\<in>set (listed b cs). is_object (sampling_message_content_to_json c)"
    using assms by (auto simp: contents_shape_ok_def item_roundtrip)
  have one: "read_contents v = Inr [c]" if "sampling_message_content_from_json v = Inr c" "is_object v" for c v
    using that by (auto simp: read_contents_def is_object_iff)
  have single: "contents_member b cs = sampling_message_content_to_json c" if "listed b cs = [c]" for c
    using that by (auto simp: listed_def contents_member_def sampling_message_content_to_json_def from_content_def
        split: if_splits)
  show ?thesis
  proof (cases "\<exists>c. listed b cs = [c]")
    case True
    then show ?thesis using single one items by auto
  next
    case False
    then have l: "listed b cs = cs" "contents_member b cs = JArray (map sampling_message_content_to_json cs)"
      by (auto simp: listed_def contents_member_def split: list.split if_splits)
    then show ?thesis using items(1) by (simp add: read_contents_def)
  qed
qed

definition listed_message :: "sampling_message \<Rightarrow> sampling_message" where
  "listed_message m = m\<lparr>sm_contents := listed (sm_content m) (sm_contents m)\<rparr>"

definition sampling_message_ok :: "sampling_message \<Rightarrow> bool" where
  "sampling_message_ok m \<longleftrightarrow>
     sampling_role_is_valid (sm_role m) \<and> contents_shape_ok (sm_content m) (sm_contents m) \<and> well_placed m \<and>
     object_meta_ok (sm_meta m) \<and> ext_ok message_known_keys (sm_extensions m)"

lemma well_placed_wire: "well_placed m \<Longrightarrow> well_placed (listed_message m)"
  by (auto simp: well_placed_def listed_message_def listed_def from_content_def is_tool_use_def is_tool_result_def)

lemma tool_events_wire [simp]: "tool_events (listed_message m) = tool_events m"
  by (simp add: tool_events_def listed_message_def listed_def from_content_def)

lemma sampling_message_roundtrip:
  assumes "sampling_message_ok m"
  shows "sampling_message_from_json (sampling_message_to_json m) = Inr (listed_message m)"
proof -
  let ?j = "sampling_message_to_json m"
  have ok: "sampling_role_is_valid (sm_role m)" "contents_shape_ok (sm_content m) (sm_contents m)"
    "validate_sampling_message_content_roles (listed_message m) = Inr ()" "object_meta_ok (sm_meta m)"
    and e: "ext_ok message_known_keys (sm_extensions m)"
    using assms by (simp_all add: sampling_message_ok_def validate_roles_iff well_placed_wire)
  have f: "is_object ?j" "jfind ?j ''role'' = Some (JString (sm_role m))"
    "jfind ?j ''content'' = Some (contents_member (sm_content m) (sm_contents m))" "jfind ?j ''_meta'' = sm_meta m"
    unfolding sampling_message_to_json_def
    by (simp_all add: jfind_written [OF e] message_known_keys_def split: option.split)
  have x: "collect_json_extensions ?j message_known_keys = sm_extensions m"
    unfolding sampling_message_to_json_def
    by (rule collect_append_extensions [OF _ e]) (simp_all add: message_known_keys_def keys_sorted_Cons)
  have m: "\<lparr>sm_role = sm_role m, sm_content = first_content (listed (sm_content m) (sm_contents m)),
      sm_contents = listed (sm_content m) (sm_contents m), sm_meta = sm_meta m, sm_extensions = sm_extensions m\<rparr> = listed_message m"
    using ok(2) by (simp add: listed_message_def contents_shape_ok_def)
  show ?thesis
    using f x ok item_list_roundtrip [OF ok(2)] by (simp add: sampling_message_from_json_def m)
qed

interpretation hint: reflected_struct model_hint_reflect
  "\<lambda>h. ext_ok [''name''] (mh_extensions h)" mh_extensions "\<lambda>v. mh_extensions_update (\<lambda>_. v)"
proof unfold_locales
  fix obj :: model_hint
  show "\<exists>u. reads_back obj (rf_fields model_hint_reflect) (rf_default model_hint_reflect) u \<and>
      u\<lparr>mh_extensions := mh_extensions obj\<rparr> = obj"
    unfolding model_hint_reflect_def reflect.simps by (intro exI conjI) (rule reads_rules | simp)+
qed (auto simp: model_hint_reflect_def)

definition preferences_ok :: "model_preferences \<Rightarrow> bool" where
  "preferences_ok p \<longleftrightarrow>
     (\<forall>h\<in>set (mp_hints p). ext_ok [''name''] (mh_extensions h)) \<and> preferences_typed p \<and>
     ext_ok model_preferences_keys (mp_extensions p)"

lemma preferences_roundtrip:
  assumes "preferences_ok p"
  shows "model_preferences_from_json (model_preferences_to_json p) = Inr p"
proof -
  let ?j = "model_preferences_to_json p"
  have ok: "\<forall>h\<in>set (mp_hints p). model_hint_from_json (model_hint_to_json h) = Inr h" "preferences_typed p"
    and e: "ext_ok model_preferences_keys (mp_extensions p)"
    using assms by (auto simp: preferences_ok_def model_hint_from_json_def model_hint_to_json_def hint.roundtrip)
  have f: "is_object ?j"
    "jfind ?j ''hints'' = (nonempty_array model_hint_to_json (mp_hints p))"
    "jfind ?j ''costPriority'' = map_option JFloat (mp_cost_priority p)"
    "jfind ?j ''speedPriority'' = map_option JFloat (mp_speed_priority p)"
    "jfind ?j ''intelligencePriority'' = map_option JFloat (mp_intelligence_priority p)"
    unfolding model_preferences_to_json_def
    by (simp_all add: jfind_written [OF e] model_preferences_keys_def split: option.split)
  have x: "collect_json_extensions ?j model_preferences_keys = mp_extensions p"
    unfolding model_preferences_to_json_def
    by (rule collect_append_extensions [OF _ e]) (simp_all add: model_preferences_keys_def keys_sorted_Cons)
  note rd = array_found [OF f(2) ok(1)] finite_member_found [OF f(3)] finite_member_found [OF f(4)]
    finite_member_found [OF f(5)]
  show ?thesis
    using f(1) x rd ok(2) by (simp add: model_preferences_from_json_def read_priority_def preferences_typed_def)
qed

definition create_message_params_ok :: "create_message_params \<Rightarrow> bool" where
  "create_message_params_ok p \<longleftrightarrow>
     (\<forall>m\<in>set (cmp_messages p). sampling_message_ok m) \<and> balanced (concat (map tool_events (cmp_messages p))) \<and>
     pred_option preferences_ok (cmp_model_preferences p) \<and>
     pred_option sampling_include_context_is_valid (cmp_include_context p) \<and>
     pred_option double_is_finite (cmp_temperature p) \<and> is_object (cmp_metadata p) \<and>
     (case cmp_task p of None \<Rightarrow> True | Some t \<Rightarrow> meta_ok (trp_meta t) \<and> ext_ok [''ttl'', ''_meta''] (trp_extensions t)) \<and>
     object_meta_ok (cmp_meta p) \<and> (\<forall>t\<in>set (cmp_tools p). definition_ok t) \<and>
     pred_option tool_choice_ok (cmp_tool_choice p) \<and> ext_ok create_message_params_keys (cmp_extensions p)"

lemma low_int_written [simp]: "low_int (json_of_int32 i) = i" "is_number_integer (json_of_int32 i)"
proof -
  have "(ucast (scast i :: int64) :: int32) = i" by transfer (simp add: take_bit_signed_take_bit)
  then show "low_int (json_of_int32 i) = i" by (simp add: low_int_def json_of_int32_def get_int_def)
qed (simp add: json_of_int32_def)

lemma include_context_found:
  "jfind j ''includeContext'' = map_option JString v \<Longrightarrow> pred_option sampling_include_context_is_valid v \<Longrightarrow>
   include_context_member j = Inr v"
  by (cases v) (simp_all add: include_context_member_def)

lemma stop_sequences_found:
  "jfind j ''stopSequences'' = nonempty_array JString ss \<Longrightarrow>
   array_member j ''stopSequences'' stop_sequence e = Inr ss"
  by (rule array_found) (auto simp: stop_sequence_def)

lemma map_result_wire:
  "\<forall>x\<in>set xs. f (g x) = Inr (h x) \<Longrightarrow> map_result f (map g xs) = Inr (map h xs)"
  by (induction xs) auto

text \<open>Lookup in a long chain of optional members, one member at a time.\<close>

lemma jfind_layers:
  "is_object j \<Longrightarrow> jfind j k = None \<Longrightarrow> jfind (jset_opt j k v) k = v"
  "is_object j \<Longrightarrow> k' \<noteq> k \<Longrightarrow> jfind (jset_opt j k v) k' = jfind j k'"
  by (cases v; simp)+

lemma params_find:
  assumes e: "ext_ok create_message_params_keys (cmp_extensions p)"
  defines "j \<equiv> create_message_params_to_json p"
  shows "is_object j" "jfind j ''messages'' = Some (JArray (map sampling_message_to_json (cmp_messages p)))"
    "jfind j ''modelPreferences'' = map_option model_preferences_to_json (cmp_model_preferences p)"
    "jfind j ''systemPrompt'' = map_option JString (cmp_system_prompt p)"
    "jfind j ''includeContext'' = map_option JString (cmp_include_context p)"
    "jfind j ''temperature'' = map_option JFloat (cmp_temperature p)"
    "jfind j ''maxTokens'' = Some (json_of_int32 (cmp_max_tokens p))"
    "jfind j ''stopSequences'' = (nonempty_array JString (cmp_stop_sequences p))"
    "jfind j ''metadata'' = nonempty_json (cmp_metadata p)"
    "jfind j ''task'' = map_option task_request_parameters_to_json (cmp_task p)"
    "jfind j ''_meta'' = cmp_meta p"
    "jfind j ''tools'' = (nonempty_array tool_definition_to_json (cmp_tools p))"
    "jfind j ''toolChoice'' = map_option tool_choice_to_json (cmp_tool_choice p)"
  unfolding j_def create_message_params_to_json_def
  by (simp_all add: jfind_written [OF e] create_message_params_keys_def jfind_layers del: jfind_jset_opt)

lemma params_extensions:
  assumes e: "ext_ok create_message_params_keys (cmp_extensions p)"
  shows "collect_json_extensions (create_message_params_to_json p) create_message_params_keys = cmp_extensions p"
  unfolding create_message_params_to_json_def
  by (rule collect_append_extensions [OF _ e]) (simp_all add: create_message_params_keys_def keys_sorted_Cons)

lemma create_message_params_roundtrip:
  assumes "create_message_params_ok p"
  shows "create_message_params_from_json (create_message_params_to_json p) =
    Inr (p\<lparr>cmp_messages := map listed_message (cmp_messages p)\<rparr>)"
proof -
  let ?j = "create_message_params_to_json p"
  have ok: "\<forall>m\<in>set (cmp_messages p). sampling_message_from_json (sampling_message_to_json m) = Inr (listed_message m)"
    "pred_option (\<lambda>x. model_preferences_from_json (model_preferences_to_json x) = Inr x) (cmp_model_preferences p)"
    "pred_option sampling_include_context_is_valid (cmp_include_context p)"
    "pred_option double_is_finite (cmp_temperature p)" "is_object (cmp_metadata p)" "object_meta_ok (cmp_meta p)"
    "\<forall>t\<in>set (cmp_tools p). tool_definition_from_json (tool_definition_to_json t) = Inr t"
    "pred_option (\<lambda>x. tool_choice_from_json (tool_choice_to_json x) = Inr x) (cmp_tool_choice p)"
    "case cmp_task p of None \<Rightarrow> True | Some t \<Rightarrow> meta_ok (trp_meta t) \<and> ext_ok [''ttl'', ''_meta''] (trp_extensions t)"
    and e: "ext_ok create_message_params_keys (cmp_extensions p)"
    using assms by (auto simp: create_message_params_ok_def sampling_message_roundtrip preferences_roundtrip
        tool_choice_roundtrip tool_definition_roundtrip pred_option_Some)
  have "balanced (concat (map tool_events (map listed_message (cmp_messages p))))"
    using assms by (simp add: create_message_params_ok_def comp_def)
  then have bal: "validate_sampling_tool_use_result_balance (map listed_message (cmp_messages p)) = Inr ()"
    unfolding validate_balance_iff .
  note f = params_find [OF e]
  note rd = map_result_wire [where f = sampling_message_from_json and g = sampling_message_to_json, OF ok(1)] read_optional_found [OF f(3) ok(2)] include_context_found [OF f(5) ok(3)]
    finite_member_found [OF f(6) ok(4)] stop_sequences_found [OF f(8)] task_member_found [OF f(10) ok(9)]
    array_found [OF f(12) ok(7)] read_optional_found [OF f(13) ok(8)]
  show ?thesis
    using f(1,2,4,7,9,11) ok(5,6) by (simp add: create_message_params_from_json_def rd bal params_extensions [OF e])
qed

definition create_message_result_ok :: "create_message_result \<Rightarrow> bool" where
  "create_message_result_ok r \<longleftrightarrow>
     cmr_role r = ''assistant'' \<and> contents_shape_ok (cmr_content r) (cmr_contents r) \<and>
     (\<forall>c\<in>set (cmr_contents r). \<not> is_tool_result c) \<and> object_meta_ok (cmr_meta r) \<and>
     ext_ok create_message_result_keys (cmr_extensions r)"

lemma create_message_result_roundtrip:
  assumes "create_message_result_ok r"
  shows "create_message_result_from_json (create_message_result_to_json r) =
    Inr (r\<lparr>cmr_contents := listed (cmr_content r) (cmr_contents r)\<rparr>)"
proof -
  let ?j = "create_message_result_to_json r"
  let ?cs = "listed (cmr_content r) (cmr_contents r)"
  have ok: "cmr_role r = ''assistant''" "contents_shape_ok (cmr_content r) (cmr_contents r)" "object_meta_ok (cmr_meta r)"
    and e: "ext_ok create_message_result_keys (cmr_extensions r)"
    using assms by (simp_all add: create_message_result_ok_def)
  have f: "is_object ?j" "jfind ?j ''role'' = Some (JString (cmr_role r))"
    "jfind ?j ''content'' = Some (contents_member (cmr_content r) (cmr_contents r))"
    "jfind ?j ''model'' = Some (JString (cmr_model r))" "jfind ?j ''stopReason'' = nonempty_string (cmr_stop_reason r)"
    "jfind ?j ''_meta'' = cmr_meta r"
    unfolding create_message_result_to_json_def
    by (simp_all add: jfind_written [OF e] create_message_result_keys_def split: option.split)
  have x: "collect_json_extensions ?j create_message_result_keys = cmr_extensions r"
    unfolding create_message_result_to_json_def
    by (rule collect_append_extensions [OF _ e]) (simp_all add: create_message_result_keys_def keys_sorted_Cons)
  have roles: "content_roles_loop ''assistant'' False False ?cs = Inr ()"
    using assms unfolding content_roles_iff
    by (auto simp: create_message_result_ok_def listed_def from_content_def is_tool_use_def is_tool_result_def)
  have first: "first_content ?cs = cmr_content r" using ok(2) by (simp add: contents_shape_ok_def)
  show ?thesis
    using f x ok roles first item_list_roundtrip [OF ok(2)] by (simp add: create_message_result_from_json_def)
qed

text \<open>Sampling params and results are read back as they were written; a message or a result that
  holds a single block without a list of contents comes back with a list of that block.\<close>

theorem sampling_roundtrips:
  assumes "create_message_params_ok p" "create_message_result_ok r"
  shows "create_message_params_from_json (create_message_params_to_json p) =
      Inr (p\<lparr>cmp_messages := map listed_message (cmp_messages p)\<rparr>) \<and>
    create_message_result_from_json (create_message_result_to_json r) =
      Inr (r\<lparr>cmr_contents := listed (cmr_content r) (cmr_contents r)\<rparr>)"
  using create_message_params_roundtrip [OF assms(1)] create_message_result_roundtrip [OF assms(2)] by (rule conjI)

definition sample_sampling :: create_message_params where
  "sample_sampling =
     \<lparr>cmp_messages = [sampling_text ''user'' ''hello''], cmp_model_preferences = None, cmp_system_prompt = Some ''be brief'',
      cmp_include_context = Some ''none'', cmp_temperature = Some 0, cmp_max_tokens = 100, cmp_stop_sequences = [''.''],
      cmp_metadata = empty_object, cmp_task = None, cmp_meta = None, cmp_tools = [], cmp_tool_choice = None,
      cmp_extensions = empty_object\<rparr>"

lemma text_item_ok: "item_ok (from_content (text_content s))"
  by (auto simp: item_ok_def from_content_def text_content_def block_ok_def block_shape_ok_def text_ok_def plain_ok_def
      block_annotations_ok_def object_meta_ok_def)

lemma text_shape_ok: "contents_shape_ok (text_content s) []"
  using text_item_ok by (simp add: contents_shape_ok_def listed_def first_content_def) (simp add: from_content_def)

lemma sample_sampling_ok: "create_message_params_ok sample_sampling"
  by (simp add: create_message_params_ok_def sample_sampling_def sampling_message_ok_def sampling_text_def text_shape_ok
      role_valid_iff well_placed_def tool_events_def balanced_def sampling_include_context_is_valid_def
      context_inclusion_from_string_def double_is_finite_def object_meta_ok_def)

theorem sampling_roundtrips_witness:
  "create_message_params_from_json (create_message_params_to_json sample_sampling) =
     Inr (sample_sampling\<lparr>cmp_messages := [(sampling_text ''user'' ''hello'')\<lparr>sm_contents := [from_content (text_content ''hello'')]\<rparr>]\<rparr>)"
proof -
  have "create_message_result_ok \<lparr>cmr_role = ''assistant'', cmr_content = text_content ''hi'', cmr_contents = [],
      cmr_model = ''m'', cmr_stop_reason = '''', cmr_meta = None, cmr_extensions = empty_object\<rparr>"
    by (simp add: create_message_result_ok_def text_shape_ok object_meta_ok_def)
  from sampling_roundtrips [OF sample_sampling_ok this] show ?thesis
    by (simp add: sample_sampling_def listed_message_def sampling_text_def listed_def)
qed

end
