(* ===== verification/Elicitation.thy ===== *)
theory Elicitation
  imports Sampling_Protocol
begin

text \<open>
  src/sdk/protocol/include/cxxmcp/protocol/elicitation.hpp: the schemas a server sends with
  \<open>elicitation/create\<close>, the request and its result, the validation of accepted content against the
  schema and the builder of schemas. (The completion notification is in Server.)
\<close>

section \<open>Schemas\<close>

datatype elicitation_action = Accept | Decline | Cancel

datatype elicitation_mode = Form | Url

record string_schema =
  ss_title :: "string option"
  ss_description :: "string option"
  ss_format :: "string option"
  ss_min_length :: "int64 option"
  ss_max_length :: "int64 option"
  ss_default :: "string option"
  ss_extensions :: json

record number_schema =
  ns_title :: "string option"
  ns_description :: "string option"
  ns_minimum :: "64 word option"
  ns_maximum :: "64 word option"
  ns_default :: "64 word option"
  ns_extensions :: json

record integer_schema =
  is_title :: "string option"
  is_description :: "string option"
  is_minimum :: "int64 option"
  is_maximum :: "int64 option"
  is_default :: "int64 option"
  is_extensions :: json

record boolean_schema =
  bs_title :: "string option"
  bs_description :: "string option"
  bs_default :: "bool option"
  bs_extensions :: json

record enum_schema =
  es_title :: "string option"
  es_description :: "string option"
  es_values :: "string list"
  es_enum_names :: "string list"
  es_value_titles :: "string list"
  es_titled_single_select :: bool
  es_multi_select :: bool
  es_min_items :: "int64 option"
  es_max_items :: "int64 option"
  es_default :: "string option"
  es_defaults :: "string list"
  es_extensions :: json

datatype primitive_schema =
    StringS string_schema
  | NumberS number_schema
  | IntegerS integer_schema
  | BooleanS boolean_schema
  | EnumS enum_schema

record elicitation_schema =
  el_title :: "string option"
  el_description :: "string option"
  el_properties :: "primitive_schema alist"
  el_required :: "string list"
  el_extensions :: json

definition empty_string_schema :: string_schema where
  "empty_string_schema = \<lparr>ss_title = None, ss_description = None, ss_format = None, ss_min_length = None,
     ss_max_length = None, ss_default = None, ss_extensions = empty_object\<rparr>"

definition empty_number_schema :: number_schema where
  "empty_number_schema = \<lparr>ns_title = None, ns_description = None, ns_minimum = None, ns_maximum = None,
     ns_default = None, ns_extensions = empty_object\<rparr>"

definition empty_integer_schema :: integer_schema where
  "empty_integer_schema = \<lparr>is_title = None, is_description = None, is_minimum = None, is_maximum = None,
     is_default = None, is_extensions = empty_object\<rparr>"

definition empty_boolean_schema :: boolean_schema where
  "empty_boolean_schema = \<lparr>bs_title = None, bs_description = None, bs_default = None, bs_extensions = empty_object\<rparr>"

definition empty_enum_schema :: enum_schema where
  "empty_enum_schema = \<lparr>es_title = None, es_description = None, es_values = [], es_enum_names = [],
     es_value_titles = [], es_titled_single_select = False, es_multi_select = False, es_min_items = None,
     es_max_items = None, es_default = None, es_defaults = [], es_extensions = empty_object\<rparr>"

definition empty_elicitation_schema :: elicitation_schema where
  "empty_elicitation_schema = \<lparr>el_title = None, el_description = None, el_properties = [], el_required = [],
     el_extensions = empty_object\<rparr>"

definition new_string :: "string option \<Rightarrow> string option \<Rightarrow> string option \<Rightarrow> int64 option \<Rightarrow> int64 option \<Rightarrow>
    string option \<Rightarrow> string_schema" where
  "new_string title description format min_length max_length default_value =
     \<lparr>ss_title = title, ss_description = description, ss_format = format, ss_min_length = min_length,
      ss_max_length = max_length, ss_default = default_value, ss_extensions = empty_object\<rparr>"

definition new_number :: "string option \<Rightarrow> string option \<Rightarrow> 64 word option \<Rightarrow> 64 word option \<Rightarrow> 64 word option \<Rightarrow>
    number_schema" where
  "new_number title description lo hi default_value =
     \<lparr>ns_title = title, ns_description = description, ns_minimum = lo, ns_maximum = hi, ns_default = default_value,
      ns_extensions = empty_object\<rparr>"

definition new_integer :: "string option \<Rightarrow> string option \<Rightarrow> int64 option \<Rightarrow> int64 option \<Rightarrow> int64 option \<Rightarrow>
    integer_schema" where
  "new_integer title description lo hi default_value =
     \<lparr>is_title = title, is_description = description, is_minimum = lo, is_maximum = hi, is_default = default_value,
      is_extensions = empty_object\<rparr>"

definition new_boolean :: "string option \<Rightarrow> string option \<Rightarrow> bool option \<Rightarrow> boolean_schema" where
  "new_boolean title description default_value =
     \<lparr>bs_title = title, bs_description = description, bs_default = default_value, bs_extensions = empty_object\<rparr>"

definition new_enum :: "string list \<Rightarrow> string option \<Rightarrow> string option \<Rightarrow> string option \<Rightarrow> enum_schema" where
  "new_enum values title description default_value =
     empty_enum_schema\<lparr>es_values := values, es_title := title, es_description := description, es_default := default_value\<rparr>"

record create_elicitation_request =
  er_message :: string
  er_mode :: elicitation_mode
  er_elicitation_id :: "string option"
  er_url :: "string option"
  er_schema :: elicitation_schema
  er_request_state :: "json option"
  er_task :: "task_request_parameters option"
  er_meta :: "json option"
  er_extensions :: json

record create_elicitation_result =
  ers_action :: elicitation_action
  ers_content :: "json option"
  ers_meta :: "json option"
  ers_extensions :: json

fun elicitation_action_to_string :: "elicitation_action \<Rightarrow> string" where
  "elicitation_action_to_string Accept = ''accept''"
| "elicitation_action_to_string Decline = ''decline''"
| "elicitation_action_to_string Cancel = ''cancel''"

definition elicitation_action_from_string :: "string \<Rightarrow> elicitation_action option" where
  "elicitation_action_from_string s =
     (if s = ''accept'' then Some Accept else if s = ''decline'' then Some Decline
      else if s = ''cancel'' then Some Cancel else None)"

fun elicitation_mode_to_string :: "elicitation_mode \<Rightarrow> string" where
  "elicitation_mode_to_string Form = ''form''"
| "elicitation_mode_to_string Url = ''url''"

definition elicitation_mode_from_string :: "string \<Rightarrow> elicitation_mode option" where
  "elicitation_mode_from_string s =
     (if s = ''form'' then Some Form else if s = ''url'' then Some Url else None)"

definition elicitation_string_format_is_supported :: "string \<Rightarrow> bool" where
  "elicitation_string_format_is_supported s \<longleftrightarrow>
     s = ''email'' \<or> s = ''uri'' \<or> s = ''date'' \<or> s = ''date-time''"

section \<open>Writing schemas\<close>

definition texts_to_json :: "string \<Rightarrow> string option \<Rightarrow> string option \<Rightarrow> json" where
  "texts_to_json t title description =
     jset_opt (jset_opt (jset empty_object ''type'' (JString t)) ''title'' (map_option JString title))
       ''description'' (map_option JString description)"

definition string_schema_to_json :: "string_schema \<Rightarrow> json" where
  "string_schema_to_json s =
     append_json_extensions
       (jset_opt (jset_opt (jset_opt (jset_opt (texts_to_json ''string'' (ss_title s) (ss_description s))
          ''format'' (map_option JString (ss_format s)))
          ''minLength'' (map_option JInt (ss_min_length s)))
          ''maxLength'' (map_option JInt (ss_max_length s)))
          ''default'' (map_option JString (ss_default s)))
       (ss_extensions s)"

definition number_schema_to_json :: "number_schema \<Rightarrow> json" where
  "number_schema_to_json s =
     append_json_extensions
       (jset_opt (jset_opt (jset_opt (texts_to_json ''number'' (ns_title s) (ns_description s))
          ''minimum'' (map_option JFloat (ns_minimum s)))
          ''maximum'' (map_option JFloat (ns_maximum s)))
          ''default'' (map_option JFloat (ns_default s)))
       (ns_extensions s)"

definition integer_schema_to_json :: "integer_schema \<Rightarrow> json" where
  "integer_schema_to_json s =
     append_json_extensions
       (jset_opt (jset_opt (jset_opt (texts_to_json ''integer'' (is_title s) (is_description s))
          ''minimum'' (map_option JInt (is_minimum s)))
          ''maximum'' (map_option JInt (is_maximum s)))
          ''default'' (map_option JInt (is_default s)))
       (is_extensions s)"

definition boolean_schema_to_json :: "boolean_schema \<Rightarrow> json" where
  "boolean_schema_to_json s =
     append_json_extensions
       (jset_opt (texts_to_json ''boolean'' (bs_title s) (bs_description s))
          ''default'' (map_option JBool (bs_default s)))
       (bs_extensions s)"

text \<open>The entries of \<open>anyOf\<close> and \<open>oneOf\<close>; the lists have the same length where it is called.\<close>

definition titled_choices :: "string list \<Rightarrow> string list \<Rightarrow> json" where
  "titled_choices values titles =
     JArray (map (\<lambda>(v, t). JObject [(''const'', JString v), (''title'', JString t)]) (zip values titles))"

definition titles_match :: "enum_schema \<Rightarrow> bool" where
  "titles_match s \<longleftrightarrow> es_value_titles s \<noteq> [] \<and> length (es_value_titles s) = length (es_values s)"

definition enum_choices :: "enum_schema \<Rightarrow> json" where
  "enum_choices s =
     (if es_multi_select s then
        jset_opt (jset_opt (jset_opt (jset (jset empty_object ''type'' (JString ''array''))
          ''items'' (if titles_match s then JObject [(''anyOf'', titled_choices (es_values s) (es_value_titles s))]
                     else JObject [(''enum'', JArray (map JString (es_values s))), (''type'', JString ''string'')]))
          ''minItems'' (map_option JInt (es_min_items s)))
          ''maxItems'' (map_option JInt (es_max_items s)))
          ''default'' (nonempty_array JString (es_defaults s))
      else if es_titled_single_select s \<and> titles_match s then
        jset (jset empty_object ''type'' (JString ''string''))
          ''oneOf'' (titled_choices (es_values s) (es_value_titles s))
      else
        jset_opt (jset (jset empty_object ''type'' (JString ''string'')) ''enum'' (JArray (map JString (es_values s))))
          ''enumNames'' (nonempty_array JString (es_enum_names s)))"

definition enum_schema_to_json :: "enum_schema \<Rightarrow> json" where
  "enum_schema_to_json s =
     append_json_extensions
       (jset_opt (jset_opt (jset_opt (enum_choices s)
          ''title'' (map_option JString (es_title s)))
          ''description'' (map_option JString (es_description s)))
          ''default'' (if es_multi_select s then None else map_option JString (es_default s)))
       (es_extensions s)"

fun primitive_schema_to_json :: "primitive_schema \<Rightarrow> json" where
  "primitive_schema_to_json (StringS s) = string_schema_to_json s"
| "primitive_schema_to_json (NumberS s) = number_schema_to_json s"
| "primitive_schema_to_json (IntegerS s) = integer_schema_to_json s"
| "primitive_schema_to_json (BooleanS s) = boolean_schema_to_json s"
| "primitive_schema_to_json (EnumS s) = enum_schema_to_json s"

definition elicitation_schema_to_json :: "elicitation_schema \<Rightarrow> json" where
  "elicitation_schema_to_json s =
     append_json_extensions
       (jset_opt (jset (texts_to_json ''object'' (el_title s) (el_description s))
          ''properties'' (JObject (map (\<lambda>(name, p). (name, primitive_schema_to_json p)) (el_properties s))))
          ''required'' (nonempty_array JString (el_required s)))
       (el_extensions s)"

section \<open>Reading schemas\<close>

definition elicitation_json_error :: "string \<Rightarrow> core_error" where
  "elicitation_json_error msg = mk_error (error_code InvalidRequest) msg '''' ''''"

text \<open>A message about a kind of schema, as in \<^emph>\<open>elicitation string title must be a string\<close>.\<close>

definition about :: "string \<Rightarrow> string \<Rightarrow> core_error" where
  "about what msg = elicitation_json_error (''elicitation '' @ what @ '' '' @ msg)"

definition text_member :: "json \<Rightarrow> string \<Rightarrow> string \<Rightarrow> string option result" where
  "text_member j what k =
     rbind (optional_member is_string j k (about what (k @ '' must be a string''))) (\<lambda>v. Inr (map_option string_of v))"

definition string_item :: "core_error \<Rightarrow> json \<Rightarrow> string result" where
  "string_item e item = (case get_string item of None \<Rightarrow> Inl e | Some s \<Rightarrow> Inr s)"

definition parse_titled_enum_choices :: "json \<Rightarrow> string \<Rightarrow> (string list \<times> string list) result" where
  "parse_titled_enum_choices choices ctx =
     (case choices of
        JArray items \<Rightarrow>
          rbind (map_result (\<lambda>c. case (jfind c ''const'', jfind c ''title'') of
                               (Some (JString v), Some (JString t)) \<Rightarrow> Inr (v, t)
                             | _ \<Rightarrow> Inl (elicitation_json_error (ctx @ '' entries require string const and title''))) items)
            (\<lambda>vts. Inr (map fst vts, map snd vts))
      | _ \<Rightarrow> Inl (elicitation_json_error (ctx @ '' must be an array'')))"

definition enum_values_are_allowed :: "string list \<Rightarrow> string list \<Rightarrow> bool" where
  "enum_values_are_allowed allowed values \<longleftrightarrow> (\<forall>v\<in>set values. v \<in> set allowed)"

text \<open>\<open>minItems\<close>, \<open>maxItems\<close>, \<open>minLength\<close> and \<open>maxLength\<close>.\<close>

definition bound_member :: "json \<Rightarrow> string \<Rightarrow> string \<Rightarrow> int64 option result" where
  "bound_member j what k =
     (case jfind j k of
        None \<Rightarrow> Inr None
      | Some v \<Rightarrow>
          (case get_int64 v of
             None \<Rightarrow> Inl (about what (k @ '' must be an integer''))
           | Some n \<Rightarrow> if sint n < 0 then Inl (about what (k @ '' must be non-negative'')) else Inr (Some n)))"

definition sizes_ordered :: "int64 option \<Rightarrow> int64 option \<Rightarrow> bool" where
  "sizes_ordered lo hi \<longleftrightarrow> (case (lo, hi) of (Some a, Some b) \<Rightarrow> sint a \<le> sint b | _ \<Rightarrow> True)"

definition string_array :: "json \<Rightarrow> core_error \<Rightarrow> core_error \<Rightarrow> string list result" where
  "string_array v not_array not_string =
     (case v of JArray items \<Rightarrow> map_result (string_item not_string) items | _ \<Rightarrow> Inl not_array)"

definition multi_choices :: "json \<Rightarrow> (string list \<times> string list) result" where
  "multi_choices items =
     (let err = about ''multi-select'' in
      if (case jfind items ''type'' of None \<Rightarrow> False | Some t \<Rightarrow> t \<noteq> JString ''string'')
      then Inl (err ''items type must be string'')
      else case jfind items ''enum'' of
        Some v \<Rightarrow>
          rbind (string_array v (err ''enum must be an array'') (err ''enum values must be strings'')) (\<lambda>vs. Inr (vs, []))
      | None \<Rightarrow>
          (case jfind items ''anyOf'' of
             Some c \<Rightarrow> parse_titled_enum_choices c ''elicitation multi-select choices''
           | None \<Rightarrow>
               (case jfind items ''oneOf'' of
                  Some c \<Rightarrow> parse_titled_enum_choices c ''elicitation multi-select choices''
                | None \<Rightarrow> Inl (err ''requires enum, anyOf, or oneOf items''))))"

definition multi_keys :: "string list" where
  "multi_keys = [''type'', ''title'', ''description'', ''minItems'', ''maxItems'', ''items'', ''default'']"

definition multi_defaults :: "json \<Rightarrow> string list \<Rightarrow> string list result" where
  "multi_defaults j values =
     (case jfind j ''default'' of
        None \<Rightarrow> Inr []
      | Some v \<Rightarrow>
          rbind (string_array v (about ''multi-select'' ''default must be an array'')
                   (about ''multi-select'' ''default values must be strings'')) (\<lambda>ds.
            if \<not> enum_values_are_allowed values ds then Inl (about ''multi-select'' ''default must match enum values'')
            else Inr ds))"

definition multi_select_from_json :: "json \<Rightarrow> enum_schema result" where
  "multi_select_from_json j =
     rbind (text_member j ''multi-select'' ''title'') (\<lambda>title.
     rbind (text_member j ''multi-select'' ''description'') (\<lambda>description.
     rbind (required_member is_object j ''items'' (about ''multi-select'' ''requires items'')) (\<lambda>items.
     rbind (multi_choices items) (\<lambda>(values, titles).
     rbind (bound_member j ''multi-select'' ''minItems'') (\<lambda>lo.
     rbind (bound_member j ''multi-select'' ''maxItems'') (\<lambda>hi.
       if \<not> sizes_ordered lo hi then Inl (about ''multi-select'' ''minItems must be <= maxItems'')
       else
         rbind (multi_defaults j values) (\<lambda>defaults.
           Inr (empty_enum_schema\<lparr>es_multi_select := True, es_title := title, es_description := description,
             es_values := values, es_value_titles := titles, es_min_items := lo, es_max_items := hi,
             es_defaults := defaults, es_extensions := collect_json_extensions j multi_keys\<rparr>))))))))"

text \<open>The default of a single choice.\<close>

definition choice_default :: "json \<Rightarrow> string \<Rightarrow> string list \<Rightarrow> string option result" where
  "choice_default j what values =
     rbind (text_member j what ''default'') (\<lambda>d.
       case d of
         None \<Rightarrow> Inr None
       | Some v \<Rightarrow> if v \<notin> set values then Inl (about what ''default must match an enum value'') else Inr (Some v))"

definition titled_enum_keys :: "string list" where
  "titled_enum_keys = [''type'', ''title'', ''description'', ''oneOf'', ''default'']"

definition titled_enum_from_json :: "json \<Rightarrow> json \<Rightarrow> enum_schema result" where
  "titled_enum_from_json j choices =
     rbind (text_member j ''titled enum'' ''title'') (\<lambda>title.
     rbind (text_member j ''titled enum'' ''description'') (\<lambda>description.
     rbind (parse_titled_enum_choices choices ''elicitation titled enum oneOf'') (\<lambda>(values, titles).
     rbind (choice_default j ''titled enum'' values) (\<lambda>d.
       Inr (empty_enum_schema\<lparr>es_titled_single_select := True, es_title := title, es_description := description,
         es_values := values, es_value_titles := titles, es_default := d,
         es_extensions := collect_json_extensions j titled_enum_keys\<rparr>)))))"

definition enum_keys :: "string list" where
  "enum_keys = [''type'', ''title'', ''description'', ''enum'', ''enumNames'', ''default'']"

definition enum_names_member :: "json \<Rightarrow> string list \<Rightarrow> string list result" where
  "enum_names_member j values =
     (case jfind j ''enumNames'' of
        None \<Rightarrow> Inr []
      | Some v \<Rightarrow>
          rbind (string_array v (elicitation_json_error ''elicitation enumNames must be an array'')
                   (elicitation_json_error ''elicitation enumNames entries must be strings'')) (\<lambda>names.
            if length names \<noteq> length values
            then Inl (elicitation_json_error ''elicitation enumNames size must match enum values'')
            else Inr names))"

definition plain_enum_from_json :: "json \<Rightarrow> json list \<Rightarrow> enum_schema result" where
  "plain_enum_from_json j items =
     rbind (text_member j ''enum'' ''title'') (\<lambda>title.
     rbind (text_member j ''enum'' ''description'') (\<lambda>description.
     rbind (map_result (string_item (about ''enum'' ''values must be strings'')) items) (\<lambda>values.
     rbind (enum_names_member j values) (\<lambda>names.
     rbind (choice_default j ''enum'' values) (\<lambda>d.
       Inr (empty_enum_schema\<lparr>es_title := title, es_description := description, es_values := values,
         es_enum_names := names, es_default := d, es_extensions := collect_json_extensions j enum_keys\<rparr>))))))"

definition string_schema_keys :: "string list" where
  "string_schema_keys = [''type'', ''title'', ''description'', ''format'', ''minLength'', ''maxLength'', ''default'']"

definition format_member :: "json \<Rightarrow> string option result" where
  "format_member j =
     rbind (text_member j ''string'' ''format'') (\<lambda>f.
       case f of
         None \<Rightarrow> Inr None
       | Some s \<Rightarrow>
           if \<not> elicitation_string_format_is_supported s then Inl (about ''string'' ''format is not supported'')
           else Inr (Some s))"

definition string_schema_from_json :: "json \<Rightarrow> string_schema result" where
  "string_schema_from_json j =
     rbind (text_member j ''string'' ''title'') (\<lambda>title.
     rbind (text_member j ''string'' ''description'') (\<lambda>description.
     rbind (format_member j) (\<lambda>format.
     rbind (bound_member j ''string'' ''minLength'') (\<lambda>lo.
     rbind (bound_member j ''string'' ''maxLength'') (\<lambda>hi.
       if \<not> sizes_ordered lo hi then Inl (about ''string'' ''minLength must be <= maxLength'')
       else
         rbind (text_member j ''string'' ''default'') (\<lambda>d.
           Inr \<lparr>ss_title = title, ss_description = description, ss_format = format, ss_min_length = lo,
             ss_max_length = hi, ss_default = d, ss_extensions = collect_json_extensions j string_schema_keys\<rparr>))))))"

definition numeric_keys :: "string list" where
  "numeric_keys = [''type'', ''title'', ''description'', ''minimum'', ''maximum'', ''default'']"

definition double_member :: "json \<Rightarrow> string \<Rightarrow> (64 word) option result" where
  "double_member j k =
     (case jfind j k of
        None \<Rightarrow> Inr None
      | Some v \<Rightarrow>
          (case get_double v of
             None \<Rightarrow> Inl (about ''number'' (k @ '' must be numeric''))
           | Some d \<Rightarrow> if \<not> double_is_finite d then Inl (about ''number'' (k @ '' must be finite'')) else Inr (Some d)))"

definition number_schema_from_json :: "json \<Rightarrow> number_schema result" where
  "number_schema_from_json j =
     rbind (text_member j ''number'' ''title'') (\<lambda>title.
     rbind (text_member j ''number'' ''description'') (\<lambda>description.
     rbind (double_member j ''minimum'') (\<lambda>lo.
     rbind (double_member j ''maximum'') (\<lambda>hi.
     rbind (double_member j ''default'') (\<lambda>d.
       Inr \<lparr>ns_title = title, ns_description = description, ns_minimum = lo, ns_maximum = hi, ns_default = d,
         ns_extensions = collect_json_extensions j numeric_keys\<rparr>)))))"

definition integer_member :: "json \<Rightarrow> string \<Rightarrow> int64 option result" where
  "integer_member j k =
     (case jfind j k of
        None \<Rightarrow> Inr None
      | Some v \<Rightarrow>
          (case get_int64 v of
             None \<Rightarrow> Inl (about ''integer'' (k @ '' must be an integer''))
           | Some n \<Rightarrow> Inr (Some n)))"

definition integer_schema_from_json :: "json \<Rightarrow> integer_schema result" where
  "integer_schema_from_json j =
     rbind (text_member j ''integer'' ''title'') (\<lambda>title.
     rbind (text_member j ''integer'' ''description'') (\<lambda>description.
     rbind (integer_member j ''minimum'') (\<lambda>lo.
     rbind (integer_member j ''maximum'') (\<lambda>hi.
     rbind (integer_member j ''default'') (\<lambda>d.
       Inr \<lparr>is_title = title, is_description = description, is_minimum = lo, is_maximum = hi, is_default = d,
         is_extensions = collect_json_extensions j numeric_keys\<rparr>)))))"

definition boolean_schema_keys :: "string list" where
  "boolean_schema_keys = [''type'', ''title'', ''description'', ''default'']"

definition boolean_schema_from_json :: "json \<Rightarrow> boolean_schema result" where
  "boolean_schema_from_json j =
     rbind (text_member j ''boolean'' ''title'') (\<lambda>title.
     rbind (text_member j ''boolean'' ''description'') (\<lambda>description.
     rbind (optional_member is_boolean j ''default'' (about ''boolean'' ''default must be a boolean'')) (\<lambda>d.
       Inr \<lparr>bs_title = title, bs_description = description, bs_default = map_option bool_of d,
         bs_extensions = collect_json_extensions j boolean_schema_keys\<rparr>)))"

definition rmap :: "('a \<Rightarrow> 'b) \<Rightarrow> 'a result \<Rightarrow> 'b result" where
  "rmap f r = rbind r (\<lambda>x. Inr (f x))"

definition primitive_schema_from_json :: "json \<Rightarrow> primitive_schema result" where
  "primitive_schema_from_json j =
     (if \<not> is_object j then Inl (about ''property schema'' ''must be an object'')
      else
        rbind (required_member is_string j ''type'' (about ''property schema'' ''requires a string type'')) (\<lambda>tv.
          let t = string_of tv in
          if t = ''array'' then rmap EnumS (multi_select_from_json j)
          else case jfind j ''oneOf'' of
            Some choices \<Rightarrow>
              if t \<noteq> ''string'' then Inl (about ''titled enum'' ''type must be string'')
              else rmap EnumS (titled_enum_from_json j choices)
          | None \<Rightarrow>
              (case jfind j ''enum'' of
                 Some v \<Rightarrow>
                   if t \<noteq> ''string'' then Inl (about ''enum'' ''type must be string'')
                   else (case v of
                           JArray items \<Rightarrow> rmap EnumS (plain_enum_from_json j items)
                         | _ \<Rightarrow> Inl (about ''enum'' ''must be an array''))
               | None \<Rightarrow>
                   if t = ''string'' then rmap StringS (string_schema_from_json j)
                   else if t = ''number'' then rmap NumberS (number_schema_from_json j)
                   else if t = ''integer'' then rmap IntegerS (integer_schema_from_json j)
                   else if t = ''boolean'' then rmap BooleanS (boolean_schema_from_json j)
                   else Inl (about ''property'' ''type is not supported''))))"

definition elicitation_schema_keys :: "string list" where
  "elicitation_schema_keys = [''type'', ''title'', ''description'', ''properties'', ''required'']"

definition read_property :: "string \<times> json \<Rightarrow> (string \<times> primitive_schema) result" where
  "read_property nv = rmap (\<lambda>p. (fst nv, p)) (primitive_schema_from_json (snd nv))"

definition elicitation_schema_from_json :: "json \<Rightarrow> elicitation_schema result" where
  "elicitation_schema_from_json j =
     (if \<not> is_object j then Inl (about ''schema'' ''must be an object'')
      else if jfind j ''type'' \<noteq> Some (JString ''object'') then Inl (about ''schema'' ''requires type object'')
      else
        rbind (required_member is_object j ''properties'' (about ''schema'' ''requires properties'')) (\<lambda>props.
        rbind (text_member j ''schema'' ''title'') (\<lambda>title.
        rbind (text_member j ''schema'' ''description'') (\<lambda>description.
        rbind (map_result read_property (jmembers props)) (\<lambda>properties.
        rbind (array_member j ''required'' (string_item (about ''schema'' ''required entries must be strings''))
                 (about ''schema'' ''required must be an array'')) (\<lambda>required.
          Inr \<lparr>el_title = title, el_description = description, el_properties = properties, el_required = required,
               el_extensions = collect_json_extensions j elicitation_schema_keys\<rparr>))))))"

section \<open>Requests and results\<close>

text \<open>The unknown members are added before the members that depend on the mode.\<close>

definition create_elicitation_request_param_to_json :: "create_elicitation_request \<Rightarrow> json" where
  "create_elicitation_request_param_to_json r =
     (let j = append_json_extensions
                (jset_opt (jset_opt (jset_opt (jset (jset empty_object ''message'' (JString (er_message r)))
                   ''mode'' (JString (elicitation_mode_to_string (er_mode r))))
                   ''requestState'' (er_request_state r))
                   ''task'' (map_option task_request_parameters_to_json (er_task r)))
                   ''_meta'' (er_meta r))
                (er_extensions r)
      in if er_mode r = Url then
           jset_opt (jset_opt j ''elicitationId'' (map_option JString (er_elicitation_id r)))
             ''url'' (map_option JString (er_url r))
         else jset j ''requestedSchema'' (elicitation_schema_to_json (er_schema r)))"

definition mode_member :: "json \<Rightarrow> elicitation_mode result" where
  "mode_member j =
     rbind (optional_member is_string j ''mode'' (about ''request'' ''mode must be a string'')) (\<lambda>v.
       case v of
         None \<Rightarrow> Inr Form
       | Some s \<Rightarrow>
           (case elicitation_mode_from_string (string_of s) of
              None \<Rightarrow> Inl (about ''request'' ''mode is not supported'')
            | Some m \<Rightarrow> Inr m))"

definition elicitation_request_keys :: "string list" where
  "elicitation_request_keys = [''message'', ''mode'', ''elicitationId'', ''url'', ''requestedSchema'',
     ''requested_schema'', ''requestState'', ''task'', ''_meta'']"

definition requested_schema :: "json \<Rightarrow> json option" where
  "requested_schema j =
     (if jcontains j ''requestedSchema'' then jfind j ''requestedSchema'' else jfind j ''requested_schema'')"

definition create_elicitation_request_param_from_json :: "json \<Rightarrow> create_elicitation_request result" where
  "create_elicitation_request_param_from_json j =
     (let err = about ''request'' in
      if \<not> is_object j then Inl (err ''must be an object'')
      else
        rbind (required_member is_string j ''message'' (err ''requires a string message'')) (\<lambda>message.
        rbind (mode_member j) (\<lambda>mode.
        rbind (task_member j) (\<lambda>task.
        rbind (optional_member is_object j ''_meta'' (err ''_meta must be an object'')) (\<lambda>meta.
          let r = \<lparr>er_message = string_of message, er_mode = mode, er_elicitation_id = None, er_url = None,
                   er_schema = empty_elicitation_schema, er_request_state = jfind j ''requestState'', er_task = task,
                   er_meta = meta, er_extensions = collect_json_extensions j elicitation_request_keys\<rparr>
          in if mode = Url then
               rbind (required_member is_string j ''elicitationId'' (err ''requires elicitationId'')) (\<lambda>i.
               rbind (required_member is_string j ''url'' (err ''requires url'')) (\<lambda>u.
                 Inr (r\<lparr>er_elicitation_id := Some (string_of i), er_url := Some (string_of u)\<rparr>)))
             else
               (case requested_schema j of
                  None \<Rightarrow> Inl (err ''requires requestedSchema'')
                | Some s \<Rightarrow> rbind (elicitation_schema_from_json s) (\<lambda>schema. Inr (r\<lparr>er_schema := schema\<rparr>))))))))"

definition elicitation_result_keys :: "string list" where
  "elicitation_result_keys = [''action'', ''content'', ''_meta'']"

definition create_elicitation_result_to_json :: "create_elicitation_result \<Rightarrow> json" where
  "create_elicitation_result_to_json r =
     append_json_extensions
       (jset_opt (jset_opt (jset empty_object ''action'' (JString (elicitation_action_to_string (ers_action r))))
          ''content'' (ers_content r)) ''_meta'' (ers_meta r))
       (ers_extensions r)"

definition create_elicitation_result_from_json :: "json \<Rightarrow> create_elicitation_result result" where
  "create_elicitation_result_from_json j =
     (if \<not> is_object j then Inl (about ''result'' ''must be an object'')
      else
        rbind (required_member is_string j ''action'' (about ''result'' ''requires a string action'')) (\<lambda>a.
          case elicitation_action_from_string (string_of a) of
            None \<Rightarrow> Inl (elicitation_json_error ''elicitation action is not supported'')
          | Some action \<Rightarrow>
              rbind (optional_member is_object j ''_meta'' (about ''result'' ''_meta must be an object'')) (\<lambda>meta.
                Inr \<lparr>ers_action = action, ers_content = jfind j ''content'', ers_meta = meta,
                     ers_extensions = collect_json_extensions j elicitation_result_keys\<rparr>)))"

section \<open>Validation of content\<close>

text \<open>
  The order of finite and infinite doubles on their bit patterns: sign and magnitude, with both zeros
  equal. A NaN is not less than anything.
\<close>

definition double_is_nan :: "64 word \<Rightarrow> bool" where
  "double_is_nan d \<longleftrightarrow> \<not> double_is_finite d \<and> d AND 0xFFFFFFFFFFFFF \<noteq> 0"

definition double_key :: "64 word \<Rightarrow> int" where
  "double_key d = (if bit d 63 then - uint (d AND 0x7FFFFFFFFFFFFFFF) else uint (d AND 0x7FFFFFFFFFFFFFFF))"

definition double_less :: "64 word \<Rightarrow> 64 word \<Rightarrow> bool" where
  "double_less a b \<longleftrightarrow> \<not> double_is_nan a \<and> \<not> double_is_nan b \<and> double_key a < double_key b"

definition field_error :: "string \<Rightarrow> string \<Rightarrow> core_error" where
  "field_error name msg =
     elicitation_json_error (''elicitation content field '' @ [CHR 0x27] @ name @ [CHR 0x27] @ '' '' @ msg)"

definition check :: "bool \<Rightarrow> core_error \<Rightarrow> unit result" where
  "check ok e = (if ok then Inr () else Inl e)"

definition above_option :: "('a \<Rightarrow> 'b \<Rightarrow> bool) \<Rightarrow> 'b option \<Rightarrow> 'a \<Rightarrow> bool" where
  "above_option violates bound x \<longleftrightarrow> (case bound of None \<Rightarrow> True | Some b \<Rightarrow> \<not> violates x b)"

fun selections_loop :: "string \<Rightarrow> string list \<Rightarrow> json list \<Rightarrow> unit result" where
  "selections_loop name values [] = Inr ()"
| "selections_loop name values (item # items) =
     (case get_string item of
        None \<Rightarrow> Inl (field_error name ''selections must be strings'')
      | Some v \<Rightarrow>
          if v \<notin> set values then Inl (field_error name ''must match enum values'')
          else selections_loop name values items)"

text \<open>A bound on a size is converted to \<open>std::size_t\<close>, so it is compared as an unsigned number.\<close>

definition validate_string :: "string \<Rightarrow> string_schema \<Rightarrow> json \<Rightarrow> unit result" where
  "validate_string name s v =
     (case get_string v of
        None \<Rightarrow> Inl (field_error name ''must be a string'')
      | Some t \<Rightarrow>
          rbind (check (above_option (\<lambda>n b. n < unat b) (ss_min_length s) (length t)) (field_error name ''is shorter than minLength'')) (\<lambda>_.
            check (above_option (\<lambda>n b. unat b < n) (ss_max_length s) (length t)) (field_error name ''is longer than maxLength'')))"

definition validate_number :: "string \<Rightarrow> number_schema \<Rightarrow> json \<Rightarrow> unit result" where
  "validate_number name s v =
     (case get_double v of
        None \<Rightarrow> Inl (field_error name ''must be numeric'')
      | Some d \<Rightarrow>
          rbind (check (double_is_finite d) (field_error name ''must be finite'')) (\<lambda>_.
          rbind (check (above_option double_less (ns_minimum s) d) (field_error name ''is below minimum'')) (\<lambda>_.
            check (above_option (\<lambda>x b. double_less b x) (ns_maximum s) d) (field_error name ''is above maximum''))))"

definition validate_integer :: "string \<Rightarrow> integer_schema \<Rightarrow> json \<Rightarrow> unit result" where
  "validate_integer name s v =
     (case get_int64 v of
        None \<Rightarrow> Inl (field_error name ''must be an integer'')
      | Some i \<Rightarrow>
          rbind (check (above_option (\<lambda>x b. sint x < sint b) (is_minimum s) i) (field_error name ''is below minimum'')) (\<lambda>_.
            check (above_option (\<lambda>x b. sint b < sint x) (is_maximum s) i) (field_error name ''is above maximum'')))"

definition validate_enum :: "string \<Rightarrow> enum_schema \<Rightarrow> json \<Rightarrow> unit result" where
  "validate_enum name s v =
     (if es_multi_select s then
        (case v of
           JArray items \<Rightarrow>
             rbind (check (above_option (\<lambda>n b. n < unat b) (es_min_items s) (length items)) (field_error name ''has too few selections'')) (\<lambda>_.
             rbind (check (above_option (\<lambda>n b. unat b < n) (es_max_items s) (length items)) (field_error name ''has too many selections'')) (\<lambda>_.
               selections_loop name (es_values s) items))
         | _ \<Rightarrow> Inl (field_error name ''must be an array''))
      else
        (case get_string v of
           None \<Rightarrow> Inl (field_error name ''must be a string'')
         | Some t \<Rightarrow> check (t \<in> set (es_values s)) (field_error name ''must match an enum value'')))"

fun validate_elicitation_content_property :: "string \<Rightarrow> primitive_schema \<Rightarrow> json \<Rightarrow> unit result" where
  "validate_elicitation_content_property name (StringS s) v = validate_string name s v"
| "validate_elicitation_content_property name (NumberS s) v = validate_number name s v"
| "validate_elicitation_content_property name (IntegerS s) v = validate_integer name s v"
| "validate_elicitation_content_property name (BooleanS s) v = check (is_boolean v) (field_error name ''must be a boolean'')"
| "validate_elicitation_content_property name (EnumS s) v = validate_enum name s v"

fun required_loop :: "json \<Rightarrow> string list \<Rightarrow> unit result" where
  "required_loop c [] = Inr ()"
| "required_loop c (r # rs) =
     (if \<not> jcontains c r then
        Inl (elicitation_json_error (''elicitation content requires field '' @ [CHR 0x27] @ r @ [CHR 0x27]))
      else required_loop c rs)"

fun properties_loop :: "json \<Rightarrow> primitive_schema alist \<Rightarrow> unit result" where
  "properties_loop c [] = Inr ()"
| "properties_loop c ((name, p) # ps) =
     (case jfind c name of
        None \<Rightarrow> properties_loop c ps
      | Some v \<Rightarrow> rbind (validate_elicitation_content_property name p v) (\<lambda>_. properties_loop c ps))"

definition validate_elicitation_content :: "elicitation_schema \<Rightarrow> json \<Rightarrow> unit result" where
  "validate_elicitation_content s c =
     (if \<not> is_object c then Inl (elicitation_json_error ''elicitation content must be an object'')
      else rbind (required_loop c (el_required s)) (\<lambda>_. properties_loop c (el_properties s)))"

definition validate_elicitation_result_content :: "elicitation_schema \<Rightarrow> create_elicitation_result \<Rightarrow> unit result" where
  "validate_elicitation_result_content s r =
     (if ers_action r \<noteq> Accept then Inr ()
      else case ers_content r of
        None \<Rightarrow>
          if el_required s = [] then Inr ()
          else Inl (elicitation_json_error ''accepted elicitation result requires content'')
      | Some c \<Rightarrow> validate_elicitation_content s c)"

section \<open>The builder\<close>

record schema_builder =
  sb_title :: "string option"
  sb_description :: "string option"
  sb_properties :: "primitive_schema alist"
  sb_required :: "string list"

definition builder :: schema_builder where
  "builder = \<lparr>sb_title = None, sb_description = None, sb_properties = [], sb_required = []\<rparr>"

definition validate_name :: "string \<Rightarrow> bool" where
  "validate_name name \<longleftrightarrow> name \<noteq> ''''"

definition builder_title :: "string \<Rightarrow> schema_builder \<Rightarrow> schema_builder" where
  "builder_title v b = b\<lparr>sb_title := Some v\<rparr>"

definition builder_description :: "string \<Rightarrow> schema_builder \<Rightarrow> schema_builder" where
  "builder_description v b = b\<lparr>sb_description := Some v\<rparr>"

definition add_required :: "string \<Rightarrow> primitive_schema \<Rightarrow> schema_builder \<Rightarrow> schema_builder" where
  "add_required name p b =
     b\<lparr>sb_required := sb_required b @ [name], sb_properties := al_set name p (sb_properties b)\<rparr>"

definition add_optional :: "string \<Rightarrow> primitive_schema \<Rightarrow> schema_builder \<Rightarrow> schema_builder" where
  "add_optional name p b = b\<lparr>sb_properties := al_set name p (sb_properties b)\<rparr>"

definition required_property :: "string \<Rightarrow> primitive_schema \<Rightarrow> schema_builder \<Rightarrow> schema_builder" where
  "required_property = add_required"

definition optional_property :: "string \<Rightarrow> primitive_schema \<Rightarrow> schema_builder \<Rightarrow> schema_builder" where
  "optional_property = add_optional"

definition required_string :: "string \<Rightarrow> string option \<Rightarrow> string option \<Rightarrow> schema_builder \<Rightarrow> schema_builder" where
  "required_string name d format b =
     (if \<not> validate_name name then b
      else add_required name (StringS (empty_string_schema\<lparr>ss_default := d, ss_format := format\<rparr>)) b)"

definition optional_string :: "string \<Rightarrow> string option \<Rightarrow> string option \<Rightarrow> schema_builder \<Rightarrow> schema_builder" where
  "optional_string name d format b =
     (if \<not> validate_name name then b
      else add_optional name (StringS (empty_string_schema\<lparr>ss_default := d, ss_format := format\<rparr>)) b)"

definition required_number ::
  "string \<Rightarrow> 64 word option \<Rightarrow> 64 word option \<Rightarrow> 64 word option \<Rightarrow> schema_builder \<Rightarrow> schema_builder" where
  "required_number name lo hi d b =
     (if \<not> validate_name name then b
      else add_required name (NumberS (empty_number_schema\<lparr>ns_minimum := lo, ns_maximum := hi, ns_default := d\<rparr>)) b)"

definition optional_number ::
  "string \<Rightarrow> 64 word option \<Rightarrow> 64 word option \<Rightarrow> 64 word option \<Rightarrow> schema_builder \<Rightarrow> schema_builder" where
  "optional_number name lo hi d b =
     (if \<not> validate_name name then b
      else add_optional name (NumberS (empty_number_schema\<lparr>ns_minimum := lo, ns_maximum := hi, ns_default := d\<rparr>)) b)"

definition required_integer ::
  "string \<Rightarrow> int64 option \<Rightarrow> int64 option \<Rightarrow> int64 option \<Rightarrow> schema_builder \<Rightarrow> schema_builder" where
  "required_integer name lo hi d b =
     (if \<not> validate_name name then b
      else add_required name (IntegerS (empty_integer_schema\<lparr>is_minimum := lo, is_maximum := hi, is_default := d\<rparr>)) b)"

definition optional_integer ::
  "string \<Rightarrow> int64 option \<Rightarrow> int64 option \<Rightarrow> int64 option \<Rightarrow> schema_builder \<Rightarrow> schema_builder" where
  "optional_integer name lo hi d b =
     (if \<not> validate_name name then b
      else add_optional name (IntegerS (empty_integer_schema\<lparr>is_minimum := lo, is_maximum := hi, is_default := d\<rparr>)) b)"

definition required_bool :: "string \<Rightarrow> bool option \<Rightarrow> schema_builder \<Rightarrow> schema_builder" where
  "required_bool name d b =
     (if \<not> validate_name name then b else add_required name (BooleanS (empty_boolean_schema\<lparr>bs_default := d\<rparr>)) b)"

definition optional_bool :: "string \<Rightarrow> bool option \<Rightarrow> schema_builder \<Rightarrow> schema_builder" where
  "optional_bool name d b =
     (if \<not> validate_name name then b else add_optional name (BooleanS (empty_boolean_schema\<lparr>bs_default := d\<rparr>)) b)"

definition required_email :: "string \<Rightarrow> string option \<Rightarrow> schema_builder \<Rightarrow> schema_builder" where
  "required_email name d = required_string name d (Some ''email'')"

definition optional_email :: "string \<Rightarrow> string option \<Rightarrow> schema_builder \<Rightarrow> schema_builder" where
  "optional_email name d = optional_string name d (Some ''email'')"

definition required_enum :: "string \<Rightarrow> string list \<Rightarrow> string option \<Rightarrow> schema_builder \<Rightarrow> schema_builder" where
  "required_enum name values d b =
     (if \<not> validate_name name then b
      else add_required name (EnumS (empty_enum_schema\<lparr>es_values := values, es_default := d\<rparr>)) b)"

definition optional_enum :: "string \<Rightarrow> string list \<Rightarrow> string option \<Rightarrow> schema_builder \<Rightarrow> schema_builder" where
  "optional_enum name values d b =
     (if \<not> validate_name name then b
      else add_optional name (EnumS (empty_enum_schema\<lparr>es_values := values, es_default := d\<rparr>)) b)"

definition build_schema :: "schema_builder \<Rightarrow> elicitation_schema result" where
  "build_schema b =
     (if sb_properties b = [] then Inl (about ''schema'' ''requires at least one property'')
      else Inr \<lparr>el_title = sb_title b, el_description = sb_description b, el_properties = sb_properties b,
                el_required = sb_required b, el_extensions = empty_object\<rparr>)"

section \<open>What validation means\<close>

definition within :: "'b::linorder option \<Rightarrow> 'b option \<Rightarrow> 'b \<Rightarrow> bool" where
  "within lo hi x \<longleftrightarrow> (\<forall>a. lo = Some a \<longrightarrow> a \<le> x) \<and> (\<forall>b. hi = Some b \<longrightarrow> x \<le> b)"

text \<open>
  What a value of the described type is: the sizes and bounds of the schema and the integers of the content are the
  numbers they denote, the sizes of strings are in bytes, and numbers are compared as doubles.
\<close>

fun conforms :: "primitive_schema \<Rightarrow> json \<Rightarrow> bool" where
  "conforms (StringS s) v \<longleftrightarrow>
     (\<exists>t. v = JString t \<and> within (map_option sint (ss_min_length s)) (map_option sint (ss_max_length s)) (int (length t)))"
| "conforms (NumberS s) v \<longleftrightarrow>
     (\<exists>d. get_double v = Some d \<and> double_is_finite d \<and>
          (\<forall>a. ns_minimum s = Some a \<longrightarrow> \<not> double_less d a) \<and> (\<forall>b. ns_maximum s = Some b \<longrightarrow> \<not> double_less b d))"
| "conforms (IntegerS s) v \<longleftrightarrow>
     (\<exists>n. int_value v = Some n \<and> within (map_option sint (is_minimum s)) (map_option sint (is_maximum s)) n)"
| "conforms (BooleanS s) v \<longleftrightarrow> (\<exists>b. v = JBool b)"
| "conforms (EnumS s) v \<longleftrightarrow>
     (if es_multi_select s then
        \<exists>ts. v = JArray (map JString ts) \<and> set ts \<subseteq> set (es_values s) \<and>
             within (map_option sint (es_min_items s)) (map_option sint (es_max_items s)) (int (length ts))
      else \<exists>t. v = JString t \<and> t \<in> set (es_values s))"

definition content_conforms :: "elicitation_schema \<Rightarrow> json \<Rightarrow> bool" where
  "content_conforms s c \<longleftrightarrow>
     is_object c \<and> (\<forall>r\<in>set (el_required s). jcontains c r) \<and>
     (\<forall>(name, p)\<in>set (el_properties s). \<forall>v. jfind c name = Some v \<longrightarrow> conforms p v)"

text \<open>
  What the code accepts: it compares an integer of 2^63 or more as the negative number with the same bits.
\<close>

fun accepted_value :: "primitive_schema \<Rightarrow> json \<Rightarrow> bool" where
  "accepted_value (IntegerS s) v \<longleftrightarrow>
     (\<exists>n. int_value v = Some n \<and>
          within (map_option sint (is_minimum s)) (map_option sint (is_maximum s)) (if n < 2 ^ 63 then n else n - 2 ^ 64))"
| "accepted_value p v \<longleftrightarrow> conforms p v"

definition content_accepted :: "elicitation_schema \<Rightarrow> json \<Rightarrow> bool" where
  "content_accepted s c \<longleftrightarrow>
     is_object c \<and> (\<forall>r\<in>set (el_required s). jcontains c r) \<and>
     (\<forall>(name, p)\<in>set (el_properties s). \<forall>v. jfind c name = Some v \<longrightarrow> accepted_value p v)"

text \<open>No integer field has a value of 2^63 or more.\<close>

definition integers_in_range :: "elicitation_schema \<Rightarrow> json \<Rightarrow> bool" where
  "integers_in_range s c \<longleftrightarrow>
     (\<forall>(name, p)\<in>set (el_properties s). \<forall>i n. p = IntegerS i \<and> Option.bind (jfind c name) int_value = Some n \<longrightarrow> n < 2 ^ 63)"

text \<open>Sizes are not negative, as in every schema that was read from JSON.\<close>

fun sizes_ok :: "primitive_schema \<Rightarrow> bool" where
  "sizes_ok (StringS s) \<longleftrightarrow> pred_option (\<lambda>n. 0 \<le> sint n) (ss_min_length s) \<and> pred_option (\<lambda>n. 0 \<le> sint n) (ss_max_length s)"
| "sizes_ok (EnumS s) \<longleftrightarrow> pred_option (\<lambda>n. 0 \<le> sint n) (es_min_items s) \<and> pred_option (\<lambda>n. 0 \<le> sint n) (es_max_items s)"
| "sizes_ok _ \<longleftrightarrow> True"

definition schema_sizes_ok :: "elicitation_schema \<Rightarrow> bool" where
  "schema_sizes_ok s \<longleftrightarrow> (\<forall>(name, p)\<in>set (el_properties s). sizes_ok p)"

lemma sint_of_uint: "sint (u :: 64 word) = (if uint u < 2 ^ 63 then uint u else uint u - 2 ^ 64)"
proof -
  have "sint u = (uint u + 2 ^ 63) mod 2 ^ 64 - 2 ^ 63"
    by (simp add: sint_uint signed_take_bit_eq_take_bit_shift take_bit_eq_mod)
  moreover have "(uint u + 2 ^ 63) mod 2 ^ 64 = uint u + 2 ^ 63" if "uint u < 2 ^ 63"
    using that by (intro mod_pos_pos_trivial) simp_all
  moreover have "(uint u + 2 ^ 63) mod 2 ^ 64 = uint u - 2 ^ 63" if "\<not> uint u < 2 ^ 63"
  proof -
    have "(uint u + 2 ^ 63) mod 2 ^ 64 = (uint u - 2 ^ 63 + 2 ^ 64) mod 2 ^ 64" by (simp add: add.commute)
    also have "\<dots> = uint u - 2 ^ 63"
      using that uint_lt2p [of u] unfolding mod_add_self2 by (intro mod_pos_pos_trivial) simp_all
    finally show ?thesis .
  qed
  ultimately show ?thesis by auto
qed

lemma read_integer:
  "map_option sint (get_int64 v) = map_option (\<lambda>n. if n < 2 ^ 63 then n else n - 2 ^ 64) (int_value v)"
proof -
  have "sint (i :: 64 word) < 2 ^ 63" for i using sint_lt [of i] by simp
  then show ?thesis by (cases v) (simp_all add: sint_of_uint)
qed

lemma size_value: "0 \<le> sint (b :: 64 word) \<Longrightarrow> int (unat b) = sint b"
  using uint_lt2p [of b] by (simp add: sint_of_uint split: if_splits)

lemma size_compare: "0 \<le> sint (b :: 64 word) \<Longrightarrow> (n < unat b \<longleftrightarrow> int n < sint b) \<and> (unat b < n \<longleftrightarrow> sint b < int n)"
  using size_value [of b] by (metis of_nat_less_iff)

lemma size_checks:
  "pred_option (\<lambda>n. 0 \<le> sint n) lo \<Longrightarrow> pred_option (\<lambda>n. 0 \<le> sint n) hi \<Longrightarrow>
   above_option (\<lambda>n b. n < unat b) lo n \<and> above_option (\<lambda>n b. unat b < n) hi n \<longleftrightarrow>
   within (map_option sint (lo :: 64 word option)) (map_option sint (hi :: 64 word option)) (int n)"
  by (cases lo; cases hi) (auto simp: within_def above_option_def size_compare)

lemma check_iff [simp]: "check ok e = Inr () \<longleftrightarrow> ok"
  by (simp add: check_def)

lemma rbind_unit: "rbind r (\<lambda>_. s) = Inr () \<longleftrightarrow> r = Inr () \<and> s = Inr ()"
  by (cases r) auto

lemma within_iff:
  "within (map_option f lo) (map_option g hi) (h x) \<longleftrightarrow>
   above_option (\<lambda>x b. h x < f b) lo x \<and> above_option (\<lambda>x b. g b < h x) hi x"
  by (cases lo; cases hi) (auto simp: within_def above_option_def)

lemma selections_loop_iff:
  "selections_loop name values items = Inr () \<longleftrightarrow> (\<exists>ts. items = map JString ts \<and> set ts \<subseteq> set values)"
proof (induction items)
  case (Cons i items)
  show ?case
  proof (cases "get_string i")
    case None
    then show ?thesis by (cases i) auto
  next
    case (Some t)
    then have i: "i = JString t" by (simp add: get_string_Some)
    show ?thesis
    proof
      assume "selections_loop name values (i # items) = Inr ()"
      then obtain ts where "items = map JString ts" "set ts \<subseteq> set values" "t \<in> set values"
        using Cons i by (auto split: if_splits)
      then have "i # items = map JString (t # ts) \<and> set (t # ts) \<subseteq> set values" using i by simp
      then show "\<exists>ts. i # items = map JString ts \<and> set ts \<subseteq> set values" by (rule exI)
    next
      assume "\<exists>ts. i # items = map JString ts \<and> set ts \<subseteq> set values"
      then show "selections_loop name values (i # items) = Inr ()" using Cons i by (auto simp: Cons_eq_map_conv)
    qed
  qed
qed simp

lemma validate_integer_iff: "validate_integer name s v = Inr () \<longleftrightarrow> accepted_value (IntegerS s) v"
proof (cases "get_int64 v")
  case None
  then show ?thesis using read_integer [of v] by (simp add: validate_integer_def)
next
  case (Some i)
  then have "accepted_value (IntegerS s) v \<longleftrightarrow> within (map_option sint (is_minimum s)) (map_option sint (is_maximum s)) (sint i)"
    using read_integer [of v] by (cases "int_value v") auto
  then show ?thesis using Some by (simp add: validate_integer_def rbind_unit within_iff)
qed

lemma validate_property_iff:
  assumes "sizes_ok p"
  shows "validate_elicitation_content_property name p v = Inr () \<longleftrightarrow> accepted_value p v"
proof (cases p)
  case (StringS s)
  then show ?thesis
    using assms
    by (cases v) (auto simp: validate_string_def rbind_unit simp flip: size_checks)
next
  case (NumberS s)
  then show ?thesis
    by (cases "get_double v") (auto simp: validate_number_def rbind_unit above_option_def split: option.splits)
next
  case (IntegerS s)
  then show ?thesis by (simp add: validate_integer_iff del: accepted_value.simps)
next
  case (BooleanS s)
  then show ?thesis by (cases v) auto
next
  case (EnumS s)
  show ?thesis
  proof (cases "es_multi_select s")
    case True
    show ?thesis
    proof (cases "is_array v")
      case False
      then show ?thesis using EnumS True by (cases v) (auto simp: validate_enum_def)
    next
      case multi: True
      then obtain items where "v = JArray items" by (auto simp: is_array_iff)
      then show ?thesis using EnumS True assms
        by (auto simp: validate_enum_def rbind_unit selections_loop_iff simp flip: size_checks)
    qed
  next
    case False
    then show ?thesis using EnumS by (cases v) (auto simp: validate_enum_def)
  qed
qed

lemma required_loop_iff: "required_loop c rs = Inr () \<longleftrightarrow> (\<forall>r\<in>set rs. jcontains c r)"
  by (induction rs) auto

lemma properties_loop_checks:
  "properties_loop c ps = Inr () \<longleftrightarrow>
     (\<forall>(name, p)\<in>set ps. \<forall>v. jfind c name = Some v \<longrightarrow> validate_elicitation_content_property name p v = Inr ())"
  by (induction c ps rule: properties_loop.induct) (auto simp: rbind_unit split: option.splits)

lemma validate_content_checks:
  "validate_elicitation_content s c = Inr () \<longleftrightarrow>
     is_object c \<and> (\<forall>r\<in>set (el_required s). jcontains c r) \<and>
     (\<forall>(name, p)\<in>set (el_properties s). \<forall>v. jfind c name = Some v \<longrightarrow> validate_elicitation_content_property name p v = Inr ())"
  by (simp add: validate_elicitation_content_def rbind_unit required_loop_iff properties_loop_checks)

lemma validate_content_iff:
  assumes "schema_sizes_ok s"
  shows "validate_elicitation_content s c = Inr () \<longleftrightarrow> content_accepted s c"
proof -
  have "(\<forall>v. jfind c name = Some v \<longrightarrow> validate_elicitation_content_property name p v = Inr ()) \<longleftrightarrow>
      (\<forall>v. jfind c name = Some v \<longrightarrow> accepted_value p v)" if "(name, p) \<in> set (el_properties s)" for name p
    using that assms by (auto simp: validate_property_iff schema_sizes_ok_def)
  then show ?thesis unfolding validate_content_checks content_accepted_def by (auto split: prod.splits)
qed

lemma accepted_in_range:
  assumes "integers_in_range s c"
  shows "content_accepted s c \<longleftrightarrow> content_conforms s c"
proof -
  have "accepted_value p v \<longleftrightarrow> conforms p v" if "(name, p) \<in> set (el_properties s)" "jfind c name = Some v" for name p v
  proof (cases p)
    case (IntegerS i)
    then have "n < 2 ^ 63" if "int_value v = Some n" for n
      using assms \<open>(name, p) \<in> set (el_properties s)\<close> \<open>jfind c name = Some v\<close> that unfolding integers_in_range_def by fastforce
    then show ?thesis using IntegerS by auto
  qed auto
  then show ?thesis unfolding content_accepted_def content_conforms_def by (auto split: prod.splits)
qed

text \<open>Schemas that were read.\<close>

lemma bound_read: "bound_member j what k = Inr n \<Longrightarrow> pred_option (\<lambda>n. 0 \<le> sint n) n"
  by (cases n) (auto simp: bound_member_def split: option.splits if_splits)

lemma property_read_sizes:
  assumes "primitive_schema_from_json j = Inr p"
  shows "sizes_ok p"
proof -
  have "sizes_ok (EnumS e)" if "multi_select_from_json j = Inr e" for e
    using that by (auto simp: multi_select_from_json_def rbind_eq_Inr split: if_splits dest: bound_read)
  moreover have "sizes_ok (EnumS e)" if "titled_enum_from_json j c = Inr e" for e c
    using that by (auto simp: titled_enum_from_json_def rbind_eq_Inr empty_enum_schema_def)
  moreover have "sizes_ok (EnumS e)" if "plain_enum_from_json j items = Inr e" for e items
    using that by (auto simp: plain_enum_from_json_def rbind_eq_Inr empty_enum_schema_def)
  moreover have "sizes_ok (StringS e)" if "string_schema_from_json j = Inr e" for e
    using that by (auto simp: string_schema_from_json_def rbind_eq_Inr split: if_splits dest: bound_read)
  ultimately show ?thesis
    using assms
    by (auto simp del: sizes_ok.simps(1,2) simp: primitive_schema_from_json_def rbind_eq_Inr rmap_def Let_def
        split: if_splits option.splits json.splits)
qed

lemma schema_read_sizes:
  assumes "elicitation_schema_from_json j = Inr s"
  shows "schema_sizes_ok s"
proof -
  obtain nvs where "map_result read_property nvs = Inr (el_properties s)"
    using assms by (auto simp: elicitation_schema_from_json_def rbind_eq_Inr split: if_splits)
  then have "\<forall>np\<in>set (el_properties s). sizes_ok (snd np)"
    by (rule map_result_all) (auto simp: read_property_def rmap_def rbind_eq_Inr property_read_sizes)
  then show ?thesis by (auto simp: schema_sizes_ok_def)
qed

lemma request_read_sizes:
  assumes "create_elicitation_request_param_from_json j = Inr r"
  shows "schema_sizes_ok (er_schema r)"
proof -
  have "schema_sizes_ok empty_elicitation_schema" by (simp add: schema_sizes_ok_def empty_elicitation_schema_def)
  then show ?thesis
    using assms schema_read_sizes
    by (auto simp: create_elicitation_request_param_from_json_def rbind_eq_Inr Let_def split: if_splits option.splits)
qed

text \<open>C22: what a client may answer to an elicitation whose schema has no negative sizes, as those read from JSON: declining and
  cancelling always pass, accepting
  without content passes when nothing is required, and accepted content passes exactly when it is an
  object with every required field in which every field the schema describes is accepted. When no integer
  field has a value of 2^63 or more, this is conformance to the schema. An integer of 2^63 or more
  is compared as the negative number 2^64 below it: it passes exactly when that number is within the bounds, although
  it conforms exactly when the schema has no maximum.\<close>

theorem elicitation_content_exact:
  assumes "schema_sizes_ok s"
  shows "(validate_elicitation_result_content s r = Inr () \<longleftrightarrow>
      ers_action r \<noteq> Accept \<or> (ers_content r = None \<and> el_required s = []) \<or>
      (\<exists>c. ers_content r = Some c \<and> content_accepted s c)) \<and>
   (\<forall>c. integers_in_range s c \<longrightarrow> (content_accepted s c \<longleftrightarrow> content_conforms s c)) \<and>
   (\<forall>name i u. 2 ^ 63 \<le> uint u \<longrightarrow>
      (validate_elicitation_content_property name (IntegerS i) (JUInt u) = Inr () \<longleftrightarrow>
         within (map_option sint (is_minimum i)) (map_option sint (is_maximum i)) (uint u - 2 ^ 64)) \<and>
      (conforms (IntegerS i) (JUInt u) \<longleftrightarrow> is_maximum i = None))"
proof (intro conjI allI impI)
  show "validate_elicitation_result_content s r = Inr () \<longleftrightarrow>
      ers_action r \<noteq> Accept \<or> (ers_content r = None \<and> el_required s = []) \<or>
      (\<exists>c. ers_content r = Some c \<and> content_accepted s c)"
    by (cases "ers_content r") (auto simp: validate_elicitation_result_content_def validate_content_iff [OF assms])
  show "content_accepted s c \<longleftrightarrow> content_conforms s c" if "integers_in_range s c" for c
    using that by (rule accepted_in_range)
next
  fix name i and u :: "64 word"
  assume u: "2 ^ 63 \<le> uint u"
  then show "validate_elicitation_content_property name (IntegerS i) (JUInt u) = Inr () \<longleftrightarrow>
         within (map_option sint (is_minimum i)) (map_option sint (is_maximum i)) (uint u - 2 ^ 64)"
    using validate_property_iff [of "IntegerS i" name "JUInt u"] by simp
  have "sint b < uint u" for b :: "64 word" using u sint_lt [of b] by simp
  then show "conforms (IntegerS i) (JUInt u) \<longleftrightarrow> is_maximum i = None"
    by (cases "is_maximum i") (auto simp: within_def less_imp_le not_le)
qed

definition sample_age :: integer_schema where
  "sample_age = empty_integer_schema\<lparr>is_maximum := Some 120\<rparr>"

definition sample_form :: elicitation_schema where
  "sample_form = empty_elicitation_schema\<lparr>
     el_properties := [(''age'', IntegerS sample_age), (''name'', StringS (empty_string_schema\<lparr>ss_min_length := Some 1\<rparr>))],
     el_required := [''name'']\<rparr>"

definition sample_count :: integer_schema where
  "sample_count = empty_integer_schema\<lparr>is_minimum := Some 0\<rparr>"

theorem elicitation_content_exact_witness:
  "validate_elicitation_result_content sample_form
     \<lparr>ers_action = Accept, ers_content = Some (JObject [(''age'', JUInt 7), (''name'', JString ''Ada'')]), ers_meta = None,
      ers_extensions = empty_object\<rparr> = Inr () \<and>
   validate_elicitation_content_property ''age'' (IntegerS sample_age) (JUInt (- 1)) = Inr () \<and>
   \<not> conforms (IntegerS sample_age) (JUInt (- 1)) \<and>
   validate_elicitation_content_property ''n'' (IntegerS sample_count) (JUInt (- 1)) \<noteq> Inr () \<and>
   conforms (IntegerS sample_count) (JUInt (- 1))"
proof -
  let ?c = "JObject [(''age'', JUInt 7), (''name'', JString ''Ada'')]"
  let ?r = "\<lparr>ers_action = Accept, ers_content = Some ?c, ers_meta = None, ers_extensions = empty_object\<rparr>"
  have sizes: "schema_sizes_ok sample_form"
    by (simp add: schema_sizes_ok_def sample_form_def empty_elicitation_schema_def empty_string_schema_def)
  note exact = elicitation_content_exact [OF sizes, of ?r]
  have "2 ^ 63 \<le> uint (- 1 :: 64 word)" "uint (- 1 :: 64 word) - 2 ^ 64 = - 1" by code_simp+
  then have big: "(validate_elicitation_content_property name (IntegerS i) (JUInt (- 1)) = Inr () \<longleftrightarrow>
         within (map_option sint (is_minimum i)) (map_option sint (is_maximum i)) (- 1)) \<and>
      (conforms (IntegerS i) (JUInt (- 1)) \<longleftrightarrow> is_maximum i = None)" for name i
    using conjunct2 [OF conjunct2 [OF exact], rule_format, of "- 1" name i] by metis
  have range: "integers_in_range sample_form ?c"
    by (auto simp: integers_in_range_def sample_form_def empty_elicitation_schema_def)
  have "content_conforms sample_form ?c"
    by (simp add: content_conforms_def sample_form_def empty_elicitation_schema_def jcontains_def sample_age_def
        empty_integer_schema_def empty_string_schema_def within_def)
  then have "validate_elicitation_result_content sample_form ?r = Inr ()" using exact range by simp
  moreover have "validate_elicitation_content_property ''age'' (IntegerS sample_age) (JUInt (- 1)) = Inr ()"
    "\<not> conforms (IntegerS sample_age) (JUInt (- 1))"
    "validate_elicitation_content_property ''n'' (IntegerS sample_count) (JUInt (- 1)) \<noteq> Inr ()"
    "conforms (IntegerS sample_count) (JUInt (- 1))"
    using big [of "''age''" sample_age] big [of "''n''" sample_count]
    by (auto simp del: conforms.simps validate_elicitation_content_property.simps
        simp: sample_age_def sample_count_def empty_integer_schema_def within_def)
  ultimately show ?thesis by blast
qed

section \<open>Schemas are read back\<close>

lemma rmap_simps [simp]: "rmap f (Inr x) = Inr (f x)" "rmap f (Inl e) = Inl e"
  by (simp_all add: rmap_def)

lemma text_member_found: "jfind j k = map_option JString v \<Longrightarrow> text_member j what k = Inr v"
  by (cases v) (simp_all add: text_member_def)

lemma bound_member_found:
  "jfind j k = map_option JInt v \<Longrightarrow> pred_option (\<lambda>n. 0 \<le> sint n) v \<Longrightarrow> bound_member j what k = Inr v"
  by (cases v) (simp_all add: bound_member_def)

lemma double_member_found:
  "jfind j k = map_option JFloat v \<Longrightarrow> pred_option double_is_finite v \<Longrightarrow> double_member j k = Inr v"
  by (cases v) (simp_all add: double_member_def)

lemma integer_member_found: "jfind j k = map_option JInt v \<Longrightarrow> integer_member j k = Inr v"
  by (cases v) (simp_all add: integer_member_def)

lemma string_items_found: "map_result (string_item e) (map JString xs) = Inr xs"
  by (rule map_result_written) (simp add: string_item_def)

lemma string_array_found: "string_array (JArray (map JString xs)) e f = Inr xs"
  by (simp add: string_array_def string_items_found)

lemma choices_found:
  assumes "length titles = length values"
  shows "parse_titled_enum_choices (titled_choices values titles) ctx = Inr (values, titles)"
proof -
  have "map_result (\<lambda>c. case (jfind c ''const'', jfind c ''title'') of
          (Some (JString v), Some (JString t)) \<Rightarrow> Inr (v, t)
        | _ \<Rightarrow> Inl (elicitation_json_error (ctx @ '' entries require string const and title'')))
      (map (\<lambda>(v, t). JObject [(''const'', JString v), (''title'', JString t)]) (zip values titles)) = Inr (zip values titles)"
    by (rule map_result_written) auto
  then show ?thesis using assms by (simp add: parse_titled_enum_choices_def titled_choices_def)
qed

text \<open>
  The unknown members of a property schema: none of its own keys, and not \<open>oneOf\<close> or \<open>enum\<close>, which
  would make it another kind of schema.
\<close>

definition property_ext_ok :: "string list \<Rightarrow> json \<Rightarrow> bool" where
  "property_ext_ok ks e \<longleftrightarrow> ext_ok ks e \<and> jfind e ''oneOf'' = None \<and> jfind e ''enum'' = None"

lemma texts_to_json_simps [simp]:
  "jwf (texts_to_json t title d)" "is_object (texts_to_json t title d)"
  by (simp_all add: texts_to_json_def keys_sorted_Cons)

lemma jfind_texts:
  "jfind (texts_to_json t title d) k =
     (if k = ''description'' then map_option JString d else if k = ''title'' then map_option JString title
      else if k = ''type'' then Some (JString t) else None)"
  by (simp add: texts_to_json_def jfind_layers del: jfind_jset_opt)

definition string_schema_ok :: "string_schema \<Rightarrow> bool" where
  "string_schema_ok s \<longleftrightarrow>
     pred_option elicitation_string_format_is_supported (ss_format s) \<and>
     pred_option (\<lambda>n. 0 \<le> sint n) (ss_min_length s) \<and> pred_option (\<lambda>n. 0 \<le> sint n) (ss_max_length s) \<and>
     sizes_ordered (ss_min_length s) (ss_max_length s) \<and> property_ext_ok string_schema_keys (ss_extensions s)"

lemma string_schema_roundtrip:
  assumes "string_schema_ok s"
  shows "primitive_schema_from_json (string_schema_to_json s) = Inr (StringS s)"
proof -
  let ?j = "string_schema_to_json s"
  have e: "ext_ok string_schema_keys (ss_extensions s)" and k: "jfind (ss_extensions s) ''oneOf'' = None" "jfind (ss_extensions s) ''enum'' = None"
    and ok: "pred_option elicitation_string_format_is_supported (ss_format s)"
      "pred_option (\<lambda>n. 0 \<le> sint n) (ss_min_length s)" "pred_option (\<lambda>n. 0 \<le> sint n) (ss_max_length s)"
      "sizes_ordered (ss_min_length s) (ss_max_length s)"
    using assms by (simp_all add: string_schema_ok_def property_ext_ok_def)
  have o: "is_object (ss_extensions s)" using e by (simp add: ext_ok_def jwf_is_object)
  have f: "is_object ?j" "jfind ?j ''type'' = Some (JString ''string'')" "jfind ?j ''title'' = map_option JString (ss_title s)"
    "jfind ?j ''description'' = map_option JString (ss_description s)" "jfind ?j ''format'' = map_option JString (ss_format s)"
    "jfind ?j ''minLength'' = map_option JInt (ss_min_length s)" "jfind ?j ''maxLength'' = map_option JInt (ss_max_length s)"
    "jfind ?j ''default'' = map_option JString (ss_default s)"
    unfolding string_schema_to_json_def
    by (simp_all add: jfind_written [OF e] string_schema_keys_def jfind_layers jfind_texts del: jfind_jset_opt)
  have n: "jfind ?j ''oneOf'' = None" "jfind ?j ''enum'' = None"
    unfolding string_schema_to_json_def by (simp_all add: o k jfind_layers jfind_texts del: jfind_jset_opt)
  have x: "collect_json_extensions ?j string_schema_keys = ss_extensions s"
    unfolding string_schema_to_json_def
    by (rule collect_append_extensions [OF _ e]) (simp_all add: string_schema_keys_def jfind_layers jfind_texts del: jfind_jset_opt)
  have fmt: "format_member ?j = Inr (ss_format s)"
    using text_member_found [OF f(5), of "''string''"] ok(1) by (cases "ss_format s") (simp_all add: format_member_def)
  note rd = text_member_found [OF f(3)] text_member_found [OF f(4)] fmt bound_member_found [OF f(6) ok(2)]
    bound_member_found [OF f(7) ok(3)] text_member_found [OF f(8)]
  have "string_schema_from_json ?j = Inr s" by (simp add: string_schema_from_json_def rd x ok(4))
  then show ?thesis using f(1,2) n by (simp add: primitive_schema_from_json_def)
qed

definition number_schema_ok :: "number_schema \<Rightarrow> bool" where
  "number_schema_ok s \<longleftrightarrow>
     pred_option double_is_finite (ns_minimum s) \<and> pred_option double_is_finite (ns_maximum s) \<and>
     pred_option double_is_finite (ns_default s) \<and> property_ext_ok numeric_keys (ns_extensions s)"

lemma number_schema_roundtrip:
  assumes "number_schema_ok s"
  shows "primitive_schema_from_json (number_schema_to_json s) = Inr (NumberS s)"
proof -
  let ?j = "number_schema_to_json s"
  have e: "ext_ok numeric_keys (ns_extensions s)" and k: "jfind (ns_extensions s) ''oneOf'' = None" "jfind (ns_extensions s) ''enum'' = None"
    and ok: "pred_option double_is_finite (ns_minimum s)" "pred_option double_is_finite (ns_maximum s)"
      "pred_option double_is_finite (ns_default s)"
    using assms by (simp_all add: number_schema_ok_def property_ext_ok_def)
  have o: "is_object (ns_extensions s)" using e by (simp add: ext_ok_def jwf_is_object)
  have f: "is_object ?j" "jfind ?j ''type'' = Some (JString ''number'')" "jfind ?j ''title'' = map_option JString (ns_title s)"
    "jfind ?j ''description'' = map_option JString (ns_description s)" "jfind ?j ''minimum'' = map_option JFloat (ns_minimum s)"
    "jfind ?j ''maximum'' = map_option JFloat (ns_maximum s)" "jfind ?j ''default'' = map_option JFloat (ns_default s)"
    unfolding number_schema_to_json_def
    by (simp_all add: jfind_written [OF e] numeric_keys_def jfind_layers jfind_texts del: jfind_jset_opt)
  have n: "jfind ?j ''oneOf'' = None" "jfind ?j ''enum'' = None"
    unfolding number_schema_to_json_def by (simp_all add: o k jfind_layers jfind_texts del: jfind_jset_opt)
  have x: "collect_json_extensions ?j numeric_keys = ns_extensions s"
    unfolding number_schema_to_json_def
    by (rule collect_append_extensions [OF _ e]) (simp_all add: numeric_keys_def jfind_layers jfind_texts del: jfind_jset_opt)
  note rd = text_member_found [OF f(3)] text_member_found [OF f(4)] double_member_found [OF f(5) ok(1)]
    double_member_found [OF f(6) ok(2)] double_member_found [OF f(7) ok(3)]
  have "number_schema_from_json ?j = Inr s" by (simp add: number_schema_from_json_def rd x)
  then show ?thesis using f(1,2) n by (simp add: primitive_schema_from_json_def)
qed

lemma integer_schema_roundtrip:
  assumes "property_ext_ok numeric_keys (is_extensions s)"
  shows "primitive_schema_from_json (integer_schema_to_json s) = Inr (IntegerS s)"
proof -
  let ?j = "integer_schema_to_json s"
  have e: "ext_ok numeric_keys (is_extensions s)" and k: "jfind (is_extensions s) ''oneOf'' = None" "jfind (is_extensions s) ''enum'' = None"
    using assms by (simp_all add: property_ext_ok_def)
  have o: "is_object (is_extensions s)" using e by (simp add: ext_ok_def jwf_is_object)
  have f: "is_object ?j" "jfind ?j ''type'' = Some (JString ''integer'')" "jfind ?j ''title'' = map_option JString (is_title s)"
    "jfind ?j ''description'' = map_option JString (is_description s)" "jfind ?j ''minimum'' = map_option JInt (is_minimum s)"
    "jfind ?j ''maximum'' = map_option JInt (is_maximum s)" "jfind ?j ''default'' = map_option JInt (is_default s)"
    unfolding integer_schema_to_json_def
    by (simp_all add: jfind_written [OF e] numeric_keys_def jfind_layers jfind_texts del: jfind_jset_opt)
  have n: "jfind ?j ''oneOf'' = None" "jfind ?j ''enum'' = None"
    unfolding integer_schema_to_json_def by (simp_all add: o k jfind_layers jfind_texts del: jfind_jset_opt)
  have x: "collect_json_extensions ?j numeric_keys = is_extensions s"
    unfolding integer_schema_to_json_def
    by (rule collect_append_extensions [OF _ e]) (simp_all add: numeric_keys_def jfind_layers jfind_texts del: jfind_jset_opt)
  note rd = text_member_found [OF f(3)] text_member_found [OF f(4)] integer_member_found [OF f(5)]
    integer_member_found [OF f(6)] integer_member_found [OF f(7)]
  have "integer_schema_from_json ?j = Inr s" by (simp add: integer_schema_from_json_def rd x)
  then show ?thesis using f(1,2) n by (simp add: primitive_schema_from_json_def)
qed

lemma boolean_schema_roundtrip:
  assumes "property_ext_ok boolean_schema_keys (bs_extensions s)"
  shows "primitive_schema_from_json (boolean_schema_to_json s) = Inr (BooleanS s)"
proof -
  let ?j = "boolean_schema_to_json s"
  have e: "ext_ok boolean_schema_keys (bs_extensions s)" and k: "jfind (bs_extensions s) ''oneOf'' = None" "jfind (bs_extensions s) ''enum'' = None"
    using assms by (simp_all add: property_ext_ok_def)
  have o: "is_object (bs_extensions s)" using e by (simp add: ext_ok_def jwf_is_object)
  have f: "is_object ?j" "jfind ?j ''type'' = Some (JString ''boolean'')" "jfind ?j ''title'' = map_option JString (bs_title s)"
    "jfind ?j ''description'' = map_option JString (bs_description s)" "jfind ?j ''default'' = map_option JBool (bs_default s)"
    unfolding boolean_schema_to_json_def
    by (simp_all add: jfind_written [OF e] boolean_schema_keys_def jfind_layers jfind_texts del: jfind_jset_opt)
  have n: "jfind ?j ''oneOf'' = None" "jfind ?j ''enum'' = None"
    unfolding boolean_schema_to_json_def by (simp_all add: o k jfind_layers jfind_texts del: jfind_jset_opt)
  have x: "collect_json_extensions ?j boolean_schema_keys = bs_extensions s"
    unfolding boolean_schema_to_json_def
    by (rule collect_append_extensions [OF _ e]) (simp_all add: boolean_schema_keys_def jfind_layers jfind_texts del: jfind_jset_opt)
  have d: "optional_member is_boolean ?j ''default'' y = Inr (map_option JBool (bs_default s))" for y
    using f(5) by (cases "bs_default s") (simp_all add: optional_member_def)
  have undone: "map_option bool_of (map_option JBool (bs_default s)) = bs_default s" by (cases "bs_default s") simp_all
  note rd = text_member_found [OF f(3)] text_member_found [OF f(4)] d undone
  have "boolean_schema_from_json ?j = Inr s" by (simp add: boolean_schema_from_json_def rd x)
  then show ?thesis using f(1,2) n by (simp add: primitive_schema_from_json_def)
qed

text \<open>The three kinds of choices, each with the members that belong to the others left empty.\<close>

definition multi_ok :: "enum_schema \<Rightarrow> bool" where
  "multi_ok s \<longleftrightarrow>
     es_multi_select s \<and> \<not> es_titled_single_select s \<and> es_enum_names s = [] \<and> es_default s = None \<and>
     (es_value_titles s = [] \<or> length (es_value_titles s) = length (es_values s)) \<and>
     pred_option (\<lambda>n. 0 \<le> sint n) (es_min_items s) \<and> pred_option (\<lambda>n. 0 \<le> sint n) (es_max_items s) \<and>
     sizes_ordered (es_min_items s) (es_max_items s) \<and> set (es_defaults s) \<subseteq> set (es_values s) \<and>
     ext_ok multi_keys (es_extensions s)"

definition single_ok :: "enum_schema \<Rightarrow> bool" where
  "single_ok s \<longleftrightarrow>
     \<not> es_multi_select s \<and> es_min_items s = None \<and> es_max_items s = None \<and> es_defaults s = [] \<and>
     pred_option (\<lambda>d. d \<in> set (es_values s)) (es_default s)"

definition titled_ok :: "enum_schema \<Rightarrow> bool" where
  "titled_ok s \<longleftrightarrow>
     single_ok s \<and> es_titled_single_select s \<and> titles_match s \<and> es_enum_names s = [] \<and>
     ext_ok titled_enum_keys (es_extensions s)"

definition plain_enum_ok :: "enum_schema \<Rightarrow> bool" where
  "plain_enum_ok s \<longleftrightarrow>
     single_ok s \<and> \<not> es_titled_single_select s \<and> es_value_titles s = [] \<and>
     (es_enum_names s = [] \<or> length (es_enum_names s) = length (es_values s)) \<and>
     ext_ok enum_keys (es_extensions s) \<and> jfind (es_extensions s) ''oneOf'' = None"

lemma choice_default_found:
  assumes "jfind j ''default'' = map_option JString d" "pred_option (\<lambda>v. v \<in> set values) d"
  shows "choice_default j what values = Inr d"
  using text_member_found [OF assms(1), of what] assms(2) by (cases d) (simp_all add: choice_default_def)

lemma multi_roundtrip:
  assumes "multi_ok s"
  shows "primitive_schema_from_json (enum_schema_to_json s) = Inr (EnumS s)"
proof -
  let ?j = "enum_schema_to_json s"
  let ?items = "if titles_match s then JObject [(''anyOf'', titled_choices (es_values s) (es_value_titles s))]
                     else JObject [(''enum'', JArray (map JString (es_values s))), (''type'', JString ''string'')]"
  have e: "ext_ok multi_keys (es_extensions s)" and m: "es_multi_select s"
    and ok: "\<not> es_titled_single_select s" "es_enum_names s = []" "es_default s = None"
      "es_value_titles s = [] \<or> length (es_value_titles s) = length (es_values s)"
      "pred_option (\<lambda>n. 0 \<le> sint n) (es_min_items s)" "pred_option (\<lambda>n. 0 \<le> sint n) (es_max_items s)"
      "sizes_ordered (es_min_items s) (es_max_items s)" "set (es_defaults s) \<subseteq> set (es_values s)"
    using assms by (simp_all add: multi_ok_def)
  have f: "is_object ?j" "jfind ?j ''type'' = Some (JString ''array'')" "jfind ?j ''title'' = map_option JString (es_title s)"
    "jfind ?j ''description'' = map_option JString (es_description s)" "jfind ?j ''items'' = Some ?items"
    "jfind ?j ''minItems'' = map_option JInt (es_min_items s)" "jfind ?j ''maxItems'' = map_option JInt (es_max_items s)"
    "jfind ?j ''default'' = nonempty_array JString (es_defaults s)"
    unfolding enum_schema_to_json_def enum_choices_def
    by (simp_all add: m jset_opt_simps jfind_written [OF e] multi_keys_def jfind_layers del: jfind_jset_opt)
  have x: "collect_json_extensions ?j multi_keys = es_extensions s"
    unfolding enum_schema_to_json_def enum_choices_def
    by (rule collect_append_extensions [OF _ e])
      (simp_all add: m jset_opt_simps multi_keys_def jfind_layers keys_sorted_Cons del: jfind_jset_opt)
  have choices: "multi_choices ?items = Inr (es_values s, es_value_titles s)"
  proof (cases "titles_match s")
    case True
    then show ?thesis by (simp add: multi_choices_def choices_found titles_match_def)
  next
    case False
    then have "es_value_titles s = []" using ok(4) by (auto simp: titles_match_def)
    then show ?thesis using False by (simp add: multi_choices_def string_array_found)
  qed
  have d: "multi_defaults ?j (es_values s) = Inr (es_defaults s)"
    using f(8) ok(8) by (auto simp: multi_defaults_def nonempty_array_def string_array_found enum_values_are_allowed_def)
  note rd = text_member_found [OF f(3)] text_member_found [OF f(4)] required_member_found [OF f(5)] choices
    bound_member_found [OF f(6) ok(5)] bound_member_found [OF f(7) ok(6)] d
  have "is_object ?items" by simp
  then have "multi_select_from_json ?j = Inr s"
    using m ok(1,2,3,7) by (simp add: multi_select_from_json_def rd x empty_enum_schema_def)
  then show ?thesis using f(1,2) by (simp add: primitive_schema_from_json_def)
qed

lemma titled_roundtrip:
  assumes "titled_ok s"
  shows "primitive_schema_from_json (enum_schema_to_json s) = Inr (EnumS s)"
proof -
  let ?j = "enum_schema_to_json s"
  have e: "ext_ok titled_enum_keys (es_extensions s)" and m: "\<not> es_multi_select s" "es_titled_single_select s" "titles_match s"
    and ok: "es_enum_names s = []" "es_min_items s = None" "es_max_items s = None" "es_defaults s = []"
      "pred_option (\<lambda>d. d \<in> set (es_values s)) (es_default s)" "length (es_value_titles s) = length (es_values s)"
    using assms by (simp_all add: titled_ok_def single_ok_def titles_match_def)
  have f: "is_object ?j" "jfind ?j ''type'' = Some (JString ''string'')" "jfind ?j ''title'' = map_option JString (es_title s)"
    "jfind ?j ''description'' = map_option JString (es_description s)"
    "jfind ?j ''oneOf'' = Some (titled_choices (es_values s) (es_value_titles s))"
    "jfind ?j ''default'' = map_option JString (es_default s)"
    unfolding enum_schema_to_json_def enum_choices_def
    by (simp_all add: m jfind_written [OF e] titled_enum_keys_def jfind_layers del: jfind_jset_opt)
  have x: "collect_json_extensions ?j titled_enum_keys = es_extensions s"
    unfolding enum_schema_to_json_def enum_choices_def
    by (rule collect_append_extensions [OF _ e])
      (simp_all add: m titled_enum_keys_def jfind_layers keys_sorted_Cons del: jfind_jset_opt)
  note rd = text_member_found [OF f(3)] text_member_found [OF f(4)] choices_found [OF ok(6)] choice_default_found [OF f(6) ok(5)]
  have "titled_enum_from_json ?j (titled_choices (es_values s) (es_value_titles s)) = Inr s"
    using m ok by (simp add: titled_enum_from_json_def rd x empty_enum_schema_def)
  then show ?thesis using f(1,2,5) by (simp add: primitive_schema_from_json_def)
qed

lemma plain_enum_roundtrip:
  assumes "plain_enum_ok s"
  shows "primitive_schema_from_json (enum_schema_to_json s) = Inr (EnumS s)"
proof -
  let ?j = "enum_schema_to_json s"
  have e: "ext_ok enum_keys (es_extensions s)" and m: "\<not> es_multi_select s" "\<not> es_titled_single_select s"
    and k: "jfind (es_extensions s) ''oneOf'' = None"
    and ok: "es_enum_names s = [] \<or> length (es_enum_names s) = length (es_values s)" "es_min_items s = None" "es_max_items s = None"
      "es_defaults s = []" "pred_option (\<lambda>d. d \<in> set (es_values s)) (es_default s)" "es_value_titles s = []"
    using assms by (simp_all add: plain_enum_ok_def single_ok_def)
  have o: "is_object (es_extensions s)" using e by (simp add: ext_ok_def jwf_is_object)
  have f: "is_object ?j" "jfind ?j ''type'' = Some (JString ''string'')" "jfind ?j ''title'' = map_option JString (es_title s)"
    "jfind ?j ''description'' = map_option JString (es_description s)"
    "jfind ?j ''enum'' = Some (JArray (map JString (es_values s)))" "jfind ?j ''enumNames'' = nonempty_array JString (es_enum_names s)"
    "jfind ?j ''default'' = map_option JString (es_default s)"
    unfolding enum_schema_to_json_def enum_choices_def
    by (simp_all add: m jfind_written [OF e] enum_keys_def jfind_layers del: jfind_jset_opt)
  have n: "jfind ?j ''oneOf'' = None"
    unfolding enum_schema_to_json_def enum_choices_def by (simp add: m o k jfind_layers del: jfind_jset_opt)
  have x: "collect_json_extensions ?j enum_keys = es_extensions s"
    unfolding enum_schema_to_json_def enum_choices_def
    by (rule collect_append_extensions [OF _ e])
      (simp_all add: m enum_keys_def jfind_layers keys_sorted_Cons del: jfind_jset_opt)
  have names: "enum_names_member ?j (es_values s) = Inr (es_enum_names s)"
    using f(6) ok(1) by (auto simp: enum_names_member_def nonempty_array_def string_array_found)
  note rd = text_member_found [OF f(3)] text_member_found [OF f(4)] string_items_found names choice_default_found [OF f(7) ok(5)]
  have "plain_enum_from_json ?j (map JString (es_values s)) = Inr s"
    using m ok by (simp add: plain_enum_from_json_def rd x empty_enum_schema_def)
  then show ?thesis using f(1,2,5) n by (simp add: primitive_schema_from_json_def)
qed

fun primitive_ok :: "primitive_schema \<Rightarrow> bool" where
  "primitive_ok (StringS s) = string_schema_ok s"
| "primitive_ok (NumberS s) = number_schema_ok s"
| "primitive_ok (IntegerS s) = property_ext_ok numeric_keys (is_extensions s)"
| "primitive_ok (BooleanS s) = property_ext_ok boolean_schema_keys (bs_extensions s)"
| "primitive_ok (EnumS s) = (multi_ok s \<or> titled_ok s \<or> plain_enum_ok s)"

lemma primitive_roundtrip: "primitive_ok p \<Longrightarrow> primitive_schema_from_json (primitive_schema_to_json p) = Inr p"
  by (cases p)
    (auto simp: string_schema_roundtrip number_schema_roundtrip integer_schema_roundtrip boolean_schema_roundtrip
      multi_roundtrip titled_roundtrip plain_enum_roundtrip)

definition schema_ok :: "elicitation_schema \<Rightarrow> bool" where
  "schema_ok s \<longleftrightarrow> (\<forall>(name, p)\<in>set (el_properties s). primitive_ok p) \<and> ext_ok elicitation_schema_keys (el_extensions s)"

lemma elicitation_schema_roundtrip:
  assumes "schema_ok s"
  shows "elicitation_schema_from_json (elicitation_schema_to_json s) = Inr s"
proof -
  let ?j = "elicitation_schema_to_json s"
  have e: "ext_ok elicitation_schema_keys (el_extensions s)" using assms by (simp add: schema_ok_def)
  have f: "is_object ?j" "jfind ?j ''type'' = Some (JString ''object'')" "jfind ?j ''title'' = map_option JString (el_title s)"
    "jfind ?j ''description'' = map_option JString (el_description s)"
    "jfind ?j ''properties'' = Some (JObject (map (\<lambda>(name, p). (name, primitive_schema_to_json p)) (el_properties s)))"
    "jfind ?j ''required'' = nonempty_array JString (el_required s)"
    unfolding elicitation_schema_to_json_def
    by (simp_all add: jfind_written [OF e] elicitation_schema_keys_def jfind_layers jfind_texts del: jfind_jset_opt)
  have x: "collect_json_extensions ?j elicitation_schema_keys = el_extensions s"
    unfolding elicitation_schema_to_json_def
    by (rule collect_append_extensions [OF _ e])
      (simp_all add: elicitation_schema_keys_def jfind_layers jfind_texts del: jfind_jset_opt)
  have props: "map_result read_property (map (\<lambda>(name, p). (name, primitive_schema_to_json p)) (el_properties s)) =
      Inr (el_properties s)"
    using assms by (intro map_result_written) (auto simp: schema_ok_def read_property_def primitive_roundtrip)
  have req: "array_member ?j ''required'' (string_item a) b = Inr (el_required s)" for a b
    using f(6) by (rule array_found) (simp add: string_item_def)
  note rd = text_member_found [OF f(3)] text_member_found [OF f(4)] required_member_found [OF f(5)] props req
  show ?thesis using f(1,2) by (simp add: elicitation_schema_from_json_def rd x)
qed

section \<open>Requests and results are read back\<close>

definition request_ok :: "create_elicitation_request \<Rightarrow> bool" where
  "request_ok r \<longleftrightarrow>
     (if er_mode r = Url then er_elicitation_id r \<noteq> None \<and> er_url r \<noteq> None \<and> er_schema r = empty_elicitation_schema
      else er_elicitation_id r = None \<and> er_url r = None \<and> schema_ok (er_schema r)) \<and>
     (case er_task r of None \<Rightarrow> True | Some t \<Rightarrow> meta_ok (trp_meta t) \<and> ext_ok [''ttl'', ''_meta''] (trp_extensions t)) \<and>
     object_meta_ok (er_meta r) \<and> ext_ok elicitation_request_keys (er_extensions r)"

lemma mode_roundtrip: "elicitation_mode_from_string (elicitation_mode_to_string m) = Some m"
  by (cases m) (simp_all add: elicitation_mode_from_string_def)

lemma action_roundtrip: "elicitation_action_from_string (elicitation_action_to_string a) = Some a"
  by (cases a) (simp_all add: elicitation_action_from_string_def)

text \<open>The members that do not depend on the mode, and the unknown ones.\<close>

definition request_base :: "create_elicitation_request \<Rightarrow> json" where
  "request_base r = append_json_extensions
     (jset_opt (jset_opt (jset_opt (jset (jset empty_object ''message'' (JString (er_message r)))
        ''mode'' (JString (elicitation_mode_to_string (er_mode r))))
        ''requestState'' (er_request_state r))
        ''task'' (map_option task_request_parameters_to_json (er_task r)))
        ''_meta'' (er_meta r))
     (er_extensions r)"

lemma request_base_find:
  assumes e: "ext_ok elicitation_request_keys (er_extensions r)"
  defines "j \<equiv> request_base r"
  shows "jwf j" "jfind j ''message'' = Some (JString (er_message r))"
    "jfind j ''mode'' = Some (JString (elicitation_mode_to_string (er_mode r)))" "jfind j ''requestState'' = er_request_state r"
    "jfind j ''task'' = map_option task_request_parameters_to_json (er_task r)" "jfind j ''_meta'' = er_meta r"
    "jfind j ''elicitationId'' = None" "jfind j ''url'' = None" "jfind j ''requestedSchema'' = None"
    "jfind j ''requested_schema'' = None" "collect_json_extensions j elicitation_request_keys = er_extensions r"
proof -
  have o: "is_object (er_extensions r)" "jwf (er_extensions r)" using e by (simp_all add: ext_ok_def jwf_is_object)
  show "jwf j" using o by (simp add: j_def request_base_def keys_sorted_Cons)
  show "jfind j ''message'' = Some (JString (er_message r))"
    "jfind j ''mode'' = Some (JString (elicitation_mode_to_string (er_mode r)))" "jfind j ''requestState'' = er_request_state r"
    "jfind j ''task'' = map_option task_request_parameters_to_json (er_task r)" "jfind j ''_meta'' = er_meta r"
    "jfind j ''elicitationId'' = None" "jfind j ''url'' = None" "jfind j ''requestedSchema'' = None"
    "jfind j ''requested_schema'' = None"
    unfolding j_def request_base_def
    by (simp_all add: jfind_written [OF e] elicitation_request_keys_def jfind_layers del: jfind_jset_opt)
  show "collect_json_extensions j elicitation_request_keys = er_extensions r"
    unfolding j_def request_base_def
    by (rule collect_append_extensions [OF _ e])
      (simp_all add: elicitation_request_keys_def jfind_layers keys_sorted_Cons del: jfind_jset_opt)
qed

lemma collect_jset_known:
  assumes "jwf j" "k \<in> set ks"
  shows "collect_json_extensions (jset j k v) ks = collect_json_extensions j ks"
  using assms by (intro jwf_ext) auto

lemma elicitation_request_roundtrip:
  assumes "request_ok r"
  shows "create_elicitation_request_param_from_json (create_elicitation_request_param_to_json r) = Inr r"
proof -
  have ok: "case er_task r of None \<Rightarrow> True | Some t \<Rightarrow> meta_ok (trp_meta t) \<and> ext_ok [''ttl'', ''_meta''] (trp_extensions t)"
    "object_meta_ok (er_meta r)" and e: "ext_ok elicitation_request_keys (er_extensions r)"
    using assms by (simp_all add: request_ok_def)
  note b = request_base_find [OF e]
  have keys: "''requestedSchema'' \<in> set elicitation_request_keys" "''elicitationId'' \<in> set elicitation_request_keys"
    "''url'' \<in> set elicitation_request_keys"
    by (simp_all add: elicitation_request_keys_def)
  show ?thesis
  proof (cases "er_mode r")
    case Form
    then have s: "schema_ok (er_schema r)" "er_elicitation_id r = None" "er_url r = None"
      using assms by (simp_all add: request_ok_def)
    let ?j = "jset (request_base r) ''requestedSchema'' (elicitation_schema_to_json (er_schema r))"
    have j: "create_elicitation_request_param_to_json r = ?j"
      using Form by (simp add: create_elicitation_request_param_to_json_def request_base_def)
    have "collect_json_extensions ?j elicitation_request_keys = er_extensions r"
      using b(1,11) keys by (simp add: collect_jset_known)
    moreover have "task_member ?j = Inr (er_task r)" using b(1,5) ok(1) by (intro task_member_found) simp_all
    ultimately show ?thesis
      unfolding j using b Form ok(2) s elicitation_schema_roundtrip [OF s(1)]
      by (simp add: create_elicitation_request_param_from_json_def mode_member_def elicitation_mode_from_string_def
          requested_schema_def jcontains_def)
  next
    case Url
    then obtain i u where s: "er_elicitation_id r = Some i" "er_url r = Some u" "er_schema r = empty_elicitation_schema"
      using assms by (auto simp: request_ok_def)
    let ?j = "jset (jset (request_base r) ''elicitationId'' (JString i)) ''url'' (JString u)"
    have j: "create_elicitation_request_param_to_json r = ?j"
      using Url s by (simp add: create_elicitation_request_param_to_json_def request_base_def jset_opt_simps)
    have "collect_json_extensions ?j elicitation_request_keys = er_extensions r"
      using b(1,11) keys by (simp add: collect_jset_known)
    moreover have "task_member ?j = Inr (er_task r)" using b(1,5) ok(1) by (intro task_member_found) simp_all
    ultimately show ?thesis
      unfolding j using b Url ok(2) s
      by (simp add: create_elicitation_request_param_from_json_def mode_member_def elicitation_mode_from_string_def)
  qed
qed

definition elicitation_result_ok :: "create_elicitation_result \<Rightarrow> bool" where
  "elicitation_result_ok r \<longleftrightarrow> object_meta_ok (ers_meta r) \<and> ext_ok elicitation_result_keys (ers_extensions r)"

lemma elicitation_result_roundtrip:
  assumes "elicitation_result_ok r"
  shows "create_elicitation_result_from_json (create_elicitation_result_to_json r) = Inr r"
proof -
  let ?j = "create_elicitation_result_to_json r"
  have m: "object_meta_ok (ers_meta r)" and e: "ext_ok elicitation_result_keys (ers_extensions r)"
    using assms by (simp_all add: elicitation_result_ok_def)
  have f: "is_object ?j" "jfind ?j ''action'' = Some (JString (elicitation_action_to_string (ers_action r)))"
    "jfind ?j ''content'' = ers_content r" "jfind ?j ''_meta'' = ers_meta r"
    unfolding create_elicitation_result_to_json_def
    by (simp_all add: jfind_written [OF e] elicitation_result_keys_def jfind_layers del: jfind_jset_opt)
  have x: "collect_json_extensions ?j elicitation_result_keys = ers_extensions r"
    unfolding create_elicitation_result_to_json_def
    by (rule collect_append_extensions [OF _ e])
      (simp_all add: elicitation_result_keys_def jfind_layers keys_sorted_Cons del: jfind_jset_opt)
  show ?thesis using f x m by (simp add: create_elicitation_result_from_json_def action_roundtrip)
qed

text \<open>Elicitation requests and results are read back as they were written, for both modes and for
  properties of every kind (strings, numbers, integers, booleans, plain, titled and multiple choices).\<close>

theorem elicitation_roundtrips:
  assumes "request_ok r" "elicitation_result_ok a"
  shows "create_elicitation_request_param_from_json (create_elicitation_request_param_to_json r) = Inr r \<and>
    create_elicitation_result_from_json (create_elicitation_result_to_json a) = Inr a"
  using elicitation_request_roundtrip [OF assms(1)] elicitation_result_roundtrip [OF assms(2)] by (rule conjI)

definition sample_elicitation :: create_elicitation_request where
  "sample_elicitation = \<lparr>er_message = ''Who are you?'', er_mode = Form, er_elicitation_id = None, er_url = None,
     er_schema = sample_form\<lparr>el_properties := el_properties sample_form @
       [(''pets'', EnumS (empty_enum_schema\<lparr>es_multi_select := True, es_values := [''cat'', ''dog''],
          es_value_titles := [''Cat'', ''Dog''], es_max_items := Some 2, es_defaults := [''dog'']\<rparr>))]\<rparr>,
     er_request_state = None, er_task = None, er_meta = None, er_extensions = empty_object\<rparr>"

theorem elicitation_roundtrips_witness:
  "create_elicitation_request_param_from_json (create_elicitation_request_param_to_json sample_elicitation) = Inr sample_elicitation"
proof -
  have "request_ok sample_elicitation"
    by (simp add: request_ok_def sample_elicitation_def sample_form_def schema_ok_def empty_elicitation_schema_def sample_age_def
        empty_integer_schema_def empty_string_schema_def empty_enum_schema_def property_ext_ok_def string_schema_ok_def
        sizes_ordered_def multi_ok_def object_meta_ok_def)
  moreover have "elicitation_result_ok \<lparr>ers_action = Decline, ers_content = None, ers_meta = None, ers_extensions = empty_object\<rparr>"
    by (simp add: elicitation_result_ok_def object_meta_ok_def)
  ultimately show ?thesis using elicitation_roundtrips by blast
qed

section \<open>Schemas from the builder\<close>

inductive builder_step :: "schema_builder \<Rightarrow> schema_builder \<Rightarrow> bool" where
  "builder_step b (builder_title v b)"
| "builder_step b (builder_description v b)"
| "builder_step b (required_property name p b)"
| "builder_step b (optional_property name p b)"
| "builder_step b (required_string name s format b)"
| "builder_step b (optional_string name s format b)"
| "builder_step b (required_number name lo hi d b)"
| "builder_step b (optional_number name lo hi d b)"
| "builder_step b (required_integer name min_value max_value i b)"
| "builder_step b (optional_integer name min_value max_value i b)"
| "builder_step b (required_bool name flag b)"
| "builder_step b (optional_bool name flag b)"
| "builder_step b (required_email name s b)"
| "builder_step b (optional_email name s b)"
| "builder_step b (required_enum name values s b)"
| "builder_step b (optional_enum name values s b)"

definition builder_inv :: "schema_builder \<Rightarrow> bool" where
  "builder_inv b \<longleftrightarrow> keys_sorted (sb_properties b) \<and> (\<forall>r\<in>set (sb_required b). map_of (sb_properties b) r \<noteq> None)"

lemma builder_inv_add:
  "builder_inv b \<Longrightarrow> builder_inv (add_required name p b)" "builder_inv b \<Longrightarrow> builder_inv (add_optional name p b)"
  by (auto simp: builder_inv_def add_required_def add_optional_def)

lemma builder_inv_step: "builder_step b b' \<Longrightarrow> builder_inv b \<Longrightarrow> builder_inv b'"
proof (induction rule: builder_step.induct)
  case (1 b v) then show ?case by (simp add: builder_inv_def builder_title_def)
next
  case (2 b v) then show ?case by (simp add: builder_inv_def builder_description_def)
qed (simp_all add: required_property_def optional_property_def required_string_def optional_string_def required_number_def
  optional_number_def required_integer_def optional_integer_def required_bool_def optional_bool_def required_email_def
  optional_email_def required_enum_def optional_enum_def builder_inv_add)

lemma builder_reachable: "builder_step\<^sup>*\<^sup>* builder b \<Longrightarrow> builder_inv b"
proof (induction rule: rtranclp_induct)
  case base then show ?case by (simp add: builder_inv_def builder_def)
qed (rule builder_inv_step)

text \<open>Whatever calls are made on a schema builder, the schema it builds describes every field it
  requires; so content that passes validation against it has every required field, and its value
  was checked against the field's schema.\<close>

theorem built_schema_required:
  assumes "builder_step\<^sup>*\<^sup>* builder b" "build_schema b = Inr s" "validate_elicitation_content s c = Inr ()" "r \<in> set (el_required s)"
  shows "\<exists>p v. map_of (el_properties s) r = Some p \<and> jfind c r = Some v \<and>
    validate_elicitation_content_property r p v = Inr ()"
proof -
  have s: "el_properties s = sb_properties b" "el_required s = sb_required b"
    using assms(2) by (auto simp: build_schema_def split: if_splits)
  obtain p where p: "map_of (el_properties s) r = Some p"
    using builder_reachable [OF assms(1)] assms(4) by (auto simp: builder_inv_def s)
  note c = assms(3) [unfolded validate_content_checks]
  obtain v where v: "jfind c r = Some v" using c assms(4) by (auto simp: jcontains_def)
  have "validate_elicitation_content_property r p v = Inr ()" using c map_of_SomeD [OF p] v by auto
  then show ?thesis using p v by blast
qed

theorem built_schema_required_witness:
  "\<exists>p v. map_of [(''age'', IntegerS empty_integer_schema)] ''age'' = Some p \<and>
     jfind (JObject [(''age'', JInt 7)]) ''age'' = Some v \<and> validate_elicitation_content_property ''age'' p v = Inr ()"
proof -
  let ?p = "IntegerS empty_integer_schema"
  let ?b = "required_property ''age'' ?p builder"
  have b: "builder_step\<^sup>*\<^sup>* builder ?b" by (rule r_into_rtranclp) (rule builder_step.intros)
  let ?s = "\<lparr>el_title = None, el_description = None, el_properties = [(''age'', ?p)], el_required = [''age''],
      el_extensions = empty_object\<rparr>"
  have "build_schema ?b = Inr ?s" by (simp add: build_schema_def required_property_def add_required_def builder_def)
  from built_schema_required [OF b this, of "JObject [(''age'', JInt 7)]" "''age''"] show ?thesis
    by (simp add: validate_elicitation_content_def jcontains_def validate_integer_def empty_integer_schema_def
        above_option_def check_def)
qed

end
