(* ===== verification/Client.thy ===== *)
theory Client
  imports Elicitation Server_Sessions
begin

text \<open>
  src/sdk/client/src/client.cpp, the outgoing side: starting the transport, sending requests with
  recovery from a terminated session, the initialize handshake with version negotiation, and the typed
  requests built on them. (Requests and notifications from the server are in Client_Handlers, asynchronous
  requests in Client_Async.)

  A transport is a state of a type of its own with the operations of the abstract class \<open>Transport\<close>. A
  request is a step on the client: it returns a result and the client after it. Calls of the handlers
  that the transport makes while it waits do not touch the part of the client modelled here.
\<close>

section \<open>Transport and state\<close>

text \<open>
  \<open>ce_is_http\<close> tells whether the dynamic type is \<open>HttpTransport\<close>, \<open>ce_set_version\<close> is its
  \<open>set_negotiated_protocol_version\<close>. \<open>ce_dump\<close> is the compact text of a JSON value.
\<close>

record 't client_env =
  ce_is_http :: bool
  ce_start :: "'t \<Rightarrow> unit result \<times> 't"
  ce_send :: "json_rpc_request \<Rightarrow> 't \<Rightarrow> json_rpc_response result \<times> 't"
  ce_send_notification :: "json_rpc_notification \<Rightarrow> 't \<Rightarrow> unit result \<times> 't"
  ce_stop :: "'t \<Rightarrow> 't"
  ce_set_version :: "string \<Rightarrow> 't \<Rightarrow> 't"
  ce_dump :: "json \<Rightarrow> string"

record 't client =
  cl_transport :: "'t option"
  cl_next_id :: int64
  cl_started :: bool
  cl_roots :: "root list"
  cl_last_initialize :: "json option"
  cl_capabilities :: "client_capabilities option"
  cl_server_capabilities :: "server_capabilities option"

definition new_client :: "'t option \<Rightarrow> 't client" where
  "new_client t = \<lparr>cl_transport = t, cl_next_id = 1, cl_started = False, cl_roots = [], cl_last_initialize = None,
     cl_capabilities = None, cl_server_capabilities = None\<rparr>"

type_synonym ('t, 'a) client_run = "'a \<times> 't client"

definition make_client_error :: "int32 \<Rightarrow> string \<Rightarrow> string \<Rightarrow> core_error" where
  "make_client_error code msg detail = mk_error code msg detail ''protocol''"

definition require_result_payload :: "'t client_env \<Rightarrow> json_rpc_response \<Rightarrow> json result" where
  "require_result_payload env r =
     (case resp_error r of
        Some e \<Rightarrow> Inl (mk_error (eo_code e) (eo_message e)
                        (case eo_data e of None \<Rightarrow> '''' | Some d \<Rightarrow> ce_dump env d) ''protocol'')
      | None \<Rightarrow>
          (case resp_result r of
             None \<Rightarrow> Inl (make_client_error (error_code InvalidRequest) ''response did not contain a result'' '''')
           | Some j \<Rightarrow> Inr j))"

definition require_initialize_payload :: "'t client_env \<Rightarrow> json_rpc_response \<Rightarrow> json result" where
  "require_initialize_payload env r =
     rbind (require_result_payload env r) (\<lambda>payload.
       if is_object payload \<and> \<not> jcontains payload ''protocolVersion'' then Inr payload
       else case initialize_result_from_json payload of
         Inl e \<Rightarrow> Inl (make_client_error (err_code e) (err_message e) (err_detail e))
       | Inr parsed \<Rightarrow>
           if \<not> is_supported_protocol_version (ir_protocol_version parsed)
           then Inl (make_client_error (error_code InvalidRequest) (unsupported_version (ir_protocol_version parsed)) '''')
           else Inr payload)"

definition cursor_params :: "string option \<Rightarrow> json" where
  "cursor_params cursor = jset_opt empty_object ''cursor'' (map_option JString cursor)"

text \<open>\<open>default_client_capabilities\<close> of client.cpp: what is announced when nothing was set.\<close>

definition announced_capabilities :: "client_capabilities option \<Rightarrow> client_capabilities" where
  "announced_capabilities caps =
     (case caps of
        Some c \<Rightarrow> c
      | None \<Rightarrow>
          default_client_capabilities\<lparr>
            cc_roots := default_listing\<lparr>lc_enabled := True, lc_list_changed := True\<rparr>,
            cc_sampling := default_sampling\<lparr>sc_enabled := True\<rparr>,
            cc_elicitation := default_elicitation\<lparr>ec_form := True, ec_form_schema_validation := Some True, ec_url := True\<rparr>\<rparr>)"

definition client_initialize_params :: "string \<Rightarrow> string \<Rightarrow> client_capabilities option \<Rightarrow> json" where
  "client_initialize_params name version caps =
     jset (jset (jset empty_object
       ''protocolVersion'' (JString McpProtocolVersion))
       ''capabilities'' (client_capabilities_to_json (announced_capabilities caps)))
       ''clientInfo'' (JObject [(''name'', JString name), (''version'', JString version)])"

definition is_session_terminated_error :: "core_error \<Rightarrow> bool" where
  "is_session_terminated_error e \<longleftrightarrow>
     err_code e = error_code InvalidRequest \<and> err_message e = ''http transport session was terminated''"

section \<open>Sending\<close>

text \<open>A transport operation on the client's transport. Its absence is ruled out by \<open>client_inv\<close> below.\<close>

definition on_transport :: "('t \<Rightarrow> 'a result \<times> 't) \<Rightarrow> 't client \<Rightarrow> ('t, 'a result) client_run" where
  "on_transport f c =
     (case cl_transport c of
        None \<Rightarrow> (Inl (make_client_error (error_code InternalError) ''client transport is not configured'' ''''), c)
      | Some t \<Rightarrow> (case f t of (r, t') \<Rightarrow> (r, c\<lparr>cl_transport := Some t'\<rparr>)))"

definition ensure_transport_started :: "'t client_env \<Rightarrow> 't client \<Rightarrow> ('t, unit result) client_run" where
  "ensure_transport_started env c =
     (if cl_started c then (Inr (), c)
      else case on_transport (ce_start env) c of
        (Inl e, c') \<Rightarrow> (Inl e, c')
      | (Inr _, c') \<Rightarrow> (Inr (), c'\<lparr>cl_started := True\<rparr>))"

definition record_server_capabilities :: "json \<Rightarrow> 't client \<Rightarrow> ('t, unit result) client_run" where
  "record_server_capabilities payload c =
     (if is_object payload \<and> \<not> jcontains payload ''protocolVersion'' then (Inr (), c)
      else case initialize_result_from_json payload of
        Inl e \<Rightarrow> (Inl (make_client_error (err_code e) (err_message e) (err_detail e)), c)
      | Inr parsed \<Rightarrow> (Inr (), c\<lparr>cl_server_capabilities := Some (ir_capabilities parsed)\<rparr>))"

definition next_request_id :: "'t client \<Rightarrow> request_id \<times> 't client" where
  "next_request_id c = (IdInt (cl_next_id c), c\<lparr>cl_next_id := cl_next_id c + 1\<rparr>)"

definition transmit :: "'t client_env \<Rightarrow> json_rpc_request \<Rightarrow> 't client \<Rightarrow> ('t, json_rpc_response result) client_run" where
  "transmit env req = on_transport (ce_send env req)"

definition send_initialize :: "'t client_env \<Rightarrow> json \<Rightarrow> 't client \<Rightarrow> ('t, json_rpc_response result) client_run" where
  "send_initialize env params c =
     (case next_request_id c of (i, c') \<Rightarrow> transmit env (make_request ''initialize'' i params) c')"

text \<open>
  Over HTTP a request that comes before any initialize is preceded by one; whatever becomes of it, the
  request itself follows.
\<close>

definition auto_initialize :: "'t client_env \<Rightarrow> json_rpc_request \<Rightarrow> 't client \<Rightarrow> 't client" where
  "auto_initialize env req c =
     (if req_method req \<noteq> ''initialize'' \<and> ce_is_http env \<and> cl_last_initialize c = None then
        let params = client_initialize_params ''cxxmcp'' ''0'' (cl_capabilities c) in
        case send_initialize env params (c\<lparr>cl_last_initialize := Some params\<rparr>) of
          (Inl e, c') \<Rightarrow> c'
        | (Inr r, c') \<Rightarrow>
            (case require_initialize_payload env r of
               Inl e \<Rightarrow> c'
             | Inr payload \<Rightarrow> snd (record_server_capabilities payload c'))
      else c)"

text \<open>The initialize that follows the termination of a session.\<close>

definition reinitialize :: "'t client_env \<Rightarrow> json \<Rightarrow> 't client \<Rightarrow> ('t, unit result) client_run" where
  "reinitialize env params c =
     (case send_initialize env params c of
        (Inl e, c') \<Rightarrow> (Inl e, c')
      | (Inr r, c') \<Rightarrow>
          (case require_initialize_payload env r of
             Inl e \<Rightarrow> (Inl e, c')
           | Inr payload \<Rightarrow> record_server_capabilities payload c'))"

text \<open>The loop of \<open>send_rpc_request\<close>, which runs at most twice.\<close>

definition send_with_retry :: "'t client_env \<Rightarrow> json_rpc_request \<Rightarrow> 't client \<Rightarrow> ('t, json_rpc_response result) client_run" where
  "send_with_retry env req c =
     (case transmit env req c of
        (Inr r, c1) \<Rightarrow> (Inr r, c1)
      | (Inl e, c1) \<Rightarrow>
          if \<not> is_session_terminated_error e then (Inl e, c1)
          else if req_method req = ''initialize'' then transmit env req c1
          else (case cl_last_initialize c1 of
                  None \<Rightarrow> (Inl e, c1)
                | Some params \<Rightarrow>
                    (case reinitialize env params c1 of
                       (Inl e', c2) \<Rightarrow> (Inl e', c2)
                     | (Inr _, c2) \<Rightarrow> transmit env req c2)))"

definition send_rpc_request :: "'t client_env \<Rightarrow> json_rpc_request \<Rightarrow> 't client \<Rightarrow> ('t, json_rpc_response result) client_run" where
  "send_rpc_request env req c =
     (case ensure_transport_started env c of
        (Inl e, c1) \<Rightarrow> (Inl e, c1)
      | (Inr _, c1) \<Rightarrow> send_with_retry env req (auto_initialize env req c1))"

definition raw_request :: "'t client_env \<Rightarrow> json_rpc_request \<Rightarrow> 't client \<Rightarrow> ('t, json result) client_run" where
  "raw_request env req c =
     (case send_rpc_request env req c of
        (Inl e, c') \<Rightarrow> (Inl e, c')
      | (Inr r, c') \<Rightarrow> (require_result_payload env r, c'))"

definition send_request :: "'t client_env \<Rightarrow> string \<Rightarrow> json \<Rightarrow> 't client \<Rightarrow> ('t, json result) client_run" where
  "send_request env m params c =
     (case next_request_id c of (i, c') \<Rightarrow> raw_request env (make_request m i params) c')"

definition raw_notification :: "'t client_env \<Rightarrow> json_rpc_notification \<Rightarrow> 't client \<Rightarrow> ('t, unit result) client_run" where
  "raw_notification env n c =
     (case ensure_transport_started env c of
        (Inl e, c') \<Rightarrow> (Inl e, c')
      | (Inr _, c') \<Rightarrow> on_transport (ce_send_notification env n) c')"

definition client_stop :: "'t client_env \<Rightarrow> 't client \<Rightarrow> 't client" where
  "client_stop env c = c\<lparr>cl_transport := map_option (ce_stop env) (cl_transport c), cl_started := False\<rparr>"

section \<open>Initialize\<close>

definition recorded_payload :: "'t client_env \<Rightarrow> json_rpc_response \<Rightarrow> 't client \<Rightarrow> ('t, json result) client_run" where
  "recorded_payload env r c =
     (case require_initialize_payload env r of
        Inl e \<Rightarrow> (Inl e, c)
      | Inr payload \<Rightarrow>
          (case record_server_capabilities payload c of
             (Inl e, c') \<Rightarrow> (Inl e, c')
           | (Inr _, c') \<Rightarrow> (Inr payload, c')))"

definition client_initialize :: "'t client_env \<Rightarrow> string \<Rightarrow> string \<Rightarrow> 't client \<Rightarrow> ('t, json result) client_run" where
  "client_initialize env name version c =
     (let params = client_initialize_params name version (cl_capabilities c);
          (i, c1) = next_request_id (c\<lparr>cl_last_initialize := Some params\<rparr>)
      in case send_rpc_request env (make_request ''initialize'' i params) c1 of
           (Inl e, c2) \<Rightarrow> (Inl e, c2)
         | (Inr r, c2) \<Rightarrow> recorded_payload env r c2)"

record request_options =
  ro_meta :: "json option"
  ro_headers :: "string alist"
  ro_protocol_version :: "string option"

definition do_initialize ::
  "'t client_env \<Rightarrow> request_options \<Rightarrow> json \<Rightarrow> string option \<Rightarrow> 't client \<Rightarrow> ('t, json_rpc_response result) client_run" where
  "do_initialize env opts params version_override c =
     (case next_request_id c of
        (i, c1) \<Rightarrow> send_rpc_request env ((make_request ''initialize'' i params)
                     \<lparr>transport_headers := ro_headers opts, protocol_version_override := version_override\<rparr>) c1)"

text \<open>
  The version the server asks for, empty when it does not say. Two members are read with an unchecked
  \<open>get<std::string>()\<close>: \<open>None\<close> when that throws.
\<close>

definition result_version :: "json_rpc_response \<Rightarrow> string" where
  "result_version r =
     (case resp_result r of
        None \<Rightarrow> ''''
      | Some j \<Rightarrow> (case initialize_result_from_json j of Inl _ \<Rightarrow> '''' | Inr p \<Rightarrow> ir_protocol_version p))"

definition extract_server_version :: "json_rpc_response \<Rightarrow> string option" where
  "extract_server_version r =
     (case Option.bind (resp_error r) eo_data of
        None \<Rightarrow> Some (result_version r)
      | Some d \<Rightarrow>
          (case jfind d ''supportedVersion'' of
             Some v \<Rightarrow> get_string v
           | None \<Rightarrow>
               (case jfind d ''supported'' of
                  Some (JArray (v # _)) \<Rightarrow> get_string v
                | _ \<Rightarrow> if is_string d then Some McpProtocolVersion else Some (result_version r))))"

definition options_params :: "string \<Rightarrow> string \<Rightarrow> request_options \<Rightarrow> 't client \<Rightarrow> json" where
  "options_params name version opts c =
     jset_opt (jset_opt (client_initialize_params name version (cl_capabilities c))
       ''protocolVersion'' (map_option JString (ro_protocol_version opts)))
       ''_meta'' (ro_meta opts)"

text \<open>Writing into the request metadata throws when it is neither an object nor null.\<close>

definition negotiated_params :: "string \<Rightarrow> request_options \<Rightarrow> json \<Rightarrow> json option" where
  "negotiated_params v opts params =
     (let p = jset params ''protocolVersion'' (JString v) in
      case ro_meta opts of
        None \<Rightarrow> Some p
      | Some m \<Rightarrow>
          if is_object m \<or> m = JNull
          then Some (jset p ''_meta'' (jset m ''io.modelcontextprotocol/protocolVersion'' (JString v)))
          else None)"

definition client_initialize_with ::
  "'t client_env \<Rightarrow> string \<Rightarrow> string \<Rightarrow> request_options \<Rightarrow> 't client \<Rightarrow> ('t, json parsed) client_run" where
  "client_initialize_with env name version opts c =
     (let params = options_params name version opts c in
      case do_initialize env opts params (ro_protocol_version opts) (c\<lparr>cl_last_initialize := Some params\<rparr>) of
        (Inl e, c1) \<Rightarrow> (Returns (Inl e), c1)
      | (Inr r, c1) \<Rightarrow>
          (case extract_server_version r of
             None \<Rightarrow> (Throws, c1)
           | Some v \<Rightarrow>
               if v \<noteq> '''' \<and> resp_error r \<noteq> None then
                 (case negotiated_params v opts params of
                    None \<Rightarrow> (Throws, c1)
                  | Some params' \<Rightarrow>
                      (case do_initialize env opts params' (Some v) c1 of
                         (Inl e, c2) \<Rightarrow> (Returns (Inl e), c2)
                       | (Inr r', c2) \<Rightarrow>
                           (case recorded_payload env r'
                                   (if ce_is_http env
                                    then c2\<lparr>cl_transport := map_option (ce_set_version env v) (cl_transport c2)\<rparr>
                                    else c2) of
                              (res, c3) \<Rightarrow> (Returns res, c3))))
               else (case recorded_payload env r c1 of (res, c2) \<Rightarrow> (Returns res, c2))))"

section \<open>What the server supports\<close>

definition supports :: "(server_capabilities \<Rightarrow> bool) \<Rightarrow> 't client \<Rightarrow> bool" where
  "supports P c = (case cl_server_capabilities c of None \<Rightarrow> True | Some s \<Rightarrow> P s)"

definition supports_server_completion :: "'t client \<Rightarrow> bool" where
  "supports_server_completion = supports (\<lambda>s. pc_enabled (vc_completions s))"

definition supports_server_logging :: "'t client \<Rightarrow> bool" where
  "supports_server_logging = supports (\<lambda>s. pc_enabled (vc_logging s))"

definition supports_server_resource_subscribe :: "'t client \<Rightarrow> bool" where
  "supports_server_resource_subscribe = supports (\<lambda>s. rc_subscribe (vc_resources s))"

definition supports_server_task_list :: "'t client \<Rightarrow> bool" where
  "supports_server_task_list = supports (\<lambda>s. pred_option kc_list (vc_tasks s) \<and> vc_tasks s \<noteq> None)"

definition supports_server_task_cancel :: "'t client \<Rightarrow> bool" where
  "supports_server_task_cancel = supports (\<lambda>s. pred_option kc_cancel (vc_tasks s) \<and> vc_tasks s \<noteq> None)"

definition supports_server_tasks :: "'t client \<Rightarrow> bool" where
  "supports_server_tasks = supports (\<lambda>s. vc_tasks s \<noteq> None)"

definition supports_server_task_tool_call :: "'t client \<Rightarrow> bool" where
  "supports_server_task_tool_call = supports (\<lambda>s. pred_option kc_tools_call (vc_tasks s) \<and> vc_tasks s \<noteq> None)"

definition gated ::
  "('t client \<Rightarrow> bool) \<Rightarrow> string \<Rightarrow> ('t client \<Rightarrow> ('t, 'a result) client_run) \<Rightarrow> 't client \<Rightarrow> ('t, 'a result) client_run" where
  "gated supported msg f c =
     (if \<not> supported c then (Inl (make_client_error (error_code MethodNotFound) msg ''''), c) else f c)"

section \<open>Notifications\<close>

definition notify_initialized :: "'t client_env \<Rightarrow> 't client \<Rightarrow> ('t, unit result) client_run" where
  "notify_initialized env = raw_notification env (make_notification ''notifications/initialized'' empty_object)"

definition client_notify_cancelled :: "'t client_env \<Rightarrow> request_id \<Rightarrow> string \<Rightarrow> 't client \<Rightarrow> ('t, unit result) client_run" where
  "client_notify_cancelled env i reason =
     raw_notification env (make_notification ''notifications/cancelled''
       (cancelled_notification_params_to_json
          \<lparr>cn_request_id = i, cn_reason = (if reason = '''' then None else Some reason)\<rparr>))"

definition client_notify_progress ::
  "'t client_env \<Rightarrow> progress_token \<Rightarrow> 64 word \<Rightarrow> 64 word option \<Rightarrow> string \<Rightarrow> 't client \<Rightarrow> ('t, unit result) client_run" where
  "client_notify_progress env token progress total_work msg =
     raw_notification env (make_notification ''notifications/progress''
       (progress_notification_params_to_json
          \<lparr>pn_progress_token = token, pn_progress = progress, pn_total = total_work,
           pn_message = (if msg = '''' then None else Some msg)\<rparr>))"

definition client_notify_roots_list_changed :: "'t client_env \<Rightarrow> 't client \<Rightarrow> ('t, unit result) client_run" where
  "client_notify_roots_list_changed env =
     raw_notification env (make_notification ''notifications/roots/list_changed'' empty_object)"

section \<open>Typed requests\<close>

text \<open>The common shape: send, take the payload, parse it. Some parsers throw.\<close>

definition parsed_request ::
  "'t client_env \<Rightarrow> string \<Rightarrow> json \<Rightarrow> (json \<Rightarrow> 'a result) \<Rightarrow> 't client \<Rightarrow> ('t, 'a result) client_run" where
  "parsed_request env m params parse c = (case send_request env m params c of (r, c') \<Rightarrow> (rbind r parse, c'))"

definition throwing_request ::
  "'t client_env \<Rightarrow> string \<Rightarrow> json \<Rightarrow> (json \<Rightarrow> 'a parsed) \<Rightarrow> 't client \<Rightarrow> ('t, 'a parsed) client_run" where
  "throwing_request env m params parse c =
     (case send_request env m params c of (r, c') \<Rightarrow> (case r of Inl e \<Rightarrow> Returns (Inl e) | Inr j \<Rightarrow> parse j, c'))"

definition acknowledged :: "'t client_env \<Rightarrow> string \<Rightarrow> json \<Rightarrow> 't client \<Rightarrow> ('t, unit result) client_run" where
  "acknowledged env m params = parsed_request env m params (\<lambda>_. Inr ())"

definition map_run :: "('a \<Rightarrow> 'b) \<Rightarrow> ('t, 'a result) client_run \<Rightarrow> ('t, 'b result) client_run" where
  "map_run f = (\<lambda>(r, c). (rbind r (\<lambda>v. Inr (f v)), c))"

definition client_ping :: "'t client_env \<Rightarrow> 't client \<Rightarrow> ('t, unit result) client_run" where
  "client_ping env = acknowledged env ''ping'' empty_object"

subsection \<open>Listings\<close>

definition no_page :: paginated_request_params where
  "no_page = \<lparr>pg_cursor = None, pg_meta = None, pg_extensions = empty_object\<rparr>"

definition list_prompts_page ::
  "'t client_env \<Rightarrow> paginated_request_params \<Rightarrow> 't client \<Rightarrow> ('t, prompt resources_result result) client_run" where
  "list_prompts_page env params =
     parsed_request env ''prompts/list'' (paginated_request_params_to_json params) prompts_list_result_from_json"

definition client_list_prompts :: "'t client_env \<Rightarrow> 't client \<Rightarrow> ('t, prompt list result) client_run" where
  "client_list_prompts env c = map_run rr_items (list_prompts_page env no_page c)"

definition list_resources_page ::
  "'t client_env \<Rightarrow> paginated_request_params \<Rightarrow> 't client \<Rightarrow> ('t, resource resources_result result) client_run" where
  "list_resources_page env params =
     parsed_request env ''resources/list'' (paginated_request_params_to_json params) resources_list_result_from_json"

definition client_list_resources :: "'t client_env \<Rightarrow> 't client \<Rightarrow> ('t, resource list result) client_run" where
  "client_list_resources env c = map_run rr_items (list_resources_page env no_page c)"

definition list_resource_templates_page ::
  "'t client_env \<Rightarrow> paginated_request_params \<Rightarrow> 't client \<Rightarrow> ('t, resource_template resources_result result) client_run" where
  "list_resource_templates_page env params =
     parsed_request env ''resources/templates/list'' (paginated_request_params_to_json params)
       resource_templates_list_result_from_json"

definition client_list_resource_templates :: "'t client_env \<Rightarrow> 't client \<Rightarrow> ('t, resource_template list result) client_run" where
  "client_list_resource_templates env c = map_run rr_items (list_resource_templates_page env no_page c)"

definition list_tools_page ::
  "'t client_env \<Rightarrow> paginated_request_params \<Rightarrow> 't client \<Rightarrow> ('t, tool_definition resources_result result) client_run" where
  "list_tools_page env params =
     parsed_request env ''tools/list'' (paginated_request_params_to_json params) tools_list_result_from_json"

definition client_list_tools :: "'t client_env \<Rightarrow> 't client \<Rightarrow> ('t, tool_definition list result) client_run" where
  "client_list_tools env c = map_run rr_items (list_tools_page env no_page c)"

definition list_tasks_page ::
  "'t client_env \<Rightarrow> task_list_params \<Rightarrow> 't client \<Rightarrow> ('t, task_list_result result) client_run" where
  "list_tasks_page env params =
     gated supports_server_task_list ''server does not support task listing''
       (parsed_request env ''tasks/list'' (task_list_params_to_json params) task_list_result_from_json)"

definition client_list_tasks :: "'t client_env \<Rightarrow> 't client \<Rightarrow> ('t, task list result) client_run" where
  "client_list_tasks env c =
     map_run tlr_tasks (list_tasks_page env \<lparr>tlp_cursor = None, tlp_meta = None, tlp_extensions = empty_object\<rparr> c)"

text \<open>
  The \<open>do ... while\<close> loops of the \<open>list_all_\<close> functions. Nothing bounds the number of pages: a loop that
  does not end is the value \<open>None\<close>.
\<close>

type_synonym ('t, 'a) page_reader = "json \<Rightarrow> 't client \<Rightarrow> ('t, ('a list \<times> string option) result) client_run"

partial_function (option) list_all_loop ::
  "('t, 'a) page_reader \<Rightarrow> string option \<Rightarrow> 'a list \<Rightarrow> 't client \<Rightarrow> ('t, 'a list result) client_run option" where
  "list_all_loop page cursor acc c =
     (case page (cursor_params cursor) c of
        (Inl e, c') \<Rightarrow> Some (Inl e, c')
      | (Inr (items, cursor'), c') \<Rightarrow>
          if cursor' \<noteq> None \<and> cursor' \<noteq> Some ''''
          then list_all_loop page cursor' (acc @ items) c' else Some (Inr (acc @ items), c'))"

definition page_of :: "(json \<Rightarrow> 'a resources_result result) \<Rightarrow> json \<Rightarrow> ('a list \<times> string option) result" where
  "page_of parse j = rbind (parse j) (\<lambda>p. Inr (rr_items p, rr_next_cursor p))"

definition list_all_prompts :: "'t client_env \<Rightarrow> 't client \<Rightarrow> ('t, prompt list result) client_run option" where
  "list_all_prompts env =
     list_all_loop (\<lambda>params. parsed_request env ''prompts/list'' params (page_of prompts_list_result_from_json)) None []"

definition list_all_resources :: "'t client_env \<Rightarrow> 't client \<Rightarrow> ('t, resource list result) client_run option" where
  "list_all_resources env =
     list_all_loop (\<lambda>params. parsed_request env ''resources/list'' params (page_of resources_list_result_from_json)) None []"

definition list_all_resource_templates ::
  "'t client_env \<Rightarrow> 't client \<Rightarrow> ('t, resource_template list result) client_run option" where
  "list_all_resource_templates env =
     list_all_loop (\<lambda>params. parsed_request env ''resources/templates/list'' params
                               (page_of resource_templates_list_result_from_json)) None []"

text \<open>\<open>list_all_tools\<close> reads the pages itself.\<close>

definition tools_page :: "json \<Rightarrow> (tool_definition list \<times> string option) result" where
  "tools_page j =
     (case jfind j ''tools'' of
        Some (JArray items) \<Rightarrow>
          rbind (map_result tool_definition_from_json items) (\<lambda>tools.
            case jfind j ''nextCursor'' of
              None \<Rightarrow> Inr (tools, None)
            | Some (JString cursor) \<Rightarrow> Inr (tools, Some cursor)
            | Some _ \<Rightarrow> Inl (make_client_error (error_code InvalidRequest) ''tools/list nextCursor must be a string'' ''''))
      | _ \<Rightarrow> Inl (make_client_error (error_code InvalidRequest) ''tools/list response must contain a tools array'' ''''))"

definition list_all_tools :: "'t client_env \<Rightarrow> 't client \<Rightarrow> ('t, tool_definition list result) client_run option" where
  "list_all_tools env = list_all_loop (\<lambda>params. parsed_request env ''tools/list'' params tools_page) None []"

definition tasks_page :: "json \<Rightarrow> (task list \<times> string option) result" where
  "tasks_page j = rbind (task_list_result_from_json j) (\<lambda>p. Inr (tlr_tasks p, tlr_next_cursor p))"

definition list_all_tasks :: "'t client_env \<Rightarrow> 't client \<Rightarrow> ('t, task list result) client_run option" where
  "list_all_tasks env c =
     (if \<not> supports_server_task_list c
      then Some (Inl (make_client_error (error_code MethodNotFound) ''server does not support task listing'' ''''), c)
      else list_all_loop (\<lambda>params. parsed_request env ''tasks/list'' params tasks_page) None [] c)"

subsection \<open>Other requests\<close>

definition client_get_prompt :: "'t client_env \<Rightarrow> prompts_get_params \<Rightarrow> 't client \<Rightarrow> ('t, prompts_get_result parsed) client_run" where
  "client_get_prompt env params =
     throwing_request env ''prompts/get'' (prompts_get_params_to_json params) prompts_get_result_from_json"

definition get_prompt_named :: "'t client_env \<Rightarrow> string \<Rightarrow> json \<Rightarrow> 't client \<Rightarrow> ('t, prompts_get_result parsed) client_run" where
  "get_prompt_named env name args =
     client_get_prompt env \<lparr>pgp_name = name, pgp_arguments = args, pgp_meta = None, pgp_extensions = empty_object\<rparr>"

definition client_read_resource ::
  "'t client_env \<Rightarrow> resource_params \<Rightarrow> 't client \<Rightarrow> ('t, resource_contents resources_result result) client_run" where
  "client_read_resource env params =
     parsed_request env ''resources/read'' (resources_read_params_to_json params) resources_read_result_from_json"

definition read_resource_uri ::
  "'t client_env \<Rightarrow> string \<Rightarrow> 't client \<Rightarrow> ('t, resource_contents resources_result result) client_run" where
  "read_resource_uri env uri = client_read_resource env \<lparr>rp_uri = uri, rp_meta = None, rp_extensions = empty_object\<rparr>"

definition client_call_tool :: "'t client_env \<Rightarrow> tool_call \<Rightarrow> 't client \<Rightarrow> ('t, tool_result parsed) client_run" where
  "client_call_tool env call = throwing_request env ''tools/call'' (tool_call_to_json call) tool_result_from_json"

definition call_raw :: "'t client_env \<Rightarrow> string \<Rightarrow> json \<Rightarrow> 't client \<Rightarrow> ('t, tool_result parsed) client_run" where
  "call_raw env name args =
     client_call_tool env \<lparr>tc_name = name, tc_arguments = args, tc_task = None, tc_meta = None, tc_request_state = None,
       tc_input_responses = None, tc_extensions = empty_object\<rparr>"

definition call_tool_task :: "'t client_env \<Rightarrow> tool_call \<Rightarrow> 't client \<Rightarrow> ('t, create_task_result result) client_run" where
  "call_tool_task env call c =
     (if tc_task call = None
      then (Inl (make_client_error (error_code InvalidRequest) ''task-aware tool call requires task parameters'' ''''), c)
      else gated supports_server_task_tool_call ''server does not support task-aware tool calls''
             (parsed_request env ''tools/call'' (tool_call_to_json call) create_task_result_from_json) c)"

definition complete :: "'t client_env \<Rightarrow> complete_params \<Rightarrow> 't client \<Rightarrow> ('t, complete_result result) client_run" where
  "complete env params =
     gated supports_server_completion ''server does not support completion''
       (parsed_request env ''completion/complete'' (complete_params_to_json params) complete_result_from_json)"

definition complete_json :: "'t client_env \<Rightarrow> json \<Rightarrow> 't client \<Rightarrow> ('t, json result) client_run" where
  "complete_json env params =
     gated supports_server_completion ''server does not support completion''
       (send_request env ''completion/complete'' params)"

definition complete_argument ::
  "'t client_env \<Rightarrow> completion_reference \<Rightarrow> string \<Rightarrow> string \<Rightarrow> json \<Rightarrow> 't client \<Rightarrow> ('t, completion_result result) client_run" where
  "complete_argument env ref name current ctxt c =
     map_run cor_completion
       (complete env
          \<lparr>cp_ref = ref, cp_argument = \<lparr>ca_name = name, ca_value = current, ca_extensions = empty_object\<rparr>,
           cp_typed_context = None, cp_context = ctxt, cp_meta = None, cp_extensions = empty_object\<rparr> c)"

definition complete_prompt_argument ::
  "'t client_env \<Rightarrow> string \<Rightarrow> string \<Rightarrow> string \<Rightarrow> json \<Rightarrow> 't client \<Rightarrow> ('t, completion_result result) client_run" where
  "complete_prompt_argument env prompt_name = complete_argument env (prompt_completion_reference prompt_name)"

definition complete_resource_argument ::
  "'t client_env \<Rightarrow> string \<Rightarrow> string \<Rightarrow> string \<Rightarrow> json \<Rightarrow> 't client \<Rightarrow> ('t, completion_result result) client_run" where
  "complete_resource_argument env uri_template = complete_argument env (resource_completion_reference uri_template)"

definition complete_prompt_simple ::
  "'t client_env \<Rightarrow> string \<Rightarrow> string \<Rightarrow> string \<Rightarrow> json \<Rightarrow> 't client \<Rightarrow> ('t, string list result) client_run" where
  "complete_prompt_simple env prompt_name name current ctxt c =
     map_run cpr_values (complete_prompt_argument env prompt_name name current ctxt c)"

definition complete_resource_simple ::
  "'t client_env \<Rightarrow> string \<Rightarrow> string \<Rightarrow> string \<Rightarrow> json \<Rightarrow> 't client \<Rightarrow> ('t, string list result) client_run" where
  "complete_resource_simple env uri_template name current ctxt c =
     map_run cpr_values (complete_resource_argument env uri_template name current ctxt c)"

definition create_message ::
  "'t client_env \<Rightarrow> create_message_params \<Rightarrow> 't client \<Rightarrow> ('t, create_message_result result) client_run" where
  "create_message env params =
     parsed_request env ''sampling/createMessage'' (create_message_params_to_json params) create_message_result_from_json"

definition create_message_json :: "'t client_env \<Rightarrow> json \<Rightarrow> 't client \<Rightarrow> ('t, json result) client_run" where
  "create_message_json env = send_request env ''sampling/createMessage''"

definition create_elicitation ::
  "'t client_env \<Rightarrow> create_elicitation_request \<Rightarrow> 't client \<Rightarrow> ('t, create_elicitation_result result) client_run" where
  "create_elicitation env params =
     parsed_request env ''elicitation/create'' (create_elicitation_request_param_to_json params)
       create_elicitation_result_from_json"

definition create_elicitation_json :: "'t client_env \<Rightarrow> json \<Rightarrow> 't client \<Rightarrow> ('t, json result) client_run" where
  "create_elicitation_json env = send_request env ''elicitation/create''"

definition task_id_params :: "string \<Rightarrow> task_get_params" where
  "task_id_params tid = \<lparr>tgp_task_id = tid, tgp_meta = None, tgp_extensions = empty_object\<rparr>"

definition client_get_task :: "'t client_env \<Rightarrow> task_get_params \<Rightarrow> 't client \<Rightarrow> ('t, task result) client_run" where
  "client_get_task env params =
     gated supports_server_tasks ''server does not support tasks''
       (parsed_request env ''tasks/get'' (task_get_params_to_json params) task_from_json)"

definition get_task_id :: "'t client_env \<Rightarrow> string \<Rightarrow> 't client \<Rightarrow> ('t, task result) client_run" where
  "get_task_id env tid = client_get_task env (task_id_params tid)"

definition client_cancel_task :: "'t client_env \<Rightarrow> task_cancel_params \<Rightarrow> 't client \<Rightarrow> ('t, task result) client_run" where
  "client_cancel_task env params =
     gated supports_server_task_cancel ''server does not support task cancellation''
       (parsed_request env ''tasks/cancel'' (task_cancel_params_to_json params) task_from_json)"

definition cancel_task_id :: "'t client_env \<Rightarrow> string \<Rightarrow> 't client \<Rightarrow> ('t, task result) client_run" where
  "cancel_task_id env tid = client_cancel_task env (task_id_params tid)"

definition client_task_result :: "'t client_env \<Rightarrow> task_result_params \<Rightarrow> 't client \<Rightarrow> ('t, json result) client_run" where
  "client_task_result env params =
     gated supports_server_tasks ''server does not support tasks''
       (send_request env ''tasks/result'' (task_result_params_to_json params))"

definition task_result_id :: "'t client_env \<Rightarrow> string \<Rightarrow> 't client \<Rightarrow> ('t, json result) client_run" where
  "task_result_id env tid = client_task_result env (task_id_params tid)"

definition set_level :: "'t client_env \<Rightarrow> logging_set_level_params \<Rightarrow> 't client \<Rightarrow> ('t, unit result) client_run" where
  "set_level env params =
     gated supports_server_logging ''server does not support logging''
       (acknowledged env ''logging/setLevel'' (logging_set_level_params_to_json params))"

definition set_level_named :: "'t client_env \<Rightarrow> string \<Rightarrow> 't client \<Rightarrow> ('t, unit result) client_run" where
  "set_level_named env level c =
     (case logging_level_from_string level of
        None \<Rightarrow> (Inl (make_client_error (error_code InvalidRequest) ''logging/setLevel level is invalid'' ''''), c)
      | Some l \<Rightarrow> set_level env \<lparr>ls_level = l, ls_meta = None, ls_extensions = empty_object\<rparr> c)"

definition client_subscribe :: "'t client_env \<Rightarrow> string \<Rightarrow> 't client \<Rightarrow> ('t, unit result) client_run" where
  "client_subscribe env uri =
     gated supports_server_resource_subscribe ''server does not support resource subscriptions''
       (acknowledged env ''resources/subscribe'' (JObject [(''uri'', JString uri)]))"

definition client_unsubscribe :: "'t client_env \<Rightarrow> string \<Rightarrow> 't client \<Rightarrow> ('t, unit result) client_run" where
  "client_unsubscribe env uri =
     gated supports_server_resource_subscribe ''server does not support resource subscriptions''
       (acknowledged env ''resources/unsubscribe'' (JObject [(''uri'', JString uri)]))"

end
