(* ===== verification/Client_Correct.thy ===== *)
theory Client_Correct
  imports Client
begin

text \<open>
  What the client's requests do on the wire: when a listing of all pages ends and what it returns, how
  often a request is sent and with which identifiers, what a successful handshake has established, and the
  client listing the tasks of a server of this library.
\<close>

section \<open>Listings of all pages\<close>

text \<open>
  Where the loop is after a number of pages; \<open>None\<close> when it has returned by then. A chain of pages is a
  finite run of the loop that meets no error, with what its pages hold.
\<close>

fun after_pages :: "('t, 'a) page_reader \<Rightarrow> nat \<Rightarrow> string option \<Rightarrow> 't client \<Rightarrow> (string option \<times> 't client) option" where
  "after_pages page 0 cursor c = Some (cursor, c)"
| "after_pages page (Suc n) cursor c =
     (case page (cursor_params cursor) c of
        (Inl e, c') \<Rightarrow> None
      | (Inr (items, cursor'), c') \<Rightarrow>
          if cursor' \<noteq> None \<and> cursor' \<noteq> Some '''' then after_pages page n cursor' c' else None)"

inductive page_chain :: "('t, 'a) page_reader \<Rightarrow> string option \<Rightarrow> 't client \<Rightarrow> 'a list \<Rightarrow> 't client \<Rightarrow> bool"
  for page where
  last_page: "page (cursor_params cursor) c = (Inr (items, cursor'), c') \<Longrightarrow> cursor' \<in> {None, Some ''''} \<Longrightarrow>
    page_chain page cursor c items c'"
| next_page: "page (cursor_params cursor) c = (Inr (items, cursor'), c1) \<Longrightarrow> cursor' \<notin> {None, Some ''''} \<Longrightarrow>
    page_chain page cursor' c1 rest c' \<Longrightarrow> page_chain page cursor c (items @ rest) c'"

lemma loop_returns: "after_pages page n cursor c = None \<Longrightarrow> list_all_loop page cursor acc c \<noteq> None"
proof (induction n arbitrary: cursor c acc)
  case (Suc n)
  then show ?case
    by (subst list_all_loop.simps) (auto split: prod.splits sum.splits if_splits)
qed simp

lemma loop_result:
  "list_all_loop page cursor acc c = Some r \<Longrightarrow>
     (\<exists>n. after_pages page n cursor c = None) \<and>
     (\<forall>all. fst r = Inr all \<longrightarrow> (\<exists>items. all = acc @ items \<and> page_chain page cursor c items (snd r)))"
proof (induction rule: list_all_loop.raw_induct [rotated, consumes 1, case_names step])
  case (step loop page cursor acc c r)
  show ?case
  proof (cases "page (cursor_params cursor) c")
    case (Pair res c')
    show ?thesis
    proof (cases res)
      case (Inl e)
      then have "\<exists>n. after_pages page n cursor c = None" using Pair by (intro exI [of _ "Suc 0"]) simp
      then show ?thesis using step(2) Pair Inl by (intro conjI) auto
    next
      case (Inr b)
      obtain items cursor' where b: "b = (items, cursor')" by fastforce
      show ?thesis
      proof (cases "cursor' \<in> {None, Some ''''}")
        case True
        then have "\<exists>n. after_pages page n cursor c = None" using Pair Inr b by (intro exI [of _ "Suc 0"]) auto
        then show ?thesis using step(2) Pair Inr b True page_chain.last_page [of page cursor c items cursor' c']
          by (intro conjI) auto
      next
        case False
        then have rec: "loop page cursor' (acc @ items) c' = Some r" using step(2) Pair Inr b by (auto split: if_splits)
        from step(1) [OF this] obtain n where "after_pages page n cursor' c' = None" by blast
        then have "after_pages page (Suc n) cursor c = None" using Pair Inr b False by simp
        moreover have "\<exists>rest. all = acc @ rest \<and> page_chain page cursor c rest (snd r)" if res: "fst r = Inr all" for all
        proof -
          obtain rest where "all = (acc @ items) @ rest" "page_chain page cursor' c' rest (snd r)"
            using step(1) [OF rec] res by blast
          then show ?thesis using page_chain.next_page [OF _ False, of page cursor c items c' rest "snd r"] Pair Inr b
            by auto
        qed
        ultimately show ?thesis by blast
      qed
    qed
  qed
qed

lemma chain_runs: "page_chain page cursor c items c' \<Longrightarrow> list_all_loop page cursor acc c = Some (Inr (acc @ items), c')"
proof (induction arbitrary: acc rule: page_chain.induct)
  case (last_page cursor c items cursor' c')
  then show ?case by (subst list_all_loop.simps) auto
next
  case (next_page cursor c items cursor' c1 rest c')
  then show ?case by (subst list_all_loop.simps) auto
qed

lemma loop_iff:
  "list_all_loop page cursor [] c = None \<longleftrightarrow> (\<forall>n. after_pages page n cursor c \<noteq> None)"
  "list_all_loop page cursor [] c = Some (Inr items, c') \<longleftrightarrow> page_chain page cursor c items c'"
proof -
  show "list_all_loop page cursor [] c = None \<longleftrightarrow> (\<forall>n. after_pages page n cursor c \<noteq> None)"
    using loop_returns [of page _ cursor c "[]"] loop_result [of page cursor "[]" c] by (metis option.exhaust)
  show "list_all_loop page cursor [] c = Some (Inr items, c') \<longleftrightarrow> page_chain page cursor c items c'"
    using chain_runs [of page cursor c items c' "[]"] loop_result [of page cursor "[]" c "(Inr items, c')"] by auto
qed

text \<open>A server that answers every listing with an empty page and a cursor to the next one.\<close>

definition looping_env :: "unit client_env" where
  "looping_env =
     \<lparr>ce_is_http = False, ce_start = (\<lambda>t. (Inr (), t)),
      ce_send = (\<lambda>req t. (Inr (make_response (req_id req)
                   (JObject [(''nextCursor'', JString ''1''), (''tools'', JArray [])])), t)),
      ce_send_notification = (\<lambda>n t. (Inr (), t)), ce_stop = (\<lambda>t. t), ce_set_version = (\<lambda>v t. t),
      ce_dump = (\<lambda>j. '''')\<rparr>"

lemma looping_page:
  assumes "cl_transport c = Some ()"
  obtains c' where "parsed_request looping_env ''tools/list'' params tools_page c = (Inr ([], Some ''1''), c')"
    "cl_transport c' = Some ()"
  using assms
  by (cases "cl_started c")
    (auto simp: parsed_request_def send_request_def next_request_id_def raw_request_def send_rpc_request_def
      ensure_transport_started_def on_transport_def auto_initialize_def send_with_retry_def transmit_def
      looping_env_def require_result_payload_def make_response_def tools_page_def)

lemma looping_never_ends:
  "cl_transport c = Some () \<Longrightarrow>
   after_pages (\<lambda>params. parsed_request looping_env ''tools/list'' params tools_page) n cursor c \<noteq> None"
proof (induction n arbitrary: cursor c)
  case (Suc n)
  obtain c' where "parsed_request looping_env ''tools/list'' (cursor_params cursor) tools_page c = (Inr ([], Some ''1''), c')"
    "cl_transport c' = Some ()" using looping_page [OF Suc.prems] by blast
  then show ?case using Suc.IH by simp
qed simp

text \<open>C25: listing all tools returns exactly when the chain of next cursors ends, in a page without one
  (or with an empty one) or in an error; without an error it returns what the pages of the chain hold,
  in order. Nothing else bounds the loop: against a server that always names a next page it never returns.\<close>

theorem list_all_tools_terminates:
  "(list_all_tools env c = None \<longleftrightarrow>
      (\<forall>n. after_pages (\<lambda>params. parsed_request env ''tools/list'' params tools_page) n None c \<noteq> None)) \<and>
   (\<forall>items c'. list_all_tools env c = Some (Inr items, c') \<longleftrightarrow>
      page_chain (\<lambda>params. parsed_request env ''tools/list'' params tools_page) None c items c') \<and>
   list_all_tools looping_env (new_client (Some ())) = None"
  unfolding list_all_tools_def loop_iff
  using looping_never_ends [of "new_client (Some ())"] by (simp add: new_client_def)

section \<open>How often a request is sent\<close>

text \<open>The same transport with a log of the requests it was given.\<close>

definition logged :: "'t client_env \<Rightarrow> ('t \<times> json_rpc_request list) client_env" where
  "logged env =
     \<lparr>ce_is_http = ce_is_http env,
      ce_start = (\<lambda>(t, l). case ce_start env t of (r, t') \<Rightarrow> (r, t', l)),
      ce_send = (\<lambda>req (t, l). case ce_send env req t of (r, t') \<Rightarrow> (r, t', l @ [req])),
      ce_send_notification = (\<lambda>n (t, l). case ce_send_notification env n t of (r, t') \<Rightarrow> (r, t', l)),
      ce_stop = (\<lambda>(t, l). (ce_stop env t, l)), ce_set_version = (\<lambda>v (t, l). (ce_set_version env v t, l)),
      ce_dump = ce_dump env\<rparr>"

definition wire_log :: "('t \<times> json_rpc_request list) client \<Rightarrow> json_rpc_request list" where
  "wire_log c = (case cl_transport c of None \<Rightarrow> [] | Some (t, l) \<Rightarrow> l)"

abbreviation initialize_with_id :: "int64 \<Rightarrow> json \<Rightarrow> json_rpc_request" where
  "initialize_with_id i params \<equiv> make_request ''initialize'' (IdInt i) params"

lemma transmit_logged:
  assumes "transmit (logged env) req c = (r, c')" "cl_transport c \<noteq> None"
  shows "wire_log c' = wire_log c @ [req]" "cl_transport c' \<noteq> None" "cl_next_id c' = cl_next_id c"
    "cl_last_initialize c' = cl_last_initialize c" "cl_server_capabilities c' = cl_server_capabilities c"
    "cl_capabilities c' = cl_capabilities c"
    "\<exists>t t'. ce_send env req t = (r, t')"
  using assms by (auto simp: transmit_def on_transport_def logged_def wire_log_def split: option.splits prod.splits)

lemma start_logged:
  assumes "ensure_transport_started (logged env) c = (r, c')" "cl_transport c \<noteq> None"
  shows "wire_log c' = wire_log c" "cl_transport c' \<noteq> None" "cl_next_id c' = cl_next_id c"
    "cl_last_initialize c' = cl_last_initialize c" "cl_server_capabilities c' = cl_server_capabilities c"
    "cl_capabilities c' = cl_capabilities c"
  using assms
  by (auto simp: ensure_transport_started_def on_transport_def logged_def wire_log_def
      split: option.splits prod.splits sum.splits if_splits)

lemma record_frame:
  assumes "record_server_capabilities payload c = (r, c')"
  shows "wire_log c' = wire_log c" "cl_transport c' = cl_transport c" "cl_next_id c' = cl_next_id c"
    "cl_last_initialize c' = cl_last_initialize c" "cl_capabilities c' = cl_capabilities c"
  using assms by (auto simp: record_server_capabilities_def wire_log_def split: sum.splits if_splits)

lemma send_initialize_logged:
  assumes "send_initialize (logged env) params c = (r, c')" "cl_transport c \<noteq> None"
  shows "wire_log c' = wire_log c @ [initialize_with_id (cl_next_id c) params]" "cl_transport c' \<noteq> None"
    "cl_next_id c' = cl_next_id c + 1" "cl_last_initialize c' = cl_last_initialize c"
    "cl_capabilities c' = cl_capabilities c" "cl_server_capabilities c' = cl_server_capabilities c"
proof -
  let ?c = "c\<lparr>cl_next_id := cl_next_id c + 1\<rparr>"
  have w: "wire_log ?c = wire_log c" "cl_transport ?c \<noteq> None" using assms(2) by (simp_all add: wire_log_def)
  have "transmit (logged env) (initialize_with_id (cl_next_id c) params) ?c = (r, c')"
    using assms(1) by (simp add: send_initialize_def next_request_id_def)
  note t = transmit_logged [OF this w(2)]
  show "wire_log c' = wire_log c @ [initialize_with_id (cl_next_id c) params]" "cl_transport c' \<noteq> None"
    "cl_next_id c' = cl_next_id c + 1" "cl_last_initialize c' = cl_last_initialize c"
    "cl_capabilities c' = cl_capabilities c" "cl_server_capabilities c' = cl_server_capabilities c"
    using t(1-6) w(1) by simp_all
qed

lemma auto_initialize_logged:
  fixes env :: "'t client_env" and req c
  assumes "cl_transport c \<noteq> None"
  defines "p \<equiv> client_initialize_params ''cxxmcp'' ''0'' (cl_capabilities c)"
  defines "c' \<equiv> auto_initialize (logged env) req c"
  shows "cl_transport c' \<noteq> None \<and>
    (if req_method req \<noteq> ''initialize'' \<and> ce_is_http env \<and> cl_last_initialize c = None
     then wire_log c' = wire_log c @ [initialize_with_id (cl_next_id c) p] \<and> cl_next_id c' = cl_next_id c + 1 \<and>
          cl_last_initialize c' = Some p
     else c' = c)"
proof (cases "req_method req \<noteq> ''initialize'' \<and> ce_is_http env \<and> cl_last_initialize c = None")
  case True
  let ?c = "c\<lparr>cl_last_initialize := Some p\<rparr>"
  obtain r c1 where s: "send_initialize (logged env) p ?c = (r, c1)" by fastforce
  have h: "ce_is_http (logged env) = ce_is_http env" by (simp add: logged_def)
  have "cl_transport ?c \<noteq> None" "wire_log ?c = wire_log c" using assms(1) by (simp_all add: wire_log_def)
  note i = send_initialize_logged [OF s this(1), unfolded this(2), simplified]
  obtain x c2 where "record_server_capabilities (case r of Inl e \<Rightarrow> JNull | Inr v \<Rightarrow> projr (require_initialize_payload (logged env) v)) c1 = (x, c2)"
    by fastforce
  note rec = this record_frame [OF this]
  have "c' = c1 \<or> c' = c2"
    using True s rec(1) by (auto simp: c'_def auto_initialize_def h Let_def p_def [symmetric] split: sum.split)
  then show ?thesis using True i rec(2-) by auto
qed (use assms(1) in \<open>auto simp: c'_def auto_initialize_def logged_def\<close>)

definition attempts :: "json_rpc_request \<Rightarrow> int64 \<Rightarrow> json option \<Rightarrow> json_rpc_request list \<Rightarrow> bool" where
  "attempts req i params log \<longleftrightarrow>
     log = [req] \<or> (req_method req = ''initialize'' \<and> log = [req, req]) \<or>
     (\<exists>p. req_method req \<noteq> ''initialize'' \<and> params = Some p \<and>
        log \<in> {[req, initialize_with_id i p], [req, initialize_with_id i p, req]})"

text \<open>The transport can answer the request with the end of the session.\<close>

definition session_lost :: "'t client_env \<Rightarrow> json_rpc_request \<Rightarrow> bool" where
  "session_lost env req \<longleftrightarrow> (\<exists>t e. fst (ce_send env req t) = Inl e \<and> is_session_terminated_error e)"

lemma retry_logged:
  assumes "send_with_retry (logged env) req c = (r, c')" "cl_transport c \<noteq> None"
  shows "\<exists>log. wire_log c' = wire_log c @ log \<and> attempts req (cl_next_id c) (cl_last_initialize c) log \<and>
    (log \<noteq> [req] \<longrightarrow> session_lost env req)"
proof -
  obtain r1 c1 where t: "transmit (logged env) req c = (r1, c1)" by fastforce
  note t1 = transmit_logged [OF t assms(2)]
  have once: ?thesis if "c' = c1" using t1(1) that by (intro exI [of _ "[req]"]) (simp add: attempts_def)
  show ?thesis
  proof (cases "\<exists>e. r1 = Inl e \<and> is_session_terminated_error e")
    case False
    then show ?thesis using assms(1) t once by (auto simp: send_with_retry_def split: sum.splits)
  next
    case True
    then obtain e where e: "r1 = Inl e" "is_session_terminated_error e" by blast
    then have failed: "session_lost env req"
      using t1(7) by (metis fst_conv session_lost_def)
    show ?thesis
    proof (cases "req_method req = ''initialize''")
      case True
      then have "transmit (logged env) req c1 = (r, c')" using assms(1) t e by (simp add: send_with_retry_def)
      from transmit_logged(1) [OF this t1(2)] show ?thesis
        using t1(1) failed True by (intro exI [of _ "[req, req]"]) (simp add: attempts_def)
    next
      case other: False
      show ?thesis
      proof (cases "cl_last_initialize c")
        case None
        then show ?thesis using assms(1) t e other t1(4) once by (simp add: send_with_retry_def)
      next
        case (Some p)
        obtain r2 c2 where s: "send_initialize (logged env) p c1 = (r2, c2)" by fastforce
        note s2 = send_initialize_logged [OF s t1(2)]
        obtain r3 c3 where re: "reinitialize (logged env) p c1 = (r3, c3)" by fastforce
        have c3: "wire_log c3 = wire_log c2" "cl_transport c3 \<noteq> None"
          using re s s2(2) by (auto simp: reinitialize_def dest: record_frame split: sum.splits)
        have log: "wire_log c3 = wire_log c @ [req, initialize_with_id (cl_next_id c) p]"
          using c3(1) s2(1) t1(1,3) by simp
        show ?thesis
        proof (cases r3)
          case (Inl e')
          then have "c' = c3" using assms(1) t e other t1(4) Some re by (simp add: send_with_retry_def)
          then show ?thesis using log failed other Some
            by (intro exI [of _ "[req, initialize_with_id (cl_next_id c) p]"]) (simp add: attempts_def)
        next
          case (Inr u)
          then have "transmit (logged env) req c3 = (r, c')" using assms(1) t e other t1(4) Some re by (simp add: send_with_retry_def)
          from transmit_logged(1) [OF this c3(2)] log show ?thesis using failed other Some
            by (intro exI [of _ "[req, initialize_with_id (cl_next_id c) p, req]"]) (simp add: attempts_def)
        qed
      qed
    qed
  qed
qed

text \<open>C23: a request gets the next identifier. On the wire it is preceded by at most one initialize, and
  only over HTTP before any handshake; it is sent once, or, only when the transport reported the session as
  terminated, repeated after one more initialize with the recorded parameters. The identifiers of these
  initializes are the following ones.\<close>

theorem request_attempts:
  assumes "send_request (logged env) m params c = (r, c')" "cl_transport c \<noteq> None"
  defines "q \<equiv> make_request m (IdInt (cl_next_id c)) params"
  defines "p \<equiv> client_initialize_params ''cxxmcp'' ''0'' (cl_capabilities c)"
  shows "(wire_log c' = wire_log c \<and> (\<exists>e. r = Inl e)) \<or>
    (\<exists>log. (if m \<noteq> ''initialize'' \<and> ce_is_http env \<and> cl_last_initialize c = None
            then wire_log c' = wire_log c @ initialize_with_id (cl_next_id c + 1) p # log \<and>
                 attempts q (cl_next_id c + 2) (Some p) log
            else wire_log c' = wire_log c @ log \<and> attempts q (cl_next_id c + 1) (cl_last_initialize c) log) \<and>
       (log \<noteq> [q] \<longrightarrow> session_lost env q))"
proof -
  let ?c = "c\<lparr>cl_next_id := cl_next_id c + 1\<rparr>"
  have w: "wire_log ?c = wire_log c" "cl_transport ?c \<noteq> None" "req_method q = m"
    using assms(2) by (simp_all add: wire_log_def q_def make_request_def)
  obtain s c1 where st: "ensure_transport_started (logged env) ?c = (s, c1)" by fastforce
  note st1 = start_logged [OF st w(2)]
  obtain x c2 where rpc: "send_rpc_request (logged env) q ?c = (x, c2)" by fastforce
  have raw: "raw_request (logged env) q ?c = (r, c')" using assms(1) by (simp add: send_request_def next_request_id_def q_def)
  then have c2: "c' = c2" using rpc by (auto simp: raw_request_def split: sum.splits)
  show ?thesis
  proof (cases s)
    case (Inl e)
    then show ?thesis using raw st st1(1) w(1) by (auto simp: raw_request_def send_rpc_request_def)
  next
    case (Inr u)
    then have "send_with_retry (logged env) q (auto_initialize (logged env) q c1) = (x, c')"
      using rpc st c2 by (simp add: send_rpc_request_def)
    note retry = retry_logged [OF this]
    note auto = auto_initialize_logged [OF st1(2), where req = q and env = env, unfolded w(3)]
    have "\<exists>log. (if m \<noteq> ''initialize'' \<and> ce_is_http env \<and> cl_last_initialize c = None
            then wire_log c' = wire_log c @ initialize_with_id (cl_next_id c + 1) p # log \<and>
                 attempts q (cl_next_id c + 2) (Some p) log
            else wire_log c' = wire_log c @ log \<and> attempts q (cl_next_id c + 1) (cl_last_initialize c) log) \<and>
       (log \<noteq> [q] \<longrightarrow> session_lost env q)"
    proof (cases "m \<noteq> ''initialize'' \<and> ce_is_http env \<and> cl_last_initialize c = None")
      case True
      then show ?thesis using retry auto st1 w(1) by (auto simp: p_def add.assoc)
    next
      case False
      then show ?thesis using retry auto st1 w(1) by auto
    qed
    then show ?thesis by (rule disjI2)
  qed
qed

section \<open>The handshake\<close>

text \<open>Operations of the transport leave the rest of the client alone.\<close>

definition same_session :: "'t client \<Rightarrow> 't client \<Rightarrow> bool" where
  "same_session c c' \<longleftrightarrow> cl_next_id c' = cl_next_id c \<and> cl_last_initialize c' = cl_last_initialize c \<and>
     cl_server_capabilities c' = cl_server_capabilities c \<and> cl_capabilities c' = cl_capabilities c"

lemma same_session_refl [simp]: "same_session c c"
  by (simp add: same_session_def)

lemma same_session_trans: "same_session a b \<Longrightarrow> same_session b c \<Longrightarrow> same_session a c"
  by (simp add: same_session_def)

lemma on_transport_same: "on_transport f c = (r, c') \<Longrightarrow> same_session c c'"
  by (auto simp: on_transport_def same_session_def split: option.splits prod.splits)

lemma start_same: "ensure_transport_started env c = (r, c') \<Longrightarrow> same_session c c'"
  by (auto simp: ensure_transport_started_def on_transport_def same_session_def
      split: sum.splits if_splits prod.splits option.splits)

lemma initialize_retry_same:
  assumes "send_with_retry env req c = (r, c')" "req_method req = ''initialize''"
  shows "same_session c c'"
proof -
  obtain r1 c1 where t: "transmit env req c = (r1, c1)" by fastforce
  then have "same_session c c1" by (auto simp: transmit_def dest: on_transport_same)
  moreover have "c' = c1 \<or> transmit env req c1 = (r, c')"
    using assms t by (auto simp: send_with_retry_def split: sum.splits if_splits)
  ultimately show ?thesis by (auto simp: transmit_def dest: on_transport_same same_session_trans)
qed

lemma initialize_rpc_same:
  assumes "send_rpc_request env req c = (r, c')" "req_method req = ''initialize''"
  shows "same_session c c'"
proof -
  obtain s c1 where st: "ensure_transport_started env c = (s, c1)" by fastforce
  have "c' = c1 \<or> send_with_retry env req c1 = (r, c')"
    using assms st by (auto simp: send_rpc_request_def auto_initialize_def split: sum.splits)
  then show ?thesis
    using start_same [OF st] initialize_retry_same [OF _ assms(2), of env c1 r c'] same_session_trans by blast
qed

text \<open>What a payload of a successful handshake establishes, against the capabilities known before.\<close>

definition handshake_done :: "json \<Rightarrow> server_capabilities option \<Rightarrow> server_capabilities option \<Rightarrow> bool" where
  "handshake_done payload before known \<longleftrightarrow>
     (is_object payload \<and> \<not> jcontains payload ''protocolVersion'' \<and> known = before) \<or>
     (\<exists>p. initialize_result_from_json payload = Inr p \<and> is_supported_protocol_version (ir_protocol_version p) \<and>
          known = Some (ir_capabilities p))"

lemma initialize_payload_accepted:
  assumes "require_initialize_payload env r = Inr payload"
  shows "(is_object payload \<and> \<not> jcontains payload ''protocolVersion'') \<or>
    (\<exists>p. initialize_result_from_json payload = Inr p \<and> is_supported_protocol_version (ir_protocol_version p))"
proof -
  obtain j where "require_result_payload env r = Inr j"
    "(if is_object j \<and> \<not> jcontains j ''protocolVersion'' then Inr j
      else case initialize_result_from_json j of
        Inl e \<Rightarrow> Inl (make_client_error (err_code e) (err_message e) (err_detail e))
      | Inr parsed \<Rightarrow>
          if \<not> is_supported_protocol_version (ir_protocol_version parsed)
          then Inl (make_client_error (error_code InvalidRequest) (unsupported_version (ir_protocol_version parsed)) '''')
          else Inr j) = Inr payload"
    using assms by (auto simp: require_initialize_payload_def rbind_eq_Inr)
  then show ?thesis by (auto split: if_splits sum.splits)
qed

lemma recorded_payload_done:
  assumes "recorded_payload env r c = (Inr payload, c')"
  shows "handshake_done payload (cl_server_capabilities c) (cl_server_capabilities c')"
    "cl_last_initialize c' = cl_last_initialize c"
proof -
  have "require_initialize_payload env r = Inr payload \<and> record_server_capabilities payload c = (Inr (), c')"
    using assms by (auto simp: recorded_payload_def split: sum.splits prod.splits)
  then show "handshake_done payload (cl_server_capabilities c) (cl_server_capabilities c')"
    "cl_last_initialize c' = cl_last_initialize c"
    using initialize_payload_accepted [of env r payload]
    by (auto simp: record_server_capabilities_def handshake_done_def split: if_splits sum.splits)
qed

lemma do_initialize_frame:
  assumes "do_initialize env opts params v c = (r, c')"
  shows "cl_last_initialize c' = cl_last_initialize c \<and> cl_server_capabilities c' = cl_server_capabilities c"
proof -
  have "same_session (c\<lparr>cl_next_id := cl_next_id c + 1\<rparr>) c'"
    using assms initialize_rpc_same [of env _ "c\<lparr>cl_next_id := cl_next_id c + 1\<rparr>" r c']
    by (auto simp: do_initialize_def next_request_id_def make_request_def)
  then show ?thesis by (simp add: same_session_def)
qed

text \<open>C24: a handshake that succeeds, with or without options, has either a result in a supported protocol
  version, whose capabilities the client then knows, or an object without a version, which changes nothing.
  What the client keeps for a later handshake of its own are the parameters it proposed first, also when the
  server refused their version and another one was negotiated.\<close>

theorem handshake_outcome:
  "(client_initialize env name version c = (Inr payload, c') \<longrightarrow>
      handshake_done payload (cl_server_capabilities c) (cl_server_capabilities c') \<and>
      cl_last_initialize c' = Some (client_initialize_params name version (cl_capabilities c))) \<and>
   (client_initialize_with env name version opts c = (Returns (Inr payload), c') \<longrightarrow>
      handshake_done payload (cl_server_capabilities c) (cl_server_capabilities c') \<and>
      cl_last_initialize c' = Some (options_params name version opts c))"
proof (intro conjI impI)
  assume run: "client_initialize env name version c = (Inr payload, c')"
  define p where "p = client_initialize_params name version (cl_capabilities c)"
  define c0 where "c0 = c\<lparr>cl_last_initialize := Some p, cl_next_id := cl_next_id c + 1\<rparr>"
  obtain r c1 where rpc: "send_rpc_request env (initialize_with_id (cl_next_id c) p) c0 = (r, c1)" by fastforce
  then have "same_session c0 c1" by (rule initialize_rpc_same) (simp add: make_request_def)
  moreover obtain v where "recorded_payload env v c1 = (Inr payload, c')"
    using run rpc by (auto simp: client_initialize_def next_request_id_def p_def c0_def Let_def split: sum.splits)
  ultimately show "handshake_done payload (cl_server_capabilities c) (cl_server_capabilities c')"
    "cl_last_initialize c' = Some (client_initialize_params name version (cl_capabilities c))"
    using recorded_payload_done [of env v c1 payload c'] by (simp_all add: same_session_def c0_def p_def)
next
  assume run: "client_initialize_with env name version opts c = (Returns (Inr payload), c')"
  define p where "p = options_params name version opts c"
  obtain r c1 where one: "do_initialize env opts p (ro_protocol_version opts) (c\<lparr>cl_last_initialize := Some p\<rparr>) = (r, c1)"
    by fastforce
  note first = do_initialize_frame [OF one]
  have "\<exists>v c2. recorded_payload env v c2 = (Inr payload, c') \<and> cl_last_initialize c2 = cl_last_initialize c1 \<and>
     cl_server_capabilities c2 = cl_server_capabilities c1"
    using run one
    by (auto simp: client_initialize_with_def Let_def p_def [symmetric]
        dest!: do_initialize_frame intro!: exI split: sum.splits option.splits if_splits prod.splits)
  then obtain v c2 where "recorded_payload env v c2 = (Inr payload, c')" "cl_last_initialize c2 = cl_last_initialize c1"
    "cl_server_capabilities c2 = cl_server_capabilities c1" by blast
  then show "handshake_done payload (cl_server_capabilities c) (cl_server_capabilities c')"
    "cl_last_initialize c' = Some (options_params name version opts c)"
    using recorded_payload_done [of env v c2 payload c'] first by (simp_all add: p_def)
qed

text \<open>
  A server that speaks one version only and names it when it refuses another, behind a transport whose
  sessions end at once.
\<close>

definition picky_env :: "unit client_env" where
  "picky_env =
     \<lparr>ce_is_http = True, ce_start = (\<lambda>t. (Inr (), t)),
      ce_send = (\<lambda>req t.
        (if req_method req \<noteq> ''initialize''
         then Inl (mk_error (error_code InvalidRequest) ''http transport session was terminated'' '''' '''')
         else if jfind (req_params req) ''protocolVersion'' = Some (JString ''2025-06-18'')
         then Inr (make_response (req_id req) (JObject []))
         else Inr (make_error_response (Some (req_id req)) (make_error (error_code InvalidParams) ''unsupported version''
                     (Some (JObject [(''supportedVersion'', JString ''2025-06-18'')])))), t)),
      ce_send_notification = (\<lambda>n t. (Inr (), t)), ce_stop = (\<lambda>t. t), ce_set_version = (\<lambda>v t. t),
      ce_dump = (\<lambda>j. '''')\<rparr>"

definition picky_options :: request_options where
  "picky_options = \<lparr>ro_meta = None, ro_headers = [], ro_protocol_version = Some ''2025-11-25''\<rparr>"

lemma picky_run:
  "client_initialize_with picky_env ''app'' ''1'' picky_options (new_client (Some ())) =
     (Returns (Inr (JObject [])),
      (new_client (Some ()))\<lparr>cl_started := True, cl_next_id := 3,
        cl_last_initialize := Some (options_params ''app'' ''1'' picky_options (new_client (Some ())))\<rparr>)"
  by (simp add: client_initialize_with_def options_params_def client_initialize_params_def picky_options_def Let_def
      do_initialize_def next_request_id_def send_rpc_request_def ensure_transport_started_def on_transport_def picky_env_def
      auto_initialize_def make_request_def send_with_retry_def transmit_def jset_opt_def extract_server_version_def
      make_error_response_def make_error_def make_response_def negotiated_params_def recorded_payload_def
      require_initialize_payload_def require_result_payload_def record_server_capabilities_def new_client_def jcontains_def)

theorem handshake_outcome_witness:
  "handshake_done (JObject []) None None \<and>
   fst (send_request picky_env ''ping'' (JObject [])
          (snd (client_initialize_with picky_env ''app'' ''1'' picky_options (new_client (Some ()))))) =
     Inl (mk_error (error_code InvalidParams) ''unsupported version'' '''' ''protocol'')"
proof -
  let ?c = "new_client (Some ())"
  let ?c' = "snd (client_initialize_with picky_env ''app'' ''1'' picky_options ?c)"
  have run: "client_initialize_with picky_env ''app'' ''1'' picky_options ?c = (Returns (Inr (JObject [])), ?c')"
    by (simp add: picky_run)
  have kept: "handshake_done (JObject []) (cl_server_capabilities ?c) (cl_server_capabilities ?c') \<and>
      cl_last_initialize ?c' = Some (options_params ''app'' ''1'' picky_options ?c)"
    using handshake_outcome [of picky_env "''app''" "''1''" ?c "JObject []" ?c' picky_options] run by blast
  have "fst (send_request picky_env ''ping'' (JObject []) ?c') =
     Inl (mk_error (error_code InvalidParams) ''unsupported version'' '''' ''protocol'')"
    unfolding picky_run snd_conv
    by (simp add: send_request_def next_request_id_def raw_request_def send_rpc_request_def
        ensure_transport_started_def on_transport_def picky_env_def auto_initialize_def make_request_def
        send_with_retry_def transmit_def is_session_terminated_error_def mk_error_def reinitialize_def send_initialize_def
        options_params_def client_initialize_params_def picky_options_def jset_opt_def require_initialize_payload_def
        require_result_payload_def make_error_response_def make_error_def new_client_def jcontains_def)
  moreover have "cl_server_capabilities ?c = None" "cl_server_capabilities ?c' = None"
    unfolding picky_run snd_conv by (simp_all add: new_client_def)
  ultimately show ?thesis using kept by simp
qed

theorem request_attempts_witness:
  "wire_log (snd (send_request (logged looping_env) ''ping'' (JObject []) (new_client (Some ((), []))))) =
     [make_request ''ping'' (IdInt 1) (JObject [])]"
proof -
  let ?c = "new_client (Some ((), [])) :: (unit \<times> json_rpc_request list) client"
  have no: "\<not> session_lost looping_env q" for q by (simp add: session_lost_def looping_env_def)
  obtain r c' where run: "send_request (logged looping_env) ''ping'' (JObject []) ?c = (r, c')" by fastforce
  have ok: "\<exists>v. r = Inr v"
    using run
    by (auto simp: send_request_def next_request_id_def raw_request_def send_rpc_request_def logged_def looping_env_def
        ensure_transport_started_def on_transport_def auto_initialize_def send_with_retry_def transmit_def
        require_result_payload_def make_response_def new_client_def)
  have h: "\<not> ce_is_http looping_env" by (simp add: looping_env_def)
  have "wire_log c' = [make_request ''ping'' (IdInt 1) (JObject [])]"
    using request_attempts [OF run] ok no h by (auto simp: new_client_def wire_log_def)
  then show ?thesis by (simp add: run)
qed

section \<open>A client on a server of this library\<close>

text \<open>A transport that hands each request to a server and its response back.\<close>

definition linked :: "server_env \<Rightarrow> session_context \<Rightarrow> server client_env" where
  "linked senv sc =
     \<lparr>ce_is_http = False, ce_start = (\<lambda>s. (Inr (), s)),
      ce_send = (\<lambda>req s. case handle_request senv req sc s of
                   (Val r, s') \<Rightarrow> (Inr r, s')
                 | (_, s') \<Rightarrow> (Inl (mk_error (error_code InternalError) ''connection lost'' '''' ''transport''), s')),
      ce_send_notification = (\<lambda>n s. (Inr (), s)), ce_stop = (\<lambda>s. s), ce_set_version = (\<lambda>v s. s),
      ce_dump = (\<lambda>j. '''')\<rparr>"

text \<open>The server lists the tasks of the processor \<open>p\<close> itself, without authentication, limits or raw handlers.\<close>

definition serves_tasks :: "task_processor \<Rightarrow> server \<Rightarrow> bool" where
  "serves_tasks p s \<longleftrightarrow> sv_auth_provider s = None \<and> sv_rate_limiter s = None \<and> sv_task_processor s = Some p \<and>
     h_raw_request_context (sv_handlers s) = None \<and> h_raw_request (sv_handlers s) = None \<and> h_task_list (sv_handlers s) = None"

lemma cursor_params_written: "cursor_params cursor = task_list_params_to_json (list_params cursor)"
  by (cases cursor)
    (simp_all add: cursor_params_def task_list_params_to_json_def list_params_def reflect_to_json_def
      task_list_params_reflect_def jset_opt_def field_def optional_trait_def string_trait_def optional_json_trait_def
      append_json_extensions_def)

lemma cursor_params_read: "task_list_params_from_json (cursor_params cursor) = Inr (list_params cursor)"
  unfolding cursor_params_written task_list_params_from_json_def task_list_params_to_json_def
  by (rule tlp.roundtrip) (simp add: list_params_ok_def list_params_def meta_ok_def)

lemma stamp_result_found:
  assumes "k \<notin> {''resultType'', ''cacheScope'', ''ttlMs''}"
  shows "jfind (stamp_result req sc j) k = jfind j k" "is_object (stamp_result req sc j) = is_object j"
  using assms by (auto simp: stamp_result_def default_member_def Let_def)

lemma rbind_assoc: "rbind (rbind r f) g = rbind r (\<lambda>x. rbind (f x) g)"
  by (cases r) simp_all

lemma tasks_page_cong:
  assumes "\<And>k. k \<in> {''tasks'', ''nextCursor'', ''total'', ''_meta''} \<Longrightarrow> jfind j k = jfind j' k" "is_object j = is_object j'"
  shows "tasks_page j = tasks_page j'"
proof -
  have "list_cursor j = list_cursor j'" "list_total j = list_total j'" "object_meta j msg = object_meta j' msg"
    "jfind j ''tasks'' = jfind j' ''tasks''" for msg
    using assms(1) by (simp_all add: list_cursor_def list_total_def object_meta_def optional_member_def)
  then show ?thesis
    using assms(2) by (simp add: tasks_page_def task_list_result_from_json_def rbind_assoc split: option.split json.split)
qed

lemma small_total:
  assumes "len < 2 ^ 63"
  shows "\<not> (word_of_nat len :: int64) <s 0"
proof -
  have "\<not> bit (int len) 63" using assms by (simp add: bit_iff_odd)
  then show ?thesis using assms by (simp add: word_sless_alt sint_uint unsigned_of_nat take_bit_nat_eq_self bit_take_bit_iff)
qed

lemma tasks_list_answered:
  fixes p
  defines "len \<equiv> length (tp_order p)"
  defines "ps \<equiv> (if to_list_page_size (tp_options p) = 0 then len else unat (to_list_page_size (tp_options p)))"
  defines "snap \<equiv> (\<lambda>k. tk_task (the (find_task_locked k p)))"
  assumes s: "serves_tasks p s" and quiet: "refresh_locked (env_clock senv) (env_stamp senv) p = ([], p)" and ok: "store_ok p"
    and bounds: "len < 2 ^ 63" "unat (to_list_page_size (tp_options p)) \<le> 2 ^ 63" "n \<le> len"
    and cursor: "parse_task_list_cursor cursor = Inr (word_of_nat n)"
    and tasks: "\<forall>k\<in>set (tp_order p). task_ok (snap k)"
  obtains r s' j where
    "handle_request senv (make_request ''tasks/list'' i (cursor_params cursor)) sc s = (Val r, s')"
    "resp_error r = None" "resp_result r = Some j"
    "tasks_page j = Inr (map snap (take (min (n + ps) len - n) (drop n (tp_order p))),
                         if n + ps < len then Some (nat_to_string (n + ps)) else None)"
    "serves_tasks p s'"
proof -
  define page where "page = \<lparr>tlr_tasks = map snap (take (min (n + ps) len - n) (drop n (tp_order p))),
    tlr_next_cursor = (if n + ps < len then Some (nat_to_string (n + ps)) else None),
    tlr_total = Some (word_of_nat len), tlr_meta = None, tlr_extensions = empty_object\<rparr>"
  have list: "list_tasks (list_params cursor) (env_clock senv) (env_stamp senv) p = (Returns (Inr page), [], p)"
    using list_page [OF quiet ok _ _ _ cursor] bounds by (simp add: page_def len_def ps_def snap_def)
  let ?req = "make_request ''tasks/list'' i (cursor_params cursor)"
  obtain tok s1 where b: "begin_request_cancellation (req_id ?req) s = (tok, s1)" by fastforce
  have s1: "serves_tasks p s1" using b s by (auto simp: begin_request_cancellation_def serves_tasks_def)
  have h: "handle_tasks_list senv ?req sc tok s1 = (Val (reply ?req task_list_result_to_json (Inr page)),
     emit [] (s1\<lparr>sv_task_processor := Some p\<rparr>))"
    using s1 list
    by (simp add: handle_tasks_list_def serves_tasks_def make_request_def cursor_params_read with_processor_def)
  have d: "dispatch senv ?req sc tok s1 = handle_tasks_list senv ?req sc tok s1"
    using s1 by (simp add: dispatch_def raw_response_def dispatch_method_def serves_tasks_def make_request_def)
  let ?j = "stamp_result ?req sc (task_list_result_to_json page)"
  let ?s' = "end_request_cancellation (req_id ?req) (emit [] (s1\<lparr>sv_task_processor := Some p\<rparr>))"
  have run: "handle_request senv ?req sc s = (Val ((make_response i (task_list_result_to_json page))\<lparr>resp_result := Some ?j\<rparr>), ?s')"
    using s s1 b h d
    by (simp add: handle_request_def handle_request_impl_def authenticate_context_def rate_limit_refusal_def serves_tasks_def
        catch_reply_def map_outcome_def reply_def make_request_def make_response_def)
  have "task_list_result_from_json (task_list_result_to_json page) = Inr page"
  proof (rule task_list_result_roundtrip)
    show "\<forall>t\<in>set (tlr_tasks page). task_ok t"
      using tasks by (auto simp: page_def dest!: in_set_takeD in_set_dropD)
    show "case tlr_total page of None \<Rightarrow> True | Some n \<Rightarrow> \<not> n <s 0" using bounds(1) by (simp add: page_def small_total)
  qed (simp_all add: page_def object_meta_ok_def)
  moreover have "tasks_page ?j = tasks_page (task_list_result_to_json page)"
    by (rule tasks_page_cong) (auto simp: stamp_result_found stamp_result_found(2) [of "''tasks''"])
  ultimately have "tasks_page ?j = Inr (tlr_tasks page, tlr_next_cursor page)" by (simp add: tasks_page_def)
  then show thesis
    using that [OF run] s1
    by (simp add: page_def make_response_def serves_tasks_def end_request_cancellation_def emit_def)
qed

lemma linked_request:
  assumes c: "cl_transport c = Some s" and m: "m \<noteq> ''initialize''"
    and h: "handle_request senv (make_request m (IdInt (cl_next_id c)) params) sc s = (Val r, s')"
    and r: "resp_error r = None" "resp_result r = Some j"
  obtains c' where "parsed_request (linked senv sc) m params parse c = (parse j, c')" "cl_transport c' = Some s'"
proof -
  have "ensure_transport_started (linked senv sc) (c\<lparr>cl_next_id := cl_next_id c + 1\<rparr>) =
    (Inr (), c\<lparr>cl_next_id := cl_next_id c + 1, cl_started := True\<rparr>)"
    using c by (cases c) (auto simp: ensure_transport_started_def on_transport_def linked_def)
  then have "parsed_request (linked senv sc) m params parse c =
    (parse j, c\<lparr>cl_next_id := cl_next_id c + 1, cl_started := True, cl_transport := Some s'\<rparr>)"
    using c h r m
    by (simp add: parsed_request_def send_request_def next_request_id_def raw_request_def send_rpc_request_def
        auto_initialize_def send_with_retry_def transmit_def on_transport_def linked_def require_result_payload_def)
  then show thesis by (rule that) simp
qed

lemma tasks_chain:
  fixes p
  defines "snap \<equiv> (\<lambda>k. tk_task (the (find_task_locked k p)))"
  assumes quiet: "refresh_locked (env_clock senv) (env_stamp senv) p = ([], p)" and ok: "store_ok p"
    and bounds: "length (tp_order p) < 2 ^ 63" "unat (to_list_page_size (tp_options p)) \<le> 2 ^ 63"
    and tasks: "\<forall>k\<in>set (tp_order p). task_ok (snap k)"
  shows "n \<le> length (tp_order p) \<Longrightarrow> parse_task_list_cursor cursor = Inr (word_of_nat n) \<Longrightarrow>
    cl_transport c = Some s \<Longrightarrow> serves_tasks p s \<Longrightarrow>
    \<exists>c'. page_chain (\<lambda>params. parsed_request (linked senv sc) ''tasks/list'' params tasks_page) cursor c
           (map snap (drop n (tp_order p))) c'"
proof (induction "length (tp_order p) - n" arbitrary: n cursor c s rule: less_induct)
  case less
  define len where "len = length (tp_order p)"
  define ps where "ps = (if to_list_page_size (tp_options p) = 0 then len else unat (to_list_page_size (tp_options p)))"
  obtain r s' j where h: "handle_request senv (make_request ''tasks/list'' (IdInt (cl_next_id c)) (cursor_params cursor)) sc s = (Val r, s')"
    and r: "resp_error r = None" "resp_result r = Some j" and s': "serves_tasks p s'"
    and j: "tasks_page j = Inr (map snap (take (min (n + ps) len - n) (drop n (tp_order p))),
                         if n + ps < len then Some (nat_to_string (n + ps)) else None)"
    unfolding len_def ps_def snap_def
    by (rule tasks_list_answered [OF less.prems(4) quiet ok bounds less.prems(1,2) tasks [unfolded snap_def]])
  obtain c' where c': "parsed_request (linked senv sc) ''tasks/list'' (cursor_params cursor) tasks_page c = (tasks_page j, c')"
    "cl_transport c' = Some s'" by (rule linked_request [OF less.prems(3) _ h r]) simp
  show ?case
  proof (cases "n + ps < len")
    case True
    have pos: "0 < ps"
    proof (rule ccontr)
      assume "\<not> 0 < ps"
      then show False using True by (auto simp: ps_def unat_eq_0 split: if_splits)
    qed
    let ?cur = "nat_to_string (n + ps)"
    have shorter: "length (tp_order p) - (n + ps) < length (tp_order p) - n" using True pos by (auto simp: len_def)
    obtain c'' where rest: "page_chain (\<lambda>params. parsed_request (linked senv sc) ''tasks/list'' params tasks_page) (Some ?cur) c'
        (map snap (drop (n + ps) (tp_order p))) c''"
      using less.hyps [OF shorter _ parse_offset c'(2) s'] True bounds(1) by (auto simp: len_def)
    have "take ps (drop n (tp_order p)) @ drop (n + ps) (tp_order p) = drop n (tp_order p)"
      by (metis add.commute append_take_drop_id drop_drop)
    moreover have "?cur \<noteq> ''''" by simp
    ultimately show ?thesis
      using page_chain.next_page [OF _ _ rest, where cursor = cursor and c = c] c'(1) j True
      by (fastforce simp flip: map_append)
  next
    case False
    then have "take (min (n + ps) len - n) (drop n (tp_order p)) = drop n (tp_order p)" by (simp add: len_def)
    then show ?thesis
      using page_chain.last_page [where cursor = cursor and c = c and c' = c'] c'(1) j False by fastforce
  qed
qed

text \<open>C26: a client connected to a server that keeps its tasks in a task processor gets from
  \<open>list_all_tasks\<close>, which returns, every retained task exactly once and in order of creation, as long as
  no task changes, whatever the page size (up to \<open>2 ^ 63\<close>) and the protocol version.\<close>

theorem list_all_tasks_complete:
  assumes "cl_transport c = Some s" "serves_tasks p s" "supports_server_task_list c"
    and "refresh_locked (env_clock senv) (env_stamp senv) p = ([], p)" "store_ok p"
    and "length (tp_order p) < 2 ^ 63" "unat (to_list_page_size (tp_options p)) \<le> 2 ^ 63"
    and "\<forall>k\<in>set (tp_order p). task_ok (tk_task (the (find_task_locked k p)))"
  shows "\<exists>c'. list_all_tasks (linked senv sc) c =
    Some (Inr (map (\<lambda>k. tk_task (the (find_task_locked k p))) (tp_order p)), c')"
  using tasks_chain [OF assms(4-8) _ _ assms(1,2), of 0 None sc] assms(3)
  by (auto simp: list_all_tasks_def loop_iff parse_task_list_cursor_def)

definition task_server :: server where
  "task_server = (new_server (sb_options new_builder))\<lparr>sv_task_processor := Some sample_done\<rparr>"

definition task_server_env :: server_env where
  "task_server_env = Server_Correct.sample_env\<lparr>env_clock := clk0, env_stamp := stamp0\<rparr>"

theorem list_all_tasks_complete_witness:
  "\<exists>c'. list_all_tasks (linked task_server_env empty_session) (new_client (Some task_server)) =
     Some (Inr [sample_task_of 1, tk_task (finish_record 0 ''t0'' (Inr JNull) (sample_record 2))], c')"
proof -
  let ?c = "new_client (Some task_server)"
  have order: "tp_order sample_done = [''task-1'', ''task-2'']" "to_list_page_size (tp_options sample_done) = 1"
    by (simp_all add: sample_done_def sample_two_def new_task_processor_def Task_Manager.sample_options_def)
  have c: "cl_transport ?c = Some task_server" "supports_server_task_list ?c"
    by (simp_all add: new_client_def supports_server_task_list_def supports_def)
  have s: "serves_tasks sample_done task_server"
    by (simp add: serves_tasks_def task_server_def new_server_def no_handlers_def)
  have quiet: "refresh_locked (env_clock task_server_env) (env_stamp task_server_env) sample_done = ([], sample_done)"
    using sample_done_refresh by (simp add: task_server_env_def)
  have "task_ok (tk_task (sample_record 1))" "task_ok (tk_task (finish_record 0 ''t0'' (Inr JNull) (sample_record 2)))"
    by (simp_all add: task_ok_def sample_record_def sample_task_of_def finish_record_def new_task_def default_task_def)
  then have "\<forall>k\<in>set (tp_order sample_done). task_ok (tk_task (the (find_task_locked k sample_done)))"
    by (simp add: order sample_done_find)
  from list_all_tasks_complete [OF c(1) s c(2) quiet sample_done_store _ _ this, of empty_session]
  show ?thesis by (simp add: order sample_done_find) (simp add: sample_record_def)
qed

end
