(* ===== verification/Client_Handlers.thy ===== *)
theory Client_Handlers
  imports Client
begin

text \<open>
  The receiving side of src/sdk/client/src/client.cpp: requests and notifications from the server, their
  handlers, cancellation by request identifier, and the handler aggregates of
  src/sdk/client/include/cxxmcp/client/handler.hpp.

  A handler is application code: a function that returns a value or throws. What the client calls is kept as a
  sequence of observations. The lambdas that adapt an aggregate are translated with it.
\<close>

section \<open>Handlers and state\<close>

datatype 'a called = Gave 'a | Threw string | ThrewUnknown

definition on_called :: "('a \<Rightarrow> 'b) \<Rightarrow> 'a called \<Rightarrow> 'b called" where
  "on_called f r = (case r of Gave v \<Rightarrow> Gave (f v) | Threw w \<Rightarrow> Threw w | ThrewUnknown \<Rightarrow> ThrewUnknown)"

record client_handlers =
  hc_initialized :: "unit called option"
  hc_cancelled :: "(request_id \<Rightarrow> string \<Rightarrow> unit called) option"
  hc_logging_message :: "(string \<Rightarrow> string \<Rightarrow> unit called) option"
  hc_tool_list_changed :: "unit called option"
  hc_prompt_list_changed :: "unit called option"
  hc_resource_list_changed :: "unit called option"
  hc_resource_updated :: "(string \<Rightarrow> unit called) option"
  hc_progress :: "(progress_notification_params \<Rightarrow> unit called) option"
  hc_elicitation_complete :: "(string \<Rightarrow> unit called) option"
  hc_task_status :: "(task \<Rightarrow> unit called) option"
  hc_roots_list_changed :: "unit called option"
  hc_roots_list :: "roots_list_result result called option"
  hc_roots_list_cancellation :: "(cancellation_token \<Rightarrow> roots_list_result result called) option"
  hc_sampling :: "(create_message_params \<Rightarrow> create_message_result result called) option"
  hc_sampling_cancellation :: "(create_message_params \<Rightarrow> cancellation_token \<Rightarrow> create_message_result result called) option"
  hc_elicitation :: "(create_elicitation_request \<Rightarrow> create_elicitation_result result called) option"
  hc_elicitation_cancellation ::
    "(create_elicitation_request \<Rightarrow> cancellation_token \<Rightarrow> create_elicitation_result result called) option"
  hc_custom :: "(json_rpc_request \<Rightarrow> json result called) option"
  hc_custom_cancellation :: "(json_rpc_request \<Rightarrow> cancellation_token \<Rightarrow> json result called) option"
  hc_raw_notification :: "(json_rpc_notification \<Rightarrow> unit called) option"

definition no_client_handlers :: client_handlers where
  "no_client_handlers = \<lparr>hc_initialized = None, hc_cancelled = None, hc_logging_message = None,
     hc_tool_list_changed = None, hc_prompt_list_changed = None, hc_resource_list_changed = None,
     hc_resource_updated = None, hc_progress = None, hc_elicitation_complete = None, hc_task_status = None,
     hc_roots_list_changed = None, hc_roots_list = None, hc_roots_list_cancellation = None, hc_sampling = None,
     hc_sampling_cancellation = None, hc_elicitation = None, hc_elicitation_cancellation = None, hc_custom = None,
     hc_custom_cancellation = None, hc_raw_notification = None\<rparr>"

datatype client_call =
    CallInitialized | CallCancelled request_id string | CallLogging string string
  | CallToolsChanged | CallPromptsChanged | CallResourcesChanged | CallResourceUpdated string
  | CallProgress progress_notification_params | CallElicitationComplete string | CallTaskStatus task
  | CallRootsChanged | CallRaw json_rpc_notification

record 't endpoint =
  ep_client :: "'t client"
  ep_handlers :: client_handlers
  ep_active :: "nat alist"
  ep_cancelled :: "nat list"
  ep_next_source :: nat
  ep_calls :: "client_call list"

definition new_endpoint :: "'t option \<Rightarrow> 't endpoint" where
  "new_endpoint t = \<lparr>ep_client = new_client t, ep_handlers = no_client_handlers, ep_active = [], ep_cancelled = [],
     ep_next_source = 0, ep_calls = []\<rparr>"

text \<open>\<open>store_handler\<close> of client.hpp; the \<open>on_\<close> functions are its uses with the setters of the record.\<close>

definition client_store_handler :: "(client_handlers \<Rightarrow> client_handlers) \<Rightarrow> 't endpoint \<Rightarrow> 't endpoint" where
  "client_store_handler f ep = ep\<lparr>ep_handlers := f (ep_handlers ep)\<rparr>"

text \<open>Calling a notification handler, if there is one.\<close>

definition invoke :: "'h option \<Rightarrow> ('h \<Rightarrow> unit called) \<Rightarrow> client_call \<Rightarrow> 't endpoint \<Rightarrow> unit result called \<times> 't endpoint" where
  "invoke h f ev ep =
     (case h of
        None \<Rightarrow> (Gave (Inr ()), ep)
      | Some g \<Rightarrow> (on_called Inr (f g), ep\<lparr>ep_calls := ep_calls ep @ [ev]\<rparr>))"

definition list_roots :: "'t endpoint \<Rightarrow> root list" where
  "list_roots ep = cl_roots (ep_client ep)"

definition set_roots :: "root list \<Rightarrow> 't endpoint \<Rightarrow> unit result called \<times> 't endpoint" where
  "set_roots roots ep =
     invoke (hc_roots_list_changed (ep_handlers ep)) (\<lambda>h. h) CallRootsChanged
       (ep\<lparr>ep_client := (ep_client ep)\<lparr>cl_roots := roots\<rparr>\<rparr>)"

definition set_capabilities :: "client_capabilities \<Rightarrow> 't endpoint \<Rightarrow> 't endpoint" where
  "set_capabilities caps ep = ep\<lparr>ep_client := (ep_client ep)\<lparr>cl_capabilities := Some caps\<rparr>\<rparr>"

section \<open>Cancellation\<close>

definition client_begin_cancellation :: "request_id \<Rightarrow> 't endpoint \<Rightarrow> cancellation_token \<times> 't endpoint" where
  "client_begin_cancellation rid ep =
     (Some (ep_next_source ep),
      ep\<lparr>ep_active := al_set (request_cancellation_key rid) (ep_next_source ep) (ep_active ep),
         ep_next_source := Suc (ep_next_source ep)\<rparr>)"

definition client_end_cancellation :: "request_id \<Rightarrow> 't endpoint \<Rightarrow> 't endpoint" where
  "client_end_cancellation rid ep = ep\<lparr>ep_active := al_erase (request_cancellation_key rid) (ep_active ep)\<rparr>"

definition client_cancel_request :: "request_id \<Rightarrow> 't endpoint \<Rightarrow> 't endpoint" where
  "client_cancel_request rid ep =
     (case map_of (ep_active ep) (request_cancellation_key rid) of
        None \<Rightarrow> ep
      | Some src \<Rightarrow> ep\<lparr>ep_cancelled := src # ep_cancelled ep\<rparr>)"

section \<open>Notifications\<close>

definition message_level :: "json \<Rightarrow> string" where
  "message_level params = (case jfind params ''level'' of Some (JString s) \<Rightarrow> s | _ \<Rightarrow> '''')"

definition message_text :: "'t client_env \<Rightarrow> json \<Rightarrow> string" where
  "message_text env params =
     (case jfind params ''data'' of None \<Rightarrow> '''' | Some (JString s) \<Rightarrow> s | Some d \<Rightarrow> ce_dump env d)"

definition invalid_notification :: "string \<Rightarrow> core_error" where
  "invalid_notification msg = make_client_error (error_code InvalidParams) msg ''''"

text \<open>The chain of method tests. A branch that needs a handler does nothing without one.\<close>

definition client_dispatch_notification ::
  "'t client_env \<Rightarrow> json_rpc_notification \<Rightarrow> 't endpoint \<Rightarrow> unit result called \<times> 't endpoint" where
  "client_dispatch_notification env n ep =
     (let hs = ep_handlers ep; m = notif_method n; params = notif_params n;
          bad = (\<lambda>msg. (Gave (Inl (invalid_notification msg)), ep))
      in
      if m = ''notifications/initialized'' then invoke (hc_initialized hs) (\<lambda>h. h) CallInitialized ep
      else if m = ''notifications/cancelled'' then
        (case cancelled_notification_params_from_json params of
           None \<Rightarrow> bad ''cancelled notification requires a requestId''
         | Some p \<Rightarrow>
             let rid = cn_request_id p; reason = case_option '''' (\<lambda>r. r) (cn_reason p)
             in invoke (hc_cancelled hs) (\<lambda>h. h rid reason) (CallCancelled rid reason) (client_cancel_request rid ep))
      else if m = ''notifications/message'' then
        invoke (hc_logging_message hs) (\<lambda>h. h (message_level params) (message_text env params))
          (CallLogging (message_level params) (message_text env params)) ep
      else if m = ''notifications/tools/list_changed'' then invoke (hc_tool_list_changed hs) (\<lambda>h. h) CallToolsChanged ep
      else if m = ''notifications/prompts/list_changed'' then invoke (hc_prompt_list_changed hs) (\<lambda>h. h) CallPromptsChanged ep
      else if m = ''notifications/resources/list_changed''
      then invoke (hc_resource_list_changed hs) (\<lambda>h. h) CallResourcesChanged ep
      else if m = ''notifications/resources/updated'' \<and> hc_resource_updated hs \<noteq> None then
        (case jfind params ''uri'' of
           Some (JString uri) \<Rightarrow> invoke (hc_resource_updated hs) (\<lambda>h. h uri) (CallResourceUpdated uri) ep
         | _ \<Rightarrow> bad ''resource updated notification requires a string uri'')
      else if m = ''notifications/progress'' \<and> hc_progress hs \<noteq> None then
        (case progress_notification_params_from_json params of
           None \<Rightarrow> bad ''progress notification requires valid params''
         | Some p \<Rightarrow> invoke (hc_progress hs) (\<lambda>h. h p) (CallProgress p) ep)
      else if m = ''notifications/elicitation/complete'' \<and> hc_elicitation_complete hs \<noteq> None then
        (case elicitation_complete_from_json params of
           Inl _ \<Rightarrow> bad ''elicitation completion notification requires valid params''
         | Inr p \<Rightarrow> invoke (hc_elicitation_complete hs) (\<lambda>h. h (ecn_elicitation_id p))
                      (CallElicitationComplete (ecn_elicitation_id p)) ep)
      else if m = ''notifications/tasks/status'' \<and> hc_task_status hs \<noteq> None then
        (case task_from_json params of
           Inl _ \<Rightarrow> bad ''task status notification requires valid task data''
         | Inr t \<Rightarrow> invoke (hc_task_status hs) (\<lambda>h. h t) (CallTaskStatus t) ep)
      else if m = ''notifications/roots/list_changed'' then invoke (hc_roots_list_changed hs) (\<lambda>h. h) CallRootsChanged ep
      else (Gave (Inr ()), ep))"

definition caught_result :: "'a result called \<Rightarrow> 'a result" where
  "caught_result r = (case r of Gave v \<Rightarrow> v | Threw w \<Rightarrow> Inl (handler_failed w) | ThrewUnknown \<Rightarrow> Inl handler_unknown_exception)"

definition client_handle_notification ::
  "'t client_env \<Rightarrow> json_rpc_notification \<Rightarrow> 't endpoint \<Rightarrow> unit result \<times> 't endpoint" where
  "client_handle_notification env n ep =
     (case client_dispatch_notification env n ep of
        (Gave (Inr _), ep1) \<Rightarrow>
          (case invoke (hc_raw_notification (ep_handlers ep)) (\<lambda>h. h n) (CallRaw n) ep1 of
             (r, ep2) \<Rightarrow> (caught_result r, ep2))
      | (r, ep1) \<Rightarrow> (caught_result r, ep1))"

section \<open>Requests\<close>

text \<open>
  The two functions of this name in client.cpp and the end they share: the error of a result, or its value
  as JSON.
\<close>

definition client_error_response :: "json_rpc_request \<Rightarrow> int32 \<Rightarrow> string \<Rightarrow> string \<Rightarrow> json_rpc_response" where
  "client_error_response req code msg detail =
     make_error_response (Some (req_id req)) (make_error code msg (if detail = '''' then None else Some (JString detail)))"

definition client_params_error :: "json_rpc_request \<Rightarrow> core_error \<Rightarrow> json_rpc_response" where
  "client_params_error req e =
     client_error_response req
       (if err_code e = error_code InvalidRequest then error_code InvalidParams else err_code e) (err_message e) (err_detail e)"

definition client_reply :: "json_rpc_request \<Rightarrow> ('a \<Rightarrow> json) \<Rightarrow> 'a result \<Rightarrow> json_rpc_response" where
  "client_reply req to_json r =
     (case r of
        Inl e \<Rightarrow> client_error_response req (err_code e) (err_message e) (err_detail e)
      | Inr v \<Rightarrow> make_response (req_id req) (to_json v))"

text \<open>The handler with a cancellation token is preferred to the one without.\<close>

definition preferred :: "(cancellation_token \<Rightarrow> 'a) option \<Rightarrow> 'a option \<Rightarrow> cancellation_token \<Rightarrow> 'a option" where
  "preferred with_token plain tok = (case with_token of Some h \<Rightarrow> Some (h tok) | None \<Rightarrow> plain)"

text \<open>
  The handlers are copied before one of them is called (\<open>ep\<close>). What is read from the client itself, its roots and
  its capabilities, is read afterwards (\<open>now\<close>).
\<close>

definition answer_roots ::
  "json_rpc_request \<Rightarrow> cancellation_token \<Rightarrow> 't endpoint \<Rightarrow> 't endpoint \<Rightarrow> json_rpc_response called" where
  "answer_roots req tok ep now =
     (let hs = ep_handlers ep in
      case preferred (hc_roots_list_cancellation hs) (hc_roots_list hs) tok of
        Some out \<Rightarrow> on_called (client_reply req roots_list_result_to_json) out
      | None \<Rightarrow> Gave (make_response (req_id req)
          (roots_list_result_to_json \<lparr>rl_roots = list_roots now, rl_meta = None, rl_extensions = empty_object\<rparr>)))"

definition answer_sampling :: "json_rpc_request \<Rightarrow> cancellation_token \<Rightarrow> 't endpoint \<Rightarrow> json_rpc_response called" where
  "answer_sampling req tok ep =
     (let hs = ep_handlers ep in
      if hc_sampling hs = None \<and> hc_sampling_cancellation hs = None
      then Gave (client_error_response req (error_code MethodNotFound) ''sampling request handler is not configured'' '''')
      else case create_message_params_from_json (req_params req) of
        Inl e \<Rightarrow> Gave (client_params_error req e)
      | Inr params \<Rightarrow>
          (case hc_sampling_cancellation hs of
             Some h \<Rightarrow> on_called (client_reply req create_message_result_to_json) (h params tok)
           | None \<Rightarrow> on_called (client_reply req create_message_result_to_json) (the (hc_sampling hs) params)))"

definition declined :: create_elicitation_result where
  "declined = \<lparr>ers_action = Decline, ers_content = None, ers_meta = None, ers_extensions = empty_object\<rparr>"

text \<open>
  An answer to a form is validated when the \<open>std::optional<bool>\<close> capability has a value, whatever the value
  is.
\<close>

definition checked_elicitation ::
  "json_rpc_request \<Rightarrow> client_capabilities \<Rightarrow> create_elicitation_request \<Rightarrow> create_elicitation_result \<Rightarrow> json_rpc_response" where
  "checked_elicitation req caps params res =
     (case (if er_mode params = Form \<and> ec_form_schema_validation (cc_elicitation caps) \<noteq> None
            then validate_elicitation_result_content (er_schema params) res else Inr ()) of
        Inl e \<Rightarrow> client_error_response req (error_code InternalError) ''elicitation result failed schema validation'' (err_message e)
      | Inr _ \<Rightarrow> make_response (req_id req) (create_elicitation_result_to_json res))"

definition answer_elicitation ::
  "json_rpc_request \<Rightarrow> cancellation_token \<Rightarrow> 't endpoint \<Rightarrow> 't endpoint \<Rightarrow> json_rpc_response called" where
  "answer_elicitation req tok ep now =
     (let hs = ep_handlers ep in
      case create_elicitation_request_param_from_json (req_params req) of
        Inl e \<Rightarrow> Gave (client_params_error req e)
      | Inr params \<Rightarrow>
          (case preferred (map_option (\<lambda>h. h params) (hc_elicitation_cancellation hs))
                  (map_option (\<lambda>h. h params) (hc_elicitation hs)) tok of
             None \<Rightarrow> Gave (make_response (req_id req) (create_elicitation_result_to_json declined))
           | Some out \<Rightarrow>
               on_called (\<lambda>r. case r of
                   Inl e \<Rightarrow> client_error_response req (err_code e) (err_message e) (err_detail e)
                 | Inr res \<Rightarrow> checked_elicitation req (announced_capabilities (cl_capabilities (ep_client now))) params res) out))"

definition answer_custom :: "json_rpc_request \<Rightarrow> cancellation_token \<Rightarrow> 't endpoint \<Rightarrow> json_rpc_response called" where
  "answer_custom req tok ep =
     (let hs = ep_handlers ep in
      case preferred (map_option (\<lambda>h. h req) (hc_custom_cancellation hs)) (map_option (\<lambda>h. h req) (hc_custom hs)) tok of
        Some out \<Rightarrow> on_called (client_reply req (\<lambda>j. j)) out
      | None \<Rightarrow> Gave (client_error_response req (error_code MethodNotFound) ''method not found'' (req_method req)))"

definition client_dispatch_request ::
  "json_rpc_request \<Rightarrow> cancellation_token \<Rightarrow> 't endpoint \<Rightarrow> 't endpoint \<Rightarrow> json_rpc_response called" where
  "client_dispatch_request req tok ep now =
     (if req_method req = ''roots/list'' then answer_roots req tok ep now
      else if req_method req = ''sampling/createMessage'' then answer_sampling req tok ep
      else if req_method req = ''elicitation/create'' then answer_elicitation req tok ep now
      else answer_custom req tok ep)"

definition caught_response :: "json_rpc_request \<Rightarrow> json_rpc_response called \<Rightarrow> json_rpc_response" where
  "caught_response req out =
     (let failed = (\<lambda>e. client_error_response req (err_code e) (err_message e) (err_detail e)) in
      case out of Gave r \<Rightarrow> r | Threw w \<Rightarrow> failed (handler_failed w) | ThrewUnknown \<Rightarrow> failed handler_unknown_exception)"

text \<open>
  \<open>handle_request\<close> never returns the error of its \<open>Result\<close>. The clean-up runs when the scope is left, with
  or without an exception. The handler itself and other threads may change the endpoint: \<open>during\<close> is what they do until the
  handler has returned, \<open>later\<close> what they do from then until the entry of the request is removed.
\<close>

definition client_handle_request ::
  "('t endpoint \<Rightarrow> 't endpoint) \<Rightarrow> ('t endpoint \<Rightarrow> 't endpoint) \<Rightarrow> json_rpc_request \<Rightarrow> 't endpoint \<Rightarrow>
   json_rpc_response \<times> 't endpoint" where
  "client_handle_request during later req ep =
     (if req_method req = ''ping'' then (make_response (req_id req) empty_object, ep)
      else let (tok, ep1) = client_begin_cancellation (req_id req) ep; ep2 = during ep1
           in (caught_response req (client_dispatch_request req tok ep1 ep2), client_end_cancellation (req_id req) (later ep2)))"

section \<open>Handler aggregates\<close>

text \<open>\<open>ClientHandler\<close>: one member per slot, and the compatibility aliases.\<close>

record client_handler_bundle =
  hb_slots :: client_handlers
  hb_roots_list_request :: "roots_list_result result called option"
  hb_roots_list_request_cancellation :: "(cancellation_token \<Rightarrow> roots_list_result result called) option"
  hb_sampling_request :: "(create_message_params \<Rightarrow> create_message_result result called) option"
  hb_sampling_request_cancellation ::
    "(create_message_params \<Rightarrow> cancellation_token \<Rightarrow> create_message_result result called) option"
  hb_elicitation_request :: "(create_elicitation_request \<Rightarrow> create_elicitation_result result called) option"
  hb_elicitation_request_cancellation ::
    "(create_elicitation_request \<Rightarrow> cancellation_token \<Rightarrow> create_elicitation_result result called) option"
  hb_custom_notification :: "(json_rpc_notification \<Rightarrow> unit called) option"

definition overriding :: "'a option \<Rightarrow> 'a option \<Rightarrow> 'a option" where
  "overriding new old = (case new of Some h \<Rightarrow> Some h | None \<Rightarrow> old)"

definition apply_bundle :: "client_handler_bundle \<Rightarrow> 't endpoint \<Rightarrow> 't endpoint" where
  "apply_bundle b =
     (let n = hb_slots b in
      client_store_handler (\<lambda>h. h\<lparr>
        hc_initialized := overriding (hc_initialized n) (hc_initialized h),
        hc_cancelled := overriding (hc_cancelled n) (hc_cancelled h),
        hc_logging_message := overriding (hc_logging_message n) (hc_logging_message h),
        hc_tool_list_changed := overriding (hc_tool_list_changed n) (hc_tool_list_changed h),
        hc_prompt_list_changed := overriding (hc_prompt_list_changed n) (hc_prompt_list_changed h),
        hc_resource_list_changed := overriding (hc_resource_list_changed n) (hc_resource_list_changed h),
        hc_resource_updated := overriding (hc_resource_updated n) (hc_resource_updated h),
        hc_progress := overriding (hc_progress n) (hc_progress h),
        hc_elicitation_complete := overriding (hc_elicitation_complete n) (hc_elicitation_complete h),
        hc_task_status := overriding (hc_task_status n) (hc_task_status h),
        hc_roots_list_changed := overriding (hc_roots_list_changed n) (hc_roots_list_changed h),
        hc_roots_list := overriding (hb_roots_list_request b) (overriding (hc_roots_list n) (hc_roots_list h)),
        hc_roots_list_cancellation := overriding (hb_roots_list_request_cancellation b)
          (overriding (hc_roots_list_cancellation n) (hc_roots_list_cancellation h)),
        hc_sampling := overriding (hb_sampling_request b) (overriding (hc_sampling n) (hc_sampling h)),
        hc_sampling_cancellation := overriding (hb_sampling_request_cancellation b)
          (overriding (hc_sampling_cancellation n) (hc_sampling_cancellation h)),
        hc_elicitation := overriding (hb_elicitation_request b) (overriding (hc_elicitation n) (hc_elicitation h)),
        hc_elicitation_cancellation := overriding (hb_elicitation_request_cancellation b)
          (overriding (hc_elicitation_cancellation n) (hc_elicitation_cancellation h)),
        hc_custom := overriding (hc_custom n) (hc_custom h),
        hc_custom_cancellation := overriding (hc_custom_cancellation n) (hc_custom_cancellation h),
        hc_raw_notification := overriding (hb_custom_notification b) (overriding (hc_raw_notification n) (hc_raw_notification h))\<rparr>))"

text \<open>\<open>ClientHandlerInterface\<close>; a request hook that returns nothing has not handled the request.\<close>

record client_handler_interface =
  hi_initialized :: "unit called"
  hi_cancelled :: "request_id \<Rightarrow> string \<Rightarrow> unit called"
  hi_logging_message :: "string \<Rightarrow> string \<Rightarrow> unit called"
  hi_tool_list_changed :: "unit called"
  hi_prompt_list_changed :: "unit called"
  hi_resource_list_changed :: "unit called"
  hi_resource_updated :: "string \<Rightarrow> unit called"
  hi_progress :: "progress_notification_params \<Rightarrow> unit called"
  hi_elicitation_complete :: "string \<Rightarrow> unit called"
  hi_task_status :: "task \<Rightarrow> unit called"
  hi_roots_list_changed :: "unit called"
  hi_list_roots :: "cancellation_token \<Rightarrow> roots_list_result result option called"
  hi_create_message :: "create_message_params \<Rightarrow> cancellation_token \<Rightarrow> create_message_result result option called"
  hi_create_elicitation ::
    "create_elicitation_request \<Rightarrow> cancellation_token \<Rightarrow> create_elicitation_result result option called"
  hi_custom_request :: "json_rpc_request \<Rightarrow> cancellation_token \<Rightarrow> json result option called"
  hi_raw_notification :: "json_rpc_notification \<Rightarrow> unit called"

definition client_handler_not_found :: "string \<Rightarrow> core_error" where
  "client_handler_not_found msg = mk_error (error_code MethodNotFound) msg '''' ''''"

definition handled_or :: "string \<Rightarrow> 'a result option called \<Rightarrow> 'a result called" where
  "handled_or msg = on_called (\<lambda>r. case r of Some res \<Rightarrow> res | None \<Rightarrow> Inl (client_handler_not_found msg))"

definition set_handler_interface :: "client_handler_interface \<Rightarrow> 't endpoint \<Rightarrow> 't endpoint" where
  "set_handler_interface i =
     client_store_handler (\<lambda>h. h\<lparr>
       hc_initialized := Some (hi_initialized i), hc_cancelled := Some (hi_cancelled i),
       hc_logging_message := Some (hi_logging_message i), hc_tool_list_changed := Some (hi_tool_list_changed i),
       hc_prompt_list_changed := Some (hi_prompt_list_changed i),
       hc_resource_list_changed := Some (hi_resource_list_changed i), hc_resource_updated := Some (hi_resource_updated i),
       hc_progress := Some (hi_progress i), hc_elicitation_complete := Some (hi_elicitation_complete i),
       hc_task_status := Some (hi_task_status i), hc_roots_list_changed := Some (hi_roots_list_changed i),
       hc_roots_list_cancellation := Some (\<lambda>tok. handled_or ''client handler does not handle list_roots'' (hi_list_roots i tok)),
       hc_sampling_cancellation := Some (\<lambda>p tok. handled_or ''client handler does not handle create_message'' (hi_create_message i p tok)),
       hc_elicitation_cancellation := Some (\<lambda>p tok. handled_or ''client handler does not handle elicitation'' (hi_create_elicitation i p tok)),
       hc_custom_cancellation := Some (\<lambda>r tok. handled_or ''client handler does not handle custom request'' (hi_custom_request i r tok)),
       hc_raw_notification := Some (hi_raw_notification i)\<rparr>)"

text \<open>The default implementation of every hook.\<close>

definition silent_interface :: client_handler_interface where
  "silent_interface = \<lparr>hi_initialized = Gave (), hi_cancelled = (\<lambda>_ _. Gave ()),
     hi_logging_message = (\<lambda>_ _. Gave ()), hi_tool_list_changed = Gave (), hi_prompt_list_changed = Gave (),
     hi_resource_list_changed = Gave (), hi_resource_updated = (\<lambda>_. Gave ()), hi_progress = (\<lambda>_. Gave ()),
     hi_elicitation_complete = (\<lambda>_. Gave ()), hi_task_status = (\<lambda>_. Gave ()), hi_roots_list_changed = Gave (),
     hi_list_roots = (\<lambda>_. Gave None), hi_create_message = (\<lambda>_ _. Gave None),
     hi_create_elicitation = (\<lambda>_ _. Gave None), hi_custom_request = (\<lambda>_ _. Gave None),
     hi_raw_notification = (\<lambda>_. Gave ())\<rparr>"

section \<open>Every request is answered\<close>

text \<open>A response to the request with either a result or an error.\<close>

definition answers_request :: "json_rpc_request \<Rightarrow> json_rpc_response \<Rightarrow> bool" where
  "answers_request req r \<longleftrightarrow> resp_id r = Some (req_id req) \<and> (resp_result r \<noteq> None \<longleftrightarrow> resp_error r = None)"

named_theorems client_answers

lemma answers_basic [simp, client_answers]:
  "answers_request req (make_response (req_id req) j)"
  "answers_request req (client_error_response req code msg detail)"
  "answers_request req (client_params_error req e)"
  by (simp_all add: answers_request_def make_response_def client_error_response_def client_params_error_def make_error_response_def)

lemma answers_reply [simp, client_answers]: "answers_request req (client_reply req f r)"
  by (simp add: client_reply_def split: sum.split)

lemma answers_checked [simp, client_answers]: "answers_request req (checked_elicitation req caps params res)"
  by (simp add: checked_elicitation_def split: sum.split)

definition all_given :: "('a \<Rightarrow> bool) \<Rightarrow> 'a called \<Rightarrow> bool" where
  "all_given P out = (case out of Gave v \<Rightarrow> P v | _ \<Rightarrow> True)"

lemma all_given_simps [simp]:
  "all_given P (Gave v) = P v"
  "(\<And>v. P (f v)) \<Longrightarrow> all_given P (on_called f out)"
  by (simp_all add: all_given_def on_called_def split: called.split)

lemma dispatch_answers: "all_given (answers_request req) (client_dispatch_request req tok ep now)"
  by (auto simp: client_dispatch_request_def answer_roots_def answer_sampling_def answer_elicitation_def answer_custom_def
      Let_def split: option.split sum.split)

lemma caught_answers: "answers_request req (caught_response req (client_dispatch_request req tok ep now))"
  using dispatch_answers [of req tok ep now]
  by (simp add: caught_response_def Let_def all_given_def split: called.splits)

text \<open>C27: whatever the application's handlers do, and whatever they and other threads do to the endpoint meanwhile, a
  request from the server is answered under its own identifier with either a result or an error, and then
  only its own entry is gone from the table of cancellable requests. The answer is that of the handlers installed when the
  request arrived, with the roots and capabilities the client has when they return. A cancellation that arrives meanwhile
  reaches the source whose token the handlers were given.\<close>

theorem client_request_answered:
  "answers_request req (fst (client_handle_request during later req ep)) \<and>
   (req_method req \<noteq> ''ping'' \<longrightarrow>
      (\<forall>k. map_of (ep_active (snd (client_handle_request during later req ep))) k =
             (if k = request_cancellation_key (req_id req) then None
              else map_of (ep_active (later (during (snd (client_begin_cancellation (req_id req) ep))))) k)) \<and>
      fst (client_handle_request during later req ep) =
        caught_response req (client_dispatch_request req (Some (ep_next_source ep))
          (snd (client_begin_cancellation (req_id req) ep)) (during (snd (client_begin_cancellation (req_id req) ep)))) \<and>
      ep_next_source ep \<in>
        set (ep_cancelled (snd (client_handle_request (client_cancel_request (req_id req)) (\<lambda>e. e) req ep))))"
proof (cases "req_method req = ''ping''")
  case False
  have "map_of (ep_active (snd (client_begin_cancellation (req_id req) ep))) (request_cancellation_key (req_id req)) =
    Some (ep_next_source ep)" by (simp add: client_begin_cancellation_def)
  then show ?thesis
    using False caught_answers [of req "Some (ep_next_source ep)"]
    by (simp add: client_handle_request_def client_begin_cancellation_def client_end_cancellation_def client_cancel_request_def
        Let_def)
qed (simp add: client_handle_request_def)

text \<open>C28: what a client answers to a form it was asked to fill in, when the capabilities it has at the time its handler returns
  say anything about schema validation (even that there is none), whatever they said before: a result that accepts carries
  content that the validation accepts for the requested schema, or none when nothing is required. The content conforms to the
  schema unless it has an integer of 2^63 or more in an integer field.\<close>

theorem client_elicitation_validated:
  assumes "req_method req = ''elicitation/create''" "create_elicitation_request_param_from_json (req_params req) = Inr params"
    and "er_mode params = Form"
    and "now = during (snd (client_begin_cancellation (req_id req) ep))"
    and "ec_form_schema_validation (cc_elicitation (announced_capabilities (cl_capabilities (ep_client now)))) \<noteq> None"
    and "resp_result (fst (client_handle_request during later req ep)) = Some j"
  shows "\<exists>res. j = create_elicitation_result_to_json res \<and>
    (ers_action res = Accept \<longrightarrow>
       (case ers_content res of
          None \<Rightarrow> el_required (er_schema params) = []
        | Some c \<Rightarrow> content_accepted (er_schema params) c \<and>
            (integers_in_range (er_schema params) c \<longrightarrow> content_conforms (er_schema params) c)))"
proof -
  define ep1 where "ep1 = snd (client_begin_cancellation (req_id req) ep)"
  define out where "out = preferred (map_option (\<lambda>h. h params) (hc_elicitation_cancellation (ep_handlers ep1)))
     (map_option (\<lambda>h. h params) (hc_elicitation (ep_handlers ep1))) (Some (ep_next_source ep))"
  let ?caps = "announced_capabilities (cl_capabilities (ep_client now))"
  have run: "fst (client_handle_request during later req ep) = caught_response req (case out of
       None \<Rightarrow> Gave (make_response (req_id req) (create_elicitation_result_to_json declined))
     | Some o' \<Rightarrow> on_called (\<lambda>r. case r of
           Inl e \<Rightarrow> client_error_response req (err_code e) (err_message e) (err_detail e)
         | Inr res \<Rightarrow> checked_elicitation req ?caps params res) o')"
    using assms(1,2,4)
    by (simp add: client_handle_request_def client_begin_cancellation_def client_dispatch_request_def answer_elicitation_def
        out_def ep1_def Let_def split: option.split)
  consider (none) "j = create_elicitation_result_to_json declined"
    | (checked) res where "resp_result (checked_elicitation req ?caps params res) = Some j"
    using assms(6) unfolding run
    by (auto simp: caught_response_def Let_def on_called_def make_response_def client_error_response_def
        make_error_response_def split: option.splits called.splits sum.splits)
  then show ?thesis
  proof cases
    case none
    then show ?thesis by (intro exI [of _ declined]) (simp add: declined_def)
  next
    case (checked res)
    then have "validate_elicitation_result_content (er_schema params) res = Inr ()" "j = create_elicitation_result_to_json res"
      using assms(3,5)
      by (auto simp: checked_elicitation_def make_response_def client_error_response_def make_error_response_def split: sum.splits)
    then show ?thesis
      by (intro exI [of _ res]) (auto simp: validate_elicitation_result_content_def validate_content_iff [OF request_read_sizes [OF assms(2)]]
          accepted_in_range split: option.splits if_splits)
  qed
qed

text \<open>Installing an interface that overrides nothing changes what the server hears: every request other
  than ping is then answered with an error, while without it a client lists its roots and declines a
  well-formed elicitation.\<close>

theorem silent_interface_effect:
  "(req_method req \<noteq> ''ping'' \<longrightarrow>
      resp_error (fst (client_handle_request during later req (set_handler_interface silent_interface ep))) \<noteq> None) \<and>
   (req_method req = ''roots/list'' \<and> ep_handlers ep = no_client_handlers \<longrightarrow>
      fst (client_handle_request during later req ep) = make_response (req_id req)
        (roots_list_result_to_json \<lparr>rl_roots = list_roots (during (snd (client_begin_cancellation (req_id req) ep))),
           rl_meta = None, rl_extensions = empty_object\<rparr>)) \<and>
   (req_method req = ''elicitation/create'' \<and> ep_handlers ep = no_client_handlers \<and>
      create_elicitation_request_param_from_json (req_params req) = Inr params \<longrightarrow>
      fst (client_handle_request during later req ep) =
        make_response (req_id req) (create_elicitation_result_to_json declined))"
proof (intro conjI impI)
  let ?ep = "set_handler_interface silent_interface ep"
  define tok where "tok = Some (ep_next_source ?ep)"
  define ep1 where "ep1 = snd (client_begin_cancellation (req_id req) ?ep)"
  have hs: "ep_handlers ep1 = ep_handlers ?ep" by (simp add: ep1_def client_begin_cancellation_def)
  have failed: "all_given (\<lambda>r. resp_error r \<noteq> None) (client_dispatch_request req tok ep1 (during ep1))"
    unfolding client_dispatch_request_def answer_roots_def answer_sampling_def answer_elicitation_def answer_custom_def Let_def hs
    by (auto simp: set_handler_interface_def client_store_handler_def silent_interface_def preferred_def handled_or_def
        on_called_def client_reply_def client_error_response_def client_params_error_def make_error_response_def
        split: sum.split)
  assume "req_method req \<noteq> ''ping''"
  then have "fst (client_handle_request during later req ?ep) = caught_response req (client_dispatch_request req tok ep1 (during ep1))"
    by (simp add: client_handle_request_def client_begin_cancellation_def tok_def ep1_def Let_def)
  then show "resp_error (fst (client_handle_request during later req ?ep)) \<noteq> None"
    using failed
    by (auto simp: caught_response_def Let_def all_given_def client_error_response_def make_error_response_def split: called.splits)
qed (auto simp: client_handle_request_def client_begin_cancellation_def client_dispatch_request_def answer_roots_def
      answer_elicitation_def no_client_handlers_def preferred_def caught_response_def list_roots_def Let_def)

section \<open>A sample endpoint\<close>

definition form_answer :: create_elicitation_result where
  "form_answer = \<lparr>ers_action = Accept, ers_content = Some (JObject [(''age'', JInt 7), (''name'', JString ''Ada'')]),
     ers_meta = None, ers_extensions = empty_object\<rparr>"

definition form_request :: json_rpc_request where
  "form_request = make_request ''elicitation/create'' (IdInt 7)
     (create_elicitation_request_param_to_json (sample_elicitation\<lparr>er_schema := sample_form\<rparr>))"

definition form_endpoint :: "unit endpoint" where
  "form_endpoint = client_store_handler (\<lambda>h. h\<lparr>hc_elicitation := Some (\<lambda>_. Gave (Inr form_answer))\<rparr>) (new_endpoint (Some ()))"

lemma form_request_read:
  "create_elicitation_request_param_from_json (req_params form_request) = Inr (sample_elicitation\<lparr>er_schema := sample_form\<rparr>)"
proof -
  have "request_ok (sample_elicitation\<lparr>er_schema := sample_form\<rparr>)"
    by (simp add: request_ok_def sample_elicitation_def sample_form_def schema_ok_def empty_elicitation_schema_def sample_age_def
        empty_integer_schema_def empty_string_schema_def property_ext_ok_def string_schema_ok_def sizes_ordered_def object_meta_ok_def)
  then show ?thesis by (simp add: form_request_def make_request_def elicitation_request_roundtrip)
qed

lemma form_answer_valid: "validate_elicitation_result_content sample_form form_answer = Inr ()"
  by (simp add: form_answer_def validate_elicitation_result_content_def validate_content_checks sample_form_def
      empty_elicitation_schema_def jcontains_def sample_age_def empty_integer_schema_def empty_string_schema_def
      validate_integer_def validate_string_def above_option_def check_def)

text \<open>A client that says nothing about validation when the request arrives, and does when its handler returns.\<close>

definition quiet_endpoint :: "unit endpoint" where
  "quiet_endpoint = set_capabilities ((announced_capabilities None)\<lparr>cc_elicitation :=
     (cc_elicitation (announced_capabilities None))\<lparr>ec_form_schema_validation := None\<rparr>\<rparr>) form_endpoint"

definition switch_validation :: "unit endpoint \<Rightarrow> unit endpoint" where
  "switch_validation ep = set_capabilities (announced_capabilities None) ep"

theorem client_elicitation_validated_witness:
  "ec_form_schema_validation (cc_elicitation (announced_capabilities (cl_capabilities (ep_client quiet_endpoint)))) = None \<and>
   (\<exists>res. resp_result (fst (client_handle_request switch_validation (\<lambda>e. e) form_request quiet_endpoint)) =
         Some (create_elicitation_result_to_json res) \<and>
       (ers_action res = Accept \<longrightarrow>
         (case ers_content res of
            None \<Rightarrow> el_required sample_form = []
          | Some c \<Rightarrow> content_accepted sample_form c \<and> (integers_in_range sample_form c \<longrightarrow> content_conforms sample_form c))))"
proof -
  have m: "req_method form_request = ''elicitation/create''" by (simp add: form_request_def make_request_def)
  have caps: "ec_form_schema_validation (cc_elicitation (announced_capabilities (cl_capabilities (ep_client
      (switch_validation (snd (client_begin_cancellation (req_id form_request) quiet_endpoint))))))) \<noteq> None"
    by (simp add: switch_validation_def set_capabilities_def announced_capabilities_def)
  have run: "resp_result (fst (client_handle_request switch_validation (\<lambda>e. e) form_request quiet_endpoint)) =
    Some (create_elicitation_result_to_json form_answer)"
    by (simp add: client_handle_request_def m client_begin_cancellation_def client_dispatch_request_def answer_elicitation_def
        form_request_read form_endpoint_def client_store_handler_def new_endpoint_def no_client_handlers_def preferred_def
        on_called_def caught_response_def checked_elicitation_def form_answer_valid make_response_def Let_def set_capabilities_def
        quiet_endpoint_def)
  have p: "er_mode (sample_elicitation\<lparr>er_schema := sample_form\<rparr>) = Form" "er_schema (sample_elicitation\<lparr>er_schema := sample_form\<rparr>) = sample_form"
    by (simp_all add: sample_elicitation_def)
  have "ec_form_schema_validation (cc_elicitation (announced_capabilities (cl_capabilities (ep_client quiet_endpoint)))) = None"
    by (simp add: quiet_endpoint_def set_capabilities_def announced_capabilities_def)
  then show ?thesis
    using client_elicitation_validated [OF m form_request_read p(1) refl caps run, unfolded p(2)] unfolding run
    by (intro conjI) simp_all
qed

theorem client_request_answered_witness:
  "answers_request form_request (fst (client_handle_request (client_cancel_request (IdInt 7)) (\<lambda>e. e) form_request form_endpoint)) \<and>
   0 \<in> set (ep_cancelled (snd (client_handle_request (client_cancel_request (IdInt 7)) (\<lambda>e. e) form_request form_endpoint)))"
proof -
  have "req_method form_request \<noteq> ''ping''" "req_id form_request = IdInt 7" "ep_next_source form_endpoint = 0"
    by (simp_all add: form_request_def make_request_def form_endpoint_def client_store_handler_def new_endpoint_def)
  then show ?thesis
    using client_request_answered [of form_request "client_cancel_request (IdInt 7)" "\<lambda>e. e" form_endpoint] by metis
qed

theorem silent_interface_effect_witness:
  "resp_error (fst (client_handle_request (\<lambda>e. e) (\<lambda>e. e) form_request (set_handler_interface silent_interface form_endpoint))) \<noteq> None"
  using silent_interface_effect [of form_request "\<lambda>e. e" "\<lambda>e. e" form_endpoint] by (simp add: form_request_def make_request_def)

end
