(* ===== verification/Client_Async.thy ===== *)
theory Client_Async
  imports Client
begin

text \<open>
  Asynchronous requests: the future \<open>AsyncResult\<close> (src/sdk/core/include/cxxmcp/core/async_result.hpp), the
  handle of a request (src/sdk/include/cxxmcp/request.hpp), and the client's \<open>request_async\<close> with the
  typed requests on it and the counter the destructor waits for (client.hpp, client.cpp).

  Operations under a mutex are one step; a wait that has to block has no value (\<open>None\<close>). Results of one
  client have one type here; the template has one instance per type.
\<close>

section \<open>Futures\<close>

record ('a, 'k) async_result =
  ar_value :: "'a result option"
  ar_continuations :: "'k list"

definition new_async :: "('a, 'k) async_result" where
  "new_async = \<lparr>ar_value = None, ar_continuations = []\<rparr>"

text \<open>The common part of the setters: the first value stays; the continuations to fire come back.\<close>

definition settle :: "'a result \<Rightarrow> ('a, 'k) async_result \<Rightarrow> 'k list \<times> ('a, 'k) async_result" where
  "settle v r =
     (if ar_value r \<noteq> None then ([], r)
      else (ar_continuations r, r\<lparr>ar_value := Some v, ar_continuations := []\<rparr>))"

definition async_set_value :: "'a \<Rightarrow> ('a, 'k) async_result \<Rightarrow> 'k list \<times> ('a, 'k) async_result" where
  "async_set_value v = settle (Inr v)"

definition async_set_error :: "core_error \<Rightarrow> ('a, 'k) async_result \<Rightarrow> 'k list \<times> ('a, 'k) async_result" where
  "async_set_error e = settle (Inl e)"

definition async_cancel :: "string \<Rightarrow> ('a, 'k) async_result \<Rightarrow> 'k list \<times> ('a, 'k) async_result" where
  "async_cancel reason = settle (Inl (mk_error 1 (if reason = '''' then ''cancelled'' else reason) '''' ''cancellation''))"

definition async_set_exception :: "string option \<Rightarrow> ('a, 'k) async_result \<Rightarrow> 'k list \<times> ('a, 'k) async_result" where
  "async_set_exception what =
     async_set_error (mk_error 1 (case what of Some w \<Rightarrow> w | None \<Rightarrow> ''unknown exception'') '''' ''exception'')"

definition async_wait :: "('a, 'k) async_result \<Rightarrow> 'a result option" where
  "async_wait r = ar_value r"

text \<open>\<open>wait_for\<close> and \<open>wait_until\<close>: the wait may end when the time has expired.\<close>

definition async_wait_for :: "bool \<Rightarrow> ('a, 'k) async_result \<Rightarrow> 'a result option" where
  "async_wait_for expired r =
     (case ar_value r of
        Some v \<Rightarrow> Some v
      | None \<Rightarrow> if expired then Some (Inl (mk_error 1 ''AsyncResult wait timed out'' '''' ''timeout'')) else None)"

definition async_ready :: "('a, 'k) async_result \<Rightarrow> bool" where
  "async_ready r \<longleftrightarrow> ar_value r \<noteq> None"

text \<open>\<open>then\<close>: \<open>Some v\<close> when the callback is to run at once on \<open>v\<close>.\<close>

definition async_then :: "'k \<Rightarrow> ('a, 'k) async_result \<Rightarrow> 'a result option \<times> ('a, 'k) async_result" where
  "async_then k r =
     (case ar_value r of
        Some v \<Rightarrow> (Some v, r)
      | None \<Rightarrow> (None, r\<lparr>ar_continuations := ar_continuations r @ [k]\<rparr>))"

section \<open>Request errors\<close>

definition request_error :: "string \<Rightarrow> string \<Rightarrow> string \<Rightarrow> core_error" where
  "request_error msg detail category = mk_error (error_code InternalError) msg detail category"

definition request_cancelled :: core_error where
  "request_cancelled = request_error ''request cancelled'' '''' ''cancellation''"

definition request_timed_out :: "int64 \<Rightarrow> core_error" where
  "request_timed_out ms = request_error ''request timed out'' (int_to_string (sint ms) @ ''ms'') ''timeout''"

definition request_task_missing :: core_error where
  "request_task_missing = request_error ''request task is not configured'' '''' ''request''"

definition request_state_missing :: core_error where
  "request_state_missing = request_error ''request handle has no response state'' '''' ''request''"

definition request_worker_exception :: "string \<Rightarrow> core_error" where
  "request_worker_exception detail = request_error ''request worker threw an exception'' detail ''request''"

definition request_worker_unknown_exception :: core_error where
  "request_worker_unknown_exception = request_error ''request worker threw an unknown exception'' '''' ''request''"

section \<open>The request executor\<close>

record request_executor_options =
  xo_worker_count :: size_t
  xo_max_queue_size :: size_t

record request_executor_state =
  xs_options :: request_executor_options
  xs_started :: bool

definition request_executor_error :: "string \<Rightarrow> core_error" where
  "request_executor_error msg = request_error msg '''' ''request''"

definition configure_request_executor ::
  "request_executor_options \<Rightarrow> request_executor_state \<Rightarrow> unit result \<times> request_executor_state" where
  "configure_request_executor opts s =
     (if xo_worker_count opts = 0
      then (Inl (request_executor_error ''request executor worker_count must be greater than zero''), s)
      else if xo_max_queue_size opts = 0
      then (Inl (request_executor_error ''request executor max_queue_size must be greater than zero''), s)
      else if xs_started s then (Inl (request_executor_error ''request executor is already initialized''), s)
      else (Inr (), s\<lparr>xs_options := opts\<rparr>))"

definition request_executor :: "request_executor_state \<Rightarrow> request_executor_state" where
  "request_executor s = s\<lparr>xs_started := True\<rparr>"

section \<open>Request handles\<close>

text \<open>
  \<open>rh_token\<close> is the cancellation token, if there is one: whether it is attached to a source. The observer
  callback is identified by a unit. \<open>rh_sent\<close> lists the reasons given to the cancel callback.
\<close>

record 'a request_handle =
  rh_id :: request_id
  rh_timeout :: "int64 option"
  rh_token :: "bool option"
  rh_can_cancel :: bool
  rh_async :: "('a result, unit) async_result option"
  rh_terminal :: "core_error option"
  rh_registered :: bool
  rh_cancel_sent :: bool
  rh_sent :: "string list"

definition make_handle ::
  "request_id \<Rightarrow> int64 option \<Rightarrow> bool option \<Rightarrow> bool \<Rightarrow> ('a result, unit) async_result \<Rightarrow> 'a request_handle" where
  "make_handle i timeout token can_cancel r =
     \<lparr>rh_id = i, rh_timeout = timeout, rh_token = token, rh_can_cancel = can_cancel, rh_async = Some r,
      rh_terminal = None, rh_registered = False, rh_cancel_sent = False, rh_sent = []\<rparr>"

definition ready_handle :: "request_id \<Rightarrow> 'a result \<Rightarrow> 'a request_handle" where
  "ready_handle i v = make_handle i None None False (snd (async_set_value v new_async))"

definition send_cancel :: "string \<Rightarrow> 'a request_handle \<Rightarrow> 'a request_handle" where
  "send_cancel reason h = (if rh_can_cancel h then h\<lparr>rh_sent := rh_sent h @ [reason]\<rparr> else h)"

text \<open>\<open>cancel\<close>, and the callback of the token observer.\<close>

definition handle_cancel :: "string \<Rightarrow> 'a request_handle \<Rightarrow> 'a request_handle" where
  "handle_cancel reason h = send_cancel reason h"

definition token_fired :: "'a request_handle \<Rightarrow> 'a request_handle" where
  "token_fired h =
     (let h1 = h\<lparr>rh_terminal := (case rh_terminal h of None \<Rightarrow> Some request_cancelled | t \<Rightarrow> t),
                 rh_cancel_sent := True, rh_registered := False,
                 rh_async := map_option (\<lambda>r. snd (async_cancel ''request cancelled'' r)) (rh_async h)\<rparr>
      in if rh_cancel_sent h then h1 else send_cancel ''request cancelled'' h1)"

text \<open>Registration: on a token that is already cancelled the callback runs at once.\<close>

definition start_cancellation_observer :: "bool \<Rightarrow> 'a request_handle \<Rightarrow> 'a request_handle" where
  "start_cancellation_observer already h =
     (if rh_token h = None \<or> rh_async h = None then h
      else if already then token_fired h
      else h\<lparr>rh_registered := (case rh_async h of Some r \<Rightarrow> fst (async_then () r) = None | None \<Rightarrow> False),
             rh_async := map_option (\<lambda>r. snd (async_then () r)) (rh_async h)\<rparr>)"

text \<open>The worker delivers the result; then the continuation drops the registration.\<close>

definition deliver :: "'a result \<Rightarrow> 'a request_handle \<Rightarrow> 'a request_handle" where
  "deliver v h = h\<lparr>rh_async := map_option (\<lambda>r. snd (async_set_value v r)) (rh_async h)\<rparr>"

definition drop_registration :: "'a request_handle \<Rightarrow> 'a request_handle" where
  "drop_registration h = h\<lparr>rh_registered := False\<rparr>"

definition spawn ::
  "request_id \<Rightarrow> int64 option \<Rightarrow> bool option \<Rightarrow> bool \<Rightarrow> bool \<Rightarrow> bool \<Rightarrow> unit result \<Rightarrow> 'a request_handle" where
  "spawn i timeout token can_cancel has_task already posted =
     (if \<not> has_task
      then make_handle i timeout token can_cancel (snd (async_set_value (Inl request_task_missing) new_async))
      else let r = (case posted of
                      Inl e \<Rightarrow> snd (async_set_value (Inl e) new_async)
                    | Inr _ \<Rightarrow> new_async);
               h = make_handle i timeout token can_cancel r
           in if token = Some True then start_cancellation_observer already h else h)"

text \<open>
  \<open>await_response\<close>: the part before it waits, and the part after. \<open>token_cancelled\<close> is read when the wait
  is over.
\<close>

definition await_begin :: "'a request_handle \<Rightarrow> 'a result option" where
  "await_begin h =
     (if rh_async h = None then Some (Inl request_state_missing)
      else map_option Inl (rh_terminal h))"

definition fail_terminal :: "string \<Rightarrow> core_error \<Rightarrow> 'a request_handle \<Rightarrow> 'a result \<times> 'a request_handle" where
  "fail_terminal reason e h =
     (let t = (case rh_terminal h of None \<Rightarrow> e | Some t \<Rightarrow> t);
          h1 = h\<lparr>rh_terminal := Some t, rh_cancel_sent := True, rh_registered := False\<rparr>
      in (Inl t, if rh_cancel_sent h then h1 else send_cancel reason h1))"

definition read_outer :: "'a result result \<Rightarrow> 'a result" where
  "read_outer r = (case r of Inl e \<Rightarrow> Inl e | Inr inner \<Rightarrow> inner)"

definition await_end :: "bool \<Rightarrow> bool \<Rightarrow> 'a request_handle \<Rightarrow> ('a result \<times> 'a request_handle) option" where
  "await_end expired token_is_cancelled h =
     (case rh_async h of
        None \<Rightarrow> Some (Inl request_state_missing, h)
      | Some r \<Rightarrow>
          (case rh_timeout h of
             None \<Rightarrow>
               (case async_wait r of
                  None \<Rightarrow> None
                | Some v \<Rightarrow>
                    Some (case (rh_token h, rh_terminal h) of
                            (Some _, Some t) \<Rightarrow> (Inl t, h)
                          | _ \<Rightarrow> (read_outer v, h)))
           | Some ms \<Rightarrow>
               (case async_wait_for expired r of
                  None \<Rightarrow> None
                | Some v \<Rightarrow>
                    Some (case (rh_terminal h, v) of
                            (Some t, _) \<Rightarrow> (Inl t, h)
                          | (None, Inr inner) \<Rightarrow> (inner, h)
                          | (None, Inl _) \<Rightarrow>
                              if rh_token h \<noteq> None \<and> token_is_cancelled
                              then fail_terminal ''request cancelled'' request_cancelled h
                              else fail_terminal ''request timeout'' (request_timed_out ms) h))))"

section \<open>Asynchronous client requests\<close>

text \<open>
  A job is the closure given to the executor. Every posted request is eventually settled: by its reply, by
  the executor's refusal, or by the exception of its parser. The handle's value is kept with the way it came.
\<close>

record 'a async_job =
  aj_request :: json_rpc_request
  aj_parse :: "json \<Rightarrow> 'a parsed"

datatype settled_by = Replied | Refused | WorkerThrew

record ('t, 'a) async_client =
  ac_client :: "'t client"
  ac_in_flight :: int
  ac_jobs :: "'a async_job list"
  ac_settled :: "(request_id \<times> settled_by \<times> 'a result) list"

definition new_async_client :: "'t client \<Rightarrow> ('t, 'a) async_client" where
  "new_async_client c = \<lparr>ac_client = c, ac_in_flight = 0, ac_jobs = [], ac_settled = []\<rparr>"

definition async_rpc_request :: "string \<Rightarrow> request_id \<Rightarrow> json \<Rightarrow> request_options \<Rightarrow> json_rpc_request" where
  "async_rpc_request m i params opts =
     (make_request m i params)\<lparr>req_meta := (case ro_meta opts of None \<Rightarrow> req_meta (make_request m i params) | Some meta \<Rightarrow> Some meta),
        transport_headers := ro_headers opts, protocol_version_override := ro_protocol_version opts\<rparr>"

text \<open>The counter goes up before the job is posted; \<open>posted\<close> is what the executor says.\<close>

definition request_async ::
  "unit result \<Rightarrow> string \<Rightarrow> json \<Rightarrow> (json \<Rightarrow> 'a parsed) \<Rightarrow> request_options \<Rightarrow> ('t, 'a) async_client \<Rightarrow>
   request_id \<times> ('t, 'a) async_client" where
  "request_async posted m params parse opts ac =
     (case next_request_id (ac_client ac) of
        (i, c) \<Rightarrow>
          let ac1 = ac\<lparr>ac_client := c, ac_in_flight := ac_in_flight ac + 1\<rparr> in
          (i, case posted of
                Inr _ \<Rightarrow> ac1\<lparr>ac_jobs := ac_jobs ac1 @ [\<lparr>aj_request = async_rpc_request m i params opts, aj_parse = parse\<rparr>]\<rparr>
              | Inl e \<Rightarrow> ac1\<lparr>ac_settled := ac_settled ac1 @ [(i, Refused, Inl e)]\<rparr>))"

definition request_async_json ::
  "unit result \<Rightarrow> string \<Rightarrow> json \<Rightarrow> request_options \<Rightarrow> ('t, json) async_client \<Rightarrow> request_id \<times> ('t, json) async_client" where
  "request_async_json posted m params = request_async posted m params (\<lambda>j. Returns (Inr j))"

text \<open>
  The closure on a worker. The counter goes down after the parser has returned; an exception leaves the
  closure before that and becomes the handle's error in \<open>spawn\<close> (\<open>what\<close> is its message). \<open>k\<close> is the job's
  position among the posted ones.
\<close>

definition job_outcome :: "'t client_env \<Rightarrow> 'a async_job \<Rightarrow> 't client \<Rightarrow> 'a parsed \<times> 't client" where
  "job_outcome env job c =
     (case raw_request env (aj_request job) c of
        (payload, c') \<Rightarrow> (case payload of Inl e \<Rightarrow> Returns (Inl e) | Inr j \<Rightarrow> aj_parse job j, c'))"

definition run_async_job :: "'t client_env \<Rightarrow> string \<Rightarrow> nat \<Rightarrow> ('t, 'a) async_client \<Rightarrow> ('t, 'a) async_client" where
  "run_async_job env what k ac =
     (let job = ac_jobs ac ! k; i = req_id (aj_request job) in
      case job_outcome env job (ac_client ac) of
        (out, c) \<Rightarrow>
          let ac1 = ac\<lparr>ac_client := c, ac_jobs := take k (ac_jobs ac) @ drop (Suc k) (ac_jobs ac)\<rparr>
          in case out of
               Returns res \<Rightarrow> ac1\<lparr>ac_in_flight := ac_in_flight ac1 - 1, ac_settled := ac_settled ac1 @ [(i, Replied, res)]\<rparr>
             | Throws \<Rightarrow> ac1\<lparr>ac_settled := ac_settled ac1 @ [(i, WorkerThrew, Inl (request_worker_exception what))]\<rparr>)"

text \<open>\<open>~Client\<close> waits until this holds.\<close>

definition destructor_returns :: "('t, 'a) async_client \<Rightarrow> bool" where
  "destructor_returns ac \<longleftrightarrow> ac_in_flight ac = 0"

text \<open>A request that is refused before anything is sent: a handle that is ready, with an identifier of its own.\<close>

definition ready_error ::
  "core_error \<Rightarrow> ('t, 'a) async_client \<Rightarrow> ('a request_handle + request_id) \<times> ('t, 'a) async_client" where
  "ready_error e ac =
     (case next_request_id (ac_client ac) of (i, c) \<Rightarrow> (Inl (ready_handle i (Inl e)), ac\<lparr>ac_client := c\<rparr>))"

definition gated_async ::
  "('t client \<Rightarrow> bool) \<Rightarrow> string \<Rightarrow> (('t, 'a) async_client \<Rightarrow> request_id \<times> ('t, 'a) async_client) \<Rightarrow> ('t, 'a) async_client \<Rightarrow>
   ('a request_handle + request_id) \<times> ('t, 'a) async_client" where
  "gated_async supported msg f ac =
     (if \<not> supported (ac_client ac) then ready_error (make_client_error (error_code MethodNotFound) msg '''') ac
      else case f ac of (i, ac') \<Rightarrow> (Inr i, ac'))"

definition returns_with :: "(json \<Rightarrow> 'b result) \<Rightarrow> ('b \<Rightarrow> 'a) \<Rightarrow> json \<Rightarrow> 'a parsed" where
  "returns_with parse f j = Returns (rbind (parse j) (\<lambda>v. Inr (f v)))"

subsection \<open>Typed asynchronous requests\<close>

definition list_tools_async ::
  "unit result \<Rightarrow> request_options \<Rightarrow> ('t, tool_definition list) async_client \<Rightarrow> request_id \<times> ('t, tool_definition list) async_client" where
  "list_tools_async posted = request_async posted ''tools/list'' empty_object (returns_with tools_list_result_from_json rr_items)"

definition list_prompts_async ::
  "unit result \<Rightarrow> request_options \<Rightarrow> ('t, prompt list) async_client \<Rightarrow> request_id \<times> ('t, prompt list) async_client" where
  "list_prompts_async posted =
     request_async posted ''prompts/list'' empty_object (returns_with prompts_list_result_from_json rr_items)"

definition list_resources_async ::
  "unit result \<Rightarrow> request_options \<Rightarrow> ('t, resource list) async_client \<Rightarrow> request_id \<times> ('t, resource list) async_client" where
  "list_resources_async posted =
     request_async posted ''resources/list'' empty_object (returns_with resources_list_result_from_json rr_items)"

definition list_resource_templates_async ::
  "unit result \<Rightarrow> request_options \<Rightarrow> ('t, resource_template list) async_client \<Rightarrow>
   request_id \<times> ('t, resource_template list) async_client" where
  "list_resource_templates_async posted =
     request_async posted ''resources/templates/list'' empty_object
       (returns_with resource_templates_list_result_from_json rr_items)"

definition call_tool_async ::
  "unit result \<Rightarrow> tool_call \<Rightarrow> request_options \<Rightarrow> ('t, tool_result) async_client \<Rightarrow> request_id \<times> ('t, tool_result) async_client" where
  "call_tool_async posted call = request_async posted ''tools/call'' (tool_call_to_json call) tool_result_from_json"

definition call_tool_named_async ::
  "unit result \<Rightarrow> string \<Rightarrow> json \<Rightarrow> request_options \<Rightarrow> ('t, tool_result) async_client \<Rightarrow>
   request_id \<times> ('t, tool_result) async_client" where
  "call_tool_named_async posted name args =
     call_tool_async posted \<lparr>tc_name = name, tc_arguments = args, tc_task = None, tc_meta = None, tc_request_state = None,
       tc_input_responses = None, tc_extensions = empty_object\<rparr>"

definition get_prompt_async ::
  "unit result \<Rightarrow> prompts_get_params \<Rightarrow> request_options \<Rightarrow> ('t, prompts_get_result) async_client \<Rightarrow>
   request_id \<times> ('t, prompts_get_result) async_client" where
  "get_prompt_async posted params =
     request_async posted ''prompts/get'' (prompts_get_params_to_json params) prompts_get_result_from_json"

definition get_prompt_named_async ::
  "unit result \<Rightarrow> string \<Rightarrow> json \<Rightarrow> request_options \<Rightarrow> ('t, prompts_get_result) async_client \<Rightarrow>
   request_id \<times> ('t, prompts_get_result) async_client" where
  "get_prompt_named_async posted name args =
     get_prompt_async posted \<lparr>pgp_name = name, pgp_arguments = args, pgp_meta = None, pgp_extensions = empty_object\<rparr>"

definition read_resource_async ::
  "unit result \<Rightarrow> resource_params \<Rightarrow> request_options \<Rightarrow> ('t, resource_contents resources_result) async_client \<Rightarrow>
   request_id \<times> ('t, resource_contents resources_result) async_client" where
  "read_resource_async posted params =
     request_async posted ''resources/read'' (resources_read_params_to_json params)
       (returns_with resources_read_result_from_json (\<lambda>r. r))"

definition read_resource_uri_async ::
  "unit result \<Rightarrow> string \<Rightarrow> request_options \<Rightarrow> ('t, resource_contents resources_result) async_client \<Rightarrow>
   request_id \<times> ('t, resource_contents resources_result) async_client" where
  "read_resource_uri_async posted uri = read_resource_async posted \<lparr>rp_uri = uri, rp_meta = None, rp_extensions = empty_object\<rparr>"

definition call_tool_task_async ::
  "unit result \<Rightarrow> tool_call \<Rightarrow> request_options \<Rightarrow> ('t, create_task_result) async_client \<Rightarrow>
   (create_task_result request_handle + request_id) \<times> ('t, create_task_result) async_client" where
  "call_tool_task_async posted call opts ac =
     (if tc_task call = None
      then ready_error (make_client_error (error_code InvalidRequest) ''task-aware tool call requires task parameters'' '''') ac
      else gated_async supports_server_task_tool_call ''server does not support task-aware tool calls''
             (request_async posted ''tools/call'' (tool_call_to_json call) (returns_with create_task_result_from_json (\<lambda>r. r)) opts) ac)"

definition complete_async ::
  "unit result \<Rightarrow> complete_params \<Rightarrow> request_options \<Rightarrow> ('t, complete_result) async_client \<Rightarrow>
   (complete_result request_handle + request_id) \<times> ('t, complete_result) async_client" where
  "complete_async posted params opts =
     gated_async supports_server_completion ''server does not support completion''
       (request_async posted ''completion/complete'' (complete_params_to_json params)
          (returns_with complete_result_from_json (\<lambda>r. r)) opts)"

definition complete_json_async ::
  "unit result \<Rightarrow> json \<Rightarrow> request_options \<Rightarrow> ('t, json) async_client \<Rightarrow> (json request_handle + request_id) \<times> ('t, json) async_client" where
  "complete_json_async posted params opts =
     gated_async supports_server_completion ''server does not support completion''
       (request_async_json posted ''completion/complete'' params opts)"

definition create_message_async ::
  "unit result \<Rightarrow> create_message_params \<Rightarrow> request_options \<Rightarrow> ('t, create_message_result) async_client \<Rightarrow>
   request_id \<times> ('t, create_message_result) async_client" where
  "create_message_async posted params =
     request_async posted ''sampling/createMessage'' (create_message_params_to_json params)
       (returns_with create_message_result_from_json (\<lambda>r. r))"

definition create_message_json_async ::
  "unit result \<Rightarrow> json \<Rightarrow> request_options \<Rightarrow> ('t, json) async_client \<Rightarrow> request_id \<times> ('t, json) async_client" where
  "create_message_json_async posted = request_async_json posted ''sampling/createMessage''"

definition create_elicitation_async ::
  "unit result \<Rightarrow> create_elicitation_request \<Rightarrow> request_options \<Rightarrow> ('t, create_elicitation_result) async_client \<Rightarrow>
   request_id \<times> ('t, create_elicitation_result) async_client" where
  "create_elicitation_async posted params =
     request_async posted ''elicitation/create'' (create_elicitation_request_param_to_json params)
       (returns_with create_elicitation_result_from_json (\<lambda>r. r))"

definition create_elicitation_json_async ::
  "unit result \<Rightarrow> json \<Rightarrow> request_options \<Rightarrow> ('t, json) async_client \<Rightarrow> request_id \<times> ('t, json) async_client" where
  "create_elicitation_json_async posted = request_async_json posted ''elicitation/create''"

definition list_tasks_async ::
  "unit result \<Rightarrow> request_options \<Rightarrow> ('t, task list) async_client \<Rightarrow>
   (task list request_handle + request_id) \<times> ('t, task list) async_client" where
  "list_tasks_async posted opts =
     gated_async supports_server_task_list ''server does not support task listing''
       (request_async posted ''tasks/list'' empty_object (returns_with task_list_result_from_json tlr_tasks) opts)"

definition get_task_async ::
  "unit result \<Rightarrow> task_get_params \<Rightarrow> request_options \<Rightarrow> ('t, task) async_client \<Rightarrow> (task request_handle + request_id) \<times> ('t, task) async_client" where
  "get_task_async posted params opts =
     gated_async supports_server_tasks ''server does not support tasks''
       (request_async posted ''tasks/get'' (task_get_params_to_json params) (returns_with task_from_json (\<lambda>r. r)) opts)"

definition get_task_id_async ::
  "unit result \<Rightarrow> string \<Rightarrow> request_options \<Rightarrow> ('t, task) async_client \<Rightarrow> (task request_handle + request_id) \<times> ('t, task) async_client" where
  "get_task_id_async posted tid = get_task_async posted (task_id_params tid)"

definition cancel_task_async ::
  "unit result \<Rightarrow> task_cancel_params \<Rightarrow> request_options \<Rightarrow> ('t, task) async_client \<Rightarrow>
   (task request_handle + request_id) \<times> ('t, task) async_client" where
  "cancel_task_async posted params opts =
     gated_async supports_server_task_cancel ''server does not support task cancellation''
       (request_async posted ''tasks/cancel'' (task_cancel_params_to_json params) (returns_with task_from_json (\<lambda>r. r)) opts)"

definition cancel_task_id_async ::
  "unit result \<Rightarrow> string \<Rightarrow> request_options \<Rightarrow> ('t, task) async_client \<Rightarrow> (task request_handle + request_id) \<times> ('t, task) async_client" where
  "cancel_task_id_async posted tid = cancel_task_async posted (task_id_params tid)"

definition task_result_async ::
  "unit result \<Rightarrow> task_result_params \<Rightarrow> request_options \<Rightarrow> ('t, json) async_client \<Rightarrow> (json request_handle + request_id) \<times> ('t, json) async_client" where
  "task_result_async posted params opts =
     gated_async supports_server_tasks ''server does not support tasks''
       (request_async_json posted ''tasks/result'' (task_result_params_to_json params) opts)"

definition task_result_id_async ::
  "unit result \<Rightarrow> string \<Rightarrow> request_options \<Rightarrow> ('t, json) async_client \<Rightarrow> (json request_handle + request_id) \<times> ('t, json) async_client" where
  "task_result_id_async posted tid = task_result_async posted (task_id_params tid)"

section \<open>Destroying a client\<close>

text \<open>
  What happens to a client with asynchronous requests: a request is made (and posted or refused), a worker
  finishes a posted job, or the client is used in another way, which leaves the counter alone.
\<close>

inductive async_step :: "'t client_env \<Rightarrow> ('t, 'a) async_client \<Rightarrow> ('t, 'a) async_client \<Rightarrow> bool" for env where
  make_async: "async_step env ac (snd (request_async posted m params parse opts ac))"
| work_job: "k < length (ac_jobs ac) \<Longrightarrow> async_step env ac (run_async_job env what k ac)"
| other_use: "async_step env ac (ac\<lparr>ac_client := c\<rparr>)"

definition lost_requests :: "('t, 'a) async_client \<Rightarrow> nat" where
  "lost_requests ac = length (filter (\<lambda>(i, how, res). how \<noteq> Replied) (ac_settled ac))"

definition drain_jobs :: "'t client_env \<Rightarrow> string \<Rightarrow> ('t, 'a) async_client \<Rightarrow> ('t, 'a) async_client" where
  "drain_jobs env what ac = (run_async_job env what 0 ^^ length (ac_jobs ac)) ac"

definition counted :: "('t, 'a) async_client \<Rightarrow> bool" where
  "counted ac \<longleftrightarrow> ac_in_flight ac = int (length (ac_jobs ac)) + int (lost_requests ac)"

lemma run_async_job_counted:
  assumes "k < length (ac_jobs ac)"
  shows "length (ac_jobs (run_async_job env what k ac)) = length (ac_jobs ac) - 1"
    "ac_in_flight (run_async_job env what k ac) - int (lost_requests (run_async_job env what k ac)) =
       ac_in_flight ac - int (lost_requests ac) - 1"
    "lost_requests ac \<le> lost_requests (run_async_job env what k ac)"
  using assms
  by (auto simp: run_async_job_def Let_def lost_requests_def split: parsed.split prod.split)

lemma request_counted:
  "ac_in_flight (snd (request_async posted m params parse opts ac)) = ac_in_flight ac + 1"
  "length (ac_jobs (snd (request_async posted m params parse opts ac))) + lost_requests (snd (request_async posted m params parse opts ac)) =
     length (ac_jobs ac) + lost_requests ac + 1"
  "lost_requests ac \<le> lost_requests (snd (request_async posted m params parse opts ac))"
  by (auto simp: request_async_def next_request_id_def Let_def lost_requests_def split: sum.split)

lemma step_counted:
  assumes "async_step env ac ac'" "counted ac"
  shows "counted ac'"
  using assms
proof cases
  case (make_async posted m params parse opts)
  then show ?thesis
    using assms(2) request_counted(1,2) [of posted m params parse opts ac] by (simp add: counted_def)
next
  case (work_job k what)
  then show ?thesis
    using assms(2) run_async_job_counted(1,2) [OF work_job(2), of env what] by (simp add: counted_def)
next
  case (other_use c)
  then show ?thesis using assms(2) by (simp add: counted_def lost_requests_def)
qed

lemma step_lost: "async_step env ac ac' \<Longrightarrow> lost_requests ac \<le> lost_requests ac'"
  by (erule async_step.cases) (simp_all add: run_async_job_counted request_counted, simp add: lost_requests_def)

lemma steps_counted: "(async_step env)\<^sup>*\<^sup>* ac ac' \<Longrightarrow> counted ac \<Longrightarrow> counted ac' \<and> lost_requests ac \<le> lost_requests ac'"
  by (induction rule: rtranclp_induct) (auto dest: step_counted step_lost intro: order_trans)

lemma drain_steps:
  "n \<le> length (ac_jobs ac) \<Longrightarrow>
   (async_step env)\<^sup>*\<^sup>* ac ((run_async_job env what 0 ^^ n) ac) \<and>
   length (ac_jobs ((run_async_job env what 0 ^^ n) ac)) = length (ac_jobs ac) - n"
proof (induction n)
  case (Suc n)
  let ?ac = "(run_async_job env what 0 ^^ n) ac"
  have "0 < length (ac_jobs ?ac)" using Suc by simp
  then show ?case
    using Suc async_step.work_job [of 0 ?ac env what] run_async_job_counted(1) [of 0 ?ac env what]
    by (auto intro: rtranclp.rtrancl_into_rtrancl)
qed simp

text \<open>C29: a client whose asynchronous requests all got as far as their parser's result can be destroyed
  once the workers have finished. A request that the executor refused, or whose parser threw, is never
  subtracted from the counter: from then on no future of the client lets its destructor return.\<close>

theorem client_destruction:
  assumes "(async_step env)\<^sup>*\<^sup>* (new_async_client c) ac"
  shows "(destructor_returns (drain_jobs env what ac) \<longleftrightarrow> lost_requests (drain_jobs env what ac) = 0) \<and>
    (0 < lost_requests ac \<longrightarrow> (\<forall>ac'. (async_step env)\<^sup>*\<^sup>* ac ac' \<longrightarrow> \<not> destructor_returns ac'))"
proof (intro conjI)
  have ok: "counted ac" using steps_counted [OF assms] by (simp add: counted_def new_async_client_def lost_requests_def)
  have "counted (drain_jobs env what ac)" "ac_jobs (drain_jobs env what ac) = []"
    using drain_steps [of "length (ac_jobs ac)" ac env what] steps_counted [OF _ ok, of env] by (auto simp: drain_jobs_def)
  then show "destructor_returns (drain_jobs env what ac) \<longleftrightarrow> lost_requests (drain_jobs env what ac) = 0"
    by (simp add: counted_def destructor_returns_def)
  show "0 < lost_requests ac \<longrightarrow> (\<forall>ac'. (async_step env)\<^sup>*\<^sup>* ac ac' \<longrightarrow> \<not> destructor_returns ac')"
    using steps_counted [OF _ ok] by (fastforce simp: counted_def destructor_returns_def)
qed

theorem client_destruction_witness:
  "\<not> destructor_returns (snd (request_async (Inl request_task_missing) ''tools/list'' empty_object (\<lambda>j. Returns (Inr j))
       \<lparr>ro_meta = None, ro_headers = [], ro_protocol_version = None\<rparr> (new_async_client (new_client (None :: unit option)))))"
proof -
  let ?o = "\<lparr>ro_meta = None, ro_headers = [], ro_protocol_version = None\<rparr>"
  let ?a = "new_async_client (new_client (None :: unit option)) :: (unit, json) async_client"
  let ?b = "snd (request_async (Inl request_task_missing) ''tools/list'' empty_object (\<lambda>j. Returns (Inr j)) ?o ?a)"
  define env :: "unit client_env" where
    "env = \<lparr>ce_is_http = False, ce_start = Pair (Inr ()), ce_send = (\<lambda>_. Pair (Inl request_task_missing)),
       ce_send_notification = (\<lambda>_. Pair (Inr ())), ce_stop = (\<lambda>t. t), ce_set_version = (\<lambda>_ t. t), ce_dump = (\<lambda>_. '''')\<rparr>"
  have "(async_step env)\<^sup>*\<^sup>* ?a ?b" by (intro r_into_rtranclp async_step.make_async)
  moreover have "0 < lost_requests ?b"
    by (simp add: lost_requests_def request_async_def next_request_id_def new_async_client_def Let_def)
  ultimately show ?thesis using client_destruction [of env "new_client None" ?b] by blast
qed

section \<open>The outcome of a handle\<close>

text \<open>
  What happens to a handle: the worker delivers and then drops the registration, the token fires while
  registered, or a wait ends.
\<close>

inductive handle_step :: "'a request_handle \<Rightarrow> 'a request_handle \<Rightarrow> bool" where
  "handle_step h (deliver v h)"
| "handle_step h (drop_registration h)"
| "rh_registered h \<Longrightarrow> handle_step h (token_fired h)"
| "await_end expired tok h = Some (r, h') \<Longrightarrow> handle_step h h'"

text \<open>At most one notification of a cancellation, and only with a terminal error.\<close>

definition handle_ok :: "'a request_handle \<Rightarrow> bool" where
  "handle_ok h \<longleftrightarrow> rh_async h \<noteq> None \<and> length (rh_sent h) \<le> 1 \<and> (rh_sent h \<noteq> [] \<longrightarrow> rh_cancel_sent h) \<and>
     (rh_cancel_sent h \<longrightarrow> rh_terminal h \<noteq> None)"

lemma token_fired_ok:
  "handle_ok h \<Longrightarrow> handle_ok (token_fired h)"
  "rh_terminal h = Some e \<Longrightarrow> rh_terminal (token_fired h) = Some e"
  by (auto simp: token_fired_def send_cancel_def handle_ok_def Let_def split: option.splits)

lemma fail_terminal_ok:
  assumes "fail_terminal reason e h = (r, h')"
  shows "handle_ok h \<Longrightarrow> handle_ok h'" "rh_terminal h = Some e' \<Longrightarrow> rh_terminal h' = Some e'"
  using assms by (auto simp: fail_terminal_def send_cancel_def handle_ok_def Let_def split: option.splits if_splits)

lemma await_end_ok:
  assumes "await_end expired tok h = Some (r, h')" "handle_ok h"
  shows "handle_ok h' \<and> (rh_terminal h = Some e \<longrightarrow> h' = h \<and> (rh_timeout h \<noteq> None \<or> rh_token h \<noteq> None \<longrightarrow> r = Inl e))"
proof -
  have "rh_async h \<noteq> None" using assms(2) by (simp add: handle_ok_def)
  then show ?thesis
    using assms fail_terminal_ok(1) [of _ _ h r h']
    by (auto simp: await_end_def split: option.splits sum.splits if_splits)
qed

lemma handle_step_ok:
  assumes "handle_step h h'" "handle_ok h"
  shows "handle_ok h' \<and> (rh_terminal h = Some e \<longrightarrow> rh_terminal h' = Some e)"
  using assms
proof cases
  case (4 expired tok r)
  then show ?thesis using await_end_ok [OF 4 assms(2)] by auto
qed (auto simp: deliver_def drop_registration_def token_fired_ok handle_ok_def [of "deliver _ _"] handle_ok_def [of "drop_registration _"]
      simp flip: handle_ok_def, auto simp: handle_ok_def)

lemma handle_steps_ok:
  "handle_step\<^sup>*\<^sup>* h h' \<Longrightarrow> handle_ok h \<Longrightarrow> handle_ok h' \<and> (rh_terminal h = Some e \<longrightarrow> rh_terminal h' = Some e)"
  by (induction rule: rtranclp_induct) (auto dest: handle_step_ok)

lemma spawn_ok: "handle_ok (spawn i timeout token can_cancel has_task already posted)"
proof -
  have "handle_ok (make_handle i timeout token' can_cancel r)" for r :: "('a result, unit) async_result" and token'
    by (simp add: make_handle_def handle_ok_def)
  moreover have "handle_ok (start_cancellation_observer already h)" if "handle_ok h" for h :: "'a request_handle"
    using that token_fired_ok(1) [OF that] by (auto simp: start_cancellation_observer_def handle_ok_def)
  ultimately show ?thesis by (auto simp: spawn_def Let_def)
qed

text \<open>However delivery, cancellation and timeouts interleave, the server is told at most once that a
  request is cancelled, and only when the handle has a terminal error. Once it has one, the error stays and
  every further wait gives it at once, also when the response arrives after all.\<close>

theorem request_handle_terminal:
  assumes "handle_step\<^sup>*\<^sup>* (spawn i timeout token can_cancel has_task already posted) h"
  shows "length (rh_sent h) \<le> 1 \<and> (rh_terminal h = None \<longrightarrow> rh_sent h = []) \<and>
    (\<forall>e h'. rh_terminal h = Some e \<and> handle_step\<^sup>*\<^sup>* h h' \<longrightarrow> await_begin h' = Some (Inl e))"
proof -
  have ok: "handle_ok h" using handle_steps_ok [OF assms spawn_ok] by simp
  have "await_begin h' = Some (Inl e)" if "rh_terminal h = Some e" "handle_step\<^sup>*\<^sup>* h h'" for e h'
    using handle_steps_ok [OF that(2) ok, of e] that(1) by (auto simp: await_begin_def handle_ok_def)
  then show ?thesis using ok by (auto simp: handle_ok_def)
qed

definition timed_handle :: "nat request_handle" where
  "timed_handle = spawn (IdInt 1) (Some 50) None True True False (Inr ())"

theorem request_handle_terminal_witness:
  "await_begin (deliver (Inr 5) (snd (the (await_end True False timed_handle)))) = Some (Inl (request_timed_out 50)) \<and>
   rh_sent (snd (the (await_end True False timed_handle))) = [''request timeout'']"
proof -
  let ?h = "snd (the (await_end True False timed_handle))"
  have run: "await_end True False timed_handle = Some (Inl (request_timed_out 50), ?h)"
    by (simp add: await_end_def timed_handle_def spawn_def make_handle_def new_async_def async_wait_for_def fail_terminal_def Let_def)
  then have "handle_step\<^sup>*\<^sup>* timed_handle ?h" by (intro r_into_rtranclp handle_step.intros(4))
  note reach = this [unfolded timed_handle_def]
  have t: "rh_terminal ?h = Some (request_timed_out 50)" "rh_sent ?h = [''request timeout'']"
    by (simp_all add: await_end_def timed_handle_def spawn_def make_handle_def new_async_def async_wait_for_def fail_terminal_def
        send_cancel_def Let_def)
  have "handle_step\<^sup>*\<^sup>* ?h (deliver (Inr 5) ?h)" by (intro r_into_rtranclp handle_step.intros(1))
  then show ?thesis using request_handle_terminal [OF reach] t unfolding timed_handle_def by blast
qed

end
