(* ===== verification/Www_Auth.thy ===== *)
theory Www_Auth
  imports Server_Auth
begin

text \<open>
  src/sdk/auth/include/cxxmcp/auth/www_auth.hpp: challenges of a WWW-Authenticate header and their parser. A
  position in the header is the rest of the header from there, so a function that advances a position
  returns the rest after it. Characters are classified as in the C locale.
\<close>

section \<open>Characters and tokens\<close>

definition is_alnum :: "char \<Rightarrow> bool" where
  "is_alnum c \<longleftrightarrow> (let n = of_char c :: nat in 48 \<le> n \<and> n \<le> 57 \<or> 65 \<le> n \<and> n \<le> 90 \<or> 97 \<le> n \<and> n \<le> 122)"

definition is_http_token_char :: "char \<Rightarrow> bool" where
  "is_http_token_char c \<longleftrightarrow> is_alnum c \<or> c \<in> set ''!#$%&'' \<or> c = CHR 0x27 \<or> c \<in> set ''*+-.^_'' \<or> c = CHR 0x60 \<or> c \<in> set ''|~''"

definition is_token68_char :: "char \<Rightarrow> bool" where
  "is_token68_char c \<longleftrightarrow> is_alnum c \<or> c \<in> set ''-._~+/=''"

definition is_ows :: "char \<Rightarrow> bool" where
  "is_ows c \<longleftrightarrow> c = CHR '' '' \<or> c = CHR 0x09"

definition skip_ows :: "string \<Rightarrow> string" where
  "skip_ows s = dropWhile is_ows s"

definition parse_token :: "string \<Rightarrow> string \<times> string" where
  "parse_token s = (takeWhile is_http_token_char s, dropWhile is_http_token_char s)"

definition lower_char :: "char \<Rightarrow> char" where
  "lower_char c = (let n = of_char c :: nat in if 65 \<le> n \<and> n \<le> 90 then char_of (n + 32) else c)"

definition auth_ascii_lower :: "string \<Rightarrow> string" where
  "auth_ascii_lower s = map lower_char s"

definition auth_ascii_iequals :: "string \<Rightarrow> string \<Rightarrow> bool" where
  "auth_ascii_iequals a b \<longleftrightarrow> length a = length b \<and> list_all2 (\<lambda>x y. lower_char x = lower_char y) a b"

definition www_auth_parse_error :: "string \<Rightarrow> core_error" where
  "www_auth_parse_error msg = mk_error 1 msg '''' AuthErrorCategory"

text \<open>The loop of \<open>parse_quoted_string\<close>, after the opening quote.\<close>

fun quoted_body :: "string \<Rightarrow> (string \<times> string) result" where
  "quoted_body [] = Inl (www_auth_parse_error ''unterminated WWW-Authenticate quoted value'')"
| "quoted_body (c # s) =
     (if c = CHR 0x22 then Inr ([], s)
      else if c = CHR 0x5C then
        (case s of
           [] \<Rightarrow> Inl (www_auth_parse_error ''unterminated WWW-Authenticate escape'')
         | d # s' \<Rightarrow> rbind (quoted_body s') (\<lambda>(v, rest). Inr (d # v, rest)))
      else rbind (quoted_body s) (\<lambda>(v, rest). Inr (c # v, rest)))"

definition parse_quoted_string :: "string \<Rightarrow> (string \<times> string) result" where
  "parse_quoted_string s =
     (if s = [] \<or> hd s \<noteq> CHR 0x22 then Inl (www_auth_parse_error ''expected quoted WWW-Authenticate value'')
      else quoted_body (tl s))"

text \<open>The common part of \<open>comma_starts_parameter\<close> and \<open>starts_parameter\<close>: a token, an equals sign, the start of a value.\<close>

definition parameter_ahead :: "string \<Rightarrow> bool" where
  "parameter_ahead s =
     (case parse_token (skip_ows s) of
        (name, s1) \<Rightarrow>
          name \<noteq> [] \<and>
          (case skip_ows s1 of
             [] \<Rightarrow> False
           | c # s2 \<Rightarrow> c = CHR ''='' \<and>
               (case skip_ows s2 of [] \<Rightarrow> False | v # _ \<Rightarrow> v = CHR 0x22 \<or> is_http_token_char v)))"

definition comma_starts_parameter :: "string \<Rightarrow> bool" where
  "comma_starts_parameter s = (case s of [] \<Rightarrow> False | c # s1 \<Rightarrow> c = CHR '','' \<and> parameter_ahead s1)"

definition starts_parameter :: "string \<Rightarrow> bool" where
  "starts_parameter s = parameter_ahead s"

section \<open>Challenges\<close>

record www_challenge =
  wc_scheme :: string
  wc_token68 :: "string option"
  wc_parameters :: "string alist"

definition wc_parameter :: "www_challenge \<Rightarrow> string \<Rightarrow> string" where
  "wc_parameter c key =
     (case map_of (wc_parameters c) key of
        Some v \<Rightarrow> v
      | None \<Rightarrow> (case map_of (wc_parameters c) (auth_ascii_lower key) of None \<Rightarrow> '''' | Some v \<Rightarrow> v))"

definition wc_bearer :: "www_challenge \<Rightarrow> bool" where
  "wc_bearer c \<longleftrightarrow> auth_ascii_iequals (wc_scheme c) ''Bearer''"

definition resource_metadata_url :: "www_challenge \<Rightarrow> string option" where
  "resource_metadata_url c =
     (let v = wc_parameter c ''resource_metadata'' in if v = '''' then None else Some v)"

definition insufficient_scope :: "www_challenge \<Rightarrow> bool" where
  "insufficient_scope c \<longleftrightarrow> wc_parameter c ''error'' = ''insufficient_scope''"

fun first_resource_metadata_url :: "www_challenge list \<Rightarrow> string option" where
  "first_resource_metadata_url [] = None"
| "first_resource_metadata_url (c # cs) =
     (case resource_metadata_url c of Some v \<Rightarrow> Some v | None \<Rightarrow> first_resource_metadata_url cs)"

section \<open>The parser\<close>

definition parse_token68 :: "string \<Rightarrow> (string \<times> string) result" where
  "parse_token68 s =
     (let t = takeWhile is_token68_char s; rest = skip_ows (dropWhile is_token68_char s) in
      if t = [] then Inl (www_auth_parse_error ''expected WWW-Authenticate token68'')
      else if rest \<noteq> [] \<and> hd rest \<noteq> CHR '',''
      then Inl (www_auth_parse_error ''unexpected character after WWW-Authenticate token68'')
      else Inr (t, rest))"

definition parse_parameter_value :: "string \<Rightarrow> (string \<times> string) result" where
  "parse_parameter_value s =
     (case s of
        [] \<Rightarrow> Inl (www_auth_parse_error ''expected WWW-Authenticate parameter value'')
      | c # _ \<Rightarrow>
          if c = CHR 0x22 then parse_quoted_string s
          else (case parse_token s of
                  (v, rest) \<Rightarrow>
                    if v = [] then Inl (www_auth_parse_error ''expected WWW-Authenticate token parameter value'')
                    else Inr (v, rest)))"

text \<open>One parameter: its name, the equals sign, its value.\<close>

definition parse_parameter :: "string \<Rightarrow> ((string \<times> string) \<times> string) result" where
  "parse_parameter s =
     (case parse_token (skip_ows s) of
        (name, s1) \<Rightarrow>
          if name = [] then Inl (www_auth_parse_error ''expected WWW-Authenticate parameter name'')
          else let s2 = skip_ows s1 in
            if s2 = [] \<or> hd s2 \<noteq> CHR ''='' then Inl (www_auth_parse_error ''expected '=' after WWW-Authenticate parameter name'')
            else rbind (parse_parameter_value (skip_ows (tl s2))) (\<lambda>(v, rest). Inr ((name, v), rest)))"

lemma length_skip_ows: "length (skip_ows s) \<le> length s"
  by (simp add: skip_ows_def length_dropWhile_le)

lemma quoted_body_shorter: "quoted_body s = Inr (v, rest) \<Longrightarrow> length rest < length s"
proof (induction s arbitrary: v rule: quoted_body.induct)
  case (2 c s)
  then show ?case by (fastforce simp: rbind_eq_Inr split: if_splits list.splits)
qed simp

lemma parse_parameter_value_shorter: "parse_parameter_value s = Inr (v, rest) \<Longrightarrow> length rest < length s"
  by (cases s)
    (auto simp: parse_parameter_value_def parse_quoted_string_def parse_token_def length_dropWhile_le less_Suc_eq_le
      dest!: quoted_body_shorter split: if_splits)

lemma parse_parameter_shorter:
  assumes "parse_parameter s = Inr (kv, rest)"
  shows "length rest < length s"
proof -
  define s1 where "s1 = snd (parse_token (skip_ows s))"
  define s2 where "s2 = skip_ows s1"
  obtain v where v: "parse_parameter_value (skip_ows (tl s2)) = Inr (v, rest)"
    using assms by (auto simp: parse_parameter_def s2_def s1_def Let_def rbind_eq_Inr split: prod.splits if_splits)
  have "length rest < length (skip_ows (tl s2))" using parse_parameter_value_shorter [OF v] .
  also have "\<dots> \<le> length s2" using length_skip_ows [of "tl s2"] by simp
  also have "\<dots> \<le> length s1" unfolding s2_def by (rule length_skip_ows)
  also have "\<dots> \<le> length s" using length_skip_ows [of s] by (simp add: s1_def parse_token_def order.trans [OF length_dropWhile_le])
  finally show ?thesis .
qed

text \<open>The loop of \<open>parse_parameters\<close>; the map of the challenge is threaded through it.\<close>

function parse_parameters :: "string \<Rightarrow> string alist \<Rightarrow> (string alist \<times> string) result" where
  "parse_parameters s params =
     (if s = [] then Inr (params, [])
      else case parse_parameter s of
        Inl e \<Rightarrow> Inl e
      | Inr ((name, v), s1) \<Rightarrow>
          let params' = al_set (auth_ascii_lower name) v params; s2 = skip_ows s1 in
          if s2 = [] then Inr (params', [])
          else if hd s2 \<noteq> CHR '','' then Inl (www_auth_parse_error ''expected comma after WWW-Authenticate parameter'')
          else if \<not> comma_starts_parameter s2 then Inr (params', s2)
          else parse_parameters (tl s2) params')"
  by pat_completeness auto
termination
proof (relation "measure (length \<circ> fst)")
  fix s :: string and b name v s1 x y xa xb
  assume "parse_parameter s = Inr b" "(x, s1) = b" "xb = skip_ows s1"
  then show "((tl xb, y), s, xa) \<in> measure (length \<circ> fst)" for y xa
    using parse_parameter_shorter [of s x s1] length_skip_ows [of s1] by auto
qed auto

declare parse_parameters.simps [simp del]

lemma parse_parameters_shorter: "parse_parameters s params = Inr (params', rest) \<Longrightarrow> length rest \<le> length s"
proof (induction s params rule: parse_parameters.induct)
  case (1 s params)
  show ?case
  proof (cases "parse_parameter s")
    case (Inl e)
    then show ?thesis using 1(2) by (simp add: parse_parameters.simps [of s] split: if_splits)
  next
    case (Inr b)
    obtain name v s1 where b: "b = ((name, v), s1)" by (cases b) auto
    have short: "length s1 < length s" using parse_parameter_shorter Inr b by blast
    have skip: "length (skip_ows s1) \<le> length s1" by (rule length_skip_ows)
    show ?thesis
    proof (cases "skip_ows s1 \<noteq> [] \<and> hd (skip_ows s1) = CHR '','' \<and> comma_starts_parameter (skip_ows s1) \<and> s \<noteq> []")
      case True
      then have "length rest \<le> length (tl (skip_ows s1))"
        using 1(1) [OF _ Inr b [symmetric] refl refl refl] 1(2) Inr b by (simp add: parse_parameters.simps [of s] Let_def)
      then show ?thesis using short skip by simp
    next
      case False
      then show ?thesis using 1(2) Inr b short skip
        by (auto simp: parse_parameters.simps [of s] Let_def split: if_splits)
    qed
  qed
qed

text \<open>What follows the scheme of a challenge: nothing, parameters or a token68.\<close>

definition parse_challenge_rest :: "string \<Rightarrow> string \<Rightarrow> (www_challenge \<times> string) result" where
  "parse_challenge_rest scheme s =
     (if s = [] \<or> hd s = CHR '','' then Inr (\<lparr>wc_scheme = scheme, wc_token68 = None, wc_parameters = []\<rparr>, s)
      else if \<not> starts_parameter s then
        rbind (parse_token68 s) (\<lambda>(t, rest). Inr (\<lparr>wc_scheme = scheme, wc_token68 = Some t, wc_parameters = []\<rparr>, rest))
      else
        rbind (parse_parameters s []) (\<lambda>(ps, rest). Inr (\<lparr>wc_scheme = scheme, wc_token68 = None, wc_parameters = ps\<rparr>, rest)))"

lemma parse_challenge_rest_shorter: "parse_challenge_rest scheme s = Inr (c, rest) \<Longrightarrow> length rest \<le> length s"
  by (auto simp: parse_challenge_rest_def parse_token68_def Let_def rbind_eq_Inr split: if_splits
      dest!: parse_parameters_shorter intro: order.trans [OF length_skip_ows] length_dropWhile_le)

text \<open>White space and commas before a challenge, skipped by two nested loops.\<close>

definition skip_separators :: "string \<Rightarrow> string" where
  "skip_separators s = dropWhile (\<lambda>c. is_ows c \<or> c = CHR '','') s"

function parse_www_authenticate :: "string \<Rightarrow> www_challenge list result" where
  "parse_www_authenticate s =
     (let s1 = skip_separators s in
      if s1 = [] then Inr []
      else case parse_token s1 of
        (scheme, s2) \<Rightarrow>
          if scheme = [] then Inl (www_auth_parse_error ''expected WWW-Authenticate auth scheme'')
          else case parse_challenge_rest scheme (skip_ows s2) of
            Inl e \<Rightarrow> Inl e
          | Inr (c, s3) \<Rightarrow>
              if s3 = [] then Inr [c]
              else if hd s3 = CHR '','' then rbind (parse_www_authenticate (tl s3)) (\<lambda>cs. Inr (c # cs))
              else Inl (www_auth_parse_error ''expected comma after WWW-Authenticate challenge''))"
  by pat_completeness auto
termination
proof (relation "measure length")
  fix s x scheme s2 b c s3
  assume x: "x = skip_separators s" "x \<noteq> []" "(scheme, s2) = parse_token x" "scheme \<noteq> []"
    and r: "parse_challenge_rest scheme (skip_ows s2) = Inr b" "(c, s3) = b" "s3 \<noteq> []"
  have "length s2 < length x"
    using x(3,4) by (auto simp: parse_token_def takeWhile_eq_Nil_iff) (cases x; auto simp: length_dropWhile_le less_Suc_eq_le)
  moreover have "length x \<le> length s" using x(1) by (simp add: skip_separators_def length_dropWhile_le)
  moreover have "length s3 \<le> length s2"
    using parse_challenge_rest_shorter [of scheme "skip_ows s2" c s3] r length_skip_ows [of s2] by simp
  ultimately show "(tl s3, s) \<in> measure length" by simp
qed auto

declare parse_www_authenticate.simps [simp del]

section \<open>Writing challenges\<close>

text \<open>The reference writer: parameters as quoted strings, separated by a comma and a space.\<close>

fun quote_body :: "string \<Rightarrow> string" where
  "quote_body [] = []"
| "quote_body (c # s) = (if c = CHR 0x22 \<or> c = CHR 0x5C then CHR 0x5C # c # quote_body s else c # quote_body s)"

definition render_parameter :: "string \<times> string \<Rightarrow> string" where
  "render_parameter kv = fst kv @ CHR ''='' # CHR 0x22 # quote_body (snd kv) @ [CHR 0x22]"

fun render_parameters :: "string alist \<Rightarrow> string" where
  "render_parameters [] = []"
| "render_parameters [kv] = render_parameter kv"
| "render_parameters (kv # kvs) = render_parameter kv @ '', '' @ render_parameters kvs"

definition render_challenge :: "www_challenge \<Rightarrow> string" where
  "render_challenge c = wc_scheme c @
     (case wc_token68 c of
        Some t \<Rightarrow> CHR '' '' # t
      | None \<Rightarrow> if wc_parameters c = [] then [] else CHR '' '' # render_parameters (wc_parameters c))"

fun render_challenges :: "www_challenge list \<Rightarrow> string" where
  "render_challenges [] = []"
| "render_challenges [c] = render_challenge c"
| "render_challenges (c # cs) = render_challenge c @ '', '' @ render_challenges cs"

definition is_token :: "string \<Rightarrow> bool" where
  "is_token s \<longleftrightarrow> s \<noteq> [] \<and> list_all is_http_token_char s"

definition is_token68 :: "string \<Rightarrow> bool" where
  "is_token68 t \<longleftrightarrow> t \<noteq> [] \<and> hd t \<noteq> CHR ''='' \<and> list_all is_token68_char t \<and>
     list_all (\<lambda>c. c = CHR ''='') (dropWhile (\<lambda>c. c \<noteq> CHR ''='') t)"

definition challenge_ok :: "www_challenge \<Rightarrow> bool" where
  "challenge_ok c \<longleftrightarrow> is_token (wc_scheme c) \<and>
     (case wc_token68 c of
        Some t \<Rightarrow> is_token68 t \<and> wc_parameters c = []
      | None \<Rightarrow> keys_sorted (wc_parameters c) \<and>
          (\<forall>k\<in>set (map fst (wc_parameters c)). is_token k \<and> auth_ascii_lower k = k))"

lemma not_token_chars [simp]:
  "\<not> is_http_token_char (CHR ''='')" "\<not> is_http_token_char (CHR '','')" "\<not> is_http_token_char (CHR '' '')"
  "\<not> is_http_token_char (CHR 0x22)" "\<not> is_http_token_char (CHR 0x09)"
  by (simp_all add: is_http_token_char_def is_alnum_def)

lemma not_ows_chars [simp]:
  "\<not> is_ows (CHR ''='')" "\<not> is_ows (CHR '','')" "is_ows (CHR '' '')" "\<not> is_ows (CHR 0x22)"
  by (simp_all add: is_ows_def)

lemma token_not_ows: "is_http_token_char c \<Longrightarrow> \<not> is_ows c \<and> c \<noteq> CHR '','' \<and> c \<noteq> CHR ''='' \<and> c \<noteq> CHR 0x22"
  by (auto simp: is_ows_def)

lemma token68_not_ows: "is_token68_char c \<Longrightarrow> \<not> is_ows c \<and> c \<noteq> CHR '',''"
  by (auto simp: is_ows_def is_token68_char_def is_alnum_def)

lemma quoted_body_written: "quoted_body (quote_body v @ CHR 0x22 # rest) = Inr (v, rest)"
  by (induction v) auto

lemma skip_ows_stop: "s \<noteq> [] \<Longrightarrow> \<not> is_ows (hd s) \<Longrightarrow> skip_ows s = s"
  by (cases s) (simp_all add: skip_ows_def)

lemma skip_ows_simps [simp]:
  "skip_ows [] = []" "skip_ows (CHR '' '' # s) = skip_ows s" "skip_ows (CHR ''='' # s) = CHR ''='' # s"
  "skip_ows (CHR '','' # s) = CHR '','' # s" "skip_ows (CHR 0x22 # s) = CHR 0x22 # s"
  by (simp_all add: skip_ows_def)

lemma token_ahead:
  assumes "is_token k"
  shows "skip_ows (k @ s) = k @ s"
    "s = [] \<or> \<not> is_http_token_char (hd s) \<Longrightarrow> parse_token (k @ s) = (k, s)"
proof -
  obtain c k' where k: "k = c # k'" "is_http_token_char c" "list_all is_http_token_char k'"
    using assms by (cases k) (auto simp: is_token_def)
  show "skip_ows (k @ s) = k @ s" using k token_not_ows by (simp add: skip_ows_def)
  have "takeWhile is_http_token_char (k' @ s) = k' @ takeWhile is_http_token_char s"
    "dropWhile is_http_token_char (k' @ s) = dropWhile is_http_token_char s"
    using k(3) by (induction k') auto
  then show "s = [] \<or> \<not> is_http_token_char (hd s) \<Longrightarrow> parse_token (k @ s) = (k, s)"
    using k by (cases s) (auto simp: parse_token_def)
qed

lemma parse_parameter_written:
  assumes "is_token (fst kv)"
  shows "parse_parameter (render_parameter kv @ rest) = Inr (kv, rest)"
  using token_ahead [OF assms] quoted_body_written [of "snd kv" rest] assms
  by (simp add: is_token_def parse_parameter_def render_parameter_def parse_parameter_value_def parse_quoted_string_def Let_def)

lemma parameter_ahead_written:
  assumes "is_token (fst kv)"
  shows "parameter_ahead (render_parameter kv @ rest)"
  using token_ahead [OF assms] assms by (simp add: parameter_ahead_def render_parameter_def is_token_def)

lemma leading_space [simp]:
  "parameter_ahead (CHR '' '' # s) = parameter_ahead s" "parse_parameter (CHR '' '' # s) = parse_parameter s"
  by (simp_all add: parameter_ahead_def parse_parameter_def)

lemma parse_parameters_space: "s \<noteq> [] \<Longrightarrow> parse_parameters (CHR '' '' # s) ps = parse_parameters s ps"
  by (simp add: parse_parameters.simps [of s] parse_parameters.simps [of "CHR '' '' # s"])

lemma render_parameters_not_Nil [simp]: "kvs \<noteq> [] \<Longrightarrow> render_parameters kvs \<noteq> []"
  by (cases kvs rule: render_parameters.cases) (simp_all add: render_parameter_def)

definition ends_challenge :: "string \<Rightarrow> bool" where
  "ends_challenge rest \<longleftrightarrow> rest = [] \<or> hd rest = CHR '','' \<and> \<not> comma_starts_parameter rest"

lemma parse_parameters_written:
  "kvs \<noteq> [] \<Longrightarrow> \<forall>k\<in>set (map fst kvs). is_token k \<and> auth_ascii_lower k = k \<Longrightarrow> ends_challenge rest \<Longrightarrow>
   parse_parameters (render_parameters kvs @ rest) ps = Inr (fold (\<lambda>(k, v). al_set k v) kvs ps, rest)"
proof (induction kvs arbitrary: ps rule: render_parameters.induct)
  case (2 kv)
  have "skip_ows rest = rest" using 2(3) skip_ows_stop [of rest] by (cases rest) (auto simp: ends_challenge_def)
  then show ?case
    using 2 parse_parameter_written [of kv rest]
    by (subst parse_parameters.simps) (cases kv, auto simp: Let_def ends_challenge_def render_parameter_def)
next
  case (3 kv kv' kvs)
  let ?more = "render_parameters (kv' # kvs) @ rest"
  have "parameter_ahead ?more"
    using 3(3) parameter_ahead_written [of kv'] by (cases kvs) simp_all
  then have c: "comma_starts_parameter (CHR '','' # CHR '' '' # ?more)" by (simp add: comma_starts_parameter_def)
  have ih: "parse_parameters ?more ps' = Inr (fold (\<lambda>(k, v). al_set k v) (kv' # kvs) ps', rest)" for ps'
    using 3 by simp
  have p: "parse_parameter (render_parameter kv @ CHR '','' # CHR '' '' # ?more) = Inr (kv, CHR '','' # CHR '' '' # ?more)"
    using 3(3) by (intro parse_parameter_written) simp
  show ?case
    using p c ih 3(3) parse_parameters_space [of ?more]
    by (subst parse_parameters.simps) (cases kv, simp add: Let_def render_parameter_def)
qed simp

lemma al_set_append: "\<forall>k'\<in>set (map fst ps). k' < k \<Longrightarrow> al_set k v ps = ps @ [(k, v)]"
  by (induction ps) (auto simp: order.asym)

lemma fold_al_set:
  "keys_sorted kvs \<Longrightarrow> \<forall>a\<in>set (map fst ps). \<forall>b\<in>set (map fst kvs). a < b \<Longrightarrow>
   fold (\<lambda>(k, v). al_set k v) kvs ps = ps @ kvs"
proof (induction kvs arbitrary: ps)
  case (Cons kv kvs)
  obtain k v where kv: "kv = (k, v)" by (cases kv)
  then have "al_set k v ps = ps @ [(k, v)]" using Cons.prems(2) by (intro al_set_append) simp
  moreover have "fold (\<lambda>(k, v). al_set k v) kvs (ps @ [(k, v)]) = (ps @ [(k, v)]) @ kvs"
    using Cons.prems kv by (intro Cons.IH) (auto simp: keys_sorted_Cons)
  ultimately show ?case using kv by simp
qed simp

text \<open>After a scheme comes the end, a comma, or a space and no equals sign.\<close>

lemma no_parameter_after_scheme:
  assumes "is_token sch" "s = [] \<or> hd s = CHR '','' \<or> hd s = CHR '' '' \<and> tl s \<noteq> [] \<and> \<not> is_ows (hd (tl s)) \<and> hd (tl s) \<noteq> CHR ''=''"
  shows "\<not> parameter_ahead (sch @ s)"
proof -
  have "s = [] \<or> \<not> is_http_token_char (hd s)" using assms(2) by auto
  note t = token_ahead [OF assms(1)] token_ahead(2) [OF assms(1) this]
  show ?thesis
  proof (cases s)
    case (Cons c s')
    then show ?thesis using assms(2) t skip_ows_stop [of s'] by (cases s') (auto simp: parameter_ahead_def)
  qed (use t(3) t(1) [of "[]"] in \<open>simp add: parameter_ahead_def\<close>)
qed

lemma render_parameters_head:
  assumes "kvs \<noteq> []" "\<forall>k\<in>set (map fst kvs). is_token k"
  shows "\<exists>c s. render_parameters kvs = c # s \<and> is_http_token_char c"
proof -
  obtain kv kvs' where k: "kvs = kv # kvs'" using assms(1) by (cases kvs) auto
  then obtain c t where "fst kv = c # t" "is_http_token_char c" using assms(2) by (cases "fst kv") (auto simp: is_token_def)
  then show ?thesis using k by (cases kvs') (auto simp: render_parameter_def)
qed

lemma challenge_tail:
  assumes "challenge_ok c"
  shows "\<exists>s. render_challenge c = wc_scheme c @ s \<and>
    (s = [] \<or> hd s = CHR '' '' \<and> tl s \<noteq> [] \<and> \<not> is_ows (hd (tl s)) \<and> hd (tl s) \<noteq> CHR ''='' \<and> hd (tl s) \<noteq> CHR '','')"
proof (cases "wc_token68 c")
  case (Some t)
  then have "is_token68 t" using assms by (simp add: challenge_ok_def)
  then have "t \<noteq> []" "\<not> is_ows (hd t)" "hd t \<noteq> CHR ''=''" "hd t \<noteq> CHR '',''"
    using token68_not_ows [of "hd t"] by (cases t; auto simp: is_token68_def)+
  then show ?thesis using Some by (simp add: render_challenge_def)
next
  case None
  then have p: "\<forall>k\<in>set (map fst (wc_parameters c)). is_token k" using assms by (simp add: challenge_ok_def)
  show ?thesis
  proof (cases "wc_parameters c = []")
    case False
    obtain d s where "render_parameters (wc_parameters c) = d # s" "is_http_token_char d"
      using render_parameters_head [OF False p] by blast
    then show ?thesis using None False token_not_ows [of d] by (simp add: render_challenge_def)
  qed (use None in \<open>simp add: render_challenge_def\<close>)
qed

lemma render_challenges_Cons: "cs \<noteq> [] \<Longrightarrow> render_challenges (c # cs) = render_challenge c @ '', '' @ render_challenges cs"
  by (cases cs) simp_all

definition challenge_end :: "www_challenge list \<Rightarrow> string" where
  "challenge_end cs = (if cs = [] then [] else '', '' @ render_challenges cs)"

lemma ends_before_challenges:
  assumes "list_all challenge_ok cs"
  shows "ends_challenge (challenge_end cs)"
proof (cases cs)
  case (Cons c cs')
  then have ok: "challenge_ok c" using assms by simp
  then have sch: "is_token (wc_scheme c)" by (simp add: challenge_ok_def)
  obtain s where s: "render_challenge c = wc_scheme c @ s"
    "s = [] \<or> hd s = CHR '' '' \<and> tl s \<noteq> [] \<and> \<not> is_ows (hd (tl s)) \<and> hd (tl s) \<noteq> CHR ''='' \<and> hd (tl s) \<noteq> CHR '',''"
    using challenge_tail [OF ok] by blast
  obtain u where u: "render_challenges cs = wc_scheme c @ s @ u" "u = [] \<or> hd u = CHR '',''"
    using Cons s(1) by (cases cs') auto
  have "s @ u = [] \<or> hd (s @ u) = CHR '','' \<or> hd (s @ u) = CHR '' '' \<and> tl (s @ u) \<noteq> [] \<and> \<not> is_ows (hd (tl (s @ u))) \<and> hd (tl (s @ u)) \<noteq> CHR ''=''"
    using s(2) u(2) by (cases s) auto
  then have "\<not> parameter_ahead (wc_scheme c @ s @ u)" by (rule no_parameter_after_scheme [OF sch])
  then show ?thesis using Cons u(1) by (simp add: challenge_end_def ends_challenge_def comma_starts_parameter_def)
qed (simp add: challenge_end_def ends_challenge_def)

lemma token68_not_parameter:
  assumes "is_token68 t" "ends_challenge rest"
  shows "\<not> parameter_ahead (t @ rest)" "parse_token68 (t @ rest) = Inr (t, rest)"
proof -
  have all: "list_all is_token68_char t" using assms(1) by (simp add: is_token68_def)
  have r: "rest = [] \<or> hd rest = CHR '',''" using assms(2) by (auto simp: ends_challenge_def)
  have comma: "\<not> is_token68_char (CHR '','')" by (simp add: is_token68_char_def is_alnum_def)
  have "takeWhile is_token68_char (t @ rest) = t" "dropWhile is_token68_char (t @ rest) = rest"
    using all r comma by (induction t; cases rest; auto)+
  then show "parse_token68 (t @ rest) = Inr (t, rest)"
    using assms(1) r by (cases rest) (simp_all only: parse_token68_def Let_def is_token68_def, simp_all)
  obtain c t' where t: "t = c # t'" using assms(1) by (cases t) (auto simp: is_token68_def)
  then have skip: "skip_ows (t @ rest) = t @ rest" using all token68_not_ows by (simp add: skip_ows_def)
  define u where "u = dropWhile is_http_token_char (t @ rest)"
  show "\<not> parameter_ahead (t @ rest)"
  proof
    assume ahead: "parameter_ahead (t @ rest)"
    then obtain v w where w: "skip_ows u = CHR ''='' # v" "skip_ows v \<noteq> []"
      "hd (skip_ows v) = CHR 0x22 \<or> is_http_token_char (hd (skip_ows v))"
      by (auto simp: parameter_ahead_def parse_token_def skip u_def split: list.splits)
    define a where "a = dropWhile is_http_token_char t"
    have ua: "u = (if a = [] then dropWhile is_http_token_char rest else a @ rest)"
      unfolding u_def a_def by (induction t) auto
    show False
    proof (cases "a = []")
      case True
      then have "u = rest" using ua r by (cases rest) auto
      then show False using w(1) r by (cases rest) auto
    next
      case False
      have aset: "list_all is_token68_char a" using all unfolding a_def by (meson list_all_iff set_dropWhileD)
      then have "\<not> is_ows (hd a)" using False token68_not_ows by (cases a) auto
      then have ha: "hd a = CHR ''=''" "v = tl a @ rest" using w(1) ua False by (cases a; simp add: skip_ows_def)+
      have "a = dropWhile (\<lambda>c. c \<noteq> CHR ''='') a" using ha(1) False by (cases a) auto
      also have "dropWhile (\<lambda>c. c \<noteq> CHR ''='') a = dropWhile (\<lambda>c. c \<noteq> CHR ''='') t"
        unfolding a_def using not_token_chars(1) by (induction t) auto
      finally have eqs: "list_all (\<lambda>c. c = CHR ''='') a" using assms(1) by (simp add: is_token68_def)
      show False
      proof (cases "tl a")
        case Nil
        then show False using w(2,3) ha(2) r by (cases rest) auto
      next
        case (Cons x xs)
        then have "x = CHR ''=''" using eqs by (cases a) auto
        then show False using w(3) ha(2) Cons by simp
      qed
    qed
  qed
qed

lemma comma_ends_challenge [simp]: "ends_challenge rest \<Longrightarrow> skip_ows rest = rest"
  using skip_ows_stop [of rest] by (cases rest) (auto simp: ends_challenge_def)

lemma parse_challenge_rest_written:
  assumes "challenge_ok c" "ends_challenge rest" "render_challenge c = wc_scheme c @ s"
  shows "parse_challenge_rest (wc_scheme c) (skip_ows (s @ rest)) = Inr (c, rest)"
proof (cases "wc_token68 c")
  case (Some t)
  then have t: "is_token68 t" "wc_parameters c = []" "s = CHR '' '' # t"
    using assms(1,3) by (simp_all add: challenge_ok_def render_challenge_def)
  then have hd: "t \<noteq> []" "\<not> is_ows (hd t)" "hd t \<noteq> CHR '',''"
    using token68_not_ows [of "hd t"] by (cases t; auto simp: is_token68_def)+
  have skip: "skip_ows (s @ rest) = t @ rest" using t(3) hd by (simp add: skip_ows_stop)
  show ?thesis
    using token68_not_parameter [OF t(1) assms(2)] hd t(2) Some
    by (simp add: skip parse_challenge_rest_def starts_parameter_def)
next
  case None
  then have p: "keys_sorted (wc_parameters c)" "\<forall>k\<in>set (map fst (wc_parameters c)). is_token k \<and> auth_ascii_lower k = k"
    using assms(1) by (simp_all add: challenge_ok_def)
  show ?thesis
  proof (cases "wc_parameters c")
    case Nil
    then have "s = []" using None assms(3) by (simp add: render_challenge_def)
    then show ?thesis using None Nil assms(2) by (auto simp: parse_challenge_rest_def ends_challenge_def)
  next
    case (Cons kv kvs)
    let ?ps = "render_parameters (wc_parameters c)"
    have s: "s = CHR '' '' # ?ps" using None Cons assms(3) by (simp add: render_challenge_def)
    obtain d u where d: "?ps = d # u" "is_http_token_char d" using render_parameters_head [of "wc_parameters c"] Cons p(2) by auto
    have skip: "skip_ows (s @ rest) = ?ps @ rest" using s d token_not_ows by (simp add: skip_ows_stop)
    have ahead: "parameter_ahead (?ps @ rest)" using parameter_ahead_written [of kv] p(2) Cons by (cases kvs) simp_all
    have "parse_parameters (?ps @ rest) [] = Inr (fold (\<lambda>(k, v). al_set k v) (wc_parameters c) [], rest)"
      using Cons p(2) assms(2) by (intro parse_parameters_written) simp_all
    then have "parse_parameters (?ps @ rest) [] = Inr (wc_parameters c, rest)" using fold_al_set [OF p(1), of "[]"] by simp
    moreover have "\<not> (?ps @ rest = [] \<or> hd (?ps @ rest) = CHR '','')" using d token_not_ows [of d] by simp
    ultimately show ?thesis using ahead None by (simp only: skip parse_challenge_rest_def starts_parameter_def) simp
  qed
qed

lemma separators_before_challenges:
  assumes "cs \<noteq> []" "list_all challenge_ok cs"
  shows "skip_separators (render_challenges cs) = render_challenges cs"
    and "parse_www_authenticate (CHR '' '' # render_challenges cs) = parse_www_authenticate (render_challenges cs)"
proof -
  obtain c cs' where c: "cs = c # cs'" "is_token (wc_scheme c)" using assms by (cases cs) (auto simp: challenge_ok_def)
  obtain d u where "wc_scheme c = d # u" "is_http_token_char d" using c(2) by (cases "wc_scheme c") (auto simp: is_token_def)
  then have "\<exists>u. render_challenges cs = d # u" "\<not> is_ows d" "d \<noteq> CHR '',''"
    using c(1) token_not_ows [of d] by (cases cs'; simp add: render_challenge_def)+
  then show s: "skip_separators (render_challenges cs) = render_challenges cs" by (auto simp: skip_separators_def)
  have "skip_separators (CHR '' '' # render_challenges cs) = skip_separators (render_challenges cs)"
    by (simp add: skip_separators_def)
  then show "parse_www_authenticate (CHR '' '' # render_challenges cs) = parse_www_authenticate (render_challenges cs)"
    by (simp add: parse_www_authenticate.simps [of "CHR '' '' # render_challenges cs"] parse_www_authenticate.simps [of "render_challenges cs"])
qed

text \<open>C30: a \<open>WWW-Authenticate\<close> header is read back exactly. For any list of challenges whose schemes and parameter
  names are tokens (the names in lower case and in the order of the map) and whose token68 credentials are token68
  characters with the padding at the end, the text that writes them - several challenges in one header, parameters as
  quoted strings with quotes and backslashes escaped - is parsed into the same challenges: the comma that separates
  two parameters is told from the comma that separates two challenges, and a padded token68 from a parameter.\<close>

theorem www_authenticate_roundtrip:
  "list_all challenge_ok cs \<Longrightarrow> parse_www_authenticate (render_challenges cs) = Inr cs"
proof (induction cs)
  case Nil
  then show ?case by (simp add: parse_www_authenticate.simps skip_separators_def)
next
  case (Cons c cs)
  then have ok: "challenge_ok c" "list_all challenge_ok cs" "is_token (wc_scheme c)"
    using challenge_ok_def [of c] by simp_all
  obtain s where s: "render_challenge c = wc_scheme c @ s"
    "s = [] \<or> hd s = CHR '' '' \<and> tl s \<noteq> [] \<and> \<not> is_ows (hd (tl s)) \<and> hd (tl s) \<noteq> CHR ''='' \<and> hd (tl s) \<noteq> CHR '',''"
    using challenge_tail [OF ok(1)] by blast
  let ?rest = "challenge_end cs"
  have whole: "render_challenges (c # cs) = wc_scheme c @ s @ ?rest"
    using s(1) by (simp add: challenge_end_def render_challenges_Cons)
  have e: "ends_challenge ?rest" using ends_before_challenges [OF ok(2)] .
  have "s @ ?rest = [] \<or> \<not> is_http_token_char (hd (s @ ?rest))" using s(2) e by (cases s) (auto simp: ends_challenge_def)
  then have tok: "parse_token (wc_scheme c @ s @ ?rest) = (wc_scheme c, s @ ?rest)" by (rule token_ahead(2) [OF ok(3)])
  have "skip_separators (render_challenges (c # cs)) = render_challenges (c # cs)"
    using Cons.prems by (intro separators_before_challenges) simp_all
  moreover have "parse_challenge_rest (wc_scheme c) (skip_ows (s @ ?rest)) = Inr (c, ?rest)"
    by (rule parse_challenge_rest_written [OF ok(1) e s(1)])
  moreover have "wc_scheme c \<noteq> []" using ok(3) by (simp add: is_token_def)
  ultimately have "parse_www_authenticate (render_challenges (c # cs)) =
      (if ?rest = [] then Inr [c]
       else if hd ?rest = CHR '','' then rbind (parse_www_authenticate (tl ?rest)) (\<lambda>cs. Inr (c # cs))
       else Inl (www_auth_parse_error ''expected comma after WWW-Authenticate challenge''))"
    using tok by (subst parse_www_authenticate.simps) (simp add: whole)
  then show ?case
    using Cons.IH [OF ok(2)] separators_before_challenges(2) [OF _ ok(2)] by (cases "cs = []") (simp_all add: challenge_end_def)
qed

definition sample_challenges :: "www_challenge list" where
  "sample_challenges =
     [\<lparr>wc_scheme = ''Negotiate'', wc_token68 = Some ''YII+a=='', wc_parameters = []\<rparr>,
      \<lparr>wc_scheme = ''Basic'', wc_token68 = None, wc_parameters = []\<rparr>,
      \<lparr>wc_scheme = ''Bearer'', wc_token68 = None,
        wc_parameters = [(''error'', ''insufficient_scope''), (''scope'', ''a, b='')]\<rparr>]"

theorem www_authenticate_roundtrip_witness:
  "list_all challenge_ok sample_challenges \<and>
   parse_www_authenticate ''Negotiate YII+a==, Basic, Bearer error=\"insufficient_scope\", scope=\"a, b=\"'' = Inr sample_challenges"
proof -
  have ok: "list_all challenge_ok sample_challenges"
    by (simp add: sample_challenges_def challenge_ok_def is_token_def is_token68_def is_http_token_char_def is_token68_char_def
        is_alnum_def auth_ascii_lower_def lower_char_def keys_sorted_def less_char_def)
  moreover have "render_challenges sample_challenges = ''Negotiate YII+a==, Basic, Bearer error=\"insufficient_scope\", scope=\"a, b=\"''"
    by (simp add: sample_challenges_def render_challenge_def render_parameter_def)
  ultimately show ?thesis using www_authenticate_roundtrip [OF ok] by simp
qed

end
