(* ===== verification/Auth_Urls.thy ===== *)
theory Auth_Urls
  imports Www_Auth
begin

text \<open>
  The URL helpers of the client authorization: percent encoding, query parameters and scopes
  (lifecycle.hpp, namespace detail), the parts of a URL and the checks on them, the candidates of the metadata
  discovery (\<open>build_protected_resource_metadata_urls\<close>, \<open>build_authorization_server_metadata_urls\<close>) and the checks
  on URL client ids (registration.hpp). A position found in a URL is modelled by the parts before and after it.
\<close>

section \<open>Percent encoding, query parameters, scopes\<close>

definition hex_upper :: "nat \<Rightarrow> char" where
  "hex_upper n = (if n < 10 then char_of (48 + n) else char_of (55 + n))"

definition oauth_unreserved :: "char \<Rightarrow> bool" where
  "oauth_unreserved c \<longleftrightarrow> is_alnum c \<or> c \<in> set ''-_.~''"

text \<open>One byte: itself, or a percent sign and its value in upper-case hexadecimal, padded to two digits.\<close>

definition oauth_encode_char :: "char \<Rightarrow> string" where
  "oauth_encode_char c =
     (if oauth_unreserved c then [c]
      else let n = of_char c :: nat in [CHR ''%'', hex_upper (n div 16), hex_upper (n mod 16)])"

definition oauth_url_encode :: "string \<Rightarrow> string" where
  "oauth_url_encode s = concat (map oauth_encode_char s)"

fun join_scopes_loop :: "string \<Rightarrow> string list \<Rightarrow> string" where
  "join_scopes_loop joined [] = joined"
| "join_scopes_loop joined (scope # scopes) =
     (if scope = [] then join_scopes_loop joined scopes
      else join_scopes_loop ((if joined \<noteq> [] then joined @ [CHR '' ''] else joined) @ scope) scopes)"

definition join_scopes :: "string list \<Rightarrow> string" where
  "join_scopes scopes = join_scopes_loop [] scopes"

function split_scopes :: "string \<Rightarrow> string list" where
  "split_scopes s =
     (if s = [] then []
      else let s1 = dropWhile isspace s; scope = takeWhile (\<lambda>c. \<not> isspace c) s1; s2 = dropWhile (\<lambda>c. \<not> isspace c) s1 in
        if scope \<noteq> [] then scope # split_scopes s2 else split_scopes s2)"
  by pat_completeness auto
termination
proof (relation "measure length")
  have shrink: "length (dropWhile (\<lambda>c. \<not> isspace c) (dropWhile isspace s)) < length s" if "s \<noteq> []" for s
  proof (cases s)
    case (Cons c t)
    have "length (dropWhile (\<lambda>c. \<not> isspace c) u) \<le> length u" "length (dropWhile isspace u) \<le> length u" for u
      by (simp_all add: length_dropWhile_le)
    then show ?thesis using Cons by (auto simp: less_Suc_eq_le intro: order.trans)
  qed (use that in simp)
  fix s x xa xb assume "s \<noteq> []" "x = dropWhile isspace s" "xb = dropWhile (\<lambda>c. \<not> isspace c) x"
  then show "(xb, s) \<in> measure length" "(xb, s) \<in> measure length" using shrink [of s] by simp_all
qed simp

declare split_scopes.simps [simp del]

datatype PkceCodeChallengeMethod = S256

fun pkce_method_name :: "PkceCodeChallengeMethod \<Rightarrow> string" where
  "pkce_method_name S256 = ''S256''"

definition append_query_param :: "string \<Rightarrow> string \<Rightarrow> string \<Rightarrow> string" where
  "append_query_param url name v =
     url @ [if CHR ''?'' \<in> set url then CHR ''&'' else CHR ''?''] @ oauth_url_encode name @ [CHR ''=''] @ oauth_url_encode v"

definition has_scope :: "string list \<Rightarrow> string \<Rightarrow> bool" where
  "has_scope scopes scope \<longleftrightarrow> scope \<in> set scopes"

definition append_unique :: "string \<Rightarrow> string list \<Rightarrow> string list" where
  "append_unique v vs = (if v = [] then vs else if v \<notin> set vs then vs @ [v] else vs)"

section \<open>The parts of a URL\<close>

definition strip_query_and_fragment :: "string \<Rightarrow> string" where
  "strip_query_and_fragment url = takeWhile (\<lambda>c. c \<noteq> CHR ''?'') (takeWhile (\<lambda>c. c \<noteq> CHR ''#'') url)"

text \<open>\<open>url.find("://")\<close>: what is before the first occurrence and what is after it.\<close>

fun split_scheme :: "string \<Rightarrow> (string \<times> string) option" where
  "split_scheme [] = None"
| "split_scheme (c # s) =
     (if take 3 (c # s) = ''://'' then Some ([], drop 2 s)
      else map_option (\<lambda>(sch, rest). (c # sch, rest)) (split_scheme s))"

definition origin_from_url :: "string \<Rightarrow> string" where
  "origin_from_url url =
     (case split_scheme url of
        None \<Rightarrow> []
      | Some (sch, rest) \<Rightarrow>
          if CHR ''/'' \<notin> set rest then url else sch @ ''://'' @ takeWhile (\<lambda>c. c \<noteq> CHR ''/'') rest)"

definition path_from_url :: "string \<Rightarrow> string" where
  "path_from_url url =
     (case split_scheme url of
        None \<Rightarrow> []
      | Some (sch, rest) \<Rightarrow>
          if CHR ''/'' \<notin> set rest then ''/''
          else let path = takeWhile (\<lambda>c. c \<noteq> CHR ''#'') (takeWhile (\<lambda>c. c \<noteq> CHR ''?'') (dropWhile (\<lambda>c. c \<noteq> CHR ''/'') rest)) in
            if path = [] then ''/'' else path)"

definition url_has_fragment :: "string \<Rightarrow> bool" where
  "url_has_fragment url \<longleftrightarrow> CHR ''#'' \<in> set url"

definition url_scheme :: "string \<Rightarrow> string" where
  "url_scheme url = (case split_scheme url of None \<Rightarrow> [] | Some (sch, _) \<Rightarrow> sch)"

text \<open>The authority: up to the first of slash, question mark and number sign.\<close>

definition authority_part :: "string \<Rightarrow> string" where
  "authority_part rest = takeWhile (\<lambda>c. c \<notin> set ''/?#'') rest"

definition url_has_userinfo :: "string \<Rightarrow> bool" where
  "url_has_userinfo url =
     (case split_scheme url of None \<Rightarrow> False | Some (_, rest) \<Rightarrow> CHR ''@'' \<in> set (authority_part rest))"

text \<open>After the last at sign; then either what a pair of brackets holds or what is before the first colon.\<close>

definition authority_host :: "string \<Rightarrow> string" where
  "authority_host authority =
     (let a = rev (takeWhile (\<lambda>c. c \<noteq> CHR ''@'') (rev authority)) in
      if a = [] then []
      else if hd a = CHR ''['' then
        (if CHR '']'' \<notin> set a then [] else takeWhile (\<lambda>c. c \<noteq> CHR '']'') (tl a))
      else takeWhile (\<lambda>c. c \<noteq> CHR '':'') a)"

definition url_host :: "string \<Rightarrow> string" where
  "url_host url = (case split_scheme url of None \<Rightarrow> [] | Some (_, rest) \<Rightarrow> authority_host (authority_part rest))"

definition url_uses_https :: "string \<Rightarrow> bool" where
  "url_uses_https url \<longleftrightarrow> auth_ascii_iequals (url_scheme url) ''https''"

definition url_uses_loopback_http :: "string \<Rightarrow> bool" where
  "url_uses_loopback_http url \<longleftrightarrow>
     (if \<not> auth_ascii_iequals (url_scheme url) ''http'' then False
      else let host = url_host url in
        auth_ascii_iequals host ''localhost'' \<or> host = ''127.0.0.1'' \<or> host = ''::1'')"

definition redirect_uri_is_secure :: "string \<Rightarrow> bool" where
  "redirect_uri_is_secure url \<longleftrightarrow> url_uses_https url \<or> url_uses_loopback_http url"

section \<open>Dot segments\<close>

fun normalize_dots :: "string \<Rightarrow> string" where
  "normalize_dots [] = []"
| "normalize_dots (c # s) =
     (if c = CHR ''%'' \<and> 2 \<le> length s \<and> s ! 0 = CHR ''2'' \<and> (s ! 1 = CHR ''e'' \<or> s ! 1 = CHR ''E'')
      then CHR ''.'' # normalize_dots (drop 2 s) else c # normalize_dots s)"

definition segment_is_dot_reference :: "string \<Rightarrow> bool" where
  "segment_is_dot_reference segment \<longleftrightarrow> normalize_dots segment = ''.'' \<or> normalize_dots segment = ''..''"

function url_contains_dot_segment :: "string \<Rightarrow> bool" where
  "url_contains_dot_segment path =
     (let segment = takeWhile (\<lambda>c. c \<noteq> CHR ''/'') path; next = dropWhile (\<lambda>c. c \<noteq> CHR ''/'') path in
      if segment_is_dot_reference segment then True
      else if next = [] then False
      else url_contains_dot_segment (tl next))"
  by pat_completeness auto
termination
proof (relation "measure length")
  fix path x xa :: string
  assume "xa = dropWhile (\<lambda>c. c \<noteq> CHR ''/'') path" "xa \<noteq> []"
  moreover have "length (dropWhile (\<lambda>c. c \<noteq> CHR ''/'') path) \<le> length path" by (rule length_dropWhile_le)
  ultimately have "length xa \<le> length path" "0 < length xa" by simp_all
  then have "length xa - 1 < length path" by arith
  then show "(tl xa, path) \<in> measure length" by simp
qed simp

declare url_contains_dot_segment.simps [simp del]

definition metadata_discovery_url_is_safe :: "string \<Rightarrow> bool" where
  "metadata_discovery_url_is_safe url =
     (if url = [] \<or> url_has_fragment url \<or> url_has_userinfo url then False
      else if \<not> url_uses_https url \<and> \<not> url_uses_loopback_http url then False
      else if url_host url = [] then False
      else if url_contains_dot_segment (path_from_url url) then False
      else True)"

definition trim_leading_slash :: "string \<Rightarrow> string" where
  "trim_leading_slash v = dropWhile (\<lambda>c. c = CHR ''/'') v"

fun header_value :: "string alist \<Rightarrow> string \<Rightarrow> string option" where
  "header_value [] name = None"
| "header_value (entry # headers) name =
     (if auth_ascii_iequals (fst entry) name then Some (snd entry) else header_value headers name)"

section \<open>Candidates of the metadata discovery\<close>

definition build_protected_resource_metadata_urls :: "string \<Rightarrow> string option \<Rightarrow> string list" where
  "build_protected_resource_metadata_urls resource_url challenged =
     (let urls = (case challenged of
                    Some c \<Rightarrow> if metadata_discovery_url_is_safe c then append_unique (strip_query_and_fragment c) [] else []
                  | None \<Rightarrow> []) in
      if \<not> metadata_discovery_url_is_safe resource_url then urls
      else let normalized = strip_query_and_fragment resource_url; origin = origin_from_url normalized in
        if origin = [] then urls
        else let path = path_from_url normalized;
                 urls1 = (if path \<noteq> ''/''
                          then append_unique (origin @ ''/.well-known/oauth-protected-resource/'' @ trim_leading_slash path) urls
                          else urls)
             in append_unique (origin @ ''/.well-known/oauth-protected-resource'') urls1)"

definition build_authorization_server_metadata_urls :: "string \<Rightarrow> string list" where
  "build_authorization_server_metadata_urls issuer =
     (if \<not> metadata_discovery_url_is_safe issuer then []
      else let normalized = strip_query_and_fragment issuer; origin = origin_from_url normalized in
        if origin = [] then []
        else let path = path_from_url normalized;
                 urls1 = (if path \<noteq> ''/''
                          then append_unique (normalized @ ''/.well-known/openid-configuration'')
                                 (append_unique (origin @ ''/.well-known/oauth-authorization-server/'' @ trim_leading_slash path) [])
                          else [])
             in append_unique (origin @ ''/.well-known/openid-configuration'')
                  (append_unique (origin @ ''/.well-known/oauth-authorization-server'') urls1))"

section \<open>URL client ids\<close>

definition metadata_flag_enabled :: "string alist \<Rightarrow> string \<Rightarrow> bool" where
  "metadata_flag_enabled metadata key =
     (case map_of metadata key of
        None \<Rightarrow> False
      | Some v \<Rightarrow> v = ''true'' \<or> v = ''1'' \<or> v = ''yes'')"

definition kHttps :: string where
  "kHttps = ''https://''"

definition is_valid_client_id_metadata_url :: "string \<Rightarrow> bool" where
  "is_valid_client_id_metadata_url url =
     (if take (length kHttps) url \<noteq> kHttps then False
      else let rest = drop (length kHttps) url; authority = takeWhile (\<lambda>c. c \<noteq> CHR ''/'') rest;
               path = dropWhile (\<lambda>c. c \<noteq> CHR ''/'') rest in
        if path = [] \<or> tl path = [] then False
        else if authority = [] \<or> CHR ''@'' \<in> set authority then False
        else if CHR ''#'' \<in> set path \<or> url_contains_dot_segment path then False
        else True)"

section \<open>Encoding and reading back\<close>

definition hex_digit_value :: "char \<Rightarrow> nat" where
  "hex_digit_value c = (let n = of_char c in if n < 58 then n - 48 else n - 55)"

fun percent_decode :: "string \<Rightarrow> string" where
  "percent_decode (c # a # b # s) =
     (if c = CHR ''%'' then char_of (16 * hex_digit_value a + hex_digit_value b) # percent_decode s
      else c # percent_decode (a # b # s))"
| "percent_decode (c # s) = c # percent_decode s"
| "percent_decode [] = []"

lemma hex_upper_value: "n < 16 \<Longrightarrow> hex_digit_value (hex_upper n) = n"
  by (simp add: hex_digit_value_def hex_upper_def of_char_of)

lemma not_percent: "oauth_unreserved c \<Longrightarrow> c \<noteq> CHR ''%''"
  by (auto simp: oauth_unreserved_def is_alnum_def)

lemma percent_decode_plain: "c \<noteq> CHR ''%'' \<Longrightarrow> percent_decode (c # s) = c # percent_decode s"
  by (cases s; cases "tl s") auto

lemma percent_decode_encode: "percent_decode (oauth_url_encode s @ rest) = s @ percent_decode rest"
proof (induction s)
  case (Cons c s)
  have n: "(of_char c :: nat) div 16 < 16" using of_char_less [of c] by (simp add: div_less_iff_less_mult)
  have "16 * ((of_char c :: nat) div 16) + of_char c mod 16 = of_char c" by simp
  then show ?case
    using Cons n percent_decode_plain [OF not_percent]
    by (auto simp: oauth_url_encode_def oauth_encode_char_def Let_def hex_upper_value)
qed (simp add: oauth_url_encode_def)

lemma hex_upper_alnum: "n < 16 \<Longrightarrow> is_alnum (hex_upper n)"
  by (simp add: is_alnum_def hex_upper_def of_char_of)

lemma oauth_encode_char_chars: "c \<in> set (oauth_encode_char d) \<Longrightarrow> oauth_unreserved c \<or> c = CHR ''%''"
proof -
  assume c: "c \<in> set (oauth_encode_char d)"
  have "(of_char d :: nat) div 16 < 16" "(of_char d :: nat) mod 16 < 16"
    using of_char_less [of d] by (simp_all add: div_less_iff_less_mult)
  then have "oauth_unreserved (hex_upper (of_char d div 16))" "oauth_unreserved (hex_upper (of_char d mod 16))"
    using hex_upper_alnum unfolding oauth_unreserved_def by blast+
  then show ?thesis using c unfolding oauth_encode_char_def Let_def by (cases "oauth_unreserved d") auto
qed

lemma oauth_url_encode_chars: "c \<in> set (oauth_url_encode s) \<Longrightarrow> oauth_unreserved c \<or> c = CHR ''%''"
  using oauth_encode_char_chars by (auto simp: oauth_url_encode_def)

lemma oauth_url_encode_delimiters:
  "CHR ''&'' \<notin> set (oauth_url_encode s)" "CHR ''='' \<notin> set (oauth_url_encode s)" "CHR ''?'' \<notin> set (oauth_url_encode s)"
  "CHR ''#'' \<notin> set (oauth_url_encode s)"
  by (auto dest!: oauth_url_encode_chars simp: oauth_unreserved_def is_alnum_def)

text \<open>The reader of a query: the fields between ampersands, each cut at its first equals sign and decoded.\<close>

fun split_on :: "char \<Rightarrow> string \<Rightarrow> string list" where
  "split_on d [] = [[]]"
| "split_on d (c # s) = (if c = d then [] # split_on d s else (c # hd (split_on d s)) # tl (split_on d s))"

lemma split_on_not_Nil [simp]: "split_on d s \<noteq> []"
  by (induction s) auto

lemma split_on_append: "split_on d (a @ d # b) = split_on d a @ split_on d b"
  by (induction a) auto

lemma split_on_free: "d \<notin> set a \<Longrightarrow> split_on d a = [a]"
  by (induction a) auto

definition query_field :: "string \<Rightarrow> string \<times> string" where
  "query_field f = (percent_decode (takeWhile (\<lambda>c. c \<noteq> CHR ''='') f), percent_decode (tl (dropWhile (\<lambda>c. c \<noteq> CHR ''='') f)))"

definition query_params :: "string \<Rightarrow> (string \<times> string) list" where
  "query_params url =
     (if CHR ''?'' \<notin> set url then []
      else map query_field (split_on (CHR ''&'') (tl (dropWhile (\<lambda>c. c \<noteq> CHR ''?'') url))))"

lemma takeWhile_before: "d \<notin> set a \<Longrightarrow> takeWhile (\<lambda>c. c \<noteq> d) (a @ d # b) = a"
  by (induction a) auto

lemma dropWhile_before: "d \<notin> set a \<Longrightarrow> dropWhile (\<lambda>c. c \<noteq> d) (a @ d # b) = d # b"
  by (induction a) auto

lemma query_field_written:
  "query_field (oauth_url_encode name @ CHR ''='' # oauth_url_encode v) = (name, v)"
  using percent_decode_encode [of name "[]"] percent_decode_encode [of v "[]"]
  by (simp add: query_field_def takeWhile_before dropWhile_before oauth_url_encode_delimiters)

lemma query_params_append: "query_params (append_query_param url name v) = query_params url @ [(name, v)]"
proof -
  let ?f = "oauth_url_encode name @ CHR ''='' # oauth_url_encode v"
  have amp: "CHR ''&'' \<notin> set ?f" using oauth_url_encode_delimiters by auto
  show ?thesis
  proof (cases "CHR ''?'' \<in> set url")
    case True
    then obtain a b where u: "url = a @ CHR ''?'' # b" "CHR ''?'' \<notin> set a" by (meson split_list_first)
    then have "append_query_param url name v = a @ CHR ''?'' # (b @ CHR ''&'' # ?f)" by (simp add: append_query_param_def)
    then show ?thesis
      using u amp by (simp add: query_params_def dropWhile_before split_on_append split_on_free query_field_written)
  next
    case False
    then have "append_query_param url name v = url @ CHR ''?'' # ?f" by (simp add: append_query_param_def)
    then show ?thesis
      using False amp by (simp add: query_params_def dropWhile_before split_on_free query_field_written)
  qed
qed

lemma append_query_param_prefix: "\<exists>q. append_query_param url name v = url @ q"
  by (simp add: append_query_param_def)

text \<open>Scopes: joined with a blank, split at white space.\<close>

lemma join_scopes_loop_filter: "join_scopes_loop j scopes = join_scopes_loop j (filter (\<lambda>s. s \<noteq> []) scopes)"
  by (induction j scopes rule: join_scopes_loop.induct) auto

definition plain_scope :: "string \<Rightarrow> bool" where
  "plain_scope s \<longleftrightarrow> s \<noteq> [] \<and> (\<forall>c\<in>set s. \<not> isspace c)"

lemma plain_scope_split: "plain_scope s \<Longrightarrow> split_scopes s = [s]"
proof (cases s)
  case (Cons c t)
  moreover assume "plain_scope s"
  ultimately have c: "\<not> isspace c" "dropWhile (\<lambda>c. \<not> isspace c) t = []" "takeWhile (\<lambda>c. \<not> isspace c) t = t"
    by (auto simp: plain_scope_def dropWhile_eq_Nil_conv takeWhile_eq_all_conv)
  have "split_scopes (dropWhile (\<lambda>c. \<not> isspace c) t) = []" by (simp only: c(2) split_scopes.simps [of "[]"] simp_thms if_True)
  then show ?thesis using Cons c(1,3) by (subst split_scopes.simps) (simp add: Let_def)
qed (simp add: plain_scope_def)

lemma split_scopes_append:
  assumes "plain_scope s"
  shows "split_scopes (s @ CHR '' '' # t) = s # split_scopes t"
proof -
  obtain c s' where s: "s = c # s'" "\<not> isspace c" "\<forall>c\<in>set s'. \<not> isspace c" using assms by (cases s) (auto simp: plain_scope_def)
  have b: "isspace (CHR '' '')" by (simp add: isspace_def)
  have "takeWhile (\<lambda>c. \<not> isspace c) (s' @ CHR '' '' # t) = s'"
    "dropWhile (\<lambda>c. \<not> isspace c) (s' @ CHR '' '' # t) = CHR '' '' # t"
    using s(3) b by (induction s') auto
  then have "split_scopes (s @ CHR '' '' # t) = s # split_scopes (CHR '' '' # t)"
    using s by (subst split_scopes.simps) (simp add: Let_def)
  also have "split_scopes (CHR '' '' # t) = split_scopes t"
  proof (cases "t = []")
    case True
    then show ?thesis using b by (simp add: split_scopes.simps [of "[CHR '' '']"] split_scopes.simps [of "[]"])
  next
    case False
    then show ?thesis using b by (simp add: split_scopes.simps [of "CHR '' '' # t"] split_scopes.simps [of t])
  qed
  finally show ?thesis .
qed

lemma join_scopes_loop_append:
  "list_all plain_scope scopes \<Longrightarrow> scopes \<noteq> [] \<Longrightarrow>
   join_scopes_loop j scopes = (if j = [] then join_scopes_loop [] scopes else j @ CHR '' '' # join_scopes_loop [] scopes)"
proof (induction scopes arbitrary: j)
  case (Cons s scopes)
  have s: "s \<noteq> []" using Cons.prems by (simp add: plain_scope_def)
  show ?case
  proof (cases "scopes = []")
    case False
    then have "join_scopes_loop j' scopes = (if j' = [] then join_scopes_loop [] scopes else j' @ CHR '' '' # join_scopes_loop [] scopes)" for j'
      using Cons by simp
    from this [of "j @ CHR '' '' # s"] this [of s] show ?thesis using s by simp
  qed (use s in simp)
qed simp

lemma split_join_scopes: "list_all plain_scope scopes \<Longrightarrow> split_scopes (join_scopes scopes) = scopes"
proof (induction scopes)
  case Nil
  then show ?case by (simp add: join_scopes_def split_scopes.simps)
next
  case (Cons s scopes)
  then have s: "plain_scope s" "s \<noteq> []" "list_all plain_scope scopes"
    using plain_scope_def [of s] by simp_all
  show ?case
  proof (cases "scopes = []")
    case False
    then have "join_scopes (s # scopes) = s @ CHR '' '' # join_scopes scopes"
      using s join_scopes_loop_append [of scopes s] by (simp add: join_scopes_def)
    then show ?thesis using Cons.IH s split_scopes_append by simp
  qed (use s plain_scope_split in \<open>simp add: join_scopes_def\<close>)
qed

section \<open>The candidates stay on the server they are derived from\<close>

lemma dot_segment_append:
  "url_contains_dot_segment (a @ CHR ''/'' # b) \<longleftrightarrow> url_contains_dot_segment a \<or> url_contains_dot_segment b"
proof (induction a rule: url_contains_dot_segment.induct)
  case (1 a)
  show ?case
  proof (cases "CHR ''/'' \<in> set a")
    case True
    then obtain x y where a: "a = x @ CHR ''/'' # y" "CHR ''/'' \<notin> set x" by (meson split_list_first)
    have ih: "\<not> segment_is_dot_reference x \<Longrightarrow>
        url_contains_dot_segment (y @ CHR ''/'' # b) = (url_contains_dot_segment y \<or> url_contains_dot_segment b)"
      using 1 [OF refl refl] a by (simp add: takeWhile_before dropWhile_before)
    show ?thesis
      using ih a
      by (simp add: url_contains_dot_segment.simps [of "x @ CHR ''/'' # y @ CHR ''/'' # b"]
          url_contains_dot_segment.simps [of "x @ CHR ''/'' # y"] takeWhile_before dropWhile_before)
  next
    case False
    then have "takeWhile (\<lambda>c. c \<noteq> CHR ''/'') a = a" "dropWhile (\<lambda>c. c \<noteq> CHR ''/'') a = []"
      by (auto simp: takeWhile_eq_all_conv dropWhile_eq_Nil_conv)
    then show ?thesis
      using False
      by (simp only: url_contains_dot_segment.simps [of "a @ CHR ''/'' # b"] url_contains_dot_segment.simps [of a]
          takeWhile_before dropWhile_before) simp
  qed
qed

lemma dot_segment_Nil [simp]: "\<not> url_contains_dot_segment []"
  by (simp add: url_contains_dot_segment.simps [of "[]"] segment_is_dot_reference_def)

lemma dot_segment_slash [simp]: "url_contains_dot_segment (CHR ''/'' # s) = url_contains_dot_segment s"
  using dot_segment_append [of "[]" s] by simp

lemma dot_segment_trim [simp]: "url_contains_dot_segment (trim_leading_slash p) = url_contains_dot_segment p"
  by (induction p) (auto simp: trim_leading_slash_def)

lemma dot_segment_well_known [simp]:
  "\<not> url_contains_dot_segment ''.well-known''" "\<not> url_contains_dot_segment ''oauth-protected-resource''"
  "\<not> url_contains_dot_segment ''oauth-authorization-server''" "\<not> url_contains_dot_segment ''openid-configuration''"
  by (simp_all add: url_contains_dot_segment.simps segment_is_dot_reference_def)

lemma split_scheme_Some: "split_scheme u = Some (sch, rest) \<Longrightarrow> u = sch @ ''://'' @ rest"
proof (induction u arbitrary: sch)
  case (Cons c s)
  show ?case
  proof (cases "take 3 (c # s) = ''://''")
    case True
    then have "c # s = ''://'' @ drop 2 s" by (metis append_take_drop_id drop_Suc_Cons numeral_3_eq_3 numeral_2_eq_2)
    then show ?thesis using True Cons.prems by simp
  qed (use Cons in \<open>auto split: if_splits\<close>)
qed simp

lemma split_scheme_written: "CHR '':'' \<notin> set sch \<Longrightarrow> split_scheme (sch @ ''://'' @ rest) = Some (sch, rest)"
  by (induction sch) (auto simp: numeral_3_eq_3)

definition scheme_ok :: "string \<Rightarrow> string \<Rightarrow> bool" where
  "scheme_ok sch host \<longleftrightarrow> auth_ascii_iequals sch ''https'' \<or>
     auth_ascii_iequals sch ''http'' \<and> (auth_ascii_iequals host ''localhost'' \<or> host = ''127.0.0.1'' \<or> host = ''::1'')"

lemma lower_char_delimiters [simp]:
  "lower_char (CHR '':'') = CHR '':''" "lower_char (CHR ''?'') = CHR ''?''" "lower_char (CHR ''#'') = CHR ''#''"
  by (simp_all add: lower_char_def)

lemma iequals_chars: "auth_ascii_iequals s t \<Longrightarrow> c \<in> set s \<Longrightarrow> \<exists>d\<in>set t. lower_char c = lower_char d"
  unfolding auth_ascii_iequals_def list_all2_conv_all_nth by (metis in_set_conv_nth nth_mem)

lemma scheme_ok_chars:
  assumes "scheme_ok sch host" "c \<in> set '':?#''"
  shows "c \<notin> set sch"
proof
  assume c: "c \<in> set sch"
  have "\<exists>d\<in>set ''https''. lower_char c = lower_char d"
    using assms(1) iequals_chars [OF _ c, of "''https''"] iequals_chars [OF _ c, of "''http''"] by (auto simp: scheme_ok_def)
  then show False using assms(2) by (auto simp: lower_char_def Let_def)
qed

text \<open>A URL without query and fragment, by its parts.\<close>

definition url_parts :: "string \<Rightarrow> string \<Rightarrow> string \<Rightarrow> bool" where
  "url_parts sch auth p \<longleftrightarrow> (\<forall>c\<in>set '':?#''. c \<notin> set sch) \<and> (\<forall>c\<in>set ''/?#''. c \<notin> set auth) \<and>
     (p = [] \<or> hd p = CHR ''/'') \<and> CHR ''?'' \<notin> set p \<and> CHR ''#'' \<notin> set p"

lemma authority_part_before:
  assumes "\<forall>c\<in>set ''/?#''. c \<notin> set auth" "p = [] \<or> hd p \<in> set ''/?#''"
  shows "authority_part (auth @ p) = auth"
proof -
  have "takeWhile (\<lambda>c. c \<notin> set ''/?#'') p = []" using assms(2) by (cases p) auto
  moreover have "takeWhile (\<lambda>c. c \<notin> set ''/?#'') (auth @ q) = auth @ takeWhile (\<lambda>c. c \<notin> set ''/?#'') q" for q
    using assms(1) by (intro takeWhile_append2) auto
  ultimately show ?thesis by (simp add: authority_part_def)
qed

lemma slash_before: "CHR ''/'' \<notin> set a \<Longrightarrow> p = [] \<or> hd p = CHR ''/'' \<Longrightarrow>
    takeWhile (\<lambda>c. c \<noteq> CHR ''/'') (a @ p) = a \<and> dropWhile (\<lambda>c. c \<noteq> CHR ''/'') (a @ p) = p"
  by (cases p) (auto simp: takeWhile_before dropWhile_before takeWhile_eq_all_conv dropWhile_eq_Nil_conv)

lemma takeWhile_absent: "d \<notin> set a \<Longrightarrow> takeWhile (\<lambda>c. c \<noteq> d) a = a"
  by (auto simp: takeWhile_eq_all_conv)

lemma url_of_parts:
  assumes "url_parts sch auth p"
  defines "u \<equiv> sch @ ''://'' @ auth @ p"
  shows "origin_from_url u = sch @ ''://'' @ auth"
    and "path_from_url u = (if p = [] then ''/'' else p)"
    and "CHR ''?'' \<notin> set u" "CHR ''#'' \<notin> set u"
    and "metadata_discovery_url_is_safe u \<longleftrightarrow> CHR ''@'' \<notin> set auth \<and> scheme_ok sch (authority_host auth) \<and>
      authority_host auth \<noteq> [] \<and> \<not> url_contains_dot_segment p"
proof -
  have s: "split_scheme u = Some (sch, auth @ p)"
    using assms split_scheme_written [of sch "auth @ p"] by (simp add: url_parts_def)
  have a: "authority_part (auth @ p) = auth" using assms by (intro authority_part_before) (auto simp: url_parts_def)
  have d: "takeWhile (\<lambda>c. c \<noteq> CHR ''/'') (auth @ p) = auth \<and> dropWhile (\<lambda>c. c \<noteq> CHR ''/'') (auth @ p) = p"
    using assms by (intro slash_before) (auto simp: url_parts_def)
  have mem: "CHR ''/'' \<in> set (auth @ p) \<longleftrightarrow> p \<noteq> []" using assms by (cases p) (auto simp: url_parts_def)
  have t: "takeWhile (\<lambda>c. c \<noteq> CHR ''#'') (takeWhile (\<lambda>c. c \<noteq> CHR ''?'') p) = p"
    using assms(1) by (simp add: url_parts_def takeWhile_absent)
  show "origin_from_url u = sch @ ''://'' @ auth" using s d mem by (simp add: origin_from_url_def u_def)
  show path: "path_from_url u = (if p = [] then ''/'' else p)" using s d mem t by (simp add: path_from_url_def)
  show q: "CHR ''?'' \<notin> set u" "CHR ''#'' \<notin> set u" using assms by (auto simp: url_parts_def u_def)
  have "u \<noteq> []" by (simp add: u_def)
  moreover have "url_scheme u = sch" "url_host u = authority_host auth" "url_has_userinfo u \<longleftrightarrow> CHR ''@'' \<in> set auth"
    using s a by (simp_all add: url_scheme_def url_host_def url_has_userinfo_def)
  ultimately show "metadata_discovery_url_is_safe u \<longleftrightarrow> CHR ''@'' \<notin> set auth \<and> scheme_ok sch (authority_host auth) \<and>
      authority_host auth \<noteq> [] \<and> \<not> url_contains_dot_segment p"
    using q path by (auto simp: metadata_discovery_url_is_safe_def url_has_fragment_def url_uses_https_def
        url_uses_loopback_http_def scheme_ok_def Let_def)
qed

lemma path_before_query:
  "dropWhile (\<lambda>c. c \<noteq> CHR ''/'') (takeWhile (\<lambda>c. c \<noteq> CHR ''?'') r) \<noteq> [] \<Longrightarrow>
   dropWhile (\<lambda>c. c \<noteq> CHR ''/'') (takeWhile (\<lambda>c. c \<noteq> CHR ''?'') r) =
     takeWhile (\<lambda>c. c \<noteq> CHR ''?'') (dropWhile (\<lambda>c. c \<noteq> CHR ''/'') r) \<and> CHR ''/'' \<in> set r"
  by (induction r) (auto split: if_splits)

lemma takeWhile_conj: "takeWhile P (takeWhile Q xs) = takeWhile (\<lambda>c. P c \<and> Q c) xs"
  by (induction xs) auto

lemma strip_of_safe:
  assumes "metadata_discovery_url_is_safe u"
  obtains sch auth p where "url_parts sch auth p" "strip_query_and_fragment u = sch @ ''://'' @ auth @ p"
    "CHR ''@'' \<notin> set auth" "scheme_ok sch (authority_host auth)" "authority_host auth \<noteq> []"
    "\<not> url_contains_dot_segment p"
proof -
  have frag: "CHR ''#'' \<notin> set u"
    and sch_ok: "scheme_ok (url_scheme u) (url_host u)"
    and rest: "\<not> url_has_userinfo u" "url_host u \<noteq> []" "\<not> url_contains_dot_segment (path_from_url u)"
    using assms by (auto simp: metadata_discovery_url_is_safe_def url_has_fragment_def url_uses_https_def
        url_uses_loopback_http_def scheme_ok_def Let_def split: if_splits)
  obtain sch r where s: "split_scheme u = Some (sch, r)" using rest(2) by (cases "split_scheme u") (auto simp: url_host_def)
  have u: "u = sch @ ''://'' @ r" using split_scheme_Some [OF s] .
  define r1 where "r1 = takeWhile (\<lambda>c. c \<noteq> CHR ''?'') r"
  define auth where "auth = authority_part r"
  define p where "p = dropWhile (\<lambda>c. c \<noteq> CHR ''/'') r1"
  have sok: "scheme_ok sch (authority_host auth)" using sch_ok s by (simp add: url_scheme_def url_host_def auth_def)
  have nofrag: "CHR ''#'' \<notin> set r" using frag u by simp
  then have "takeWhile (\<lambda>c. c \<notin> set ''/?#'') r = takeWhile (\<lambda>c. c \<noteq> CHR ''/'' \<and> c \<noteq> CHR ''?'') r"
    by (intro takeWhile_cong) auto
  then have auth: "auth = takeWhile (\<lambda>c. c \<noteq> CHR ''/'') r1" by (simp add: auth_def authority_part_def r1_def takeWhile_conj)
  have r1: "r1 = auth @ p" by (simp add: auth p_def)
  have "CHR ''?'' \<notin> set r1" "CHR ''#'' \<notin> set r1" using nofrag by (auto simp: r1_def dest: set_takeWhileD)
  moreover have "CHR ''/'' \<notin> set auth" by (auto simp: auth dest: set_takeWhileD)
  moreover have "p = [] \<or> hd p = CHR ''/''" using hd_dropWhile [of "\<lambda>c. c \<noteq> CHR ''/''" r1] by (auto simp: p_def)
  ultimately have parts: "url_parts sch auth p" using scheme_ok_chars [OF sok] r1 by (auto simp: url_parts_def)
  have "CHR ''?'' \<notin> set (sch @ ''://'')" using scheme_ok_chars [OF sok, of "CHR ''?''"] by simp
  then have "takeWhile (\<lambda>c. c \<noteq> CHR ''?'') ((sch @ ''://'') @ r) = (sch @ ''://'') @ r1"
    unfolding r1_def by (intro takeWhile_append2) auto
  then have strip: "strip_query_and_fragment u = sch @ ''://'' @ auth @ p"
    using frag r1 by (simp add: strip_query_and_fragment_def takeWhile_absent u)
  have dots: "\<not> url_contains_dot_segment p"
  proof (cases "p = []")
    case False
    then have "p = takeWhile (\<lambda>c. c \<noteq> CHR ''?'') (dropWhile (\<lambda>c. c \<noteq> CHR ''/'') r)" "CHR ''/'' \<in> set r"
      using path_before_query [of r] by (simp_all add: p_def r1_def)
    moreover have "CHR ''#'' \<notin> set p" using parts by (simp add: url_parts_def)
    ultimately have "path_from_url u = p" using s False by (simp add: path_from_url_def takeWhile_absent)
    then show ?thesis using rest(3) by simp
  qed simp
  have "CHR ''@'' \<notin> set auth" "authority_host auth \<noteq> []"
    using rest s by (simp_all add: url_has_userinfo_def url_host_def auth_def)
  then show ?thesis using that parts strip sok dots by blast
qed

lemma set_append_unique: "set (append_unique v vs) = set vs \<union> (if v = [] then {} else {v})"
  by (auto simp: append_unique_def)

lemma distinct_append_unique [simp]: "distinct vs \<Longrightarrow> distinct (append_unique v vs)"
  by (simp add: append_unique_def)

text \<open>What every candidate derived from a base URL satisfies.\<close>

definition confined_to :: "string \<Rightarrow> string \<Rightarrow> bool" where
  "confined_to base u \<longleftrightarrow> metadata_discovery_url_is_safe u \<and> CHR ''?'' \<notin> set u \<and> CHR ''#'' \<notin> set u \<and>
     origin_from_url u = origin_from_url (strip_query_and_fragment base)"

lemma candidate_confined:
  assumes "url_parts sch auth p" "strip_query_and_fragment base = sch @ ''://'' @ auth @ p"
    "CHR ''@'' \<notin> set auth" "scheme_ok sch (authority_host auth)" "authority_host auth \<noteq> []"
    and q: "q = [] \<or> hd q = CHR ''/''" "CHR ''?'' \<notin> set q" "CHR ''#'' \<notin> set q" "\<not> url_contains_dot_segment q"
  shows "confined_to base (sch @ ''://'' @ auth @ q)"
proof -
  have "url_parts sch auth q" using assms(1) q by (simp add: url_parts_def)
  from url_of_parts [OF this] url_of_parts(1) [OF assms(1)] show ?thesis
    using assms(2-5) q(4) by (simp add: confined_to_def)
qed

lemma well_known_candidate:
  assumes "url_parts sch auth p" "\<not> url_contains_dot_segment p" "w \<in> {''oauth-protected-resource'', ''oauth-authorization-server'', ''openid-configuration''}"
  shows "hd (''/.well-known/'' @ w @ t) = CHR ''/''"
    and "CHR ''?'' \<notin> set (''/.well-known/'' @ w)" "CHR ''#'' \<notin> set (''/.well-known/'' @ w)"
    and "\<not> url_contains_dot_segment (''/.well-known/'' @ w)"
    and "\<not> url_contains_dot_segment (''/.well-known/'' @ w @ CHR ''/'' # trim_leading_slash p)"
    and "CHR ''?'' \<notin> set (trim_leading_slash p)" "CHR ''#'' \<notin> set (trim_leading_slash p)"
    and "\<not> url_contains_dot_segment (p @ ''/.well-known/'' @ w)"
proof -
  have w: "\<not> url_contains_dot_segment w" "CHR ''?'' \<notin> set w" "CHR ''#'' \<notin> set w" using assms(3) by auto
  have dots: "url_contains_dot_segment (''/.well-known/'' @ x) = url_contains_dot_segment x" for x
    using dot_segment_append [of "''.well-known''" x] by simp
  show "hd (''/.well-known/'' @ w @ t) = CHR ''/''" by simp
  show "CHR ''?'' \<notin> set (''/.well-known/'' @ w)" "CHR ''#'' \<notin> set (''/.well-known/'' @ w)" using w by simp_all
  show "\<not> url_contains_dot_segment (''/.well-known/'' @ w)" using w dots by blast
  show "\<not> url_contains_dot_segment (''/.well-known/'' @ w @ CHR ''/'' # trim_leading_slash p)"
    using w dots assms(2) dot_segment_append [of w "trim_leading_slash p"] by simp
  show "CHR ''?'' \<notin> set (trim_leading_slash p)" "CHR ''#'' \<notin> set (trim_leading_slash p)"
    using assms(1) by (auto simp: url_parts_def trim_leading_slash_def dest: set_dropWhileD)
  show "\<not> url_contains_dot_segment (p @ ''/.well-known/'' @ w)"
    using w dots [of w] assms(2) dot_segment_append [of p "''.well-known/'' @ w"] by simp
qed

lemma strip_candidate:
  assumes "metadata_discovery_url_is_safe c"
  shows "confined_to c (strip_query_and_fragment c)" "strip_query_and_fragment c \<noteq> []"
proof -
  obtain sch auth p where c: "url_parts sch auth p" "strip_query_and_fragment c = sch @ ''://'' @ auth @ p"
    "CHR ''@'' \<notin> set auth" "scheme_ok sch (authority_host auth)" "authority_host auth \<noteq> []" "\<not> url_contains_dot_segment p"
    using strip_of_safe [OF assms] by blast
  have "confined_to c (sch @ ''://'' @ auth @ p)" using c(1) by (intro candidate_confined [OF c(1-5) _ _ _ c(6)]) (simp_all add: url_parts_def)
  then show "confined_to c (strip_query_and_fragment c)" "strip_query_and_fragment c \<noteq> []" using c(2) by simp_all
qed

lemma candidates_confined:
  assumes "metadata_discovery_url_is_safe base" "w \<in> {''oauth-protected-resource'', ''oauth-authorization-server'', ''openid-configuration''}"
  defines "origin \<equiv> origin_from_url (strip_query_and_fragment base)" and "path \<equiv> path_from_url (strip_query_and_fragment base)"
  shows "origin \<noteq> []"
    and "confined_to base (origin @ ''/.well-known/'' @ w)"
    and "confined_to base (origin @ ''/.well-known/'' @ w @ CHR ''/'' # trim_leading_slash path)"
    and "path \<noteq> ''/'' \<Longrightarrow> confined_to base (strip_query_and_fragment base @ ''/.well-known/'' @ w)"
proof -
  obtain sch auth p where c: "url_parts sch auth p" "strip_query_and_fragment base = sch @ ''://'' @ auth @ p"
    "CHR ''@'' \<notin> set auth" "scheme_ok sch (authority_host auth)" "authority_host auth \<noteq> []" "\<not> url_contains_dot_segment p"
    using strip_of_safe [OF assms(1)] by blast
  note cand = candidate_confined [OF c(1-5)] and wk = well_known_candidate [OF c(1,6) assms(2)]
  have o: "origin = sch @ ''://'' @ auth" "path = (if p = [] then ''/'' else p)"
    using url_of_parts(1,2) [OF c(1)] c(2) by (simp_all add: origin_def path_def)
  show "origin \<noteq> []" by (simp add: o)
  show "confined_to base (origin @ ''/.well-known/'' @ w)"
    using cand [of "''/.well-known/'' @ w"] wk by (simp add: o)
  show "confined_to base (origin @ ''/.well-known/'' @ w @ CHR ''/'' # trim_leading_slash path)"
    using cand [of "''/.well-known/'' @ w @ CHR ''/'' # trim_leading_slash p"] wk by (cases p) (simp_all add: o trim_leading_slash_def)
  assume "path \<noteq> ''/''"
  then have "p \<noteq> []" using o(2) by auto
  then show "confined_to base (strip_query_and_fragment base @ ''/.well-known/'' @ w)"
    using cand [of "p @ ''/.well-known/'' @ w"] wk c(1) by (simp add: c(2) url_parts_def)
qed

text \<open>C31: metadata discovery stays on the server it was pointed to. Every candidate URL, of the protected resource
  and of the authorization server, passes the same safety check as the URL it is derived from (HTTPS, or HTTP on a
  loopback host; no user information, no fragment, no dot segment), carries no query, and has the scheme, host and
  port of that URL; the only other candidate is the URL a challenge named, if that is itself safe. There are no
  duplicates, and a safe URL always has candidates while an unsafe one has none.\<close>

theorem discovery_urls_confined:
  "(\<forall>u\<in>set (build_protected_resource_metadata_urls resource challenged).
      confined_to resource u \<or> (\<exists>c. challenged = Some c \<and> confined_to c u \<and> u = strip_query_and_fragment c)) \<and>
   (\<forall>u\<in>set (build_authorization_server_metadata_urls issuer). confined_to issuer u) \<and>
   distinct (build_protected_resource_metadata_urls resource challenged) \<and>
   distinct (build_authorization_server_metadata_urls issuer) \<and>
   build_protected_resource_metadata_urls resource None \<noteq> [] = metadata_discovery_url_is_safe resource \<and>
   build_authorization_server_metadata_urls issuer \<noteq> [] = metadata_discovery_url_is_safe issuer"
proof -
  note r = candidates_confined [of resource "''oauth-protected-resource''"]
    and i = candidates_confined [of issuer "''oauth-authorization-server''"] candidates_confined [of issuer "''openid-configuration''"]
  have "\<forall>u\<in>set (build_protected_resource_metadata_urls resource challenged).
      confined_to resource u \<or> (\<exists>c. challenged = Some c \<and> confined_to c u \<and> u = strip_query_and_fragment c)"
    using r strip_candidate
    by (auto simp: build_protected_resource_metadata_urls_def Let_def set_append_unique split: option.splits if_splits)
  moreover have "\<forall>u\<in>set (build_authorization_server_metadata_urls issuer). confined_to issuer u"
    using i by (auto simp: build_authorization_server_metadata_urls_def Let_def set_append_unique split: if_splits)
  moreover have "distinct (build_protected_resource_metadata_urls resource challenged)"
    by (simp add: build_protected_resource_metadata_urls_def Let_def split: option.split)
  moreover have "distinct (build_authorization_server_metadata_urls issuer)"
    by (simp add: build_authorization_server_metadata_urls_def Let_def)
  moreover have "build_protected_resource_metadata_urls resource None \<noteq> [] = metadata_discovery_url_is_safe resource"
    using r(1) by (auto simp: build_protected_resource_metadata_urls_def append_unique_def Let_def)
  moreover have "build_authorization_server_metadata_urls issuer \<noteq> [] = metadata_discovery_url_is_safe issuer"
    using i(1) by (auto simp: build_authorization_server_metadata_urls_def append_unique_def Let_def)
  ultimately show ?thesis by blast
qed

theorem discovery_urls_confined_witness:
  "build_protected_resource_metadata_urls ''https://a:1/mcp?x'' None =
     [''https://a:1/.well-known/oauth-protected-resource/mcp'', ''https://a:1/.well-known/oauth-protected-resource''] \<and>
   confined_to ''https://a:1/mcp?x'' ''https://a:1/.well-known/oauth-protected-resource/mcp'' \<and>
   build_protected_resource_metadata_urls ''https://a/%2E./x'' None = [] \<and>
   build_protected_resource_metadata_urls ''http://b/'' None = []"
proof -
  note ev = build_protected_resource_metadata_urls_def metadata_discovery_url_is_safe_def url_has_fragment_def
    url_has_userinfo_def url_uses_https_def url_uses_loopback_http_def url_scheme_def url_host_def authority_host_def
    authority_part_def path_from_url_def origin_from_url_def strip_query_and_fragment_def trim_leading_slash_def
    append_unique_def segment_is_dot_reference_def auth_ascii_iequals_def lower_char_def numeral_3_eq_3
  have l: "build_protected_resource_metadata_urls ''https://a:1/mcp?x'' None =
     [''https://a:1/.well-known/oauth-protected-resource/mcp'', ''https://a:1/.well-known/oauth-protected-resource'']"
    by (simp add: ev url_contains_dot_segment.simps)
  moreover have "confined_to ''https://a:1/mcp?x'' ''https://a:1/.well-known/oauth-protected-resource/mcp''"
    using discovery_urls_confined [of "''https://a:1/mcp?x''" None "''''"] l by simp
  moreover have "build_protected_resource_metadata_urls ''https://a/%2E./x'' None = []"
    by (simp add: ev url_contains_dot_segment.simps)
  moreover have "build_protected_resource_metadata_urls ''http://b/'' None = []"
    by (simp add: ev)
  ultimately show ?thesis by blast
qed

text \<open>The dot-segment check of a URL client id runs on the path with its query: a dot segment right before a question
  mark is not recognised.\<close>

lemma dot_segment_before_query:
  "is_valid_client_id_metadata_url ''https://a/..?x'' \<and> \<not> is_valid_client_id_metadata_url ''https://a/../x''"
  by (simp add: is_valid_client_id_metadata_url_def kHttps_def url_contains_dot_segment.simps segment_is_dot_reference_def)

end
