(* ===== verification/Auth_Stores.thy ===== *)
theory Auth_Stores
  imports Auth_Urls
begin

text \<open>
  The data of the client authorization (auth/types.hpp, auth/metadata.hpp, auth/pkce.hpp, auth/token.hpp and the
  structs of auth/lifecycle.hpp and auth/registration.hpp) and the in-memory stores: tokens, credentials and pending
  authorization states, looked up with the comparison of auth/constant_time.hpp. Time points are nanoseconds of
  the system clock as unbounded integers; a reading of the clock is an argument of the operation that takes it.
\<close>

section \<open>Comparison\<close>

text \<open>The bytes are widened to \<open>unsigned\<close> and their difference is collected in a \<open>std::size_t\<close>.\<close>

definition size_byte_at :: "string \<Rightarrow> nat \<Rightarrow> 32 word" where
  "size_byte_at s i = (if i < length s then word_of_nat (of_char (s ! i)) else 0)"

definition auth_constant_time_equal :: "string \<Rightarrow> string \<Rightarrow> bool" where
  "auth_constant_time_equal lhs rhs =
     (let max_size = (if length lhs > length rhs then length lhs else length rhs);
          diff = (word_of_nat (length lhs) XOR word_of_nat (length rhs) :: size_t)
      in fold (\<lambda>i d. d OR ucast (size_byte_at lhs i XOR size_byte_at rhs i)) [0..<max_size] diff = 0)"

fun metadata_matches_loop :: "string alist \<Rightarrow> string alist \<Rightarrow> bool \<Rightarrow> bool" where
  "metadata_matches_loop (l # lhs) (r # rhs) eq =
     metadata_matches_loop lhs rhs
       (auth_constant_time_equal (fst l) (fst r) \<and> auth_constant_time_equal (snd l) (snd r) \<and> eq)"
| "metadata_matches_loop _ _ eq = eq"

definition metadata_matches :: "string alist \<Rightarrow> string alist \<Rightarrow> bool" where
  "metadata_matches lhs rhs = (if length lhs \<noteq> length rhs then False else metadata_matches_loop lhs rhs True)"

section \<open>Tokens, credentials, pending states\<close>

record token_set =
  ts_access_token :: string
  ts_token_type :: string
  ts_refresh_token :: "string option"
  ts_expires_at :: "int option"
  ts_scopes :: "string list"
  ts_metadata :: "string alist"

definition token_expired :: "token_set \<Rightarrow> int \<Rightarrow> bool" where
  "token_expired t now = (case ts_expires_at t of None \<Rightarrow> False | Some e \<Rightarrow> e \<le> now)"

record token_refresh_result =
  tr_token_set :: token_set
  tr_refresh_token_rotated :: bool

record token_key =
  tk_resource :: string
  tk_issuer :: string
  tk_client_id :: string
  tk_attributes :: "string alist"

definition token_key_matches :: "token_key \<Rightarrow> token_key \<Rightarrow> bool" where
  "token_key_matches lhs rhs \<longleftrightarrow> auth_constant_time_equal (tk_resource lhs) (tk_resource rhs) \<and>
     auth_constant_time_equal (tk_issuer lhs) (tk_issuer rhs) \<and>
     auth_constant_time_equal (tk_client_id lhs) (tk_client_id rhs) \<and>
     metadata_matches (tk_attributes lhs) (tk_attributes rhs)"

record credential_key =
  ck_resource :: string
  ck_issuer :: string
  ck_client_id :: string
  ck_attributes :: "string alist"

definition credential_key_matches :: "credential_key \<Rightarrow> credential_key \<Rightarrow> bool" where
  "credential_key_matches lhs rhs \<longleftrightarrow> auth_constant_time_equal (ck_resource lhs) (ck_resource rhs) \<and>
     auth_constant_time_equal (ck_issuer lhs) (ck_issuer rhs) \<and>
     auth_constant_time_equal (ck_client_id lhs) (ck_client_id rhs) \<and>
     metadata_matches (ck_attributes lhs) (ck_attributes rhs)"

record stored_credentials =
  sc_client_id :: string
  sc_token_set :: "token_set option"
  sc_granted_scopes :: "string list"
  sc_token_received_at :: "int option"
  sc_metadata :: "string alist"

record pkce_challenge =
  pk_code_verifier :: string
  pk_code_challenge :: string
  pk_method :: PkceCodeChallengeMethod

record stored_authorization_state =
  sa_state :: string
  sa_pkce :: pkce_challenge
  sa_created_at :: int
  sa_resource :: string
  sa_client_id :: string
  sa_redirect_uri :: string
  sa_requested_scopes :: "string list"
  sa_metadata :: "string alist"

section \<open>The in-memory stores\<close>

text \<open>A vector of entries searched from the front; the three stores differ in how they compare keys.\<close>

fun find_entry :: "('k \<Rightarrow> 'k \<Rightarrow> bool) \<Rightarrow> 'k \<Rightarrow> ('k \<times> 'v) list \<Rightarrow> nat option" where
  "find_entry m key [] = None"
| "find_entry m key (e # es) = (if m (fst e) key then Some 0 else map_option Suc (find_entry m key es))"

definition mem_load :: "('k \<Rightarrow> 'k \<Rightarrow> bool) \<Rightarrow> ('k \<times> 'v) list \<Rightarrow> 'k \<Rightarrow> 'v option" where
  "mem_load m es key = (case find_entry m key es of None \<Rightarrow> None | Some i \<Rightarrow> Some (snd (es ! i)))"

definition mem_save :: "('k \<Rightarrow> 'k \<Rightarrow> bool) \<Rightarrow> ('k \<times> 'v) list \<Rightarrow> 'k \<Rightarrow> 'v \<Rightarrow> ('k \<times> 'v) list" where
  "mem_save m es key v =
     (case find_entry m key es of None \<Rightarrow> es @ [(key, v)] | Some i \<Rightarrow> es[i := (fst (es ! i), v)])"

definition mem_remove :: "('k \<Rightarrow> 'k \<Rightarrow> bool) \<Rightarrow> ('k \<times> 'v) list \<Rightarrow> 'k \<Rightarrow> ('k \<times> 'v) list" where
  "mem_remove m es key = (case find_entry m key es of None \<Rightarrow> es | Some i \<Rightarrow> take i es @ drop (Suc i) es)"

definition token_store_load :: "(token_key \<times> token_set) list \<Rightarrow> token_key \<Rightarrow> token_set option" where
  "token_store_load = mem_load token_key_matches"

definition token_store_save :: "(token_key \<times> token_set) list \<Rightarrow> token_key \<Rightarrow> token_set \<Rightarrow> (token_key \<times> token_set) list" where
  "token_store_save = mem_save token_key_matches"

definition token_store_remove :: "(token_key \<times> token_set) list \<Rightarrow> token_key \<Rightarrow> (token_key \<times> token_set) list" where
  "token_store_remove = mem_remove token_key_matches"

definition credentials_load :: "(credential_key \<times> stored_credentials) list \<Rightarrow> credential_key \<Rightarrow> stored_credentials option" where
  "credentials_load = mem_load credential_key_matches"

definition credentials_save :: "(credential_key \<times> stored_credentials) list \<Rightarrow> credential_key \<Rightarrow> stored_credentials \<Rightarrow>
    (credential_key \<times> stored_credentials) list" where
  "credentials_save = mem_save credential_key_matches"

definition credentials_clear :: "(credential_key \<times> stored_credentials) list \<Rightarrow> credential_key \<Rightarrow>
    (credential_key \<times> stored_credentials) list" where
  "credentials_clear = mem_remove credential_key_matches"

definition states_load :: "(string \<times> stored_authorization_state) list \<Rightarrow> string \<Rightarrow> stored_authorization_state option" where
  "states_load = mem_load auth_constant_time_equal"

definition states_save :: "(string \<times> stored_authorization_state) list \<Rightarrow> string \<Rightarrow> stored_authorization_state \<Rightarrow>
    (string \<times> stored_authorization_state) list" where
  "states_save = mem_save auth_constant_time_equal"

definition states_remove :: "(string \<times> stored_authorization_state) list \<Rightarrow> string \<Rightarrow>
    (string \<times> stored_authorization_state) list" where
  "states_remove = mem_remove auth_constant_time_equal"

section \<open>The comparison decides equality\<close>

text \<open>Strings of the program are shorter than the range of \<open>std::size_t\<close>.\<close>

definition string_fits :: "string \<Rightarrow> bool" where
  "string_fits s \<longleftrightarrow> length s < 2 ^ 64"

lemma fold_or_size_zero:
  "fold (\<lambda>i d. d OR f i) xs (d :: size_t) = 0 \<longleftrightarrow> d = 0 \<and> (\<forall>i\<in>set xs. f i = 0)"
  by (induction xs arbitrary: d) (auto simp: or_eq_0_iff)

lemma ucast_size_zero: "(ucast (w :: 32 word) :: size_t) = 0 \<longleftrightarrow> w = 0"
proof
  assume z: "(ucast w :: size_t) = 0"
  show "w = 0"
  proof (rule bit_word_eqI)
    fix n :: nat assume "n < LENGTH(32)"
    then have "bit w n \<longleftrightarrow> bit (ucast w :: size_t) n" by (simp add: bit_simps)
    then show "bit w n \<longleftrightarrow> bit (0 :: 32 word) n" by (simp add: z)
  qed
qed simp

lemma wide_byte_inject: "(word_of_nat (of_char c) :: 32 word) = word_of_nat (of_char d) \<longleftrightarrow> c = d"
proof
  assume "(word_of_nat (of_char c) :: 32 word) = word_of_nat (of_char d)"
  then have "unat (word_of_nat (of_char c) :: 32 word) = unat (word_of_nat (of_char d) :: 32 word)" by simp
  then have "(of_char c :: nat) = of_char d" using of_char_less [of c] of_char_less [of d] by (simp add: unat_of_nat)
  then show "c = d" by (simp add: of_char_eq_iff)
qed simp

lemma auth_constant_time_exact:
  assumes "string_fits l" "string_fits r"
  shows "auth_constant_time_equal l r \<longleftrightarrow> l = r"
proof -
  have len: "(word_of_nat (length l) :: size_t) = word_of_nat (length r) \<longleftrightarrow> length l = length r"
    using assms by (simp add: string_fits_def word_of_nat_eq_iff take_bit_eq_mod)
  have bytes: "size_byte_at l i = size_byte_at r i \<longleftrightarrow> l ! i = r ! i" if "length l = length r" "i < length r" for i
    using that by (simp add: size_byte_at_def wide_byte_inject)
  have "auth_constant_time_equal l r \<longleftrightarrow> length l = length r \<and>
      (\<forall>i < (if length l > length r then length l else length r). size_byte_at l i = size_byte_at r i)"
    by (auto simp: auth_constant_time_equal_def Let_def fold_or_size_zero ucast_size_zero xor_zero_iff len)
  also have "\<dots> \<longleftrightarrow> length l = length r \<and> (\<forall>i < length r. l ! i = r ! i)" using bytes by auto
  also have "\<dots> \<longleftrightarrow> l = r" by (auto simp: list_eq_iff_nth_eq)
  finally show ?thesis .
qed

definition metadata_fits :: "string alist \<Rightarrow> bool" where
  "metadata_fits m \<longleftrightarrow> (\<forall>kv\<in>set m. string_fits (fst kv) \<and> string_fits (snd kv))"

lemma metadata_matches_loop_exact:
  "length l = length r \<Longrightarrow> metadata_fits l \<Longrightarrow> metadata_fits r \<Longrightarrow> metadata_matches_loop l r eq \<longleftrightarrow> eq \<and> l = r"
proof (induction l r eq rule: metadata_matches_loop.induct)
  case (1 x l y r eq)
  have ok: "string_fits (fst x)" "string_fits (snd x)" "string_fits (fst y)" "string_fits (snd y)"
    "metadata_fits l" "metadata_fits r"
    using 1(3,4) by (simp_all add: metadata_fits_def)
  have "auth_constant_time_equal (fst x) (fst y) \<and> auth_constant_time_equal (snd x) (snd y) \<longleftrightarrow> x = y"
    using auth_constant_time_exact ok by (auto simp: prod_eq_iff)
  then show ?case using 1(1) 1(2) ok by auto
qed auto

lemma metadata_matches_exact: "metadata_fits l \<Longrightarrow> metadata_fits r \<Longrightarrow> metadata_matches l r \<longleftrightarrow> l = r"
  using metadata_matches_loop_exact [of l r True] by (auto simp: metadata_matches_def)

definition token_key_fits :: "token_key \<Rightarrow> bool" where
  "token_key_fits k \<longleftrightarrow> string_fits (tk_resource k) \<and> string_fits (tk_issuer k) \<and> string_fits (tk_client_id k) \<and>
     metadata_fits (tk_attributes k)"

definition credential_key_fits :: "credential_key \<Rightarrow> bool" where
  "credential_key_fits k \<longleftrightarrow> string_fits (ck_resource k) \<and> string_fits (ck_issuer k) \<and> string_fits (ck_client_id k) \<and>
     metadata_fits (ck_attributes k)"

lemma token_key_matches_exact: "token_key_fits k \<Longrightarrow> token_key_fits k' \<Longrightarrow> token_key_matches k k' \<longleftrightarrow> k = k'"
  by (auto simp: token_key_matches_def token_key_fits_def auth_constant_time_exact metadata_matches_exact)

lemma credential_key_matches_exact:
  "credential_key_fits k \<Longrightarrow> credential_key_fits k' \<Longrightarrow> credential_key_matches k k' \<longleftrightarrow> k = k'"
  by (auto simp: credential_key_matches_def credential_key_fits_def auth_constant_time_exact metadata_matches_exact)

section \<open>The contract of a store\<close>

text \<open>The abstract store: updates of a map, applied in order; an absent value removes the key.\<close>

fun map_ops :: "('k \<times> 'v option) list \<Rightarrow> ('k \<Rightarrow> 'v option) \<Rightarrow> 'k \<Rightarrow> 'v option" where
  "map_ops [] m = m"
| "map_ops ((k, v) # ops) m = map_ops ops (m(k := v))"

lemma map_ops_local: "f key = g key \<Longrightarrow> map_ops ops f key = map_ops ops g key"
proof (induction ops arbitrary: f g)
  case (Cons op ops)
  obtain k v where op: "op = (k, v)" by (cases op)
  have "(f(k := v)) key = (g(k := v)) key" using Cons.prems by simp
  from Cons.IH [of "f(k := v)" "g(k := v)", OF this] show ?case by (simp only: op map_ops.simps)
qed simp

text \<open>What the authorization manager relies on in a store: a lookup returns what was saved last under the key, a
  removed key is gone, and other keys are not affected.\<close>

fun store_ops :: "('s \<Rightarrow> 'k \<Rightarrow> 'v \<Rightarrow> 's) \<Rightarrow> ('s \<Rightarrow> 'k \<Rightarrow> 's) \<Rightarrow> 's \<Rightarrow> ('k \<times> 'v option) list \<Rightarrow> 's" where
  "store_ops save remove s [] = s"
| "store_ops save remove s ((k, Some v) # ops) = store_ops save remove (save s k v) ops"
| "store_ops save remove s ((k, None) # ops) = store_ops save remove (remove s k) ops"

locale keyed_store =
  fixes load :: "'s \<Rightarrow> 'k \<Rightarrow> 'v option"
    and save :: "'s \<Rightarrow> 'k \<Rightarrow> 'v \<Rightarrow> 's"
    and remove :: "'s \<Rightarrow> 'k \<Rightarrow> 's"
    and inv :: "'s \<Rightarrow> bool"
    and fits :: "'k \<Rightarrow> bool"
  assumes load_save: "inv s \<Longrightarrow> fits k \<Longrightarrow> fits k' \<Longrightarrow> load (save s k v) k' = (if k' = k then Some v else load s k')"
    and load_remove: "inv s \<Longrightarrow> fits k \<Longrightarrow> fits k' \<Longrightarrow> load (remove s k) k' = (if k' = k then None else load s k')"
    and inv_save: "inv s \<Longrightarrow> fits k \<Longrightarrow> inv (save s k v)"
    and inv_remove: "inv s \<Longrightarrow> fits k \<Longrightarrow> inv (remove s k)"
begin

text \<open>A run of saves and removes leaves the map that applies them in order.\<close>

lemma store_ops_map:
  "inv s \<Longrightarrow> \<forall>op\<in>set ops. fits (fst op) \<Longrightarrow> fits key \<Longrightarrow>
   load (store_ops save remove s ops) key = map_ops ops (load s) key"
proof (induction ops arbitrary: s)
  case (Cons op ops)
  obtain k v where op: "op = (k, v)" by (cases op)
  define s' where "s' = (case v of Some x \<Rightarrow> save s k x | None \<Rightarrow> remove s k)"
  have s': "inv s'" "store_ops save remove s (op # ops) = store_ops save remove s' ops"
    using Cons.prems op by (cases v; simp add: s'_def inv_save inv_remove)+
  have load: "load s' j = ((load s)(k := v)) j" if "fits j" for j
    using that Cons.prems op by (cases v) (simp_all add: s'_def load_save load_remove)
  have "load (store_ops save remove s (op # ops)) key = map_ops ops (load s') key"
    unfolding s'(2) using Cons.prems by (intro Cons.IH s'(1)) simp_all
  also have "\<dots> = map_ops ops ((load s)(k := v)) key"
    by (rule map_ops_local) (rule load [OF Cons.prems(3)])
  finally show ?case by (simp add: op)
qed simp

end

text \<open>The entries of an in-memory store: keys of bounded size, none twice.\<close>

definition mem_inv :: "('k \<Rightarrow> bool) \<Rightarrow> ('k \<times> 'v) list \<Rightarrow> bool" where
  "mem_inv fits es \<longleftrightarrow> distinct (map fst es) \<and> list_all fits (map fst es)"

definition exact_on :: "('k \<Rightarrow> bool) \<Rightarrow> ('k \<Rightarrow> 'k \<Rightarrow> bool) \<Rightarrow> bool" where
  "exact_on fits m \<longleftrightarrow> (\<forall>k k'. fits k \<longrightarrow> fits k' \<longrightarrow> m k k' = (k = k'))"

lemma find_entry_exact:
  assumes "exact_on fits m" "list_all fits (map fst es)" "fits key"
  shows "case find_entry m key es of None \<Rightarrow> key \<notin> set (map fst es) | Some i \<Rightarrow> i < length es \<and> fst (es ! i) = key"
  using assms(2)
proof (induction es)
  case (Cons e es)
  then have "m (fst e) key \<longleftrightarrow> fst e = key" using assms(1,3) by (simp add: exact_on_def)
  then show ?case using Cons by (auto split: option.splits)
qed simp

lemma mem_load_map_of:
  assumes "exact_on fits m" "mem_inv fits es" "fits key"
  shows "mem_load m es key = map_of es key"
proof (cases "find_entry m key es")
  case None
  then show ?thesis using find_entry_exact [OF assms(1), where es = es and key = key] assms by (simp add: mem_load_def mem_inv_def) (metis map_of_eq_None_iff)
next
  case (Some i)
  then have "i < length es" "fst (es ! i) = key" using find_entry_exact [OF assms(1), where es = es and key = key] assms by (simp_all add: mem_inv_def)
  then show ?thesis using Some assms(2) map_of_is_SomeI [of es key "snd (es ! i)"]
    by (simp add: mem_load_def mem_inv_def) (metis nth_mem prod.collapse)
qed

lemma mem_save_laws:
  assumes "exact_on fits m" "mem_inv fits es" "fits key"
  shows "mem_inv fits (mem_save m es key v)" "map_of (mem_save m es key v) = (map_of es)(key \<mapsto> v)"
proof -
  note f = find_entry_exact [OF assms(1), where es = es and key = key]
  have "mem_inv fits (mem_save m es key v) \<and> map_of (mem_save m es key v) = (map_of es)(key \<mapsto> v)"
  proof (cases "find_entry m key es")
    case None
    then have "key \<notin> set (map fst es)" using f assms by (simp add: mem_inv_def)
    moreover from this have "map_of es key = None" by (simp add: map_of_eq_None_iff)
    then have "map_of (es @ [(key, v)]) = (map_of es)(key \<mapsto> v)" by (auto simp: fun_eq_iff map_add_def split: option.splits)
    ultimately show ?thesis using None assms(2,3) by (simp add: mem_save_def mem_inv_def)
  next
    case (Some i)
    then have i: "i < length es" "fst (es ! i) = key" using f assms by (simp_all add: mem_inv_def)
    have fsts: "map fst (es[i := (key, v)]) = map fst es" using i by (metis fst_conv list_update_id map_update nth_map)
    then have inv: "mem_inv fits (es[i := (key, v)])" using assms(2) by (simp only: mem_inv_def)
    have "map_of (es[i := (key, v)]) k = ((map_of es)(key \<mapsto> v)) k" for k
    proof (cases "k = key")
      case True
      then show ?thesis using map_of_is_SomeI [of "es[i := (key, v)]" key v] inv i(1) by (simp add: mem_inv_def set_update_memI)
    next
      case False
      then show ?thesis using i by (induction es arbitrary: i) (auto split: nat.splits)
    qed
    then show ?thesis using Some i inv by (auto simp: mem_save_def fun_eq_iff)
  qed
  then show "mem_inv fits (mem_save m es key v)" "map_of (mem_save m es key v) = (map_of es)(key \<mapsto> v)" by blast+
qed

lemma mem_remove_laws:
  assumes "exact_on fits m" "mem_inv fits es" "fits key"
  shows "mem_inv fits (mem_remove m es key)" "map_of (mem_remove m es key) = (map_of es)(key := None)"
proof -
  note f = find_entry_exact [OF assms(1), where es = es and key = key]
  have "mem_inv fits (mem_remove m es key) \<and> map_of (mem_remove m es key) = (map_of es)(key := None)"
  proof (cases "find_entry m key es")
    case None
    then have "key \<notin> set (map fst es)" using f assms by (simp add: mem_inv_def)
    then have "map_of es key = None" by (simp add: map_of_eq_None_iff)
    then have "(map_of es)(key := None) = map_of es" by (auto simp: fun_eq_iff)
    then show ?thesis using None assms(2) by (simp add: mem_remove_def)
  next
    case (Some i)
    then have i: "i < length es" "fst (es ! i) = key" using f assms by (simp_all add: mem_inv_def)
    then obtain v where es: "es = take i es @ (key, v) # drop (Suc i) es" by (metis id_take_nth_drop prod.collapse)
    define a b where "a = take i es" and "b = drop (Suc i) es"
    have ab: "es = a @ (key, v) # b" using es by (simp add: a_def b_def)
    have keys: "key \<notin> fst ` set a" "key \<notin> fst ` set b" "mem_inv fits (a @ b)"
      using assms(2) by (auto simp: ab mem_inv_def)
    then have "map_of a key = None" "map_of b key = None" by (simp_all add: map_of_eq_None_iff)
    then have "map_of (a @ b) = (map_of es)(key := None)" by (auto simp: ab fun_eq_iff map_add_def split: option.splits)
    then show ?thesis using Some keys(3) by (simp add: mem_remove_def a_def b_def)
  qed
  then show "mem_inv fits (mem_remove m es key)" "map_of (mem_remove m es key) = (map_of es)(key := None)" by blast+
qed

lemma mem_keyed_store:
  assumes "exact_on fits m"
  shows "keyed_store (mem_load m) (mem_save m) (mem_remove m) (mem_inv fits) fits"
proof
  fix s k k' v
  assume s: "mem_inv fits s" "fits k"
  note save = mem_save_laws [OF assms s] and remove = mem_remove_laws [OF assms s]
  show "mem_inv fits (mem_save m s k v)" "mem_inv fits (mem_remove m s k)" using save remove by blast+
  assume "fits k'"
  note load = mem_load_map_of [OF assms _ this]
  show "mem_load m (mem_save m s k v) k' = (if k' = k then Some v else mem_load m s k')"
    using load [OF save(1)] load [OF s(1)] save(2) by simp
  show "mem_load m (mem_remove m s k) k' = (if k' = k then None else mem_load m s k')"
    using load [OF remove(1)] load [OF s(1)] remove(2) by simp
qed

interpretation tokens: keyed_store token_store_load token_store_save token_store_remove "mem_inv token_key_fits" token_key_fits
  unfolding token_store_load_def token_store_save_def token_store_remove_def
  by (rule mem_keyed_store) (simp add: exact_on_def token_key_matches_exact)

interpretation credentials: keyed_store credentials_load credentials_save credentials_clear "mem_inv credential_key_fits" credential_key_fits
  unfolding credentials_load_def credentials_save_def credentials_clear_def
  by (rule mem_keyed_store) (simp add: exact_on_def credential_key_matches_exact)

interpretation states: keyed_store states_load states_save states_remove "mem_inv string_fits" string_fits
  unfolding states_load_def states_save_def states_remove_def
  by (rule mem_keyed_store) (simp add: exact_on_def auth_constant_time_exact)

text \<open>C32: the in-memory stores refine a map. From any store whose keys are of representable size and pairwise different,
  a sequence of saves and removes leaves a store of that kind in which a lookup returns what the same sequence of
  updates leaves in a map - for the token store, the credential store and the store of pending authorization states.
  The comparison that never stops early thus decides exact equality of all four parts of a key.\<close>

theorem stores_refine_maps:
  "(mem_inv token_key_fits ts \<and> (\<forall>op\<in>set tops. token_key_fits (fst op)) \<and> token_key_fits tk \<longrightarrow>
      token_store_load (store_ops token_store_save token_store_remove ts tops) tk =
        map_ops tops (token_store_load ts) tk) \<and>
   (mem_inv credential_key_fits cs \<and> (\<forall>op\<in>set cops. credential_key_fits (fst op)) \<and> credential_key_fits ck \<longrightarrow>
      credentials_load (store_ops credentials_save credentials_clear cs cops) ck =
        map_ops cops (credentials_load cs) ck) \<and>
   (mem_inv string_fits ss \<and> (\<forall>op\<in>set sops. string_fits (fst op)) \<and> string_fits sk \<longrightarrow>
      states_load (store_ops states_save states_remove ss sops) sk =
        map_ops sops (states_load ss) sk)"
  using tokens.store_ops_map [of ts tops tk] credentials.store_ops_map [of cs cops ck] states.store_ops_map [of ss sops sk] by blast

definition sample_state :: stored_authorization_state where
  "sample_state = \<lparr>sa_state = ''s1'', sa_pkce = \<lparr>pk_code_verifier = ''v'', pk_code_challenge = ''c'', pk_method = S256\<rparr>,
     sa_created_at = 0, sa_resource = [], sa_client_id = ''id'', sa_redirect_uri = ''https://r'',
     sa_requested_scopes = [''a''], sa_metadata = []\<rparr>"

theorem stores_refine_maps_witness:
  "states_load (store_ops states_save states_remove [] [(''s1'', Some sample_state), (''s1'', None), (''s2'', Some sample_state)]) ''s1'' = None \<and>
   states_load (store_ops states_save states_remove [] [(''s1'', Some sample_state), (''s1'', None), (''s2'', Some sample_state)]) ''s2'' = Some sample_state"
proof -
  let ?ops = "[(''s1'', Some sample_state), (''s1'', None), (''s2'', Some sample_state)]"
  have "mem_inv string_fits ([] :: (string \<times> stored_authorization_state) list)" "\<forall>op\<in>set ?ops. string_fits (fst op)"
    "string_fits ''s1''" "string_fits ''s2''"
    by (simp_all add: mem_inv_def string_fits_def)
  then have "states_load (store_ops states_save states_remove [] ?ops) ''s1'' = map_ops ?ops (states_load []) ''s1''"
    "states_load (store_ops states_save states_remove [] ?ops) ''s2'' = map_ops ?ops (states_load []) ''s2''"
    using stores_refine_maps [of _ _ _ _ _ _ "[]" ?ops] by blast+
  then show ?thesis by simp
qed

end
