(* ===== verification/Auth_Lifecycle.thy ===== *)
theory Auth_Lifecycle
  imports Auth_Stores
begin

text \<open>
  auth/lifecycle.hpp: the discovery of metadata, the authorization URL, the decision on an authentication response
  and the \<open>AuthorizationManager\<close>. What the application supplies - stores, the token endpoint, the registration
  endpoint, the metadata endpoint - are objects whose methods act on a world \<open>'w\<close> of theirs; a manager without a
  store of its own falls back to an in-memory one, as \<open>credential_store()\<close> and \<open>state_store()\<close> do. Each reading of
  the system clock is an argument.
\<close>

section \<open>Errors, metadata, requests\<close>

datatype OAuthErrorCode =
    OAuthInvalidRequest | OAuthAuthorizationRequired | OAuthAuthorizationPending | OAuthTokenExchangeUnavailable
  | OAuthTokenExchangeFailed | OAuthTokenRefreshFailed | OAuthInsufficientScope | OAuthMetadataDiscoveryFailed
  | OAuthClientRegistrationUnavailable | OAuthClientRegistrationFailed | OAuthClientMetadataDocumentUnsupported
  | OAuthClientMetadataDocumentInvalid | OAuthClientCredentialsFailed

fun oauth_error_code :: "OAuthErrorCode \<Rightarrow> int32" where
  "oauth_error_code OAuthInvalidRequest = 1"
| "oauth_error_code OAuthAuthorizationRequired = 2"
| "oauth_error_code OAuthAuthorizationPending = 3"
| "oauth_error_code OAuthTokenExchangeUnavailable = 4"
| "oauth_error_code OAuthTokenExchangeFailed = 5"
| "oauth_error_code OAuthTokenRefreshFailed = 6"
| "oauth_error_code OAuthInsufficientScope = 7"
| "oauth_error_code OAuthMetadataDiscoveryFailed = 8"
| "oauth_error_code OAuthClientRegistrationUnavailable = 9"
| "oauth_error_code OAuthClientRegistrationFailed = 10"
| "oauth_error_code OAuthClientMetadataDocumentUnsupported = 11"
| "oauth_error_code OAuthClientMetadataDocumentInvalid = 12"
| "oauth_error_code OAuthClientCredentialsFailed = 13"

definition make_oauth_error :: "OAuthErrorCode \<Rightarrow> string \<Rightarrow> string \<Rightarrow> core_error" where
  "make_oauth_error code msg detail = mk_error (oauth_error_code code) msg detail AuthErrorCategory"

record protected_resource_metadata =
  pm_resource :: string
  pm_authorization_servers :: "string list"
  pm_bearer_methods_supported :: "string list"
  pm_resource_signing_alg_values_supported :: "string list"
  pm_scopes_supported :: "string list"
  pm_resource_name :: "string option"
  pm_resource_documentation :: "string option"
  pm_metadata :: "string alist"

record authorization_server_metadata =
  as_issuer :: string
  as_authorization_endpoint :: string
  as_token_endpoint :: string
  as_registration_endpoint :: "string option"
  as_jwks_uri :: "string option"
  as_response_types_supported :: "string list"
  as_grant_types_supported :: "string list"
  as_code_challenge_methods_supported :: "string list"
  as_token_endpoint_auth_methods_supported :: "string list"
  as_dpop_signing_alg_values_supported :: "string list"
  as_scopes_supported :: "string list"
  as_metadata :: "string alist"

record metadata_discovery_result =
  md_protected_resource :: protected_resource_metadata
  md_authorization_server :: "authorization_server_metadata option"

record oauth_client_config =
  oc_client_id :: string
  oc_client_secret :: "string option"
  oc_redirect_uri :: string
  oc_scopes :: "string list"
  oc_metadata :: "string alist"

record client_credentials_config =
  cc_client_id :: string
  cc_client_secret :: string
  cc_scopes :: "string list"
  cc_resource :: string
  cc_metadata :: "string alist"

record authorization_url_request =
  ar_client :: oauth_client_config
  ar_authorization_server :: authorization_server_metadata
  ar_resource :: string
  ar_scopes :: "string list"
  ar_pkce :: pkce_challenge
  ar_state :: string
  ar_additional_parameters :: "string alist"

record authorization_url_result =
  au_url :: string
  au_state :: stored_authorization_state

record token_exchange_request =
  te_client :: oauth_client_config
  te_authorization_server :: authorization_server_metadata
  te_resource :: string
  te_authorization_code :: string
  te_state :: stored_authorization_state
  te_additional_parameters :: "string alist"

record token_refresh_request =
  tq_client :: oauth_client_config
  tq_authorization_server :: authorization_server_metadata
  tq_resource :: string
  tq_refresh_token :: string
  tq_scopes :: "string list"
  tq_additional_parameters :: "string alist"

record token_client_credentials_request =
  tc_credentials :: client_credentials_config
  tc_authorization_server :: authorization_server_metadata
  tc_additional_parameters :: "string alist"

section \<open>Client registration\<close>

record client_registration_request =
  cr_redirect_uris :: "string list"
  cr_grant_types :: "string list"
  cr_response_types :: "string list"
  cr_scope :: "string list"
  cr_client_name :: "string option"
  cr_client_uri :: "string option"
  cr_logo_uri :: "string option"
  cr_contacts :: "string option"
  cr_token_endpoint_auth_method :: "string option"
  cr_metadata :: "string alist"

record client_registration_response =
  cp_client_id :: string
  cp_client_secret :: "string option"
  cp_registration_access_token :: "string option"
  cp_registration_client_uri :: "string option"
  cp_client_id_issued_at :: "string option"
  cp_client_secret_expires_at :: "string option"
  cp_client_metadata :: client_registration_request
  cp_metadata :: "string alist"

record client_id_metadata_document =
  cd_client_id :: string
  cd_client_metadata :: client_registration_request
  cd_metadata :: "string alist"

record client_registration_endpoint_request =
  ce_registration_endpoint :: string
  ce_headers :: "string alist"
  ce_registration :: client_registration_request

record client_registration_options =
  co_client_name :: string
  co_redirect_uri :: string
  co_scopes :: "string list"
  co_metadata :: "string alist"

record client_id_configuration_options =
  ci_client_id_metadata_url :: "string option"
  ci_client_name :: string
  ci_redirect_uri :: string
  ci_scopes :: "string list"
  ci_headers :: "string alist"
  ci_metadata :: "string alist"

definition build_client_registration_request :: "client_registration_options \<Rightarrow> client_registration_request result" where
  "build_client_registration_request options =
     (if co_redirect_uri options = []
      then Inl (mk_error 1 ''redirect_uri is required for dynamic client registration'' [] AuthErrorCategory)
      else Inr \<lparr>cr_redirect_uris = [co_redirect_uri options], cr_grant_types = [''authorization_code'', ''refresh_token''],
        cr_response_types = [''code''], cr_scope = co_scopes options,
        cr_client_name = Some (if co_client_name options = [] then ''MCP Client'' else co_client_name options),
        cr_client_uri = None, cr_logo_uri = None, cr_contacts = None, cr_token_endpoint_auth_method = Some ''none'',
        cr_metadata = co_metadata options\<rparr>)"

definition oauth_client_config_from_registration_response ::
    "client_registration_response \<Rightarrow> string \<Rightarrow> string list \<Rightarrow> oauth_client_config" where
  "oauth_client_config_from_registration_response response redirect_uri scopes =
     \<lparr>oc_client_id = cp_client_id response,
      oc_client_secret = (case cp_client_secret response of Some s \<Rightarrow> if s \<noteq> [] then Some s else None | None \<Rightarrow> None),
      oc_redirect_uri = redirect_uri, oc_scopes = scopes, oc_metadata = cp_metadata response\<rparr>"

definition oauth_client_config_from_metadata_document ::
    "client_id_metadata_document \<Rightarrow> string \<Rightarrow> string list \<Rightarrow> oauth_client_config" where
  "oauth_client_config_from_metadata_document document redirect_uri scopes =
     \<lparr>oc_client_id = cd_client_id document, oc_client_secret = None, oc_redirect_uri = redirect_uri,
      oc_scopes = scopes, oc_metadata = cd_metadata document\<rparr>"

definition supports_client_id_metadata_document :: "authorization_server_metadata \<Rightarrow> bool" where
  "supports_client_id_metadata_document metadata =
     metadata_flag_enabled (as_metadata metadata) ''client_id_metadata_document_supported''"

section \<open>Responses that ask for authorization\<close>

datatype AuthResponseAction = Proceed | AuthorizationRequired | ScopeUpgradeRequired

record auth_response_decision =
  ad_action :: AuthResponseAction
  ad_challenge :: "www_challenge option"
  ad_required_scopes :: "string list"
  ad_resource_metadata_url :: "string option"
  ad_error_description :: "string option"

definition default_decision :: auth_response_decision where
  "default_decision = \<lparr>ad_action = Proceed, ad_challenge = None, ad_required_scopes = [], ad_resource_metadata_url = None,
     ad_error_description = None\<rparr>"

record http_response_metadata =
  hr_status_code :: int32
  hr_headers :: "string alist"

definition bearer_decision :: "www_challenge \<Rightarrow> auth_response_decision" where
  "bearer_decision challenge =
     (let description = wc_parameter challenge ''error_description''; scope = wc_parameter challenge ''scope'' in
      \<lparr>ad_action = (if insufficient_scope challenge then ScopeUpgradeRequired else AuthorizationRequired),
       ad_challenge = Some challenge,
       ad_required_scopes = (if scope \<noteq> [] then split_scopes scope else []),
       ad_resource_metadata_url = resource_metadata_url challenge,
       ad_error_description = (if description \<noteq> [] then Some description else None)\<rparr>)"

definition analyze_auth_response :: "http_response_metadata \<Rightarrow> auth_response_decision result" where
  "analyze_auth_response response =
     (let fallback = default_decision\<lparr>ad_action := (if hr_status_code response = 401 then AuthorizationRequired else ScopeUpgradeRequired)\<rparr> in
      if hr_status_code response \<noteq> 401 \<and> hr_status_code response \<noteq> 403 then Inr default_decision
      else case header_value (hr_headers response) ''WWW-Authenticate'' of
        None \<Rightarrow> Inr fallback
      | Some header \<Rightarrow>
          rbind (parse_www_authenticate header) (\<lambda>challenges.
            case find wc_bearer challenges of
              Some challenge \<Rightarrow> Inr (bearer_decision challenge)
            | None \<Rightarrow> Inr fallback))"

section \<open>Metadata discovery\<close>

record metadata_fetch_request =
  mf_url :: string
  mf_headers :: "string alist"

record 'w metadata_endpoint =
  me_fetch_protected_resource_metadata :: "metadata_fetch_request \<Rightarrow> 'w \<Rightarrow> protected_resource_metadata result \<times> 'w"
  me_fetch_authorization_server_metadata :: "metadata_fetch_request \<Rightarrow> 'w \<Rightarrow> authorization_server_metadata result \<times> 'w"

record metadata_discovery_options =
  mo_headers :: "string alist"
  mo_authorization_server_metadata_urls :: "string list"

definition build_metadata_discovery_plan :: "string \<Rightarrow> auth_response_decision \<Rightarrow> string list" where
  "build_metadata_discovery_plan resource_url decision =
     build_protected_resource_metadata_urls resource_url (ad_resource_metadata_url decision)"

text \<open>The loop over candidates: the first answer, or the error of the last attempt.\<close>

fun fetch_first :: "(metadata_fetch_request \<Rightarrow> 'w \<Rightarrow> 'a result \<times> 'w) \<Rightarrow> string alist \<Rightarrow> string list \<Rightarrow>
    core_error option \<Rightarrow> 'w \<Rightarrow> (core_error option + 'a) \<times> 'w" where
  "fetch_first fetch headers [] last_error w = (Inl last_error, w)"
| "fetch_first fetch headers (url # urls) last_error w =
     (case fetch \<lparr>mf_url = url, mf_headers = headers\<rparr> w of
        (Inr v, w') \<Rightarrow> (Inr v, w')
      | (Inl e, w') \<Rightarrow> fetch_first fetch headers urls (Some e) w')"

definition last_error_text :: "core_error option \<Rightarrow> string" where
  "last_error_text e = (case e of None \<Rightarrow> [] | Some err \<Rightarrow> err_message err)"

definition discover :: "'w metadata_endpoint \<Rightarrow> string \<Rightarrow> auth_response_decision \<Rightarrow> metadata_discovery_options \<Rightarrow> 'w \<Rightarrow>
    metadata_discovery_result result \<times> 'w" where
  "discover endpoint resource_url decision options w =
     (let plan = build_metadata_discovery_plan resource_url decision in
      if plan = [] then (Inl (make_oauth_error OAuthInvalidRequest ''resource URL cannot produce metadata candidates'' resource_url), w)
      else case fetch_first (me_fetch_protected_resource_metadata endpoint) (mo_headers options) plan None w of
        (Inl e, w1) \<Rightarrow>
          (Inl (make_oauth_error OAuthMetadataDiscoveryFailed ''protected resource metadata discovery failed'' (last_error_text e)), w1)
      | (Inr pm, w1) \<Rightarrow>
          let urls = fold append_unique (concat (map build_authorization_server_metadata_urls (pm_authorization_servers pm)))
                       (mo_authorization_server_metadata_urls options) in
          if urls = [] then (Inr \<lparr>md_protected_resource = pm, md_authorization_server = None\<rparr>, w1)
          else case fetch_first (me_fetch_authorization_server_metadata endpoint) (mo_headers options) urls None w1 of
            (Inl e, w2) \<Rightarrow>
              (Inl (make_oauth_error OAuthMetadataDiscoveryFailed ''authorization server metadata discovery failed'' (last_error_text e)), w2)
          | (Inr am, w2) \<Rightarrow> (Inr \<lparr>md_protected_resource = pm, md_authorization_server = Some am\<rparr>, w2))"

section \<open>Scopes and the authorization URL\<close>

record scope_selection_context =
  ss_www_authenticate_scopes :: "string list"
  ss_protected_resource_scopes :: "string list"
  ss_authorization_server_scopes :: "string list"
  ss_default_scopes :: "string list"

definition select_authorization_scopes :: "scope_selection_context \<Rightarrow> string list" where
  "select_authorization_scopes context =
     (if ss_www_authenticate_scopes context \<noteq> [] then ss_www_authenticate_scopes context
      else if ss_protected_resource_scopes context \<noteq> [] then ss_protected_resource_scopes context
      else if ss_authorization_server_scopes context \<noteq> [] then ss_authorization_server_scopes context
      else ss_default_scopes context)"

definition add_offline_access_if_supported :: "string list \<Rightarrow> authorization_server_metadata \<Rightarrow> string list" where
  "add_offline_access_if_supported scopes metadata =
     (if scopes = [] then scopes
      else if ''offline_access'' \<in> set scopes then scopes
      else if ''offline_access'' \<in> set (as_scopes_supported metadata) then scopes @ [''offline_access'']
      else scopes)"

definition validate_client_credentials_metadata :: "authorization_server_metadata \<Rightarrow> string \<Rightarrow> unit result" where
  "validate_client_credentials_metadata metadata token_endpoint_auth_method =
     (if as_token_endpoint metadata = []
      then Inl (make_oauth_error OAuthClientCredentialsFailed ''authorization server has no token endpoint'' [])
      else if as_grant_types_supported metadata \<noteq> [] \<and> ''client_credentials'' \<notin> set (as_grant_types_supported metadata)
      then Inl (make_oauth_error OAuthClientCredentialsFailed
                  ''authorization server does not advertise client_credentials grant'' [])
      else if as_token_endpoint_auth_methods_supported metadata = [] then Inr ()
      else if token_endpoint_auth_method \<notin> set (as_token_endpoint_auth_methods_supported metadata)
      then Inl (make_oauth_error OAuthClientCredentialsFailed
                  (''authorization server does not support requested client credentials authentication method: '' @
                   token_endpoint_auth_method) [])
      else Inr ())"

definition authorization_url_error :: "authorization_url_request \<Rightarrow> string option" where
  "authorization_url_error request =
     (let server = ar_authorization_server request; client = ar_client request in
      if as_authorization_endpoint server = [] then Some ''authorization endpoint is required''
      else if oc_client_id client = [] then Some ''client_id is required''
      else if oc_redirect_uri client = [] then Some ''redirect_uri is required''
      else if \<not> url_uses_https (as_authorization_endpoint server) \<and> \<not> url_uses_loopback_http (as_authorization_endpoint server)
      then Some ''authorization endpoint must use HTTPS or loopback HTTP''
      else if as_token_endpoint server \<noteq> [] \<and> \<not> url_uses_https (as_token_endpoint server) \<and>
              \<not> url_uses_loopback_http (as_token_endpoint server)
      then Some ''token endpoint must use HTTPS or loopback HTTP''
      else if \<not> redirect_uri_is_secure (oc_redirect_uri client) then Some ''redirect_uri must use HTTPS or loopback HTTP''
      else if ar_state request = [] then Some ''state is required''
      else if pk_code_challenge (ar_pkce request) = [] \<or> pk_code_verifier (ar_pkce request) = []
      then Some ''PKCE verifier and challenge are required''
      else None)"

definition build_authorization_url :: "authorization_url_request \<Rightarrow> int \<Rightarrow> authorization_url_result result" where
  "build_authorization_url request now =
     (case authorization_url_error request of
        Some msg \<Rightarrow> Inl (make_oauth_error OAuthInvalidRequest msg [])
      | None \<Rightarrow>
          let client = ar_client request;
              u1 = append_query_param (as_authorization_endpoint (ar_authorization_server request)) ''response_type'' ''code'';
              u2 = append_query_param u1 ''client_id'' (oc_client_id client);
              u3 = append_query_param u2 ''redirect_uri'' (oc_redirect_uri client);
              u4 = append_query_param u3 ''state'' (ar_state request);
              u5 = append_query_param u4 ''code_challenge'' (pk_code_challenge (ar_pkce request));
              u6 = append_query_param u5 ''code_challenge_method'' (pkce_method_name (pk_method (ar_pkce request)));
              u7 = (if ar_resource request \<noteq> [] then append_query_param u6 ''resource'' (ar_resource request) else u6);
              scope = join_scopes (ar_scopes request);
              u8 = (if scope \<noteq> [] then append_query_param u7 ''scope'' scope else u7);
              u9 = fold (\<lambda>p u. append_query_param u (fst p) (snd p)) (ar_additional_parameters request) u8
          in Inr \<lparr>au_url = u9,
               au_state = \<lparr>sa_state = ar_state request, sa_pkce = ar_pkce request, sa_created_at = now,
                 sa_resource = ar_resource request, sa_client_id = oc_client_id client,
                 sa_redirect_uri = oc_redirect_uri client, sa_requested_scopes = ar_scopes request, sa_metadata = []\<rparr>\<rparr>)"

end
