(* ===== verification/Auth_Manager.thy ===== *)
theory Auth_Manager
  imports Auth_Lifecycle
begin

text \<open>
  The \<open>AuthorizationManager\<close> of auth/lifecycle.hpp: client identification, the authorization-code flow with its
  one-time states, token refresh, client credentials and scope upgrades. An operation takes the manager and returns
  its result with the manager it leaves, also when it fails half-way.
\<close>

section \<open>Stores and endpoints as objects\<close>

record 'w state_store_object =
  so_save :: "string \<Rightarrow> stored_authorization_state \<Rightarrow> 'w \<Rightarrow> unit result \<times> 'w"
  so_load :: "string \<Rightarrow> 'w \<Rightarrow> stored_authorization_state option result \<times> 'w"
  so_remove :: "string \<Rightarrow> 'w \<Rightarrow> unit result \<times> 'w"

record 'w credential_store_object =
  cs_load :: "credential_key \<Rightarrow> 'w \<Rightarrow> stored_credentials option result \<times> 'w"
  cs_save :: "credential_key \<Rightarrow> stored_credentials \<Rightarrow> 'w \<Rightarrow> unit result \<times> 'w"
  cs_clear :: "credential_key \<Rightarrow> 'w \<Rightarrow> unit result \<times> 'w"

record 'w token_endpoint =
  tp_exchange_authorization_code :: "token_exchange_request \<Rightarrow> 'w \<Rightarrow> token_set result \<times> 'w"
  tp_refresh_access_token :: "token_refresh_request \<Rightarrow> 'w \<Rightarrow> token_refresh_result result \<times> 'w"
  tp_exchange_client_credentials :: "token_client_credentials_request \<Rightarrow> 'w \<Rightarrow> token_set result \<times> 'w"

type_synonym 'w registration_endpoint =
  "client_registration_endpoint_request \<Rightarrow> 'w \<Rightarrow> client_registration_response result \<times> 'w"

datatype 'w state_store_ref =
  StateNull | StateMemory "(string \<times> stored_authorization_state) list" | StateObject "'w state_store_object"

datatype 'w credential_store_ref =
  CredentialNull | CredentialMemory "(credential_key \<times> stored_credentials) list" | CredentialObject "'w credential_store_object"

datatype OAuthLifecycleState = Unauthorized | AuthorizationPending | Authorized

record scope_upgrade_config =
  su_auto_upgrade :: bool
  su_max_upgrade_attempts :: "32 word"

record 'w authorization_manager =
  am_resource :: string
  am_metadata :: authorization_server_metadata
  am_client :: oauth_client_config
  am_credential_store :: "'w credential_store_ref"
  am_state_store :: "'w state_store_ref"
  am_token_endpoint :: "'w token_endpoint option"
  am_registration_endpoint :: "'w registration_endpoint option"
  am_scope_upgrade_config :: scope_upgrade_config
  am_state :: OAuthLifecycleState
  am_current_scopes :: "string list"
  am_scope_upgrade_attempts :: "32 word"
  am_authorization_state_ttl :: int
  am_world :: 'w

definition kDefaultAuthorizationStateTtl :: int where
  "kDefaultAuthorizationStateTtl = 60"

definition default_scope_upgrade_config :: scope_upgrade_config where
  "default_scope_upgrade_config = \<lparr>su_auto_upgrade = True, su_max_upgrade_attempts = 3\<rparr>"

definition new_manager :: "string \<Rightarrow> authorization_server_metadata \<Rightarrow> oauth_client_config \<Rightarrow> 'w \<Rightarrow> 'w authorization_manager" where
  "new_manager resource metadata client w =
     \<lparr>am_resource = resource, am_metadata = metadata, am_client = client, am_credential_store = CredentialNull,
      am_state_store = StateNull, am_token_endpoint = None, am_registration_endpoint = None,
      am_scope_upgrade_config = default_scope_upgrade_config, am_state = Unauthorized, am_current_scopes = [],
      am_scope_upgrade_attempts = 0, am_authorization_state_ttl = kDefaultAuthorizationStateTtl, am_world = w\<rparr>"

text \<open>An operation that reports its failure and threads the manager.\<close>

type_synonym ('w, 'a) manager_op = "'w authorization_manager \<Rightarrow> 'a result \<times> 'w authorization_manager"

definition in_world :: "('w \<Rightarrow> 'a result \<times> 'w) \<Rightarrow> ('w, 'a) manager_op" where
  "in_world f m = (case f (am_world m) of (r, w) \<Rightarrow> (r, m\<lparr>am_world := w\<rparr>))"

section \<open>The stores of a manager\<close>

fun state_entries :: "'w state_store_ref \<Rightarrow> (string \<times> stored_authorization_state) list" where
  "state_entries (StateMemory es) = es"
| "state_entries _ = []"

definition state_store_save :: "string \<Rightarrow> stored_authorization_state \<Rightarrow> ('w, unit) manager_op" where
  "state_store_save key v m =
     (case am_state_store m of
        StateObject so \<Rightarrow> in_world (so_save so key v) m
      | st \<Rightarrow> (Inr (), m\<lparr>am_state_store := StateMemory (states_save (state_entries st) key v)\<rparr>))"

definition state_store_load :: "string \<Rightarrow> ('w, stored_authorization_state option) manager_op" where
  "state_store_load key m =
     (case am_state_store m of
        StateObject so \<Rightarrow> in_world (so_load so key) m
      | st \<Rightarrow> (Inr (states_load (state_entries st) key), m\<lparr>am_state_store := StateMemory (state_entries st)\<rparr>))"

definition state_store_remove :: "string \<Rightarrow> ('w, unit) manager_op" where
  "state_store_remove key m =
     (case am_state_store m of
        StateObject so \<Rightarrow> in_world (so_remove so key) m
      | st \<Rightarrow> (Inr (), m\<lparr>am_state_store := StateMemory (states_remove (state_entries st) key)\<rparr>))"

fun credential_entries :: "'w credential_store_ref \<Rightarrow> (credential_key \<times> stored_credentials) list" where
  "credential_entries (CredentialMemory es) = es"
| "credential_entries _ = []"

definition credential_store_load :: "credential_key \<Rightarrow> ('w, stored_credentials option) manager_op" where
  "credential_store_load key m =
     (case am_credential_store m of
        CredentialObject cs \<Rightarrow> in_world (cs_load cs key) m
      | st \<Rightarrow> (Inr (credentials_load (credential_entries st) key), m\<lparr>am_credential_store := CredentialMemory (credential_entries st)\<rparr>))"

definition credential_store_save :: "credential_key \<Rightarrow> stored_credentials \<Rightarrow> ('w, unit) manager_op" where
  "credential_store_save key v m =
     (case am_credential_store m of
        CredentialObject cs \<Rightarrow> in_world (cs_save cs key v) m
      | st \<Rightarrow> (Inr (), m\<lparr>am_credential_store := CredentialMemory (credentials_save (credential_entries st) key v)\<rparr>))"

section \<open>Client identification\<close>

definition manager_credential_key :: "'w authorization_manager \<Rightarrow> credential_key" where
  "manager_credential_key m = \<lparr>ck_resource = am_resource m, ck_issuer = as_issuer (am_metadata m),
     ck_client_id = oc_client_id (am_client m), ck_attributes = []\<rparr>"

definition configure_client :: "oauth_client_config \<Rightarrow> 'w authorization_manager \<Rightarrow> 'w authorization_manager" where
  "configure_client config m = m\<lparr>am_client := config\<rparr>"

definition configure_client_id :: "string \<Rightarrow> string \<Rightarrow> string list \<Rightarrow> ('w, oauth_client_config) manager_op" where
  "configure_client_id client_id redirect_uri0 scopes m =
     (if client_id = [] then (Inl (make_oauth_error OAuthInvalidRequest ''client_id is required'' []), m)
      else let redirect_uri = (if redirect_uri0 = [] then oc_redirect_uri (am_client m) else redirect_uri0) in
        if redirect_uri = [] then (Inl (make_oauth_error OAuthInvalidRequest ''redirect_uri is required'' []), m)
        else let config = \<lparr>oc_client_id = client_id, oc_client_secret = oc_client_secret (am_client m),
                           oc_redirect_uri = redirect_uri, oc_scopes = scopes, oc_metadata = []\<rparr>
             in (Inr config, configure_client config m))"

definition configure_client_id_metadata_url :: "string \<Rightarrow> string \<Rightarrow> string list \<Rightarrow> ('w, oauth_client_config) manager_op" where
  "configure_client_id_metadata_url url redirect_uri scopes m =
     (if \<not> supports_client_id_metadata_document (am_metadata m)
      then (Inl (make_oauth_error OAuthClientMetadataDocumentUnsupported
              ''authorization server does not advertise Client ID Metadata Document support'' []), m)
      else if \<not> is_valid_client_id_metadata_url url
      then (Inl (make_oauth_error OAuthClientMetadataDocumentInvalid
              ''client_id metadata document URL must be HTTPS with a non-root path'' url), m)
      else configure_client_id url redirect_uri scopes m)"

definition register_client :: "client_registration_options \<Rightarrow> string alist \<Rightarrow> ('w, oauth_client_config) manager_op" where
  "register_client options headers m =
     (case am_registration_endpoint m of
        None \<Rightarrow> (Inl (make_oauth_error OAuthClientRegistrationUnavailable
                   ''dynamic client registration endpoint is not configured'' []), m)
      | Some endpoint \<Rightarrow>
          (case as_registration_endpoint (am_metadata m) of
             None \<Rightarrow> (Inl (make_oauth_error OAuthClientRegistrationUnavailable
                        ''authorization server metadata has no registration endpoint'' []), m)
           | Some url \<Rightarrow>
               if url = [] then (Inl (make_oauth_error OAuthClientRegistrationUnavailable
                        ''authorization server metadata has no registration endpoint'' []), m)
               else case build_client_registration_request options of
                 Inl e \<Rightarrow> (Inl e, m)
               | Inr registration \<Rightarrow>
                   (case in_world (endpoint \<lparr>ce_registration_endpoint = url, ce_headers = headers, ce_registration = registration\<rparr>) m of
                      (Inl e, m1) \<Rightarrow> (Inl (make_oauth_error OAuthClientRegistrationFailed
                                        ''dynamic client registration failed'' (err_message e)), m1)
                    | (Inr response, m1) \<Rightarrow>
                        if cp_client_id response = []
                        then (Inl (make_oauth_error OAuthClientRegistrationFailed
                                ''dynamic client registration response did not include client_id'' []), m1)
                        else let config = oauth_client_config_from_registration_response response (co_redirect_uri options) (co_scopes options)
                             in (Inr config, configure_client config m1))))"

definition configure_client_for_authorization :: "client_id_configuration_options \<Rightarrow> ('w, oauth_client_config) manager_op" where
  "configure_client_for_authorization options m =
     (case (if supports_client_id_metadata_document (am_metadata m) then ci_client_id_metadata_url options else None) of
        Some url \<Rightarrow> configure_client_id_metadata_url url (ci_redirect_uri options) (ci_scopes options) m
      | None \<Rightarrow> register_client \<lparr>co_client_name = ci_client_name options, co_redirect_uri = ci_redirect_uri options,
                  co_scopes = ci_scopes options, co_metadata = ci_metadata options\<rparr> (ci_headers options) m)"

section \<open>The authorization-code flow\<close>

definition start_authorization :: "string list \<Rightarrow> pkce_challenge \<Rightarrow> string \<Rightarrow> string alist \<Rightarrow> int \<Rightarrow>
    ('w, authorization_url_result) manager_op" where
  "start_authorization scopes pkce state additional now m =
     (let request = \<lparr>ar_client = am_client m, ar_authorization_server = am_metadata m, ar_resource = am_resource m,
            ar_scopes = add_offline_access_if_supported scopes (am_metadata m), ar_pkce = pkce, ar_state = state,
            ar_additional_parameters = additional\<rparr> in
      case build_authorization_url request now of
        Inl e \<Rightarrow> (Inl e, m)
      | Inr r \<Rightarrow>
          (case state_store_save (sa_state (au_state r)) (au_state r) m of
             (Inl e, m1) \<Rightarrow> (Inl e, m1)
           | (Inr _, m1) \<Rightarrow> (Inr r, m1\<lparr>am_state := AuthorizationPending\<rparr>)))"

record oauth_session =
  os_authorization :: authorization_url_result
  os_redirect_uri :: string

record authorization_session_request =
  sr_client :: client_id_configuration_options
  sr_pkce :: pkce_challenge
  sr_state :: string
  sr_additional_authorization_parameters :: "string alist"

definition start_session :: "authorization_session_request \<Rightarrow> int \<Rightarrow> ('w, oauth_session) manager_op" where
  "start_session request now m =
     (case (if oc_client_id (am_client m) = [] \<or> oc_redirect_uri (am_client m) \<noteq> ci_redirect_uri (sr_client request)
            then configure_client_for_authorization (sr_client request) m else (Inr (am_client m), m)) of
        (Inl e, m1) \<Rightarrow> (Inl e, m1)
      | (Inr _, m1) \<Rightarrow>
          (case start_authorization (ci_scopes (sr_client request)) (sr_pkce request) (sr_state request)
                  (sr_additional_authorization_parameters request) now m1 of
             (Inl e, m2) \<Rightarrow> (Inl e, m2)
           | (Inr a, m2) \<Rightarrow> (Inr \<lparr>os_authorization = a, os_redirect_uri = oc_redirect_uri (am_client m2)\<rparr>, m2)))"

definition no_token_endpoint :: core_error where
  "no_token_endpoint = make_oauth_error OAuthTokenExchangeUnavailable ''OAuth token endpoint is not configured'' []"

text \<open>The end of a successful exchange: the granted scopes, the credentials stored under the key of the manager.\<close>

definition store_tokens :: "token_set \<Rightarrow> string list \<Rightarrow> int \<Rightarrow> ('w, token_set) manager_op" where
  "store_tokens tokens requested received_at m =
     (let scopes = (if ts_scopes tokens = [] then requested else ts_scopes tokens);
          m1 = m\<lparr>am_current_scopes := scopes, am_scope_upgrade_attempts := 0\<rparr>;
          credentials = \<lparr>sc_client_id = oc_client_id (am_client m), sc_token_set = Some tokens, sc_granted_scopes = scopes,
            sc_token_received_at = Some received_at, sc_metadata = []\<rparr> in
      case credential_store_save (manager_credential_key m1) credentials m1 of
        (Inl e, m2) \<Rightarrow> (Inl e, m2)
      | (Inr _, m2) \<Rightarrow> (Inr tokens, m2\<lparr>am_state := Authorized\<rparr>))"

text \<open>Seconds are converted to the nanoseconds of the clock.\<close>

definition state_expired :: "'w authorization_manager \<Rightarrow> stored_authorization_state \<Rightarrow> int \<Rightarrow> bool" where
  "state_expired m st now \<longleftrightarrow> am_authorization_state_ttl m \<le> 0 \<or>
     sa_created_at st + am_authorization_state_ttl m * 1000000000 \<le> now"

definition exchange_authorization_code :: "string \<Rightarrow> string \<Rightarrow> int \<Rightarrow> int \<Rightarrow> ('w, token_set) manager_op" where
  "exchange_authorization_code code state now received_at m =
     (case am_token_endpoint m of
        None \<Rightarrow> (Inl no_token_endpoint, m)
      | Some endpoint \<Rightarrow>
          (case state_store_load state m of
             (Inl e, m1) \<Rightarrow> (Inl e, m1)
           | (Inr None, m1) \<Rightarrow>
               (Inl (make_oauth_error OAuthAuthorizationRequired ''authorization state was not found'' []), m1)
           | (Inr (Some stored), m1) \<Rightarrow>
               (case state_store_remove state m1 of
                  (Inl e, m2) \<Rightarrow> (Inl e, m2)
                | (Inr _, m2) \<Rightarrow>
                    if state_expired m2 stored now
                    then (Inl (make_oauth_error OAuthAuthorizationRequired ''authorization state has expired'' []), m2)
                    else
                      (case in_world (tp_exchange_authorization_code endpoint
                               \<lparr>te_client = am_client m2, te_authorization_server = am_metadata m2, te_resource = am_resource m2,
                                te_authorization_code = code, te_state = stored, te_additional_parameters = []\<rparr>) m2 of
                         (Inl e, m3) \<Rightarrow> (Inl e, m3)
                       | (Inr tokens, m3) \<Rightarrow> store_tokens tokens (sa_requested_scopes stored) received_at m3))))"

section \<open>Refresh and use of the access token\<close>

definition credentials_missing :: core_error where
  "credentials_missing = make_oauth_error OAuthAuthorizationRequired ''stored credentials are not available'' []"

text \<open>What a refresh keeps of the previous refresh token.\<close>

definition keep_refresh_token :: "token_set \<Rightarrow> token_refresh_result \<Rightarrow> token_refresh_result" where
  "keep_refresh_token current refreshed =
     (case ts_refresh_token (tr_token_set refreshed) of
        None \<Rightarrow> \<lparr>tr_token_set = (tr_token_set refreshed)\<lparr>ts_refresh_token := ts_refresh_token current\<rparr>,
                tr_refresh_token_rotated = False\<rparr>
      | Some t \<Rightarrow> refreshed\<lparr>tr_refresh_token_rotated := (ts_refresh_token (tr_token_set refreshed) \<noteq> ts_refresh_token current)\<rparr>)"

definition refresh_access_token :: "int \<Rightarrow> ('w, token_refresh_result) manager_op" where
  "refresh_access_token received_at m =
     (case am_token_endpoint m of
        None \<Rightarrow> (Inl no_token_endpoint, m)
      | Some endpoint \<Rightarrow>
          (case credential_store_load (manager_credential_key m) m of
             (Inl e, m1) \<Rightarrow> (Inl e, m1)
           | (Inr loaded, m1) \<Rightarrow>
               (case loaded of None \<Rightarrow> (Inl credentials_missing, m1) | Some credentials \<Rightarrow>
                (case sc_token_set credentials of None \<Rightarrow> (Inl credentials_missing, m1) | Some current \<Rightarrow>
                  let failed = (Inl (make_oauth_error OAuthTokenRefreshFailed ''refresh token is not available'' []), m1) in
                  (case ts_refresh_token current of None \<Rightarrow> failed | Some refresh_token \<Rightarrow>
                   if refresh_token = [] then failed
                   else case in_world (tp_refresh_access_token endpoint
                               \<lparr>tq_client = am_client m1, tq_authorization_server = am_metadata m1, tq_resource = am_resource m1,
                                tq_refresh_token = refresh_token, tq_scopes = sc_granted_scopes credentials,
                                tq_additional_parameters = []\<rparr>) m1 of
                     (Inl e, m2) \<Rightarrow> (Inl e, m2)
                   | (Inr result, m2) \<Rightarrow>
                       let refreshed = keep_refresh_token current result;
                           scopes = (if ts_scopes (tr_token_set refreshed) = [] then sc_granted_scopes credentials
                                     else ts_scopes (tr_token_set refreshed));
                           m3 = m2\<lparr>am_current_scopes := scopes\<rparr>;
                           credentials' = credentials\<lparr>sc_token_set := Some (tr_token_set refreshed), sc_granted_scopes := scopes,
                             sc_token_received_at := Some received_at\<rparr> in
                       (case credential_store_save (manager_credential_key m3) credentials' m3 of
                          (Inl e, m4) \<Rightarrow> (Inl e, m4)
                        | (Inr _, m4) \<Rightarrow> (Inr refreshed, m4\<lparr>am_state := Authorized\<rparr>)))))))"

definition get_access_token :: "int \<Rightarrow> int \<Rightarrow> int \<Rightarrow> ('w, string) manager_op" where
  "get_access_token refresh_skew now received_at m =
     (case credential_store_load (manager_credential_key m) m of
        (Inl e, m1) \<Rightarrow> (Inl e, m1)
      | (Inr loaded, m1) \<Rightarrow>
          (case loaded of None \<Rightarrow> (Inl credentials_missing, m1) | Some credentials \<Rightarrow>
           (case sc_token_set credentials of None \<Rightarrow> (Inl credentials_missing, m1) | Some tokens \<Rightarrow>
             if (case ts_expires_at tokens of None \<Rightarrow> True | Some e \<Rightarrow> e > now + refresh_skew * 1000000000)
             then (Inr (ts_access_token tokens), m1)
             else if ts_refresh_token tokens = None
             then (Inl (make_oauth_error OAuthAuthorizationRequired
                     ''access token is expired and no refresh token is available'' []), m1)
             else case refresh_access_token received_at m1 of
               (Inl e, m2) \<Rightarrow> (Inl e, m2)
             | (Inr refreshed, m2) \<Rightarrow> (Inr (ts_access_token (tr_token_set refreshed)), m2))))"

record oauth_refresh_retry_result =
  rr_decision :: auth_response_decision
  rr_should_retry :: bool
  rr_bearer_token :: "string option"

definition refresh_after_unauthorized_response :: "http_response_metadata \<Rightarrow> int \<Rightarrow> ('w, oauth_refresh_retry_result) manager_op" where
  "refresh_after_unauthorized_response response received_at m =
     (case analyze_auth_response response of
        Inl e \<Rightarrow> (Inl e, m)
      | Inr decision \<Rightarrow>
          let retry = \<lparr>rr_decision = decision, rr_should_retry = False, rr_bearer_token = None\<rparr> in
          if hr_status_code response \<noteq> 401 \<or> ad_action decision \<noteq> AuthorizationRequired then (Inr retry, m)
          else case refresh_access_token received_at m of
            (Inl e, m1) \<Rightarrow> (Inl e, m1)
          | (Inr refreshed, m1) \<Rightarrow>
              (Inr (retry\<lparr>rr_should_retry := True, rr_bearer_token := Some (ts_access_token (tr_token_set refreshed))\<rparr>), m1))"

section \<open>Client credentials and scope upgrades\<close>

definition client_credentials_method :: "client_credentials_config \<Rightarrow> string" where
  "client_credentials_method config =
     (case map_of (cc_metadata config) ''token_endpoint_auth_method'' of
        None \<Rightarrow> ''client_secret_post''
      | Some method_name \<Rightarrow> if method_name = [] then ''client_secret_post'' else method_name)"

definition authenticate_client_credentials :: "client_credentials_config \<Rightarrow> int \<Rightarrow> ('w, token_set) manager_op" where
  "authenticate_client_credentials config received_at m =
     (case am_token_endpoint m of
        None \<Rightarrow> (Inl no_token_endpoint, m)
      | Some endpoint \<Rightarrow>
          if cc_client_id config = [] then (Inl (make_oauth_error OAuthInvalidRequest ''client_id is required'' []), m)
          else if cc_client_secret config = [] then (Inl (make_oauth_error OAuthInvalidRequest ''client_secret is required'' []), m)
          else if cc_resource config = [] then (Inl (make_oauth_error OAuthInvalidRequest ''resource is required'' []), m)
          else case validate_client_credentials_metadata (am_metadata m) (client_credentials_method config) of
            Inl e \<Rightarrow> (Inl e, m)
          | Inr _ \<Rightarrow>
              let config' = config\<lparr>cc_scopes := add_offline_access_if_supported (cc_scopes config) (am_metadata m)\<rparr> in
              (case in_world (tp_exchange_client_credentials endpoint
                      \<lparr>tc_credentials = config', tc_authorization_server = am_metadata m, tc_additional_parameters = []\<rparr>) m of
                 (Inl e, m1) \<Rightarrow> (Inl e, m1)
               | (Inr tokens, m1) \<Rightarrow>
                   store_tokens tokens (cc_scopes config') received_at
                     (m1\<lparr>am_client := (am_client m1)\<lparr>oc_client_id := cc_client_id config', oc_client_secret := Some (cc_client_secret config')\<rparr>,
                        am_resource := cc_resource config'\<rparr>)))"

definition can_attempt_scope_upgrade :: "'w authorization_manager \<Rightarrow> bool" where
  "can_attempt_scope_upgrade m \<longleftrightarrow> su_auto_upgrade (am_scope_upgrade_config m) \<and>
     am_scope_upgrade_attempts m < su_max_upgrade_attempts (am_scope_upgrade_config m)"

definition compute_scope_union :: "string list \<Rightarrow> string \<Rightarrow> string list" where
  "compute_scope_union current required_scope =
     fold (\<lambda>scope result. if \<not> has_scope result scope then result @ [scope] else result) (split_scopes required_scope) current"

definition request_scope_upgrade :: "www_challenge \<Rightarrow> pkce_challenge \<Rightarrow> string \<Rightarrow> string alist \<Rightarrow> int \<Rightarrow>
    ('w, authorization_url_result) manager_op" where
  "request_scope_upgrade challenge pkce state additional now m =
     (if \<not> insufficient_scope challenge
      then (Inl (make_oauth_error OAuthInsufficientScope ''WWW-Authenticate challenge is not insufficient_scope'' []), m)
      else if \<not> can_attempt_scope_upgrade m
      then (Inl (make_oauth_error OAuthInsufficientScope ''scope upgrade attempts are exhausted'' []), m)
      else let scopes = compute_scope_union (am_current_scopes m) (wc_parameter challenge ''scope'');
               m1 = m\<lparr>am_scope_upgrade_attempts := am_scope_upgrade_attempts m + 1\<rparr>
           in start_authorization scopes pkce state additional now m1)"

end
