(* ===== verification/Auth_Flow.thy ===== *)
theory Auth_Flow
  imports Auth_Manager
begin

text \<open>
  What the authorization manager guarantees: an authorization state is redeemed at most once and only in time, the
  number of scope upgrades is bounded, an access token handed out is fresh, the authorization URL carries exactly the
  parameters of the request.
\<close>

section \<open>The authorization URL\<close>

definition authorization_parameters :: "authorization_url_request \<Rightarrow> (string \<times> string) list" where
  "authorization_parameters request =
     [(''response_type'', ''code''), (''client_id'', oc_client_id (ar_client request)),
      (''redirect_uri'', oc_redirect_uri (ar_client request)), (''state'', ar_state request),
      (''code_challenge'', pk_code_challenge (ar_pkce request)), (''code_challenge_method'', ''S256'')] @
     (if ar_resource request \<noteq> [] then [(''resource'', ar_resource request)] else []) @
     (if join_scopes (ar_scopes request) \<noteq> [] then [(''scope'', join_scopes (ar_scopes request))] else []) @
     ar_additional_parameters request"

lemma query_params_fold:
  "query_params (fold (\<lambda>p u. append_query_param u (fst p) (snd p)) ps url) = query_params url @ ps"
  by (induction ps arbitrary: url) (simp_all add: query_params_append)

lemma query_params_optional:
  "query_params (if b then append_query_param url name v else url) = query_params url @ (if b then [(name, v)] else [])"
  by (simp add: query_params_append)

lemma accepted_url_request:
  assumes "authorization_url_error request = None"
  shows "redirect_uri_is_secure (as_authorization_endpoint (ar_authorization_server request)) \<and>
    redirect_uri_is_secure (oc_redirect_uri (ar_client request)) \<and> ar_state request \<noteq> []"
  using assms by (simp add: authorization_url_error_def redirect_uri_is_secure_def Let_def split: if_splits)

lemma pkce_method_only [simp]: "pkce_method_name m = ''S256''"
  by (cases m) simp

text \<open>The authorization URL carries the parameters of the request and nothing else. When the URL is built, decoding
  its query gives the parameters the authorization endpoint already had, followed by response type, client id,
  redirect URI, state, PKCE challenge and method, the resource and the scopes if there are any and the additional
  parameters, each with exactly the text of the request whatever characters it has. The endpoint and the redirect
  URI use HTTPS or a loopback host, and the verifier, which is not part of the URL, is kept in the state to be stored
  with the redirect URI and client id it was issued for.\<close>

theorem authorization_url_parameters:
  "build_authorization_url request now = Inr r \<Longrightarrow>
     query_params (au_url r) =
       query_params (as_authorization_endpoint (ar_authorization_server request)) @ authorization_parameters request \<and>
     redirect_uri_is_secure (as_authorization_endpoint (ar_authorization_server request)) \<and>
     redirect_uri_is_secure (oc_redirect_uri (ar_client request)) \<and>
     sa_pkce (au_state r) = ar_pkce request \<and> sa_state (au_state r) = ar_state request \<and> ar_state request \<noteq> [] \<and>
     sa_redirect_uri (au_state r) = oc_redirect_uri (ar_client request) \<and>
     sa_client_id (au_state r) = oc_client_id (ar_client request)"
proof -
  assume r: "build_authorization_url request now = Inr r"
  then have none: "authorization_url_error request = None"
    by (simp add: build_authorization_url_def split: option.splits)
  have "query_params (au_url r) =
      query_params (as_authorization_endpoint (ar_authorization_server request)) @ authorization_parameters request \<and>
      sa_pkce (au_state r) = ar_pkce request \<and> sa_state (au_state r) = ar_state request \<and>
      sa_redirect_uri (au_state r) = oc_redirect_uri (ar_client request) \<and> sa_client_id (au_state r) = oc_client_id (ar_client request)"
    using r unfolding build_authorization_url_def none option.case Let_def
    by (simp only: sum.inject) (drule sym, simp add: authorization_parameters_def query_params_fold query_params_optional query_params_append)
  with accepted_url_request [OF none] show ?thesis by simp
qed

definition sample_server :: authorization_server_metadata where
  "sample_server = \<lparr>as_issuer = ''https://as'', as_authorization_endpoint = ''https://as/auth?t=1'', as_token_endpoint = [],
     as_registration_endpoint = None, as_jwks_uri = None, as_response_types_supported = [], as_grant_types_supported = [],
     as_code_challenge_methods_supported = [], as_token_endpoint_auth_methods_supported = [],
     as_dpop_signing_alg_values_supported = [], as_scopes_supported = [''offline_access''], as_metadata = []\<rparr>"

definition sample_client :: oauth_client_config where
  "sample_client = \<lparr>oc_client_id = ''c&1'', oc_client_secret = None, oc_redirect_uri = ''http://127.0.0.1:8/cb'',
     oc_scopes = [], oc_metadata = []\<rparr>"

definition sample_url_request :: authorization_url_request where
  "sample_url_request = \<lparr>ar_client = sample_client, ar_authorization_server = sample_server, ar_resource = [],
     ar_scopes = [''a'', ''b''], ar_pkce = sa_pkce sample_state, ar_state = ''s1'', ar_additional_parameters = []\<rparr>"

theorem authorization_url_parameters_witness:
  "\<exists>r. build_authorization_url sample_url_request 5 = Inr r \<and>
     query_params (au_url r) =
       [(''t'', ''1''), (''response_type'', ''code''), (''client_id'', ''c&1''), (''redirect_uri'', ''http://127.0.0.1:8/cb''),
        (''state'', ''s1''), (''code_challenge'', ''c''), (''code_challenge_method'', ''S256''), (''scope'', ''a b'')]"
proof -
  have "authorization_url_error sample_url_request = None"
    by (simp add: authorization_url_error_def sample_url_request_def sample_server_def sample_client_def sample_state_def
        url_uses_https_def url_uses_loopback_http_def redirect_uri_is_secure_def url_scheme_def url_host_def authority_part_def
        authority_host_def auth_ascii_iequals_def lower_char_def numeral_3_eq_3)
  then obtain r where r: "build_authorization_url sample_url_request 5 = Inr r" by (simp add: build_authorization_url_def Let_def)
  have "query_params (as_authorization_endpoint (ar_authorization_server sample_url_request)) = [(''t'', ''1'')]"
    by (simp add: sample_url_request_def sample_server_def query_params_def query_field_def)
  moreover have "authorization_parameters sample_url_request =
      [(''response_type'', ''code''), (''client_id'', ''c&1''), (''redirect_uri'', ''http://127.0.0.1:8/cb''),
       (''state'', ''s1''), (''code_challenge'', ''c''), (''code_challenge_method'', ''S256''), (''scope'', ''a b'')]"
    by (simp add: authorization_parameters_def sample_url_request_def sample_client_def sample_state_def join_scopes_def)
  ultimately show ?thesis using authorization_url_parameters [OF r] r by auto
qed

section \<open>What the operations leave of the stores\<close>

definition memory_states :: "'w authorization_manager \<Rightarrow> bool" where
  "memory_states m \<longleftrightarrow> (case am_state_store m of StateObject _ \<Rightarrow> False | _ \<Rightarrow> True) \<and>
     mem_inv string_fits (state_entries (am_state_store m))"

definition pending_state :: "'w authorization_manager \<Rightarrow> string \<Rightarrow> stored_authorization_state option" where
  "pending_state m key = states_load (state_entries (am_state_store m)) key"

text \<open>What a call into the application or the credential store cannot change.\<close>

definition keeps_flow :: "'w authorization_manager \<Rightarrow> 'w authorization_manager \<Rightarrow> bool" where
  "keeps_flow m m' \<longleftrightarrow> am_state_store m' = am_state_store m \<and> am_scope_upgrade_config m' = am_scope_upgrade_config m \<and>
     am_scope_upgrade_attempts m' = am_scope_upgrade_attempts m \<and> am_authorization_state_ttl m' = am_authorization_state_ttl m \<and>
     am_token_endpoint m' = am_token_endpoint m \<and> am_metadata m' = am_metadata m \<and> am_client m' = am_client m \<and>
     am_resource m' = am_resource m"

lemma keeps_flow_refl [simp]: "keeps_flow m m"
  by (simp add: keeps_flow_def)

lemma in_world_frame: "in_world f m = (r, m') \<Longrightarrow> keeps_flow m m' \<and> am_credential_store m' = am_credential_store m"
  by (auto simp: in_world_def keeps_flow_def split: prod.splits)

lemma state_store_memory:
  assumes "memory_states m"
  shows "state_store_save k v m = (Inr (), m\<lparr>am_state_store := StateMemory (states_save (state_entries (am_state_store m)) k v)\<rparr>)"
    "state_store_load k m = (Inr (pending_state m k), m\<lparr>am_state_store := StateMemory (state_entries (am_state_store m))\<rparr>)"
    "state_store_remove k m = (Inr (), m\<lparr>am_state_store := StateMemory (states_remove (state_entries (am_state_store m)) k)\<rparr>)"
  using assms
  by (cases "am_state_store m"; simp add: memory_states_def state_store_save_def state_store_load_def state_store_remove_def pending_state_def)+

lemma credential_store_frame:
  "credential_store_load k m = (r, m') \<Longrightarrow> keeps_flow m m'"
  "credential_store_save k v m = (r', m') \<Longrightarrow> keeps_flow m m'"
  by (auto simp: credential_store_load_def credential_store_save_def keeps_flow_def dest: in_world_frame
      split: credential_store_ref.splits)

lemma refresh_access_token_frame:
  assumes "refresh_access_token received_at m = (r, m')"
  shows "keeps_flow m m'"
  using assms
  by (auto simp: refresh_access_token_def keeps_flow_def Let_def dest!: in_world_frame credential_store_frame
      split: option.splits prod.splits sum.splits if_splits)

lemma get_access_token_frame:
  assumes "get_access_token skew now received_at m = (r, m')"
  shows "keeps_flow m m'"
  using assms
  by (auto simp: get_access_token_def keeps_flow_def dest!: refresh_access_token_frame credential_store_frame
      split: option.splits prod.splits sum.splits if_splits)

lemma refresh_after_frame:
  assumes "refresh_after_unauthorized_response response received_at m = (r, m')"
  shows "keeps_flow m m'"
  using assms
  by (auto simp: refresh_after_unauthorized_response_def Let_def dest!: refresh_access_token_frame
      split: prod.splits sum.splits if_splits)

text \<open>The end of an exchange: the attempts start again, everything else of the flow stays.\<close>

lemma store_tokens_frame:
  assumes "store_tokens tokens requested received_at m = (r, m')"
  shows "keeps_flow m (m'\<lparr>am_scope_upgrade_attempts := am_scope_upgrade_attempts m\<rparr>) \<and> am_scope_upgrade_attempts m' = 0"
  using assms
  by (auto simp: store_tokens_def keeps_flow_def Let_def dest!: credential_store_frame split: prod.splits sum.splits)

lemma register_client_frame:
  assumes "register_client options headers m = (r, m')"
  shows "keeps_flow (m\<lparr>am_client := am_client m'\<rparr>) m'"
  using assms
  by (auto simp: register_client_def keeps_flow_def configure_client_def Let_def dest!: in_world_frame
      split: prod.splits sum.splits option.splits if_splits)

lemma configure_frame:
  assumes "configure_client_for_authorization options m = (r, m')"
  shows "keeps_flow (m\<lparr>am_client := am_client m'\<rparr>) m'"
  using assms
  by (auto simp: configure_client_for_authorization_def configure_client_id_metadata_url_def configure_client_id_def
      configure_client_def keeps_flow_def Let_def split: option.splits if_splits dest!: register_client_frame)

section \<open>Sequences of operations\<close>

datatype lifecycle_op =
    SetResource string
  | SetMetadata authorization_server_metadata
  | ConfigureClient oauth_client_config
  | ConfigureClientId string string "string list"
  | ConfigureForAuthorization client_id_configuration_options
  | RegisterClient client_registration_options "string alist"
  | StartSession authorization_session_request int
  | StartAuthorization "string list" pkce_challenge string "string alist" int
  | ExchangeCode string string int int
  | RefreshAccessToken int
  | GetAccessToken int int int
  | RefreshAfterResponse http_response_metadata int
  | AuthenticateClientCredentials client_credentials_config int
  | RequestScopeUpgrade www_challenge pkce_challenge string "string alist" int

fun apply_op :: "lifecycle_op \<Rightarrow> 'w authorization_manager \<Rightarrow> 'w authorization_manager" where
  "apply_op (SetResource resource) m = m\<lparr>am_resource := resource\<rparr>"
| "apply_op (SetMetadata metadata) m = m\<lparr>am_metadata := metadata\<rparr>"
| "apply_op (ConfigureClient config) m = configure_client config m"
| "apply_op (ConfigureClientId client_id redirect_uri scopes) m = snd (configure_client_id client_id redirect_uri scopes m)"
| "apply_op (ConfigureForAuthorization options) m = snd (configure_client_for_authorization options m)"
| "apply_op (RegisterClient options headers) m = snd (register_client options headers m)"
| "apply_op (StartSession request now) m = snd (start_session request now m)"
| "apply_op (StartAuthorization scopes pkce st additional now) m = snd (start_authorization scopes pkce st additional now m)"
| "apply_op (ExchangeCode code st now received_at) m = snd (exchange_authorization_code code st now received_at m)"
| "apply_op (RefreshAccessToken received_at) m = snd (refresh_access_token received_at m)"
| "apply_op (GetAccessToken skew now received_at) m = snd (get_access_token skew now received_at m)"
| "apply_op (RefreshAfterResponse response received_at) m = snd (refresh_after_unauthorized_response response received_at m)"
| "apply_op (AuthenticateClientCredentials config received_at) m = snd (authenticate_client_credentials config received_at m)"
| "apply_op (RequestScopeUpgrade challenge pkce st additional now) m = snd (request_scope_upgrade challenge pkce st additional now m)"

text \<open>The authorization state an operation may store, and the one it looks up.\<close>

fun started_state :: "lifecycle_op \<Rightarrow> string option" where
  "started_state (StartSession request now) = Some (sr_state request)"
| "started_state (StartAuthorization scopes pkce st additional now) = Some st"
| "started_state (RequestScopeUpgrade challenge pkce st additional now) = Some st"
| "started_state _ = None"

fun op_fits :: "lifecycle_op \<Rightarrow> bool" where
  "op_fits (ExchangeCode code st now received_at) = string_fits st"
| "op_fits op = pred_option string_fits (started_state op)"

definition states_within :: "string option \<Rightarrow> 'w authorization_manager \<Rightarrow> 'w authorization_manager \<Rightarrow> bool" where
  "states_within st m m' \<longleftrightarrow> memory_states m' \<and> am_token_endpoint m' = am_token_endpoint m \<and>
     am_authorization_state_ttl m' = am_authorization_state_ttl m \<and>
     (\<forall>key. string_fits key \<and> st \<noteq> Some key \<and> pending_state m key = None \<longrightarrow> pending_state m' key = None)"

lemma states_within_refl: "memory_states m \<Longrightarrow> states_within st m m"
  by (simp add: states_within_def)

lemma states_within_trans: "states_within st m m1 \<Longrightarrow> states_within st m1 m2 \<Longrightarrow> states_within st m m2"
  by (simp add: states_within_def)

lemma states_within_keeps:
  assumes "memory_states m" "am_state_store m' = am_state_store m" "am_token_endpoint m' = am_token_endpoint m"
    "am_authorization_state_ttl m' = am_authorization_state_ttl m"
  shows "states_within st m m'"
  using assms by (simp add: states_within_def memory_states_def pending_state_def)

lemma keeps_flow_states: "memory_states m \<Longrightarrow> keeps_flow m m' \<Longrightarrow> states_within st m m'"
  by (rule states_within_keeps) (simp_all add: keeps_flow_def)

lemma states_within_save:
  assumes "memory_states m" "string_fits st"
  shows "states_within (Some st) m (m\<lparr>am_state_store := StateMemory (states_save (state_entries (am_state_store m)) st v)\<rparr>)"
  using assms states.load_save [of "state_entries (am_state_store m)" st] states.inv_save [of "state_entries (am_state_store m)" st]
  by (auto simp: states_within_def memory_states_def pending_state_def)

lemma states_within_remove:
  assumes "memory_states m" "string_fits st"
  shows "states_within st' m (m\<lparr>am_state_store := StateMemory (states_remove (state_entries (am_state_store m)) st)\<rparr>)"
  using assms states.load_remove [of "state_entries (am_state_store m)" st] states.inv_remove [of "state_entries (am_state_store m)" st]
  by (auto simp: states_within_def memory_states_def pending_state_def)

lemma start_authorization_states:
  assumes "memory_states m" "string_fits st"
  shows "states_within (Some st) m (snd (start_authorization scopes pkce st additional now m))"
proof -
  let ?rq = "\<lparr>ar_client = am_client m, ar_authorization_server = am_metadata m, ar_resource = am_resource m,
            ar_scopes = add_offline_access_if_supported scopes (am_metadata m), ar_pkce = pkce, ar_state = st,
            ar_additional_parameters = additional\<rparr>"
  show ?thesis
  proof (cases "build_authorization_url ?rq now")
    case (Inl e)
    then show ?thesis using states_within_refl [OF assms(1)] by (simp add: start_authorization_def)
  next
    case (Inr r)
    then have "sa_state (au_state r) = st" by (auto simp: build_authorization_url_def Let_def split: option.splits)
    moreover note states_within_save [OF assms, of "au_state r"]
    moreover have "states_within (Some st) m (m'\<lparr>am_state := s\<rparr>)" if "states_within (Some st) m m'" for m' s
      using that by (simp add: states_within_def memory_states_def pending_state_def)
    ultimately show ?thesis using Inr state_store_memory(1) [OF assms(1)] by (simp add: start_authorization_def)
  qed
qed

lemma exchange_states:
  assumes "memory_states m" "string_fits st"
  shows "states_within st' m (snd (exchange_authorization_code code st now received_at m))"
proof (cases "am_token_endpoint m")
  case None
  then show ?thesis using states_within_refl [OF assms(1)] by (simp add: exchange_authorization_code_def)
next
  case (Some endpoint)
  define m1 where "m1 = m\<lparr>am_state_store := StateMemory (state_entries (am_state_store m))\<rparr>"
  define m2 where "m2 = m1\<lparr>am_state_store := StateMemory (states_remove (state_entries (am_state_store m1)) st)\<rparr>"
  have mem1: "memory_states m1" using assms(1) by (simp add: memory_states_def m1_def)
  have w1: "states_within st' m m1" using assms(1) mem1 by (simp add: states_within_def m1_def pending_state_def)
  have w2: "states_within st' m m2" using states_within_trans [OF w1 states_within_remove [OF mem1 assms(2)]] by (simp add: m2_def)
  then have mem2: "memory_states m2" by (simp add: states_within_def)
  have rest: "states_within st' m m3" if "keeps_flow m2 m3" for m3
    using states_within_trans [OF w2 keeps_flow_states [OF mem2 that]] .
  have tokens: "states_within st' m (snd (store_tokens t requested received_at m3))" if "keeps_flow m2 m3" for t requested m3
  proof -
    obtain r m4 where m4: "store_tokens t requested received_at m3 = (r, m4)" by (cases "store_tokens t requested received_at m3")
    have "keeps_flow m2 (m4\<lparr>am_scope_upgrade_attempts := am_scope_upgrade_attempts m2\<rparr>)"
      using store_tokens_frame [OF m4] that by (simp add: keeps_flow_def)
    then have "states_within st' m2 m4" using mem2 by (intro states_within_keeps) (simp_all add: keeps_flow_def)
    then show ?thesis using m4 states_within_trans [OF w2] by simp
  qed
  have load: "state_store_load st m = (Inr (pending_state m st), m1)" using state_store_memory(2) [OF assms(1)] by (simp add: m1_def)
  have remove: "state_store_remove st m1 = (Inr (), m2)" using state_store_memory(3) [OF mem1] by (simp add: m2_def)
  show ?thesis
    using w1 w2 tokens rest
    by (simp add: exchange_authorization_code_def Some load remove split: option.split sum.split prod.split)
      (metis in_world_frame)
qed

lemma start_session_states:
  assumes "memory_states m" "string_fits (sr_state request)"
  shows "states_within (Some (sr_state request)) m (snd (start_session request now m))"
proof -
  define p where "p = (if oc_client_id (am_client m) = [] \<or> oc_redirect_uri (am_client m) \<noteq> ci_redirect_uri (sr_client request)
            then configure_client_for_authorization (sr_client request) m else (Inr (am_client m), m))"
  have "keeps_flow (m\<lparr>am_client := am_client (snd p)\<rparr>) (snd p)"
    using configure_frame [of "sr_client request" m "fst p" "snd p"] by (auto simp: p_def split: if_splits)
  then have p: "states_within (Some (sr_state request)) m (snd p)" "memory_states (snd p)"
    using assms(1) states_within_keeps [of m "snd p"] by (auto simp: keeps_flow_def states_within_def)
  have "snd (start_session request now m) = snd p \<or> snd (start_session request now m) =
      snd (start_authorization (ci_scopes (sr_client request)) (sr_pkce request) (sr_state request)
        (sr_additional_authorization_parameters request) now (snd p))"
    by (cases p) (auto simp: start_session_def p_def [symmetric] split: sum.splits prod.splits)
  then show ?thesis using p(1) states_within_trans [OF p(1) start_authorization_states [OF p(2) assms(2)]] by auto
qed

lemma scope_upgrade_states:
  assumes "memory_states m" "string_fits st"
  shows "states_within (Some st) m (snd (request_scope_upgrade challenge pkce st additional now m))"
proof -
  define m1 where "m1 = m\<lparr>am_scope_upgrade_attempts := am_scope_upgrade_attempts m + 1\<rparr>"
  have m1: "memory_states m1" "states_within (Some st) m m1"
    using assms(1) by (simp_all add: m1_def memory_states_def states_within_def pending_state_def)
  then show ?thesis
    using states_within_trans [OF m1(2) start_authorization_states [OF m1(1) assms(2)]] states_within_refl [OF assms(1)]
    by (simp add: request_scope_upgrade_def m1_def [symmetric] Let_def)
qed

lemma client_credentials_frame:
  assumes "authenticate_client_credentials config received_at m = (r, m')"
  shows "am_state_store m' = am_state_store m \<and> am_token_endpoint m' = am_token_endpoint m \<and>
    am_authorization_state_ttl m' = am_authorization_state_ttl m \<and> am_scope_upgrade_config m' = am_scope_upgrade_config m \<and>
    (am_scope_upgrade_attempts m' = am_scope_upgrade_attempts m \<or> am_scope_upgrade_attempts m' = 0)"
  using assms
  by (auto simp: authenticate_client_credentials_def keeps_flow_def Let_def dest!: in_world_frame store_tokens_frame
      split: option.splits sum.splits prod.splits if_splits)

lemma store_tokens_states [simp]: "am_state_store (snd (store_tokens tokens requested received_at m)) = am_state_store m"
  using store_tokens_frame [of tokens requested received_at m]
  by (cases "store_tokens tokens requested received_at m") (auto simp: keeps_flow_def)

text \<open>Every operation keeps the store of states well-formed and brings back no state it does not start.\<close>

lemma apply_op_states:
  assumes "memory_states m" "op_fits op"
  shows "states_within (started_state op) m (apply_op op m)"
proof -
  have keep: "states_within st m (snd p)" if "keeps_flow (m\<lparr>am_client := am_client (snd p)\<rparr>) (snd p)" for st and p :: "'b \<times> 'a authorization_manager"
    using that assms(1) by (auto simp: keeps_flow_def intro: states_within_keeps)
  show ?thesis
  proof (cases op)
    case (AuthenticateClientCredentials config received_at)
    then show ?thesis
      using client_credentials_frame [of config received_at m] assms(1)
      by (cases "authenticate_client_credentials config received_at m") (auto intro: states_within_keeps)
  next
    case (RegisterClient options headers)
    then show ?thesis using register_client_frame [of options headers m] keep by (cases "register_client options headers m") auto
  next
    case (ConfigureForAuthorization options)
    then show ?thesis using configure_frame [of options m] keep by (cases "configure_client_for_authorization options m") auto
  next
    case (RefreshAccessToken received_at)
    then show ?thesis
      using keeps_flow_states [OF assms(1) refresh_access_token_frame] by (cases "refresh_access_token received_at m") auto
  next
    case (GetAccessToken skew now received_at)
    then show ?thesis
      using keeps_flow_states [OF assms(1) get_access_token_frame] by (cases "get_access_token skew now received_at m") auto
  next
    case (RefreshAfterResponse response received_at)
    then show ?thesis
      using keeps_flow_states [OF assms(1) refresh_after_frame] by (cases "refresh_after_unauthorized_response response received_at m") auto
  qed (use assms in \<open>auto simp: configure_client_id_def configure_client_def Let_def intro: states_within_keeps
      start_session_states start_authorization_states exchange_states scope_upgrade_states\<close>)
qed

lemma apply_ops_states:
  assumes "memory_states m" "list_all op_fits ops" "string_fits key" "Some key \<notin> started_state ` set ops" "pending_state m key = None"
  shows "memory_states (fold apply_op ops m) \<and> am_token_endpoint (fold apply_op ops m) = am_token_endpoint m \<and>
    pending_state (fold apply_op ops m) key = None"
  using assms
proof (induction ops arbitrary: m)
  case (Cons op ops)
  have "states_within (started_state op) m (apply_op op m)" using Cons.prems by (intro apply_op_states) simp_all
  then show ?case using Cons.prems Cons.IH [of "apply_op op m"] by (auto simp: states_within_def)
qed simp

lemma exchange_forgets:
  assumes "memory_states m" "string_fits st" "am_token_endpoint m \<noteq> None"
  shows "pending_state (snd (exchange_authorization_code code st now received_at m)) st = None"
proof -
  obtain endpoint where ep: "am_token_endpoint m = Some endpoint" using assms(3) by blast
  define m1 where "m1 = m\<lparr>am_state_store := StateMemory (state_entries (am_state_store m))\<rparr>"
  define m2 where "m2 = m1\<lparr>am_state_store := StateMemory (states_remove (state_entries (am_state_store m1)) st)\<rparr>"
  have mem1: "memory_states m1" "pending_state m1 st = pending_state m st"
    using assms(1) by (simp_all add: memory_states_def m1_def pending_state_def)
  have gone: "states_load (state_entries (am_state_store m2)) st = None"
    using states.load_remove [of "state_entries (am_state_store m1)" st st] mem1(1) assms(2) by (simp add: m2_def memory_states_def)
  have load: "state_store_load st m = (Inr (pending_state m st), m1)" using state_store_memory(2) [OF assms(1)] by (simp add: m1_def)
  have remove: "state_store_remove st m1 = (Inr (), m2)" using state_store_memory(3) [OF mem1(1)] by (simp add: m2_def)
  show ?thesis
    using gone mem1(2)
    by (auto simp: exchange_authorization_code_def ep load remove pending_state_def keeps_flow_def
        dest!: in_world_frame store_tokens_frame split: option.splits sum.splits prod.splits if_splits)
qed

lemma exchange_result:
  assumes "memory_states m" "fst (exchange_authorization_code code st now received_at m) = Inr tokens"
  obtains endpoint stored where "am_token_endpoint m = Some endpoint" "pending_state m st = Some stored"
    "0 < am_authorization_state_ttl m" "now < sa_created_at stored + am_authorization_state_ttl m * 1000000000"
    "fst (tp_exchange_authorization_code endpoint
       \<lparr>te_client = am_client m, te_authorization_server = am_metadata m, te_resource = am_resource m,
        te_authorization_code = code, te_state = stored, te_additional_parameters = []\<rparr> (am_world m)) = Inr tokens"
proof -
  define m1 where "m1 = m\<lparr>am_state_store := StateMemory (state_entries (am_state_store m))\<rparr>"
  define m2 where "m2 = m1\<lparr>am_state_store := StateMemory (states_remove (state_entries (am_state_store m1)) st)\<rparr>"
  have mem1: "memory_states m1" using assms(1) by (simp add: memory_states_def m1_def)
  have load: "state_store_load st m = (Inr (pending_state m st), m1)" using state_store_memory(2) [OF assms(1)] by (simp add: m1_def)
  have remove: "state_store_remove st m1 = (Inr (), m2)" using state_store_memory(3) [OF mem1] by (simp add: m2_def)
  have m2: "am_client m2 = am_client m" "am_metadata m2 = am_metadata m" "am_resource m2 = am_resource m" "am_world m2 = am_world m"
    "am_authorization_state_ttl m2 = am_authorization_state_ttl m"
    by (simp_all add: m1_def m2_def)
  show ?thesis
    using assms(2) that
    by (auto simp: exchange_authorization_code_def load remove m2 in_world_def state_expired_def store_tokens_def Let_def not_le
        split: option.splits sum.splits prod.splits if_splits)
qed

text \<open>C33: an authorization is redeemed at most once, and only in time. With the in-memory store of pending states, a code
  is exchanged for tokens only if an authorization was started under the state it comes back with, less than the
  time-to-live before, and the token endpoint is given what was stored then, the PKCE verifier included. Whatever
  the exchange returned, the state is gone: after any further operations of the manager, with its stores, token endpoint
  and time-to-live left in place, that do not start an authorization under the same state, a second exchange fails with \<open>authorization state was not found\<close> and does
  not reach the token endpoint.\<close>

theorem authorization_state_once:
  "memory_states m \<Longrightarrow> string_fits st \<Longrightarrow> am_token_endpoint m = Some endpoint \<Longrightarrow>
   exchange_authorization_code code st now received_at m = (r, m1) \<Longrightarrow>
   list_all op_fits ops \<Longrightarrow> Some st \<notin> started_state ` set ops \<Longrightarrow>
   (\<forall>tokens. r = Inr tokens \<longrightarrow>
      (\<exists>stored. pending_state m st = Some stored \<and> 0 < am_authorization_state_ttl m \<and>
         now < sa_created_at stored + am_authorization_state_ttl m * 1000000000 \<and>
         fst (tp_exchange_authorization_code endpoint
           \<lparr>te_client = am_client m, te_authorization_server = am_metadata m, te_resource = am_resource m,
            te_authorization_code = code, te_state = stored, te_additional_parameters = []\<rparr> (am_world m)) = Inr tokens)) \<and>
   (let m2 = fold apply_op ops m1; (r', m3) = exchange_authorization_code code' st now' received_at' m2 in
      r' = Inl (make_oauth_error OAuthAuthorizationRequired ''authorization state was not found'' []) \<and>
      am_world m3 = am_world m2)"
proof -
  assume m: "memory_states m" and st: "string_fits st" and ep: "am_token_endpoint m = Some endpoint"
    and run: "exchange_authorization_code code st now received_at m = (r, m1)"
    and ops: "list_all op_fits ops" "Some st \<notin> started_state ` set ops"
  have first: "\<exists>stored. pending_state m st = Some stored \<and> 0 < am_authorization_state_ttl m \<and>
         now < sa_created_at stored + am_authorization_state_ttl m * 1000000000 \<and>
         fst (tp_exchange_authorization_code endpoint
           \<lparr>te_client = am_client m, te_authorization_server = am_metadata m, te_resource = am_resource m,
            te_authorization_code = code, te_state = stored, te_additional_parameters = []\<rparr> (am_world m)) = Inr tokens"
    if "r = Inr tokens" for tokens
    using exchange_result [OF m, of code st now received_at tokens] run that ep by fastforce
  have m1: "memory_states m1" "am_token_endpoint m1 = Some endpoint" "pending_state m1 st = None"
    using exchange_states [OF m st, of None code now received_at] exchange_forgets [OF m st, of code now received_at] run ep
    by (simp_all add: states_within_def)
  define m2 where "m2 = fold apply_op ops m1"
  have m2: "memory_states m2" "am_token_endpoint m2 = Some endpoint" "pending_state m2 st = None"
    using apply_ops_states [OF m1(1) ops(1) st ops(2) m1(3)] m1(2) by (simp_all add: m2_def)
  have "exchange_authorization_code code' st now' received_at' m2 =
      (Inl (make_oauth_error OAuthAuthorizationRequired ''authorization state was not found'' []),
       m2\<lparr>am_state_store := StateMemory (state_entries (am_state_store m2))\<rparr>)"
    using m2 state_store_memory(2) [OF m2(1)] by (simp add: exchange_authorization_code_def)
  then show ?thesis using first by (simp add: m2_def)
qed

definition sample_tokens :: token_set where
  "sample_tokens = \<lparr>ts_access_token = ''at'', ts_token_type = ''Bearer'', ts_refresh_token = Some ''rt'', ts_expires_at = Some 100,
     ts_scopes = [], ts_metadata = []\<rparr>"

text \<open>A token endpoint that grants everything and counts its calls.\<close>

definition sample_endpoint :: "nat token_endpoint" where
  "sample_endpoint = \<lparr>tp_exchange_authorization_code = (\<lambda>_ w. (Inr sample_tokens, w + 1)),
     tp_refresh_access_token = (\<lambda>_ w. (Inr \<lparr>tr_token_set = sample_tokens\<lparr>ts_access_token := ''at2'', ts_refresh_token := None\<rparr>,
       tr_refresh_token_rotated = True\<rparr>, w + 1)),
     tp_exchange_client_credentials = (\<lambda>_ w. (Inr sample_tokens, w + 1))\<rparr>"

definition sample_manager :: "nat authorization_manager" where
  "sample_manager = (new_manager ''https://r'' sample_server sample_client 0)
     \<lparr>am_state_store := StateMemory [(''s1'', sample_state)], am_token_endpoint := Some sample_endpoint\<rparr>"

lemma sample_manager_memory: "memory_states sample_manager" "am_token_endpoint sample_manager = Some sample_endpoint"
  by (simp_all add: memory_states_def sample_manager_def new_manager_def mem_inv_def string_fits_def)

lemma sample_exchange: "fst (exchange_authorization_code ''code'' ''s1'' 5 6 sample_manager) = Inr sample_tokens"
  using state_store_memory [OF sample_manager_memory(1)]
  by (simp add: exchange_authorization_code_def sample_manager_memory(2) pending_state_def sample_manager_def new_manager_def
      states_load_def mem_load_def auth_constant_time_exact string_fits_def state_store_remove_def state_expired_def
      kDefaultAuthorizationStateTtl_def sample_state_def in_world_def sample_endpoint_def store_tokens_def credential_store_save_def Let_def)

theorem authorization_state_once_witness:
  "\<exists>m1. exchange_authorization_code ''code'' ''s1'' 5 6 sample_manager = (Inr sample_tokens, m1) \<and>
     fst (exchange_authorization_code ''code'' ''s1'' 7 8 (fold apply_op [SetResource ''x''] m1)) =
       Inl (make_oauth_error OAuthAuthorizationRequired ''authorization state was not found'' [])"
proof -
  obtain m1 where m1: "exchange_authorization_code ''code'' ''s1'' 5 6 sample_manager = (Inr sample_tokens, m1)"
    using sample_exchange by (metis prod.collapse)
  have "string_fits ''s1''" "list_all op_fits [SetResource ''x'']" "Some ''s1'' \<notin> started_state ` set [SetResource ''x'']"
    by (simp_all add: string_fits_def)
  from authorization_state_once [OF sample_manager_memory(1) this(1) sample_manager_memory(2) m1 this(2,3), of "''code''" 7 8]
  show ?thesis using m1 by (auto simp: Let_def split: prod.splits)
qed

section \<open>Scope upgrades\<close>

text \<open>Operations that end a code flow or a client-credentials flow set the number of attempts back.\<close>

fun resets_attempts :: "lifecycle_op \<Rightarrow> bool" where
  "resets_attempts (ExchangeCode code st now received_at) = True"
| "resets_attempts (AuthenticateClientCredentials config received_at) = True"
| "resets_attempts _ = False"

fun upgrade_attempted :: "lifecycle_op \<Rightarrow> 'w authorization_manager \<Rightarrow> bool" where
  "upgrade_attempted (RequestScopeUpgrade challenge pkce st additional now) m =
     (insufficient_scope challenge \<and> can_attempt_scope_upgrade m)"
| "upgrade_attempted _ m = False"

fun upgrades :: "lifecycle_op list \<Rightarrow> 'w authorization_manager \<Rightarrow> nat" where
  "upgrades [] m = 0"
| "upgrades (op # ops) m = (if upgrade_attempted op m then 1 else 0) + upgrades ops (apply_op op m)"

lemma start_authorization_frame:
  assumes "start_authorization scopes pkce st additional now m = (r, m')"
  shows "am_scope_upgrade_attempts m' = am_scope_upgrade_attempts m \<and> am_scope_upgrade_config m' = am_scope_upgrade_config m"
  using assms
  by (auto simp: start_authorization_def state_store_save_def keeps_flow_def Let_def dest!: in_world_frame
      split: sum.splits prod.splits state_store_ref.splits)

lemma start_session_frame:
  assumes "start_session request now m = (r, m')"
  shows "am_scope_upgrade_attempts m' = am_scope_upgrade_attempts m \<and> am_scope_upgrade_config m' = am_scope_upgrade_config m"
  using assms
  by (auto simp: start_session_def keeps_flow_def dest!: start_authorization_frame configure_frame split: sum.splits prod.splits if_splits)

lemma exchange_frame:
  assumes "exchange_authorization_code code st now received_at m = (r, m')"
  shows "am_scope_upgrade_config m' = am_scope_upgrade_config m \<and>
    (am_scope_upgrade_attempts m' = am_scope_upgrade_attempts m \<or> am_scope_upgrade_attempts m' = 0)"
  using assms
  by (auto simp: exchange_authorization_code_def state_store_load_def state_store_remove_def keeps_flow_def
      dest!: in_world_frame store_tokens_frame split: option.splits sum.splits prod.splits state_store_ref.splits if_splits)

definition attempts_step :: "lifecycle_op \<Rightarrow> 'w authorization_manager \<Rightarrow> 'w authorization_manager \<Rightarrow> bool" where
  "attempts_step op m m' \<longleftrightarrow> am_scope_upgrade_config m' = am_scope_upgrade_config m \<and>
     (am_scope_upgrade_attempts m' = am_scope_upgrade_attempts m + (if upgrade_attempted op m then 1 else 0) \<or>
      resets_attempts op \<and> am_scope_upgrade_attempts m' = 0)"

lemma keeps_flow_attempts: "keeps_flow m m' \<Longrightarrow> \<not> upgrade_attempted op m \<Longrightarrow> attempts_step op m m'"
  by (simp add: attempts_step_def keeps_flow_def)

lemma apply_op_attempts: "attempts_step op m (apply_op op m)"
proof (cases op)
  case (RequestScopeUpgrade challenge pkce st additional now)
  let ?s = "start_authorization (compute_scope_union (am_current_scopes m) (wc_parameter challenge ''scope'')) pkce st additional now
    (m\<lparr>am_scope_upgrade_attempts := am_scope_upgrade_attempts m + 1\<rparr>)"
  show ?thesis
    using RequestScopeUpgrade start_authorization_frame [of _ pkce st additional now _ "fst ?s" "snd ?s"]
    by (auto simp: attempts_step_def request_scope_upgrade_def Let_def)
next
  case (StartSession request now)
  then show ?thesis using start_session_frame [of request now m] by (cases "start_session request now m") (auto simp: attempts_step_def)
next
  case (StartAuthorization scopes pkce st additional now)
  then show ?thesis using start_authorization_frame [of scopes pkce st additional now m]
    by (cases "start_authorization scopes pkce st additional now m") (auto simp: attempts_step_def)
next
  case (ExchangeCode code st now received_at)
  then show ?thesis using exchange_frame [of code st now received_at m]
    by (cases "exchange_authorization_code code st now received_at m") (auto simp: attempts_step_def)
next
  case (AuthenticateClientCredentials config received_at)
  then show ?thesis using client_credentials_frame [of config received_at m]
    by (cases "authenticate_client_credentials config received_at m") (auto simp: attempts_step_def)
next
  case (RegisterClient options headers)
  then show ?thesis using register_client_frame [of options headers m]
    by (cases "register_client options headers m") (auto simp: attempts_step_def keeps_flow_def)
next
  case (ConfigureForAuthorization options)
  then show ?thesis using configure_frame [of options m]
    by (cases "configure_client_for_authorization options m") (auto simp: attempts_step_def keeps_flow_def)
next
  case (RefreshAccessToken received_at)
  then show ?thesis using keeps_flow_attempts [of m "apply_op op m" op] refresh_access_token_frame [of received_at m]
    by (cases "refresh_access_token received_at m") auto
next
  case (GetAccessToken skew now received_at)
  then show ?thesis using keeps_flow_attempts [of m "apply_op op m" op] get_access_token_frame [of skew now received_at m]
    by (cases "get_access_token skew now received_at m") auto
next
  case (RefreshAfterResponse response received_at)
  then show ?thesis using keeps_flow_attempts [of m "apply_op op m" op] refresh_after_frame [of response received_at m]
    by (cases "refresh_after_unauthorized_response response received_at m") auto
qed (auto simp: attempts_step_def configure_client_id_def configure_client_def Let_def)

lemma attempt_no_wrap:
  assumes "upgrade_attempted op m"
  shows "unat (am_scope_upgrade_attempts m + 1) = Suc (unat (am_scope_upgrade_attempts m))"
    "am_scope_upgrade_attempts m + 1 \<le> su_max_upgrade_attempts (am_scope_upgrade_config m)"
proof -
  have l: "am_scope_upgrade_attempts m < su_max_upgrade_attempts (am_scope_upgrade_config m)"
    using assms by (cases op) (simp_all add: can_attempt_scope_upgrade_def)
  then have n: "am_scope_upgrade_attempts m + 1 \<noteq> 0"
    using word_order.extremum [of "su_max_upgrade_attempts (am_scope_upgrade_config m)"] by (auto simp: add_eq_0_iff2)
  then show "unat (am_scope_upgrade_attempts m + 1) = Suc (unat (am_scope_upgrade_attempts m))" by (metis add.commute unatSuc)
  then show "am_scope_upgrade_attempts m + 1 \<le> su_max_upgrade_attempts (am_scope_upgrade_config m)"
    using l by (simp add: word_le_nat_alt word_less_nat_alt)
qed

text \<open>Scope upgrades are bounded between two grants. Along any sequence of operations that completes no exchange, each
  upgrade that is attempted is counted, the counter does not wrap, and no more upgrades are attempted than the
  configuration allows; and whatever the sequence, a counter within the configured maximum stays within it.\<close>

theorem scope_upgrades_bounded:
  "(list_all (\<lambda>op. \<not> resets_attempts op) ops \<longrightarrow>
      unat (am_scope_upgrade_attempts (fold apply_op ops m)) = unat (am_scope_upgrade_attempts m) + upgrades ops m \<and>
      upgrades ops m \<le> unat (su_max_upgrade_attempts (am_scope_upgrade_config m)) - unat (am_scope_upgrade_attempts m)) \<and>
   (am_scope_upgrade_attempts m \<le> su_max_upgrade_attempts (am_scope_upgrade_config m) \<longrightarrow>
      am_scope_upgrade_attempts (fold apply_op ops m) \<le> su_max_upgrade_attempts (am_scope_upgrade_config m))"
proof (induction ops arbitrary: m)
  case (Cons op ops)
  let ?m = "apply_op op m"
  have step: "attempts_step op m ?m" by (rule apply_op_attempts)
  note ih = Cons.IH [of ?m]
  show ?case
  proof (cases "upgrade_attempted op m")
    case True
    then have "\<not> resets_attempts op" by (cases op) simp_all
    then have "am_scope_upgrade_attempts ?m = am_scope_upgrade_attempts m + 1" "am_scope_upgrade_config ?m = am_scope_upgrade_config m"
      using step True by (simp_all add: attempts_step_def)
    then show ?thesis using ih attempt_no_wrap [OF True] True by (auto simp: word_le_nat_alt)
  next
    case False
    then show ?thesis using ih step by (auto simp: attempts_step_def)
  qed
qed simp

definition sample_upgrade :: lifecycle_op where
  "sample_upgrade = RequestScopeUpgrade
     \<lparr>wc_scheme = ''Bearer'', wc_token68 = None, wc_parameters = [(''error'', ''insufficient_scope''), (''scope'', ''w'')]\<rparr>
     (sa_pkce sample_state) ''s2'' [] 9"

theorem scope_upgrades_bounded_witness:
  "\<not> resets_attempts sample_upgrade \<and> am_scope_upgrade_attempts sample_manager = 0 \<and>
   upgrades [sample_upgrade] sample_manager = 1 \<and> upgrades (replicate 9 sample_upgrade) sample_manager \<le> 3 \<and>
   am_scope_upgrade_attempts (fold apply_op (replicate 9 sample_upgrade) sample_manager) \<le> 3"
proof -
  have cfg: "am_scope_upgrade_attempts sample_manager = 0" "su_max_upgrade_attempts (am_scope_upgrade_config sample_manager) = 3"
    "su_auto_upgrade (am_scope_upgrade_config sample_manager)"
    by (simp_all add: sample_manager_def new_manager_def default_scope_upgrade_config_def)
  have "\<not> resets_attempts sample_upgrade" by (simp add: sample_upgrade_def)
  moreover have "upgrades [sample_upgrade] sample_manager = 1"
    using cfg by (simp add: sample_upgrade_def can_attempt_scope_upgrade_def insufficient_scope_def wc_bearer_def wc_parameter_def
        auth_ascii_iequals_def auth_ascii_lower_def lower_char_def)
  moreover have "list_all (\<lambda>op. \<not> resets_attempts op) (replicate 9 sample_upgrade)"
    by (simp add: sample_upgrade_def list_all_iff)
  ultimately show ?thesis
    using scope_upgrades_bounded [of "replicate 9 sample_upgrade" sample_manager] cfg by simp
qed

section \<open>The access token\<close>

definition memory_credentials :: "'w authorization_manager \<Rightarrow> bool" where
  "memory_credentials m \<longleftrightarrow> (case am_credential_store m of CredentialObject _ \<Rightarrow> False | _ \<Rightarrow> True) \<and>
     mem_inv credential_key_fits (credential_entries (am_credential_store m)) \<and> credential_key_fits (manager_credential_key m)"

definition stored :: "'w authorization_manager \<Rightarrow> stored_credentials option" where
  "stored m = credentials_load (credential_entries (am_credential_store m)) (manager_credential_key m)"

definition refresh_request :: "'w authorization_manager \<Rightarrow> string \<Rightarrow> string list \<Rightarrow> token_refresh_request" where
  "refresh_request m refresh_token scopes =
     \<lparr>tq_client = am_client m, tq_authorization_server = am_metadata m, tq_resource = am_resource m,
      tq_refresh_token = refresh_token, tq_scopes = scopes, tq_additional_parameters = []\<rparr>"

lemma credential_store_memory:
  assumes "memory_credentials m"
  shows "credential_store_load (manager_credential_key m) m =
      (Inr (stored m), m\<lparr>am_credential_store := CredentialMemory (credential_entries (am_credential_store m))\<rparr>)"
    "credential_store_save (manager_credential_key m) v m =
      (Inr (), m\<lparr>am_credential_store := CredentialMemory (credentials_save (credential_entries (am_credential_store m)) (manager_credential_key m) v)\<rparr>)"
  using assms
  by (cases "am_credential_store m"; simp add: memory_credentials_def credential_store_load_def credential_store_save_def stored_def)+

lemma stored_saved:
  assumes "memory_credentials m"
  shows "stored (m\<lparr>am_credential_store := CredentialMemory (credentials_save (credential_entries (am_credential_store m)) (manager_credential_key m) v),
    am_state := s\<rparr>) = Some v"
  using assms credentials.load_save [of "credential_entries (am_credential_store m)" "manager_credential_key m" "manager_credential_key m" v]
  by (simp add: stored_def memory_credentials_def manager_credential_key_def)

lemma keep_refresh_token_sel [simp]:
  "ts_access_token (tr_token_set (keep_refresh_token current result)) = ts_access_token (tr_token_set result)"
  "ts_refresh_token (tr_token_set (keep_refresh_token current result)) =
     (if ts_refresh_token (tr_token_set result) = None then ts_refresh_token current else ts_refresh_token (tr_token_set result))"
  by (simp_all add: keep_refresh_token_def split: option.split)

lemma refresh_result:
  assumes "memory_credentials m" "refresh_access_token received_at m = (Inr refreshed, m')"
  obtains credentials current endpoint rt result where "stored m = Some credentials" "sc_token_set credentials = Some current"
    "am_token_endpoint m = Some endpoint" "ts_refresh_token current = Some rt" "rt \<noteq> []"
    "fst (tp_refresh_access_token endpoint (refresh_request m rt (sc_granted_scopes credentials)) (am_world m)) = Inr result"
    "refreshed = keep_refresh_token current result"
    "\<exists>credentials'. stored m' = Some credentials' \<and> sc_token_set credentials' = Some (tr_token_set refreshed) \<and>
       sc_client_id credentials' = sc_client_id credentials"
proof -
  define m1 where "m1 = m\<lparr>am_credential_store := CredentialMemory (credential_entries (am_credential_store m))\<rparr>"
  obtain endpoint where ep: "am_token_endpoint m = Some endpoint"
    using assms(2) by (cases "am_token_endpoint m") (simp_all add: refresh_access_token_def)
  note run = assms(2) [unfolded refresh_access_token_def ep option.case credential_store_memory(1) [OF assms(1)] m1_def [symmetric] prod.case sum.case]
  obtain credentials current rt where c: "stored m = Some credentials" "sc_token_set credentials = Some current"
    "ts_refresh_token current = Some rt" "rt \<noteq> []"
    using run by (auto simp: Let_def split: option.splits if_splits)
  have rq: "\<lparr>tq_client = am_client m1, tq_authorization_server = am_metadata m1, tq_resource = am_resource m1,
      tq_refresh_token = rt, tq_scopes = sc_granted_scopes credentials, tq_additional_parameters = []\<rparr> =
      refresh_request m rt (sc_granted_scopes credentials)" by (simp add: refresh_request_def m1_def)
  obtain r w where call: "tp_refresh_access_token endpoint (refresh_request m rt (sc_granted_scopes credentials)) (am_world m) = (r, w)"
    by (cases "tp_refresh_access_token endpoint (refresh_request m rt (sc_granted_scopes credentials)) (am_world m)")
  have world: "in_world (tp_refresh_access_token endpoint (refresh_request m rt (sc_granted_scopes credentials))) m1 = (r, m1\<lparr>am_world := w\<rparr>)"
    using call by (simp add: in_world_def m1_def)
  obtain result where r: "r = Inr result"
    using run c by (cases r) (simp_all add: rq world Let_def)
  define sc where "sc = (if ts_scopes (tr_token_set (keep_refresh_token current result)) = [] then sc_granted_scopes credentials
    else ts_scopes (tr_token_set (keep_refresh_token current result)))"
  define m3 where "m3 = m1\<lparr>am_world := w, am_current_scopes := sc\<rparr>"
  have mem3: "memory_credentials m3"
    using assms(1) by (simp add: m3_def m1_def memory_credentials_def manager_credential_key_def)
  define v where "v = credentials\<lparr>sc_token_set := Some (tr_token_set (keep_refresh_token current result)), sc_granted_scopes := sc,
    sc_token_received_at := Some received_at\<rparr>"
  have "(Inr refreshed, m') = (Inr (keep_refresh_token current result),
      m3\<lparr>am_credential_store := CredentialMemory (credentials_save (credential_entries (am_credential_store m3)) (manager_credential_key m3) v),
         am_state := Authorized\<rparr>)"
    using run c r by (simp add: rq world Let_def sc_def [symmetric] m3_def [symmetric] v_def [symmetric] credential_store_memory(2) [OF mem3])
  then have "refreshed = keep_refresh_token current result" "stored m' = Some v" using stored_saved [OF mem3] by simp_all
  then show ?thesis using that c ep call r by (simp add: v_def)
qed

definition token_fresh :: "token_set \<Rightarrow> int \<Rightarrow> int \<Rightarrow> bool" where
  "token_fresh tokens now skew \<longleftrightarrow> (case ts_expires_at tokens of None \<Rightarrow> True | Some e \<Rightarrow> e > now + skew * 1000000000)"

text \<open>C34: the access token that is handed out is fresh or newly obtained. With the in-memory credential store,
  \<open>get_access_token\<close> returns the stored token only if it does not expire within the skew; otherwise it returns a
  token the endpoint has just issued for the stored, non-empty refresh token and the granted scopes, that token is the
  one stored for the next call, and a refresh token is still stored with it: the new one, or the old one when the
  endpoint sent none.\<close>

theorem access_token_fresh:
  "memory_credentials m \<Longrightarrow> get_access_token skew now received_at m = (Inr token, m') \<Longrightarrow>
   \<exists>credentials tokens. stored m = Some credentials \<and> sc_token_set credentials = Some tokens \<and>
     (if token_fresh tokens now skew then token = ts_access_token tokens \<and> stored m' = stored m \<and> am_world m' = am_world m
      else \<exists>endpoint rt result credentials' tokens'. am_token_endpoint m = Some endpoint \<and>
        ts_refresh_token tokens = Some rt \<and> rt \<noteq> [] \<and>
        fst (tp_refresh_access_token endpoint (refresh_request m rt (sc_granted_scopes credentials)) (am_world m)) = Inr result \<and>
        token = ts_access_token (tr_token_set result) \<and>
        stored m' = Some credentials' \<and> sc_token_set credentials' = Some tokens' \<and> ts_access_token tokens' = token \<and>
        ts_refresh_token tokens' = (if ts_refresh_token (tr_token_set result) = None then Some rt else ts_refresh_token (tr_token_set result)))"
proof -
  assume m: "memory_credentials m" and run: "get_access_token skew now received_at m = (Inr token, m')"
  define m1 where "m1 = m\<lparr>am_credential_store := CredentialMemory (credential_entries (am_credential_store m))\<rparr>"
  have m1: "memory_credentials m1" "stored m1 = stored m" "am_token_endpoint m1 = am_token_endpoint m" "am_world m1 = am_world m"
    "refresh_request m1 = refresh_request m"
    using m by (simp_all add: m1_def memory_credentials_def manager_credential_key_def stored_def refresh_request_def fun_eq_iff)
  note run' = run [unfolded get_access_token_def credential_store_memory(1) [OF m] m1_def [symmetric] prod.case sum.case]
  obtain credentials tokens where c: "stored m = Some credentials" "sc_token_set credentials = Some tokens"
    using run' by (auto split: option.splits)
  show ?thesis
  proof (cases "token_fresh tokens now skew")
    case True
    then show ?thesis using run' c m1 by (auto simp: token_fresh_def)
  next
    case False
    then obtain refreshed where r: "refresh_access_token received_at m1 = (Inr refreshed, m')" "token = ts_access_token (tr_token_set refreshed)"
      using run' c by (auto simp: token_fresh_def split: if_splits prod.splits sum.splits)
    from m1(1) r(1) obtain credentials1 current endpoint rt result where R: "stored m1 = Some credentials1" "sc_token_set credentials1 = Some current"
      "am_token_endpoint m1 = Some endpoint" "ts_refresh_token current = Some rt" "rt \<noteq> []"
      "fst (tp_refresh_access_token endpoint (refresh_request m1 rt (sc_granted_scopes credentials1)) (am_world m1)) = Inr result"
      "refreshed = keep_refresh_token current result"
      "\<exists>credentials'. stored m' = Some credentials' \<and> sc_token_set credentials' = Some (tr_token_set refreshed) \<and>
        sc_client_id credentials' = sc_client_id credentials1"
      by (rule refresh_result)
    then have "credentials1 = credentials" "current = tokens" using c m1(2) by simp_all
    then show ?thesis using R c m1 False r(2) by auto
  qed
qed

definition token_manager :: "nat authorization_manager" where
  "token_manager = sample_manager\<lparr>am_credential_store := CredentialMemory
     [(manager_credential_key sample_manager,
       \<lparr>sc_client_id = ''c&1'', sc_token_set = Some sample_tokens, sc_granted_scopes = [''a''], sc_token_received_at = Some 6, sc_metadata = []\<rparr>)]\<rparr>"

theorem access_token_fresh_witness:
  "\<exists>m'. get_access_token 30 50 60 token_manager = (Inr ''at2'', m') \<and>
     (\<exists>c t. stored m' = Some c \<and> sc_token_set c = Some t \<and> ts_access_token t = ''at2'' \<and> ts_refresh_token t = Some ''rt'')"
proof -
  have key: "manager_credential_key token_manager = manager_credential_key sample_manager" by (simp add: token_manager_def manager_credential_key_def)
  have fits: "credential_key_fits (manager_credential_key sample_manager)"
    by (simp add: credential_key_fits_def manager_credential_key_def sample_manager_def new_manager_def sample_server_def sample_client_def
        string_fits_def metadata_fits_def)
  then have mem: "memory_credentials token_manager"
    unfolding memory_credentials_def key by (simp add: token_manager_def mem_inv_def)
  define cred where "cred = \<lparr>sc_client_id = ''c&1'', sc_token_set = Some sample_tokens, sc_granted_scopes = [''a''],
    sc_token_received_at = Some 6, sc_metadata = []\<rparr>"
  have st: "stored token_manager = Some cred"
    using fits credential_key_matches_exact [OF fits fits]
    by (simp add: stored_def key cred_def) (simp add: token_manager_def credentials_load_def mem_load_def)
  have "\<exists>m'. get_access_token 30 50 60 token_manager = (Inr ''at2'', m')"
  proof -
    define m1 where "m1 = token_manager\<lparr>am_credential_store := CredentialMemory (credential_entries (am_credential_store token_manager))\<rparr>"
    have m1: "m1 = token_manager" by (simp add: m1_def token_manager_def)
    have ep: "am_token_endpoint token_manager = Some sample_endpoint" by (simp add: token_manager_def sample_manager_memory(2))
    have load: "credential_store_load (manager_credential_key token_manager) token_manager = (Inr (Some cred), token_manager)"
      using credential_store_memory(1) [OF mem] st m1 by (simp add: m1_def)
    have "fst (refresh_access_token 60 token_manager) = Inr (keep_refresh_token sample_tokens
        \<lparr>tr_token_set = sample_tokens\<lparr>ts_access_token := ''at2'', ts_refresh_token := None\<rparr>, tr_refresh_token_rotated = True\<rparr>)"
      unfolding refresh_access_token_def ep option.case load prod.case sum.case
      by (simp add: cred_def sample_tokens_def sample_endpoint_def in_world_def credential_store_save_def Let_def token_manager_def)
    then obtain m2 where "refresh_access_token 60 token_manager = (Inr (keep_refresh_token sample_tokens
        \<lparr>tr_token_set = sample_tokens\<lparr>ts_access_token := ''at2'', ts_refresh_token := None\<rparr>, tr_refresh_token_rotated = True\<rparr>), m2)"
      by (metis prod.collapse)
    then show ?thesis
      unfolding get_access_token_def load prod.case sum.case by (simp add: cred_def) (simp add: sample_tokens_def)
  qed
  then obtain m' where run: "get_access_token 30 50 60 token_manager = (Inr ''at2'', m')" by blast
  have "\<not> token_fresh sample_tokens 50 30" by (simp add: token_fresh_def sample_tokens_def)
  then show ?thesis
    using access_token_fresh [OF mem run] run st by (auto simp: cred_def token_manager_def sample_manager_def sample_endpoint_def sample_tokens_def)
qed

end
