(* ===== verification/Auth_Orchestrator.thy ===== *)
theory Auth_Orchestrator
  imports Auth_Flow
begin

text \<open>
  auth/client_orchestrator.hpp: the flow that drives the authorization manager from discovery to the first token,
  and the builder that checks its parts. The metadata endpoint, the token endpoint, the PKCE generator and the
  callbacks of the application are parameters that act on their world; the clock readings of one run of \<open>authorize\<close>
  are a record.
\<close>

section \<open>The state parameter\<close>

definition kHex :: string where
  "kHex = ''0123456789abcdef''"

fun state_digits :: "nat \<Rightarrow> uint64 \<Rightarrow> string" where
  "state_digits 0 seed = []"
| "state_digits (Suc n) seed =
     (let seed' = seed * 6364136223846793005 + 1442695040888963407 in
      kHex ! unat (drop_bit 16 seed' AND 0xF) # state_digits n seed')"

text \<open>\<open>generate_state\<close>: 32 digits of a linear congruential generator seeded with the count of the clock.\<close>

definition generate_state :: "int \<Rightarrow> string" where
  "generate_state now = state_digits 32 (word_of_int now)"

section \<open>The orchestrator\<close>

record orchestrator_config =
  og_resource_url :: string
  og_client_name :: string
  og_scopes :: "string list"
  og_redirect_uri :: string
  og_callback_timeout :: int
  og_refresh_skew :: int
  og_client_id :: "string option"

definition default_orchestrator_config :: orchestrator_config where
  "default_orchestrator_config = \<lparr>og_resource_url = [], og_client_name = ''MCP Client'', og_scopes = [], og_redirect_uri = [],
     og_callback_timeout = 300, og_refresh_skew = 30, og_client_id = None\<rparr>"

record 'w oauth_client_callback =
  ob_present_authorization_url :: "string \<Rightarrow> 'w \<Rightarrow> unit result \<times> 'w"
  ob_wait_for_callback :: "int \<Rightarrow> 'w \<Rightarrow> (string \<times> string) result \<times> 'w"

type_synonym 'w pkce_generator = "'w \<Rightarrow> pkce_challenge result \<times> 'w"

record 'w orchestrator =
  oo_config :: orchestrator_config
  oo_callback :: "'w oauth_client_callback"
  oo_metadata_endpoint :: "'w metadata_endpoint"
  oo_token_endpoint :: "'w token_endpoint"
  oo_pkce_generator :: "'w pkce_generator"
  oo_registration_endpoint :: "'w registration_endpoint option"
  oo_manager :: "'w authorization_manager"
  oo_metadata :: "authorization_server_metadata option"
  oo_protected_resource :: "protected_resource_metadata option"

text \<open>The readings of the clock in one run: for the state, for its creation, on the callback, on receiving tokens.\<close>

record flow_times =
  ft_state :: int
  ft_created :: int
  ft_callback :: int
  ft_received :: int

text \<open>Steps 2 and 3: the manager is configured and gets its client id.\<close>

definition configured_manager :: "'w orchestrator \<Rightarrow> authorization_server_metadata \<Rightarrow> 'w authorization_manager \<Rightarrow> 'w authorization_manager" where
  "configured_manager orch metadata m =
     (let m1 = m\<lparr>am_resource := og_resource_url (oo_config orch), am_metadata := metadata,
            am_token_endpoint := Some (oo_token_endpoint orch)\<rparr> in
      case oo_registration_endpoint orch of
        None \<Rightarrow> m1
      | Some endpoint \<Rightarrow> m1\<lparr>am_registration_endpoint := Some endpoint\<rparr>)"

definition select_client :: "orchestrator_config \<Rightarrow> ('w, oauth_client_config) manager_op" where
  "select_client config m =
     (case og_client_id config of
        None \<Rightarrow> configure_client_for_authorization
          \<lparr>ci_client_id_metadata_url = None, ci_client_name = og_client_name config, ci_redirect_uri = og_redirect_uri config,
           ci_scopes = og_scopes config, ci_headers = [], ci_metadata = []\<rparr> m
      | Some client_id \<Rightarrow> configure_client_id client_id (og_redirect_uri config) (og_scopes config) m)"

text \<open>Steps 4 to 7: PKCE and state, the authorization URL, the callback, the exchange.\<close>

definition run_session :: "'w orchestrator \<Rightarrow> flow_times \<Rightarrow> ('w, token_set) manager_op" where
  "run_session orch clk m =
     (case in_world (oo_pkce_generator orch) m of
        (Inl e, m1) \<Rightarrow> (Inl e, m1)
      | (Inr pkce, m1) \<Rightarrow>
          (case start_session
                  \<lparr>sr_client = \<lparr>ci_client_id_metadata_url = None, ci_client_name = og_client_name (oo_config orch),
                     ci_redirect_uri = oc_redirect_uri (am_client m1), ci_scopes = og_scopes (oo_config orch), ci_headers = [],
                     ci_metadata = []\<rparr>,
                   sr_pkce = pkce, sr_state = generate_state (ft_state clk), sr_additional_authorization_parameters = []\<rparr>
                  (ft_created clk) m1 of
             (Inl e, m2) \<Rightarrow> (Inl e, m2)
           | (Inr session, m2) \<Rightarrow>
               (case in_world (ob_present_authorization_url (oo_callback orch) (au_url (os_authorization session))) m2 of
                  (Inl e, m3) \<Rightarrow> (Inl e, m3)
                | (Inr _, m3) \<Rightarrow>
                    (case in_world (ob_wait_for_callback (oo_callback orch) (og_callback_timeout (oo_config orch))) m3 of
                       (Inl e, m4) \<Rightarrow> (Inl e, m4)
                     | (Inr (code, callback_state), m4) \<Rightarrow>
                         exchange_authorization_code code callback_state (ft_callback clk) (ft_received clk) m4))))"

definition authorize :: "flow_times \<Rightarrow> 'w orchestrator \<Rightarrow> token_set result \<times> 'w orchestrator" where
  "authorize clk orch =
     (case discover (oo_metadata_endpoint orch) (og_resource_url (oo_config orch)) default_decision
             \<lparr>mo_headers = [], mo_authorization_server_metadata_urls = []\<rparr> (am_world (oo_manager orch)) of
        (Inl e, w) \<Rightarrow> (Inl e, orch\<lparr>oo_manager := (oo_manager orch)\<lparr>am_world := w\<rparr>\<rparr>)
      | (Inr found, w) \<Rightarrow>
          let orch1 = orch\<lparr>oo_manager := (oo_manager orch)\<lparr>am_world := w\<rparr>, oo_metadata := md_authorization_server found,
                oo_protected_resource := Some (md_protected_resource found)\<rparr> in
          (case md_authorization_server found of
             None \<Rightarrow> (Inl (make_oauth_error OAuthMetadataDiscoveryFailed
                        ''no authorization server metadata discovered for resource'' (og_resource_url (oo_config orch))), orch1)
           | Some metadata \<Rightarrow>
               (case select_client (oo_config orch) (configured_manager orch metadata (oo_manager orch1)) of
                  (Inl e, m) \<Rightarrow> (Inl e, orch1\<lparr>oo_manager := m\<rparr>)
                | (Inr _, m) \<Rightarrow> (case run_session orch clk m of (r, m') \<Rightarrow> (r, orch1\<lparr>oo_manager := m'\<rparr>)))))"

definition orchestrator_access_token :: "int \<Rightarrow> int \<Rightarrow> 'w orchestrator \<Rightarrow> string result \<times> 'w orchestrator" where
  "orchestrator_access_token now received_at orch =
     (case get_access_token (og_refresh_skew (oo_config orch)) now received_at (oo_manager orch) of
        (r, m) \<Rightarrow> (r, orch\<lparr>oo_manager := m\<rparr>))"

definition handle_auth_response :: "http_response_metadata \<Rightarrow> int \<Rightarrow> 'w orchestrator \<Rightarrow> oauth_refresh_retry_result result \<times> 'w orchestrator" where
  "handle_auth_response response received_at orch =
     (case refresh_after_unauthorized_response response received_at (oo_manager orch) of
        (r, m) \<Rightarrow> (r, orch\<lparr>oo_manager := m\<rparr>))"

section \<open>The builder\<close>

record 'w flow_builder =
  fb_config :: orchestrator_config
  fb_callback :: "'w oauth_client_callback option"
  fb_metadata_endpoint :: "'w metadata_endpoint option"
  fb_token_endpoint :: "'w token_endpoint option"
  fb_pkce_generator :: "'w pkce_generator option"
  fb_registration_endpoint :: "'w registration_endpoint option"

definition validate_flow :: "'w flow_builder \<Rightarrow> unit result" where
  "validate_flow b =
     (if og_resource_url (fb_config b) = [] then Inl (make_oauth_error OAuthInvalidRequest ''resource_url is required'' [])
      else if fb_callback b = None then Inl (make_oauth_error OAuthInvalidRequest ''OAuth client callback is required'' [])
      else if fb_metadata_endpoint b = None then Inl (make_oauth_error OAuthInvalidRequest ''OAuth metadata endpoint is required'' [])
      else if fb_token_endpoint b = None then Inl (make_oauth_error OAuthInvalidRequest ''OAuth token endpoint is required'' [])
      else if fb_pkce_generator b = None then Inl (make_oauth_error OAuthInvalidRequest ''PKCE generator is required'' [])
      else Inr ())"

text \<open>\<open>AuthorizationManager manager_\<close> is default-constructed.\<close>

definition empty_server_metadata :: authorization_server_metadata where
  "empty_server_metadata = \<lparr>as_issuer = [], as_authorization_endpoint = [], as_token_endpoint = [], as_registration_endpoint = None,
     as_jwks_uri = None, as_response_types_supported = [], as_grant_types_supported = [], as_code_challenge_methods_supported = [],
     as_token_endpoint_auth_methods_supported = [], as_dpop_signing_alg_values_supported = [], as_scopes_supported = [],
     as_metadata = []\<rparr>"

definition empty_client_config :: oauth_client_config where
  "empty_client_config = \<lparr>oc_client_id = [], oc_client_secret = None, oc_redirect_uri = [], oc_scopes = [], oc_metadata = []\<rparr>"

definition build_flow :: "'w flow_builder \<Rightarrow> 'w \<Rightarrow> 'w orchestrator result" where
  "build_flow b w =
     rbind (validate_flow b) (\<lambda>_.
       Inr \<lparr>oo_config = fb_config b, oo_callback = the (fb_callback b), oo_metadata_endpoint = the (fb_metadata_endpoint b),
         oo_token_endpoint = the (fb_token_endpoint b), oo_pkce_generator = the (fb_pkce_generator b),
         oo_registration_endpoint = fb_registration_endpoint b,
         oo_manager = new_manager [] empty_server_metadata empty_client_config w, oo_metadata = None, oo_protected_resource = None\<rparr>)"

section \<open>How many states there are\<close>

lemma length_state_digits: "length (state_digits n s) = n"
  by (induction n arbitrary: s) (simp_all add: Let_def)

lemma length_generate_state: "length (generate_state now) = 32"
  by (simp only: generate_state_def length_state_digits)

lemma lcg_low_bits:
  fixes s t a c :: uint64
  assumes "uint s mod 2 ^ 20 = uint t mod 2 ^ 20"
  shows "uint (s * a + c) mod 2 ^ 20 = uint (t * a + c) mod 2 ^ 20"
proof -
  have low: "uint (u * a + c) mod 2 ^ 20 = (uint u * uint a + uint c) mod 2 ^ 20" for u
  proof -
    have "uint (u * a + c) = (uint u * uint a + uint c) mod 2 ^ 64" by (simp add: uint_word_ariths mod_simps)
    then show ?thesis using mod_mod_cancel [of "2 ^ 20 :: int" "2 ^ 64" "uint u * uint a + uint c"] by simp
  qed
  have "(uint s * uint a + uint c) mod 2 ^ 20 = (uint t * uint a + uint c) mod 2 ^ 20"
    using assms by (intro mod_add_cong mod_mult_cong refl)
  then show ?thesis by (simp only: low)
qed

lemma digit_low_bits: "unat (drop_bit 16 (s :: uint64) AND 0xF) = nat (uint s mod 2 ^ 20 div 2 ^ 16)"
proof -
  have "uint (drop_bit 16 s AND 0xF) = drop_bit 16 (uint s) AND 15"
    using uint_lt2p [of s] by (simp add: unsigned_and_eq unsigned_drop_bit_eq take_bit_int_eq_self)
  also have "\<dots> = take_bit 4 (drop_bit 16 (uint s))" by (simp add: take_bit_eq_mask mask_eq_exp_minus_1)
  also have "\<dots> = drop_bit 16 (take_bit 20 (uint s))" by (simp add: drop_bit_take_bit)
  also have "\<dots> = uint s mod 2 ^ 20 div 2 ^ 16" by (simp only: take_bit_eq_mod drop_bit_eq_div)
  finally have "uint (drop_bit 16 s AND 0xF) = uint s mod 2 ^ 20 div 2 ^ 16" .
  then show ?thesis by (metis nat_uint_eq)
qed

lemma state_digits_low_bits: "uint s mod 2 ^ 20 = uint t mod 2 ^ 20 \<Longrightarrow> state_digits n s = state_digits n t"
proof (induction n arbitrary: s t)
  case (Suc n)
  note low = lcg_low_bits [OF Suc.prems, of 6364136223846793005 1442695040888963407]
  have "unat (drop_bit 16 (s * 6364136223846793005 + 1442695040888963407) AND 0xF) =
      unat (drop_bit 16 (t * 6364136223846793005 + 1442695040888963407) AND 0xF)"
    by (simp only: digit_low_bits low)
  with Suc.IH [OF low] show ?case by (simp only: state_digits.simps Let_def)
qed simp

text \<open>C36: the state parameter of a flow takes at most 2^20 values. It has 32 digits, but each of them depends only on the low
  20 bits of the clock, so that two flows started a multiple of 2^20 nanoseconds apart (about a millisecond) have
  the same state, and there are at most 2^20 states.\<close>

theorem generated_states:
  "length (generate_state now) = 32 \<and> (now mod 2 ^ 20 = now' mod 2 ^ 20 \<longrightarrow> generate_state now = generate_state now') \<and>
   finite (range generate_state) \<and> card (range generate_state) \<le> 2 ^ 20"
proof -
  have same: "generate_state a = generate_state b" if "a mod 2 ^ 20 = b mod 2 ^ 20" for a b :: int
  proof -
    have "uint (word_of_int x :: uint64) mod 2 ^ 20 = x mod 2 ^ 20" for x
      using mod_mod_cancel [of "2 ^ 20 :: int" "2 ^ 64" x] by (simp add: uint_word_of_int)
    then have "uint (word_of_int a :: uint64) mod 2 ^ 20 = uint (word_of_int b :: uint64) mod 2 ^ 20" using that by simp
    then show ?thesis unfolding generate_state_def by (rule state_digits_low_bits)
  qed
  have sub: "range generate_state \<subseteq> generate_state ` {0 ..< 2 ^ 20}"
  proof
    fix x assume "x \<in> range generate_state"
    then obtain a where "x = generate_state a" by blast
    then have "x = generate_state (a mod 2 ^ 20)" using same [of a "a mod 2 ^ 20"] by simp
    moreover have "a mod 2 ^ 20 \<in> {0 ..< 2 ^ 20 :: int}" by simp
    ultimately show "x \<in> generate_state ` {0 ..< 2 ^ 20}" by blast
  qed
  have "card (range generate_state) \<le> card (generate_state ` {0 ..< 2 ^ 20 :: int})" using sub by (intro card_mono) simp_all
  also have "\<dots> \<le> card {0 ..< 2 ^ 20 :: int}" by (rule card_image_le) simp
  finally have "card (range generate_state) \<le> 2 ^ 20" by simp
  moreover have "finite (range generate_state)" using finite_subset [OF sub] by simp
  ultimately show ?thesis using same [of now now'] length_generate_state by blast
qed

theorem generated_states_witness:
  "(5 :: int) mod 2 ^ 20 = 1048581 mod 2 ^ 20 \<and> generate_state 5 = generate_state 1048581"
  using generated_states [of 5 1048581] by simp

section \<open>What a completed flow has established\<close>

lemma generate_state_fits [simp]: "string_fits (generate_state now)"
  by (simp only: string_fits_def length_generate_state) simp

lemma start_authorization_pending:
  assumes "memory_states m" "string_fits st" "start_authorization scopes pkce st additional now m = (Inr r, m')"
  shows "\<exists>v. pending_state m' st = Some v \<and> sa_created_at v = now \<and> sa_pkce v = pkce"
proof -
  have r: "sa_state (au_state r) = st \<and> sa_created_at (au_state r) = now \<and> sa_pkce (au_state r) = pkce"
    using assms(3) by (auto simp: start_authorization_def build_authorization_url_def Let_def split: option.splits sum.splits prod.splits)
  then have "m' = m\<lparr>am_state_store := StateMemory (states_save (state_entries (am_state_store m)) st (au_state r)), am_state := AuthorizationPending\<rparr>"
    using assms(3) state_store_memory(1) [OF assms(1)] by (auto simp: start_authorization_def Let_def split: sum.splits)
  then show ?thesis
    using r assms(1,2) states.load_save [of "state_entries (am_state_store m)" st st "au_state r"]
    by (simp add: pending_state_def memory_states_def)
qed

lemma store_tokens_result: "store_tokens t requested received_at m = (Inr tokens, m') \<Longrightarrow> t = tokens"
  by (auto simp: store_tokens_def Let_def split: prod.splits sum.splits)

lemma exchange_tail:
  assumes "memory_states m" "exchange_authorization_code code st now received_at m = (Inr tokens, m')"
  shows "\<exists>m3 requested t. keeps_flow m (m3\<lparr>am_state_store := am_state_store m\<rparr>) \<and> am_credential_store m3 = am_credential_store m \<and>
    store_tokens t requested received_at m3 = (Inr tokens, m')"
proof -
  have remove: "state_store_remove st (m\<lparr>am_state_store := StateMemory es\<rparr>) = (Inr (), m\<lparr>am_state_store := StateMemory (states_remove es st)\<rparr>)" for es
    by (simp add: state_store_remove_def)
  obtain endpoint where ep: "am_token_endpoint m = Some endpoint"
    using assms(2) by (cases "am_token_endpoint m") (simp_all add: exchange_authorization_code_def)
  obtain v where v: "pending_state m st = Some v"
    using assms(2) state_store_memory(2) [OF assms(1)] ep by (cases "pending_state m st") (simp_all add: exchange_authorization_code_def)
  define m2 where "m2 = m\<lparr>am_state_store := StateMemory (states_remove (state_entries (am_state_store m)) st)\<rparr>"
  define p where "p = in_world (tp_exchange_authorization_code endpoint
     \<lparr>te_client = am_client m2, te_authorization_server = am_metadata m2, te_resource = am_resource m2,
      te_authorization_code = code, te_state = v, te_additional_parameters = []\<rparr>) m2"
  have run: "(if state_expired m2 v now then (Inl (make_oauth_error OAuthAuthorizationRequired ''authorization state has expired'' []), m2)
      else case p of (Inl e, m3) \<Rightarrow> (Inl e, m3) | (Inr t, m3) \<Rightarrow> store_tokens t (sa_requested_scopes v) received_at m3) = (Inr tokens, m')"
    using assms(2) unfolding p_def
    by (simp add: exchange_authorization_code_def ep v state_store_memory(2) [OF assms(1)] remove m2_def [symmetric] split del: if_split)
  then obtain t m3 where p: "p = (Inr t, m3)" "store_tokens t (sa_requested_scopes v) received_at m3 = (Inr tokens, m')"
    by (auto split: if_splits sum.splits prod.splits)
  have "keeps_flow m2 m3 \<and> am_credential_store m3 = am_credential_store m2" using in_world_frame p(1) unfolding p_def by blast
  then show ?thesis using p(2) by (auto simp: keeps_flow_def m2_def)
qed

lemma exchange_stores:
  assumes "memory_states m" "exchange_authorization_code code st now received_at m = (Inr tokens, m')" "memory_credentials m"
  shows "\<exists>c. stored m' = Some c \<and> sc_token_set c = Some tokens"
proof -
  obtain m3 requested where m3: "keeps_flow m (m3\<lparr>am_state_store := am_state_store m\<rparr>)" "am_credential_store m3 = am_credential_store m"
    "store_tokens tokens requested received_at m3 = (Inr tokens, m')"
    using exchange_tail [OF assms(1,2)] store_tokens_result by metis
  define sc where "sc = (if ts_scopes tokens = [] then requested else ts_scopes tokens)"
  define m4 where "m4 = m3\<lparr>am_current_scopes := sc, am_scope_upgrade_attempts := 0\<rparr>"
  have mem: "memory_credentials m4"
    using assms(3) m3(1,2) by (simp add: m4_def memory_credentials_def manager_credential_key_def keeps_flow_def)
  show ?thesis
    using m3(3) stored_saved [OF mem]
    by (auto simp: store_tokens_def Let_def sc_def [symmetric] m4_def [symmetric] credential_store_memory(2) [OF mem])
qed

lemma configure_credentials:
  "configure_client_for_authorization options m = (r, m') \<Longrightarrow> am_credential_store m' = am_credential_store m"
  by (auto simp: configure_client_for_authorization_def configure_client_id_metadata_url_def configure_client_id_def register_client_def
      configure_client_def Let_def dest!: in_world_frame split: option.splits if_splits sum.splits prod.splits)

lemma start_authorization_credentials:
  "start_authorization scopes pkce st additional now m = (r, m') \<Longrightarrow> am_credential_store m' = am_credential_store m"
  by (auto simp: start_authorization_def state_store_save_def Let_def dest!: in_world_frame
      split: sum.splits prod.splits state_store_ref.splits)

lemma start_session_result:
  assumes "memory_states m" "string_fits (sr_state request)" "start_session request now m = (Inr session, m')"
  shows "memory_states m' \<and> am_credential_store m' = am_credential_store m \<and> am_authorization_state_ttl m' = am_authorization_state_ttl m \<and>
    am_token_endpoint m' = am_token_endpoint m \<and>
    (\<exists>v. pending_state m' (sr_state request) = Some v \<and> sa_created_at v = now) \<and>
    (\<forall>key. string_fits key \<and> key \<noteq> sr_state request \<and> pending_state m key = None \<longrightarrow> pending_state m' key = None)"
proof -
  have within: "states_within (Some (sr_state request)) m m'" using start_session_states [OF assms(1,2), of now] assms(3) by simp
  define p where "p = (if oc_client_id (am_client m) = [] \<or> oc_redirect_uri (am_client m) \<noteq> ci_redirect_uri (sr_client request)
            then configure_client_for_authorization (sr_client request) m else (Inr (am_client m), m))"
  have frame: "keeps_flow (m\<lparr>am_client := am_client (snd p)\<rparr>) (snd p)" "am_credential_store (snd p) = am_credential_store m"
    using configure_frame [of "sr_client request" m "fst p" "snd p"] configure_credentials [of "sr_client request" m "fst p" "snd p"]
    by (auto simp: p_def split: if_splits)
  then have mem: "memory_states (snd p)" using assms(1) by (auto simp: keeps_flow_def memory_states_def)
  obtain a where a: "start_authorization (ci_scopes (sr_client request)) (sr_pkce request) (sr_state request)
      (sr_additional_authorization_parameters request) now (snd p) = (Inr a, m')"
    using assms(3) by (cases p) (auto simp: start_session_def p_def [symmetric] split: sum.splits prod.splits)
  show ?thesis
    using within frame(2) start_authorization_pending [OF mem assms(2) a] start_authorization_credentials [OF a]
    by (auto simp: states_within_def)
qed

lemma run_session_result:
  assumes "memory_states m" "run_session orch clk m = (Inr tokens, m')"
    and fits: "\<And>t w code st w'. ob_wait_for_callback (oo_callback orch) t w = (Inr (code, st), w') \<Longrightarrow> string_fits st"
    and none: "\<And>key. string_fits key \<Longrightarrow> pending_state m key = None"
    and key: "mem_inv credential_key_fits (credential_entries (am_credential_store m))"
      "case am_credential_store m of CredentialObject _ \<Rightarrow> False | _ \<Rightarrow> True" "credential_key_fits (manager_credential_key m')"
  shows "ft_callback clk < ft_created clk + am_authorization_state_ttl m * 1000000000 \<and>
    (\<exists>c. stored m' = Some c \<and> sc_token_set c = Some tokens) \<and> (\<forall>key. string_fits key \<longrightarrow> pending_state m' key = None)"
proof -
  obtain pkce m1 where m1: "in_world (oo_pkce_generator orch) m = (Inr pkce, m1)"
    using assms(2) by (auto simp: run_session_def split: prod.splits sum.splits)
  define request where "request = \<lparr>sr_client = \<lparr>ci_client_id_metadata_url = None, ci_client_name = og_client_name (oo_config orch),
                     ci_redirect_uri = oc_redirect_uri (am_client m1), ci_scopes = og_scopes (oo_config orch), ci_headers = [],
                     ci_metadata = []\<rparr>,
                   sr_pkce = pkce, sr_state = generate_state (ft_state clk), sr_additional_authorization_parameters = []\<rparr>"
  have st: "sr_state request = generate_state (ft_state clk)" by (simp add: request_def)
  note run = assms(2) [unfolded run_session_def m1 prod.case sum.case request_def [symmetric]]
  obtain session m2 m3 code s m4 where run2: "start_session request (ft_created clk) m1 = (Inr session, m2)"
    "in_world (ob_present_authorization_url (oo_callback orch) (au_url (os_authorization session))) m2 = (Inr (), m3)"
    "in_world (ob_wait_for_callback (oo_callback orch) (og_callback_timeout (oo_config orch))) m3 = (Inr (code, s), m4)"
    "exchange_authorization_code code s (ft_callback clk) (ft_received clk) m4 = (Inr tokens, m')"
    using run by (auto split: prod.splits sum.splits)
  have f1: "keeps_flow m m1" "am_credential_store m1 = am_credential_store m" using in_world_frame [OF m1] by simp_all
  then have mem1: "memory_states m1" and none1: "\<And>key. string_fits key \<Longrightarrow> pending_state m1 key = None"
    using assms(1) none by (simp_all add: keeps_flow_def memory_states_def pending_state_def)
  note s2 = start_session_result [OF mem1 _ run2(1), unfolded st, simplified]
  have f4: "keeps_flow m2 m4" "am_credential_store m4 = am_credential_store m2"
    using in_world_frame [OF run2(2)] in_world_frame [OF run2(3)] by (auto simp: keeps_flow_def)
  have mem4: "memory_states m4" "\<And>key. pending_state m4 key = pending_state m2 key"
    using s2 f4 by (auto simp: keeps_flow_def memory_states_def pending_state_def)
  have sfits: "string_fits s" using run2(3) fits by (auto simp: in_world_def split: prod.splits)
  have "fst (exchange_authorization_code code s (ft_callback clk) (ft_received clk) m4) = Inr tokens" using run2(4) by simp
  then obtain endpoint v where v: "pending_state m4 s = Some v"
    "ft_callback clk < sa_created_at v + am_authorization_state_ttl m4 * 1000000000" and ep: "am_token_endpoint m4 = Some endpoint"
    by (rule exchange_result [OF mem4(1)])
  have "s = generate_state (ft_state clk)" using v(1) mem4(2) s2 none1 [OF sfits] sfits by force
  then have in_time: "ft_callback clk < ft_created clk + am_authorization_state_ttl m * 1000000000"
    using v s2 mem4(2) f1 f4 by (auto simp: keeps_flow_def)
  have keys: "manager_credential_key m4 = manager_credential_key m'"
    using exchange_tail [OF mem4(1) run2(4)] by (auto simp: keeps_flow_def manager_credential_key_def dest!: store_tokens_frame)
  have "memory_credentials m4" using key f1(2) f4(2) s2 keys by (simp add: memory_credentials_def)
  then have stored: "\<exists>c. stored m' = Some c \<and> sc_token_set c = Some tokens" by (rule exchange_stores [OF mem4(1) run2(4)])
  have "pending_state m' k = None" if k: "string_fits k" for k
  proof (cases "k = s")
    case True
    then show ?thesis
      using exchange_forgets [OF mem4(1) sfits, of code "ft_callback clk" "ft_received clk"] ep run2(4) by simp
  next
    case False
    have "pending_state m4 k = None" using False k s2 mem4(2) none1 [OF k] \<open>s = generate_state (ft_state clk)\<close> by auto
    then show ?thesis
      using exchange_states [OF mem4(1) sfits, of None code "ft_callback clk" "ft_received clk"] run2(4) k by (simp add: states_within_def)
  qed
  then show ?thesis using in_time stored by blast
qed

lemma select_client_result:
  assumes "select_client config m = (Inr c, m')" "oc_redirect_uri (am_client m) = []"
  shows "og_redirect_uri config \<noteq> []"
  using assms
  by (auto simp: select_client_def configure_client_for_authorization_def register_client_def configure_client_id_def Let_def
      build_client_registration_request_def split: option.splits if_splits sum.splits prod.splits)

lemma select_client_frame:
  assumes "select_client config m = (r, m')"
  shows "keeps_flow (m\<lparr>am_client := am_client m'\<rparr>) m' \<and> am_credential_store m' = am_credential_store m"
proof (cases "og_client_id config")
  case None
  with assms have "configure_client_for_authorization \<lparr>ci_client_id_metadata_url = None, ci_client_name = og_client_name config,
      ci_redirect_uri = og_redirect_uri config, ci_scopes = og_scopes config, ci_headers = [], ci_metadata = []\<rparr> m = (r, m')"
    by (simp add: select_client_def)
  from configure_frame [OF this] configure_credentials [OF this] show ?thesis by blast
next
  case (Some client_id)
  then show ?thesis
    using assms by (auto simp: select_client_def configure_client_id_def configure_client_def keeps_flow_def Let_def split: if_splits)
qed

text \<open>C35: a flow that was built and completed has been on time and leaves its tokens in place. If \<open>authorize\<close> of a newly
  built flow returns tokens, the redirect URI was configured (there is no default for it), the callback came back
  less than 60 seconds after the state was created - whatever the configured callback timeout - an authorization
  server was discovered, the tokens are stored for \<open>get_access_token\<close>, and no authorization state is left pending.
  The states a callback delivers and the parts of the credential key are strings of representable size.\<close>

theorem authorize_outcome:
  "build_flow b w = Inr orch \<Longrightarrow> authorize clk orch = (Inr tokens, orch') \<Longrightarrow>
   (\<And>t w code st w'. ob_wait_for_callback (oo_callback orch) t w = (Inr (code, st), w') \<Longrightarrow> string_fits st) \<Longrightarrow>
   credential_key_fits (manager_credential_key (oo_manager orch')) \<Longrightarrow>
   og_redirect_uri (fb_config b) \<noteq> [] \<and> ft_callback clk < ft_created clk + 60 * 1000000000 \<and> oo_metadata orch' \<noteq> None \<and>
   (\<exists>c. stored (oo_manager orch') = Some c \<and> sc_token_set c = Some tokens) \<and>
   (\<forall>key. string_fits key \<longrightarrow> pending_state (oo_manager orch') key = None)"
proof -
  assume b: "build_flow b w = Inr orch" and run: "authorize clk orch = (Inr tokens, orch')"
    and fits: "\<And>t w code st w'. ob_wait_for_callback (oo_callback orch) t w = (Inr (code, st), w') \<Longrightarrow> string_fits st"
    and key: "credential_key_fits (manager_credential_key (oo_manager orch'))"
  have orch: "oo_manager orch = new_manager [] empty_server_metadata empty_client_config w" "oo_config orch = fb_config b"
    using b by (auto simp: build_flow_def rbind_eq_Inr)
  obtain w1 metadata c m m' where f:
    "select_client (oo_config orch) (configured_manager orch metadata ((oo_manager orch)\<lparr>am_world := w1\<rparr>)) = (Inr c, m)"
    "run_session orch clk m = (Inr tokens, m')" "oo_manager orch' = m'" "oo_metadata orch' = Some metadata"
    using run by (auto simp: authorize_def Let_def split: prod.splits sum.splits option.splits)
  define m0 where "m0 = configured_manager orch metadata ((oo_manager orch)\<lparr>am_world := w1\<rparr>)"
  have m0: "am_state_store m0 = StateNull" "am_credential_store m0 = CredentialNull" "am_authorization_state_ttl m0 = 60"
    "oc_redirect_uri (am_client m0) = []"
    by (auto simp: m0_def configured_manager_def orch new_manager_def kDefaultAuthorizationStateTtl_def empty_client_config_def Let_def
        split: option.split)
  have m: "am_state_store m = StateNull" "am_credential_store m = CredentialNull" "am_authorization_state_ttl m = 60"
    using select_client_frame [OF f(1)] m0 by (simp_all add: m0_def [symmetric] keeps_flow_def)
  have redirect: "og_redirect_uri (fb_config b) \<noteq> []" using select_client_result [OF f(1)] m0(4) orch(2) by (simp add: m0_def)
  have mem: "memory_states m" "\<And>key. string_fits key \<Longrightarrow> pending_state m key = None"
    "mem_inv credential_key_fits (credential_entries (am_credential_store m))"
    by (simp_all add: memory_states_def pending_state_def m mem_inv_def states_load_def mem_load_def)
  have "ft_callback clk < ft_created clk + am_authorization_state_ttl m * 1000000000 \<and>
    (\<exists>c. stored m' = Some c \<and> sc_token_set c = Some tokens) \<and> (\<forall>key. string_fits key \<longrightarrow> pending_state m' key = None)"
    using key f(3) m(2) by (intro run_session_result [OF mem(1) f(2) fits mem(2,3)]) simp_all
  then show ?thesis using redirect f(3,4) m(3) by simp
qed

definition sample_builder :: "nat flow_builder" where
  "sample_builder = \<lparr>fb_config = default_orchestrator_config\<lparr>og_resource_url := ''https://r'', og_redirect_uri := ''https://app'',
       og_client_id := Some ''c''\<rparr>,
     fb_callback = Some \<lparr>ob_present_authorization_url = (\<lambda>_ w. (Inr (), w)),
       ob_wait_for_callback = (\<lambda>_ w. (Inr (''code'', generate_state 5), w))\<rparr>,
     fb_metadata_endpoint = Some
       \<lparr>me_fetch_protected_resource_metadata = (\<lambda>_ w. (Inr \<lparr>pm_resource = ''https://r'', pm_authorization_servers = [''https://as''],
          pm_bearer_methods_supported = [], pm_resource_signing_alg_values_supported = [], pm_scopes_supported = [],
          pm_resource_name = None, pm_resource_documentation = None, pm_metadata = []\<rparr>, w)),
        me_fetch_authorization_server_metadata = (\<lambda>_ w. (Inr sample_server, w))\<rparr>,
     fb_token_endpoint = Some sample_endpoint, fb_pkce_generator = Some (\<lambda>w. (Inr (sa_pkce sample_state), w)),
     fb_registration_endpoint = None\<rparr>"

definition sample_times :: flow_times where
  "sample_times = \<lparr>ft_state = 5, ft_created = 10, ft_callback = 20, ft_received = 30\<rparr>"

lemma generate_state_not_Nil [simp]: "generate_state now \<noteq> []"
  using length_generate_state [of now] by fastforce

lemma sample_candidates:
  "build_protected_resource_metadata_urls ''https://r'' None \<noteq> []" "build_authorization_server_metadata_urls ''https://as'' \<noteq> []"
  by (simp_all add: build_protected_resource_metadata_urls_def build_authorization_server_metadata_urls_def metadata_discovery_url_is_safe_def
      url_has_fragment_def url_has_userinfo_def url_uses_https_def url_scheme_def url_host_def authority_host_def authority_part_def
      path_from_url_def origin_from_url_def strip_query_and_fragment_def append_unique_def auth_ascii_iequals_def lower_char_def numeral_3_eq_3
      url_contains_dot_segment.simps segment_is_dot_reference_def)

lemma append_unique_not_Nil: "xs \<noteq> [] \<Longrightarrow> [] \<notin> set xs \<Longrightarrow> fold append_unique xs ys \<noteq> []"
proof (induction xs arbitrary: ys)
  case (Cons x xs)
  have "fold append_unique zs us \<noteq> []" if "us \<noteq> []" for zs us
    using that by (induction zs arbitrary: us) (simp_all add: append_unique_def)
  moreover have "append_unique x ys \<noteq> []" using Cons.prems by (auto simp: append_unique_def)
  ultimately show ?case by simp
qed simp

definition sample_flow :: "nat orchestrator" where
  "sample_flow = projr (build_flow sample_builder 0)"

lemma sample_flow_built: "build_flow sample_builder 0 = Inr sample_flow"
  by (simp add: sample_flow_def build_flow_def validate_flow_def sample_builder_def default_orchestrator_config_def)

lemma sample_flow_sel:
  "oo_config sample_flow = default_orchestrator_config\<lparr>og_resource_url := ''https://r'', og_redirect_uri := ''https://app'', og_client_id := Some ''c''\<rparr>"
  "oo_callback sample_flow = \<lparr>ob_present_authorization_url = (\<lambda>_ w. (Inr (), w)), ob_wait_for_callback = (\<lambda>_ w. (Inr (''code'', generate_state 5), w))\<rparr>"
  "oo_token_endpoint sample_flow = sample_endpoint" "oo_pkce_generator sample_flow = (\<lambda>w. (Inr (sa_pkce sample_state), w))"
  "oo_registration_endpoint sample_flow = None" "oo_manager sample_flow = new_manager [] empty_server_metadata empty_client_config 0"
  by (simp_all add: sample_flow_def build_flow_def validate_flow_def sample_builder_def default_orchestrator_config_def)

lemma sample_discovery:
  "\<exists>pm. discover (oo_metadata_endpoint sample_flow) ''https://r'' default_decision \<lparr>mo_headers = [], mo_authorization_server_metadata_urls = []\<rparr> w =
     (Inr \<lparr>md_protected_resource = pm, md_authorization_server = Some sample_server\<rparr>, w)"
proof -
  obtain u us where u: "build_protected_resource_metadata_urls ''https://r'' None = u # us" using sample_candidates(1) by (meson list.exhaust)
  have "[] \<notin> set (build_authorization_server_metadata_urls ''https://as'')"
    by (simp add: build_authorization_server_metadata_urls_def Let_def set_append_unique)
  then have "fold append_unique (build_authorization_server_metadata_urls ''https://as'') [] \<noteq> []"
    by (rule append_unique_not_Nil [OF sample_candidates(2)])
  then obtain v vs where v: "fold append_unique (build_authorization_server_metadata_urls ''https://as'') [] = v # vs" by (meson list.exhaust)
  show ?thesis
    by (simp add: discover_def build_metadata_discovery_plan_def default_decision_def u v sample_flow_def build_flow_def validate_flow_def
        sample_builder_def default_orchestrator_config_def)
qed

definition sample_configured :: "nat authorization_manager" where
  "sample_configured = (new_manager ''https://r'' sample_server
     \<lparr>oc_client_id = ''c'', oc_client_secret = None, oc_redirect_uri = ''https://app'', oc_scopes = [], oc_metadata = []\<rparr> 0)
     \<lparr>am_token_endpoint := Some sample_endpoint\<rparr>"

lemma sample_select:
  "\<exists>c. select_client (oo_config sample_flow) (configured_manager sample_flow sample_server ((oo_manager sample_flow)\<lparr>am_world := 0\<rparr>)) =
     (Inr c, sample_configured)"
  by (simp add: select_client_def configured_manager_def configure_client_id_def configure_client_def sample_flow_sel
      default_orchestrator_config_def sample_configured_def new_manager_def empty_client_config_def Let_def)

definition sample_key :: credential_key where
  "sample_key = \<lparr>ck_resource = ''https://r'', ck_issuer = ''https://as'', ck_client_id = ''c'', ck_attributes = []\<rparr>"

lemma sample_start:
  "\<exists>session m2. start_session
     \<lparr>sr_client = \<lparr>ci_client_id_metadata_url = None, ci_client_name = n, ci_redirect_uri = ''https://app'', ci_scopes = [], ci_headers = [], ci_metadata = []\<rparr>,
      sr_pkce = sa_pkce sample_state, sr_state = generate_state 5, sr_additional_authorization_parameters = []\<rparr> 10 sample_configured = (Inr session, m2) \<and>
     am_world m2 = 0 \<and> am_token_endpoint m2 = Some sample_endpoint \<and> am_credential_store m2 = CredentialNull \<and>
     am_authorization_state_ttl m2 = 60 \<and> manager_credential_key m2 = sample_key"
proof -
  let ?rq = "\<lparr>ar_client = am_client sample_configured, ar_authorization_server = sample_server, ar_resource = ''https://r'',
    ar_scopes = add_offline_access_if_supported [] sample_server, ar_pkce = sa_pkce sample_state, ar_state = generate_state 5, ar_additional_parameters = []\<rparr>"
  have "authorization_url_error ?rq = None"
    by (simp add: authorization_url_error_def sample_configured_def new_manager_def sample_server_def sample_state_def
        url_uses_https_def redirect_uri_is_secure_def url_scheme_def auth_ascii_iequals_def lower_char_def numeral_3_eq_3)
  then obtain r where "build_authorization_url ?rq 10 = Inr r" by (simp add: build_authorization_url_def Let_def)
  then show ?thesis
    by (simp add: start_session_def start_authorization_def sample_configured_def new_manager_def state_store_save_def
        kDefaultAuthorizationStateTtl_def sample_key_def manager_credential_key_def) (simp add: sample_server_def)
qed

lemma sample_session:
  "\<exists>m'. run_session sample_flow sample_times sample_configured = (Inr sample_tokens, m') \<and> manager_credential_key m' = sample_key"
proof -
  have mem: "memory_states sample_configured" by (simp add: memory_states_def sample_configured_def new_manager_def mem_inv_def)
  have red: "oc_redirect_uri (am_client sample_configured) = ''https://app''" by (simp add: sample_configured_def new_manager_def)
  obtain session m2 where m2: "start_session
     \<lparr>sr_client = \<lparr>ci_client_id_metadata_url = None, ci_client_name = og_client_name (oo_config sample_flow), ci_redirect_uri = ''https://app'',
        ci_scopes = [], ci_headers = [], ci_metadata = []\<rparr>,
      sr_pkce = sa_pkce sample_state, sr_state = generate_state 5, sr_additional_authorization_parameters = []\<rparr> 10 sample_configured = (Inr session, m2)"
    "am_world m2 = 0" "am_token_endpoint m2 = Some sample_endpoint" "am_credential_store m2 = CredentialNull" "am_authorization_state_ttl m2 = 60"
    "manager_credential_key m2 = sample_key"
    using sample_start by blast
  from start_session_result [OF mem _ m2(1)]
  obtain v where v: "memory_states m2" "pending_state m2 (generate_state 5) = Some v" "sa_created_at v = 10" by auto
  define m3 where "m3 = m2\<lparr>am_world := am_world m2\<rparr>"
  have m3: "m3 = m2" by (simp add: m3_def)
  have ex: "\<exists>m'. exchange_authorization_code ''code'' (generate_state 5) 20 30 m2 = (Inr sample_tokens, m') \<and> manager_credential_key m' = sample_key"
    using v m2(2-6) state_store_memory(2) [OF v(1)]
    by (simp add: exchange_authorization_code_def state_store_remove_def state_expired_def in_world_def sample_endpoint_def store_tokens_def
        credential_store_save_def manager_credential_key_def Let_def)
  have w: "in_world (oo_pkce_generator sample_flow) sample_configured = (Inr (sa_pkce sample_state), sample_configured)"
    "in_world (ob_present_authorization_url (oo_callback sample_flow) url) m2 = (Inr (), m2)"
    "in_world (ob_wait_for_callback (oo_callback sample_flow) t) m2 = (Inr (''code'', generate_state 5), m2)" for url t
    using m3 by (simp_all add: in_world_def sample_flow_sel sample_configured_def m3_def)
  have cfg: "og_scopes (oo_config sample_flow) = []" by (simp add: sample_flow_sel default_orchestrator_config_def)
  show ?thesis
    using ex by (simp add: run_session_def w cfg red m2(1) sample_times_def)
qed

theorem authorize_outcome_witness:
  "\<exists>orch orch'. build_flow sample_builder 0 = Inr orch \<and> authorize sample_times orch = (Inr sample_tokens, orch') \<and>
     og_redirect_uri (fb_config sample_builder) \<noteq> [] \<and> ft_callback sample_times < ft_created sample_times + 60 * 1000000000 \<and>
     oo_metadata orch' \<noteq> None \<and> (\<exists>c. stored (oo_manager orch') = Some c \<and> sc_token_set c = Some sample_tokens)"
proof -
  obtain m' where m': "run_session sample_flow sample_times sample_configured = (Inr sample_tokens, m')" "manager_credential_key m' = sample_key"
    using sample_session by blast
  obtain pm c where d: "discover (oo_metadata_endpoint sample_flow) ''https://r'' default_decision \<lparr>mo_headers = [], mo_authorization_server_metadata_urls = []\<rparr> 0 =
     (Inr \<lparr>md_protected_resource = pm, md_authorization_server = Some sample_server\<rparr>, 0)"
    "select_client (oo_config sample_flow) (configured_manager sample_flow sample_server ((oo_manager sample_flow)\<lparr>am_world := 0\<rparr>)) = (Inr c, sample_configured)"
    using sample_discovery [of 0] sample_select by blast
  have url: "og_resource_url (oo_config sample_flow) = ''https://r''" "am_world (oo_manager sample_flow) = 0"
    by (simp_all add: sample_flow_sel default_orchestrator_config_def new_manager_def)
  obtain orch' where run: "authorize sample_times sample_flow = (Inr sample_tokens, orch')" "oo_manager orch' = m'"
    using m' d by (simp add: authorize_def url Let_def)
  have "credential_key_fits (manager_credential_key (oo_manager orch'))"
    using m'(2) run(2) by (simp add: sample_key_def credential_key_fits_def string_fits_def metadata_fits_def)
  moreover have "string_fits st" if "ob_wait_for_callback (oo_callback sample_flow) t w = (Inr (code, st), w')" for t w code st w'
    using that by (auto simp: sample_flow_sel)
  ultimately show ?thesis using authorize_outcome [OF sample_flow_built run(1)] sample_flow_built run(1) by blast
qed

end
