(* ===== verification/Auth_Endpoints.thy ===== *)
theory Auth_Endpoints
  imports Auth_Orchestrator Tool_Headers
begin

text \<open>
  The HTTP endpoints of the authorization: auth/http_metadata_endpoint.hpp, auth/http_token_endpoint.hpp,
  auth/jwks.hpp and auth/http_jwks_endpoint.hpp. The HTTP client is a function on a world; the JSON text reader
  (\<open>Json::parse\<close>, with its exception on the left) and writer (\<open>dump\<close>) are parameters.
\<close>

record oauth_http_response =
  oh_status_code :: int32
  oh_headers :: "string alist"
  oh_body :: string

text \<open>What \<open>Json::parse\<close> throws: a \<open>parse_error\<close>, or another \<open>Json::exception\<close> (a number out of range).\<close>

record json_exception =
  je_is_parse_error :: bool
  je_what :: string

type_synonym json_reader = "string \<Rightarrow> json_exception + json"

definition http_success :: "int32 \<Rightarrow> bool" where
  "http_success status \<longleftrightarrow> \<not> (sint status < 200 \<or> sint status \<ge> 300)"

section \<open>Members of a document\<close>

definition json_string_member :: "json \<Rightarrow> string \<Rightarrow> string option" where
  "json_string_member j key =
     (case jfind j key of
        None \<Rightarrow> None
      | Some v \<Rightarrow> if is_null v then None else get_string v)"

definition json_integer_member :: "json \<Rightarrow> string \<Rightarrow> int64 option" where
  "json_integer_member j key =
     (case jfind j key of
        None \<Rightarrow> None
      | Some v \<Rightarrow> if is_null v then None else if is_number_integer v then get_int64 v else None)"

definition string_member_or_empty :: "json \<Rightarrow> string \<Rightarrow> string" where
  "string_member_or_empty j key = (case json_string_member j key of Some s \<Rightarrow> s | None \<Rightarrow> [])"

definition string_list_or_empty :: "json \<Rightarrow> string \<Rightarrow> string list" where
  "string_list_or_empty j key =
     (case jfind j key of
        Some (JArray xs) \<Rightarrow> List.map_filter get_string xs
      | _ \<Rightarrow> [])"

text \<open>The text a member is kept with; a null member is dropped.\<close>

fun member_text :: "(json \<Rightarrow> string) \<Rightarrow> json \<Rightarrow> string option" where
  "member_text dump (JString s) = Some s"
| "member_text dump (JBool b) = Some (if b then ''true'' else ''false'')"
| "member_text dump JNull = None"
| "member_text dump j = Some (dump j)"

definition extension_metadata :: "(json \<Rightarrow> string) \<Rightarrow> string list \<Rightarrow> json \<Rightarrow> string alist" where
  "extension_metadata dump skipped j =
     List.map_filter (\<lambda>kv. if fst kv \<in> set skipped then None else map_option (Pair (fst kv)) (member_text dump (snd kv)))
       (jmembers j)"

section \<open>Metadata documents\<close>

definition discovery_error :: "string \<Rightarrow> string \<Rightarrow> core_error" where
  "discovery_error = make_oauth_error OAuthMetadataDiscoveryFailed"

type_synonym 'w http_get = "metadata_fetch_request \<Rightarrow> 'w \<Rightarrow> oauth_http_response result \<times> 'w"

definition fetch_json :: "json_reader \<Rightarrow> 'w http_get option \<Rightarrow> metadata_fetch_request \<Rightarrow> 'w \<Rightarrow> json result \<times> 'w" where
  "fetch_json parse get request w =
     (case get of
        None \<Rightarrow> (Inl (discovery_error ''OAuth metadata HTTP GET endpoint is not configured'' []), w)
      | Some g \<Rightarrow>
          (case g request w of
             (Inl e, w') \<Rightarrow> (Inl e, w')
           | (Inr response, w') \<Rightarrow>
               if \<not> http_success (oh_status_code response)
               then (Inl (discovery_error ''OAuth metadata endpoint returned non-success HTTP status''
                            (int_to_string (sint (oh_status_code response)))), w')
               else case parse (oh_body response) of
                 Inl ex \<Rightarrow> (Inl (discovery_error ''OAuth metadata endpoint returned invalid JSON'' (je_what ex)), w')
               | Inr j \<Rightarrow> (Inr j, w')))"

definition parse_protected_resource_metadata :: "(json \<Rightarrow> string) \<Rightarrow> json \<Rightarrow> protected_resource_metadata result" where
  "parse_protected_resource_metadata dump j =
     (if \<not> is_object j then Inl (discovery_error ''protected resource metadata JSON must be an object'' [])
      else Inr \<lparr>pm_resource = string_member_or_empty j ''resource'',
        pm_authorization_servers = string_list_or_empty j ''authorization_servers'',
        pm_bearer_methods_supported = string_list_or_empty j ''bearer_methods_supported'',
        pm_resource_signing_alg_values_supported = string_list_or_empty j ''resource_signing_alg_values_supported'',
        pm_scopes_supported = string_list_or_empty j ''scopes_supported'',
        pm_resource_name = json_string_member j ''resource_name'',
        pm_resource_documentation = json_string_member j ''resource_documentation'',
        pm_metadata = extension_metadata dump [] j\<rparr>)"

definition parse_authorization_server_metadata :: "(json \<Rightarrow> string) \<Rightarrow> json \<Rightarrow> authorization_server_metadata result" where
  "parse_authorization_server_metadata dump j =
     (if \<not> is_object j then Inl (discovery_error ''authorization server metadata JSON must be an object'' [])
      else Inr \<lparr>as_issuer = string_member_or_empty j ''issuer'',
        as_authorization_endpoint = string_member_or_empty j ''authorization_endpoint'',
        as_token_endpoint = string_member_or_empty j ''token_endpoint'',
        as_registration_endpoint = json_string_member j ''registration_endpoint'',
        as_jwks_uri = json_string_member j ''jwks_uri'',
        as_response_types_supported = string_list_or_empty j ''response_types_supported'',
        as_grant_types_supported = string_list_or_empty j ''grant_types_supported'',
        as_code_challenge_methods_supported = string_list_or_empty j ''code_challenge_methods_supported'',
        as_token_endpoint_auth_methods_supported = string_list_or_empty j ''token_endpoint_auth_methods_supported'',
        as_dpop_signing_alg_values_supported = string_list_or_empty j ''dpop_signing_alg_values_supported'',
        as_scopes_supported = string_list_or_empty j ''scopes_supported'',
        as_metadata = extension_metadata dump [] j\<rparr>)"

definition http_metadata_endpoint :: "json_reader \<Rightarrow> (json \<Rightarrow> string) \<Rightarrow> 'w http_get option \<Rightarrow> 'w metadata_endpoint" where
  "http_metadata_endpoint parse dump get =
     \<lparr>me_fetch_protected_resource_metadata = (\<lambda>request w. case fetch_json parse get request w of
        (r, w') \<Rightarrow> (rbind r (parse_protected_resource_metadata dump), w')),
      me_fetch_authorization_server_metadata = (\<lambda>request w. case fetch_json parse get request w of
        (r, w') \<Rightarrow> (rbind r (parse_authorization_server_metadata dump), w'))\<rparr>"

section \<open>The token endpoint\<close>

record oauth_http_request =
  oq_method :: string
  oq_url :: string
  oq_headers :: "string alist"
  oq_body :: string

definition form_add :: "string \<Rightarrow> string \<Rightarrow> string \<Rightarrow> string" where
  "form_add name v body =
     (if body \<noteq> [] then body @ [CHR ''&''] else body) @ oauth_url_encode name @ [CHR ''=''] @ oauth_url_encode v"

definition append_additional_parameters :: "string alist \<Rightarrow> string \<Rightarrow> string" where
  "append_additional_parameters parameters body = fold (\<lambda>p. form_add (fst p) (snd p)) parameters body"

definition client_auth_method :: "oauth_client_config \<Rightarrow> string" where
  "client_auth_method client =
     (case map_of (oc_metadata client) ''token_endpoint_auth_method'' of
        Some v \<Rightarrow> if v \<noteq> [] then v else if oc_client_secret client \<noteq> None then ''client_secret_post'' else ''none''
      | None \<Rightarrow> if oc_client_secret client \<noteq> None then ''client_secret_post'' else ''none'')"

definition alphabet :: string where
  "alphabet = ''ABCDEFGHIJKLMNOPQRSTUVWXYZabcdefghijklmnopqrstuvwxyz0123456789+/''"

fun auth_base64_encode :: "string \<Rightarrow> string" where
  "auth_base64_encode (a # b # c # rest) =
     alphabet ! (drop_bit 2 (byte a)) #
     alphabet ! (push_bit 4 (byte a AND 3) OR drop_bit 4 (byte b)) #
     alphabet ! (push_bit 2 (byte b AND 15) OR drop_bit 6 (byte c)) #
     alphabet ! (byte c AND 63) # auth_base64_encode rest"
| "auth_base64_encode [a, b] =
     [alphabet ! (drop_bit 2 (byte a)), alphabet ! (push_bit 4 (byte a AND 3) OR drop_bit 4 (byte b)),
      alphabet ! (push_bit 2 (byte b AND 15)), CHR ''='']"
| "auth_base64_encode [a] =
     [alphabet ! (drop_bit 2 (byte a)), alphabet ! (push_bit 4 (byte a AND 3)), CHR ''='', CHR ''='']"
| "auth_base64_encode [] = []"

text \<open>The client authentication: a header, a form field or nothing.\<close>

definition apply_client_auth :: "oauth_client_config \<Rightarrow> string \<times> string alist \<Rightarrow> string \<times> string alist" where
  "apply_client_auth client form_headers =
     (case form_headers of (form, headers) \<Rightarrow>
      case oc_client_secret client of
        None \<Rightarrow> (form, headers)
      | Some secret \<Rightarrow>
          if client_auth_method client = ''client_secret_basic''
          then let credentials = oauth_url_encode (oc_client_id client) @ '':'' @ oauth_url_encode secret in
            (form, if map_of headers ''Authorization'' = None
                   then al_set ''Authorization'' (''Basic '' @ auth_base64_encode credentials) headers else headers)
          else if client_auth_method client = ''client_secret_post'' then (form_add ''client_secret'' secret form, headers)
          else (form, headers))"

type_synonym 'w http_post = "oauth_http_request \<Rightarrow> 'w \<Rightarrow> oauth_http_response result \<times> 'w"

definition post_form :: "'w http_post option \<Rightarrow> string \<Rightarrow> string \<Rightarrow> string alist \<Rightarrow> 'w \<Rightarrow> oauth_http_response result \<times> 'w" where
  "post_form post url body headers w =
     (case post of
        None \<Rightarrow> (Inl (make_oauth_error OAuthTokenExchangeUnavailable ''OAuth token HTTP POST endpoint is not configured'' []), w)
      | Some p \<Rightarrow> p \<lparr>oq_method = ''POST'', oq_url = url,
          oq_headers = fold (\<lambda>h. al_set (fst h) (snd h)) headers
            [(''Accept'', ''application/json''), (''Content-Type'', ''application/x-www-form-urlencoded'')],
          oq_body = body\<rparr> w)"

definition token_keys :: "string list" where
  "token_keys = [''access_token'', ''token_type'', ''refresh_token'', ''expires_in'', ''scope'']"

text \<open>
  Adding seconds to a time point: the seconds are converted to nanoseconds and added, both in 64 bits. (Beyond them signed overflow
  is undefined; this is two's complement.)
\<close>

definition plus_seconds :: "int \<Rightarrow> int64 \<Rightarrow> int" where
  "plus_seconds t s = sint (word_of_int t + s * 1000000000 :: int64)"

text \<open>\<open>parse_token_set\<close>; the expiry counts from the time the endpoint object was given on construction.\<close>

definition parse_token_set :: "json_reader \<Rightarrow> (json \<Rightarrow> string) \<Rightarrow> int \<Rightarrow> OAuthErrorCode \<Rightarrow> oauth_http_response \<Rightarrow> token_set result" where
  "parse_token_set parse dump now code response =
     (if \<not> http_success (oh_status_code response)
      then Inl (make_oauth_error code ''OAuth token endpoint returned non-success HTTP status'' (int_to_string (sint (oh_status_code response))))
      else case parse (oh_body response) of
        Inl ex \<Rightarrow> Inl (make_oauth_error code ''OAuth token endpoint returned invalid JSON'' (je_what ex))
      | Inr j \<Rightarrow>
          if \<not> is_object j then Inl (make_oauth_error code ''OAuth token endpoint response must be an object'' [])
          else case json_string_member j ''access_token'' of
            None \<Rightarrow> Inl (make_oauth_error code ''OAuth token endpoint response requires access_token'' [])
          | Some access_token \<Rightarrow>
              if access_token = [] then Inl (make_oauth_error code ''OAuth token endpoint response requires access_token'' [])
              else Inr \<lparr>ts_access_token = access_token,
                ts_token_type = (case json_string_member j ''token_type'' of Some t \<Rightarrow> t | None \<Rightarrow> ''Bearer''),
                ts_refresh_token = json_string_member j ''refresh_token'',
                ts_expires_at = (case json_integer_member j ''expires_in'' of
                    Some n \<Rightarrow> if sint n > 0 then Some (plus_seconds now n) else None
                  | None \<Rightarrow> None),
                ts_scopes = (case json_string_member j ''scope'' of Some s \<Rightarrow> split_scopes s | None \<Rightarrow> []),
                ts_metadata = extension_metadata dump token_keys j\<rparr>)"

record 'w http_token_endpoint =
  ht_post :: "'w http_post option"
  ht_now :: int
  ht_parse :: json_reader
  ht_dump :: "json \<Rightarrow> string"

definition post_for_tokens :: "'w http_token_endpoint \<Rightarrow> OAuthErrorCode \<Rightarrow> string \<Rightarrow> string \<Rightarrow> string alist \<Rightarrow> 'w \<Rightarrow> token_set result \<times> 'w" where
  "post_for_tokens ep code url body headers w =
     (case post_form (ht_post ep) url body headers w of
        (r, w') \<Rightarrow> (rbind r (parse_token_set (ht_parse ep) (ht_dump ep) (ht_now ep) code), w'))"

definition optional_field :: "string \<Rightarrow> string \<Rightarrow> string \<Rightarrow> string" where
  "optional_field name v body = (if v \<noteq> [] then form_add name v body else body)"

definition http_exchange_authorization_code :: "'w http_token_endpoint \<Rightarrow> token_exchange_request \<Rightarrow> 'w \<Rightarrow> token_set result \<times> 'w" where
  "http_exchange_authorization_code ep request w =
     (let url = as_token_endpoint (te_authorization_server request); client = te_client request in
      if url = [] then (Inl (make_oauth_error OAuthTokenExchangeFailed ''token endpoint is required'' []), w)
      else let f1 = form_add ''client_id'' (oc_client_id client) (form_add ''redirect_uri'' (oc_redirect_uri client)
                   (form_add ''code'' (te_authorization_code request) (form_add ''grant_type'' ''authorization_code'' [])));
               (f2, headers) = apply_client_auth client (f1, []);
               f3 = form_add ''code_verifier'' (pk_code_verifier (sa_pkce (te_state request))) f2;
               f4 = optional_field ''resource'' (te_resource request) f3
           in post_for_tokens ep OAuthTokenExchangeFailed url (append_additional_parameters (te_additional_parameters request) f4) headers w)"

definition http_refresh_access_token :: "'w http_token_endpoint \<Rightarrow> token_refresh_request \<Rightarrow> 'w \<Rightarrow> token_refresh_result result \<times> 'w" where
  "http_refresh_access_token ep request w =
     (let url = as_token_endpoint (tq_authorization_server request); client = tq_client request in
      if url = [] then (Inl (make_oauth_error OAuthTokenRefreshFailed ''token endpoint is required'' []), w)
      else let f1 = form_add ''client_id'' (oc_client_id client) (form_add ''refresh_token'' (tq_refresh_token request)
                   (form_add ''grant_type'' ''refresh_token'' []));
               (f2, headers) = apply_client_auth client (f1, []);
               f3 = optional_field ''resource'' (tq_resource request) f2;
               f4 = optional_field ''scope'' (join_scopes (tq_scopes request)) f3
           in (case post_for_tokens ep OAuthTokenRefreshFailed url (append_additional_parameters (tq_additional_parameters request) f4) headers w of
                 (r, w') \<Rightarrow> (rbind r (\<lambda>tokens. Inr \<lparr>tr_token_set = tokens, tr_refresh_token_rotated = (ts_refresh_token tokens \<noteq> None)\<rparr>), w')))"

definition http_exchange_client_credentials :: "'w http_token_endpoint \<Rightarrow> token_client_credentials_request \<Rightarrow> 'w \<Rightarrow> token_set result \<times> 'w" where
  "http_exchange_client_credentials ep request w =
     (let url = as_token_endpoint (tc_authorization_server request); credentials = tc_credentials request in
      if url = [] then (Inl (make_oauth_error OAuthClientCredentialsFailed ''token endpoint is required'' []), w)
      else let f1 = form_add ''client_id'' (cc_client_id credentials) (form_add ''grant_type'' ''client_credentials'' []);
               client = \<lparr>oc_client_id = cc_client_id credentials, oc_client_secret = Some (cc_client_secret credentials),
                 oc_redirect_uri = [], oc_scopes = [], oc_metadata = cc_metadata credentials\<rparr>;
               (f2, headers) = apply_client_auth client (f1, []);
               f3 = form_add ''resource'' (cc_resource credentials) f2;
               f4 = optional_field ''scope'' (join_scopes (cc_scopes credentials)) f3
           in post_for_tokens ep OAuthClientCredentialsFailed url (append_additional_parameters (tc_additional_parameters request) f4) headers w)"

definition exchange_token_grant :: "'w http_token_endpoint \<Rightarrow> authorization_server_metadata \<Rightarrow> oauth_client_config \<Rightarrow> string alist \<Rightarrow>
    OAuthErrorCode \<Rightarrow> 'w \<Rightarrow> token_set result \<times> 'w" where
  "exchange_token_grant ep server client parameters code w =
     (if as_token_endpoint server = [] then (Inl (make_oauth_error code ''token endpoint is required'' []), w)
      else if map_of parameters ''grant_type'' = None then (Inl (make_oauth_error code ''grant_type is required'' []), w)
      else let f1 = optional_field ''client_id'' (oc_client_id client) [];
               (f2, headers) = apply_client_auth client (f1, [])
           in post_for_tokens ep code (as_token_endpoint server) (append_additional_parameters parameters f2) headers w)"

definition http_token_endpoint_object :: "'w http_token_endpoint \<Rightarrow> 'w token_endpoint" where
  "http_token_endpoint_object ep =
     \<lparr>tp_exchange_authorization_code = http_exchange_authorization_code ep,
      tp_refresh_access_token = http_refresh_access_token ep,
      tp_exchange_client_credentials = http_exchange_client_credentials ep\<rparr>"

section \<open>Key sets\<close>

record json_web_key =
  jk_key_type :: string
  jk_public_key_use :: "string option"
  jk_key_operations :: "string list"
  jk_algorithm :: "string option"
  jk_key_id :: "string option"
  jk_curve :: "string option"
  jk_x :: "string option"
  jk_y :: "string option"
  jk_modulus :: "string option"
  jk_exponent :: "string option"
  jk_certificate_chain :: "string list"
  jk_metadata :: "string alist"

record json_web_key_set =
  js_keys :: "json_web_key list"
  js_metadata :: "string alist"

record jwk_selection_criteria =
  jc_key_id :: "string option"
  jc_algorithm :: "string option"
  jc_key_type :: "string option"
  jc_public_key_use :: "string option"

record jwks_fetch_request =
  jf_jwks_uri :: string
  jf_headers :: "string alist"

definition jwks_load :: "(string \<times> json_web_key_set) list \<Rightarrow> string \<Rightarrow> json_web_key_set option" where
  "jwks_load = mem_load auth_constant_time_equal"

definition jwks_save :: "(string \<times> json_web_key_set) list \<Rightarrow> string \<Rightarrow> json_web_key_set \<Rightarrow> (string \<times> json_web_key_set) list" where
  "jwks_save = mem_save auth_constant_time_equal"

definition jwks_clear :: "(string \<times> json_web_key_set) list \<Rightarrow> string \<Rightarrow> (string \<times> json_web_key_set) list" where
  "jwks_clear = mem_remove auth_constant_time_equal"

interpretation jwks: keyed_store jwks_load jwks_save jwks_clear "mem_inv string_fits" string_fits
  unfolding jwks_load_def jwks_save_def jwks_clear_def
  by (rule mem_keyed_store) (simp add: exact_on_def auth_constant_time_exact)

definition jwk_keys :: "string list" where
  "jwk_keys = [''keys'', ''kty'', ''use'', ''key_ops'', ''alg'', ''kid'', ''crv'', ''x'', ''y'', ''n'', ''e'', ''x5c'']"

definition optional_matches :: "string option \<Rightarrow> string option \<Rightarrow> bool" where
  "optional_matches expected actual \<longleftrightarrow> expected = None \<or> (actual \<noteq> None \<and> actual = expected)"

definition parse_json_web_key :: "(json \<Rightarrow> string) \<Rightarrow> json \<Rightarrow> json_web_key result" where
  "parse_json_web_key dump j =
     (if \<not> is_object j then Inl (discovery_error ''JWK JSON value must be an object'' [])
      else if string_member_or_empty j ''kty'' = [] then Inl (discovery_error ''JWK kty is required'' [])
      else Inr \<lparr>jk_key_type = string_member_or_empty j ''kty'', jk_public_key_use = json_string_member j ''use'',
        jk_key_operations = string_list_or_empty j ''key_ops'', jk_algorithm = json_string_member j ''alg'',
        jk_key_id = json_string_member j ''kid'', jk_curve = json_string_member j ''crv'', jk_x = json_string_member j ''x'',
        jk_y = json_string_member j ''y'', jk_modulus = json_string_member j ''n'', jk_exponent = json_string_member j ''e'',
        jk_certificate_chain = string_list_or_empty j ''x5c'', jk_metadata = extension_metadata dump jwk_keys j\<rparr>)"

fun parse_jwk_entries :: "(json \<Rightarrow> string) \<Rightarrow> json list \<Rightarrow> json_web_key list result" where
  "parse_jwk_entries dump [] = Inr []"
| "parse_jwk_entries dump (j # js) =
     rbind (parse_json_web_key dump j) (\<lambda>key. rbind (parse_jwk_entries dump js) (\<lambda>keys. Inr (key # keys)))"

definition parse_json_web_key_set :: "(json \<Rightarrow> string) \<Rightarrow> json \<Rightarrow> json_web_key_set result" where
  "parse_json_web_key_set dump j =
     (if \<not> is_object j then Inl (discovery_error ''JWKS JSON value must be an object'' [])
      else case jfind j ''keys'' of
        Some (JArray entries) \<Rightarrow>
          rbind (parse_jwk_entries dump entries) (\<lambda>keys. Inr \<lparr>js_keys = keys, js_metadata = extension_metadata dump jwk_keys j\<rparr>)
      | _ \<Rightarrow> Inl (discovery_error ''JWKS keys array is required'' []))"

definition jwk_matches :: "jwk_selection_criteria \<Rightarrow> json_web_key \<Rightarrow> bool" where
  "jwk_matches criteria key \<longleftrightarrow> optional_matches (jc_key_id criteria) (jk_key_id key) \<and>
     optional_matches (jc_algorithm criteria) (jk_algorithm key) \<and>
     optional_matches (jc_key_type criteria) (Some (jk_key_type key)) \<and>
     optional_matches (jc_public_key_use criteria) (jk_public_key_use key)"

fun select_loop :: "jwk_selection_criteria \<Rightarrow> json_web_key option \<Rightarrow> json_web_key list \<Rightarrow> json_web_key result" where
  "select_loop criteria None [] = Inl (discovery_error ''JWKS key selection found no matching key'' [])"
| "select_loop criteria (Some key) [] = Inr key"
| "select_loop criteria selected (key # keys) =
     (if \<not> jwk_matches criteria key then select_loop criteria selected keys
      else if selected \<noteq> None then Inl (discovery_error ''JWKS key selection is ambiguous'' [])
      else select_loop criteria (Some key) keys)"

definition select_json_web_key :: "json_web_key_set \<Rightarrow> jwk_selection_criteria \<Rightarrow> json_web_key result" where
  "select_json_web_key key_set criteria = select_loop criteria None (js_keys key_set)"

text \<open>Only a \<open>parse_error\<close> is caught: the value \<open>None\<close> is an exception that leaves the function.\<close>

definition fetch_jwks :: "json_reader \<Rightarrow> (json \<Rightarrow> string) \<Rightarrow> 'w http_get \<Rightarrow> jwks_fetch_request \<Rightarrow> 'w \<Rightarrow> json_web_key_set result option \<times> 'w" where
  "fetch_jwks parse dump get request w =
     (if jf_jwks_uri request = [] then (Some (Inl (make_oauth_error OAuthInvalidRequest ''JWKS URI is required'' [])), w)
      else case get \<lparr>mf_url = jf_jwks_uri request, mf_headers = jf_headers request\<rparr> w of
        (Inl e, w') \<Rightarrow> (Some (Inl e), w')
      | (Inr response, w') \<Rightarrow>
          if \<not> http_success (oh_status_code response)
          then (Some (Inl (discovery_error (''JWKS fetch failed with HTTP '' @ int_to_string (sint (oh_status_code response))) [])), w')
          else case parse (oh_body response) of
            Inl ex \<Rightarrow> (if je_is_parse_error ex then Some (Inl (discovery_error ''JWKS response is not valid JSON'' (je_what ex))) else None, w')
          | Inr j \<Rightarrow> (Some (parse_json_web_key_set dump j), w'))"

section \<open>Forms and credentials\<close>

definition form_fields :: "string \<Rightarrow> (string \<times> string) list" where
  "form_fields body = (if body = [] then [] else map query_field (split_on (CHR ''&'') body))"

lemma form_add_not_Nil [simp]: "form_add name v body \<noteq> []"
  by (simp add: form_add_def)

lemma form_fields_add: "form_fields (form_add name v body) = form_fields body @ [(name, v)]"
proof -
  let ?f = "oauth_url_encode name @ CHR ''='' # oauth_url_encode v"
  have "CHR ''&'' \<notin> set ?f" using oauth_url_encode_delimiters by auto
  then show ?thesis
    using form_add_not_Nil [of name v body]
    by (cases "body = []") (simp_all add: form_fields_def form_add_def split_on_append split_on_free query_field_written)
qed

lemma form_fields_optional: "form_fields (optional_field name v body) = form_fields body @ (if v \<noteq> [] then [(name, v)] else [])"
  by (simp add: optional_field_def form_fields_add)

lemma form_fields_additional: "form_fields (append_additional_parameters ps body) = form_fields body @ ps"
  unfolding append_additional_parameters_def by (induction ps arbitrary: body) (simp_all add: form_fields_add)

lemma alphabet_same: "alphabet = kAlphabet"
  by (simp add: alphabet_def kAlphabet_def)

lemma nat_low: "(n :: nat) AND 3 = n mod 4" "n AND 15 = n mod 16" "n AND 63 = n mod 64"
proof -
  have "(3 :: nat) = mask 2" "(15 :: nat) = mask 4" "(63 :: nat) = mask 6" by (simp_all add: mask_eq_exp_minus_1)
  then show "n AND 3 = n mod 4" "n AND 15 = n mod 16" "n AND 63 = n mod 64"
    using take_bit_eq_mask [of 2 n] take_bit_eq_mask [of 4 n] take_bit_eq_mask [of 6 n] by (simp_all only: take_bit_eq_mod) simp_all
qed

lemma push_or_add: "q < 2 ^ n \<Longrightarrow> push_bit n p OR q = p * 2 ^ n + (q :: nat)"
proof -
  assume "q < 2 ^ n"
  then have "int (push_bit n p OR q) = int (p * 2 ^ n + q)"
    using concat_bit_eq [of n "int q" "int p"]
    by (simp add: concat_bit_def take_bit_int_eq_self push_bit_eq_mult of_nat_or_eq or.commute flip: of_nat_push_bit)
  then show ?thesis by (simp only: of_nat_eq_iff)
qed

lemma base64_parts:
  "drop_bit 2 (byte a) = byte a div 4 mod 64"
  "push_bit 4 (byte a AND 3) OR drop_bit 4 (byte b) = byte a mod 4 * 16 + byte b div 16 mod 16"
  "push_bit 2 (byte a AND 15) OR drop_bit 6 (byte b) = byte a mod 16 * 4 + byte b div 64 mod 4"
  "push_bit 4 (byte a AND 3) = byte a mod 4 * 16" "push_bit 2 (byte a AND 15) = byte a mod 16 * 4" "byte a AND 63 = byte a mod 64"
proof -
  have small: "byte a div 4 < 64" "byte b div 16 < 16" "byte b div 64 < 4"
    using of_char_less [of a] of_char_less [of b] by (simp_all add: div_less_iff_less_mult)
  then show "drop_bit 2 (byte a) = byte a div 4 mod 64"
    "push_bit 4 (byte a AND 3) OR drop_bit 4 (byte b) = byte a mod 4 * 16 + byte b div 16 mod 16"
    "push_bit 2 (byte a AND 15) OR drop_bit 6 (byte b) = byte a mod 16 * 4 + byte b div 64 mod 4"
    "push_bit 4 (byte a AND 3) = byte a mod 4 * 16" "push_bit 2 (byte a AND 15) = byte a mod 16 * 4" "byte a AND 63 = byte a mod 64"
    using push_or_add [of "byte b div 16" 4 "byte a mod 4"] push_or_add [of "byte b div 64" 2 "byte a mod 16"]
    by (simp_all only: nat_low drop_bit_eq_div push_bit_eq_mult) simp_all
qed

lemma auth_base64_same: "auth_base64_encode s = base64_encode s"
proof (induction s rule: auth_base64_encode.induct)
  case (1 a b c rest)
  then show ?case
    by (simp only: auth_base64_encode.simps base64_encode.simps alphabet_same base64_parts(2,3)) (simp only: base64_parts)
next
  case (2 a b)
  show ?case
    by (simp only: auth_base64_encode.simps base64_encode.simps alphabet_same base64_parts(2,3)) (simp only: base64_parts)
qed (simp_all only: auth_base64_encode.simps base64_encode.simps alphabet_same base64_parts)

text \<open>The fields a client secret adds and the header it sets.\<close>

definition secret_field :: "oauth_client_config \<Rightarrow> (string \<times> string) list" where
  "secret_field client =
     (case oc_client_secret client of
        Some secret \<Rightarrow> if client_auth_method client = ''client_secret_post'' then [(''client_secret'', secret)] else []
      | None \<Rightarrow> [])"

definition secret_header :: "oauth_client_config \<Rightarrow> string option" where
  "secret_header client =
     (case oc_client_secret client of
        Some secret \<Rightarrow> if client_auth_method client = ''client_secret_basic''
          then Some (''Basic '' @ base64_encode (oauth_url_encode (oc_client_id client) @ '':'' @ oauth_url_encode secret)) else None
      | None \<Rightarrow> None)"

lemma apply_client_auth_effect:
  "form_fields (fst (apply_client_auth client (form, []))) = form_fields form @ secret_field client"
  "map_of (snd (apply_client_auth client (form, []))) = (\<lambda>k. if k = ''Authorization'' then secret_header client else None)"
  by (auto simp: apply_client_auth_def secret_field_def secret_header_def form_fields_add auth_base64_same Let_def fun_eq_iff
      split: option.split)

lemma post_headers:
  assumes "map_of headers = (\<lambda>k. if k = ''Authorization'' then h else None)" "length headers \<le> 1"
  shows "map_of (fold (\<lambda>h. al_set (fst h) (snd h)) headers
    [(''Accept'', ''application/json''), (''Content-Type'', ''application/x-www-form-urlencoded'')]) ''Authorization'' = h"
proof (cases headers)
  case Nil
  then have "h = None" using fun_cong [OF assms(1), of "''Authorization''"] by simp
  then show ?thesis using Nil by simp
next
  case (Cons e es)
  then have e: "headers = [e]" using assms(2) by simp
  have "map_of headers (fst e) = Some (snd e)" by (simp add: e)
  then have "(if fst e = ''Authorization'' then h else None) = Some (snd e)" using fun_cong [OF assms(1), of "fst e"] by simp
  then have "fst e = ''Authorization''" "h = Some (snd e)" by (auto split: if_splits)
  then show ?thesis by (simp add: e)
qed

lemma apply_client_auth_headers: "length (snd (apply_client_auth client (form, []))) \<le> 1"
  by (simp add: apply_client_auth_def Let_def split: option.split)

text \<open>One POST of a form: what the HTTP client is given.\<close>

lemma posted_form:
  assumes "ht_post ep = Some post" "form_fields body = fs" "headers = snd (apply_client_auth client (form, []))"
  shows "\<exists>rq. oq_method rq = ''POST'' \<and> oq_url rq = url \<and> form_fields (oq_body rq) = fs \<and>
    map_of (oq_headers rq) ''Authorization'' = secret_header client \<and>
    post_for_tokens ep code url body headers w =
      (case post rq w of (r, w') \<Rightarrow> (rbind r (parse_token_set (ht_parse ep) (ht_dump ep) (ht_now ep) code), w'))"
proof -
  define rq where "rq = \<lparr>oq_method = ''POST'', oq_url = url,
    oq_headers = fold (\<lambda>h. al_set (fst h) (snd h)) headers
      [(''Accept'', ''application/json''), (''Content-Type'', ''application/x-www-form-urlencoded'')], oq_body = body\<rparr>"
  have "map_of (oq_headers rq) ''Authorization'' = secret_header client"
    using post_headers [OF _ apply_client_auth_headers] apply_client_auth_effect(2) [of client form] assms(3) by (simp add: rq_def)
  then show ?thesis
    using assms(1,2) by (intro exI [of _ rq]) (simp add: rq_def post_for_tokens_def post_form_def)
qed

text \<open>C37: a code is exchanged with exactly the form of the grant. The token endpoint posts to the URL of the metadata a form
  that decodes to the grant type, the code, the redirect URI and client id of the configuration, the client secret
  only if it is sent in the form, the PKCE verifier of the stored state, the resource if there is one and the
  additional parameters; with basic authentication the secret is in the Authorization header instead, as
  the base64 text of the encoded id and secret, and in no other case is there such a header.\<close>

theorem token_exchange_form:
  "ht_post ep = Some post \<Longrightarrow> as_token_endpoint (te_authorization_server request) \<noteq> [] \<Longrightarrow>
   \<exists>rq. oq_method rq = ''POST'' \<and> oq_url rq = as_token_endpoint (te_authorization_server request) \<and>
     form_fields (oq_body rq) =
       [(''grant_type'', ''authorization_code''), (''code'', te_authorization_code request),
        (''redirect_uri'', oc_redirect_uri (te_client request)), (''client_id'', oc_client_id (te_client request))] @
       secret_field (te_client request) @ [(''code_verifier'', pk_code_verifier (sa_pkce (te_state request)))] @
       (if te_resource request \<noteq> [] then [(''resource'', te_resource request)] else []) @ te_additional_parameters request \<and>
     map_of (oq_headers rq) ''Authorization'' = secret_header (te_client request) \<and>
     http_exchange_authorization_code ep request w =
       (case post rq w of (r, w') \<Rightarrow> (rbind r (parse_token_set (ht_parse ep) (ht_dump ep) (ht_now ep) OAuthTokenExchangeFailed), w'))"
proof -
  assume post: "ht_post ep = Some post" and url: "as_token_endpoint (te_authorization_server request) \<noteq> []"
  let ?client = "te_client request"
  define f1 where "f1 = form_add ''client_id'' (oc_client_id ?client) (form_add ''redirect_uri'' (oc_redirect_uri ?client)
                   (form_add ''code'' (te_authorization_code request) (form_add ''grant_type'' ''authorization_code'' [])))"
  define body where "body = append_additional_parameters (te_additional_parameters request) (optional_field ''resource'' (te_resource request)
    (form_add ''code_verifier'' (pk_code_verifier (sa_pkce (te_state request))) (fst (apply_client_auth ?client (f1, [])))))"
  have fields: "form_fields body = [(''grant_type'', ''authorization_code''), (''code'', te_authorization_code request),
        (''redirect_uri'', oc_redirect_uri (te_client request)), (''client_id'', oc_client_id (te_client request))] @
       secret_field (te_client request) @ [(''code_verifier'', pk_code_verifier (sa_pkce (te_state request)))] @
       (if te_resource request \<noteq> [] then [(''resource'', te_resource request)] else []) @ te_additional_parameters request"
    by (simp add: body_def f1_def form_fields_additional form_fields_optional form_fields_add apply_client_auth_effect) (simp add: form_fields_def)
  have "http_exchange_authorization_code ep request w =
      post_for_tokens ep OAuthTokenExchangeFailed (as_token_endpoint (te_authorization_server request)) body (snd (apply_client_auth ?client (f1, []))) w"
    using url by (simp add: http_exchange_authorization_code_def body_def f1_def Let_def split_beta)
  then show ?thesis using posted_form [OF post fields refl] by simp
qed

definition sample_exchange_request :: token_exchange_request where
  "sample_exchange_request = \<lparr>te_client = sample_client\<lparr>oc_client_secret := Some ''s&t''\<rparr>,
     te_authorization_server = sample_server\<lparr>as_token_endpoint := ''https://as/token''\<rparr>, te_resource = [],
     te_authorization_code = ''code'', te_state = sample_state, te_additional_parameters = []\<rparr>"

text \<open>An HTTP client that keeps the last request and answers with a token that lives for an hour.\<close>

definition token_text :: string where
  "token_text = ''ok''"

definition sample_reader :: json_reader where
  "sample_reader body = (if body = token_text then Inr (JObject [(''access_token'', JString ''at''), (''expires_in'', JInt 3600)])
     else Inl \<lparr>je_is_parse_error = True, je_what = ''bad''\<rparr>)"

definition sample_http :: "oauth_http_request option http_token_endpoint" where
  "sample_http = \<lparr>ht_post = Some (\<lambda>rq w. (Inr \<lparr>oh_status_code = 200, oh_headers = [], oh_body = token_text\<rparr>, Some rq)),
     ht_now = 0, ht_parse = sample_reader, ht_dump = (\<lambda>_. [])\<rparr>"

theorem token_exchange_form_witness:
  "\<exists>rq r. http_exchange_authorization_code sample_http sample_exchange_request None = (r, Some rq) \<and>
     oq_url rq = ''https://as/token'' \<and>
     form_fields (oq_body rq) =
       [(''grant_type'', ''authorization_code''), (''code'', ''code''), (''redirect_uri'', ''http://127.0.0.1:8/cb''), (''client_id'', ''c&1''),
        (''client_secret'', ''s&t''), (''code_verifier'', ''v'')] \<and> map_of (oq_headers rq) ''Authorization'' = None"
proof -
  have "ht_post sample_http = Some (\<lambda>rq w. (Inr \<lparr>oh_status_code = 200, oh_headers = [], oh_body = token_text\<rparr>, Some rq))"
    "as_token_endpoint (te_authorization_server sample_exchange_request) \<noteq> []"
    by (simp_all add: sample_http_def sample_exchange_request_def)
  from token_exchange_form [OF this, of None] show ?thesis
    by (auto simp: sample_exchange_request_def sample_client_def sample_server_def sample_state_def secret_field_def secret_header_def
        client_auth_method_def)
qed

section \<open>The expiry of tokens\<close>

lemma plus_seconds_eq:
  "plus_seconds t s = t + sint s * 1000000000 - (t + sint s * 1000000000 + 2 ^ 63) div 2 ^ 64 * 2 ^ 64"
proof -
  let ?e = "t + sint s * 1000000000"
  have w: "sint (word_of_int x :: int64) = signed_take_bit 63 x" for x by (simp add: sint_sbintrunc')
  have "(word_of_int t + s * 1000000000 :: int64) = word_of_int ?e" by simp
  then have "plus_seconds t s = signed_take_bit 63 ?e" unfolding plus_seconds_def by (simp only: w)
  also have "\<dots> = (?e + 2 ^ 63) mod 2 ^ 64 - 2 ^ 63" by (simp add: signed_take_bit_eq_take_bit_shift take_bit_eq_mod)
  also have "\<dots> = ?e - (?e + 2 ^ 63) div 2 ^ 64 * 2 ^ 64" by (simp add: minus_div_mult_eq_mod [symmetric])
  finally show ?thesis .
qed

lemma overflow_count:
  fixes e :: int
  defines "m \<equiv> (e + 2 ^ 63) div 2 ^ 64"
  shows "- (2 ^ 63) \<le> e \<and> e < 2 ^ 63 \<Longrightarrow> m = 0" "2 ^ 63 \<le> e \<Longrightarrow> 1 \<le> m"
proof -
  show "m = 0" if "- (2 ^ 63) \<le> e \<and> e < 2 ^ 63"
    unfolding m_def using that by (intro div_pos_pos_trivial) auto
  show "1 \<le> m" if "2 ^ 63 \<le> e" using that zdiv_mono1 [of "2 ^ 64" "e + 2 ^ 63" "2 ^ 64"] by (simp add: m_def)
qed

lemma parse_token_set_expiry:
  assumes "parse_token_set parse dump now code response = Inr tokens"
  shows "\<exists>j. parse (oh_body response) = Inr j \<and> ts_access_token tokens \<noteq> [] \<and>
    ts_expires_at tokens = (case json_integer_member j ''expires_in'' of
      Some n \<Rightarrow> if sint n > 0 then Some (plus_seconds now n) else None | None \<Rightarrow> None)"
  using assms by (auto simp: parse_token_set_def split: sum.splits if_splits option.splits)

text \<open>C38: the lifetime of a token counts from the construction of the endpoint. When a refresh over HTTP succeeds with a
  positive \<open>expires_in\<close>, the token is taken to expire that many seconds after the time the endpoint object was
  constructed with, whenever the response arrives, less a multiple of \<open>2 ^ 64\<close> nanoseconds (584 years); without one, never.
  Nothing is lost as long as that time is within the 64 bits of the clock. Once the endpoint is older than the lifetime less
  the skew, the
  manager therefore takes every token it has just obtained to be expired, and the next call refreshes again. A
  lifetime that takes the expiry beyond the 64 bits loses at least 584 years; if the sum is below \<open>2 ^ 64\<close> the token is
  taken to be expired at any time since the epoch.\<close>

theorem refreshed_token_expiry:
  "http_refresh_access_token ep request w = (Inr refreshed, w') \<Longrightarrow>
   \<exists>post rq response j. ht_post ep = Some post \<and> post rq w = (Inr response, w') \<and>
     ht_parse ep (oh_body response) = Inr j \<and> http_success (oh_status_code response) \<and>
     (\<forall>n. json_integer_member j ''expires_in'' = Some n \<and> 0 < sint n \<longrightarrow>
        (let expiry = ht_now ep + sint n * 1000000000; m = (expiry + 2 ^ 63) div 2 ^ 64 in
         ts_expires_at (tr_token_set refreshed) = Some (expiry - m * 2 ^ 64) \<and>
         (\<forall>now skew. token_fresh (tr_token_set refreshed) now skew \<longleftrightarrow>
            now - ht_now ep < (sint n - skew) * 1000000000 - m * 2 ^ 64) \<and>
         (- (2 ^ 63) \<le> expiry \<and> expiry < 2 ^ 63 \<longrightarrow> m = 0) \<and> (2 ^ 63 \<le> expiry \<longrightarrow> 1 \<le> m) \<and>
         (2 ^ 63 \<le> expiry \<and> expiry < 2 ^ 64 \<longrightarrow>
            (\<forall>now skew. 0 \<le> now \<and> 0 \<le> skew \<longrightarrow> \<not> token_fresh (tr_token_set refreshed) now skew)))) \<and>
     ((\<nexists>n. json_integer_member j ''expires_in'' = Some n \<and> 0 < sint n) \<longrightarrow> ts_expires_at (tr_token_set refreshed) = None)"
proof -
  assume run: "http_refresh_access_token ep request w = (Inr refreshed, w')"
  obtain url body headers where p: "post_for_tokens ep OAuthTokenRefreshFailed url body headers w = (Inr (tr_token_set refreshed), w')"
    using run by (auto simp: http_refresh_access_token_def Let_def rbind_eq_Inr split_beta prod_eq_iff split: if_splits)
  obtain post where post: "ht_post ep = Some post" using p by (cases "ht_post ep") (simp_all add: post_for_tokens_def post_form_def)
  obtain rq response where r: "post rq w = (Inr response, w')"
    "parse_token_set (ht_parse ep) (ht_dump ep) (ht_now ep) OAuthTokenRefreshFailed response = Inr (tr_token_set refreshed)"
    using p post by (auto simp: post_for_tokens_def post_form_def rbind_eq_Inr split: prod.splits)
  then have "http_success (oh_status_code response)" by (simp add: parse_token_set_def split: if_splits)
  moreover obtain j where j: "ht_parse ep (oh_body response) = Inr j" "ts_expires_at (tr_token_set refreshed) =
      (case json_integer_member j ''expires_in'' of Some n \<Rightarrow> if sint n > 0 then Some (plus_seconds (ht_now ep) n) else None | None \<Rightarrow> None)"
    using parse_token_set_expiry [OF r(2)] by blast
  moreover have "let expiry = ht_now ep + sint n * 1000000000; m = (expiry + 2 ^ 63) div 2 ^ 64 in
         ts_expires_at (tr_token_set refreshed) = Some (expiry - m * 2 ^ 64) \<and>
         (\<forall>now skew. token_fresh (tr_token_set refreshed) now skew \<longleftrightarrow>
            now - ht_now ep < (sint n - skew) * 1000000000 - m * 2 ^ 64) \<and>
         (- (2 ^ 63) \<le> expiry \<and> expiry < 2 ^ 63 \<longrightarrow> m = 0) \<and> (2 ^ 63 \<le> expiry \<longrightarrow> 1 \<le> m) \<and>
         (2 ^ 63 \<le> expiry \<and> expiry < 2 ^ 64 \<longrightarrow>
            (\<forall>now skew. 0 \<le> now \<and> 0 \<le> skew \<longrightarrow> \<not> token_fresh (tr_token_set refreshed) now skew))"
    if n: "json_integer_member j ''expires_in'' = Some n \<and> 0 < sint n" for n
  proof -
    define expiry where "expiry = ht_now ep + sint n * 1000000000"
    define m where "m = (expiry + 2 ^ 63) div 2 ^ 64"
    have e: "ts_expires_at (tr_token_set refreshed) = Some (expiry - m * 2 ^ 64)"
      using j(2) n plus_seconds_eq [of "ht_now ep" n] by (simp add: expiry_def m_def)
    note m = overflow_count [of expiry, folded m_def]
    have "\<not> token_fresh (tr_token_set refreshed) now skew"
      if "2 ^ 63 \<le> expiry" "expiry < 2 ^ 64" "0 \<le> now" "0 \<le> skew" for now skew
      using e m(2) that by (simp add: token_fresh_def)
    moreover have "token_fresh (tr_token_set refreshed) now skew \<longleftrightarrow>
        now - ht_now ep < (sint n - skew) * 1000000000 - m * 2 ^ 64" for now skew
      using e by (auto simp: token_fresh_def expiry_def algebra_simps)
    ultimately show ?thesis using e m unfolding Let_def expiry_def [symmetric] m_def [symmetric] by blast
  qed
  moreover have "ts_expires_at (tr_token_set refreshed) = None" if "\<nexists>n. json_integer_member j ''expires_in'' = Some n \<and> 0 < sint n"
    using that j(2) by (auto split: option.splits)
  ultimately show ?thesis using post r(1) by blast
qed

text \<open>A token of an hour, and one of ten thousand million seconds.\<close>

definition sample_refresh :: token_refresh_request where
  "sample_refresh = \<lparr>tq_client = sample_client, tq_authorization_server = sample_server\<lparr>as_token_endpoint := ''https://as/token''\<rparr>,
     tq_resource = [], tq_refresh_token = ''rt'', tq_scopes = [], tq_additional_parameters = []\<rparr>"

definition long_lived :: json_reader where
  "long_lived body = Inr (JObject [(''access_token'', JString ''at''), (''expires_in'', JUInt 10000000000)])"

theorem refreshed_token_expiry_witness:
  "(\<exists>refreshed rq. http_refresh_access_token sample_http sample_refresh None = (Inr refreshed, rq) \<and>
     ts_expires_at (tr_token_set refreshed) = Some 3600000000000 \<and> \<not> token_fresh (tr_token_set refreshed) 3570000000000 30) \<and>
   (\<exists>refreshed rq. http_refresh_access_token (sample_http\<lparr>ht_parse := long_lived\<rparr>) sample_refresh None = (Inr refreshed, rq) \<and>
     \<not> token_fresh (tr_token_set refreshed) 0 0)"
proof -
  have ok: "http_success 200" by (simp add: http_success_def)
  note defs = http_refresh_access_token_def post_for_tokens_def post_form_def sample_http_def parse_token_set_def ok sample_reader_def
    long_lived_def sample_refresh_def json_string_member_def jfind_def Let_def split_beta
  obtain refreshed rq where run: "http_refresh_access_token sample_http sample_refresh None = (Inr refreshed, rq)"
    by (simp add: defs)
  obtain later rq' where late: "http_refresh_access_token (sample_http\<lparr>ht_parse := long_lived\<rparr>) sample_refresh None = (Inr later, rq')"
    by (simp add: defs)
  note h = refreshed_token_expiry [OF run] and l = refreshed_token_expiry [OF late]
  have hour: "json_integer_member j ''expires_in'' = Some 3600" if "ht_parse sample_http body = Inr j" for j body
    using that by (auto simp: sample_http_def sample_reader_def json_integer_member_def jfind_def split: if_splits)
  have long: "json_integer_member j ''expires_in'' = Some 10000000000" if "long_lived body = Inr j" for j body
    using that by (auto simp: long_lived_def json_integer_member_def jfind_def)
  have s: "sint (3600 :: int64) = 3600" "sint (10000000000 :: int64) = 10000000000" "ht_now sample_http = 0"
    by (simp_all add: sample_http_def)
  have "ts_expires_at (tr_token_set refreshed) = Some 3600000000000 \<and> \<not> token_fresh (tr_token_set refreshed) 3570000000000 30"
    using h hour by (fastforce simp: s Let_def)
  moreover have "\<not> token_fresh (tr_token_set later) 0 0" using l long by (fastforce simp: s Let_def)
  ultimately show ?thesis using run late by blast
qed

section \<open>Selecting a key\<close>

lemma select_loop_exact:
  "select_loop criteria selected keys =
     (case filter (jwk_matches criteria) keys of
        [] \<Rightarrow> (case selected of None \<Rightarrow> Inl (discovery_error ''JWKS key selection found no matching key'' []) | Some key \<Rightarrow> Inr key)
      | [key] \<Rightarrow> (case selected of None \<Rightarrow> Inr key | Some _ \<Rightarrow> Inl (discovery_error ''JWKS key selection is ambiguous'' []))
      | _ \<Rightarrow> Inl (discovery_error ''JWKS key selection is ambiguous'' []))"
  by (induction criteria selected keys rule: select_loop.induct) (auto split: list.splits option.splits)

text \<open>A key is selected exactly when it is the only one that matches.\<close>

lemma select_json_web_key_exact:
  "select_json_web_key key_set criteria = Inr key \<longleftrightarrow> filter (jwk_matches criteria) (js_keys key_set) = [key]"
  by (auto simp: select_json_web_key_def select_loop_exact split: list.splits)

end
