(* ===== verification/Auth_Dpop.thy ===== *)
theory Auth_Dpop
  imports Auth_Flow
begin

text \<open>
  Proofs of possession: auth/dpop.hpp (claims of a proof, the replay cache, the headers of a request) and
  auth/server_auth_provider.hpp (the provider that checks access tokens and proofs for a server). Signatures are the
  business of the verifier and signer objects, which are parameters; times are nanoseconds, durations seconds.
\<close>

section \<open>Proofs and the replay cache\<close>

definition dpop_error :: "string \<Rightarrow> string \<Rightarrow> core_error" where
  "dpop_error msg detail = mk_error 1 msg detail AuthErrorCategory"

definition upper_char :: "char \<Rightarrow> char" where
  "upper_char c = (let n = of_char c :: nat in if 97 \<le> n \<and> n \<le> 122 then char_of (n - 32) else c)"

definition uppercase_ascii :: "string \<Rightarrow> string" where
  "uppercase_ascii s = map upper_char s"

record http_request_target =
  rt_method :: string
  rt_url :: string

record dpop_key =
  dk_key_id :: string
  dk_algorithm :: string
  dk_private_key_pem :: string

record dpop_proof_request =
  dp_target :: http_request_target
  dp_key :: dpop_key
  dp_access_token :: "string option"
  dp_nonce :: "string option"

record dpop_proof_claims =
  dc_jwt_id :: string
  dc_method :: string
  dc_url :: string
  dc_issued_at :: int
  dc_access_token_hash :: "string option"
  dc_nonce :: "string option"
  dc_claims :: "string alist"

text \<open>\<open>InMemoryDpopReplayCache::remember_once\<close>: drop what has expired, refuse what is still there.\<close>

definition remember_once :: "string \<Rightarrow> int \<Rightarrow> int \<Rightarrow> int alist \<Rightarrow> bool result \<times> int alist" where
  "remember_once jwt_id expires_at now seen =
     (if jwt_id = [] then (Inl (dpop_error ''DPoP proof jti is required'' []), seen)
      else let seen1 = filter (\<lambda>e. \<not> snd e \<le> now) seen in
        (case map_of seen1 jwt_id of
           Some e \<Rightarrow> if e > now then (Inr False, seen1) else (Inr True, al_set jwt_id expires_at seen1)
         | None \<Rightarrow> (Inr True, al_set jwt_id expires_at seen1)))"

record dpop_options =
  do_now :: int
  do_clock_skew_tolerance :: int
  do_replay_ttl :: int
  do_case_sensitive_method :: bool
  do_expected_access_token_hash :: "string option"

definition default_dpop_options :: "int \<Rightarrow> dpop_options" where
  "default_dpop_options now = \<lparr>do_now = now, do_clock_skew_tolerance = 300, do_replay_ttl = 300, do_case_sensitive_method = True,
     do_expected_access_token_hash = None\<rparr>"

definition dpop_target_error :: "dpop_proof_claims \<Rightarrow> http_request_target \<Rightarrow> dpop_options \<Rightarrow> core_error option" where
  "dpop_target_error claims target options =
     (if dc_jwt_id claims = [] then Some (dpop_error ''DPoP proof jti is required'' [])
      else if rt_method target = [] then Some (dpop_error ''HTTP request method is required'' [])
      else if rt_url target = [] then Some (dpop_error ''HTTP request URL is required'' [])
      else if dc_method claims = [] then Some (dpop_error ''DPoP proof htm is required'' [])
      else if dc_url claims = [] then Some (dpop_error ''DPoP proof htu is required'' [])
      else if \<not> (if do_case_sensitive_method options then dc_method claims = rt_method target
                else uppercase_ascii (dc_method claims) = uppercase_ascii (rt_method target))
      then Some (dpop_error ''DPoP proof htm does not match request method'' (dc_method claims))
      else if dc_url claims \<noteq> rt_url target then Some (dpop_error ''DPoP proof htu does not match request URL'' (dc_url claims))
      else if dc_issued_at claims > do_now options + do_clock_skew_tolerance options * 1000000000
      then Some (dpop_error ''DPoP proof iat is too far in the future'' [])
      else if dc_issued_at claims + do_clock_skew_tolerance options * 1000000000 < do_now options
      then Some (dpop_error ''DPoP proof iat is too old'' [])
      else None)"

definition dpop_token_error :: "dpop_proof_claims \<Rightarrow> string option \<Rightarrow> dpop_options \<Rightarrow> core_error option" where
  "dpop_token_error claims access_token options =
     (if access_token = None then None
      else if dc_access_token_hash claims = None \<or> dc_access_token_hash claims = Some [] then Some (dpop_error ''DPoP proof ath is required'' [])
      else if do_expected_access_token_hash options = None \<or> do_expected_access_token_hash options = Some []
      then Some (dpop_error ''expected DPoP access-token hash is required'' [])
      else if dc_access_token_hash claims \<noteq> do_expected_access_token_hash options
      then Some (dpop_error ''DPoP proof ath does not match access token'' [])
      else None)"

text \<open>The cache is optional; the world of the check is the cache.\<close>

definition validate_dpop_proof_claims :: "dpop_proof_claims \<Rightarrow> http_request_target \<Rightarrow> string option \<Rightarrow> dpop_options \<Rightarrow>
    int alist option \<Rightarrow> unit result \<times> int alist option" where
  "validate_dpop_proof_claims claims target access_token options cache =
     (case dpop_target_error claims target options of
        Some e \<Rightarrow> (Inl e, cache)
      | None \<Rightarrow>
          (case dpop_token_error claims access_token options of
             Some e \<Rightarrow> (Inl e, cache)
           | None \<Rightarrow>
               (case cache of
                  None \<Rightarrow> (Inr (), None)
                | Some seen \<Rightarrow>
                    (case remember_once (dc_jwt_id claims) (do_now options + do_replay_ttl options * 1000000000) (do_now options) seen of
                       (Inl e, seen') \<Rightarrow> (Inl e, Some seen')
                     | (Inr remembered, seen') \<Rightarrow>
                         if \<not> remembered then (Inl (dpop_error ''DPoP proof replay detected'' []), Some seen')
                         else (Inr (), Some seen')))))"

section \<open>Headers of a request\<close>

record dpop_authorization_request =
  da_target :: http_request_target
  da_key :: dpop_key
  da_access_token :: string
  da_nonce :: "string option"
  da_authorization_scheme :: string

record dpop_authorization_headers =
  dh_headers :: "string alist"
  dh_proof :: string

definition build_dpop_proof_headers :: "(dpop_proof_request \<Rightarrow> string result) \<Rightarrow> dpop_proof_request \<Rightarrow> dpop_authorization_headers result" where
  "build_dpop_proof_headers sign request =
     (if rt_method (dp_target request) = [] then Inl (dpop_error ''HTTP request method is required'' [])
      else if rt_url (dp_target request) = [] then Inl (dpop_error ''HTTP request URL is required'' [])
      else rbind (sign request) (\<lambda>proof.
        if proof = [] then Inl (dpop_error ''DPoP signer returned an empty proof'' [])
        else Inr \<lparr>dh_headers = [(''DPoP'', proof)], dh_proof = proof\<rparr>))"

definition build_dpop_authorization_headers :: "(dpop_proof_request \<Rightarrow> string result) \<Rightarrow> dpop_authorization_request \<Rightarrow>
    dpop_authorization_headers result" where
  "build_dpop_authorization_headers sign request =
     (if da_access_token request = [] then Inl (dpop_error ''DPoP access token is required'' [])
      else if da_authorization_scheme request = [] then Inl (dpop_error ''DPoP authorization scheme is required'' [])
      else rbind (build_dpop_proof_headers sign \<lparr>dp_target = da_target request, dp_key = da_key request,
                    dp_access_token = Some (da_access_token request), dp_nonce = da_nonce request\<rparr>) (\<lambda>h.
        Inr (h\<lparr>dh_headers := (if map_of (dh_headers h) ''Authorization'' = None
               then al_set ''Authorization'' (da_authorization_scheme request @ '' '' @ da_access_token request) (dh_headers h)
               else dh_headers h)\<rparr>)))"

section \<open>The provider of a server\<close>

datatype JwtVerificationPurpose = AccessToken | IdToken | ClientAssertion | DpopProof

record jwt_verification_request =
  jr_jwt :: string
  jr_purpose :: JwtVerificationPurpose
  jr_issuer :: "string option"
  jr_audience :: "string option"
  jr_required_algorithm :: "string option"
  jr_required_claims :: "string alist"
  jr_now :: int

record verified_jwt_claims =
  vj_issuer :: string
  vj_subject :: string
  vj_audience :: string
  vj_issued_at :: "int option"
  vj_expires_at :: "int option"
  vj_claims :: "string alist"

definition server_header_value :: "string alist \<Rightarrow> string \<Rightarrow> string option" where
  "server_header_value headers name = map_option snd (find (\<lambda>h. ascii_iequals (fst h) name) headers)"

text \<open>The first blank, tab or line end separates scheme and token.\<close>

definition authorization_scheme_and_token :: "string \<Rightarrow> (string \<times> string) option" where
  "authorization_scheme_and_token authorization =
     (let a = trim_ascii authorization; blank = (\<lambda>c. c = CHR '' '' \<or> c = CHR 0x09 \<or> c = CHR 0x0D \<or> c = CHR 0x0A);
          scheme = takeWhile (\<lambda>c. \<not> blank c) a; rest = dropWhile (\<lambda>c. \<not> blank c) a in
      if rest = [] then None
      else let token = trim_ascii rest in
        if scheme = [] \<or> token = [] then None else Some (scheme, token))"

record dpop_provider =
  pv_issuer :: "string option"
  pv_audience :: "string option"
  pv_required_algorithm :: "string option"
  pv_required_claims :: "string alist"
  pv_dpop_claims :: dpop_options
  pv_require_dpop :: bool
  pv_jwt_verifier :: "jwt_verification_request \<Rightarrow> verified_jwt_claims result"
  pv_dpop_verifier :: "string \<Rightarrow> http_request_target \<Rightarrow> string option \<Rightarrow> dpop_proof_claims result"
  pv_access_token_hash :: "(string \<Rightarrow> string result) option"

definition verify_access_token :: "dpop_provider \<Rightarrow> int \<Rightarrow> string \<Rightarrow> verified_jwt_claims result" where
  "verify_access_token pv now access_token =
     pv_jwt_verifier pv \<lparr>jr_jwt = access_token, jr_purpose = AccessToken, jr_issuer = pv_issuer pv, jr_audience = pv_audience pv,
       jr_required_algorithm = pv_required_algorithm pv, jr_required_claims = pv_required_claims pv, jr_now = now\<rparr>"

definition verify_dpop_proof :: "dpop_provider \<Rightarrow> int \<Rightarrow> auth_request \<Rightarrow> string \<Rightarrow> int alist option \<Rightarrow> unit result \<times> int alist option" where
  "verify_dpop_proof pv now request access_token cache =
     (case (aq_http_method request, aq_http_url request) of
        (Some meth, Some url) \<Rightarrow>
          if meth = [] \<or> url = [] then (Inl (make_auth_error ''DPoP authentication requires HTTP method and URL'' []), cache)
          else (case server_header_value (aq_headers request) ''DPoP'' of
            None \<Rightarrow> (Inl (make_auth_error ''missing DPoP proof header'' []), cache)
          | Some proof \<Rightarrow>
              if proof = [] then (Inl (make_auth_error ''missing DPoP proof header'' []), cache)
              else (case pv_access_token_hash pv of
                None \<Rightarrow> (Inl (make_auth_error ''DPoP authentication requires an access-token hash function'' []), cache)
              | Some hash \<Rightarrow>
                  let target = \<lparr>rt_method = meth, rt_url = url\<rparr> in
                  (case pv_dpop_verifier pv proof target (Some access_token) of
                     Inl e \<Rightarrow> (Inl (make_auth_error ''DPoP proof verification failed'' (err_message e)), cache)
                   | Inr claims \<Rightarrow>
                       (case hash access_token of
                          Inl e \<Rightarrow> (Inl (make_auth_error ''DPoP access-token hash failed'' (err_message e)), cache)
                        | Inr expected \<Rightarrow>
                            (case validate_dpop_proof_claims claims target (Some access_token)
                                    ((pv_dpop_claims pv)\<lparr>do_now := now, do_expected_access_token_hash := Some expected\<rparr>) cache of
                               (Inl e, cache') \<Rightarrow> (Inl (make_auth_error ''DPoP proof claims are invalid'' (err_message e)), cache')
                             | (Inr _, cache') \<Rightarrow> (Inr (), cache'))))))
      | _ \<Rightarrow> (Inl (make_auth_error ''DPoP authentication requires HTTP method and URL'' []), cache))"

definition emplace :: "string \<Rightarrow> string \<Rightarrow> string alist \<Rightarrow> string alist" where
  "emplace k v m = (if map_of m k = None then al_set k v m else m)"

definition jwt_claims_to_identity :: "verified_jwt_claims \<Rightarrow> string alist" where
  "jwt_claims_to_identity claims =
     (let c1 = (if vj_issuer claims \<noteq> [] then emplace ''iss'' (vj_issuer claims) [] else []);
          c2 = (if vj_audience claims \<noteq> [] then emplace ''aud'' (vj_audience claims) c1 else c1)
      in fold (\<lambda>c. emplace (fst c) (snd c)) (vj_claims claims) c2)"

text \<open>\<open>authenticate\<close>; the clock is read for the token and again for the proof.\<close>

definition dpop_authenticate :: "dpop_provider \<Rightarrow> int \<Rightarrow> int \<Rightarrow> auth_request \<Rightarrow> int alist option \<Rightarrow> auth_identity result \<times> int alist option" where
  "dpop_authenticate pv now now' request cache =
     (case server_header_value (aq_headers request) ''Authorization'' of
        None \<Rightarrow> (Inl (make_auth_error ''missing authorization header'' []), cache)
      | Some authorization \<Rightarrow>
          (case authorization_scheme_and_token authorization of
             None \<Rightarrow> (Inl (make_auth_error ''invalid authorization header'' []), cache)
           | Some (scheme, access_token) \<Rightarrow>
               let dpop_scheme = ascii_iequals scheme ''DPoP'' in
               if \<not> dpop_scheme \<and> \<not> ascii_iequals scheme ''Bearer''
               then (Inl (make_auth_error ''unsupported authorization scheme'' []), cache)
               else (case verify_access_token pv now access_token of
                 Inl e \<Rightarrow> (Inl (make_auth_error ''access token verification failed'' (err_message e)), cache)
               | Inr jwt \<Rightarrow>
                   let has_dpop_header = (server_header_value (aq_headers request) ''DPoP'' \<noteq> None);
                       identity = \<lparr>ai_subject = vj_subject jwt, ai_claims = jwt_claims_to_identity jwt\<rparr> in
                   if pv_require_dpop pv \<or> dpop_scheme \<or> has_dpop_header
                   then (case verify_dpop_proof pv now' request access_token cache of
                           (Inl e, cache') \<Rightarrow> (Inl e, cache')
                         | (Inr _, cache') \<Rightarrow> (Inr identity, cache'))
                   else (Inr identity, cache))))"

section \<open>Replays\<close>

text \<open>What a replay cache promises (\<open>DpopReplayCache\<close>): a live identifier is refused, an accepted one is live until it
  expires, and no call forgets or shortens another live identifier.\<close>

locale replay_cache =
  fixes remember :: "string \<Rightarrow> int \<Rightarrow> int \<Rightarrow> 's \<Rightarrow> bool result \<times> 's"
    and live :: "'s \<Rightarrow> string \<Rightarrow> int \<Rightarrow> bool"
  assumes refuses: "live s jti now \<Longrightarrow> fst (remember jti e now s) \<noteq> Inr True"
    and remembers: "fst (remember jti e now s) = Inr True \<Longrightarrow> t < e \<Longrightarrow> now \<le> t \<Longrightarrow> live (snd (remember jti e now s)) jti t"
    and keeps: "live s jti t \<Longrightarrow> now \<le> t \<Longrightarrow> live (snd (remember jti' e now s)) jti t"
begin

text \<open>The calls, in the order of their times.\<close>

fun calls :: "(string \<times> int \<times> int) list \<Rightarrow> 's \<Rightarrow> 's" where
  "calls [] s = s"
| "calls ((jti, e, now) # cs) s = calls cs (snd (remember jti e now s))"

lemma live_kept: "live s jti t \<Longrightarrow> \<forall>c\<in>set cs. snd (snd c) \<le> t \<Longrightarrow> live (calls cs s) jti t"
  by (induction cs s rule: calls.induct) (auto intro: keeps)

lemma accepted_again:
  assumes "fst (remember jti e now s) = Inr True" "\<forall>c\<in>set cs. snd (snd c) \<le> now'" "now \<le> now'"
    "fst (remember jti e' now' (calls cs (snd (remember jti e now s)))) = Inr True"
  shows "e \<le> now'"
proof (rule ccontr)
  assume "\<not> e \<le> now'"
  then have "live (snd (remember jti e now s)) jti now'" using assms(1,3) by (intro remembers) simp_all
  from live_kept [OF this assms(2)] refuses assms(4) show False by blast
qed

end

definition cache_live :: "int alist \<Rightarrow> string \<Rightarrow> int \<Rightarrow> bool" where
  "cache_live seen jti t \<longleftrightarrow> (\<exists>e. map_of seen jti = Some e \<and> t < e)"

lemma map_of_filter_live: "map_of seen jti = Some e \<Longrightarrow> now < e \<Longrightarrow> map_of (filter (\<lambda>x. \<not> snd x \<le> now) seen) jti = Some (e :: int)"
  by (induction seen) (auto split: if_splits)

lemma remember_once_accepts: "fst (remember_once jti e now seen) = Inr True \<Longrightarrow> map_of (snd (remember_once jti e now seen)) jti = Some e"
  by (auto simp: remember_once_def Let_def split: if_splits option.splits)

lemma remember_once_refuses: "cache_live seen jti now \<Longrightarrow> fst (remember_once jti e now seen) \<noteq> Inr True"
proof -
  assume "cache_live seen jti now"
  then obtain x where x: "map_of seen jti = Some x" "now < x" by (auto simp: cache_live_def)
  then have "map_of (filter (\<lambda>x. \<not> snd x \<le> now) seen) jti = Some x" by (rule map_of_filter_live)
  then show ?thesis using x(2) by (auto simp: remember_once_def Let_def)
qed

lemma remember_once_keeps:
  assumes "cache_live seen jti t" "now \<le> t"
  shows "cache_live (snd (remember_once jti' e now seen)) jti t"
proof -
  obtain x where x: "map_of seen jti = Some x" "t < x" using assms(1) by (auto simp: cache_live_def)
  then have f: "map_of (filter (\<lambda>x. \<not> snd x \<le> now) seen) jti = Some x" using assms(2) by (intro map_of_filter_live) simp_all
  show ?thesis
  proof (cases "jti' = jti")
    case True
    then show ?thesis using f x assms by (auto simp: remember_once_def cache_live_def Let_def)
  next
    case False
    then show ?thesis using f x by (auto simp: remember_once_def cache_live_def Let_def split: option.split)
  qed
qed

interpretation dpop_cache: replay_cache remember_once cache_live
proof
  fix s jti now e t jti'
  show "cache_live s jti now \<Longrightarrow> fst (remember_once jti e now s) \<noteq> Inr True"
    by (rule remember_once_refuses)
  show "fst (remember_once jti e now s) = Inr True \<Longrightarrow> t < e \<Longrightarrow> now \<le> t \<Longrightarrow> cache_live (snd (remember_once jti e now s)) jti t"
    using remember_once_accepts [of jti e now s] by (auto simp: cache_live_def)
  show "cache_live s jti t \<Longrightarrow> now \<le> t \<Longrightarrow> cache_live (snd (remember_once jti' e now s)) jti t"
    by (rule remember_once_keeps)
qed

text \<open>A check in between: its proof, target, token and options; it may be refused.\<close>

type_synonym dpop_check = "dpop_proof_claims \<times> http_request_target \<times> string option \<times> dpop_options"

definition run_check :: "dpop_check \<Rightarrow> int alist option \<Rightarrow> int alist option" where
  "run_check c cache = (case c of (claims, target, token, options) \<Rightarrow> snd (validate_dpop_proof_claims claims target token options cache))"

definition check_time :: "dpop_check \<Rightarrow> int" where
  "check_time c = do_now (snd (snd (snd c)))"

lemma run_check_cases:
  "run_check c (Some seen) = Some seen \<or>
   (\<exists>e. run_check c (Some seen) = Some (snd (remember_once (dc_jwt_id (fst c)) e (check_time c) seen)))"
  by (auto simp: run_check_def validate_dpop_proof_claims_def check_time_def split: prod.splits option.splits sum.splits if_splits)
    (metis snd_conv)+

lemma run_checks_calls:
  "\<exists>cs. fold run_check mids (Some seen) = Some (dpop_cache.calls cs seen) \<and> (\<forall>c\<in>set cs. snd (snd c) \<in> check_time ` set mids)"
proof (induction mids arbitrary: seen)
  case Nil
  show ?case by (intro exI [of _ "[]"]) simp
next
  case (Cons c mids)
  show ?case
  proof (cases "run_check c (Some seen) = Some seen")
    case True
    then show ?thesis using Cons.IH [of seen] by fastforce
  next
    case False
    then obtain e where e: "run_check c (Some seen) = Some (snd (remember_once (dc_jwt_id (fst c)) e (check_time c) seen))"
      using run_check_cases by blast
    obtain cs where "fold run_check mids (run_check c (Some seen)) = Some (dpop_cache.calls cs (snd (remember_once (dc_jwt_id (fst c)) e (check_time c) seen)))"
      "\<forall>c\<in>set cs. snd (snd c) \<in> check_time ` set mids"
      using Cons.IH e by metis
    then show ?thesis by (intro exI [of _ "(dc_jwt_id (fst c), e, check_time c) # cs"]) auto
  qed
qed

lemma accepted_check:
  assumes "validate_dpop_proof_claims claims target token options (Some seen) = (Inr (), cache')"
  shows "fst (remember_once (dc_jwt_id claims) (do_now options + do_replay_ttl options * 1000000000) (do_now options) seen) = Inr True"
    "cache' = Some (snd (remember_once (dc_jwt_id claims) (do_now options + do_replay_ttl options * 1000000000) (do_now options) seen))"
    "dc_issued_at claims \<le> do_now options + do_clock_skew_tolerance options * 1000000000"
    "do_now options \<le> dc_issued_at claims + do_clock_skew_tolerance options * 1000000000"
  using assms by (auto simp: validate_dpop_proof_claims_def dpop_target_error_def split: option.splits prod.splits sum.splits if_splits)

text \<open>C40: when a proof can be accepted twice. With the in-memory replay cache, if two checks under the same options accept
  proofs with the same identifier and issue time, whatever was checked in between in the order of time, then the
  second comes at least the replay time-to-live after the first and at most twice the clock tolerance after it. A
  proof is accepted only once if the time-to-live exceeds twice the tolerance; the default options keep it for
  only as long as the tolerance, and a second acceptance is possible.\<close>

theorem dpop_replay_window:
  "validate_dpop_proof_claims claims target token (options\<lparr>do_now := t\<rparr>) (Some seen) = (Inr (), cache1) \<Longrightarrow>
   \<forall>c\<in>set mids. t \<le> check_time c \<and> check_time c \<le> t' \<Longrightarrow> t \<le> t' \<Longrightarrow>
   validate_dpop_proof_claims claims' target' token' (options\<lparr>do_now := t', do_expected_access_token_hash := h\<rparr>) (fold run_check mids cache1) = (Inr (), cache2) \<Longrightarrow>
   dc_jwt_id claims' = dc_jwt_id claims \<Longrightarrow> dc_issued_at claims' = dc_issued_at claims \<Longrightarrow>
   do_replay_ttl options * 1000000000 \<le> t' - t \<and> t' - t \<le> 2 * do_clock_skew_tolerance options * 1000000000"
proof -
  assume a1: "validate_dpop_proof_claims claims target token (options\<lparr>do_now := t\<rparr>) (Some seen) = (Inr (), cache1)"
    and mids: "\<forall>c\<in>set mids. t \<le> check_time c \<and> check_time c \<le> t'" "t \<le> t'"
    and a2: "validate_dpop_proof_claims claims' target' token' (options\<lparr>do_now := t', do_expected_access_token_hash := h\<rparr>) (fold run_check mids cache1) = (Inr (), cache2)"
    and same: "dc_jwt_id claims' = dc_jwt_id claims" "dc_issued_at claims' = dc_issued_at claims"
  let ?e = "t + do_replay_ttl options * 1000000000"
  note first = accepted_check [OF a1, simplified]
  define seen1 where "seen1 = snd (remember_once (dc_jwt_id claims) ?e t seen)"
  obtain cs where cs: "fold run_check mids (Some seen1) = Some (dpop_cache.calls cs seen1)" "\<forall>c\<in>set cs. snd (snd c) \<in> check_time ` set mids"
    using run_checks_calls by blast
  have cache1: "cache1 = Some seen1" using first(2) by (simp add: seen1_def)
  note second = accepted_check [OF a2 [unfolded cache1 cs(1)], simplified, unfolded same]
  have "\<forall>c\<in>set cs. snd (snd c) \<le> t'" using cs(2) mids(1) by fastforce
  then have "?e \<le> t'" using dpop_cache.accepted_again [OF first(1) _ mids(2)] second(1) by (simp add: seen1_def)
  then show ?thesis using first(3) second(4) by simp
qed

definition sample_proof :: dpop_proof_claims where
  "sample_proof = \<lparr>dc_jwt_id = ''j'', dc_method = ''POST'', dc_url = ''u'', dc_issued_at = 0, dc_access_token_hash = None,
     dc_nonce = None, dc_claims = []\<rparr>"

theorem dpop_replay_window_witness:
  "validate_dpop_proof_claims sample_proof \<lparr>rt_method = ''POST'', rt_url = ''u''\<rparr> None (default_dpop_options 0) (Some []) = (Inr (), Some [(''j'', 300000000000)]) \<and>
   validate_dpop_proof_claims sample_proof \<lparr>rt_method = ''POST'', rt_url = ''u''\<rparr> None (default_dpop_options 300000000000) (Some [(''j'', 300000000000)])
     = (Inr (), Some [(''j'', 600000000000)]) \<and>
   do_replay_ttl (default_dpop_options 0) * 1000000000 \<le> (300000000000 :: int) - 0"
proof -
  have a: "validate_dpop_proof_claims sample_proof \<lparr>rt_method = ''POST'', rt_url = ''u''\<rparr> None ((default_dpop_options 0)\<lparr>do_now := 0\<rparr>) (Some [])
      = (Inr (), Some [(''j'', 300000000000)])" by code_simp
  have b: "validate_dpop_proof_claims sample_proof \<lparr>rt_method = ''POST'', rt_url = ''u''\<rparr> None
      ((default_dpop_options 0)\<lparr>do_now := 300000000000, do_expected_access_token_hash := None\<rparr>) (fold run_check [] (Some [(''j'', 300000000000)]))
      = (Inr (), Some [(''j'', 600000000000)])" by code_simp
  have "do_replay_ttl (default_dpop_options 0) * 1000000000 \<le> (300000000000 :: int) - 0"
    using dpop_replay_window [OF a _ _ b refl refl] by simp
  then show ?thesis using a b by (simp add: default_dpop_options_def)
qed

section \<open>What authentication establishes\<close>

lemma verify_dpop_proof_ok:
  assumes "verify_dpop_proof pv now request access_token cache = (Inr (), cache')"
  shows "\<exists>meth url proof hash claims expected. aq_http_method request = Some meth \<and> aq_http_url request = Some url \<and>
     server_header_value (aq_headers request) ''DPoP'' = Some proof \<and> pv_access_token_hash pv = Some hash \<and>
     pv_dpop_verifier pv proof \<lparr>rt_method = meth, rt_url = url\<rparr> (Some access_token) = Inr claims \<and> hash access_token = Inr expected \<and>
     validate_dpop_proof_claims claims \<lparr>rt_method = meth, rt_url = url\<rparr> (Some access_token)
       ((pv_dpop_claims pv)\<lparr>do_now := now, do_expected_access_token_hash := Some expected\<rparr>) cache = (Inr (), cache')"
  using assms by (auto simp: verify_dpop_proof_def Let_def split: option.splits sum.splits prod.splits if_splits)

lemma validated_claims:
  assumes "validate_dpop_proof_claims claims target (Some token) options cache = (Inr (), cache')"
  shows "dc_url claims = rt_url target" "do_case_sensitive_method options \<Longrightarrow> dc_method claims = rt_method target"
    "dc_access_token_hash claims = do_expected_access_token_hash options" "dc_jwt_id claims \<noteq> []"
    "\<bar>dc_issued_at claims - do_now options\<bar> \<le> do_clock_skew_tolerance options * 1000000000"
    "\<not> (\<exists>seen. cache = Some seen \<and> cache_live seen (dc_jwt_id claims) (do_now options))"
  using assms remember_once_refuses
  by (auto simp: validate_dpop_proof_claims_def dpop_target_error_def dpop_token_error_def split: option.splits prod.splits sum.splits if_splits)
    (metis fst_conv)+

text \<open>C39: what a successful authentication establishes. The identity's subject is that of a token which the token verifier
  accepted, for the configured issuer and audience. Whenever proofs are required, the scheme is \<open>DPoP\<close> or a
  \<open>DPoP\<close> header is there, the proof verifier accepted that header's proof for the method, the URL and the token of this
  request, and the claims it returned name this URL and the hash of this token, carry an identifier that the replay
  cache does not hold as live, and an issue time within the tolerance of the clock. Without proof
  the replay cache is not touched.\<close>

theorem dpop_authenticated:
  "dpop_authenticate pv now now' request cache = (Inr identity, cache') \<Longrightarrow>
   \<exists>authorization scheme token jwt. server_header_value (aq_headers request) ''Authorization'' = Some authorization \<and>
     authorization_scheme_and_token authorization = Some (scheme, token) \<and>
     pv_jwt_verifier pv \<lparr>jr_jwt = token, jr_purpose = AccessToken, jr_issuer = pv_issuer pv, jr_audience = pv_audience pv,
       jr_required_algorithm = pv_required_algorithm pv, jr_required_claims = pv_required_claims pv, jr_now = now\<rparr> = Inr jwt \<and>
     ai_subject identity = vj_subject jwt \<and>
     (if pv_require_dpop pv \<or> ascii_iequals scheme ''DPoP'' \<or> server_header_value (aq_headers request) ''DPoP'' \<noteq> None
      then \<exists>meth url proof hash claims. aq_http_method request = Some meth \<and> aq_http_url request = Some url \<and>
        server_header_value (aq_headers request) ''DPoP'' = Some proof \<and> pv_access_token_hash pv = Some hash \<and>
        pv_dpop_verifier pv proof \<lparr>rt_method = meth, rt_url = url\<rparr> (Some token) = Inr claims \<and>
        dc_url claims = url \<and> map_option Inr (dc_access_token_hash claims) = Some (hash token) \<and>
        \<bar>dc_issued_at claims - now'\<bar> \<le> do_clock_skew_tolerance (pv_dpop_claims pv) * 1000000000 \<and>
        \<not> (\<exists>seen. cache = Some seen \<and> cache_live seen (dc_jwt_id claims) now')
      else ascii_iequals scheme ''Bearer'' \<and> cache' = cache)"
proof -
  assume run: "dpop_authenticate pv now now' request cache = (Inr identity, cache')"
  then obtain authorization scheme token where h: "server_header_value (aq_headers request) ''Authorization'' = Some authorization"
    "authorization_scheme_and_token authorization = Some (scheme, token)"
    by (auto simp: dpop_authenticate_def split: option.splits)
  let ?needs = "pv_require_dpop pv \<or> ascii_iequals scheme ''DPoP'' \<or> server_header_value (aq_headers request) ''DPoP'' \<noteq> None"
  obtain jwt where jwt: "verify_access_token pv now token = Inr jwt" "ai_subject identity = vj_subject jwt"
    and checked: "if ?needs then verify_dpop_proof pv now' request token cache = (Inr (), cache') else ascii_iequals scheme ''Bearer'' \<and> cache' = cache"
    using run h by (auto simp: dpop_authenticate_def Let_def split: sum.splits prod.splits if_splits)
  have "\<exists>meth url proof hash claims. aq_http_method request = Some meth \<and> aq_http_url request = Some url \<and>
        server_header_value (aq_headers request) ''DPoP'' = Some proof \<and> pv_access_token_hash pv = Some hash \<and>
        pv_dpop_verifier pv proof \<lparr>rt_method = meth, rt_url = url\<rparr> (Some token) = Inr claims \<and>
        dc_url claims = url \<and> map_option Inr (dc_access_token_hash claims) = Some (hash token) \<and>
        \<bar>dc_issued_at claims - now'\<bar> \<le> do_clock_skew_tolerance (pv_dpop_claims pv) * 1000000000 \<and>
        \<not> (\<exists>seen. cache = Some seen \<and> cache_live seen (dc_jwt_id claims) now')" if ?needs
  proof -
    have "verify_dpop_proof pv now' request token cache = (Inr (), cache')" using checked that by simp
    from verify_dpop_proof_ok [OF this] obtain meth url pr hash claims expected where
      ok: "aq_http_method request = Some meth" "aq_http_url request = Some url" "server_header_value (aq_headers request) ''DPoP'' = Some pr"
      "pv_access_token_hash pv = Some hash" "pv_dpop_verifier pv pr \<lparr>rt_method = meth, rt_url = url\<rparr> (Some token) = Inr claims"
      "hash token = Inr expected"
      and valid: "validate_dpop_proof_claims claims \<lparr>rt_method = meth, rt_url = url\<rparr> (Some token)
        ((pv_dpop_claims pv)\<lparr>do_now := now', do_expected_access_token_hash := Some expected\<rparr>) cache = (Inr (), cache')" by blast
    show ?thesis using ok validated_claims(1,3,5,6) [OF valid] by simp
  qed
  then show ?thesis using h jwt checked by (auto simp: verify_access_token_def)
qed

definition sample_provider :: dpop_provider where
  "sample_provider = \<lparr>pv_issuer = None, pv_audience = None, pv_required_algorithm = None, pv_required_claims = [],
     pv_dpop_claims = default_dpop_options 0, pv_require_dpop = True,
     pv_jwt_verifier = (\<lambda>r. if jr_jwt r = ''t'' then Inr \<lparr>vj_issuer = ''i'', vj_subject = ''alice'', vj_audience = [],
       vj_issued_at = None, vj_expires_at = None, vj_claims = []\<rparr> else Inl (dpop_error ''bad token'' [])),
     pv_dpop_verifier = (\<lambda>p tg tok. if p = ''p'' then Inr (sample_proof\<lparr>dc_access_token_hash := Some ''#t''\<rparr>) else Inl (dpop_error ''bad proof'' [])),
     pv_access_token_hash = Some (\<lambda>s. Inr (''#'' @ s))\<rparr>"

definition sample_dpop_request :: auth_request where
  "sample_dpop_request = \<lparr>aq_headers = [(''authorization'', ''DPoP t''), (''dpop'', ''p'')], aq_remote_address = [], aq_http_method = Some ''POST'',
     aq_http_url = Some ''u''\<rparr>"

theorem dpop_authenticated_witness:
  "dpop_authenticate sample_provider 7 7 sample_dpop_request (Some [])
     = (Inr \<lparr>ai_subject = ''alice'', ai_claims = [(''iss'', ''i'')]\<rparr>, Some [(''j'', 300000000007)]) \<and>
   (\<exists>claims. pv_dpop_verifier sample_provider ''p'' \<lparr>rt_method = ''POST'', rt_url = ''u''\<rparr> (Some ''t'') = Inr claims \<and> dc_url claims = ''u'')"
proof -
  have run: "dpop_authenticate sample_provider 7 7 sample_dpop_request (Some [])
     = (Inr \<lparr>ai_subject = ''alice'', ai_claims = [(''iss'', ''i'')]\<rparr>, Some [(''j'', 300000000007)])" by code_simp
  have ev: "server_header_value (aq_headers sample_dpop_request) ''Authorization'' = Some ''DPoP t''"
    "authorization_scheme_and_token ''DPoP t'' = Some (''DPoP'', ''t'')" "aq_http_method sample_dpop_request = Some ''POST''"
    "aq_http_url sample_dpop_request = Some ''u''" "server_header_value (aq_headers sample_dpop_request) ''DPoP'' = Some ''p''"
    "pv_require_dpop sample_provider" by code_simp+
  show ?thesis using dpop_authenticated [OF run] run by (simp add: ev) blast
qed

end
