(* ===== verification/Spec2Isabelle.thy ===== *)
theory Spec2Isabelle
  imports Json_Text Cancel_Tokens Executor Task_Manager Tool_Headers Content_Protocol Server_Handler
    Websocket_Server Websocket_Client Stdio_Transport Client_Correct Client_Handlers Client_Async Auth_Endpoints Auth_Dpop
begin

text \<open>
  Verification development for cxxmcp, a C++17 SDK for the Model Context Protocol (sources under
  src/sdk).

  \<^bold>\<open>The program.\<close> A transport hands JSON text to the protocol layer, which checks the document
  limits and turns it into a JSON-RPC message (protocol/src/serialization.cpp). The server
  (server/src/server.cpp) authenticates the session, asks the rate limiter, registers a
  cancellation source for the request and dispatches on the method: to the registries
  (server/src/registry.cpp), to the task processor (server/src/task_manager.cpp), which runs tool
  calls on the executor (core/executor.hpp), or to handlers of the application. Params and results
  are C++ structs read and written by the headers of protocol/include, partly through a reflection
  layer (reflect.hpp).

  \<^bold>\<open>The theories.\<close>
  \<^item> Prelude: results and errors, decimal text, association lists sorted by key. Json, Json_Text and
    Doubles: the values of nlohmann::json (object members sorted by key, 64-bit integers, doubles as
    bit patterns), a text codec, and the rounding of integers to doubles. The text codec is a
    parameter of the serialisation model; Json_Text gives an instance, so the laws assumed of it hold.
  \<^item> Protocol_Types, Serialization: types.hpp and serialization.cpp. The limit check is equivalent to
    a recursive specification; messages round-trip; the codes of all parse failures.
  \<^item> Reflect, Types_Reflect, Dto_Parse: reflect.hpp and types_reflect.hpp, with one round-trip lemma
    for every descriptor list whose fields can be read back.
  \<^item> Task_Protocol, Resource_Protocol, Tool_Protocol, Prompt_Protocol, Session_Protocol,
    Capabilities, Initialize: the headers of the same names (Session_Protocol: logging.hpp,
    roots.hpp). Readers and writers of every payload, round trips, which documents are accepted, and
    what is lost. Tool_Headers: the x-mcp-header section of tool.hpp with base64. Content_Protocol: the
    readers of annotations, content blocks, tool results and prompt results; Floats: the conversion
    between doubles and single-precision numbers they need.
  \<^item> Completion_Protocol, Sampling_Protocol, Elicitation: the requests a server sends to a client and
    \<open>completion/complete\<close>, both directions. The check that tool uses and tool results are balanced and
    the validation of elicited content are equivalent to declarative specifications over the numbers the
    integers denote, with what happens beyond the range of the code's integers.
  \<^item> Cancel_Tokens: cancellation.hpp as critical sections interleaved by an inductive step relation;
    every callback runs exactly once. Executor: executor.hpp likewise; accounting, order, shutdown.
  \<^item> Registry: registry.cpp and context.hpp over one locale for the common cache of sorted listings and
    one for histories of registrations and listings; what is listed and found after any history, and
    which calls reach a handler. Handlers and schema validators may throw (\<open>attempt\<close>).
  \<^item> Task_Manager: task_manager.cpp over the executor and the registry. A submission is the sequence of
    its critical sections (insert the record, look up the token, enqueue, roll back), which other threads may
    interleave with; a reachability invariant,
    finality of terminal tasks, retention, pagination, timeouts.
  \<^item> Server_Auth, Server: server/auth.hpp, rate_limit.hpp, server.cpp. Server_Correct and
    Server_Sessions: every request is answered and cleaned up, whatever handlers, auth provider and rate
    limiter throw, the order of the gates, cancellation by
    request id, subscriptions as a refinement of a map from transports to sets. Server_Handler:
    server/handler.hpp, the aggregate of optional callbacks, and what installing it changes.
  \<^item> Websocket_Server, Websocket_Client, Stdio_Transport: the transports over sockets and over
    standard streams. The sections under their mutexes are operations, the network and the streams are
    inputs; routing of responses, counting of connections, reconnection, the order of initialisation,
    the accounting of worker threads, and how each of them ends.
  \<^item> Client, Client_Handlers, Client_Async: client.cpp with the headers of the client, request.hpp and
    async_result.hpp. A transport is a state of its own with the operations of the abstract class; a
    request is a step on the client. Client_Correct: how often a request is sent, what a handshake
    establishes, when the listings of all pages end, and a client that lists the tasks of a server of
    this library. Client_Handlers: every request from the server is answered, whatever other threads do while
    a handler runs and after it; answers to forms are validated by the capabilities of that moment. Client_Async: when a client can be destroyed, and how a request handle ends.
  \<^item> Www_Auth, Auth_Urls, Auth_Stores, Auth_Lifecycle, Auth_Manager, Auth_Flow: the authorization of a
    client (auth/www_auth.hpp, lifecycle.hpp, registration.hpp, token.hpp). A locale states what a keyed
    store promises and is interpreted for the three in-memory stores; the endpoints of the application
    act on a world of their own. Challenges are read back; discovery stays on its origin; a state is
    redeemed once; upgrades are bounded; tokens handed out are fresh.
  \<^item> Auth_Orchestrator: client_orchestrator.hpp, the flow from discovery to tokens; what a run stores, and
    how few states its generator can produce. Auth_Endpoints: the HTTP endpoints for metadata, tokens and
    key sets (http_metadata_endpoint.hpp, http_token_endpoint.hpp, jwks.hpp, http_jwks_endpoint.hpp); what is
    posted, and from when an expiry is counted. Auth_Dpop: dpop.hpp and server_auth_provider.hpp; a locale
    states what a replay cache promises, and the window in which a proof can be used again follows from it.

  \<^bold>\<open>Conventions.\<close> A \<open>core::Result\<close> is a sum with the error on the left, an optional an option, an
  exception or undefined behaviour a constructor of an outcome type. Strings are byte lists. A
  machine integer is a word, and signed overflow and narrowing conversions are written out. Locks are
  not modelled as such: the code between lock and unlock is one step, and interleavings of steps are
  step relations. Loops are structural recursion or have a termination measure; a loop of the client that
  nothing bounds is a partial function with the value \<open>None\<close> when it does not end. Fuel occurs only in
  the JSON text reader (one more than the length of the text, which its round-trip lemma shows to be
  enough) and in following the cursors of a task listing (the number of tasks suffices, as
  the completeness property shows).
  Times are unbounded integers in nanoseconds and so are the durations an application configures (skews, the
  time-to-live of authorization states); durations that arrive over the wire (the ttl of a task, the lifetime of a token) are
  computed in the 64 bits of the code.
  Auth providers, rate limiters, transports, JSON schema validators, handlers, clocks and the text
  of timestamps are parameters.

  \<^bold>\<open>Not modelled.\<close> Child processes, HTTP and event streams (the remaining transports of server and
  client), the calls of OpenSSL under auth/openssl (verifiers, signers and hash functions are parameters), C++
  templates that adapt functions to handlers (authoring.hpp, router.hpp, schema.hpp), and the symmetric peer.
\<close>

lemma supported_versions_negotiate:
  "negotiate_protocol_version v = (if is_supported_protocol_version v then Some v else None)"
  by (rule negotiate_protocol_version_iff)

end
